(* ===== verification/Prelude.thy ===== *)
theory Prelude
  imports Main "HOL-Library.Sublist"
begin

text \<open>
  Shared vocabulary of the development: the Rust string and integer operations the sources use,
  the lemma collections the component theories extend, and generic facts on lists and maps.

  A Rust \<open>String\<close> is a HOL \<open>string\<close>, read as its sequence of characters.  Case mapping and
  white space are those of the ASCII range; the components that compare text do so against ASCII
  constants (prefixes, folder types, header keywords).
  A \<open>u32\<close> is a \<open>nat\<close> with its range and its wrap-around or saturation written out; an
  \<open>i64\<close> column of the database is an \<open>int\<close>.
\<close>

named_theorems store_simps \<open>how the SQL primitives act on the tables\<close>
named_theorems inv_intros \<open>preservation of the store invariants\<close>

section \<open>Machine integers\<close>

definition u32_max :: nat where
  "u32_max = 4294967295"

definition saturating_add_u32 :: "nat \<Rightarrow> nat \<Rightarrow> nat" where
  "saturating_add_u32 a b = min (a + b) u32_max"

definition wrapping_add_u32 :: "nat \<Rightarrow> nat \<Rightarrow> nat" where
  "wrapping_add_u32 a b = (a + b) mod (u32_max + 1)"

definition checked_add_u32 :: "nat \<Rightarrow> nat \<Rightarrow> nat option" where
  "checked_add_u32 a b = (if a + b \<le> u32_max then Some (a + b) else None)"

text \<open>\<open>x.clamp(0, u32::MAX as i64) as u32\<close>, and the truncating cast \<open>x as u32\<close>.\<close>

definition clamp_u32 :: "int \<Rightarrow> nat" where
  "clamp_u32 x = nat (min (max x 0) (int u32_max))"

definition cast_u32 :: "int \<Rightarrow> nat" where
  "cast_u32 x = nat (x mod (int u32_max + 1))"

lemma clamp_u32_le: "clamp_u32 x \<le> u32_max"
  by (simp add: clamp_u32_def)

lemma clamp_u32_id [simp]: "n \<le> u32_max \<Longrightarrow> clamp_u32 (int n) = n"
  by (simp add: clamp_u32_def)

lemma cast_u32_id [simp]: "n \<le> u32_max \<Longrightarrow> cast_u32 (int n) = n"
  by (simp add: cast_u32_def)

lemma checked_add_u32_Some_iff:
  "checked_add_u32 a b = Some c \<longleftrightarrow> c = a + b \<and> a + b \<le> u32_max"
  by (auto simp: checked_add_u32_def)

section \<open>Strings\<close>

definition is_ws :: "char \<Rightarrow> bool" where
  "is_ws c = (c \<in> set [CHR 0x20, CHR 0x09, CHR 0x0A, CHR 0x0B, CHR 0x0C, CHR 0x0D])"

definition trim_start_by :: "(char \<Rightarrow> bool) \<Rightarrow> string \<Rightarrow> string" where
  "trim_start_by p s = dropWhile p s"

definition trim_end_by :: "(char \<Rightarrow> bool) \<Rightarrow> string \<Rightarrow> string" where
  "trim_end_by p s = rev (dropWhile p (rev s))"

text \<open>\<open>str::trim_matches\<close>; \<open>str::trim\<close> is its instance for white space.\<close>

definition trim_by :: "(char \<Rightarrow> bool) \<Rightarrow> string \<Rightarrow> string" where
  "trim_by p s = trim_end_by p (trim_start_by p s)"

definition trim :: "string \<Rightarrow> string" where
  "trim s = trim_by is_ws s"

definition ascii_lower :: "char \<Rightarrow> char" where
  "ascii_lower c = (let n = (of_char c :: nat) in if 65 \<le> n \<and> n \<le> 90 then char_of (n + 32) else c)"

definition to_lower :: "string \<Rightarrow> string" where
  "to_lower s = map ascii_lower s"

definition starts_with :: "string \<Rightarrow> string \<Rightarrow> bool" where
  "starts_with p s = (take (length p) s = p)"

definition ends_with :: "string \<Rightarrow> string \<Rightarrow> bool" where
  "ends_with p s = starts_with (rev p) (rev s)"

fun contains_str :: "string \<Rightarrow> string \<Rightarrow> bool" where
  "contains_str p [] = (p = [])"
| "contains_str p (c # s) = (starts_with p (c # s) \<or> contains_str p s)"

text \<open>\<open>str::split(char)\<close>: never empty, one more field than separators.\<close>

fun split_on :: "char \<Rightarrow> string \<Rightarrow> string list" where
  "split_on d [] = [[]]"
| "split_on d (c # s) =
     (if c = d then [] # split_on d s
      else (case split_on d s of [] \<Rightarrow> [[c]] | w # ws \<Rightarrow> (c # w) # ws))"

text \<open>\<open>str::split\<close> by a character class, and \<open>split_whitespace\<close>, which drops empty fields.\<close>

fun split_by :: "(char \<Rightarrow> bool) \<Rightarrow> string \<Rightarrow> string list" where
  "split_by p [] = [[]]"
| "split_by p (c # s) =
     (if p c then [] # split_by p s
      else (case split_by p s of [] \<Rightarrow> [[c]] | w # ws \<Rightarrow> (c # w) # ws))"

definition split_whitespace :: "string \<Rightarrow> string list" where
  "split_whitespace s = filter (\<lambda>w. w \<noteq> []) (split_by is_ws s)"

fun join_with :: "string \<Rightarrow> string list \<Rightarrow> string" where
  "join_with d [] = []"
| "join_with d [w] = w"
| "join_with d (w # v # ws) = w @ d @ join_with d (v # ws)"

text \<open>\<open>str::rsplit_once(char)\<close> and \<open>str::split_once(char)\<close>.\<close>

fun split_once :: "char \<Rightarrow> string \<Rightarrow> (string \<times> string) option" where
  "split_once d [] = None"
| "split_once d (c # s) =
     (if c = d then Some ([], s)
      else map_option (\<lambda>(a, b). (c # a, b)) (split_once d s))"

definition rsplit_once :: "char \<Rightarrow> string \<Rightarrow> (string \<times> string) option" where
  "rsplit_once d s = map_option (\<lambda>(a, b). (rev b, rev a)) (split_once d (rev s))"

lemma dropWhile_hd_not: "dropWhile p s \<noteq> [] \<Longrightarrow> \<not> p (hd (dropWhile p s))"
  by (rule hd_dropWhile)

lemma length_trim_start_by: "length (trim_start_by p s) \<le> length s"
  by (simp add: trim_start_by_def length_dropWhile_le)

lemma length_trim_end_by: "length (trim_end_by p s) \<le> length s"
  using length_dropWhile_le [of p "rev s"] by (simp add: trim_end_by_def)

lemma length_trim: "length (trim s) \<le> length s"
  unfolding trim_def trim_by_def
  using length_trim_end_by length_trim_start_by order_trans by blast

lemma trim_end_by_prefix: "\<exists>t. s = trim_end_by p s @ t"
  unfolding trim_end_by_def
  by (metis rev_append rev_rev_ident takeWhile_dropWhile_id)

lemma trim_by_ends:
  assumes "trim_by p s \<noteq> []"
  shows "\<not> p (hd (trim_by p s))" and "\<not> p (last (trim_by p s))"
proof -
  let ?u = "trim_start_by p s"
  obtain t where t: "?u = trim_by p s @ t"
    using trim_end_by_prefix [of ?u p] by (auto simp: trim_by_def)
  then have "hd ?u = hd (trim_by p s)" and "?u \<noteq> []"
    using assms by (metis hd_append2, metis append_is_Nil_conv)
  then show "\<not> p (hd (trim_by p s))"
    using dropWhile_hd_not [of p s] by (simp add: trim_start_by_def)
  have ne: "dropWhile p (rev ?u) \<noteq> []"
    using assms by (simp add: trim_by_def trim_end_by_def)
  then have "last (trim_by p s) = hd (dropWhile p (rev ?u))"
    by (simp add: trim_by_def trim_end_by_def last_rev)
  then show "\<not> p (last (trim_by p s))"
    using dropWhile_hd_not [OF ne] by simp
qed

lemma trim_by_fixpoint:
  assumes "s = [] \<or> (\<not> p (hd s) \<and> \<not> p (last s))"
  shows "trim_by p s = s"
proof (cases "s = []")
  case True
  then show ?thesis by (simp add: trim_by_def trim_start_by_def trim_end_by_def)
next
  case False
  with assms have "\<not> p (hd s)" "\<not> p (last s)" by auto
  with False have "dropWhile p s = s" "dropWhile p (rev s) = rev s"
    by (auto simp: dropWhile_eq_self_iff hd_rev)
  then show ?thesis by (simp add: trim_by_def trim_start_by_def trim_end_by_def)
qed

lemma trim_by_idem [simp]: "trim_by p (trim_by p s) = trim_by p s"
  using trim_by_ends [of p s] trim_by_fixpoint by metis

lemma trim_idem [simp]: "trim (trim s) = trim s"
  by (simp add: trim_def)

lemma split_on_nonempty [simp]: "split_on d s \<noteq> []"
  by (induction s) (auto split: list.splits)

lemma join_with_Cons: "ws \<noteq> [] \<Longrightarrow> join_with d (w # ws) = w @ d @ join_with d ws"
  by (cases ws) simp_all

lemma join_with_hd_Cons: "join_with d ((c # w) # ws) = c # join_with d (w # ws)"
  by (cases ws) simp_all

lemma join_split_on: "join_with [d] (split_on d s) = s"
proof (induction s)
  case (Cons c s)
  then show ?case
    by (cases "split_on d s") (simp_all add: join_with_Cons join_with_hd_Cons)
qed simp

lemma split_on_no_sep: "w \<in> set (split_on d s) \<Longrightarrow> d \<notin> set w"
proof (induction s arbitrary: w)
  case (Cons c s)
  then show ?case
    by (cases "split_on d s") (auto split: if_splits)
qed simp

lemma split_on_free: "d \<notin> set w \<Longrightarrow> split_on d w = [w]"
  by (induction w) auto

lemma split_on_append: "d \<notin> set w \<Longrightarrow> split_on d (w @ d # s) = w # split_on d s"
  by (induction w) auto

lemma split_on_join:
  "ws \<noteq> [] \<Longrightarrow> \<forall>w \<in> set ws. d \<notin> set w \<Longrightarrow> split_on d (join_with [d] ws) = ws"
proof (induction ws)
  case (Cons w ws)
  then show ?case
    by (cases ws) (simp_all add: split_on_free split_on_append)
qed simp

lemma starts_with_iff: "starts_with p s \<longleftrightarrow> (\<exists>t. s = p @ t)"
  by (auto simp: starts_with_def) (metis append_take_drop_id)

lemma contains_str_iff: "contains_str p s \<longleftrightarrow> (\<exists>a b. s = a @ p @ b)"
proof (induction s)
  case Nil
  then show ?case by auto
next
  case (Cons c s)
  have "(\<exists>a b. c # s = a @ p @ b) \<longleftrightarrow> (\<exists>b. c # s = p @ b) \<or> (\<exists>a b. s = a @ p @ b)"
    by (metis append_Cons append_Nil list.exhaust list.inject)
  then show ?case
    by (simp add: Cons.IH starts_with_iff)
qed

section \<open>Lists\<close>

text \<open>\<open>Vec::retain\<close> keeping first occurrences, as the id and domain lists do it.\<close>

fun dedup_seen :: "'a list \<Rightarrow> 'a list \<Rightarrow> 'a list" where
  "dedup_seen seen [] = []"
| "dedup_seen seen (x # xs) =
     (if x \<in> set seen then dedup_seen seen xs else x # dedup_seen (x # seen) xs)"

definition dedup :: "'a list \<Rightarrow> 'a list" where
  "dedup xs = dedup_seen [] xs"

lemma set_dedup_seen: "set (dedup_seen seen xs) = set xs - set seen"
  by (induction seen xs rule: dedup_seen.induct) auto

lemma distinct_dedup_seen: "distinct (dedup_seen seen xs)"
  by (induction seen xs rule: dedup_seen.induct) (auto simp: set_dedup_seen)

lemma set_dedup [simp]: "set (dedup xs) = set xs"
  by (simp add: dedup_def set_dedup_seen)

lemma distinct_dedup [simp]: "distinct (dedup xs)"
  by (simp add: dedup_def distinct_dedup_seen)

lemma length_dedup_seen: "length (dedup_seen seen xs) \<le> length xs"
  by (induction seen xs rule: dedup_seen.induct) auto

lemma dedup_seen_id: "distinct xs \<Longrightarrow> set xs \<inter> set seen = {} \<Longrightarrow> dedup_seen seen xs = xs"
  by (induction seen xs rule: dedup_seen.induct) auto

lemma dedup_id: "distinct xs \<Longrightarrow> dedup xs = xs"
  by (simp add: dedup_def dedup_seen_id)

text \<open>\<open>slice::chunks\<close>.\<close>

function chunks :: "nat \<Rightarrow> 'a list \<Rightarrow> 'a list list" where
  "chunks n xs = (if xs = [] \<or> n = 0 then [] else take n xs # chunks n (drop n xs))"
  by pat_completeness auto
termination
  by (relation "measure (\<lambda>(n, xs). length xs)") auto

declare chunks.simps [simp del]

lemma chunks_Nil [simp]: "chunks n [] = []"
  by (simp add: chunks.simps)

lemma concat_chunks: "0 < n \<Longrightarrow> concat (chunks n xs) = xs"
proof (induction n xs rule: chunks.induct)
  case (1 n xs)
  then show ?case
    by (cases "xs = []") (simp_all add: chunks.simps [of n xs])
qed

lemma length_in_chunks: "0 < n \<Longrightarrow> c \<in> set (chunks n xs) \<Longrightarrow> length c \<le> n \<and> c \<noteq> []"
proof (induction n xs rule: chunks.induct)
  case (1 n xs)
  then show ?case
    by (cases "xs = []") (auto simp: chunks.simps [of n xs])
qed

lemma fold_map_pointwise: "fold (\<lambda>x. map (h x)) xs ys = map (fold h xs) ys"
  by (induction xs arbitrary: ys) (simp_all add: comp_def)

lemma filter_map_eq_if_pred:
  "(\<And>x. x \<in> set xs \<Longrightarrow> P (f x) = P x) \<Longrightarrow> filter P (map f xs) = map f (filter P xs)"
  by (induction xs) auto

lemma length_filter_map_same:
  "(\<And>x. x \<in> set xs \<Longrightarrow> P (f x) = P x) \<Longrightarrow> length (filter P (map f xs)) = length (filter P xs)"
  by (simp add: filter_map_eq_if_pred)

section \<open>Options and lists\<close>

text \<open>\<open>Option::or\<close>, \<open>first\<close>, \<open>get\<close>, and the values of a list of options (\<open>filter_map\<close>).\<close>

definition or_option :: "'a option \<Rightarrow> 'a option \<Rightarrow> 'a option" where
  "or_option x y = (case x of None \<Rightarrow> y | Some _ \<Rightarrow> x)"

definition first_of :: "'a list \<Rightarrow> 'a option" where
  "first_of xs = (case xs of [] \<Rightarrow> None | x # _ \<Rightarrow> Some x)"

definition nth_of :: "nat \<Rightarrow> 'a list \<Rightarrow> 'a option" where
  "nth_of i xs = (if i < length xs then Some (xs ! i) else None)"

definition filter_some :: "'a option list \<Rightarrow> 'a list" where
  "filter_some xs = map the (filter (\<lambda>x. x \<noteq> None) xs)"

lemma find_append: "find P (xs @ ys) = (case find P xs of Some x \<Rightarrow> Some x | None \<Rightarrow> find P ys)"
  by (induction xs) auto

lemma find_None_eq: "find P xs = None \<longleftrightarrow> (\<forall>x \<in> set xs. \<not> P x)"
  by (auto simp: find_None_iff)

end
