(* ===== verification/Threading.thy ===== *)
theory Threading
  imports Prelude
begin

text \<open>
  Conversation threading (backend/mail-sync/src/threading.rs): subject normalisation and the
  assignment of a thread id from the References, In-Reply-To and List-Id headers.

  The composition \<open>hex(sha256(x)[..8])\<close> of two third-party crates is the parameter
  \<open>H :: string \<Rightarrow> string\<close>; the clock of the last resort is the parameter \<open>now\<close> (the decimal
  rendering of \<open>Utc::now().timestamp()\<close>).
\<close>

section \<open>Subjects\<close>

definition reply_prefixes :: "string list" where
  "reply_prefixes = [''re:'', ''fwd:'', ''aw:'', ''fwd:'', ''sv:'', ''sv:'', ''vs:'', ''RE:'', ''FWD:'',
     ''AW:'', ''FWD:'', ''SV:'', ''Sv:'', ''Vs:'']"

definition matching_prefix :: "string \<Rightarrow> string option" where
  "matching_prefix s = find (\<lambda>p. starts_with p (to_lower s)) (map to_lower reply_prefixes)"

lemma reply_prefixes_lower:
  "map to_lower reply_prefixes = [''re:'', ''fwd:'', ''aw:'', ''fwd:'', ''sv:'', ''sv:'', ''vs:'', ''re:'',
     ''fwd:'', ''aw:'', ''fwd:'', ''sv:'', ''sv:'', ''vs:'']"
  by code_simp

definition prefix_set :: "string set" where
  "prefix_set = {''re:'', ''fwd:'', ''aw:'', ''sv:'', ''vs:''}"

lemma set_lower_prefixes: "set (map to_lower reply_prefixes) = prefix_set"
  unfolding reply_prefixes_lower prefix_set_def by auto

lemma matching_prefix_Some:
  assumes "matching_prefix s = Some p"
  shows "p \<in> prefix_set" and "starts_with p (to_lower s)" and "0 < length p" and "length p \<le> length s"
proof -
  have "p \<in> set (map to_lower reply_prefixes)" and sw: "starts_with p (to_lower s)"
    using assms by (auto simp: matching_prefix_def find_Some_iff simp del: set_map intro: nth_mem)
  then show p: "p \<in> prefix_set" by (simp only: set_lower_prefixes)
  then show "0 < length p" by (auto simp: prefix_set_def)
  show "starts_with p (to_lower s)" by (rule sw)
  then show "length p \<le> length s"
    by (auto simp: starts_with_iff to_lower_def dest: arg_cong [where f = length])
qed

function strip_prefixes :: "string \<Rightarrow> string" where
  "strip_prefixes s =
     (case matching_prefix s of
        Some p \<Rightarrow> strip_prefixes (trim (drop (length p) s))
      | None \<Rightarrow> s)"
  by pat_completeness auto
termination
proof (relation "measure length", goal_cases)
  case (2 s p)
  have "length (trim (drop (length p) s)) \<le> length s - length p"
    using length_trim [of "drop (length p) s"] by simp
  moreover have "0 < length p" "length p \<le> length s"
    using matching_prefix_Some [OF 2] by blast+
  ultimately show ?case unfolding in_measure by linarith
qed simp

declare strip_prefixes.simps [simp del]

definition normalize_subject :: "string \<Rightarrow> string" where
  "normalize_subject s = strip_prefixes (trim s)"

lemma strip_prefixes_done: "matching_prefix (strip_prefixes s) = None"
proof (induction s rule: strip_prefixes.induct)
  case (1 s)
  then show ?case
    by (cases "matching_prefix s") (simp_all add: strip_prefixes.simps [of s])
qed

lemma strip_prefixes_trimmed: "trim s = s \<Longrightarrow> trim (strip_prefixes s) = strip_prefixes s"
proof (induction s rule: strip_prefixes.induct)
  case (1 s)
  then show ?case
    by (cases "matching_prefix s") (simp_all add: strip_prefixes.simps [of s])
qed

lemma strip_prefixes_stable: "matching_prefix s = None \<Longrightarrow> strip_prefixes s = s"
  by (simp add: strip_prefixes.simps)

lemma prefix_set_unique:
  assumes "p \<in> prefix_set" "q \<in> prefix_set" "starts_with p s" "starts_with q s"
  shows "p = q"
  using assms by (auto simp: prefix_set_def starts_with_iff)

lemma matching_prefix_eq:
  assumes "to_lower p \<in> prefix_set"
  shows "matching_prefix (p @ s) = Some (to_lower p)"
proof -
  have sw: "starts_with (to_lower p) (to_lower (p @ s))"
    by (auto simp: starts_with_iff to_lower_def)
  have "to_lower p \<in> set (map to_lower reply_prefixes)"
    using assms by (simp only: set_lower_prefixes)
  with sw have "matching_prefix (p @ s) \<noteq> None"
    unfolding matching_prefix_def find_None_iff by blast
  then obtain q where q: "matching_prefix (p @ s) = Some q" by blast
  with matching_prefix_Some(1,2) [OF q] sw assms have "q = to_lower p"
    using prefix_set_unique by blast
  with q show ?thesis by simp
qed

lemma dropWhile_all_append: "dropWhile P (xs @ ys) =
    (if list_all P xs then dropWhile P ys else dropWhile P xs @ ys)"
  by (induction xs) auto

lemma trim_end_by_append:
  "trim_end_by P (xs @ ys) = (if list_all P ys then trim_end_by P xs else xs @ trim_end_by P ys)"
  unfolding trim_end_by_def rev_append dropWhile_all_append
  by (simp add: list_all_iff)

lemma trim_by_trim_end: "trim_by P (trim_end_by P s) = trim_by P s"
proof (cases "list_all P s")
  case True
  then have "trim_end_by P s = []" "trim_start_by P s = []"
    by (simp_all add: trim_end_by_def trim_start_by_def list_all_iff)
  then show ?thesis
    by (simp only: trim_by_def) (simp add: trim_start_by_def trim_end_by_def)
next
  case False
  let ?u = "dropWhile P s" and ?w = "takeWhile P s"
  have s: "s = ?w @ ?u" by simp
  have ne: "?u \<noteq> []" using False by (auto simp: dropWhile_eq_Nil_conv list_all_iff)
  then have nu: "\<not> list_all P ?u"
    using hd_dropWhile [OF ne] hd_in_set [OF ne] unfolding list_all_iff by blast
  have w: "list_all P ?w" by (auto simp: list_all_iff dest: set_takeWhileD)
  have "trim_end_by P s = ?w @ trim_end_by P ?u"
    using trim_end_by_append [of P ?w ?u] nu by simp
  then have "dropWhile P (trim_end_by P s) = dropWhile P (trim_end_by P ?u)"
    using w by (simp add: dropWhile_all_append)
  also have "\<dots> = trim_end_by P ?u"
  proof -
    obtain t where t: "?u = trim_end_by P ?u @ t" using trim_end_by_prefix by blast
    have "trim_end_by P ?u \<noteq> []"
      using nu by (auto simp: trim_end_by_def dropWhile_eq_Nil_conv list_all_iff)
    then have "hd (trim_end_by P ?u) = hd ?u" using t by (metis hd_append2)
    then have "\<not> P (hd (trim_end_by P ?u))" using hd_dropWhile [OF ne] by simp
    then show ?thesis by (simp add: dropWhile_eq_self_iff)
  qed
  finally show ?thesis
    by (simp add: trim_by_def trim_start_by_def) (simp add: trim_end_by_def)
qed

lemma trim_prefixed:
  assumes "p \<noteq> []" "\<not> is_ws (hd p)" "\<not> is_ws (last p)"
  shows "trim (p @ s) = p @ trim_end_by is_ws s"
proof -
  have "dropWhile is_ws (p @ s) = p @ s"
    using assms by (cases p) auto
  moreover have "dropWhile is_ws (rev p) = rev p"
    using assms by (simp add: dropWhile_eq_self_iff hd_rev)
  then have "trim_end_by is_ws p = p"
    by (simp only: trim_end_by_def rev_rev_ident)
  moreover have "trim_end_by is_ws s = []" if "list_all is_ws s"
    using that by (simp add: trim_end_by_def dropWhile_eq_Nil_conv list_all_iff)
  ultimately show ?thesis
    by (simp add: trim_def trim_by_def trim_start_by_def trim_end_by_append)
qed

lemma ascii_lower_ws: "is_ws c \<Longrightarrow> ascii_lower c = c"
  by (auto simp: is_ws_def ascii_lower_def)

lemma to_lower_prefix_ends:
  assumes "to_lower p \<in> prefix_set"
  shows "p \<noteq> []" and "\<not> is_ws (hd p)" and "\<not> is_ws (last p)"
proof -
  show p: "p \<noteq> []" using assms by (auto simp: prefix_set_def to_lower_def)
  have "\<not> is_ws (hd (to_lower p))" "\<not> is_ws (last (to_lower p))"
    using assms by (auto simp: prefix_set_def is_ws_def)
  then show "\<not> is_ws (hd p)" "\<not> is_ws (last p)"
    using p ascii_lower_ws by (auto simp: to_lower_def hd_map last_map)
qed

lemma normalize_subject_strips:
  assumes "to_lower p \<in> prefix_set"
  shows "normalize_subject (p @ s) = normalize_subject s"
proof -
  have "normalize_subject (p @ s) = strip_prefixes (p @ trim_end_by is_ws s)"
    using trim_prefixed to_lower_prefix_ends [OF assms] by (simp add: normalize_subject_def)
  also have "\<dots> = strip_prefixes (trim (trim_end_by is_ws s))"
    using matching_prefix_eq [OF assms] by (simp add: strip_prefixes.simps [of "p @ _"] to_lower_def)
  finally show ?thesis by (simp add: normalize_subject_def trim_def trim_by_trim_end)
qed

section \<open>Thread ids\<close>

definition thread_id_from_message_id :: "(string \<Rightarrow> string) \<Rightarrow> string \<Rightarrow> string" where
  "thread_id_from_message_id H root = H root"

definition thread_id_from_list :: "(string \<Rightarrow> string) \<Rightarrow> string \<Rightarrow> string \<Rightarrow> string" where
  "thread_id_from_list H list_id subject_norm = H (list_id @ '':'' @ subject_norm)"

definition clean_id :: "string \<Rightarrow> string" where
  "clean_id s = trim_by (\<lambda>c. c = CHR ''<'' \<or> c = CHR ''>'') s"

fun first_known :: "(string \<rightharpoonup> string) \<Rightarrow> string list \<Rightarrow> string option" where
  "first_known existing [] = None"
| "first_known existing (r # rs) =
     (case existing (clean_id r) of Some tid \<Rightarrow> Some tid | None \<Rightarrow> first_known existing rs)"

definition jwz_refs ::
  "(string \<Rightarrow> string) \<Rightarrow> (string \<rightharpoonup> string) \<Rightarrow> string \<Rightarrow> string option" where
  "jwz_refs H existing refs =
     (let ref_ids = split_whitespace refs in
      case first_known existing ref_ids of
        Some tid \<Rightarrow> Some tid
      | None \<Rightarrow> (case ref_ids of
           [] \<Rightarrow> None
         | first # _ \<Rightarrow> Some (thread_id_from_message_id H (clean_id first))))"

definition jwz_root ::
  "(string \<Rightarrow> string) \<Rightarrow> string \<Rightarrow> string option \<Rightarrow> string option \<Rightarrow> (string \<rightharpoonup> string) \<Rightarrow> string option"
where
  "jwz_root H mid in_reply_to references existing =
     (case (case references of None \<Rightarrow> None | Some refs \<Rightarrow> jwz_refs H existing refs) of
        Some tid \<Rightarrow> Some tid
      | None \<Rightarrow> (case in_reply_to of
           None \<Rightarrow> None
         | Some irt \<Rightarrow> (case existing (clean_id irt) of
              Some tid \<Rightarrow> Some tid
            | None \<Rightarrow> Some (thread_id_from_message_id H (clean_id irt)))))"

definition assign_thread_id ::
  "(string \<Rightarrow> string) \<Rightarrow> string \<Rightarrow> string option \<Rightarrow> string option \<Rightarrow> string option \<Rightarrow> string option
     \<Rightarrow> string \<Rightarrow> (string \<rightharpoonup> string) \<Rightarrow> string"
where
  "assign_thread_id H now message_id in_reply_to references list_id subject existing =
     (case jwz_root H (case message_id of None \<Rightarrow> [] | Some m \<Rightarrow> m) in_reply_to references existing of
        Some tid \<Rightarrow> tid
      | None \<Rightarrow> (case list_id of
           Some lid \<Rightarrow> thread_id_from_list H lid (normalize_subject subject)
         | None \<Rightarrow> (case message_id of
              Some mid \<Rightarrow> thread_id_from_message_id H mid
            | None \<Rightarrow> thread_id_from_message_id H (subject @ '':'' @ now))))"

lemma first_known_oldest:
  assumes "first_known existing rs = Some tid"
  shows "\<exists>i < length rs. existing (clean_id (rs ! i)) = Some tid
           \<and> (\<forall>j < i. existing (clean_id (rs ! j)) = None)"
  using assms
proof (induction rs)
  case (Cons r rs)
  show ?case
  proof (cases "existing (clean_id r)")
    case None
    with Cons obtain i where "i < length rs" "existing (clean_id (rs ! i)) = Some tid"
      "\<forall>j < i. existing (clean_id (rs ! j)) = None" by auto
    with None show ?thesis by (intro exI [of _ "Suc i"]) (auto simp: less_Suc_eq_0_disj)
  next
    case (Some t)
    with Cons.prems show ?thesis by (intro exI [of _ 0]) simp
  qed
qed simp

lemma first_known_None_iff:
  "first_known existing rs = None \<longleftrightarrow> (\<forall>r \<in> set rs. existing (clean_id r) = None)"
  by (induction rs) (auto split: option.splits)

end
