(* ===== verification/Store.thy ===== *)
theory Store
  imports Prelude
begin

text \<open>
  The per-user mail database: the rows of the tables the sync pipeline and the API handlers share
  (backend/db/migrations/mail), and the SQL primitives they issue, with the two groups of triggers
  that keep the cached folder counters (0038_folder_live_message_count.sql and
  0039_folder_unread_count.sql).

  Row ids are opaque: SQLite draws them at random, the model draws them from a counter.  A 0/1
  column is a \<open>bool\<close>.  Statements succeed unless they violate a constraint: an I/O failure of
  SQLite is outside the model.
\<close>

section \<open>Rows and tables\<close>

record message_row =
  m_id :: nat
  m_account :: string
  m_folder :: nat
  m_uid :: int
  m_message_id :: "string option"
  m_thread_id :: "string option"
  m_in_reply_to :: "string option"
  m_references :: "string option"
  m_list_id :: "string option"
  m_subject :: string
  m_subject_normalized :: string
  m_snippet :: string
  m_from :: string
  m_to :: string
  m_cc :: string
  m_date :: "string option"
  m_internal_date :: string
  m_read :: bool
  m_flagged :: bool
  m_deleted :: bool
  m_verdict :: "string option"
  m_local_draft :: bool

record folder_row =
  f_id :: nat
  f_account :: string
  f_name :: string
  f_path :: string
  f_type :: string
  f_uidvalidity :: "int option"
  f_last_uid :: "int option"
  f_unread :: int
  f_live :: int
  f_sync_enabled :: bool
  f_page_token :: "string option"
  f_backfill_complete :: bool

record pending_row =
  p_id :: nat
  p_account :: string
  p_path :: string
  p_uid :: int
  p_flag :: string
  p_value :: bool
  p_attempts :: int

record remote_row =
  r_account :: string
  r_path :: string
  r_uid :: int
  r_remote :: string

record account_row =
  a_id :: string
  a_display_name :: string
  a_email :: string
  a_provider_kind :: string
  a_body_sync_mode :: string
  a_sync_mode :: string
  a_sync_interval :: int
  a_credentials :: string
  a_imap_host :: string
  a_imap_port :: int
  a_auth_scheme :: string
  a_tls_cert :: "string option"

record mail_db =
  messages :: "message_row list"
  folders :: "folder_row list"
  pending :: "pending_row list"
  remotes :: "remote_row list"
  accounts :: "account_row list"
  trusted_senders :: "string list"
  analysis :: "(nat \<times> int \<times> string \<times> string) list"
  user_brands :: "(string \<times> string) list"
  next_id :: nat

definition empty_db :: mail_db where
  "empty_db = \<lparr>messages = [], folders = [], pending = [], remotes = [], accounts = [],
     trusted_senders = [], analysis = [], user_brands = [], next_id = 1\<rparr>"

section \<open>The counter triggers\<close>

definition is_live_in :: "nat \<Rightarrow> message_row \<Rightarrow> bool" where
  "is_live_in fid m = (m_folder m = fid \<and> \<not> m_deleted m)"

definition is_unread_in :: "nat \<Rightarrow> message_row \<Rightarrow> bool" where
  "is_unread_in fid m = (m_folder m = fid \<and> \<not> m_read m \<and> \<not> m_deleted m)"

definition on_insert :: "message_row \<Rightarrow> folder_row \<Rightarrow> folder_row" where
  "on_insert m f =
     (let f1 = (if \<not> m_deleted m \<and> f_id f = m_folder m then f\<lparr>f_live := f_live f + 1\<rparr> else f)
      in if \<not> m_read m \<and> \<not> m_deleted m \<and> f_id f1 = m_folder m
         then f1\<lparr>f_unread := f_unread f1 + 1\<rparr> else f1)"

definition on_delete :: "message_row \<Rightarrow> folder_row \<Rightarrow> folder_row" where
  "on_delete m f =
     (let f1 = (if \<not> m_deleted m \<and> f_id f = m_folder m
                then f\<lparr>f_live := max (f_live f - 1) 0\<rparr> else f)
      in if \<not> m_read m \<and> \<not> m_deleted m \<and> f_id f1 = m_folder m
         then f1\<lparr>f_unread := max (f_unread f1 - 1) 0\<rparr> else f1)"

definition on_update_live :: "message_row \<Rightarrow> message_row \<Rightarrow> folder_row \<Rightarrow> folder_row" where
  "on_update_live old new f =
     (if m_folder old \<noteq> m_folder new \<or> m_deleted old \<noteq> m_deleted new
      then let f1 = (if f_id f = m_folder old
                     then f\<lparr>f_live := max (f_live f - (if m_deleted old then 0 else 1)) 0\<rparr> else f)
           in if f_id f1 = m_folder new
              then f1\<lparr>f_live := f_live f1 + (if m_deleted new then 0 else 1)\<rparr> else f1
      else f)"

definition on_update_unread :: "message_row \<Rightarrow> message_row \<Rightarrow> folder_row \<Rightarrow> folder_row" where
  "on_update_unread old new f =
     (if m_folder old \<noteq> m_folder new \<or> m_read old \<noteq> m_read new \<or> m_deleted old \<noteq> m_deleted new
      then let f1 = (if f_id f = m_folder old
                     then f\<lparr>f_unread :=
                       max (f_unread f - (if \<not> m_read old \<and> \<not> m_deleted old then 1 else 0)) 0\<rparr>
                     else f)
           in if f_id f1 = m_folder new
              then f1\<lparr>f_unread := f_unread f1 + (if \<not> m_read new \<and> \<not> m_deleted new then 1 else 0)\<rparr>
              else f1
      else f)"

definition on_update :: "message_row \<Rightarrow> message_row \<Rightarrow> folder_row \<Rightarrow> folder_row" where
  "on_update old new f = on_update_unread old new (on_update_live old new f)"

section \<open>SQL primitives\<close>

text \<open>\<open>UPDATE messages SET g WHERE P\<close>: row by row, each row firing the update triggers.\<close>

definition db_update ::
  "(message_row \<Rightarrow> bool) \<Rightarrow> (message_row \<Rightarrow> message_row) \<Rightarrow> mail_db \<Rightarrow> mail_db" where
  "db_update P g db = db\<lparr>
     messages := map (\<lambda>m. if P m then g m else m) (messages db),
     folders := map (fold (\<lambda>m. on_update m (g m)) (filter P (messages db))) (folders db)\<rparr>"

definition db_delete :: "(message_row \<Rightarrow> bool) \<Rightarrow> mail_db \<Rightarrow> mail_db" where
  "db_delete P db = db\<lparr>
     messages := filter (\<lambda>m. \<not> P m) (messages db),
     folders := map (fold on_delete (filter P (messages db))) (folders db)\<rparr>"

text \<open>A plain \<open>INSERT\<close> of a row; its id is the next one of the supply.\<close>

definition db_insert :: "message_row \<Rightarrow> mail_db \<Rightarrow> mail_db" where
  "db_insert m db = db\<lparr>
     messages := messages db @ [m\<lparr>m_id := next_id db\<rparr>],
     folders := map (on_insert m) (folders db),
     next_id := next_id db + 1\<rparr>"

definition update_folder :: "nat \<Rightarrow> (folder_row \<Rightarrow> folder_row) \<Rightarrow> mail_db \<Rightarrow> mail_db" where
  "update_folder fid g db = db\<lparr>folders := map (\<lambda>f. if f_id f = fid then g f else f) (folders db)\<rparr>"

definition find_message :: "mail_db \<Rightarrow> nat \<Rightarrow> message_row option" where
  "find_message db i = find (\<lambda>m. m_id m = i) (messages db)"

definition find_folder :: "mail_db \<Rightarrow> nat \<Rightarrow> folder_row option" where
  "find_folder db i = find (\<lambda>f. f_id f = i) (folders db)"

definition folder_at :: "mail_db \<Rightarrow> string \<Rightarrow> string \<Rightarrow> folder_row option" where
  "folder_at db acct path = find (\<lambda>f. f_account f = acct \<and> f_path f = path) (folders db)"

definition account_of :: "mail_db \<Rightarrow> string \<Rightarrow> account_row option" where
  "account_of db acct = find (\<lambda>a. a_id a = acct) (accounts db)"

definition count_live :: "mail_db \<Rightarrow> nat \<Rightarrow> int" where
  "count_live db fid = int (length (filter (is_live_in fid) (messages db)))"

definition count_unread :: "mail_db \<Rightarrow> nat \<Rightarrow> int" where
  "count_unread db fid = int (length (filter (is_unread_in fid) (messages db)))"

section \<open>Invariants\<close>

text \<open>
  \<open>counts_ok\<close>: the trigger-maintained counters agree with the message table.
  \<open>keys_ok\<close>: the primary key and \<open>UNIQUE\<close> constraints of the tables, and the id supply.
\<close>

definition folder_counts_ok :: "mail_db \<Rightarrow> folder_row \<Rightarrow> bool" where
  "folder_counts_ok db f = (f_live f = count_live db (f_id f) \<and> f_unread f = count_unread db (f_id f))"

definition counts_ok :: "mail_db \<Rightarrow> bool" where
  "counts_ok db = (\<forall>f \<in> set (folders db). folder_counts_ok db f)"

definition ids_ok :: "mail_db \<Rightarrow> bool" where
  "ids_ok db = (distinct (map m_id (messages db)) \<and> (\<forall>m \<in> set (messages db). m_id m < next_id db))"

definition uids_ok :: "mail_db \<Rightarrow> bool" where
  "uids_ok db = distinct (map (\<lambda>m. (m_folder m, m_uid m)) (messages db))"

definition folders_ok :: "mail_db \<Rightarrow> bool" where
  "folders_ok db = (distinct (map f_id (folders db))
     \<and> distinct (map (\<lambda>f. (f_account f, f_path f)) (folders db)))"

definition pending_key :: "pending_row \<Rightarrow> string \<times> string \<times> int \<times> string" where
  "pending_key p = (p_account p, p_path p, p_uid p, p_flag p)"

definition pending_ok :: "mail_db \<Rightarrow> bool" where
  "pending_ok db = (distinct (map p_id (pending db)) \<and> distinct (map pending_key (pending db))
     \<and> (\<forall>p \<in> set (pending db). p_id p < next_id db))"

definition remotes_ok :: "mail_db \<Rightarrow> bool" where
  "remotes_ok db = (distinct (map (\<lambda>r. (r_account r, r_path r, r_uid r)) (remotes db))
     \<and> distinct (map (\<lambda>r. (r_account r, r_path r, r_remote r)) (remotes db)))"

section \<open>The counters follow the message table\<close>

lemma trigger_frame [simp]:
  "f_id (on_insert m f) = f_id f" "f_id (on_delete m f) = f_id f" "f_id (on_update old new f) = f_id f"
  "f_account (on_insert m f) = f_account f" "f_account (on_delete m f) = f_account f"
  "f_account (on_update old new f) = f_account f"
  "f_path (on_insert m f) = f_path f" "f_path (on_delete m f) = f_path f"
  "f_path (on_update old new f) = f_path f"
  "f_type (on_insert m f) = f_type f" "f_type (on_delete m f) = f_type f"
  "f_type (on_update old new f) = f_type f"
  "f_last_uid (on_insert m f) = f_last_uid f" "f_last_uid (on_delete m f) = f_last_uid f"
  "f_last_uid (on_update old new f) = f_last_uid f"
  "f_uidvalidity (on_insert m f) = f_uidvalidity f" "f_uidvalidity (on_delete m f) = f_uidvalidity f"
  "f_uidvalidity (on_update old new f) = f_uidvalidity f"
  "f_sync_enabled (on_insert m f) = f_sync_enabled f" "f_sync_enabled (on_delete m f) = f_sync_enabled f"
  "f_sync_enabled (on_update old new f) = f_sync_enabled f"
  by (simp_all add: on_insert_def on_delete_def on_update_def on_update_live_def
      on_update_unread_def Let_def)

lemma fold_on_update_frame [simp]:
  "f_id (fold (\<lambda>m. on_update m (g m)) ms f) = f_id f"
  "f_account (fold (\<lambda>m. on_update m (g m)) ms f) = f_account f"
  "f_path (fold (\<lambda>m. on_update m (g m)) ms f) = f_path f"
  "f_type (fold (\<lambda>m. on_update m (g m)) ms f) = f_type f"
  "f_last_uid (fold (\<lambda>m. on_update m (g m)) ms f) = f_last_uid f"
  "f_uidvalidity (fold (\<lambda>m. on_update m (g m)) ms f) = f_uidvalidity f"
  "f_sync_enabled (fold (\<lambda>m. on_update m (g m)) ms f) = f_sync_enabled f"
  by (induction ms arbitrary: f) simp_all

lemma fold_on_delete_frame [simp]:
  "f_id (fold on_delete ms f) = f_id f"
  "f_account (fold on_delete ms f) = f_account f"
  "f_path (fold on_delete ms f) = f_path f"
  "f_type (fold on_delete ms f) = f_type f"
  "f_last_uid (fold on_delete ms f) = f_last_uid f"
  "f_uidvalidity (fold on_delete ms f) = f_uidvalidity f"
  "f_sync_enabled (fold on_delete ms f) = f_sync_enabled f"
  by (induction ms arbitrary: f) simp_all

lemma on_update_counts:
  assumes "f_live f = k + of_bool (is_live_in (f_id f) old)" "0 \<le> k"
    and "f_unread f = j + of_bool (is_unread_in (f_id f) old)" "0 \<le> j"
  shows "f_live (on_update old new f) = k + of_bool (is_live_in (f_id f) new)"
    and "f_unread (on_update old new f) = j + of_bool (is_unread_in (f_id f) new)"
  using assms
  by (auto simp: on_update_def on_update_live_def on_update_unread_def is_live_in_def
      is_unread_in_def Let_def split: if_splits)

lemma fold_on_update_counts:
  assumes "f_live f = k + int (length (filter (is_live_in (f_id f)) ms))" "0 \<le> k"
    and "f_unread f = j + int (length (filter (is_unread_in (f_id f)) ms))" "0 \<le> j"
  shows "f_live (fold (\<lambda>m. on_update m (g m)) ms f)
       = k + int (length (filter (is_live_in (f_id f)) (map g ms)))
     \<and> f_unread (fold (\<lambda>m. on_update m (g m)) ms f)
       = j + int (length (filter (is_unread_in (f_id f)) (map g ms)))"
  using assms
proof (induction ms arbitrary: f k j)
  case (Cons m ms)
  let ?f = "on_update m (g m) f"
  let ?k = "k + int (length (filter (is_live_in (f_id f)) ms))"
  let ?j = "j + int (length (filter (is_unread_in (f_id f)) ms))"
  have "f_live ?f = ?k + of_bool (is_live_in (f_id f) (g m))"
    and "f_unread ?f = ?j + of_bool (is_unread_in (f_id f) (g m))"
    using on_update_counts [of f ?k m ?j "g m"] Cons.prems by auto
  then show ?case
    using Cons.IH [of ?f "k + of_bool (is_live_in (f_id f) (g m))"
        "j + of_bool (is_unread_in (f_id f) (g m))"] Cons.prems(2,4) by simp
qed simp

lemma length_filter_split:
  "length (filter Q xs) = length (filter Q (filter P xs)) + length (filter Q (filter (\<lambda>x. \<not> P x) xs))"
  by (induction xs) auto

lemma length_filter_update:
  "length (filter Q (map (\<lambda>x. if P x then g x else x) xs))
     = length (filter Q (map g (filter P xs))) + length (filter Q (filter (\<lambda>x. \<not> P x) xs))"
  by (induction xs) auto

lemma count_after_update:
  "count_live (db_update P g db) i = int (length (filter (is_live_in i) (map g (filter P (messages db)))))
     + int (length (filter (is_live_in i) (filter (\<lambda>x. \<not> P x) (messages db))))"
  "count_unread (db_update P g db) i = int (length (filter (is_unread_in i) (map g (filter P (messages db)))))
     + int (length (filter (is_unread_in i) (filter (\<lambda>x. \<not> P x) (messages db))))"
proof -
  have "messages (db_update P g db) = map (\<lambda>m. if P m then g m else m) (messages db)"
    by (simp add: db_update_def)
  then show "count_live (db_update P g db) i = int (length (filter (is_live_in i) (map g (filter P (messages db)))))
     + int (length (filter (is_live_in i) (filter (\<lambda>x. \<not> P x) (messages db))))"
    and "count_unread (db_update P g db) i = int (length (filter (is_unread_in i) (map g (filter P (messages db)))))
     + int (length (filter (is_unread_in i) (filter (\<lambda>x. \<not> P x) (messages db))))"
    unfolding count_live_def count_unread_def by (simp_all only: length_filter_update of_nat_add)
qed

lemma counts_ok_update [inv_intros]:
  assumes "counts_ok db"
  shows "counts_ok (db_update P g db)"
proof -
  have "folder_counts_ok (db_update P g db) (fold (\<lambda>m. on_update m (g m)) (filter P (messages db)) f)"
    if f: "f \<in> set (folders db)" for f
  proof -
    let ?ms = "filter P (messages db)" and ?rest = "filter (\<lambda>x. \<not> P x) (messages db)"
    have "f_live f = int (length (filter (is_live_in (f_id f)) ?rest))
            + int (length (filter (is_live_in (f_id f)) ?ms))"
      and "f_unread f = int (length (filter (is_unread_in (f_id f)) ?rest))
            + int (length (filter (is_unread_in (f_id f)) ?ms))"
      using assms f
        length_filter_split [of "is_live_in (f_id f)" "messages db" P]
        length_filter_split [of "is_unread_in (f_id f)" "messages db" P]
      by (simp_all add: counts_ok_def folder_counts_ok_def count_live_def count_unread_def)
    note * = fold_on_update_counts [OF this(1) _ this(2), of g]
    show ?thesis
      using * unfolding folder_counts_ok_def count_after_update fold_on_update_frame by simp
  qed
  then show ?thesis by (auto simp: counts_ok_def db_update_def)
qed

lemma on_delete_step:
  assumes "f_live f = k + of_bool (is_live_in (f_id f) m)" "0 \<le> k"
    and "f_unread f = j + of_bool (is_unread_in (f_id f) m)" "0 \<le> j"
  shows "f_live (on_delete m f) = k" and "f_unread (on_delete m f) = j"
  using assms
  by (auto simp: on_delete_def is_live_in_def is_unread_in_def Let_def split: if_splits)

lemma on_delete_counts:
  assumes "f_live f = k + int (length (filter (is_live_in (f_id f)) ms))" "0 \<le> k"
    and "f_unread f = j + int (length (filter (is_unread_in (f_id f)) ms))" "0 \<le> j"
  shows "f_live (fold on_delete ms f) = k \<and> f_unread (fold on_delete ms f) = j"
  using assms
proof (induction ms arbitrary: f)
  case (Cons m ms)
  have "f_live (on_delete m f) = k + int (length (filter (is_live_in (f_id f)) ms))"
    and "f_unread (on_delete m f) = j + int (length (filter (is_unread_in (f_id f)) ms))"
    using on_delete_step [of f "k + int (length (filter (is_live_in (f_id f)) ms))" m
        "j + int (length (filter (is_unread_in (f_id f)) ms))"] Cons.prems by auto
  then show ?case
    using Cons.IH [of "on_delete m f"] Cons.prems(2,4) by simp
qed simp

lemma counts_ok_delete [inv_intros]:
  assumes "counts_ok db"
  shows "counts_ok (db_delete P db)"
proof -
  have "folder_counts_ok (db_delete P db) (fold on_delete (filter P (messages db)) f)"
    if f: "f \<in> set (folders db)" for f
  proof -
    let ?ms = "filter P (messages db)" and ?rest = "filter (\<lambda>x. \<not> P x) (messages db)"
    have "f_live f = int (length (filter (is_live_in (f_id f)) ?rest))
            + int (length (filter (is_live_in (f_id f)) ?ms))"
      and "f_unread f = int (length (filter (is_unread_in (f_id f)) ?rest))
            + int (length (filter (is_unread_in (f_id f)) ?ms))"
      using assms f
        length_filter_split [of "is_live_in (f_id f)" "messages db" P]
        length_filter_split [of "is_unread_in (f_id f)" "messages db" P]
      by (simp_all add: counts_ok_def folder_counts_ok_def count_live_def count_unread_def)
    note * = on_delete_counts [OF this(1) _ this(2)]
    show ?thesis
      using * by (simp add: folder_counts_ok_def count_live_def count_unread_def db_delete_def)
  qed
  then show ?thesis by (auto simp: counts_ok_def db_delete_def)
qed

lemma counts_ok_insert [inv_intros]:
  "counts_ok db \<Longrightarrow> counts_ok (db_insert m db)"
  by (auto simp: counts_ok_def folder_counts_ok_def count_live_def count_unread_def db_insert_def
      on_insert_def is_live_in_def is_unread_in_def Let_def)

lemma counts_ok_update_folder:
  assumes "counts_ok db" "\<And>f. f_id (g f) = f_id f"
    "\<And>f. f_live (g f) = f_live f" "\<And>f. f_unread (g f) = f_unread f"
  shows "counts_ok (update_folder fid g db)"
  using assms
  by (auto simp: counts_ok_def folder_counts_ok_def count_live_def count_unread_def update_folder_def)

section \<open>Frames and keys\<close>

lemma db_update_frame [store_simps]:
  "pending (db_update P g db) = pending db" "remotes (db_update P g db) = remotes db"
  "accounts (db_update P g db) = accounts db" "next_id (db_update P g db) = next_id db"
  "trusted_senders (db_update P g db) = trusted_senders db"
  "messages (db_update P g db) = map (\<lambda>m. if P m then g m else m) (messages db)"
  by (simp_all add: db_update_def)

lemma db_delete_frame [store_simps]:
  "pending (db_delete P db) = pending db" "remotes (db_delete P db) = remotes db"
  "accounts (db_delete P db) = accounts db" "next_id (db_delete P db) = next_id db"
  "messages (db_delete P db) = filter (\<lambda>m. \<not> P m) (messages db)"
  by (simp_all add: db_delete_def)

lemma db_insert_frame [store_simps]:
  "pending (db_insert m db) = pending db" "remotes (db_insert m db) = remotes db"
  "accounts (db_insert m db) = accounts db" "next_id (db_insert m db) = next_id db + 1"
  "messages (db_insert m db) = messages db @ [m\<lparr>m_id := next_id db\<rparr>]"
  by (simp_all add: db_insert_def)

lemma update_folder_frame [store_simps]:
  "pending (update_folder i g db) = pending db" "remotes (update_folder i g db) = remotes db"
  "accounts (update_folder i g db) = accounts db" "next_id (update_folder i g db) = next_id db"
  "messages (update_folder i g db) = messages db"
  by (simp_all add: update_folder_def)

lemma uids_ok_update [inv_intros]:
  assumes "uids_ok db" "\<And>m. P m \<Longrightarrow> m_folder (g m) = m_folder m \<and> m_uid (g m) = m_uid m"
  shows "uids_ok (db_update P g db)"
proof -
  have "(\<lambda>m. (m_folder m, m_uid m)) \<circ> (\<lambda>m. if P m then g m else m) = (\<lambda>m. (m_folder m, m_uid m))"
    using assms(2) by (auto simp: fun_eq_iff)
  then show ?thesis using assms(1) by (simp add: uids_ok_def store_simps)
qed

lemma uids_ok_delete [inv_intros]: "uids_ok db \<Longrightarrow> uids_ok (db_delete P db)"
  by (simp add: uids_ok_def store_simps distinct_map_filter)

lemma uids_ok_insert:
  assumes "uids_ok db" "\<forall>x \<in> set (messages db). \<not> (m_folder x = m_folder m \<and> m_uid x = m_uid m)"
  shows "uids_ok (db_insert m db)"
  using assms by (auto simp: uids_ok_def store_simps)

lemma ids_ok_update [inv_intros]:
  assumes "ids_ok db" "\<And>m. P m \<Longrightarrow> m_id (g m) = m_id m"
  shows "ids_ok (db_update P g db)"
proof -
  have "m_id \<circ> (\<lambda>m. if P m then g m else m) = m_id"
    using assms(2) by (auto simp: fun_eq_iff)
  then show ?thesis using assms by (auto simp: ids_ok_def store_simps)
qed

lemma ids_ok_delete [inv_intros]: "ids_ok db \<Longrightarrow> ids_ok (db_delete P db)"
  by (simp add: ids_ok_def store_simps distinct_map_filter)

lemma ids_ok_insert [inv_intros]: "ids_ok db \<Longrightarrow> ids_ok (db_insert m db)"
  by (auto simp: ids_ok_def store_simps)

end
