(* ===== verification/Provider.thy ===== *)
theory Provider
  imports Store
begin

text \<open>
  The mail backend interface (backend/mail-sync/src/provider/mod.rs) and the data it exchanges
  with the sync pipeline (backend/mail-sync/src/session.rs): folder information, fetched messages,
  errors, the backend kinds, folder classification and uid sets.

  A backend is a record of operations over a pair of the mail database (the API backends keep
  their uid map there) and a state \<open>'p\<close> that stands for the remote server.  The locale
  \<open>mail_backend\<close> states what the sync pipeline relies on: a call never touches the messages,
  the outbox or the sync cursors of the database.
\<close>

section \<open>Data\<close>

datatype provider_error =
    Session string
  | NotImplemented string
  | Http nat string
  | Transport string
  | Other string

datatype provider_kind = Imap | GmailImap | GmailApi | OutlookApi

fun parse_kind :: "string \<Rightarrow> provider_kind" where
  "parse_kind value =
     (if value = ''gmail_imap'' then GmailImap
      else if value = ''gmail_api'' then GmailApi
      else if value = ''outlook_api'' then OutlookApi
      else Imap)"

fun kind_as_str :: "provider_kind \<Rightarrow> string" where
  "kind_as_str Imap = ''imap''"
| "kind_as_str GmailImap = ''gmail_imap''"
| "kind_as_str GmailApi = ''gmail_api''"
| "kind_as_str OutlookApi = ''outlook_api''"

fun syncs_over_imap :: "provider_kind \<Rightarrow> bool" where
  "syncs_over_imap k = (k = Imap \<or> k = GmailImap)"

fun sends_over_smtp :: "provider_kind \<Rightarrow> bool" where
  "sends_over_smtp k = (k = Imap \<or> k = GmailImap)"

lemma parse_kind_as_str [simp]: "parse_kind (kind_as_str k) = k"
  by (cases k) simp_all

record folder_info =
  fi_name :: string
  fi_path :: string
  fi_type :: string

record folder_status_info =
  st_uidvalidity :: nat
  st_exists :: nat

record fetched_message =
  fm_uid :: nat
  fm_remote_id :: "string option"
  fm_message_id :: "string option"
  fm_in_reply_to :: "string option"
  fm_references :: "string option"
  fm_list_id :: "string option"
  fm_subject :: string
  fm_from :: string
  fm_to :: string
  fm_cc :: string
  fm_date :: "string option"
  fm_internal_date :: string
  fm_seen :: bool
  fm_flagged :: bool
  fm_deleted :: bool
  fm_body :: "string option"

section \<open>Folder classification\<close>

datatype name_attribute = NoSelect | ATrash | AJunk | AArchive | AAll | ASent | ADrafts | AOther string

fun special_use_of :: "name_attribute \<Rightarrow> string option" where
  "special_use_of ATrash = Some ''TRASH''"
| "special_use_of AJunk = Some ''SPAM''"
| "special_use_of AArchive = Some ''ARCHIVE''"
| "special_use_of AAll = Some ''ARCHIVE''"
| "special_use_of ASent = Some ''SENT''"
| "special_use_of ADrafts = Some ''DRAFTS''"
| "special_use_of _ = None"

fun special_use_type :: "name_attribute list \<Rightarrow> string option" where
  "special_use_type [] = None"
| "special_use_type (a # as) = (case special_use_of a of Some t \<Rightarrow> Some t | None \<Rightarrow> special_use_type as)"

definition classify_folder :: "string \<Rightarrow> string" where
  "classify_folder name =
     (let lower = to_lower name in
      if lower = ''inbox'' then ''INBOX''
      else if contains_str ''sent'' lower then ''SENT''
      else if contains_str ''draft'' lower then ''DRAFTS''
      else if contains_str ''trash'' lower \<or> contains_str ''deleted'' lower then ''TRASH''
      else if contains_str ''spam'' lower \<or> contains_str ''junk'' lower then ''SPAM''
      else if contains_str ''archive'' lower then ''ARCHIVE''
      else ''CUSTOM'')"

text \<open>\<open>session::list_folders\<close> over the server's answer to \<open>LIST\<close>.\<close>

fun imap_folders :: "(string \<times> name_attribute list) list \<Rightarrow> folder_info list" where
  "imap_folders [] = []"
| "imap_folders ((name, attrs) # mbs) =
     (if NoSelect \<in> set attrs then imap_folders mbs
      else \<lparr>fi_name = name, fi_path = name,
             fi_type = (case special_use_type attrs of Some t \<Rightarrow> t | None \<Rightarrow> classify_folder name)\<rparr>
           # imap_folders mbs)"

definition folder_types :: "string set" where
  "folder_types = {''INBOX'', ''SENT'', ''DRAFTS'', ''ARCHIVE'', ''SPAM'', ''TRASH'', ''CUSTOM''}"

lemma special_use_type_in: "special_use_type as = Some t \<Longrightarrow> t \<in> folder_types"
proof (induction as)
  case (Cons a as)
  then show ?case by (cases a) (auto simp: folder_types_def)
qed simp

lemma classify_folder_in: "classify_folder name \<in> folder_types"
  by (simp add: classify_folder_def folder_types_def Let_def)

section \<open>Uid sets\<close>

text \<open>\<open>format!("{}:{}", start, end)\<close> and \<open>str::parse::<i64>\<close>.\<close>

fun show_nat :: "nat \<Rightarrow> string" where
  "show_nat n = (if n < 10 then [char_of (48 + n)] else show_nat (n div 10) @ [char_of (48 + n mod 10)])"

declare show_nat.simps [simp del]

definition digit_val :: "char \<Rightarrow> nat option" where
  "digit_val c = (let n = (of_char c :: nat) in if 48 \<le> n \<and> n \<le> 57 then Some (n - 48) else None)"

fun parse_digits :: "nat \<Rightarrow> string \<Rightarrow> nat option" where
  "parse_digits acc [] = Some acc"
| "parse_digits acc (c # s) =
     (case digit_val c of None \<Rightarrow> None | Some d \<Rightarrow> parse_digits (acc * 10 + d) s)"

definition parse_i64 :: "string \<Rightarrow> int option" where
  "parse_i64 s =
     (let (neg, ds) = (case s of [] \<Rightarrow> (False, [])
                       | c # t \<Rightarrow> if c = CHR ''-'' then (True, t)
                                  else if c = CHR ''+'' then (False, t) else (False, s))
      in if ds = [] then None
         else case parse_digits 0 ds of
                None \<Rightarrow> None
              | Some n \<Rightarrow> (let v = (if neg then - int n else int n) in
                          if - (2 ^ 63) \<le> v \<and> v < 2 ^ 63 then Some v else None))"

definition uid_range :: "nat \<Rightarrow> nat \<Rightarrow> string" where
  "uid_range a b = show_nat a @ '':'' @ show_nat b"

lemma digit_val_char [simp]: "d < 10 \<Longrightarrow> digit_val (char_of (48 + d)) = Some d"
  by (simp add: digit_val_def Let_def)

lemma parse_digits_append:
  "parse_digits acc (s @ t) = (case parse_digits acc s of None \<Rightarrow> None | Some v \<Rightarrow> parse_digits v t)"
  by (induction s arbitrary: acc) (auto split: option.splits)

lemma parse_show_nat: "parse_digits acc (show_nat n) = Some (acc * 10 ^ length (show_nat n) + n)"
proof (induction n arbitrary: acc rule: show_nat.induct)
  case (1 n)
  show ?case
  proof (cases "n < 10")
    case True
    then show ?thesis by (simp add: show_nat.simps [of n])
  next
    case False
    with "1.IH" [of acc] show ?thesis
      by (simp add: show_nat.simps [of n] parse_digits_append algebra_simps)
  qed
qed

lemma show_nat_digits: "c \<in> set (show_nat n) \<Longrightarrow> 48 \<le> (of_char c :: nat) \<and> (of_char c :: nat) \<le> 57"
proof (induction n arbitrary: c rule: show_nat.induct)
  case (1 n)
  have digit: "(of_char (char_of (48 + d) :: char) :: nat) = 48 + d" if "d < 10" for d :: nat
    using that by simp
  show ?case
  proof (cases "n < 10")
    case True
    with "1.prems" have "c = char_of (48 + n)" by (simp add: show_nat.simps [of n])
    with True digit [of n] show ?thesis by simp
  next
    case False
    then have "c \<in> set (show_nat (n div 10)) \<or> c = char_of (48 + n mod 10)"
      using "1.prems" by (auto simp: show_nat.simps [of n])
    then show ?thesis
    proof
      assume "c \<in> set (show_nat (n div 10))"
      with False "1.IH" show ?thesis by simp
    next
      assume "c = char_of (48 + n mod 10)"
      with digit [of "n mod 10"] show ?thesis by simp
    qed
  qed
qed

lemma show_nat_nonempty [simp]: "show_nat n \<noteq> []"
  by (subst show_nat.simps) simp

lemma show_nat_no_sep: "CHR '':'' \<notin> set (show_nat n)" "CHR '','' \<notin> set (show_nat n)"
  "CHR ''-'' \<notin> set (show_nat n)" "CHR ''+'' \<notin> set (show_nat n)" "CHR ''*'' \<notin> set (show_nat n)"
  by (auto dest!: show_nat_digits)

lemma show_nat_no_ws: "c \<in> set (show_nat n) \<Longrightarrow> \<not> is_ws c"
  by (drule show_nat_digits) (auto simp: is_ws_def)

lemma parse_i64_show_nat [simp]:
  assumes "n < 2 ^ 63"
  shows "parse_i64 (show_nat n) = Some (int n)"
proof -
  obtain c t where ct: "show_nat n = c # t" by (meson neq_Nil_conv show_nat_nonempty)
  then have "c \<noteq> CHR ''-''" "c \<noteq> CHR ''+''"
    using show_nat_no_sep [of n] by auto
  moreover have "int n < 2 ^ 63" using assms by (metis of_nat_less_iff of_nat_numeral of_nat_power)
  ultimately show ?thesis
    using parse_show_nat [of 0 n] ct by (simp add: parse_i64_def Let_def)
qed

section \<open>The backend interface\<close>

type_synonym ('p, 'a) call = "mail_db \<times> 'p \<Rightarrow> (provider_error + 'a) \<times> mail_db \<times> 'p"

record 'p backend =
  list_folders :: "('p, folder_info list) call"
  folder_status :: "string \<Rightarrow> ('p, folder_status_info) call"
  highest_uid :: "string \<Rightarrow> ('p, nat option) call"
  fetch_flags :: "string \<Rightarrow> string \<Rightarrow> ('p, (nat \<times> bool \<times> bool \<times> bool) list) call"
  fetch_headers :: "string \<Rightarrow> string \<Rightarrow> ('p, fetched_message list) call"
  fetch_full :: "string \<Rightarrow> string \<Rightarrow> ('p, fetched_message list) call"
  fetch_raw :: "string \<Rightarrow> nat \<Rightarrow> ('p, string) call"
  set_flag :: "string \<Rightarrow> nat \<Rightarrow> string \<Rightarrow> bool \<Rightarrow> ('p, unit) call"
  move_message :: "string \<Rightarrow> nat \<Rightarrow> string \<Rightarrow> ('p, unit) call"
  delete_permanently :: "string \<Rightarrow> nat \<Rightarrow> ('p, unit) call"

text \<open>
  \<open>core_folder\<close> erases the two columns an API backend may write (its backfill state); a backend
  call may change those and its own uid map, nothing else of the database.
\<close>

definition core_folder :: "folder_row \<Rightarrow> folder_row" where
  "core_folder f = f\<lparr>f_page_token := None, f_backfill_complete := False\<rparr>"

definition backend_frame :: "mail_db \<Rightarrow> mail_db \<Rightarrow> bool" where
  "backend_frame db db' =
     (messages db' = messages db \<and> pending db' = pending db \<and> accounts db' = accounts db
      \<and> next_id db' = next_id db \<and> trusted_senders db' = trusted_senders db
      \<and> analysis db' = analysis db
      \<and> map core_folder (folders db') = map core_folder (folders db))"

definition keeps_frame :: "('p, 'a) call \<Rightarrow> bool" where
  "keeps_frame c = (\<forall>db p r db' p'. c (db, p) = (r, db', p') \<longrightarrow> backend_frame db db')"

locale mail_backend =
  fixes B :: "'p backend"
  assumes list_folders_frame: "keeps_frame (list_folders B)"
    and folder_status_frame: "keeps_frame (folder_status B path)"
    and highest_uid_frame: "keeps_frame (highest_uid B path)"
    and fetch_flags_frame: "keeps_frame (fetch_flags B path uids)"
    and fetch_headers_frame: "keeps_frame (fetch_headers B path uids)"
    and fetch_full_frame: "keeps_frame (fetch_full B path uids)"
    and fetch_raw_frame: "keeps_frame (fetch_raw B path uid)"
    and set_flag_frame: "keeps_frame (set_flag B path uid flag v)"
    and move_frame: "keeps_frame (move_message B path uid dest)"
    and delete_frame: "keeps_frame (delete_permanently B path uid)"

lemma backend_frame_refl [simp]: "backend_frame db db"
  by (simp add: backend_frame_def)

lemma backend_frame_trans [trans]:
  "backend_frame a b \<Longrightarrow> backend_frame b c \<Longrightarrow> backend_frame a c"
  by (simp add: backend_frame_def)

lemma keeps_frameI:
  "(\<And>db p r db' p'. c (db, p) = (r, db', p') \<Longrightarrow> backend_frame db db') \<Longrightarrow> keeps_frame c"
  by (auto simp: keeps_frame_def)

lemma keeps_frameD: "keeps_frame c \<Longrightarrow> c (db, p) = (r, db', p') \<Longrightarrow> backend_frame db db'"
  unfolding keeps_frame_def by blast

lemma core_folder_simps [simp]:
  "f_id (core_folder f) = f_id f" "f_live (core_folder f) = f_live f"
  "f_unread (core_folder f) = f_unread f" "f_account (core_folder f) = f_account f"
  "f_path (core_folder f) = f_path f" "f_last_uid (core_folder f) = f_last_uid f"
  "f_uidvalidity (core_folder f) = f_uidvalidity f" "f_type (core_folder f) = f_type f"
  "f_sync_enabled (core_folder f) = f_sync_enabled f"
  by (simp_all add: core_folder_def)

lemma list_all_core:
  assumes "map core_folder fs' = map core_folder fs" "\<And>f. P (core_folder f) = P f"
  shows "(\<forall>f \<in> set fs'. P f) = (\<forall>f \<in> set fs. P f)"
proof -
  have "(\<forall>f \<in> set fs'. P f) = (\<forall>f \<in> set (map core_folder fs'). P f)"
    using assms(2) by simp
  also have "\<dots> = (\<forall>f \<in> set (map core_folder fs). P f)" by (simp only: assms(1))
  also have "\<dots> = (\<forall>f \<in> set fs. P f)" using assms(2) by simp
  finally show ?thesis .
qed

lemma backend_frame_counts:
  assumes "backend_frame db db'"
  shows "counts_ok db' = counts_ok db"
proof -
  have "counts_ok db' = (\<forall>f \<in> set (folders db'). folder_counts_ok db f)"
    using assms by (simp add: counts_ok_def backend_frame_def folder_counts_ok_def count_live_def
        count_unread_def)
  also have "\<dots> = (\<forall>f \<in> set (folders db). folder_counts_ok db f)"
    using assms by (intro list_all_core) (simp_all add: backend_frame_def folder_counts_ok_def)
  finally show ?thesis by (simp add: counts_ok_def)
qed

lemma backend_frame_keys:
  assumes "backend_frame db db'"
  shows "ids_ok db' = ids_ok db" and "uids_ok db' = uids_ok db" and "pending_ok db' = pending_ok db"
  using assms by (simp_all add: ids_ok_def uids_ok_def pending_ok_def backend_frame_def)

lemma core_folder_lookup:
  assumes "map core_folder fs' = map core_folder fs" "\<And>f. P (core_folder f) = P f"
  shows "map_option core_folder (find P fs') = map_option core_folder (find P fs)"
proof -
  have "map_option core_folder (find P xs) = find P (map core_folder xs)" for xs
    using assms(2) by (induction xs) auto
  with assms(1) show ?thesis by metis
qed

end
