(* ===== verification/Flags.thy ===== *)
theory Flags
  imports Provider
begin

text \<open>
  Read/starred state between the local rows and the server (backend/mail-sync/src/sync.rs and
  \<open>enqueue_flag_op\<close> of backend/api/src/routes/messages.rs).

  A local change is written to the message row and recorded in the outbox \<open>pending_flag_ops\<close>;
  \<open>flush_pending_flags\<close> pushes the outbox to the server, \<open>reconcile_flags\<close> copies the server's
  flags back over the rows, skipping fields whose push is still pending, and
  \<open>reapply_pending_flags\<close> restores pending values after an import rewrote rows.
\<close>

section \<open>The outbox\<close>

definition max_flag_push_attempts :: int where
  "max_flag_push_attempts = 10"

definition same_key :: "string \<Rightarrow> string \<Rightarrow> int \<Rightarrow> string \<Rightarrow> pending_row \<Rightarrow> bool" where
  "same_key acct path uid flag r = (pending_key r = (acct, path, uid, flag))"

definition enqueue_flag_op ::
  "string \<Rightarrow> int \<Rightarrow> string \<Rightarrow> string \<Rightarrow> bool \<Rightarrow> mail_db \<Rightarrow> mail_db"
where
  "enqueue_flag_op acct uid path flag v db =
     (if \<exists>r \<in> set (pending db). same_key acct path uid flag r
      then db\<lparr>pending := map (\<lambda>r. if same_key acct path uid flag r
                                then r\<lparr>p_value := v, p_attempts := 0\<rparr> else r) (pending db)\<rparr>
      else db\<lparr>pending := pending db @ [\<lparr>p_id = next_id db, p_account = acct, p_path = path,
                 p_uid = uid, p_flag = flag, p_value = v, p_attempts = 0\<rparr>],
              next_id := next_id db + 1\<rparr>)"

definition pending_flag_ops :: "string \<Rightarrow> mail_db \<Rightarrow> pending_row list" where
  "pending_flag_ops acct db = sort_key p_id (filter (\<lambda>r. p_account r = acct) (pending db))"

definition pending_value :: "mail_db \<Rightarrow> string \<Rightarrow> string \<Rightarrow> int \<Rightarrow> string \<Rightarrow> bool option" where
  "pending_value db acct path uid flag =
     map_option p_value (find (same_key acct path uid flag) (pending db))"

text \<open>What becomes of one outbox row once the server has answered its push.\<close>

definition settle_op :: "pending_row \<Rightarrow> provider_error + unit \<Rightarrow> mail_db \<Rightarrow> mail_db" where
  "settle_op r res db =
     (case res of
        Inr _ \<Rightarrow> db\<lparr>pending := filter (\<lambda>q. p_id q \<noteq> p_id r) (pending db)\<rparr>
      | Inl _ \<Rightarrow>
          (let attempts = p_attempts r + 1 in
           if attempts \<ge> max_flag_push_attempts
           then db\<lparr>pending := filter (\<lambda>q. p_id q \<noteq> p_id r) (pending db)\<rparr>
           else db\<lparr>pending := map (\<lambda>q. if p_id q = p_id r then q\<lparr>p_attempts := attempts\<rparr> else q)
                              (pending db)\<rparr>))"

fun flush_ops :: "'p backend \<Rightarrow> pending_row list \<Rightarrow> mail_db \<times> 'p \<Rightarrow> mail_db \<times> 'p" where
  "flush_ops B [] s = s"
| "flush_ops B (r # rs) s =
     (case set_flag B (p_path r) (clamp_u32 (p_uid r)) (p_flag r) (p_value r) s of
        (res, db', p') \<Rightarrow> flush_ops B rs (settle_op r res db', p'))"

definition flush_pending_flags :: "'p backend \<Rightarrow> string \<Rightarrow> mail_db \<times> 'p \<Rightarrow> mail_db \<times> 'p" where
  "flush_pending_flags B acct s = flush_ops B (pending_flag_ops acct (fst s)) s"

section \<open>Reconciliation\<close>

type_synonym flags = "bool \<times> bool \<times> bool"

definition note_pending :: "pending_row \<Rightarrow> (int \<rightharpoonup> bool \<times> bool) \<Rightarrow> (int \<rightharpoonup> bool \<times> bool)" where
  "note_pending r m =
     (let (seen, flagged) = (case m (p_uid r) of Some e \<Rightarrow> e | None \<Rightarrow> (False, False)) in
      m(p_uid r \<mapsto> (if p_flag r = ''seen'' then (True, flagged)
                    else if p_flag r = ''flagged'' then (seen, True)
                    else (seen, flagged))))"

definition pending_flags_by_uid :: "string \<Rightarrow> string \<Rightarrow> mail_db \<Rightarrow> (int \<rightharpoonup> bool \<times> bool)" where
  "pending_flags_by_uid acct path db =
     fold note_pending (filter (\<lambda>r. p_account r = acct \<and> p_path r = path) (pending db)) Map.empty"

definition in_range :: "nat \<Rightarrow> nat \<Rightarrow> nat \<Rightarrow> message_row \<Rightarrow> bool" where
  "in_range fid a b m = (m_folder m = fid \<and> int a \<le> m_uid m \<and> m_uid m \<le> int b)"

definition stored_flags :: "mail_db \<Rightarrow> nat \<Rightarrow> nat \<Rightarrow> nat \<Rightarrow> (int \<times> flags) list" where
  "stored_flags db fid a b =
     map (\<lambda>m. (m_uid m, m_read m, m_flagged m, m_deleted m)) (filter (in_range fid a b) (messages db))"

definition expunged_uids :: "(nat \<times> flags) list \<Rightarrow> (int \<times> flags) list \<Rightarrow> int list" where
  "expunged_uids server stored =
     map fst (filter (\<lambda>(uid, _, _, deleted). \<not> deleted \<and> uid \<notin> set (map (int \<circ> fst) server)) stored)"

definition pending_entry :: "(int \<rightharpoonup> bool \<times> bool) \<Rightarrow> int \<Rightarrow> bool \<times> bool" where
  "pending_entry pend uid = (case pend uid of Some e \<Rightarrow> e | None \<Rightarrow> (False, False))"

definition merge_flags :: "bool \<times> bool \<Rightarrow> flags \<Rightarrow> flags \<Rightarrow> flags" where
  "merge_flags pd stored server =
     (if fst pd then fst stored else fst server,
      if snd pd then fst (snd stored) else fst (snd server),
      snd (snd server))"

definition effective_flags :: "flags \<Rightarrow> flags \<Rightarrow> flags" where
  "effective_flags stored new = (fst new, fst (snd new), snd (snd new) \<or> snd (snd stored))"

fun changed_message_flags ::
  "(nat \<times> flags) list \<Rightarrow> (int \<rightharpoonup> flags) \<Rightarrow> (int \<rightharpoonup> bool \<times> bool) \<Rightarrow> (nat \<times> flags) list"
where
  "changed_message_flags [] stored pend = []"
| "changed_message_flags ((uid, fl) # server) stored pend =
     (case stored (int uid) of
        None \<Rightarrow> changed_message_flags server stored pend
      | Some st \<Rightarrow>
          (let new = merge_flags (pending_entry pend (int uid)) st fl in
           if st \<noteq> effective_flags st new
           then (uid, new) # changed_message_flags server stored pend
           else changed_message_flags server stored pend))"

definition set_flags_row :: "flags \<Rightarrow> message_row \<Rightarrow> message_row" where
  "set_flags_row fl m = m\<lparr>m_read := fst fl, m_flagged := fst (snd fl),
     m_deleted := (snd (snd fl) \<or> m_deleted m)\<rparr>"

definition apply_changed :: "nat \<Rightarrow> (nat \<times> flags) list \<Rightarrow> mail_db \<Rightarrow> mail_db" where
  "apply_changed fid changed db =
     fold (\<lambda>x. db_update (\<lambda>m. m_folder m = fid \<and> m_uid m = int (fst x)) (set_flags_row (snd x))) changed db"

definition apply_expunged :: "nat \<Rightarrow> int list \<Rightarrow> mail_db \<Rightarrow> mail_db" where
  "apply_expunged fid uids db =
     fold (\<lambda>uid. db_update (\<lambda>m. m_folder m = fid \<and> m_uid m = uid) (\<lambda>m. m\<lparr>m_deleted := True\<rparr>)) uids db"

text \<open>One chunk of \<open>reconcile_flags\<close>: compare and update the rows of uids \<open>a..b\<close>.\<close>

definition reconcile_chunk ::
  "nat \<Rightarrow> nat \<Rightarrow> nat \<Rightarrow> (int \<rightharpoonup> bool \<times> bool) \<Rightarrow> (nat \<times> flags) list \<Rightarrow> mail_db \<Rightarrow> mail_db"
where
  "reconcile_chunk fid a b pend flags db =
     (let stored = stored_flags db fid a b;
          expunged = expunged_uids flags stored;
          changed = changed_message_flags flags (map_of stored) pend
      in if changed = [] \<and> expunged = [] then db
         else apply_expunged fid expunged (apply_changed fid changed db))"

definition flag_chunk :: nat where
  "flag_chunk = 1000"

text \<open>
  The chunk walk. The guard \<open>up_to \<le> u32_max\<close> is the range of the Rust type of \<open>up_to_uid\<close>.
\<close>

function reconcile_loop ::
  "'p backend \<Rightarrow> nat \<Rightarrow> string \<Rightarrow> (int \<rightharpoonup> bool \<times> bool) \<Rightarrow> nat \<Rightarrow> nat \<Rightarrow> mail_db \<times> 'p
     \<Rightarrow> (provider_error + unit) \<times> mail_db \<times> 'p"
where
  "reconcile_loop B fid path pend up_to start s =
     (if start \<le> up_to \<and> up_to \<le> u32_max
      then (let chunk_end = min (saturating_add_u32 start (flag_chunk - 1)) up_to in
            case fetch_flags B path (uid_range start chunk_end) s of
              (Inl e, db', p') \<Rightarrow> (Inl e, db', p')
            | (Inr flags, db', p') \<Rightarrow>
                (let db'' = reconcile_chunk fid start chunk_end pend flags db' in
                 if up_to \<le> chunk_end then (Inr (), db'', p')
                 else reconcile_loop B fid path pend up_to (chunk_end + 1) (db'', p')))
      else (Inr (), s))"
  by pat_completeness auto
termination
  by (relation "measure (\<lambda>(B, fid, path, pend, up_to, start, s). up_to + 1 - start)")
     (auto simp: saturating_add_u32_def flag_chunk_def)

declare reconcile_loop.simps [simp del]

definition reconcile_flags ::
  "'p backend \<Rightarrow> string \<Rightarrow> nat \<Rightarrow> string \<Rightarrow> nat \<Rightarrow> mail_db \<times> 'p \<Rightarrow> (provider_error + unit) \<times> mail_db \<times> 'p"
where
  "reconcile_flags B acct fid path up_to s =
     reconcile_loop B fid path (pending_flags_by_uid acct path (fst s)) up_to 1 s"

definition restore_flag ::
  "(bool \<Rightarrow> message_row \<Rightarrow> message_row) \<Rightarrow> string \<Rightarrow> string \<Rightarrow> nat \<Rightarrow> string \<Rightarrow> nat \<Rightarrow> nat \<Rightarrow> mail_db \<Rightarrow> mail_db"
where
  "restore_flag assign flag acct fid path a b db =
     db_update (\<lambda>m. in_range fid a b m \<and> pending_value db acct path (m_uid m) flag \<noteq> None)
       (\<lambda>m. case pending_value db acct path (m_uid m) flag of Some v \<Rightarrow> assign v m | None \<Rightarrow> m) db"

definition reapply_pending_flags :: "string \<Rightarrow> nat \<Rightarrow> string \<Rightarrow> nat \<Rightarrow> nat \<Rightarrow> mail_db \<Rightarrow> mail_db" where
  "reapply_pending_flags acct fid path a b db =
     restore_flag (\<lambda>v m. m\<lparr>m_flagged := v\<rparr>) ''flagged'' acct fid path a b
       (restore_flag (\<lambda>v m. m\<lparr>m_read := v\<rparr>) ''seen'' acct fid path a b db)"

text \<open>\<open>update_unread_count\<close>: recompute and store a folder's badge.  \<open>write_unread\<close> is its second half, which
  stores a number that was counted before.\<close>

definition write_unread :: "nat \<Rightarrow> int \<Rightarrow> mail_db \<Rightarrow> mail_db" where
  "write_unread fid unread db =
     (case map_option f_unread (find_folder db fid) of
        Some stored \<Rightarrow> if stored = unread then db
                      else update_folder fid (\<lambda>f. f\<lparr>f_unread := unread\<rparr>) db
      | None \<Rightarrow> update_folder fid (\<lambda>f. if f_unread f \<noteq> unread then f\<lparr>f_unread := unread\<rparr> else f) db)"

definition update_unread_count :: "nat \<Rightarrow> mail_db \<Rightarrow> mail_db" where
  "update_unread_count fid db = write_unread fid (count_unread db fid) db"

section \<open>The outbox keeps its keys\<close>

lemma pending_key_update [simp]:
  "pending_key (r\<lparr>p_value := v\<rparr>) = pending_key r"
  "pending_key (r\<lparr>p_attempts := k\<rparr>) = pending_key r"
  by (simp_all add: pending_key_def)

lemma same_key_update [simp]:
  "same_key acct path uid flag (r\<lparr>p_value := v\<rparr>) = same_key acct path uid flag r"
  "same_key acct path uid flag (r\<lparr>p_attempts := k\<rparr>) = same_key acct path uid flag r"
  by (simp_all add: same_key_def)

lemma map_if_proj:
  "(\<And>r. f (g r) = f r) \<Longrightarrow> map f (map (\<lambda>r. if P r then g r else r) xs) = map f xs"
  by (induction xs) auto

lemma pending_ok_enqueue:
  assumes "pending_ok db"
  shows "pending_ok (enqueue_flag_op acct uid path flag v db)"
proof (cases "\<exists>r \<in> set (pending db). same_key acct path uid flag r")
  case True
  let ?u = "\<lambda>r. if same_key acct path uid flag r then r\<lparr>p_value := v, p_attempts := 0\<rparr> else r"
  have "map p_id (map ?u (pending db)) = map p_id (pending db)"
    and "map pending_key (map ?u (pending db)) = map pending_key (pending db)"
    by (rule map_if_proj, simp)+
  with True assms show ?thesis
    by (auto simp: pending_ok_def enqueue_flag_op_def simp del: map_map)
next
  case False
  then show ?thesis
    using assms by (fastforce simp: pending_ok_def enqueue_flag_op_def same_key_def pending_key_def)
qed

lemma find_map_if:
  "(\<And>r. P (g r) = P r) \<Longrightarrow> find P (map (\<lambda>r. if P r then g r else r) xs) = map_option g (find P xs)"
  by (induction xs) auto

lemma pending_value_enqueue:
  "pending_value (enqueue_flag_op acct uid path flag v db) acct path uid flag = Some v"
proof (cases "\<exists>r \<in> set (pending db). same_key acct path uid flag r")
  case True
  then have "find (same_key acct path uid flag) (pending db) \<noteq> None" by (simp add: find_None_eq)
  with True show ?thesis
    by (auto simp: pending_value_def enqueue_flag_op_def find_map_if)
next
  case False
  then have "find (same_key acct path uid flag) (pending db) = None" by (simp add: find_None_eq)
  with False show ?thesis
    by (auto simp: pending_value_def enqueue_flag_op_def find_append same_key_def pending_key_def)
qed

lemma find_map_other:
  "(\<And>r. P r \<Longrightarrow> \<not> Q r) \<Longrightarrow> (\<And>r. P r \<Longrightarrow> \<not> Q (g r)) \<Longrightarrow>
   find Q (map (\<lambda>r. if P r then g r else r) xs) = find Q xs"
  by (induction xs) auto

lemma pending_value_enqueue_other:
  assumes "(acct', path', uid', flag') \<noteq> (acct, path, uid, flag)"
  shows "pending_value (enqueue_flag_op acct uid path flag v db) acct' path' uid' flag'
       = pending_value db acct' path' uid' flag'"
proof (cases "\<exists>r \<in> set (pending db). same_key acct path uid flag r")
  case True
  have "find (same_key acct' path' uid' flag')
          (map (\<lambda>r. if same_key acct path uid flag r then r\<lparr>p_value := v, p_attempts := 0\<rparr> else r) (pending db))
      = find (same_key acct' path' uid' flag') (pending db)"
    using assms by (intro find_map_other) (auto simp: same_key_def)
  with True show ?thesis by (simp add: pending_value_def enqueue_flag_op_def)
next
  case False
  with assms show ?thesis
    by (auto simp: pending_value_def enqueue_flag_op_def find_append same_key_def pending_key_def
        split: option.splits)
qed

lemma enqueue_frame [store_simps]:
  "messages (enqueue_flag_op a u p f v db) = messages db"
  "folders (enqueue_flag_op a u p f v db) = folders db"
  "remotes (enqueue_flag_op a u p f v db) = remotes db"
  by (simp_all add: enqueue_flag_op_def)

section \<open>Flushing\<close>

lemma settle_frame [store_simps]:
  "messages (settle_op r res db) = messages db" "folders (settle_op r res db) = folders db"
  "remotes (settle_op r res db) = remotes db" "next_id (settle_op r res db) = next_id db"
  by (auto simp: settle_op_def Let_def split: sum.splits)

lemma settle_pending_set:
  assumes "distinct (map p_id (pending db))" "r \<in> set (pending db)" "q \<in> set (pending (settle_op r res db))"
  shows "(q \<in> set (pending db) \<and> p_id q \<noteq> p_id r)
       \<or> (q = r\<lparr>p_attempts := p_attempts r + 1\<rparr> \<and> p_attempts r + 1 < max_flag_push_attempts
          \<and> (\<exists>e. res = Inl e))"
proof -
  have "x = r" if "x \<in> set (pending db)" "p_id x = p_id r" for x
    using that assms(1,2) by (auto simp: distinct_map inj_on_def)
  with assms(3) show ?thesis
    by (auto simp: settle_op_def Let_def split: sum.splits if_splits)
qed

lemma settle_keeps_others:
  assumes "q \<in> set (pending db)" "p_id q \<noteq> p_id r"
  shows "q \<in> set (pending (settle_op r res db))"
  using assms by (force simp: settle_op_def Let_def split: sum.splits)

lemma pending_ok_settle:
  assumes "pending_ok db"
  shows "pending_ok (settle_op r res db)"
proof -
  let ?u = "\<lambda>q. if p_id q = p_id r then q\<lparr>p_attempts := p_attempts r + 1\<rparr> else q"
  have "map p_id (map ?u (pending db)) = map p_id (pending db)"
    and "map pending_key (map ?u (pending db)) = map pending_key (pending db)"
    by (rule map_if_proj, simp)+
  then show ?thesis
    using assms by (auto simp: pending_ok_def settle_op_def Let_def distinct_map_filter
        simp del: map_map split: sum.splits)
qed

context mail_backend
begin

lemma set_flag_pending:
  "set_flag B path uid flag v (db, p) = (res, db', p') \<Longrightarrow> backend_frame db db'"
  using set_flag_frame by (rule keeps_frameD)

lemma flush_ops_pending:
  assumes "pending_ok db" "set rs \<subseteq> set (pending db)" "distinct (map p_id rs)"
    and "flush_ops B rs (db, p) = (db', p')"
  shows "pending_ok db'"
    and "\<forall>q \<in> set (pending db'). (q \<in> set (pending db) \<and> p_id q \<notin> p_id ` set rs)
       \<or> (\<exists>r \<in> set rs. q = r\<lparr>p_attempts := p_attempts r + 1\<rparr> \<and> p_attempts r + 1 < max_flag_push_attempts)"
    and "\<forall>q \<in> set (pending db). p_id q \<notin> p_id ` set rs \<longrightarrow> q \<in> set (pending db')"
    and "messages db' = messages db"
proof -
  have "pending_ok db' \<and> (\<forall>q \<in> set (pending db'). (q \<in> set (pending db) \<and> p_id q \<notin> p_id ` set rs)
       \<or> (\<exists>r \<in> set rs. q = r\<lparr>p_attempts := p_attempts r + 1\<rparr> \<and> p_attempts r + 1 < max_flag_push_attempts))
     \<and> (\<forall>q \<in> set (pending db). p_id q \<notin> p_id ` set rs \<longrightarrow> q \<in> set (pending db'))
     \<and> messages db' = messages db"
    using assms
  proof (induction rs arbitrary: db p)
    case (Cons r rs)
    obtain res db1 p1 where call: "set_flag B (p_path r) (clamp_u32 (p_uid r)) (p_flag r) (p_value r) (db, p)
        = (res, db1, p1)" by (metis prod_cases3)
    have frame: "pending db1 = pending db" "messages db1 = messages db" "next_id db1 = next_id db"
      using set_flag_pending [OF call] by (simp_all add: backend_frame_def)
    let ?db2 = "settle_op r res db1"
    have ok1: "pending_ok db1" using Cons.prems(1) frame by (simp add: pending_ok_def)
    have ok2: "pending_ok ?db2" by (rule pending_ok_settle [OF ok1])
    have sub: "set rs \<subseteq> set (pending ?db2)"
    proof
      fix q assume q: "q \<in> set rs"
      with Cons.prems(3) have "p_id q \<noteq> p_id r" by (auto simp: image_iff)
      then show "q \<in> set (pending ?db2)"
        using settle_keeps_others [of q db1 r res] Cons.prems(2) frame q by auto
    qed
    have run: "flush_ops B rs (?db2, p1) = (db', p')"
      using Cons.prems(4) call by simp
    note IH = Cons.IH [OF ok2 sub _ run]
    have stepped: "(q \<in> set (pending db) \<and> p_id q \<noteq> p_id r)
       \<or> (q = r\<lparr>p_attempts := p_attempts r + 1\<rparr> \<and> p_attempts r + 1 < max_flag_push_attempts)"
      if "q \<in> set (pending ?db2)" for q
      using settle_pending_set [of db1 r q res] that Cons.prems(2) ok1 frame
      by (auto simp: pending_ok_def)
    have keep: "q \<in> set (pending ?db2)" if "q \<in> set (pending db)" "p_id q \<noteq> p_id r" for q
      using settle_keeps_others [of q db1 r res] that frame by simp
    have rid: "p_id r \<notin> p_id ` set rs" using Cons.prems(3) by simp
    have ih: "pending_ok db'" "messages db' = messages ?db2"
      "\<And>q. q \<in> set (pending db') \<Longrightarrow> (q \<in> set (pending ?db2) \<and> p_id q \<notin> p_id ` set rs)
       \<or> (\<exists>x \<in> set rs. q = x\<lparr>p_attempts := p_attempts x + 1\<rparr> \<and> p_attempts x + 1 < max_flag_push_attempts)"
      "\<And>q. q \<in> set (pending ?db2) \<Longrightarrow> p_id q \<notin> p_id ` set rs \<Longrightarrow> q \<in> set (pending db')"
      using IH Cons.prems(3) by auto
    have "(q \<in> set (pending db) \<and> p_id q \<notin> p_id ` set (r # rs))
       \<or> (\<exists>x \<in> set (r # rs). q = x\<lparr>p_attempts := p_attempts x + 1\<rparr> \<and> p_attempts x + 1 < max_flag_push_attempts)"
      if "q \<in> set (pending db')" for q
      using ih(3) [OF that] stepped [of q] by auto
    moreover have "q \<in> set (pending db')" if "q \<in> set (pending db)" "p_id q \<notin> p_id ` set (r # rs)" for q
      using ih(4) [of q] keep [of q] that by auto
    ultimately show ?case using ih(1,2) frame by (simp add: store_simps)
  qed simp
  then show "pending_ok db'"
    and "\<forall>q \<in> set (pending db'). (q \<in> set (pending db) \<and> p_id q \<notin> p_id ` set rs)
       \<or> (\<exists>r \<in> set rs. q = r\<lparr>p_attempts := p_attempts r + 1\<rparr> \<and> p_attempts r + 1 < max_flag_push_attempts)"
    and "\<forall>q \<in> set (pending db). p_id q \<notin> p_id ` set rs \<longrightarrow> q \<in> set (pending db')"
    and "messages db' = messages db" by blast+
qed


lemma flush_pending:
  assumes "pending_ok db" "flush_pending_flags B acct (db, p) = (db', p')"
  shows "pending_ok db'" and "messages db' = messages db"
    and "\<And>q. q \<in> set (pending db') \<Longrightarrow> p_account q = acct \<Longrightarrow>
       \<exists>r \<in> set (pending db). q = r\<lparr>p_attempts := p_attempts r + 1\<rparr> \<and> p_attempts q < max_flag_push_attempts"
    and "\<And>q. p_account q \<noteq> acct \<Longrightarrow> (q \<in> set (pending db') \<longleftrightarrow> q \<in> set (pending db))"
proof -
  let ?rs = "pending_flag_ops acct db"
  have run: "flush_ops B ?rs (db, p) = (db', p')"
    using assms(2) by (simp add: flush_pending_flags_def)
  have set_rs: "set ?rs = {r \<in> set (pending db). p_account r = acct}"
    by (auto simp: pending_flag_ops_def)
  have "distinct (map p_id (filter (\<lambda>r. p_account r = acct) (pending db)))"
    using assms(1) by (simp add: pending_ok_def distinct_map_filter)
  then have dist: "distinct (map p_id ?rs)"
    by (simp add: pending_flag_ops_def distinct_map)
  have uniq: "q = r" if "q \<in> set (pending db)" "r \<in> set (pending db)" "p_id q = p_id r" for q r
    using assms(1) that by (auto simp: pending_ok_def distinct_map inj_on_def)
  have sub: "set ?rs \<subseteq> set (pending db)" using set_rs by blast
  note facts = flush_ops_pending [OF assms(1) sub dist run]
  show "pending_ok db'" "messages db' = messages db" by (fact facts)+
  show "\<exists>r \<in> set (pending db). q = r\<lparr>p_attempts := p_attempts r + 1\<rparr> \<and> p_attempts q < max_flag_push_attempts"
    if q: "q \<in> set (pending db')" "p_account q = acct" for q
  proof -
    have "\<not> (q \<in> set (pending db) \<and> p_id q \<notin> p_id ` set ?rs)"
      using set_rs q(2) by blast
    then obtain r where r: "r \<in> set ?rs" "q = r\<lparr>p_attempts := p_attempts r + 1\<rparr>"
      "p_attempts r + 1 < max_flag_push_attempts"
      using facts(2) q(1) by blast
    from r(2,3) have "p_attempts q < max_flag_push_attempts" by simp
    with r(1,2) sub show ?thesis by blast
  qed
  show "q \<in> set (pending db') \<longleftrightarrow> q \<in> set (pending db)" if "p_account q \<noteq> acct" for q
  proof
    assume "q \<in> set (pending db')"
    moreover have "p_account r = acct" if "r \<in> set ?rs" for r using that set_rs by blast
    ultimately show "q \<in> set (pending db)" using facts(2) that by fastforce
  next
    assume q: "q \<in> set (pending db)"
    have "p_id q \<notin> p_id ` set ?rs" using uniq [OF q] that set_rs by fastforce
    then show "q \<in> set (pending db')" using facts(3) q by blast
  qed
qed

text \<open>
  However often the server refuses, the outbox of an account drains: after \<open>n\<close> cycles every
  remaining row has been tried at least \<open>n\<close> times, and ten tries are the limit.
\<close>

lemma flush_iterated:
  assumes "pending_ok db" "\<forall>q \<in> set (pending db). 0 \<le> p_attempts q"
  shows "pending_ok (fst ((flush_pending_flags B acct ^^ n) (db, p)))
    \<and> messages (fst ((flush_pending_flags B acct ^^ n) (db, p))) = messages db
    \<and> (\<forall>q \<in> set (pending (fst ((flush_pending_flags B acct ^^ n) (db, p)))).
         p_account q = acct \<longrightarrow> int n \<le> p_attempts q \<and> (0 < n \<longrightarrow> p_attempts q < max_flag_push_attempts))"
proof (induction n)
  case 0
  show ?case using assms by simp
next
  case (Suc n)
  obtain db1 p1 where s: "(flush_pending_flags B acct ^^ n) (db, p) = (db1, p1)" by fastforce
  obtain db2 p2 where t: "flush_pending_flags B acct (db1, p1) = (db2, p2)" by fastforce
  have ok: "pending_ok db1" and low: "\<forall>q \<in> set (pending db1). p_account q = acct \<longrightarrow> int n \<le> p_attempts q"
    and msgs: "messages db1 = messages db"
    using Suc s by auto
  note facts = flush_pending [OF ok t]
  have "int (Suc n) \<le> p_attempts q \<and> p_attempts q < max_flag_push_attempts"
    if q: "q \<in> set (pending db2)" "p_account q = acct" for q
  proof -
    obtain r where r: "r \<in> set (pending db1)" "q = r\<lparr>p_attempts := p_attempts r + 1\<rparr>"
      "p_attempts q < max_flag_push_attempts"
      using facts(3) [OF q] by blast
    with q(2) low show ?thesis by auto
  qed
  then show ?case using facts(1,2) msgs s t by simp
qed

lemma outbox_drains:
  assumes "pending_ok db" "\<forall>q \<in> set (pending db). 0 \<le> p_attempts q"
  shows "\<forall>q \<in> set (pending (fst ((flush_pending_flags B acct ^^ 10) (db, p)))). p_account q \<noteq> acct"
  using flush_iterated [OF assms, where acct = acct and n = 10 and p = p] by (auto simp: max_flag_push_attempts_def)

end

section \<open>A concurrent change is dropped by a confirmed push\<close>

text \<open>
  The flush reads the outbox once and deletes each row by its id when the server has confirmed
  the value read.  A change the user makes between the read and the delete rewrites the value of
  the same row, which keeps its id.
\<close>

lemma settle_drops_newer_change:
  assumes "pending_ok db" "r \<in> set (pending db)"
  shows "pending_value (settle_op r (Inr ()) (enqueue_flag_op (p_account r) (p_uid r) (p_path r) (p_flag r) v db))
      (p_account r) (p_path r) (p_uid r) (p_flag r) = None"
proof -
  let ?k = "same_key (p_account r) (p_path r) (p_uid r) (p_flag r)"
  have ex: "\<exists>q \<in> set (pending db). ?k q" using assms(2) by (auto simp: same_key_def pending_key_def)
  have uniq: "p_id q = p_id r" if "q \<in> set (pending db)" "?k q" for q
    using that assms by (auto simp: same_key_def pending_key_def pending_ok_def distinct_map inj_on_def)
  show ?thesis
    using ex uniq by (auto simp: pending_value_def settle_op_def enqueue_flag_op_def find_None_eq)
qed

section \<open>Reconciliation, row by row\<close>

lemma note_pending_at:
  "(note_pending r m uid = None) = (p_uid r \<noteq> uid \<and> m uid = None)"
  "pending_entry (note_pending r m) uid =
     (if p_uid r = uid
      then (p_flag r = ''seen'' \<or> fst (pending_entry m uid), p_flag r = ''flagged'' \<or> snd (pending_entry m uid))
      else pending_entry m uid)"
  by (auto simp: note_pending_def pending_entry_def split: option.splits prod.splits)

lemma fold_note_pending:
  "fold note_pending rs m uid =
      (if (\<exists>r \<in> set rs. p_uid r = uid) \<or> m uid \<noteq> None
       then Some ((\<exists>r \<in> set rs. p_uid r = uid \<and> p_flag r = ''seen'') \<or> fst (pending_entry m uid),
                  (\<exists>r \<in> set rs. p_uid r = uid \<and> p_flag r = ''flagged'') \<or> snd (pending_entry m uid))
       else None)"
proof (induction rs arbitrary: m)
  case Nil
  then show ?case by (cases "m uid") (auto simp: pending_entry_def)
next
  case (Cons r rs)
  show ?case
    unfolding fold_simps comp_apply Cons.IH
    by (cases "p_uid r = uid") (simp_all add: note_pending_at disj_ac)
qed

lemma pending_entry_eq:
  "pending_entry (pending_flags_by_uid acct path db) uid =
     ((\<exists>r \<in> set (pending db). same_key acct path uid ''seen'' r),
      (\<exists>r \<in> set (pending db). same_key acct path uid ''flagged'' r))"
proof -
  let ?rows = "filter (\<lambda>r. p_account r = acct \<and> p_path r = path) (pending db)"
  have key: "(\<exists>r \<in> set ?rows. p_uid r = uid \<and> p_flag r = flag)
      = (\<exists>r \<in> set (pending db). same_key acct path uid flag r)" for flag
    by (auto simp: same_key_def pending_key_def)
  show ?thesis
  proof (cases "\<exists>r \<in> set ?rows. p_uid r = uid")
    case True
    then have "pending_flags_by_uid acct path db uid =
        Some ((\<exists>r \<in> set ?rows. p_uid r = uid \<and> p_flag r = ''seen''),
              (\<exists>r \<in> set ?rows. p_uid r = uid \<and> p_flag r = ''flagged''))"
      unfolding pending_flags_by_uid_def fold_note_pending by (simp add: pending_entry_def)
    then show ?thesis unfolding key by (simp add: pending_entry_def)
  next
    case False
    then have "pending_flags_by_uid acct path db uid = None"
      unfolding pending_flags_by_uid_def fold_note_pending by simp
    moreover have "\<not> (\<exists>r \<in> set (pending db). same_key acct path uid flag r)" for flag
      using False unfolding key [symmetric] by blast
    ultimately show ?thesis by (simp add: pending_entry_def)
  qed
qed

text \<open>What a row becomes under an authoritative answer \<open>sv\<close> for its uid range.\<close>

definition row_flags :: "message_row \<Rightarrow> flags" where
  "row_flags m = (m_read m, m_flagged m, m_deleted m)"

definition reconciled_row ::
  "(nat \<rightharpoonup> flags) \<Rightarrow> (int \<rightharpoonup> bool \<times> bool) \<Rightarrow> message_row \<Rightarrow> message_row"
where
  "reconciled_row sv pend m =
     (case sv (nat (m_uid m)) of
        None \<Rightarrow> m\<lparr>m_deleted := True\<rparr>
      | Some fl \<Rightarrow> set_flags_row (merge_flags (pending_entry pend (m_uid m)) (row_flags m) fl) m)"

lemma messages_fold_update:
  "messages (fold (\<lambda>x. db_update (P x) (g x)) xs db)
     = map (fold (\<lambda>x m. if P x m then g x m else m) xs) (messages db)"
  by (induction xs arbitrary: db) (simp_all add: store_simps comp_def)

lemma fold_update_frame:
  "pending (fold (\<lambda>x. db_update (P x) (g x)) xs db) = pending db"
  "remotes (fold (\<lambda>x. db_update (P x) (g x)) xs db) = remotes db"
  "accounts (fold (\<lambda>x. db_update (P x) (g x)) xs db) = accounts db"
  "next_id (fold (\<lambda>x. db_update (P x) (g x)) xs db) = next_id db"
  "counts_ok db \<Longrightarrow> counts_ok (fold (\<lambda>x. db_update (P x) (g x)) xs db)"
  by (induction xs arbitrary: db) (simp_all add: store_simps counts_ok_update)

lemma set_flags_row_frame [simp]:
  "m_folder (set_flags_row fl m) = m_folder m" "m_uid (set_flags_row fl m) = m_uid m"
  "m_id (set_flags_row fl m) = m_id m" "m_account (set_flags_row fl m) = m_account m"
  by (simp_all add: set_flags_row_def)

lemma reconciled_row_frame [simp]:
  "m_folder (reconciled_row sv pend m) = m_folder m" "m_uid (reconciled_row sv pend m) = m_uid m"
  "m_id (reconciled_row sv pend m) = m_id m"
  by (simp_all add: reconciled_row_def split: option.splits)

lemma set_flags_row_unchanged:
  "row_flags m = effective_flags (row_flags m) fl \<Longrightarrow> set_flags_row fl m = m"
  by (auto simp: row_flags_def effective_flags_def set_flags_row_def)

lemma fold_changed_row:
  assumes "distinct (map fst changed)"
  shows "fold (\<lambda>x m. if m_folder m = fid \<and> m_uid m = int (fst x) then set_flags_row (snd x) m else m) changed m
    = (if m_folder m = fid \<and> 0 \<le> m_uid m
       then (case map_of changed (nat (m_uid m)) of Some fl \<Rightarrow> set_flags_row fl m | None \<Rightarrow> m)
       else m)"
  using assms
proof (induction changed arbitrary: m)
  case (Cons x changed)
  have none: "map_of changed (fst x) = None" using Cons.prems by (simp add: map_of_eq_None_iff)
  show ?case
  proof (cases "m_folder m = fid \<and> m_uid m = int (fst x)")
    case True
    then show ?thesis using Cons.IH [of "set_flags_row (snd x) m"] Cons.prems none
      by (cases x) simp
  next
    case False
    then have "nat (m_uid m) \<noteq> fst x" if "m_folder m = fid" "0 \<le> m_uid m" using that by auto
    then show ?thesis using False Cons.IH [of m] Cons.prems by (cases x) simp
  qed
qed simp

lemma fold_expunged_row:
  "fold (\<lambda>u m. if m_folder m = fid \<and> m_uid m = u then m\<lparr>m_deleted := True\<rparr> else m) uids m
    = (if m_folder m = fid \<and> m_uid m \<in> set uids then m\<lparr>m_deleted := True\<rparr> else m)"
proof (induction uids arbitrary: m)
  case (Cons u uids)
  show ?case
  proof (cases "m_folder m = fid \<and> m_uid m = u")
    case True
    with Cons.IH [of "m\<lparr>m_deleted := True\<rparr>"] show ?thesis by simp
  next
    case False
    with Cons.IH [of m] show ?thesis by (cases "m_folder m = fid") simp_all
  qed
qed simp

lemma changed_fst_subset: "fst ` set (changed_message_flags server stored pend) \<subseteq> fst ` set server"
proof (induction server stored pend rule: changed_message_flags.induct)
  case (2 uid fl server stored pend)
  then show ?case
    by (cases "stored (int uid)") (simp_all add: Let_def subset_insertI2)
qed simp

lemma changed_distinct:
  "distinct (map fst server) \<Longrightarrow> distinct (map fst (changed_message_flags server stored pend))"
proof (induction server stored pend rule: changed_message_flags.induct)
  case (2 uid fl server stored pend)
  have "uid \<notin> fst ` set server" using 2(4) by simp
  then have "uid \<notin> fst ` set (changed_message_flags server stored pend)"
    using changed_fst_subset [of server stored pend] by blast
  with 2 show ?case by (simp add: Let_def split: option.splits)
qed simp

lemma map_of_changed:
  assumes "distinct (map fst server)"
  shows "map_of (changed_message_flags server stored pend) u =
    (case map_of server u of
       None \<Rightarrow> None
     | Some fl \<Rightarrow>
         (case stored (int u) of
            None \<Rightarrow> None
          | Some st \<Rightarrow>
              (let new = merge_flags (pending_entry pend (int u)) st fl in
               if st \<noteq> effective_flags st new then Some new else None)))"
  using assms
proof (induction server stored pend rule: changed_message_flags.induct)
  case (2 uid fl server stored pend)
  show ?case
  proof (cases "u = uid")
    case True
    have "uid \<notin> fst ` set server" using 2(4) by simp
    then have "uid \<notin> fst ` set (changed_message_flags server stored pend)"
      using changed_fst_subset [of server stored pend] by blast
    then have "map_of (changed_message_flags server stored pend) uid = None"
      by (simp add: map_of_eq_None_iff)
    then show ?thesis using True by (simp add: Let_def split: option.splits)
  next
    case False
    with 2 show ?thesis by (simp add: Let_def split: option.splits)
  qed
qed simp

lemma in_folder_unique:
  "uids_ok db \<Longrightarrow> x \<in> set (messages db) \<Longrightarrow> m \<in> set (messages db) \<Longrightarrow> m_folder x = m_folder m \<Longrightarrow>
   m_uid x = m_uid m \<Longrightarrow> x = m"
  by (auto simp: uids_ok_def distinct_map inj_on_def)

lemma stored_flags_lookup:
  assumes "uids_ok db" "m \<in> set (messages db)" "in_range fid a b m"
  shows "map_of (stored_flags db fid a b) (m_uid m) = Some (row_flags m)"
proof (rule map_of_is_SomeI)
  let ?ms = "filter (in_range fid a b) (messages db)"
  have "distinct ?ms"
    using assms(1) by (simp add: uids_ok_def distinct_map)
  moreover have "inj_on m_uid (set ?ms)"
    using in_folder_unique [OF assms(1)] by (auto intro!: inj_onI simp: in_range_def)
  ultimately show "distinct (map fst (stored_flags db fid a b))"
    by (simp add: stored_flags_def comp_def distinct_map)
  show "(m_uid m, row_flags m) \<in> set (stored_flags db fid a b)"
    using assms(2,3) by (auto simp: stored_flags_def row_flags_def)
qed

lemma expunged_iff:
  assumes "uids_ok db" "m \<in> set (messages db)" "in_range fid a b m"
  shows "m_uid m \<in> set (expunged_uids flags (stored_flags db fid a b))
     \<longleftrightarrow> \<not> m_deleted m \<and> map_of flags (nat (m_uid m)) = None"
proof -
  have uniq: "x = m" if "x \<in> set (messages db)" "in_range fid a b x" "m_uid x = m_uid m" for x
    using that assms in_folder_unique [OF assms(1)] by (auto simp: in_range_def)
  have mem: "m_uid m \<in> set (map (int \<circ> fst) flags) \<longleftrightarrow> map_of flags (nat (m_uid m)) \<noteq> None"
  proof -
    have "m_uid m = int (nat (m_uid m))" using assms(3) by (simp add: in_range_def)
    then have "m_uid m \<in> int ` A \<longleftrightarrow> nat (m_uid m) \<in> A" for A
      by (metis image_eqI image_iff nat_int)
    moreover have "set (map (int \<circ> fst) flags) = int ` (fst ` set flags)"
      by (simp add: image_comp)
    ultimately show ?thesis by (simp only: map_of_eq_None_iff) simp
  qed
  have exp: "set (expunged_uids flags (map (\<lambda>m. (m_uid m, m_read m, m_flagged m, m_deleted m)) ms)) =
      m_uid ` {x \<in> set ms. \<not> m_deleted x \<and> m_uid x \<notin> set (map (int \<circ> fst) flags)}" for ms
    by (induction ms) (auto simp: expunged_uids_def)
  have "m_uid m \<in> set (expunged_uids flags (stored_flags db fid a b)) \<longleftrightarrow>
     (\<exists>x \<in> set (messages db). in_range fid a b x \<and> m_uid x = m_uid m \<and> \<not> m_deleted x
        \<and> m_uid x \<notin> set (map (int \<circ> fst) flags))"
    unfolding stored_flags_def exp by (auto intro: rev_image_eqI)
  then show ?thesis using uniq assms(2,3) mem by metis
qed

lemma messages_apply:
  assumes "distinct (map fst changed)"
  shows "messages (apply_expunged fid uids (apply_changed fid changed db)) =
    map (\<lambda>m. let m' = (if m_folder m = fid \<and> 0 \<le> m_uid m
                then (case map_of changed (nat (m_uid m)) of Some fl \<Rightarrow> set_flags_row fl m | None \<Rightarrow> m)
                else m)
             in if m_folder m = fid \<and> m_uid m \<in> set uids then m'\<lparr>m_deleted := True\<rparr> else m') (messages db)"
  unfolding apply_expunged_def apply_changed_def messages_fold_update
  by (simp add: fold_expunged_row fold_changed_row [OF assms] Let_def split: option.splits)

lemma reconcile_chunk_messages:
  assumes "uids_ok db" "distinct (map fst flags)"
  shows "messages (reconcile_chunk fid a b pend flags db) =
    map (\<lambda>m. if in_range fid a b m then reconciled_row (map_of flags) pend m else m) (messages db)"
proof -
  let ?st = "stored_flags db fid a b"
  let ?ch = "changed_message_flags flags (map_of ?st) pend" and ?ex = "expunged_uids flags ?st"
  have dist: "distinct (map fst ?ch)" using assms(2) by (rule changed_distinct)
  have row: "(let m' = (if m_folder m = fid \<and> 0 \<le> m_uid m
                then (case map_of ?ch (nat (m_uid m)) of Some fl \<Rightarrow> set_flags_row fl m | None \<Rightarrow> m) else m)
             in if m_folder m = fid \<and> m_uid m \<in> set ?ex then m'\<lparr>m_deleted := True\<rparr> else m')
      = (if in_range fid a b m then reconciled_row (map_of flags) pend m else m)"
    if m: "m \<in> set (messages db)" for m
  proof (cases "in_range fid a b m")
    case True
    then have pos: "m_folder m = fid" "0 \<le> m_uid m" by (auto simp: in_range_def)
    have st: "map_of ?st (int (nat (m_uid m))) = Some (row_flags m)"
      using stored_flags_lookup [OF assms(1) m True] pos by simp
    have ex: "m_uid m \<in> set ?ex \<longleftrightarrow> \<not> m_deleted m \<and> map_of flags (nat (m_uid m)) = None"
      by (rule expunged_iff [OF assms(1) m True])
    show ?thesis
    proof (cases "map_of flags (nat (m_uid m))")
      case None
      then show ?thesis
        using True pos ex by (auto simp: map_of_changed [OF assms(2)] reconciled_row_def)
    next
      case (Some fl)
      then show ?thesis
        using True pos ex st set_flags_row_unchanged [of m]
        by (auto simp: map_of_changed [OF assms(2)] reconciled_row_def Let_def simp del: nat_eq_iff)
    qed
  next
    case False
    have "map_of ?ch (nat (m_uid m)) = None" if "m_folder m = fid" "0 \<le> m_uid m"
    proof -
      have "m_uid m \<notin> fst ` set ?st"
        using False that by (auto simp: stored_flags_def in_range_def)
      then have "map_of ?st (m_uid m) = None" by (simp add: map_of_eq_None_iff)
      then show ?thesis using that by (simp add: map_of_changed [OF assms(2)] split: option.splits)
    qed
    moreover have "m_folder m = fid \<Longrightarrow> m_uid m \<notin> set ?ex"
      using False by (auto simp: expunged_uids_def stored_flags_def in_range_def)
    ultimately show ?thesis using False by auto
  qed
  have applied: "messages (apply_expunged fid ?ex (apply_changed fid ?ch db)) =
    map (\<lambda>m. if in_range fid a b m then reconciled_row (map_of flags) pend m else m) (messages db)"
    unfolding messages_apply [OF dist] by (rule map_cong [OF refl row])
  show ?thesis
  proof (cases "?ch = [] \<and> ?ex = []")
    case True
    then have "messages (apply_expunged fid ?ex (apply_changed fid ?ch db)) = messages db"
      by (simp add: apply_expunged_def apply_changed_def)
    with applied True show ?thesis by (simp add: reconcile_chunk_def Let_def)
  next
    case False
    with applied show ?thesis unfolding reconcile_chunk_def Let_def by (simp only: if_False)
  qed
qed

lemma reconcile_chunk_frame:
  "pending (reconcile_chunk fid a b pend flags db) = pending db"
  "remotes (reconcile_chunk fid a b pend flags db) = remotes db"
  "accounts (reconcile_chunk fid a b pend flags db) = accounts db"
  "next_id (reconcile_chunk fid a b pend flags db) = next_id db"
  "counts_ok db \<Longrightarrow> counts_ok (reconcile_chunk fid a b pend flags db)"
  by (simp_all add: reconcile_chunk_def Let_def apply_expunged_def apply_changed_def fold_update_frame)

lemma reconcile_chunk_keys:
  "uids_ok db \<Longrightarrow> distinct (map fst flags) \<Longrightarrow> uids_ok (reconcile_chunk fid a b pend flags db)"
  unfolding uids_ok_def [of "reconcile_chunk _ _ _ _ _ _"]
  by (simp add: reconcile_chunk_messages) (simp add: uids_ok_def comp_def if_distrib cong: if_cong)

lemma reconcile_loop_step:
  assumes "start \<le> up_to" "up_to \<le> u32_max" "e = min (saturating_add_u32 start (flag_chunk - 1)) up_to"
  shows "reconcile_loop B fid path pend up_to start s =
    (case fetch_flags B path (uid_range start e) s of
       (Inl err, db', p') \<Rightarrow> (Inl err, db', p')
     | (Inr flags, db', p') \<Rightarrow>
         if up_to \<le> e then (Inr (), reconcile_chunk fid start e pend flags db', p')
         else reconcile_loop B fid path pend up_to (e + 1) (reconcile_chunk fid start e pend flags db', p'))"
  using assms(1,2) unfolding assms(3) by (simp only: reconcile_loop.simps [of _ _ _ _ _ start] Let_def simp_thms if_True)

lemma reconcile_loop_done: "up_to < start \<Longrightarrow> reconcile_loop B fid path pend up_to start s = (Inr (), s)"
  by (simp add: reconcile_loop.simps)

text \<open>
  The reconciliation of a whole folder, for a server that answers flag requests: \<open>view s path\<close> is
  what it holds for the folder.  Fetching a range returns exactly that range of it, and leaves the
  uids beyond the range alone (an API backend may forget a vanished message it just reported).
\<close>

locale flag_server = mail_backend +
  fixes ok :: "mail_db \<Rightarrow> bool"
    and view :: "mail_db \<times> 'a \<Rightarrow> string \<Rightarrow> nat \<Rightarrow> flags option"
  assumes fetched_distinct:
      "ok (fst s) \<Longrightarrow> fetch_flags B path (uid_range a b) s = (Inr fl, s') \<Longrightarrow> a \<le> b \<Longrightarrow> b \<le> u32_max \<Longrightarrow> distinct (map fst fl)"
    and fetched_view:
      "ok (fst s) \<Longrightarrow> fetch_flags B path (uid_range a b) s = (Inr fl, s') \<Longrightarrow> a \<le> b \<Longrightarrow> b \<le> u32_max \<Longrightarrow> a \<le> u \<Longrightarrow> u \<le> b \<Longrightarrow>
       map_of fl u = view s path u"
    and view_beyond:
      "ok (fst s) \<Longrightarrow> fetch_flags B path (uid_range a b) s = (Inr fl, s') \<Longrightarrow> a \<le> b \<Longrightarrow> b \<le> u32_max \<Longrightarrow> b < u \<Longrightarrow>
       view s' path u = view s path u"
    and fetched_ok:
      "ok (fst s) \<Longrightarrow> fetch_flags B path (uid_range a b) s = (Inr fl, s') \<Longrightarrow> ok (fst s')"
    and view_remotes: "remotes db = remotes db' \<Longrightarrow> view (db, p) = view (db', p)"
    and ok_remotes: "remotes db = remotes db' \<Longrightarrow> ok db = ok db'"
begin

lemma reconcile_step_messages:
  assumes ok: "uids_ok db" "ok db" and call: "fetch_flags B path (uid_range a b) (db, p) = (Inr flags, db1, p1)"
    and b: "a \<le> b" "b \<le> u32_max"
  shows "messages (reconcile_chunk fid a b pend flags db1) =
      map (\<lambda>m. if in_range fid a b m then reconciled_row (view (db, p) path) pend m else m) (messages db)"
    and "uids_ok (reconcile_chunk fid a b pend flags db1)"
    and "\<And>u. b < u \<Longrightarrow> view (reconcile_chunk fid a b pend flags db1, p1) path u = view (db, p) path u"
    and "ok (reconcile_chunk fid a b pend flags db1)"
proof -
  have ok': "ok (fst (db, p))" using ok(2) by simp
  have frame: "messages db1 = messages db" "uids_ok db1"
    using keeps_frameD [OF fetch_flags_frame call] backend_frame_keys(2) [of db db1] ok(1)
    by (simp_all add: backend_frame_def)
  have dist: "distinct (map fst flags)" using ok' call b by (rule fetched_distinct)
  have "reconciled_row (map_of flags) pend m = reconciled_row (view (db, p) path) pend m"
    if "in_range fid a b m" for m
  proof -
    have "a \<le> nat (m_uid m)" "nat (m_uid m) \<le> b" using that by (auto simp: in_range_def)
    then have "map_of flags (nat (m_uid m)) = view (db, p) path (nat (m_uid m))"
      by (rule fetched_view [OF ok' call b])
    then show ?thesis by (simp add: reconciled_row_def)
  qed
  then show "messages (reconcile_chunk fid a b pend flags db1) =
      map (\<lambda>m. if in_range fid a b m then reconciled_row (view (db, p) path) pend m else m) (messages db)"
    unfolding reconcile_chunk_messages [OF frame(2) dist] frame(1) by simp
  show "uids_ok (reconcile_chunk fid a b pend flags db1)"
    by (rule reconcile_chunk_keys [OF frame(2) dist])
  show "view (reconcile_chunk fid a b pend flags db1, p1) path u = view (db, p) path u" if "b < u" for u
    using view_beyond [OF ok' call b that] view_remotes [of "reconcile_chunk fid a b pend flags db1" db1 p1]
    by (simp add: reconcile_chunk_frame)
  show "ok (reconcile_chunk fid a b pend flags db1)"
    using fetched_ok [OF ok' call] ok_remotes [of "reconcile_chunk fid a b pend flags db1" db1]
    by (simp add: reconcile_chunk_frame)
qed

lemma reconcile_loop_messages:
  assumes "up_to \<le> u32_max" "uids_ok db" "ok db" "reconcile_loop B fid path pend up_to start (db, p) = (Inr (), s')"
  shows "messages (fst s') =
     map (\<lambda>m. if in_range fid start up_to m then reconciled_row (view (db, p) path) pend m else m) (messages db)"
  using assms(2-4)
proof (induction "up_to + 1 - start" arbitrary: start db p rule: less_induct)
  case less
  show ?case
  proof (cases "start \<le> up_to")
    case False
    then have "\<not> in_range fid start up_to m" for m by (auto simp: in_range_def)
    then show ?thesis using False less.prems by (auto simp: reconcile_loop_done)
  next
    case True
    obtain e where e_eq: "e = min (saturating_add_u32 start (flag_chunk - 1)) up_to" by blast
    then have e: "start \<le> e" "e \<le> up_to"
      using True assms(1) by (auto simp: saturating_add_u32_def flag_chunk_def)
    note unfold = reconcile_loop_step [OF True assms(1) e_eq]
    obtain flags db1 p1 where call: "fetch_flags B path (uid_range start e) (db, p) = (Inr flags, db1, p1)"
      using less.prems(3) by (auto simp: unfold split: sum.splits prod.splits)
    let ?db2 = "reconcile_chunk fid start e pend flags db1"
    have eb: "e \<le> u32_max" using e(2) assms(1) by simp
    note step = reconcile_step_messages [OF less.prems(1,2) call e(1) eb, where fid = fid and pend = pend]
    show ?thesis
    proof (cases "up_to \<le> e")
      case True
      then have "e = up_to" using e by simp
      then show ?thesis
        using less.prems(3) call step(1) by (auto simp: unfold)
    next
      case False
      then have rec: "reconcile_loop B fid path pend up_to (e + 1) (?db2, p1) = (Inr (), s')"
        using less.prems(3) call by (simp add: unfold)
      have smaller: "up_to + 1 - (e + 1) < up_to + 1 - start" using e False by simp
      have IH: "messages (fst s') = map (\<lambda>m. if in_range fid (e + 1) up_to m
          then reconciled_row (view (?db2, p1) path) pend m else m) (messages ?db2)"
        by (rule less.hyps [OF smaller step(2) step(4) rec])
      have tail: "reconciled_row (view (?db2, p1) path) pend m = reconciled_row (view (db, p) path) pend m"
        if "in_range fid (e + 1) up_to m" for m
      proof -
        have "e < nat (m_uid m)" using that by (simp add: in_range_def) linarith
        then show ?thesis using step(3) by (simp add: reconciled_row_def)
      qed
      show ?thesis
        unfolding IH step(1) list.map_comp
      proof (rule map_cong [OF refl])
        fix m assume "m \<in> set (messages db)"
        show "((\<lambda>m. if in_range fid (e + 1) up_to m then reconciled_row (view (?db2, p1) path) pend m else m)
              \<circ> (\<lambda>m. if in_range fid start e m then reconciled_row (view (db, p) path) pend m else m)) m
            = (if in_range fid start up_to m then reconciled_row (view (db, p) path) pend m else m)"
          using tail e by (auto simp: in_range_def)
      qed
    qed
  qed
qed

lemma reconcile_flags_refines:
  assumes "up_to \<le> u32_max" "uids_ok db" "ok db" "reconcile_flags B acct fid path up_to (db, p) = (Inr (), db', p')"
  shows "messages db' = map (\<lambda>m. if in_range fid 1 up_to m
      then reconciled_row (view (db, p) path) (pending_flags_by_uid acct path db) m else m) (messages db)"
  using reconcile_loop_messages [OF assms(1-3), where start = 1] assms(4)
  by (fastforce simp: reconcile_flags_def)

end

end
