(* ===== verification/IdMap.thy ===== *)
theory IdMap
  imports Provider
begin

text \<open>
  The map between the string ids of an API backend and the integer uids of the sync pipeline
  (backend/mail-sync/src/provider/idmap.rs), kept in the table \<open>remote_message_ids\<close>.
\<close>

section \<open>Operations\<close>

definition in_map :: "string \<Rightarrow> string \<Rightarrow> remote_row \<Rightarrow> bool" where
  "in_map acct path r = (r_account r = acct \<and> r_path r = path)"

definition map_rows :: "string \<Rightarrow> string \<Rightarrow> mail_db \<Rightarrow> remote_row list" where
  "map_rows acct path db = filter (in_map acct path) (remotes db)"

definition known_ids :: "string \<Rightarrow> string \<Rightarrow> mail_db \<Rightarrow> string set" where
  "known_ids acct path db = set (map r_remote (map_rows acct path db))"

record backfill =
  bf_page_token :: "string option"
  bf_complete :: bool

definition backfill_state :: "string \<Rightarrow> string \<Rightarrow> mail_db \<Rightarrow> provider_error + backfill" where
  "backfill_state acct path db =
     (case folder_at db acct path of
        None \<Rightarrow> Inl (Other (''folder not found for backfill state: '' @ path))
      | Some f \<Rightarrow> Inr \<lparr>bf_page_token = f_page_token f, bf_complete = f_backfill_complete f\<rparr>)"

definition set_backfill_state :: "string \<Rightarrow> string \<Rightarrow> string option \<Rightarrow> bool \<Rightarrow> mail_db \<Rightarrow> mail_db" where
  "set_backfill_state acct path token complete db =
     db\<lparr>folders := map (\<lambda>f. if f_account f = acct \<and> f_path f = path
        then f\<lparr>f_page_token := token, f_backfill_complete := complete\<rparr> else f) (folders db)\<rparr>"

definition max_uid :: "string \<Rightarrow> string \<Rightarrow> mail_db \<Rightarrow> nat" where
  "max_uid acct path db =
     (let uids = map r_uid (map_rows acct path db) in
      clamp_u32 (if uids = [] then 0 else fold max uids (hd uids)))"

definition row_conflicts :: "remote_row \<Rightarrow> remote_row \<Rightarrow> bool" where
  "row_conflicts r q = (r_account q = r_account r \<and> r_path q = r_path r
      \<and> (r_uid q = r_uid r \<or> r_remote q = r_remote r))"

text \<open>\<open>INSERT OR IGNORE\<close>: a row that violates either key is skipped.\<close>

definition insert_or_ignore :: "remote_row \<Rightarrow> mail_db \<Rightarrow> mail_db" where
  "insert_or_ignore r db =
     (if \<exists>q \<in> set (remotes db). row_conflicts r q then db else db\<lparr>remotes := remotes db @ [r]\<rparr>)"

definition assign_batch_size :: nat where
  "assign_batch_size = 500"

fun insert_chunk :: "string \<Rightarrow> string \<Rightarrow> nat \<Rightarrow> string list \<Rightarrow> mail_db \<Rightarrow> mail_db" where
  "insert_chunk acct path uid [] db = db"
| "insert_chunk acct path uid (x # xs) db =
     insert_chunk acct path (uid + 1) xs
       (insert_or_ignore \<lparr>r_account = acct, r_path = path, r_uid = int uid, r_remote = x\<rparr> db)"

definition uid_space_exhausted :: provider_error where
  "uid_space_exhausted = Other ''remote id uid space exhausted''"

fun assign_chunks ::
  "string \<Rightarrow> string \<Rightarrow> nat \<Rightarrow> string list list \<Rightarrow> mail_db \<Rightarrow> (provider_error + unit) \<times> mail_db"
where
  "assign_chunks acct path uid [] db = (Inr (), db)"
| "assign_chunks acct path uid (c # cs) db =
     (case checked_add_u32 uid 1 of
        None \<Rightarrow> (Inl uid_space_exhausted, db)
      | Some first_uid \<Rightarrow>
          (case checked_add_u32 uid (length c) of
             None \<Rightarrow> (Inl uid_space_exhausted, db)
           | Some last_uid \<Rightarrow> assign_chunks acct path last_uid cs (insert_chunk acct path first_uid c db)))"

definition assign :: "string \<Rightarrow> string \<Rightarrow> string list \<Rightarrow> mail_db \<Rightarrow> (provider_error + nat) \<times> mail_db" where
  "assign acct path remote_ids db =
     (case assign_chunks acct path (max_uid acct path db) (chunks assign_batch_size (dedup remote_ids)) db of
        (Inl e, db') \<Rightarrow> (Inl e, db')
      | (Inr _, db') \<Rightarrow> (Inr (max_uid acct path db'), db'))"

text \<open>
  \<open>INSERT ... ON CONFLICT(account_id, folder_path, uid) DO UPDATE SET remote_id\<close>: a clash on the
  uid updates the row; a clash on the remote id with another row is a constraint error.
\<close>

definition upsert_remote :: "remote_row \<Rightarrow> mail_db \<Rightarrow> mail_db option" where
  "upsert_remote r db =
     (if \<exists>q \<in> set (remotes db). r_account q = r_account r \<and> r_path q = r_path r
           \<and> r_remote q = r_remote r \<and> r_uid q \<noteq> r_uid r
      then None
      else if \<exists>q \<in> set (remotes db). r_account q = r_account r \<and> r_path q = r_path r \<and> r_uid q = r_uid r
      then Some (db\<lparr>remotes := map (\<lambda>q. if r_account q = r_account r \<and> r_path q = r_path r \<and> r_uid q = r_uid r
             then q\<lparr>r_remote := r_remote r\<rparr> else q) (remotes db)\<rparr>)
      else Some (db\<lparr>remotes := remotes db @ [r]\<rparr>))"

fun upsert_all :: "remote_row list \<Rightarrow> mail_db \<Rightarrow> mail_db option" where
  "upsert_all [] db = Some db"
| "upsert_all (r # rs) db = (case upsert_remote r db of None \<Rightarrow> None | Some db' \<Rightarrow> upsert_all rs db')"

definition id_map_error :: provider_error where
  "id_map_error = Other ''id map: UNIQUE constraint failed''"

fun set_chunks ::
  "string \<Rightarrow> string \<Rightarrow> (nat \<times> string) list list \<Rightarrow> mail_db \<Rightarrow> (provider_error + unit) \<times> mail_db"
where
  "set_chunks acct path [] db = (Inr (), db)"
| "set_chunks acct path (c # cs) db =
     (case upsert_all (map (\<lambda>(uid, x). \<lparr>r_account = acct, r_path = path, r_uid = int uid, r_remote = x\<rparr>) c) db of
        None \<Rightarrow> (Inl id_map_error, db)
      | Some db' \<Rightarrow> set_chunks acct path cs db')"

definition set_many :: "string \<Rightarrow> string \<Rightarrow> (nat \<times> string) list \<Rightarrow> mail_db \<Rightarrow> (provider_error + unit) \<times> mail_db"
where
  "set_many acct path mappings db = set_chunks acct path (chunks assign_batch_size mappings) db"

definition set_one :: "string \<Rightarrow> string \<Rightarrow> nat \<Rightarrow> string \<Rightarrow> mail_db \<Rightarrow> (provider_error + unit) \<times> mail_db" where
  "set_one acct path uid remote_id db = set_many acct path [(uid, remote_id)] db"

definition remote_id :: "string \<Rightarrow> string \<Rightarrow> nat \<Rightarrow> mail_db \<Rightarrow> provider_error + string" where
  "remote_id acct path uid db =
     (case find (\<lambda>r. r_uid r = int uid) (map_rows acct path db) of
        Some r \<Rightarrow> Inr (r_remote r)
      | None \<Rightarrow> Inl (Other (''no remote id for uid '' @ show_nat uid @ '' in '' @ path)))"

definition bad_set :: "string \<Rightarrow> provider_error" where
  "bad_set s = Other (''invalid uid set: '' @ s)"

definition rows_where :: "string \<Rightarrow> string \<Rightarrow> (int \<Rightarrow> bool) \<Rightarrow> mail_db \<Rightarrow> (nat \<times> string) list" where
  "rows_where acct path P db =
     map (\<lambda>r. (cast_u32 (r_uid r), r_remote r))
       (sort_key r_uid (filter (\<lambda>r. P (r_uid r)) (map_rows acct path db)))"

definition resolve_part ::
  "string \<Rightarrow> string \<Rightarrow> string \<Rightarrow> string \<Rightarrow> mail_db \<Rightarrow> provider_error + (nat \<times> string) list"
where
  "resolve_part acct path uid_set part db =
     (case split_once (CHR '':'') part of
        Some (start, end') \<Rightarrow>
          (case parse_i64 start of
             None \<Rightarrow> Inl (bad_set uid_set)
           | Some a \<Rightarrow>
               (if end' = ''*'' then Inr (rows_where acct path (\<lambda>u. a \<le> u) db)
                else (case parse_i64 end' of
                        None \<Rightarrow> Inl (bad_set uid_set)
                      | Some b \<Rightarrow> Inr (rows_where acct path (\<lambda>u. a \<le> u \<and> u \<le> b) db))))
      | None \<Rightarrow>
          (case parse_i64 part of
             None \<Rightarrow> Inl (bad_set uid_set)
           | Some a \<Rightarrow> Inr (rows_where acct path (\<lambda>u. u = a) db)))"

fun resolve_parts ::
  "string \<Rightarrow> string \<Rightarrow> string \<Rightarrow> string list \<Rightarrow> mail_db \<Rightarrow> provider_error + (nat \<times> string) list"
where
  "resolve_parts acct path uid_set [] db = Inr []"
| "resolve_parts acct path uid_set (w # ws) db =
     (case resolve_part acct path uid_set (trim w) db of
        Inl e \<Rightarrow> Inl e
      | Inr rows \<Rightarrow> (case resolve_parts acct path uid_set ws db of
           Inl e \<Rightarrow> Inl e
         | Inr out \<Rightarrow> Inr (rows @ out)))"

definition resolve_set :: "string \<Rightarrow> string \<Rightarrow> string \<Rightarrow> mail_db \<Rightarrow> provider_error + (nat \<times> string) list" where
  "resolve_set acct path uid_set db = resolve_parts acct path uid_set (split_on (CHR '','') uid_set) db"

definition remove_uid :: "string \<Rightarrow> string \<Rightarrow> nat \<Rightarrow> mail_db \<Rightarrow> mail_db" where
  "remove_uid acct path uid db =
     db\<lparr>remotes := filter (\<lambda>r. \<not> (in_map acct path r \<and> r_uid r = int uid)) (remotes db)\<rparr>"

section \<open>Uid sets round trip\<close>

lemma split_once_append: "d \<notin> set s \<Longrightarrow> split_once d (s @ d # t) = Some (s, t)"
  by (induction s) auto

lemma uid_range_chars: "c \<in> set (uid_range a b) \<Longrightarrow> c = CHR '':'' \<or> c \<in> set (show_nat a) \<or> c \<in> set (show_nat b)"
  by (auto simp: uid_range_def)

lemma trim_uid_range [simp]: "trim (uid_range a b) = uid_range a b"
proof -
  have "hd (uid_range a b) \<in> set (show_nat a)" "last (uid_range a b) \<in> set (show_nat b)"
    by (simp_all add: uid_range_def)
  then show ?thesis
    unfolding trim_def by (intro trim_by_fixpoint) (auto dest: show_nat_no_ws)
qed

lemma resolve_uid_range:
  assumes "a < 2 ^ 63" "b < 2 ^ 63"
  shows "resolve_set acct path (uid_range a b) db = Inr (rows_where acct path (\<lambda>u. int a \<le> u \<and> u \<le> int b) db)"
proof -
  have "CHR '','' \<notin> set (uid_range a b)"
    using show_nat_no_sep(2) by (auto dest!: uid_range_chars)
  moreover have "split_once (CHR '':'') (uid_range a b) = Some (show_nat a, show_nat b)"
    unfolding uid_range_def using split_once_append show_nat_no_sep(1) by simp
  moreover have "show_nat b \<noteq> ''*''"
    using show_nat_no_sep(5) [of b] by auto
  ultimately show ?thesis
    using assms by (simp add: resolve_set_def split_on_free resolve_part_def)
qed

section \<open>Assignment\<close>

lemma fold_max_ge: "(x :: int) \<le> fold max xs x \<and> (\<forall>y \<in> set xs. y \<le> fold max xs x)"
proof (induction xs arbitrary: x)
  case (Cons y xs)
  have "max y x \<le> fold max xs (max y x)" "\<forall>z \<in> set xs. z \<le> fold max xs (max y x)"
    using Cons.IH [of "max y x"] by blast+
  then show ?case by auto
qed simp

lemma fold_max_in: "fold max xs (x :: int) \<in> insert x (set xs)"
  by (induction xs arbitrary: x) (auto simp: max_def)

lemma max_uid_upper:
  assumes "r \<in> set (map_rows acct path db)" "r_uid r \<le> int u32_max"
  shows "r_uid r \<le> int (max_uid acct path db)"
proof -
  have "r_uid r \<le> fold max (map r_uid (map_rows acct path db)) (hd (map r_uid (map_rows acct path db)))"
    using fold_max_ge assms(1) by (metis image_eqI list.set_map)
  then show ?thesis using assms by (auto simp: max_uid_def clamp_u32_def Let_def)
qed

lemma max_uid_le: "max_uid acct path db \<le> u32_max"
  by (simp add: max_uid_def clamp_u32_le Let_def)

lemma max_uid_attained:
  assumes "0 < max_uid acct path db" "\<forall>r \<in> set (map_rows acct path db). r_uid r \<le> int u32_max"
  shows "\<exists>r \<in> set (map_rows acct path db). r_uid r = int (max_uid acct path db)"
proof -
  let ?uids = "map r_uid (map_rows acct path db)"
  have ne: "?uids \<noteq> []" using assms(1) by (auto simp: max_uid_def clamp_u32_def)
  then have "fold max ?uids (hd ?uids) \<in> set ?uids"
    using fold_max_in [of ?uids "hd ?uids"] hd_in_set [OF ne] by (metis insert_absorb)
  then obtain r where r: "r \<in> set (map_rows acct path db)" "r_uid r = fold max ?uids (hd ?uids)" by auto
  then have "r_uid r = int (max_uid acct path db)"
    using assms ne by (auto simp: max_uid_def clamp_u32_def Let_def split: if_splits)
  with r(1) show ?thesis by blast
qed

lemma insert_or_ignore_frame [store_simps]:
  "messages (insert_or_ignore r db) = messages db" "folders (insert_or_ignore r db) = folders db"
  "pending (insert_or_ignore r db) = pending db" "accounts (insert_or_ignore r db) = accounts db"
  "next_id (insert_or_ignore r db) = next_id db" "trusted_senders (insert_or_ignore r db) = trusted_senders db"
  "analysis (insert_or_ignore r db) = analysis db"
  by (simp_all add: insert_or_ignore_def)

lemma remotes_ok_insert_or_ignore: "remotes_ok db \<Longrightarrow> remotes_ok (insert_or_ignore r db)"
  by (auto simp: remotes_ok_def insert_or_ignore_def row_conflicts_def)

lemma remotes_ok_insert_chunk: "remotes_ok db \<Longrightarrow> remotes_ok (insert_chunk acct path uid xs db)"
  by (induction acct path uid xs db rule: insert_chunk.induct) (simp_all add: remotes_ok_insert_or_ignore)

lemma insert_chunk_mono: "set (remotes db) \<subseteq> set (remotes (insert_chunk acct path uid xs db))"
proof (induction acct path uid xs db rule: insert_chunk.induct)
  case (2 acct path uid x xs db)
  then show ?case by (auto simp: insert_or_ignore_def split: if_splits)
qed simp

lemma insert_chunk_frame [store_simps]:
  "messages (insert_chunk acct path uid xs db) = messages db"
  "folders (insert_chunk acct path uid xs db) = folders db"
  "pending (insert_chunk acct path uid xs db) = pending db"
  "accounts (insert_chunk acct path uid xs db) = accounts db"
  "next_id (insert_chunk acct path uid xs db) = next_id db"
  "trusted_senders (insert_chunk acct path uid xs db) = trusted_senders db"
  "analysis (insert_chunk acct path uid xs db) = analysis db"
  by (induction acct path uid xs db rule: insert_chunk.induct) (simp_all add: store_simps)

lemma assign_chunks_frame:
  "backend_frame db (snd (assign_chunks acct path uid cs db))"
  by (induction acct path uid cs db rule: assign_chunks.induct)
     (auto simp: backend_frame_def store_simps split: option.splits)

lemma assign_frame: "assign acct path ids db = (r, db') \<Longrightarrow> backend_frame db db'"
  using assign_chunks_frame [of db acct path]
  by (auto simp: assign_def split: prod.splits sum.splits) (metis snd_conv)+

lemma remotes_ok_assign_chunks: "remotes_ok db \<Longrightarrow> remotes_ok (snd (assign_chunks acct path uid cs db))"
  by (induction acct path uid cs db rule: assign_chunks.induct)
     (auto simp: remotes_ok_insert_chunk split: option.splits)

lemma remotes_ok_assign:
  assumes "remotes_ok db" "assign acct path ids db = (r, db')"
  shows "remotes_ok db'"
  using assms remotes_ok_assign_chunks [OF assms(1), of acct path]
  by (auto simp: assign_def split: prod.splits sum.splits) (metis snd_conv)+

text \<open>
  While every uid handed out is above all mapped uids, a new id is never skipped for its uid: it
  is skipped only when it is mapped already.  So after a chunk every id of it is mapped.
\<close>

definition uids_below :: "string \<Rightarrow> string \<Rightarrow> nat \<Rightarrow> mail_db \<Rightarrow> bool" where
  "uids_below acct path n db = (\<forall>r \<in> set (map_rows acct path db). r_uid r < int n)"

lemma uids_below_insert:
  assumes "uids_below acct path n db"
  shows "uids_below acct path (n + 1)
    (insert_or_ignore \<lparr>r_account = acct, r_path = path, r_uid = int n, r_remote = x\<rparr> db)"
proof (unfold uids_below_def, rule ballI)
  let ?row = "\<lparr>r_account = acct, r_path = path, r_uid = int n, r_remote = x\<rparr>"
  fix r assume "r \<in> set (map_rows acct path (insert_or_ignore ?row db))"
  then have "r \<in> set (map_rows acct path db) \<or> r = ?row"
    by (auto simp: map_rows_def insert_or_ignore_def split: if_splits)
  then show "r_uid r < int (n + 1)"
  proof
    assume "r \<in> set (map_rows acct path db)"
    with assms show ?thesis by (fastforce simp: uids_below_def)
  qed simp
qed

lemma insert_maps:
  assumes "uids_below acct path n db"
  shows "x \<in> known_ids acct path
    (insert_or_ignore \<lparr>r_account = acct, r_path = path, r_uid = int n, r_remote = x\<rparr> db)"
  using assms
  by (force simp: known_ids_def uids_below_def map_rows_def in_map_def insert_or_ignore_def row_conflicts_def)

lemma known_ids_mono: "set (remotes db) \<subseteq> set (remotes db') \<Longrightarrow> known_ids acct path db \<subseteq> known_ids acct path db'"
  by (auto simp: known_ids_def map_rows_def)

lemma insert_chunk_maps:
  assumes "uids_below acct path n db"
  shows "set xs \<subseteq> known_ids acct path (insert_chunk acct path n xs db)
    \<and> uids_below acct path (n + length xs) (insert_chunk acct path n xs db)"
  using assms
proof (induction xs arbitrary: n db)
  case (Cons x xs)
  let ?db = "insert_or_ignore \<lparr>r_account = acct, r_path = path, r_uid = int n, r_remote = x\<rparr> db"
  have "x \<in> known_ids acct path (insert_chunk acct path (n + 1) xs ?db)"
    using insert_maps [OF Cons.prems] known_ids_mono [OF insert_chunk_mono] by blast
  with Cons.IH [OF uids_below_insert [OF Cons.prems], of x] show ?case by simp
qed simp

lemma assign_chunks_maps:
  assumes "uids_below acct path (uid + 1) db" "assign_chunks acct path uid cs db = (Inr (), db')"
  shows "set (concat cs) \<subseteq> known_ids acct path db' \<and> set (remotes db) \<subseteq> set (remotes db')"
  using assms
proof (induction cs arbitrary: uid db)
  case (Cons c cs)
  let ?db = "insert_chunk acct path (uid + 1) c db"
  have rec: "assign_chunks acct path (uid + length c) cs ?db = (Inr (), db')"
    using Cons.prems(2) by (auto simp: checked_add_u32_def split: if_splits option.splits)
  have chunk: "set c \<subseteq> known_ids acct path ?db" "uids_below acct path (uid + length c + 1) ?db"
    using insert_chunk_maps [OF Cons.prems(1), of c] by (simp_all add: ac_simps)
  from Cons.IH [OF chunk(2) rec] have IH: "set (concat cs) \<subseteq> known_ids acct path db'"
    "set (remotes ?db) \<subseteq> set (remotes db')" by auto
  have "set c \<subseteq> known_ids acct path db'"
    using chunk(1) known_ids_mono [OF IH(2)] by (rule order_trans)
  moreover have "set (remotes db) \<subseteq> set (remotes db')"
    using insert_chunk_mono IH(2) by (rule order_trans)
  ultimately show ?case using IH(1) by simp
qed simp

definition uids_u32 :: "mail_db \<Rightarrow> bool" where
  "uids_u32 db = (\<forall>r \<in> set (remotes db). 0 \<le> r_uid r \<and> r_uid r \<le> int u32_max)"

lemma uids_below_max: "uids_u32 db \<Longrightarrow> uids_below acct path (max_uid acct path db + 1) db"
  using max_uid_upper by (fastforce simp: uids_below_def uids_u32_def map_rows_def)

lemma assign_maps:
  assumes "uids_u32 db" "assign acct path ids db = (Inr m, db')"
  shows "set ids \<subseteq> known_ids acct path db'" and "set (remotes db) \<subseteq> set (remotes db')"
    and "m = max_uid acct path db'"
proof -
  have run: "assign_chunks acct path (max_uid acct path db) (chunks assign_batch_size (dedup ids)) db = (Inr (), db')"
    and m: "m = max_uid acct path db'"
    using assms(2) by (auto simp: assign_def split: prod.splits sum.splits)
  have "set (concat (chunks assign_batch_size (dedup ids))) = set ids"
    by (simp add: concat_chunks assign_batch_size_def del: set_concat)
  then show "set ids \<subseteq> known_ids acct path db'" "set (remotes db) \<subseteq> set (remotes db')"
    using assign_chunks_maps [OF uids_below_max [OF assms(1)] run] by auto
  show "m = max_uid acct path db'" by (rule m)
qed

text \<open>Fresh ids get the next uids, in order.\<close>

lemma insert_chunk_fresh:
  assumes "uids_below acct path n db" "set xs \<inter> known_ids acct path db = {}" "distinct xs"
  shows "remotes (insert_chunk acct path n xs db) = remotes db @
    map (\<lambda>(i, x). \<lparr>r_account = acct, r_path = path, r_uid = int i, r_remote = x\<rparr>) (zip [n..<n + length xs] xs)"
  using assms
proof (induction xs arbitrary: n db)
  case (Cons x xs)
  let ?row = "\<lparr>r_account = acct, r_path = path, r_uid = int n, r_remote = x\<rparr>"
  have new: "insert_or_ignore ?row db = db\<lparr>remotes := remotes db @ [?row]\<rparr>"
    using Cons.prems(1,2)
    by (force simp: insert_or_ignore_def row_conflicts_def uids_below_def known_ids_def map_rows_def in_map_def)
  have "known_ids acct path (insert_or_ignore ?row db) = insert x (known_ids acct path db)"
    unfolding new by (auto simp: known_ids_def map_rows_def in_map_def)
  then have "remotes (insert_chunk acct path (n + 1) xs (insert_or_ignore ?row db)) =
      remotes (insert_or_ignore ?row db) @
      map (\<lambda>(i, x). \<lparr>r_account = acct, r_path = path, r_uid = int i, r_remote = x\<rparr>)
        (zip [n + 1..<n + 1 + length xs] xs)"
    using Cons.IH [OF uids_below_insert [OF Cons.prems(1)], of x] Cons.prems(2,3) by auto
  moreover have "[n..<n + length (x # xs)] = n # [n + 1..<n + 1 + length xs]"
    by (subst upt_conv_Cons) simp_all
  ultimately show ?case by (simp add: new del: upt_Suc)
qed simp

lemma assign_single_fresh:
  assumes "uids_u32 db" "x \<notin> known_ids acct path db" "max_uid acct path db < u32_max"
  shows "remotes (snd (assign acct path [x] db)) = remotes db @
    [\<lparr>r_account = acct, r_path = path, r_uid = int (max_uid acct path db + 1), r_remote = x\<rparr>]"
proof -
  have c: "chunks assign_batch_size (dedup [x]) = [[x]]"
    by (simp add: chunks.simps dedup_def assign_batch_size_def)
  have "checked_add_u32 (max_uid acct path db) 1 = Some (max_uid acct path db + 1)"
    using assms(3) by (simp add: checked_add_u32_def)
  then have "remotes (snd (assign acct path [x] db)) = remotes (insert_chunk acct path (max_uid acct path db + 1) [x] db)"
    unfolding assign_def c by simp
  then show ?thesis
    using insert_chunk_fresh [OF uids_below_max [OF assms(1)], where xs = "[x]"] assms(2) by simp
qed

section \<open>Removal frees the uid for the next message\<close>

lemma remove_uid_frame: "backend_frame db (remove_uid acct path uid db)"
  by (simp add: backend_frame_def remove_uid_def)

lemma remotes_ok_remove: "remotes_ok db \<Longrightarrow> remotes_ok (remove_uid acct path uid db)"
  by (simp add: remotes_ok_def remove_uid_def distinct_map_filter)

text \<open>
  When the message with the highest uid leaves the folder (moved, deleted, or reported gone) and the
  uids are dense, the next new message is given the very same uid: the maximum is computed from
  the rows that are left.
\<close>

definition dense_map :: "string \<Rightarrow> string \<Rightarrow> nat \<Rightarrow> mail_db \<Rightarrow> bool" where
  "dense_map acct path n db = (set (map r_uid (map_rows acct path db)) = int ` {1..n})"

lemma max_uid_dense:
  assumes "dense_map acct path n db" "n \<le> u32_max"
  shows "max_uid acct path db = n"
proof (cases "n = 0")
  case True
  then have "map_rows acct path db = []" using assms(1) by (simp add: dense_map_def)
  then show ?thesis using True by (simp add: max_uid_def clamp_u32_def)
next
  case False
  let ?uids = "map r_uid (map_rows acct path db)"
  have S: "set ?uids = int ` {1..n}" using assms(1) by (simp add: dense_map_def)
  then have ne: "?uids \<noteq> []" using False by auto
  have "int n \<le> fold max ?uids (hd ?uids)"
  proof -
    have "int n \<in> set ?uids" unfolding S using False by auto
    then show ?thesis using fold_max_ge [of "hd ?uids" ?uids] by blast
  qed
  moreover have "fold max ?uids (hd ?uids) \<in> set ?uids"
    using fold_max_in [of ?uids "hd ?uids"] hd_in_set [OF ne] by (metis insert_absorb)
  ultimately have "fold max ?uids (hd ?uids) = int n" unfolding S by auto
  then show ?thesis using ne assms(2) by (simp add: max_uid_def Let_def)
qed

lemma dense_map_remove:
  assumes "dense_map acct path (Suc n) db"
  shows "dense_map acct path n (remove_uid acct path (Suc n) db)"
proof -
  have "map_rows acct path (remove_uid acct path (Suc n) db)
      = filter (\<lambda>r. r_uid r \<noteq> int (Suc n)) (map_rows acct path db)"
    by (auto simp: map_rows_def remove_uid_def in_map_def intro: filter_cong)
  then have "set (map r_uid (map_rows acct path (remove_uid acct path (Suc n) db)))
      = set (map r_uid (map_rows acct path db)) - {int (Suc n)}" by auto
  also have "\<dots> = int ` {1..Suc n} - {int (Suc n)}" using assms by (simp add: dense_map_def)
  also have "\<dots> = int ` {1..n}" by (auto simp: image_iff)
  finally show ?thesis by (simp add: dense_map_def)
qed

lemma removed_uid_is_reassigned:
  assumes "uids_u32 db" "dense_map acct path (Suc n) db" "Suc n \<le> u32_max"
    and "x \<notin> known_ids acct path db"
  shows "remotes (snd (assign acct path [x] (remove_uid acct path (Suc n) db))) =
    remotes (remove_uid acct path (Suc n) db) @
    [\<lparr>r_account = acct, r_path = path, r_uid = int (Suc n), r_remote = x\<rparr>]"
proof -
  let ?db = "remove_uid acct path (Suc n) db"
  have "max_uid acct path ?db = n"
    using max_uid_dense [OF dense_map_remove [OF assms(2)]] assms(3) by simp
  moreover have "uids_u32 ?db" using assms(1) by (simp add: uids_u32_def remove_uid_def)
  moreover have "x \<notin> known_ids acct path ?db"
    using assms(4) by (auto simp: known_ids_def map_rows_def remove_uid_def)
  ultimately show ?thesis using assign_single_fresh [of ?db x acct path] assms(3) by simp
qed

end
