(* ===== verification/Manager.thy ===== *)
theory Manager
  imports Provider
begin

text \<open>
  The registry of sync tasks (backend/mail-sync/src/manager.rs): the status of every account and
  the bounded command channel of its running task.

  A task is its command queue: \<open>tk_queue\<close> holds the commands sent and not yet received, \<open>tk_open\<close>
  says whether the receiving side still exists.  Aborting a task drops its queue with it.
\<close>

section \<open>State\<close>

record sync_status =
  ss_state :: string
  ss_last_synced_at :: "string option"
  ss_error :: "string option"
  ss_synced :: int
  ss_total :: int

definition default_status :: sync_status where
  "default_status = \<lparr>ss_state = ''idle'', ss_last_synced_at = None, ss_error = None, ss_synced = 0, ss_total = 0\<rparr>"

datatype sync_command =
    Shutdown
  | ForcePoll
  | IMapMove string nat string string bool
  | FlushFlags string
  | IMapExpunge string nat string

record account_task =
  tk_user :: string
  tk_queue :: "sync_command list"
  tk_open :: bool

record sync_manager =
  sm_tasks :: "string \<rightharpoonup> account_task"
  sm_statuses :: "string \<rightharpoonup> sync_status"

definition new_manager :: sync_manager where
  "new_manager = \<lparr>sm_tasks = Map.empty, sm_statuses = Map.empty\<rparr>"

definition channel_capacity :: nat where
  "channel_capacity = 32"

section \<open>Statuses\<close>

definition account_status :: "sync_manager \<Rightarrow> string \<Rightarrow> sync_status" where
  "account_status m acct = (case sm_statuses m acct of Some s \<Rightarrow> s | None \<Rightarrow> default_status)"

definition update_status :: "string \<Rightarrow> sync_status \<Rightarrow> sync_manager \<Rightarrow> sync_manager" where
  "update_status acct st m = m\<lparr>sm_statuses := (sm_statuses m)(acct \<mapsto> st)\<rparr>"

definition set_state :: "string \<Rightarrow> string \<Rightarrow> string option \<Rightarrow> string option \<Rightarrow> sync_manager \<Rightarrow> sync_manager" where
  "set_state acct state synced_at err m =
     m\<lparr>sm_statuses := (sm_statuses m)(acct \<mapsto>
        (account_status m acct)\<lparr>ss_state := state, ss_last_synced_at := synced_at, ss_error := err\<rparr>)\<rparr>"

definition set_progress :: "string \<Rightarrow> int \<Rightarrow> int \<Rightarrow> sync_manager \<Rightarrow> sync_manager" where
  "set_progress acct synced whole m =
     m\<lparr>sm_statuses := (sm_statuses m)(acct \<mapsto>
        (account_status m acct)\<lparr>ss_synced := synced, ss_total := whole\<rparr>)\<rparr>"

section \<open>Tasks\<close>

definition start_account :: "string \<Rightarrow> string \<Rightarrow> sync_manager \<Rightarrow> sync_manager" where
  "start_account acct user m =
     m\<lparr>sm_tasks := (sm_tasks m)(acct \<mapsto> \<lparr>tk_user = user, tk_queue = [], tk_open = True\<rparr>),
       sm_statuses := (sm_statuses m)(acct \<mapsto> default_status)\<rparr>"

definition start_account_minimal :: "string \<Rightarrow> sync_manager \<Rightarrow> sync_manager" where
  "start_account_minimal acct m =
     m\<lparr>sm_statuses := (sm_statuses m)(acct \<mapsto> default_status\<lparr>ss_state := ''pending''\<rparr>)\<rparr>"

definition stop_account :: "string \<Rightarrow> sync_manager \<Rightarrow> sync_manager" where
  "stop_account acct m =
     m\<lparr>sm_tasks := (sm_tasks m)(acct := None), sm_statuses := (sm_statuses m)(acct := None)\<rparr>"

datatype send_result = Sent | Full | Closed

definition try_send :: "sync_command \<Rightarrow> account_task \<Rightarrow> send_result \<times> account_task" where
  "try_send c t =
     (if \<not> tk_open t then (Closed, t)
      else if channel_capacity \<le> length (tk_queue t) then (Full, t)
      else (Sent, t\<lparr>tk_queue := tk_queue t @ [c]\<rparr>))"

definition put_task :: "string \<Rightarrow> account_task \<Rightarrow> sync_manager \<Rightarrow> sync_manager" where
  "put_task acct t m = m\<lparr>sm_tasks := (sm_tasks m)(acct \<mapsto> t)\<rparr>"

definition force_poll :: "string \<Rightarrow> sync_manager \<Rightarrow> bool \<times> sync_manager" where
  "force_poll acct m =
     (case sm_tasks m acct of
        None \<Rightarrow> (False, m)
      | Some t \<Rightarrow> (case try_send ForcePoll t of (r, t') \<Rightarrow> (r \<noteq> Closed, put_task acct t' m)))"

definition queue_flag_flush :: "string \<Rightarrow> string \<Rightarrow> sync_manager \<Rightarrow> sync_manager" where
  "queue_flag_flush user acct m =
     (case sm_tasks m acct of
        None \<Rightarrow> m
      | Some t \<Rightarrow> put_task acct (snd (try_send (FlushFlags user) t)) m)"

text \<open>
  \<open>send\<close> waits for room: \<open>None\<close> while the channel is full, otherwise the command is delivered (or
  dropped when the receiver is gone).
\<close>

definition send_wait :: "string \<Rightarrow> sync_command \<Rightarrow> sync_manager \<Rightarrow> sync_manager option" where
  "send_wait acct c m =
     (case sm_tasks m acct of
        None \<Rightarrow> Some m
      | Some t \<Rightarrow> (case try_send c t of
           (Full, _) \<Rightarrow> None
         | (_, t') \<Rightarrow> Some (put_task acct t' m)))"

definition queue_imap_move ::
  "string \<Rightarrow> string \<Rightarrow> nat \<Rightarrow> string \<Rightarrow> string \<Rightarrow> bool \<Rightarrow> sync_manager \<Rightarrow> sync_manager option"
where
  "queue_imap_move user acct uid src dest expunge m = send_wait acct (IMapMove user uid src dest expunge) m"

definition queue_imap_expunge :: "string \<Rightarrow> string \<Rightarrow> nat \<Rightarrow> string \<Rightarrow> sync_manager \<Rightarrow> sync_manager option" where
  "queue_imap_expunge user acct uid folder m = send_wait acct (IMapExpunge user uid folder) m"

text \<open>The task receives its next command.\<close>

definition recv :: "string \<Rightarrow> sync_manager \<Rightarrow> (sync_command \<times> sync_manager) option" where
  "recv acct m =
     (case sm_tasks m acct of
        None \<Rightarrow> None
      | Some t \<Rightarrow> (case tk_queue t of
           [] \<Rightarrow> None
         | c # cs \<Rightarrow> Some (c, put_task acct (t\<lparr>tk_queue := cs\<rparr>) m)))"

section \<open>The channels stay bounded\<close>

definition queues_bounded :: "sync_manager \<Rightarrow> bool" where
  "queues_bounded m = (\<forall>acct t. sm_tasks m acct = Some t \<longrightarrow> length (tk_queue t) \<le> channel_capacity)"

inductive manager_step :: "sync_manager \<Rightarrow> sync_manager \<Rightarrow> bool" where
  start: "manager_step m (start_account acct user m)"
| start_minimal: "manager_step m (start_account_minimal acct m)"
| stop: "manager_step m (stop_account acct m)"
| status: "manager_step m (update_status acct st m)"
| state: "manager_step m (set_state acct st synced_at err m)"
| progress: "manager_step m (set_progress acct n k m)"
| poll: "force_poll acct m = (b, m') \<Longrightarrow> manager_step m m'"
| flush: "manager_step m (queue_flag_flush user acct m)"
| move: "queue_imap_move user acct uid src dest e m = Some m' \<Longrightarrow> manager_step m m'"
| expunge: "queue_imap_expunge user acct uid folder m = Some m' \<Longrightarrow> manager_step m m'"
| receive: "recv acct m = Some (c, m') \<Longrightarrow> manager_step m m'"

inductive manager_reachable :: "sync_manager \<Rightarrow> bool" where
  init: "manager_reachable new_manager"
| step: "manager_reachable m \<Longrightarrow> manager_step m m' \<Longrightarrow> manager_reachable m'"

lemma try_send_bounded:
  "length (tk_queue t) \<le> channel_capacity \<Longrightarrow> try_send c t = (r, t') \<Longrightarrow> length (tk_queue t') \<le> channel_capacity"
  by (auto simp: try_send_def split: if_splits)

lemma put_task_bounded:
  "queues_bounded m \<Longrightarrow> length (tk_queue t) \<le> channel_capacity \<Longrightarrow> queues_bounded (put_task acct t m)"
  by (simp add: queues_bounded_def put_task_def)

lemma send_wait_bounded: "queues_bounded m \<Longrightarrow> send_wait acct c m = Some m' \<Longrightarrow> queues_bounded m'"
  by (auto simp: send_wait_def split: option.splits prod.splits send_result.splits
      intro!: put_task_bounded dest: try_send_bounded) (auto simp: queues_bounded_def dest: try_send_bounded)

lemma manager_step_bounded: "manager_step m m' \<Longrightarrow> queues_bounded m \<Longrightarrow> queues_bounded m'"
proof (induction rule: manager_step.induct)
  case (poll acct m b m')
  then show ?case
    by (auto simp: force_poll_def split: option.splits prod.splits intro!: put_task_bounded)
       (auto simp: queues_bounded_def dest: try_send_bounded)
next
  case (flush m user acct)
  then show ?case
    by (auto simp: queue_flag_flush_def split: option.splits intro!: put_task_bounded)
       (auto simp: queues_bounded_def try_send_def)
next
  case (move user acct uid src dest e m m')
  then show ?case by (simp add: queue_imap_move_def send_wait_bounded)
next
  case (expunge user acct uid folder m m')
  then show ?case by (simp add: queue_imap_expunge_def send_wait_bounded)
next
  case (receive acct m c m')
  then show ?case
    by (auto simp: recv_def split: option.splits list.splits intro!: put_task_bounded)
       (auto simp: queues_bounded_def, metis Suc_leD length_Cons)
qed (auto simp: queues_bounded_def start_account_def start_account_minimal_def stop_account_def
    update_status_def set_state_def set_progress_def channel_capacity_def)

lemma reachable_bounded: "manager_reachable m \<Longrightarrow> queues_bounded m"
  by (induction rule: manager_reachable.induct)
     (simp_all add: manager_step_bounded, simp add: queues_bounded_def new_manager_def)

lemma force_poll_live:
  "fst (force_poll acct m) \<longleftrightarrow> (\<exists>t. sm_tasks m acct = Some t \<and> tk_open t)"
  by (auto simp: force_poll_def try_send_def split: option.splits)

text \<open>Neither lifecycle nor progress updates disturb the other half of a status or another account.\<close>

lemma status_independent:
  "ss_synced (account_status (set_state acct st l e m) acct) = ss_synced (account_status m acct)"
  "ss_total (account_status (set_state acct st l e m) acct) = ss_total (account_status m acct)"
  "ss_state (account_status (set_progress acct n k m) acct) = ss_state (account_status m acct)"
  "ss_error (account_status (set_progress acct n k m) acct) = ss_error (account_status m acct)"
  "ss_last_synced_at (account_status (set_progress acct n k m) acct) = ss_last_synced_at (account_status m acct)"
  "b \<noteq> acct \<Longrightarrow> account_status (set_state acct st l e m) b = account_status m b"
  "b \<noteq> acct \<Longrightarrow> account_status (set_progress acct n k m) b = account_status m b"
  by (simp_all add: account_status_def set_state_def set_progress_def)

lemma account_status_set_state [simp]:
  "account_status (set_state acct st l e m) acct =
     (account_status m acct)\<lparr>ss_state := st, ss_last_synced_at := l, ss_error := e\<rparr>"
  by (simp add: account_status_def set_state_def)

lemma account_status_set_progress [simp]:
  "account_status (set_progress acct n k m) acct = (account_status m acct)\<lparr>ss_synced := n, ss_total := k\<rparr>"
  by (simp add: account_status_def set_progress_def)

end
