(* ===== verification/Mime.thy ===== *)
theory Mime
  imports Prelude
begin

text \<open>
  Message text: repair and decoding of RFC 2047 header words (backend/core/src/header.rs), body and
  attachment extraction with the list snippet (backend/mail-sync/src/mime.rs), and modified UTF-7
  mailbox names (backend/api/src/imap_utf7.rs).

  The crates \<open>mailparse\<close> and \<open>base64\<close> are parameters: \<open>parse_header\<close> decodes one header line, a
  \<open>mail_part\<close> is what \<open>mailparse\<close> delivers for one MIME part, \<open>run\<close> decodes a base64 run to text.
\<close>

section \<open>Header words\<close>

text \<open>\<open>str::find(&str)\<close>: the first position of a pattern.\<close>

fun find_str :: "string \<Rightarrow> string \<Rightarrow> nat option" where
  "find_str p [] = (if p = [] then Some 0 else None)"
| "find_str p (c # s) = (if starts_with p (c # s) then Some 0 else map_option Suc (find_str p s))"

definition charset_byte :: "char \<Rightarrow> bool" where
  "charset_byte c = (let n = (of_char c :: nat) in
     (48 \<le> n \<and> n \<le> 57) \<or> (65 \<le> n \<and> n \<le> 90) \<or> (97 \<le> n \<and> n \<le> 122) \<or> c = CHR ''-'' \<or> c = CHR ''_'')"

text \<open>The extent of one leaked boundary \<open>?==?charset?q?\<close>: its start and the position after it.\<close>

definition boundary_artifact :: "string \<Rightarrow> (nat \<times> nat) option" where
  "boundary_artifact repaired =
     (let lower = to_lower repaired in
      case find_str ''?==?'' lower of
        None \<Rightarrow> None
      | Some start \<Rightarrow>
          (let charset_start = start + 4 in
           case find_str ''?'' (drop charset_start lower) of
             None \<Rightarrow> None
           | Some charset_len \<Rightarrow>
               (let encoding_start = charset_start + charset_len + 1;
                    valid_encoding = (encoding_start + 1 < length lower
                      \<and> (lower ! encoding_start = CHR ''q'' \<or> lower ! encoding_start = CHR ''b'')
                      \<and> lower ! (encoding_start + 1) = CHR ''?'');
                    charset = take charset_len (drop charset_start lower)
                in if charset = [] \<or> \<not> list_all charset_byte charset \<or> \<not> valid_encoding then None
                   else Some (start, encoding_start + 2))))"

lemma find_str_Some:
  "find_str p s = Some i \<Longrightarrow> i + length p \<le> length s \<and> starts_with p (drop i s)"
proof (induction s arbitrary: i)
  case Nil
  then show ?case by (auto simp: starts_with_def split: if_splits)
next
  case (Cons c s)
  show ?case
  proof (cases "starts_with p (c # s)")
    case True
    then have "length p \<le> length (c # s)" by (auto simp: starts_with_iff dest: arg_cong [where f = length])
    with True Cons.prems show ?thesis by auto
  next
    case False
    with Cons show ?thesis by auto
  qed
qed

lemma boundary_artifact_bounds:
  assumes "boundary_artifact s = Some (a, b)"
  shows "a < b" and "b \<le> length s"
proof -
  have len: "length (to_lower s) = length s" by (simp add: to_lower_def)
  show "a < b" "b \<le> length s"
    using assms len
    by (auto simp: boundary_artifact_def Let_def split: option.splits if_splits)
qed

function strip_artifacts :: "string \<Rightarrow> string" where
  "strip_artifacts repaired =
     (case boundary_artifact repaired of
        None \<Rightarrow> repaired
      | Some (a, b) \<Rightarrow> strip_artifacts (take a repaired @ drop b repaired))"
  by pat_completeness auto
termination
  using boundary_artifact_bounds by (relation "measure length") fastforce+

declare strip_artifacts.simps [simp del]

text \<open>\<open>str::replace\<close> with a non-empty pattern.\<close>

function replace_str :: "string \<Rightarrow> string \<Rightarrow> string \<Rightarrow> string" where
  "replace_str p r s =
     (if s = [] \<or> p = [] then s
      else if starts_with p s then r @ replace_str p r (drop (length p) s)
      else hd s # replace_str p r (tl s))"
  by pat_completeness auto
termination
  by (relation "measure (\<lambda>(p, r, s). length s)") auto

declare replace_str.simps [simp del]

definition decode_header_words :: "(string \<Rightarrow> string option) \<Rightarrow> string \<Rightarrow> string" where
  "decode_header_words parse_header value =
     (let repaired = strip_artifacts value;
          lower = to_lower repaired;
          repaired = (if starts_with ''?'' repaired \<and> ends_with ''?='' repaired
                        \<and> (contains_str ''?q?'' lower \<or> contains_str ''?b?'' lower)
                      then CHR ''='' # repaired else repaired);
          repaired = replace_str ''?==?'' ''?= =?'' repaired
      in if \<not> contains_str ''=?'' repaired then repaired
         else (case parse_header (''X: '' @ repaired) of Some v \<Rightarrow> v | None \<Rightarrow> repaired))"

lemma strip_artifacts_done: "boundary_artifact (strip_artifacts s) = None"
proof (induction s rule: strip_artifacts.induct)
  case (1 s)
  then show ?case
    by (cases "boundary_artifact s") (auto simp: strip_artifacts.simps [of s])
qed

lemma strip_artifacts_idem: "strip_artifacts (strip_artifacts s) = strip_artifacts s"
  by (simp add: strip_artifacts.simps [of "strip_artifacts s"] strip_artifacts_done)

lemma strip_artifacts_subseq: "subseq (strip_artifacts s) s"
proof (induction s rule: strip_artifacts.induct)
  case (1 s)
  show ?case
  proof (cases "boundary_artifact s")
    case None
    then show ?thesis by (simp add: strip_artifacts.simps)
  next
    case (Some ab)
    obtain a b where ab: "ab = (a, b)" by fastforce
    then have art: "boundary_artifact s = Some (a, b)" using Some by simp
    have "a \<le> b" using boundary_artifact_bounds(1) [OF art] by simp
    then have tb: "take b s = take a s @ take (b - a) (drop a s)" by (metis le_add_diff_inverse take_add)
    have "subseq (take a s @ drop b s) ((take a s @ take (b - a) (drop a s)) @ drop b s)"
      by (intro list_emb_append_mono) (auto intro: list_emb_append2)
    then have sub: "subseq (take a s @ drop b s) s"
      unfolding tb [symmetric] append_take_drop_id .
    have "subseq (strip_artifacts (take a s @ drop b s)) (take a s @ drop b s)"
      by (rule 1 [OF Some ab [symmetric]])
    then have "subseq (strip_artifacts (take a s @ drop b s)) s"
      using sub by (rule subseq_order.trans)
    then show ?thesis by (simp add: strip_artifacts.simps [of s] art)
  qed
qed

section \<open>MIME parts\<close>

datatype mail_part = MailPart
  (mp_mimetype: string)
  (mp_header: "string \<Rightarrow> string option")
  (mp_body: "string option")
  (mp_body_raw: "string option")
  (mp_param: "string \<Rightarrow> string option")
  (mp_subparts: "mail_part list")

record attachment =
  at_filename :: "string option"
  at_content_type :: string
  at_content_id :: "string option"
  at_data :: string

record parsed_body =
  pb_text :: "string option"
  pb_html :: "string option"
  pb_attachments :: "attachment list"
  pb_has_calendar :: bool
  pb_calendar_parts :: "string list"

definition empty_body :: parsed_body where
  "empty_body = \<lparr>pb_text = None, pb_html = None, pb_attachments = [], pb_has_calendar = False,
     pb_calendar_parts = []\<rparr>"

definition or_empty :: "string option \<Rightarrow> string" where
  "or_empty x = (case x of Some s \<Rightarrow> s | None \<Rightarrow> [])"

definition content_id_of :: "mail_part \<Rightarrow> string option" where
  "content_id_of part =
     (case mp_header part ''Content-ID'' of
        None \<Rightarrow> None
      | Some v \<Rightarrow>
          (let c = trim_end_by (\<lambda>c. c = CHR ''>'') (trim_start_by (\<lambda>c. c = CHR ''<'') (trim v))
           in if c = [] then None else Some c))"

definition is_attachment :: "mail_part \<Rightarrow> bool" where
  "is_attachment part =
     (let ct = to_lower (mp_mimetype part);
          disposition = to_lower (or_empty (mp_header part ''Content-Disposition''))
      in starts_with ''attachment'' disposition
         \<or> (starts_with ''inline'' disposition \<and> \<not> starts_with ''text/'' ct)
         \<or> (content_id_of part \<noteq> None \<and> \<not> starts_with ''text/'' ct \<and> \<not> starts_with ''multipart/'' ct))"

fun disposition_filename :: "string list \<Rightarrow> string option" where
  "disposition_filename [] = None"
| "disposition_filename (w # ws) =
     (let p = trim w in
      if starts_with ''filename='' p \<or> starts_with ''filename*='' p
      then Some (trim_by (\<lambda>c. c = CHR 0x22) (case split_once (CHR ''='') p of Some (_, v) \<Rightarrow> v | None \<Rightarrow> []))
      else disposition_filename ws)"

definition filename_of :: "mail_part \<Rightarrow> string option" where
  "filename_of part =
     (case (case mp_header part ''Content-Disposition'' of
              None \<Rightarrow> None
            | Some d \<Rightarrow> disposition_filename (split_on (CHR '';'') d)) of
        Some f \<Rightarrow> Some f
      | None \<Rightarrow> mp_param part ''name'')"

definition note_calendar :: "mail_part \<Rightarrow> parsed_body \<Rightarrow> parsed_body" where
  "note_calendar part body =
     (if to_lower (mp_mimetype part) = ''text/calendar''
      then body\<lparr>pb_has_calendar := True,
             pb_calendar_parts := pb_calendar_parts body @
               (case mp_body part of
                  Some cal \<Rightarrow> if trim cal \<noteq> [] then [cal] else []
                | None \<Rightarrow> [])\<rparr>
      else body)"

definition add_leaf :: "mail_part \<Rightarrow> parsed_body \<Rightarrow> parsed_body" where
  "add_leaf part body =
     (let ct = to_lower (mp_mimetype part); body = note_calendar part body in
      if is_attachment part
      then body\<lparr>pb_attachments := pb_attachments body @
             [\<lparr>at_filename = filename_of part, at_content_type = ct, at_content_id = content_id_of part,
               at_data = or_empty (mp_body_raw part)\<rparr>]\<rparr>
      else if ct = ''text/plain'' then
        (if pb_text body = None then body\<lparr>pb_text := Some (or_empty (mp_body part))\<rparr> else body)
      else if ct = ''text/html'' then
        (if pb_html body = None then body\<lparr>pb_html := Some (or_empty (mp_body part))\<rparr> else body)
      else body)"

fun walk_parts :: "mail_part \<Rightarrow> parsed_body \<Rightarrow> parsed_body" where
  "walk_parts (MailPart mt hdr bd raw prm subs) body =
     (if starts_with ''multipart/'' (to_lower mt)
      then fold walk_parts subs body
      else add_leaf (MailPart mt hdr bd raw prm subs) body)"

definition parse_mime :: "(string \<Rightarrow> mail_part option) \<Rightarrow> string \<Rightarrow> parsed_body option" where
  "parse_mime parse_mail raw = map_option (\<lambda>p. walk_parts p empty_body) (parse_mail raw)"

text \<open>The leaves of a message in document order, which is the order \<open>walk_parts\<close> visits them.\<close>

fun leaves :: "mail_part \<Rightarrow> mail_part list" where
  "leaves (MailPart mt hdr bd raw prm subs) =
     (if starts_with ''multipart/'' (to_lower mt) then concat (map leaves subs)
      else [MailPart mt hdr bd raw prm subs])"

lemma walk_parts_leaves: "walk_parts p body = fold add_leaf (leaves p) body"
proof (induction p arbitrary: body)
  case (MailPart mt hdr bd raw prm subs)
  have "fold walk_parts ps b = fold add_leaf (concat (map leaves ps)) b"
    if "set ps \<subseteq> set subs" for ps b
    using that MailPart by (induction ps arbitrary: b) auto
  then show ?case by simp
qed

definition is_text_leaf :: "string \<Rightarrow> mail_part \<Rightarrow> bool" where
  "is_text_leaf ct p = (\<not> is_attachment p \<and> to_lower (mp_mimetype p) = ct)"

lemma add_leaf_fields:
  "pb_text (add_leaf p b) = (if pb_text b = None \<and> is_text_leaf ''text/plain'' p
     then Some (or_empty (mp_body p)) else pb_text b)"
  "pb_html (add_leaf p b) = (if pb_html b = None \<and> is_text_leaf ''text/html'' p
     then Some (or_empty (mp_body p)) else pb_html b)"
  "length (pb_attachments (add_leaf p b)) = length (pb_attachments b) + (if is_attachment p then 1 else 0)"
  by (auto simp: add_leaf_def is_text_leaf_def note_calendar_def Let_def)

lemma fold_add_leaf_text:
  "pb_text (fold add_leaf ps b) =
     (case pb_text b of Some t \<Rightarrow> Some t
      | None \<Rightarrow> map_option (\<lambda>p. or_empty (mp_body p)) (find (is_text_leaf ''text/plain'') ps))"
  by (induction ps arbitrary: b) (auto simp: add_leaf_fields split: option.splits)

lemma fold_add_leaf_html:
  "pb_html (fold add_leaf ps b) =
     (case pb_html b of Some t \<Rightarrow> Some t
      | None \<Rightarrow> map_option (\<lambda>p. or_empty (mp_body p)) (find (is_text_leaf ''text/html'') ps))"
  by (induction ps arbitrary: b) (auto simp: add_leaf_fields split: option.splits)

lemma fold_add_leaf_attachments:
  "length (pb_attachments (fold add_leaf ps b)) = length (pb_attachments b) + length (filter is_attachment ps)"
  by (induction ps arbitrary: b) (auto simp: add_leaf_fields)

section \<open>Snippets\<close>

definition is_control :: "char \<Rightarrow> bool" where
  "is_control c = (let n = (of_char c :: nat) in n < 32 \<or> n = 127)"

definition compute_snippet :: "string \<Rightarrow> string option \<Rightarrow> string" where
  "compute_snippet subject body_text =
     (let text = trim (or_empty body_text);
          combined = (if text \<noteq> [] then subject @ '': '' @ text else subject)
      in take 160 (filter (\<lambda>c. \<not> is_control c) combined))"

lemma compute_snippet_bounds:
  "length (compute_snippet subject body) \<le> 160 \<and> (\<forall>c \<in> set (compute_snippet subject body). \<not> is_control c)"
  by (auto simp: compute_snippet_def Let_def dest!: in_set_takeD)

section \<open>Modified UTF-7\<close>

definition take_until_dash :: "string \<Rightarrow> string" where
  "take_until_dash s = takeWhile (\<lambda>c. c \<noteq> CHR ''-'') s"

function utf7_decode :: "(string \<Rightarrow> string option) \<Rightarrow> string \<Rightarrow> string" where
  "utf7_decode run input =
     (case input of
        [] \<Rightarrow> []
      | c # s \<Rightarrow>
          (if c = CHR ''&'' then
             (if CHR ''-'' \<in> set s then
                (let chunk = take_until_dash s; rest = drop (Suc (length chunk)) s in
                 (if chunk = [] then ''&''
                  else (case run (map (\<lambda>c. if c = CHR '','' then CHR ''/'' else c) chunk) of
                          Some decoded \<Rightarrow> decoded
                        | None \<Rightarrow> CHR ''&'' # chunk @ ''-''))
                 @ utf7_decode run rest)
              else input)
           else c # utf7_decode run s))"
  by pat_completeness auto
termination
  by (relation "measure (\<lambda>(run, s). length s)") auto

declare utf7_decode.simps [simp del]

lemma utf7_nil [simp]: "utf7_decode run [] = []"
  by (simp add: utf7_decode.simps)

lemma utf7_cons: "c \<noteq> CHR ''&'' \<Longrightarrow> utf7_decode run (c # s) = c # utf7_decode run s"
  by (simp add: utf7_decode.simps [of _ "c # s"])

lemma utf7_plain: "CHR ''&'' \<notin> set s \<Longrightarrow> utf7_decode run s = s"
proof (induction s)
  case (Cons c s)
  then have "c \<noteq> CHR ''&''" by auto
  with Cons show ?case by (simp add: utf7_cons)
qed simp

lemma utf7_run:
  assumes "CHR ''-'' \<notin> set chunk"
  shows "utf7_decode run (CHR ''&'' # chunk @ CHR ''-'' # t) =
    (if chunk = [] then ''&''
     else (case run (map (\<lambda>c. if c = CHR '','' then CHR ''/'' else c) chunk) of
             Some decoded \<Rightarrow> decoded
           | None \<Rightarrow> CHR ''&'' # chunk @ ''-'')) @ utf7_decode run t"
proof -
  have "takeWhile (\<lambda>c. c \<noteq> CHR ''-'') (chunk @ CHR ''-'' # t) = chunk"
    using assms by (induction chunk) auto
  then show ?thesis by (subst utf7_decode.simps) (simp add: take_until_dash_def)
qed

text \<open>An encoder as RFC 3501 describes it, for the round trip.\<close>

datatype utf7_item = Plain char | Ampersand | Run string

fun utf7_wire :: "utf7_item list \<Rightarrow> string" where
  "utf7_wire [] = []"
| "utf7_wire (Plain c # xs) = c # utf7_wire xs"
| "utf7_wire (Ampersand # xs) = ''&-'' @ utf7_wire xs"
| "utf7_wire (Run b # xs) = CHR ''&'' # map (\<lambda>c. if c = CHR ''/'' then CHR '','' else c) b @ CHR ''-'' # utf7_wire xs"

fun utf7_text :: "(string \<Rightarrow> string option) \<Rightarrow> utf7_item list \<Rightarrow> string" where
  "utf7_text run [] = []"
| "utf7_text run (Plain c # xs) = c # utf7_text run xs"
| "utf7_text run (Ampersand # xs) = CHR ''&'' # utf7_text run xs"
| "utf7_text run (Run b # xs) = or_empty (run b) @ utf7_text run xs"

fun utf7_item_ok :: "(string \<Rightarrow> string option) \<Rightarrow> utf7_item \<Rightarrow> bool" where
  "utf7_item_ok run (Plain c) = (c \<noteq> CHR ''&'')"
| "utf7_item_ok run Ampersand = True"
| "utf7_item_ok run (Run b) = (b \<noteq> [] \<and> CHR ''-'' \<notin> set b \<and> CHR '','' \<notin> set b \<and> run b \<noteq> None)"

lemma utf7_wire_decodes:
  "list_all (utf7_item_ok run) xs \<Longrightarrow> utf7_decode run (utf7_wire xs) = utf7_text run xs"
proof (induction run xs rule: utf7_text.induct)
  case (1 run)
  show ?case by simp
next
  case (2 run c xs)
  then show ?case by (simp add: utf7_cons)
next
  case (3 run xs)
  then show ?case using utf7_run [of "[]" run "utf7_wire xs"] by simp
next
  case (4 run b xs)
  let ?w = "map (\<lambda>c. if c = CHR ''/'' then CHR '','' else c) b"
  have "CHR ''-'' \<notin> set ?w" using 4(2) by auto
  moreover have "map (\<lambda>c. if c = CHR '','' then CHR ''/'' else c) ?w = b"
  proof -
    have "CHR '','' \<notin> set b" using 4(2) by simp
    then show ?thesis by (induction b) auto
  qed
  ultimately show ?case
    using 4 utf7_run [of ?w run "utf7_wire xs"] by (auto simp: or_empty_def simp del: map_map)
qed

end
