(* ===== verification/Phishing.thy ===== *)
theory Phishing
  imports Store Mime
begin

text \<open>
  The rule-based phishing analysis (backend/phishing/src/lib.rs): domain extraction, the additive
  checks of \<open>analyse\<close>, and \<open>analyse_and_store_batch\<close>.

  Third-party crates are the fields of \<open>phish_env\<close>: \<open>mailparse\<close> (message, first header value, a
  single parsed address), \<open>strsim::levenshtein\<close>, \<open>idna::domain_to_unicode\<close>, \<open>scraper\<close> (the
  anchors of an HTML fragment with their text nodes), the compiled regular expression, and
  \<open>serde_json\<close>.  \<open>pe_order\<close> is the iteration order of the hash map that groups brands by name,
  which Rust leaves unspecified.
\<close>

record check =
  ck_id :: string
  ck_points :: int
  ck_detail :: string
  ck_params :: "(string \<times> string) list"

record report =
  rp_score :: int
  rp_verdict :: string
  rp_checks :: "check list"

record phish_feed =
  fd_urls :: "string list"
  fd_domains :: "string list"

record phish_env =
  pe_parse :: "string \<Rightarrow> mail_part option"
  pe_headers :: "string \<Rightarrow> string \<Rightarrow> string option"
  pe_address :: "string \<Rightarrow> (string option \<times> string) option"
  pe_levenshtein :: "string \<Rightarrow> string \<Rightarrow> nat"
  pe_to_unicode :: "string \<Rightarrow> string \<times> bool"
  pe_anchors :: "string \<Rightarrow> (string \<times> string list) list"
  pe_text_url :: "string \<Rightarrow> string option"
  pe_json :: "check list \<Rightarrow> string"
  pe_order :: "(string \<times> string list) list \<Rightarrow> (string \<times> string list) list"

section \<open>Verdicts and domains\<close>

definition verdict_for :: "int \<Rightarrow> string" where
  "verdict_for score =
     (if score \<le> 20 then ''clean'' else if score \<le> 55 then ''suspicious'' else ''phishing'')"

definition domain_of :: "string \<Rightarrow> string option" where
  "domain_of addr0 =
     (let addr = trim_end_by (\<lambda>c. c = CHR ''>'') (trim addr0)
      in map_option (\<lambda>(_, d). to_lower (trim d)) (rsplit_once (CHR ''@'') addr))"

definition sans_tld :: "string \<Rightarrow> string" where
  "sans_tld domain = (case rsplit_once (CHR ''.'') domain of Some (head, _) \<Rightarrow> head | None \<Rightarrow> domain)"

definition multi_part_suffixes :: "string list" where
  "multi_part_suffixes = [''co.uk'', ''org.uk'', ''ac.uk'', ''gov.uk'', ''me.uk'', ''com.au'', ''net.au'',
     ''org.au'', ''co.nz'', ''com.br'', ''com.mx'', ''com.ar'', ''co.jp'', ''or.jp'', ''ne.jp'', ''co.kr'',
     ''com.tr'', ''com.pl'', ''com.cn'', ''com.hk'', ''com.sg'', ''com.tw'', ''co.in'', ''co.za'']"

definition registrable_domain :: "string \<Rightarrow> string" where
  "registrable_domain domain =
     (let labels = split_on (CHR ''.'') domain in
      if length labels \<le> 2 then domain
      else let last_two = join_with ''.'' (drop (length labels - 2) labels) in
           if last_two \<in> set multi_part_suffixes \<and> 3 \<le> length labels
           then join_with ''.'' (drop (length labels - 3) labels)
           else last_two)"

definition same_org :: "string \<Rightarrow> string \<Rightarrow> bool" where
  "same_org a b = (registrable_domain a = registrable_domain b)"

definition sender_trust_domain :: "phish_env \<Rightarrow> string \<Rightarrow> string option" where
  "sender_trust_domain E from_addr =
     (let addr = (case pe_address E from_addr of Some (_, a) \<Rightarrow> a | None \<Rightarrow> from_addr)
      in map_option registrable_domain (domain_of addr))"

definition url_domain :: "string \<Rightarrow> string option" where
  "url_domain url =
     (case find_str ''://'' url of
        None \<Rightarrow> None
      | Some i \<Rightarrow>
          (let tail = drop (i + 3) url;
               rest = (case find_str ''://'' tail of Some j \<Rightarrow> take j tail | None \<Rightarrow> tail);
               host = hd (split_by (\<lambda>c. c \<in> {CHR ''/'', CHR ''?'', CHR ''#''}) rest)
           in Some (to_lower (hd (split_on (CHR '':'') (last (split_on (CHR ''@'') host)))))))"

section \<open>The feed\<close>

definition without_slash :: "string \<Rightarrow> string" where
  "without_slash s = trim_end_by (\<lambda>c. c = CHR ''/'') s"

definition feed_line :: "string \<Rightarrow> phish_feed \<Rightarrow> phish_feed" where
  "feed_line line feed =
     (let url = without_slash (trim line) in
      if url = [] \<or> \<not> starts_with ''http'' url then feed
      else (let feed' = (case url_domain url of
                           Some d \<Rightarrow> feed\<lparr>fd_domains := List.insert d (fd_domains feed)\<rparr>
                         | None \<Rightarrow> feed)
            in feed'\<lparr>fd_urls := List.insert (to_lower url) (fd_urls feed')\<rparr>))"

definition parse_feed :: "string \<Rightarrow> phish_feed" where
  "parse_feed txt = fold feed_line (split_on (CHR 0x0A) txt) \<lparr>fd_urls = [], fd_domains = []\<rparr>"

section \<open>The checks\<close>

definition auth_checks :: "string option \<Rightarrow> check list" where
  "auth_checks auth0 =
     (case auth0 of
        None \<Rightarrow> []
      | Some a \<Rightarrow>
          (let auth = to_lower a in
           (if contains_str ''dmarc=fail'' auth then [\<lparr>ck_id = ''dmarc_fail'', ck_points = 40,
              ck_detail = ''DMARC validation failed'', ck_params = []\<rparr>] else []) @
           (if contains_str ''spf=fail'' auth then [\<lparr>ck_id = ''spf_fail'', ck_points = 30,
              ck_detail = ''SPF validation failed'', ck_params = []\<rparr>] else []) @
           (if contains_str ''dkim=fail'' auth then [\<lparr>ck_id = ''dkim_fail'', ck_points = 25,
              ck_detail = ''DKIM signature invalid'', ck_params = []\<rparr>] else [])))"

definition sender_identity :: "phish_env \<Rightarrow> string \<Rightarrow> string \<times> string" where
  "sender_identity E from_raw =
     (case pe_address E from_raw of
        Some (name, addr) \<Rightarrow> (or_empty name, or_empty (domain_of addr))
      | None \<Rightarrow> ([], or_empty (domain_of from_raw)))"

definition path_check :: "string \<Rightarrow> string \<Rightarrow> string \<Rightarrow> string \<Rightarrow> string option \<Rightarrow> check list" where
  "path_check ident label key from_domain header =
     (case header of
        None \<Rightarrow> []
      | Some h \<Rightarrow>
          (case domain_of h of
             None \<Rightarrow> []
           | Some rd \<Rightarrow>
               if \<not> same_org rd from_domain
               then [\<lparr>ck_id = ident, ck_points = 20,
                      ck_detail = label @ '' domain ('' @ rd @ '') differs from sender domain ('' @ from_domain @ '')'',
                      ck_params = [(key, rd), (''from'', from_domain)]\<rparr>]
               else []))"

definition mismatch_checks :: "string \<Rightarrow> (string \<Rightarrow> string option) \<Rightarrow> check list" where
  "mismatch_checks from_domain hdr =
     (if from_domain = [] then []
      else path_check ''reply_to_mismatch'' ''Reply-To'' ''replyTo'' from_domain (hdr ''Reply-To'') @
           path_check ''return_path_mismatch'' ''Return-Path'' ''returnPath'' from_domain (hdr ''Return-Path''))"

definition alphanumeric :: "char \<Rightarrow> bool" where
  "alphanumeric c = (let n = (of_char c :: nat) in
     (48 \<le> n \<and> n \<le> 57) \<or> (65 \<le> n \<and> n \<le> 90) \<or> (97 \<le> n \<and> n \<le> 122))"

definition name_tokens :: "string \<Rightarrow> string list" where
  "name_tokens name = filter (\<lambda>t. t \<noteq> []) (split_by (\<lambda>c. \<not> alphanumeric c) (to_lower name))"

fun group_brand :: "string \<Rightarrow> string \<Rightarrow> (string \<times> string list) list \<Rightarrow> (string \<times> string list) list" where
  "group_brand name d [] = [(name, [d])]"
| "group_brand name d ((n, ds) # gs) =
     (if n = name then (n, ds @ [d]) # gs else (n, ds) # group_brand name d gs)"

definition domains_by_brand :: "(string \<times> string) list \<Rightarrow> (string \<times> string list) list" where
  "domains_by_brand brands = fold (\<lambda>(d, n). group_brand (to_lower n) (to_lower d)) brands []"

definition on_domain :: "string \<Rightarrow> string \<Rightarrow> bool" where
  "on_domain from_domain d = (from_domain = d \<or> ends_with (''.'' @ d) from_domain)"

definition claims_brand :: "string \<Rightarrow> string \<Rightarrow> bool" where
  "claims_brand display_name brand =
     (if CHR '' '' \<in> set brand then contains_str brand (to_lower display_name)
      else brand \<in> set (name_tokens display_name))"

definition spoof_check :: "string \<Rightarrow> string \<Rightarrow> string \<times> string list \<Rightarrow> check list" where
  "spoof_check display_name from_domain g =
     (case g of (brand, ds) \<Rightarrow>
        if \<exists>d \<in> set ds. on_domain from_domain d then []
        else if claims_brand display_name brand \<and> from_domain \<noteq> []
        then [\<lparr>ck_id = ''display_name_spoof'', ck_points = 40,
               ck_detail = ''Display name claims '' @ [CHR 0x22] @ brand @ [CHR 0x22] @
                 '' but the message was sent from '' @ from_domain @ '' (expected '' @ join_with '', '' ds @ '')'',
               ck_params = [(''brand'', brand), (''from'', from_domain), (''expected'', join_with '', '' ds)]\<rparr>]
        else [])"

definition lookalike_check :: "phish_env \<Rightarrow> string \<Rightarrow> string \<times> string \<Rightarrow> check list" where
  "lookalike_check E from_domain b =
     (let brand_domain = to_lower (fst b) in
      if on_domain from_domain brand_domain \<or> same_org from_domain brand_domain then []
      else (let from_head = sans_tld from_domain; brand_head = sans_tld brand_domain in
            if 5 \<le> length from_head \<and> 5 \<le> length brand_head then
              (let dist = pe_levenshtein E from_head brand_head in
               if 0 < dist \<and> dist \<le> 2
               then [\<lparr>ck_id = ''domain_lookalike'', ck_points = 50,
                      ck_detail = ''Sender domain '' @ from_domain @ '' looks like '' @ brand_domain,
                      ck_params = [(''from'', from_domain), (''brand'', brand_domain)]\<rparr>]
               else [])
            else []))"

fun retain_first :: "string \<Rightarrow> bool \<Rightarrow> check list \<Rightarrow> check list" where
  "retain_first ident seen [] = []"
| "retain_first ident seen (c # cs) =
     (if ck_id c = ident then (if seen then retain_first ident seen cs else c # retain_first ident True cs)
      else c # retain_first ident seen cs)"

definition dedup_by_id :: "string \<Rightarrow> check list \<Rightarrow> check list" where
  "dedup_by_id ident cs = retain_first ident False cs"

definition idn_check :: "phish_env \<Rightarrow> string \<Rightarrow> check list" where
  "idn_check E from_domain =
     (case pe_to_unicode E from_domain of (decoded, ok) \<Rightarrow>
        if contains_str ''xn--'' from_domain \<or> (ok \<and> decoded \<noteq> from_domain)
        then [\<lparr>ck_id = ''idn_homograph'', ck_points = 35,
               ck_detail = ''Sender domain '' @ from_domain @ '' uses internationalized (Punycode) characters'',
               ck_params = [(''from'', from_domain), (''decoded'', decoded)]\<rparr>]
        else [])"

section \<open>Links\<close>

fun extract_html :: "mail_part \<Rightarrow> string option" where
  "extract_html (MailPart mt hdr bd raw prm subs) =
     (if to_lower mt = ''text/html'' then bd
      else foldr (\<lambda>sub rest. case extract_html sub of Some h \<Rightarrow> Some h | None \<Rightarrow> rest) subs None)"

fun mismatched_from :: "phish_env \<Rightarrow> (string \<times> string list) list \<Rightarrow> (string \<times> string) list" where
  "mismatched_from E [] = []"
| "mismatched_from E ((href, txts) # as) =
     (let txt = trim (join_with '' '' txts) in
      case url_domain href of
        None \<Rightarrow> mismatched_from E as
      | Some href_domain \<Rightarrow>
          (case pe_text_url E txt of
             None \<Rightarrow> mismatched_from E as
           | Some m \<Rightarrow>
               (let text_domain = to_lower m in
                if \<not> same_org href_domain text_domain
                then (href_domain, text_domain) # mismatched_from E as
                else mismatched_from E as)))"

definition mismatched_links :: "phish_env \<Rightarrow> string \<Rightarrow> (string \<times> string) list" where
  "mismatched_links E html = mismatched_from E (pe_anchors E html)"

definition all_hrefs :: "phish_env \<Rightarrow> string \<Rightarrow> string list" where
  "all_hrefs E html =
     filter (\<lambda>h. starts_with ''http://'' h \<or> starts_with ''https://'' h) (map fst (pe_anchors E html))"

text \<open>Three mismatches at most are charged: the loop stops once 60 points are reached.\<close>

fun link_checks :: "int \<Rightarrow> (string \<times> string) list \<Rightarrow> check list" where
  "link_checks pts [] = []"
| "link_checks pts ((href_domain, text_domain) # ms) =
     (if 60 \<le> pts then []
      else \<lparr>ck_id = ''link_mismatch'', ck_points = 20,
             ck_detail = ''Link text shows '' @ text_domain @ '' but points to '' @ href_domain,
             ck_params = [(''text'', text_domain), (''href'', href_domain)]\<rparr>
           # link_checks (pts + 20) ms)"

definition feed_check :: "phish_feed \<Rightarrow> string \<Rightarrow> check list" where
  "feed_check feed href =
     (if to_lower (without_slash href) \<in> set (fd_urls feed)
      then [\<lparr>ck_id = ''openphish_url'', ck_points = 70,
             ck_detail = ''Link '' @ href @ '' is listed in the OpenPhish phishing feed'',
             ck_params = [(''href'', href)]\<rparr>]
      else (case url_domain href of
              None \<Rightarrow> []
            | Some domain \<Rightarrow>
                if domain \<in> set (fd_domains feed)
                then [\<lparr>ck_id = ''openphish_domain'', ck_points = 50,
                       ck_detail = ''Link domain '' @ domain @ '' is listed in the OpenPhish phishing feed'',
                       ck_params = [(''domain'', domain)]\<rparr>]
                else []))"

definition html_checks :: "phish_env \<Rightarrow> phish_feed \<Rightarrow> string \<Rightarrow> check list \<Rightarrow> check list" where
  "html_checks E feed html cs =
     (let cs1 = cs @ link_checks 0 (mismatched_links E html) in
      if fd_urls feed \<noteq> []
      then dedup_by_id ''openphish_domain'' (dedup_by_id ''openphish_url''
             (cs1 @ concat (map (feed_check feed) (all_hrefs E html))))
      else cs1)"

section \<open>The analysis\<close>

definition brand_checks ::
  "phish_env \<Rightarrow> (string \<times> string) list \<Rightarrow> string \<Rightarrow> string \<Rightarrow> check list \<Rightarrow> check list"
where
  "brand_checks E brands display_name from_domain cs =
     dedup_by_id ''domain_lookalike'' (dedup_by_id ''display_name_spoof''
       (cs @ concat (map (spoof_check display_name from_domain) (pe_order E (domains_by_brand brands)))
           @ concat (map (lookalike_check E from_domain) brands)))"

definition clean_report :: report where
  "clean_report = \<lparr>rp_score = 0, rp_verdict = ''clean'', rp_checks = []\<rparr>"

definition trusted_sender :: "phish_env \<Rightarrow> string list \<Rightarrow> string option \<Rightarrow> bool" where
  "trusted_sender E trusted from =
     (trusted \<noteq> [] \<and> (case from of
        None \<Rightarrow> False
      | Some f \<Rightarrow> (case sender_trust_domain E f of None \<Rightarrow> False | Some d \<Rightarrow> d \<in> set trusted)))"

definition all_checks ::
  "phish_env \<Rightarrow> string \<Rightarrow> mail_part \<Rightarrow> (string \<times> string) list \<Rightarrow> phish_feed \<Rightarrow> check list"
where
  "all_checks E raw parsed brands feed =
     (let hdr = pe_headers E raw;
          (display_name, from_domain) = sender_identity E (or_empty (hdr ''From''));
          cs = auth_checks (hdr ''Authentication-Results'') @ mismatch_checks from_domain hdr;
          cs = brand_checks E brands display_name from_domain cs @ idn_check E from_domain
      in case extract_html parsed of None \<Rightarrow> cs | Some html \<Rightarrow> html_checks E feed html cs)"

definition analyse ::
  "phish_env \<Rightarrow> string \<Rightarrow> (string \<times> string) list \<Rightarrow> phish_feed \<Rightarrow> string list \<Rightarrow> report"
where
  "analyse E raw brands feed trusted =
     (case pe_parse E raw of
        None \<Rightarrow> clean_report
      | Some parsed \<Rightarrow>
          if trusted_sender E trusted (pe_headers E raw ''From'') then clean_report
          else (let checks = all_checks E raw parsed brands feed;
                    score = sum_list (map ck_points checks)
                in \<lparr>rp_score = score, rp_verdict = verdict_for score, rp_checks = checks\<rparr>))"

definition store_report :: "phish_env \<Rightarrow> nat \<times> report \<Rightarrow> mail_db \<Rightarrow> mail_db" where
  "store_report E x db =
     (case x of (mid, rep) \<Rightarrow>
        (let row = (mid, rp_score rep, rp_verdict rep, pe_json E (rp_checks rep));
             db1 = db\<lparr>analysis := (if mid \<in> set (map fst (analysis db))
                        then map (\<lambda>r. if fst r = mid then row else r) (analysis db)
                        else analysis db @ [row])\<rparr>
         in db_update (\<lambda>m. m_id m = mid) (\<lambda>m. m\<lparr>m_verdict := Some (rp_verdict rep)\<rparr>) db1))"

text \<open>\<open>file_brands\<close> is the process-wide list loaded at startup; custom entries of the user go first.\<close>

definition analyse_and_store_batch ::
  "phish_env \<Rightarrow> (string \<times> string) list \<Rightarrow> phish_feed \<Rightarrow> (nat \<times> string) list \<Rightarrow> mail_db \<Rightarrow> mail_db"
where
  "analyse_and_store_batch E file_brands feed msgs db =
     (let brands = user_brands db @ file_brands;
          reports = map (\<lambda>(mid, raw). (mid, analyse E raw brands feed (trusted_senders db))) msgs
      in fold (store_report E) reports db)"

section \<open>The score\<close>

definition points :: "check list \<Rightarrow> int" where
  "points cs = sum_list (map ck_points cs)"

definition others :: "string \<Rightarrow> check list \<Rightarrow> check list" where
  "others ident cs = filter (\<lambda>c. ck_id c \<noteq> ident) cs"

lemma points_simps [simp]:
  "points [] = 0" "points (c # cs) = ck_points c + points cs" "points (cs @ ds) = points cs + points ds"
  by (simp_all add: points_def)

lemma others_simps [simp]:
  "others i [] = []" "others i (cs @ ds) = others i cs @ others i ds"
  "others i (c # cs) = (if ck_id c \<noteq> i then c # others i cs else others i cs)"
  by (simp_all add: others_def)

lemma points_retain_first:
  assumes "\<forall>c \<in> set cs. ck_id c = i \<longrightarrow> ck_points c = k"
  shows "points (retain_first i seen cs)
     = points (others i cs) + (if \<not> seen \<and> (\<exists>c \<in> set cs. ck_id c = i) then k else 0)"
  using assms by (induction cs arbitrary: seen) auto

lemma others_retain_first:
  "i \<noteq> j \<Longrightarrow> others j (retain_first i seen cs) = retain_first i seen (others j cs)"
  by (induction cs arbitrary: seen) auto

lemma points_dedup:
  assumes "\<forall>c \<in> set cs. ck_id c = i \<longrightarrow> ck_points c = k"
  shows "points (dedup_by_id i cs) = points (others i cs) + (if \<exists>c \<in> set cs. ck_id c = i then k else 0)"
  using points_retain_first [OF assms, of False] by (simp add: dedup_by_id_def)

lemma set_retain_first: "set (retain_first i seen cs) \<subseteq> set cs"
  by (induction cs arbitrary: seen) auto

lemma retain_first_has:
  "j \<noteq> i \<Longrightarrow> (\<exists>c \<in> set (retain_first i seen cs). ck_id c = j) = (\<exists>c \<in> set cs. ck_id c = j)"
  by (induction cs arbitrary: seen) auto

text \<open>Two kinds deduplicated one after the other: each kind is charged once.\<close>

lemma points_dedup2:
  assumes "i \<noteq> j" "\<forall>c \<in> set cs. ck_id c = i \<longrightarrow> ck_points c = k" "\<forall>c \<in> set cs. ck_id c = j \<longrightarrow> ck_points c = l"
  shows "points (dedup_by_id j (dedup_by_id i cs)) = points (others i (others j cs))
     + (if \<exists>c \<in> set cs. ck_id c = i then k else 0) + (if \<exists>c \<in> set cs. ck_id c = j then l else 0)"
proof -
  have "\<forall>c \<in> set (dedup_by_id i cs). ck_id c = j \<longrightarrow> ck_points c = l"
    using assms(3) set_retain_first unfolding dedup_by_id_def by fastforce
  moreover have "others j (dedup_by_id i cs) = dedup_by_id i (others j cs)"
    using assms(1) by (simp add: dedup_by_id_def others_retain_first)
  moreover have "\<forall>c \<in> set (others j cs). ck_id c = i \<longrightarrow> ck_points c = k"
    using assms(2) by (simp add: others_def)
  moreover have "(\<exists>c \<in> set (others j cs). ck_id c = i) = (\<exists>c \<in> set cs. ck_id c = i)"
    using assms(1) by (auto simp: others_def)
  moreover have "(\<exists>c \<in> set (dedup_by_id i cs). ck_id c = j) = (\<exists>c \<in> set cs. ck_id c = j)"
    using assms(1) by (simp add: dedup_by_id_def retain_first_has)
  ultimately show ?thesis by (simp add: points_dedup)
qed

lemma others_id: "\<forall>c \<in> set cs. ck_id c \<noteq> i \<Longrightarrow> others i cs = cs"
  by (simp add: others_def)

lemma others_none: "\<forall>c \<in> set cs. ck_id c = i \<Longrightarrow> others i cs = []"
  by (simp add: others_def)

definition head_ids :: "string set" where
  "head_ids = {''dmarc_fail'', ''spf_fail'', ''dkim_fail'', ''reply_to_mismatch'', ''return_path_mismatch''}"

lemma auth_ids: "c \<in> set (auth_checks a) \<Longrightarrow> ck_id c \<in> head_ids"
  by (auto simp: auth_checks_def head_ids_def Let_def split: option.splits if_splits)

lemma path_check_ids: "c \<in> set (path_check i l k d h) \<Longrightarrow> ck_id c = i"
  by (auto simp: path_check_def split: option.splits if_splits)

lemma mismatch_ids: "c \<in> set (mismatch_checks d hdr) \<Longrightarrow> ck_id c \<in> head_ids"
  by (auto simp: mismatch_checks_def head_ids_def dest!: path_check_ids split: if_splits)

lemma spoof_ids: "c \<in> set (spoof_check n d g) \<Longrightarrow> ck_id c = ''display_name_spoof'' \<and> ck_points c = 40"
  by (auto simp: spoof_check_def split: prod.splits if_splits)

lemma lookalike_ids: "c \<in> set (lookalike_check E d b) \<Longrightarrow> ck_id c = ''domain_lookalike'' \<and> ck_points c = 50"
  by (auto simp: lookalike_check_def Let_def split: if_splits)

lemma feed_check_ids: "c \<in> set (feed_check feed h) \<Longrightarrow>
    ck_id c = ''openphish_url'' \<and> ck_points c = 70 \<or> ck_id c = ''openphish_domain'' \<and> ck_points c = 50"
  by (auto simp: feed_check_def split: if_splits option.splits)

lemma link_ids: "c \<in> set (link_checks k ms) \<Longrightarrow> ck_id c = ''link_mismatch''"
  by (induction k ms rule: link_checks.induct) (auto split: if_splits)

lemma link_points:
  "k \<le> 60 \<Longrightarrow> k mod 20 = 0 \<Longrightarrow> points (link_checks k ms) = min (60 - k) (20 * int (length ms))"
proof (induction k ms rule: link_checks.induct)
  case (2 pts h t ms)
  show ?case
  proof (cases "60 \<le> pts")
    case False
    have "pts \<le> 40" using False 2(3) by presburger
    with False 2(1) 2(3) show ?thesis by simp
  qed (use 2 in simp)
qed simp

text \<open>The number of points each rule contributes, as a closed sum over the rules that fire.\<close>

definition auth_fails :: "string option \<Rightarrow> string \<Rightarrow> bool" where
  "auth_fails a what = (case a of None \<Rightarrow> False | Some v \<Rightarrow> contains_str what (to_lower v))"

definition path_differs :: "string \<Rightarrow> string option \<Rightarrow> bool" where
  "path_differs from_domain h =
     (from_domain \<noteq> [] \<and> (case h of None \<Rightarrow> False | Some v \<Rightarrow>
        (case domain_of v of None \<Rightarrow> False | Some rd \<Rightarrow> \<not> same_org rd from_domain)))"

definition link_score :: "phish_env \<Rightarrow> phish_feed \<Rightarrow> string option \<Rightarrow> int" where
  "link_score E feed html_opt =
     (case html_opt of None \<Rightarrow> 0 | Some html \<Rightarrow>
        min 60 (20 * int (length (mismatched_links E html)))
        + (if \<exists>h \<in> set (all_hrefs E html). \<exists>c \<in> set (feed_check feed h). fd_urls feed \<noteq> [] \<and> ck_id c = ''openphish_url''
           then 70 else 0)
        + (if \<exists>h \<in> set (all_hrefs E html). \<exists>c \<in> set (feed_check feed h). fd_urls feed \<noteq> [] \<and> ck_id c = ''openphish_domain''
           then 50 else 0))"

definition rule_score ::
  "phish_env \<Rightarrow> (string \<Rightarrow> string option) \<Rightarrow> string option \<Rightarrow> (string \<times> string) list \<Rightarrow> phish_feed \<Rightarrow> int"
where
  "rule_score E hdr html_opt brands feed =
     (let (name, frm) = sender_identity E (or_empty (hdr ''From''));
          auth = hdr ''Authentication-Results''
      in (if auth_fails auth ''dmarc=fail'' then 40 else 0)
       + (if auth_fails auth ''spf=fail'' then 30 else 0)
       + (if auth_fails auth ''dkim=fail'' then 25 else 0)
       + (if path_differs frm (hdr ''Reply-To'') then 20 else 0)
       + (if path_differs frm (hdr ''Return-Path'') then 20 else 0)
       + (if \<exists>g \<in> set (domains_by_brand brands). spoof_check name frm g \<noteq> [] then 40 else 0)
       + (if \<exists>b \<in> set brands. lookalike_check E frm b \<noteq> [] then 50 else 0)
       + (if idn_check E frm \<noteq> [] then 35 else 0)
       + link_score E feed html_opt)"

lemma auth_points: "points (auth_checks a) = (if auth_fails a ''dmarc=fail'' then 40 else 0)
    + (if auth_fails a ''spf=fail'' then 30 else 0) + (if auth_fails a ''dkim=fail'' then 25 else 0)"
  by (simp add: auth_checks_def auth_fails_def Let_def split: option.splits)

lemma mismatch_points: "points (mismatch_checks d hdr) = (if path_differs d (hdr ''Reply-To'') then 20 else 0)
    + (if path_differs d (hdr ''Return-Path'') then 20 else 0)"
  by (simp add: mismatch_checks_def path_differs_def path_check_def split: option.splits)

lemma idn_points: "points (idn_check E d) = (if idn_check E d \<noteq> [] then 35 else 0)"
  by (simp add: idn_check_def split: prod.splits)

lemma idn_ids: "c \<in> set (idn_check E d) \<Longrightarrow> ck_id c = ''idn_homograph''"
  by (auto simp: idn_check_def split: prod.splits if_splits)

lemma points_two_kinds:
  assumes "i \<noteq> j" "\<forall>c \<in> set cs. ck_id c \<noteq> i \<and> ck_id c \<noteq> j"
    and S: "\<forall>c \<in> set S. ck_id c = i \<and> ck_points c = k"
    and L: "\<forall>c \<in> set L. ck_id c = j \<and> ck_points c = l"
  shows "points (dedup_by_id j (dedup_by_id i (cs @ S @ L)))
     = points cs + (if S \<noteq> [] then k else 0) + (if L \<noteq> [] then l else 0)"
proof -
  have "others i (others j (cs @ S @ L)) = cs"
    using assms by (simp add: others_id others_none)
  moreover have "(\<exists>c \<in> set (cs @ S @ L). ck_id c = i) = (S \<noteq> [])"
    using assms by (cases S) auto
  moreover have "(\<exists>c \<in> set (cs @ S @ L). ck_id c = j) = (L \<noteq> [])"
    using assms by (cases L) auto
  moreover have k: "\<forall>c \<in> set (cs @ S @ L). ck_id c = i \<longrightarrow> ck_points c = k"
    and l: "\<forall>c \<in> set (cs @ S @ L). ck_id c = j \<longrightarrow> ck_points c = l"
    using assms by auto
  ultimately show ?thesis
    unfolding points_dedup2 [OF assms(1) k l] by (simp only:)
qed

lemma spoofs_points: "\<forall>c \<in> set (concat (map (spoof_check n d) gs)). ck_id c = ''display_name_spoof'' \<and> ck_points c = 40"
  by (auto dest: spoof_ids)

lemma lookalikes_points: "\<forall>c \<in> set (concat (map (lookalike_check E d) bs)). ck_id c = ''domain_lookalike'' \<and> ck_points c = 50"
  by (auto dest: lookalike_ids)

lemma brand_points:
  assumes heads: "\<forall>c \<in> set cs. ck_id c \<in> head_ids"
    and order: "\<And>gs. set (pe_order E gs) = set gs"
  shows "points (brand_checks E brands name frm cs) = points cs
    + (if \<exists>g \<in> set (domains_by_brand brands). spoof_check name frm g \<noteq> [] then 40 else 0)
    + (if \<exists>b \<in> set brands. lookalike_check E frm b \<noteq> [] then 50 else 0)"
proof -
  have "\<forall>c \<in> set cs. ck_id c \<noteq> ''display_name_spoof'' \<and> ck_id c \<noteq> ''domain_lookalike''"
    using heads by (auto simp: head_ids_def)
  then show ?thesis
    unfolding brand_checks_def
    by (subst points_two_kinds [OF _ _ spoofs_points lookalikes_points]) (simp_all add: order)
qed

lemma brand_ids:
  assumes "\<forall>c \<in> set cs. ck_id c \<in> head_ids" "c \<in> set (brand_checks E brands name frm cs)"
  shows "ck_id c \<noteq> ''openphish_url'' \<and> ck_id c \<noteq> ''openphish_domain''"
proof -
  have "c \<in> set (cs @ concat (map (spoof_check name frm) (pe_order E (domains_by_brand brands)))
       @ concat (map (lookalike_check E frm) brands))"
    using assms(2) set_retain_first unfolding brand_checks_def dedup_by_id_def by (meson subsetD)
  then have "ck_id c \<in> head_ids \<or> ck_id c = ''display_name_spoof'' \<or> ck_id c = ''domain_lookalike''"
    using assms(1) spoofs_points [of name frm] lookalikes_points [of E frm brands] by auto
  then show ?thesis by (auto simp: head_ids_def)
qed

lemma feed_points:
  assumes "\<forall>c \<in> set cs. ck_id c \<noteq> ''openphish_url'' \<and> ck_id c \<noteq> ''openphish_domain''"
    and "\<forall>c \<in> set F. ck_id c = ''openphish_url'' \<and> ck_points c = 70 \<or> ck_id c = ''openphish_domain'' \<and> ck_points c = 50"
  shows "points (dedup_by_id ''openphish_domain'' (dedup_by_id ''openphish_url'' (cs @ F))) = points cs
    + (if \<exists>c \<in> set F. ck_id c = ''openphish_url'' then 70 else 0)
    + (if \<exists>c \<in> set F. ck_id c = ''openphish_domain'' then 50 else 0)"
proof -
  have "others ''openphish_url'' (others ''openphish_domain'' (cs @ F)) = cs"
    using assms by (auto simp: others_def filter_empty_conv)
  moreover have "\<forall>c \<in> set (cs @ F). ck_id c = ''openphish_url'' \<longrightarrow> ck_points c = 70"
    "\<forall>c \<in> set (cs @ F). ck_id c = ''openphish_domain'' \<longrightarrow> ck_points c = 50"
    using assms by fastforce+
  ultimately show ?thesis
    using assms(1) by (subst points_dedup2 [where k = 70 and l = 50]) auto
qed

lemma html_points:
  assumes "\<forall>c \<in> set cs. ck_id c \<noteq> ''openphish_url'' \<and> ck_id c \<noteq> ''openphish_domain''"
  shows "points (html_checks E feed html cs) = points cs + link_score E feed (Some html)"
proof (cases "fd_urls feed = []")
  case True
  then show ?thesis by (simp add: html_checks_def link_score_def link_points)
next
  case False
  let ?F = "concat (map (feed_check feed) (all_hrefs E html))"
  let ?cs = "cs @ link_checks 0 (mismatched_links E html)"
  have F: "\<forall>c \<in> set ?F. ck_id c = ''openphish_url'' \<and> ck_points c = 70 \<or> ck_id c = ''openphish_domain'' \<and> ck_points c = 50"
    using feed_check_ids by fastforce
  have cs: "\<forall>c \<in> set ?cs. ck_id c \<noteq> ''openphish_url'' \<and> ck_id c \<noteq> ''openphish_domain''"
    using assms by (auto dest: link_ids)
  show ?thesis
    using False feed_points [OF cs F] by (simp add: html_checks_def link_score_def link_points)
qed

lemma all_checks_points:
  assumes "\<And>gs. set (pe_order E gs) = set gs"
  shows "points (all_checks E raw parsed brands feed)
     = rule_score E (pe_headers E raw) (extract_html parsed) brands feed"
proof -
  obtain name frm where id: "sender_identity E (or_empty (pe_headers E raw ''From'')) = (name, frm)"
    by fastforce
  define heads where "heads = auth_checks (pe_headers E raw ''Authentication-Results'')
     @ mismatch_checks frm (pe_headers E raw)"
  have heads: "\<forall>c \<in> set heads. ck_id c \<in> head_ids"
    unfolding heads_def using auth_ids mismatch_ids by fastforce
  let ?cs = "brand_checks E brands name frm heads @ idn_check E frm"
  have ids: "\<forall>c \<in> set ?cs. ck_id c \<noteq> ''openphish_url'' \<and> ck_id c \<noteq> ''openphish_domain''"
    using brand_ids [OF heads] by (auto dest: idn_ids)
  have "points heads = (if auth_fails (pe_headers E raw ''Authentication-Results'') ''dmarc=fail'' then 40 else 0)
      + (if auth_fails (pe_headers E raw ''Authentication-Results'') ''spf=fail'' then 30 else 0)
      + (if auth_fails (pe_headers E raw ''Authentication-Results'') ''dkim=fail'' then 25 else 0)
      + (if path_differs frm (pe_headers E raw ''Reply-To'') then 20 else 0)
      + (if path_differs frm (pe_headers E raw ''Return-Path'') then 20 else 0)"
    unfolding heads_def points_simps auth_points mismatch_points by (simp only: add.assoc)
  then have "points ?cs + link_score E feed (extract_html parsed)
      = rule_score E (pe_headers E raw) (extract_html parsed) brands feed"
    unfolding points_simps brand_points [OF heads assms] idn_points rule_score_def id Let_def prod.case
    by (simp only: add.assoc)
  moreover have "all_checks E raw parsed brands feed
      = (case extract_html parsed of None \<Rightarrow> ?cs | Some html \<Rightarrow> html_checks E feed html ?cs)"
    unfolding all_checks_def Let_def id prod.case heads_def ..
  moreover have "points (case extract_html parsed of None \<Rightarrow> ?cs | Some html \<Rightarrow> html_checks E feed html ?cs)
      = points ?cs + link_score E feed (extract_html parsed)"
    using html_points [OF ids] by (cases "extract_html parsed") (simp_all only: option.case, simp add: link_score_def)
  ultimately show ?thesis by (simp only:)
qed

lemma rule_score_bounds: "0 \<le> rule_score E hdr html brands feed \<and> rule_score E hdr html brands feed \<le> 440"
proof -
  have "0 \<le> link_score E feed html" "link_score E feed html \<le> 180"
    by (auto simp: link_score_def split: option.splits)
  moreover have "0 \<le> (if b then k else 0) \<and> (if b then k else 0) \<le> k" if "0 \<le> k" for b and k :: int
    using that by simp
  ultimately show ?thesis
    unfolding rule_score_def Let_def split_beta by (smt (verit))
qed

section \<open>Registrable domains\<close>

lemma split_registrable:
  "split_on (CHR ''.'') (registrable_domain d) =
     (let ls = split_on (CHR ''.'') d in
      if length ls \<le> 2 then ls
      else if join_with ''.'' (drop (length ls - 2) ls) \<in> set multi_part_suffixes
           then drop (length ls - 3) ls else drop (length ls - 2) ls)"
proof -
  have "split_on (CHR ''.'') (join_with ''.'' (drop k (split_on (CHR ''.'') d))) = drop k (split_on (CHR ''.'') d)"
    if "k < length (split_on (CHR ''.'') d)" for k
    using that split_on_no_sep by (intro split_on_join) (auto dest: in_set_dropD)
  then show ?thesis by (simp add: registrable_domain_def Let_def)
qed

lemma registrable_idem: "registrable_domain (registrable_domain d) = registrable_domain d"
proof -
  define ls where "ls = split_on (CHR ''.'') d"
  show ?thesis
  proof (cases "length ls \<le> 2")
    case True
    then show ?thesis by (simp add: registrable_domain_def ls_def Let_def)
  next
    case False
    show ?thesis
    proof (cases "join_with ''.'' (drop (length ls - 2) ls) \<in> set multi_part_suffixes")
      case False
      with \<open>\<not> length ls \<le> 2\<close> have "split_on (CHR ''.'') (registrable_domain d) = drop (length ls - 2) ls"
        by (simp add: split_registrable ls_def Let_def)
      with \<open>\<not> length ls \<le> 2\<close> show ?thesis
        by (subst registrable_domain_def) (simp add: Let_def)
    next
      case True
      with \<open>\<not> length ls \<le> 2\<close> have s: "split_on (CHR ''.'') (registrable_domain d) = drop (length ls - 3) ls"
        by (simp add: split_registrable ls_def Let_def)
      have "drop (Suc 0) (drop (length ls - 3) ls) = drop (length ls - 2) ls"
        using \<open>\<not> length ls \<le> 2\<close> by (simp add: numeral_3_eq_3 numeral_2_eq_2 Suc_diff_Suc)
      with s True \<open>\<not> length ls \<le> 2\<close> have "registrable_domain (registrable_domain d) = join_with ''.'' (drop (length ls - 3) ls)"
        by (subst registrable_domain_def) (simp add: Let_def)
      also have "\<dots> = registrable_domain d"
        using True \<open>\<not> length ls \<le> 2\<close> by (subst registrable_domain_def) (simp add: ls_def Let_def)
      finally show ?thesis .
    qed
  qed
qed

lemma registrable_subdomain:
  assumes "CHR ''.'' \<notin> set label" "3 \<le> length (split_on (CHR ''.'') d)"
  shows "registrable_domain (label @ ''.'' @ d) = registrable_domain d"
proof -
  let ?ls = "split_on (CHR ''.'') d"
  have split: "split_on (CHR ''.'') (label @ ''.'' @ d) = label # ?ls"
    using split_on_append [OF assms(1)] by simp
  have drop: "drop (length (label # ?ls) - k) (label # ?ls) = drop (length ?ls - k) ?ls" if "k \<le> 3" for k
    using assms(2) that by (simp add: Suc_diff_le)
  have "drop (length (label # ?ls) - 2) (label # ?ls) = drop (length ?ls - 2) ?ls"
    "drop (length (label # ?ls) - 3) (label # ?ls) = drop (length ?ls - 3) ?ls"
    "\<not> length (label # ?ls) \<le> 2" "\<not> length ?ls \<le> 2" "3 \<le> length (label # ?ls)"
    using assms(2) by (simp_all only: drop) simp_all
  then show ?thesis
    unfolding registrable_domain_def [of "label @ _"] registrable_domain_def [of d] split Let_def
    using assms(2) by (simp only: if_False simp_thms)
qed

section \<open>Storing a batch\<close>

lemma store_report_frame [store_simps]:
  "pending (store_report E x db) = pending db" "remotes (store_report E x db) = remotes db"
  "accounts (store_report E x db) = accounts db" "next_id (store_report E x db) = next_id db"
  "trusted_senders (store_report E x db) = trusted_senders db"
  by (simp_all add: store_report_def Let_def store_simps split: prod.splits)

lemma counts_ok_analysis [simp]: "counts_ok (db\<lparr>analysis := a\<rparr>) = counts_ok db"
  "uids_ok (db\<lparr>analysis := a\<rparr>) = uids_ok db" "ids_ok (db\<lparr>analysis := a\<rparr>) = ids_ok db"
  by (simp_all add: counts_ok_def folder_counts_ok_def count_live_def count_unread_def uids_ok_def ids_ok_def)

lemma store_report_ok [inv_intros]:
  "counts_ok db \<Longrightarrow> counts_ok (store_report E x db)"
  "uids_ok db \<Longrightarrow> uids_ok (store_report E x db)"
  "ids_ok db \<Longrightarrow> ids_ok (store_report E x db)"
  by (auto simp: store_report_def Let_def split: prod.splits intro!: inv_intros)

lemma fold_store_frame [store_simps]:
  "pending (fold (store_report E) rs db) = pending db" "remotes (fold (store_report E) rs db) = remotes db"
  "accounts (fold (store_report E) rs db) = accounts db" "next_id (fold (store_report E) rs db) = next_id db"
  by (induction rs arbitrary: db) (simp_all add: store_simps)

lemma fold_store_ok [inv_intros]:
  "counts_ok db \<Longrightarrow> counts_ok (fold (store_report E) rs db)"
  "uids_ok db \<Longrightarrow> uids_ok (fold (store_report E) rs db)"
  "ids_ok db \<Longrightarrow> ids_ok (fold (store_report E) rs db)"
  by (induction rs arbitrary: db) (simp_all add: store_report_ok)

lemma store_report_messages:
  "messages (store_report E (mid, rep) db) =
     map (\<lambda>m. if m_id m = mid then m\<lparr>m_verdict := Some (rp_verdict rep)\<rparr> else m) (messages db)"
  by (simp add: store_report_def Let_def store_simps)

definition verdict_row :: "(nat \<rightharpoonup> report) \<Rightarrow> message_row \<Rightarrow> message_row" where
  "verdict_row R m = (case R (m_id m) of Some rep \<Rightarrow> m\<lparr>m_verdict := Some (rp_verdict rep)\<rparr> | None \<Rightarrow> m)"

lemma fold_store_messages:
  "distinct (map fst rs) \<Longrightarrow> messages (fold (store_report E) rs db) = map (verdict_row (map_of rs)) (messages db)"
proof (induction rs arbitrary: db)
  case Nil
  then show ?case by (simp add: verdict_row_def)
next
  case (Cons x rs)
  obtain mid rep where x: "x = (mid, rep)" by fastforce
  have none: "map_of rs mid = None" using Cons.prems x by (simp add: map_of_eq_None_iff)
  have "verdict_row (map_of rs) (if m_id m = mid then m\<lparr>m_verdict := Some (rp_verdict rep)\<rparr> else m)
      = verdict_row (map_of (x # rs)) m" for m
    using none x by (auto simp: verdict_row_def)
  then show ?case
    using Cons by (simp add: x store_report_messages fun_upd_def)
qed

lemma store_report_analysis:
  assumes "distinct (map fst (analysis db))"
  shows "distinct (map fst (analysis (store_report E (mid, rep) db)))"
    and "map_of (analysis (store_report E (mid, rep) db))
       = (map_of (analysis db))(mid \<mapsto> (rp_score rep, rp_verdict rep, pe_json E (rp_checks rep)))"
proof -
  let ?row = "(mid, rp_score rep, rp_verdict rep, pe_json E (rp_checks rep))"
  have keep: "analysis (db_update P g d) = analysis d" for P g d by (simp add: db_update_def)
  have upd: "map fst (map (\<lambda>r. if fst r = mid then ?row else r) rs) = map fst rs" for rs :: "(nat \<times> int \<times> string \<times> string) list"
    by (induction rs) auto
  have look: "mid \<in> fst ` set rs \<Longrightarrow> map_of (map (\<lambda>r. if fst r = mid then ?row else r) rs)
      = (map_of rs)(mid \<mapsto> snd ?row)" for rs
  proof (induction rs)
    case (Cons r rs)
    show ?case
    proof (cases "mid \<in> fst ` set rs")
      case True
      with Cons show ?thesis by (cases r) (auto simp: fun_eq_iff)
    next
      case False
      then have "map (\<lambda>r. if fst r = mid then ?row else r) rs = rs" by (intro map_idI) auto
      with Cons.prems False show ?thesis by (cases r) (auto simp: fun_eq_iff)
    qed
  qed simp
  show "distinct (map fst (analysis (store_report E (mid, rep) db)))"
    using assms upd by (auto simp: store_report_def Let_def keep simp del: map_map)
  show "map_of (analysis (store_report E (mid, rep) db))
       = (map_of (analysis db))(mid \<mapsto> (rp_score rep, rp_verdict rep, pe_json E (rp_checks rep)))"
  proof (cases "mid \<in> set (map fst (analysis db))")
    case True
    then show ?thesis using look [of "analysis db"] by (simp add: store_report_def Let_def keep)
  next
    case False
    then have "map_of (analysis db) mid = None" by (simp add: map_of_eq_None_iff)
    with False show ?thesis
      by (simp add: store_report_def Let_def keep map_add_def fun_eq_iff split: option.splits)
  qed
qed

end
