(* ===== verification/Rest.thy ===== *)
theory Rest
  imports Provider Mime
begin

text \<open>
  The REST helper of the API backends (backend/mail-sync/src/provider/http.rs) and the helpers that
  turn API answers into fetched messages (backend/mail-sync/src/provider/util.rs).

  The HTTP client \<open>reqwest\<close> is a parameter \<open>http\<close>: one exchange takes the method, the URL, the body
  and the state of the remote side, and gives the status and body of the response or a transport
  error (already in the form \<open>wrap\<close> gives it).  \<open>serde_json\<close> is the parameter \<open>of_json\<close>, which
  parses a text to a value of the documented JSON data model.
\<close>

section \<open>JSON values\<close>

datatype json =
    JNull
  | JBool bool
  | JNum int
  | JStr string
  | JArr "json list"
  | JObj "(string \<times> json) list"

text \<open>\<open>value[key]\<close>: null for a missing key or a value that is no object.\<close>

fun jget :: "json \<Rightarrow> string \<Rightarrow> json" where
  "jget (JObj kvs) k = (case map_of kvs k of Some v \<Rightarrow> v | None \<Rightarrow> JNull)"
| "jget _ k = JNull"

fun as_str :: "json \<Rightarrow> string option" where
  "as_str (JStr s) = Some s"
| "as_str _ = None"

fun as_bool :: "json \<Rightarrow> bool option" where
  "as_bool (JBool b) = Some b"
| "as_bool _ = None"

fun as_array :: "json \<Rightarrow> json list" where
  "as_array (JArr xs) = xs"
| "as_array _ = []"

fun as_u64 :: "json \<Rightarrow> nat option" where
  "as_u64 (JNum n) = (if 0 \<le> n \<and> n < 2 ^ 64 then Some (nat n) else None)"
| "as_u64 _ = None"

section \<open>Requests\<close>

datatype http_method = GET | POST | PATCH | DELETE

record 'r http =
  exchange :: "http_method \<Rightarrow> string \<Rightarrow> string \<Rightarrow> 'r \<Rightarrow> (provider_error + (nat \<times> string)) \<times> 'r"
  of_json :: "string \<Rightarrow> json option"
  to_json :: "json \<Rightarrow> string"

definition is_success :: "nat \<Rightarrow> bool" where
  "is_success status = (200 \<le> status \<and> status \<le> 299)"

definition check :: "nat \<times> string \<Rightarrow> provider_error + (nat \<times> string)" where
  "check res = (if is_success (fst res) then Inr res else Inl (Http (fst res) (take 300 (snd res))))"

definition send :: "'r http \<Rightarrow> http_method \<Rightarrow> string \<Rightarrow> string \<Rightarrow> 'r \<Rightarrow> (provider_error + (nat \<times> string)) \<times> 'r"
where
  "send h meth url body r =
     (case exchange h meth url body r of
        (Inl e, r') \<Rightarrow> (Inl e, r')
      | (Inr res, r') \<Rightarrow> (check res, r'))"

definition json_decode_failed :: "string \<Rightarrow> string \<Rightarrow> provider_error" where
  "json_decode_failed url body = Other (''json decode failed for '' @ url @ ''; body='' @ take 300 body)"

definition get_json_once :: "'r http \<Rightarrow> string \<Rightarrow> 'r \<Rightarrow> (provider_error + json) \<times> 'r" where
  "get_json_once h url r =
     (case send h GET url [] r of
        (Inl e, r') \<Rightarrow> (Inl e, r')
      | (Inr (_, body), r') \<Rightarrow>
          (case of_json h body of
             Some v \<Rightarrow> (Inr v, r')
           | None \<Rightarrow> (Inl (json_decode_failed url body), r')))"

fun is_retryable_get :: "provider_error \<Rightarrow> bool" where
  "is_retryable_get (Transport _) = True"
| "is_retryable_get (Http status _) =
     (status = 408 \<or> status = 425 \<or> status = 429 \<or> (500 \<le> status \<and> status \<le> 599))"
| "is_retryable_get (Other msg) = starts_with ''json decode failed'' msg"
| "is_retryable_get _ = False"

definition retry_delay :: "nat \<Rightarrow> nat" where
  "retry_delay attempt = (if attempt = 1 then 250 else 1000)"

definition get_json_attempts :: nat where
  "get_json_attempts = 3"

text \<open>
  The retry loop from attempt \<open>k\<close> on; also returns the milliseconds slept. The loop of the code
  runs attempts \<open>1..=3\<close> and always returns from within.
\<close>

function get_json_from :: "'r http \<Rightarrow> string \<Rightarrow> nat \<Rightarrow> 'r \<Rightarrow> (provider_error + json) \<times> nat \<times> 'r" where
  "get_json_from h url attempt r =
     (case get_json_once h url r of
        (Inr v, r') \<Rightarrow> (Inr v, 0, r')
      | (Inl e, r') \<Rightarrow>
          (if attempt < get_json_attempts \<and> is_retryable_get e
           then (case get_json_from h url (attempt + 1) r' of
                   (res, slept, r'') \<Rightarrow> (res, retry_delay attempt + slept, r''))
           else (Inl e, 0, r')))"
  by pat_completeness auto
termination
  by (relation "measure (\<lambda>(h, url, attempt, r). get_json_attempts - attempt)") auto

declare get_json_from.simps [simp del]

definition get_json :: "'r http \<Rightarrow> string \<Rightarrow> 'r \<Rightarrow> (provider_error + json) \<times> 'r" where
  "get_json h url r = (case get_json_from h url 1 r of (res, _, r') \<Rightarrow> (res, r'))"

definition get_bytes :: "'r http \<Rightarrow> string \<Rightarrow> 'r \<Rightarrow> (provider_error + string) \<times> 'r" where
  "get_bytes h url r =
     (case send h GET url [] r of
        (Inl e, r') \<Rightarrow> (Inl e, r')
      | (Inr (_, body), r') \<Rightarrow> (Inr body, r'))"

definition post_json :: "'r http \<Rightarrow> string \<Rightarrow> json \<Rightarrow> 'r \<Rightarrow> (provider_error + json) \<times> 'r" where
  "post_json h url v r =
     (case send h POST url (to_json h v) r of
        (Inl e, r') \<Rightarrow> (Inl e, r')
      | (Inr (status, body), r') \<Rightarrow>
          (if status = 204 \<or> body = [] then (Inr JNull, r')
           else (Inr (case of_json h body of Some w \<Rightarrow> w | None \<Rightarrow> JNull), r')))"

definition unit_result :: "(provider_error + 'a) \<times> 'r \<Rightarrow> (provider_error + unit) \<times> 'r" where
  "unit_result x = (case x of (Inl e, r) \<Rightarrow> (Inl e, r) | (Inr _, r) \<Rightarrow> (Inr (), r))"

definition post_raw :: "'r http \<Rightarrow> string \<Rightarrow> string \<Rightarrow> 'r \<Rightarrow> (provider_error + unit) \<times> 'r" where
  "post_raw h url body r = unit_result (send h POST url body r)"

definition patch_json :: "'r http \<Rightarrow> string \<Rightarrow> json \<Rightarrow> 'r \<Rightarrow> (provider_error + unit) \<times> 'r" where
  "patch_json h url v r = unit_result (send h PATCH url (to_json h v) r)"

definition rest_delete :: "'r http \<Rightarrow> string \<Rightarrow> 'r \<Rightarrow> (provider_error + unit) \<times> 'r" where
  "rest_delete h url r = unit_result (send h DELETE url [] r)"

section \<open>Retries\<close>

text \<open>At most three requests and 1250 ms of waiting; a permanent error is returned at once.\<close>

fun iterate_once :: "'r http \<Rightarrow> string \<Rightarrow> nat \<Rightarrow> 'r \<Rightarrow> 'r" where
  "iterate_once h url 0 r = r"
| "iterate_once h url (Suc n) r = iterate_once h url n (snd (get_json_once h url r))"

lemma get_json_from_bound:
  assumes "get_json_from h url attempt r = (res, slept, r')" "1 \<le> attempt" "attempt \<le> get_json_attempts"
  shows "slept \<le> (\<Sum>k = attempt..<get_json_attempts. retry_delay k)
    \<and> (\<exists>n. 1 \<le> n \<and> n \<le> get_json_attempts + 1 - attempt \<and> r' = iterate_once h url n r)"
  using assms
proof (induction h url attempt r arbitrary: res slept r' rule: get_json_from.induct)
  case (1 h url attempt r)
  obtain once r1 where once: "get_json_once h url r = (once, r1)" by fastforce
  show ?case
  proof (cases "\<exists>e. once = Inl e \<and> attempt < get_json_attempts \<and> is_retryable_get e")
    case True
    then obtain e where e: "once = Inl e" "attempt < get_json_attempts" "is_retryable_get e" by blast
    obtain s2 where rec: "get_json_from h url (attempt + 1) r1 = (res, s2, r')" "slept = retry_delay attempt + s2"
      using "1.prems"(1) once e by (auto simp: get_json_from.simps [of h url attempt r] split: prod.splits)
    have IH: "s2 \<le> (\<Sum>k = attempt + 1..<get_json_attempts. retry_delay k)"
      "\<exists>n. 1 \<le> n \<and> n \<le> get_json_attempts + 1 - (attempt + 1) \<and> r' = iterate_once h url n r1"
      using "1.IH" [OF once [symmetric] e(1) _ rec(1)] e by auto
    then obtain n where n: "1 \<le> n" "n \<le> get_json_attempts - attempt" "r' = iterate_once h url n r1" by auto
    have "r' = iterate_once h url (Suc n) r" using n(3) once by simp
    moreover have "Suc n \<le> get_json_attempts + 1 - attempt" using n(2) e(2) by linarith
    moreover have "slept \<le> (\<Sum>k = attempt..<get_json_attempts. retry_delay k)"
      using IH(1) rec(2) e(2) by (simp add: sum.atLeast_Suc_lessThan)
    ultimately show ?thesis by (intro conjI exI [of _ "Suc n"]) simp_all
  next
    case False
    then have "slept = 0" "r' = r1"
      using "1.prems"(1) once
      by (auto simp: get_json_from.simps [of h url attempt r] split: sum.splits if_splits)
    then show ?thesis using once "1.prems"(3) by (intro conjI exI [of _ 1]) auto
  qed
qed

lemma get_json_bound:
  assumes "get_json_from h url 1 r = (res, slept, r')"
  shows "slept \<le> 1250 \<and> (\<exists>n. 1 \<le> n \<and> n \<le> 3 \<and> r' = iterate_once h url n r)"
proof -
  have "(\<Sum>k = 1..<get_json_attempts. retry_delay k) = 1250" by code_simp
  then show ?thesis using get_json_from_bound [OF assms] by (simp add: get_json_attempts_def)
qed

lemma get_json_permanent:
  assumes "get_json_once h url r = (Inl e, r')" "\<not> is_retryable_get e"
  shows "get_json h url r = (Inl e, r')"
  using assms by (simp add: get_json_def get_json_from.simps)

lemma get_json_first:
  assumes "get_json_once h url r = (Inr v, r')"
  shows "get_json h url r = (Inr v, r')"
  using assms by (simp add: get_json_def get_json_from.simps)

section \<open>Messages from raw text\<close>

text \<open>
  \<open>mailparse::parse_headers\<close> is the parameter \<open>hdrs\<close>: the first value of each header, or None when
  the block does not parse; \<open>ph\<close> is \<open>mailparse::parse_header\<close> (see the theory of header words).
\<close>

definition find_header_end :: "string \<Rightarrow> nat option" where
  "find_header_end raw =
     (case find_str [CHR 0x0D, CHR 0x0A, CHR 0x0D, CHR 0x0A] raw of
        Some pos \<Rightarrow> Some (pos + 4)
      | None \<Rightarrow> map_option (\<lambda>pos. pos + 2) (find_str [CHR 0x0A, CHR 0x0A] raw))"

definition header_block :: "string \<Rightarrow> string" where
  "header_block raw = (case find_header_end raw of Some n \<Rightarrow> take n raw | None \<Rightarrow> raw)"

fun header_lines :: "(string \<times> string) list \<Rightarrow> string" where
  "header_lines [] = []"
| "header_lines ((name, v) # kvs) = name @ '': '' @ v @ [CHR 0x0D, CHR 0x0A] @ header_lines kvs"

definition header_block_from_pairs :: "(string \<times> string) list \<Rightarrow> string" where
  "header_block_from_pairs kvs = header_lines kvs @ [CHR 0x0D, CHR 0x0A]"

definition blank_message :: "nat \<Rightarrow> string \<Rightarrow> bool \<Rightarrow> bool \<Rightarrow> fetched_message" where
  "blank_message uid date seen flagged =
     \<lparr>fm_uid = uid, fm_remote_id = None, fm_message_id = None, fm_in_reply_to = None,
      fm_references = None, fm_list_id = None, fm_subject = [], fm_from = [], fm_to = [], fm_cc = [],
      fm_date = None, fm_internal_date = date, fm_seen = seen, fm_flagged = flagged,
      fm_deleted = False, fm_body = None\<rparr>"

definition fetched_from_raw ::
  "(string \<Rightarrow> (string \<Rightarrow> string option) option) \<Rightarrow> (string \<Rightarrow> string option) \<Rightarrow> nat \<Rightarrow> string \<Rightarrow> string
     \<Rightarrow> bool \<Rightarrow> bool \<Rightarrow> bool \<Rightarrow> fetched_message"
where
  "fetched_from_raw hdrs ph uid raw date seen flagged include_body =
     (let msg = blank_message uid date seen flagged;
          msg = (case hdrs raw of
                   None \<Rightarrow> msg
                 | Some h \<Rightarrow> msg\<lparr>
                     fm_subject := decode_header_words ph (or_empty (h ''Subject'')),
                     fm_from := or_empty (h ''From''),
                     fm_to := or_empty (h ''To''),
                     fm_cc := or_empty (h ''Cc''),
                     fm_date := h ''Date'',
                     fm_message_id := (case h ''Message-ID'' of Some v \<Rightarrow> Some v | None \<Rightarrow> h ''Message-Id''),
                     fm_in_reply_to := h ''In-Reply-To'',
                     fm_references := h ''References'',
                     fm_list_id := h ''List-Id''\<rparr>)
      in msg\<lparr>fm_body := Some (if include_body then raw else header_block raw)\<rparr>)"

lemma fetched_from_raw_fields [simp]:
  "fm_uid (fetched_from_raw hdrs ph uid raw date seen flagged b) = uid"
  "fm_seen (fetched_from_raw hdrs ph uid raw date seen flagged b) = seen"
  "fm_flagged (fetched_from_raw hdrs ph uid raw date seen flagged b) = flagged"
  "fm_deleted (fetched_from_raw hdrs ph uid raw date seen flagged b) = False"
  "fm_internal_date (fetched_from_raw hdrs ph uid raw date seen flagged b) = date"
  by (simp_all add: fetched_from_raw_def blank_message_def Let_def split: option.splits)

lemma header_block_prefix: "prefix (header_block raw) raw"
  by (auto simp: header_block_def take_is_prefix split: option.splits)

end
