(* ===== verification/Ical.thy ===== *)
theory Ical
  imports Rest
begin

text \<open>
  iCalendar text (backend/calendar-sync/src/lib.rs): line unfolding, the VEVENT parser, rendering of
  one event, and what the mail sync does with calendar parts of a message (\<open>process_calendar_parts\<close>
  of backend/mail-sync/src/sync.rs).

  \<open>to_json\<close> renders a JSON value (\<open>serde_json\<close>); \<open>stamp\<close> is the rendered clock reading of DTSTAMP.
\<close>

section \<open>Lines\<close>

definition lf :: char where "lf = CHR 0x0A"
definition cr :: char where "cr = CHR 0x0D"
definition crlf :: string where "crlf = [CHR 0x0D, CHR 0x0A]"

definition ascii_upper :: "char \<Rightarrow> char" where
  "ascii_upper c = (let n = (of_char c :: nat) in if 97 \<le> n \<and> n \<le> 122 then char_of (n - 32) else c)"

definition to_upper :: "string \<Rightarrow> string" where
  "to_upper s = map ascii_upper s"

definition strip_cr :: "string \<Rightarrow> string" where
  "strip_cr s = (if s \<noteq> [] \<and> last s = cr then butlast s else s)"

text \<open>\<open>str::lines\<close>: no line for the empty text after a final newline; a last line without newline is kept as it is.\<close>

definition lines_of :: "string \<Rightarrow> string list" where
  "lines_of s = (let ls = split_on lf s in map strip_cr (butlast ls) @ (if last ls = [] then [] else [last ls]))"

definition unfold_line :: "string \<Rightarrow> string \<Rightarrow> string" where
  "unfold_line line out =
     (if starts_with '' '' line \<or> starts_with [CHR 0x09] line
      then out @ trim_start_by is_ws line
      else out @ lf # line)"

definition unfold :: "string \<Rightarrow> string" where
  "unfold raw = fold unfold_line (split_on lf (replace_str crlf [lf] raw)) []"

definition unescape_ical :: "string \<Rightarrow> string" where
  "unescape_ical v =
     replace_str [CHR 0x5C, CHR 0x5C] [CHR 0x5C]
       (replace_str [CHR 0x5C, CHR '';''] '';''
          (replace_str [CHR 0x5C, CHR '',''] '',''
             (replace_str [CHR 0x5C, CHR ''n''] [lf] v)))"

definition escape_ical :: "string \<Rightarrow> string" where
  "escape_ical v =
     replace_str '';'' [CHR 0x5C, CHR '';'']
       (replace_str '','' [CHR 0x5C, CHR '','']
          (replace_str [lf] [CHR 0x5C, CHR ''n'']
             (replace_str [CHR 0x5C] [CHR 0x5C, CHR 0x5C] v)))"

definition strip_mailto :: "string \<Rightarrow> string" where
  "strip_mailto v = (if starts_with ''mailto:'' v then drop 7 v
     else if starts_with ''MAILTO:'' v then drop 7 v else v)"

fun find_param :: "string \<Rightarrow> string list \<Rightarrow> string option" where
  "find_param param [] = None"
| "find_param param (part # ps) =
     (case split_once (CHR ''='') part of
        None \<Rightarrow> find_param param ps
      | Some (name, v) \<Rightarrow>
          if to_lower name = to_lower param then Some (trim_by (\<lambda>c. c = CHR 0x22) v)
          else find_param param ps)"

definition param_value :: "string \<Rightarrow> string \<Rightarrow> string option" where
  "param_value key param = find_param param (tl (split_on (CHR '';'') key))"

definition is_digit :: "char \<Rightarrow> bool" where
  "is_digit c = (let n = (of_char c :: nat) in 48 \<le> n \<and> n \<le> 57)"

definition slice :: "nat \<Rightarrow> nat \<Rightarrow> string \<Rightarrow> string" where
  "slice a b s = take (b - a) (drop a s)"

definition ical_to_iso :: "string \<Rightarrow> string \<times> bool" where
  "ical_to_iso v =
     (let s = trim v; digit_count = length (takeWhile is_digit s) in
      if length s = 8 \<and> digit_count = 8
      then (slice 0 4 s @ ''-'' @ slice 4 6 s @ ''-'' @ slice 6 8 s @ ''T00:00:00'', True)
      else if 15 \<le> length s \<and> s ! 8 = CHR ''T''
      then (slice 0 4 s @ ''-'' @ slice 4 6 s @ ''-'' @ slice 6 8 s @ ''T'' @ slice 9 11 s @ '':'' @
            slice 11 13 s @ '':'' @ slice 13 15 s @ (if ends_with ''Z'' s then ''Z'' else []), False)
      else (s, False))"

definition ical_format :: "string \<Rightarrow> bool \<Rightarrow> string" where
  "ical_format ts all_day =
     (let digits = filter is_digit ts in
      if all_day then take 8 digits
      else (let d0 = take 14 digits; d = d0 @ replicate (14 - length d0) (CHR ''0'')
            in slice 0 8 d @ ''T'' @ slice 8 14 d @ ''Z''))"

section \<open>Parsing events\<close>

record parsed_event =
  ev_uid :: string
  ev_title :: string
  ev_starts_at :: string
  ev_ends_at :: string
  ev_all_day :: bool
  ev_location :: "string option"
  ev_description :: "string option"
  ev_rrule :: "string option"
  ev_rrule_uid :: "string option"
  ev_recurrence_id :: "string option"
  ev_status :: "string option"
  ev_organizer_email :: "string option"
  ev_organizer_name :: "string option"
  ev_attendees_json :: "string option"
  ev_busystatus :: "string option"
  ev_teams_url :: "string option"
  ev_raw :: "string option"

text \<open>The local variables of \<open>parse_vevents\<close>.\<close>

record vstate =
  vs_events :: "parsed_event list"
  vs_in :: bool
  vs_uid :: "string option"
  vs_title :: "string option"
  vs_start :: "string option"
  vs_end :: "string option"
  vs_all_day :: bool
  vs_loc :: "string option"
  vs_desc :: "string option"
  vs_rrule :: "string option"
  vs_recurrence :: "string option"
  vs_status :: "string option"
  vs_org_email :: "string option"
  vs_org_name :: "string option"
  vs_attendees :: "json list"
  vs_busy :: "string option"
  vs_teams :: "string option"
  vs_lines :: "string list"

definition vstate0 :: "parsed_event list \<Rightarrow> vstate" where
  "vstate0 evs = \<lparr>vs_events = evs, vs_in = False, vs_uid = None, vs_title = None, vs_start = None,
     vs_end = None, vs_all_day = False, vs_loc = None, vs_desc = None, vs_rrule = None,
     vs_recurrence = None, vs_status = None, vs_org_email = None, vs_org_name = None,
     vs_attendees = [], vs_busy = None, vs_teams = None, vs_lines = []\<rparr>"

definition begin_event :: "vstate \<Rightarrow> vstate" where
  "begin_event st = (vstate0 (vs_events st))\<lparr>vs_in := True, vs_lines := [''BEGIN:VEVENT'']\<rparr>"

text \<open>
  \<open>take()\<close> empties a variable: \<open>title\<close> and \<open>start\<close> are taken whether or not both are present, the
  others only when an event is built; \<open>rrule_uid\<close> reads \<open>uid\<close> after it has been taken.
\<close>

definition end_event :: "(json \<Rightarrow> string) \<Rightarrow> vstate \<Rightarrow> vstate" where
  "end_event to_js st0 =
     (let st = st0\<lparr>vs_lines := vs_lines st0 @ [''END:VEVENT'']\<rparr> in
      case (vs_title st, vs_start st) of
        (Some t, Some s) \<Rightarrow>
          st\<lparr>vs_in := False,
             vs_events := vs_events st @
               [\<lparr>ev_uid = or_empty (vs_uid st), ev_title = t, ev_starts_at = s,
                 ev_ends_at = (case vs_end st of Some e \<Rightarrow> e | None \<Rightarrow> s),
                 ev_all_day = vs_all_day st, ev_location = vs_loc st, ev_description = vs_desc st,
                 ev_rrule = vs_rrule st, ev_rrule_uid = None, ev_recurrence_id = vs_recurrence st,
                 ev_status = vs_status st, ev_organizer_email = vs_org_email st,
                 ev_organizer_name = vs_org_name st, ev_attendees_json = Some (to_js (JArr (vs_attendees st))),
                 ev_busystatus = vs_busy st, ev_teams_url = vs_teams st,
                 ev_raw = Some (''BEGIN:VCALENDAR'' @ crlf @ ''VERSION:2.0'' @ crlf @
                   join_with crlf (vs_lines st) @ crlf @ ''END:VCALENDAR'' @ crlf)\<rparr>],
             vs_title := None, vs_start := None, vs_end := None, vs_uid := None, vs_loc := None,
             vs_desc := None, vs_rrule := None, vs_recurrence := None, vs_status := None,
             vs_org_email := None, vs_org_name := None, vs_attendees := [], vs_busy := None, vs_teams := None\<rparr>
      | _ \<Rightarrow> st\<lparr>vs_in := False, vs_title := None, vs_start := None\<rparr>)"

definition attendee_json :: "string \<Rightarrow> string \<Rightarrow> json" where
  "attendee_json key v =
     JObj [(''email'', JStr (strip_mailto v)),
           (''name'', JStr (case param_value key ''CN'' of Some n \<Rightarrow> n | None \<Rightarrow> strip_mailto v)),
           (''partstat'', JStr (case param_value key ''PARTSTAT'' of Some n \<Rightarrow> n | None \<Rightarrow> ''NEEDS-ACTION'')),
           (''cutype'', JStr (case param_value key ''CUTYPE'' of Some n \<Rightarrow> n | None \<Rightarrow> ''INDIVIDUAL''))]"

definition event_property :: "string \<Rightarrow> string \<Rightarrow> string \<Rightarrow> vstate \<Rightarrow> vstate" where
  "event_property prop key v st =
     (if prop = ''UID'' then st\<lparr>vs_uid := Some v\<rparr>
      else if prop = ''SUMMARY'' then st\<lparr>vs_title := Some (unescape_ical v)\<rparr>
      else if prop = ''DTSTART'' then
        (case ical_to_iso v of (ts, date_only) \<Rightarrow>
           (if date_only \<or> contains_str ''VALUE=DATE'' (to_upper key)
            then st\<lparr>vs_all_day := True\<rparr> else st)\<lparr>vs_start := Some ts\<rparr>)
      else if prop = ''DTEND'' then st\<lparr>vs_end := Some (fst (ical_to_iso v))\<rparr>
      else if prop = ''LOCATION'' then st\<lparr>vs_loc := Some (unescape_ical v)\<rparr>
      else if prop = ''DESCRIPTION'' then st\<lparr>vs_desc := Some (unescape_ical v)\<rparr>
      else if prop = ''RRULE'' then st\<lparr>vs_rrule := Some v\<rparr>
      else if prop = ''RECURRENCE-ID'' then st\<lparr>vs_recurrence := Some (fst (ical_to_iso v))\<rparr>
      else if prop = ''STATUS'' then st\<lparr>vs_status := Some (to_lower v)\<rparr>
      else if prop = ''ORGANIZER'' then
        st\<lparr>vs_org_email := Some (strip_mailto v), vs_org_name := map_option unescape_ical (param_value key ''CN'')\<rparr>
      else if prop = ''ATTENDEE'' then st\<lparr>vs_attendees := vs_attendees st @ [attendee_json key v]\<rparr>
      else if prop = ''X-MICROSOFT-CDO-BUSYSTATUS'' then st\<lparr>vs_busy := Some (to_lower v)\<rparr>
      else if prop = ''X-MICROSOFT-SKYPETEAMSMEETINGURL'' then st\<lparr>vs_teams := Some v\<rparr>
      else st)"

definition event_line :: "(json \<Rightarrow> string) \<Rightarrow> string \<Rightarrow> vstate \<Rightarrow> vstate" where
  "event_line to_js line st =
     (let upper = to_upper line in
      if starts_with ''BEGIN:VEVENT'' upper then begin_event st
      else if starts_with ''END:VEVENT'' upper then end_event to_js st
      else if \<not> vs_in st then st
      else (let st = st\<lparr>vs_lines := vs_lines st @ [line]\<rparr> in
            case split_once (CHR '':'') line of
              None \<Rightarrow> st
            | Some (key, v) \<Rightarrow>
                event_property (to_upper (hd (split_on (CHR '';'') key))) key (trim v) st))"

definition parse_icalendar_events :: "(json \<Rightarrow> string) \<Rightarrow> string \<Rightarrow> parsed_event list" where
  "parse_icalendar_events to_js ics = vs_events (fold (event_line to_js) (lines_of (unfold ics)) (vstate0 []))"

fun find_method :: "string list \<Rightarrow> string option" where
  "find_method [] = None"
| "find_method (line # ls) =
     (case split_once (CHR '':'') line of
        None \<Rightarrow> find_method ls
      | Some (key, v) \<Rightarrow>
          if to_lower key = ''method'' then Some (to_upper (trim v)) else find_method ls)"

definition parse_method :: "string \<Rightarrow> string option" where
  "parse_method ics = find_method (lines_of (unfold ics))"

section \<open>Rendering an event\<close>

record event_input =
  ei_uid :: string
  ei_title :: string
  ei_starts_at :: string
  ei_ends_at :: string
  ei_all_day :: bool
  ei_location :: "string option"
  ei_description :: "string option"
  ei_rrule :: "string option"
  ei_attendees_json :: "string option"
  ei_organizer_email :: "string option"
  ei_organizer_name :: "string option"

definition non_empty :: "string option \<Rightarrow> string option" where
  "non_empty x = (case x of Some s \<Rightarrow> if s = [] then None else Some s | None \<Rightarrow> None)"

definition optional_line :: "(string \<Rightarrow> string) \<Rightarrow> string option \<Rightarrow> string list" where
  "optional_line f x = (case x of Some v \<Rightarrow> [f v] | None \<Rightarrow> [])"

fun trim_start_matches :: "string \<Rightarrow> nat \<Rightarrow> string \<Rightarrow> string" where
  "trim_start_matches p 0 s = s"
| "trim_start_matches p (Suc n) s = (if starts_with p s then trim_start_matches p n (drop (length p) s) else s)"

fun attendee_lines :: "json list \<Rightarrow> string list" where
  "attendee_lines [] = []"
| "attendee_lines (a # as) =
     (let email = or_empty (as_str (jget a ''email'')) in
      if email = [] then attendee_lines as
      else (let name = (case as_str (jget a ''name'') of Some n \<Rightarrow> n | None \<Rightarrow> email);
                partstat = (case as_str (jget a ''partstat'') of Some p \<Rightarrow> p | None \<Rightarrow> ''NEEDS-ACTION'')
            in (''ATTENDEE;CN='' @ escape_ical name @ '';PARTSTAT='' @ to_upper partstat @ '':mailto:'' @ email)
               # attendee_lines as))"

definition ics_lines :: "(string \<Rightarrow> json option) \<Rightarrow> string \<Rightarrow> event_input \<Rightarrow> string list" where
  "ics_lines of_js stamp ev =
     [''BEGIN:VCALENDAR'', ''VERSION:2.0'', ''PRODID:-//Mailquill//Calendar//EN'', ''BEGIN:VEVENT'',
      ''UID:'' @ ei_uid ev, ''DTSTAMP:'' @ stamp] @
     (if ei_all_day ev
      then [''DTSTART;VALUE=DATE:'' @ ical_format (ei_starts_at ev) True,
            ''DTEND;VALUE=DATE:'' @ ical_format (ei_ends_at ev) True]
      else [''DTSTART:'' @ ical_format (ei_starts_at ev) False, ''DTEND:'' @ ical_format (ei_ends_at ev) False]) @
     [''SUMMARY:'' @ escape_ical (ei_title ev)] @
     optional_line (\<lambda>l. ''LOCATION:'' @ escape_ical l) (non_empty (ei_location ev)) @
     optional_line (\<lambda>d. ''DESCRIPTION:'' @ escape_ical d) (non_empty (ei_description ev)) @
     optional_line (\<lambda>r. ''RRULE:'' @ trim_start_matches ''RRULE:'' (length r) r) (non_empty (ei_rrule ev)) @
     optional_line (\<lambda>org. ''ORGANIZER;CN='' @
         escape_ical (case ei_organizer_name ev of Some n \<Rightarrow> n | None \<Rightarrow> org) @ '':mailto:'' @ org)
       (non_empty (ei_organizer_email ev)) @
     (case ei_attendees_json ev of
        None \<Rightarrow> []
      | Some a \<Rightarrow> (case of_js a of Some (JArr xs) \<Rightarrow> attendee_lines xs | _ \<Rightarrow> [])) @
     [''END:VEVENT'', ''END:VCALENDAR'']"

definition build_ics :: "(string \<Rightarrow> json option) \<Rightarrow> string \<Rightarrow> event_input \<Rightarrow> string" where
  "build_ics of_js stamp ev = concat (map (\<lambda>l. l @ crlf) (ics_lines of_js stamp ev))"

section \<open>Invitations in mail\<close>

record invitation_row =
  in_message :: nat
  in_method :: string
  in_uid :: string
  in_summary :: string
  in_start :: string
  in_end :: string
  in_organizer :: "string option"
  in_attendees :: string
  in_rsvp :: string
  in_raw :: string
  in_teams :: "string option"

record calendar_event_row =
  ce_uid :: string
  ce_status :: string
  ce_attendees :: string

record calendar_db =
  invitations :: "invitation_row list"
  calendar_events :: "calendar_event_row list"

definition replace_invitation :: "invitation_row \<Rightarrow> calendar_db \<Rightarrow> calendar_db" where
  "replace_invitation r c = c\<lparr>invitations :=
     filter (\<lambda>q. \<not> (in_message q = in_message r \<and> in_uid q = in_uid r)) (invitations c) @ [r]\<rparr>"

definition invitation_of :: "nat \<Rightarrow> string \<Rightarrow> string \<Rightarrow> string \<Rightarrow> parsed_event \<Rightarrow> invitation_row" where
  "invitation_of mid meth rsvp raw ev =
     \<lparr>in_message = mid, in_method = meth, in_uid = ev_uid ev, in_summary = ev_title ev,
      in_start = ev_starts_at ev, in_end = ev_ends_at ev, in_organizer = ev_organizer_email ev,
      in_attendees = (case ev_attendees_json ev of Some a \<Rightarrow> a | None \<Rightarrow> ''[]''),
      in_rsvp = rsvp, in_raw = raw, in_teams = ev_teams_url ev\<rparr>"

definition process_event :: "nat \<Rightarrow> string \<Rightarrow> string \<Rightarrow> parsed_event \<Rightarrow> calendar_db \<Rightarrow> calendar_db" where
  "process_event mid meth raw ev c =
     (if ev_uid ev = [] then c
      else if meth = ''REQUEST'' then replace_invitation (invitation_of mid meth ''pending'' raw ev) c
      else if meth = ''CANCEL'' then
        replace_invitation (invitation_of mid meth ''cancelled'' raw ev)
          (c\<lparr>calendar_events := map (\<lambda>e. if ce_uid e = ev_uid ev then e\<lparr>ce_status := ''cancelled''\<rparr> else e)
               (calendar_events c)\<rparr>)
      else if meth = ''REPLY'' then
        c\<lparr>calendar_events := map (\<lambda>e. if ce_uid e = ev_uid ev
             then e\<lparr>ce_attendees := (case ev_attendees_json ev of Some a \<Rightarrow> a | None \<Rightarrow> ''[]'')\<rparr> else e)
             (calendar_events c)\<rparr>
      else c)"

definition process_part :: "(json \<Rightarrow> string) \<Rightarrow> nat \<Rightarrow> string \<Rightarrow> calendar_db \<Rightarrow> calendar_db" where
  "process_part to_js mid raw c =
     (let meth = (case parse_method raw of Some m \<Rightarrow> m | None \<Rightarrow> ''PUBLISH'')
      in fold (process_event mid meth raw) (parse_icalendar_events to_js raw) c)"

definition process_calendar_parts :: "(json \<Rightarrow> string) \<Rightarrow> nat \<Rightarrow> string list \<Rightarrow> calendar_db \<Rightarrow> calendar_db" where
  "process_calendar_parts to_js mid parts c = fold (process_part to_js mid) parts c"

section \<open>Dates round trip\<close>

lemma slice_append [simp]:
  "slice 0 b (xs @ ys) = (if b \<le> length xs then take b xs else xs @ take (b - length xs) ys)"
  by (simp add: slice_def)

lemma trim_no_ws: "\<forall>c \<in> set s. \<not> is_ws c \<Longrightarrow> trim s = s"
  unfolding trim_def by (rule trim_by_fixpoint) auto

lemma digit_no_ws: "is_digit c \<Longrightarrow> \<not> is_ws c"
  by (auto simp: is_digit_def is_ws_def Let_def)

lemma not_digits [simp]:
  "\<not> is_digit (CHR ''-'')" "\<not> is_digit (CHR '':'')" "\<not> is_digit (CHR ''T'')" "\<not> is_digit (CHR ''Z'')"
  by (simp_all add: is_digit_def)

definition utc_text :: "string \<Rightarrow> string \<Rightarrow> string \<Rightarrow> string \<Rightarrow> string \<Rightarrow> string \<Rightarrow> string" where
  "utc_text y mo d h mi s =
     y @ ''-'' @ mo @ ''-'' @ d @ ''T'' @ h @ '':'' @ mi @ '':'' @ s @ ''Z''"

definition digit_field :: "nat \<Rightarrow> string \<Rightarrow> bool" where
  "digit_field n s = (length s = n \<and> list_all is_digit s)"

lemma filter_digits: "digit_field n s \<Longrightarrow> filter is_digit s = s"
  by (simp add: digit_field_def list_all_iff)

lemma digit_fieldE:
  assumes "digit_field 2 s"
  obtains a b where "s = [a, b]" "is_digit a" "is_digit b"
proof -
  obtain a b where "s = [a, b]"
    using assms by (auto simp: digit_field_def numeral_2_eq_2 length_Suc_conv)
  with assms that show thesis by (simp add: digit_field_def)
qed

lemma digit_field4E:
  assumes "digit_field 4 s"
  obtains a b c d where "s = [a, b, c, d]" "is_digit a" "is_digit b" "is_digit c" "is_digit d"
proof -
  obtain a b c d where "s = [a, b, c, d]"
    using assms by (auto simp: digit_field_def numeral_eq_Suc length_Suc_conv)
  with assms that show thesis by (simp add: digit_field_def)
qed

lemma ical_date_format:
  assumes "digit_field 4 y" "digit_field 2 mo" "digit_field 2 d" "digit_field 2 h" "digit_field 2 mi" "digit_field 2 s"
  shows "ical_format (utc_text y mo d h mi s) False = y @ mo @ d @ ''T'' @ h @ mi @ s @ ''Z''"
    and "ical_format (utc_text y mo d h mi s) True = y @ mo @ d"
proof -
  have digits: "filter is_digit (utc_text y mo d h mi s) = y @ mo @ d @ h @ mi @ s"
    using assms by (simp add: utc_text_def filter_digits)
  show "ical_format (utc_text y mo d h mi s) False = y @ mo @ d @ ''T'' @ h @ mi @ s @ ''Z''"
    "ical_format (utc_text y mo d h mi s) True = y @ mo @ d"
    using assms unfolding ical_format_def digits by (simp_all add: digit_field_def slice_def Let_def)
qed

lemma ical_date_parse:
  assumes "digit_field 4 y" "digit_field 2 mo" "digit_field 2 d" "digit_field 2 h" "digit_field 2 mi" "digit_field 2 s"
  shows "ical_to_iso (y @ mo @ d @ ''T'' @ h @ mi @ s @ ''Z'') = (utc_text y mo d h mi s, False)"
    and "ical_to_iso (y @ mo @ d) = (y @ ''-'' @ mo @ ''-'' @ d @ ''T00:00:00'', True)"
proof -
  obtain y1 y2 y3 y4 where y: "y = [y1, y2, y3, y4]" "is_digit y1" "is_digit y2" "is_digit y3" "is_digit y4"
    using assms(1) by (rule digit_field4E)
  obtain m1 m2 where m: "mo = [m1, m2]" "is_digit m1" "is_digit m2" using assms(2) by (rule digit_fieldE)
  obtain d1 d2 where d: "d = [d1, d2]" "is_digit d1" "is_digit d2" using assms(3) by (rule digit_fieldE)
  obtain h1 h2 where h: "h = [h1, h2]" "is_digit h1" "is_digit h2" using assms(4) by (rule digit_fieldE)
  obtain i1 i2 where i: "mi = [i1, i2]" "is_digit i1" "is_digit i2" using assms(5) by (rule digit_fieldE)
  obtain s1 s2 where s: "s = [s1, s2]" "is_digit s1" "is_digit s2" using assms(6) by (rule digit_fieldE)
  note digits = y m d h i s
  have "trim (y @ mo @ d @ ''T'' @ h @ mi @ s @ ''Z'') = y @ mo @ d @ ''T'' @ h @ mi @ s @ ''Z''"
    using digits by (intro trim_no_ws) (auto simp: digit_no_ws, simp_all add: is_ws_def)
  then show "ical_to_iso (y @ mo @ d @ ''T'' @ h @ mi @ s @ ''Z'') = (utc_text y mo d h mi s, False)"
    using digits by (simp add: ical_to_iso_def Let_def utc_text_def slice_def ends_with_def starts_with_def)
  have "trim (y @ mo @ d) = y @ mo @ d"
    using digits by (intro trim_no_ws) (auto simp: digit_no_ws)
  then show "ical_to_iso (y @ mo @ d) = (y @ ''-'' @ mo @ ''-'' @ d @ ''T00:00:00'', True)"
    using digits by (simp add: ical_to_iso_def Let_def slice_def)
qed

section \<open>Escaping\<close>

lemma replace_Nil [simp]: "replace_str p r [] = []"
  by (simp add: replace_str.simps)

lemma replace_match: "p \<noteq> [] \<Longrightarrow> replace_str p r (p @ s) = r @ replace_str p r s"
  by (subst replace_str.simps) (simp add: starts_with_def)

lemma replace_char: "replace_str [c] r s = concat (map (\<lambda>x. if x = c then r else [x]) s)"
  by (induction s) (simp_all add: replace_str.simps [of "[c]" r "_ # _"] starts_with_def)

lemma replace_skip: "x \<noteq> a \<Longrightarrow> replace_str [a, b] r (x # s) = x # replace_str [a, b] r s"
  by (subst replace_str.simps) (simp add: starts_with_def)

lemma replace_skip2: "y \<noteq> b \<Longrightarrow> y \<noteq> a \<Longrightarrow> replace_str [a, b] r (a # y # s) = a # y # replace_str [a, b] r s"
  using replace_skip [of y a b r s] by (subst replace_str.simps) (simp add: starts_with_def)

text \<open>A text of tokens, each one plain character or a backslash pair.\<close>

definition token :: "string \<Rightarrow> bool" where
  "token t = ((\<exists>x. t = [x] \<and> x \<noteq> CHR 0x5C) \<or> (\<exists>y. t = [CHR 0x5C, y] \<and> y \<noteq> CHR 0x5C))"

lemma replace_tokens:
  assumes "\<forall>t \<in> set ts. token t" "b \<noteq> CHR 0x5C"
  shows "replace_str [CHR 0x5C, b] r (concat ts) = concat (map (\<lambda>t. if t = [CHR 0x5C, b] then r else t) ts)"
  using assms(1)
proof (induction ts)
  case (Cons t ts)
  then consider x where "t = [x]" "x \<noteq> CHR 0x5C" | y where "t = [CHR 0x5C, y]" "y \<noteq> CHR 0x5C"
    by (auto simp: token_def)
  then show ?case
  proof cases
    case 1
    with Cons show ?thesis by (simp add: replace_skip)
  next
    case 2
    show ?thesis
    proof (cases "y = b")
      case True
      with 2 Cons show ?thesis using replace_match [of "[CHR 0x5C, b]" r "concat ts"] by simp
    next
      case False
      with 2 Cons show ?thesis by (simp add: replace_skip2)
    qed
  qed
qed simp

lemma replace_none: "CHR 0x5C \<notin> set s \<Longrightarrow> replace_str (CHR 0x5C # p) r s = s"
  by (induction s) (auto simp: replace_str.simps [of "CHR 0x5C # p" r "_ # _"] starts_with_def)

definition escape_char :: "char \<Rightarrow> string" where
  "escape_char x = (if x = lf then [CHR 0x5C, CHR ''n''] else if x = CHR '','' then [CHR 0x5C, CHR '','']
     else if x = CHR '';'' then [CHR 0x5C, CHR '';''] else [x])"

lemma escape_eq: "CHR 0x5C \<notin> set v \<Longrightarrow> escape_ical v = concat (map escape_char v)"
  by (induction v) (auto simp: escape_ical_def replace_char escape_char_def lf_def)

definition swap :: "char \<Rightarrow> char \<Rightarrow> string \<Rightarrow> string" where
  "swap b r t = (if t = [CHR 0x5C, b] then [r] else t)"

lemma replace_swap:
  assumes "\<forall>x \<in> set v. token (f x)" "b \<noteq> CHR 0x5C"
  shows "replace_str [CHR 0x5C, b] [r] (concat (map f v)) = concat (map (\<lambda>x. swap b r (f x)) v)"
  using replace_tokens [of "map f v" b "[r]"] assms by (simp add: comp_def swap_def)

lemma token_swap: "token t \<Longrightarrow> r \<noteq> CHR 0x5C \<Longrightarrow> token (swap b r t)"
  by (auto simp: swap_def token_def)

lemma unescape_escape:
  assumes "CHR 0x5C \<notin> set v"
  shows "unescape_ical (escape_ical v) = v"
proof -
  let ?f = "escape_char"
  let ?f1 = "\<lambda>x. swap (CHR ''n'') lf (?f x)"
  let ?f2 = "\<lambda>x. swap (CHR '','') (CHR '','') (?f1 x)"
  let ?f3 = "\<lambda>x. swap (CHR '';'') (CHR '';'') (?f2 x)"
  have t: "\<forall>x \<in> set v. token (?f x)" using assms by (auto simp: escape_char_def token_def)
  then have t1: "\<forall>x \<in> set v. token (?f1 x)" by (simp add: token_swap lf_def)
  then have t2: "\<forall>x \<in> set v. token (?f2 x)" by (simp add: token_swap)
  have "concat (map ?f3 v) = v"
    using assms by (induction v) (auto simp: swap_def escape_char_def lf_def)
  moreover have "replace_str [CHR 0x5C, CHR 0x5C] [CHR 0x5C] v = v" using assms by (rule replace_none)
  ultimately show ?thesis
    unfolding unescape_ical_def escape_eq [OF assms]
    by (simp add: replace_swap [OF t] replace_swap [OF t1] replace_swap [OF t2])
qed

text \<open>An escaped backslash before the letter n is read back as a newline.\<close>

lemma unescape_escape_backslash: "unescape_ical (escape_ical [CHR 0x5C, CHR ''n'']) = [CHR 0x5C, lf]"
  by (simp add: unescape_ical_def escape_ical_def replace_char lf_def)
     (simp add: replace_str.simps starts_with_def)

section \<open>Invitations\<close>

definition invitations_ok :: "calendar_db \<Rightarrow> bool" where
  "invitations_ok c = distinct (map (\<lambda>r. (in_message r, in_uid r)) (invitations c))"

lemma replace_invitation_ok: "invitations_ok c \<Longrightarrow> invitations_ok (replace_invitation r c)"
  by (auto simp: invitations_ok_def replace_invitation_def distinct_map_filter)

lemma process_event_ok: "invitations_ok c \<Longrightarrow> invitations_ok (process_event mid meth raw ev c)"
  by (auto simp: process_event_def intro!: replace_invitation_ok) (simp_all add: invitations_ok_def)

lemma process_parts_ok: "invitations_ok c \<Longrightarrow> invitations_ok (process_calendar_parts js mid parts c)"
proof -
  have events: "invitations_ok (fold (process_event mid meth raw) evs c)" if "invitations_ok c" for meth raw evs c
    using that by (induction evs arbitrary: c) (simp_all add: process_event_ok)
  show "invitations_ok c \<Longrightarrow> invitations_ok (process_calendar_parts js mid parts c)"
    unfolding process_calendar_parts_def
    by (induction parts arbitrary: c) (simp_all add: process_part_def Let_def events)
qed

section \<open>A rendered event parses back\<close>

definition line_ok :: "string \<Rightarrow> bool" where
  "line_ok l = (cr \<notin> set l \<and> lf \<notin> set l \<and> l \<noteq> [] \<and> \<not> is_ws (hd l))"

lemma replace_crlf_line: "cr \<notin> set l \<Longrightarrow> replace_str crlf [lf] (l @ crlf @ rest) = l @ lf # replace_str crlf [lf] rest"
proof (induction l)
  case Nil
  then show ?case using replace_match [of crlf "[lf]" rest] by (simp add: crlf_def)
next
  case (Cons c l)
  then have "c \<noteq> CHR 0x0D" by (auto simp: cr_def)
  with Cons show ?case by (simp add: crlf_def cr_def replace_skip)
qed

lemma replace_crlf_lines:
  "\<forall>l \<in> set ls. line_ok l \<Longrightarrow>
   replace_str crlf [lf] (concat (map (\<lambda>l. l @ crlf) ls)) = concat (map (\<lambda>l. l @ [lf]) ls)"
  by (induction ls) (auto simp: replace_crlf_line line_ok_def)

lemma split_lf_lines:
  "\<forall>l \<in> set ls. line_ok l \<Longrightarrow> split_on lf (concat (map (\<lambda>l. l @ [lf]) ls)) = ls @ [[]]"
  by (induction ls) (auto simp: split_on_append line_ok_def)

lemma starts_with_single: "starts_with [c] l = (l \<noteq> [] \<and> hd l = c)"
  by (cases l) (auto simp: starts_with_def)

lemma fold_unfold_lines:
  "\<forall>l \<in> set ls. line_ok l \<Longrightarrow> fold unfold_line ls out = out @ concat (map (\<lambda>l. lf # l) ls)"
  by (induction ls arbitrary: out) (auto simp: unfold_line_def starts_with_single line_ok_def is_ws_def)

lemma concat_lines_shift: "concat (map (\<lambda>l. c # l) ls) @ [c] = c # concat (map (\<lambda>l. l @ [c]) ls)"
  by (induction ls) simp_all

lemma lines_of_built:
  assumes "\<forall>l \<in> set ls. line_ok l"
  shows "lines_of (unfold (concat (map (\<lambda>l. l @ crlf) ls))) = [] # ls"
proof -
  have "unfold (concat (map (\<lambda>l. l @ crlf) ls)) = concat (map (\<lambda>l. lf # l) ls) @ [lf]"
    using assms
    by (simp add: unfold_def replace_crlf_lines split_lf_lines fold_unfold_lines)
      (simp add: unfold_line_def starts_with_def)
  then have "unfold (concat (map (\<lambda>l. l @ crlf) ls)) = lf # concat (map (\<lambda>l. l @ [lf]) ls)"
    by (simp only: concat_lines_shift)
  moreover have "split_on lf (lf # concat (map (\<lambda>l. l @ [lf]) ls)) = [] # ls @ [[]]"
    using split_lf_lines [OF assms] by simp
  moreover have "map strip_cr ls = ls"
    using assms by (intro map_idI) (metis strip_cr_def line_ok_def last_in_set)
  ultimately show ?thesis by (simp add: lines_of_def Let_def butlast_append strip_cr_def)
qed

lemma event_line_steps:
  "vs_in st \<Longrightarrow> event_line js (''UID:'' @ v) st = st\<lparr>vs_lines := vs_lines st @ [''UID:'' @ v], vs_uid := Some (trim v)\<rparr>"
  "vs_in st \<Longrightarrow> event_line js (''DTSTAMP:'' @ v) st = st\<lparr>vs_lines := vs_lines st @ [''DTSTAMP:'' @ v]\<rparr>"
  "vs_in st \<Longrightarrow> event_line js (''DTSTART:'' @ v) st =
     (if snd (ical_to_iso (trim v)) then (st\<lparr>vs_lines := vs_lines st @ [''DTSTART:'' @ v], vs_all_day := True\<rparr>)
      else (st\<lparr>vs_lines := vs_lines st @ [''DTSTART:'' @ v]\<rparr>))\<lparr>vs_start := Some (fst (ical_to_iso (trim v)))\<rparr>"
  "vs_in st \<Longrightarrow> event_line js (''DTEND:'' @ v) st =
     st\<lparr>vs_lines := vs_lines st @ [''DTEND:'' @ v], vs_end := Some (fst (ical_to_iso (trim v)))\<rparr>"
  "vs_in st \<Longrightarrow> event_line js (''SUMMARY:'' @ v) st =
     st\<lparr>vs_lines := vs_lines st @ [''SUMMARY:'' @ v], vs_title := Some (unescape_ical (trim v))\<rparr>"
  "vs_in st \<Longrightarrow> event_line js (''LOCATION:'' @ v) st =
     st\<lparr>vs_lines := vs_lines st @ [''LOCATION:'' @ v], vs_loc := Some (unescape_ical (trim v))\<rparr>"
  "vs_in st \<Longrightarrow> event_line js (''DESCRIPTION:'' @ v) st =
     st\<lparr>vs_lines := vs_lines st @ [''DESCRIPTION:'' @ v], vs_desc := Some (unescape_ical (trim v))\<rparr>"
  by (simp_all add: event_line_def event_property_def to_upper_def ascii_upper_def starts_with_def Let_def
      contains_str.simps split: prod.splits)

definition text_ok :: "string \<Rightarrow> bool" where
  "text_ok t = (trim t = t \<and> cr \<notin> set t \<and> lf \<notin> set t \<and> CHR 0x5C \<notin> set t)"

lemma trim_fixed_iff: "trim s = s \<longleftrightarrow> s = [] \<or> (\<not> is_ws (hd s) \<and> \<not> is_ws (last s))"
  using trim_by_fixpoint [of s is_ws] trim_by_ends [of is_ws s] by (auto simp: trim_def)

lemma escape_char_ends: "escape_char x \<noteq> []" "is_ws (hd (escape_char x)) \<Longrightarrow> is_ws x"
  "is_ws (last (escape_char x)) \<Longrightarrow> is_ws x"
  by (auto simp: escape_char_def is_ws_def split: if_splits)

lemma hd_concat_map: "xs \<noteq> [] \<Longrightarrow> (\<And>x. f x \<noteq> []) \<Longrightarrow> hd (concat (map f xs)) = hd (f (hd xs))"
  by (cases xs) simp_all

lemma last_concat_map: "xs \<noteq> [] \<Longrightarrow> (\<And>x. f x \<noteq> []) \<Longrightarrow> last (concat (map f xs)) = last (f (last xs))"
  by (cases xs rule: rev_cases) simp_all

lemma text_ok_escape:
  assumes "text_ok t"
  shows "trim (escape_ical t) = escape_ical t" "cr \<notin> set (escape_ical t)" "lf \<notin> set (escape_ical t)"
    "unescape_ical (escape_ical t) = t"
proof -
  have bs: "CHR 0x5C \<notin> set t" using assms by (simp add: text_ok_def)
  show "unescape_ical (escape_ical t) = t" using bs by (rule unescape_escape)
  show "cr \<notin> set (escape_ical t)" "lf \<notin> set (escape_ical t)"
    using assms by (auto simp: escape_eq [OF bs] escape_char_def text_ok_def cr_def lf_def)
  show "trim (escape_ical t) = escape_ical t"
  proof (cases "t = []")
    case True
    then show ?thesis by (simp add: escape_eq trim_fixed_iff)
  next
    case False
    then have ends: "\<not> is_ws (hd t)" "\<not> is_ws (last t)"
      using assms trim_fixed_iff [of t] by (simp_all add: text_ok_def)
    have "hd (escape_ical t) = hd (escape_char (hd t))" "last (escape_ical t) = last (escape_char (last t))"
      unfolding escape_eq [OF bs] using hd_concat_map [OF False] last_concat_map [OF False] escape_char_ends(1)
      by blast+
    then show ?thesis using ends escape_char_ends(2,3) trim_fixed_iff by metis
  qed
qed

lemma line_ok_prefix: "line_ok p \<Longrightarrow> cr \<notin> set v \<Longrightarrow> lf \<notin> set v \<Longrightarrow> line_ok (p @ v)"
  by (auto simp: line_ok_def)

lemma line_ok_literals:
  "line_ok ''BEGIN:VCALENDAR''" "line_ok ''VERSION:2.0''" "line_ok ''PRODID:-//Mailquill//Calendar//EN''"
  "line_ok ''BEGIN:VEVENT''" "line_ok ''UID:''" "line_ok ''DTSTAMP:''" "line_ok ''DTSTART:''" "line_ok ''DTEND:''"
  "line_ok ''SUMMARY:''" "line_ok ''LOCATION:''" "line_ok ''DESCRIPTION:''" "line_ok ''END:VEVENT''"
  "line_ok ''END:VCALENDAR''"
  by (simp_all add: line_ok_def cr_def lf_def is_ws_def)

definition core_event :: "parsed_event \<Rightarrow> string \<times> string \<times> string \<times> string \<times> bool \<times> string option \<times> string option" where
  "core_event e = (ev_uid e, ev_title e, ev_starts_at e, ev_ends_at e, ev_all_day e, ev_location e, ev_description e)"

lemma event_line_outside:
  "\<not> vs_in st \<Longrightarrow> \<not> starts_with ''BEGIN:VEVENT'' (to_upper l) \<Longrightarrow> \<not> starts_with ''END:VEVENT'' (to_upper l) \<Longrightarrow>
   event_line js l st = st"
  by (simp add: event_line_def)

lemma event_line_frame:
  "event_line js [] st = (if vs_in st then st\<lparr>vs_lines := vs_lines st @ [[]]\<rparr> else st)"
  "\<not> vs_in st \<Longrightarrow> event_line js ''BEGIN:VCALENDAR'' st = st"
  "\<not> vs_in st \<Longrightarrow> event_line js ''VERSION:2.0'' st = st"
  "\<not> vs_in st \<Longrightarrow> event_line js ''PRODID:-//Mailquill//Calendar//EN'' st = st"
  "\<not> vs_in st \<Longrightarrow> event_line js ''END:VCALENDAR'' st = st"
  "event_line js ''BEGIN:VEVENT'' st = begin_event st"
  "event_line js ''END:VEVENT'' st = end_event js st"
  by (simp_all add: event_line_def to_upper_def ascii_upper_def starts_with_def Let_def)

lemma parse_built_event:
  assumes ev: "\<not> ei_all_day ev" "ei_rrule ev = None" "ei_organizer_email ev = None" "ei_attendees_json ev = None"
    and uid: "trim (ei_uid ev) = ei_uid ev" "cr \<notin> set (ei_uid ev)" "lf \<notin> set (ei_uid ev)"
    and stamp: "cr \<notin> set stamp" "lf \<notin> set stamp"
    and title: "text_ok (ei_title ev)"
    and loc: "\<And>l. ei_location ev = Some l \<Longrightarrow> text_ok l"
    and desc: "\<And>d. ei_description ev = Some d \<Longrightarrow> text_ok d"
    and start: "ei_starts_at ev = utc_text y mo d h mi s" "digit_field 4 y" "digit_field 2 mo" "digit_field 2 d"
      "digit_field 2 h" "digit_field 2 mi" "digit_field 2 s"
    and fin: "ei_ends_at ev = utc_text y' mo' d' h' mi' s'" "digit_field 4 y'" "digit_field 2 mo'" "digit_field 2 d'"
      "digit_field 2 h'" "digit_field 2 mi'" "digit_field 2 s'"
  shows "map core_event (parse_icalendar_events js (build_ics of_js stamp ev)) =
     [(ei_uid ev, ei_title ev, ei_starts_at ev, ei_ends_at ev, False,
       non_empty (ei_location ev), non_empty (ei_description ev))]"
proof -
  let ?st = "y @ mo @ d @ ''T'' @ h @ mi @ s @ ''Z''" and ?fi = "y' @ mo' @ d' @ ''T'' @ h' @ mi' @ s' @ ''Z''"
  have st: "ical_format (ei_starts_at ev) False = ?st" "ical_to_iso ?st = (ei_starts_at ev, False)"
    using ical_date_format(1) [OF start(2-7)] ical_date_parse(1) [OF start(2-7)] start(1) by simp_all
  have fi: "ical_format (ei_ends_at ev) False = ?fi" "ical_to_iso ?fi = (ei_ends_at ev, False)"
    using ical_date_format(1) [OF fin(2-7)] ical_date_parse(1) [OF fin(2-7)] fin(1) by simp_all
  have trims: "ical_to_iso (trim v) = ical_to_iso v" for v by (simp add: ical_to_iso_def)
  have plain: "list_all is_digit x \<Longrightarrow> cr \<notin> set x \<and> lf \<notin> set x" for x
    by (auto simp: list_all_iff is_digit_def cr_def lf_def)
  have marks: "cr \<notin> set ''T''" "lf \<notin> set ''T''" "cr \<notin> set ''Z''" "lf \<notin> set ''Z''"
    by (simp_all add: cr_def lf_def)
  have clean: "cr \<notin> set ?st" "lf \<notin> set ?st" "cr \<notin> set ?fi" "lf \<notin> set ?fi"
    using start(2-7) fin(2-7) plain marks unfolding digit_field_def set_append Un_iff by blast+
  define L D where "L = non_empty (ei_location ev)" and "D = non_empty (ei_description ev)"
  have L: "L = None \<or> (\<exists>l. L = Some l \<and> text_ok l)" and D: "D = None \<or> (\<exists>l. D = Some l \<and> text_ok l)"
    using loc desc by (auto simp: L_def D_def non_empty_def split: option.splits)
  have lines: "ics_lines of_js stamp ev = [''BEGIN:VCALENDAR'', ''VERSION:2.0'', ''PRODID:-//Mailquill//Calendar//EN'',
      ''BEGIN:VEVENT'', ''UID:'' @ ei_uid ev, ''DTSTAMP:'' @ stamp, ''DTSTART:'' @ ?st, ''DTEND:'' @ ?fi,
      ''SUMMARY:'' @ escape_ical (ei_title ev)] @
      optional_line (\<lambda>l. ''LOCATION:'' @ escape_ical l) L @ optional_line (\<lambda>l. ''DESCRIPTION:'' @ escape_ical l) D
      @ [''END:VEVENT'', ''END:VCALENDAR'']"
    unfolding ics_lines_def st fi L_def D_def using ev
    by (simp add: optional_line_def non_empty_def)
  have opts: "\<forall>l \<in> set (optional_line (\<lambda>l. P @ escape_ical l) X). line_ok l"
    if "line_ok P" "X = None \<or> (\<exists>l. X = Some l \<and> text_ok l)" for P X
    using that text_ok_escape by (auto simp: optional_line_def intro!: line_ok_prefix)
  have ok: "\<forall>l \<in> set (ics_lines of_js stamp ev). line_ok l"
    unfolding lines set_append ball_Un set_simps ball_simps
    using opts [OF line_ok_literals(10) L] opts [OF line_ok_literals(11) D]
    by (intro conjI line_ok_prefix line_ok_literals clean uid stamp text_ok_escape(2,3) title) simp_all
  have "map core_event (vs_events (fold (event_line js) (ics_lines of_js stamp ev) (vstate0 []))) =
     [(ei_uid ev, ei_title ev, ei_starts_at ev, ei_ends_at ev, False, L, D)]"
    using L D uid(1) text_ok_escape [OF title] st fi unfolding lines
    by (elim disjE exE conjE)
       (simp_all add: event_line_frame event_line_steps optional_line_def vstate0_def begin_event_def end_event_def
          trims text_ok_escape core_event_def or_empty_def del: append.simps)
  then show ?thesis
    unfolding parse_icalendar_events_def build_ics_def lines_of_built [OF ok] L_def D_def
    by (simp add: event_line_frame vstate0_def)
qed

end
