(* ===== verification/Bodies.thy ===== *)
theory Bodies
  imports Phishing Ical
begin

text \<open>
  Message bodies and attachments: blob keys (backend/core/src/blob.rs), what a full sync stores for
  one message (backend/mail-sync/src/sync.rs), the on-demand fetch (\<open>fetch_body_by_uid\<close> of
  backend/mail-sync/src/lib.rs) and the read path of \<open>get_message\<close>
  (backend/api/src/routes/messages.rs).

  \<open>content_env\<close> holds the third-party parts: the MIME parser, the JSON rendering of a body and its
  inverse, zstd, and the blob store (\<open>ce_put\<close>: does a \<open>put\<close> under a key succeed).
\<close>

record body_row =
  br_message :: nat
  br_key :: string
  br_size :: nat
  br_size_uncompressed :: nat

record attachment_row =
  ar_message :: nat
  ar_filename :: "string option"
  ar_content_type :: string
  ar_content_id :: "string option"
  ar_size :: nat
  ar_key :: string

record fts_row =
  ft_message :: nat
  ft_subject :: string
  ft_from :: string
  ft_body :: string

record content_db =
  cd_bodies :: "body_row list"
  cd_attachments :: "attachment_row list"
  cd_fts :: "fts_row list"
  cd_blobs :: "string \<rightharpoonup> string"

record content_env =
  ce_parse :: "string \<Rightarrow> mail_part option"
  ce_body_json :: "string option \<Rightarrow> string option \<Rightarrow> string"
  ce_read_json :: "string \<Rightarrow> (string option \<times> string option) option"
  ce_compress :: "string \<Rightarrow> string"
  ce_decompress :: "string \<Rightarrow> string option"
  ce_put :: "string \<Rightarrow> bool"

section \<open>Keys\<close>

definition blob_dir :: "string \<Rightarrow> nat \<Rightarrow> string" where
  "blob_dir acct uid = ''mail/'' @ acct @ ''/2000/01/01/'' @ show_nat uid"

text \<open>Both callers pass the fixed date 2000-01-01.\<close>

definition blob_key_body :: "string \<Rightarrow> nat \<Rightarrow> string" where
  "blob_key_body acct uid = blob_dir acct uid @ ''/body''"

definition blob_key_attachment :: "string \<Rightarrow> nat \<Rightarrow> nat \<Rightarrow> string" where
  "blob_key_attachment acct uid n = blob_dir acct uid @ ''/attach/'' @ show_nat n"

section \<open>Storing\<close>

definition put_blob :: "content_env \<Rightarrow> string \<Rightarrow> string \<Rightarrow> content_db \<Rightarrow> content_db option" where
  "put_blob C key data c = (if ce_put C key then Some (c\<lparr>cd_blobs := (cd_blobs c)(key \<mapsto> data)\<rparr>) else None)"

definition insert_body :: "body_row \<Rightarrow> content_db \<Rightarrow> content_db" where
  "insert_body r c =
     (if \<exists>q \<in> set (cd_bodies c). br_message q = br_message r then c
      else c\<lparr>cd_bodies := cd_bodies c @ [r]\<rparr>)"

definition body_bytes :: "content_env \<Rightarrow> parsed_body \<Rightarrow> string" where
  "body_bytes C p = ce_body_json C (pb_html p) (pb_text p)"

definition body_row_of :: "content_env \<Rightarrow> string \<Rightarrow> nat \<Rightarrow> nat \<Rightarrow> parsed_body \<Rightarrow> body_row" where
  "body_row_of C acct uid mid p =
     \<lparr>br_message = mid, br_key = blob_key_body acct uid,
      br_size = length (ce_compress C (body_bytes C p)), br_size_uncompressed = length (body_bytes C p)\<rparr>"

definition store_body :: "content_env \<Rightarrow> string \<Rightarrow> nat \<Rightarrow> nat \<Rightarrow> parsed_body \<Rightarrow> content_db \<Rightarrow> content_db option" where
  "store_body C acct uid mid p c =
     map_option (insert_body (body_row_of C acct uid mid p))
       (put_blob C (blob_key_body acct uid) (ce_compress C (body_bytes C p)) c)"

fun store_attachments ::
  "content_env \<Rightarrow> string \<Rightarrow> nat \<Rightarrow> nat \<Rightarrow> nat \<Rightarrow> attachment list \<Rightarrow> content_db \<Rightarrow> content_db"
where
  "store_attachments C acct uid mid i [] c = c"
| "store_attachments C acct uid mid i (a # as) c =
     store_attachments C acct uid mid (i + 1) as
       (case put_blob C (blob_key_attachment acct uid i) (at_data a) c of
          None \<Rightarrow> c
        | Some c' \<Rightarrow> c'\<lparr>cd_attachments := cd_attachments c' @
            [\<lparr>ar_message = mid, ar_filename = at_filename a, ar_content_type = at_content_type a,
              ar_content_id = at_content_id a, ar_size = length (at_data a),
              ar_key = blob_key_attachment acct uid i\<rparr>]\<rparr>)"

definition fts_replace :: "fts_row \<Rightarrow> content_db \<Rightarrow> content_db" where
  "fts_replace r c = c\<lparr>cd_fts := filter (\<lambda>q. ft_message q \<noteq> ft_message r) (cd_fts c) @ [r]\<rparr>"

definition fts_ignore :: "fts_row \<Rightarrow> content_db \<Rightarrow> content_db" where
  "fts_ignore r c =
     (if \<exists>q \<in> set (cd_fts c). ft_message q = ft_message r then c else c\<lparr>cd_fts := cd_fts c @ [r]\<rparr>)"

text \<open>The full-sync branch of \<open>sync_folder\<close> for one imported message that carries its raw text.\<close>

definition store_full ::
  "content_env \<Rightarrow> (json \<Rightarrow> string) \<Rightarrow> string \<Rightarrow> fetched_message \<Rightarrow> nat \<Rightarrow> string
     \<Rightarrow> content_db \<times> calendar_db \<Rightarrow> content_db \<times> calendar_db"
where
  "store_full C js acct msg mid raw s =
     (case s of (c, cal) \<Rightarrow>
        (let p = (case parse_mime (ce_parse C) raw of Some p \<Rightarrow> p | None \<Rightarrow> empty_body);
             c1 = (case store_body C acct (fm_uid msg) mid p c of Some c' \<Rightarrow> c' | None \<Rightarrow> c);
             c2 = store_attachments C acct (fm_uid msg) mid 0 (pb_attachments p) c1;
             cal' = (if pb_has_calendar p then process_calendar_parts js mid (pb_calendar_parts p) cal else cal);
             c3 = fts_replace \<lparr>ft_message = mid, ft_subject = fm_subject msg, ft_from = fm_from msg,
                    ft_body = or_empty (pb_text p)\<rparr> c2
         in (c3, cal')))"

text \<open>
  \<open>fetch_body_by_uid\<close> once the raw message \<open>raw\<close> has been fetched.  The error is the text the caller
  reports; on success the html and text parts are returned.
\<close>

definition fetch_body_by_uid ::
  "content_env \<Rightarrow> phish_env \<Rightarrow> (string \<times> string) list \<Rightarrow> phish_feed \<Rightarrow> string \<Rightarrow> nat \<Rightarrow> nat \<Rightarrow> string
     \<Rightarrow> mail_db \<times> content_db \<Rightarrow> (string + string option \<times> string option) \<times> mail_db \<times> content_db"
where
  "fetch_body_by_uid C E brands feed acct uid mid raw s =
     (case s of (db, c) \<Rightarrow>
        (case parse_mime (ce_parse C) raw of
           None \<Rightarrow> (Inl ''unparsable message'', db, c)
         | Some p \<Rightarrow>
             (case store_body C acct uid mid p c of
                None \<Rightarrow> (Inl ''blob store'', db, c)
              | Some c1 \<Rightarrow>
                  (let c2 = (if pb_attachments p = [] then c1
                       else store_attachments C acct uid mid 0 (pb_attachments p)
                         (c1\<lparr>cd_attachments := filter (\<lambda>r. ar_message r \<noteq> mid) (cd_attachments c1)\<rparr>));
                       body_text = or_empty (pb_text p);
                       c3 = (case (body_text = [], find_message db mid) of
                          (False, Some m) \<Rightarrow> fts_replace \<lparr>ft_message = mid, ft_subject = m_subject m,
                             ft_from = m_from m, ft_body = body_text\<rparr> c2
                        | _ \<Rightarrow> c2)
                   in (Inr (pb_html p, pb_text p), analyse_and_store_batch E brands feed [(mid, raw)] db, c3)))))"

text \<open>The stored body of a message, as \<open>get_message\<close> reads it; \<open>None\<close> where it falls back to a fetch.\<close>

definition stored_body :: "content_env \<Rightarrow> content_db \<Rightarrow> nat \<Rightarrow> (string option \<times> string option) option" where
  "stored_body C c mid =
     (case find (\<lambda>r. br_message r = mid) (cd_bodies c) of
        None \<Rightarrow> None
      | Some r \<Rightarrow>
          (case cd_blobs c (br_key r) of
             None \<Rightarrow> None
           | Some data \<Rightarrow>
               (case ce_decompress C data of
                  None \<Rightarrow> None
                | Some bytes \<Rightarrow>
                    (case ce_read_json C bytes of
                       Some ht \<Rightarrow> Some ht
                     | None \<Rightarrow> Some (None, Some bytes)))))"

section \<open>Blob keys\<close>

lemma show_nat_inj:
  assumes "show_nat a = show_nat b"
  shows "a = b"
proof -
  have "parse_digits 0 (show_nat n) = Some n" for n using parse_show_nat [of 0 n] by simp
  then show ?thesis using assms by (metis option.inject)
qed

lemma digits_slash: "CHR ''/'' \<notin> set (show_nat n)"
  by (auto dest!: show_nat_digits)

lemma digits_cancel:
  assumes "show_nat a @ CHR ''/'' # x = show_nat b @ CHR ''/'' # y"
  shows "a = b \<and> x = y"
proof -
  have "takeWhile (\<lambda>c. c \<noteq> CHR ''/'') (show_nat n @ CHR ''/'' # z) = show_nat n" for n z
    using digits_slash [of n] by (subst takeWhile_append2) auto
  then have "show_nat a = show_nat b" using assms by metis
  then have "a = b" by (rule show_nat_inj)
  with assms show ?thesis by simp
qed

lemma blob_keys_distinct:
  "blob_key_body acct u = blob_key_body acct v \<longleftrightarrow> u = v"
  "blob_key_attachment acct u i = blob_key_attachment acct v j \<longleftrightarrow> u = v \<and> i = j"
  "blob_key_body acct u \<noteq> blob_key_attachment acct v j"
  using digits_cancel [of u "''body''" v "''body''"]
    digits_cancel [of u "''attach/'' @ show_nat i" v "''attach/'' @ show_nat j"]
    digits_cancel [of u "''body''" v "''attach/'' @ show_nat j"] show_nat_inj
  by (auto simp: blob_key_body_def blob_key_attachment_def blob_dir_def)

section \<open>What is stored is read back\<close>

definition bodies_ok :: "content_db \<Rightarrow> bool" where
  "bodies_ok c = distinct (map br_message (cd_bodies c))"

lemma insert_body_ok: "bodies_ok c \<Longrightarrow> bodies_ok (insert_body r c)"
  by (auto simp: bodies_ok_def insert_body_def)

lemma put_blob_bodies: "put_blob C k d c = Some c' \<Longrightarrow> cd_bodies c' = cd_bodies c \<and> cd_blobs c' = (cd_blobs c)(k \<mapsto> d)"
  by (auto simp: put_blob_def split: if_splits)

lemma put_blob_other:
  "put_blob C k d c = Some c' \<Longrightarrow> k \<noteq> k' \<Longrightarrow> cd_blobs c' k' = cd_blobs c k'"
  by (auto simp: put_blob_def split: if_splits)

lemma store_attachments_frame:
  "cd_bodies (store_attachments C acct uid mid i as c) = cd_bodies c"
  "cd_blobs (store_attachments C acct uid mid i as c) (blob_key_body acct uid') = cd_blobs c (blob_key_body acct uid')"
  by (induction C acct uid mid i as c rule: store_attachments.induct)
     (auto simp: put_blob_def blob_keys_distinct(3) split: option.splits)

lemma fts_frame [simp]:
  "cd_bodies (fts_replace r c) = cd_bodies c" "cd_blobs (fts_replace r c) = cd_blobs c"
  "cd_attachments (fts_replace r c) = cd_attachments c"
  "cd_bodies (fts_ignore r c) = cd_bodies c" "cd_blobs (fts_ignore r c) = cd_blobs c"
  by (simp_all add: fts_replace_def fts_ignore_def)

definition body_key_is :: "content_db \<Rightarrow> nat \<Rightarrow> string \<Rightarrow> bool" where
  "body_key_is c mid key = (\<exists>r. find (\<lambda>r. br_message r = mid) (cd_bodies c) = Some r \<and> br_key r = key)"

definition key_free_or :: "content_db \<Rightarrow> nat \<Rightarrow> string \<Rightarrow> bool" where
  "key_free_or c mid key = (\<forall>r \<in> set (cd_bodies c). br_message r = mid \<longrightarrow> br_key r = key)"

lemma find_Some_in: "find P xs = Some x \<Longrightarrow> x \<in> set xs \<and> P x"
  by (auto simp: find_Some_iff)

lemma insert_body_key:
  assumes "key_free_or c (br_message r) (br_key r)"
  shows "body_key_is (insert_body r c) (br_message r) (br_key r)"
proof (cases "\<exists>q \<in> set (cd_bodies c). br_message q = br_message r")
  case True
  then obtain q where "find (\<lambda>q. br_message q = br_message r) (cd_bodies c) = Some q"
    by (metis (mono_tags, lifting) find_None_eq not_None_eq)
  moreover from this have "br_key q = br_key r" using assms find_Some_in by (fastforce simp: key_free_or_def)
  ultimately show ?thesis using True by (simp add: insert_body_def body_key_is_def)
next
  case False
  then have "find (\<lambda>q. br_message q = br_message r) (cd_bodies c) = None" by (simp add: find_None_eq)
  with False show ?thesis by (simp add: insert_body_def body_key_is_def find_append)
qed

lemma insert_body_key_other:
  "body_key_is c mid key \<Longrightarrow> body_key_is (insert_body r c) mid key"
  by (auto simp: insert_body_def body_key_is_def find_append)

text \<open>The codecs of the environment invert each other (zstd and \<open>serde_json\<close>).\<close>

definition codecs_ok :: "content_env \<Rightarrow> bool" where
  "codecs_ok C = ((\<forall>x. ce_decompress C (ce_compress C x) = Some x)
     \<and> (\<forall>h t. ce_read_json C (ce_body_json C h t) = Some (h, t)))"

lemma stored_body_eq:
  assumes "codecs_ok C" "body_key_is c mid (blob_key_body acct uid)"
    "cd_blobs c (blob_key_body acct uid) = Some (ce_compress C (body_bytes C p))"
  shows "stored_body C c mid = Some (pb_html p, pb_text p)"
  using assms by (auto simp: stored_body_def body_key_is_def codecs_ok_def body_bytes_def)

lemma store_body_effect:
  assumes "store_body C acct uid mid p c = Some c1"
  shows "cd_blobs c1 = (cd_blobs c)(blob_key_body acct uid \<mapsto> ce_compress C (body_bytes C p))"
    and "key_free_or c mid (blob_key_body acct uid) \<Longrightarrow> body_key_is c1 mid (blob_key_body acct uid)"
    and "body_key_is c other key \<Longrightarrow> body_key_is c1 other key"
proof -
  obtain c0 where c0: "put_blob C (blob_key_body acct uid) (ce_compress C (body_bytes C p)) c = Some c0"
    and c1: "c1 = insert_body (body_row_of C acct uid mid p) c0"
    using assms by (auto simp: store_body_def)
  note put = put_blob_bodies [OF c0]
  show "cd_blobs c1 = (cd_blobs c)(blob_key_body acct uid \<mapsto> ce_compress C (body_bytes C p))"
    using put by (simp add: c1 insert_body_def)
  show "body_key_is c1 mid (blob_key_body acct uid)" if "key_free_or c mid (blob_key_body acct uid)"
    using that put insert_body_key [of c0 "body_row_of C acct uid mid p"]
    by (simp add: c1 body_row_of_def key_free_or_def)
  show "body_key_is c1 other key" if "body_key_is c other key"
  proof -
    have "body_key_is c0 other key" using that put by (simp add: body_key_is_def)
    then show ?thesis unfolding c1 by (rule insert_body_key_other)
  qed
qed

lemma fetch_body_effect:
  assumes "fetch_body_by_uid C E brands feed acct uid mid raw (db, c) = (Inr ht, db', c')"
  obtains p where "parse_mime (ce_parse C) raw = Some p" "ht = (pb_html p, pb_text p)"
    "cd_blobs c' (blob_key_body acct uid) = Some (ce_compress C (body_bytes C p))"
    "key_free_or c mid (blob_key_body acct uid) \<Longrightarrow> body_key_is c' mid (blob_key_body acct uid)"
    "\<And>other key. body_key_is c other key \<Longrightarrow> body_key_is c' other key"
proof -
  obtain p where p: "parse_mime (ce_parse C) raw = Some p"
    using assms by (auto simp: fetch_body_by_uid_def split: option.splits)
  obtain c1 where c1: "store_body C acct uid mid p c = Some c1"
    using assms p by (auto simp: fetch_body_by_uid_def split: option.splits)
  have ht: "ht = (pb_html p, pb_text p)" using assms p c1 by (simp add: fetch_body_by_uid_def Let_def)
  have c': "cd_bodies c' = cd_bodies c1" "cd_blobs c' (blob_key_body acct uid) = cd_blobs c1 (blob_key_body acct uid)"
    using assms p c1
    by (auto simp: fetch_body_by_uid_def Let_def store_attachments_frame split: bool.splits option.splits if_splits)
  note eff = store_body_effect [OF c1]
  show thesis
    by (rule that [OF p ht]) (use eff c' in \<open>simp_all add: body_key_is_def\<close>)
qed

end
