(* ===== verification/Sync.thy ===== *)
theory Sync
  imports Threading Flags IdMap Manager Bodies "HOL-Library.List_Lexorder"
begin

text \<open>
  One sync cycle of an account (backend/mail-sync/src/sync.rs): loading the provider configuration,
  folder discovery, the incremental walk of each folder in uid chunks, the import of a chunk, the
  cursor, and the status the cycle reports.

  \<open>sync_env\<close> holds what the cycle uses from outside: the mailbox backend, the opened connection, the
  token service, the third-party parts of \<open>content_env\<close> and \<open>phish_env\<close>, the hash of thread ids and
  the clock.  \<open>sync_state\<close> is the state it changes: the database with the body tables and the
  calendar tables, the server, the task registry, and the notifications sent.
\<close>

section \<open>State and configuration\<close>

datatype sync_error = Provider provider_error | Database string | Message string

record new_message =
  nm_message_id :: nat
  nm_account_id :: string
  nm_account_name :: string
  nm_sender :: string
  nm_subject :: string

record 'p sync_state =
  sy_db :: mail_db
  sy_server :: 'p
  sy_content :: content_db
  sy_calendar :: calendar_db
  sy_manager :: sync_manager
  sy_notes :: "new_message list"
  sy_published :: "(string \<times> sync_status) list"

record provider_config =
  pc_host :: string
  pc_port :: nat
  pc_username :: string
  pc_password :: string
  pc_token :: "string option"
  pc_auth_scheme :: string
  pc_cert :: "string option"
  pc_account :: string

record 'p sync_env =
  se_backend :: "'p backend"
  se_connect :: "provider_kind \<Rightarrow> provider_config \<Rightarrow> provider_error option"
  se_decrypt :: "string \<Rightarrow> string option"
  se_parse_json :: "string \<Rightarrow> json option"
  se_token :: "string \<Rightarrow> string + string option"
  se_cert :: "string option \<Rightarrow> string option"
  se_hash :: "string \<Rightarrow> string"
  se_now :: string
  se_clock :: string
  se_content :: content_env
  se_phish :: phish_env
  se_brands :: "(string \<times> string) list"
  se_feed :: phish_feed
  se_json :: "json \<Rightarrow> string"

definition imap_username :: "json \<Rightarrow> string \<Rightarrow> string" where
  "imap_username creds primary =
     trim (case as_str (jget creds ''imap_username'') of
             Some s \<Rightarrow> if trim s = [] then primary else s
           | None \<Rightarrow> primary)"

definition load_provider_config ::
  "'p sync_env \<Rightarrow> string \<Rightarrow> mail_db \<Rightarrow> sync_error + (provider_config \<times> provider_kind)"
where
  "load_provider_config E acct db =
     (case account_of db acct of
        None \<Rightarrow> Inl (Message ''account not found'')
      | Some a \<Rightarrow>
          (case se_decrypt E (a_credentials a) of
             None \<Rightarrow> Inl (Message ''decrypt'')
           | Some bytes \<Rightarrow>
               (case se_parse_json E bytes of
                  None \<Rightarrow> Inl (Message ''credentials'')
                | Some creds \<Rightarrow>
                    (case se_token E acct of
                       Inl e \<Rightarrow> Inl (Message e)
                     | Inr fresh \<Rightarrow>
                         (let token = (case fresh of Some t \<Rightarrow> Some t
                                       | None \<Rightarrow> as_str (jget creds ''oauth_access_token''));
                              username = imap_username creds (a_email a)
                          in if a_auth_scheme a = ''xoauth2'' \<and> username = ''oauth@pending''
                             then Inl (Message ''OAuth account is still pending; reconnect it to store the real mailbox address'')
                             else if a_auth_scheme a = ''xoauth2'' \<and> username = []
                             then Inl (Message ''OAuth account is missing an IMAP username; reconnect it'')
                             else Inr (\<lparr>pc_host = a_imap_host a, pc_port = nat (a_imap_port a mod 65536),
                                    pc_username = to_lower username,
                                    pc_password = or_empty (as_str (jget creds ''imap_password'')),
                                    pc_token = token, pc_auth_scheme = a_auth_scheme a,
                                    pc_cert = se_cert E (a_tls_cert a), pc_account = acct\<rparr>,
                                  parse_kind (a_provider_kind a)))))))"

definition open_provider :: "'p sync_env \<Rightarrow> string \<Rightarrow> mail_db \<Rightarrow> sync_error + unit" where
  "open_provider E acct db =
     (case load_provider_config E acct db of
        Inl e \<Rightarrow> Inl e
      | Inr (config, kind) \<Rightarrow>
          (case se_connect E kind config of Some e \<Rightarrow> Inl (Provider e) | None \<Rightarrow> Inr ()))"

text \<open>A call of the backend on the sync state.\<close>

definition call_backend :: "('p, 'a) call \<Rightarrow> 'p sync_state \<Rightarrow> (sync_error + 'a) \<times> 'p sync_state" where
  "call_backend c s =
     (case c (sy_db s, sy_server s) of
        (r, db', p') \<Rightarrow>
          ((case r of Inl e \<Rightarrow> Inl (Provider e) | Inr x \<Rightarrow> Inr x), s\<lparr>sy_db := db', sy_server := p'\<rparr>))"

definition map_db :: "(mail_db \<Rightarrow> mail_db) \<Rightarrow> 'p sync_state \<Rightarrow> 'p sync_state" where
  "map_db f s = s\<lparr>sy_db := f (sy_db s)\<rparr>"

definition publish_sync_status :: "string \<Rightarrow> 'p sync_state \<Rightarrow> 'p sync_state" where
  "publish_sync_status acct s =
     s\<lparr>sy_published := sy_published s @ [(acct, account_status (sy_manager s) acct)]\<rparr>"

section \<open>Policies\<close>

definition oauth_reauthentication_error :: "provider_kind \<Rightarrow> sync_error \<Rightarrow> string option" where
  "oauth_reauthentication_error kind e =
     (case e of
        Provider (Http status body) \<Rightarrow>
          (if status = 401
           then (case kind of
                   GmailApi \<Rightarrow> Some ''oauth_reauthentication_required:google''
                 | OutlookApi \<Rightarrow> Some ''oauth_reauthentication_required:microsoft''
                 | _ \<Rightarrow> None)
           else None)
      | _ \<Rightarrow> None)"

definition normalize_provider_error :: "provider_kind \<Rightarrow> sync_error \<Rightarrow> sync_error" where
  "normalize_provider_error kind e =
     (case oauth_reauthentication_error kind e of Some t \<Rightarrow> Message t | None \<Rightarrow> e)"

definition default_folder_sync_enabled :: "provider_kind \<Rightarrow> string \<Rightarrow> bool" where
  "default_folder_sync_enabled kind folder_type =
     (if kind = GmailApi then folder_type \<in> set [''INBOX'', ''SENT'']
      else if kind = GmailImap then folder_type \<in> set [''INBOX'', ''SENT'', ''DRAFTS'']
      else True)"

definition folder_sync_priority :: "string \<Rightarrow> nat" where
  "folder_sync_priority t =
     (if t = ''INBOX'' then 0 else if t = ''DRAFTS'' then 1 else if t = ''SENT'' then 2
      else if t = ''ARCHIVE'' then 3 else if t = ''CUSTOM'' then 4 else if t = ''SPAM'' then 5
      else if t = ''TRASH'' then 6 else 7)"

definition notify_allowed_for_folder_type :: "string \<Rightarrow> bool" where
  "notify_allowed_for_folder_type t = (t \<notin> set [''SPAM'', ''TRASH'', ''SENT'', ''DRAFTS''])"

section \<open>Importing a chunk\<close>

definition prepared_row ::
  "'p sync_env \<Rightarrow> string \<Rightarrow> nat \<Rightarrow> (string \<rightharpoonup> string) \<Rightarrow> fetched_message \<Rightarrow> message_row"
where
  "prepared_row E acct fid existing msg =
     \<lparr>m_id = 0, m_account = acct, m_folder = fid, m_uid = int (fm_uid msg),
      m_message_id = fm_message_id msg,
      m_thread_id = Some (assign_thread_id (se_hash E) (se_now E) (fm_message_id msg) (fm_in_reply_to msg)
          (fm_references msg) (fm_list_id msg) (fm_subject msg) existing),
      m_in_reply_to = fm_in_reply_to msg, m_references = fm_references msg, m_list_id = fm_list_id msg,
      m_subject = fm_subject msg, m_subject_normalized = normalize_subject (fm_subject msg),
      m_snippet = compute_snippet (fm_subject msg)
        (case fm_body msg of None \<Rightarrow> None
         | Some raw \<Rightarrow> (case parse_mime (ce_parse (se_content E)) raw of Some p \<Rightarrow> pb_text p | None \<Rightarrow> None)),
      m_from = fm_from msg, m_to = fm_to msg, m_cc = fm_cc msg, m_date = fm_date msg,
      m_internal_date = fm_internal_date msg, m_read = fm_seen msg, m_flagged = fm_flagged msg,
      m_deleted = fm_deleted msg, m_verdict = None, m_local_draft = False\<rparr>"

text \<open>\<open>ON CONFLICT(folder_id, uid) DO UPDATE\<close>: a soft-deleted row stays deleted.\<close>

definition overwrite_row :: "message_row \<Rightarrow> message_row \<Rightarrow> message_row" where
  "overwrite_row new m = m\<lparr>m_thread_id := m_thread_id new, m_read := m_read new, m_flagged := m_flagged new,
     m_deleted := (m_deleted new \<or> m_deleted m), m_subject := m_subject new,
     m_subject_normalized := m_subject_normalized new, m_snippet := m_snippet new, m_from := m_from new,
     m_to := m_to new, m_cc := m_cc new\<rparr>"

definition same_uid :: "message_row \<Rightarrow> message_row \<Rightarrow> bool" where
  "same_uid new m = (m_folder m = m_folder new \<and> m_uid m = m_uid new)"

definition upsert_message :: "message_row \<Rightarrow> mail_db \<Rightarrow> nat \<times> mail_db" where
  "upsert_message new db =
     (case find (same_uid new) (messages db) of
        Some m \<Rightarrow> (m_id m, db_update (same_uid new) (overwrite_row new) db)
      | None \<Rightarrow> (next_id db, db_insert new db))"

type_synonym imported = "(nat \<times> nat \<times> bool) list"

text \<open>One message of a batch: \<open>i\<close> is its index, \<open>known\<close> the uids stored before the chunk.\<close>

definition persist_one ::
  "'p sync_env \<Rightarrow> string \<Rightarrow> nat \<Rightarrow> string \<Rightarrow> (string \<rightharpoonup> string) \<Rightarrow> int set \<Rightarrow> nat \<times> fetched_message
     \<Rightarrow> mail_db \<times> content_db \<times> imported \<Rightarrow> mail_db \<times> content_db \<times> imported"
where
  "persist_one E acct fid mode existing known im s =
     (case (im, s) of ((i, msg), (db, c, out)) \<Rightarrow>
        (case upsert_message (prepared_row E acct fid existing msg) db of
           (mid, db') \<Rightarrow>
             (db',
              (if mode = ''lazy'' then fts_ignore \<lparr>ft_message = mid, ft_subject = fm_subject msg,
                 ft_from = fm_from msg, ft_body = []\<rparr> c else c),
              out @ [(i, mid, int (fm_uid msg) \<notin> known)])))"

fun remote_mappings :: "string \<Rightarrow> string \<Rightarrow> fetched_message list \<Rightarrow> remote_row list" where
  "remote_mappings acct path [] = []"
| "remote_mappings acct path (m # ms) =
     (case fm_remote_id m of
        None \<Rightarrow> remote_mappings acct path ms
      | Some r \<Rightarrow> \<lparr>r_account = acct, r_path = path, r_uid = int (fm_uid m), r_remote = r\<rparr>
                  # remote_mappings acct path ms)"

definition write_batch_size :: nat where
  "write_batch_size = 100"

text \<open>Each batch is one transaction: a constraint error rolls the batch back and ends the import.\<close>

fun persist_batches ::
  "'p sync_env \<Rightarrow> string \<Rightarrow> nat \<Rightarrow> string \<Rightarrow> string \<Rightarrow> (string \<rightharpoonup> string) \<Rightarrow> int set
     \<Rightarrow> (nat \<times> fetched_message) list list \<Rightarrow> mail_db \<times> content_db \<times> imported
     \<Rightarrow> (sync_error + unit) \<times> mail_db \<times> content_db \<times> imported"
where
  "persist_batches E acct fid path mode existing known [] s = (Inr (), s)"
| "persist_batches E acct fid path mode existing known (b # bs) s =
     (case fold (persist_one E acct fid mode existing known) b s of
        (db', c', out') \<Rightarrow>
          (case upsert_all (remote_mappings acct path (map snd b)) db' of
             None \<Rightarrow> (Inl (Database ''UNIQUE constraint failed: remote_message_ids''), s)
           | Some db'' \<Rightarrow> persist_batches E acct fid path mode existing known bs (db'', c', out')))"

definition persist_message_metadata_chunk ::
  "'p sync_env \<Rightarrow> string \<Rightarrow> nat \<Rightarrow> string \<Rightarrow> nat \<Rightarrow> nat \<Rightarrow> string \<Rightarrow> fetched_message list
     \<Rightarrow> (string \<rightharpoonup> string) \<Rightarrow> mail_db \<times> content_db
     \<Rightarrow> (sync_error + imported) \<times> mail_db \<times> content_db"
where
  "persist_message_metadata_chunk E acct fid path a b mode msgs existing s =
     (case s of (db, c) \<Rightarrow>
        (let known = m_uid ` set (filter (in_range fid a b) (messages db)) in
         case persist_batches E acct fid path mode existing known
                (chunks write_batch_size (enumerate 0 msgs)) (db, c, []) of
           (Inl e, db', c', _) \<Rightarrow> (Inl e, db', c')
         | (Inr _, db', c', out) \<Rightarrow> (Inr out, reapply_pending_flags acct fid path a b db', c')))"

section \<open>The chunk walk of a folder\<close>

record folder_job =
  fj_account :: string
  fj_folder :: nat
  fj_path :: string
  fj_mode :: string
  fj_kind :: provider_kind
  fj_total :: int
  fj_notify :: bool
  fj_initial :: bool
  fj_account_name :: string
  fj_existing :: "string \<rightharpoonup> string"

text \<open>What follows the import for one message: body storage, then the notification.\<close>

definition process_imported ::
  "'p sync_env \<Rightarrow> folder_job \<Rightarrow> fetched_message list \<Rightarrow> nat \<times> nat \<times> bool
     \<Rightarrow> 'p sync_state \<Rightarrow> 'p sync_state"
where
  "process_imported E j msgs x s =
     (case x of (i, mid, is_new) \<Rightarrow>
        (let msg = msgs ! i;
             s1 = (case (fj_mode j = ''full'', fm_body msg) of
                     (True, Some raw) \<Rightarrow>
                       (case store_full (se_content E) (se_json E) (fj_account j) msg mid raw
                               (sy_content s, sy_calendar s) of
                          (c, cal) \<Rightarrow> s\<lparr>sy_content := c, sy_calendar := cal\<rparr>)
                   | _ \<Rightarrow> s)
         in if is_new \<and> fj_notify j \<and> \<not> fm_seen msg \<and> \<not> fm_deleted msg \<and> \<not> fj_initial j
            then s1\<lparr>sy_notes := sy_notes s1 @ [\<lparr>nm_message_id = mid, nm_account_id = fj_account j,
                   nm_account_name = fj_account_name j, nm_sender = fm_from msg, nm_subject = fm_subject msg\<rparr>]\<rparr>
            else s1))"

fun phishing_inputs :: "fetched_message list \<Rightarrow> imported \<Rightarrow> (nat \<times> string) list" where
  "phishing_inputs msgs [] = []"
| "phishing_inputs msgs ((i, mid, is_new) # xs) =
     (case (is_new, fm_body (msgs ! i)) of
        (True, Some raw) \<Rightarrow> (mid, raw) # phishing_inputs msgs xs
      | _ \<Rightarrow> phishing_inputs msgs xs)"

fun contiguous_uid :: "int \<Rightarrow> int list \<Rightarrow> int" where
  "contiguous_uid next [] = next"
| "contiguous_uid next (uid # uids) =
     (if uid \<le> next then contiguous_uid next uids
      else if uid = next + 1 then contiguous_uid uid uids
      else next)"

definition advance_cursor :: "provider_kind \<Rightarrow> nat \<Rightarrow> nat \<Rightarrow> nat \<Rightarrow> int \<Rightarrow> mail_db \<Rightarrow> int" where
  "advance_cursor kind fid a b cursor db =
     (if syncs_over_imap kind then max cursor (int b)
      else contiguous_uid cursor (sort (map m_uid (filter (in_range fid a b) (messages db)))))"

definition save_cursor :: "nat \<Rightarrow> int \<Rightarrow> mail_db \<Rightarrow> mail_db" where
  "save_cursor fid cursor db =
     update_folder fid
       (\<lambda>f. if f_last_uid f \<noteq> Some cursor \<or> f_unread f \<noteq> count_unread db fid
            then f\<lparr>f_last_uid := Some cursor, f_unread := count_unread db fid\<rparr> else f) db"

definition synced_message_count :: "string \<Rightarrow> mail_db \<Rightarrow> int" where
  "synced_message_count acct db =
     sum_list (map f_live (filter (\<lambda>f. f_account f = acct \<and> f_sync_enabled f) (folders db)))"

definition report_progress :: "string \<Rightarrow> int \<Rightarrow> 'p sync_state \<Rightarrow> 'p sync_state" where
  "report_progress acct whole s =
     publish_sync_status acct
       (s\<lparr>sy_manager := set_progress acct (synced_message_count acct (sy_db s)) whole (sy_manager s)\<rparr>)"

text \<open>The body of the \<open>while\<close> loop for uids \<open>a..b\<close>: the new cursor, or the error that ends the folder.\<close>

definition sync_chunk ::
  "'p sync_env \<Rightarrow> folder_job \<Rightarrow> nat \<Rightarrow> nat \<Rightarrow> int \<Rightarrow> 'p sync_state \<Rightarrow> (sync_error + int) \<times> 'p sync_state"
where
  "sync_chunk E j a b cursor s =
     (case call_backend (if fj_mode j = ''full'' then fetch_full (se_backend E) (fj_path j) (uid_range a b)
                         else fetch_headers (se_backend E) (fj_path j) (uid_range a b)) s of
        (Inl e, s1) \<Rightarrow> (Inl e, s1)
      | (Inr fetched, s1) \<Rightarrow>
          (let msgs = sort_key fm_uid fetched in
           case persist_message_metadata_chunk E (fj_account j) (fj_folder j) (fj_path j) a b (fj_mode j)
                  msgs (fj_existing j) (sy_db s1, sy_content s1) of
             (Inl e, db2, c2) \<Rightarrow> (Inl e, s1\<lparr>sy_db := db2, sy_content := c2\<rparr>)
           | (Inr imported, db2, c2) \<Rightarrow>
               (let s3 = fold (process_imported E j msgs) imported (s1\<lparr>sy_db := db2, sy_content := c2\<rparr>);
                    s4 = map_db (analyse_and_store_batch (se_phish E) (se_brands E) (se_feed E)
                           (phishing_inputs msgs imported)) s3;
                    cursor' = advance_cursor (fj_kind j) (fj_folder j) a b cursor (sy_db s4);
                    s5 = map_db (save_cursor (fj_folder j) cursor') s4
                in (Inr cursor', report_progress (fj_account j) (fj_total j) s5))))"

definition uid_chunk :: "provider_kind \<Rightarrow> nat" where
  "uid_chunk kind = (if kind = GmailApi then 200 else 500)"

text \<open>The loop. \<open>highest \<le> u32_max\<close> is the range of the Rust type of \<open>highest\<close>.\<close>

function chunk_loop ::
  "'p sync_env \<Rightarrow> folder_job \<Rightarrow> nat \<Rightarrow> nat \<Rightarrow> int \<Rightarrow> 'p sync_state \<Rightarrow> (sync_error + unit) \<times> 'p sync_state"
where
  "chunk_loop E j highest start cursor s =
     (if start \<le> highest \<and> highest \<le> u32_max
      then (let chunk_end = min (saturating_add_u32 start (uid_chunk (fj_kind j) - 1)) highest in
            case sync_chunk E j start chunk_end cursor s of
              (Inl e, s') \<Rightarrow> (Inl e, s')
            | (Inr cursor', s') \<Rightarrow>
                if highest \<le> chunk_end then (Inr (), s')
                else chunk_loop E j highest (chunk_end + 1) cursor' s')
      else (Inr (), s))"
  by pat_completeness auto
termination
  by (relation "measure (\<lambda>(E, j, highest, start, cursor, s). highest + 1 - start)")
     (auto simp: saturating_add_u32_def uid_chunk_def)

declare chunk_loop.simps [simp del]

text \<open>
  A changed UIDVALIDITY purges the folder; the rows that reference a purged message go with it
  (\<open>ON DELETE CASCADE\<close>).
\<close>

definition purge_folder :: "nat \<Rightarrow> 'p sync_state \<Rightarrow> 'p sync_state" where
  "purge_folder fid s =
     (let gone = m_id ` set (filter (\<lambda>m. m_folder m = fid) (messages (sy_db s)));
          db = db_delete (\<lambda>m. m_folder m = fid) (sy_db s);
          c = sy_content s; cal = sy_calendar s
      in s\<lparr>sy_db := db\<lparr>analysis := filter (\<lambda>r. fst r \<notin> gone) (analysis db)\<rparr>,
           sy_content := c\<lparr>cd_bodies := filter (\<lambda>r. br_message r \<notin> gone) (cd_bodies c),
             cd_attachments := filter (\<lambda>r. ar_message r \<notin> gone) (cd_attachments c)\<rparr>,
           sy_calendar := cal\<lparr>invitations := filter (\<lambda>r. in_message r \<notin> gone) (invitations cal)\<rparr>\<rparr>)"

definition check_uidvalidity :: "folder_row \<Rightarrow> nat \<Rightarrow> 'p sync_state \<Rightarrow> 'p sync_state" where
  "check_uidvalidity f server_uidvalidity s =
     (case f_uidvalidity f of
        Some sv \<Rightarrow>
          if sv \<noteq> int server_uidvalidity
          then map_db (update_folder (f_id f) (\<lambda>g. g\<lparr>f_uidvalidity := Some (int server_uidvalidity), f_last_uid := None\<rparr>))
                 (purge_folder (f_id f) s)
          else s
      | None \<Rightarrow> map_db (update_folder (f_id f) (\<lambda>g. g\<lparr>f_uidvalidity := Some (int server_uidvalidity)\<rparr>)) s)"

fun thread_pairs :: "string \<Rightarrow> message_row list \<Rightarrow> (string \<times> string) list" where
  "thread_pairs acct [] = []"
| "thread_pairs acct (m # ms) =
     (case (m_account m = acct, m_message_id m, m_thread_id m) of
        (True, Some mid, Some tid) \<Rightarrow> if tid = [] then thread_pairs acct ms else (mid, tid) # thread_pairs acct ms
      | _ \<Rightarrow> thread_pairs acct ms)"

definition existing_threads :: "string \<Rightarrow> mail_db \<Rightarrow> (string \<rightharpoonup> string)" where
  "existing_threads acct db = map_of (rev (thread_pairs acct (messages db)))"

definition prev_last_uid :: "folder_row \<Rightarrow> nat" where
  "prev_last_uid f = clamp_u32 (case f_last_uid f of Some u \<Rightarrow> u | None \<Rightarrow> 0)"

definition job_of ::
  "string \<Rightarrow> folder_row \<Rightarrow> string \<Rightarrow> string \<Rightarrow> provider_kind \<Rightarrow> int \<Rightarrow> mail_db \<Rightarrow> folder_job"
where
  "job_of acct f path mode kind whole db =
     \<lparr>fj_account = acct, fj_folder = f_id f, fj_path = path, fj_mode = mode, fj_kind = kind, fj_total = whole,
      fj_notify = notify_allowed_for_folder_type (f_type f), fj_initial = (prev_last_uid f = 0),
      fj_account_name = (case account_of db acct of Some a \<Rightarrow> a_display_name a | None \<Rightarrow> ''Mail account''),
      fj_existing = existing_threads acct db\<rparr>"

text \<open>The part of \<open>sync_folder\<close> after the folder status: the folder row \<open>f\<close> was read before it.\<close>

definition sync_folder_from ::
  "'p sync_env \<Rightarrow> string \<Rightarrow> folder_row \<Rightarrow> string \<Rightarrow> string \<Rightarrow> provider_kind \<Rightarrow> int
     \<Rightarrow> 'p sync_state \<Rightarrow> (sync_error + unit) \<times> 'p sync_state"
where
  "sync_folder_from E acct f path mode kind whole s =
     (let prev = prev_last_uid f;
          uid_start = wrapping_add_u32 prev 1
      in case (if 0 < prev then call_backend (reconcile_flags (se_backend E) acct (f_id f) path prev) s
               else (Inr (), s)) of
           (Inl e, s1) \<Rightarrow> (Inl e, s1)
         | (Inr _, s1) \<Rightarrow>
             (case call_backend (highest_uid (se_backend E) path) s1 of
                (Inl e, s2) \<Rightarrow> (Inl e, s2)
              | (Inr h, s2) \<Rightarrow>
                  (case h of
                     Some highest \<Rightarrow>
                       if uid_start \<le> highest
                       then chunk_loop E (job_of acct f path mode kind whole (sy_db s2)) highest uid_start
                              (case f_last_uid f of Some u \<Rightarrow> u | None \<Rightarrow> 0) s2
                       else (Inr (), map_db (update_unread_count (f_id f)) s2)
                   | None \<Rightarrow> (Inr (), map_db (update_unread_count (f_id f)) s2))))"

definition sync_folder ::
  "'p sync_env \<Rightarrow> string \<Rightarrow> string \<Rightarrow> string \<Rightarrow> provider_kind \<Rightarrow> int
     \<Rightarrow> 'p sync_state \<Rightarrow> (sync_error + unit) \<times> 'p sync_state"
where
  "sync_folder E acct path mode kind whole s =
     (case folder_at (sy_db s) acct path of
        None \<Rightarrow> (Inl (Message ''folder not found''), s)
      | Some f \<Rightarrow>
          (case call_backend (folder_status (se_backend E) path) s of
             (Inl e, s1) \<Rightarrow> (Inl e, s1)
           | (Inr st, s1) \<Rightarrow>
               sync_folder_from E acct f path mode kind whole (check_uidvalidity f (st_uidvalidity st) s1)))"

section \<open>Folder discovery\<close>

definition upsert_folder :: "string \<Rightarrow> provider_kind \<Rightarrow> folder_info \<Rightarrow> mail_db \<Rightarrow> mail_db" where
  "upsert_folder acct kind fi db =
     (case folder_at db acct (fi_path fi) of
        Some _ \<Rightarrow> db\<lparr>folders := map (\<lambda>f. if f_account f = acct \<and> f_path f = fi_path fi
                    then f\<lparr>f_name := fi_name fi, f_type := fi_type fi\<rparr> else f) (folders db)\<rparr>
      | None \<Rightarrow> db\<lparr>folders := folders db @ [\<lparr>f_id = next_id db, f_account = acct, f_name = fi_name fi,
                    f_path = fi_path fi, f_type = fi_type fi, f_uidvalidity = None, f_last_uid = None,
                    f_unread = 0, f_live = 0, f_sync_enabled = default_folder_sync_enabled kind (fi_type fi),
                    f_page_token = None, f_backfill_complete = False\<rparr>],
                  next_id := next_id db + 1\<rparr>)"

definition folder_changed :: "string \<Rightarrow> mail_db \<Rightarrow> folder_info \<Rightarrow> bool" where
  "folder_changed acct db fi =
     (case folder_at db acct (fi_path fi) of
        Some f \<Rightarrow> f_name f \<noteq> fi_name fi \<or> f_type f \<noteq> fi_type fi
      | None \<Rightarrow> True)"

definition stored_paths :: "string \<Rightarrow> mail_db \<Rightarrow> string list" where
  "stored_paths acct db = map f_path (filter (\<lambda>f. f_account f = acct) (folders db))"

definition has_messages :: "nat \<Rightarrow> mail_db \<Rightarrow> bool" where
  "has_messages fid db = (\<exists>m \<in> set (messages db). m_folder m = fid)"

definition drop_stale :: "string \<Rightarrow> string list \<Rightarrow> mail_db \<Rightarrow> mail_db" where
  "drop_stale acct stale db =
     db\<lparr>folders := filter (\<lambda>f. \<not> (f_account f = acct \<and> f_path f \<in> set stale \<and> \<not> has_messages (f_id f) db))
                    (folders db)\<rparr>"

definition discover_folders :: "string \<Rightarrow> provider_kind \<Rightarrow> folder_info list \<Rightarrow> mail_db \<Rightarrow> mail_db" where
  "discover_folders acct kind infos db =
     (let stored = stored_paths acct db;
          db1 = fold (upsert_folder acct kind) (filter (folder_changed acct db) infos) db;
          stale = filter (\<lambda>p. p \<notin> fi_path ` set infos) stored
      in drop_stale acct stale db1)"

definition synced_folders :: "string \<Rightarrow> folder_info list \<Rightarrow> mail_db \<Rightarrow> folder_info list" where
  "synced_folders acct infos db =
     (let enabled = map f_path (filter (\<lambda>f. f_account f = acct \<and> f_sync_enabled f) (folders db))
      in sort_key (\<lambda>fi. folder_sync_priority (fi_type fi)) (filter (\<lambda>fi. fi_path fi \<in> set enabled) infos))"

section \<open>The cycle\<close>

fun total_loop ::
  "'p sync_env \<Rightarrow> provider_kind \<Rightarrow> folder_info list \<Rightarrow> int \<Rightarrow> 'p sync_state
     \<Rightarrow> (sync_error + int) \<times> 'p sync_state"
where
  "total_loop E kind [] whole s = (Inr whole, s)"
| "total_loop E kind (fi # fis) whole s =
     (case call_backend (folder_status (se_backend E) (fi_path fi)) s of
        (Inr st, s') \<Rightarrow> total_loop E kind fis (whole + int (st_exists st)) s'
      | (Inl e, s') \<Rightarrow>
          (case oauth_reauthentication_error kind e of
             Some t \<Rightarrow> (Inl (Message t), s')
           | None \<Rightarrow> total_loop E kind fis whole s'))"

fun folder_loop ::
  "'p sync_env \<Rightarrow> string \<Rightarrow> string \<Rightarrow> provider_kind \<Rightarrow> int \<Rightarrow> folder_info list \<Rightarrow> 'p sync_state
     \<Rightarrow> (sync_error + unit) \<times> 'p sync_state"
where
  "folder_loop E acct mode kind whole [] s = (Inr (), s)"
| "folder_loop E acct mode kind whole (fi # fis) s =
     (case sync_folder E acct (fi_path fi) mode kind whole s of
        (Inr _, s') \<Rightarrow> folder_loop E acct mode kind whole fis s'
      | (Inl e, s') \<Rightarrow>
          (case oauth_reauthentication_error kind e of
             Some t \<Rightarrow> (Inl (Message t), s')
           | None \<Rightarrow> folder_loop E acct mode kind whole fis s'))"

definition flush_step :: "'p sync_env \<Rightarrow> string \<Rightarrow> 'p sync_state \<Rightarrow> 'p sync_state" where
  "flush_step E acct s =
     (case flush_pending_flags (se_backend E) acct (sy_db s, sy_server s) of
        (db', p') \<Rightarrow> s\<lparr>sy_db := db', sy_server := p'\<rparr>)"

definition sync_account :: "'p sync_env \<Rightarrow> string \<Rightarrow> 'p sync_state \<Rightarrow> (sync_error + unit) \<times> 'p sync_state" where
  "sync_account E acct s =
     (case account_of (sy_db s) acct of
        None \<Rightarrow> (Inl (Message ''account not found''), s)
      | Some a \<Rightarrow>
          (let kind = parse_kind (a_provider_kind a); mode = a_body_sync_mode a in
           case open_provider E acct (sy_db s) of
             Inl e \<Rightarrow> (Inl e, s)
           | Inr _ \<Rightarrow>
               (case call_backend (list_folders (se_backend E)) (flush_step E acct s) of
                  (Inl e, s1) \<Rightarrow> (Inl (normalize_provider_error kind e), s1)
                | (Inr infos, s1) \<Rightarrow>
                    (let s2 = map_db (discover_folders acct kind infos) s1;
                         fis = synced_folders acct infos (sy_db s2)
                     in case total_loop E kind fis 0 s2 of
                          (Inl e, s3) \<Rightarrow> (Inl e, s3)
                        | (Inr whole, s3) \<Rightarrow>
                            folder_loop E acct mode kind whole fis (report_progress acct whole s3)))))"

definition show_provider_error :: "provider_error \<Rightarrow> string" where
  "show_provider_error e =
     (case e of
        Session m \<Rightarrow> m
      | NotImplemented m \<Rightarrow> ''not implemented for this provider: '' @ m
      | Http status body \<Rightarrow> ''http '' @ show_nat status @ '': '' @ body
      | Transport m \<Rightarrow> ''transport error: '' @ m
      | Other m \<Rightarrow> m)"

definition show_sync_error :: "sync_error \<Rightarrow> string" where
  "show_sync_error e = (case e of Provider p \<Rightarrow> show_provider_error p | Database m \<Rightarrow> m | Message m \<Rightarrow> m)"

text \<open>
  \<open>run\<close> is \<open>sync_account\<close> under the 30 minute limit: \<open>None\<close> when the limit passed, with the state the
  cycle had reached.
\<close>

definition do_sync ::
  "string \<Rightarrow> string \<Rightarrow> ('p sync_state \<Rightarrow> (sync_error + unit) option \<times> 'p sync_state)
     \<Rightarrow> 'p sync_state \<Rightarrow> 'p sync_state"
where
  "do_sync clock acct run s =
     (if ss_state (account_status (sy_manager s) acct) = ''reauth_required'' then s
      else (let s1 = publish_sync_status acct (s\<lparr>sy_manager := set_state acct ''syncing'' None None (sy_manager s)\<rparr>) in
            case run s1 of
              (res, s2) \<Rightarrow>
                (let m = sy_manager s2;
                     err = (case res of Some (Inl e) \<Rightarrow> Some (show_sync_error e) | Some (Inr _) \<Rightarrow> None
                            | None \<Rightarrow> Some ''sync cycle timed out after 30 minutes'');
                     m' = (case err of
                        None \<Rightarrow> set_state acct ''idle'' (Some clock) None m
                      | Some t \<Rightarrow> if starts_with ''oauth_reauthentication_required:'' t
                                  then set_state acct ''reauth_required'' None (Some t) m
                                  else set_state acct ''error'' None (Some t) m)
                 in publish_sync_status acct (s2\<lparr>sy_manager := m'\<rparr>))))"

definition timed_sync :: "'p sync_env \<Rightarrow> string \<Rightarrow> 'p sync_state \<Rightarrow> (sync_error + unit) option \<times> 'p sync_state" where
  "timed_sync E acct s = (case sync_account E acct s of (r, s') \<Rightarrow> (Some r, s'))"

section \<open>Queued commands\<close>

definition resolve_dest_folder :: "string \<Rightarrow> string \<Rightarrow> mail_db \<Rightarrow> string" where
  "resolve_dest_folder acct dest db =
     (let wanted = (if dest = ''Trash'' then Some ''TRASH'' else if dest = ''Archive'' then Some ''ARCHIVE''
                    else if dest = ''Spam'' \<or> dest = ''Junk'' then Some ''SPAM'' else None)
      in case wanted of
           None \<Rightarrow> dest
         | Some t \<Rightarrow>
             (case sort_key (map (of_char :: char \<Rightarrow> nat)) (map f_path (filter (\<lambda>f. f_account f = acct \<and> f_type f = t) (folders db))) of
                [] \<Rightarrow> dest
              | path # _ \<Rightarrow> path))"

definition with_provider ::
  "'p sync_env \<Rightarrow> string \<Rightarrow> ('p sync_state \<Rightarrow> (sync_error + unit) \<times> 'p sync_state)
     \<Rightarrow> 'p sync_state \<Rightarrow> (sync_error + unit) \<times> 'p sync_state"
where
  "with_provider E acct k s = (case open_provider E acct (sy_db s) of Inl e \<Rightarrow> (Inl e, s) | Inr _ \<Rightarrow> k s)"

definition do_imap_move ::
  "'p sync_env \<Rightarrow> string \<Rightarrow> nat \<Rightarrow> string \<Rightarrow> string \<Rightarrow> 'p sync_state \<Rightarrow> (sync_error + unit) \<times> 'p sync_state"
where
  "do_imap_move E acct uid src dest s =
     with_provider E acct
       (call_backend (move_message (se_backend E) src uid (resolve_dest_folder acct dest (sy_db s)))) s"

definition do_flush_pending_flags :: "'p sync_env \<Rightarrow> string \<Rightarrow> 'p sync_state \<Rightarrow> (sync_error + unit) \<times> 'p sync_state" where
  "do_flush_pending_flags E acct s =
     (if pending_flag_ops acct (sy_db s) = [] then (Inr (), s)
      else with_provider E acct (\<lambda>s. (Inr (), flush_step E acct s)) s)"

definition do_imap_expunge ::
  "'p sync_env \<Rightarrow> string \<Rightarrow> nat \<Rightarrow> string \<Rightarrow> 'p sync_state \<Rightarrow> (sync_error + unit) \<times> 'p sync_state"
where
  "do_imap_expunge E acct uid folder s =
     with_provider E acct (call_backend (delete_permanently (se_backend E) folder uid)) s"

text \<open>The command branch of the task loop; \<open>None\<close> when the task stops.\<close>

fun handle_command :: "'p sync_env \<Rightarrow> string \<Rightarrow> sync_command \<Rightarrow> 'p sync_state \<Rightarrow> 'p sync_state option" where
  "handle_command E acct Shutdown s = None"
| "handle_command E acct ForcePoll s = Some (do_sync (se_clock E) acct (timed_sync E acct) s)"
| "handle_command E acct (IMapMove user uid src dest expunge) s = Some (snd (do_imap_move E acct uid src dest s))"
| "handle_command E acct (FlushFlags user) s = Some (snd (do_flush_pending_flags E acct s))"
| "handle_command E acct (IMapExpunge user uid folder) s = Some (snd (do_imap_expunge E acct uid folder s))"

end
