(* ===== verification/Outlook.thy ===== *)
theory Outlook
  imports Rest IdMap Flags
begin

text \<open>
  The Microsoft Graph backend (backend/mail-sync/src/provider/outlook.rs): every operation of the
  mail backend interface over REST requests and the uid map, and the interpretation of the interface.

  The configuration of the provider is \<open>'r outlook\<close>: the HTTP client, the account id and the two
  \<open>mailparse\<close> functions. \<open>now\<close> stands for the clock reading used when Graph gives no date.
\<close>

record 'r outlook =
  ol_http :: "'r http"
  ol_account :: string
  ol_headers :: "string \<Rightarrow> (string \<Rightarrow> string option) option"
  ol_parse_header :: "string \<Rightarrow> string option"
  ol_now :: string
  ol_encode :: "string \<Rightarrow> string"

definition base_url :: string where
  "base_url = ''https://graph.microsoft.com/v1.0/me''"

definition max_discovery_pages :: nat where
  "max_discovery_pages = 50"

section \<open>Discovery\<close>

text \<open>One page of ids, newest first: collect until a known id; the flag says whether one was met.\<close>

fun scan_page :: "string set \<Rightarrow> json list \<Rightarrow> string list \<Rightarrow> string list \<times> bool" where
  "scan_page known [] acc = (acc, False)"
| "scan_page known (m # ms) acc =
     (case as_str (jget m ''id'') of
        None \<Rightarrow> scan_page known ms acc
      | Some i \<Rightarrow> if i \<in> known then (acc, True) else scan_page known ms (acc @ [i]))"

fun discover_pages ::
  "'r http \<Rightarrow> string set \<Rightarrow> nat \<Rightarrow> string \<Rightarrow> string list \<Rightarrow> 'r \<Rightarrow> (provider_error + string list) \<times> 'r"
where
  "discover_pages h known 0 url acc r = (Inr acc, r)"
| "discover_pages h known (Suc n) url acc r =
     (case get_json h url r of
        (Inl e, r') \<Rightarrow> (Inl e, r')
      | (Inr res, r') \<Rightarrow>
          (case scan_page known (as_array (jget res ''value'')) acc of
             (acc', True) \<Rightarrow> (Inr acc', r')
           | (acc', False) \<Rightarrow>
               (case as_str (jget res ''@odata.nextLink'') of
                  Some next \<Rightarrow> discover_pages h known n next acc' r'
                | None \<Rightarrow> (Inr acc', r'))))"

definition discovery_url :: "string \<Rightarrow> string" where
  "discovery_url folder_id = base_url @ ''/mailFolders/'' @ folder_id @
     ''/messages?$select=id&$orderby=receivedDateTime desc&$top=100''"

definition discover_new :: "'r outlook \<Rightarrow> string \<Rightarrow> ('r, string list) call" where
  "discover_new o' folder_id s =
     (case s of (db, r) \<Rightarrow>
        (case discover_pages (ol_http o') (known_ids (ol_account o') folder_id db) max_discovery_pages
                (discovery_url folder_id) [] r of
           (Inl e, r') \<Rightarrow> (Inl e, db, r')
         | (Inr ids, r') \<Rightarrow> (Inr (rev ids), db, r')))"

section \<open>Operations\<close>

definition outlook_folder_type :: "string \<Rightarrow> string option" where
  "outlook_folder_type wkn =
     (if wkn = ''inbox'' then Some ''INBOX''
      else if wkn = ''sentitems'' then Some ''SENT''
      else if wkn = ''drafts'' then Some ''DRAFTS''
      else if wkn = ''archive'' then Some ''ARCHIVE''
      else if wkn = ''junkemail'' then Some ''SPAM''
      else if wkn = ''deleteditems'' then Some ''TRASH''
      else if wkn \<in> set [''outbox'', ''conversationhistory'', ''recoverableitemsdeletions'', ''scheduled'',
        ''searchfolders'', ''serverfailures'', ''syncissues'', ''conflicts'', ''localfailures'', ''clutter''] then None
      else Some ''CUSTOM'')"

fun outlook_folders :: "json list \<Rightarrow> folder_info list" where
  "outlook_folders [] = []"
| "outlook_folders (f # fs) =
     (case outlook_folder_type (or_empty (as_str (jget f ''wellKnownName''))) of
        None \<Rightarrow> outlook_folders fs
      | Some t \<Rightarrow> \<lparr>fi_name = or_empty (as_str (jget f ''displayName'')),
                   fi_path = or_empty (as_str (jget f ''id'')), fi_type = t\<rparr> # outlook_folders fs)"

definition ol_list_folders :: "'r outlook \<Rightarrow> ('r, folder_info list) call" where
  "ol_list_folders o' s =
     (case s of (db, r) \<Rightarrow>
        (case get_json (ol_http o') (base_url @ ''/mailFolders?$top=200&$select=id,displayName,wellKnownName'') r of
           (Inl e, r') \<Rightarrow> (Inl e, db, r')
         | (Inr res, r') \<Rightarrow> (Inr (outlook_folders (as_array (jget res ''value''))), db, r')))"

definition ol_folder_status :: "'r outlook \<Rightarrow> string \<Rightarrow> ('r, folder_status_info) call" where
  "ol_folder_status o' folder s =
     (case s of (db, r) \<Rightarrow>
        (case get_json (ol_http o') (base_url @ ''/mailFolders/'' @ folder @ ''?$select=totalItemCount'') r of
           (Inl e, r') \<Rightarrow> (Inl e, db, r')
         | (Inr res, r') \<Rightarrow>
             (Inr \<lparr>st_uidvalidity = 1,
                   st_exists = cast_u32 (int (case as_u64 (jget res ''totalItemCount'') of Some n \<Rightarrow> n | None \<Rightarrow> 0))\<rparr>,
              db, r')))"

definition ol_highest_uid :: "'r outlook \<Rightarrow> string \<Rightarrow> ('r, nat option) call" where
  "ol_highest_uid o' folder s =
     (case discover_new o' folder s of
        (Inl e, db, r') \<Rightarrow> (Inl e, db, r')
      | (Inr [], db, r') \<Rightarrow>
          (let m = max_uid (ol_account o') folder db in (Inr (if 0 < m then Some m else None), db, r'))
      | (Inr new_ids, db, r') \<Rightarrow>
          (case assign (ol_account o') folder new_ids db of
             (Inl e, db') \<Rightarrow> (Inl e, db', r')
           | (Inr m, db') \<Rightarrow> (Inr (if 0 < m then Some m else None), db', r')))"

definition state_of :: "string \<Rightarrow> json \<Rightarrow> bool \<times> bool \<times> string" where
  "state_of now m =
     ((case as_bool (jget m ''isRead'') of Some b \<Rightarrow> b | None \<Rightarrow> False),
      as_str (jget (jget m ''flag'') ''flagStatus'') = Some ''flagged'',
      (case as_str (jget m ''receivedDateTime'') of Some d \<Rightarrow> d | None \<Rightarrow> now))"

definition message_url :: "string \<Rightarrow> string \<Rightarrow> string" where
  "message_url remote sfx = base_url @ ''/messages/'' @ remote @ sfx"

fun ol_flags_loop ::
  "'r outlook \<Rightarrow> string \<Rightarrow> (nat \<times> string) list \<Rightarrow> ('r, (nat \<times> flags) list) call"
where
  "ol_flags_loop o' folder [] (db, r) = (Inr [], db, r)"
| "ol_flags_loop o' folder ((uid, remote) # xs) (db, r) =
     (case get_json (ol_http o') (message_url remote ''?$select=isRead,flag'') r of
        (Inr v, r') \<Rightarrow>
          (case ol_flags_loop o' folder xs (db, r') of
             (Inl e, s) \<Rightarrow> (Inl e, s)
           | (Inr out, s) \<Rightarrow>
               (case state_of (ol_now o') v of (seen, flagged, _) \<Rightarrow> (Inr ((uid, seen, flagged, False) # out), s)))
      | (Inl (Http status body), r') \<Rightarrow>
          (if status = 404
           then (case ol_flags_loop o' folder xs (remove_uid (ol_account o') folder uid db, r') of
                   (Inl e, s) \<Rightarrow> (Inl e, s)
                 | (Inr out, s) \<Rightarrow> (Inr ((uid, False, False, True) # out), s))
           else (Inl (Http status body), db, r'))
      | (Inl e, r') \<Rightarrow> (Inl e, db, r'))"

definition ol_fetch_flags :: "'r outlook \<Rightarrow> string \<Rightarrow> string \<Rightarrow> ('r, (nat \<times> flags) list) call" where
  "ol_fetch_flags o' folder uids s =
     (case resolve_set (ol_account o') folder uids (fst s) of
        Inl e \<Rightarrow> (Inl e, s)
      | Inr xs \<Rightarrow> ol_flags_loop o' folder xs s)"

fun json_pairs :: "json list \<Rightarrow> (string \<times> string) list" where
  "json_pairs [] = []"
| "json_pairs (h # hs) =
     (case (as_str (jget h ''name''), as_str (jget h ''value'')) of
        (Some n, Some v) \<Rightarrow> (n, v) # json_pairs hs
      | _ \<Rightarrow> json_pairs hs)"

definition fetch_metadata ::
  "'r outlook \<Rightarrow> nat \<Rightarrow> string \<Rightarrow> 'r \<Rightarrow> (provider_error + fetched_message) \<times> 'r"
where
  "fetch_metadata o' uid remote r =
     (case get_json (ol_http o') (message_url remote ''?$select=internetMessageHeaders,receivedDateTime,isRead,flag'') r of
        (Inl e, r') \<Rightarrow> (Inl e, r')
      | (Inr res, r') \<Rightarrow>
          (case state_of (ol_now o') res of (seen, flagged, date) \<Rightarrow>
             (Inr (fetched_from_raw (ol_headers o') (ol_parse_header o') uid
                (header_block_from_pairs (json_pairs (as_array (jget res ''internetMessageHeaders''))))
                date seen flagged False), r')))"

fun ol_headers_loop :: "'r outlook \<Rightarrow> (nat \<times> string) list \<Rightarrow> 'r \<Rightarrow> fetched_message list \<times> 'r" where
  "ol_headers_loop o' [] r = ([], r)"
| "ol_headers_loop o' ((uid, remote) # xs) r =
     (case fetch_metadata o' uid remote r of
        (Inr m, r') \<Rightarrow> (case ol_headers_loop o' xs r' of (out, r'') \<Rightarrow> (m # out, r''))
      | (Inl _, r') \<Rightarrow> ol_headers_loop o' xs r')"

definition ol_fetch_headers :: "'r outlook \<Rightarrow> string \<Rightarrow> string \<Rightarrow> ('r, fetched_message list) call" where
  "ol_fetch_headers o' folder uids s =
     (case resolve_set (ol_account o') folder uids (fst s) of
        Inl e \<Rightarrow> (Inl e, s)
      | Inr xs \<Rightarrow> (case ol_headers_loop o' xs (snd s) of (out, r') \<Rightarrow> (Inr out, fst s, r')))"

definition fetch_full_one ::
  "'r outlook \<Rightarrow> nat \<Rightarrow> string \<Rightarrow> 'r \<Rightarrow> (provider_error + fetched_message) \<times> 'r"
where
  "fetch_full_one o' uid remote r =
     (case get_json (ol_http o') (message_url remote ''?$select=isRead,flag,receivedDateTime'') r of
        (meta, r1) \<Rightarrow>
          (case get_bytes (ol_http o') (message_url remote ''/$value'') r1 of
             (raw, r2) \<Rightarrow>
               (case (meta, raw) of
                  (Inr m, Inr bytes) \<Rightarrow>
                    (case state_of (ol_now o') m of (seen, flagged, date) \<Rightarrow>
                       (Inr (fetched_from_raw (ol_headers o') (ol_parse_header o') uid bytes date seen flagged True), r2))
                | (Inl e, _) \<Rightarrow> (Inl e, r2)
                | (_, Inl e) \<Rightarrow> (Inl e, r2))))"

fun ol_full_loop :: "'r outlook \<Rightarrow> (nat \<times> string) list \<Rightarrow> 'r \<Rightarrow> fetched_message list \<times> 'r" where
  "ol_full_loop o' [] r = ([], r)"
| "ol_full_loop o' ((uid, remote) # xs) r =
     (case fetch_full_one o' uid remote r of
        (Inr m, r') \<Rightarrow> (case ol_full_loop o' xs r' of (out, r'') \<Rightarrow> (m # out, r''))
      | (Inl _, r') \<Rightarrow> ol_full_loop o' xs r')"

definition ol_fetch_full :: "'r outlook \<Rightarrow> string \<Rightarrow> string \<Rightarrow> ('r, fetched_message list) call" where
  "ol_fetch_full o' folder uids s =
     (case resolve_set (ol_account o') folder uids (fst s) of
        Inl e \<Rightarrow> (Inl e, s)
      | Inr xs \<Rightarrow> (case ol_full_loop o' xs (snd s) of (out, r') \<Rightarrow> (Inr out, fst s, r')))"

text \<open>A request about one mapped message; a missing mapping is an error before any request.\<close>

definition with_remote ::
  "'r outlook \<Rightarrow> string \<Rightarrow> nat \<Rightarrow> (string \<Rightarrow> 'r \<Rightarrow> (provider_error + 'a) \<times> 'r) \<Rightarrow> ('r, 'a) call"
where
  "with_remote o' folder uid k s =
     (case remote_id (ol_account o') folder uid (fst s) of
        Inl e \<Rightarrow> (Inl e, s)
      | Inr remote \<Rightarrow> (case k remote (snd s) of (res, r') \<Rightarrow> (res, fst s, r')))"

definition then_remove :: "'r outlook \<Rightarrow> string \<Rightarrow> nat \<Rightarrow> ('r, 'a) call \<Rightarrow> ('r, unit) call" where
  "then_remove o' folder uid c s =
     (case c s of
        (Inl e, s') \<Rightarrow> (Inl e, s')
      | (Inr _, db', r') \<Rightarrow> (Inr (), remove_uid (ol_account o') folder uid db', r'))"

definition ol_fetch_raw :: "'r outlook \<Rightarrow> string \<Rightarrow> nat \<Rightarrow> ('r, string) call" where
  "ol_fetch_raw o' folder uid =
     with_remote o' folder uid (\<lambda>remote. get_bytes (ol_http o') (message_url remote ''/$value''))"

definition ol_post_move :: "'r outlook \<Rightarrow> string \<Rightarrow> string \<Rightarrow> 'r \<Rightarrow> (provider_error + json) \<times> 'r" where
  "ol_post_move o' dest remote =
     post_json (ol_http o') (message_url remote ''/move'') (JObj [(''destinationId'', JStr dest)])"

definition ol_set_flag :: "'r outlook \<Rightarrow> string \<Rightarrow> nat \<Rightarrow> string \<Rightarrow> bool \<Rightarrow> ('r, unit) call" where
  "ol_set_flag o' folder uid flag v =
     (if flag = ''seen'' then
        with_remote o' folder uid (\<lambda>remote. patch_json (ol_http o') (message_url remote [])
          (JObj [(''isRead'', JBool v)]))
      else if flag = ''flagged'' then
        with_remote o' folder uid (\<lambda>remote. patch_json (ol_http o') (message_url remote [])
          (JObj [(''flag'', JObj [(''flagStatus'', JStr (if v then ''flagged'' else ''notFlagged''))])]))
      else if flag = ''deleted'' then
        (if v then then_remove o' folder uid (with_remote o' folder uid (ol_post_move o' ''deleteditems''))
         else with_remote o' folder uid (\<lambda>remote r. (Inr (), r)))
      else with_remote o' folder uid (\<lambda>remote r. (Inl (Other (''unknown flag: '' @ flag)), r)))"

definition ol_move_message :: "'r outlook \<Rightarrow> string \<Rightarrow> nat \<Rightarrow> string \<Rightarrow> ('r, unit) call" where
  "ol_move_message o' src uid dest = then_remove o' src uid (with_remote o' src uid (ol_post_move o' dest))"

definition ol_delete_permanently :: "'r outlook \<Rightarrow> string \<Rightarrow> nat \<Rightarrow> ('r, unit) call" where
  "ol_delete_permanently o' folder uid =
     then_remove o' folder uid (with_remote o' folder uid (\<lambda>remote. rest_delete (ol_http o') (message_url remote [])))"

definition ol_append_sent :: "'r outlook \<Rightarrow> string \<Rightarrow> ('r, unit) call" where
  "ol_append_sent o' raw s = (Inr (), s)"

definition ol_send_message :: "'r outlook \<Rightarrow> string \<Rightarrow> ('r, unit) call" where
  "ol_send_message o' raw s =
     (case post_raw (ol_http o') (base_url @ ''/sendMail'') (ol_encode o' raw) (snd s) of
        (res, r') \<Rightarrow> (res, fst s, r'))"

definition outlook_backend :: "'r outlook \<Rightarrow> 'r backend" where
  "outlook_backend o' = \<lparr>
     list_folders = ol_list_folders o',
     folder_status = ol_folder_status o',
     highest_uid = ol_highest_uid o',
     fetch_flags = ol_fetch_flags o',
     fetch_headers = ol_fetch_headers o',
     fetch_full = ol_fetch_full o',
     fetch_raw = ol_fetch_raw o',
     set_flag = ol_set_flag o',
     move_message = ol_move_message o',
     delete_permanently = ol_delete_permanently o'\<rparr>"

section \<open>The interface holds\<close>

lemma keeps_frame_same_db:
  "(\<And>db r res db' r'. c (db, r) = (res, db', r') \<Longrightarrow> db' = db) \<Longrightarrow> keeps_frame c"
  by (rule keeps_frameI) (metis backend_frame_refl)

lemma with_remote_frame: "keeps_frame (with_remote o' folder uid k)"
  by (rule keeps_frame_same_db) (auto simp: with_remote_def split: sum.splits prod.splits)

lemma then_remove_frame:
  assumes "keeps_frame c"
  shows "keeps_frame (then_remove o' folder uid c)"
proof (rule keeps_frameI)
  fix db p r db' p'
  assume call: "then_remove o' folder uid c (db, p) = (r, db', p')"
  obtain res db1 p1 where c: "c (db, p) = (res, db1, p1)" by (metis prod_cases3)
  have "backend_frame db db1" using assms c by (rule keeps_frameD)
  moreover have "backend_frame db1 db'"
    using call c remove_uid_frame by (auto simp: then_remove_def split: sum.splits)
  ultimately show "backend_frame db db'" by (rule backend_frame_trans)
qed

lemma discover_new_db: "discover_new o' folder (db, r) = (res, db', r') \<Longrightarrow> db' = db"
  by (auto simp: discover_new_def split: prod.splits sum.splits)

lemma ol_highest_frame: "keeps_frame (ol_highest_uid o' folder)"
proof (rule keeps_frameI)
  fix db p r db' p'
  assume call: "ol_highest_uid o' folder (db, p) = (r, db', p')"
  obtain res db1 p1 where d: "discover_new o' folder (db, p) = (res, db1, p1)" by (metis prod_cases3)
  then have "db1 = db" by (rule discover_new_db)
  with call d show "backend_frame db db'"
    by (auto simp: ol_highest_uid_def Let_def split: sum.splits list.splits prod.splits dest: assign_frame)
qed

lemma ol_flags_loop_frame: "ol_flags_loop o' folder xs (db, r) = (res, db', r') \<Longrightarrow> backend_frame db db'"
proof (induction xs arbitrary: db r res db' r')
  case (Cons x xs)
  obtain uid remote where x: "x = (uid, remote)" by fastforce
  obtain ans r1 where a: "get_json (ol_http o') (message_url remote ''?$select=isRead,flag'') r = (ans, r1)"
    by fastforce
  obtain res1 s1 where l1: "ol_flags_loop o' folder xs (db, r1) = (res1, s1)" by (metis surj_pair)
  obtain res2 s2 where l2: "ol_flags_loop o' folder xs (remove_uid (ol_account o') folder uid db, r1) = (res2, s2)"
    by (metis surj_pair)
  have "backend_frame db (fst s1)" using Cons.IH [of db r1 res1 "fst s1" "snd s1"] l1 by simp
  moreover have "backend_frame db (fst s2)"
    using Cons.IH [of "remove_uid (ol_account o') folder uid db" r1 res2 "fst s2" "snd s2"] l2
      backend_frame_trans [OF remove_uid_frame] by simp
  ultimately show ?case
    using Cons.prems x a l1 l2
    by (auto split: sum.splits provider_error.splits prod.splits if_splits)
qed simp

lemma ol_fetch_flags_frame: "keeps_frame (ol_fetch_flags o' folder uids)"
  by (rule keeps_frameI) (auto simp: ol_fetch_flags_def split: sum.splits dest: ol_flags_loop_frame)

lemma mail_backend_outlook: "mail_backend (outlook_backend o')"
proof
  show "keeps_frame (list_folders (outlook_backend o'))"
    by (rule keeps_frame_same_db) (auto simp: outlook_backend_def ol_list_folders_def split: prod.splits sum.splits)
  show "keeps_frame (folder_status (outlook_backend o') path)" for path
    by (rule keeps_frame_same_db) (auto simp: outlook_backend_def ol_folder_status_def split: prod.splits sum.splits)
  show "keeps_frame (highest_uid (outlook_backend o') path)" for path
    by (simp add: outlook_backend_def ol_highest_frame)
  show "keeps_frame (fetch_flags (outlook_backend o') path uids)" for path uids
    by (simp add: outlook_backend_def ol_fetch_flags_frame)
  show "keeps_frame (fetch_headers (outlook_backend o') path uids)" for path uids
    by (rule keeps_frame_same_db) (auto simp: outlook_backend_def ol_fetch_headers_def split: prod.splits sum.splits)
  show "keeps_frame (fetch_full (outlook_backend o') path uids)" for path uids
    by (rule keeps_frame_same_db) (auto simp: outlook_backend_def ol_fetch_full_def split: prod.splits sum.splits)
  show "keeps_frame (fetch_raw (outlook_backend o') path uid)" for path uid
    by (simp add: outlook_backend_def ol_fetch_raw_def with_remote_frame)
  show "keeps_frame (set_flag (outlook_backend o') path uid flag v)" for path uid flag v
    by (simp add: outlook_backend_def ol_set_flag_def with_remote_frame then_remove_frame)
  show "keeps_frame (move_message (outlook_backend o') path uid dest)" for path uid dest
    by (simp add: outlook_backend_def ol_move_message_def with_remote_frame then_remove_frame)
  show "keeps_frame (delete_permanently (outlook_backend o') path uid)" for path uid
    by (simp add: outlook_backend_def ol_delete_permanently_def with_remote_frame then_remove_frame)
qed

interpretation ol: mail_backend "outlook_backend o'" for o'
  by (rule mail_backend_outlook)

end
