(* ===== verification/Sync_Invariants.thy ===== *)
theory Sync_Invariants
  imports Sync Outlook
begin

text \<open>
  What every step of a sync cycle keeps, for any backend of the interface \<open>mail_backend\<close>: the keys
  and counters of the database, and the deletions: a row that was deleted locally stays deleted
  for as long as it exists.  The step relation is \<open>safe\<close>.
\<close>

section \<open>Safe steps\<close>

definition fids_ok :: "mail_db \<Rightarrow> bool" where
  "fids_ok db = ((\<forall>m \<in> set (messages db). m_folder m < next_id db) \<and> (\<forall>f \<in> set (folders db). f_id f < next_id db))"

definition db_ok :: "mail_db \<Rightarrow> bool" where
  "db_ok db = (counts_ok db \<and> uids_ok db \<and> ids_ok db \<and> fids_ok db \<and> pending_ok db)"

definition row_le :: "message_row \<Rightarrow> message_row \<Rightarrow> bool" where
  "row_le m m' = (m_id m' = m_id m \<and> m_folder m' = m_folder m \<and> m_uid m' = m_uid m
     \<and> (m_deleted m \<longrightarrow> m_deleted m'))"

definition old_rows_kept :: "mail_db \<Rightarrow> mail_db \<Rightarrow> bool" where
  "old_rows_kept db db' = (\<forall>m' \<in> set (messages db'). m_id m' < next_id db \<longrightarrow> (\<exists>m \<in> set (messages db). row_le m m'))"

definition safe :: "mail_db \<Rightarrow> mail_db \<Rightarrow> bool" where
  "safe db db' = (next_id db \<le> next_id db' \<and> old_rows_kept db db' \<and> (db_ok db \<longrightarrow> db_ok db'))"

lemma row_le_refl [simp]: "row_le m m"
  by (simp add: row_le_def)

lemma row_le_trans: "row_le a b \<Longrightarrow> row_le b c \<Longrightarrow> row_le a c"
  by (simp add: row_le_def)

lemma row_le_here: "m \<in> S \<Longrightarrow> \<exists>x \<in> S. row_le x m"
  by (rule bexI [of _ m]) simp_all

lemma safe_refl [simp]: "safe db db"
  by (auto simp: safe_def old_rows_kept_def row_le_here)

lemma safe_trans [trans]:
  assumes "safe a b" "safe b c"
  shows "safe a c"
proof -
  have "old_rows_kept a c"
    unfolding old_rows_kept_def
  proof (intro ballI impI)
    fix m assume m: "m \<in> set (messages c)" "m_id m < next_id a"
    moreover have "next_id a \<le> next_id b" using assms(1) by (simp add: safe_def)
    ultimately obtain m1 where m1: "m1 \<in> set (messages b)" "row_le m1 m"
      using assms(2) unfolding safe_def old_rows_kept_def by (meson less_le_trans)
    then have "m_id m1 < next_id a" using m(2) by (simp add: row_le_def)
    then obtain m0 where "m0 \<in> set (messages a)" "row_le m0 m1"
      using m1 assms(1) unfolding safe_def old_rows_kept_def by blast
    with m1 show "\<exists>m0 \<in> set (messages a). row_le m0 m" using row_le_trans by blast
  qed
  with assms show ?thesis by (auto simp: safe_def)
qed

text \<open>Steps that leave messages, outbox and id supply alone, and only write other folder columns.\<close>

lemma safe_same_rows:
  assumes "messages db' = messages db" "pending db' = pending db" "next_id db' = next_id db"
    "map (\<lambda>f. (f_id f, f_live f, f_unread f)) (folders db') = map (\<lambda>f. (f_id f, f_live f, f_unread f)) (folders db)"
  shows "safe db db'"
proof -
  let ?k = "\<lambda>f. (f_id f, f_live f, f_unread f)"
  have img: "?k ` set (folders db') = ?k ` set (folders db)"
    using arg_cong [OF assms(4), of set] by (simp only: set_map)
  have counts: "folder_counts_ok db' f = (case ?k f of (i, l, u) \<Rightarrow> l = count_live db i \<and> u = count_unread db i)" for f
    using assms(1) by (simp add: folder_counts_ok_def count_live_def count_unread_def)
  have "counts_ok db' = (\<forall>k \<in> ?k ` set (folders db'). case k of (i, l, u) \<Rightarrow> l = count_live db i \<and> u = count_unread db i)"
    by (simp add: counts_ok_def counts)
  also have "\<dots> = counts_ok db"
    unfolding img by (simp add: counts_ok_def folder_counts_ok_def)
  finally have "counts_ok db' = counts_ok db" .
  have "fst ` ?k ` set (folders db') = fst ` ?k ` set (folders db)" by (simp only: img)
  then have ids: "f_id ` set (folders db') = f_id ` set (folders db)" by (simp add: image_comp comp_def)
  have ball: "(\<forall>f \<in> set fs. f_id f < n) = (\<forall>i \<in> f_id ` set fs. i < n)" for fs and n by simp
  have "(\<forall>f \<in> set (folders db'). f_id f < n) = (\<forall>f \<in> set (folders db). f_id f < n)" for n
    unfolding ball ids ..
  then have "fids_ok db' = fids_ok db" using assms by (simp add: fids_ok_def)
  moreover note \<open>counts_ok db' = counts_ok db\<close>
  moreover have "uids_ok db' = uids_ok db" "ids_ok db' = ids_ok db" "pending_ok db' = pending_ok db"
    using assms by (simp_all add: uids_ok_def ids_ok_def pending_ok_def)
  ultimately show ?thesis
    using assms by (simp add: safe_def db_ok_def old_rows_kept_def row_le_here)
qed

lemma safe_backend: "backend_frame db db' \<Longrightarrow> safe db db'"
proof (rule safe_same_rows)
  assume *: "backend_frame db db'"
  then have "map (\<lambda>f. (f_id f, f_live f, f_unread f)) (map core_folder (folders db'))
      = map (\<lambda>f. (f_id f, f_live f, f_unread f)) (map core_folder (folders db))"
    by (simp only: backend_frame_def)
  then show "map (\<lambda>f. (f_id f, f_live f, f_unread f)) (folders db') = map (\<lambda>f. (f_id f, f_live f, f_unread f)) (folders db)"
    by (simp add: comp_def)
qed (simp_all add: backend_frame_def)

lemma fids_ok_update: "fids_ok db \<Longrightarrow> (\<And>m. P m \<Longrightarrow> m_folder (g m) = m_folder m) \<Longrightarrow> fids_ok (db_update P g db)"
  by (auto simp: fids_ok_def db_update_def)

lemma pending_ok_same: "pending db' = pending db \<Longrightarrow> next_id db' = next_id db \<Longrightarrow> pending_ok db' = pending_ok db"
  by (simp add: pending_ok_def)

lemma safe_update:
  assumes "\<And>m. P m \<Longrightarrow> row_le m (g m)"
  shows "safe db (db_update P g db)"
proof -
  have "old_rows_kept db (db_update P g db)"
    using assms by (auto simp: old_rows_kept_def store_simps row_le_here)
  moreover have "db_ok db \<Longrightarrow> db_ok (db_update P g db)"
    using assms unfolding db_ok_def row_le_def
    by (simp add: counts_ok_update uids_ok_update ids_ok_update fids_ok_update pending_ok_def store_simps)
  ultimately show ?thesis by (simp add: safe_def store_simps)
qed

lemma safe_fold: "(\<And>x db. x \<in> set xs \<Longrightarrow> safe db (f x db)) \<Longrightarrow> safe db (fold f xs db)"
proof (induction xs arbitrary: db)
  case (Cons x xs)
  have "safe db (f x db)" using Cons.prems by simp
  also have "safe (f x db) (fold f xs (f x db))" using Cons by simp
  finally show ?case by simp
qed simp

lemma safe_delete: "safe db (db_delete P db)"
proof -
  have "db_ok db \<Longrightarrow> db_ok (db_delete P db)"
    unfolding db_ok_def
    by (simp add: counts_ok_delete uids_ok_delete ids_ok_delete pending_ok_def store_simps)
       (auto simp: fids_ok_def db_delete_def)
  then show ?thesis by (auto simp: safe_def old_rows_kept_def store_simps row_le_here)
qed

lemma safe_insert:
  assumes "m_folder m < next_id db" "find (same_uid m) (messages db) = None"
  shows "safe db (db_insert m db)"
proof -
  have new: "\<forall>x \<in> set (messages db). \<not> (m_folder x = m_folder m \<and> m_uid x = m_uid m)"
    using assms(2) by (auto simp: find_None_eq same_uid_def)
  have "fids_ok db \<Longrightarrow> fids_ok (db_insert m db)"
    using assms(1) by (auto simp: fids_ok_def db_insert_def)
  moreover have "pending_ok db \<Longrightarrow> pending_ok (db_insert m db)"
    by (auto simp: pending_ok_def store_simps)
  ultimately have "db_ok db \<Longrightarrow> db_ok (db_insert m db)"
    using uids_ok_insert [OF _ new] by (simp add: db_ok_def counts_ok_insert ids_ok_insert)
  then show ?thesis by (auto simp: safe_def old_rows_kept_def store_simps row_le_here)
qed

lemma safe_update_folder:
  assumes "\<And>f. f_id (g f) = f_id f"
    "\<And>f. f_live (g f) = f_live f" "\<And>f. f_unread (g f) = f_unread f \<or> f_unread (g f) = count_unread db fid"
  shows "safe db (update_folder fid g db)"
proof -
  have "counts_ok db \<Longrightarrow> counts_ok (update_folder fid g db)"
    using assms unfolding counts_ok_def folder_counts_ok_def update_folder_def
    by (auto simp: count_live_def count_unread_def) metis
  moreover have "fids_ok db \<Longrightarrow> fids_ok (update_folder fid g db)"
    using assms(1) by (auto simp: fids_ok_def update_folder_def)
  moreover have "uids_ok (update_folder fid g db) = uids_ok db" "ids_ok (update_folder fid g db) = ids_ok db"
    "pending_ok (update_folder fid g db) = pending_ok db"
    by (simp_all add: uids_ok_def ids_ok_def pending_ok_def update_folder_def)
  ultimately show ?thesis
    by (simp add: safe_def db_ok_def old_rows_kept_def update_folder_def row_le_here)
qed

section \<open>The parts of a chunk\<close>

lemma safe_upsert:
  assumes "m_folder new < next_id db"
  shows "safe db (snd (upsert_message new db))"
proof (cases "find (same_uid new) (messages db)")
  case None
  then show ?thesis using assms by (simp add: upsert_message_def safe_insert)
next
  case (Some m)
  then show ?thesis
    by (simp add: upsert_message_def) (intro safe_update, simp add: row_le_def overwrite_row_def)
qed

lemma prepared_folder [simp]: "m_folder (prepared_row E acct fid ex msg) = fid" "m_uid (prepared_row E acct fid ex msg) = int (fm_uid msg)"
  by (simp_all add: prepared_row_def)

lemma safe_persist_one:
  assumes "fid < next_id db" "persist_one E acct fid mode ex known im (db, c, out) = (db', c', out')"
  shows "safe db db'"
proof -
  obtain i msg where im: "im = (i, msg)" by fastforce
  have "db' = snd (upsert_message (prepared_row E acct fid ex msg) db)"
    using assms(2) by (auto simp: persist_one_def im split: prod.splits)
  then show ?thesis using safe_upsert assms(1) by simp
qed

lemma safe_persist_batch:
  assumes "fid < next_id db" "fold (persist_one E acct fid mode ex known) b (db, c, out) = (db', c', out')"
  shows "safe db db'"
  using assms
proof (induction b arbitrary: db c out)
  case (Cons im b)
  obtain db1 c1 out1 where one: "persist_one E acct fid mode ex known im (db, c, out) = (db1, c1, out1)"
    by (metis prod_cases3)
  have step: "safe db db1" using Cons.prems(1) one by (rule safe_persist_one)
  then have "fid < next_id db1" using Cons.prems(1) by (simp add: safe_def)
  with Cons.IH Cons.prems(2) one have "safe db1 db'" by simp
  with step show ?case by (rule safe_trans)
qed simp

lemma upsert_remote_frame:
  "upsert_remote r db = Some db' \<Longrightarrow> messages db' = messages db \<and> pending db' = pending db
     \<and> next_id db' = next_id db \<and> folders db' = folders db \<and> accounts db' = accounts db"
  by (auto simp: upsert_remote_def split: if_splits)

lemma upsert_all_frame:
  "upsert_all rs db = Some db' \<Longrightarrow> messages db' = messages db \<and> pending db' = pending db
     \<and> next_id db' = next_id db \<and> folders db' = folders db \<and> accounts db' = accounts db"
  by (induction rs arbitrary: db) (auto split: option.splits dest!: upsert_remote_frame)

lemma safe_upsert_all: "upsert_all rs db = Some db' \<Longrightarrow> safe db db'"
  by (rule safe_same_rows) (auto dest: upsert_all_frame)

lemma safe_persist_batches:
  assumes "fid < next_id db" "persist_batches E acct fid path mode ex known bs (db, c, out) = (r, db', c', out')"
  shows "safe db db'"
  using assms
proof (induction bs arbitrary: db c out)
  case (Cons b bs)
  obtain db1 c1 out1 where b: "fold (persist_one E acct fid mode ex known) b (db, c, out) = (db1, c1, out1)"
    by (metis prod_cases3)
  have s1: "safe db db1" using Cons.prems(1) b by (rule safe_persist_batch)
  show ?case
  proof (cases "upsert_all (remote_mappings acct path (map snd b)) db1")
    case None
    with Cons.prems(2) b show ?thesis by simp
  next
    case (Some db2)
    have s2: "safe db db2" using s1 safe_upsert_all [OF Some] by (rule safe_trans)
    then have "fid < next_id db2" using Cons.prems(1) by (simp add: safe_def)
    with Cons.IH Cons.prems(2) b Some have "safe db2 db'" by simp
    with s2 show ?thesis by (rule safe_trans)
  qed
qed simp

lemma safe_reapply: "safe db (reapply_pending_flags acct fid path a b db)"
proof -
  have "safe db (restore_flag (\<lambda>v m. m\<lparr>m_read := v\<rparr>) ''seen'' acct fid path a b db)" for db
    unfolding restore_flag_def by (rule safe_update) (auto simp: row_le_def split: option.splits)
  also have "safe db (restore_flag (\<lambda>v m. m\<lparr>m_flagged := v\<rparr>) ''flagged'' acct fid path a b db)" for db
    unfolding restore_flag_def by (rule safe_update) (auto simp: row_le_def split: option.splits)
  finally show ?thesis by (simp add: reapply_pending_flags_def)
qed

lemma safe_persist:
  assumes "fid < next_id db"
    "persist_message_metadata_chunk E acct fid path a b mode msgs ex (db, c) = (r, db', c')"
  shows "safe db db'"
proof -
  obtain r1 db1 c1 out where p: "persist_batches E acct fid path mode ex
      (m_uid ` set (filter (in_range fid a b) (messages db))) (chunks write_batch_size (enumerate 0 msgs)) (db, c, [])
      = (r1, db1, c1, out)" by (metis prod_cases4)
  have s: "safe db db1" using assms(1) p by (rule safe_persist_batches)
  have "db' = db1 \<or> db' = reapply_pending_flags acct fid path a b db1"
    using assms(2) p by (auto simp: persist_message_metadata_chunk_def Let_def split: sum.splits)
  with s show ?thesis using safe_reapply safe_trans by blast
qed

lemma safe_analyse: "safe db (analyse_and_store_batch P brands feed msgs db)"
  unfolding analyse_and_store_batch_def Let_def
proof (rule safe_fold)
  fix x :: "nat \<times> report" and db
  obtain mid rep where x: "x = (mid, rep)" by fastforce
  have "safe db (db\<lparr>analysis := a\<rparr>)" for a by (rule safe_same_rows) simp_all
  also have "safe db' (db_update (\<lambda>m. m_id m = mid) (\<lambda>m. m\<lparr>m_verdict := Some (rp_verdict rep)\<rparr>) db')" for db'
    by (rule safe_update) (simp add: row_le_def)
  finally show "safe db (store_report P x db)" by (simp add: store_report_def x Let_def)
qed

lemma safe_save_cursor: "safe db (save_cursor fid cursor db)"
  unfolding save_cursor_def by (rule safe_update_folder) simp_all

lemma safe_unread: "safe db (update_unread_count fid db)"
  by (simp add: update_unread_count_def write_unread_def split: option.split) (intro conjI allI impI safe_update_folder; simp)

lemma safe_reconcile_chunk: "safe db (reconcile_chunk fid a b pend flags db)"
proof -
  have c: "safe db (apply_changed fid changed db)" for changed db
    unfolding apply_changed_def
    by (rule safe_fold) (rule safe_update, simp add: row_le_def set_flags_row_def)
  have e: "safe db (apply_expunged fid uids db)" for uids db
    unfolding apply_expunged_def by (rule safe_fold) (rule safe_update, simp add: row_le_def)
  show ?thesis using safe_trans [OF c e] by (simp add: reconcile_chunk_def Let_def)
qed

lemma process_imported_db [simp]: "sy_db (process_imported E j msgs x s) = sy_db s"
  "sy_server (process_imported E j msgs x s) = sy_server s" "sy_manager (process_imported E j msgs x s) = sy_manager s"
  by (simp_all add: process_imported_def Let_def split: prod.splits bool.splits option.splits)

lemma fold_process_imported_db [simp]:
  "sy_db (fold (process_imported E j msgs) xs s) = sy_db s"
  by (induction xs arbitrary: s) simp_all

lemma report_progress_db [simp]: "sy_db (report_progress acct n s) = sy_db s" "sy_server (report_progress acct n s) = sy_server s"
  by (simp_all add: report_progress_def publish_sync_status_def)

section \<open>The cycle\<close>

definition safe_state :: "'p sync_state \<Rightarrow> 'p sync_state \<Rightarrow> bool" where
  "safe_state s s' = safe (sy_db s) (sy_db s')"

lemma safe_state_refl [simp]: "safe_state s s"
  by (simp add: safe_state_def)

lemma safe_state_trans [trans]: "safe_state a b \<Longrightarrow> safe_state b c \<Longrightarrow> safe_state a c"
  unfolding safe_state_def by (rule safe_trans)

lemma safe_map_db: "(\<And>db. safe db (f db)) \<Longrightarrow> safe_state s (map_db f s)"
  by (simp add: safe_state_def map_db_def)

lemma safe_progress: "safe_state s (report_progress acct n s)"
  by (simp add: safe_state_def)

lemma safe_call:
  assumes "\<And>db p r db' p'. c (db, p) = (r, db', p') \<Longrightarrow> safe db db'" "call_backend c s = (r, s')"
  shows "safe_state s s'"
  using assms by (auto simp: call_backend_def safe_state_def split: prod.splits)

lemma safe_call_frame: "keeps_frame c \<Longrightarrow> call_backend c s = (r, s') \<Longrightarrow> safe_state s s'"
  by (rule safe_call) (auto dest: keeps_frameD intro: safe_backend)

context mail_backend
begin

text \<open>The chunk walk of the reconciliation is a chain of backend calls and row updates.\<close>

lemma reconcile_loop_rel:
  assumes refl: "\<And>x. R x x" and trans: "\<And>x y z. R x y \<Longrightarrow> R y z \<Longrightarrow> R x z"
    and frame: "\<And>x y. backend_frame x y \<Longrightarrow> R x y"
    and chunk: "\<And>x a b flags. R x (reconcile_chunk fid a b pend flags x)"
  shows "reconcile_loop B fid path pend up_to start (db, p) = (r, db', p') \<Longrightarrow> R db db'"
proof (induction "up_to + 1 - start" arbitrary: start db p rule: less_induct)
  case less
  show ?case
  proof (cases "start \<le> up_to \<and> up_to \<le> u32_max")
    case False
    with less.prems refl show ?thesis by (auto simp: reconcile_loop.simps [of B fid path pend up_to start])
  next
    case True
    let ?e = "min (saturating_add_u32 start (flag_chunk - 1)) up_to"
    note unfold = reconcile_loop_step [of start up_to ?e B fid path pend "(db, p)", OF conjunct1 [OF True] conjunct2 [OF True] HOL.refl]
    obtain ans db1 p1 where call: "fetch_flags B path (uid_range start ?e) (db, p) = (ans, db1, p1)"
      by (metis prod_cases3)
    have s1: "R db db1" using keeps_frameD [OF fetch_flags_frame call] by (rule frame)
    show ?thesis
    proof (cases ans)
      case (Inl e)
      with less.prems call s1 show ?thesis by (auto simp: unfold)
    next
      case (Inr flags)
      let ?db2 = "reconcile_chunk fid start ?e pend flags db1"
      have s2: "R db ?db2" using s1 chunk by (rule trans)
      show ?thesis
      proof (cases "up_to \<le> ?e")
        case True
        with less.prems call Inr s2 show ?thesis by (auto simp: unfold)
      next
        case False
        have less_e: "up_to + 1 - (?e + 1) < up_to + 1 - start"
          using True False by (auto simp: saturating_add_u32_def flag_chunk_def)
        have "reconcile_loop B fid path pend up_to (?e + 1) (?db2, p1) = (r, db', p')"
          using less.prems call Inr False by (simp add: unfold)
        then have "R ?db2 db'" using less.hyps [OF less_e] by blast
        with s2 show ?thesis by (rule trans)
      qed
    qed
  qed
qed

lemma safe_reconcile_loop:
  "reconcile_loop B fid path pend up_to start (db, p) = (r, db', p') \<Longrightarrow> safe db db'"
  by (rule reconcile_loop_rel [where R = safe, OF safe_refl safe_trans safe_backend safe_reconcile_chunk])

end

lemma safe_pending_change:
  assumes "messages db' = messages db" "folders db' = folders db" "next_id db \<le> next_id db'"
    "pending_ok db \<Longrightarrow> pending_ok db'"
  shows "safe db db'"
proof -
  have "counts_ok db' = counts_ok db" "uids_ok db' = uids_ok db"
    using assms(1,2) by (simp_all add: counts_ok_def folder_counts_ok_def count_live_def count_unread_def uids_ok_def)
  moreover have "ids_ok db \<Longrightarrow> ids_ok db'" using assms(1,3) by (auto simp: ids_ok_def)
  moreover have "fids_ok db \<Longrightarrow> fids_ok db'" using assms(1-3) by (auto simp: fids_ok_def)
  ultimately show ?thesis
    using assms by (simp add: safe_def db_ok_def old_rows_kept_def row_le_here)
qed

lemma safe_settle: "safe db (settle_op r res db)"
  by (rule safe_pending_change) (simp_all add: store_simps pending_ok_settle)

lemma safe_enqueue: "safe db (enqueue_flag_op acct uid path flag v db)"
  by (rule safe_pending_change) (simp_all add: store_simps pending_ok_enqueue, simp add: enqueue_flag_op_def)

lemma safe_purge: "safe_state s (purge_folder fid s)"
proof -
  have "safe db (db\<lparr>analysis := a\<rparr>)" for db a by (rule safe_same_rows) simp_all
  with safe_delete have "safe db ((db_delete P db)\<lparr>analysis := a\<rparr>)" for P db a by (rule safe_trans)
  then show ?thesis by (simp add: safe_state_def purge_folder_def Let_def)
qed

lemma safe_check_uidvalidity: "safe_state s (check_uidvalidity f v s)"
proof -
  have g: "safe_state s (map_db (update_folder i (\<lambda>g. g\<lparr>f_uidvalidity := x, f_last_uid := y\<rparr>)) s)"
    "safe_state s (map_db (update_folder i (\<lambda>g. g\<lparr>f_uidvalidity := x\<rparr>)) s)" for i x y and s :: "'a sync_state"
    by (rule safe_map_db, rule safe_update_folder, simp_all)+
  show ?thesis
    using safe_state_trans [OF safe_purge g(1)] g(2) by (simp add: check_uidvalidity_def split: option.split)
qed

lemma safe_new_folder:
  assumes "f_id f = next_id db" "f_live f = 0" "f_unread f = 0"
  shows "safe db (db\<lparr>folders := folders db @ [f], next_id := Suc (next_id db)\<rparr>)"
proof -
  let ?db = "db\<lparr>folders := folders db @ [f], next_id := Suc (next_id db)\<rparr>"
  have same: "count_live ?db i = count_live db i" "count_unread ?db i = count_unread db i" for i
    by (simp_all add: count_live_def count_unread_def)
  have "db_ok ?db" if ok: "db_ok db"
  proof -
    have none: "filter (is_live_in (next_id db)) (messages db) = []" "filter (is_unread_in (next_id db)) (messages db) = []"
      using ok by (auto simp: db_ok_def fids_ok_def filter_empty_conv is_live_in_def is_unread_in_def)
    have "counts_ok ?db"
      using ok none assms by (auto simp: db_ok_def counts_ok_def folder_counts_ok_def same) (simp_all add: count_live_def count_unread_def)
    moreover have "fids_ok ?db" using ok assms by (auto simp: db_ok_def fids_ok_def)
    moreover have "ids_ok ?db" "uids_ok ?db" "pending_ok ?db"
      using ok by (auto simp: db_ok_def ids_ok_def uids_ok_def pending_ok_def)
    ultimately show ?thesis by (simp add: db_ok_def)
  qed
  then show ?thesis by (simp add: safe_def old_rows_kept_def row_le_here)
qed

lemma safe_upsert_folder: "safe db (upsert_folder acct kind fi db)"
proof (cases "folder_at db acct (fi_path fi)")
  case None
  then show ?thesis by (simp add: upsert_folder_def safe_new_folder)
next
  case (Some f)
  then show ?thesis by (intro safe_same_rows) (simp_all add: upsert_folder_def)
qed

lemma safe_drop_stale: "safe db (drop_stale acct stale db)"
proof -
  have "counts_ok db \<Longrightarrow> counts_ok (drop_stale acct stale db)" "fids_ok db \<Longrightarrow> fids_ok (drop_stale acct stale db)"
    by (auto simp: counts_ok_def folder_counts_ok_def count_live_def count_unread_def fids_ok_def drop_stale_def)
  moreover have "uids_ok (drop_stale acct stale db) = uids_ok db" "ids_ok (drop_stale acct stale db) = ids_ok db"
    "pending_ok (drop_stale acct stale db) = pending_ok db"
    by (simp_all add: uids_ok_def ids_ok_def pending_ok_def drop_stale_def)
  ultimately show ?thesis
    by (simp add: safe_def db_ok_def old_rows_kept_def row_le_here) (simp add: drop_stale_def row_le_here)
qed

lemma safe_discover: "safe db (discover_folders acct kind infos db)"
  unfolding discover_folders_def Let_def
  by (rule safe_trans [OF safe_fold [OF safe_upsert_folder] safe_drop_stale])

lemma do_sync_db:
  "sy_db (do_sync clock acct run s) =
     (if ss_state (account_status (sy_manager s) acct) = ''reauth_required'' then sy_db s
      else sy_db (snd (run (publish_sync_status acct
        (s\<lparr>sy_manager := set_state acct ''syncing'' None None (sy_manager s)\<rparr>)))))"
  unfolding do_sync_def Let_def by (simp add: split_beta) (simp add: publish_sync_status_def)

lemma chunk_loop_step:
  assumes "start \<le> highest" "highest \<le> u32_max"
    "e = min (saturating_add_u32 start (uid_chunk (fj_kind j) - 1)) highest"
  shows "chunk_loop E j highest start cursor s =
    (case sync_chunk E j start e cursor s of
       (Inl err, s') \<Rightarrow> (Inl err, s')
     | (Inr cursor', s') \<Rightarrow> if highest \<le> e then (Inr (), s') else chunk_loop E j highest (e + 1) cursor' s')"
  using assms(1,2) unfolding assms(3)
  by (simp only: chunk_loop.simps [of _ _ _ start] Let_def simp_thms if_True)

locale sync_cycle = mail_backend "se_backend E" for E :: "'p sync_env"
begin

lemma safe_flush_ops: "flush_ops (se_backend E) rs (db, p) = (db', p') \<Longrightarrow> safe db db'"
proof (induction rs arbitrary: db p)
  case (Cons r rs)
  obtain res db1 p1 where call: "set_flag (se_backend E) (p_path r) (clamp_u32 (p_uid r)) (p_flag r) (p_value r) (db, p)
      = (res, db1, p1)" by (metis prod_cases3)
  have "safe db db1" using keeps_frameD [OF set_flag_frame call] by (rule safe_backend)
  also have "safe db1 (settle_op r res db1)" by (rule safe_settle)
  also have "safe (settle_op r res db1) db'" using Cons call by simp
  finally show ?case .
qed simp

lemma safe_flush: "safe_state s (flush_step E acct s)"
  using safe_flush_ops [of "pending_flag_ops acct (sy_db s)" "sy_db s" "sy_server s"]
  by (auto simp: flush_step_def flush_pending_flags_def safe_state_def split: prod.splits)

lemma sync_chunk_safe:
  assumes "fj_folder j < next_id (sy_db s)" "sync_chunk E j a b cursor s = (r, s')"
  shows "safe_state s s'"
proof -
  let ?c = "if fj_mode j = ''full'' then fetch_full (se_backend E) (fj_path j) (uid_range a b)
            else fetch_headers (se_backend E) (fj_path j) (uid_range a b)"
  obtain ans s1 where call: "call_backend ?c s = (ans, s1)" by fastforce
  have s1: "safe_state s s1"
    by (rule safe_call_frame [OF _ call]) (simp add: fetch_full_frame fetch_headers_frame)
  then have fid: "fj_folder j < next_id (sy_db s1)" using assms(1) by (simp add: safe_state_def safe_def)
  show ?thesis
  proof (cases ans)
    case (Inl e)
    with assms(2) call s1 show ?thesis by (simp add: sync_chunk_def)
  next
    case (Inr fetched)
    define msgs where "msgs = sort_key fm_uid fetched"
    obtain r2 db2 c2 where p: "persist_message_metadata_chunk E (fj_account j) (fj_folder j) (fj_path j) a b (fj_mode j)
        msgs (fj_existing j) (sy_db s1, sy_content s1) = (r2, db2, c2)" by (metis prod_cases3)
    have s2: "safe (sy_db s) db2"
      using s1 safe_persist [OF fid p] unfolding safe_state_def by (rule safe_trans)
    have "sy_db s' = db2 \<or> (\<exists>imported cursor'. sy_db s' = save_cursor (fj_folder j) cursor'
        (analyse_and_store_batch (se_phish E) (se_brands E) (se_feed E) (phishing_inputs msgs imported) db2))"
    proof (cases r2)
      case (Inl e)
      with assms(2) call Inr p show ?thesis by (auto simp: sync_chunk_def msgs_def Let_def)
    next
      case (Inr imported)
      let ?db4 = "analyse_and_store_batch (se_phish E) (se_brands E) (se_feed E) (phishing_inputs msgs imported) db2"
      have "sy_db s' = save_cursor (fj_folder j) (advance_cursor (fj_kind j) (fj_folder j) a b cursor ?db4) ?db4"
        using assms(2) call \<open>ans = Inr fetched\<close> p Inr
        by (auto simp: sync_chunk_def msgs_def [symmetric] Let_def map_db_def)
      then show ?thesis by blast
    qed
    then show ?thesis
      using s2 safe_trans [OF safe_trans [OF s2 safe_analyse] safe_save_cursor]
      unfolding safe_state_def by metis
  qed
qed

lemma chunk_loop_safe:
  "fj_folder j < next_id (sy_db s) \<Longrightarrow> chunk_loop E j highest start cursor s = (r, s') \<Longrightarrow> safe_state s s'"
proof (induction "highest + 1 - start" arbitrary: start cursor s rule: less_induct)
  case less
  show ?case
  proof (cases "start \<le> highest \<and> highest \<le> u32_max")
    case False
    with less.prems show ?thesis by (auto simp: chunk_loop.simps [of E j highest start])
  next
    case True
    obtain e where e: "e = min (saturating_add_u32 start (uid_chunk (fj_kind j) - 1)) highest" by blast
    note unfold = chunk_loop_step [OF conjunct1 [OF True] conjunct2 [OF True] e]
    obtain ans s1 where c: "sync_chunk E j start e cursor s = (ans, s1)" by fastforce
    have s1: "safe_state s s1" using less.prems(1) c by (rule sync_chunk_safe)
    show ?thesis
    proof (cases ans)
      case (Inl err)
      with less.prems(2) c s1 show ?thesis by (simp add: unfold)
    next
      case (Inr cursor')
      show ?thesis
      proof (cases "highest \<le> e")
        case True
        with less.prems(2) c Inr s1 show ?thesis by (simp add: unfold)
      next
        case False
        have "highest + 1 - (e + 1) < highest + 1 - start"
          using False True e by (auto simp: saturating_add_u32_def uid_chunk_def)
        moreover have "fj_folder j < next_id (sy_db s1)"
          using s1 less.prems(1) by (simp add: safe_state_def safe_def)
        moreover have "chunk_loop E j highest (e + 1) cursor' s1 = (r, s')"
          using less.prems(2) c Inr False by (simp add: unfold)
        ultimately have "safe_state s1 s'" by (rule less.hyps)
        with s1 show ?thesis by (rule safe_state_trans)
      qed
    qed
  qed
qed

lemma reconcile_safe:
  "call_backend (reconcile_flags (se_backend E) acct fid path up_to) s = (r, s') \<Longrightarrow> safe_state s s'"
  by (rule safe_call) (auto simp: reconcile_flags_def dest: safe_reconcile_loop)

lemma job_folder [simp]: "fj_folder (job_of acct f path mode kind whole db) = f_id f"
  by (simp add: job_of_def)

lemma sync_folder_from_safe:
  assumes "f_id f < next_id (sy_db s)" "sync_folder_from E acct f path mode kind whole s = (r, s')"
  shows "safe_state s s'"
proof -
  let ?prev = "prev_last_uid f"
  obtain r1 s1 where one: "(if 0 < ?prev then call_backend (reconcile_flags (se_backend E) acct (f_id f) path ?prev) s
      else (Inr (), s)) = (r1, s1)" by fastforce
  have s1: "safe_state s s1" using one reconcile_safe by (auto split: if_splits)
  obtain r2 s2 where two: "call_backend (highest_uid (se_backend E) path) s1 = (r2, s2)" by fastforce
  have s2: "safe_state s s2" using s1 safe_call_frame [OF highest_uid_frame two] by (rule safe_state_trans)
  have fid: "f_id f < next_id (sy_db s2)" using s2 assms(1) by (simp add: safe_state_def safe_def)
  have unread: "safe_state s (map_db (update_unread_count (f_id f)) s2)"
    using s2 safe_map_db [OF safe_unread] by (rule safe_state_trans)
  show ?thesis
  proof (cases r1)
    case (Inl e)
    with assms(2) one s1 show ?thesis by (simp add: sync_folder_from_def)
  next
    case r1: (Inr u)
    note body = assms(2) [unfolded sync_folder_from_def Let_def one r1 prod.case sum.case two]
    show ?thesis
    proof (cases r2)
      case (Inl e)
      with body s2 show ?thesis by simp
    next
      case (Inr h)
      show ?thesis
      proof (cases h)
        case None
        with body Inr unread show ?thesis by simp
      next
        case (Some highest)
        show ?thesis
        proof (cases "wrapping_add_u32 ?prev 1 \<le> highest")
          case True
          then have "safe_state s2 s'"
            using body Inr Some chunk_loop_safe [of "job_of acct f path mode kind whole (sy_db s2)" s2] fid by simp
          with s2 show ?thesis by (rule safe_state_trans)
        next
          case False
          with body Inr Some unread show ?thesis by simp
        qed
      qed
    qed
  qed
qed

lemma folder_at_in: "folder_at db acct path = Some f \<Longrightarrow> f \<in> set (folders db)"
  by (auto simp: folder_at_def find_Some_iff)

lemma sync_folder_safe:
  assumes "fids_ok (sy_db s)" "sync_folder E acct path mode kind whole s = (r, s')"
  shows "safe_state s s'"
proof (cases "folder_at (sy_db s) acct path")
  case None
  with assms(2) show ?thesis by (simp add: sync_folder_def)
next
  case (Some f)
  then have f: "f_id f < next_id (sy_db s)" using assms(1) folder_at_in by (simp add: fids_ok_def)
  obtain r1 s1 where one: "call_backend (folder_status (se_backend E) path) s = (r1, s1)" by fastforce
  have s1: "safe_state s s1" by (rule safe_call_frame [OF folder_status_frame one])
  show ?thesis
  proof (cases r1)
    case (Inl e)
    with assms(2) Some one s1 show ?thesis by (simp add: sync_folder_def)
  next
    case (Inr st)
    let ?s2 = "check_uidvalidity f (st_uidvalidity st) s1"
    have s2: "safe_state s ?s2" using s1 safe_check_uidvalidity by (rule safe_state_trans)
    then have "f_id f < next_id (sy_db ?s2)" using f by (simp add: safe_state_def safe_def)
    moreover have "sync_folder_from E acct f path mode kind whole ?s2 = (r, s')"
      using assms(2) Some one Inr by (simp add: sync_folder_def)
    ultimately have "safe_state ?s2 s'" by (rule sync_folder_from_safe)
    with s2 show ?thesis by (rule safe_state_trans)
  qed
qed

lemma total_loop_safe: "total_loop E kind fis whole s = (r, s') \<Longrightarrow> safe_state s s'"
proof (induction fis arbitrary: whole s)
  case (Cons fi fis)
  obtain r1 s1 where one: "call_backend (folder_status (se_backend E) (fi_path fi)) s = (r1, s1)" by fastforce
  have s1: "safe_state s s1" by (rule safe_call_frame [OF folder_status_frame one])
  have "safe_state s1 s'"
    using Cons one by (auto split: sum.splits option.splits)
  with s1 show ?case by (rule safe_state_trans)
qed simp

text \<open>A folder that fails does not stop the others: the invariant carries the whole list.\<close>

lemma folder_loop_safe:
  "db_ok (sy_db s) \<Longrightarrow> folder_loop E acct mode kind whole fis s = (r, s') \<Longrightarrow> safe_state s s'"
proof (induction fis arbitrary: s)
  case (Cons fi fis)
  obtain r1 s1 where one: "sync_folder E acct (fi_path fi) mode kind whole s = (r1, s1)" by fastforce
  have s1: "safe_state s s1" using Cons.prems(1) one by (intro sync_folder_safe) (auto simp: db_ok_def)
  then have ok: "db_ok (sy_db s1)" using Cons.prems(1) by (simp add: safe_state_def safe_def)
  have "safe_state s1 s'"
    using Cons.IH [OF ok] Cons.prems(2) one by (auto split: sum.splits option.splits)
  with s1 show ?case by (rule safe_state_trans)
qed simp

lemma sync_account_safe:
  assumes "db_ok (sy_db s)" "sync_account E acct s = (r, s')"
  shows "safe_state s s'"
proof (cases "account_of (sy_db s) acct")
  case None
  with assms(2) show ?thesis by (simp add: sync_account_def)
next
  case (Some a)
  let ?kind = "parse_kind (a_provider_kind a)"
  show ?thesis
  proof (cases "open_provider E acct (sy_db s)")
    case (Inl e)
    with assms(2) Some show ?thesis by (simp add: sync_account_def Let_def)
  next
    case op: (Inr u)
    obtain r1 s1 where one: "call_backend (list_folders (se_backend E)) (flush_step E acct s) = (r1, s1)" by fastforce
    have s1: "safe_state s s1"
      using safe_flush safe_call_frame [OF list_folders_frame one] by (rule safe_state_trans)
    note body = assms(2) [unfolded sync_account_def Let_def Some option.case op sum.case one prod.case]
    show ?thesis
    proof (cases r1)
      case (Inl e)
      with body s1 show ?thesis by (simp del: parse_kind.simps)
    next
      case (Inr infos)
      let ?s2 = "map_db (discover_folders acct ?kind infos) s1"
      let ?fis = "synced_folders acct infos (sy_db ?s2)"
      have s2: "safe_state s ?s2" using s1 safe_map_db [OF safe_discover] by (rule safe_state_trans)
      obtain r3 s3 where three: "total_loop E ?kind ?fis 0 ?s2 = (r3, s3)" by fastforce
      have s3: "safe_state s s3" using s2 total_loop_safe [OF three] by (rule safe_state_trans)
      note body = body [unfolded Inr sum.case three prod.case]
      show ?thesis
      proof (cases r3)
        case (Inl e)
        with body s3 show ?thesis by (simp del: parse_kind.simps)
      next
        case (Inr whole)
        let ?s4 = "report_progress acct whole s3"
        have s4: "safe_state s ?s4" using s3 safe_progress by (rule safe_state_trans)
        then have "db_ok (sy_db ?s4)" using assms(1) by (simp add: safe_state_def safe_def)
        moreover have "folder_loop E acct (a_body_sync_mode a) ?kind whole ?fis ?s4 = (r, s')"
          using body Inr by (simp del: parse_kind.simps)
        ultimately have "safe_state ?s4 s'" by (rule folder_loop_safe)
        with s4 show ?thesis by (rule safe_state_trans)
      qed
    qed
  qed
qed

lemma do_sync_safe:
  assumes "db_ok (sy_db s)"
  shows "safe_state s (do_sync clock acct (timed_sync E acct) s)"
proof -
  let ?s1 = "publish_sync_status acct (s\<lparr>sy_manager := set_state acct ''syncing'' None None (sy_manager s)\<rparr>)"
  have db: "sy_db ?s1 = sy_db s" by (simp add: publish_sync_status_def)
  obtain r s2 where run: "sync_account E acct ?s1 = (r, s2)" by fastforce
  have "safe_state ?s1 s2" using assms db by (intro sync_account_safe [OF _ run]) simp
  then have "safe (sy_db s) (sy_db s2)" using db by (simp add: safe_state_def)
  then show ?thesis
    unfolding safe_state_def do_sync_db timed_sync_def run by simp
qed

lemma handle_command_safe:
  assumes "db_ok (sy_db s)" "handle_command E acct cmd s = Some s'"
  shows "safe_state s s'"
proof -
  have wp: "safe_state s (snd (with_provider E acct k s))" if "\<And>r t. k s = (r, t) \<Longrightarrow> safe_state s t" for k
    using that by (cases "k s") (simp add: with_provider_def split: sum.split)
  show ?thesis
  proof (cases cmd)
    case (IMapMove user uid src dest e)
    have "safe_state s (snd (do_imap_move E acct uid src dest s))"
      unfolding do_imap_move_def by (rule wp) (rule safe_call_frame [OF move_frame])
    with IMapMove assms(2) show ?thesis by simp
  next
    case (FlushFlags user)
    have "safe_state s (snd (do_flush_pending_flags E acct s))"
      using wp [of "\<lambda>s. (Inr (), flush_step E acct s)"] safe_flush by (simp add: do_flush_pending_flags_def)
    with FlushFlags assms(2) show ?thesis by simp
  next
    case (IMapExpunge user uid folder)
    have "safe_state s (snd (do_imap_expunge E acct uid folder s))"
      unfolding do_imap_expunge_def by (rule wp) (rule safe_call_frame [OF delete_frame])
    with IMapExpunge assms(2) show ?thesis by simp
  qed (use assms do_sync_safe in auto)
qed

end

interpretation ol_cycle: sync_cycle "E\<lparr>se_backend := outlook_backend o'\<rparr>" for E o'
  unfolding sync_cycle_def by (simp add: mail_backend_outlook)

end
