(* ===== verification/Sync_Facts.thy ===== *)
theory Sync_Facts
  imports Sync_Invariants
begin

text \<open>
  What a sync cycle computes: the windows of the chunk walk, the cursor, the rows of an imported
  chunk, the notifications, folder discovery, and the status of the account.
\<close>

section \<open>The windows of the walk\<close>

function windows :: "nat \<Rightarrow> nat \<Rightarrow> nat \<Rightarrow> (nat \<times> nat) list" where
  "windows len highest start =
     (if 0 < len \<and> start \<le> highest \<and> highest \<le> u32_max
      then (let e = min (saturating_add_u32 start (len - 1)) highest
            in (start, e) # (if highest \<le> e then [] else windows len highest (e + 1)))
      else [])"
  by pat_completeness auto
termination
  by (relation "measure (\<lambda>(len, highest, start). highest + 1 - start)") (auto simp: saturating_add_u32_def)

declare windows.simps [simp del]

fun run_windows ::
  "'p sync_env \<Rightarrow> folder_job \<Rightarrow> (nat \<times> nat) list \<Rightarrow> int \<Rightarrow> 'p sync_state \<Rightarrow> (sync_error + unit) \<times> 'p sync_state"
where
  "run_windows E j [] cursor s = (Inr (), s)"
| "run_windows E j ((a, b) # ws) cursor s =
     (case sync_chunk E j a b cursor s of
        (Inl e, s') \<Rightarrow> (Inl e, s')
      | (Inr cursor', s') \<Rightarrow> run_windows E j ws cursor' s')"

lemma uid_chunk_pos: "0 < uid_chunk k"
  by (simp add: uid_chunk_def)

lemma windows_step:
  assumes "start \<le> highest" "highest \<le> u32_max" "0 < len" "e = min (saturating_add_u32 start (len - 1)) highest"
  shows "windows len highest start = (start, e) # (if highest \<le> e then [] else windows len highest (e + 1))"
  using assms(1-3) unfolding assms(4) by (simp only: windows.simps [of len highest start] Let_def simp_thms if_True)

lemma windows_done: "\<not> (start \<le> highest \<and> highest \<le> u32_max) \<Longrightarrow> windows len highest start = []"
  by (subst windows.simps) auto

lemma window_end:
  assumes "start \<le> highest" "highest \<le> u32_max" "0 < len" "e = min (saturating_add_u32 start (len - 1)) highest"
  shows "start \<le> e" "e \<le> highest" "e < start + len"
  using assms by (auto simp: saturating_add_u32_def)

lemma chunk_loop_windows:
  "chunk_loop E j highest start cursor s = run_windows E j (windows (uid_chunk (fj_kind j)) highest start) cursor s"
proof (induction "highest + 1 - start" arbitrary: start cursor s rule: less_induct)
  case less
  show ?case
  proof (cases "start \<le> highest \<and> highest \<le> u32_max")
    case False
    then show ?thesis by (auto simp: chunk_loop.simps [of E j highest start] windows_done)
  next
    case True
    then have g: "start \<le> highest" "highest \<le> u32_max" by auto
    obtain e where e: "e = min (saturating_add_u32 start (uid_chunk (fj_kind j) - 1)) highest" by blast
    note bounds = window_end [OF g uid_chunk_pos e]
    have rec: "chunk_loop E j highest (e + 1) cursor' s' = run_windows E j (windows (uid_chunk (fj_kind j)) highest (e + 1)) cursor' s'"
      if "\<not> highest \<le> e" for cursor' s'
      by (rule less.hyps) (use that bounds in simp)
    show ?thesis
      unfolding chunk_loop_step [OF g e] windows_step [OF g uid_chunk_pos e] using rec
      by (simp split: prod.split sum.split)
  qed
qed

text \<open>The windows tile the range: no uid is skipped, none is fetched twice, none is too long.\<close>

lemma windows_tile:
  assumes "0 < len" "highest \<le> u32_max"
  shows "concat (map (\<lambda>(a, b). [a..<Suc b]) (windows len highest start)) = [start..<Suc highest]"
proof (induction "highest + 1 - start" arbitrary: start rule: less_induct)
  case less
  show ?case
  proof (cases "start \<le> highest")
    case False
    then show ?thesis by (simp add: windows_done)
  next
    case True
    obtain e where e: "e = min (saturating_add_u32 start (len - 1)) highest" by blast
    note bounds = window_end [OF True assms(2,1) e]
    note unfold = windows_step [OF True assms(2,1) e]
    show ?thesis
    proof (cases "highest \<le> e")
      case True
      with bounds have "e = highest" by simp
      then show ?thesis by (simp add: unfold)
    next
      case False
      then have "concat (map (\<lambda>(a, b). [a..<Suc b]) (windows len highest (e + 1))) = [e + 1..<Suc highest]"
        using less.hyps [of "e + 1"] bounds by simp
      moreover have "[start..<Suc e] @ [Suc e..<Suc highest] = [start..<Suc highest]"
        using upt_add_eq_append [of start "Suc e" "highest - e"] bounds by simp
      ultimately show ?thesis using False unfolding unfold by simp
    qed
  qed
qed

lemma windows_len:
  "(a, b) \<in> set (windows len highest start) \<Longrightarrow> a \<le> b \<and> b < a + len \<and> start \<le> a \<and> b \<le> highest"
proof (induction "highest + 1 - start" arbitrary: start rule: less_induct)
  case less
  have g: "start \<le> highest" "highest \<le> u32_max" "0 < len"
    using less.prems by (auto simp: windows.simps [of len highest start] split: if_splits)
  obtain e where e: "e = min (saturating_add_u32 start (len - 1)) highest" by blast
  note bounds = window_end [OF g e]
  have "(a, b) = (start, e) \<or> (\<not> highest \<le> e \<and> (a, b) \<in> set (windows len highest (e + 1)))"
    using less.prems unfolding windows_step [OF g e] by (auto split: if_splits)
  then show ?case
  proof
    assume "(a, b) = (start, e)"
    with bounds show ?thesis by simp
  next
    assume *: "\<not> highest \<le> e \<and> (a, b) \<in> set (windows len highest (e + 1))"
    then have "highest + 1 - (e + 1) < highest + 1 - start" using bounds by simp
    from less.hyps [OF this] * bounds show ?thesis by auto
  qed
qed

lemma windows_last:
  assumes "highest \<le> u32_max" "0 < len"
  shows "start \<le> highest \<Longrightarrow> windows len highest start \<noteq> [] \<and> snd (last (windows len highest start)) = highest"
proof (induction "highest + 1 - start" arbitrary: start rule: less_induct)
  case less
  obtain e where e: "e = min (saturating_add_u32 start (len - 1)) highest" by blast
  note bounds = window_end [OF less.prems assms e]
  note unfold = windows_step [OF less.prems assms e]
  show ?case
  proof (cases "highest \<le> e")
    case True
    with bounds show ?thesis by (simp add: unfold)
  next
    case False
    then have "windows len highest (e + 1) \<noteq> [] \<and> snd (last (windows len highest (e + 1))) = highest"
      using less.hyps [of "e + 1"] bounds by simp
    with False show ?thesis by (simp add: unfold)
  qed
qed

section \<open>The cursor\<close>

text \<open>The contiguous rule advances over uids that are present, one by one, and stops at a gap.\<close>

lemma contiguous_uid_spec:
  assumes "sorted uids"
  shows "next \<le> contiguous_uid next uids" and "\<forall>u. next < u \<and> u \<le> contiguous_uid next uids \<longrightarrow> u \<in> set uids"
    and "contiguous_uid next uids + 1 \<notin> set uids"
proof -
  have "next \<le> contiguous_uid next uids \<and> (\<forall>u. next < u \<and> u \<le> contiguous_uid next uids \<longrightarrow> u \<in> set uids)
      \<and> contiguous_uid next uids + 1 \<notin> set uids"
    using assms
  proof (induction "next" uids rule: contiguous_uid.induct)
    case (2 "next" uid uids)
    consider "uid \<le> next" | "uid = next + 1" | "next + 1 < uid" by linarith
    then show ?case
    proof cases
      case 1
      with 2 show ?thesis by fastforce
    next
      case 2
      then have eq: "contiguous_uid next (uid # uids) = contiguous_uid uid uids" by simp
      have IH: "uid \<le> contiguous_uid uid uids" "\<forall>u. uid < u \<and> u \<le> contiguous_uid uid uids \<longrightarrow> u \<in> set uids"
        "contiguous_uid uid uids + 1 \<notin> set uids"
        using "2.IH"(2) "2.prems" 2 by auto
      have "u \<in> set (uid # uids)" if "next < u" "u \<le> contiguous_uid uid uids" for u
        using that IH(2) 2 by (cases "u = uid") auto
      then show ?thesis using IH(1,3) 2 unfolding eq by auto
    next
      case 3
      with "2.prems" show ?thesis by fastforce
    qed
  qed simp
  then show "next \<le> contiguous_uid next uids" and "\<forall>u. next < u \<and> u \<le> contiguous_uid next uids \<longrightarrow> u \<in> set uids"
    and "contiguous_uid next uids + 1 \<notin> set uids" by blast+
qed

lemma advance_cursor_api:
  assumes "\<not> syncs_over_imap kind"
  shows "cursor \<le> advance_cursor kind fid a b cursor db"
    and "cursor < u \<Longrightarrow> u \<le> advance_cursor kind fid a b cursor db \<Longrightarrow>
      \<exists>m \<in> set (messages db). m_folder m = fid \<and> m_uid m = u"
  using assms contiguous_uid_spec(1,2) [of "sort (map m_uid (filter (in_range fid a b) (messages db)))" cursor]
  by (auto simp: advance_cursor_def in_range_def)

lemma save_cursor_value:
  assumes "f \<in> set (folders (save_cursor fid cursor db))" "f_id f = fid"
  shows "f_last_uid f = Some cursor \<and> f_unread f = count_unread db fid"
proof -
  let ?g = "\<lambda>f. if f_last_uid f \<noteq> Some cursor \<or> f_unread f \<noteq> count_unread db fid
    then f\<lparr>f_last_uid := Some cursor, f_unread := count_unread db fid\<rparr> else f"
  have "f \<in> (\<lambda>x. if f_id x = fid then ?g x else x) ` set (folders db)"
    using assms(1) unfolding save_cursor_def update_folder_def by simp
  then obtain x where x: "f = (if f_id x = fid then ?g x else x)" by blast
  moreover have "f_id (?g x) = f_id x" by simp
  ultimately have "f_id x = fid" using assms(2) by (metis (no_types))
  with x have "f = ?g x" by simp
  then show ?thesis by simp
qed

section \<open>Which uids a folder holds\<close>

definition fkeys :: "nat \<Rightarrow> mail_db \<Rightarrow> int set" where
  "fkeys fid db = m_uid ` set (filter (\<lambda>m. m_folder m = fid) (messages db))"

definition same_keys :: "mail_db \<Rightarrow> mail_db \<Rightarrow> bool" where
  "same_keys db db' = (map (\<lambda>m. (m_folder m, m_uid m)) (messages db') = map (\<lambda>m. (m_folder m, m_uid m)) (messages db))"

lemma same_keys_refl [simp]: "same_keys db db"
  by (simp add: same_keys_def)

lemma same_keys_trans: "same_keys a b \<Longrightarrow> same_keys b c \<Longrightarrow> same_keys a c"
  by (simp add: same_keys_def)

lemma fkeys_alt: "fkeys fid db = snd ` {k \<in> set (map (\<lambda>m. (m_folder m, m_uid m)) (messages db)). fst k = fid}"
  by (force simp: fkeys_def)

lemma same_keys_fkeys: "same_keys db db' \<Longrightarrow> fkeys fid db' = fkeys fid db"
  by (simp only: fkeys_alt same_keys_def)

lemma same_keys_update:
  assumes "\<And>m. P m \<Longrightarrow> m_folder (g m) = m_folder m \<and> m_uid (g m) = m_uid m"
  shows "same_keys db (db_update P g db)"
  using assms by (simp add: same_keys_def store_simps)

lemma same_keys_messages: "messages db' = messages db \<Longrightarrow> same_keys db db'"
  by (simp add: same_keys_def)

lemma same_keys_fold: "(\<And>x db. same_keys db (f x db)) \<Longrightarrow> same_keys db (fold f xs db)"
  by (induction xs arbitrary: db) (auto intro: same_keys_trans)

lemma same_keys_reconcile_chunk: "same_keys db (reconcile_chunk fid a b pend flags db)"
proof -
  have "same_keys db (apply_changed fid changed db)" for changed db
    unfolding apply_changed_def
    by (rule same_keys_fold) (rule same_keys_update, simp add: set_flags_row_def)
  moreover have "same_keys db (apply_expunged fid uids db)" for uids db
    unfolding apply_expunged_def by (rule same_keys_fold) (rule same_keys_update, simp)
  ultimately show ?thesis using same_keys_trans by (simp add: reconcile_chunk_def Let_def) blast
qed

lemma same_keys_reapply: "same_keys db (reapply_pending_flags acct fid path a b db)"
proof -
  have "same_keys db (restore_flag f flag acct fid path a b db)"
    if "\<And>v m. m_folder (f v m) = m_folder m \<and> m_uid (f v m) = m_uid m" for f flag db
    unfolding restore_flag_def using that by (intro same_keys_update) (auto split: option.split)
  then have "same_keys db (restore_flag (\<lambda>v m. m\<lparr>m_read := v\<rparr>) ''seen'' acct fid path a b db)"
    "same_keys db' (restore_flag (\<lambda>v m. m\<lparr>m_flagged := v\<rparr>) ''flagged'' acct fid path a b db')" for db'
    by simp_all
  then show ?thesis unfolding reapply_pending_flags_def using same_keys_trans by blast
qed

lemma same_keys_analyse: "same_keys db (analyse_and_store_batch P brands feed msgs db)"
  unfolding analyse_and_store_batch_def Let_def
proof (rule same_keys_fold)
  fix x :: "nat \<times> report" and db
  obtain mid rep where "x = (mid, rep)" by fastforce
  then show "same_keys db (store_report P x db)" by (simp add: same_keys_def store_report_messages)
qed

lemma same_keys_folder [simp]:
  "same_keys db (update_folder fid g db)" "same_keys db (save_cursor fid cursor db)" "same_keys db (update_unread_count fid db)"
  by (simp_all add: same_keys_def save_cursor_def update_unread_count_def write_unread_def store_simps split: option.split)

lemma fkeys_upsert:
  assumes "upsert_message new db = (mid, db')"
  shows "fkeys fid db' = (if m_folder new = fid then insert (m_uid new) (fkeys fid db) else fkeys fid db)"
proof (cases "find (same_uid new) (messages db)")
  case None
  then have "db' = db_insert new db" using assms by (simp add: upsert_message_def)
  then show ?thesis by (auto simp: fkeys_def store_simps)
next
  case (Some m)
  then have db': "db' = db_update (same_uid new) (overwrite_row new) db"
    using assms by (simp_all add: upsert_message_def)
  have m: "m \<in> set (messages db)" "m_folder m = m_folder new" "m_uid m = m_uid new"
    using find_Some_in [OF Some] by (simp_all add: same_uid_def)
  have "same_keys db db'" unfolding db' by (rule same_keys_update) (simp add: overwrite_row_def)
  then have "fkeys fid db' = fkeys fid db" by (rule same_keys_fkeys)
  moreover have "m_folder new = fid \<Longrightarrow> m_uid new \<in> fkeys fid db" unfolding fkeys_def using m by (intro image_eqI [where x = m]) auto
  ultimately show ?thesis by auto
qed

lemma fkeys_persist_batch:
  assumes "fold (persist_one E acct fid mode ex known) b (db, c, out) = (db', c', out')"
  shows "fkeys fid db' = fkeys fid db \<union> (\<lambda>x. int (fm_uid (snd x))) ` set b"
  using assms
proof (induction b arbitrary: db c out)
  case (Cons im b)
  obtain db1 c1 out1 where one: "persist_one E acct fid mode ex known im (db, c, out) = (db1, c1, out1)"
    by (metis prod_cases3)
  have "fkeys fid db1 = insert (int (fm_uid (snd im))) (fkeys fid db)"
    using one fkeys_upsert [of "prepared_row E acct fid ex (snd im)" db _ _ fid]
    by (auto simp: persist_one_def split: prod.splits)
  with Cons.IH Cons.prems one show ?case by auto
qed simp

lemma fkeys_persist_batches:
  assumes "persist_batches E acct fid path mode ex known bs (db, c, out) = (r, db', c', out')"
  shows "fkeys fid db' \<subseteq> fkeys fid db \<union> (\<lambda>x. int (fm_uid (snd x))) ` set (concat bs)"
    and "r = Inr u \<Longrightarrow> fkeys fid db' = fkeys fid db \<union> (\<lambda>x. int (fm_uid (snd x))) ` set (concat bs)"
proof -
  have "fkeys fid db' \<subseteq> fkeys fid db \<union> (\<lambda>x. int (fm_uid (snd x))) ` set (concat bs)
    \<and> (r = Inr u \<longrightarrow> fkeys fid db' = fkeys fid db \<union> (\<lambda>x. int (fm_uid (snd x))) ` set (concat bs))"
    using assms
  proof (induction bs arbitrary: db c out)
    case (Cons b bs)
    obtain db1 c1 out1 where b: "fold (persist_one E acct fid mode ex known) b (db, c, out) = (db1, c1, out1)"
      by (metis prod_cases3)
    show ?case
    proof (cases "upsert_all (remote_mappings acct path (map snd b)) db1")
      case None
      with Cons.prems b show ?thesis by auto
    next
      case (Some db2)
      then have "fkeys fid db2 = fkeys fid db1" using upsert_all_frame by (simp add: fkeys_def)
      moreover have "persist_batches E acct fid path mode ex known bs (db2, c1, out1) = (r, db', c', out')"
        using Cons.prems b Some by simp
      note Cons.IH [OF this]
      ultimately show ?thesis using fkeys_persist_batch [OF b] by (auto simp: image_Un)
    qed
  qed simp
  then show "fkeys fid db' \<subseteq> fkeys fid db \<union> (\<lambda>x. int (fm_uid (snd x))) ` set (concat bs)"
    and "r = Inr u \<Longrightarrow> fkeys fid db' = fkeys fid db \<union> (\<lambda>x. int (fm_uid (snd x))) ` set (concat bs)"
    by blast+
qed

lemma fkeys_persist:
  assumes "persist_message_metadata_chunk E acct fid path a b mode msgs ex (db, c) = (r, db', c')"
  shows "fkeys fid db' \<subseteq> fkeys fid db \<union> int ` fm_uid ` set msgs"
    and "r = Inr out \<Longrightarrow> fkeys fid db' = fkeys fid db \<union> int ` fm_uid ` set msgs"
proof -
  obtain r1 db1 c1 out1 where p: "persist_batches E acct fid path mode ex
      (m_uid ` set (filter (in_range fid a b) (messages db))) (chunks write_batch_size (enumerate 0 msgs)) (db, c, [])
      = (r1, db1, c1, out1)" by (metis prod_cases4)
  have "(\<lambda>x. int (fm_uid (snd x))) ` set (concat (chunks write_batch_size (enumerate 0 msgs)))
      = int ` fm_uid ` snd ` set (enumerate 0 msgs)"
    by (simp add: concat_chunks write_batch_size_def image_comp comp_def)
  also have "snd ` set (enumerate 0 msgs) = set msgs" by (metis list.set_map map_snd_enumerate)
  finally have uids: "(\<lambda>x. int (fm_uid (snd x))) ` set (concat (chunks write_batch_size (enumerate 0 msgs)))
      = int ` fm_uid ` set msgs" .
  note keys = fkeys_persist_batches [OF p, unfolded uids]
  have "fkeys fid (reapply_pending_flags acct fid path a b db1) = fkeys fid db1"
    by (rule same_keys_fkeys [OF same_keys_reapply])
  then have db': "fkeys fid db' = fkeys fid db1" "(\<exists>e. r = Inl e) \<or> (\<exists>u. r1 = Inr u)"
    using assms p by (auto simp: persist_message_metadata_chunk_def Let_def split: sum.splits)
  show "fkeys fid db' \<subseteq> fkeys fid db \<union> int ` fm_uid ` set msgs" using db' keys(1) by simp
  show "fkeys fid db' = fkeys fid db \<union> int ` fm_uid ` set msgs" if "r = Inr out"
    using db' keys(2) that by auto
qed

section \<open>Pending flags survive an import\<close>

lemma persist_pending:
  assumes "persist_message_metadata_chunk E acct fid path a b mode msgs ex (db, c) = (r, db', c')"
  shows "pending db' = pending db"
proof -
  have one: "pending (snd (upsert_message new d)) = pending d" for new d
    by (simp add: upsert_message_def store_simps split: option.split)
  have batch: "pending (fst (fold (persist_one E acct fid mode ex known) b' s)) = pending (fst s)" for known b' s
  proof (induction b' arbitrary: s)
    case (Cons im b')
    have "pending (fst (persist_one E acct fid mode ex known im s)) = pending (fst s)"
      using one by (cases s; cases im) (auto simp: persist_one_def split: prod.splits, metis snd_conv)
    with Cons show ?case by simp
  qed simp
  have batches: "pending (fst (snd (persist_batches E acct fid path mode ex known bs s))) = pending (fst s)" for known bs s
  proof (induction bs arbitrary: s)
    case (Cons b' bs)
    obtain db1 c1 out1 where f: "fold (persist_one E acct fid mode ex known) b' s = (db1, c1, out1)"
      by (metis prod_cases3)
    have "pending db1 = pending (fst s)" using batch [of known b' s] f by simp
    with f show ?case
      by (cases s) (auto simp: Cons.IH dest!: upsert_all_frame split: option.split)
  qed simp
  obtain r1 db1 c1 out1 where p: "persist_batches E acct fid path mode ex
      (m_uid ` set (filter (in_range fid a b) (messages db))) (chunks write_batch_size (enumerate 0 msgs)) (db, c, [])
      = (r1, db1, c1, out1)" by (metis prod_cases4)
  have "pending db1 = pending db" using batches [of "m_uid ` set (filter (in_range fid a b) (messages db))"
      "chunks write_batch_size (enumerate 0 msgs)" "(db, c, [])"] p by simp
  then show ?thesis
    using assms p by (auto simp: persist_message_metadata_chunk_def reapply_pending_flags_def restore_flag_def
        Let_def store_simps split: sum.splits)
qed

lemma pending_value_same: "pending db' = pending db \<Longrightarrow> pending_value db' = pending_value db"
  by (simp add: pending_value_def fun_eq_iff)

lemma reapply_rows:
  assumes "m' \<in> set (messages (reapply_pending_flags acct fid path a b db))" "in_range fid a b m'"
  shows "pending_value db acct path (m_uid m') ''seen'' = Some v \<Longrightarrow> m_read m' = v"
    and "pending_value db acct path (m_uid m') ''flagged'' = Some v \<Longrightarrow> m_flagged m' = v"
proof -
  let ?d1 = "restore_flag (\<lambda>v m. m\<lparr>m_read := v\<rparr>) ''seen'' acct fid path a b db"
  have pv: "pending_value ?d1 = pending_value db"
    by (rule pending_value_same) (simp add: restore_flag_def store_simps)
  have rg: "in_range fid a b (m\<lparr>m_read := v\<rparr>) = in_range fid a b m"
    "in_range fid a b (m\<lparr>m_flagged := v\<rparr>) = in_range fid a b m" for m v by (simp_all add: in_range_def)
  have rows: "messages (reapply_pending_flags acct fid path a b db) =
    map (\<lambda>m. let m1 = (case pending_value db acct path (m_uid m) ''seen'' of
                   Some v \<Rightarrow> if in_range fid a b m then m\<lparr>m_read := v\<rparr> else m | None \<Rightarrow> m)
             in case pending_value db acct path (m_uid m) ''flagged'' of
                   Some v \<Rightarrow> if in_range fid a b m then m1\<lparr>m_flagged := v\<rparr> else m1 | None \<Rightarrow> m1) (messages db)"
    unfolding reapply_pending_flags_def restore_flag_def [of _ "''flagged''"] store_simps pv
    unfolding restore_flag_def store_simps list.map_comp
    by (rule map_cong [OF refl]) (auto simp: rg Let_def split: option.split)
  then obtain m where m: "m' = (let m1 = (case pending_value db acct path (m_uid m) ''seen'' of
                   Some v \<Rightarrow> if in_range fid a b m then m\<lparr>m_read := v\<rparr> else m | None \<Rightarrow> m)
             in case pending_value db acct path (m_uid m) ''flagged'' of
                   Some v \<Rightarrow> if in_range fid a b m then m1\<lparr>m_flagged := v\<rparr> else m1 | None \<Rightarrow> m1)"
    using assms(1) by auto
  then have "m_uid m' = m_uid m" "in_range fid a b m"
    using assms(2) by (auto simp: Let_def rg split: option.splits if_splits)
  then show "pending_value db acct path (m_uid m') ''seen'' = Some v \<Longrightarrow> m_read m' = v"
    and "pending_value db acct path (m_uid m') ''flagged'' = Some v \<Longrightarrow> m_flagged m' = v"
    using m by (auto simp: Let_def split: option.splits)
qed

lemma persist_keeps_pending:
  assumes "persist_message_metadata_chunk E acct fid path a b mode msgs ex (db, c) = (Inr out, db', c')"
    and "m \<in> set (messages db')" "in_range fid a b m"
  shows "pending_value db acct path (m_uid m) ''seen'' = Some v \<Longrightarrow> m_read m = v"
    and "pending_value db acct path (m_uid m) ''flagged'' = Some v \<Longrightarrow> m_flagged m = v"
proof -
  obtain db1 where db': "db' = reapply_pending_flags acct fid path a b db1"
    using assms(1) by (auto simp: persist_message_metadata_chunk_def Let_def split: prod.splits sum.splits)
  have "pending db' = pending db" using assms(1) by (rule persist_pending)
  moreover have "pending db' = pending db1"
    by (simp add: db' reapply_pending_flags_def restore_flag_def store_simps)
  ultimately have "pending_value db1 = pending_value db" by (intro pending_value_same) simp
  then show "pending_value db acct path (m_uid m) ''seen'' = Some v \<Longrightarrow> m_read m = v"
    and "pending_value db acct path (m_uid m) ''flagged'' = Some v \<Longrightarrow> m_flagged m = v"
    using reapply_rows [OF assms(2) [unfolded db'] assms(3)] by simp_all
qed

end
