(* ===== verification/Outlook_Flags.thy ===== *)
theory Outlook_Flags
  imports Outlook
begin

text \<open>
  The Graph backend answers flag requests as \<open>flag_server\<close> asks: for a server whose GET requests
  do not change its state, a range of flags is exactly what the server holds for the mapped uids
  of the range, and a message Graph no longer knows is reported deleted and unmapped.
\<close>

definition pure_http ::
  "(string \<Rightarrow> 'r \<Rightarrow> provider_error + (nat \<times> string))
   \<Rightarrow> (http_method \<Rightarrow> string \<Rightarrow> string \<Rightarrow> 'r \<Rightarrow> (provider_error + (nat \<times> string)) \<times> 'r)
   \<Rightarrow> (string \<Rightarrow> json option) \<Rightarrow> (json \<Rightarrow> string) \<Rightarrow> 'r http"
where
  "pure_http get rest parse render =
     \<lparr>exchange = (\<lambda>meth url body r. if meth = GET then (get url r, r) else rest meth url body r),
      of_json = parse, to_json = render\<rparr>"

lemma pure_send: "snd (send (pure_http get rest parse render) GET url body r) = r"
  by (simp add: send_def pure_http_def split: sum.split)

lemma pure_once: "snd (get_json_once (pure_http get rest parse render) url r) = r"
  using pure_send [of get rest parse render url "[]" r]
  by (cases "send (pure_http get rest parse render) GET url [] r")
     (auto simp: get_json_once_def split: sum.splits option.splits)

lemma pure_from: "snd (snd (get_json_from (pure_http get rest parse render) url k r)) = r"
proof (induction "get_json_attempts - k" arbitrary: k)
  case 0
  obtain x where "get_json_once (pure_http get rest parse render) url r = (x, r)"
    using pure_once by (metis prod.collapse)
  with 0 show ?case
    by (cases x) (simp_all add: get_json_from.simps [of _ url k])
next
  case (Suc n)
  obtain x where once: "get_json_once (pure_http get rest parse render) url r = (x, r)"
    using pure_once by (metis prod.collapse)
  have "n = get_json_attempts - (k + 1)" using Suc.hyps(2) by simp
  then have "snd (snd (get_json_from (pure_http get rest parse render) url (k + 1) r)) = r" by (rule Suc.hyps(1))
  then obtain y z where "get_json_from (pure_http get rest parse render) url (k + 1) r = (y, z, r)"
    by (metis prod.collapse)
  with once show ?case
    by (cases x) (simp_all add: get_json_from.simps [of _ url k])
qed

lemma pure_get_json: "snd (get_json (pure_http get rest parse render) url r) = r"
  using pure_from [of get rest parse render url 1 r]
  by (cases "get_json_from (pure_http get rest parse render) url 1 r") (auto simp: get_json_def)

section \<open>What the server holds\<close>

definition lookup_uid :: "string \<Rightarrow> string \<Rightarrow> mail_db \<Rightarrow> nat \<Rightarrow> string option" where
  "lookup_uid acct path db u =
     map_option r_remote (find (\<lambda>r. in_map acct path r \<and> r_uid r = int u) (remotes db))"

definition graph_answer :: "'r outlook \<Rightarrow> 'r \<Rightarrow> string \<Rightarrow> flags option" where
  "graph_answer o' r remote =
     (case fst (get_json (ol_http o') (message_url remote ''?$select=isRead,flag'') r) of
        Inr v \<Rightarrow> (case state_of (ol_now o') v of (seen, flagged, _) \<Rightarrow> Some (seen, flagged, False))
      | Inl (Http status body) \<Rightarrow> if status = 404 then Some (False, False, True) else None
      | Inl _ \<Rightarrow> None)"

definition graph_view :: "'r outlook \<Rightarrow> mail_db \<times> 'r \<Rightarrow> string \<Rightarrow> nat \<Rightarrow> flags option" where
  "graph_view o' s path u =
     (case lookup_uid (ol_account o') path (fst s) u of
        None \<Rightarrow> None | Some remote \<Rightarrow> graph_answer o' (snd s) remote)"

definition map_ok :: "mail_db \<Rightarrow> bool" where
  "map_ok db = (remotes_ok db \<and> uids_u32 db)"

lemma map_ok_remove: "map_ok db \<Longrightarrow> map_ok (remove_uid acct path uid db)"
  by (simp add: map_ok_def remotes_ok_remove) (simp add: uids_u32_def remove_uid_def)

lemma find_filter: "(\<And>x. P x \<Longrightarrow> Q x) \<Longrightarrow> find P (filter Q xs) = find P xs"
  by (induction xs) auto

lemma lookup_remove:
  assumes "u \<noteq> uid"
  shows "lookup_uid acct path (remove_uid acct path' uid db) u = lookup_uid acct path db u"
proof -
  have "find (\<lambda>r. in_map acct path r \<and> r_uid r = int u) (filter (\<lambda>r. \<not> (in_map acct path' r \<and> r_uid r = int uid)) (remotes db))
      = find (\<lambda>r. in_map acct path r \<and> r_uid r = int u) (remotes db)"
    using assms by (intro find_filter) auto
  then show ?thesis by (simp add: lookup_uid_def remove_uid_def)
qed

lemma flags_loop_effect:
  assumes pure: "\<And>url r. snd (get_json (ol_http o') url r) = r"
    and "ol_flags_loop o' path xs (db, r) = (Inr out, db', r')"
  shows "r' = r" and "list_all2 (\<lambda>(u, remote) (v, fl). v = u \<and> graph_answer o' r remote = Some fl) xs out"
    and "map_ok db \<Longrightarrow> map_ok db'"
    and "\<And>u. u \<notin> fst ` set xs \<Longrightarrow> lookup_uid (ol_account o') path db' u = lookup_uid (ol_account o') path db u"
proof -
  have "r' = r \<and> list_all2 (\<lambda>(u, remote) (v, fl). v = u \<and> graph_answer o' r remote = Some fl) xs out
    \<and> (map_ok db \<longrightarrow> map_ok db')
    \<and> (\<forall>u. u \<notin> fst ` set xs \<longrightarrow> lookup_uid (ol_account o') path db' u = lookup_uid (ol_account o') path db u)"
    using assms(2)
  proof (induction xs arbitrary: db out)
    case (Cons x xs)
    obtain uid remote where x: "x = (uid, remote)" by fastforce
    obtain ans where ans: "get_json (ol_http o') (message_url remote ''?$select=isRead,flag'') r = (ans, r)"
      using pure by (metis surj_pair snd_conv)
    show ?case
    proof (cases ans)
      case (Inr v)
      obtain seen flagged date where st: "state_of (ol_now o') v = (seen, flagged, date)" by (metis prod_cases3)
      obtain out1 where out1: "ol_flags_loop o' path xs (db, r) = (Inr out1, db', r')"
        "out = (uid, seen, flagged, False) # out1"
        using Cons.prems x ans Inr st by (auto split: prod.splits sum.splits)
      have "graph_answer o' r remote = Some (seen, flagged, False)"
        using ans Inr st by (simp add: graph_answer_def)
      with Cons.IH [OF out1(1)] show ?thesis by (simp add: x out1(2))
    next
      case (Inl e)
      then obtain body where e: "e = Http 404 body"
        using Cons.prems x ans by (cases e) (auto split: if_splits)
      obtain out1 where out1: "ol_flags_loop o' path xs (remove_uid (ol_account o') path uid db, r) = (Inr out1, db', r')"
        "out = (uid, False, False, True) # out1"
        using Cons.prems x ans Inl e by (auto split: prod.splits sum.splits)
      have "graph_answer o' r remote = Some (False, False, True)"
        using ans Inl e by (simp add: graph_answer_def)
      with Cons.IH [OF out1(1)] show ?thesis
        by (simp add: x out1(2) map_ok_remove lookup_remove)
    qed
  qed simp
  then show "r' = r" and "list_all2 (\<lambda>(u, remote) (v, fl). v = u \<and> graph_answer o' r remote = Some fl) xs out"
    and "map_ok db \<Longrightarrow> map_ok db'"
    and "\<And>u. u \<notin> fst ` set xs \<Longrightarrow> lookup_uid (ol_account o') path db' u = lookup_uid (ol_account o') path db u"
    by auto
qed

lemma list_all2_fst: "list_all2 (\<lambda>(u, x) (v, y). v = u \<and> R x y) xs out \<Longrightarrow> map fst out = map fst xs"
  by (induction rule: list_all2_induct) auto

lemma list_all2_map_of:
  "list_all2 (\<lambda>(u, x) (v, y). v = u \<and> f x = Some y) xs out \<Longrightarrow>
   map_of out u = (case map_of xs u of None \<Rightarrow> None | Some x \<Rightarrow> f x)"
  by (induction rule: list_all2_induct) auto

lemma cast_u32_uid: "0 \<le> u \<Longrightarrow> u \<le> int u32_max \<Longrightarrow> cast_u32 u = nat u"
  by (simp add: cast_u32_def u32_max_def)

lemma rows_where_fst:
  assumes "map_ok db"
  shows "distinct (map fst (rows_where acct path P db))"
proof -
  let ?rs = "filter (\<lambda>r. P (r_uid r)) (map_rows acct path db)"
  have rs: "set ?rs \<subseteq> set (remotes db)" by (auto simp: map_rows_def)
  have "distinct ?rs" using assms by (simp add: map_ok_def remotes_ok_def distinct_map map_rows_def)
  moreover have "inj_on (\<lambda>r. cast_u32 (r_uid r)) (set ?rs)"
  proof (rule inj_onI)
    fix x y assume xy: "x \<in> set ?rs" "y \<in> set ?rs" "cast_u32 (r_uid x) = cast_u32 (r_uid y)"
    have "0 \<le> r_uid z \<and> r_uid z \<le> int u32_max" if "z \<in> set ?rs" for z
      using assms rs that by (auto simp: map_ok_def uids_u32_def)
    then have "r_uid x = r_uid y" using xy cast_u32_uid by (metis eq_nat_nat_iff)
    moreover have "r_account x = r_account y" "r_path x = r_path y"
      using xy by (simp_all add: map_rows_def in_map_def)
    moreover have "x \<in> set (remotes db)" "y \<in> set (remotes db)" using xy(1,2) rs by blast+
    ultimately show "x = y"
      using assms by (auto simp: map_ok_def remotes_ok_def distinct_map inj_on_def)
  qed
  ultimately have "distinct (map (\<lambda>r. cast_u32 (r_uid r)) (sort_key r_uid ?rs))"
    by (simp add: distinct_map)
  then show ?thesis by (simp add: rows_where_def comp_def)
qed

lemma rows_where_lookup:
  assumes ok: "map_ok db" and u: "u \<le> u32_max" "P (int u)"
  shows "map_of (rows_where acct path P db) u = lookup_uid acct path db u"
proof (cases "find (\<lambda>r. in_map acct path r \<and> r_uid r = int u) (remotes db)")
  case None
  then have none: "\<forall>r \<in> set (remotes db). in_map acct path r \<longrightarrow> r_uid r \<noteq> int u" by (auto simp: find_None_eq)
  have "u \<noteq> cast_u32 (r_uid r)" if "r \<in> set (remotes db)" "in_map acct path r" for r
  proof -
    have "0 \<le> r_uid r" "r_uid r \<le> int u32_max" using ok that by (auto simp: map_ok_def uids_u32_def)
    moreover have "r_uid r \<noteq> int u" using none that by blast
    ultimately show ?thesis using cast_u32_uid by auto
  qed
  then have "u \<notin> fst ` set (rows_where acct path P db)"
    unfolding rows_where_def map_rows_def by clarsimp blast
  then have "map_of (rows_where acct path P db) u = None" by (simp add: map_of_eq_None_iff)
  with None show ?thesis by (simp add: lookup_uid_def)
next
  case (Some r)
  then have r: "r \<in> set (remotes db)" "in_map acct path r" "r_uid r = int u" by (auto simp: find_Some_iff)
  then have "(u, r_remote r) \<in> set (rows_where acct path P db)"
    using u by (force simp: rows_where_def map_rows_def)
  then have "map_of (rows_where acct path P db) u = Some (r_remote r)"
    using rows_where_fst [OF ok] by (rule map_of_is_SomeI [rotated])
  with Some show ?thesis by (simp add: lookup_uid_def)
qed

lemma rows_where_range: "x \<in> fst ` set (rows_where acct path P db) \<Longrightarrow> \<exists>r \<in> set (remotes db). x = cast_u32 (r_uid r) \<and> P (r_uid r)"
  by (auto simp: rows_where_def map_rows_def)

lemma graph_fetch:
  assumes pure: "\<And>url r. snd (get_json (ol_http o') url r) = r" and
    "map_ok (fst s)" "ol_fetch_flags o' path (uid_range a b) s = (Inr fl, s')" "a \<le> b" "b \<le> u32_max"
  shows "distinct (map fst fl)" and "\<And>u. a \<le> u \<Longrightarrow> u \<le> b \<Longrightarrow> map_of fl u = graph_view o' s path u"
    and "\<And>u. b < u \<Longrightarrow> graph_view o' s' path u = graph_view o' s path u" and "map_ok (fst s')"
proof -
  obtain db r db' r' where s: "s = (db, r)" "s' = (db', r')" by fastforce
  let ?xs = "rows_where (ol_account o') path (\<lambda>u. int a \<le> u \<and> u \<le> int b) db"
  have "a < 2 ^ 63" "b < 2 ^ 63" using assms(4,5) by (simp_all add: u32_max_def)
  then have "ol_flags_loop o' path ?xs (db, r) = (Inr fl, db', r')"
    using assms(3) by (simp add: s ol_fetch_flags_def resolve_uid_range)
  note eff = flags_loop_effect [OF pure this]
  have ok: "map_ok db" using assms(2) s by simp
  show "distinct (map fst fl)"
    using list_all2_fst [OF eff(2)] rows_where_fst [OF ok] by simp
  show "map_of fl u = graph_view o' s path u" if "a \<le> u" "u \<le> b" for u
    using that assms(5) list_all2_map_of [OF eff(2)] rows_where_lookup [OF ok, of u]
    by (simp add: s graph_view_def split: option.split)
  show "graph_view o' s' path u = graph_view o' s path u" if "b < u" for u
  proof -
    have "u \<notin> fst ` set ?xs"
    proof
      assume "u \<in> fst ` set ?xs"
      then obtain q where "q \<in> set (remotes db)" "u = cast_u32 (r_uid q)" "int a \<le> r_uid q" "r_uid q \<le> int b"
        using rows_where_range by fastforce
      then show False using that assms(5) cast_u32_uid [of "r_uid q"] by auto
    qed
    then show ?thesis using eff(1,4) by (simp add: s graph_view_def split: option.split)
  qed
  show "map_ok (fst s')" using eff(3) ok s by simp
qed

lemma graph_fetch_ok:
  assumes pure: "\<And>url r. snd (get_json (ol_http o') url r) = r" and
    "map_ok (fst s)" "ol_fetch_flags o' path uids s = (Inr fl, s')"
  shows "map_ok (fst s')"
proof -
  obtain db r db' r' where s: "s = (db, r)" "s' = (db', r')" by fastforce
  obtain xs where "ol_flags_loop o' path xs (db, r) = (Inr fl, db', r')"
    using assms(3) by (auto simp: s ol_fetch_flags_def split: sum.splits)
  from flags_loop_effect(3) [OF pure this] assms(2) show ?thesis by (simp add: s)
qed

interpretation ol_flags: flag_server "outlook_backend (o'\<lparr>ol_http := pure_http get rest parse render\<rparr>)" map_ok
    "graph_view (o'\<lparr>ol_http := pure_http get rest parse render\<rparr>)" for o' get rest parse render
proof unfold_locales
  let ?o = "o'\<lparr>ol_http := pure_http get rest parse render\<rparr>"
  have pure: "snd (get_json (ol_http ?o) url r) = r" for url r by (simp add: pure_get_json)
  have fetch: "fetch_flags (outlook_backend ?o) = ol_fetch_flags ?o" by (simp add: outlook_backend_def)
  show "distinct (map fst fl)"
    if "map_ok (fst s)" "fetch_flags (outlook_backend ?o) path (uid_range a b) s = (Inr fl, s')" "a \<le> b" "b \<le> u32_max"
    for s path a b fl s'
    using that graph_fetch(1) [of ?o, OF pure] unfolding fetch by blast
  show "map_of fl u = graph_view ?o s path u"
    if "map_ok (fst s)" "fetch_flags (outlook_backend ?o) path (uid_range a b) s = (Inr fl, s')" "a \<le> b" "b \<le> u32_max"
      "a \<le> u" "u \<le> b" for s path a b fl s' u
    using that graph_fetch(2) [of ?o, OF pure] unfolding fetch by blast
  show "graph_view ?o s' path u = graph_view ?o s path u"
    if "map_ok (fst s)" "fetch_flags (outlook_backend ?o) path (uid_range a b) s = (Inr fl, s')" "a \<le> b" "b \<le> u32_max"
      "b < u" for s path a b fl s' u
    using that graph_fetch(3) [of ?o, OF pure] unfolding fetch by blast
  show "map_ok (fst s')"
    if "map_ok (fst s)" "fetch_flags (outlook_backend ?o) path (uid_range a b) s = (Inr fl, s')" for s path a b fl s'
    using that graph_fetch_ok [of ?o, OF pure] unfolding fetch by blast
  show "graph_view ?o (db, p) = graph_view ?o (db', p)" if "remotes db = remotes db'" for db db' p
    using that by (simp add: graph_view_def lookup_uid_def fun_eq_iff split: option.split)
  show "map_ok db = map_ok db'" if "remotes db = remotes db'" for db db'
    using that by (simp add: map_ok_def remotes_ok_def uids_u32_def)
qed

end
