(* ===== verification/Sync_Cycle.thy ===== *)
theory Sync_Cycle
  imports Sync_Facts Outlook_Flags
begin

text \<open>
  The cycle as a whole: which uids a folder can hold after it was synced, where the walk starts
  after a changed UIDVALIDITY, the stored cursor, the notifications, folder discovery, and the
  states of an account.
\<close>

section \<open>Backends that answer with the uids they were asked for\<close>

locale ranged_cycle = sync_cycle +
  assumes headers_range: "fetch_headers (se_backend E) path (uid_range a b) s = (Inr ms, s') \<Longrightarrow> a \<le> b \<Longrightarrow> b \<le> u32_max \<Longrightarrow>
      m \<in> set ms \<Longrightarrow> a \<le> fm_uid m \<and> fm_uid m \<le> b"
    and full_range: "fetch_full (se_backend E) path (uid_range a b) s = (Inr ms, s') \<Longrightarrow> a \<le> b \<Longrightarrow> b \<le> u32_max \<Longrightarrow>
      m \<in> set ms \<Longrightarrow> a \<le> fm_uid m \<and> fm_uid m \<le> b"
begin

lemma fkeys_call:
  assumes "keeps_frame c" "call_backend c s = (r, s')"
  shows "fkeys fid (sy_db s') = fkeys fid (sy_db s)"
proof -
  have "backend_frame (sy_db s) (sy_db s')"
    using assms by (auto simp: call_backend_def split: prod.splits dest: keeps_frameD)
  then show ?thesis by (simp add: fkeys_def backend_frame_def)
qed

lemma chunk_keys:
  assumes "a \<le> b" "b \<le> u32_max" "sync_chunk E j a b cursor s = (r, s')"
  shows "fkeys (fj_folder j) (sy_db s') \<subseteq> fkeys (fj_folder j) (sy_db s) \<union> int ` {a..b}"
proof -
  let ?c = "if fj_mode j = ''full'' then fetch_full (se_backend E) (fj_path j) (uid_range a b)
            else fetch_headers (se_backend E) (fj_path j) (uid_range a b)"
  obtain ans s1 where call: "call_backend ?c s = (ans, s1)" by fastforce
  have k1: "fkeys (fj_folder j) (sy_db s1) = fkeys (fj_folder j) (sy_db s)"
    by (rule fkeys_call [OF _ call]) (simp add: fetch_full_frame fetch_headers_frame)
  show ?thesis
  proof (cases ans)
    case (Inl e)
    with assms(3) call k1 show ?thesis by (auto simp: sync_chunk_def)
  next
    case (Inr fetched)
    have uids: "a \<le> fm_uid m \<and> fm_uid m \<le> b" if "m \<in> set fetched" for m
    proof -
      obtain db' p' where "?c (sy_db s, sy_server s) = (Inr fetched, db', p')"
        using call Inr by (auto simp: call_backend_def split: prod.splits sum.splits)
      then have *: "(if fj_mode j = ''full'' then fetch_full (se_backend E) (fj_path j) (uid_range a b) (sy_db s, sy_server s)
          else fetch_headers (se_backend E) (fj_path j) (uid_range a b) (sy_db s, sy_server s)) = (Inr fetched, db', p')"
        by (simp only: if_distribR)
      show ?thesis
      proof (cases "fj_mode j = ''full''")
        case True
        with * have "fetch_full (se_backend E) (fj_path j) (uid_range a b) (sy_db s, sy_server s) = (Inr fetched, db', p')" by simp
        then show ?thesis using assms(1,2) that by (rule full_range)
      next
        case False
        with * have "fetch_headers (se_backend E) (fj_path j) (uid_range a b) (sy_db s, sy_server s) = (Inr fetched, db', p')" by simp
        then show ?thesis using assms(1,2) that by (rule headers_range)
      qed
    qed
    define msgs where "msgs = sort_key fm_uid fetched"
    obtain r2 db2 c2 where p: "persist_message_metadata_chunk E (fj_account j) (fj_folder j) (fj_path j) a b (fj_mode j)
        msgs (fj_existing j) (sy_db s1, sy_content s1) = (r2, db2, c2)" by (metis prod_cases3)
    have "int ` fm_uid ` set msgs \<subseteq> int ` {a..b}" using uids by (auto simp: msgs_def)
    then have k2: "fkeys (fj_folder j) db2 \<subseteq> fkeys (fj_folder j) (sy_db s) \<union> int ` {a..b}"
      using order.trans [OF fkeys_persist(1) [OF p] Un_mono [OF order.refl]] unfolding k1 by simp
    have "fkeys (fj_folder j) (sy_db s') = fkeys (fj_folder j) db2"
    proof (cases r2)
      case (Inl e)
      with assms(3) call Inr p have "s' = s1\<lparr>sy_db := db2, sy_content := c2\<rparr>"
        by (simp add: sync_chunk_def msgs_def Let_def)
      then show ?thesis by simp
    next
      case imp: (Inr imported)
      let ?db4 = "analyse_and_store_batch (se_phish E) (se_brands E) (se_feed E) (phishing_inputs msgs imported) db2"
      have "sy_db s' = save_cursor (fj_folder j) (advance_cursor (fj_kind j) (fj_folder j) a b cursor ?db4) ?db4"
        using assms(3) call Inr p imp
        by (auto simp: sync_chunk_def msgs_def [symmetric] Let_def map_db_def)
      then show ?thesis
        using same_keys_fkeys [OF same_keys_trans [OF same_keys_analyse same_keys_folder(2)]] by simp
    qed
    with k2 show ?thesis by simp
  qed
qed

lemma run_windows_keys:
  assumes "\<forall>(a, b) \<in> set ws. lo \<le> a \<and> a \<le> b \<and> b \<le> u32_max" "run_windows E j ws cursor s = (r, s')"
    "u \<in> fkeys (fj_folder j) (sy_db s')"
  shows "u \<in> fkeys (fj_folder j) (sy_db s) \<or> int lo \<le> u"
  using assms
proof (induction ws arbitrary: cursor s)
  case (Cons w ws)
  obtain a b where w: "w = (a, b)" by fastforce
  obtain r1 s1 where c: "sync_chunk E j a b cursor s = (r1, s1)" by fastforce
  have ab: "lo \<le> a" "a \<le> b" "b \<le> u32_max" using Cons.prems(1) w by auto
  have k: "fkeys (fj_folder j) (sy_db s1) \<subseteq> fkeys (fj_folder j) (sy_db s) \<union> int ` {a..b}"
    by (rule chunk_keys [OF ab(2,3) c])
  have "u \<in> fkeys (fj_folder j) (sy_db s1) \<or> int lo \<le> u"
    using Cons w c by (auto split: sum.splits)
  with k ab(1) show ?case by auto
qed simp

lemma same_keys_backend: "backend_frame x y \<Longrightarrow> same_keys x y"
  by (simp add: same_keys_messages backend_frame_def)

lemma same_keys_loop:
  "reconcile_loop (se_backend E) fid path pend up_to start (db, p) = (r, db', p') \<Longrightarrow> same_keys db db'"
  by (rule reconcile_loop_rel [where R = same_keys, OF same_keys_refl same_keys_trans same_keys_backend same_keys_reconcile_chunk])

lemma reconcile_fkeys:
  assumes "call_backend (reconcile_flags (se_backend E) acct fid path up_to) s = (r, s')"
  shows "fkeys fid' (sy_db s') = fkeys fid' (sy_db s)"
proof -
  have "same_keys (sy_db s) (sy_db s')"
    using assms by (auto simp: call_backend_def reconcile_flags_def split: prod.splits dest: same_keys_loop)
  then show ?thesis by (rule same_keys_fkeys)
qed

lemma sync_folder_from_keys:
  assumes "sync_folder_from E acct f path mode kind whole s = (r, s')" "prev_last_uid f < u32_max"
    "u \<in> fkeys (f_id f) (sy_db s')"
  shows "u \<in> fkeys (f_id f) (sy_db s) \<or> int (prev_last_uid f) < u"
proof -
  let ?prev = "prev_last_uid f"
  have start: "wrapping_add_u32 ?prev 1 = ?prev + 1" using assms(2) by (simp add: wrapping_add_u32_def)
  obtain r1 s1 where one: "(if 0 < ?prev then call_backend (reconcile_flags (se_backend E) acct (f_id f) path ?prev) s
      else (Inr (), s)) = (r1, s1)" by fastforce
  have k1: "fkeys (f_id f) (sy_db s1) = fkeys (f_id f) (sy_db s)"
    using one reconcile_fkeys by (auto split: if_splits)
  obtain r2 s2 where two: "call_backend (highest_uid (se_backend E) path) s1 = (r2, s2)" by fastforce
  have k2: "fkeys (f_id f) (sy_db s2) = fkeys (f_id f) (sy_db s)"
    using fkeys_call [OF highest_uid_frame two] k1 by simp
  have unread: "fkeys (f_id f) (sy_db (map_db (update_unread_count (f_id f)) s2)) = fkeys (f_id f) (sy_db s)"
    using same_keys_fkeys [OF same_keys_folder(3)] k2 by (simp add: map_db_def)
  show ?thesis
  proof (cases r1)
    case (Inl e)
    with assms one k1 show ?thesis by (simp add: sync_folder_from_def)
  next
    case r1: (Inr x)
    note body = assms(1) [unfolded sync_folder_from_def Let_def one r1 prod.case sum.case two start]
    show ?thesis
    proof (cases "\<exists>highest. r2 = Inr (Some highest) \<and> ?prev + 1 \<le> highest")
      case True
      then obtain highest where h: "r2 = Inr (Some highest)" "?prev + 1 \<le> highest" by blast
      let ?j = "job_of acct f path mode kind whole (sy_db s2)"
      obtain cursor where run: "run_windows E ?j (windows (uid_chunk (fj_kind ?j)) highest (?prev + 1)) cursor s2 = (r, s')"
        using body h by (auto simp: chunk_loop_windows)
      have "\<forall>(a, b) \<in> set (windows (uid_chunk (fj_kind ?j)) highest (?prev + 1)). ?prev + 1 \<le> a \<and> a \<le> b \<and> b \<le> u32_max"
      proof (cases "highest \<le> u32_max")
        case True
        then show ?thesis by (auto dest!: windows_len)
      qed (simp add: windows_done)
      from run_windows_keys [OF this run, of u] assms(3) k2 show ?thesis by simp linarith
    next
      case False
      with body assms(3) k2 unread show ?thesis by (auto split: sum.splits option.splits if_splits)
    qed
  qed
qed

text \<open>
  After a changed UIDVALIDITY the folder is emptied, but the walk still starts behind the cursor
  read before the change: the messages with uids up to the old cursor are not imported again.
\<close>

lemma sync_folder_after_change:
  assumes "folder_at (sy_db s) acct path = Some f" "f_uidvalidity f = Some sv" "f_last_uid f = Some n"
    "0 \<le> n" "n < int u32_max"
    and status: "call_backend (folder_status (se_backend E) path) s = (Inr st, s1)" "sv \<noteq> int (st_uidvalidity st)"
    and run: "sync_folder E acct path mode kind whole s = (r, s')" and u: "u \<in> fkeys (f_id f) (sy_db s')"
  shows "n < u"
proof -
  let ?s2 = "check_uidvalidity f (st_uidvalidity st) s1"
  have prev: "int (prev_last_uid f) = n" "prev_last_uid f < u32_max"
    using assms(3-5) by (simp_all add: prev_last_uid_def clamp_u32_def)
  have from': "sync_folder_from E acct f path mode kind whole ?s2 = (r, s')"
    using run assms(1) status by (simp add: sync_folder_def)
  have "fkeys (f_id f) (sy_db ?s2) = {}"
    using assms(2) status(2)
    by (simp add: check_uidvalidity_def map_db_def purge_folder_def Let_def fkeys_def store_simps update_folder_def)
  then show ?thesis using sync_folder_from_keys [OF from' prev(2) u] prev(1) by auto
qed

end

lemma rows_where_bounds:
  assumes "(u, x) \<in> set (rows_where acct path (\<lambda>v. int a \<le> v \<and> v \<le> int b) db)" "b \<le> u32_max"
  shows "a \<le> u \<and> u \<le> b"
proof -
  have "\<exists>r :: remote_row. u = cast_u32 (r_uid r) \<and> int a \<le> r_uid r \<and> r_uid r \<le> int b"
    using assms(1) unfolding rows_where_def by clarsimp blast
  then obtain r :: remote_row where "u = cast_u32 (r_uid r)" "int a \<le> r_uid r" "r_uid r \<le> int b" by blast
  moreover from this have "cast_u32 (r_uid r) = nat (r_uid r)"
    using assms(2) by (intro cast_u32_uid) auto
  ultimately show ?thesis by auto
qed

lemma headers_loop_uids: "m \<in> set (fst (ol_headers_loop o' xs r)) \<Longrightarrow> fm_uid m \<in> fst ` set xs"
proof (induction xs arbitrary: r)
  case (Cons y xs)
  obtain uid remote where y: "y = (uid, remote)" by fastforce
  obtain ans r1 where a: "fetch_metadata o' uid remote r = (ans, r1)" by fastforce
  have uid: "fm_uid m0 = uid" if "ans = Inr m0" for m0
    using a that by (auto simp: fetch_metadata_def split: prod.splits sum.splits)
  obtain out r2 where rest: "ol_headers_loop o' xs r1 = (out, r2)" by fastforce
  show ?case
    using Cons.prems Cons.IH [of r1] a y rest uid by (cases ans) auto
qed simp

lemma full_loop_uids: "m \<in> set (fst (ol_full_loop o' xs r)) \<Longrightarrow> fm_uid m \<in> fst ` set xs"
proof (induction xs arbitrary: r)
  case (Cons y xs)
  obtain uid remote where y: "y = (uid, remote)" by fastforce
  obtain ans r1 where a: "fetch_full_one o' uid remote r = (ans, r1)" by fastforce
  have uid: "fm_uid m0 = uid" if "ans = Inr m0" for m0
    using a that by (auto simp: fetch_full_one_def split: prod.splits sum.splits)
  obtain out r2 where rest: "ol_full_loop o' xs r1 = (out, r2)" by fastforce
  show ?case
    using Cons.prems Cons.IH [of r1] a y rest uid by (cases ans) auto
qed simp

interpretation ol_ranged: ranged_cycle "E\<lparr>se_backend := outlook_backend o'\<rparr>" for E o'
proof unfold_locales
  have resolve: "resolve_set acct path (uid_range a b) db = Inr (rows_where acct path (\<lambda>u. int a \<le> u \<and> u \<le> int b) db)"
    if "a \<le> b" "b \<le> u32_max" for a b acct path db
    using that by (intro resolve_uid_range) (simp_all add: u32_max_def)
  show "a \<le> fm_uid m \<and> fm_uid m \<le> b"
    if "fetch_headers (se_backend (E\<lparr>se_backend := outlook_backend o'\<rparr>)) path (uid_range a b) s = (Inr ms, s')"
      "a \<le> b" "b \<le> u32_max" "m \<in> set ms" for path a b s ms s' m
  proof -
    have "m \<in> set (fst (ol_headers_loop o' (rows_where (ol_account o') path (\<lambda>u. int a \<le> u \<and> u \<le> int b) (fst s)) (snd s)))"
      using that resolve [OF that(2,3)]
      by (auto simp: outlook_backend_def ol_fetch_headers_def split: prod.splits)
    from headers_loop_uids [OF this] rows_where_bounds that(3) show ?thesis by fastforce
  qed
  show "a \<le> fm_uid m \<and> fm_uid m \<le> b"
    if "fetch_full (se_backend (E\<lparr>se_backend := outlook_backend o'\<rparr>)) path (uid_range a b) s = (Inr ms, s')"
      "a \<le> b" "b \<le> u32_max" "m \<in> set ms" for path a b s ms s' m
  proof -
    have "m \<in> set (fst (ol_full_loop o' (rows_where (ol_account o') path (\<lambda>u. int a \<le> u \<and> u \<le> int b) (fst s)) (snd s)))"
      using that resolve [OF that(2,3)]
      by (auto simp: outlook_backend_def ol_fetch_full_def split: prod.splits)
    from full_loop_uids [OF this] rows_where_bounds that(3) show ?thesis by fastforce
  qed
qed

section \<open>The stored cursor\<close>

lemma sync_chunk_result:
  assumes "sync_chunk E j a b cursor s = (Inr cursor', s')"
  obtains db4 where "cursor' = advance_cursor (fj_kind j) (fj_folder j) a b cursor db4"
    "sy_db s' = save_cursor (fj_folder j) cursor' db4"
proof -
  obtain ans s1 where call: "call_backend (if fj_mode j = ''full'' then fetch_full (se_backend E) (fj_path j) (uid_range a b)
            else fetch_headers (se_backend E) (fj_path j) (uid_range a b)) s = (ans, s1)" by fastforce
  obtain fetched where f: "ans = Inr fetched" using assms call by (cases ans) (simp_all add: sync_chunk_def)
  obtain r2 db2 c2 where p: "persist_message_metadata_chunk E (fj_account j) (fj_folder j) (fj_path j) a b (fj_mode j)
      (sort_key fm_uid fetched) (fj_existing j) (sy_db s1, sy_content s1) = (r2, db2, c2)" by (metis prod_cases3)
  obtain imported where i: "r2 = Inr imported" using assms call f p by (cases r2) (simp_all add: sync_chunk_def Let_def)
  let ?db4 = "analyse_and_store_batch (se_phish E) (se_brands E) (se_feed E) (phishing_inputs (sort_key fm_uid fetched) imported) db2"
  show thesis
    by (rule that [of ?db4]) (use assms call f p i in \<open>auto simp: sync_chunk_def Let_def map_db_def\<close>)
qed

lemma save_cursor_counts: "count_unread (save_cursor fid cursor db) i = count_unread db i"
  by (simp add: save_cursor_def count_unread_def update_folder_def)

lemma run_windows_cursor:
  assumes "ws \<noteq> []" "\<forall>w \<in> set ws. snd w \<le> h" "snd (last ws) = h" "syncs_over_imap (fj_kind j)"
    and "run_windows E j ws cursor s = (Inr u, s')" "f \<in> set (folders (sy_db s'))" "f_id f = fj_folder j"
  shows "f_last_uid f = Some (max cursor (int h)) \<and> f_unread f = count_unread (sy_db s') (fj_folder j)"
  using assms
proof (induction ws arbitrary: cursor s)
  case (Cons w ws)
  obtain a b where w: "w = (a, b)" by fastforce
  obtain cursor' s1 where c: "sync_chunk E j a b cursor s = (Inr cursor', s1)"
    and rest: "run_windows E j ws cursor' s1 = (Inr u, s')"
    using Cons.prems(5) w by (auto split: prod.splits sum.splits)
  obtain db4 where db4: "cursor' = advance_cursor (fj_kind j) (fj_folder j) a b cursor db4"
    "sy_db s1 = save_cursor (fj_folder j) cursor' db4" using c by (rule sync_chunk_result)
  have cur: "cursor' = max cursor (int b)" using db4(1) Cons.prems(4) by (simp add: advance_cursor_def)
  show ?case
  proof (cases ws)
    case Nil
    then have "s' = s1" "b = h" using rest Cons.prems(3) w by simp_all
    then show ?thesis
      using save_cursor_value [of f "fj_folder j" cursor' db4] Cons.prems(6,7) db4(2) cur
      by (simp add: save_cursor_counts)
  next
    case (Cons v vs)
    then have "f_last_uid f = Some (max cursor' (int h)) \<and> f_unread f = count_unread (sy_db s') (fj_folder j)"
      using Cons.IH [OF _ _ _ Cons.prems(4) rest Cons.prems(6,7)] Cons.prems(2,3) by simp
    moreover have "int b \<le> int h" using Cons.prems(2) w by simp
    ultimately show ?thesis using cur by (simp add: max.assoc max_absorb2)
  qed
qed simp

lemma chunk_loop_cursor:
  assumes "start \<le> highest" "highest \<le> u32_max" "syncs_over_imap (fj_kind j)"
    and "chunk_loop E j highest start cursor s = (Inr u, s')" "f \<in> set (folders (sy_db s'))" "f_id f = fj_folder j"
  shows "f_last_uid f = Some (max cursor (int highest)) \<and> f_unread f = count_unread (sy_db s') (fj_folder j)"
  using windows_last [OF assms(2) uid_chunk_pos assms(1)] windows_len assms(3-6)
  unfolding chunk_loop_windows
  by (intro run_windows_cursor [where ws = "windows (uid_chunk (fj_kind j)) highest start" and h = highest and j = j])
     (auto dest!: windows_len)

section \<open>Notifications\<close>

lemma report_notes [simp]: "sy_notes (report_progress acct n s) = sy_notes s"
  by (simp add: report_progress_def publish_sync_status_def)

lemma call_notes: "call_backend c s = (r, s') \<Longrightarrow> sy_notes s' = sy_notes s"
  by (auto simp: call_backend_def split: prod.splits)

lemma process_quiet:
  assumes "fj_initial j \<or> \<not> fj_notify j"
  shows "sy_notes (fold (process_imported E j msgs) xs s) = sy_notes s"
proof (induction xs arbitrary: s)
  case (Cons x xs)
  have "sy_notes (process_imported E j msgs x s) = sy_notes s"
    using assms by (auto simp: process_imported_def Let_def split: prod.splits bool.splits option.splits)
  with Cons show ?case by simp
qed simp

lemma sync_chunk_quiet:
  assumes "fj_initial j \<or> \<not> fj_notify j" "sync_chunk E j a b cursor s = (r, s')"
  shows "sy_notes s' = sy_notes s"
proof -
  obtain ans s1 where call: "call_backend (if fj_mode j = ''full'' then fetch_full (se_backend E) (fj_path j) (uid_range a b)
            else fetch_headers (se_backend E) (fj_path j) (uid_range a b)) s = (ans, s1)" by fastforce
  have s1: "sy_notes s1 = sy_notes s" using call by (rule call_notes)
  show ?thesis
  proof (cases ans)
    case (Inl e)
    with assms(2) call s1 show ?thesis by (simp add: sync_chunk_def)
  next
    case (Inr fetched)
    obtain r2 db2 c2 where p: "persist_message_metadata_chunk E (fj_account j) (fj_folder j) (fj_path j) a b (fj_mode j)
        (sort_key fm_uid fetched) (fj_existing j) (sy_db s1, sy_content s1) = (r2, db2, c2)" by (metis prod_cases3)
    show ?thesis
    proof (cases r2)
      case (Inl e)
      with assms(2) call Inr p s1 show ?thesis by (auto simp: sync_chunk_def Let_def)
    next
      case imp: (Inr imported)
      with assms(2) call Inr p s1 show ?thesis
        by (auto simp: sync_chunk_def Let_def map_db_def process_quiet [OF assms(1)])
    qed
  qed
qed

lemma run_windows_quiet:
  "fj_initial j \<or> \<not> fj_notify j \<Longrightarrow> run_windows E j ws cursor s = (r, s') \<Longrightarrow> sy_notes s' = sy_notes s"
proof (induction ws arbitrary: cursor s)
  case (Cons w ws)
  obtain a b where w: "w = (a, b)" by fastforce
  obtain r1 s1 where c: "sync_chunk E j a b cursor s = (r1, s1)" by fastforce
  have "sy_notes s1 = sy_notes s" using Cons.prems(1) c by (rule sync_chunk_quiet)
  with Cons w c show ?case by (auto split: sum.splits)
qed simp

lemma sync_folder_from_quiet:
  assumes "prev_last_uid f = 0 \<or> f_type f \<in> {''SPAM'', ''TRASH'', ''SENT'', ''DRAFTS''}"
    "sync_folder_from E acct f path mode kind whole s = (r, s')"
  shows "sy_notes s' = sy_notes s"
proof -
  let ?prev = "prev_last_uid f"
  obtain r1 s1 where one: "(if 0 < ?prev then call_backend (reconcile_flags (se_backend E) acct (f_id f) path ?prev) s
      else (Inr (), s)) = (r1, s1)" by fastforce
  have n1: "sy_notes s1 = sy_notes s" using one call_notes by (auto split: if_splits)
  obtain r2 s2 where two: "call_backend (highest_uid (se_backend E) path) s1 = (r2, s2)" by fastforce
  have n2: "sy_notes s2 = sy_notes s" using call_notes [OF two] n1 by simp
  show ?thesis
  proof (cases r1)
    case (Inl e)
    with assms one n1 show ?thesis by (simp add: sync_folder_from_def)
  next
    case r1: (Inr x)
    note body = assms(2) [unfolded sync_folder_from_def Let_def one r1 prod.case sum.case two]
    show ?thesis
    proof (cases "\<exists>highest. r2 = Inr (Some highest) \<and> wrapping_add_u32 ?prev 1 \<le> highest")
      case True
      then obtain highest where h: "r2 = Inr (Some highest)" "wrapping_add_u32 ?prev 1 \<le> highest" by blast
      let ?j = "job_of acct f path mode kind whole (sy_db s2)"
      have quiet: "fj_initial ?j \<or> \<not> fj_notify ?j"
        using assms(1) by (auto simp: job_of_def notify_allowed_for_folder_type_def)
      have "sy_notes s' = sy_notes s2"
        using body h run_windows_quiet [OF quiet] by (auto simp: chunk_loop_windows)
      with n2 show ?thesis by simp
    next
      case False
      with body n2 show ?thesis by (auto simp: map_db_def split: sum.splits option.splits if_splits)
    qed
  qed
qed

lemma sync_folder_quiet:
  assumes "folder_at (sy_db s) acct path = Some f"
    "prev_last_uid f = 0 \<or> f_type f \<in> {''SPAM'', ''TRASH'', ''SENT'', ''DRAFTS''}"
    "sync_folder E acct path mode kind whole s = (r, s')"
  shows "sy_notes s' = sy_notes s"
proof -
  obtain r1 s1 where one: "call_backend (folder_status (se_backend E) path) s = (r1, s1)" by fastforce
  have n1: "sy_notes s1 = sy_notes s" using one by (rule call_notes)
  show ?thesis
  proof (cases r1)
    case (Inl e)
    with assms one n1 show ?thesis by (simp add: sync_folder_def)
  next
    case (Inr st)
    have "sy_notes (check_uidvalidity f (st_uidvalidity st) s1) = sy_notes s1"
      by (simp add: check_uidvalidity_def map_db_def purge_folder_def Let_def split: option.split)
    moreover have "sync_folder_from E acct f path mode kind whole (check_uidvalidity f (st_uidvalidity st) s1) = (r, s')"
      using assms one Inr by (simp add: sync_folder_def)
    ultimately show ?thesis using sync_folder_from_quiet [OF assms(2)] n1 by metis
  qed
qed

section \<open>The states of an account\<close>

lemma do_sync_states:
  "ss_state (account_status (sy_manager (do_sync clock acct run s)) acct) \<in> {''idle'', ''error'', ''reauth_required''}"
proof (cases "ss_state (account_status (sy_manager s) acct) = ''reauth_required''")
  case True
  then show ?thesis by (simp add: do_sync_def)
next
  case False
  obtain res s2 where run: "run (publish_sync_status acct
      (s\<lparr>sy_manager := set_state acct ''syncing'' None None (sy_manager s)\<rparr>)) = (res, s2)" by fastforce
  show ?thesis
    using False unfolding do_sync_def Let_def run
    by (simp add: publish_sync_status_def split: option.split sum.split)
qed

lemma do_sync_reauth:
  assumes "ss_state (account_status (sy_manager s) acct) \<noteq> ''reauth_required''"
    "run (publish_sync_status acct (s\<lparr>sy_manager := set_state acct ''syncing'' None None (sy_manager s)\<rparr>))
       = (Some (Inl (Message (''oauth_reauthentication_required:'' @ t))), s2)"
  shows "ss_state (account_status (sy_manager (do_sync clock acct run s)) acct) = ''reauth_required''"
  using assms unfolding do_sync_def Let_def
  by (simp add: publish_sync_status_def show_sync_error_def starts_with_def)

lemma reauth_is_sticky:
  "ss_state (account_status (sy_manager s) acct) = ''reauth_required'' \<Longrightarrow> do_sync clock acct run s = s"
  by (simp add: do_sync_def)

end
