(* ===== verification/Samples.thy ===== *)
theory Samples
  imports Sync_Cycle
begin

text \<open>
  Concrete values at which the properties are exercised: one account with an inbox of two messages,
  an outbox entry and two remote ids, the parsers and codecs of a plain-text mailbox, a Graph server
  that answers every request the same way, and an IMAP-like backend without messages.
\<close>

section \<open>A database\<close>

definition sample_account :: account_row where
  "sample_account = \<lparr>a_id = ''acc'', a_display_name = ''Work'', a_email = ''me@x.org'',
     a_provider_kind = ''outlook_api'', a_body_sync_mode = ''lazy'', a_sync_mode = ''interval'',
     a_sync_interval = 300, a_credentials = ''{}'', a_imap_host = [], a_imap_port = 993,
     a_auth_scheme = ''plain'', a_tls_cert = None\<rparr>"

definition sample_message :: "nat \<Rightarrow> int \<Rightarrow> bool \<Rightarrow> message_row" where
  "sample_message mid uid seen = \<lparr>m_id = mid, m_account = ''acc'', m_folder = 1, m_uid = uid,
     m_message_id = None, m_thread_id = None, m_in_reply_to = None, m_references = None, m_list_id = None,
     m_subject = ''hi'', m_subject_normalized = ''hi'', m_snippet = ''hi'', m_from = ''a@x.org'',
     m_to = [], m_cc = [], m_date = None, m_internal_date = ''2024'', m_read = seen, m_flagged = False,
     m_deleted = False, m_verdict = None, m_local_draft = False\<rparr>"

definition sample_folder :: folder_row where
  "sample_folder = \<lparr>f_id = 1, f_account = ''acc'', f_name = ''Inbox'', f_path = ''INBOX'', f_type = ''INBOX'',
     f_uidvalidity = Some 7, f_last_uid = Some 2, f_unread = 1, f_live = 2, f_sync_enabled = True,
     f_page_token = None, f_backfill_complete = True\<rparr>"

definition sample_op :: pending_row where
  "sample_op = \<lparr>p_id = 12, p_account = ''acc'', p_path = ''INBOX'', p_uid = 1, p_flag = ''seen'', p_value = True,
     p_attempts = 0\<rparr>"

definition sample_remote :: "nat \<Rightarrow> string \<Rightarrow> remote_row" where
  "sample_remote uid x = \<lparr>r_account = ''acc'', r_path = ''INBOX'', r_uid = int uid, r_remote = x\<rparr>"

definition sample_db :: mail_db where
  "sample_db = \<lparr>messages = [sample_message 10 1 True, sample_message 11 2 False], folders = [sample_folder],
     pending = [sample_op], remotes = [sample_remote 1 ''r1'', sample_remote 2 ''r2''],
     accounts = [sample_account], trusted_senders = [], analysis = [], user_brands = [], next_id = 20\<rparr>"

lemmas sample_defs = sample_db_def sample_message_def sample_folder_def sample_op_def sample_remote_def sample_account_def

lemma sample_db_ok: "db_ok sample_db"
  by (simp add: db_ok_def counts_ok_def folder_counts_ok_def count_live_def count_unread_def is_live_in_def
      is_unread_in_def uids_ok_def ids_ok_def fids_ok_def pending_ok_def pending_key_def sample_defs)

lemma sample_uids_ok: "uids_ok sample_db"
  using sample_db_ok by (simp add: db_ok_def)

lemma sample_pending_ok: "pending_ok sample_db"
  using sample_db_ok by (simp add: db_ok_def)

lemma sample_map_ok: "remotes_ok sample_db" "uids_u32 sample_db"
  by (simp_all add: remotes_ok_def uids_u32_def sample_defs u32_max_def)

section \<open>Parsers and codecs\<close>

definition sample_part :: "string \<Rightarrow> mail_part" where
  "sample_part raw = MailPart ''text/plain'' (\<lambda>_. None) (Some raw) (Some raw) (\<lambda>_. None) []"

definition sample_phish :: phish_env where
  "sample_phish = \<lparr>pe_parse = (\<lambda>raw. Some (sample_part raw)),
     pe_headers = (\<lambda>raw name. if name = ''From'' then Some raw else None),
     pe_address = (\<lambda>a. Some (None, a)), pe_levenshtein = (\<lambda>a b. 9), pe_to_unicode = (\<lambda>d. (d, True)),
     pe_anchors = (\<lambda>_. []), pe_text_url = (\<lambda>_. None), pe_json = (\<lambda>_. ''[]''), pe_order = (\<lambda>gs. gs)\<rparr>"

definition sample_feed :: phish_feed where
  "sample_feed = \<lparr>fd_urls = [], fd_domains = []\<rparr>"

text \<open>A body codec: two presence flags, the length of the HTML text in unary, then both texts.\<close>

definition flag_of :: "string option \<Rightarrow> char" where
  "flag_of t = (case t of None \<Rightarrow> CHR ''n'' | Some _ \<Rightarrow> CHR ''s'')"

definition write_texts :: "string option \<Rightarrow> string option \<Rightarrow> string" where
  "write_texts h t = flag_of h # flag_of t # replicate (length (or_empty h)) (CHR ''x'') @ CHR ''.'' # or_empty h @ or_empty t"

definition read_texts :: "string \<Rightarrow> (string option \<times> string option) option" where
  "read_texts s = (case s of a # b # r \<Rightarrow>
       (let n = length (takeWhile (\<lambda>c. c = CHR ''x'') r); q = drop (Suc n) r in
        Some (if a = CHR ''s'' then Some (take n q) else None, if b = CHR ''s'' then Some (drop n q) else None))
     | _ \<Rightarrow> None)"

lemma read_write_texts: "read_texts (write_texts h t) = Some (h, t)"
proof -
  have "takeWhile (\<lambda>c. c = CHR ''x'') (replicate n (CHR ''x'') @ CHR ''.'' # r) = replicate n (CHR ''x'')" for n r
    by (induction n) simp_all
  then show ?thesis
    by (cases h; cases t) (simp_all add: read_texts_def write_texts_def flag_of_def or_empty_def Let_def)
qed

definition sample_content :: content_env where
  "sample_content = \<lparr>ce_parse = (\<lambda>raw. Some (sample_part raw)),
     ce_body_json = write_texts, ce_read_json = read_texts,
     ce_compress = (\<lambda>s. s), ce_decompress = Some, ce_put = (\<lambda>_. True)\<rparr>"

lemma sample_codecs: "codecs_ok sample_content"
  by (simp add: codecs_ok_def sample_content_def read_write_texts)

definition empty_content :: content_db where
  "empty_content = \<lparr>cd_bodies = [], cd_attachments = [], cd_fts = [], cd_blobs = Map.empty\<rparr>"

section \<open>Servers\<close>

text \<open>A Graph server that answers every request with the same read, unflagged message.\<close>

definition sample_http :: "unit http" where
  "sample_http = pure_http (\<lambda>url r. Inr (200, ''x'')) (\<lambda>meth url body r. (Inr (200, ''x''), r))
     (\<lambda>body. Some (JObj [(''isRead'', JBool True)])) (\<lambda>_. [])"

definition sample_outlook :: "unit outlook" where
  "sample_outlook = \<lparr>ol_http = sample_http, ol_account = ''acc'', ol_headers = (\<lambda>_. None),
     ol_parse_header = (\<lambda>_. None), ol_now = ''2024'', ol_encode = (\<lambda>s. s)\<rparr>"

text \<open>A mailbox without messages, whose server has a new validity number for every folder.\<close>

definition empty_mailbox :: "unit backend" where
  "empty_mailbox =
     \<lparr>list_folders = (\<lambda>s. (Inr [], s)),
      folder_status = (\<lambda>path s. (Inr \<lparr>st_uidvalidity = 8, st_exists = 0\<rparr>, s)),
      highest_uid = (\<lambda>path s. (Inr None, s)),
      fetch_flags = (\<lambda>path uids s. (Inr [], s)), fetch_headers = (\<lambda>path uids s. (Inr [], s)),
      fetch_full = (\<lambda>path uids s. (Inr [], s)), fetch_raw = (\<lambda>path uid s. (Inr [], s)),
      set_flag = (\<lambda>path uid flag v s. (Inr (), s)), move_message = (\<lambda>path uid dest s. (Inr (), s)),
      delete_permanently = (\<lambda>path uid s. (Inr (), s))\<rparr>"

lemma empty_mailbox_backend: "mail_backend empty_mailbox"
  by unfold_locales (simp_all add: empty_mailbox_def keeps_frame_def)

definition sample_env :: "unit sync_env" where
  "sample_env = \<lparr>se_backend = empty_mailbox, se_connect = (\<lambda>_ _. None), se_decrypt = Some,
     se_parse_json = (\<lambda>_. Some (JObj [])), se_token = (\<lambda>_. Inr None), se_cert = (\<lambda>c. c), se_hash = (\<lambda>s. s),
     se_now = ''2024'', se_clock = ''2024'', se_content = sample_content, se_phish = sample_phish,
     se_brands = [], se_feed = sample_feed, se_json = (\<lambda>_. [])\<rparr>"

lemma sample_ranged: "ranged_cycle sample_env"
proof -
  have "mail_backend (se_backend sample_env)" by (simp add: sample_env_def empty_mailbox_backend)
  then show ?thesis
    by (simp add: ranged_cycle_def ranged_cycle_axioms_def sync_cycle_def)
       (simp add: sample_env_def empty_mailbox_def)
qed

definition sample_state :: "unit sync_state" where
  "sample_state = \<lparr>sy_db = sample_db, sy_server = (), sy_content = empty_content,
     sy_calendar = \<lparr>invitations = [], calendar_events = []\<rparr>, sy_manager = new_manager, sy_notes = [], sy_published = []\<rparr>"

text \<open>
  A folder that was renumbered: it has the uids 1 to 3 under a new validity number, and answers the
  fetch of the uids behind the old cursor with the message 3.
\<close>

definition sample_fetched :: "nat \<Rightarrow> fetched_message" where
  "sample_fetched uid = (blank_message uid ''2024'' False False)\<lparr>fm_subject := ''new''\<rparr>"

definition renumbered_mailbox :: "unit backend" where
  "renumbered_mailbox = empty_mailbox
     \<lparr>folder_status := (\<lambda>path s. (Inr \<lparr>st_uidvalidity = 8, st_exists = 3\<rparr>, s)),
      highest_uid := (\<lambda>path s. (Inr (Some 3), s)),
      fetch_headers := (\<lambda>path uids s. (Inr (if uids = ''3:3'' then [sample_fetched 3] else []), s))\<rparr>"

definition renumbered_env :: "unit sync_env" where
  "renumbered_env = sample_env\<lparr>se_backend := renumbered_mailbox\<rparr>"

lemma uid_range_three: "uid_range a b = ''3:3'' \<Longrightarrow> a = 3 \<and> b = 3"
proof -
  assume range: "uid_range a b = ''3:3''"
  have colon: "CHR '':'' \<notin> set (show_nat n)" for n by (auto dest!: show_nat_digits)
  have "split_once (CHR '':'') (uid_range a b) = Some (show_nat a, show_nat b)"
    using split_once_append [OF colon] by (simp add: uid_range_def)
  moreover have "show_nat 3 = ''3''" by code_simp
  ultimately have "show_nat a = show_nat 3" "show_nat b = show_nat 3"
    by (auto simp: range)
  then show ?thesis using show_nat_inj by blast
qed

lemma renumbered_ranged: "ranged_cycle renumbered_env"
proof -
  have "mail_backend (se_backend renumbered_env)"
    using empty_mailbox_backend
    by (auto simp: mail_backend_def renumbered_env_def renumbered_mailbox_def keeps_frame_def)
  moreover have "ranged_cycle_axioms renumbered_env"
  proof
    fix path a b s ms s' m
    assume "fetch_headers (se_backend renumbered_env) path (uid_range a b) s = (Inr ms, s')" "m \<in> set ms"
    then show "a \<le> fm_uid m \<and> fm_uid m \<le> b"
      using uid_range_three [of a b]
      by (auto simp: renumbered_env_def renumbered_mailbox_def sample_fetched_def blank_message_def split: if_splits)
  next
    fix path a b s ms s' m
    assume "fetch_full (se_backend renumbered_env) path (uid_range a b) s = (Inr ms, s')" "m \<in> set ms"
    then show "a \<le> fm_uid m \<and> fm_uid m \<le> b"
      by (auto simp: renumbered_env_def renumbered_mailbox_def empty_mailbox_def)
  qed
  ultimately show ?thesis by (simp add: ranged_cycle_def sync_cycle_def)
qed

end
