(* ===== verification/Mail_Properties.thy ===== *)
theory Mail_Properties
  imports Samples
begin

text \<open>
  The properties of the pipeline that turns one fetched message into stored rows: its thread, its
  decoded headers and parts, its phishing report, its stored body, and the calendar parts in it.
\<close>

section \<open>Threads\<close>

lemma split_by_word: "\<forall>c \<in> set s. \<not> P c \<Longrightarrow> split_by P s = [s]"
  by (induction s) auto

text \<open>The reply joins the thread of the oldest reference that is already stored: when the
  reference list names a known message, the thread id is the one stored with the leftmost known
  reference, whatever the other headers say.\<close>

theorem reply_joins_oldest_known_thread:
  assumes "i < length (split_whitespace refs)"
    and "existing (clean_id (split_whitespace refs ! i)) = Some tid"
    and "\<forall>j < i. existing (clean_id (split_whitespace refs ! j)) = None"
  shows "assign_thread_id H now mid irt (Some refs) lid subject existing = tid"
proof -
  have "first_known existing rs = Some t"
    if "i < length rs" "existing (clean_id (rs ! i)) = Some t" "\<forall>j < i. existing (clean_id (rs ! j)) = None" for rs i t
    using that
  proof (induction rs arbitrary: i)
    case (Cons r rs)
    show ?case
    proof (cases i)
      case 0
      with Cons.prems show ?thesis by simp
    next
      case (Suc k)
      have "\<forall>j < k. existing (clean_id (rs ! j)) = None"
        using Cons.prems(3) Suc by (metis Suc_mono nth_Cons_Suc)
      with Cons Suc show ?thesis by (metis Suc_less_eq first_known.simps(2) length_Cons nth_Cons_0 nth_Cons_Suc option.simps(4) zero_less_Suc)
    qed
  qed simp
  then show ?thesis
    using assms by (simp add: assign_thread_id_def jwz_root_def jwz_refs_def Let_def)
qed

theorem reply_joins_oldest_known_thread_witness:
  "assign_thread_id (\<lambda>s. s) ''now'' (Some ''<c>'') None (Some ''<a> <b>'') (Some ''list'') ''Re: x''
     [''b'' \<mapsto> ''t1''] = ''t1''"
proof (rule reply_joins_oldest_known_thread [where i = 1])
  show "1 < length (split_whitespace ''<a> <b>'')" by code_simp
  show "[''b'' \<mapsto> ''t1''] (clean_id (split_whitespace ''<a> <b>'' ! 1)) = Some ''t1''" by code_simp
  have "clean_id (split_whitespace ''<a> <b>'' ! 0) = ''a''" by code_simp
  then show "\<forall>j < 1. [''b'' \<mapsto> ''t1''] (clean_id (split_whitespace ''<a> <b>'' ! j)) = None" by simp
qed

text \<open>A message and the reply to it land in different threads.  The message is stored under its
  header as received, \<open><id>\<close>, and its own thread key is the digest of that text; the reply looks its
  reference up, and digests it, without the angle brackets.\<close>

theorem reply_leaves_its_root:
  assumes "key \<noteq> []" "\<forall>c \<in> set key. c \<noteq> CHR ''<'' \<and> c \<noteq> CHR ''>'' \<and> \<not> is_ws c"
    and "H (''<'' @ key @ ''>'') \<noteq> H key"
    and root: "tid = assign_thread_id H now (Some (''<'' @ key @ ''>'')) None None None subject Map.empty"
  shows "assign_thread_id H now' mid irt (Some (''<'' @ key @ ''>'')) lid subject' [''<'' @ key @ ''>'' \<mapsto> tid] \<noteq> tid"
proof -
  let ?h = "''<'' @ key @ ''>''"
  have ws: "\<not> is_ws c" if "c \<in> set ?h" for c
    using that assms(2) by (auto simp: is_ws_def)
  have one: "split_whitespace ?h = [?h]"
    using ws by (simp add: split_whitespace_def split_by_word)
  have "clean_id ?h = key"
  proof -
    let ?P = "\<lambda>c. c = CHR ''<'' \<or> c = CHR ''>''"
    have "dropWhile ?P key = key" "dropWhile ?P (rev key) = rev key"
      using assms(1,2) by (auto simp: dropWhile_eq_self_iff hd_rev)
    moreover have "\<not> list_all ?P key" using assms(1,2) by (cases key) auto
    ultimately show ?thesis
      by (simp add: clean_id_def trim_by_def trim_start_by_def trim_end_by_def dropWhile_all_append)
  qed
  moreover have "key \<noteq> ?h" by (rule notI, drule arg_cong [where f = length]) simp
  ultimately have "assign_thread_id H now' mid irt (Some ?h) lid subject' [?h \<mapsto> tid] = H key"
    using one by (simp add: assign_thread_id_def jwz_root_def jwz_refs_def Let_def thread_id_from_message_id_def)
  moreover have "tid = H ?h"
    using root by (simp add: assign_thread_id_def jwz_root_def thread_id_from_message_id_def)
  ultimately show ?thesis using assms(3) by simp
qed

theorem reply_leaves_its_root_witness:
  "assign_thread_id (\<lambda>s. s) ''2024'' (Some ''<r>'') (Some ''<a@x>'') (Some ''<a@x>'') None ''Re: hi''
     [''<a@x>'' \<mapsto> assign_thread_id (\<lambda>s. s) ''2023'' (Some ''<a@x>'') None None None ''hi'' Map.empty]
   \<noteq> assign_thread_id (\<lambda>s. s) ''2023'' (Some ''<a@x>'') None None None ''hi'' Map.empty"
  using reply_leaves_its_root [of "''a@x''" "\<lambda>s. s"
      "assign_thread_id (\<lambda>s. s) ''2023'' (Some ''<a@x>'') None None None ''hi'' Map.empty" "''2023''" "''hi''"
      "''2024''" "Some ''<r>''" "Some ''<a@x>''" None "''Re: hi''"]
  by (simp add: is_ws_def)

section \<open>Headers and parts\<close>

text \<open>Of a message the parser accepts, the text body is the first plain-text leaf that is no
  attachment, the HTML body the first such HTML leaf, and every attachment leaf becomes one attachment.\<close>

theorem parsed_body_of_message:
  assumes "parser raw = Some part"
  shows "\<exists>b. parse_mime parser raw = Some b
    \<and> pb_text b = map_option (\<lambda>p. or_empty (mp_body p)) (find (is_text_leaf ''text/plain'') (leaves part))
    \<and> pb_html b = map_option (\<lambda>p. or_empty (mp_body p)) (find (is_text_leaf ''text/html'') (leaves part))
    \<and> length (pb_attachments b) = length (filter is_attachment (leaves part))"
  using assms
  by (simp add: parse_mime_def walk_parts_leaves fold_add_leaf_text fold_add_leaf_html fold_add_leaf_attachments
      empty_body_def)

theorem parsed_body_of_message_witness:
  "\<exists>b. parse_mime (\<lambda>raw. Some (MailPart ''text/plain'' (\<lambda>_. None) (Some raw) None (\<lambda>_. None) [])) ''hello'' = Some b
    \<and> pb_text b = Some ''hello''"
  using parsed_body_of_message [of "\<lambda>raw. Some (MailPart ''text/plain'' (\<lambda>_. None) (Some raw) None (\<lambda>_. None) [])"
      "''hello''" "MailPart ''text/plain'' (\<lambda>_. None) (Some ''hello'') None (\<lambda>_. None) []"]
  by (auto simp: is_text_leaf_def is_attachment_def content_id_of_def or_empty_def to_lower_def ascii_lower_def
      starts_with_iff)

section \<open>The phishing report\<close>

text \<open>The score of a report is the sum of what each rule contributes, each rule counted once and
  link mismatches capped at 60 points; it lies between 0 and 440, and the verdict is the band of the
  score.  (The hypothesis says the hash map of the brands yields each of its entries.)\<close>

theorem report_score:
  assumes "\<And>gs. set (pe_order E gs) = set gs"
    and "pe_parse E raw = Some parsed" "\<not> trusted_sender E trusted (pe_headers E raw ''From'')"
  shows "rp_score (analyse E raw brands feed trusted)
       = rule_score E (pe_headers E raw) (extract_html parsed) brands feed
    \<and> 0 \<le> rp_score (analyse E raw brands feed trusted) \<and> rp_score (analyse E raw brands feed trusted) \<le> 440
    \<and> rp_verdict (analyse E raw brands feed trusted) = verdict_for (rp_score (analyse E raw brands feed trusted))"
proof -
  have "rp_score (analyse E raw brands feed trusted) = points (all_checks E raw parsed brands feed)"
    using assms(2,3) by (simp add: analyse_def Let_def points_def)
  moreover have "rp_verdict (analyse E raw brands feed trusted) = verdict_for (rp_score (analyse E raw brands feed trusted))"
    using assms(2,3) by (simp add: analyse_def Let_def)
  moreover have "points (all_checks E raw parsed brands feed)
      = rule_score E (pe_headers E raw) (extract_html parsed) brands feed"
    by (rule all_checks_points [OF assms(1)])
  ultimately show ?thesis using rule_score_bounds by simp
qed

theorem report_score_witness:
  "rp_score (analyse sample_phish ''a@x.org'' [] sample_feed []) = 0
   \<and> rp_verdict (analyse sample_phish ''a@x.org'' [] sample_feed []) = ''clean''"
proof -
  have "trusted_sender sample_phish [] (pe_headers sample_phish ''a@x.org'' ''From'') = False"
    by (simp add: trusted_sender_def)
  moreover have "rule_score sample_phish (pe_headers sample_phish ''a@x.org'')
      (extract_html (sample_part ''a@x.org'')) [] sample_feed = 0"
    by code_simp
  ultimately show ?thesis
    using report_score [of sample_phish "''a@x.org''" "sample_part ''a@x.org''" "[]" "[]" sample_feed]
    by (simp add: sample_phish_def verdict_for_def)
qed

definition batch_report :: "phish_env \<Rightarrow> (string \<times> string) list \<Rightarrow> phish_feed \<Rightarrow> mail_db \<Rightarrow> string \<Rightarrow> report" where
  "batch_report E file_brands feed db raw = analyse E raw (user_brands db @ file_brands) feed (trusted_senders db)"

section \<open>Bodies\<close>

text \<open>C30: a body that was fetched on demand is what a read of the message directly after the fetch returns, when
  the message had no body row under another key.  (Later the body may change: see
  \<open>body_of_other_folder_is_replaced\<close>.)\<close>

theorem fetched_body_is_read_back:
  assumes "codecs_ok C" "key_free_or c mid (blob_key_body acct uid)"
    and "fetch_body_by_uid C E brands feed acct uid mid raw (db, c) = (Inr ht, db', c')"
  shows "stored_body C c' mid = Some ht"
  using assms(3)
proof (rule fetch_body_effect)
  fix p assume "parse_mime (ce_parse C) raw = Some p" and ht: "ht = (pb_html p, pb_text p)"
    and "cd_blobs c' (blob_key_body acct uid) = Some (ce_compress C (body_bytes C p))"
    and "key_free_or c mid (blob_key_body acct uid) \<Longrightarrow> body_key_is c' mid (blob_key_body acct uid)"
  then show ?thesis using stored_body_eq [OF assms(1)] assms(2) by blast
qed

theorem fetched_body_is_read_back_witness:
  "stored_body sample_content (snd (snd (fetch_body_by_uid sample_content sample_phish [] sample_feed ''acc'' 1 10 ''hello''
      (sample_db, empty_content)))) 10 = Some (None, Some ''hello'')"
proof (rule fetched_body_is_read_back [OF sample_codecs])
  show "key_free_or empty_content 10 (blob_key_body ''acc'' 1)" by (simp add: key_free_or_def empty_content_def)
  have "parse_mime (ce_parse sample_content) ''hello'' = Some (walk_parts (sample_part ''hello'') empty_body)"
    by (simp add: parse_mime_def sample_content_def)
  moreover have "walk_parts (sample_part ''hello'') empty_body = empty_body\<lparr>pb_text := Some ''hello''\<rparr>" by code_simp
  ultimately show "fetch_body_by_uid sample_content sample_phish [] sample_feed ''acc'' 1 10 ''hello'' (sample_db, empty_content)
      = (Inr (None, Some ''hello''), fst (snd (fetch_body_by_uid sample_content sample_phish [] sample_feed ''acc'' 1 10 ''hello''
           (sample_db, empty_content))), snd (snd (fetch_body_by_uid sample_content sample_phish [] sample_feed ''acc'' 1 10 ''hello''
           (sample_db, empty_content))))"
    by (simp add: fetch_body_by_uid_def store_body_def put_blob_def sample_content_def empty_body_def Let_def)
qed

text \<open>The blob key of a body names the account and the uid but not the folder, and uids are
  only unique within a folder: fetching the body of a message replaces the stored body of every
  message of the account that has the same uid in another folder.\<close>

theorem body_of_other_folder_is_replaced:
  assumes "codecs_ok C"
    and "fetch_body_by_uid C E brands feed acct uid mid raw (db, c) = (Inr ht, db1, c1)"
    and "body_key_is c other (blob_key_body acct uid)"
  shows "stored_body C c1 other = Some ht"
  using assms(2)
proof (rule fetch_body_effect)
  fix p assume "ht = (pb_html p, pb_text p)"
    and "cd_blobs c1 (blob_key_body acct uid) = Some (ce_compress C (body_bytes C p))"
    and "\<And>other key. body_key_is c other key \<Longrightarrow> body_key_is c1 other key"
  then show ?thesis using stored_body_eq [OF assms(1)] assms(3) by blast
qed

definition shared_key :: content_db where
  "shared_key = empty_content\<lparr>cd_bodies :=
     [\<lparr>br_message = 11, br_key = blob_key_body ''acc'' 1, br_size = 3, br_size_uncompressed = 3\<rparr>]\<rparr>"

theorem body_of_other_folder_is_replaced_witness:
  "stored_body sample_content (snd (snd (fetch_body_by_uid sample_content sample_phish [] sample_feed ''acc'' 1 10 ''hello''
      (sample_db, shared_key)))) 11 = Some (None, Some ''hello'')"
proof -
  let ?r = "fetch_body_by_uid sample_content sample_phish [] sample_feed ''acc'' 1 10 ''hello'' (sample_db, shared_key)"
  have "parse_mime (ce_parse sample_content) ''hello'' = Some (walk_parts (sample_part ''hello'') empty_body)"
    by (simp add: parse_mime_def sample_content_def)
  moreover have "walk_parts (sample_part ''hello'') empty_body = empty_body\<lparr>pb_text := Some ''hello''\<rparr>" by code_simp
  ultimately have "fst ?r = Inr (None, Some ''hello'')"
    by (simp add: fetch_body_by_uid_def store_body_def put_blob_def sample_content_def empty_body_def Let_def)
  then have "?r = (Inr (None, Some ''hello''), fst (snd ?r), snd (snd ?r))" by (simp add: prod_eq_iff)
  moreover have "body_key_is shared_key 11 (blob_key_body ''acc'' 1)"
    by (simp add: body_key_is_def shared_key_def)
  ultimately show ?thesis by (intro body_of_other_folder_is_replaced [OF sample_codecs])
qed

section \<open>Calendar parts\<close>

text \<open>C32: a timed event without recurrence rule, organizer and attendees, rendered as iCalendar text, reads back
  with the same uid, title, start, end, location and description, when its times are UTC times of the form
  2024-05-06T07:08:09Z, its uid is trimmed and one line, and title, location and description are trimmed and
  hold no backslash and no line break.\<close>

theorem rendered_event_parses_back:
  assumes "\<not> ei_all_day ev" "ei_rrule ev = None" "ei_organizer_email ev = None" "ei_attendees_json ev = None"
    and "trim (ei_uid ev) = ei_uid ev" "cr \<notin> set (ei_uid ev)" "lf \<notin> set (ei_uid ev)"
    and "cr \<notin> set stamp" "lf \<notin> set stamp"
    and "text_ok (ei_title ev)" "\<And>l. ei_location ev = Some l \<Longrightarrow> text_ok l"
      "\<And>d. ei_description ev = Some d \<Longrightarrow> text_ok d"
    and "ei_starts_at ev = utc_text y mo d h mi s" "digit_field 4 y" "digit_field 2 mo" "digit_field 2 d"
      "digit_field 2 h" "digit_field 2 mi" "digit_field 2 s"
    and "ei_ends_at ev = utc_text y' mo' d' h' mi' s'" "digit_field 4 y'" "digit_field 2 mo'" "digit_field 2 d'"
      "digit_field 2 h'" "digit_field 2 mi'" "digit_field 2 s'"
  shows "map core_event (parse_icalendar_events js (build_ics of_js stamp ev)) =
     [(ei_uid ev, ei_title ev, ei_starts_at ev, ei_ends_at ev, False,
       non_empty (ei_location ev), non_empty (ei_description ev))]"
  using assms by (rule parse_built_event)

theorem rendered_event_parses_back_witness:
  "map core_event (parse_icalendar_events (\<lambda>_. []) (build_ics (\<lambda>_. None) ''20240101T000000Z''
      \<lparr>ei_uid = ''u1'', ei_title = ''Team, sync'', ei_starts_at = ''2024-05-06T07:08:09Z'',
       ei_ends_at = ''2024-05-06T08:00:00Z'', ei_all_day = False, ei_location = Some ''Room 1'',
       ei_description = None, ei_rrule = None, ei_attendees_json = None, ei_organizer_email = None,
       ei_organizer_name = None\<rparr>)) =
   [(''u1'', ''Team, sync'', ''2024-05-06T07:08:09Z'', ''2024-05-06T08:00:00Z'', False, Some ''Room 1'', None)]"
proof -
  let ?ev = "\<lparr>ei_uid = ''u1'', ei_title = ''Team, sync'', ei_starts_at = ''2024-05-06T07:08:09Z'',
       ei_ends_at = ''2024-05-06T08:00:00Z'', ei_all_day = False, ei_location = Some ''Room 1'',
       ei_description = None, ei_rrule = None, ei_attendees_json = None, ei_organizer_email = None,
       ei_organizer_name = None\<rparr> :: event_input"
  have texts: "text_ok ''Team, sync''" "text_ok ''Room 1''" "trim ''u1'' = ''u1''" "cr \<notin> set ''u1''" "lf \<notin> set ''u1''"
    "cr \<notin> set ''20240101T000000Z''" "lf \<notin> set ''20240101T000000Z''"
    by code_simp+
  have digits: "digit_field 4 ''2024''" "digit_field 2 ''05''" "digit_field 2 ''06''" "digit_field 2 ''07''"
    "digit_field 2 ''08''" "digit_field 2 ''09''" "digit_field 2 ''00''"
    by code_simp+
  have dates: "''2024-05-06T07:08:09Z'' = utc_text ''2024'' ''05'' ''06'' ''07'' ''08'' ''09''"
    "''2024-05-06T08:00:00Z'' = utc_text ''2024'' ''05'' ''06'' ''08'' ''00'' ''00''"
    by (simp_all add: utc_text_def)
  show ?thesis
    using rendered_event_parses_back [of ?ev "''20240101T000000Z''" "''2024''" "''05''" "''06''" "''07''" "''08''" "''09''"
        "''2024''" "''05''" "''06''" "''08''" "''00''" "''00''" "\<lambda>_. []" "\<lambda>_. None"] texts digits dates
    by (simp add: non_empty_def)
qed

text \<open>Text with a backslash does not survive the round trip: the escaped backslash is only undone
  after the escaped newline was looked for, so backslash n reads back as backslash and newline.\<close>

theorem escaped_backslash_is_misread:
  "unescape_ical (escape_ical [CHR 0x5C, CHR ''n'']) = [CHR 0x5C, lf]"
  by (rule unescape_escape_backslash)

text \<open>C33: whatever calendar parts a message carries, a message holds at most one invitation per event
  uid afterwards, and the invitations of other messages are exactly what they were.\<close>

theorem one_invitation_per_event:
  assumes "invitations_ok c"
  shows "invitations_ok (process_calendar_parts js mid parts c)
    \<and> filter (\<lambda>r. in_message r \<noteq> mid) (invitations (process_calendar_parts js mid parts c))
      = filter (\<lambda>r. in_message r \<noteq> mid) (invitations c)"
proof -
  let ?other = "\<lambda>c. filter (\<lambda>r. in_message r \<noteq> mid) (invitations c)"
  have replace: "?other (replace_invitation r c) = ?other c" if "in_message r = mid" for r c
    using that by (auto simp: replace_invitation_def intro: filter_cong)
  have event: "?other (process_event mid meth raw ev c) = ?other c" for meth raw ev c
    by (simp add: process_event_def replace invitation_of_def)
  have events: "?other (fold (process_event mid meth raw) evs c) = ?other c" for meth raw evs c
    by (induction evs arbitrary: c) (simp_all add: event)
  have "?other (fold (process_part js mid) ps c) = ?other c" for ps
    by (induction ps arbitrary: c) (simp_all add: process_part_def Let_def events)
  then show ?thesis
    using process_parts_ok [OF assms] by (simp add: process_calendar_parts_def)
qed

text \<open>Two messages hold an invitation of an event; one of them is stored again with an update of it.\<close>

definition invited :: "nat \<Rightarrow> invitation_row" where
  "invited mid = \<lparr>in_message = mid, in_method = ''REQUEST'', in_uid = ''u1'', in_summary = ''old'', in_start = [], in_end = [],
     in_organizer = None, in_attendees = ''[]'', in_rsvp = ''accepted'', in_raw = [], in_teams = None\<rparr>"

definition invitation_part :: string where
  "invitation_part = join_with [lf] [''BEGIN:VCALENDAR'', ''METHOD:REQUEST'', ''BEGIN:VEVENT'', ''UID:u1'', ''SUMMARY:new'',
     ''DTSTART:20240506T070809Z'', ''DTEND:20240506T080000Z'', ''END:VEVENT'', ''END:VCALENDAR'']"

theorem one_invitation_per_event_witness:
  "\<exists>c. process_calendar_parts (\<lambda>_. []) 10 [invitation_part] \<lparr>invitations = [invited 10, invited 11], calendar_events = []\<rparr> = c
    \<and> map (\<lambda>r. (in_message r, in_uid r, in_summary r)) (invitations c) = [(11, ''u1'', ''old''), (10, ''u1'', ''new'')]
    \<and> filter (\<lambda>r. in_message r \<noteq> 10) (invitations c) = [invited 11] \<and> invitations_ok c"
proof -
  let ?c = "\<lparr>invitations = [invited 10, invited 11], calendar_events = []\<rparr>"
  have "map (\<lambda>r. (in_message r, in_uid r, in_summary r)) (invitations (process_calendar_parts (\<lambda>_. []) 10 [invitation_part] ?c))
      = [(11, ''u1'', ''old''), (10, ''u1'', ''new'')]" by code_simp
  moreover have "invitations_ok ?c" by (simp add: invitations_ok_def invited_def)
  ultimately show ?thesis
    using one_invitation_per_event [of ?c "\<lambda>_. []" 10 "[invitation_part]"] by (simp add: invited_def)
qed

end
