(* ===== verification/Server_Properties.thy ===== *)
theory Server_Properties
  imports Samples
begin

text \<open>
  The properties of what stands between the local database and the mail server: the durable outbox
  of flag changes, the reconciliation of stored flags with the server's, the uid map of the API
  providers, the retrying HTTP client, and the manager of the account tasks.
\<close>

section \<open>The outbox\<close>

text \<open>C29: a change the user makes while the same flag is being pushed is lost: the row keeps its id when
  its value is replaced, and the confirmation of the old value deletes the row by that id.\<close>

theorem confirmation_drops_newer_change:
  assumes "pending_ok db" "op \<in> set (pending db)"
  shows "pending_value (settle_op op (Inr ()) (enqueue_flag_op (p_account op) (p_uid op) (p_path op) (p_flag op) v db))
      (p_account op) (p_path op) (p_uid op) (p_flag op) = None"
  using assms by (rule settle_drops_newer_change)

theorem confirmation_drops_newer_change_witness:
  "pending_value (settle_op sample_op (Inr ()) (enqueue_flag_op ''acc'' 1 ''INBOX'' ''seen'' False sample_db))
     ''acc'' ''INBOX'' 1 ''seen'' = None"
  using confirmation_drops_newer_change [OF sample_pending_ok, of sample_op False]
  by (simp add: sample_defs)

section \<open>Reconciliation\<close>

text \<open>What a row has to become: \<open>sv\<close> is the server's view of the folder, \<open>queued\<close> tells which flags of
  the message have a local change that was not pushed yet.\<close>

definition agreed_row :: "(nat \<rightharpoonup> bool \<times> bool \<times> bool) \<Rightarrow> (string \<Rightarrow> bool) \<Rightarrow> message_row \<Rightarrow> message_row" where
  "agreed_row sv queued m =
     (case sv (nat (m_uid m)) of
        None \<Rightarrow> m\<lparr>m_deleted := True\<rparr>
      | Some (seen, flagged, gone) \<Rightarrow>
          m\<lparr>m_read := (if queued ''seen'' then m_read m else seen),
            m_flagged := (if queued ''flagged'' then m_flagged m else flagged),
            m_deleted := (gone \<or> m_deleted m)\<rparr>)"

lemma reconciled_agreed:
  "reconciled_row sv (pending_flags_by_uid acct path db) m =
     agreed_row sv (\<lambda>flag. pending_value db acct path (m_uid m) flag \<noteq> None) m"
  by (simp add: reconciled_row_def agreed_row_def pending_entry_eq pending_value_def find_None_eq merge_flags_def
      set_flags_row_def row_flags_def split: option.split)

text \<open>C4: over a Graph server whose answers do not depend on the requests made, reconciling a folder
  makes every stored row of the uid range agree with the server: a row the server does not have is
  deleted, any other row takes the server's flags, except a flag whose local change is still queued.
  Rows outside the range are untouched.\<close>

theorem reconcile_agrees_with_server:
  assumes "up_to \<le> u32_max" "uids_ok db" "map_ok db"
    and "reconcile_flags (outlook_backend (o'\<lparr>ol_http := pure_http get rest parse render\<rparr>)) acct fid path up_to (db, r) = (Inr (), db', r')"
  shows "messages db' = map (\<lambda>m. if in_range fid 1 up_to m
      then agreed_row (graph_view (o'\<lparr>ol_http := pure_http get rest parse render\<rparr>) (db, r) path)
        (\<lambda>flag. pending_value db acct path (m_uid m) flag \<noteq> None) m else m) (messages db)"
  unfolding reconciled_agreed [symmetric] using assms by (rule ol_flags.reconcile_flags_refines)

theorem reconcile_agrees_with_server_witness:
  "\<exists>db' r'. reconcile_flags (outlook_backend sample_outlook) ''acc'' 1 ''INBOX'' 2 (sample_db, ()) = (Inr (), db', r')
    \<and> map m_read (messages db') = [True, True]"
proof -
  let ?o = "sample_outlook\<lparr>ol_http := pure_http (\<lambda>url r. Inr (200, ''x'')) (\<lambda>meth url body r. (Inr (200, ''x''), r))
     (\<lambda>body. Some (JObj [(''isRead'', JBool True)])) (\<lambda>_. [])\<rparr>"
  have o: "?o = sample_outlook" by (simp add: sample_outlook_def sample_http_def)
  have json: "get_json (ol_http sample_outlook) url r = (Inr (JObj [(''isRead'', JBool True)]), r)" for url r
    by (simp add: get_json_def get_json_from.simps get_json_once_def send_def check_def is_success_def
        sample_outlook_def sample_http_def pure_http_def)
  have acct: "ol_account sample_outlook = ''acc''" by (simp add: sample_outlook_def)
  have st: "state_of now (JObj [(''isRead'', JBool True)]) = (True, False, now)" for now by (simp add: state_of_def)
  have "resolve_set ''acc'' ''INBOX'' (uid_range 1 2) sample_db = Inr [(1, ''r1''), (2, ''r2'')]"
    by (simp add: resolve_uid_range rows_where_def map_rows_def in_map_def sample_defs cast_u32_def u32_max_def)
  then have fetch: "fetch_flags (outlook_backend sample_outlook) ''INBOX'' (uid_range 1 2) (sample_db, ()) =
      (Inr [(1, True, False, False), (2, True, False, False)], sample_db, ())"
    by (simp add: outlook_backend_def ol_fetch_flags_def json st acct)
  obtain db' r' where run: "reconcile_flags (outlook_backend sample_outlook) ''acc'' 1 ''INBOX'' 2 (sample_db, ()) = (Inr (), db', r')"
    using fetch by (simp add: reconcile_flags_def reconcile_loop.simps u32_max_def saturating_add_u32_def flag_chunk_def Let_def)
  have view: "graph_view sample_outlook (sample_db, ()) ''INBOX'' =
      (\<lambda>u. if u = 1 \<or> u = 2 then Some (True, False, False) else None)"
    by (rule ext)
       (auto simp: graph_view_def graph_answer_def lookup_uid_def json st acct sample_defs in_map_def)
  have "map_ok sample_db" by (simp add: map_ok_def sample_map_ok)
  moreover have "2 \<le> u32_max" by (simp add: u32_max_def)
  ultimately have "messages db' = map (\<lambda>m. if in_range 1 1 2 m
      then agreed_row (graph_view sample_outlook (sample_db, ()) ''INBOX'')
        (\<lambda>flag. pending_value sample_db ''acc'' ''INBOX'' (m_uid m) flag \<noteq> None) m else m) (messages sample_db)"
    using reconcile_agrees_with_server [where o' = sample_outlook
        and get = "\<lambda>url r. Inr (200, ''x'')" and rest = "\<lambda>meth url body r. (Inr (200, ''x''), r)"
        and parse = "\<lambda>body. Some (JObj [(''isRead'', JBool True)])" and render = "\<lambda>_. []",
        unfolded o, OF _ sample_uids_ok _ run] by blast
  then have "map m_read (messages db') = [True, True]"
    unfolding view by (simp add: sample_defs in_range_def agreed_row_def pending_value_def same_key_def pending_key_def)
  with run show ?thesis by (intro exI conjI)
qed

section \<open>The uid map\<close>

text \<open>A uid range resolves to exactly the mapped messages whose uid lies in it, in uid order.\<close>

theorem uid_range_resolves:
  assumes "a < 2 ^ 63" "b < 2 ^ 63"
  shows "resolve_set acct path (uid_range a b) db = Inr (rows_where acct path (\<lambda>u. int a \<le> u \<and> u \<le> int b) db)"
  using assms by (rule resolve_uid_range)

theorem uid_range_resolves_witness:
  "resolve_set ''acc'' ''INBOX'' (uid_range 2 9) sample_db = Inr [(2, ''r2'')]"
  using uid_range_resolves [of 2 9 "''acc''" "''INBOX''" sample_db]
  by (simp add: rows_where_def map_rows_def in_map_def sample_defs cast_u32_def u32_max_def)

text \<open>Mapping newly discovered remote ids keeps every mapping there was, maps every new id, returns
  the highest uid of the folder, and never gives one uid to two ids or two uids to one id.\<close>

theorem assigned_ids_are_mapped:
  assumes "uids_u32 db" "remotes_ok db" "assign acct path ids db = (Inr m, db')"
  shows "set ids \<subseteq> known_ids acct path db' \<and> set (remotes db) \<subseteq> set (remotes db')
    \<and> m = max_uid acct path db' \<and> remotes_ok db'"
  using assign_maps [OF assms(1,3)] remotes_ok_assign [OF assms(2,3)] by blast

theorem assigned_ids_are_mapped_witness:
  "{''r2'', ''r3''} \<subseteq> known_ids ''acc'' ''INBOX'' (snd (assign ''acc'' ''INBOX'' [''r2'', ''r3''] sample_db))"
proof -
  have m: "max_uid ''acc'' ''INBOX'' sample_db = 2"
    by (simp add: max_uid_def map_rows_def in_map_def sample_defs cast_u32_def clamp_u32_def u32_max_def)
  have c: "chunks assign_batch_size (dedup [''r2'', ''r3'']) = [[''r2'', ''r3'']]"
    by (simp add: dedup_def assign_batch_size_def chunks.simps [of _ "_ # _"])
  have "\<exists>m. fst (assign ''acc'' ''INBOX'' [''r2'', ''r3''] sample_db) = Inr m"
    by (simp add: assign_def m c checked_add_u32_def u32_max_def)
  then obtain m where "assign ''acc'' ''INBOX'' [''r2'', ''r3''] sample_db
      = (Inr m, snd (assign ''acc'' ''INBOX'' [''r2'', ''r3''] sample_db))" by (metis prod.collapse)
  then show ?thesis
    using assigned_ids_are_mapped [OF sample_map_ok(2) sample_map_ok(1)] by fastforce
qed

text \<open>The uid of a message that left the folder last is given to the next message that arrives, so
  the new message meets the local row of the old one.\<close>

theorem newest_uid_is_reused:
  assumes "uids_u32 db" "dense_map acct path (Suc n) db" "Suc n \<le> u32_max" "x \<notin> known_ids acct path db"
  shows "remotes (snd (assign acct path [x] (remove_uid acct path (Suc n) db))) =
    remotes (remove_uid acct path (Suc n) db) @
    [\<lparr>r_account = acct, r_path = path, r_uid = int (Suc n), r_remote = x\<rparr>]"
  using assms by (rule removed_uid_is_reassigned)

theorem newest_uid_is_reused_witness:
  "remotes (snd (assign ''acc'' ''INBOX'' [''r3''] (remove_uid ''acc'' ''INBOX'' 2 sample_db))) =
    [sample_remote 1 ''r1'', sample_remote 2 ''r3'']"
proof -
  have "{1..2} = {1, 2 :: nat}" by auto
  then have "dense_map ''acc'' ''INBOX'' (Suc 1) sample_db"
    by (auto simp: dense_map_def map_rows_def in_map_def sample_defs numeral_2_eq_2)
  moreover have "''r3'' \<notin> known_ids ''acc'' ''INBOX'' sample_db"
    by (simp add: known_ids_def map_rows_def in_map_def sample_defs)
  ultimately show ?thesis
    using newest_uid_is_reused [OF sample_map_ok(2), of "''acc''" "''INBOX''" 1 "''r3''"]
    by (simp add: remove_uid_def in_map_def sample_defs u32_max_def numeral_2_eq_2)
qed

section \<open>The HTTP client\<close>

text \<open>C34: reading a JSON resource makes one to three requests and sleeps at most 1250 ms in total between
  them, whatever the server does; a failure that is not transient is returned after the first request.\<close>

theorem get_json_is_bounded:
  assumes "get_json_from h url 1 r = (res, slept, r')"
  shows "slept \<le> 1250 \<and> (\<exists>n. 1 \<le> n \<and> n \<le> 3 \<and> r' = iterate_once h url n r)
    \<and> (\<forall>e r1. get_json_once h url r = (Inl e, r1) \<longrightarrow> \<not> is_retryable_get e \<longrightarrow> get_json h url r = (Inl e, r1))"
  using get_json_bound [OF assms] get_json_permanent [of h url r] by blast

theorem get_json_is_bounded_witness:
  "fst (snd (get_json_from sample_http ''u'' 1 ())) \<le> 1250"
proof -
  obtain res slept r' where g: "get_json_from sample_http ''u'' 1 () = (res, slept, r')" by (metis prod_cases3)
  from get_json_is_bounded [OF g] g show ?thesis by simp
qed

section \<open>The account tasks\<close>

text \<open>However the manager is used, no command queue grows past its capacity of 32.\<close>

theorem command_queues_stay_bounded:
  assumes "manager_reachable m" "sm_tasks m acct = Some t"
  shows "length (tk_queue t) \<le> channel_capacity"
  using reachable_bounded [OF assms(1)] assms(2) by (auto simp: queues_bounded_def)

theorem command_queues_stay_bounded_witness:
  "length (tk_queue (the (sm_tasks (start_account ''acc'' ''u'' new_manager) ''acc''))) \<le> channel_capacity"
proof (rule command_queues_stay_bounded)
  show "manager_reachable (start_account ''acc'' ''u'' new_manager)"
    by (rule manager_reachable.step [OF manager_reachable.init manager_step.start])
  show "sm_tasks (start_account ''acc'' ''u'' new_manager) ''acc''
      = Some (the (sm_tasks (start_account ''acc'' ''u'' new_manager) ''acc''))"
    by (simp add: start_account_def)
qed

end
