(* ===== verification/Sync_Properties.thy ===== *)
theory Sync_Properties
  imports Samples
begin

text \<open>
  The properties of a sync cycle and of the commands an account task handles: what every step keeps
  of the database, which messages a cycle imports, where it leaves the cursor, and how it reports.
\<close>

section \<open>Every command keeps the database\<close>

text \<open>For an account over Microsoft Graph, no command of the task, and so no sync cycle, whatever
  the server answers, breaks the database: the trigger-maintained counters stay exact, ids and
  (folder, uid) pairs stay unique, and the outbox keeps one row per flag and message.\<close>

theorem command_keeps_database:
  assumes "db_ok (sy_db s)" "handle_command (E\<lparr>se_backend := outlook_backend o'\<rparr>) acct cmd s = Some s'"
  shows "db_ok (sy_db s')"
  using ol_cycle.handle_command_safe [OF assms] assms(1) by (simp add: safe_state_def safe_def)

theorem command_keeps_database_witness:
  "db_ok (sy_db (the (handle_command (sample_env\<lparr>se_backend := outlook_backend sample_outlook\<rparr>) ''acc'' ForcePoll sample_state)))"
proof (rule command_keeps_database)
  show "db_ok (sy_db sample_state)" by (simp add: sample_state_def sample_db_ok)
  show "handle_command (sample_env\<lparr>se_backend := outlook_backend sample_outlook\<rparr>) ''acc'' ForcePoll sample_state =
      Some (the (handle_command (sample_env\<lparr>se_backend := outlook_backend sample_outlook\<rparr>) ''acc'' ForcePoll sample_state))"
    by simp
qed

lemma kept_row:
  assumes "db_ok db" "old_rows_kept db db'" "m \<in> set (messages db)" "m' \<in> set (messages db')" "m_id m' = m_id m"
  shows "row_le m m'"
proof -
  have ids: "distinct (map m_id (messages db))" "m_id m < next_id db"
    using assms(1,3) by (auto simp: db_ok_def ids_ok_def)
  then obtain m0 where m0: "m0 \<in> set (messages db)" "row_le m0 m'"
    using assms(2,4,5) unfolding old_rows_kept_def by metis
  then have "m_id m0 = m_id m" using assms(5) by (simp add: row_le_def)
  then have "m0 = m" using ids(1) m0(1) assms(3) by (simp add: distinct_map inj_on_def)
  with m0(2) show ?thesis by simp
qed

text \<open>A message that was deleted stays deleted: a row that survives a command is the row it was, in
  the same folder under the same uid, and is deleted if it was deleted before.\<close>

theorem deleted_stays_deleted:
  assumes "db_ok (sy_db s)" "handle_command (E\<lparr>se_backend := outlook_backend o'\<rparr>) acct cmd s = Some s'"
    and "m \<in> set (messages (sy_db s))" "m' \<in> set (messages (sy_db s'))" "m_id m' = m_id m"
  shows "m_folder m' = m_folder m \<and> m_uid m' = m_uid m \<and> (m_deleted m \<longrightarrow> m_deleted m')"
proof -
  have "old_rows_kept (sy_db s) (sy_db s')"
    using ol_cycle.handle_command_safe [OF assms(1,2)] by (simp add: safe_state_def safe_def)
  from kept_row [OF assms(1) this assms(3-5)] show ?thesis by (simp add: row_le_def)
qed

theorem deleted_stays_deleted_witness:
  "\<exists>s' m'. handle_command (sample_env\<lparr>se_backend := outlook_backend sample_outlook\<rparr>) ''acc''
      (IMapMove ''u'' 1 ''INBOX'' ''Trash'' True) sample_state = Some s'
    \<and> m' \<in> set (messages (sy_db s')) \<and> m_uid m' = 1"
proof -
  let ?E = "sample_env\<lparr>se_backend := outlook_backend sample_outlook\<rparr>"
  let ?cmd = "IMapMove ''u'' 1 ''INBOX'' ''Trash'' True"
  have db: "db_ok (sy_db sample_state)" by (simp add: sample_state_def sample_db_ok)
  obtain s' where h: "handle_command ?E ''acc'' ?cmd sample_state = Some s'" by simp
  have frame: "keeps_frame (move_message (outlook_backend sample_outlook) p u d)" for p u d
    by (rule mail_backend.move_frame [OF mail_backend_outlook])
  have "messages (sy_db s') = messages sample_db"
    using h keeps_frameD [OF frame]
    by (auto simp: do_imap_move_def with_provider_def call_backend_def sample_state_def backend_frame_def
        split: sum.splits prod.splits)
  then have here: "sample_message 10 1 True \<in> set (messages (sy_db s'))" by (simp add: sample_db_def)
  have there: "sample_message 10 1 True \<in> set (messages (sy_db sample_state))"
    by (simp add: sample_state_def sample_db_def)
  have "m_uid (sample_message 10 1 True) = 1" by (simp add: sample_message_def)
  then show ?thesis
    using deleted_stays_deleted [OF db h there here refl] h here by blast
qed

section \<open>The chunk walk\<close>

text \<open>C26: the walk over the new uids of a folder is a run over consecutive windows that cover every uid
  from the start to the highest exactly once, each of at most the chunk size of the provider.\<close>

theorem chunk_walk_covers_every_uid_once:
  assumes "highest \<le> u32_max"
  shows "chunk_loop E j highest start cursor s = run_windows E j (windows (uid_chunk (fj_kind j)) highest start) cursor s
    \<and> concat (map (\<lambda>(a, b). [a..<Suc b]) (windows (uid_chunk (fj_kind j)) highest start)) = [start..<Suc highest]
    \<and> (\<forall>(a, b) \<in> set (windows (uid_chunk (fj_kind j)) highest start). a \<le> b \<and> b < a + uid_chunk (fj_kind j))"
  using chunk_loop_windows windows_tile [OF uid_chunk_pos assms] windows_len by fastforce

theorem chunk_walk_covers_every_uid_once_witness:
  "concat (map (\<lambda>(a, b). [a..<Suc b]) (windows (uid_chunk GmailApi) 1200 3)) = [3..<1201]"
  using chunk_walk_covers_every_uid_once [of 1200 sample_env
      "job_of ''acc'' sample_folder ''INBOX'' ''lazy'' GmailApi 0 sample_db" 3 0 sample_state]
  by (simp add: u32_max_def job_of_def)

text \<open>Over IMAP, a walk that ends without an error leaves the cursor at the highest uid of the folder,
  whatever gaps the server's uids have, and the badge at the number of unread messages.\<close>

theorem imap_walk_reaches_highest_uid:
  assumes "start \<le> highest" "highest \<le> u32_max" "syncs_over_imap (fj_kind j)"
    and "chunk_loop E j highest start cursor s = (Inr u, s')" "f \<in> set (folders (sy_db s'))" "f_id f = fj_folder j"
  shows "f_last_uid f = Some (max cursor (int highest)) \<and> f_unread f = count_unread (sy_db s') (fj_folder j)"
  using assms by (rule chunk_loop_cursor)

lemma folder_ids:
  "map f_id (folders (db_update P g db)) = map f_id (folders db)"
  "map f_id (folders (save_cursor fid cursor db)) = map f_id (folders db)"
  by (simp_all add: db_update_def save_cursor_def update_folder_def)

definition sample_job :: "provider_kind \<Rightarrow> folder_job" where
  "sample_job kind = job_of ''acc'' sample_folder ''INBOX'' ''lazy'' kind 0 sample_db"

theorem imap_walk_reaches_highest_uid_witness:
  "map f_last_uid (filter (\<lambda>f. f_id f = 1) (folders (sy_db (snd (chunk_loop sample_env (sample_job Imap) 4 3 2 sample_state))))) = [Some 4]"
proof -
  have job: "fj_kind (sample_job Imap) = Imap" "fj_folder (sample_job Imap) = 1"
    by (simp_all add: sample_job_def job_of_def sample_folder_def)
  have ids: "map f_id (folders sample_db) = [1]" "f_id sample_folder = 1" by (simp_all add: sample_defs)
  have "\<exists>s1. sync_chunk sample_env (sample_job Imap) 3 4 2 sample_state = (Inr 4, s1) \<and> map f_id (folders (sy_db s1)) = [1]"
    by (simp add: sync_chunk_def sample_job_def job_of_def sample_env_def empty_mailbox_def call_backend_def
        persist_message_metadata_chunk_def map_db_def Let_def advance_cursor_def sample_state_def)
       (simp add: folder_ids analyse_and_store_batch_def reapply_pending_flags_def restore_flag_def ids)
  then obtain s1 where c: "sync_chunk sample_env (sample_job Imap) 3 4 2 sample_state = (Inr 4, s1)"
    and "map f_id (folders (sy_db s1)) = [1]" by (elim exE conjE)
  then obtain f where f: "folders (sy_db s1) = [f]" "f_id f = 1" by (auto simp: map_eq_Cons_conv)
  have "chunk_loop sample_env (sample_job Imap) 4 3 2 sample_state = (Inr (), s1)"
    by (simp add: chunk_loop.simps [of _ _ 4 3] u32_max_def saturating_add_u32_def uid_chunk_def job c)
  then show ?thesis
    using imap_walk_reaches_highest_uid [of 3 4 "sample_job Imap" sample_env 2 sample_state "()" s1 f]
    by (simp add: u32_max_def job f)
qed

text \<open>C27: over an API provider the cursor never passes a uid that is missing from the table: it only
  grows, and every uid between its old and its new value is stored.\<close>

theorem api_cursor_skips_no_gap:
  assumes "\<not> syncs_over_imap kind" "cursor < u" "u \<le> advance_cursor kind fid a b cursor db"
  shows "\<exists>m \<in> set (messages db). m_folder m = fid \<and> m_uid m = u"
  using advance_cursor_api [OF assms(1)] assms(2,3) by blast

theorem api_cursor_skips_no_gap_witness:
  "\<exists>m \<in> set (messages sample_db). m_folder m = 1 \<and> m_uid m = 2"
  by (rule api_cursor_skips_no_gap [of OutlookApi 0 2 1 1 5 sample_db])
     (simp_all add: advance_cursor_def sample_defs in_range_def)

section \<open>Importing messages\<close>

text \<open>Importing a chunk adds exactly the fetched uids to the folder: afterwards the folder has the
  uids it had and the fetched ones, each row reported to the caller being one of the fetched messages.\<close>

theorem import_adds_the_fetched_uids:
  assumes "persist_message_metadata_chunk E acct fid path a b mode msgs ex (db, c) = (Inr out, db', c')"
  shows "fkeys fid db' = fkeys fid db \<union> int ` fm_uid ` set msgs"
  using fkeys_persist(2) [OF assms] by simp

lemma sample_import:
  obtains out db' c' where "persist_message_metadata_chunk sample_env ''acc'' 1 ''INBOX'' 1 5 ''lazy'' [sample_fetched 1, sample_fetched 4]
      Map.empty (sample_db, empty_content) = (Inr out, db', c')"
proof -
  have "chunks write_batch_size (enumerate 0 [sample_fetched 1, sample_fetched 4])
      = [[(0, sample_fetched 1), (1, sample_fetched 4)]]"
    by (simp add: write_batch_size_def chunks.simps [of _ "_ # _"])
  moreover have "remote_mappings acct path [sample_fetched 1, sample_fetched 4] = []" for acct path
    by (simp add: sample_fetched_def blank_message_def)
  ultimately have "\<exists>out db' c'. persist_message_metadata_chunk sample_env ''acc'' 1 ''INBOX'' 1 5 ''lazy''
      [sample_fetched 1, sample_fetched 4] Map.empty (sample_db, empty_content) = (Inr out, db', c')"
    by (simp add: persist_message_metadata_chunk_def Let_def del: enumerate_simps split: prod.split)
  with that show thesis by blast
qed

theorem import_adds_the_fetched_uids_witness:
  "\<exists>out db' c'. persist_message_metadata_chunk sample_env ''acc'' 1 ''INBOX'' 1 5 ''lazy'' [sample_fetched 1, sample_fetched 4]
      Map.empty (sample_db, empty_content) = (Inr out, db', c') \<and> fkeys 1 db' = {1, 2, 4}"
proof -
  obtain out db' c' where p: "persist_message_metadata_chunk sample_env ''acc'' 1 ''INBOX'' 1 5 ''lazy''
      [sample_fetched 1, sample_fetched 4] Map.empty (sample_db, empty_content) = (Inr out, db', c')"
    by (rule sample_import)
  have "fkeys 1 sample_db = {1, 2}" by (simp add: fkeys_def sample_defs)
  moreover have "{1, 2} \<union> int ` fm_uid ` {sample_fetched 1, sample_fetched 4} = {1, 2, 4}"
    by (auto simp: sample_fetched_def blank_message_def)
  ultimately have "fkeys 1 db' = {1, 2, 4}" using import_adds_the_fetched_uids [OF p] by simp
  with p show ?thesis by blast
qed

text \<open>C28: a flag whose local change is still queued survives the import of its message: the imported row
  has the queued value, not the server's.\<close>

theorem queued_flags_survive_import:
  assumes "persist_message_metadata_chunk E acct fid path a b mode msgs ex (db, c) = (Inr out, db', c')"
    and "m \<in> set (messages db')" "in_range fid a b m"
  shows "(\<forall>v. pending_value db acct path (m_uid m) ''seen'' = Some v \<longrightarrow> m_read m = v)
    \<and> (\<forall>v. pending_value db acct path (m_uid m) ''flagged'' = Some v \<longrightarrow> m_flagged m = v)"
  using persist_keeps_pending [OF assms] by blast

theorem queued_flags_survive_import_witness:
  "\<exists>out db' c'. persist_message_metadata_chunk sample_env ''acc'' 1 ''INBOX'' 1 5 ''lazy'' [sample_fetched 1, sample_fetched 4]
      Map.empty (sample_db, empty_content) = (Inr out, db', c')
    \<and> (\<exists>m \<in> set (messages db'). m_folder m = 1 \<and> m_uid m = 1 \<and> m_read m)"
proof -
  obtain out db' c' where p: "persist_message_metadata_chunk sample_env ''acc'' 1 ''INBOX'' 1 5 ''lazy''
      [sample_fetched 1, sample_fetched 4] Map.empty (sample_db, empty_content) = (Inr out, db', c')"
    by (rule sample_import)
  have "1 \<in> int ` fm_uid ` set [sample_fetched 1, sample_fetched 4]"
    by (simp add: sample_fetched_def blank_message_def)
  then have "1 \<in> fkeys 1 db'" using fkeys_persist(2) [OF p refl] by blast
  then obtain m where m: "m \<in> set (messages db')" "m_folder m = 1" "m_uid m = 1" by (auto simp: fkeys_def)
  have "pending_value sample_db ''acc'' ''INBOX'' (m_uid m) ''seen'' = Some True"
    by (simp add: pending_value_def same_key_def pending_key_def sample_defs m(3))
  moreover have "in_range 1 1 5 m" using m by (simp add: in_range_def)
  ultimately have "m_read m" using queued_flags_survive_import [OF p m(1)] by blast
  with m p show ?thesis by blast
qed

section \<open>A folder's cycle\<close>

text \<open>When the server announces a new UIDVALIDITY, the folder is emptied but the walk starts behind
  the old cursor: no message with a uid up to the old cursor is imported, although every message of
  the folder has to be fetched again.  The hypothesis says that the provider leaves the mail tables
  alone and returns, for a uid range, only messages of that range.\<close>

theorem new_uidvalidity_keeps_old_cursor:
  assumes "ranged_cycle E"
    and "folder_at (sy_db s) acct path = Some f" "f_uidvalidity f = Some sv" "f_last_uid f = Some n"
      "0 \<le> n" "n < int u32_max"
    and "call_backend (folder_status (se_backend E) path) s = (Inr st, s1)" "sv \<noteq> int (st_uidvalidity st)"
  shows "fkeys (f_id f) (sy_db (snd (sync_folder E acct path mode kind whole s))) \<subseteq> {n<..}"
proof
  fix u assume u: "u \<in> fkeys (f_id f) (sy_db (snd (sync_folder E acct path mode kind whole s)))"
  obtain r s' where run: "sync_folder E acct path mode kind whole s = (r, s')" by fastforce
  show "u \<in> {n<..}"
    using ranged_cycle.sync_folder_after_change [OF assms run] u run by simp
qed

theorem new_uidvalidity_keeps_old_cursor_witness:
  "fkeys 1 (sy_db (snd (sync_folder renumbered_env ''acc'' ''INBOX'' ''lazy'' Imap 3 sample_state))) \<subseteq> {2<..}"
  using new_uidvalidity_keeps_old_cursor [OF renumbered_ranged, of sample_state "''acc''" "''INBOX''" sample_folder 7 2
      "\<lparr>st_uidvalidity = 8, st_exists = 3\<rparr>" sample_state "''lazy''" Imap 3]
  by (simp add: folder_at_def sample_defs sample_state_def u32_max_def call_backend_def renumbered_env_def
      renumbered_mailbox_def)

text \<open>No notification is sent while a folder is synchronised for the first time, nor ever for the spam,
  trash, sent and drafts folders, whatever the cycle imports and whether or not it succeeds.\<close>

theorem quiet_folders_do_not_notify:
  assumes "folder_at (sy_db s) acct path = Some f"
    and "prev_last_uid f = 0 \<or> f_type f \<in> {''SPAM'', ''TRASH'', ''SENT'', ''DRAFTS''}"
  shows "sy_notes (snd (sync_folder E acct path mode kind whole s)) = sy_notes s"
  using sync_folder_quiet [OF assms] by (cases "sync_folder E acct path mode kind whole s") simp

theorem quiet_folders_do_not_notify_witness:
  "sy_notes (snd (sync_folder sample_env ''acc'' ''INBOX'' ''full'' Imap 3
     (sample_state\<lparr>sy_db := sample_db\<lparr>folders := [sample_folder\<lparr>f_type := ''SPAM''\<rparr>]\<rparr>\<rparr>))) = []"
  using quiet_folders_do_not_notify [of "sample_state\<lparr>sy_db := sample_db\<lparr>folders := [sample_folder\<lparr>f_type := ''SPAM''\<rparr>]\<rparr>\<rparr>"
      "''acc''" "''INBOX''" "sample_folder\<lparr>f_type := ''SPAM''\<rparr>" sample_env "''full''" Imap 3]
  by (simp add: folder_at_def sample_defs sample_state_def)

section \<open>Folder discovery\<close>

definition folder_core :: "folder_row \<Rightarrow> nat \<times> string \<times> string \<times> int option \<times> bool" where
  "folder_core f = (f_id f, f_account f, f_path f, f_last_uid f, f_sync_enabled f)"

lemma upsert_folder_keeps:
  "folder_core ` set (folders db) \<subseteq> folder_core ` set (folders (upsert_folder acct kind fi db))"
proof (cases "folder_at db acct (fi_path fi)")
  case (Some g)
  let ?u = "\<lambda>f. if f_account f = acct \<and> f_path f = fi_path fi then f\<lparr>f_name := fi_name fi, f_type := fi_type fi\<rparr> else f"
  have "folder_core (?u f) = folder_core f" for f by (simp add: folder_core_def)
  then have "folder_core ` set (map ?u (folders db)) = folder_core ` set (folders db)"
    by (simp only: set_map image_image)
  with Some show ?thesis by (simp add: upsert_folder_def)
qed (auto simp: upsert_folder_def)

lemma upsert_folders_keep:
  "folder_core ` set (folders db) \<subseteq> folder_core ` set (folders (fold (upsert_folder acct kind) fis db))"
proof (induction fis arbitrary: db)
  case (Cons fi fis)
  from upsert_folder_keeps [of db acct kind fi] Cons [of "upsert_folder acct kind fi db"] show ?case by simp
qed simp

lemma upsert_folders_messages [simp]:
  "messages (fold (upsert_folder acct kind) fis db) = messages db"
  by (induction fis arbitrary: db) (simp_all add: upsert_folder_def split: option.split)

lemma folder_at_core:
  "folder_at db acct path \<noteq> None \<longleftrightarrow> (\<exists>i l e. (i, acct, path, l, e) \<in> folder_core ` set (folders db))"
  by (auto simp: folder_at_def find_None_eq folder_core_def)

text \<open>Discovery never loses a folder that is still listed or still holds messages: it keeps its row
  with its cursor and the user's choice to synchronise it, and every listed folder has a row afterwards.\<close>

theorem discovery_keeps_folders:
  assumes "f \<in> set (folders db)" "f_account f = acct" "f_path f \<in> fi_path ` set infos \<or> has_messages (f_id f) db"
  shows "(\<exists>f' \<in> set (folders (discover_folders acct kind infos db)). f_id f' = f_id f \<and> f_path f' = f_path f
      \<and> f_last_uid f' = f_last_uid f \<and> f_sync_enabled f' = f_sync_enabled f)
    \<and> (\<forall>fi \<in> set infos. folder_at (discover_folders acct kind infos db) acct (fi_path fi) \<noteq> None)"
proof
  let ?fis = "filter (folder_changed acct db) infos"
  let ?db1 = "fold (upsert_folder acct kind) ?fis db"
  let ?stale = "filter (\<lambda>p. p \<notin> fi_path ` set infos) (stored_paths acct db)"
  have disc: "discover_folders acct kind infos db = drop_stale acct ?stale ?db1"
    by (simp add: discover_folders_def Let_def)
  have kept: "f' \<in> set (folders (discover_folders acct kind infos db))"
    if "f' \<in> set (folders ?db1)" "f_path f' \<in> fi_path ` set infos \<or> has_messages (f_id f') db" for f'
    using that by (auto simp: disc drop_stale_def has_messages_def)
  have "folder_core f \<in> folder_core ` set (folders ?db1)" using upsert_folders_keep assms(1) by blast
  then obtain f' where f': "f' \<in> set (folders ?db1)" "folder_core f' = folder_core f" by auto
  with kept [OF f'(1)] assms(3) show "\<exists>f' \<in> set (folders (discover_folders acct kind infos db)).
      f_id f' = f_id f \<and> f_path f' = f_path f \<and> f_last_uid f' = f_last_uid f \<and> f_sync_enabled f' = f_sync_enabled f"
    by (auto simp: folder_core_def)
  show "\<forall>fi \<in> set infos. folder_at (discover_folders acct kind infos db) acct (fi_path fi) \<noteq> None"
  proof
    fix fi assume fi: "fi \<in> set infos"
    have new: "folder_at (upsert_folder acct kind fi d) acct (fi_path fi) \<noteq> None" for d
    proof (cases "folder_at d acct (fi_path fi)")
      case None
      then show ?thesis by (simp add: upsert_folder_def folder_at_def find_append)
    next
      case (Some g)
      then have "folder_at d acct (fi_path fi) \<noteq> None" by simp
      then show ?thesis using upsert_folder_keeps [of d acct kind fi] unfolding folder_at_core by blast
    qed
    have grow: "folder_at d acct (fi_path fi) \<noteq> None \<Longrightarrow> folder_at (fold (upsert_folder acct kind) xs d) acct (fi_path fi) \<noteq> None" for xs d
      using upsert_folders_keep [of d acct kind xs] unfolding folder_at_core by blast
    have "folder_at ?db1 acct (fi_path fi) \<noteq> None"
    proof (cases "folder_changed acct db fi")
      case True
      then obtain ys zs where "?fis = ys @ fi # zs" using fi split_list [of fi ?fis] by auto
      then show ?thesis using grow [OF new] by simp
    next
      case False
      then have "folder_at db acct (fi_path fi) \<noteq> None" by (auto simp: folder_changed_def split: option.splits)
      then show ?thesis by (rule grow)
    qed
    then obtain g where g: "g \<in> set (folders ?db1)" "f_account g = acct" "f_path g = fi_path fi"
      by (auto simp: folder_at_def find_None_eq)
    have "g \<in> set (folders (discover_folders acct kind infos db))" using kept [OF g(1)] g(3) fi by auto
    with g show "folder_at (discover_folders acct kind infos db) acct (fi_path fi) \<noteq> None"
      by (auto simp: folder_at_def find_None_eq)
  qed
qed

theorem discovery_keeps_folders_witness:
  "\<exists>f' \<in> set (folders (discover_folders ''acc'' OutlookApi [] sample_db)). f_id f' = 1 \<and> f_last_uid f' = Some 2"
proof -
  have "sample_folder \<in> set (folders sample_db)" "f_account sample_folder = ''acc''" "f_id sample_folder = 1"
    "f_last_uid sample_folder = Some 2" "has_messages 1 sample_db"
    by (simp_all add: sample_defs has_messages_def)
  then show ?thesis
    using discovery_keeps_folders [of sample_folder sample_db "''acc''" "[]" OutlookApi] by auto
qed

section \<open>The status of an account\<close>

text \<open>A cycle always settles: afterwards the account is idle, in error or waits for the user to sign
  in again, and never still syncing, also when the 30 minute limit interrupts it; an account that waits
  for the user is not touched by a cycle at all.\<close>

theorem cycle_settles:
  "ss_state (account_status (sy_manager (do_sync clock acct run s)) acct) \<in> {''idle'', ''error'', ''reauth_required''}
   \<and> (ss_state (account_status (sy_manager s) acct) = ''reauth_required'' \<longrightarrow> do_sync clock acct run s = s)"
  using do_sync_states reauth_is_sticky by blast

theorem cycle_settles_witness:
  "ss_state (account_status (sy_manager (do_sync ''2024'' ''acc'' (\<lambda>s. (None, s)) sample_state)) ''acc'')
     \<in> {''idle'', ''error'', ''reauth_required''}"
  using cycle_settles by blast

end
