(* ===== verification/Tokens.thy ===== *)
theory Tokens
  imports Store Rest
begin

text \<open>
  OAuth access tokens (backend/api/src/oauth_tokens.rs): the credentials of an account are a JSON object,
  stored encrypted; a token is refreshed when it expires within five minutes, and a refused refresh marks
  the account for a new sign-in.

  Parameters are the cipher, the JSON codec, the environment variables, the clock and the token
  endpoint, whose answer is a status with a JSON body, or the text of a failed exchange.
\<close>

record 'r token_env =
  tk_decrypt :: "string \<Rightarrow> string option"
  tk_encrypt :: "string \<Rightarrow> string option"
  tk_parse :: "string \<Rightarrow> json option"
  tk_render :: "json \<Rightarrow> string"
  tk_now :: int
  tk_var :: "string \<Rightarrow> string option"
  tk_post :: "string \<Rightarrow> (string \<times> string) list \<Rightarrow> 'r \<Rightarrow> (string + (nat \<times> json)) \<times> 'r"

definition expiry_slack_secs :: int where
  "expiry_slack_secs = 300"

definition reauth_required_prefix :: string where
  "reauth_required_prefix = ''oauth_reauthentication_required:''"

definition google_contacts_scope :: string where
  "google_contacts_scope = ''https://www.googleapis.com/auth/contacts''"

definition microsoft_contacts_scope :: string where
  "microsoft_contacts_scope = ''https://graph.microsoft.com/Contacts.ReadWrite''"

section \<open>JSON values\<close>

definition wrap_i64 :: "int \<Rightarrow> int" where
  "wrap_i64 x = (x + 2 ^ 63) mod 2 ^ 64 - 2 ^ 63"

fun as_i64 :: "json \<Rightarrow> int option" where
  "as_i64 (JNum n) = (if - (2 ^ 63) \<le> n \<and> n < 2 ^ 63 then Some n else None)"
| "as_i64 _ = None"

text \<open>
  \<open>value[key] = v\<close>.  On null it makes an object; on another value it panics, which no caller below
  reaches: each has read a string of the object before.
\<close>

fun jset :: "string \<Rightarrow> json \<Rightarrow> json \<Rightarrow> json" where
  "jset k v (JObj kvs) = JObj ((k, v) # filter (\<lambda>e. fst e \<noteq> k) kvs)"
| "jset k v JNull = JObj [(k, v)]"
| "jset k v j = j"

section \<open>Grants\<close>

datatype grant_state = Ready | ConsentRequired | ReauthenticationRequired

fun strings_of :: "json list \<Rightarrow> string list" where
  "strings_of [] = []"
| "strings_of (j # js) = (case as_str j of None \<Rightarrow> strings_of js | Some s \<Rightarrow> s # strings_of js)"

definition granted_scopes :: "json \<Rightarrow> string list" where
  "granted_scopes creds =
     (case jget creds ''oauth_granted_scopes'' of
        JArr xs \<Rightarrow> strings_of xs
      | _ \<Rightarrow> (case as_str (jget creds ''oauth_scope'') of None \<Rightarrow> [] | Some s \<Rightarrow> split_whitespace s))"

definition flagged_for_reauth :: "json \<Rightarrow> bool" where
  "flagged_for_reauth creds = (as_bool (jget creds ''oauth_reauth_required'') = Some True)"

definition text_at :: "json \<Rightarrow> string \<Rightarrow> string" where
  "text_at creds k = (case as_str (jget creds k) of Some s \<Rightarrow> s | None \<Rightarrow> [])"

definition contact_grant_state :: "json \<Rightarrow> grant_state" where
  "contact_grant_state creds =
     (if flagged_for_reauth creds then ReauthenticationRequired
      else (let provider = text_at creds ''provider'';
                required = (if provider = ''google'' then Some google_contacts_scope
                            else if provider = ''microsoft'' then Some microsoft_contacts_scope else None)
            in case required of
                 None \<Rightarrow> ConsentRequired
               | Some scope \<Rightarrow>
                   (if \<exists>s \<in> set (granted_scopes creds). to_lower s = to_lower scope then Ready
                    else ConsentRequired)))"

section \<open>The token endpoint\<close>

record refreshed =
  rf_access_token :: string
  rf_expires_in :: int
  rf_refresh_token :: "string option"
  rf_scopes :: "string list option"

record refresh_error =
  re_message :: string
  re_invalid_grant :: bool

definition other_refresh_error :: "string \<Rightarrow> refresh_error" where
  "other_refresh_error msg = \<lparr>re_message = msg, re_invalid_grant = False\<rparr>"

definition token_endpoint_error :: "(json \<Rightarrow> string) \<Rightarrow> nat \<Rightarrow> json \<Rightarrow> refresh_error" where
  "token_endpoint_error render status body =
     \<lparr>re_message = ''token endpoint returned '' @ show_nat status @ '': '' @ render body,
      re_invalid_grant = (as_str (jget body ''error'') = Some ''invalid_grant'')\<rparr>"

definition refreshed_of :: "json \<Rightarrow> refresh_error + refreshed" where
  "refreshed_of body =
     (case as_str (jget body ''access_token'') of
        None \<Rightarrow> Inl (other_refresh_error ''no access_token in refresh response'')
      | Some t \<Rightarrow> Inr \<lparr>rf_access_token = t,
          rf_expires_in = (case as_i64 (jget body ''expires_in'') of Some n \<Rightarrow> n | None \<Rightarrow> 3600),
          rf_refresh_token = as_str (jget body ''refresh_token''),
          rf_scopes = map_option split_whitespace (as_str (jget body ''scope''))\<rparr>)"

definition refresh :: "'r token_env \<Rightarrow> string \<Rightarrow> string \<Rightarrow> 'r \<Rightarrow> (refresh_error + refreshed) \<times> 'r" where
  "refresh E provider refresh_token r =
     (case (if provider = ''google'' then Some (''https://oauth2.googleapis.com/token'', ''GOOGLE'')
            else if provider = ''microsoft''
            then Some (''https://login.microsoftonline.com/common/oauth2/v2.0/token'', ''MICROSOFT'') else None) of
        None \<Rightarrow> (Inl (other_refresh_error (''unknown oauth provider: '' @ provider)), r)
      | Some (url, var) \<Rightarrow>
          (case (tk_var E (var @ ''_OAUTH_CLIENT_ID''), tk_var E (var @ ''_OAUTH_CLIENT_SECRET'')) of
             (None, _) \<Rightarrow> (Inl (other_refresh_error (var @ ''_OAUTH_CLIENT_ID not configured'')), r)
           | (_, None) \<Rightarrow> (Inl (other_refresh_error (var @ ''_OAUTH_CLIENT_SECRET not configured'')), r)
           | (Some client, Some secret) \<Rightarrow>
               (case tk_post E url [(''client_id'', client), (''client_secret'', secret),
                       (''refresh_token'', refresh_token), (''grant_type'', ''refresh_token'')] r of
                  (Inl e, r') \<Rightarrow> (Inl (other_refresh_error e), r')
                | (Inr (status, body), r') \<Rightarrow>
                    ((if is_success status then refreshed_of body
                      else Inl (token_endpoint_error (tk_render E) status body)), r'))))"

section \<open>Fresh tokens\<close>

definition is_reauth_required :: "string \<Rightarrow> bool" where
  "is_reauth_required e = starts_with reauth_required_prefix e"

definition reauth_required_error :: "string \<Rightarrow> string" where
  "reauth_required_error provider = reauth_required_prefix @ provider"

definition save_credentials :: "'r token_env \<Rightarrow> string \<Rightarrow> json \<Rightarrow> mail_db \<Rightarrow> mail_db option" where
  "save_credentials E acct creds db =
     (case tk_encrypt E (tk_render E creds) of
        None \<Rightarrow> None
      | Some enc \<Rightarrow> Some (db\<lparr>accounts :=
          map (\<lambda>a. if a_id a = acct then a\<lparr>a_credentials := enc\<rparr> else a) (accounts db)\<rparr>))"

definition mark_reauth_required :: "'r token_env \<Rightarrow> string \<Rightarrow> json \<Rightarrow> mail_db \<Rightarrow> mail_db option" where
  "mark_reauth_required E acct creds db =
     save_credentials E acct (jset ''oauth_reauth_required'' (JBool True) creds) db"

definition load_credentials :: "'r token_env \<Rightarrow> string \<Rightarrow> mail_db \<Rightarrow> string + json" where
  "load_credentials E acct db =
     (case account_of db acct of
        None \<Rightarrow> Inl ''account not found''
      | Some a \<Rightarrow>
          (case tk_decrypt E (a_credentials a) of
             None \<Rightarrow> Inl ''decryption failed''
           | Some bytes \<Rightarrow> (case tk_parse E bytes of None \<Rightarrow> Inl ''invalid JSON'' | Some creds \<Rightarrow> Inr creds)))"

definition refreshed_credentials :: "int \<Rightarrow> refreshed \<Rightarrow> json \<Rightarrow> json" where
  "refreshed_credentials now rf creds =
     (let c1 = jset ''oauth_access_token'' (JStr (rf_access_token rf)) creds;
          c2 = jset ''oauth_expires_at'' (JNum (wrap_i64 (now + rf_expires_in rf))) c1;
          c3 = (case rf_refresh_token rf of None \<Rightarrow> c2 | Some t \<Rightarrow> jset ''oauth_refresh_token'' (JStr t) c2)
      in case rf_scopes rf of None \<Rightarrow> c3 | Some ss \<Rightarrow> jset ''oauth_granted_scopes'' (JArr (map JStr ss)) c3)"

text \<open>An account that needs a new sign-in: the mark is stored, unless encrypting fails.\<close>

definition demand_sign_in ::
  "'r token_env \<Rightarrow> string \<Rightarrow> json \<Rightarrow> mail_db \<Rightarrow> 'r \<Rightarrow> (string + string option) \<times> mail_db \<times> 'r"
where
  "demand_sign_in E acct creds db r =
     (case mark_reauth_required E acct creds db of
        None \<Rightarrow> (Inl ''encryption failed'', db, r)
      | Some db' \<Rightarrow> (Inl (reauth_required_error (text_at creds ''provider'')), db', r))"

definition stored_expiry :: "json \<Rightarrow> int" where
  "stored_expiry creds = (case as_i64 (jget creds ''oauth_expires_at'') of Some n \<Rightarrow> n | None \<Rightarrow> 0)"

definition fresh_access_token ::
  "'r token_env \<Rightarrow> string \<Rightarrow> mail_db \<Rightarrow> 'r \<Rightarrow> (string + string option) \<times> mail_db \<times> 'r"
where
  "fresh_access_token E acct db r =
     (case load_credentials E acct db of
        Inl e \<Rightarrow> (Inl e, db, r)
      | Inr creds \<Rightarrow>
          (let access = text_at creds ''oauth_access_token'';
               refresh_token = text_at creds ''oauth_refresh_token''
           in if access = [] \<and> refresh_token = [] then (Inr None, db, r)
              else if tk_now E + expiry_slack_secs < stored_expiry creds then (Inr (Some access), db, r)
              else if flagged_for_reauth creds
              then (Inl (reauth_required_error (text_at creds ''provider'')), db, r)
              else if refresh_token = [] then demand_sign_in E acct creds db r
              else (case refresh E (text_at creds ''provider'') refresh_token r of
                      (Inr rf, r') \<Rightarrow>
                        (case save_credentials E acct (refreshed_credentials (tk_now E) rf creds) db of
                           None \<Rightarrow> (Inl ''encryption failed'', db, r')
                         | Some db' \<Rightarrow> (Inr (Some (rf_access_token rf)), db', r'))
                    | (Inl e, r') \<Rightarrow>
                        (if re_invalid_grant e then demand_sign_in E acct creds db r'
                         else (Inl (re_message e), db, r')))))"

datatype contact_token_error = NoConsent | Reauthenticate | NotOAuth | Temporary

definition fresh_contact_access_token ::
  "'r token_env \<Rightarrow> string \<Rightarrow> mail_db \<Rightarrow> 'r \<Rightarrow> (contact_token_error + string) \<times> mail_db \<times> 'r"
where
  "fresh_contact_access_token E acct db r =
     (if account_of db acct = None then (Inl NotOAuth, db, r)
      else case load_credentials E acct db of
        Inl _ \<Rightarrow> (Inl Temporary, db, r)
      | Inr creds \<Rightarrow>
          (case contact_grant_state creds of
             ConsentRequired \<Rightarrow> (Inl NoConsent, db, r)
           | ReauthenticationRequired \<Rightarrow> (Inl Reauthenticate, db, r)
           | Ready \<Rightarrow>
               (case fresh_access_token E acct db r of
                  (Inl e, s) \<Rightarrow> (Inl (if is_reauth_required e then Reauthenticate else Temporary), s)
                | (Inr None, s) \<Rightarrow> (Inl NotOAuth, s)
                | (Inr (Some t), s) \<Rightarrow> (Inr t, s))))"

section \<open>Facts\<close>

text \<open>What was encrypted and stored is read back: the cipher and the JSON codec invert each other.\<close>

definition stores_credentials :: "'r token_env \<Rightarrow> bool" where
  "stores_credentials E = (\<forall>creds enc. tk_encrypt E (tk_render E creds) = Some enc
     \<longrightarrow> (\<exists>bytes. tk_decrypt E enc = Some bytes \<and> tk_parse E bytes = Some creds))"

lemma jget_jset:
  assumes "\<exists>kvs. j = JObj kvs"
  shows "jget (jset k v j) k' = (if k' = k then v else jget j k')"
proof -
  have "map_of (filter (\<lambda>e. fst e \<noteq> k) kvs) k' = map_of kvs k'" if "k' \<noteq> k" for kvs :: "(string \<times> json) list"
    using that by (induction kvs) auto
  then show ?thesis using assms by auto
qed

lemma jset_object: "\<exists>kvs. j = JObj kvs \<Longrightarrow> \<exists>kvs. jset k v j = JObj kvs"
  by auto

lemma text_at_object: "text_at j k \<noteq> [] \<Longrightarrow> \<exists>kvs. j = JObj kvs"
  by (cases j) (simp_all add: text_at_def)

lemma load_saved:
  assumes "stores_credentials E" "account_of db acct = Some a" "save_credentials E acct creds db = Some db'"
  shows "load_credentials E acct db' = Inr creds"
proof -
  obtain enc bytes where enc: "tk_encrypt E (tk_render E creds) = Some enc" "tk_decrypt E enc = Some bytes"
      "tk_parse E bytes = Some creds"
    using assms(1,3) by (fastforce simp: stores_credentials_def save_credentials_def split: option.splits)
  then have db': "accounts db' = map (\<lambda>a. if a_id a = acct then a\<lparr>a_credentials := enc\<rparr> else a) (accounts db)"
    using assms(3) by (auto simp: save_credentials_def)
  have found: "find (\<lambda>a. a_id a = acct) (map (\<lambda>a. if a_id a = acct then a\<lparr>a_credentials := enc\<rparr> else a) as)
      = map_option (\<lambda>a. a\<lparr>a_credentials := enc\<rparr>) (find (\<lambda>a. a_id a = acct) as)" for as
    by (induction as) auto
  then have "account_of db' acct = Some (a\<lparr>a_credentials := enc\<rparr>)"
    using assms(2) found [of "accounts db"] by (simp only: account_of_def db' option.map)
  then show ?thesis using enc by (simp add: load_credentials_def)
qed

lemma loaded_account: "load_credentials E acct db = Inr creds \<Longrightarrow> \<exists>a. account_of db acct = Some a"
  by (auto simp: load_credentials_def split: option.splits)

lemma refreshed_credentials_text:
  assumes "\<exists>kvs. creds = JObj kvs"
  shows "text_at (refreshed_credentials now rf creds) ''oauth_access_token'' = rf_access_token rf"
    and "as_i64 (jget (refreshed_credentials now rf creds) ''oauth_expires_at'') = as_i64 (JNum (wrap_i64 (now + rf_expires_in rf)))"
proof -
  note js = jget_jset jset_object assms
  show "text_at (refreshed_credentials now rf creds) ''oauth_access_token'' = rf_access_token rf"
    by (cases "rf_refresh_token rf"; cases "rf_scopes rf")
       (simp_all add: refreshed_credentials_def text_at_def Let_def js)
  show "as_i64 (jget (refreshed_credentials now rf creds) ''oauth_expires_at'') = as_i64 (JNum (wrap_i64 (now + rf_expires_in rf)))"
    by (cases "rf_refresh_token rf"; cases "rf_scopes rf")
       (simp_all add: refreshed_credentials_def Let_def js)
qed

lemma wrap_i64_range: "- (2 ^ 63) \<le> wrap_i64 x \<and> wrap_i64 x < 2 ^ 63"
  by (auto simp: wrap_i64_def)

text \<open>The ways a call ends.\<close>

lemma fresh_token_cases:
  assumes "fresh_access_token E acct db r = (res, db', r')"
  obtains (unread) e where "load_credentials E acct db = Inl e" "res = Inl e" "db' = db" "r' = r"
  | (stored) creds where "load_credentials E acct db = Inr creds" "db' = db" "r' = r"
      "res = Inr None \<or> (res = Inr (Some (text_at creds ''oauth_access_token'')) \<and> tk_now E + expiry_slack_secs < stored_expiry creds)"
  | (marked) creds where "load_credentials E acct db = Inr creds" "db' = db" "r' = r"
      "res = Inl (reauth_required_error (text_at creds ''provider''))" "flagged_for_reauth creds"
  | (demand) creds r1 where "load_credentials E acct db = Inr creds" "(res, db', r') = demand_sign_in E acct creds db r1"
      "\<exists>kvs. creds = JObj kvs" "\<not> tk_now E + expiry_slack_secs < stored_expiry creds"
      "text_at creds ''oauth_access_token'' \<noteq> [] \<or> text_at creds ''oauth_refresh_token'' \<noteq> []"
  | (refreshed) creds rf where "load_credentials E acct db = Inr creds" "\<exists>kvs. creds = JObj kvs"
      "refresh E (text_at creds ''provider'') (text_at creds ''oauth_refresh_token'') r = (Inr rf, r')"
      "save_credentials E acct (refreshed_credentials (tk_now E) rf creds) db = Some db'"
      "res = Inr (Some (rf_access_token rf))"
  | (failed) creds e where "load_credentials E acct db = Inr creds" "db' = db" "res = Inl e"
      "\<not> tk_now E + expiry_slack_secs < stored_expiry creds"
proof (cases "load_credentials E acct db")
  case (Inl e)
  have "(res, db', r') = (Inl e, db, r)" using assms by (simp add: fresh_access_token_def Inl)
  then show thesis using unread [OF Inl] by simp
next
  case ok: (Inr creds)
  let ?a = "text_at creds ''oauth_access_token''" and ?f = "text_at creds ''oauth_refresh_token''"
  note d = assms [unfolded fresh_access_token_def ok sum.case Let_def]
  consider "?a = [] \<and> ?f = []" | "?a \<noteq> [] \<or> ?f \<noteq> []" "tk_now E + expiry_slack_secs < stored_expiry creds"
    | "?a \<noteq> [] \<or> ?f \<noteq> []" "\<not> tk_now E + expiry_slack_secs < stored_expiry creds" by blast
  then show thesis
  proof cases
    case 1
    then have "(res, db', r') = (Inr None, db, r)" using d by simp
    then show thesis using stored [OF ok] by simp
  next
    case 2
    then have "(res, db', r') = (Inr (Some ?a), db, r)" using d by (simp split: if_splits)
    then show thesis using stored [OF ok] 2 by simp
  next
    case 3
    have obj: "\<exists>kvs. creds = JObj kvs" using 3(1) text_at_object by blast
    note d' = d [unfolded if_not_P [OF 3(2)]]
    have ne: "\<not> (?a = [] \<and> ?f = [])" using 3(1) by blast
    note d'' = d' [unfolded if_not_P [OF ne]]
    consider "flagged_for_reauth creds" | "\<not> flagged_for_reauth creds" "?f = []"
      | "\<not> flagged_for_reauth creds" "?f \<noteq> []" by blast
    then show thesis
    proof cases
      case 1
      then have "(res, db', r') = (Inl (reauth_required_error (text_at creds ''provider'')), db, r)" using d'' by simp
      then show thesis using marked [OF ok _ _ _ 1] by simp
    next
      case 2
      then have "(res, db', r') = demand_sign_in E acct creds db r" using d'' by simp
      then show thesis by (rule demand [OF ok _ obj 3(2,1)])
    next
      case refreshing: 3
      obtain ans r1 where rf: "refresh E (text_at creds ''provider'') ?f r = (ans, r1)" by fastforce
      note e = d'' [unfolded if_not_P [OF refreshing(1)] if_not_P [OF refreshing(2)] rf prod.case]
      show thesis
      proof (cases ans)
        case (Inl x)
        show thesis
        proof (cases "re_invalid_grant x")
          case True
          then have "(res, db', r') = demand_sign_in E acct creds db r1" using e Inl by simp
          then show thesis by (rule demand [OF ok _ obj 3(2,1)])
        next
          case False
          then have "(res, db', r') = (Inl (re_message x), db, r1)" using e Inl by simp
          then show thesis using failed [OF ok _ _ 3(2)] by simp
        qed
      next
        case (Inr x)
        show thesis
        proof (cases "save_credentials E acct (refreshed_credentials (tk_now E) x creds) db")
          case None
          then have "(res, db', r') = (Inl ''encryption failed'', db, r1)" using e Inr by simp
          then show thesis using failed [OF ok _ _ 3(2)] by simp
        next
          case (Some db1)
          then have "(res, db', r') = (Inr (Some (rf_access_token x)), db1, r1)" using e Inr by simp
          then show thesis using refreshed [OF ok obj, of x] rf Inr Some by simp
        qed
      qed
    qed
  qed
qed

text \<open>A returned token is the one now stored, and is not about to expire unless it was issued just now.\<close>

lemma fresh_token_is_stored:
  assumes "stores_credentials E" "fresh_access_token E acct db r = (Inr (Some t), db', r')"
  shows "\<exists>creds. load_credentials E acct db' = Inr creds \<and> text_at creds ''oauth_access_token'' = t
    \<and> (tk_now E + expiry_slack_secs < stored_expiry creds
       \<or> (\<exists>provider refresh_token rf. refresh E provider refresh_token r = (Inr rf, r') \<and> rf_access_token rf = t
            \<and> stored_expiry creds = wrap_i64 (tk_now E + rf_expires_in rf)))"
  using assms(2)
proof (cases rule: fresh_token_cases)
  case (refreshed creds rf)
  obtain a where a: "account_of db acct = Some a" using loaded_account refreshed(1) by blast
  let ?c = "refreshed_credentials (tk_now E) rf creds"
  have "load_credentials E acct db' = Inr ?c" using load_saved [OF assms(1) a refreshed(4)] .
  moreover have "text_at ?c ''oauth_access_token'' = t"
    using refreshed_credentials_text(1) [OF refreshed(2)] refreshed(5) by simp
  moreover have "stored_expiry ?c = wrap_i64 (tk_now E + rf_expires_in rf)"
    using refreshed_credentials_text(2) [OF refreshed(2)] wrap_i64_range by (simp add: stored_expiry_def)
  ultimately show ?thesis using refreshed(3,5) by auto
next
  case (demand creds r1)
  then show ?thesis by (simp add: demand_sign_in_def split: option.splits)
qed auto

definition later :: "'r token_env \<Rightarrow> int \<Rightarrow> 'r token_env" where
  "later E now = E\<lparr>tk_now := now\<rparr>"

lemma later_simps [simp]:
  "load_credentials (later E now) acct db = load_credentials E acct db" "tk_now (later E now) = now"
  by (simp_all add: later_def load_credentials_def split: option.split)

text \<open>A demanded sign-in is final: later calls repeat the error, ask nobody and change nothing.\<close>

lemma sign_in_demand_repeats:
  assumes "stores_credentials E" "load_credentials E acct db = Inr creds" "\<exists>kvs. creds = JObj kvs"
    and "demand_sign_in E acct creds db r = (Inl e, db', r')" "is_reauth_required e"
    and "\<not> tk_now E + expiry_slack_secs < stored_expiry creds" "tk_now E \<le> now"
    and "text_at creds ''oauth_access_token'' \<noteq> [] \<or> text_at creds ''oauth_refresh_token'' \<noteq> []"
  shows "fresh_access_token (later E now) acct db' q = (Inl e, db', q)"
proof -
  obtain a where a: "account_of db acct = Some a" using loaded_account assms(2) by blast
  let ?c = "jset ''oauth_reauth_required'' (JBool True) creds"
  have saved: "save_credentials E acct ?c db = Some db'" "e = reauth_required_error (text_at creds ''provider'')"
    using assms(4,5) by (auto simp: demand_sign_in_def mark_reauth_required_def is_reauth_required_def
        reauth_required_prefix_def starts_with_def split: option.splits)
  have "load_credentials E acct db' = Inr ?c" using load_saved [OF assms(1) a saved(1)] .
  moreover have "text_at ?c k = text_at creds k" if "k \<noteq> ''oauth_reauth_required''" for k
    using that by (simp add: text_at_def jget_jset [OF assms(3)])
  moreover have "stored_expiry ?c = stored_expiry creds" by (simp add: stored_expiry_def jget_jset [OF assms(3)])
  moreover have "flagged_for_reauth ?c" by (simp add: flagged_for_reauth_def jget_jset [OF assms(3)])
  ultimately show ?thesis
    using assms(6-8) saved(2) by (auto simp: fresh_access_token_def Let_def)
qed

end
