(* ===== verification/Handlers.thy ===== *)
theory Handlers
  imports Flags Manager Bodies "HOL-Library.List_Lexorder"
begin

text \<open>
  The API handlers that change messages (backend/api/src/routes/messages.rs, threads.rs, drafts.rs):
  each updates the user's database and queues the change for the account's sync task.

  A handler that sends a command waits while the channel of the task is full.  It then is parked:
  \<open>Waits acct c\<close> with the state it has reached, in which everything before the send has happened.
\<close>

datatype app_error = NotFound | Unauthorized | Forbidden | Conflict string | Unprocessable string
  | BadGateway string | BadGatewayWithCode string string | Internal string

text \<open>The answer of a failed request: status, message and code.\<close>

fun app_error_response :: "app_error \<Rightarrow> nat \<times> string \<times> string option" where
  "app_error_response NotFound = (404, ''not found'', None)"
| "app_error_response Unauthorized = (401, ''unauthorized'', None)"
| "app_error_response Forbidden = (403, ''forbidden'', None)"
| "app_error_response (Conflict m) = (409, m, None)"
| "app_error_response (Unprocessable m) = (422, m, None)"
| "app_error_response (BadGateway m) = (502, m, None)"
| "app_error_response (BadGatewayWithCode code m) = (502, m, Some code)"
| "app_error_response (Internal m) = (500, ''internal server error'', None)"

datatype 'a reply = Reply "app_error + 'a" | Waits string sync_command

record draft_row =
  dr_message :: nat
  dr_to :: "string list"
  dr_cc :: "string list"
  dr_bcc :: "string list"
  dr_attachments :: "(string \<times> string \<times> string) list"

record api_state =
  ap_db :: mail_db
  ap_content :: content_db
  ap_calendar :: calendar_db
  ap_drafts :: "draft_row list"
  ap_aliases :: "(string \<times> string) list"
  ap_manager :: sync_manager

definition ap_map :: "(mail_db \<Rightarrow> mail_db) \<Rightarrow> api_state \<Rightarrow> api_state" where
  "ap_map g s = s\<lparr>ap_db := g (ap_db s)\<rparr>"

text \<open>A command is sent: the rest \<open>k\<close> of the handler runs once there is room.\<close>

definition sending ::
  "string \<Rightarrow> sync_command \<Rightarrow> api_state \<Rightarrow> (api_state \<Rightarrow> 'a reply \<times> api_state) \<Rightarrow> 'a reply \<times> api_state"
where
  "sending acct c s k =
     (case send_wait acct c (ap_manager s) of
        None \<Rightarrow> (Waits acct c, s)
      | Some m \<Rightarrow> k (s\<lparr>ap_manager := m\<rparr>))"

definition finish :: "api_state \<Rightarrow> unit reply \<times> api_state" where
  "finish s = (Reply (Inr ()), s)"

definition refuse :: "app_error \<Rightarrow> api_state \<Rightarrow> 'a reply \<times> api_state" where
  "refuse e s = (Reply (Inl e), s)"

section \<open>Lookups\<close>

definition get_message_location :: "mail_db \<Rightarrow> nat \<Rightarrow> (string \<times> int \<times> string) option" where
  "get_message_location db mid =
     (case find_message db mid of
        None \<Rightarrow> None
      | Some m \<Rightarrow> (case find_folder db (m_folder m) of
           None \<Rightarrow> None
         | Some f \<Rightarrow> Some (m_account m, m_uid m, f_path f)))"

definition is_local_draft :: "mail_db \<Rightarrow> nat \<Rightarrow> bool" where
  "is_local_draft db mid = (\<exists>m \<in> set (messages db). m_id m = mid \<and> m_local_draft m)"

definition folder_type_of :: "mail_db \<Rightarrow> nat \<Rightarrow> string option" where
  "folder_type_of db mid =
     (case find_message db mid of
        None \<Rightarrow> None
      | Some m \<Rightarrow> map_option f_type (find_folder db (m_folder m)))"

definition hide_message :: "nat \<Rightarrow> mail_db \<Rightarrow> mail_db" where
  "hide_message mid = db_update (\<lambda>m. m_id m = mid) (\<lambda>m. m\<lparr>m_deleted := True\<rparr>)"

section \<open>Flags\<close>

text \<open>\<open>enqueue_flag_op\<close>: the durable row, then the nudge of the task.\<close>

definition queue_flag_op :: "string \<Rightarrow> string \<Rightarrow> int \<Rightarrow> string \<Rightarrow> string \<Rightarrow> bool \<Rightarrow> api_state \<Rightarrow> api_state" where
  "queue_flag_op user acct uid path flag v s =
     s\<lparr>ap_db := enqueue_flag_op acct uid path flag v (ap_db s),
       ap_manager := queue_flag_flush user acct (ap_manager s)\<rparr>"

definition queue_imap_flag :: "string \<Rightarrow> nat \<Rightarrow> string \<Rightarrow> bool \<Rightarrow> api_state \<Rightarrow> api_state" where
  "queue_imap_flag user mid flag v s =
     (case get_message_location (ap_db s) mid of
        None \<Rightarrow> s
      | Some (acct, uid, path) \<Rightarrow> queue_flag_op user acct uid path flag v s)"

definition mark_read :: "string \<Rightarrow> nat \<Rightarrow> bool \<Rightarrow> api_state \<Rightarrow> unit reply \<times> api_state" where
  "mark_read user mid v s =
     (if find_message (ap_db s) mid = None then refuse NotFound s
      else finish (queue_imap_flag user mid ''seen'' v
             (ap_map (db_update (\<lambda>m. m_id m = mid) (\<lambda>m. m\<lparr>m_read := v\<rparr>)) s)))"

definition toggle_flag :: "string \<Rightarrow> nat \<Rightarrow> bool \<Rightarrow> api_state \<Rightarrow> unit reply \<times> api_state" where
  "toggle_flag user mid v s =
     (if find_message (ap_db s) mid = None then refuse NotFound s
      else finish (queue_imap_flag user mid ''flagged'' v
             (ap_map (db_update (\<lambda>m. m_id m = mid) (\<lambda>m. m\<lparr>m_flagged := v\<rparr>)) s)))"

section \<open>Drafts\<close>

text \<open>Deleting a message row cascades to the tables that reference it.\<close>

definition delete_rows :: "(message_row \<Rightarrow> bool) \<Rightarrow> api_state \<Rightarrow> api_state" where
  "delete_rows P s =
     (let gone = m_id ` set (filter P (messages (ap_db s))) in
      s\<lparr>ap_db := (db_delete P (ap_db s))\<lparr>analysis := filter (\<lambda>r. fst r \<notin> gone) (analysis (ap_db s))\<rparr>,
        ap_content := (ap_content s)\<lparr>cd_bodies := filter (\<lambda>r. br_message r \<notin> gone) (cd_bodies (ap_content s)),
          cd_attachments := filter (\<lambda>r. ar_message r \<notin> gone) (cd_attachments (ap_content s))\<rparr>,
        ap_calendar := (ap_calendar s)\<lparr>invitations := filter (\<lambda>r. in_message r \<notin> gone) (invitations (ap_calendar s))\<rparr>,
        ap_drafts := filter (\<lambda>r. dr_message r \<notin> gone) (ap_drafts s)\<rparr>)"

definition delete_local_draft :: "nat \<Rightarrow> api_state \<Rightarrow> (app_error + unit) \<times> api_state" where
  "delete_local_draft mid s =
     (if \<not> is_local_draft (ap_db s) mid then (Inl NotFound, s)
      else (let key = map_option br_key (find (\<lambda>r. br_message r = mid) (cd_bodies (ap_content s)));
                s1 = delete_rows (\<lambda>m. m_id m = mid \<and> m_local_draft m) s
            in (Inr (), case key of None \<Rightarrow> s1
                 | Some k \<Rightarrow> s1\<lparr>ap_content := (ap_content s1)\<lparr>cd_blobs := (cd_blobs (ap_content s1))(k := None)\<rparr>\<rparr>)))"

definition require_sender_identity :: "string \<Rightarrow> string \<Rightarrow> api_state \<Rightarrow> bool" where
  "require_sender_identity acct from s =
     ((\<exists>a \<in> set (accounts (ap_db s)). a_id a = acct \<and> to_lower (a_email a) = to_lower from)
      \<or> (\<exists>(b, email) \<in> set (ap_aliases s). b = acct \<and> to_lower email = to_lower from))"

text \<open>Enabled folders first; a missing folder is created, unless its path is taken.\<close>

definition ensure_drafts_folder :: "string \<Rightarrow> mail_db \<Rightarrow> (app_error + nat) \<times> mail_db" where
  "ensure_drafts_folder acct db =
     (case sort_key (\<lambda>f. if f_sync_enabled f then 0 else 1 :: nat)
             (filter (\<lambda>f. f_account f = acct \<and> f_type f = ''DRAFTS'') (folders db)) of
        f # _ \<Rightarrow> (Inr (f_id f), db)
      | [] \<Rightarrow>
          (if folder_at db acct ''Mailquill Drafts'' \<noteq> None
           then (Inl (Internal ''UNIQUE constraint failed: folders''), db)
           else (Inr (next_id db), db\<lparr>
             folders := folders db @ [\<lparr>f_id = next_id db, f_account = acct, f_name = ''Drafts'',
               f_path = ''Mailquill Drafts'', f_type = ''DRAFTS'', f_uidvalidity = None, f_last_uid = None,
               f_unread = 0, f_live = 0, f_sync_enabled = False, f_page_token = None, f_backfill_complete = False\<rparr>],
             next_id := next_id db + 1\<rparr>)))"

record draft_request =
  rq_draft :: "nat option"
  rq_account :: string
  rq_from :: string
  rq_to :: "string list"
  rq_cc :: "string list"
  rq_bcc :: "string list"
  rq_subject :: string
  rq_text :: "string option"
  rq_html :: "string option"
  rq_attachments :: "(string \<times> string \<times> string) list"
  rq_in_reply_to :: "string option"
  rq_references :: "string option"

definition max_attachment_bytes :: nat where
  "max_attachment_bytes = 25 * 1024 * 1024"

definition attachment_bytes :: "draft_request \<Rightarrow> nat" where
  "attachment_bytes rq = sum_list (map (\<lambda>(_, _, data). length data * 3 div 4) (rq_attachments rq))"

definition draft_snippet :: "draft_request \<Rightarrow> string" where
  "draft_snippet rq = take 200 (case rq_text rq of Some t \<Rightarrow> t | None \<Rightarrow> or_empty (rq_html rq))"

definition draft_key :: "string \<Rightarrow> nat \<Rightarrow> string" where
  "draft_key acct mid = ''drafts/'' @ acct @ ''/'' @ show_nat mid @ ''/body''"

text \<open>The columns both statements write.\<close>

definition draft_columns :: "draft_request \<Rightarrow> string \<Rightarrow> nat \<Rightarrow> message_row \<Rightarrow> message_row" where
  "draft_columns rq now fid m = m\<lparr>m_folder := fid, m_subject := rq_subject rq,
     m_subject_normalized := to_lower (rq_subject rq), m_snippet := draft_snippet rq, m_from := rq_from rq,
     m_to := join_with '', '' (rq_to rq), m_cc := join_with '', '' (rq_cc rq),
     m_in_reply_to := rq_in_reply_to rq, m_references := rq_references rq, m_internal_date := now\<rparr>"

text \<open>Local drafts take the uids below zero: one below the smallest of the folder.\<close>

definition next_draft_uid :: "nat \<Rightarrow> mail_db \<Rightarrow> int" where
  "next_draft_uid fid db =
     (let uids = map m_uid (filter (\<lambda>m. m_folder m = fid \<and> m_uid m \<le> 0) (messages db))
      in (if uids = [] then 0 else fold min uids (hd uids)) - 1)"

definition new_draft :: "draft_request \<Rightarrow> string \<Rightarrow> nat \<Rightarrow> mail_db \<Rightarrow> message_row" where
  "new_draft rq now fid db = draft_columns rq now fid
     \<lparr>m_id = next_id db, m_account = rq_account rq, m_folder = fid, m_uid = next_draft_uid fid db,
      m_message_id = None, m_thread_id = Some (show_nat (next_id db)), m_in_reply_to = None, m_references = None,
      m_list_id = None, m_subject = [], m_subject_normalized = [], m_snippet = [], m_from = [], m_to = [], m_cc = [],
      m_date = None, m_internal_date = now, m_read = True, m_flagged = False, m_deleted = False,
      m_verdict = Some ''clean'', m_local_draft = True\<rparr>"

text \<open>The message row of a saved draft; \<open>None\<close> when an update moves it onto a taken uid.\<close>

definition write_draft :: "draft_request \<Rightarrow> string \<Rightarrow> nat \<Rightarrow> nat \<Rightarrow> mail_db \<Rightarrow> mail_db option" where
  "write_draft rq now fid mid db =
     (case rq_draft rq of
        None \<Rightarrow> Some (db_insert (new_draft rq now fid db) db)
      | Some _ \<Rightarrow>
          (let db' = db_update (\<lambda>m. m_id m = mid \<and> m_local_draft m) (draft_columns rq now fid) db
           in if uids_ok db' then Some db' else None))"

definition upsert_body_row :: "body_row \<Rightarrow> content_db \<Rightarrow> content_db" where
  "upsert_body_row r c =
     (if \<exists>q \<in> set (cd_bodies c). br_message q = br_message r
      then c\<lparr>cd_bodies := map (\<lambda>q. if br_message q = br_message r then r else q) (cd_bodies c)\<rparr>
      else c\<lparr>cd_bodies := cd_bodies c @ [r]\<rparr>)"

definition upsert_draft_row :: "draft_row \<Rightarrow> draft_row list \<Rightarrow> draft_row list" where
  "upsert_draft_row r ds =
     (if \<exists>q \<in> set ds. dr_message q = dr_message r
      then map (\<lambda>q. if dr_message q = dr_message r then r else q) ds else ds @ [r])"

definition save_draft ::
  "content_env \<Rightarrow> string \<Rightarrow> draft_request \<Rightarrow> api_state \<Rightarrow> nat reply \<times> api_state"
where
  "save_draft C now rq s =
     (let acct = rq_account rq in
      if \<not> require_sender_identity acct (rq_from rq) s then refuse Forbidden s
      else if max_attachment_bytes < attachment_bytes rq
      then refuse (Unprocessable ''total attachment size exceeds 25 MB limit'') s
      else if \<exists>d. rq_draft rq = Some d \<and> \<not> (\<exists>m \<in> set (messages (ap_db s)). m_id m = d \<and> m_account m = acct \<and> m_local_draft m)
      then refuse NotFound s
      else case ensure_drafts_folder acct (ap_db s) of
        (Inl e, db1) \<Rightarrow> refuse e (s\<lparr>ap_db := db1\<rparr>)
      | (Inr fid, db1) \<Rightarrow>
          (let mid = (case rq_draft rq of Some d \<Rightarrow> d | None \<Rightarrow> next_id db1);
               body = ce_body_json C (rq_html rq) (rq_text rq);
               s1 = s\<lparr>ap_db := db1\<rparr>
           in case put_blob C (draft_key acct mid) (ce_compress C body) (ap_content s) of
                None \<Rightarrow> refuse (Internal ''blob store'') s1
              | Some c1 \<Rightarrow>
                  (case write_draft rq now fid mid db1 of
                     None \<Rightarrow> refuse (Internal ''UNIQUE constraint failed: messages'') (s1\<lparr>ap_content := c1\<rparr>)
                   | Some db2 \<Rightarrow>
                       (Reply (Inr mid), s1\<lparr>ap_db := db2,
                          ap_content := upsert_body_row \<lparr>br_message = mid, br_key = draft_key acct mid,
                            br_size = length (ce_compress C body), br_size_uncompressed = length body\<rparr> c1,
                          ap_drafts := upsert_draft_row \<lparr>dr_message = mid, dr_to = rq_to rq, dr_cc = rq_cc rq,
                            dr_bcc = rq_bcc rq, dr_attachments = rq_attachments rq\<rparr> (ap_drafts s)\<rparr>))))"

section \<open>Moves and deletions\<close>

definition archive_message :: "string \<Rightarrow> nat \<Rightarrow> api_state \<Rightarrow> unit reply \<times> api_state" where
  "archive_message user mid s =
     (if is_local_draft (ap_db s) mid then refuse (Unprocessable ''local drafts cannot be archived'') s
      else case get_message_location (ap_db s) mid of
        None \<Rightarrow> refuse NotFound s
      | Some (acct, uid, path) \<Rightarrow> sending acct (IMapMove user (cast_u32 uid) path ''Archive'' False) s finish)"

definition delete_message :: "string \<Rightarrow> nat \<Rightarrow> api_state \<Rightarrow> unit reply \<times> api_state" where
  "delete_message user mid s =
     (if is_local_draft (ap_db s) mid
      then (case delete_local_draft mid s of (r, s') \<Rightarrow> (Reply r, s'))
      else case get_message_location (ap_db s) mid of
        None \<Rightarrow> refuse NotFound s
      | Some (acct, uid, path) \<Rightarrow>
          (let s1 = ap_map (hide_message mid) s in
           if folder_type_of (ap_db s) mid = Some ''TRASH''
           then sending acct (IMapExpunge user (cast_u32 uid) path) s1 finish
           else sending acct (IMapMove user (cast_u32 uid) path ''Trash'' False) s1 finish))"

definition poll_then_finish :: "string \<Rightarrow> api_state \<Rightarrow> unit reply \<times> api_state" where
  "poll_then_finish acct s = finish (s\<lparr>ap_manager := snd (force_poll acct (ap_manager s))\<rparr>)"

definition move_message_to :: "string \<Rightarrow> nat \<Rightarrow> nat \<Rightarrow> api_state \<Rightarrow> unit reply \<times> api_state" where
  "move_message_to user mid fid s =
     (case get_message_location (ap_db s) mid of
        None \<Rightarrow> refuse NotFound s
      | Some (acct, uid, path) \<Rightarrow>
          (case find (\<lambda>f. f_id f = fid \<and> f_account f = acct) (folders (ap_db s)) of
             None \<Rightarrow> refuse NotFound s
           | Some dest \<Rightarrow>
               sending acct (IMapMove user (cast_u32 uid) path (f_path dest) False)
                 (ap_map (hide_message mid) s) (poll_then_finish acct)))"

text \<open>Trust the sender's organisation, and clear the verdict of every flagged message from it.\<close>

definition trust_sender_of :: "phish_env \<Rightarrow> nat \<Rightarrow> mail_db \<Rightarrow> mail_db" where
  "trust_sender_of E mid db =
     (case find_message db mid of
        None \<Rightarrow> db
      | Some m0 \<Rightarrow>
          (case sender_trust_domain E (m_from m0) of
             None \<Rightarrow> db
           | Some d \<Rightarrow>
               (let db1 = db\<lparr>trusted_senders := (if d \<in> set (trusted_senders db) then trusted_senders db
                                                else trusted_senders db @ [d])\<rparr>;
                    cleared = filter (\<lambda>m. m_verdict m \<in> {Some ''suspicious'', Some ''phishing''}
                                \<and> sender_trust_domain E (m_from m) = Some d) (messages db)
                in fold (\<lambda>m. \<lambda>db. (db_update (\<lambda>q. m_id q = m_id m) (\<lambda>q. q\<lparr>m_verdict := Some ''clean''\<rparr>) db)
                      \<lparr>analysis := map (\<lambda>r. if fst r = m_id m
                         then (fst r, fst (snd r), ''clean'', snd (snd (snd r))) else r) (analysis db)\<rparr>)
                    cleared db1)))"

definition mark_not_spam :: "phish_env \<Rightarrow> string \<Rightarrow> nat \<Rightarrow> api_state \<Rightarrow> unit reply \<times> api_state" where
  "mark_not_spam E user mid s =
     (case get_message_location (ap_db s) mid of
        None \<Rightarrow> refuse NotFound s
      | Some (acct, uid, path) \<Rightarrow>
          (let s1 = ap_map (trust_sender_of E mid) s; db = ap_db s1 in
           case sort_key (\<lambda>f. map (of_char :: char \<Rightarrow> nat) (f_path f))
                  (filter (\<lambda>f. f_account f = acct \<and> f_type f = ''INBOX'') (folders db)) of
             [] \<Rightarrow> refuse NotFound s1
           | inbox # _ \<Rightarrow>
               (if to_lower path = to_lower (f_path inbox)
                then (let db' = db_update (\<lambda>m. m_id m = mid) (\<lambda>m. m\<lparr>m_folder := f_id inbox, m_deleted := False\<rparr>) db
                      in if uids_ok db' then finish (s1\<lparr>ap_db := db'\<rparr>)
                         else refuse (Internal ''UNIQUE constraint failed: messages'') s1)
                else if map_option f_type (folder_at db acct path) \<noteq> Some ''SPAM'' then finish s1
                else sending acct (IMapMove user (cast_u32 uid) path (f_path inbox) False)
                       (ap_map (hide_message mid) s1) (poll_then_finish acct))))"

end
