(* ===== verification/Thread_Actions.thy ===== *)
theory Thread_Actions
  imports Handlers
begin

text \<open>
  Whole conversations (backend/api/src/routes/threads.rs): the view of a thread, and the action that
  archives, deletes or marks every message of it.  The action works on the rows selected at its start;
  it stops at the first error, and waits like the handlers of a single message.
\<close>

section \<open>The view\<close>

text \<open>ISO dates compare as text.\<close>

definition date_key :: "message_row \<Rightarrow> nat list" where
  "date_key m = map (of_char :: char \<Rightarrow> nat) (m_internal_date m)"

definition live_thread :: "string \<Rightarrow> mail_db \<Rightarrow> message_row list" where
  "live_thread tid db = filter (\<lambda>m. m_thread_id m = Some tid \<and> \<not> m_deleted m) (messages db)"

text \<open>Copies of one message share its Message-ID: the first is kept.  \<open>seen\<close> is the hash set.\<close>

fun collapse_copies :: "string set \<Rightarrow> message_row list \<Rightarrow> message_row list" where
  "collapse_copies seen [] = []"
| "collapse_copies seen (m # ms) =
     (case m_message_id m of
        None \<Rightarrow> m # collapse_copies seen ms
      | Some h \<Rightarrow> if h \<in> seen then collapse_copies seen ms else m # collapse_copies (insert h seen) ms)"

record thread_view =
  tv_messages :: "message_row list"
  tv_size :: nat
  tv_unread :: nat
  tv_participants :: "string list"

text \<open>The participants are read along the date index of the thread.\<close>

definition get_thread :: "string \<Rightarrow> mail_db \<Rightarrow> app_error + thread_view" where
  "get_thread tid db =
     (let rows = sort_key date_key (live_thread tid db) in
      if rows = [] then Inl NotFound
      else (let shown = collapse_copies {} rows in
        Inr \<lparr>tv_messages = shown, tv_size = length shown,
             tv_unread = length (filter (\<lambda>m. \<not> m_read m) (live_thread tid db)),
             tv_participants = take 3 (dedup (map m_from rows))\<rparr>))"

section \<open>The actions\<close>

datatype thread_action = Archive | Delete | MarkRead bool

record thread_entry =
  te_id :: nat
  te_account :: string
  te_uid :: int
  te_path :: string
  te_draft :: bool
  te_type :: string

fun thread_entries :: "mail_db \<Rightarrow> message_row list \<Rightarrow> thread_entry list" where
  "thread_entries db [] = []"
| "thread_entries db (m # ms) =
     (case find_folder db (m_folder m) of
        None \<Rightarrow> thread_entries db ms
      | Some f \<Rightarrow> \<lparr>te_id = m_id m, te_account = m_account m, te_uid = m_uid m, te_path = f_path f,
                   te_draft = m_local_draft m, te_type = f_type f\<rparr> # thread_entries db ms)"

definition set_read :: "nat \<Rightarrow> bool \<Rightarrow> mail_db \<Rightarrow> mail_db" where
  "set_read mid v = db_update (\<lambda>m. m_id m = mid) (\<lambda>m. m\<lparr>m_read := v\<rparr>)"

primrec thread_loop ::
  "string \<Rightarrow> thread_action \<Rightarrow> thread_entry list \<Rightarrow> api_state \<Rightarrow> unit reply \<times> api_state"
where
  "thread_loop user a [] = finish"
| "thread_loop user a (e # es) = (\<lambda>s.
     if te_draft e
     then (case a of
        Delete \<Rightarrow> (case delete_local_draft (te_id e) s of
            (Inl err, s') \<Rightarrow> refuse err s'
          | (Inr _, s') \<Rightarrow> thread_loop user a es s')
      | MarkRead v \<Rightarrow> thread_loop user a es (ap_map (set_read (te_id e) v) s)
      | Archive \<Rightarrow> thread_loop user a es s)
     else (case a of
        Archive \<Rightarrow>
          sending (te_account e) (IMapMove user (cast_u32 (te_uid e)) (te_path e) ''Archive'' False) s
            (thread_loop user a es)
      | Delete \<Rightarrow>
          sending (te_account e)
            (if te_type e = ''TRASH'' then IMapExpunge user (cast_u32 (te_uid e)) (te_path e)
             else IMapMove user (cast_u32 (te_uid e)) (te_path e) ''Trash'' False)
            (ap_map (hide_message (te_id e)) s) (thread_loop user a es)
      | MarkRead v \<Rightarrow>
          thread_loop user a es (queue_flag_op user (te_account e) (te_uid e) (te_path e) ''seen'' v
            (ap_map (set_read (te_id e) v) s))))"

definition bulk_thread_action ::
  "string \<Rightarrow> string \<Rightarrow> thread_action \<Rightarrow> api_state \<Rightarrow> unit reply \<times> api_state"
where
  "bulk_thread_action user tid a s =
     (let es = thread_entries (ap_db s) (live_thread tid (ap_db s))
      in if es = [] then refuse NotFound s else thread_loop user a es s)"

section \<open>Lemmas\<close>

lemma collapse_copies_sub: "set (collapse_copies seen ms) \<subseteq> set ms"
  by (induction seen ms rule: collapse_copies.induct) (auto split: option.splits)

lemma collapse_copies_fresh: "Some h \<in> m_message_id ` set (collapse_copies seen ms) \<Longrightarrow> h \<notin> seen"
proof (induction seen ms rule: collapse_copies.induct)
  case (2 seen n ms)
  then show ?case by (cases "m_message_id n"; cases "the (m_message_id n) \<in> seen") auto
qed simp

lemma collapse_copies_ids:
  "distinct (map m_message_id (filter (\<lambda>m. m_message_id m \<noteq> None) (collapse_copies seen ms)))"
proof (induction seen ms rule: collapse_copies.induct)
  case (2 seen n ms)
  show ?case
  proof (cases "m_message_id n")
    case (Some h)
    have "Some h \<notin> m_message_id ` set (collapse_copies (insert h seen) ms)"
      using collapse_copies_fresh [of h "insert h seen" ms] by auto
    then have "Some h \<notin> set (map m_message_id (filter P (collapse_copies (insert h seen) ms)))" for P by auto
    then show ?thesis using 2 Some by simp
  qed (use 2 in simp)
qed simp

text \<open>Every message is shown, itself or as its first copy.\<close>

definition shown_in :: "message_row \<Rightarrow> message_row list \<Rightarrow> bool" where
  "shown_in m ns = (m \<in> set ns \<or> (m_message_id m \<noteq> None \<and> m_message_id m \<in> m_message_id ` set ns))"

lemma collapse_copies_complete:
  "m \<in> set ms \<Longrightarrow> shown_in m (collapse_copies seen ms) \<or> (\<exists>h \<in> seen. m_message_id m = Some h)"
proof (induction seen ms rule: collapse_copies.induct)
  case (2 seen n ms)
  show ?case
  proof (cases "m_message_id n")
    case None
    then show ?thesis using 2 by (auto simp: shown_in_def)
  next
    case (Some h)
    then show ?thesis
    proof (cases "h \<in> seen")
      case True
      then show ?thesis using 2 Some by auto
    next
      case False
      then show ?thesis using 2 Some by (auto simp: shown_in_def image_iff)
    qed
  qed
qed simp

lemma thread_entries_in:
  "e \<in> set (thread_entries db ms) \<Longrightarrow> \<exists>m \<in> set ms. m_id m = te_id e \<and> m_uid m = te_uid e
     \<and> m_account m = te_account e \<and> m_local_draft m = te_draft e"
  by (induction ms) (auto split: option.splits)

end
