(* ===== verification/Reading.thy ===== *)
theory Reading
  imports Sync Tokens Thread_Actions
begin

text \<open>
  Opening a message (backend/api/src/routes/messages.rs): \<open>get_message\<close> reads the stored body and
  fetches the raw message through the account's provider when the body, the phishing verdict or the
  inline images are missing.

  \<open>reader\<close> is the state such a request works on: the user's database and blobs, the mail server and the
  OAuth token endpoint.  The codecs, parsers and the provider are those of \<open>sync_env\<close>; its token callback
  is replaced by \<open>fresh_access_token\<close>.
\<close>

record ('p, 'r) reader =
  rd_api :: api_state
  rd_server :: 'p
  rd_tokens :: 'r

definition reader_fail :: "app_error \<Rightarrow> ('p, 'r) reader \<Rightarrow> (app_error + 'a) \<times> ('p, 'r) reader" where
  "reader_fail e s = (Inl e, s)"

definition reading_config :: "'p sync_env \<Rightarrow> account_row \<Rightarrow> json \<Rightarrow> string option \<Rightarrow> provider_config" where
  "reading_config E a creds access =
     \<lparr>pc_host = a_imap_host a, pc_port = nat (a_imap_port a mod 65536),
      pc_username = to_lower (imap_username creds (a_email a)),
      pc_password = or_empty (as_str (jget creds ''imap_password'')),
      pc_token = access, pc_auth_scheme = a_auth_scheme a, pc_cert = se_cert E (a_tls_cert a), pc_account = a_id a\<rparr>"

text \<open>\<open>mail_sync::fetch_body_by_uid\<close>: connect, fetch the raw message, store it.\<close>

definition fetch_and_store ::
  "'p sync_env \<Rightarrow> provider_kind \<Rightarrow> provider_config \<Rightarrow> string \<Rightarrow> nat \<Rightarrow> string \<Rightarrow> nat \<Rightarrow> ('p, 'r) reader
     \<Rightarrow> (app_error + string option \<times> string option) \<times> ('p, 'r) reader"
where
  "fetch_and_store E kind config path uid acct mid s =
     (case se_connect E kind config of
        Some e \<Rightarrow> reader_fail (Internal (show_provider_error e)) s
      | None \<Rightarrow>
          (case fetch_raw (se_backend E) path uid (ap_db (rd_api s), rd_server s) of
             (Inl e, db1, p1) \<Rightarrow>
               reader_fail (Internal (show_provider_error e)) (s\<lparr>rd_api := (rd_api s)\<lparr>ap_db := db1\<rparr>, rd_server := p1\<rparr>)
           | (Inr raw, db1, p1) \<Rightarrow>
               (case fetch_body_by_uid (se_content E) (se_phish E) (se_brands E) (se_feed E) acct uid mid raw
                       (db1, ap_content (rd_api s)) of
                  (r, db2, c2) \<Rightarrow>
                    ((case r of Inl m \<Rightarrow> Inl (Internal m) | Inr ht \<Rightarrow> Inr ht),
                     s\<lparr>rd_api := (rd_api s)\<lparr>ap_db := db2, ap_content := c2\<rparr>, rd_server := p1\<rparr>))))"

definition fetch_body_on_demand ::
  "'p sync_env \<Rightarrow> 'r token_env \<Rightarrow> nat \<Rightarrow> string \<Rightarrow> nat \<Rightarrow> nat \<Rightarrow> ('p, 'r) reader
     \<Rightarrow> (app_error + string option \<times> string option) \<times> ('p, 'r) reader"
where
  "fetch_body_on_demand E T mid acct fid uid s =
     (case account_of (ap_db (rd_api s)) acct of
        None \<Rightarrow> reader_fail NotFound s
      | Some a \<Rightarrow>
          (case tk_decrypt T (a_credentials a) of
             None \<Rightarrow> reader_fail (Internal ''decryption failed'') s
           | Some bytes \<Rightarrow>
               (case tk_parse T bytes of
                  None \<Rightarrow> reader_fail (Internal ''invalid JSON'') s
                | Some creds \<Rightarrow>
                    (case find_folder (ap_db (rd_api s)) fid of
                       None \<Rightarrow> reader_fail NotFound s
                     | Some f \<Rightarrow>
                         (case fresh_access_token T acct (ap_db (rd_api s)) (rd_tokens s) of
                            (res, db1, r1) \<Rightarrow>
                              (let s1 = s\<lparr>rd_api := (rd_api s)\<lparr>ap_db := db1\<rparr>, rd_tokens := r1\<rparr> in
                               case res of
                                 Inl e \<Rightarrow> reader_fail (if is_reauth_required e
                                     then Unprocessable ''oauth_reauthentication_required''
                                     else BadGateway (''oauth token refresh failed: '' @ e)) s1
                               | Inr fresh \<Rightarrow>
                                   fetch_and_store E (parse_kind (a_provider_kind a))
                                     (reading_config E a creds (case fresh of Some t \<Rightarrow> Some t
                                        | None \<Rightarrow> as_str (jget creds ''oauth_access_token'')))
                                     (f_path f) uid acct mid s1))))))"

section \<open>Opening a message\<close>

datatype body_state = Body "string option" "string option" | Unreadable | Unstored

definition read_body :: "content_env \<Rightarrow> content_db \<Rightarrow> nat \<Rightarrow> body_state" where
  "read_body C c mid =
     (case find (\<lambda>r. br_message r = mid) (cd_bodies c) of
        None \<Rightarrow> Unstored
      | Some r \<Rightarrow>
          (case cd_blobs c (br_key r) of
             None \<Rightarrow> Unstored
           | Some data \<Rightarrow>
               (case ce_decompress C data of
                  None \<Rightarrow> Unreadable
                | Some bytes \<Rightarrow>
                    (case ce_read_json C bytes of
                       Some (h, t) \<Rightarrow> Body h t
                     | None \<Rightarrow> Body None (Some bytes)))))"

text \<open>\<open>COUNT(DISTINCT COALESCE(message_id_header, id))\<close> over the thread's live rows of the folder.\<close>

definition thread_rows :: "string \<Rightarrow> nat \<Rightarrow> mail_db \<Rightarrow> message_row list" where
  "thread_rows tid fid db = filter (\<lambda>m. m_folder m = fid) (live_thread tid db)"

definition row_identity :: "message_row \<Rightarrow> string + nat" where
  "row_identity m = (case m_message_id m of Some h \<Rightarrow> Inl h | None \<Rightarrow> Inr (m_id m))"

definition thread_counts :: "message_row \<Rightarrow> mail_db \<Rightarrow> nat \<times> nat" where
  "thread_counts row db =
     (case m_thread_id row of
        None \<Rightarrow> (1, if m_read row then 0 else 1)
      | Some tid \<Rightarrow> (length (dedup (map row_identity (thread_rows tid (m_folder row) db))),
                    length (filter (\<lambda>m. \<not> m_read m) (thread_rows tid (m_folder row) db))))"

record message_view =
  vw_row :: message_row
  vw_folder_type :: "string option"
  vw_html :: "string option"
  vw_text :: "string option"
  vw_available :: bool
  vw_report :: "(int \<times> string \<times> string) option"
  vw_thread_size :: nat
  vw_thread_unread :: nat
  vw_attachments :: "attachment_row list"
  vw_draft :: "draft_row option"

text \<open>The three reasons to fetch, in the order of the code; a failing fetch is ignored.\<close>

definition open_body ::
  "'p sync_env \<Rightarrow> 'r token_env \<Rightarrow> message_row \<Rightarrow> ('p, 'r) reader
     \<Rightarrow> (string option \<times> string option \<times> bool) \<times> ('p, 'r) reader"
where
  "open_body E T row s =
     (case read_body (se_content E) (ap_content (rd_api s)) (m_id row) of
        Body h t \<Rightarrow> ((h, t, True), s)
      | Unreadable \<Rightarrow> ((None, None, False), s)
      | Unstored \<Rightarrow>
          (case fetch_body_on_demand E T (m_id row) (m_account row) (m_folder row) (cast_u32 (m_uid row)) s of
             (Inr (h, t), s') \<Rightarrow> ((h, t, True), s')
           | (Inl _, s') \<Rightarrow> ((None, None, False), s')))"

definition refetch :: "'p sync_env \<Rightarrow> 'r token_env \<Rightarrow> message_row \<Rightarrow> ('p, 'r) reader \<Rightarrow> ('p, 'r) reader" where
  "refetch E T row s =
     snd (fetch_body_on_demand E T (m_id row) (m_account row) (m_folder row) (cast_u32 (m_uid row)) s)"

definition lacks_verdict :: "nat \<Rightarrow> ('p, 'r) reader \<Rightarrow> bool" where
  "lacks_verdict mid s =
     (case find_message (ap_db (rd_api s)) mid of None \<Rightarrow> True | Some m \<Rightarrow> m_verdict m = None)"

definition lacks_inline :: "string option \<Rightarrow> nat \<Rightarrow> ('p, 'r) reader \<Rightarrow> bool" where
  "lacks_inline html mid s =
     (contains_str ''cid:'' (or_empty html)
      \<and> filter (\<lambda>r. ar_message r = mid \<and> ar_content_id r \<noteq> None) (cd_attachments (ap_content (rd_api s))) = [])"

definition get_message ::
  "'p sync_env \<Rightarrow> 'r token_env \<Rightarrow> nat \<Rightarrow> ('p, 'r) reader \<Rightarrow> (app_error + message_view) \<times> ('p, 'r) reader"
where
  "get_message E T mid s =
     (case find_message (ap_db (rd_api s)) mid of
        None \<Rightarrow> reader_fail NotFound s
      | Some row \<Rightarrow>
          (case open_body E T row s of
             ((html, text, available), s1) \<Rightarrow>
               (let s2 = (if lacks_verdict mid s1 then refetch E T row s1 else s1);
                    report = map_option snd (find (\<lambda>r. fst r = mid) (analysis (ap_db (rd_api s2))));
                    s3 = (if lacks_inline html mid s2 then refetch E T row s2 else s2);
                    db = ap_db (rd_api s3)
                in (Inr \<lparr>vw_row = row,
                      vw_folder_type = map_option f_type (find_folder (ap_db (rd_api s)) (m_folder row)),
                      vw_html = html, vw_text = text, vw_available = available, vw_report = report,
                      vw_thread_size = fst (thread_counts row db), vw_thread_unread = snd (thread_counts row db),
                      vw_attachments = filter (\<lambda>r. ar_message r = mid) (cd_attachments (ap_content (rd_api s3))),
                      vw_draft = (if m_local_draft row then find (\<lambda>r. dr_message r = mid) (ap_drafts (rd_api s3))
                                  else None)\<rparr>, s3))))"

definition reanalyse_message ::
  "'p sync_env \<Rightarrow> 'r token_env \<Rightarrow> nat \<Rightarrow> ('p, 'r) reader
     \<Rightarrow> (app_error + (int \<times> string \<times> string)) \<times> ('p, 'r) reader"
where
  "reanalyse_message E T mid s =
     (case find_message (ap_db (rd_api s)) mid of
        None \<Rightarrow> reader_fail NotFound s
      | Some row \<Rightarrow>
          (case fetch_body_on_demand E T mid (m_account row) (m_folder row) (cast_u32 (m_uid row)) s of
             (Inl _, s') \<Rightarrow> reader_fail (Internal ''reanalysis fetch failed'') s'
           | (Inr _, s') \<Rightarrow>
               (case find (\<lambda>r. fst r = mid) (analysis (ap_db (rd_api s'))) of
                  None \<Rightarrow> reader_fail NotFound s'
                | Some r \<Rightarrow> (Inr (snd r), s'))))"

section \<open>Attachments\<close>

text \<open>The header of a download: a quote cannot end the file name early.\<close>

definition content_disposition :: "string option \<Rightarrow> string" where
  "content_disposition name =
     (case name of
        None \<Rightarrow> ''inline''
      | Some n \<Rightarrow> ''inline; filename='' @ [CHR 0x22] @ filter (\<lambda>c. c \<noteq> CHR 0x22) n @ [CHR 0x22])"

definition download_attachment :: "content_db \<Rightarrow> attachment_row option \<Rightarrow> app_error + (string \<times> string \<times> string)" where
  "download_attachment c row =
     (case row of
        None \<Rightarrow> Inl NotFound
      | Some r \<Rightarrow>
          (case cd_blobs c (ar_key r) of
             None \<Rightarrow> Inl NotFound
           | Some bytes \<Rightarrow> Inr (ar_content_type r, content_disposition (ar_filename r), bytes)))"

section \<open>Facts\<close>

lemma read_body_stored: "stored_body C c mid = Some (h, t) \<Longrightarrow> read_body C c mid = Body h t"
  by (auto simp: stored_body_def read_body_def split: option.splits)

lemma analysed_verdict:
  assumes "find_message db mid = Some m"
  shows "\<exists>m'. find_message (analyse_and_store_batch E brands feed [(mid, raw)] db) mid = Some m' \<and> m_verdict m' \<noteq> None
    \<and> m_id m' = m_id m \<and> m_thread_id m' = m_thread_id m"
proof -
  have "find (\<lambda>x. m_id x = mid) (map (\<lambda>m. if m_id m = mid then m\<lparr>m_verdict := v\<rparr> else m) ms)
      = map_option (\<lambda>m. m\<lparr>m_verdict := v\<rparr>) (find (\<lambda>x. m_id x = mid) ms)"
    for v and ms :: "message_row list"
    by (induction ms) auto
  then show ?thesis
    using assms by (simp add: analyse_and_store_batch_def store_report_def find_message_def db_update_def Let_def)
qed

text \<open>With body, verdict and inline parts at hand, opening a message changes nothing and asks nobody.\<close>

lemma get_message_local:
  assumes "find_message (ap_db (rd_api s)) mid = Some row"
    and "read_body (se_content E) (ap_content (rd_api s)) mid = Body h t"
    and "m_verdict row \<noteq> None" "\<not> lacks_inline h mid s"
  shows "\<exists>v. get_message E T mid s = (Inr v, s) \<and> vw_html v = h \<and> vw_text v = t \<and> vw_available v"
proof -
  have "m_id row = mid" using assms(1) by (auto simp: find_message_def find_Some_iff)
  then have "open_body E T row s = ((h, t, True), s)" using assms(2) by (simp add: open_body_def)
  moreover have "\<not> lacks_verdict mid s" using assms(1,3) by (simp add: lacks_verdict_def)
  ultimately show ?thesis using assms(1,4) by (cases "m_local_draft row") (simp_all add: get_message_def Let_def)
qed

lemma fetch_on_demand_effect:
  assumes "fetch_body_on_demand E T mid acct fid uid s = (Inr ht, s')"
  obtains raw db1 where "fetch_body_by_uid (se_content E) (se_phish E) (se_brands E) (se_feed E) acct uid mid raw
      (db1, ap_content (rd_api s)) = (Inr ht, ap_db (rd_api s'), ap_content (rd_api s'))"
proof -
  note outer = that
  have core: thesis if F: "fetch_and_store E kind config path uid acct mid s1 = (Inr ht, s')"
      and C: "ap_content (rd_api s1) = ap_content (rd_api s)" for kind config path s1
  proof -
    obtain res db1 p1 where raw: "fetch_raw (se_backend E) path uid (ap_db (rd_api s1), rd_server s1) = (res, db1, p1)"
      by (metis prod_cases3)
    then obtain raw where res: "res = Inr raw"
      using F by (auto simp: fetch_and_store_def reader_fail_def split: option.splits sum.splits)
    obtain r db2 c2 where f: "fetch_body_by_uid (se_content E) (se_phish E) (se_brands E) (se_feed E) acct uid mid raw
        (db1, ap_content (rd_api s1)) = (r, db2, c2)" by (metis prod_cases3)
    then show thesis
      using F C raw res outer [of raw db1]
      by (auto simp: fetch_and_store_def reader_fail_def split: option.splits sum.splits)
  qed
  show thesis
    using assms
    by (auto simp: fetch_body_on_demand_def reader_fail_def Let_def split: option.splits prod.splits sum.splits
        elim!: core)
qed

end
