(* ===== verification/Mail_Lists.thy ===== *)
theory Mail_Lists
  imports Reading
begin

text \<open>
  The mail lists (backend/db/src/queries.rs, backend/api/src/routes/mailbox.rs): pages of a folder or of a
  view across accounts, newest first, their totals and thread columns, the folder list, and the bulk
  action over a whole list.

  Dates are ISO text and compare as text.  Rows of one date come in table order: SQLite leaves that open.
\<close>

section \<open>Ordering and limits\<close>

fun insert_newest :: "message_row \<Rightarrow> message_row list \<Rightarrow> message_row list" where
  "insert_newest m [] = [m]"
| "insert_newest m (n # ns) = (if date_key n \<le> date_key m then m # n # ns else n # insert_newest m ns)"

definition newest_first :: "message_row list \<Rightarrow> message_row list" where
  "newest_first ms = foldr insert_newest ms []"

text \<open>\<open>LIMIT n\<close>: a negative number is no limit.\<close>

definition sql_limit :: "int \<Rightarrow> 'a list \<Rightarrow> 'a list" where
  "sql_limit n xs = (if n < 0 then xs else take (nat n) xs)"

definition before :: "string option \<Rightarrow> message_row \<Rightarrow> bool" where
  "before cursor m = (case cursor of None \<Rightarrow> True | Some c \<Rightarrow> date_key m < map (of_char :: char \<Rightarrow> nat) c)"

definition listed :: "bool \<Rightarrow> string option \<Rightarrow> message_row \<Rightarrow> bool" where
  "listed unread cursor m = (\<not> m_deleted m \<and> (unread \<longrightarrow> \<not> m_read m) \<and> before cursor m)"

definition has_folder :: "mail_db \<Rightarrow> message_row \<Rightarrow> bool" where
  "has_folder db m = (find_folder db (m_folder m) \<noteq> None)"

section \<open>Pages\<close>

record thread_row =
  tr_row :: message_row
  tr_path :: string
  tr_type :: string
  tr_size :: nat
  tr_unread :: nat
  tr_participants :: "string list"

record page =
  pg_items :: "thread_row list"
  pg_total :: int
  pg_next :: "string option"

definition folder_branch :: "mail_db \<Rightarrow> nat \<Rightarrow> bool \<Rightarrow> string option \<Rightarrow> message_row list" where
  "folder_branch db fid unread cursor =
     filter (\<lambda>m. m_folder m = fid \<and> listed unread cursor m \<and> has_folder db m) (messages db)"

definition view_type :: "string option \<Rightarrow> string" where
  "view_type view =
     (case view of
        None \<Rightarrow> ''INBOX''
      | Some v \<Rightarrow> if v = ''sent'' then ''SENT'' else if v = ''drafts'' then ''DRAFTS'' else if v = ''archive'' then ''ARCHIVE''
                  else if v = ''spam'' then ''SPAM'' else if v = ''trash'' then ''TRASH'' else ''INBOX'')"

definition view_folders :: "mail_db \<Rightarrow> string option \<Rightarrow> string option \<Rightarrow> nat list" where
  "view_folders db view acct =
     map f_id (filter (\<lambda>f. f_type f = view_type view \<and> (case acct of None \<Rightarrow> True | Some a \<Rightarrow> f_account f = a)) (folders db))"

text \<open>The union of the newest rows of each folder, cut again.\<close>

definition merged_branches :: "int \<Rightarrow> message_row list list \<Rightarrow> message_row list" where
  "merged_branches limit branches =
     sql_limit limit (newest_first (concat (map (\<lambda>b. sql_limit limit (newest_first b)) branches)))"

definition starred_rows :: "mail_db \<Rightarrow> string option \<Rightarrow> bool \<Rightarrow> string option \<Rightarrow> message_row list" where
  "starred_rows db acct unread cursor =
     filter (\<lambda>m. m_flagged m \<and> listed unread cursor m \<and> (case acct of None \<Rightarrow> True | Some a \<Rightarrow> m_account m = a) \<and> has_folder db m)
       (messages db)"

definition unified_rows :: "mail_db \<Rightarrow> string option \<Rightarrow> string option \<Rightarrow> string option \<Rightarrow> int \<Rightarrow> bool \<Rightarrow> message_row list" where
  "unified_rows db view acct cursor limit unread =
     (if view = Some ''starred'' then sql_limit limit (newest_first (starred_rows db acct unread cursor))
      else merged_branches limit (map (\<lambda>fid. folder_branch db fid unread cursor) (view_folders db view acct)))"

section \<open>Thread columns\<close>

definition page_threads :: "message_row list \<Rightarrow> string list" where
  "page_threads rows = dedup (map the (filter (\<lambda>t. t \<noteq> None) (map m_thread_id rows)))"

definition thread_members :: "string list \<Rightarrow> mail_db \<Rightarrow> message_row list" where
  "thread_members tids db = filter (\<lambda>m. \<not> m_deleted m \<and> (\<exists>t \<in> set tids. m_thread_id m = Some t)) (messages db)"

definition row_key :: "message_row \<Rightarrow> string option \<times> nat" where
  "row_key m = (m_thread_id m, m_folder m)"

text \<open>\<open>GROUP BY thread_id, folder_id\<close> as a map: a group without rows is absent.\<close>

definition counts_map :: "message_row list \<Rightarrow> string option \<times> nat \<Rightarrow> (nat \<times> nat) option" where
  "counts_map ms k =
     (let g = filter (\<lambda>m. row_key m = k) ms in
      if g = [] then None else Some (length (dedup (map row_identity g)), length (filter (\<lambda>m. \<not> m_read m) g)))"

definition add_participant ::
  "message_row \<Rightarrow> (string option \<times> nat \<Rightarrow> string list option) \<Rightarrow> string option \<times> nat \<Rightarrow> string list option" where
  "add_participant m ps =
     (let v = (case ps (row_key m) of None \<Rightarrow> [] | Some v \<Rightarrow> v)
      in ps(row_key m \<mapsto> (if length v < 3 \<and> m_from m \<notin> set v then v @ [m_from m] else v)))"

definition participants_map :: "message_row list \<Rightarrow> string option \<times> nat \<Rightarrow> string list option" where
  "participants_map ms = fold add_participant (sort_key date_key ms) Map.empty"

definition enrich_row :: "message_row list \<Rightarrow> mail_db \<Rightarrow> message_row \<Rightarrow> thread_row" where
  "enrich_row ms db m =
     (let f = find_folder db (m_folder m);
          alone = (1, if m_read m then 0 else 1);
          cs = (if m_thread_id m = None then alone else (case counts_map ms (row_key m) of None \<Rightarrow> alone | Some c \<Rightarrow> c));
          ps = (if m_thread_id m = None then [m_from m]
                else (case participants_map ms (row_key m) of None \<Rightarrow> [m_from m] | Some p \<Rightarrow> p))
      in \<lparr>tr_row = m, tr_path = (case f of None \<Rightarrow> [] | Some f \<Rightarrow> f_path f),
          tr_type = (case f of None \<Rightarrow> [] | Some f \<Rightarrow> f_type f), tr_size = fst cs, tr_unread = snd cs, tr_participants = ps\<rparr>)"

definition enrich_threads :: "mail_db \<Rightarrow> message_row list \<Rightarrow> thread_row list" where
  "enrich_threads db rows = map (enrich_row (thread_members (page_threads rows) db) db) rows"

definition next_cursor :: "int \<Rightarrow> message_row list \<Rightarrow> string option" where
  "next_cursor limit rows =
     (if int (length rows) = limit \<and> rows \<noteq> [] then Some (m_internal_date (last rows)) else None)"

definition folder_total :: "mail_db \<Rightarrow> bool \<Rightarrow> nat \<Rightarrow> int" where
  "folder_total db unread fid =
     int (length (filter (\<lambda>m. m_folder m = fid \<and> listed unread None m) (messages db)))"

definition view_total :: "mail_db \<Rightarrow> string option \<Rightarrow> string option \<Rightarrow> bool \<Rightarrow> int" where
  "view_total db view acct unread =
     (if view = Some ''starred''
      then int (length (filter (\<lambda>m. m_flagged m \<and> listed unread None m \<and> (case acct of None \<Rightarrow> True | Some a \<Rightarrow> m_account m = a))
             (messages db)))
      else sum_list (map (folder_total db unread) (view_folders db view acct)))"

definition unified_page ::
  "mail_db \<Rightarrow> string option \<Rightarrow> string option \<Rightarrow> string option \<Rightarrow> int \<Rightarrow> bool \<Rightarrow> page"
where
  "unified_page db view acct cursor limit unread =
     (let rows = unified_rows db view acct cursor limit unread
      in \<lparr>pg_items = enrich_threads db rows, pg_total = view_total db view acct unread, pg_next = next_cursor limit rows\<rparr>)"

definition folder_rows :: "mail_db \<Rightarrow> nat \<Rightarrow> string option \<Rightarrow> int \<Rightarrow> bool \<Rightarrow> message_row list" where
  "folder_rows db fid cursor limit unread = sql_limit limit (newest_first (folder_branch db fid unread cursor))"

definition folder_page :: "mail_db \<Rightarrow> nat \<Rightarrow> string option \<Rightarrow> int \<Rightarrow> bool \<Rightarrow> page" where
  "folder_page db fid cursor limit unread =
     (let rows = folder_rows db fid cursor limit unread
      in \<lparr>pg_items = enrich_threads db rows, pg_total = folder_total db unread fid, pg_next = next_cursor limit rows\<rparr>)"

section \<open>Routes\<close>

definition page_limit :: "int option \<Rightarrow> int" where
  "page_limit limit = min (case limit of None \<Rightarrow> 50 | Some n \<Rightarrow> n) 100"

definition unified_inbox ::
  "mail_db \<Rightarrow> string option \<Rightarrow> string option \<Rightarrow> string option \<Rightarrow> int option \<Rightarrow> bool option \<Rightarrow> page"
where
  "unified_inbox db view acct cursor limit unread =
     unified_page db view acct cursor (page_limit limit) (unread = Some True)"

definition folder_nocase :: "mail_db \<Rightarrow> string \<Rightarrow> string \<Rightarrow> folder_row option" where
  "folder_nocase db acct path = find (\<lambda>f. f_account f = acct \<and> to_lower (f_path f) = to_lower path) (folders db)"

definition list_folder_messages ::
  "mail_db \<Rightarrow> string \<Rightarrow> string \<Rightarrow> string option \<Rightarrow> int option \<Rightarrow> bool option \<Rightarrow> app_error + page"
where
  "list_folder_messages db acct path cursor limit unread =
     (case (case folder_at db acct path of Some f \<Rightarrow> Some f | None \<Rightarrow> folder_nocase db acct path) of
        None \<Rightarrow> Inl NotFound
      | Some f \<Rightarrow> Inr (folder_page db (f_id f) cursor (page_limit limit) (unread = Some True)))"

text \<open>Badges: the trigger-maintained counters, and the starred messages.\<close>

definition unread_of_type :: "mail_db \<Rightarrow> string \<Rightarrow> int" where
  "unread_of_type db t = sum_list (map f_unread (filter (\<lambda>f. f_type f = t) (folders db)))"

definition starred_count :: "mail_db \<Rightarrow> nat" where
  "starred_count db = length (filter (\<lambda>m. m_flagged m \<and> \<not> m_deleted m) (messages db))"

definition unified_counts :: "mail_db \<Rightarrow> (string \<times> int) list" where
  "unified_counts db =
     [(''inbox'', unread_of_type db ''INBOX''), (''starred'', int (starred_count db)), (''sent'', unread_of_type db ''SENT''),
      (''drafts'', unread_of_type db ''DRAFTS''), (''archive'', unread_of_type db ''ARCHIVE''),
      (''spam'', unread_of_type db ''SPAM''), (''trash'', unread_of_type db ''TRASH'')]"

definition set_folder_sync :: "string \<Rightarrow> string \<Rightarrow> bool \<Rightarrow> api_state \<Rightarrow> (app_error + bool) \<times> api_state" where
  "set_folder_sync acct path on s =
     (if \<not> (\<exists>f \<in> set (folders (ap_db s)). f_account f = acct \<and> f_path f = path) then (Inl NotFound, s)
      else (let s1 = ap_map (\<lambda>db. db\<lparr>folders := map (\<lambda>f. if f_account f = acct \<and> f_path f = path
                     then f\<lparr>f_sync_enabled := on\<rparr> else f) (folders db)\<rparr>) s
            in (Inr on, if on then s1\<lparr>ap_manager := snd (force_poll acct (ap_manager s1))\<rparr> else s1)))"

definition set_all_folders_sync :: "string \<Rightarrow> bool \<Rightarrow> api_state \<Rightarrow> api_state" where
  "set_all_folders_sync acct on s =
     (let s1 = ap_map (\<lambda>db. db\<lparr>folders := map (\<lambda>f. if f_account f = acct
                 then f\<lparr>f_sync_enabled := on\<rparr> else f) (folders db)\<rparr>) s
      in if on then s1\<lparr>ap_manager := snd (force_poll acct (ap_manager s1))\<rparr> else s1)"

section \<open>Bulk actions\<close>

record bulk_request =
  bk_action :: string
  bk_view :: "string option"
  bk_account :: "string option"
  bk_folder :: "string option"

text \<open>The scope as a predicate on rows, or the missing folder.\<close>

definition bulk_scope :: "mail_db \<Rightarrow> bulk_request \<Rightarrow> app_error + (message_row \<Rightarrow> bool)" where
  "bulk_scope db rq =
     (case (bk_account rq, bk_folder rq) of
        (Some acct, Some path) \<Rightarrow>
          (case folder_nocase db acct path of
             None \<Rightarrow> Inl NotFound
           | Some f \<Rightarrow> Inr (\<lambda>m. m_folder m = f_id f \<and> \<not> m_deleted m))
      | (acct, _) \<Rightarrow>
          Inr (\<lambda>m. (if bk_view rq = Some ''starred'' then m_flagged m
                    else m_folder m \<in> set (view_folders db (bk_view rq) None))
             \<and> \<not> m_deleted m \<and> (case acct of None \<Rightarrow> True | Some a \<Rightarrow> m_account m = a)))"

definition bulk_change :: "string \<Rightarrow> (message_row \<Rightarrow> message_row) option" where
  "bulk_change action =
     (if action = ''read'' then Some (\<lambda>m. m\<lparr>m_read := True\<rparr>)
      else if action = ''flag'' then Some (\<lambda>m. m\<lparr>m_flagged := True\<rparr>)
      else if action = ''archive'' \<or> action = ''delete'' then Some (\<lambda>m. m\<lparr>m_deleted := True\<rparr>)
      else None)"

text \<open>The background task: one queue operation per affected row; it waits while a channel is full.\<close>

definition bulk_entry :: "mail_db \<Rightarrow> message_row \<Rightarrow> string \<times> nat \<times> string \<times> string" where
  "bulk_entry db m = (m_account m, cast_u32 (m_uid m),
     (case find_folder db (m_folder m) of None \<Rightarrow> ([], []) | Some f \<Rightarrow> (f_path f, f_type f)))"

primrec bulk_loop ::
  "string \<Rightarrow> string \<Rightarrow> (string \<times> nat \<times> string \<times> string) list \<Rightarrow> api_state \<Rightarrow> unit reply \<times> api_state"
where
  "bulk_loop user action [] = finish"
| "bulk_loop user action (e # es) = (\<lambda>s.
     case e of (acct, uid, path, type) \<Rightarrow>
       if action = ''read'' then bulk_loop user action es (queue_flag_op user acct (int uid) path ''seen'' True s)
       else if action = ''flag'' then bulk_loop user action es (queue_flag_op user acct (int uid) path ''flagged'' True s)
       else if action = ''archive''
       then sending acct (IMapMove user uid path ''Archive'' False) s (bulk_loop user action es)
       else if action = ''delete''
       then (if type = ''TRASH'' then sending acct (IMapExpunge user uid path) s (bulk_loop user action es)
             else sending acct (IMapMove user uid path ''Trash'' False) s (bulk_loop user action es))
       else bulk_loop user action es s)"

text \<open>The answer counts the rows; the second component is the state once the background task has run.\<close>

definition bulk_action :: "string \<Rightarrow> bulk_request \<Rightarrow> api_state \<Rightarrow> (app_error + nat) \<times> (unit reply \<times> api_state)" where
  "bulk_action user rq s =
     (case bulk_scope (ap_db s) rq of
        Inl e \<Rightarrow> (Inl e, finish s)
      | Inr P \<Rightarrow>
          (case bulk_change (bk_action rq) of
             None \<Rightarrow> (Inl (Unprocessable ''invalid action''), finish s)
           | Some g \<Rightarrow>
               (let rows = filter P (messages (ap_db s)) in
                (Inr (length rows),
                 bulk_loop user (bk_action rq) (map (bulk_entry (ap_db s)) rows) (ap_map (db_update P g) s)))))"

section \<open>The merged view is the sorted view\<close>

fun merge_newest :: "message_row list \<Rightarrow> message_row list \<Rightarrow> message_row list" where
  "merge_newest [] ys = ys"
| "merge_newest xs [] = xs"
| "merge_newest (x # xs) (y # ys) =
     (if date_key y \<le> date_key x then x # merge_newest xs (y # ys) else y # merge_newest (x # xs) ys)"

lemma merge_newest_Nil [simp]: "merge_newest xs [] = xs"
  by (cases xs) simp_all

lemma merge_single: "merge_newest [x] ys = insert_newest x ys"
  by (induction ys) simp_all

lemma merge_insert: "merge_newest (insert_newest x xs) ys = insert_newest x (merge_newest xs ys)"
  by (induction xs ys rule: merge_newest.induct) (auto simp: merge_single)

lemma newest_append: "newest_first (xs @ ys) = merge_newest (newest_first xs) (newest_first ys)"
  by (induction xs) (simp_all add: newest_first_def merge_insert)

abbreviation newest_sorted :: "message_row list \<Rightarrow> bool" where
  "newest_sorted \<equiv> sorted_wrt (\<lambda>a b. date_key b \<le> date_key a)"

lemma set_insert_newest [simp]: "set (insert_newest m ns) = insert m (set ns)"
  by (induction ns) auto

lemma set_newest_first [simp]: "set (newest_first ms) = set ms"
  by (induction ms) (simp_all add: newest_first_def)

lemma mset_newest_first: "length (newest_first ms) = length ms"
proof -
  have "length (insert_newest m ns) = Suc (length ns)" for m ns by (induction ns) simp_all
  then show ?thesis by (induction ms) (simp_all add: newest_first_def)
qed

lemma insert_newest_sorted: "newest_sorted ns \<Longrightarrow> newest_sorted (insert_newest m ns)"
  by (induction ns) auto

lemma newest_first_sorted: "newest_sorted (newest_first ms)"
  by (induction ms) (simp_all add: newest_first_def insert_newest_sorted)

lemma newest_first_id: "newest_sorted ms \<Longrightarrow> newest_first ms = ms"
proof (induction ms)
  case (Cons m ms)
  then have "newest_first (m # ms) = insert_newest m ms" by (simp add: newest_first_def)
  then show ?case using Cons.prems by (cases ms) auto
qed (simp add: newest_first_def)

lemma take_merge: "n \<le> a \<Longrightarrow> n \<le> b \<Longrightarrow> take n (merge_newest (take a xs) (take b ys)) = take n (merge_newest xs ys)"
proof (induction xs ys arbitrary: n a b rule: merge_newest.induct)
  case (3 x xs y ys)
  show ?case
  proof (cases n)
    case (Suc k)
    then obtain c d where ab: "a = Suc c" "k \<le> c" "b = Suc d" "k \<le> d"
      using 3(3,4) by (metis Suc_le_D Suc_le_mono)
    show ?thesis
      using 3(1) [of k c "Suc d"] 3(2) [of k "Suc c" d] ab Suc by simp
  qed simp
qed simp_all

lemma sql_limit_merge:
  "sql_limit n (merge_newest (sql_limit n xs) ys) = sql_limit n (merge_newest xs ys)"
  "sql_limit n xs = sql_limit n ys \<Longrightarrow> sql_limit n (merge_newest zs xs) = sql_limit n (merge_newest zs ys)"
proof -
  show "sql_limit n (merge_newest (sql_limit n xs) ys) = sql_limit n (merge_newest xs ys)"
    using take_merge [of "nat n" "nat n" "nat n + length ys" xs ys] by (simp add: sql_limit_def)
  have "take (nat n) (merge_newest zs (take (nat n) us)) = take (nat n) (merge_newest zs us)" for us
    using take_merge [of "nat n" "nat n + length zs" "nat n" zs us] by simp
  then show "sql_limit n xs = sql_limit n ys \<Longrightarrow> sql_limit n (merge_newest zs xs) = sql_limit n (merge_newest zs ys)"
    by (auto simp: sql_limit_def split: if_splits) metis
qed

lemma newest_sorted_limit: "newest_sorted ms \<Longrightarrow> newest_sorted (sql_limit n ms)"
  by (simp add: sql_limit_def sorted_wrt_take)

text \<open>Cutting each folder first loses nothing of the cut of the whole.\<close>

lemma merged_branches_eq: "merged_branches limit bs = sql_limit limit (newest_first (concat bs))"
  unfolding merged_branches_def
proof (induction bs)
  case (Cons b bs)
  let ?cut = "\<lambda>b. sql_limit limit (newest_first b)"
  have "sql_limit limit (newest_first (concat (map ?cut (b # bs))))
      = sql_limit limit (merge_newest (newest_first (?cut b)) (newest_first (concat (map ?cut bs))))"
    by (simp add: newest_append)
  also have "newest_first (?cut b) = ?cut b"
    by (simp add: newest_first_id newest_sorted_limit newest_first_sorted)
  also have "sql_limit limit (merge_newest (?cut b) (newest_first (concat (map ?cut bs))))
      = sql_limit limit (merge_newest (newest_first b) (newest_first (concat bs)))"
    by (simp only: sql_limit_merge(1) sql_limit_merge(2) [OF Cons.IH])
  finally show ?case by (simp add: newest_append)
qed simp

section \<open>Walking the pages\<close>

lemma insert_newest_filter: "newest_sorted ns \<Longrightarrow>
    filter P (insert_newest m ns) = (if P m then insert_newest m (filter P ns) else filter P ns)"
proof (induction ns)
  case (Cons n ns)
  show ?case
  proof (cases "date_key n \<le> date_key m")
    case True
    have "insert_newest m (filter P (n # ns)) = m # filter P (n # ns)"
    proof (cases "filter P (n # ns)")
      case (Cons k ks)
      then have "k \<in> set (n # ns)" by (metis filter_is_subset list.set_intros(1) subsetD)
      then have "date_key k \<le> date_key m" using Cons.prems True by auto
      then show ?thesis using \<open>filter P (n # ns) = k # ks\<close> by simp
    qed simp
    then show ?thesis using True by simp
  qed (use Cons in auto)
qed simp

lemma newest_first_filter: "newest_first (filter P ms) = filter P (newest_first ms)"
proof (induction ms)
  case (Cons m ms)
  have "filter P (newest_first (m # ms)) = filter P (insert_newest m (newest_first ms))" by (simp add: newest_first_def)
  also have "\<dots> = newest_first (filter P (m # ms))"
    using Cons by (simp add: insert_newest_filter newest_first_sorted) (simp add: newest_first_def)
  finally show ?case by simp
qed (simp add: newest_first_def)

text \<open>Following the cursors, at most \<open>n\<close> pages.\<close>

fun page_walk :: "nat \<Rightarrow> (string option \<Rightarrow> message_row list) \<Rightarrow> int \<Rightarrow> string option \<Rightarrow> message_row list" where
  "page_walk 0 rows limit cursor = []"
| "page_walk (Suc n) rows limit cursor =
     rows cursor @ (case next_cursor limit (rows cursor) of None \<Rightarrow> [] | Some c \<Rightarrow> page_walk n rows limit (Some c))"

definition dates_distinct :: "message_row list \<Rightarrow> bool" where
  "dates_distinct ms = distinct (map date_key ms)"

lemma before_last:
  assumes "newest_sorted (xs @ [l] @ ys)" "dates_distinct (xs @ [l] @ ys)"
  shows "filter (before (Some (m_internal_date l))) (xs @ [l] @ ys) = ys"
proof -
  have k: "before (Some (m_internal_date l)) m \<longleftrightarrow> date_key m < date_key l" for m
    by (simp add: before_def date_key_def)
  have "\<forall>m \<in> set xs. \<not> date_key m < date_key l"
    using assms(1) by (auto simp: sorted_wrt_append not_less)
  moreover have "\<forall>m \<in> set ys. date_key m < date_key l"
  proof
    fix m assume m: "m \<in> set ys"
    have "date_key m \<le> date_key l" using assms(1) m by (simp add: sorted_wrt_append)
    moreover have "date_key l \<notin> date_key ` set ys" using assms(2) by (simp add: dates_distinct_def)
    then have "date_key m \<noteq> date_key l" using m by (metis imageI)
    ultimately show "date_key m < date_key l" by simp
  qed
  ultimately show ?thesis by (simp add: k filter_empty_conv filter_id_conv)
qed

lemma page_walk_all:
  assumes "0 < limit" "newest_sorted L" "dates_distinct L" "L = P @ Q" "length Q < n"
    and "\<And>c. rows c = take (nat limit) (filter (before c) L)"
    and "filter (before cursor) L = Q"
  shows "page_walk n rows limit cursor = Q"
  using assms(4,5,7)
proof (induction n arbitrary: P Q cursor)
  case (Suc n)
  have page: "rows cursor = take (nat limit) Q" using assms(6) Suc.prems(3) by simp
  show ?case
  proof (cases "nat limit \<le> length Q \<and> Q \<noteq> []")
    case False
    then have "rows cursor = Q" "next_cursor limit Q = None"
      using page assms(1) by (auto simp: next_cursor_def)
    then show ?thesis by simp
  next
    case True
    define A where "A = take (nat limit) Q"
    have A: "A \<noteq> []" "length A = nat limit" "Q = A @ drop (nat limit) Q"
      using True assms(1) by (auto simp: A_def)
    obtain B l where Bl: "A = B @ [l]" using A(1) by (metis rev_exhaust)
    have next_: "next_cursor limit (rows cursor) = Some (m_internal_date l)"
      using page A Bl assms(1) by (simp add: next_cursor_def A_def [symmetric])
    have L: "L = (P @ B) @ [l] @ drop (nat limit) Q" using Suc.prems(1) A(3) Bl by simp
    have rest: "filter (before (Some (m_internal_date l))) L = drop (nat limit) Q"
      unfolding L by (rule before_last) (use assms(2,3) L in simp_all)
    have "length (drop (nat limit) Q) < n" using Suc.prems(2) True assms(1) by (cases "nat limit") auto
    then have "page_walk n rows limit (Some (m_internal_date l)) = drop (nat limit) Q"
      using Suc.IH [OF _ _ rest, of "P @ A"] Suc.prems(1) A(3) by simp
    then show ?thesis using next_ page A(3) by (simp add: A_def [symmetric])
  qed
qed simp

section \<open>The batched thread columns\<close>

lemma dedup_seen_cong: "set a = set b \<Longrightarrow> dedup_seen a xs = dedup_seen b xs"
proof (induction a xs arbitrary: b rule: dedup_seen.induct)
  case (2 seen x xs)
  then show ?case by (cases "x \<in> set seen") auto
qed simp

definition grow :: "message_row \<Rightarrow> string list \<Rightarrow> string list" where
  "grow m v = (if length v < 3 \<and> m_from m \<notin> set v then v @ [m_from m] else v)"

lemma fold_grow: "length v \<le> 3 \<Longrightarrow> fold grow ms v = take 3 (v @ dedup_seen v (map m_from ms))"
proof (induction ms arbitrary: v)
  case (Cons m ms)
  consider "m_from m \<in> set v" | "m_from m \<notin> set v" "length v < 3" | "m_from m \<notin> set v" "length v = 3"
    using Cons.prems by linarith
  then show ?case
  proof cases
    case 2
    then show ?thesis
      using Cons.IH [of "v @ [m_from m]"] dedup_seen_cong [of "v @ [m_from m]" "m_from m # v" "map m_from ms"]
      by (simp add: grow_def)
  qed (use Cons in \<open>simp_all add: grow_def\<close>)
qed simp

lemma fold_add_participant:
  "fold add_participant ms acc k =
     (let g = filter (\<lambda>m. row_key m = k) ms in
      if g = [] then acc k else Some (fold grow g (case acc k of None \<Rightarrow> [] | Some v \<Rightarrow> v)))"
proof (induction ms arbitrary: acc)
  case (Cons m ms)
  have one: "add_participant m acc k = (if row_key m = k then Some (grow m (case acc k of None \<Rightarrow> [] | Some v \<Rightarrow> v)) else acc k)"
    by (auto simp: add_participant_def grow_def Let_def)
  show ?case
    by (simp add: Cons.IH one Let_def)
qed simp

lemma participants_map_eq:
  "participants_map ms k =
     (let g = filter (\<lambda>m. row_key m = k) ms in
      if g = [] then None else Some (take 3 (dedup (map m_from (sort_key date_key g)))))"
proof -
  have "filter (\<lambda>m. row_key m = k) (sort_key date_key ms) = sort_key date_key (filter (\<lambda>m. row_key m = k) ms)"
    by (rule filter_sort)
  moreover have "sort_key date_key g = [] \<longleftrightarrow> g = []" for g :: "message_row list"
    by (metis length_0_conv length_sort)
  ultimately show ?thesis
    by (simp add: participants_map_def fold_add_participant Let_def fold_grow dedup_def)
qed

lemma thread_group:
  "t \<in> set tids \<Longrightarrow> filter (\<lambda>m. row_key m = (Some t, fid)) (thread_members tids db) = thread_rows t fid db"
  by (auto simp: thread_members_def thread_rows_def live_thread_def row_key_def intro!: filter_cong)

lemma enrich_threaded:
  assumes "m \<in> set rows" "m \<in> set (messages db)" "\<not> m_deleted m" "m_thread_id m = Some t"
  shows "let r = enrich_row (thread_members (page_threads rows) db) db m in
    (tr_size r, tr_unread r) = thread_counts m db
    \<and> tr_participants r = take 3 (dedup (map m_from (sort_key date_key (thread_rows t (m_folder m) db))))"
proof -
  have "m_thread_id m \<in> set (filter (\<lambda>t. t \<noteq> None) (map m_thread_id rows))"
    using imageI [OF assms(1), of m_thread_id] assms(4) by simp
  then have "the (m_thread_id m) \<in> set (page_threads rows)" unfolding page_threads_def set_dedup set_map by (rule imageI)
  then have t: "t \<in> set (page_threads rows)" using assms(4) by simp
  have "m \<in> set (thread_rows t (m_folder m) db)" using assms by (simp add: thread_rows_def live_thread_def)
  then have ne: "thread_rows t (m_folder m) db \<noteq> []" by auto
  show ?thesis
    using assms(4) ne thread_group [OF t, of "m_folder m" db]
    by (simp add: enrich_row_def counts_map_def participants_map_eq thread_counts_def row_key_def Let_def)
qed

end
