(* ===== verification/System.thy ===== *)
theory System
  imports Mail_Lists Sync_Invariants
begin

text \<open>
  The running system: the API handlers of one user and the tasks of the user's accounts, on one database
  and one registry.  A handler and a command of a task are one step each: it runs to its end before the next
  one begins.  Every state reached by such steps keeps the database consistent and the command queues
  bounded.  The program gives no such guarantee, its tasks can take turns at every database call;
  \<open>unread_counter_race\<close> shows what is then lost.
\<close>

section \<open>Handlers keep the database\<close>

definition api_ok :: "api_state \<Rightarrow> bool" where
  "api_ok a = (db_ok (ap_db a) \<and> queues_bounded (ap_manager a))"

lemma safe_db_ok: "safe db db' \<Longrightarrow> db_ok db \<Longrightarrow> db_ok db'"
  by (simp add: safe_def)

lemma api_ok_map: "safe (ap_db a) (g (ap_db a)) \<Longrightarrow> api_ok a \<Longrightarrow> api_ok (ap_map g a)"
  by (simp add: api_ok_def ap_map_def safe_db_ok)

lemma api_ok_sending:
  assumes "api_ok a" "\<And>m r' a'. api_ok (a\<lparr>ap_manager := m\<rparr>) \<Longrightarrow> k (a\<lparr>ap_manager := m\<rparr>) = (r', a') \<Longrightarrow> api_ok a'"
    and "sending acct c a k = (r, a')"
  shows "api_ok a'"
  using assms by (auto simp: sending_def api_ok_def split: option.splits dest: send_wait_bounded)

lemma api_ok_manager: "manager_step (ap_manager a) m \<Longrightarrow> api_ok a \<Longrightarrow> api_ok (a\<lparr>ap_manager := m\<rparr>)"
  by (simp add: api_ok_def manager_step_bounded)

lemma api_ok_queue_flag_op: "api_ok a \<Longrightarrow> api_ok (queue_flag_op user acct uid path flag v a)"
  unfolding queue_flag_op_def api_ok_def
  using safe_enqueue [THEN safe_db_ok] manager_step_bounded [OF manager_step.flush] by simp

lemma api_ok_queue_imap_flag: "api_ok a \<Longrightarrow> api_ok (queue_imap_flag user mid flag v a)"
  by (auto simp: queue_imap_flag_def api_ok_queue_flag_op split: option.split)

lemma safe_hide: "safe db (hide_message mid db)"
  unfolding hide_message_def by (rule safe_update) (simp add: row_le_def)

lemma safe_set_read: "safe db (set_read mid v db)"
  unfolding set_read_def by (rule safe_update) (simp add: row_le_def)

lemma safe_analysis: "safe db (db\<lparr>analysis := x\<rparr>)"
  by (rule safe_same_rows) simp_all

lemma api_ok_delete_rows: "api_ok a \<Longrightarrow> api_ok (delete_rows P a)"
  using safe_db_ok [OF safe_trans [OF safe_delete safe_analysis]]
  by (simp add: api_ok_def delete_rows_def Let_def)

lemma api_ok_delete_local_draft: "api_ok a \<Longrightarrow> delete_local_draft mid a = (r, a') \<Longrightarrow> api_ok a'"
  by (auto simp: delete_local_draft_def Let_def api_ok_def split: if_splits option.splits
      dest: api_ok_delete_rows [unfolded api_ok_def, rotated])
     (metis api_ok_def api_ok_delete_rows)+

section \<open>Drafts\<close>

lemma fold_min_le: "fold min xs (y :: int) \<le> y \<and> (\<forall>x \<in> set xs. fold min xs y \<le> x)"
proof (induction xs arbitrary: y)
  case (Cons x xs)
  have "fold min xs (min x y) \<le> min x y" and "\<forall>z \<in> set xs. fold min xs (min x y) \<le> z"
    using Cons.IH [of "min x y"] by simp_all
  then show ?case by (auto intro: order.trans)
qed simp

text \<open>The uid of a new draft is negative and below every uid of its folder.\<close>

lemma next_draft_uid_below:
  assumes "m \<in> set (messages db)" "m_folder m = fid"
  shows "next_draft_uid fid db < m_uid m"
proof (cases "m_uid m \<le> 0")
  case True
  let ?us = "map m_uid (filter (\<lambda>m. m_folder m = fid \<and> m_uid m \<le> 0) (messages db))"
  have mem: "m_uid m \<in> set ?us" using assms True by auto
  then have "?us \<noteq> []" by (metis empty_iff list.set(1))
  moreover have "fold min ?us (hd ?us) \<le> m_uid m" using fold_min_le mem by blast
  ultimately show ?thesis by (simp add: next_draft_uid_def Let_def)
next
  case False
  have "next_draft_uid fid db < 0"
  proof (cases "map m_uid (filter (\<lambda>m. m_folder m = fid \<and> m_uid m \<le> 0) (messages db))")
    case (Cons u us)
    then have "u \<in> set (map m_uid (filter (\<lambda>m. m_folder m = fid \<and> m_uid m \<le> 0) (messages db)))" by simp
    then have "u \<le> 0" by auto
    moreover have "fold min (u # us) u \<le> u" using fold_min_le by blast
    ultimately show ?thesis unfolding next_draft_uid_def Cons by simp
  qed (simp add: next_draft_uid_def)
  with False show ?thesis by simp
qed

lemma draft_columns_simps [simp]:
  "m_folder (draft_columns rq now fid m) = fid" "m_uid (draft_columns rq now fid m) = m_uid m"
  "m_id (draft_columns rq now fid m) = m_id m" "m_local_draft (draft_columns rq now fid m) = m_local_draft m"
  "m_deleted (draft_columns rq now fid m) = m_deleted m"
  by (simp_all add: draft_columns_def)

lemma safe_insert_draft:
  assumes "fid < next_id db"
  shows "safe db (db_insert (new_draft rq now fid db) db)"
proof (rule safe_insert)
  show "m_folder (new_draft rq now fid db) < next_id db" using assms by (simp add: new_draft_def)
  have "\<not> (m_folder m = fid \<and> m_uid m = next_draft_uid fid db)" if "m \<in> set (messages db)" for m
    using next_draft_uid_below [OF that] by auto
  then show "find (same_uid (new_draft rq now fid db)) (messages db) = None"
    by (auto simp: find_None_eq same_uid_def new_draft_def)
qed

text \<open>An update that moves rows to an existing folder keeps the database when the uids stay unique.\<close>

lemma db_ok_refile:
  assumes "db_ok db" "uids_ok (db_update P g db)" "\<And>m. m_id (g m) = m_id m" "\<And>m. m_folder (g m) = fid" "fid < next_id db"
  shows "db_ok (db_update P g db)"
proof -
  have "fids_ok (db_update P g db)" using assms(1,4,5) by (auto simp: db_ok_def fids_ok_def db_update_def)
  moreover have "ids_ok (db_update P g db)" using assms(1,3) by (auto simp: db_ok_def intro: ids_ok_update)
  ultimately show ?thesis
    using assms(1,2) by (simp add: db_ok_def counts_ok_update pending_ok_def store_simps)
qed

lemma write_draft_ok:
  assumes "db_ok db" "fid < next_id db" "write_draft rq now fid mid db = Some db'"
  shows "db_ok db'"
proof (cases "rq_draft rq")
  case None
  then have "db' = db_insert (new_draft rq now fid db) db" using assms(3) by (simp add: write_draft_def)
  then show ?thesis using safe_db_ok [OF safe_insert_draft [OF assms(2)] assms(1)] by simp
next
  case (Some d)
  then have "db' = db_update (\<lambda>m. m_id m = mid \<and> m_local_draft m) (draft_columns rq now fid) db" "uids_ok db'"
    using assms(3) by (auto simp: write_draft_def Let_def split: if_splits)
  then show ?thesis using assms(1,2) db_ok_refile by simp
qed

lemma ensure_drafts_folder_ok:
  assumes "db_ok db" "ensure_drafts_folder acct db = (r, db')"
  shows "db_ok db' \<and> (\<forall>fid. r = Inr fid \<longrightarrow> fid < next_id db')"
proof (cases "sort_key (\<lambda>f. if f_sync_enabled f then 0 else 1 :: nat)
    (filter (\<lambda>f. f_account f = acct \<and> f_type f = ''DRAFTS'') (folders db))")
  case Nil
  then show ?thesis
    using assms safe_db_ok [OF safe_new_folder [of _ db]]
    by (auto simp: ensure_drafts_folder_def Let_def split: if_splits)
next
  case (Cons f fs)
  then have "f \<in> set (folders db)"
    by (metis (no_types, lifting) filter_is_subset list.set_intros(1) set_sort subsetD)
  then show ?thesis using assms Cons by (auto simp: ensure_drafts_folder_def db_ok_def fids_ok_def)
qed

lemma put_blob_manager: "api_ok a \<Longrightarrow> api_ok (a\<lparr>ap_content := c\<rparr>)" "api_ok a \<Longrightarrow> api_ok (a\<lparr>ap_drafts := d\<rparr>)"
  by (simp_all add: api_ok_def)

lemma save_draft_ok:
  assumes "api_ok a" "save_draft C now rq a = (r, a')"
  shows "api_ok a'"
proof -
  obtain res db1 where e: "ensure_drafts_folder (rq_account rq) (ap_db a) = (res, db1)" by fastforce
  have db1: "db_ok db1" "res = Inr fid \<Longrightarrow> fid < next_id db1" for fid
    using ensure_drafts_folder_ok [OF _ e] assms(1) by (auto simp: api_ok_def)
  have wd: "db_ok db2" if "res = Inr fid" "write_draft rq now fid mid db1 = Some db2" for fid mid db2
    using write_draft_ok [OF db1(1) _ that(2)] db1(2) that(1) by blast
  show ?thesis
    using assms db1(1) wd e
    by (auto simp: save_draft_def refuse_def api_ok_def Let_def split: if_splits sum.splits option.splits)
qed

section \<open>The handlers, one by one\<close>

text \<open>\<open>keeps_api k\<close>: the handler \<open>k\<close> keeps \<open>api_ok\<close>, however it ends.\<close>

definition keeps_api :: "(api_state \<Rightarrow> 'a reply \<times> api_state) \<Rightarrow> bool" where
  "keeps_api k = (\<forall>a. api_ok a \<longrightarrow> api_ok (snd (k a)))"

lemma keeps_api_finish: "keeps_api finish"
  by (simp add: keeps_api_def finish_def)

lemma refuse_state [simp]: "snd (refuse e a) = a" "snd (finish a) = a"
  by (simp_all add: refuse_def finish_def)

lemma keeps_api_sending: "keeps_api k \<Longrightarrow> api_ok a \<Longrightarrow> api_ok (snd (sending acct c a k))"
  by (auto simp: keeps_api_def sending_def api_ok_def split: option.splits dest: send_wait_bounded)

lemma keeps_api_poll: "keeps_api (poll_then_finish acct)"
  unfolding keeps_api_def poll_then_finish_def refuse_state
  by (metis api_ok_manager manager_step.poll prod.collapse)

lemma mark_read_ok: "keeps_api (mark_read user mid v)"
proof -
  have "api_ok a \<Longrightarrow> api_ok (ap_map (db_update (\<lambda>m. m_id m = mid) (\<lambda>m. m\<lparr>m_read := v\<rparr>)) a)" for a
    by (rule api_ok_map) (auto intro!: safe_update simp: row_le_def)
  then show ?thesis by (simp add: keeps_api_def mark_read_def api_ok_queue_imap_flag)
qed

lemma toggle_flag_ok: "keeps_api (toggle_flag user mid v)"
proof -
  have "api_ok a \<Longrightarrow> api_ok (ap_map (db_update (\<lambda>m. m_id m = mid) (\<lambda>m. m\<lparr>m_flagged := v\<rparr>)) a)" for a
    by (rule api_ok_map) (auto intro!: safe_update simp: row_le_def)
  then show ?thesis by (simp add: keeps_api_def toggle_flag_def api_ok_queue_imap_flag)
qed

lemma archive_ok: "keeps_api (archive_message user mid)"
  by (auto simp: keeps_api_def archive_message_def keeps_api_sending keeps_api_finish split: option.split)

lemma hide_ok: "api_ok a \<Longrightarrow> api_ok (ap_map (hide_message mid) a)"
  by (intro api_ok_map safe_hide)

lemma delete_ok: "keeps_api (delete_message user mid)"
proof -
  have "api_ok (snd (case delete_local_draft mid a of (r, s') \<Rightarrow> (Reply r, s')))" if "api_ok a" for a
    using api_ok_delete_local_draft [OF that] by (auto split: prod.split)
  then show ?thesis
    unfolding keeps_api_def delete_message_def Let_def
    by (auto intro!: keeps_api_sending keeps_api_finish hide_ok split: option.split)
qed

lemma move_ok: "keeps_api (move_message_to user mid fid)"
  unfolding keeps_api_def
  by (auto simp: move_message_to_def intro!: keeps_api_sending keeps_api_poll hide_ok split: option.split)

lemma safe_trust: "safe db (trust_sender_of E mid db)"
proof -
  have one: "safe db ((db_update (\<lambda>q. m_id q = i) (\<lambda>q. q\<lparr>m_verdict := v\<rparr>) db)\<lparr>analysis := x\<rparr>)" for db i v x
    by (rule safe_trans [OF safe_update safe_analysis]) (simp add: row_le_def)
  have t: "safe db (db\<lparr>trusted_senders := x\<rparr>)" for x by (rule safe_same_rows) simp_all
  have f1: "safe db' (fold (\<lambda>m db. (db_update (\<lambda>q. m_id q = m_id m) (\<lambda>q. q\<lparr>m_verdict := Some ''clean''\<rparr>) db)
        \<lparr>analysis := g m db\<rparr>) ms db')" for db' g ms
    by (rule safe_fold) (rule one)
  then have f2: "safe db (fold (\<lambda>m db. (db_update (\<lambda>q. m_id q = m_id m) (\<lambda>q. q\<lparr>m_verdict := Some ''clean''\<rparr>) db)
        \<lparr>analysis := g m db\<rparr>) ms (db\<lparr>trusted_senders := x\<rparr>))" for g ms x
    by (rule safe_trans [OF t])
  show ?thesis
    unfolding trust_sender_of_def Let_def by (auto split: option.split intro!: f1 f2)
qed

lemma head_of_sorted: "sort_key k (filter P xs) = y # ys \<Longrightarrow> y \<in> set xs \<and> P y"
  by (metis (mono_tags, lifting) list.set_intros(1) mem_Collect_eq set_filter set_sort)

lemma not_spam_ok: "keeps_api (mark_not_spam E user mid)"
  unfolding keeps_api_def
proof (intro allI impI)
  fix a assume ok: "api_ok a"
  let ?a = "ap_map (trust_sender_of E mid) a"
  have ok1: "api_ok ?a" using ok by (intro api_ok_map safe_trust)
  have refile: "api_ok (?a\<lparr>ap_db := db_update P (\<lambda>m. m\<lparr>m_folder := f_id f, m_deleted := False\<rparr>) (ap_db ?a)\<rparr>)"
    if "uids_ok (db_update P (\<lambda>m. m\<lparr>m_folder := f_id f, m_deleted := False\<rparr>) (ap_db ?a))" "f \<in> set (folders (ap_db ?a))" for P f
    using ok1 that db_ok_refile [of "ap_db ?a" P _ "f_id f"] by (auto simp: api_ok_def db_ok_def fids_ok_def)
  show "api_ok (snd (mark_not_spam E user mid a))"
    using ok ok1
    by (auto simp: mark_not_spam_def Let_def intro!: keeps_api_sending keeps_api_poll hide_ok refile
        dest!: head_of_sorted split: option.split list.split)
qed

lemma thread_loop_ok: "keeps_api (thread_loop user act es)"
proof (induction es)
  case (Cons e es)
  have step: "api_ok a \<Longrightarrow> api_ok (snd (thread_loop user act es a))" for a
    using Cons.IH by (simp add: keeps_api_def)
  show ?case
    unfolding keeps_api_def
  proof (intro allI impI)
    fix a assume ok: "api_ok a"
    have drop: "api_ok (snd (case delete_local_draft i a of (Inl err, s') \<Rightarrow> refuse err s' | (Inr x, s') \<Rightarrow> thread_loop user act es s'))" for i
      using api_ok_delete_local_draft [OF ok] step by (auto split: prod.split sum.split)
    have read: "api_ok (ap_map (set_read i v) a)" "api_ok (ap_map (hide_message i) a)" for i v
      using ok hide_ok by (simp_all add: api_ok_map safe_set_read)
    have send: "api_ok a' \<Longrightarrow> api_ok (snd (sending acct c a' (thread_loop user act es)))" for acct c a'
      by (rule keeps_api_sending [OF Cons.IH])
    show "api_ok (snd (thread_loop user act (e # es) a))"
    proof (cases act)
      case Delete
      show ?thesis using drop [of "te_id e"] read send unfolding Delete by simp
    qed (use ok step read send api_ok_queue_flag_op in simp_all)
  qed
qed (simp add: keeps_api_finish)

lemma bulk_thread_ok: "keeps_api (bulk_thread_action user tid act)"
  using thread_loop_ok unfolding keeps_api_def bulk_thread_action_def Let_def by auto

section \<open>Lists and folders\<close>

lemma bulk_loop_ok: "api_ok a \<Longrightarrow> api_ok (snd (bulk_loop user action es a))"
proof (induction es arbitrary: a action)
  case (Cons e es)
  have send: "api_ok (snd (sending acct c a (bulk_loop user act es)))" for acct c act
    by (rule keeps_api_sending [OF _ Cons.prems]) (simp add: keeps_api_def Cons.IH)
  show ?case
    using Cons.IH [OF api_ok_queue_flag_op [OF Cons.prems]] Cons.IH [OF Cons.prems] send
    by (cases e) simp
qed simp

lemma bulk_change_ok:
  assumes "bulk_change action = Some g"
  shows "safe db (db_update P g db)"
proof (rule safe_update)
  have "g \<in> {\<lambda>m. m\<lparr>m_read := True\<rparr>, \<lambda>m. m\<lparr>m_flagged := True\<rparr>, \<lambda>m. m\<lparr>m_deleted := True\<rparr>}"
    using assms by (auto simp: bulk_change_def split: if_splits)
  then show "row_le m (g m)" for m by (auto simp: row_le_def)
qed

lemma bulk_action_ok: "api_ok a \<Longrightarrow> api_ok (snd (snd (bulk_action user rq a)))"
  by (auto simp: bulk_action_def Let_def split: sum.split option.split
      intro!: bulk_loop_ok api_ok_map bulk_change_ok)

lemma safe_switches:
  assumes "\<And>f. P f \<Longrightarrow> g f = f\<lparr>f_sync_enabled := on\<rparr>"
  shows "safe db (db\<lparr>folders := map (\<lambda>f. if P f then g f else f) (folders db)\<rparr>)"
proof -
  have "map f_id (map (\<lambda>f. if P f then g f else f) fs) = map f_id fs" for fs
    using assms by (induction fs) auto
  moreover have "counts_ok db \<Longrightarrow> counts_ok (db\<lparr>folders := map (\<lambda>f. if P f then g f else f) (folders db)\<rparr>)"
    using assms by (auto simp: counts_ok_def folder_counts_ok_def count_live_def count_unread_def)
  moreover have "fids_ok db \<Longrightarrow> fids_ok (db\<lparr>folders := map (\<lambda>f. if P f then g f else f) (folders db)\<rparr>)"
    using assms by (auto simp: fids_ok_def)
  ultimately show ?thesis
    by (auto simp: safe_def db_ok_def old_rows_kept_def row_le_here uids_ok_def ids_ok_def pending_ok_def)
qed

lemma api_ok_force_poll: "api_ok a \<Longrightarrow> api_ok (a\<lparr>ap_manager := snd (force_poll acct (ap_manager a))\<rparr>)"
  by (metis api_ok_manager manager_step.poll prod.collapse)

lemma folder_sync_ok:
  "api_ok a \<Longrightarrow> api_ok (snd (set_folder_sync acct path on a))"
  "api_ok a \<Longrightarrow> api_ok (set_all_folders_sync acct on a)"
  by (auto simp: set_folder_sync_def set_all_folders_sync_def Let_def
      intro!: api_ok_force_poll api_ok_map safe_switches)

section \<open>Reading keeps the database\<close>

lemma safe_save_credentials: "save_credentials T acct creds db = Some db' \<Longrightarrow> safe db db'"
  by (rule safe_same_rows) (auto simp: save_credentials_def split: option.splits)

lemma safe_demand: "demand_sign_in T acct creds db r = (res, db', r') \<Longrightarrow> safe db db'"
  by (auto simp: demand_sign_in_def mark_reauth_required_def split: option.splits dest: safe_save_credentials)

lemma safe_fresh_token:
  assumes "fresh_access_token T acct db r = (res, db', r')"
  shows "safe db db'"
  using assms
proof (cases rule: fresh_token_cases)
  case (demand creds r1)
  then show ?thesis using safe_demand by metis
next
  case (refreshed creds rf)
  then show ?thesis by (simp add: safe_save_credentials)
qed simp_all

lemma safe_fetch_body:
  "fetch_body_by_uid C P brands feed acct uid mid raw (db, c) = (r, db', c') \<Longrightarrow> safe db db'"
  by (auto simp: fetch_body_by_uid_def Let_def safe_analyse split: option.splits)

definition reader_ok :: "('p, 'r) reader \<Rightarrow> bool" where
  "reader_ok s = api_ok (rd_api s)"

lemma reader_ok_db:
  "reader_ok s \<Longrightarrow> safe (ap_db (rd_api s)) db \<Longrightarrow> reader_ok (s\<lparr>rd_api := (rd_api s)\<lparr>ap_db := db\<rparr>\<rparr>)"
  by (auto simp: reader_ok_def api_ok_def dest: safe_db_ok)

context sync_cycle
begin

lemma fetch_and_store_ok:
  assumes "reader_ok s" "fetch_and_store E kind config path uid acct mid s = (r, s')"
  shows "reader_ok s'"
proof -
  obtain ans db1 p1 where raw: "fetch_raw (se_backend E) path uid (ap_db (rd_api s), rd_server s) = (ans, db1, p1)"
    by (metis prod_cases3)
  have s1: "safe (ap_db (rd_api s)) db1" using keeps_frameD [OF fetch_raw_frame raw] by (rule safe_backend)
  have f: "db_ok db2" if "fetch_body_by_uid (se_content E) (se_phish E) (se_brands E) (se_feed E) acct uid mid raw'
      (db1, ap_content (rd_api s)) = (res, db2, c2)" for raw' res db2 c2
    using safe_db_ok [OF safe_trans [OF s1 safe_fetch_body [OF that]]] assms(1) by (simp add: reader_ok_def api_ok_def)
  show ?thesis
    using assms raw safe_db_ok [OF s1]
    by (auto simp: fetch_and_store_def reader_fail_def reader_ok_def api_ok_def
        split: option.splits sum.splits prod.splits dest: f)
qed

lemma fetch_on_demand_ok:
  assumes "reader_ok s" "fetch_body_on_demand E T mid acct fid uid s = (r, s')"
  shows "reader_ok s'"
proof -
  obtain res db1 r1 where t: "fresh_access_token T acct (ap_db (rd_api s)) (rd_tokens s) = (res, db1, r1)"
    by (metis prod_cases3)
  let ?s = "s\<lparr>rd_api := (rd_api s)\<lparr>ap_db := db1\<rparr>, rd_tokens := r1\<rparr>"
  have s1: "reader_ok ?s"
    using reader_ok_db [OF assms(1) safe_fresh_token [OF t]] by (simp add: reader_ok_def)
  then show ?thesis
    using assms t
    by (auto simp: fetch_body_on_demand_def reader_fail_def Let_def split: option.splits sum.splits
        dest: fetch_and_store_ok [OF s1])
qed

lemma get_message_ok:
  assumes "reader_ok s" "get_message E T mid s = (r, s')"
  shows "reader_ok s'"
proof -
  have refetch: "reader_ok x \<Longrightarrow> reader_ok (refetch E T row x)" for x row
    using fetch_on_demand_ok [of x] by (metis prod.collapse refetch_def)
  have opened: "reader_ok x" if "open_body E T row s = (b, x)" for row b x
    using that assms(1) fetch_on_demand_ok [OF assms(1)]
    by (auto simp: open_body_def split: body_state.splits prod.splits sum.splits)
  show ?thesis
    using assms opened refetch
    by (auto simp: get_message_def reader_fail_def Let_def split: option.splits prod.splits if_splits)
qed

lemma reanalyse_ok:
  assumes "reader_ok s" "reanalyse_message E T mid s = (r, s')"
  shows "reader_ok s'"
  using assms fetch_on_demand_ok [OF assms(1)]
  by (auto simp: reanalyse_message_def reader_fail_def split: option.splits prod.splits sum.splits)

end

section \<open>The interleaving\<close>

text \<open>
  The state: what the tasks work on, plus the drafts, the aliases and the token endpoint, which only
  handlers use.  \<open>api_of\<close> and \<open>put_api\<close> are the view a handler has of it.
\<close>

record ('p, 'r) system =
  st_sync :: "'p sync_state"
  st_drafts :: "draft_row list"
  st_aliases :: "(string \<times> string) list"
  st_tokens :: 'r

definition api_of :: "('p, 'r) system \<Rightarrow> api_state" where
  "api_of w = \<lparr>ap_db = sy_db (st_sync w), ap_content = sy_content (st_sync w), ap_calendar = sy_calendar (st_sync w),
     ap_drafts = st_drafts w, ap_aliases = st_aliases w, ap_manager = sy_manager (st_sync w)\<rparr>"

definition put_api :: "api_state \<Rightarrow> ('p, 'r) system \<Rightarrow> ('p, 'r) system" where
  "put_api a w = w\<lparr>st_sync := (st_sync w)\<lparr>sy_db := ap_db a, sy_content := ap_content a, sy_calendar := ap_calendar a,
     sy_manager := ap_manager a\<rparr>, st_drafts := ap_drafts a, st_aliases := ap_aliases a\<rparr>"

datatype request = Read nat bool | Flag nat bool | ArchiveOne nat | DeleteOne nat | MoveTo nat nat | NotSpam nat
  | Thread string thread_action | SaveDraft string draft_request | DropDraft nat
  | Bulk bulk_request | FolderSync string string bool | AllFoldersSync string bool

definition unit_reply :: "(app_error + unit) \<times> api_state \<Rightarrow> unit reply \<times> api_state" where
  "unit_reply x = (Reply (fst x), snd x)"

text \<open>The state in which a request leaves the system, answered or waiting.\<close>

fun serve :: "'p sync_env \<Rightarrow> string \<Rightarrow> request \<Rightarrow> api_state \<Rightarrow> api_state" where
  "serve E user (Read mid v) a = snd (mark_read user mid v a)"
| "serve E user (Flag mid v) a = snd (toggle_flag user mid v a)"
| "serve E user (ArchiveOne mid) a = snd (archive_message user mid a)"
| "serve E user (DeleteOne mid) a = snd (delete_message user mid a)"
| "serve E user (MoveTo mid fid) a = snd (move_message_to user mid fid a)"
| "serve E user (NotSpam mid) a = snd (mark_not_spam (se_phish E) user mid a)"
| "serve E user (Thread tid act) a = snd (bulk_thread_action user tid act a)"
| "serve E user (SaveDraft now rq) a = snd (save_draft (se_content E) now rq a)"
| "serve E user (DropDraft mid) a = snd (unit_reply (delete_local_draft mid a))"
| "serve E user (Bulk rq) a = snd (snd (bulk_action user rq a))"
| "serve E user (FolderSync acct path on) a = snd (set_folder_sync acct path on a)"
| "serve E user (AllFoldersSync acct on) a = set_all_folders_sync acct on a"

definition reader_of :: "('p, 'r) system \<Rightarrow> ('p, 'r) reader" where
  "reader_of w = \<lparr>rd_api = api_of w, rd_server = sy_server (st_sync w), rd_tokens = st_tokens w\<rparr>"

definition put_reader :: "('p, 'r) reader \<Rightarrow> ('p, 'r) system \<Rightarrow> ('p, 'r) system" where
  "put_reader s w =
     (put_api (rd_api s) w)\<lparr>st_sync := (st_sync (put_api (rd_api s) w))\<lparr>sy_server := rd_server s\<rparr>, st_tokens := rd_tokens s\<rparr>"

inductive system_step ::
  "'p sync_env \<Rightarrow> 'r token_env \<Rightarrow> string \<Rightarrow> ('p, 'r) system \<Rightarrow> ('p, 'r) system \<Rightarrow> bool"
  for E :: "'p sync_env" and T :: "'r token_env" and user :: string
where
  request: "system_step E T user w (put_api (serve E user q (api_of w)) w)"
| reading: "get_message E T mid (reader_of w) = (r, s) \<Longrightarrow> system_step E T user w (put_reader s w)"
| reanalysis: "reanalyse_message E T mid (reader_of w) = (r, s) \<Longrightarrow> system_step E T user w (put_reader s w)"
| command: "recv acct (sy_manager (st_sync w)) = Some (c, m)
    \<Longrightarrow> handle_command E acct c ((st_sync w)\<lparr>sy_manager := m\<rparr>) = Some s
    \<Longrightarrow> system_step E T user w (w\<lparr>st_sync := s\<rparr>)"
| cycle: "handle_command E acct ForcePoll (st_sync w) = Some s \<Longrightarrow> system_step E T user w (w\<lparr>st_sync := s\<rparr>)"
| lifecycle: "manager_step (sy_manager (st_sync w)) m
    \<Longrightarrow> system_step E T user w (w\<lparr>st_sync := (st_sync w)\<lparr>sy_manager := m\<rparr>\<rparr>)"

inductive system_reachable ::
  "'p sync_env \<Rightarrow> 'r token_env \<Rightarrow> string \<Rightarrow> ('p, 'r) system \<Rightarrow> ('p, 'r) system \<Rightarrow> bool"
  for E :: "'p sync_env" and T :: "'r token_env" and user :: string
where
  here: "system_reachable E T user w w"
| step: "system_reachable E T user w w' \<Longrightarrow> system_step E T user w' w'' \<Longrightarrow> system_reachable E T user w w''"

definition system_ok :: "('p, 'r) system \<Rightarrow> bool" where
  "system_ok w = (db_ok (sy_db (st_sync w)) \<and> queues_bounded (sy_manager (st_sync w)))"

lemma api_of_ok [simp]: "api_ok (api_of w) = system_ok w"
  by (simp add: api_ok_def api_of_def system_ok_def)

lemma put_api_ok [simp]: "system_ok (put_api a w) = api_ok a"
  by (simp add: api_ok_def put_api_def system_ok_def)

lemma reader_of_ok [simp]: "reader_ok (reader_of w) = system_ok w"
  by (simp add: reader_ok_def reader_of_def)

lemma put_reader_ok [simp]: "system_ok (put_reader s w) = reader_ok s"
  by (simp add: reader_ok_def api_ok_def put_reader_def put_api_def system_ok_def)

lemma serve_ok: "api_ok a \<Longrightarrow> api_ok (serve E user q a)"
proof (cases q)
  case (SaveDraft now rq)
  assume "api_ok a"
  then show ?thesis using SaveDraft save_draft_ok [of a "se_content E" now rq] by (metis prod.collapse serve.simps(8))
next
  case (DropDraft mid)
  assume "api_ok a"
  then show ?thesis
    using DropDraft api_ok_delete_local_draft [of a mid] by (simp add: unit_reply_def) (metis prod.collapse)
next
  case (Bulk rq)
  assume "api_ok a"
  then show ?thesis using Bulk bulk_action_ok by simp
qed (use mark_read_ok toggle_flag_ok archive_ok delete_ok move_ok not_spam_ok bulk_thread_ok folder_sync_ok in
    \<open>auto simp: keeps_api_def\<close>)

section \<open>A cycle leaves the tasks alone\<close>

definition same_tasks :: "'p sync_state \<Rightarrow> 'p sync_state \<Rightarrow> bool" where
  "same_tasks s s' = (sm_tasks (sy_manager s') = sm_tasks (sy_manager s))"

lemma same_tasks_refl [simp]: "same_tasks s s"
  by (simp add: same_tasks_def)

lemma same_tasks_trans [trans]: "same_tasks a b \<Longrightarrow> same_tasks b c \<Longrightarrow> same_tasks a c"
  by (simp add: same_tasks_def)

lemma set_tasks [simp]:
  "sm_tasks (set_state acct st l e m) = sm_tasks m" "sm_tasks (set_progress acct n k m) = sm_tasks m"
  by (simp_all add: set_state_def set_progress_def)

lemma same_tasks_simps [simp]:
  "same_tasks s (map_db f s)" "same_tasks s (report_progress acct n s)" "same_tasks s (publish_sync_status acct s)"
  "same_tasks s (purge_folder fid s)" "same_tasks s (flush_step E acct s)"
  by (simp_all add: same_tasks_def map_db_def report_progress_def publish_sync_status_def purge_folder_def Let_def
      flush_step_def split: prod.split)

lemma same_tasks_call: "call_backend c s = (r, s') \<Longrightarrow> same_tasks s s'"
  by (auto simp: same_tasks_def call_backend_def split: prod.splits)

lemma same_tasks_imported: "same_tasks s (fold (process_imported E j msgs) xs s)"
proof (induction xs arbitrary: s)
  case (Cons x xs)
  have "same_tasks s (process_imported E j msgs x s)" by (simp add: same_tasks_def)
  also have "same_tasks (process_imported E j msgs x s) (fold (process_imported E j msgs) (x # xs) s)"
    using Cons.IH by simp
  finally show ?case .
qed simp

lemma same_tasks_chunk:
  assumes "sync_chunk E j a b cursor s = (r, s')"
  shows "same_tasks s s'"
proof -
  let ?c = "if fj_mode j = ''full'' then fetch_full (se_backend E) (fj_path j) (uid_range a b)
            else fetch_headers (se_backend E) (fj_path j) (uid_range a b)"
  obtain ans s1 where call: "call_backend ?c s = (ans, s1)" by fastforce
  have s1: "same_tasks s s1" by (rule same_tasks_call [OF call])
  have upd: "same_tasks s1 (s1\<lparr>sy_db := x, sy_content := y\<rparr>)" for x y by (simp add: same_tasks_def)
  have deep: "same_tasks s1 (report_progress acct n (map_db h (map_db g (fold (process_imported E j msgs) xs
      (s1\<lparr>sy_db := x, sy_content := y\<rparr>)))))" for acct n g h msgs xs x y
    by (rule same_tasks_trans [OF upd], rule same_tasks_trans [OF same_tasks_imported],
        rule same_tasks_trans [OF same_tasks_simps(1)], rule same_tasks_trans [OF same_tasks_simps(1)])
       (rule same_tasks_simps(2))
  show ?thesis
  proof (cases ans)
    case (Inl e)
    then show ?thesis using assms call s1 by (simp add: sync_chunk_def)
  next
    case (Inr fetched)
    obtain res db2 c2 where p: "persist_message_metadata_chunk E (fj_account j) (fj_folder j) (fj_path j) a b (fj_mode j)
        (sort_key fm_uid fetched) (fj_existing j) (sy_db s1, sy_content s1) = (res, db2, c2)" by (metis prod_cases3)
    show ?thesis
    proof (cases res)
      case (Inl e)
      then have "s' = s1\<lparr>sy_db := db2, sy_content := c2\<rparr>" using assms call Inr p by (simp add: sync_chunk_def)
      then show ?thesis using same_tasks_trans [OF s1 upd] by simp
    next
      case imported: (Inr imported)
      have "\<exists>n h g. s' = report_progress (fj_account j) n (map_db h (map_db g (fold (process_imported E j (sort_key fm_uid fetched))
          imported (s1\<lparr>sy_db := db2, sy_content := c2\<rparr>))))"
        using assms call Inr p imported by (auto simp: sync_chunk_def Let_def)
      then show ?thesis using same_tasks_trans [OF s1 deep] by blast
    qed
  qed
qed

lemma same_tasks_chunk_loop: "chunk_loop E j highest start cursor s = (r, s') \<Longrightarrow> same_tasks s s'"
proof (induction "highest + 1 - start" arbitrary: start cursor s rule: less_induct)
  case less
  show ?case
  proof (cases "start \<le> highest \<and> highest \<le> u32_max")
    case True
    let ?e = "min (saturating_add_u32 start (uid_chunk (fj_kind j) - 1)) highest"
    have e: "start \<le> ?e" using True by (auto simp: saturating_add_u32_def)
    obtain r1 s1 where c: "sync_chunk E j start ?e cursor s = (r1, s1)" by fastforce
    have s1: "same_tasks s s1" by (rule same_tasks_chunk [OF c])
    have rec: "same_tasks s1 s'" if "chunk_loop E j highest (?e + 1) k s1 = (r, s')" for k
      using less.hyps [OF _ that] e True by linarith
    show ?thesis
      using less.prems s1 same_tasks_trans [OF s1 rec] c
      by (auto simp: chunk_loop_step [OF conjunct1 [OF True] conjunct2 [OF True] refl] split: sum.splits if_splits)
  qed (use less.prems in \<open>auto simp: chunk_loop.simps [of E j highest start]\<close>)
qed

lemma same_tasks_uidvalidity: "same_tasks s (check_uidvalidity f v s)"
  by (auto simp: check_uidvalidity_def split: option.split intro: same_tasks_trans [OF same_tasks_simps(4) same_tasks_simps(1)])

lemma same_tasks_folder:
  assumes "sync_folder E acct path mode kind whole s = (r, s')"
  shows "same_tasks s s'"
proof (cases "folder_at (sy_db s) acct path")
  case (Some f)
  have from_: "same_tasks x s'" if "sync_folder_from E acct f path mode kind whole x = (r, s')" for x
  proof -
    let ?prev = "prev_last_uid f"
    obtain r1 s1 where one: "(if 0 < ?prev then call_backend (reconcile_flags (se_backend E) acct (f_id f) path ?prev) x
        else (Inr (), x)) = (r1, s1)" by fastforce
    have s1: "same_tasks x s1" using one by (auto split: if_splits dest: same_tasks_call)
    obtain r2 s2 where two: "call_backend (highest_uid (se_backend E) path) s1 = (r2, s2)" by fastforce
    have s2: "same_tasks x s2" using s1 same_tasks_call [OF two] by (rule same_tasks_trans)
    show ?thesis
      using that one two s1 s2 same_tasks_trans [OF s2 same_tasks_simps(1)] same_tasks_trans [OF s2 same_tasks_chunk_loop]
      by (auto simp: sync_folder_from_def Let_def split: sum.splits option.splits if_splits)
  qed
  obtain r1 s1 where one: "call_backend (folder_status (se_backend E) path) s = (r1, s1)" by fastforce
  have s1: "same_tasks s s1" by (rule same_tasks_call [OF one])
  show ?thesis
    using assms Some one s1 same_tasks_trans [OF same_tasks_trans [OF s1 same_tasks_uidvalidity] from_]
    by (auto simp: sync_folder_def split: sum.splits)
qed (use assms in \<open>simp add: sync_folder_def\<close>)

lemma same_tasks_total: "total_loop E kind fis whole s = (r, s') \<Longrightarrow> same_tasks s s'"
proof (induction E kind fis whole s rule: total_loop.induct)
  case (2 E kind fi fis whole s)
  obtain ans s1 where call: "call_backend (folder_status (se_backend E) (fi_path fi)) s = (ans, s1)" by fastforce
  have s1: "same_tasks s s1" by (rule same_tasks_call [OF call])
  show ?case
    using 2 call s1 same_tasks_trans [OF s1] by (auto split: sum.splits option.splits)
qed simp

lemma same_tasks_folders: "folder_loop E acct mode kind whole fis s = (r, s') \<Longrightarrow> same_tasks s s'"
proof (induction fis arbitrary: s)
  case (Cons fi fis)
  obtain ans s1 where f: "sync_folder E acct (fi_path fi) mode kind whole s = (ans, s1)" by fastforce
  have s1: "same_tasks s s1" by (rule same_tasks_folder [OF f])
  show ?case
    using Cons f s1 same_tasks_trans [OF s1] by (auto split: sum.splits option.splits)
qed simp

lemma same_tasks_account:
  assumes "sync_account E acct s = (r, s')"
  shows "same_tasks s s'"
proof (cases "account_of (sy_db s) acct")
  case (Some a)
  let ?kind = "parse_kind (a_provider_kind a)"
  obtain r1 s1 where list: "call_backend (list_folders (se_backend E)) (flush_step E acct s) = (r1, s1)" by fastforce
  have s1: "same_tasks s s1" using same_tasks_simps(5) same_tasks_call [OF list] by (rule same_tasks_trans)
  let ?s2 = "map_db (discover_folders acct ?kind (projr r1)) s1"
  let ?fis = "synced_folders acct (projr r1) (sy_db ?s2)"
  have s2: "same_tasks s ?s2" using s1 same_tasks_simps(1) by (rule same_tasks_trans)
  obtain r3 s3 where total: "total_loop E ?kind ?fis 0 ?s2 = (r3, s3)" by fastforce
  have s3: "same_tasks s s3" using s2 same_tasks_total [OF total] by (rule same_tasks_trans)
  have finished: "same_tasks s s'" if "folder_loop E acct (a_body_sync_mode a) ?kind w ?fis (report_progress acct w s3) = (r, s')" for w
    using same_tasks_trans [OF s3 same_tasks_trans [OF same_tasks_simps(2) same_tasks_folders [OF that]]] .
  show ?thesis
  proof (cases "open_provider E acct (sy_db s)")
    case (Inr u)
    then show ?thesis
      using assms Some list s1 total s3 finished
      by (cases r1; cases r3) (auto simp: sync_account_def Let_def)
  qed (use assms Some in \<open>simp add: sync_account_def Let_def\<close>)
qed (use assms in \<open>simp add: sync_account_def\<close>)

lemma same_tasks_do_sync: "same_tasks s (do_sync clock acct (timed_sync E acct) s)"
proof (cases "ss_state (account_status (sy_manager s) acct) = ''reauth_required''")
  case False
  let ?s1 = "publish_sync_status acct (s\<lparr>sy_manager := set_state acct ''syncing'' None None (sy_manager s)\<rparr>)"
  obtain r s2 where run: "sync_account E acct ?s1 = (r, s2)" by fastforce
  have "same_tasks s ?s1" by (simp add: same_tasks_def publish_sync_status_def)
  also have "same_tasks ?s1 s2" by (rule same_tasks_account [OF run])
  also have "same_tasks s2 (do_sync clock acct (timed_sync E acct) s)"
    using False run by (simp add: do_sync_def timed_sync_def Let_def same_tasks_def publish_sync_status_def split: option.split)
  finally show ?thesis .
qed (simp add: do_sync_def)

lemma same_tasks_command: "handle_command E acct c s = Some s' \<Longrightarrow> same_tasks s s'"
  using same_tasks_do_sync [of s "se_clock E" acct E]
  by (cases c)
     (auto simp: do_imap_move_def do_imap_expunge_def do_flush_pending_flags_def with_provider_def
       split: sum.split intro: same_tasks_call [OF surjective_pairing])

section \<open>Every reachable state is consistent\<close>

lemma same_tasks_bounded: "same_tasks s s' \<Longrightarrow> queues_bounded (sy_manager s) \<Longrightarrow> queues_bounded (sy_manager s')"
  by (simp add: same_tasks_def queues_bounded_def)

context sync_cycle
begin

lemma command_ok:
  assumes "db_ok (sy_db s)" "queues_bounded (sy_manager s)" "handle_command E acct c s = Some s'"
  shows "db_ok (sy_db s') \<and> queues_bounded (sy_manager s')"
  using handle_command_safe [OF assms(1,3)] same_tasks_bounded [OF same_tasks_command [OF assms(3)] assms(2)] assms(1)
  by (simp add: safe_state_def safe_def)

lemma system_step_ok: "system_step E T user w w' \<Longrightarrow> system_ok w \<Longrightarrow> system_ok w'"
proof (induction rule: system_step.induct)
  case (request w q)
  then show ?case using serve_ok [of "api_of w"] by simp
next
  case (reading mid w r s)
  then show ?case using get_message_ok [OF _ reading(1)] by simp
next
  case (reanalysis mid w r s)
  then show ?case using reanalyse_ok [OF _ reanalysis(1)] by simp
next
  case (command acct w c m s)
  then have "queues_bounded m" by (auto simp: system_ok_def intro: manager_step_bounded [OF manager_step.receive])
  then show ?case using command_ok [OF _ _ command(2)] command by (simp add: system_ok_def)
next
  case (cycle acct w s)
  then show ?case using command_ok [OF _ _ cycle(1)] by (simp add: system_ok_def)
next
  case (lifecycle w m)
  then show ?case by (simp add: system_ok_def manager_step_bounded)
qed

lemma system_reachable_ok: "system_reachable E T user w w' \<Longrightarrow> system_ok w \<Longrightarrow> system_ok w'"
  by (induction rule: system_reachable.induct) (auto intro: system_step_ok)

end

section \<open>The unread counter between two statements\<close>

lemma fewer_in_filter:
  "m \<in> set xs \<Longrightarrow> Q m \<Longrightarrow> \<not> Q (h m) \<Longrightarrow> (\<And>x. Q (h x) \<Longrightarrow> Q x) \<Longrightarrow> length (filter Q (map h xs)) < length (filter Q xs)"
proof (induction xs)
  case (Cons x xs)
  have le: "length (filter Q (map h ys)) \<le> length (filter Q ys)" for ys
    using Cons.prems(4) by (induction ys) auto
  show ?case
  proof (cases "x = m")
    case True
    then show ?thesis using Cons.prems(2,3) le [of xs] by simp
  next
    case False
    then have "length (filter Q (map h xs)) < length (filter Q xs)" using Cons.IH Cons.prems by auto
    then show ?thesis using Cons.prems(4) [of x] by auto
  qed
qed simp

text \<open>The task counts, a request marks a message as read, the task stores what it counted: the counter is too
  high by the messages read in between, until the next synchronisation of the folder.\<close>

theorem unread_counter_race:
  assumes "counts_ok db" "find_folder db fid = Some f" "m \<in> set (messages db)" "is_unread_in fid m"
  defines "db' \<equiv> db_update (\<lambda>x. m_id x = m_id m) (\<lambda>x. x\<lparr>m_read := True\<rparr>) db"
  shows "\<not> counts_ok (write_unread fid (count_unread db fid) db')"
proof -
  let ?h = "\<lambda>x. if m_id x = m_id m then x\<lparr>m_read := True\<rparr> else x"
  have "length (filter (is_unread_in fid) (map ?h (messages db))) < length (filter (is_unread_in fid) (messages db))"
    using assms(3,4) by (intro fewer_in_filter [of m]) (auto simp: is_unread_in_def split: if_splits)
  then have less: "count_unread db' fid < count_unread db fid"
    by (simp add: count_unread_def db'_def db_update_def)
  have ok: "counts_ok db'" unfolding db'_def by (rule counts_ok_update [OF assms(1)])
  obtain f' where f': "find_folder db' fid = Some f'"
  proof -
    have "f \<in> set (folders db)" "f_id f = fid" using assms(2) by (auto simp: find_folder_def find_Some_iff)
    then have "\<exists>g \<in> set (folders db'). f_id g = fid"
      by (auto simp: db'_def db_update_def fold_on_update_frame)
    then show ?thesis using that by (cases "find_folder db' fid") (auto simp: find_folder_def find_None_iff)
  qed
  then have mem: "f' \<in> set (folders db')" "f_id f' = fid" by (auto simp: find_folder_def find_Some_iff)
  then have "f_unread f' = count_unread db' fid" using ok by (simp add: counts_ok_def folder_counts_ok_def)
  then have "write_unread fid (count_unread db fid) db' = update_folder fid (\<lambda>f. f\<lparr>f_unread := count_unread db fid\<rparr>) db'"
    using less f' by (simp add: write_unread_def)
  moreover have "f'\<lparr>f_unread := count_unread db fid\<rparr> \<in> set (folders (update_folder fid (\<lambda>f. f\<lparr>f_unread := count_unread db fid\<rparr>) db'))"
    using mem by (force simp: update_folder_def)
  moreover have "count_unread (update_folder fid g db') fid = count_unread db' fid" for g
    by (simp add: count_unread_def update_folder_def)
  ultimately show ?thesis
    using less mem(2) by (fastforce simp: counts_ok_def folder_counts_ok_def)
qed

end
