(* ===== verification/Sieve.thy ===== *)
theory Sieve
  imports Handlers
begin

text \<open>
  Inbox rules (backend/api/src/routes/rules.rs, backend/api/src/sieve.rs): the stored rules, their
  compilation to a Sieve script, and the upload over ManageSieve.

  \<open>sieve_lex\<close> is the reference for the compiler: the tokens of RFC 5228 (white space, comments, quoted
  strings, tags, punctuation, words) that the generated scripts use.
\<close>

section \<open>Rules\<close>

record cond =
  co_field :: string
  co_op :: string
  co_value :: string

record act =
  ac_kind :: string
  ac_value :: "string option"

record compiled_rule =
  cr_name :: string
  cr_match_all :: bool
  cr_conditions :: "cond list"
  cr_actions :: "act list"

record rule_row =
  ru_id :: nat
  ru_account :: "string option"
  ru_name :: string
  ru_enabled :: bool
  ru_engine :: string
  ru_match_all :: bool
  ru_conditions :: string
  ru_actions :: string

record rule_input =
  ri_account :: "string option"
  ri_name :: string
  ri_enabled :: "bool option"
  ri_engine :: "string option"
  ri_match_all :: "bool option"
  ri_conditions :: "json option"
  ri_actions :: "json option"

definition or_else :: "'a option \<Rightarrow> 'a \<Rightarrow> 'a" where
  "or_else x d = (case x of None \<Rightarrow> d | Some v \<Rightarrow> v)"

definition json_text :: "(json \<Rightarrow> string) \<Rightarrow> json option \<Rightarrow> string" where
  "json_text render v = (case v of None \<Rightarrow> ''[]'' | Some j \<Rightarrow> render j)"

definition rule_columns :: "(json \<Rightarrow> string) \<Rightarrow> rule_input \<Rightarrow> rule_row \<Rightarrow> rule_row" where
  "rule_columns render rq r = r\<lparr>ru_account := ri_account rq, ru_name := ri_name rq,
     ru_enabled := or_else (ri_enabled rq) True, ru_engine := or_else (ri_engine rq) ''sieve'',
     ru_match_all := or_else (ri_match_all rq) True, ru_conditions := json_text render (ri_conditions rq),
     ru_actions := json_text render (ri_actions rq)\<rparr>"

definition create_rule :: "(json \<Rightarrow> string) \<Rightarrow> nat \<Rightarrow> rule_input \<Rightarrow> rule_row list \<Rightarrow> rule_row \<times> rule_row list" where
  "create_rule render i rq rs =
     (let r = rule_columns render rq \<lparr>ru_id = i, ru_account = None, ru_name = [], ru_enabled = True,
                ru_engine = [], ru_match_all = True, ru_conditions = [], ru_actions = []\<rparr>
      in (r, rs @ [r]))"

text \<open>\<open>None\<close>: no row has the id; reading the updated row back then fails.\<close>

definition update_rule :: "(json \<Rightarrow> string) \<Rightarrow> nat \<Rightarrow> rule_input \<Rightarrow> rule_row list \<Rightarrow> rule_row option \<times> rule_row list" where
  "update_rule render i rq rs =
     (let rs' = map (\<lambda>r. if ru_id r = i then rule_columns render rq r else r) rs
      in (find (\<lambda>r. ru_id r = i) rs', rs'))"

definition delete_rule :: "nat \<Rightarrow> rule_row list \<Rightarrow> rule_row list" where
  "delete_rule i rs = filter (\<lambda>r. ru_id r \<noteq> i) rs"

section \<open>The compiler\<close>

abbreviation quote_char :: char where
  "quote_char \<equiv> CHR 0x22"

abbreviation backslash :: char where
  "backslash \<equiv> CHR 0x5C"

abbreviation newline :: char where
  "newline \<equiv> CHR 0x0A"

text \<open>Both replacements at once: the second never meets a backslash of the first followed by a quote.\<close>

fun escape_sieve :: "string \<Rightarrow> string" where
  "escape_sieve [] = []"
| "escape_sieve (c # s) = (if c = backslash \<or> c = quote_char then [backslash, c] else [c]) @ escape_sieve s"

definition quote :: "string \<Rightarrow> string" where
  "quote s = [quote_char] @ escape_sieve s @ [quote_char]"

definition header_for :: "string \<Rightarrow> string option" where
  "header_for field =
     (if field = ''from'' then Some ''from'' else if field = ''to'' then Some ''to''
      else if field = ''subject'' then Some ''subject'' else None)"

definition sieve_test :: "cond \<Rightarrow> string" where
  "sieve_test c =
     (if co_field c = ''body''
      then (if co_op c = ''notContains'' then ''not body :contains '' @ quote (co_value c)
            else ''body :contains '' @ quote (co_value c))
      else (let header = quote (or_else (header_for (co_field c)) ''subject'') in
            if co_op c = ''is'' then ''header :is '' @ header @ '' '' @ quote (co_value c)
            else if co_op c = ''notContains'' then ''not header :contains '' @ header @ '' '' @ quote (co_value c)
            else ''header :contains '' @ header @ '' '' @ quote (co_value c)))"

definition sieve_action :: "act \<Rightarrow> string option" where
  "sieve_action a =
     (if ac_kind a = ''move'' then Some (''    fileinto '' @ quote (or_else (ac_value a) ''INBOX'') @ '';'')
      else if ac_kind a = ''markRead'' then Some (''    setflag '' @ [quote_char, backslash, backslash] @ ''Seen'' @ [quote_char] @ '';'')
      else if ac_kind a = ''star'' then Some (''    setflag '' @ [quote_char, backslash, backslash] @ ''Flagged'' @ [quote_char] @ '';'')
      else if ac_kind a = ''delete'' then Some ''    discard;''
      else if ac_kind a = ''forward'' then Some (''    redirect '' @ quote (or_else (ac_value a) []) @ '';'')
      else None)"

definition action_lines :: "act list \<Rightarrow> string list" where
  "action_lines as = map the (filter (\<lambda>x. x \<noteq> None) (map sieve_action as))"

definition guard_line :: "compiled_rule \<Rightarrow> string" where
  "guard_line r =
     (if cr_conditions r = [] then ''if true {''
      else ''if '' @ (if cr_match_all r then ''allof'' else ''anyof'') @ '' ('' @
           join_with '', '' (map sieve_test (cr_conditions r)) @ '') {'')"

definition sieve_rule :: "compiled_rule \<Rightarrow> string" where
  "sieve_rule r =
     [newline] @ ''# '' @ cr_name r @ [newline] @ guard_line r @ [newline]
     @ concat (map (\<lambda>l. l @ [newline]) (action_lines (cr_actions r)))
     @ ''    stop;'' @ [newline] @ ''}'' @ [newline]"

definition require_line :: string where
  "require_line = ''require ['' @ [quote_char] @ ''fileinto'' @ [quote_char] @ '', '' @ [quote_char] @ ''imap4flags''
     @ [quote_char] @ ''];'' @ [newline]"

definition compile_sieve :: "compiled_rule list \<Rightarrow> string" where
  "compile_sieve rs = require_line @ concat (map sieve_rule rs)"

section \<open>Upload\<close>

text \<open>
  The server is a function from the lines written so far to the bytes it then sends; \<open>ms_tls\<close> is the
  TLS handshake, given the bytes that were left unread before it.
\<close>

record manage_server =
  ms_open :: "string + string"
  ms_plain :: "string list \<Rightarrow> string"
  ms_tls :: "string \<Rightarrow> bool"
  ms_secure :: "string list \<Rightarrow> string"
  ms_base64 :: "string \<Rightarrow> string"

definition status_of_line :: "string \<Rightarrow> (string + unit) option" where
  "status_of_line line =
     (let text = trim_start_by is_ws (trim_end_by (\<lambda>c. c = CHR 0x0D) line); lower = to_lower text in
      if starts_with ''ok'' lower then Some (Inr ())
      else if starts_with ''no'' lower \<or> starts_with ''bye'' lower then Some (Inl text)
      else None)"

text \<open>The bytes end when the peer closes.\<close>

fun read_status :: "string \<Rightarrow> string \<Rightarrow> (string + unit) \<times> string" where
  "read_status line [] = (Inl ''connection closed'', [])"
| "read_status line (b # bs) =
     (if b = newline
      then (case status_of_line line of Some r \<Rightarrow> (r, bs) | None \<Rightarrow> read_status [] bs)
      else read_status (line @ [b]) bs)"

text \<open>One exchange of the dialogue: \<open>sent\<close> are the lines written, \<open>buf\<close> the bytes not yet read.\<close>

definition tell ::
  "(string list \<Rightarrow> string) \<Rightarrow> string \<Rightarrow> string list \<times> string \<Rightarrow> (string + unit) \<times> string list \<times> string"
where
  "tell server line st =
     (case st of (sent, buf) \<Rightarrow>
        (case read_status [] (buf @ server (sent @ [line])) of (r, rest) \<Rightarrow> (r, sent @ [line], rest)))"

fun tell_all ::
  "(string list \<Rightarrow> string) \<Rightarrow> string list \<Rightarrow> string list \<times> string \<Rightarrow> (string + unit) \<times> string list"
where
  "tell_all server [] st = (Inr (), fst st)"
| "tell_all server (line # ls) st =
     (case tell server line st of
        (Inl e, sent, _) \<Rightarrow> (Inl e, sent)
      | (Inr _, st') \<Rightarrow> tell_all server ls st')"

definition sieve_dialogue :: "(string \<Rightarrow> string) \<Rightarrow> string \<Rightarrow> string \<Rightarrow> string \<Rightarrow> string \<Rightarrow> string list" where
  "sieve_dialogue base64 username password name script =
     (let eol = [CHR 0x0D, newline];
          quoted = (\<lambda>s. [quote_char] @ s @ [quote_char]);
          sasl = base64 ([CHR 0x00] @ username @ [CHR 0x00] @ password)
      in [''AUTHENTICATE '' @ quoted ''PLAIN'' @ '' '' @ quoted sasl @ eol,
          ''PUTSCRIPT '' @ quoted name @ '' {'' @ show_nat (length script) @ ''+}'' @ eol @ script @ eol,
          ''SETACTIVE '' @ quoted name @ eol])"

definition starttls_line :: string where
  "starttls_line = ''STARTTLS'' @ [CHR 0x0D, newline]"

definition logout_line :: string where
  "logout_line = ''LOGOUT'' @ [CHR 0x0D, newline]"

text \<open>Returns the outcome, the lines written in clear and the lines written over TLS.\<close>

definition upload_script ::
  "manage_server \<Rightarrow> string \<Rightarrow> string \<Rightarrow> string \<Rightarrow> string \<Rightarrow> (string + unit) \<times> string list \<times> string list"
where
  "upload_script V username password name script =
     (case ms_open V of
        Inl e \<Rightarrow> (Inl e, [], [])
      | Inr greeting \<Rightarrow>
          (case read_status [] greeting of
             (Inl e, _) \<Rightarrow> (Inl e, [], [])
           | (Inr _, rest) \<Rightarrow>
               (case tell (ms_plain V) starttls_line ([], rest) of
                  (Inl e, sent, _) \<Rightarrow> (Inl e, sent, [])
                | (Inr _, sent, left) \<Rightarrow>
                    (if \<not> ms_tls V left then (Inl ''TLS handshake failed'', sent, [])
                     else (case read_status [] (ms_secure V []) of
                         (Inl e, _) \<Rightarrow> (Inl e, sent, [])
                       | (Inr _, rest') \<Rightarrow>
                           (case tell_all (ms_secure V) (sieve_dialogue (ms_base64 V) username password name script) ([], rest') of
                              (Inl e, tls) \<Rightarrow> (Inl e, sent, tls)
                            | (Inr _, tls) \<Rightarrow> (Inr (), sent, tls @ [logout_line])))))))"

text \<open>The rules of an account that are uploaded; \<open>conds\<close> and \<open>acts\<close> are the JSON decoders.\<close>

definition sieve_rules ::
  "(string \<Rightarrow> cond list option) \<Rightarrow> (string \<Rightarrow> act list option) \<Rightarrow> string \<Rightarrow> rule_row list \<Rightarrow> compiled_rule list"
where
  "sieve_rules conds acts acct rs =
     map (\<lambda>r. \<lparr>cr_name = ru_name r, cr_match_all = ru_match_all r,
            cr_conditions = or_else (conds (ru_conditions r)) [], cr_actions = or_else (acts (ru_actions r)) []\<rparr>)
       (filter (\<lambda>r. ru_enabled r \<and> ru_engine r = ''sieve'' \<and> (ru_account r = Some acct \<or> ru_account r = None)) rs)"

definition apply_sieve ::
  "(string \<Rightarrow> string option) \<Rightarrow> (string \<Rightarrow> json option) \<Rightarrow> (string \<Rightarrow> cond list option) \<Rightarrow> (string \<Rightarrow> act list option)
     \<Rightarrow> (string \<Rightarrow> manage_server) \<Rightarrow> string \<Rightarrow> mail_db \<Rightarrow> rule_row list \<Rightarrow> app_error + nat"
where
  "apply_sieve decrypt parse conds acts server acct db rs =
     (case account_of db acct of
        None \<Rightarrow> Inl NotFound
      | Some a \<Rightarrow>
          (case decrypt (a_credentials a) of
             None \<Rightarrow> Inl (Internal ''decryption failed'')
           | Some bytes \<Rightarrow>
               (case parse bytes of
                  None \<Rightarrow> Inl (Internal ''invalid JSON'')
                | Some creds \<Rightarrow>
                    (if as_str (jget creds ''oauth_access_token'') \<noteq> None
                     then Inl (Unprocessable ''Sieve upload is not supported for OAuth accounts'')
                     else (let compiled = sieve_rules conds acts acct rs in
                           case upload_script (server (a_imap_host a)) (or_else (as_str (jget creds ''imap_username'')) [])
                                  (or_else (as_str (jget creds ''imap_password'')) []) ''mailtastic'' (compile_sieve compiled) of
                             (Inl e, _) \<Rightarrow> Inl (BadGateway e)
                           | (Inr _, _) \<Rightarrow> Inr (length compiled))))))"

section \<open>Reading a script back\<close>

datatype sieve_token = Str string | Word string | Tag string | Sym char

definition is_word :: "char \<Rightarrow> bool" where
  "is_word c = (let n = (of_char c :: nat) in (48 \<le> n \<and> n \<le> 57) \<or> (65 \<le> n \<and> n \<le> 90) \<or> (97 \<le> n \<and> n \<le> 122) \<or> n = 95)"

fun lex_quoted :: "string \<Rightarrow> (string \<times> string) option" where
  "lex_quoted [] = None"
| "lex_quoted (c # s) =
     (if c = quote_char then Some ([], s)
      else if c = backslash
      then (case s of [] \<Rightarrow> None | d # r \<Rightarrow> map_option (\<lambda>(t, r'). (d # t, r')) (lex_quoted r))
      else map_option (\<lambda>(t, r'). (c # t, r')) (lex_quoted s))"

lemma lex_quoted_shorter: "lex_quoted s = Some (t, r) \<Longrightarrow> length r < length s"
  by (induction s arbitrary: t rule: lex_quoted.induct) (fastforce split: if_splits list.splits)+

function (sequential) sieve_lex :: "string \<Rightarrow> sieve_token list option" where
  "sieve_lex [] = Some []"
| "sieve_lex (c # s) =
     (if is_ws c then sieve_lex s
      else if c = CHR ''#'' then sieve_lex (dropWhile (\<lambda>d. d \<noteq> newline) s)
      else if c = quote_char
      then (case lex_quoted s of None \<Rightarrow> None | Some (t, r) \<Rightarrow> map_option (Cons (Str t)) (sieve_lex r))
      else if c = CHR '':'' then map_option (Cons (Tag (takeWhile is_word s))) (sieve_lex (dropWhile is_word s))
      else if is_word c then map_option (Cons (Word (c # takeWhile is_word s))) (sieve_lex (dropWhile is_word s))
      else map_option (Cons (Sym c)) (sieve_lex s))"
  by pat_completeness auto
termination
  by (relation "measure length") (auto simp: le_imp_less_Suc length_dropWhile_le dest!: lex_quoted_shorter)

declare sieve_lex.simps(2) [simp del]

text \<open>The tokens a script should have.\<close>

definition test_tokens :: "cond \<Rightarrow> sieve_token list" where
  "test_tokens c =
     (let negation = (if co_op c = ''notContains'' then [Word ''not''] else []) in
      if co_field c = ''body'' then negation @ [Word ''body'', Tag ''contains'', Str (co_value c)]
      else negation @ [Word ''header'', Tag (if co_op c = ''is'' then ''is'' else ''contains''),
             Str (or_else (header_for (co_field c)) ''subject''), Str (co_value c)])"

definition action_tokens :: "act \<Rightarrow> sieve_token list" where
  "action_tokens a =
     (if ac_kind a = ''move'' then [Word ''fileinto'', Str (or_else (ac_value a) ''INBOX''), Sym CHR '';'']
      else if ac_kind a = ''markRead'' then [Word ''setflag'', Str (backslash # ''Seen''), Sym CHR '';'']
      else if ac_kind a = ''star'' then [Word ''setflag'', Str (backslash # ''Flagged''), Sym CHR '';'']
      else if ac_kind a = ''delete'' then [Word ''discard'', Sym CHR '';'']
      else if ac_kind a = ''forward'' then [Word ''redirect'', Str (or_else (ac_value a) []), Sym CHR '';'']
      else [])"

fun test_list_tokens :: "cond list \<Rightarrow> sieve_token list" where
  "test_list_tokens [] = []"
| "test_list_tokens [c] = test_tokens c"
| "test_list_tokens (c # d # cs) = test_tokens c @ [Sym CHR '',''] @ test_list_tokens (d # cs)"

definition rule_tokens :: "compiled_rule \<Rightarrow> sieve_token list" where
  "rule_tokens r =
     (if cr_conditions r = [] then [Word ''if'', Word ''true'', Sym CHR ''{'']
      else [Word ''if'', Word (if cr_match_all r then ''allof'' else ''anyof''), Sym CHR ''('']
             @ test_list_tokens (cr_conditions r) @ [Sym CHR '')'', Sym CHR ''{''])
     @ concat (map action_tokens (cr_actions r)) @ [Word ''stop'', Sym CHR '';'', Sym CHR ''}'']"

definition script_tokens :: "compiled_rule list \<Rightarrow> sieve_token list" where
  "script_tokens rs =
     [Word ''require'', Sym CHR ''['', Str ''fileinto'', Sym CHR '','', Str ''imap4flags'', Sym CHR '']'', Sym CHR '';'']
     @ concat (map rule_tokens rs)"

definition lexes :: "string \<Rightarrow> sieve_token list \<Rightarrow> bool" where
  "lexes p ts = (\<forall>rest. sieve_lex (p @ rest) = map_option (\<lambda>us. ts @ us) (sieve_lex rest))"

lemma lexes_append: "lexes p ts \<Longrightarrow> lexes q us \<Longrightarrow> lexes (p @ q) (ts @ us)"
  by (simp add: lexes_def option.map_comp comp_def)

lemma lexes_Nil [simp]: "lexes [] []"
  by (simp add: lexes_def option.map_ident)

lemma lexes_concat: "(\<And>x. x \<in> set xs \<Longrightarrow> lexes (p x) (t x)) \<Longrightarrow> lexes (concat (map p xs)) (concat (map t xs))"
  by (induction xs) (auto intro: lexes_append)

lemma lexes_ws: "is_ws c \<Longrightarrow> lexes [c] []"
  by (simp add: lexes_def sieve_lex.simps option.map_ident)

lemma lex_quoted_escape: "lex_quoted (escape_sieve s @ quote_char # rest) = Some (s, rest)"
  by (induction s) auto

text \<open>A quoted value is one string token, whatever characters it has.\<close>

lemma lexes_quote: "lexes (quote s) [Str s]"
  by (simp add: lexes_def quote_def sieve_lex.simps is_ws_def lex_quoted_escape)

lemma lexes_word:
  assumes "w \<noteq> []" "list_all is_word w" "\<not> is_word d" "d \<noteq> CHR ''#''" "lexes [d] ts"
  shows "lexes (w @ [d]) (Word w # ts)"
proof -
  obtain c v where w: "w = c # v" using assms(1) by (cases w) auto
  have "is_word c \<Longrightarrow> \<not> is_ws c \<and> c \<noteq> CHR ''#'' \<and> c \<noteq> quote_char \<and> c \<noteq> CHR '':''"
    by (auto simp: is_word_def is_ws_def Let_def)
  moreover have "\<forall>x \<in> set v. is_word x" using assms(2) w by (simp add: list_all_iff)
  then have "takeWhile is_word (v @ d # rest) = v" "dropWhile is_word (v @ d # rest) = d # rest" for rest
    using assms(3) by (simp_all add: takeWhile_append2 dropWhile_append2)
  ultimately show ?thesis
    using assms(2,5) w by (auto simp: lexes_def sieve_lex.simps option.map_comp comp_def)
qed

lemma lexes_sym:
  assumes "\<not> is_word d" "\<not> is_ws d" "d \<notin> set [CHR ''#'', quote_char, CHR '':'']"
  shows "lexes [d] [Sym d]"
  using assms by (simp add: lexes_def sieve_lex.simps)

text \<open>The fixed pieces of a script.\<close>

lemma lexes_pieces:
  "lexes ''if true {'' [Word ''if'', Word ''true'', Sym CHR ''{'']"
  "lexes ''if allof ('' [Word ''if'', Word ''allof'', Sym CHR ''('']"
  "lexes ''if anyof ('' [Word ''if'', Word ''anyof'', Sym CHR ''('']"
  "lexes '') {'' [Sym CHR '')'', Sym CHR ''{'']"
  "lexes '', '' [Sym CHR '','']" "lexes '' '' []" "lexes '';'' [Sym CHR '';'']" "lexes [newline] []"
  "lexes ''not body :contains '' [Word ''not'', Word ''body'', Tag ''contains'']"
  "lexes ''body :contains '' [Word ''body'', Tag ''contains'']"
  "lexes ''header :is '' [Word ''header'', Tag ''is'']"
  "lexes ''not header :contains '' [Word ''not'', Word ''header'', Tag ''contains'']"
  "lexes ''header :contains '' [Word ''header'', Tag ''contains'']"
  "lexes ''    fileinto '' [Word ''fileinto'']" "lexes ''    redirect '' [Word ''redirect'']"
  "lexes ''    setflag '' [Word ''setflag'']" "lexes ''    discard;'' [Word ''discard'', Sym CHR '';'']"
  "lexes ''    stop;'' [Word ''stop'', Sym CHR '';'']" "lexes ''}'' [Sym CHR ''}'']"
  "lexes ''require ['' [Word ''require'', Sym CHR ''['']" "lexes ''];'' [Sym CHR '']'', Sym CHR '';'']"
  by (simp_all add: lexes_def sieve_lex.simps is_ws_def is_word_def Let_def option.map_comp comp_def option.map_ident)

lemma lexes_flag:
  "lexes ([quote_char, backslash, backslash] @ ''Seen'' @ [quote_char]) [Str (backslash # ''Seen'')]"
  "lexes ([quote_char, backslash, backslash] @ ''Flagged'' @ [quote_char]) [Str (backslash # ''Flagged'')]"
  using lexes_quote [of "backslash # ''Seen''"] lexes_quote [of "backslash # ''Flagged''"] by (simp_all add: quote_def)

lemma dropWhile_until: "d \<notin> set xs \<Longrightarrow> dropWhile (\<lambda>x. x \<noteq> d) (xs @ d # ys) = d # ys"
  by (induction xs) auto

lemma lexes_comment:
  assumes "newline \<notin> set name"
  shows "lexes (''# '' @ name @ [newline]) []"
proof -
  have "newline \<notin> set (CHR '' '' # name)" using assms by simp
  then have "dropWhile (\<lambda>d. d \<noteq> newline) (CHR '' '' # name @ newline # rest) = newline # rest" for rest
    using dropWhile_until [of newline "CHR '' '' # name" rest] by simp
  then show ?thesis
    using lexes_pieces(8) by (simp add: lexes_def sieve_lex.simps(2) [of "CHR ''#''"] is_ws_def)
qed

lemma lexes_test: "lexes (sieve_test c) (test_tokens c)"
proof -
  note q = lexes_quote
  note two = lexes_append [OF _ lexes_append [OF q lexes_append [OF lexes_pieces(6) q]]]
  show ?thesis
    using lexes_append [OF lexes_pieces(9) q] lexes_append [OF lexes_pieces(10) q]
      two [OF lexes_pieces(11)] two [OF lexes_pieces(12)] two [OF lexes_pieces(13)]
    by (auto simp: sieve_test_def test_tokens_def Let_def)
qed

lemma lexes_tests: "cs \<noteq> [] \<Longrightarrow> lexes (join_with '', '' (map sieve_test cs)) (test_list_tokens cs)"
proof (induction cs rule: test_list_tokens.induct)
  case (3 c d cs)
  then show ?case
    using lexes_append [OF lexes_test lexes_append [OF lexes_pieces(5)], of "join_with '', '' (map sieve_test (d # cs))"] by simp
qed (simp_all add: lexes_test)

lemma lexes_action: "sieve_action a = Some l \<Longrightarrow> lexes l (action_tokens a)"
  using lexes_append [OF lexes_pieces(14) lexes_append [OF lexes_quote lexes_pieces(7)]]
    lexes_append [OF lexes_pieces(15) lexes_append [OF lexes_quote lexes_pieces(7)]]
    lexes_append [OF lexes_pieces(16) lexes_append [OF lexes_flag(1) lexes_pieces(7)]]
    lexes_append [OF lexes_pieces(16) lexes_append [OF lexes_flag(2) lexes_pieces(7)]] lexes_pieces(17)
  by (auto simp: sieve_action_def action_tokens_def split: if_splits)

lemma lexes_actions:
  "lexes (concat (map (\<lambda>l. l @ [newline]) (action_lines as))) (concat (map action_tokens as))"
proof (induction as)
  case (Cons a as)
  show ?case
  proof (cases "sieve_action a")
    case None
    then have "action_tokens a = []" by (auto simp: sieve_action_def action_tokens_def split: if_splits)
    then show ?thesis using Cons None by (simp add: action_lines_def)
  next
    case (Some l)
    have "lexes ((l @ [newline]) @ concat (map (\<lambda>l. l @ [newline]) (action_lines as))) (action_tokens a @ concat (map action_tokens as))"
      using lexes_append [OF lexes_append [OF lexes_action [OF Some] lexes_pieces(8)] Cons] by simp
    then show ?thesis using Some by (simp add: action_lines_def)
  qed
qed (simp add: action_lines_def)

lemma lexes_rule:
  assumes "newline \<notin> set (cr_name r)"
  shows "lexes (sieve_rule r) (rule_tokens r)"
proof -
  let ?guard = "(if cr_conditions r = [] then [Word ''if'', Word ''true'', Sym CHR ''{'']
      else [Word ''if'', Word (if cr_match_all r then ''allof'' else ''anyof''), Sym CHR ''('']
             @ test_list_tokens (cr_conditions r) @ [Sym CHR '')'', Sym CHR ''{''])"
  have tests: "cr_conditions r \<noteq> [] \<Longrightarrow> lexes (join_with '', '' (map sieve_test (cr_conditions r)) @ '') {'')
      (test_list_tokens (cr_conditions r) @ [Sym CHR '')'', Sym CHR ''{''])"
    by (intro lexes_append lexes_tests lexes_pieces(4))
  have guard: "lexes (guard_line r) ?guard"
    using lexes_pieces(1) lexes_append [OF lexes_pieces(2) tests] lexes_append [OF lexes_pieces(3) tests]
    by (auto simp: guard_line_def)
  note end_ = lexes_append [OF lexes_pieces(18) lexes_append [OF lexes_pieces(8) lexes_append [OF lexes_pieces(19) lexes_pieces(8)]]]
  show ?thesis
    using lexes_append [OF lexes_pieces(8) lexes_append [OF lexes_comment [OF assms] lexes_append [OF guard
        lexes_append [OF lexes_pieces(8) lexes_append [OF lexes_actions end_]]]]]
    by (simp add: sieve_rule_def rule_tokens_def)
qed

lemma lexes_require: "lexes require_line [Word ''require'', Sym CHR ''['', Str ''fileinto'', Sym CHR '','', Str ''imap4flags'', Sym CHR '']'', Sym CHR '';'']"
proof -
  have q: "lexes ([quote_char] @ ''fileinto'' @ [quote_char]) [Str ''fileinto'']"
    "lexes ([quote_char] @ ''imap4flags'' @ [quote_char]) [Str ''imap4flags'']"
    using lexes_quote [of "''fileinto''"] lexes_quote [of "''imap4flags''"] by (simp_all add: quote_def)
  show ?thesis
    using lexes_append [OF lexes_pieces(20) lexes_append [OF q(1) lexes_append [OF lexes_pieces(5) lexes_append [OF q(2)
      lexes_append [OF lexes_pieces(21) lexes_pieces(8)]]]]]
    by (simp add: require_line_def)
qed

text \<open>A script reads back as its rules, provided no rule name breaks the line of its comment.\<close>

lemma compiled_script_tokens:
  assumes "\<forall>r \<in> set rs. newline \<notin> set (cr_name r)"
  shows "sieve_lex (compile_sieve rs) = Some (script_tokens rs)"
proof -
  have "lexes (compile_sieve rs) (script_tokens rs)"
    unfolding compile_sieve_def script_tokens_def
    by (intro lexes_append lexes_require lexes_concat lexes_rule) (use assms in blast)
  then have "sieve_lex (compile_sieve rs @ []) = map_option (\<lambda>us. script_tokens rs @ us) (sieve_lex [])"
    unfolding lexes_def by blast
  then show ?thesis by simp
qed

section \<open>The dialogue\<close>

lemma tell_all_sent:
  "tell_all server ls (sent, buf) = (r, sent') \<Longrightarrow> (r = Inr () \<longrightarrow> sent' = sent @ ls) \<and> (\<exists>k. sent' = sent @ take k ls)"
proof (induction ls arbitrary: sent buf)
  case Nil
  then show ?case by auto
next
  case (Cons l ls)
  obtain a rest where rd: "read_status [] (buf @ server (sent @ [l])) = (a, rest)" by fastforce
  show ?case
  proof (cases a)
    case (Inl e)
    then have "sent' = sent @ take 1 (l # ls)" "r = Inl e" using Cons.prems rd by (auto simp: tell_def)
    then show ?thesis by blast
  next
    case (Inr u)
    then have rec: "tell_all server ls (sent @ [l], rest) = (r, sent')" using Cons.prems rd by (simp add: tell_def)
    from Cons.IH [OF rec] obtain k where k: "sent' = (sent @ [l]) @ take k ls" by blast
    have "sent' = sent @ take (Suc k) (l # ls)" using k by simp
    moreover have "r = Inr () \<longrightarrow> sent' = sent @ l # ls" using Cons.IH [OF rec] by simp
    ultimately show ?thesis by blast
  qed
qed

text \<open>Nothing but STARTTLS is written in clear; on success the whole dialogue was written over TLS.\<close>

lemma upload_dialogue:
  assumes "upload_script V username password name script = (r, plain, tls)"
  shows "plain \<in> {[], [starttls_line]}
    \<and> (r = Inr () \<longrightarrow> tls = sieve_dialogue (ms_base64 V) username password name script @ [logout_line])
    \<and> (tls \<noteq> [] \<longrightarrow> plain = [starttls_line] \<and> (\<exists>left. ms_tls V left))
    \<and> (r \<noteq> Inr () \<longrightarrow> (\<exists>k. tls = take k (sieve_dialogue (ms_base64 V) username password name script)))"
proof (cases "ms_open V")
  case (Inr greeting)
  let ?d = "sieve_dialogue (ms_base64 V) username password name script"
  obtain g rest where g: "read_status [] greeting = (g, rest)" by fastforce
  obtain t rest' where t: "read_status [] (rest @ ms_plain V [starttls_line]) = (t, rest')" by fastforce
  obtain c rest'' where c: "read_status [] (ms_secure V []) = (c, rest'')" by fastforce
  obtain a sent where a: "tell_all (ms_secure V) ?d ([], rest'') = (a, sent)" by fastforce
  note all_sent = tell_all_sent [OF a]
  note defs = upload_script_def tell_def
  have none: "\<exists>k. [] = take k ?d" by (rule exI [of _ 0]) simp
  show ?thesis
  proof (cases g)
    case g': (Inr u)
    show ?thesis
    proof (cases t)
      case t': (Inr v)
      show ?thesis
      proof (cases "ms_tls V rest'")
        case tls: True
        show ?thesis
        proof (cases c)
          case c': (Inr w)
          then have eq: "(r, plain, tls) = (case a of Inl e \<Rightarrow> (Inl e, [starttls_line], sent) | Inr _ \<Rightarrow> (Inr (), [starttls_line], sent @ [logout_line]))"
            using assms Inr g g' t t' tls c a by (auto simp: defs split: sum.splits)
          show ?thesis using eq all_sent tls by (cases a) auto
        qed (use assms Inr g g' t t' tls c none in \<open>auto simp: defs\<close>)
      qed (use assms Inr g g' t t' none in \<open>auto simp: defs\<close>)
    qed (use assms Inr g g' t none in \<open>auto simp: defs\<close>)
  qed (use assms Inr g none in \<open>auto simp: defs\<close>)
qed (use assms in \<open>auto simp: upload_script_def intro: exI [of _ 0]\<close>)

end
