(* ===== verification/Auth.thy ===== *)
theory Auth
  imports Handlers
begin

text \<open>
  Local accounts and sessions (backend/api/src/routes/auth.rs, passwords.rs, middleware.rs,
  backend/core/src/jwt.rs, crypto.rs): registration, login, the rotation of refresh tokens with its
  reuse grace, logout and password reset on the tables of the application database.

  \<open>auth_env\<close> holds Argon2, SHA-256, the random tokens, the JWT signature and AES-GCM.  A time is a number of
  seconds since the epoch.  The database stores times as text and compares them as text: of the two
  formats in use, \<open>Rfc3339\<close> separates date and time by T, \<open>Datetime\<close> by a space.  Both write fixed-width
  fields, most significant first, so text order is the order of day, separator and second of the day.
\<close>

section \<open>Time stamps\<close>

datatype stamp = Rfc3339 int int | Datetime int int

definition rfc3339 :: "int \<Rightarrow> stamp" where
  "rfc3339 t = Rfc3339 (t div 86400) (t mod 86400)"

definition datetime :: "int \<Rightarrow> stamp" where
  "datetime t = Datetime (t div 86400) (t mod 86400)"

fun stamp_key :: "stamp \<Rightarrow> int \<times> nat \<times> int" where
  "stamp_key (Rfc3339 d s) = (d, of_char CHR ''T'', s)"
| "stamp_key (Datetime d s) = (d, of_char CHR '' '', s)"

definition stamp_less :: "stamp \<Rightarrow> stamp \<Rightarrow> bool" where
  "stamp_less a b =
     (case (stamp_key a, stamp_key b) of
        ((d, c, s), (d', c', s')) \<Rightarrow> d < d' \<or> (d = d' \<and> (c < c' \<or> (c = c' \<and> s < s'))))"

section \<open>Tables\<close>

record user_row =
  us_id :: nat
  us_email :: string
  us_hash :: string

record refresh_row =
  rt_id :: nat
  rt_user :: nat
  rt_hash :: string
  rt_expires :: stamp
  rt_revoked :: bool
  rt_replaced :: "stamp option"
  rt_remember :: bool

record auth_db =
  au_users :: "user_row list"
  au_tokens :: "refresh_row list"
  au_settings :: "nat list"
  au_next :: nat

record auth_env =
  ae_registration :: bool
  ae_hash_password :: "string \<Rightarrow> string option"
  ae_verify :: "string \<Rightarrow> string \<Rightarrow> bool option"
  ae_hash_token :: "string \<Rightarrow> string"
  ae_sign :: "nat \<Rightarrow> int \<Rightarrow> int \<Rightarrow> string option"
  ae_decode :: "string \<Rightarrow> (nat \<times> int \<times> int) option"

section \<open>Access tokens\<close>

text \<open>Fifteen minutes; the decoder of the library allows a minute of clock skew.\<close>

definition issue_access_token :: "auth_env \<Rightarrow> int \<Rightarrow> nat \<Rightarrow> string option" where
  "issue_access_token A now user = ae_sign A user now (now + 15 * 60)"

definition validate_token :: "auth_env \<Rightarrow> int \<Rightarrow> string \<Rightarrow> nat option" where
  "validate_token A now bearer =
     (case ae_decode A bearer of
        None \<Rightarrow> None
      | Some (user, iat, expiry) \<Rightarrow> if expiry < now - 60 then None else Some user)"

definition strip_prefix :: "string \<Rightarrow> string \<Rightarrow> string option" where
  "strip_prefix p s = (if starts_with p s then Some (drop (length p) s) else None)"

definition require_auth :: "auth_env \<Rightarrow> int \<Rightarrow> string option \<Rightarrow> app_error + nat" where
  "require_auth A now header =
     (case header of
        None \<Rightarrow> Inl Unauthorized
      | Some h \<Rightarrow>
          (case strip_prefix ''Bearer '' h of
             None \<Rightarrow> Inl Unauthorized
           | Some bearer \<Rightarrow> (case validate_token A now bearer of None \<Rightarrow> Inl Unauthorized | Some u \<Rightarrow> Inr u)))"

section \<open>Refresh tokens\<close>

definition remember_ttl :: int where
  "remember_ttl = 30 * 86400"

definition session_ttl :: int where
  "session_ttl = 24 * 3600"

definition refresh_cookie :: "string \<Rightarrow> bool \<Rightarrow> string" where
  "refresh_cookie value remember =
     (let base = ''refresh_token='' @ value @ ''; HttpOnly; SameSite=Strict; Path=/api/auth/refresh'' in
      if remember then base @ ''; Max-Age='' @ show_nat (nat remember_ttl) else base)"

text \<open>\<open>fresh\<close> is the random token; its hash is unique, or the insert fails.\<close>

definition issue_refresh_token ::
  "auth_env \<Rightarrow> int \<Rightarrow> string \<Rightarrow> nat \<Rightarrow> bool \<Rightarrow> auth_db \<Rightarrow> (app_error + string) \<times> auth_db"
where
  "issue_refresh_token A now fresh user remember db =
     (if \<exists>r \<in> set (au_tokens db). rt_hash r = ae_hash_token A fresh
      then (Inl (Internal ''UNIQUE constraint failed: refresh_tokens.token_hash''), db)
      else (Inr (refresh_cookie fresh remember),
            db\<lparr>au_tokens := au_tokens db @ [\<lparr>rt_id = au_next db, rt_user = user, rt_hash = ae_hash_token A fresh,
                 rt_expires = rfc3339 (now + (if remember then remember_ttl else session_ttl)), rt_revoked = False,
                 rt_replaced = None, rt_remember = remember\<rparr>], au_next := au_next db + 1\<rparr>))"

text \<open>The tail of every handler that signs a user in: the access token, then the cookie.\<close>

definition sign_in ::
  "auth_env \<Rightarrow> int \<Rightarrow> string \<Rightarrow> nat \<Rightarrow> bool \<Rightarrow> auth_db \<Rightarrow> (app_error + string \<times> string) \<times> auth_db"
where
  "sign_in A now fresh user remember db =
     (case issue_access_token A now user of
        None \<Rightarrow> (Inl (Internal ''jwt encode error''), db)
      | Some access \<Rightarrow>
          (case issue_refresh_token A now fresh user remember db of
             (Inl e, db') \<Rightarrow> (Inl e, db')
           | (Inr cookie, db') \<Rightarrow> (Inr (access, cookie), db')))"

section \<open>Accounts\<close>

definition min_password_length :: nat where
  "min_password_length = 8"

datatype password_error = TooShort | AccountNotFound | HashFailed

definition hash_password :: "auth_env \<Rightarrow> string \<Rightarrow> password_error + string" where
  "hash_password A password =
     (if length password < min_password_length then Inl TooShort
      else case ae_hash_password A password of None \<Rightarrow> Inl HashFailed | Some h \<Rightarrow> Inr h)"

definition register ::
  "auth_env \<Rightarrow> int \<Rightarrow> string \<Rightarrow> string \<Rightarrow> string \<Rightarrow> auth_db \<Rightarrow> (app_error + string \<times> string) \<times> auth_db"
where
  "register A now fresh email password db =
     (if \<not> ae_registration A then (Inl Forbidden, db)
      else if CHR ''@'' \<notin> set email then (Inl (Unprocessable ''invalid email address''), db)
      else case hash_password A password of
        Inl TooShort \<Rightarrow> (Inl (Unprocessable ''password must be at least 8 characters''), db)
      | Inl _ \<Rightarrow> (Inl (Internal ''failed to hash password''), db)
      | Inr h \<Rightarrow>
          (if \<exists>u \<in> set (au_users db). us_email u = to_lower email
           then (Inl (Conflict ''email already registered''), db)
           else (let user = au_next db;
                     db1 = db\<lparr>au_users := au_users db @ [\<lparr>us_id = user, us_email = to_lower email, us_hash = h\<rparr>],
                              au_settings := au_settings db @ [user], au_next := au_next db + 1\<rparr>
                 in sign_in A now fresh user True db1)))"

definition find_user :: "string \<Rightarrow> auth_db \<Rightarrow> user_row option" where
  "find_user email db = find (\<lambda>u. us_email u = email) (au_users db)"

text \<open>\<open>ae_verify hash password\<close> is \<open>None\<close> when the stored hash does not parse.\<close>

definition login ::
  "auth_env \<Rightarrow> int \<Rightarrow> string \<Rightarrow> string \<Rightarrow> string \<Rightarrow> bool \<Rightarrow> auth_db \<Rightarrow> (app_error + string \<times> string) \<times> auth_db"
where
  "login A now fresh email password remember db =
     (case find_user (to_lower email) db of
        None \<Rightarrow> (Inl Unauthorized, db)
      | Some u \<Rightarrow>
          (case ae_verify A (us_hash u) password of
             None \<Rightarrow> (Inl (Internal ''password hash''), db)
           | Some False \<Rightarrow> (Inl Unauthorized, db)
           | Some True \<Rightarrow> sign_in A now fresh (us_id u) remember db))"

text \<open>\<open>cookie_from_request\<close>: the first pair of the header with the name.\<close>

fun cookie_in :: "string \<Rightarrow> string list \<Rightarrow> string option" where
  "cookie_in name [] = None"
| "cookie_in name (p # ps) =
     (case split_once CHR ''='' (trim p) of
        None \<Rightarrow> cookie_in name ps
      | Some (k, v) \<Rightarrow> if trim k = name then Some (trim v) else cookie_in name ps)"

definition cookie_from_request :: "string option \<Rightarrow> string \<Rightarrow> string option" where
  "cookie_from_request header name =
     (case header of None \<Rightarrow> None | Some raw \<Rightarrow> cookie_in name (split_on CHR '';'' raw))"

text \<open>The row the query of \<open>refresh\<close> selects, and its \<open>recently_replaced\<close> column.\<close>

definition unexpired :: "int \<Rightarrow> refresh_row \<Rightarrow> bool" where
  "unexpired now r = stamp_less (datetime now) (rt_expires r)"

definition live_token :: "auth_env \<Rightarrow> int \<Rightarrow> string \<Rightarrow> auth_db \<Rightarrow> refresh_row option" where
  "live_token A now raw db = find (\<lambda>r. rt_hash r = ae_hash_token A raw \<and> unexpired now r) (au_tokens db)"

definition recently_replaced :: "int \<Rightarrow> refresh_row \<Rightarrow> bool" where
  "recently_replaced now r =
     (case rt_replaced r of None \<Rightarrow> False | Some t \<Rightarrow> stamp_less (datetime (now - 60)) t)"

definition mark_replaced :: "int \<Rightarrow> nat \<Rightarrow> auth_db \<Rightarrow> auth_db" where
  "mark_replaced now i db = db\<lparr>au_tokens :=
     map (\<lambda>r. if rt_id r = i then r\<lparr>rt_revoked := True, rt_replaced := Some (datetime now)\<rparr> else r) (au_tokens db)\<rparr>"

definition refresh_session ::
  "auth_env \<Rightarrow> int \<Rightarrow> string \<Rightarrow> string option \<Rightarrow> auth_db \<Rightarrow> (app_error + string \<times> string) \<times> auth_db"
where
  "refresh_session A now fresh header db =
     (case cookie_from_request header ''refresh_token'' of
        None \<Rightarrow> (Inl Unauthorized, db)
      | Some raw \<Rightarrow>
          (case live_token A now raw db of
             None \<Rightarrow> (Inl Unauthorized, db)
           | Some r \<Rightarrow>
               (if rt_revoked r \<and> \<not> recently_replaced now r then (Inl Unauthorized, db)
                else sign_in A now fresh (rt_user r) (rt_remember r)
                       (if rt_revoked r then db else mark_replaced now (rt_id r) db))))"

definition revoke_where :: "(refresh_row \<Rightarrow> bool) \<Rightarrow> auth_db \<Rightarrow> auth_db" where
  "revoke_where P db = db\<lparr>au_tokens := map (\<lambda>r. if P r then r\<lparr>rt_revoked := True\<rparr> else r) (au_tokens db)\<rparr>"

definition logout :: "auth_env \<Rightarrow> string option \<Rightarrow> auth_db \<Rightarrow> auth_db" where
  "logout A header db =
     (case cookie_from_request header ''refresh_token'' of
        None \<Rightarrow> db
      | Some raw \<Rightarrow> revoke_where (\<lambda>r. rt_hash r = ae_hash_token A raw) db)"

definition reset_password :: "auth_env \<Rightarrow> string \<Rightarrow> string \<Rightarrow> auth_db \<Rightarrow> (password_error + unit) \<times> auth_db" where
  "reset_password A email password db =
     (case hash_password A password of
        Inl e \<Rightarrow> (Inl e, db)
      | Inr h \<Rightarrow>
          (case find_user (to_lower (trim email)) db of
             None \<Rightarrow> (Inl AccountNotFound, db)
           | Some u \<Rightarrow>
               (Inr (), revoke_where (\<lambda>r. rt_user r = us_id u)
                  (db\<lparr>au_users := map (\<lambda>v. if us_id v = us_id u then v\<lparr>us_hash := h\<rparr> else v) (au_users db)\<rparr>))))"

definition me :: "nat \<Rightarrow> auth_db \<Rightarrow> app_error + (nat \<times> string)" where
  "me user db = (case find (\<lambda>u. us_id u = user) (au_users db) of
     None \<Rightarrow> Inl NotFound | Some u \<Rightarrow> Inr (us_id u, us_email u))"

section \<open>Credential encryption\<close>

text \<open>AES-GCM with a key fixed: \<open>seal nonce text\<close> gives cipher text and tag, \<open>unseal\<close> inverts it.\<close>

definition encrypt_credentials :: "(string \<Rightarrow> string \<Rightarrow> string \<times> string) \<Rightarrow> string \<Rightarrow> string \<Rightarrow> string" where
  "encrypt_credentials seal nonce plain = (case seal nonce plain of (cipher, tag) \<Rightarrow> nonce @ cipher @ tag)"

definition decrypt_credentials ::
  "(string \<Rightarrow> string \<Rightarrow> string \<Rightarrow> string option) \<Rightarrow> string \<Rightarrow> string option" where
  "decrypt_credentials unseal data =
     (if length data < 28 then None
      else (let nonce = take 12 data; rest = drop 12 data
            in unseal nonce (take (length rest - 16) rest) (drop (length rest - 16) rest)))"

section \<open>Facts\<close>

text \<open>A stored expiry is compared by its day: the token is accepted until that day ends.\<close>

lemma unexpired_iff: "rt_expires r = rfc3339 t \<Longrightarrow> unexpired now r \<longleftrightarrow> now div 86400 \<le> t div 86400"
  by (auto simp: unexpired_def stamp_less_def rfc3339_def datetime_def)

lemma recently_replaced_iff:
  assumes "rt_replaced r = Some (datetime t)"
  shows "recently_replaced now r \<longleftrightarrow> now < t + 60"
proof -
  have "recently_replaced now r \<longleftrightarrow> (now - 60) div 86400 < t div 86400
      \<or> ((now - 60) div 86400 = t div 86400 \<and> (now - 60) mod 86400 < t mod 86400)"
    using assms by (simp add: recently_replaced_def stamp_less_def datetime_def)
  also have "\<dots> \<longleftrightarrow> now - 60 < t"
    using div_mult_mod_eq [of "now - 60" 86400] div_mult_mod_eq [of t 86400]
      pos_mod_bound [of 86400 "now - 60"] pos_mod_bound [of 86400 t] pos_mod_sign [of 86400 "now - 60"] pos_mod_sign [of 86400 t]
    by linarith
  finally show ?thesis by linarith
qed

lemma encrypt_round_trip:
  assumes "length nonce = 12" "length (snd (seal nonce plain)) = 16"
    "unseal nonce (fst (seal nonce plain)) (snd (seal nonce plain)) = Some plain"
  shows "decrypt_credentials unseal (encrypt_credentials seal nonce plain) = Some plain"
  using assms by (cases "seal nonce plain") (simp add: encrypt_credentials_def decrypt_credentials_def Let_def)

definition tokens_ok :: "auth_db \<Rightarrow> bool" where
  "tokens_ok db = (distinct (map rt_id (au_tokens db)) \<and> distinct (map rt_hash (au_tokens db))
     \<and> (\<forall>r \<in> set (au_tokens db). rt_id r < au_next db))"

lemma sign_in_effect:
  assumes "sign_in A now fresh user remember db = (Inr (access, cookie), db')"
  shows "cookie = refresh_cookie fresh remember \<and> au_users db' = au_users db \<and> ae_hash_token A fresh \<notin> rt_hash ` set (au_tokens db)
    \<and> au_tokens db' = au_tokens db @ [\<lparr>rt_id = au_next db, rt_user = user, rt_hash = ae_hash_token A fresh,
        rt_expires = rfc3339 (now + (if remember then remember_ttl else session_ttl)), rt_revoked = False,
        rt_replaced = None, rt_remember = remember\<rparr>]"
  using assms by (auto simp: sign_in_def issue_refresh_token_def split: option.splits if_splits)

lemma token_by_hash: "tokens_ok db \<Longrightarrow> r \<in> set (au_tokens db) \<Longrightarrow> r' \<in> set (au_tokens db) \<Longrightarrow> rt_hash r' = rt_hash r \<Longrightarrow> r' = r"
  by (metis distinct_map inj_onD tokens_ok_def)

lemma live_token_of:
  assumes "tokens_ok db" "r \<in> set (au_tokens db)" "rt_hash r = ae_hash_token A raw"
  shows "live_token A now raw db = (if unexpired now r then Some r else None)"
proof -
  have only: "r' \<in> set (au_tokens db) \<Longrightarrow> rt_hash r' = ae_hash_token A raw \<Longrightarrow> r' = r" for r'
    using token_by_hash [OF assms(1,2)] assms(3) by simp
  show ?thesis
  proof (cases "live_token A now raw db")
    case None
    then show ?thesis using assms(2,3) by (auto simp: live_token_def find_None_eq)
  next
    case (Some q)
    then have "q \<in> set (au_tokens db)" "rt_hash q = ae_hash_token A raw" "unexpired now q"
      by (auto simp: live_token_def find_Some_iff)
    then show ?thesis using Some only [of q] by simp
  qed
qed

lemma reset_password_effect:
  assumes "reset_password A email password db = (Inr (), db')"
  shows "\<exists>u \<in> set (au_users db). us_email u = to_lower (trim email)
    \<and> au_tokens db' = map (\<lambda>r. if rt_user r = us_id u then r\<lparr>rt_revoked := True\<rparr> else r) (au_tokens db)
    \<and> au_next db' = au_next db"
  using assms
  by (auto simp: reset_password_def revoke_where_def find_user_def find_Some_iff split: sum.splits option.splits)

end
