(* ===== verification/Search.thy ===== *)
theory Search
  imports Mail_Lists
begin

text \<open>
  Message search (backend/api/src/routes/search.rs): the full-text query built from free text, the LIKE
  fallbacks, the filters, and the page of results.

  \<open>like_match\<close> is the LIKE operator of SQLite, with an optional escape character; it ignores the case of
  ASCII letters.  The FTS5 index is the parameter \<open>sx_match\<close> (which rows match a MATCH query; none when the
  query is a syntax error, which fails the statement), its vocabulary \<open>sx_terms\<close>, and the edit distance
  \<open>sx_distance\<close> is \<open>strsim::levenshtein\<close>.
\<close>

section \<open>LIKE\<close>

definition same_letter :: "char \<Rightarrow> char \<Rightarrow> bool" where
  "same_letter a b = (ascii_lower a = ascii_lower b)"

function like_match :: "char option \<Rightarrow> string \<Rightarrow> string \<Rightarrow> bool" where
  "like_match esc [] s = (s = [])"
| "like_match esc (p # ps) s =
     (if esc = Some p
      then (case ps of [] \<Rightarrow> False
            | q # qs \<Rightarrow> (case s of [] \<Rightarrow> False | c # cs \<Rightarrow> same_letter c q \<and> like_match esc qs cs))
      else if p = CHR ''%'' then like_match esc ps s \<or> (case s of [] \<Rightarrow> False | c # cs \<Rightarrow> like_match esc (p # ps) cs)
      else (case s of [] \<Rightarrow> False
            | c # cs \<Rightarrow> (p = CHR ''_'' \<or> same_letter c p) \<and> like_match esc ps cs))"
  by pat_completeness auto
termination
  by (relation "measure (\<lambda>(esc, ps, s). length ps + length s)") auto

declare like_match.simps(2) [simp del]

fun escape_like :: "string \<Rightarrow> string" where
  "escape_like [] = []"
| "escape_like (c # s) = (if c \<in> set [CHR 0x5C, CHR ''%'', CHR ''_''] then [CHR 0x5C, c] else [c]) @ escape_like s"

definition like_pattern :: "string \<Rightarrow> string" where
  "like_pattern term = CHR ''%'' # escape_like term @ [CHR ''%'']"

definition contains_pattern :: "string \<Rightarrow> string" where
  "contains_pattern t = CHR ''%'' # t @ [CHR ''%'']"

section \<open>The full-text query\<close>

definition escape_double :: "char \<Rightarrow> string \<Rightarrow> string" where
  "escape_double q s = concat (map (\<lambda>c. if c = q then [q, q] else [c]) s)"

definition quote_term :: "string \<Rightarrow> string" where
  "quote_term t = [CHR 0x22] @ escape_double CHR 0x22 t @ [CHR 0x22]"

definition quote_prefix_term :: "string \<Rightarrow> string" where
  "quote_prefix_term t = quote_term t @ ''*''"

record search_index =
  sx_terms :: "string list"
  sx_distance :: "string \<Rightarrow> string \<Rightarrow> nat"
  sx_match :: "string \<Rightarrow> (nat \<Rightarrow> bool) option"

definition max_fuzzy_terms :: nat where
  "max_fuzzy_terms = 8"

text \<open>Closest first, then alphabetically.\<close>

definition nearest_terms :: "search_index \<Rightarrow> string \<Rightarrow> nat \<Rightarrow> string list" where
  "nearest_terms X word max_dist =
     (let n = int (length word); d = int max_dist;
          candidates = filter (\<lambda>t. n - d \<le> int (length t) \<and> int (length t) \<le> n + d) (sx_terms X);
          scored = filter (\<lambda>(k, t). k \<le> max_dist) (map (\<lambda>t. (sx_distance X word t, t)) candidates)
      in take max_fuzzy_terms (map snd (sort_key (\<lambda>(k, t). k # map (of_char :: char \<Rightarrow> nat) t) scored)))"

definition is_alphanumeric :: "char \<Rightarrow> bool" where
  "is_alphanumeric c = (let n = (of_char c :: nat) in (48 \<le> n \<and> n \<le> 57) \<or> (65 \<le> n \<and> n \<le> 90) \<or> (97 \<le> n \<and> n \<le> 122))"

definition alternatives :: "search_index \<Rightarrow> string \<Rightarrow> string list" where
  "alternatives X lower =
     (let alts = nearest_terms X lower (if length lower \<le> 6 then 1 else 2)
      in if lower \<in> set alts then alts else lower # alts)"

definition or_group :: "string list \<Rightarrow> string" where
  "or_group alts = ''('' @ join_with '' OR '' (map quote_prefix_term alts) @ '')''"

definition query_group :: "search_index \<Rightarrow> string \<Rightarrow> string" where
  "query_group X word =
     (let lower = to_lower word in
      if \<not> list_all is_alphanumeric lower then quote_term lower
      else if length lower < 4 then quote_prefix_term lower
      else or_group (alternatives X lower))"

definition expand_fuzzy_query :: "search_index \<Rightarrow> string \<Rightarrow> string" where
  "expand_fuzzy_query X raw = join_with '' '' (map (query_group X) (split_whitespace raw))"

section \<open>The search\<close>

record search_query =
  sq_q :: "string option"
  sq_from :: "string option"
  sq_to :: "string option"
  sq_subject :: "string option"
  sq_not :: "string option"
  sq_after :: "string option"
  sq_before :: "string option"
  sq_folder :: "string option"
  sq_account :: "string option"
  sq_read :: "bool option"
  sq_flagged :: "bool option"
  sq_attachment :: "bool option"
  sq_cursor :: "string option"
  sq_limit :: "int option"

definition when_some :: "'a option \<Rightarrow> ('a \<Rightarrow> bool) \<Rightarrow> bool" where
  "when_some x P = (case x of None \<Rightarrow> True | Some v \<Rightarrow> P v)"

definition text_key :: "string \<Rightarrow> nat list" where
  "text_key s = map (of_char :: char \<Rightarrow> nat) s"

text \<open>The rows that the MATCH condition accepts, when there is one.\<close>

definition text_hits :: "search_index \<Rightarrow> search_query \<Rightarrow> (nat \<Rightarrow> bool) option" where
  "text_hits X q =
     (case sq_q q of
        None \<Rightarrow> Some (\<lambda>_. False)
      | Some t \<Rightarrow> if trim t = [] then Some (\<lambda>_. False) else sx_match X (expand_fuzzy_query X (trim t)))"

definition matches_text :: "(nat \<Rightarrow> bool) \<Rightarrow> string \<Rightarrow> message_row \<Rightarrow> bool" where
  "matches_text hits t m =
     (let like = like_match (Some CHR 0x5C) (like_pattern t) in
      hits (m_id m) \<or> like (m_subject m) \<or> like (m_from m) \<or> like (m_to m)
        \<or> like (m_cc m) \<or> like (m_snippet m) \<or> like (case m_message_id m of None \<Rightarrow> [] | Some h \<Rightarrow> h))"

definition excludes :: "string \<Rightarrow> message_row \<Rightarrow> bool" where
  "excludes t m =
     (trim t = [] \<or> (\<not> like_match None (contains_pattern t) (m_subject m)
        \<and> \<not> like_match None (contains_pattern t) (m_from m) \<and> \<not> like_match None (contains_pattern t) (m_snippet m)))"

definition searched :: "(nat \<Rightarrow> bool) \<Rightarrow> content_db \<Rightarrow> mail_db \<Rightarrow> search_query \<Rightarrow> message_row \<Rightarrow> bool" where
  "searched hits c db q m =
     (\<not> m_deleted m
      \<and> when_some (sq_q q) (\<lambda>t. trim t = [] \<or> matches_text hits (trim t) m)
      \<and> when_some (sq_from q) (\<lambda>t. like_match None (contains_pattern t) (m_from m))
      \<and> when_some (sq_to q) (\<lambda>t. like_match None (contains_pattern t) (m_to m))
      \<and> when_some (sq_subject q) (\<lambda>t. like_match None (contains_pattern t) (m_subject m))
      \<and> when_some (sq_not q) (\<lambda>t. excludes t m)
      \<and> when_some (sq_after q) (\<lambda>t. text_key t \<le> date_key m)
      \<and> when_some (sq_before q) (\<lambda>t. date_key m \<le> text_key t)
      \<and> when_some (sq_folder q) (\<lambda>p. map_option f_path (find_folder db (m_folder m)) = Some p)
      \<and> when_some (sq_account q) (\<lambda>a. m_account m = a)
      \<and> when_some (sq_read q) (\<lambda>b. m_read m = b)
      \<and> when_some (sq_flagged q) (\<lambda>b. m_flagged m = b)
      \<and> (sq_attachment q = Some True \<longrightarrow> (\<exists>r \<in> set (cd_attachments c). ar_message r = m_id m))
      \<and> before (sq_cursor q) m)"

definition search_limit :: "int option \<Rightarrow> int" where
  "search_limit limit = min (case limit of None \<Rightarrow> 50 | Some n \<Rightarrow> n) 50"

text \<open>A MATCH query that FTS5 cannot parse fails the statement.  (SQLite runs the subquery when the first row
  reaches the condition, so over a table without rows nothing fails.)\<close>

definition search ::
  "search_index \<Rightarrow> content_db \<Rightarrow> mail_db \<Rightarrow> search_query \<Rightarrow> app_error + message_row list \<times> string option"
where
  "search X c db q =
     (case text_hits X q of
        None \<Rightarrow> Inl (Internal ''fts5: syntax error'')
      | Some hits \<Rightarrow>
          (let limit = search_limit (sq_limit q);
               rows = sql_limit limit (newest_first (filter (searched hits c db q) (messages db)))
           in Inr (rows, next_cursor limit rows)))"

text \<open>The cursor is written into the statement as a literal.\<close>

definition sql_literal :: "string \<Rightarrow> string" where
  "sql_literal s = [CHR 0x27] @ escape_double CHR 0x27 s @ [CHR 0x27]"

section \<open>The fallback finds exactly the substrings\<close>

lemma like_any_end: "like_match esc [CHR ''%''] s" if "esc \<noteq> Some CHR ''%''"
  using that by (induction s) (simp_all add: like_match.simps)

lemma like_escaped:
  "like_match (Some CHR 0x5C) (escape_like t @ [CHR ''%'']) s \<longleftrightarrow> starts_with (to_lower t) (to_lower s)"
proof (induction t arbitrary: s)
  case Nil
  then show ?case by (simp add: like_any_end starts_with_def to_lower_def)
next
  case (Cons c t)
  show ?case
  proof (cases s)
    case (Cons d ds)
    have "like_match (Some CHR 0x5C) (escape_like (c # t) @ [CHR ''%'']) s
        \<longleftrightarrow> same_letter d c \<and> like_match (Some CHR 0x5C) (escape_like t @ [CHR ''%'']) ds"
      using Cons by (auto simp: like_match.simps(2) [of _ _ "_ # _"] like_match.simps)
    then show ?thesis
      using Cons.IH Cons by (auto simp: starts_with_def to_lower_def same_letter_def)
  qed (auto simp: like_match.simps starts_with_def to_lower_def)
qed

lemma like_pattern_iff:
  "like_match (Some CHR 0x5C) (like_pattern t) s \<longleftrightarrow> contains_str (to_lower t) (to_lower s)"
proof -
  have "like_match (Some CHR 0x5C) (CHR ''%'' # escape_like t @ [CHR ''%'']) s \<longleftrightarrow> contains_str (to_lower t) (to_lower s)"
  proof (induction s)
    case Nil
    then show ?case using like_escaped [of t "[]"] by (auto simp: like_match.simps(2) starts_with_def to_lower_def)
  next
    case (Cons c s)
    then show ?case
      using like_escaped [of t "c # s"]
      by (subst like_match.simps(2)) (simp add: to_lower_def)
  qed
  then show ?thesis by (simp add: like_pattern_def)
qed

section \<open>What a page of results holds\<close>

lemma sql_limit_newest:
  assumes "newest_sorted xs" "m \<in> set xs"
  shows "m \<in> set (sql_limit n xs) \<or> (int (length (sql_limit n xs)) = n \<and> (\<forall>r \<in> set (sql_limit n xs). date_key m \<le> date_key r))"
proof (cases "n < 0 \<or> m \<in> set (take (nat n) xs)")
  case False
  then have "m \<in> set (drop (nat n) xs)" using assms(2) by (metis Un_iff append_take_drop_id set_append)
  moreover from this have "nat n \<le> length xs" by (metis drop_all empty_iff list.set(1) nat_le_linear)
  moreover have "newest_sorted (take (nat n) xs @ drop (nat n) xs)" using assms(1) by simp
  ultimately show ?thesis using False by (auto simp: sql_limit_def sorted_wrt_append simp del: append_take_drop_id)
qed (auto simp: sql_limit_def assms(2))

text \<open>A text of two words, the first of four letters or more, makes a query of a group in parentheses and another
  term.  FTS5 has no implicit AND beside parentheses (its documentation gives it to phrases only), so a
  search for such a text fails.\<close>

definition no_implicit_and :: "search_index \<Rightarrow> bool" where
  "no_implicit_and X = (\<forall>alts w us. sx_match X (or_group alts @ '' '' @ quote_term w) = None
     \<and> sx_match X (or_group alts @ '' '' @ quote_prefix_term w) = None
     \<and> sx_match X (or_group alts @ '' '' @ or_group us) = None)"

lemma query_group_cases:
  obtains w where "query_group X word = quote_term w" | w where "query_group X word = quote_prefix_term w"
    | us where "query_group X word = or_group us"
  using that by (cases "list_all is_alphanumeric (to_lower word)"; cases "length (to_lower word) < 4")
    (auto simp: query_group_def Let_def)

theorem two_words_fail_the_search:
  assumes "no_implicit_and X" "sq_q q = Some t" "trim t \<noteq> []" "split_whitespace (trim t) = [w1, w2]"
    and "list_all is_alphanumeric (to_lower w1)" "4 \<le> length w1"
  shows "search X c db q = Inl (Internal ''fts5: syntax error'')"
proof -
  have "query_group X w1 = or_group (alternatives X (to_lower w1))"
    using assms(5,6) by (simp add: query_group_def Let_def to_lower_def)
  then have "expand_fuzzy_query X (trim t) = or_group (alternatives X (to_lower w1)) @ '' '' @ query_group X w2"
    using assms(4) by (simp add: expand_fuzzy_query_def)
  moreover have "sx_match X (or_group (alternatives X (to_lower w1)) @ '' '' @ query_group X w2) = None"
    using assms(1) by (cases rule: query_group_cases [of X w2]) (simp_all add: no_implicit_and_def)
  ultimately show ?thesis using assms(2,3) by (simp add: search_def text_hits_def)
qed

section \<open>Quoting\<close>

text \<open>A literal whose quote character is doubled inside, as SQL and FTS5 read it.\<close>

fun lex_doubled :: "char \<Rightarrow> string \<Rightarrow> (string \<times> string) option" where
  "lex_doubled q [] = None"
| "lex_doubled q (c # s) =
     (if c = q
      then (case s of d # r \<Rightarrow> if d = q then map_option (\<lambda>(t, r'). (q # t, r')) (lex_doubled q r) else Some ([], s)
            | [] \<Rightarrow> Some ([], []))
      else map_option (\<lambda>(t, r). (c # t, r)) (lex_doubled q s))"

lemma lex_doubled_escape:
  assumes "rest = [] \<or> hd rest \<noteq> q"
  shows "lex_doubled q (escape_double q s @ q # rest) = Some (s, rest)"
proof (induction s)
  case Nil
  then show ?case using assms by (cases rest) (auto simp: escape_double_def)
next
  case (Cons c s)
  then show ?case by (simp add: escape_double_def)
qed

lemma alternatives_bounds:
  "lower \<in> set (alternatives X lower)" "length (alternatives X lower) \<le> max_fuzzy_terms + 1"
  by (auto simp: alternatives_def Let_def nearest_terms_def)

end
