(* ===== verification/Validate.thy ===== *)
theory Validate
  imports Handlers Mime
begin

text \<open>
  Validation of request fields (backend/api/src/validate.rs), and the redaction of personal data in log
  lines (backend/core/src/pii.rs).  A validator returns the accepted value's unit, or an
  \<open>Unprocessable\<close> error that names the field and the reason, never the value.
\<close>

definition reject :: "string \<Rightarrow> string \<Rightarrow> app_error" where
  "reject field why = Unprocessable (field @ '' '' @ why)"

definition no_control :: "string \<Rightarrow> string \<Rightarrow> app_error + unit" where
  "no_control field v =
     (if list_ex is_control v then Inl (reject field ''must not contain control characters'') else Inr ())"

definition too_long :: "nat \<Rightarrow> string" where
  "too_long n = ''must be at most '' @ show_nat n @ '' characters''"

definition valid_text :: "string \<Rightarrow> string \<Rightarrow> nat \<Rightarrow> app_error + unit" where
  "valid_text field v n =
     (if trim v = [] then Inl (reject field ''must not be empty'')
      else if n < length v then Inl (reject field (too_long n))
      else no_control field v)"

definition valid_opt_text :: "string \<Rightarrow> string \<Rightarrow> nat \<Rightarrow> app_error + unit" where
  "valid_opt_text field v n =
     (if n < length v then Inl (reject field (too_long n)) else no_control field v)"

definition is_hex :: "char \<Rightarrow> bool" where
  "is_hex c = (let n = (of_char c :: nat) in (48 \<le> n \<and> n \<le> 57) \<or> (65 \<le> n \<and> n \<le> 70) \<or> (97 \<le> n \<and> n \<le> 102))"

definition hex_color :: "string \<Rightarrow> string \<Rightarrow> app_error + unit" where
  "hex_color field v =
     (case v of
        CHR ''#'' # r \<Rightarrow> (if length r = 6 \<and> list_all is_hex r then Inr ()
                       else Inl (reject field ''must be a hex colour like #2563EB''))
      | _ \<Rightarrow> Inl (reject field ''must be a hex colour like #2563EB''))"

definition host_char :: "char \<Rightarrow> bool" where
  "host_char c = (let n = (of_char c :: nat) in
     (48 \<le> n \<and> n \<le> 57) \<or> (65 \<le> n \<and> n \<le> 90) \<or> (97 \<le> n \<and> n \<le> 122) \<or> c = CHR ''.'' \<or> c = CHR ''-'')"

definition bad_space :: "char \<Rightarrow> bool" where
  "bad_space c = (is_ws c \<or> is_control c)"

definition valid_email :: "string \<Rightarrow> string \<Rightarrow> app_error + unit" where
  "valid_email field v =
     (if v = [] \<or> 320 < length v then Inl (reject field ''must be a valid email address'')
      else if list_ex bad_space v then Inl (reject field ''must not contain whitespace'')
      else case split_on CHR ''@'' v of
        [local_part, domain] \<Rightarrow>
          (if local_part = [] \<or> domain = [] then Inl (reject field ''must be a valid email address'')
           else if CHR ''.'' \<notin> set domain \<or> starts_with ''.'' domain \<or> ends_with ''.'' domain \<or> starts_with ''-'' domain
           then Inl (reject field ''must have a valid domain'')
           else if \<not> list_all host_char domain then Inl (reject field ''domain contains invalid characters'')
           else Inr ())
      | _ \<Rightarrow> Inl (reject field ''must contain exactly one @''))"

definition valid_host :: "string \<Rightarrow> string \<Rightarrow> app_error + unit" where
  "valid_host field v =
     (if v = [] \<or> 255 < length v then Inl (reject field ''must be 1-255 characters'')
      else if \<not> list_all host_char v then Inl (reject field ''must be a valid hostname'')
      else if starts_with ''.'' v \<or> ends_with ''.'' v \<or> starts_with ''-'' v
      then Inl (reject field ''must be a valid hostname'')
      else Inr ())"

text \<open>A port is a \<open>u16\<close>.\<close>

definition valid_port :: "string \<Rightarrow> nat \<Rightarrow> app_error + unit" where
  "valid_port field v = (if v = 0 then Inl (reject field ''must be between 1 and 65535'') else Inr ())"

definition one_of :: "string \<Rightarrow> string \<Rightarrow> string list \<Rightarrow> app_error + unit" where
  "one_of field v allowed =
     (if v \<in> set allowed then Inr () else Inl (reject field (''must be one of: '' @ join_with '', '' allowed)))"

definition auth_schemes :: "string list" where
  "auth_schemes = [''plain'', ''login'', ''cram-md5'', ''oauth2'', ''xoauth2'']"

definition body_sync_modes :: "string list" where
  "body_sync_modes = [''lazy'', ''full'']"

definition sync_modes :: "string list" where
  "sync_modes = [''idle'', ''interval'']"

definition http_url :: "string \<Rightarrow> string \<Rightarrow> app_error + unit" where
  "http_url field v =
     (if 2048 < length v then Inl (reject field ''must be at most 2048 characters'')
      else if \<not> (starts_with ''http://'' v \<or> starts_with ''https://'' v) then Inl (reject field ''must be an http(s) URL'')
      else if list_ex bad_space v then Inl (reject field ''must not contain whitespace'')
      else Inr ())"

text \<open>\<open>decode\<close> is the base64 decoder.\<close>

definition b64_cert :: "(string \<Rightarrow> string option) \<Rightarrow> string \<Rightarrow> string \<Rightarrow> app_error + string" where
  "b64_cert decode field v =
     (if v = [] \<or> 32768 < length v then Inl (reject field ''must be a base64 certificate up to 32768 characters'')
      else case decode (trim v) of
        None \<Rightarrow> Inl (reject field ''must be valid base64'')
      | Some der \<Rightarrow> if length der < 64 then Inl (reject field ''is too short to be a DER certificate'') else Inr der)"

definition range_i64 :: "(int \<Rightarrow> string) \<Rightarrow> string \<Rightarrow> int \<Rightarrow> int \<Rightarrow> int \<Rightarrow> app_error + unit" where
  "range_i64 shown field v lo hi =
     (if v < lo \<or> hi < v then Inl (reject field (''must be between '' @ shown lo @ '' and '' @ shown hi)) else Inr ())"

section \<open>Redaction\<close>

datatype pii_mode = Remove | Hash | Encrypt "string option" | Plaintext

text \<open>The environment selects the mode; \<open>None\<close> is the panic of a bad key at start-up.\<close>

definition init_pii_mode ::
  "(string \<Rightarrow> string option) \<Rightarrow> string option \<Rightarrow> string option \<Rightarrow> pii_mode option" where
  "init_pii_mode unhex mode key =
     (case mode of
        None \<Rightarrow> Some Remove
      | Some m \<Rightarrow>
          (if m = ''remove'' then Some Remove
           else if m = ''hash'' then Some Hash
           else if m = ''encrypt''
           then (case key of
                   None \<Rightarrow> None
                 | Some k \<Rightarrow> (case unhex k of
                      None \<Rightarrow> None
                    | Some bytes \<Rightarrow> if length bytes = 32 then Some (Encrypt (Some bytes)) else None))
           else if m = ''plaintext'' then Some Plaintext
           else Some Remove))"

text \<open>\<open>digest\<close> is the hexadecimal SHA-256; \<open>seal key text\<close> the base64 of nonce, cipher text and tag.\<close>

definition show_pii :: "(string \<Rightarrow> string) \<Rightarrow> (string \<Rightarrow> string \<Rightarrow> string) \<Rightarrow> pii_mode \<Rightarrow> string \<Rightarrow> string" where
  "show_pii digest seal mode v =
     (case mode of
        Remove \<Rightarrow> ''[REDACTED]''
      | Hash \<Rightarrow> ''pii:sha256:'' @ take 16 (digest v)
      | Encrypt None \<Rightarrow> ''[REDACTED]''
      | Encrypt (Some key) \<Rightarrow> ''pii:enc:'' @ seal key v
      | Plaintext \<Rightarrow> v)"

section \<open>What is accepted\<close>

lemma starts_with_char: "d \<noteq> [] \<Longrightarrow> starts_with [c] d \<longleftrightarrow> hd d = c"
  by (cases d) (auto simp: starts_with_def)

lemma ends_with_char: "d \<noteq> [] \<Longrightarrow> ends_with [c] d \<longleftrightarrow> last d = c"
  by (simp add: ends_with_def starts_with_char hd_rev)

lemma accepted_email:
  "valid_email field v = Inr () \<longleftrightarrow>
     (\<exists>local_part domain. v = local_part @ CHR ''@'' # domain \<and> local_part \<noteq> [] \<and> CHR ''@'' \<notin> set local_part
        \<and> length v \<le> 320 \<and> (\<forall>c \<in> set v. \<not> bad_space c) \<and> (\<forall>c \<in> set domain. host_char c) \<and> CHR ''.'' \<in> set domain
        \<and> hd domain \<noteq> CHR ''.'' \<and> hd domain \<noteq> CHR ''-'' \<and> last domain \<noteq> CHR ''.'')"
proof
  assume ok: "valid_email field v = Inr ()"
  obtain l d where sp: "split_on CHR ''@'' v = [l, d]"
    using ok by (auto simp: valid_email_def split: if_splits list.splits)
  have v: "v = l @ CHR ''@'' # d" using join_split_on [of "CHR ''@''" v] sp by simp
  have "CHR ''@'' \<notin> set l" using split_on_no_sep [of l "CHR ''@''" v] sp by simp
  moreover have "l \<noteq> []" "d \<noteq> []" "CHR ''.'' \<in> set d" "\<not> starts_with ''.'' d" "\<not> ends_with ''.'' d" "\<not> starts_with ''-'' d"
      "list_all host_char d" "length v \<le> 320" "\<not> list_ex bad_space v"
    using ok sp by (auto simp: valid_email_def split: if_splits)
  ultimately show "\<exists>l d. v = l @ CHR ''@'' # d \<and> l \<noteq> [] \<and> CHR ''@'' \<notin> set l
        \<and> length v \<le> 320 \<and> (\<forall>c \<in> set v. \<not> bad_space c) \<and> (\<forall>c \<in> set d. host_char c) \<and> CHR ''.'' \<in> set d
        \<and> hd d \<noteq> CHR ''.'' \<and> hd d \<noteq> CHR ''-'' \<and> last d \<noteq> CHR ''.''"
    using v by (intro exI [of _ l] exI [of _ d])
      (simp add: starts_with_char ends_with_char list_all_iff list_ex_iff)
next
  assume "\<exists>l d. v = l @ CHR ''@'' # d \<and> l \<noteq> [] \<and> CHR ''@'' \<notin> set l
        \<and> length v \<le> 320 \<and> (\<forall>c \<in> set v. \<not> bad_space c) \<and> (\<forall>c \<in> set d. host_char c) \<and> CHR ''.'' \<in> set d
        \<and> hd d \<noteq> CHR ''.'' \<and> hd d \<noteq> CHR ''-'' \<and> last d \<noteq> CHR ''.''"
  then obtain l d where v: "v = l @ CHR ''@'' # d" "l \<noteq> []" "CHR ''@'' \<notin> set l" "length v \<le> 320"
    "\<forall>c \<in> set v. \<not> bad_space c" "\<forall>c \<in> set d. host_char c" "CHR ''.'' \<in> set d"
    "hd d \<noteq> CHR ''.''" "hd d \<noteq> CHR ''-''" "last d \<noteq> CHR ''.''" by blast
  have "\<not> host_char CHR ''@''" by (simp add: host_char_def)
  then have "CHR ''@'' \<notin> set d" using v(6) by blast
  then have sp: "split_on CHR ''@'' v = [l, d]" using v(1,3) by (simp add: split_on_append split_on_free)
  have d: "d \<noteq> []" using v(7) by auto
  then have "\<not> starts_with ''.'' d" "\<not> starts_with ''-'' d" "\<not> ends_with ''.'' d"
    using v(8-10) by (simp_all add: starts_with_char ends_with_char)
  then show "valid_email field v = Inr ()"
    using v sp d by (auto simp: valid_email_def list_all_iff list_ex_iff)
qed

lemma accepted_host:
  "valid_host field v = Inr () \<Longrightarrow> v \<noteq> [] \<and> length v \<le> 255 \<and> (\<forall>c \<in> set v. host_char c) \<and> hd v \<noteq> CHR ''.'' \<and> hd v \<noteq> CHR ''-''"
  by (cases v) (auto simp: valid_host_def starts_with_def list_all_iff split: if_splits)

lemma host_chars_plain: "host_char c \<Longrightarrow> \<not> is_ws c \<and> c \<notin> set [CHR ''/'', CHR ''@'', CHR '':'', CHR ''?'', CHR ''#'']"
  by (auto simp: host_char_def is_ws_def Let_def)

end
