(* ===== verification/Api_Properties.thy ===== *)
theory Api_Properties
  imports Samples System Sieve Auth Search Validate
begin

text \<open>Properties of the API server: the whole system, inbox rules, mail lists, search, tokens and sessions.\<close>

section \<open>The system\<close>

definition sample_system :: "(unit, unit) system" where
  "sample_system = \<lparr>st_sync = sample_state, st_drafts = [], st_aliases = [], st_tokens = ()\<rparr>"

definition sample_token_env :: "unit token_env" where
  "sample_token_env = \<lparr>tk_decrypt = Some, tk_encrypt = Some, tk_parse = (\<lambda>_. Some (JObj [])), tk_render = (\<lambda>_. []),
     tk_now = 0, tk_var = (\<lambda>_. None), tk_post = (\<lambda>_ _ r. (Inl ''down'', r))\<rparr>"

lemma sample_system_ok: "system_ok sample_system"
  by (simp add: system_ok_def sample_system_def sample_state_def sample_db_ok new_manager_def queues_bounded_def)

text \<open>Whatever requests arrive and however they interleave with the account tasks over Microsoft Graph,
  every reachable state has exact counters, unique keys, a well-formed outbox and bounded command queues.\<close>

theorem reachable_system_is_consistent:
  assumes "system_reachable (E\<lparr>se_backend := outlook_backend o'\<rparr>) T user w w'" "system_ok w"
  shows "system_ok w'"
  using assms by (rule ol_cycle.system_reachable_ok)

theorem reachable_system_is_consistent_witness:
  "system_ok (put_api (serve (sample_env\<lparr>se_backend := outlook_backend sample_outlook\<rparr>) ''u'' (Read 10 False)
      (api_of sample_system)) sample_system)"
  by (rule reachable_system_is_consistent [OF system_reachable.step [OF system_reachable.here system_step.request]
      sample_system_ok])

section \<open>Inbox rules\<close>

definition sample_rule :: compiled_rule where
  "sample_rule = \<lparr>cr_name = ''bills'', cr_match_all = True,
     cr_conditions = [\<lparr>co_field = ''from'', co_op = ''contains'', co_value = [quote_char, backslash]\<rparr>],
     cr_actions = [\<lparr>ac_kind = ''move'', ac_value = Some ''Bills''\<rparr>]\<rparr>"

text \<open>C35: a compiled script reads back, token by token, as exactly its rules, whatever characters their values
  and folders have, provided no rule name holds a line break.\<close>

theorem script_reads_back_as_its_rules:
  assumes "\<forall>r \<in> set rs. newline \<notin> set (cr_name r)"
  shows "sieve_lex (compile_sieve rs) = Some (script_tokens rs)"
  using assms by (rule compiled_script_tokens)

theorem script_reads_back_as_its_rules_witness:
  "sieve_lex (compile_sieve [sample_rule]) = Some (script_tokens [sample_rule])"
  by (rule script_reads_back_as_its_rules) (simp add: sample_rule_def)

text \<open>C36: rule names are written into a comment as they are: a name with a line break adds commands to the
  script, for instance one that redirects all mail to any address.\<close>

theorem rule_name_injects_command:
  assumes "newline \<notin> set a" "newline \<notin> set b"
  shows "sieve_lex (compile_sieve [r\<lparr>cr_name := a @ [newline] @ ''redirect '' @ quote addr @ '';'' @ ''# '' @ b\<rparr>])
    = Some (script_tokens [] @ [Word ''redirect'', Str addr, Sym CHR '';''] @ rule_tokens r)"
proof -
  let ?r = "r\<lparr>cr_name := b\<rparr>"
  have word: "lexes ''redirect '' [Word ''redirect'']"
    using lexes_word [of "''redirect''" "CHR '' ''" "[]"] lexes_ws [of "CHR '' ''"] by (simp add: is_word_def is_ws_def)
  have "lexes (require_line @ ([newline] @ (''# '' @ a @ [newline]) @ (''redirect '' @ quote addr @ '';'')) @ drop 1 (sieve_rule ?r))
     (script_tokens [] @ [Word ''redirect'', Str addr, Sym CHR '';''] @ rule_tokens ?r)"
  proof (intro lexes_append)
    show "lexes require_line (script_tokens [])" using lexes_require by (simp add: script_tokens_def)
    show "lexes ([newline] @ (''# '' @ a @ [newline]) @ ''redirect '' @ quote addr @ '';'') [Word ''redirect'', Str addr, Sym CHR '';'']"
      using lexes_append [OF lexes_pieces(8) lexes_append [OF lexes_comment [OF assms(1)] lexes_append [OF word
          lexes_append [OF lexes_quote lexes_pieces(7)]]]] by simp
    have "lexes (sieve_rule ?r) (rule_tokens ?r)" using lexes_rule [of ?r] assms(2) by simp
    then show "lexes (drop 1 (sieve_rule ?r)) (rule_tokens ?r)"
      by (simp add: sieve_rule_def lexes_def sieve_lex.simps is_ws_def)
  qed
  then have "sieve_lex ((require_line @ ([newline] @ (''# '' @ a @ [newline]) @ (''redirect '' @ quote addr @ '';'')) @ drop 1 (sieve_rule ?r)) @ [])
      = map_option (\<lambda>us. (script_tokens [] @ [Word ''redirect'', Str addr, Sym CHR '';''] @ rule_tokens ?r) @ us) (sieve_lex [])"
    unfolding lexes_def by blast
  moreover have "rule_tokens ?r = rule_tokens r" by (simp add: rule_tokens_def)
  moreover have "compile_sieve [r\<lparr>cr_name := a @ [newline] @ ''redirect '' @ quote addr @ '';'' @ ''# '' @ b\<rparr>]
      = require_line @ ([newline] @ (''# '' @ a @ [newline]) @ (''redirect '' @ quote addr @ '';'')) @ drop 1 (sieve_rule ?r)"
    by (simp add: compile_sieve_def sieve_rule_def guard_line_def)
  ultimately show ?thesis by simp
qed

theorem rule_name_injects_command_witness:
  "\<exists>name. sieve_lex (compile_sieve [sample_rule\<lparr>cr_name := name\<rparr>])
     = Some (script_tokens [] @ [Word ''redirect'', Str ''spy@evil'', Sym CHR '';''] @ rule_tokens sample_rule)"
  by (rule exI, rule rule_name_injects_command [of "''a''" "''b''"]) simp_all

text \<open>C37: an upload writes nothing but STARTTLS before the TLS handshake, and on success the whole dialogue was
  written over TLS, whatever the server answers.\<close>

theorem upload_keeps_credentials_in_tls:
  assumes "upload_script V username password name script = (r, plain, tls)"
  shows "plain \<in> {[], [starttls_line]}
    \<and> (r = Inr () \<longrightarrow> tls = sieve_dialogue (ms_base64 V) username password name script @ [logout_line])
    \<and> (tls \<noteq> [] \<longrightarrow> plain = [starttls_line] \<and> (\<exists>left. ms_tls V left))
    \<and> (r \<noteq> Inr () \<longrightarrow> (\<exists>k. tls = take k (sieve_dialogue (ms_base64 V) username password name script)))"
  using assms by (rule upload_dialogue)

definition sample_manage :: manage_server where
  "sample_manage = \<lparr>ms_open = Inr (''OK'' @ [newline]), ms_plain = (\<lambda>_. ''NO tls'' @ [newline]), ms_tls = (\<lambda>_. True),
     ms_secure = (\<lambda>_. ''OK'' @ [newline]), ms_base64 = (\<lambda>s. s)\<rparr>"

theorem upload_keeps_credentials_in_tls_witness:
  "snd (upload_script sample_manage ''u'' ''secret'' ''n'' ''s'') \<in> {[], [starttls_line]} \<times> {[]}"
proof -
  obtain r plain tls where u: "upload_script sample_manage ''u'' ''secret'' ''n'' ''s'' = (r, plain, tls)"
    by (metis prod_cases3)
  have "fst (upload_script sample_manage ''u'' ''secret'' ''n'' ''s'') = Inl ''NO tls''" by code_simp
  moreover have "snd (snd (upload_script sample_manage ''u'' ''secret'' ''n'' ''s'')) = []" by code_simp
  ultimately show ?thesis using upload_keeps_credentials_in_tls [OF u] u by simp
qed

section \<open>Mail lists\<close>

text \<open>C38: a view across folders shows the newest rows of the union of its folders, although each folder is cut
  to the page length before the union.\<close>

theorem view_shows_the_newest_rows:
  assumes "view \<noteq> Some ''starred''"
  shows "unified_rows db view acct cursor limit unread =
    sql_limit limit (newest_first (concat (map (\<lambda>fid. folder_branch db fid unread cursor) (view_folders db view acct))))"
  using assms by (simp add: unified_rows_def merged_branches_eq)

theorem view_shows_the_newest_rows_witness:
  "map m_id (unified_rows sample_db None None None 1 False) = [10]"
  by (subst view_shows_the_newest_rows)
     (simp_all add: view_folders_def view_type_def folder_branch_def listed_def before_def has_folder_def find_folder_def
       sql_limit_def newest_first_def date_key_def sample_defs)

lemma folder_rows_filter:
  "folder_rows db fid c limit unread =
     sql_limit limit (filter (before c) (newest_first (folder_branch db fid unread None)))"
proof -
  have "folder_branch db fid unread c = filter (before c) (folder_branch db fid unread None)"
    by (auto simp: folder_branch_def listed_def before_def [of None] intro!: filter_cong)
  then show ?thesis by (simp add: folder_rows_def newest_first_filter)
qed

text \<open>C39: following the cursors of a folder whose messages have different dates shows every live message once,
  newest first, in as many pages as needed.\<close>

theorem pages_cover_the_folder:
  assumes "0 < limit" "dates_distinct (newest_first (folder_branch db fid unread None))"
    and "length (folder_branch db fid unread None) < n"
  shows "page_walk n (\<lambda>c. folder_rows db fid c limit unread) limit None = newest_first (folder_branch db fid unread None)"
proof (rule page_walk_all [OF assms(1) newest_first_sorted assms(2), of "[]"])
  show "folder_rows db fid c limit unread = take (nat limit) (filter (before c) (newest_first (folder_branch db fid unread None)))" for c
    using assms(1) by (simp add: folder_rows_filter sql_limit_def)
qed (use assms in \<open>simp_all add: mset_newest_first before_def\<close>)

definition dated_db :: mail_db where
  "dated_db = sample_db\<lparr>messages := [sample_message 10 1 True, (sample_message 11 2 False)\<lparr>m_internal_date := ''2025''\<rparr>]\<rparr>"

theorem pages_cover_the_folder_witness:
  "map m_id (page_walk 3 (\<lambda>c. folder_rows dated_db 1 c 1 False) 1 None) = [11, 10]"
  by (subst pages_cover_the_folder)
     (simp_all add: folder_branch_def listed_def before_def has_folder_def find_folder_def dates_distinct_def
       newest_first_def date_key_def dated_db_def sample_defs)

lemma later_pages_before: "m \<in> set (page_walk n (\<lambda>c. folder_rows db fid c limit unread) limit (Some d)) \<Longrightarrow>
    date_key m < map of_char d"
proof (induction n arbitrary: d)
  case (Suc n)
  have page: "x \<in> set (folder_rows db fid (Some d) limit unread) \<Longrightarrow> date_key x < map of_char d" for x
    by (auto simp: folder_rows_def sql_limit_def folder_branch_def listed_def before_def split: if_splits dest!: in_set_takeD)
  show ?case
  proof (cases "next_cursor limit (folder_rows db fid (Some d) limit unread)")
    case None
    then show ?thesis using Suc.prems page by simp
  next
    case (Some e)
    then have "\<exists>x \<in> set (folder_rows db fid (Some d) limit unread). e = m_internal_date x"
      by (auto simp: next_cursor_def split: if_splits intro: last_in_set)
    then have "map of_char e < (map of_char d :: nat list)" using page by (auto simp: date_key_def)
    then show ?thesis using Suc Some page by (auto intro: order.strict_trans)
  qed
qed simp

text \<open>The cursor is the date of the last row of a page: a message with this date that did not fit on the page
  is on no later page either.\<close>

theorem equal_date_is_never_shown:
  assumes "next_cursor limit (folder_rows db fid None limit unread) = Some (m_internal_date m)"
    and "m \<notin> set (folder_rows db fid None limit unread)"
  shows "m \<notin> set (page_walk n (\<lambda>c. folder_rows db fid c limit unread) limit None)"
  using assms later_pages_before [of m _ db fid limit unread "m_internal_date m"]
  by (cases n) (auto simp: date_key_def)

theorem equal_date_is_never_shown_witness:
  "sample_message 11 2 False \<in> set (folder_branch sample_db 1 False None)
   \<and> sample_message 11 2 False \<notin> set (page_walk 100 (\<lambda>c. folder_rows sample_db 1 c 1 False) 1 None)"
proof
  have rows: "folder_rows sample_db 1 None 1 False = [sample_message 10 1 True]"
    by (simp add: folder_rows_def folder_branch_def listed_def before_def has_folder_def find_folder_def
       sql_limit_def newest_first_def date_key_def sample_defs)
  show "sample_message 11 2 False \<in> set (folder_branch sample_db 1 False None)"
    by (simp add: folder_branch_def listed_def before_def has_folder_def find_folder_def sample_defs)
  show "sample_message 11 2 False \<notin> set (page_walk 100 (\<lambda>c. folder_rows sample_db 1 c 1 False) 1 None)"
    by (rule equal_date_is_never_shown) (simp_all add: rows [unfolded One_nat_def] next_cursor_def sample_message_def)
qed

text \<open>The thread columns that a page computes in two grouped queries are those of each row alone: distinct
  messages and unread copies of its conversation in its folder, and the first three senders by date.\<close>

theorem batched_thread_columns:
  assumes "m \<in> set rows" "set rows \<subseteq> set (messages db)" "\<not> m_deleted m" "m_thread_id m = Some t"
  shows "\<exists>r \<in> set (enrich_threads db rows). tr_row r = m \<and> (tr_size r, tr_unread r) = thread_counts m db
    \<and> tr_participants r = take 3 (dedup (map m_from (sort_key date_key (thread_rows t (m_folder m) db))))"
proof (rule bexI)
  let ?r = "enrich_row (thread_members (page_threads rows) db) db m"
  show "?r \<in> set (enrich_threads db rows)" using assms(1) by (simp add: enrich_threads_def)
  have "tr_row ?r = m" by (simp add: enrich_row_def Let_def)
  moreover have "m \<in> set (messages db)" using assms(1,2) by blast
  ultimately show "tr_row ?r = m \<and> (tr_size ?r, tr_unread ?r) = thread_counts m db
    \<and> tr_participants ?r = take 3 (dedup (map m_from (sort_key date_key (thread_rows t (m_folder m) db))))"
    using enrich_threaded [OF assms(1) _ assms(3,4)] by (simp add: Let_def)
qed

theorem batched_thread_columns_witness:
  "\<exists>m. m_thread_id m = Some ''t'' \<and> (\<exists>db. tr_row (hd (enrich_threads db [m])) = m)"
proof -
  let ?m = "(sample_message 10 1 True)\<lparr>m_thread_id := Some ''t''\<rparr>"
  let ?db = "sample_db\<lparr>messages := [?m]\<rparr>"
  have "\<exists>r \<in> set (enrich_threads ?db [?m]). tr_row r = ?m \<and> (tr_size r, tr_unread r) = thread_counts ?m ?db
    \<and> tr_participants r = take 3 (dedup (map m_from (sort_key date_key (thread_rows ''t'' (m_folder ?m) ?db))))"
    by (rule batched_thread_columns) (simp_all add: sample_message_def)
  then have "tr_row (hd (enrich_threads ?db [?m])) = ?m" by (auto simp: enrich_threads_def)
  then show ?thesis by (intro exI [of _ ?m]) (auto simp: sample_message_def)
qed

section \<open>Search\<close>

text \<open>C40: when the full-text index accepts the query, the answer to a search for a text holds every live message
  whose subject contains it, letter case aside, whatever wildcards the text holds and whatever the index
  matches, that the other filters of the request let through; or the page is full, and every message on it
  is at least as new.\<close>

theorem search_finds_substrings:
  assumes "search X c db (q\<lparr>sq_q := Some t\<rparr>) = Inr (rows, next)" "trim t \<noteq> []" "m \<in> set (messages db)"
    and "searched (\<lambda>_. False) c db (q\<lparr>sq_q := None\<rparr>) m" "contains_str (to_lower (trim t)) (to_lower (m_subject m))"
  shows "m \<in> set rows
    \<or> (int (length rows) = search_limit (sq_limit q) \<and> (\<forall>r \<in> set rows. date_key m \<le> date_key r))"
proof -
  let ?q = "q\<lparr>sq_q := Some t\<rparr>"
  obtain hits where "rows = sql_limit (search_limit (sq_limit q)) (newest_first (filter (searched hits c db ?q) (messages db)))"
    using assms(1) by (auto simp: search_def Let_def split: option.splits)
  moreover have "searched hits c db ?q m"
    using assms(2,4,5) by (simp add: searched_def when_some_def matches_text_def like_pattern_iff Let_def)
  ultimately show ?thesis
    using sql_limit_newest [OF newest_first_sorted, of m "filter (searched hits c db ?q) (messages db)"] assms(3) by simp
qed

definition any_query :: search_query where
  "any_query = \<lparr>sq_q = None, sq_from = None, sq_to = None, sq_subject = None, sq_not = None, sq_after = None,
     sq_before = None, sq_folder = None, sq_account = None, sq_read = None, sq_flagged = None, sq_attachment = None,
     sq_cursor = None, sq_limit = None\<rparr>"

definition empty_index :: search_index where
  "empty_index = \<lparr>sx_terms = [], sx_distance = (\<lambda>a b. 0), sx_match = (\<lambda>_. Some (\<lambda>_. False))\<rparr>"

definition offer :: message_row where
  "offer = (sample_message 10 1 True)\<lparr>m_subject := ''Now 100% off''\<rparr>"

definition offer_db :: mail_db where
  "offer_db = sample_db\<lparr>messages := [offer, sample_message 11 2 False]\<rparr>"

theorem search_finds_substrings_witness:
  "\<exists>rows next. search empty_index empty_content offer_db (any_query\<lparr>sq_q := Some '' 100% ''\<rparr>) = Inr (rows, next)
    \<and> length rows \<le> 2 \<and> offer \<in> set rows"
proof -
  let ?q = "any_query\<lparr>sq_q := Some '' 100% ''\<rparr>"
  have t: "trim '' 100% '' = ''100%''" by code_simp
  obtain rows "next" where y: "search empty_index empty_content offer_db ?q = Inr (rows, next)"
    by (simp add: search_def text_hits_def empty_index_def t Let_def)
  then have "rows = sql_limit 50 (newest_first (filter (searched (\<lambda>_. False) empty_content offer_db ?q) (messages offer_db)))"
    by (simp add: search_def text_hits_def empty_index_def t Let_def search_limit_def any_query_def)
  moreover have "length (filter P (messages offer_db)) \<le> 2" for P
    using length_filter_le [of P "messages offer_db"] by (simp add: offer_db_def)
  ultimately have len: "length rows \<le> 2"
    by (simp add: sql_limit_def mset_newest_first min.coboundedI1)
  have "searched (\<lambda>_. False) empty_content offer_db (any_query\<lparr>sq_q := None\<rparr>) offer"
    by (simp add: searched_def any_query_def when_some_def before_def offer_def sample_message_def)
  moreover have "contains_str (to_lower (trim '' 100% '')) (to_lower (m_subject offer))" by code_simp
  ultimately have "offer \<in> set rows \<or> (int (length rows) = search_limit (sq_limit any_query) \<and> (\<forall>r \<in> set rows. date_key offer \<le> date_key r))"
    by (intro search_finds_substrings [OF y]) (simp_all add: offer_db_def t)
  then show ?thesis using y len by (auto simp: search_limit_def any_query_def)
qed

section \<open>Tokens and sessions\<close>

text \<open>A token handed to a provider is the one stored for the account, and is valid for five more minutes,
  unless the endpoint issued it in this very call.\<close>

theorem handed_out_token_is_stored:
  assumes "stores_credentials T" "fresh_access_token T acct db r = (Inr (Some t), db', r')"
  shows "\<exists>creds. load_credentials T acct db' = Inr creds \<and> text_at creds ''oauth_access_token'' = t
    \<and> (tk_now T + expiry_slack_secs < stored_expiry creds
       \<or> (\<exists>provider refresh_token rf. refresh T provider refresh_token r = (Inr rf, r') \<and> rf_access_token rf = t
            \<and> stored_expiry creds = wrap_i64 (tk_now T + rf_expires_in rf)))"
  using assms by (rule fresh_token_is_stored)

definition stored_token_env :: "unit token_env" where
  "stored_token_env = sample_token_env\<lparr>tk_encrypt := (\<lambda>_. None),
     tk_parse := (\<lambda>_. Some (JObj [(''oauth_access_token'', JStr ''tok''), (''oauth_expires_at'', JNum 1000)]))\<rparr>"

theorem handed_out_token_is_stored_witness:
  "\<exists>creds. load_credentials stored_token_env ''acc'' sample_db = Inr creds \<and> text_at creds ''oauth_access_token'' = ''tok''"
proof -
  have "stores_credentials stored_token_env" by (simp add: stores_credentials_def stored_token_env_def)
  moreover have "fresh_access_token stored_token_env ''acc'' sample_db () = (Inr (Some ''tok''), sample_db, ())"
    by (simp add: fresh_access_token_def load_credentials_def account_of_def stored_token_env_def sample_token_env_def
        text_at_def stored_expiry_def expiry_slack_secs_def sample_defs Let_def)
  ultimately have "\<exists>creds. load_credentials stored_token_env ''acc'' sample_db = Inr creds \<and> text_at creds ''oauth_access_token'' = ''tok''
    \<and> (tk_now stored_token_env + expiry_slack_secs < stored_expiry creds
       \<or> (\<exists>provider refresh_token rf. refresh stored_token_env provider refresh_token () = (Inr rf, ()) \<and> rf_access_token rf = ''tok''
            \<and> stored_expiry creds = wrap_i64 (tk_now stored_token_env + rf_expires_in rf)))"
    by (rule handed_out_token_is_stored)
  then show ?thesis by blast
qed

text \<open>A session token is accepted until the end of the UTC day on which it expires: its expiry has a T
  between date and time, the clock it is compared with has a space, and the comparison is one of texts.\<close>

theorem session_lasts_until_midnight:
  assumes "tokens_ok db" "r \<in> set (au_tokens db)" "rt_hash r = ae_hash_token A raw" "rt_expires r = rfc3339 expiry"
  shows "live_token A now raw db = (if now div 86400 \<le> expiry div 86400 then Some r else None)"
  using live_token_of [OF assms(1-3)] unexpired_iff [OF assms(4)] by simp

definition sample_auth :: auth_env where
  "sample_auth = \<lparr>ae_registration = True, ae_hash_password = Some, ae_verify = (\<lambda>h p. Some (h = p)),
     ae_hash_token = (\<lambda>t. t), ae_sign = (\<lambda>u i e. Some ''jwt''), ae_decode = (\<lambda>_. None)\<rparr>"

definition sample_token :: "bool \<Rightarrow> refresh_row" where
  "sample_token replaced = \<lparr>rt_id = 1, rt_user = 0, rt_hash = ''abc'', rt_expires = rfc3339 86400, rt_revoked = replaced,
     rt_replaced = (if replaced then Some (datetime 100) else None), rt_remember = False\<rparr>"

definition sample_auth_db :: "bool \<Rightarrow> auth_db" where
  "sample_auth_db replaced = \<lparr>au_users = [\<lparr>us_id = 0, us_email = ''me@x.org'', us_hash = ''old''\<rparr>],
     au_tokens = [sample_token replaced], au_settings = [0], au_next = 2\<rparr>"

theorem session_lasts_until_midnight_witness:
  "live_token sample_auth (86400 + 86399) ''abc'' (sample_auth_db False) = Some (sample_token False)"
  by (subst session_lasts_until_midnight [of _ "sample_token False" _ _ 86400])
     (simp_all add: sample_auth_def sample_auth_db_def sample_token_def tokens_ok_def)

text \<open>Resetting a password revokes every session, yet a token rotated within the last minute still signs its
  holder in afterwards.\<close>

theorem rotated_token_survives_reset:
  assumes "reset_password A email password db = (Inr (), db')" "tokens_ok db"
    and "r \<in> set (au_tokens db)" "rt_hash r = ae_hash_token A raw"
    and "rt_revoked r" "rt_replaced r = Some (datetime t)" "now < t + 60"
    and "rt_expires r = rfc3339 expiry" "now div 86400 \<le> expiry div 86400"
    and "cookie_from_request header ''refresh_token'' = Some raw"
  shows "refresh_session A now fresh header db' = sign_in A now fresh (rt_user r) (rt_remember r) db'"
proof -
  obtain u :: user_row where toks: "au_tokens db' = map (\<lambda>r. if rt_user r = us_id u then r\<lparr>rt_revoked := True\<rparr> else r) (au_tokens db)"
      "au_next db' = au_next db"
    using reset_password_effect [OF assms(1)] by blast
  let ?g = "\<lambda>r. if rt_user r = us_id u then r\<lparr>rt_revoked := True\<rparr> else r"
  have same: "rt_id \<circ> ?g = rt_id" "rt_hash \<circ> ?g = rt_hash" by auto
  have ok: "tokens_ok db'"
    using assms(2) unfolding tokens_ok_def toks map_map same by auto
  have "r\<lparr>rt_revoked := True\<rparr> = r" using assms(5) by simp
  then have r': "r \<in> set (au_tokens db')" unfolding toks set_map using assms(3) by force
  have "live_token A now raw db' = Some r"
    using live_token_of [OF ok r' assms(4)] unexpired_iff [OF assms(8)] assms(9) by simp
  moreover have "recently_replaced now r" using recently_replaced_iff [OF assms(6)] assms(7) by simp
  ultimately show ?thesis using assms(5,10) by (simp add: refresh_session_def)
qed

theorem rotated_token_survives_reset_witness:
  "\<exists>db'. reset_password sample_auth ''me@x.org'' ''new-password'' (sample_auth_db True) = (Inr (), db')
    \<and> refresh_session sample_auth 120 ''fresh'' (Some ''refresh_token=abc'') db'
      = sign_in sample_auth 120 ''fresh'' 0 False db'"
proof -
  obtain r db' where res: "reset_password sample_auth ''me@x.org'' ''new-password'' (sample_auth_db True) = (r, db')"
    by fastforce
  have "fst (reset_password sample_auth ''me@x.org'' ''new-password'' (sample_auth_db True)) = Inr ()" by code_simp
  then have done_: "reset_password sample_auth ''me@x.org'' ''new-password'' (sample_auth_db True) = (Inr (), db')"
    using res by simp
  have "refresh_session sample_auth 120 ''fresh'' (Some ''refresh_token=abc'') db'
      = sign_in sample_auth 120 ''fresh'' (rt_user (sample_token True)) (rt_remember (sample_token True)) db'"
  proof (rule rotated_token_survives_reset [OF done_, of _ "''abc''" 100 120 86400])
    show "cookie_from_request (Some ''refresh_token=abc'') ''refresh_token'' = Some ''abc''" by code_simp
  qed (simp_all add: tokens_ok_def sample_auth_db_def sample_token_def sample_auth_def)
  then show ?thesis using done_ by (auto simp: sample_token_def)
qed

end
