(* ===== verification/Vcard.thy ===== *)
theory Vcard
  imports Ical Rest
begin

text \<open>
  Contacts as text (backend/contact-sync/src/lib.rs): the vCard reader and writer, and the JSON forms of
  Microsoft Graph and Google People.

  The reader first asks the library \<open>vcard4\<close>, the parameter \<open>lib\<close> of \<open>parse_vcard\<close>: \<open>None\<close> when it
  rejects the text, else the cards with the fields the code reads of them.  A list of type parameters
  that the library does not give is \<open>None\<close>.
\<close>

section \<open>Contacts\<close>

record labeled_value =
  lv_label :: "string option"
  lv_value :: string
  lv_primary :: bool

record postal_address =
  pa_label :: "string option"
  pa_primary :: bool
  pa_street :: "string option"
  pa_locality :: "string option"
  pa_region :: "string option"
  pa_postal_code :: "string option"
  pa_country :: "string option"

record parsed_contact =
  pc_uid :: string
  pc_display_name :: "string option"
  pc_given_name :: "string option"
  pc_family_name :: "string option"
  pc_org :: "string option"
  pc_title :: "string option"
  pc_emails :: "labeled_value list"
  pc_phones :: "labeled_value list"
  pc_addresses :: "postal_address list"
  pc_notes :: "string option"
  pc_photo :: "string option"
  pc_raw_vcard :: "string option"

definition empty_contact :: parsed_contact where
  "empty_contact = \<lparr>pc_uid = [], pc_display_name = None, pc_given_name = None, pc_family_name = None, pc_org = None,
     pc_title = None, pc_emails = [], pc_phones = [], pc_addresses = [], pc_notes = None, pc_photo = None,
     pc_raw_vcard = None\<rparr>"

definition optional_string :: "string \<Rightarrow> string option" where
  "optional_string v = (if trim v = [] then None else Some (trim v))"

definition display_name_from_parts :: "parsed_contact \<Rightarrow> string option" where
  "display_name_from_parts c =
     or_option (optional_string (join_with '' '' (map the (filter (\<lambda>x. x \<noteq> None) [pc_given_name c, pc_family_name c]))))
       (map_option lv_value (first_of (pc_emails c)))"

definition uid_char :: "char \<Rightarrow> char" where
  "uid_char x = (if x \<in> set [CHR ''@'', CHR '' '', CHR ''<'', CHR ''>''] then CHR ''-'' else x)"

definition fallback_uid :: "parsed_contact \<Rightarrow> string" where
  "fallback_uid c =
     (let seed = (case or_option (map_option lv_value (first_of (pc_emails c))) (pc_display_name c) of
                    None \<Rightarrow> ''contact'' | Some s \<Rightarrow> s)
      in ''mailquill-'' @ map uid_char seed)"

section \<open>Writing a vCard\<close>

definition escape_vcard_value :: "string \<Rightarrow> string" where
  "escape_vcard_value v =
     replace_str '','' [CHR 0x5C, CHR '','']
       (replace_str '';'' [CHR 0x5C, CHR '';'']
          (replace_str [lf] [CHR 0x5C, CHR ''n'']
             (replace_str [CHR 0x5C] [CHR 0x5C, CHR 0x5C] v)))"

definition unescape_vcard_value :: "string \<Rightarrow> string" where
  "unescape_vcard_value v =
     replace_str [CHR 0x5C, CHR 0x5C] [CHR 0x5C]
       (replace_str [CHR 0x5C, CHR '';''] '';''
          (replace_str [CHR 0x5C, CHR '',''] '',''
             (replace_str [CHR 0x5C, CHR ''N''] [lf]
                (replace_str [CHR 0x5C, CHR ''n''] [lf] v))))"

definition type_parameter :: "string option \<Rightarrow> string" where
  "type_parameter label =
     (case label of
        None \<Rightarrow> []
      | Some l \<Rightarrow> if l = [] then [] else '';TYPE='' @ filter (\<lambda>x. x \<notin> set '';:,'') l)"

definition format_labeled :: "string \<Rightarrow> labeled_value \<Rightarrow> string" where
  "format_labeled prop v = prop @ type_parameter (lv_label v) @ '':'' @ escape_vcard_value (lv_value v)"

definition format_address :: "postal_address \<Rightarrow> string" where
  "format_address a = ''ADR'' @ type_parameter (pa_label a) @ '':;;'' @
     join_with '';'' (map (\<lambda>v. escape_vcard_value (or_empty v))
       [pa_street a, pa_locality a, pa_region a, pa_postal_code a, pa_country a])"

definition contact_uid :: "parsed_contact \<Rightarrow> string" where
  "contact_uid c = (if pc_uid c = [] then fallback_uid c else pc_uid c)"

definition shown_name :: "parsed_contact \<Rightarrow> string" where
  "shown_name c = (case or_option (pc_display_name c) (display_name_from_parts c) of None \<Rightarrow> contact_uid c | Some n \<Rightarrow> n)"

definition vcard_lines :: "parsed_contact \<Rightarrow> string list" where
  "vcard_lines c =
     [''BEGIN:VCARD'', ''VERSION:4.0'', ''UID:'' @ escape_vcard_value (contact_uid c),
      ''FN:'' @ escape_vcard_value (shown_name c),
      ''N:'' @ escape_vcard_value (or_empty (pc_family_name c)) @ '';'' @ escape_vcard_value (or_empty (pc_given_name c)) @ '';;;'']
     @ optional_line (\<lambda>v. ''ORG:'' @ escape_vcard_value v) (pc_org c)
     @ optional_line (\<lambda>v. ''TITLE:'' @ escape_vcard_value v) (pc_title c)
     @ map (format_labeled ''EMAIL'') (pc_emails c)
     @ map (format_labeled ''TEL'') (pc_phones c)
     @ map format_address (pc_addresses c)
     @ optional_line (\<lambda>v. ''NOTE:'' @ escape_vcard_value v) (pc_notes c)
     @ [''END:VCARD'']"

definition contact_to_vcard :: "parsed_contact \<Rightarrow> string" where
  "contact_to_vcard c = join_with crlf (vcard_lines c)"

section \<open>Reading a vCard\<close>

definition label_from_param_text :: "string \<Rightarrow> string option" where
  "label_from_param_text param =
     (case split_once CHR ''='' param of
        None \<Rightarrow> None
      | Some (name, v) \<Rightarrow>
          (if to_lower name \<noteq> ''type'' then None
           else (let l = to_lower (trim_by (\<lambda>x. x = CHR 0x22) (hd (split_on CHR '','' v)))
                 in if l = [] then None else Some l)))"

fun find_label :: "string list \<Rightarrow> string option" where
  "find_label [] = None"
| "find_label (p # ps) = (case label_from_param_text p of Some l \<Rightarrow> Some l | None \<Rightarrow> find_label ps)"

text \<open>The property name, without the group before the last dot.\<close>

definition property_name :: "string \<Rightarrow> string" where
  "property_name key = to_upper (last (split_on CHR ''.'' (hd (split_on CHR '';'' key))))"

definition plain_value :: "string option \<Rightarrow> string \<Rightarrow> labeled_value" where
  "plain_value label v = \<lparr>lv_label = label, lv_value = v, lv_primary = False\<rparr>"

definition part_at :: "nat \<Rightarrow> string list \<Rightarrow> string option" where
  "part_at i parts = Option.bind (nth_of i parts) optional_string"

definition address_of :: "string option \<Rightarrow> string list \<Rightarrow> postal_address" where
  "address_of label parts = \<lparr>pa_label = label, pa_primary = False, pa_street = part_at 2 parts,
     pa_locality = part_at 3 parts, pa_region = part_at 4 parts, pa_postal_code = part_at 5 parts,
     pa_country = part_at 6 parts\<rparr>"

definition vcard_property :: "string \<Rightarrow> string option \<Rightarrow> string \<Rightarrow> parsed_contact \<Rightarrow> parsed_contact" where
  "vcard_property prop label v c =
     (let parts = split_on CHR '';'' v in
      if prop = ''UID'' then c\<lparr>pc_uid := v\<rparr>
      else if prop = ''FN'' then c\<lparr>pc_display_name := Some v\<rparr>
      else if prop = ''N'' then c\<lparr>pc_family_name := optional_string (hd parts),
             pc_given_name := optional_string (case nth_of 1 parts of None \<Rightarrow> [] | Some g \<Rightarrow> g)\<rparr>
      else if prop = ''EMAIL'' then c\<lparr>pc_emails := pc_emails c @ [plain_value label v]\<rparr>
      else if prop = ''TEL'' then c\<lparr>pc_phones := pc_phones c @ [plain_value label v]\<rparr>
      else if prop = ''ADR'' then c\<lparr>pc_addresses := pc_addresses c @ [address_of label parts]\<rparr>
      else if prop = ''ORG'' then c\<lparr>pc_org := optional_string (hd parts)\<rparr>
      else if prop = ''TITLE'' then c\<lparr>pc_title := Some v\<rparr>
      else if prop = ''NOTE'' then c\<lparr>pc_notes := Some v\<rparr>
      else if prop = ''PHOTO'' then c\<lparr>pc_photo := Some v\<rparr>
      else c)"

definition vcard_line :: "string \<Rightarrow> parsed_contact \<Rightarrow> parsed_contact" where
  "vcard_line line c =
     (case split_once CHR '':'' line of
        None \<Rightarrow> c
      | Some (key, raw) \<Rightarrow>
          (let v = unescape_vcard_value (trim raw) in
           if v = [] then c
           else vcard_property (property_name key) (find_label (tl (split_on CHR '';'' key))) v c))"

definition parse_vcard_lines :: "string \<Rightarrow> parsed_contact" where
  "parse_vcard_lines raw = fold vcard_line (lines_of (unfold raw)) empty_contact"

text \<open>What the code reads of a card of the library.\<close>

record vcard_card =
  vk_names :: "string list"
  vk_name :: "string list option"
  vk_emails :: "(string list option \<times> string) list"
  vk_phones :: "(string list option \<times> string) list"
  vk_addresses :: "(string list option \<times> postal_address) list"
  vk_orgs :: "string list list"
  vk_titles :: "string list"
  vk_notes :: "string list"
  vk_uid :: "string option"

definition label_from_parameters :: "string list option \<Rightarrow> string option" where
  "label_from_parameters types = Option.bind types (find (\<lambda>t. t \<noteq> []))"

definition card_value :: "string list option \<times> string \<Rightarrow> labeled_value" where
  "card_value x = plain_value (label_from_parameters (fst x)) (snd x)"

definition card_address :: "string list option \<times> postal_address \<Rightarrow> postal_address" where
  "card_address x = (snd x)\<lparr>pa_label := label_from_parameters (fst x), pa_primary := False\<rparr>"

text \<open>The parser of the code wins; the library fills what it left empty.\<close>

definition fill_from_card :: "vcard_card \<Rightarrow> parsed_contact \<Rightarrow> parsed_contact" where
  "fill_from_card k c =
     c\<lparr>pc_display_name := or_option (pc_display_name c) (first_of (vk_names k)),
       pc_family_name := or_option (pc_family_name c) (Option.bind (vk_name k) first_of),
       pc_given_name := or_option (pc_given_name c) (Option.bind (vk_name k) (nth_of 1)),
       pc_emails := (if pc_emails c = [] then map card_value (vk_emails k) else pc_emails c),
       pc_phones := (if pc_phones c = [] then map card_value (vk_phones k) else pc_phones c),
       pc_addresses := (if pc_addresses c = [] then map card_address (vk_addresses k) else pc_addresses c),
       pc_org := or_option (pc_org c) (Option.bind (first_of (vk_orgs k)) (find (\<lambda>v. v \<noteq> []))),
       pc_title := or_option (pc_title c) (first_of (vk_titles k)),
       pc_notes := or_option (pc_notes c) (first_of (vk_notes k))\<rparr>"

definition settle_uid :: "vcard_card \<Rightarrow> parsed_contact \<Rightarrow> parsed_contact" where
  "settle_uid k c =
     (let u = trim (pc_uid c) in
      c\<lparr>pc_uid := (if u \<noteq> [] then u
                   else case vk_uid k of
                     Some v \<Rightarrow> if v \<noteq> [] then v else fallback_uid (c\<lparr>pc_uid := []\<rparr>)
                   | None \<Rightarrow> fallback_uid (c\<lparr>pc_uid := []\<rparr>))\<rparr>)"

definition settle_name :: "parsed_contact \<Rightarrow> parsed_contact" where
  "settle_name c = (if pc_display_name c = None then c\<lparr>pc_display_name := display_name_from_parts c\<rparr> else c)"

definition parse_vcard :: "(string \<Rightarrow> vcard_card list option) \<Rightarrow> string \<Rightarrow> parsed_contact option" where
  "parse_vcard lib raw =
     (let c = parse_vcard_lines raw in
      case lib raw of
        Some (k # ks) \<Rightarrow>
          Some ((settle_name (settle_uid (last (k # ks)) (fill_from_card (last (k # ks)) c)))\<lparr>pc_raw_vcard := Some raw\<rparr>)
      | _ \<Rightarrow>
          (let c' = (settle_name (if pc_uid c = [] then c\<lparr>pc_uid := fallback_uid c\<rparr> else c))\<lparr>pc_raw_vcard := Some raw\<rparr>
           in if pc_display_name c' = None then None else Some c'))"

section \<open>JSON forms\<close>

definition opt_json :: "string option \<Rightarrow> json" where
  "opt_json x = (case x of None \<Rightarrow> JNull | Some s \<Rightarrow> JStr s)"

definition first_item :: "json \<Rightarrow> json" where
  "first_item j = (case as_array j of [] \<Rightarrow> JNull | x # _ \<Rightarrow> x)"

definition graph_email :: "json \<Rightarrow> labeled_value option" where
  "graph_email e = map_option (plain_value (as_str (jget e ''name''))) (as_str (jget e ''address''))"

definition graph_phones :: "json \<Rightarrow> string \<Rightarrow> string \<Rightarrow> labeled_value list" where
  "graph_phones j field label =
     filter_some (map (\<lambda>p. map_option (plain_value (Some label)) (as_str p)) (as_array (jget j field)))"

definition graph_contact :: "json \<Rightarrow> parsed_contact" where
  "graph_contact j = \<lparr>pc_uid = or_empty (as_str (jget j ''id'')), pc_display_name = as_str (jget j ''displayName''),
     pc_given_name = as_str (jget j ''givenName''), pc_family_name = as_str (jget j ''surname''),
     pc_org = as_str (jget j ''companyName''), pc_title = as_str (jget j ''jobTitle''),
     pc_emails = filter_some (map graph_email (as_array (jget j ''emailAddresses''))),
     pc_phones = graph_phones j ''businessPhones'' ''business'' @ graph_phones j ''homePhones'' ''home'',
     pc_addresses = [], pc_notes = as_str (jget j ''personalNotes''), pc_photo = None, pc_raw_vcard = None\<rparr>"

definition to_graph_contact :: "parsed_contact \<Rightarrow> json" where
  "to_graph_contact c =
     (let phones = (\<lambda>l. JArr (map (\<lambda>p. JStr (lv_value p)) (filter (\<lambda>p. lv_label p = Some l) (pc_phones c)))) in
      JObj [(''displayName'', opt_json (pc_display_name c)), (''givenName'', opt_json (pc_given_name c)),
        (''surname'', opt_json (pc_family_name c)), (''companyName'', opt_json (pc_org c)),
        (''jobTitle'', opt_json (pc_title c)), (''personalNotes'', opt_json (pc_notes c)),
        (''emailAddresses'', JArr (map (\<lambda>e. JObj [(''name'', opt_json (lv_label e)), (''address'', JStr (lv_value e))]) (pc_emails c))),
        (''businessPhones'', phones ''work''), (''homePhones'', phones ''home'')])"

definition is_primary :: "json \<Rightarrow> bool" where
  "is_primary j = (as_bool (jget (jget j ''metadata'') ''primary'') = Some True)"

definition google_value :: "json \<Rightarrow> labeled_value option" where
  "google_value j = map_option (\<lambda>v. \<lparr>lv_label = as_str (jget j ''type''), lv_value = v, lv_primary = is_primary j\<rparr>)
     (as_str (jget j ''value''))"

definition google_address :: "json \<Rightarrow> postal_address" where
  "google_address j = \<lparr>pa_label = as_str (jget j ''type''), pa_primary = is_primary j,
     pa_street = as_str (jget j ''streetAddress''), pa_locality = as_str (jget j ''city''),
     pa_region = as_str (jget j ''region''), pa_postal_code = as_str (jget j ''postalCode''),
     pa_country = as_str (jget j ''country'')\<rparr>"

definition google_contact :: "json \<Rightarrow> parsed_contact" where
  "google_contact j =
     (let name = first_item (jget j ''names''); org = first_item (jget j ''organizations'')
      in \<lparr>pc_uid = or_empty (as_str (jget j ''resourceName'')), pc_display_name = as_str (jget name ''displayName''),
       pc_given_name = as_str (jget name ''givenName''), pc_family_name = as_str (jget name ''familyName''),
       pc_org = as_str (jget org ''name''), pc_title = as_str (jget org ''title''),
       pc_emails = filter_some (map google_value (as_array (jget j ''emailAddresses''))),
       pc_phones = filter_some (map google_value (as_array (jget j ''phoneNumbers''))),
       pc_addresses = map google_address (as_array (jget j ''addresses'')),
       pc_notes = as_str (jget (first_item (jget j ''biographies'')) ''value''),
       pc_photo = as_str (jget (first_item (jget j ''photos'')) ''url''), pc_raw_vcard = None\<rparr>)"

definition typed_value :: "labeled_value \<Rightarrow> json" where
  "typed_value v = JObj [(''type'', opt_json (lv_label v)), (''value'', JStr (lv_value v))]"

definition typed_address :: "postal_address \<Rightarrow> json" where
  "typed_address a = JObj [(''type'', opt_json (pa_label a)), (''streetAddress'', opt_json (pa_street a)),
     (''city'', opt_json (pa_locality a)), (''region'', opt_json (pa_region a)),
     (''postalCode'', opt_json (pa_postal_code a)), (''country'', opt_json (pa_country a))]"

definition to_google_contact :: "parsed_contact \<Rightarrow> json" where
  "to_google_contact c = JObj
     [(''names'', JArr [JObj [(''displayName'', opt_json (pc_display_name c)), (''givenName'', opt_json (pc_given_name c)),
         (''familyName'', opt_json (pc_family_name c))]]),
      (''emailAddresses'', JArr (map typed_value (pc_emails c))), (''phoneNumbers'', JArr (map typed_value (pc_phones c))),
      (''addresses'', JArr (map typed_address (pc_addresses c))),
      (''organizations'', JArr [JObj [(''name'', opt_json (pc_org c)), (''title'', opt_json (pc_title c))]]),
      (''biographies'', JArr (case pc_notes c of None \<Rightarrow> [] | Some n \<Rightarrow> [JObj [(''value'', JStr n)]]))]"

section \<open>Escaping\<close>

text \<open>What the five replacements make of one token.\<close>

definition plain_token :: "string \<Rightarrow> string" where
  "plain_token t = swap CHR '';'' CHR '';'' (swap CHR '','' CHR '','' (swap CHR ''N'' lf (swap CHR ''n'' lf t)))"

lemma unescape_tokens:
  assumes "\<forall>t \<in> set ts. token t \<and> CHR 0x5C \<notin> set (plain_token t)"
  shows "unescape_vcard_value (concat ts) = concat (map plain_token ts)"
proof -
  have one: "replace_str [CHR 0x5C, b] [r] (concat (map f ts)) = concat (map (\<lambda>t. swap b r (f t)) ts)"
    if "\<forall>t \<in> set ts. token (f t)" "b \<noteq> CHR 0x5C" for f b r
    using replace_swap [OF that] .
  let ?f1 = "\<lambda>t. swap CHR ''n'' lf t" and ?f2 = "\<lambda>t. swap CHR ''N'' lf (swap CHR ''n'' lf t)"
  let ?f3 = "\<lambda>t. swap CHR '','' CHR '','' (swap CHR ''N'' lf (swap CHR ''n'' lf t))"
  have t0: "\<forall>t \<in> set ts. token t" using assms by blast
  then have t1: "\<forall>t \<in> set ts. token (?f1 t)" by (simp add: token_swap lf_def)
  then have t2: "\<forall>t \<in> set ts. token (?f2 t)" by (simp add: token_swap lf_def)
  then have t3: "\<forall>t \<in> set ts. token (?f3 t)" by (simp add: token_swap)
  have "replace_str [CHR 0x5C, CHR 0x5C] [CHR 0x5C] (concat (map plain_token ts)) = concat (map plain_token ts)"
    using assms by (intro replace_none) auto
  then show ?thesis
    using one [of "\<lambda>t. t" "CHR ''n''" lf] one [OF t1, of "CHR ''N''" lf] one [OF t2, of "CHR '',''" "CHR '',''"]
      one [OF t3, of "CHR '';''" "CHR '';''"] t0
    unfolding unescape_vcard_value_def by (simp add: plain_token_def [abs_def])
qed

lemma escape_vcard_eq: "CHR 0x5C \<notin> set v \<Longrightarrow> escape_vcard_value v = concat (map escape_char v)"
  by (induction v) (auto simp: escape_vcard_value_def replace_char escape_char_def lf_def)

lemma escape_char_token: "CHR 0x5C \<noteq> x \<Longrightarrow> token (escape_char x) \<and> plain_token (escape_char x) = [x]"
  by (auto simp: escape_char_def token_def plain_token_def swap_def lf_def)

lemma plain_char_token: "x \<noteq> CHR 0x5C \<Longrightarrow> token [x] \<and> plain_token [x] = [x]"
  by (auto simp: token_def plain_token_def swap_def)

text \<open>A text the writer keeps: it is not blank at its ends and has no backslash and no carriage return.\<close>

definition value_ok :: "string \<Rightarrow> bool" where
  "value_ok t = (t \<noteq> [] \<and> trim t = t \<and> cr \<notin> set t \<and> CHR 0x5C \<notin> set t)"

definition part_ok :: "string option \<Rightarrow> bool" where
  "part_ok x = (case x of None \<Rightarrow> True | Some t \<Rightarrow> value_ok t \<and> CHR '';'' \<notin> set t)"

definition option_ok :: "string option \<Rightarrow> bool" where
  "option_ok x = (case x of None \<Rightarrow> True | Some t \<Rightarrow> value_ok t)"

text \<open>Fields joined by semicolons read back as they are: \<open>map escape_char\<close> of each, and plain semicolons.\<close>

definition escaped_fields :: "string list \<Rightarrow> string" where
  "escaped_fields fs = join_with '';'' (map escape_vcard_value fs)"

lemma join_tokens:
  assumes "\<forall>f \<in> set fs. CHR 0x5C \<notin> set f"
  shows "\<exists>ts. escaped_fields fs = concat ts \<and> (\<forall>t \<in> set ts. token t \<and> CHR 0x5C \<notin> set (plain_token t))
    \<and> concat (map plain_token ts) = join_with '';'' fs"
  using assms
proof (induction fs)
  case Nil
  show ?case by (rule exI [of _ "[]"]) (simp add: escaped_fields_def)
next
  case (Cons f fs)
  have f: "concat (map plain_token (map escape_char f)) = f" using Cons.prems
    by (induction f) (simp_all add: escape_char_token)
  have ft: "\<forall>t \<in> set (map escape_char f). token t \<and> CHR 0x5C \<notin> set (plain_token t)"
  proof (clarsimp simp: list.set_map)
    fix x assume "x \<in> set f"
    then have "CHR 0x5C \<noteq> x" using Cons.prems by auto
    then show "token (escape_char x) \<and> CHR 0x5C \<notin> set (plain_token (escape_char x))"
      using escape_char_token [of x] by simp
  qed
  have fe: "escape_vcard_value f = concat (map escape_char f)" using Cons.prems by (simp add: escape_vcard_eq)
  show ?case
  proof (cases fs)
    case Nil
    show ?thesis using f ft fe Nil by (intro exI [of _ "map escape_char f"]) (simp add: escaped_fields_def)
  next
    case (Cons g gs)
    obtain ts where ts: "escaped_fields fs = concat ts" "\<forall>t \<in> set ts. token t \<and> CHR 0x5C \<notin> set (plain_token t)"
        "concat (map plain_token ts) = join_with '';'' fs"
      using Cons.IH Cons.prems by auto
    have semi: "token '';'' \<and> plain_token '';'' = '';''" by (rule plain_char_token) simp
    show ?thesis
      using ts f ft fe semi Cons
      by (intro exI [of _ "map escape_char f @ [CHR '';''] # ts"]) (auto simp: escaped_fields_def)
  qed
qed

lemma unescape_fields: "\<forall>f \<in> set fs. CHR 0x5C \<notin> set f \<Longrightarrow> unescape_vcard_value (escaped_fields fs) = join_with '';'' fs"
  using join_tokens unescape_tokens by metis

lemma escape_clean:
  "CHR 0x5C \<notin> set v \<Longrightarrow> cr \<notin> set v \<Longrightarrow> cr \<notin> set (escape_vcard_value v) \<and> lf \<notin> set (escape_vcard_value v)"
  by (auto simp: escape_vcard_eq escape_char_def cr_def lf_def)

lemma value_ok_escape:
  assumes "value_ok t"
  shows "trim (escape_vcard_value t) = escape_vcard_value t" "unescape_vcard_value (escape_vcard_value t) = t"
    "cr \<notin> set (escape_vcard_value t)" "lf \<notin> set (escape_vcard_value t)" "escape_vcard_value t \<noteq> []"
proof -
  have ne: "t \<noteq> []" and bs: "CHR 0x5C \<notin> set t" and ends: "\<not> is_ws (hd t)" "\<not> is_ws (last t)"
    using assms trim_fixed_iff [of t] by (auto simp: value_ok_def)
  have e: "escape_vcard_value t = concat (map escape_char t)" using bs by (rule escape_vcard_eq)
  have "hd (concat (map escape_char t)) = hd (escape_char (hd t))" "last (concat (map escape_char t)) = last (escape_char (last t))"
    using hd_concat_map [OF ne] last_concat_map [OF ne] escape_char_ends(1) by blast+
  then show "trim (escape_vcard_value t) = escape_vcard_value t"
    unfolding e using ends escape_char_ends(2,3) trim_fixed_iff by metis
  show "unescape_vcard_value (escape_vcard_value t) = t"
    using unescape_fields [of "[t]"] bs by (simp add: escaped_fields_def)
  show "cr \<notin> set (escape_vcard_value t)" "lf \<notin> set (escape_vcard_value t)"
    using escape_clean [OF bs] assms by (auto simp: value_ok_def)
  show "escape_vcard_value t \<noteq> []"
    unfolding e using ne escape_char_ends(1) by (cases t) auto
qed

section \<open>A written card reads back\<close>

lemma replace_crlf_joined:
  assumes "\<forall>l \<in> set ls. line_ok l"
  shows "replace_str crlf [lf] (join_with crlf ls) = join_with [lf] ls"
  using assms
proof (induction ls)
  case (Cons l ls)
  have keep: "replace_str crlf [lf] l = l" if "cr \<notin> set l" for l
    using that by (induction l) (auto simp: crlf_def cr_def replace_skip)
  show ?case
    using Cons keep [of l] by (cases ls) (auto simp: line_ok_def replace_crlf_line)
qed simp

lemma lines_of_joined:
  assumes "\<forall>l \<in> set ls. line_ok l" "ls \<noteq> []"
  shows "lines_of (unfold (join_with crlf ls)) = [] # ls"
proof -
  have free: "\<forall>l \<in> set ls. lf \<notin> set l" using assms(1) by (auto simp: line_ok_def)
  have "unfold (join_with crlf ls) = concat (map (\<lambda>l. lf # l) ls)"
    unfolding unfold_def replace_crlf_joined [OF assms(1)]
    using split_on_join [OF assms(2) free] fold_unfold_lines [OF assms(1)] by simp
  moreover have "concat (map (\<lambda>l. lf # l) ls) = lf # join_with [lf] ls"
    using assms(2)
  proof (induction ls)
    case (Cons l ls)
    then show ?case by (cases ls) simp_all
  qed simp
  moreover have "split_on lf (lf # join_with [lf] ls) = [] # ls"
    using split_on_join [OF assms(2) free] by simp
  moreover have "map strip_cr ls = ls"
    using assms by (intro map_idI) (metis strip_cr_def line_ok_def last_in_set)
  moreover have "last ls \<noteq> []" using assms by (metis last_in_set line_ok_def)
  moreover have "map strip_cr (butlast ls) @ [last ls] = map strip_cr ls"
    using assms \<open>map strip_cr ls = ls\<close> by (metis append_butlast_last_id map_butlast)
  ultimately show ?thesis using assms(2) by (simp add: lines_of_def Let_def strip_cr_def)
qed

lemma split_once_key: "CHR '':'' \<notin> set key \<Longrightarrow> split_once CHR '':'' (key @ CHR '':'' # raw) = Some (key, raw)"
  by (induction key) auto

lemma vcard_line_value:
  assumes "CHR '':'' \<notin> set key" "unescape_vcard_value (trim raw) = v" "v \<noteq> []"
  shows "vcard_line (key @ CHR '':'' # raw) c = vcard_property (property_name key) (find_label (tl (split_on CHR '';'' key))) v c"
  using assms by (simp add: vcard_line_def split_once_key Let_def)

definition label_ok :: "string option \<Rightarrow> bool" where
  "label_ok x = (case x of None \<Rightarrow> True
     | Some l \<Rightarrow> l \<noteq> [] \<and> to_lower l = l \<and> (\<forall>ch \<in> set l. ch \<notin> set [CHR '';'', CHR '':'', CHR '','', CHR 0x22, lf, cr]))"

lemma type_parameter_reads:
  assumes "label_ok l" "CHR '':'' \<notin> set prop" "CHR '';'' \<notin> set prop" "CHR ''.'' \<notin> set prop"
  shows "CHR '':'' \<notin> set (prop @ type_parameter l)"
    "property_name (prop @ type_parameter l) = to_upper prop"
    "find_label (tl (split_on CHR '';'' (prop @ type_parameter l))) = l"
    "line_ok prop \<Longrightarrow> line_ok (prop @ type_parameter l)"
proof -
  have name: "property_name (prop @ CHR '';'' # q) = to_upper prop" "property_name prop = to_upper prop" for q
    using assms(3,4) by (simp_all add: property_name_def split_on_append split_on_free)
  note reads = assms(2) name
  have "CHR '':'' \<notin> set (prop @ type_parameter l) \<and> property_name (prop @ type_parameter l) = to_upper prop
    \<and> find_label (tl (split_on CHR '';'' (prop @ type_parameter l))) = l
    \<and> (line_ok prop \<longrightarrow> line_ok (prop @ type_parameter l))"
  proof (cases l)
    case None
    then show ?thesis using reads assms(3) by (simp add: type_parameter_def split_on_free)
  next
    case (Some w)
    have w: "w \<noteq> []" "to_lower w = w" "CHR '';'' \<notin> set w" "CHR '':'' \<notin> set w" "CHR '','' \<notin> set w" "CHR 0x22 \<notin> set w"
        "lf \<notin> set w" "cr \<notin> set w"
      using assms(1) Some by (auto simp: label_ok_def)
    then have kept: "filter (\<lambda>x. x \<notin> set '';:,'') w = w" by (auto simp: filter_id_conv)
    have quotes: "trim_by (\<lambda>x. x = CHR 0x22) w = w"
      using w(1,6) by (intro trim_by_fixpoint) (metis hd_in_set last_in_set)
    have "to_lower ''TYPE'' = ''type''" by code_simp
    then have "label_from_param_text (''TYPE='' @ w) = Some w"
      using w quotes by (simp add: label_from_param_text_def split_on_free)
    moreover have "split_on CHR '';'' (''TYPE='' @ w) = [''TYPE='' @ w]" using w by (intro split_on_free) simp
    ultimately have "find_label (split_on CHR '';'' (''TYPE='' @ w)) = Some w"
      by (simp only: find_label.simps option.case)
    moreover have tp: "type_parameter l = CHR '';'' # ''TYPE='' @ w"
      using Some kept w(1) by (simp add: type_parameter_def)
    moreover have "cr \<notin> set (''TYPE='' @ w) \<and> lf \<notin> set (''TYPE='' @ w)" using w by (simp add: cr_def lf_def)
    ultimately show ?thesis
      unfolding tp using reads(1) name(1) [of "''TYPE='' @ w"] assms(3) w(4) Some
      by (auto simp: split_on_append line_ok_def cr_def lf_def)
  qed
  then show "CHR '':'' \<notin> set (prop @ type_parameter l)"
    "property_name (prop @ type_parameter l) = to_upper prop"
    "find_label (tl (split_on CHR '';'' (prop @ type_parameter l))) = l"
    "line_ok prop \<Longrightarrow> line_ok (prop @ type_parameter l)" by blast+
qed

text \<open>The contacts whose fields survive, and what they become: primary marks and the photo are not written.\<close>

definition address_ok :: "postal_address \<Rightarrow> bool" where
  "address_ok a = (label_ok (pa_label a) \<and> part_ok (pa_street a) \<and> part_ok (pa_locality a) \<and> part_ok (pa_region a)
     \<and> part_ok (pa_postal_code a) \<and> part_ok (pa_country a))"

definition card_ok :: "parsed_contact \<Rightarrow> bool" where
  "card_ok c = (value_ok (contact_uid c) \<and> value_ok (shown_name c) \<and> part_ok (pc_family_name c) \<and> part_ok (pc_given_name c)
     \<and> part_ok (pc_org c) \<and> option_ok (pc_title c) \<and> option_ok (pc_notes c)
     \<and> (\<forall>v \<in> set (pc_emails c @ pc_phones c). label_ok (lv_label v) \<and> value_ok (lv_value v))
     \<and> (\<forall>a \<in> set (pc_addresses c). address_ok a))"

definition written_contact :: "parsed_contact \<Rightarrow> parsed_contact" where
  "written_contact c = c\<lparr>pc_uid := contact_uid c, pc_display_name := Some (shown_name c),
     pc_emails := map (\<lambda>v. v\<lparr>lv_primary := False\<rparr>) (pc_emails c), pc_phones := map (\<lambda>v. v\<lparr>lv_primary := False\<rparr>) (pc_phones c),
     pc_addresses := map (\<lambda>a. a\<lparr>pa_primary := False\<rparr>) (pc_addresses c), pc_photo := None, pc_raw_vcard := None\<rparr>"

lemma part_ok_field: "part_ok x \<Longrightarrow> CHR '';'' \<notin> set (or_empty x) \<and> CHR 0x5C \<notin> set (or_empty x) \<and> optional_string (or_empty x) = x
    \<and> cr \<notin> set (or_empty x)"
  by (cases x) (auto simp: part_ok_def or_empty_def optional_string_def value_ok_def trim_def trim_by_def trim_start_by_def trim_end_by_def)

lemma part_ok_option: "part_ok x \<Longrightarrow> option_ok x"
  by (cases x) (auto simp: part_ok_def option_ok_def)

lemma part_ends: "option_ok x \<Longrightarrow> escape_vcard_value (or_empty x) = [] \<or>
    (\<not> is_ws (hd (escape_vcard_value (or_empty x))) \<and> \<not> is_ws (last (escape_vcard_value (or_empty x))))"
proof (cases x)
  case None
  then show ?thesis by (simp add: or_empty_def escape_vcard_eq)
next
  case (Some t)
  assume "option_ok x"
  then have "trim (escape_vcard_value t) = escape_vcard_value t" using Some value_ok_escape(1) by (simp add: option_ok_def)
  then show ?thesis using Some trim_fixed_iff [of "escape_vcard_value t"] by (simp add: or_empty_def)
qed

lemma trim_fields:
  assumes "\<not> is_ws (hd (p @ '';''))" "option_ok x"
  shows "trim (p @ '';'' @ escape_vcard_value (or_empty x)) = p @ '';'' @ escape_vcard_value (or_empty x)"
  using part_ends [OF assms(2)] assms(1)
  by (subst trim_fixed_iff) (cases p; auto simp: is_ws_def last_append)

lemma name_line:
  assumes "part_ok f" "part_ok g"
  shows "vcard_line (''N:'' @ escape_vcard_value (or_empty f) @ '';'' @ escape_vcard_value (or_empty g) @ '';;;'') c
    = c\<lparr>pc_family_name := f, pc_given_name := g\<rparr>"
proof -
  let ?raw = "escape_vcard_value (or_empty f) @ '';'' @ escape_vcard_value (or_empty g) @ '';;;''"
  note f = part_ok_field [OF assms(1)] and g = part_ok_field [OF assms(2)]
  have e: "escape_vcard_value [] = []" by (simp add: escape_vcard_eq)
  have trimmed: "trim ?raw = ?raw"
    using part_ends [OF part_ok_option [OF assms(1)]]
    by (subst trim_fixed_iff) (cases "escape_vcard_value (or_empty f)"; auto simp: is_ws_def)
  have "?raw = escaped_fields [or_empty f, or_empty g, [], [], []]" by (simp add: escaped_fields_def e)
  moreover have "unescape_vcard_value (escaped_fields [or_empty f, or_empty g, [], [], []]) = join_with '';'' [or_empty f, or_empty g, [], [], []]"
    using f g by (intro unescape_fields) auto
  ultimately have "unescape_vcard_value (trim ?raw) = join_with '';'' [or_empty f, or_empty g, [], [], []]"
    using trimmed by metis
  moreover have "split_on CHR '';'' (join_with '';'' [or_empty f, or_empty g, [], [], []]) = [or_empty f, or_empty g, [], [], []]"
    using f g by (intro split_on_join) auto
  moreover have "join_with '';'' [or_empty f, or_empty g, [], [], []] \<noteq> []" by simp
  ultimately show ?thesis
    using f g vcard_line_value [of "''N''" ?raw "join_with '';'' [or_empty f, or_empty g, [], [], []]" c]
    by (simp add: vcard_property_def property_name_def to_upper_def ascii_upper_def nth_of_def del: join_with.simps)
qed

lemma address_line:
  assumes "address_ok a"
  shows "vcard_line (format_address a) c = c\<lparr>pc_addresses := pc_addresses c @ [a\<lparr>pa_primary := False\<rparr>]\<rparr>"
proof -
  let ?fs = "[[], [], or_empty (pa_street a), or_empty (pa_locality a), or_empty (pa_region a), or_empty (pa_postal_code a), or_empty (pa_country a)]"
  have ok: "part_ok (pa_street a)" "part_ok (pa_locality a)" "part_ok (pa_region a)" "part_ok (pa_postal_code a)" "part_ok (pa_country a)"
      "label_ok (pa_label a)" using assms by (simp_all add: address_ok_def)
  note fields = part_ok_field [OF ok(1)] part_ok_field [OF ok(2)] part_ok_field [OF ok(3)] part_ok_field [OF ok(4)] part_ok_field [OF ok(5)]
  have e: "escape_vcard_value [] = []" by (simp add: escape_vcard_eq)
  define p where "p = CHR '';'' # CHR '';'' # escape_vcard_value (or_empty (pa_street a)) @ '';'' @ escape_vcard_value (or_empty (pa_locality a))
    @ '';'' @ escape_vcard_value (or_empty (pa_region a)) @ '';'' @ escape_vcard_value (or_empty (pa_postal_code a))"
  have raw: "escaped_fields ?fs = p @ '';'' @ escape_vcard_value (or_empty (pa_country a))" by (simp add: escaped_fields_def e p_def)
  have trimmed: "trim (escaped_fields ?fs) = escaped_fields ?fs"
    unfolding raw using trim_fields [OF _ part_ok_option [OF ok(5)], of p] by (simp add: p_def is_ws_def)
  moreover have "unescape_vcard_value (escaped_fields ?fs) = join_with '';'' ?fs"
    using fields by (intro unescape_fields) auto
  ultimately have v: "unescape_vcard_value (trim (escaped_fields ?fs)) = join_with '';'' ?fs" by metis
  have parts: "split_on CHR '';'' (join_with '';'' ?fs) = ?fs"
    using fields by (intro split_on_join) auto
  have line: "format_address a = (''ADR'' @ type_parameter (pa_label a)) @ CHR '':'' # escaped_fields ?fs"
    by (simp add: format_address_def escaped_fields_def e)
  have ne: "join_with '';'' ?fs \<noteq> []" by simp
  have up: "to_upper ''ADR'' = ''ADR''" by code_simp
  have at: "part_at 2 ?fs = pa_street a" "part_at 3 ?fs = pa_locality a" "part_at 4 ?fs = pa_region a"
      "part_at 5 ?fs = pa_postal_code a" "part_at 6 ?fs = pa_country a"
    using fields by (simp_all add: part_at_def nth_of_def)
  note tp = type_parameter_reads [OF ok(6), of "''ADR''"]
  have "vcard_line (format_address a) c = vcard_property ''ADR'' (pa_label a) (join_with '';'' ?fs) c"
    unfolding line using vcard_line_value [OF tp(1) v ne, of c] tp(2,3) up by simp
  also have "\<dots> = c\<lparr>pc_addresses := pc_addresses c @ [address_of (pa_label a) ?fs]\<rparr>"
    unfolding vcard_property_def parts Let_def by simp
  also have "address_of (pa_label a) ?fs = a\<lparr>pa_primary := False\<rparr>"
    unfolding address_of_def at by simp
  finally show ?thesis .
qed

lemma value_line:
  assumes "value_ok v" "CHR '':'' \<notin> set key"
  shows "vcard_line (key @ '':'' @ escape_vcard_value v) c
    = vcard_property (property_name key) (find_label (tl (split_on CHR '';'' key))) v c"
proof -
  have "v \<noteq> []" using assms(1) by (simp add: value_ok_def)
  then show ?thesis
    using vcard_line_value [OF assms(2), of "escape_vcard_value v" v c] value_ok_escape [OF assms(1)] by simp
qed

lemma labeled_line:
  assumes "label_ok (lv_label v)" "value_ok (lv_value v)"
  shows "vcard_line (format_labeled ''EMAIL'' v) c = c\<lparr>pc_emails := pc_emails c @ [v\<lparr>lv_primary := False\<rparr>]\<rparr>"
    and "vcard_line (format_labeled ''TEL'' v) c = c\<lparr>pc_phones := pc_phones c @ [v\<lparr>lv_primary := False\<rparr>]\<rparr>"
proof -
  have up: "to_upper ''EMAIL'' = ''EMAIL''" "to_upper ''TEL'' = ''TEL''" by code_simp+
  note email = type_parameter_reads [OF assms(1), of "''EMAIL''"] and tel = type_parameter_reads [OF assms(1), of "''TEL''"]
  show "vcard_line (format_labeled ''EMAIL'' v) c = c\<lparr>pc_emails := pc_emails c @ [v\<lparr>lv_primary := False\<rparr>]\<rparr>"
    using value_line [OF assms(2) email(1), of c] email(2,3) up(1)
    by (simp add: format_labeled_def vcard_property_def plain_value_def)
  show "vcard_line (format_labeled ''TEL'' v) c = c\<lparr>pc_phones := pc_phones c @ [v\<lparr>lv_primary := False\<rparr>]\<rparr>"
    using value_line [OF assms(2) tel(1), of c] tel(2,3) up(2)
    by (simp add: format_labeled_def vcard_property_def plain_value_def)
qed

lemma labeled_lines:
  assumes "\<forall>v \<in> set vs. label_ok (lv_label v) \<and> value_ok (lv_value v)"
  shows "fold vcard_line (map (format_labeled ''EMAIL'') vs) c = c\<lparr>pc_emails := pc_emails c @ map (\<lambda>v. v\<lparr>lv_primary := False\<rparr>) vs\<rparr>"
    and "fold vcard_line (map (format_labeled ''TEL'') vs) c = c\<lparr>pc_phones := pc_phones c @ map (\<lambda>v. v\<lparr>lv_primary := False\<rparr>) vs\<rparr>"
  using assms by (induction vs arbitrary: c) (simp_all add: labeled_line)

lemma address_lines:
  "\<forall>a \<in> set as. address_ok a \<Longrightarrow>
   fold vcard_line (map format_address as) c = c\<lparr>pc_addresses := pc_addresses c @ map (\<lambda>a. a\<lparr>pa_primary := False\<rparr>) as\<rparr>"
  by (induction as arbitrary: c) (simp_all add: address_line)

lemma single_lines:
  "vcard_line [] c = c" "vcard_line ''BEGIN:VCARD'' c = c" "vcard_line ''VERSION:4.0'' c = c" "vcard_line ''END:VCARD'' c = c"
  "value_ok v \<Longrightarrow> vcard_line (''UID:'' @ escape_vcard_value v) c = c\<lparr>pc_uid := v\<rparr>"
  "value_ok v \<Longrightarrow> vcard_line (''FN:'' @ escape_vcard_value v) c = c\<lparr>pc_display_name := Some v\<rparr>"
  "value_ok v \<Longrightarrow> CHR '';'' \<notin> set v \<Longrightarrow> vcard_line (''ORG:'' @ escape_vcard_value v) c = c\<lparr>pc_org := Some v\<rparr>"
  "value_ok v \<Longrightarrow> vcard_line (''TITLE:'' @ escape_vcard_value v) c = c\<lparr>pc_title := Some v\<rparr>"
  "value_ok v \<Longrightarrow> vcard_line (''NOTE:'' @ escape_vcard_value v) c = c\<lparr>pc_notes := Some v\<rparr>"
proof -
  have names: "property_name ''UID'' = ''UID''" "property_name ''FN'' = ''FN''" "property_name ''ORG'' = ''ORG''"
      "property_name ''TITLE'' = ''TITLE''" "property_name ''NOTE'' = ''NOTE''" "property_name ''BEGIN'' = ''BEGIN''"
      "property_name ''VERSION'' = ''VERSION''" "property_name ''END'' = ''END''" by code_simp+
  have opt: "value_ok v \<Longrightarrow> optional_string v = Some v" by (auto simp: value_ok_def optional_string_def)
  show "vcard_line [] c = c" "vcard_line ''BEGIN:VCARD'' c = c" "vcard_line ''VERSION:4.0'' c = c" "vcard_line ''END:VCARD'' c = c"
    using names by (simp_all add: vcard_line_def vcard_property_def Let_def)
  show "value_ok v \<Longrightarrow> vcard_line (''UID:'' @ escape_vcard_value v) c = c\<lparr>pc_uid := v\<rparr>"
    using value_line [of v "''UID''" c] names by (simp add: vcard_property_def Let_def)
  show "value_ok v \<Longrightarrow> vcard_line (''FN:'' @ escape_vcard_value v) c = c\<lparr>pc_display_name := Some v\<rparr>"
    using value_line [of v "''FN''" c] names by (simp add: vcard_property_def Let_def)
  show "value_ok v \<Longrightarrow> CHR '';'' \<notin> set v \<Longrightarrow> vcard_line (''ORG:'' @ escape_vcard_value v) c = c\<lparr>pc_org := Some v\<rparr>"
    using value_line [of v "''ORG''" c] names opt by (simp add: vcard_property_def Let_def split_on_free)
  show "value_ok v \<Longrightarrow> vcard_line (''TITLE:'' @ escape_vcard_value v) c = c\<lparr>pc_title := Some v\<rparr>"
    using value_line [of v "''TITLE''" c] names by (simp add: vcard_property_def Let_def)
  show "value_ok v \<Longrightarrow> vcard_line (''NOTE:'' @ escape_vcard_value v) c = c\<lparr>pc_notes := Some v\<rparr>"
    using value_line [of v "''NOTE''" c] names by (simp add: vcard_property_def Let_def)
qed

lemma line_ok_value: "line_ok p \<Longrightarrow> CHR 0x5C \<notin> set v \<Longrightarrow> cr \<notin> set v \<Longrightarrow> line_ok (p @ escape_vcard_value v)"
  using escape_clean [of v] line_ok_prefix by blast

lemma labeled_ok:
  assumes "label_ok (lv_label v)" "value_ok (lv_value v)" "line_ok prop" "CHR '':'' \<notin> set prop" "CHR '';'' \<notin> set prop" "CHR ''.'' \<notin> set prop"
  shows "line_ok (format_labeled prop v)"
proof -
  have "line_ok (prop @ type_parameter (lv_label v) @ '':'')"
    using line_ok_prefix [OF type_parameter_reads(4) [OF assms(1,4-6,3)], of "'':''"] by (simp add: cr_def lf_def)
  then show ?thesis
    using line_ok_value [of "prop @ type_parameter (lv_label v) @ '':''" "lv_value v"] assms(2)
    by (simp add: format_labeled_def value_ok_def)
qed

lemma address_line_ok:
  assumes "address_ok a"
  shows "line_ok (format_address a)"
proof -
  have ok: "part_ok x" if "x \<in> set [pa_street a, pa_locality a, pa_region a, pa_postal_code a, pa_country a]" for x
    using assms that by (auto simp: address_ok_def)
  have clean: "cr \<notin> set (escape_vcard_value (or_empty x)) \<and> lf \<notin> set (escape_vcard_value (or_empty x))"
    if "x \<in> set [pa_street a, pa_locality a, pa_region a, pa_postal_code a, pa_country a]" for x
    using part_ok_field [OF ok [OF that]] escape_clean by blast
  have "line_ok (''ADR'' @ type_parameter (pa_label a))"
    using assms type_parameter_reads(4) [of "pa_label a" "''ADR''"] by (simp add: address_ok_def line_ok_def cr_def lf_def is_ws_def)
  then have "line_ok ((''ADR'' @ type_parameter (pa_label a)) @ v)" if "cr \<notin> set v" "lf \<notin> set v" for v
    using that line_ok_prefix by blast
  moreover have "cr \<notin> set (join_with '';'' (map (\<lambda>v. escape_vcard_value (or_empty v))
       [pa_street a, pa_locality a, pa_region a, pa_postal_code a, pa_country a]))"
    "lf \<notin> set (join_with '';'' (map (\<lambda>v. escape_vcard_value (or_empty v))
       [pa_street a, pa_locality a, pa_region a, pa_postal_code a, pa_country a]))"
    using clean by (simp_all add: cr_def lf_def)
  ultimately show ?thesis
    unfolding format_address_def by (simp add: cr_def lf_def del: join_with.simps map_append list.map)
qed

lemma contact_reads_back:
  assumes "card_ok c"
  shows "parse_vcard_lines (contact_to_vcard c) = written_contact c"
proof -
  have ok: "value_ok (contact_uid c)" "value_ok (shown_name c)" "part_ok (pc_family_name c)" "part_ok (pc_given_name c)"
      "part_ok (pc_org c)" "option_ok (pc_title c)" "option_ok (pc_notes c)"
      "\<forall>v \<in> set (pc_emails c). label_ok (lv_label v) \<and> value_ok (lv_value v)"
      "\<forall>v \<in> set (pc_phones c). label_ok (lv_label v) \<and> value_ok (lv_value v)"
      "\<forall>a \<in> set (pc_addresses c). address_ok a"
    using assms by (auto simp: card_ok_def)
  have lits: "line_ok ''BEGIN:VCARD''" "line_ok ''VERSION:4.0''" "line_ok ''END:VCARD''" "line_ok ''UID:''" "line_ok ''FN:''"
      "line_ok ''ORG:''" "line_ok ''TITLE:''" "line_ok ''NOTE:''" "line_ok ''N:''" "line_ok ''EMAIL''" "line_ok ''TEL''"
    by (simp_all add: line_ok_def cr_def lf_def is_ws_def)
  have val: "value_ok v \<Longrightarrow> line_ok p \<Longrightarrow> line_ok (p @ escape_vcard_value v)" for p v
    using line_ok_value by (auto simp: value_ok_def)
  have opts: "\<forall>l \<in> set (optional_line (\<lambda>v. p @ escape_vcard_value v) x). line_ok l" if "option_ok x" "line_ok p" for p x
    using that val by (cases x) (auto simp: optional_line_def option_ok_def)
  have name: "line_ok (''N:'' @ escape_vcard_value (or_empty (pc_family_name c)) @ '';'' @ escape_vcard_value (or_empty (pc_given_name c)) @ '';;;'')"
    using line_ok_prefix [OF lits(9)] escape_clean part_ok_field [OF ok(3)] part_ok_field [OF ok(4)] by (simp add: cr_def lf_def)
  have emails: "\<forall>l \<in> set (map (format_labeled ''EMAIL'') (pc_emails c)). line_ok l"
    and phones: "\<forall>l \<in> set (map (format_labeled ''TEL'') (pc_phones c)). line_ok l"
    using ok(8,9) labeled_ok [OF _ _ lits(10)] labeled_ok [OF _ _ lits(11)] by auto
  have addresses: "\<forall>l \<in> set (map format_address (pc_addresses c)). line_ok l" using ok(10) address_line_ok by auto
  have lines: "\<forall>l \<in> set (vcard_lines c). line_ok l"
    unfolding vcard_lines_def set_append ball_Un
    using lits val [OF ok(1) lits(4)] val [OF ok(2) lits(5)] name opts [OF part_ok_option [OF ok(5)] lits(6)]
      opts [OF ok(6) lits(7)] opts [OF ok(7) lits(8)] emails phones addresses by simp
  have org: "fold vcard_line (optional_line (\<lambda>v. ''ORG:'' @ escape_vcard_value v) (pc_org c)) d = d\<lparr>pc_org := pc_org c\<rparr>"
    if "pc_org d = None" for d
    using ok(5) that by (cases "pc_org c") (auto simp: optional_line_def part_ok_def single_lines(7) [simplified])
  have title: "fold vcard_line (optional_line (\<lambda>v. ''TITLE:'' @ escape_vcard_value v) (pc_title c)) d = d\<lparr>pc_title := pc_title c\<rparr>"
    if "pc_title d = None" for d
    using ok(6) that by (cases "pc_title c") (auto simp: optional_line_def option_ok_def single_lines(8) [simplified])
  have remark: "fold vcard_line (optional_line (\<lambda>v. ''NOTE:'' @ escape_vcard_value v) (pc_notes c)) d = d\<lparr>pc_notes := pc_notes c\<rparr>"
    if "pc_notes d = None" for d
    using ok(7) that by (cases "pc_notes c") (auto simp: optional_line_def option_ok_def single_lines(9) [simplified])
  have "fold vcard_line (vcard_lines c) empty_contact = written_contact c"
    unfolding vcard_lines_def fold_append comp_def
    using ok single_lines(2-6) name_line [OF ok(3,4)] org title remark labeled_lines address_lines
    by (simp add: empty_contact_def written_contact_def)
  moreover have "lines_of (unfold (contact_to_vcard c)) = [] # vcard_lines c"
    unfolding contact_to_vcard_def by (rule lines_of_joined [OF lines]) (simp add: vcard_lines_def)
  ultimately show ?thesis by (simp add: parse_vcard_lines_def single_lines(1))
qed

section \<open>JSON forms read back\<close>

lemma as_str_opt [simp]: "as_str (opt_json x) = x"
  by (cases x) (simp_all add: opt_json_def)

lemma filter_some_Some [simp]: "filter_some (map (\<lambda>x. Some (f x)) xs) = map f xs"
  by (induction xs) (simp_all add: filter_some_def)

lemma google_reads_back:
  "google_contact (to_google_contact c) = c\<lparr>pc_uid := [],
     pc_emails := map (\<lambda>v. v\<lparr>lv_primary := False\<rparr>) (pc_emails c), pc_phones := map (\<lambda>v. v\<lparr>lv_primary := False\<rparr>) (pc_phones c),
     pc_addresses := map (\<lambda>a. a\<lparr>pa_primary := False\<rparr>) (pc_addresses c), pc_photo := None, pc_raw_vcard := None\<rparr>"
proof -
  have v: "google_value (typed_value x) = Some (x\<lparr>lv_primary := False\<rparr>)" for x :: labeled_value
    by (simp add: google_value_def typed_value_def is_primary_def)
  have a: "google_address (typed_address x) = x\<lparr>pa_primary := False\<rparr>" for x :: postal_address
    by (simp add: google_address_def typed_address_def is_primary_def)
  show ?thesis
    by (cases "pc_notes c") (simp_all add: google_contact_def to_google_contact_def first_item_def or_empty_def Let_def comp_def v a)
qed

lemma graph_phones_read_back:
  "pc_phones (graph_contact (to_graph_contact c)) =
     map (\<lambda>p. plain_value (Some ''business'') (lv_value p)) (filter (\<lambda>p. lv_label p = Some ''work'') (pc_phones c))
     @ map (\<lambda>p. plain_value (Some ''home'') (lv_value p)) (filter (\<lambda>p. lv_label p = Some ''home'') (pc_phones c))"
  by (simp add: graph_contact_def to_graph_contact_def graph_phones_def Let_def comp_def)

end
