(* ===== verification/Dav.thy ===== *)
theory Dav
  imports Vcard
begin

text \<open>
  WebDAV and the plain provider calls of backend/contact-sync/src/lib.rs: transport errors, one DAV
  request, the walks over the answer's XML, address book discovery, the Graph and Google calls, and the
  registry of running source tasks.

  The HTTP client is a parameter: \<open>wb_send\<close> maps method, address, headers and body to a failure or a
  response and a new server state.  A failure is its chain of messages, outermost first.  The XML reader
  \<open>wb_xml\<close> gives the events up to the end of the document or the first error; \<open>wb_join\<close> resolves a
  reference against an address, \<open>wb_query\<close> appends query pairs, \<open>wb_reason\<close> renders a status, and
  \<open>wb_status_error\<close> and \<open>wb_decode_error\<close> the client's own error texts.
\<close>

section \<open>Requests\<close>

record failure =
  fl_chain :: "string list"
  fl_timeout :: bool
  fl_connect :: bool

record response =
  rs_status :: nat
  rs_header :: "string \<Rightarrow> string option"
  rs_body :: "string + string"

datatype xml_event = XStart string | XEmpty string | XText "string option" | XCData string | XEnd string | XOther

record 's web =
  wb_send :: "string \<Rightarrow> string \<Rightarrow> (string \<times> string) list \<Rightarrow> string \<Rightarrow> 's \<Rightarrow> (failure + response) \<times> 's"
  wb_of_json :: "string \<Rightarrow> json option"
  wb_to_json :: "json \<Rightarrow> string"
  wb_xml :: "string \<Rightarrow> xml_event list"
  wb_join :: "string \<Rightarrow> string \<Rightarrow> string option"
  wb_query :: "string \<Rightarrow> (string \<times> string) list \<Rightarrow> string"
  wb_reason :: "nat \<Rightarrow> string"
  wb_status_error :: "nat \<Rightarrow> string \<Rightarrow> string"
  wb_decode_error :: "string \<Rightarrow> string"
  wb_base64 :: "string \<Rightarrow> string"
  wb_cards :: "string \<Rightarrow> vcard_card list option"

definition tls_certificate_error_prefix :: string where
  "tls_certificate_error_prefix = ''tls certificate validation failed''"

definition certificate_words :: "string list" where
  "certificate_words = [''invalid'', ''not valid'', ''expired'', ''unknown issuer'', ''hostname'', ''name mismatch'',
     ''verify'', ''verification'']"

definition names_certificate_failure :: "string \<Rightarrow> bool" where
  "names_certificate_failure msg =
     (let m = to_lower msg in
      (contains_str ''certificate'' m \<or> contains_str ''cert '' m) \<and> (\<exists>w \<in> set certificate_words. contains_str w m))"

fun error_chain_contains_certificate_failure :: "string list \<Rightarrow> bool" where
  "error_chain_contains_certificate_failure [] = False"
| "error_chain_contains_certificate_failure (msg # chain) =
     (names_certificate_failure msg \<or> error_chain_contains_certificate_failure chain)"

definition failure_text :: "failure \<Rightarrow> string" where
  "failure_text e = (case fl_chain e of [] \<Rightarrow> [] | m # _ \<Rightarrow> m)"

definition explain_transport_error :: "failure \<Rightarrow> string" where
  "explain_transport_error e =
     (if error_chain_contains_certificate_failure (fl_chain e) then tls_certificate_error_prefix @ '': '' @ failure_text e
      else if fl_timeout e then ''request timed out: '' @ failure_text e
      else if fl_connect e then ''connection failed: '' @ failure_text e
      else ''request failed: '' @ failure_text e)"

datatype dav_auth = Basic string string | Bearer string

fun apply_auth :: "'s web \<Rightarrow> dav_auth \<Rightarrow> string \<times> string" where
  "apply_auth W (Basic username password) = (''Authorization'', ''Basic '' @ wb_base64 W (username @ '':'' @ password))"
| "apply_auth W (Bearer tok) = (''Authorization'', ''Bearer '' @ tok)"

definition dav ::
  "'s web \<Rightarrow> string \<Rightarrow> string \<Rightarrow> dav_auth \<Rightarrow> string \<Rightarrow> string \<Rightarrow> string \<Rightarrow> 's \<Rightarrow> (string + string) \<times> 's"
where
  "dav W meth url auth depth content_type body s =
     (case wb_send W meth url [(''Depth'', depth), (''Content-Type'', content_type), apply_auth W auth] body s of
        (Inl e, s') \<Rightarrow> (Inl (explain_transport_error e), s')
      | (Inr r, s') \<Rightarrow>
          (case rs_body r of
             Inl e \<Rightarrow> (Inl e, s')
           | Inr text \<Rightarrow>
               (if \<not> is_success (rs_status r) \<and> rs_status r \<noteq> 207
                then (Inl (''CardDAV '' @ meth @ '' '' @ url @ '' -> '' @ wb_reason W (rs_status r) @ '': '' @ text), s')
                else (Inr text, s'))))"

section \<open>Walks over the XML\<close>

definition local_name :: "string \<Rightarrow> string" where
  "local_name q = last (split_on CHR '':'' q)"

text \<open>The texts of the elements with a local name; nested ones are part of the outer one.\<close>

fun texts_walk :: "string \<Rightarrow> nat \<Rightarrow> string \<Rightarrow> xml_event list \<Rightarrow> string list" where
  "texts_walk target depth buf [] = []"
| "texts_walk target depth buf (XStart n # es) =
     (if local_name n = target then texts_walk target (depth + 1) (if depth = 0 then [] else buf) es
      else texts_walk target depth buf es)"
| "texts_walk target depth buf (XText t # es) =
     texts_walk target depth (if depth > 0 then buf @ or_empty t else buf) es"
| "texts_walk target depth buf (XCData t # es) = texts_walk target depth (if depth > 0 then buf @ t else buf) es"
| "texts_walk target depth buf (XEnd n # es) =
     (if local_name n = target \<and> depth > 0
      then (if depth = 1 then buf # texts_walk target 0 [] es else texts_walk target (depth - 1) buf es)
      else texts_walk target depth buf es)"
| "texts_walk target depth buf (e # es) = texts_walk target depth buf es"

definition extract_texts :: "'s web \<Rightarrow> string \<Rightarrow> string \<Rightarrow> string list" where
  "extract_texts W xml target = texts_walk target 0 [] (wb_xml W xml)"

fun href_walk :: "string \<Rightarrow> nat \<Rightarrow> string option \<Rightarrow> xml_event list \<Rightarrow> string option" where
  "href_walk target depth href [] = None"
| "href_walk target depth href (XStart n # es) =
     (if local_name n = target then href_walk target (depth + 1) href es
      else if depth > 0 \<and> local_name n = ''href'' then href_walk target depth (Some []) es
      else href_walk target depth href es)"
| "href_walk target depth href (XText t # es) = href_walk target depth (map_option (\<lambda>b. b @ or_empty t) href) es"
| "href_walk target depth href (XEnd n # es) =
     (case href of
        Some b \<Rightarrow> if local_name n = ''href'' then Some (trim b)
                  else href_walk target (if local_name n = target then depth - 1 else depth) href es
      | None \<Rightarrow> href_walk target (if local_name n = target then depth - 1 else depth) href es)"
| "href_walk target depth href (e # es) = href_walk target depth href es"

definition first_href_in_elem :: "'s web \<Rightarrow> string \<Rightarrow> string \<Rightarrow> string option" where
  "first_href_in_elem W xml target = href_walk target 0 None (wb_xml W xml)"

record type_walk =
  tw_response :: bool
  tw_in_href :: bool
  tw_depth :: nat
  tw_matched :: bool
  tw_href :: "string option"
  tw_buf :: string

definition type_start :: "string \<Rightarrow> string \<Rightarrow> type_walk \<Rightarrow> type_walk" where
  "type_start rtype n w =
     (if n = ''response'' then w\<lparr>tw_response := True, tw_matched := False, tw_href := None\<rparr>
      else if tw_response w \<and> n = ''href'' \<and> tw_href w = None then w\<lparr>tw_in_href := True, tw_buf := []\<rparr>
      else if n = ''resourcetype'' then w\<lparr>tw_depth := tw_depth w + 1\<rparr>
      else if tw_depth w > 0 \<and> n = rtype then w\<lparr>tw_matched := True\<rparr> else w)"

fun rtype_walk :: "string \<Rightarrow> type_walk \<Rightarrow> xml_event list \<Rightarrow> string option" where
  "rtype_walk rtype w [] = None"
| "rtype_walk rtype w (XStart n # es) = rtype_walk rtype (type_start rtype (local_name n) w) es"
| "rtype_walk rtype w (XEmpty n # es) =
     rtype_walk rtype (if tw_depth w > 0 \<and> local_name n = rtype then w\<lparr>tw_matched := True\<rparr> else w) es"
| "rtype_walk rtype w (XText t # es) =
     rtype_walk rtype (if tw_in_href w then w\<lparr>tw_buf := tw_buf w @ or_empty t\<rparr> else w) es"
| "rtype_walk rtype w (XEnd n # es) =
     (if local_name n = ''href'' \<and> tw_in_href w
      then rtype_walk rtype (w\<lparr>tw_href := Some (trim (tw_buf w)), tw_in_href := False\<rparr>) es
      else if local_name n = ''resourcetype'' \<and> tw_depth w > 0 then rtype_walk rtype (w\<lparr>tw_depth := tw_depth w - 1\<rparr>) es
      else if local_name n = ''response''
      then (if tw_matched w \<and> tw_href w \<noteq> None then tw_href w else rtype_walk rtype (w\<lparr>tw_response := False\<rparr>) es)
      else rtype_walk rtype w es)"
| "rtype_walk rtype w (e # es) = rtype_walk rtype w es"

definition first_href_with_resourcetype :: "'s web \<Rightarrow> string \<Rightarrow> string \<Rightarrow> string option" where
  "first_href_with_resourcetype W xml rtype =
     rtype_walk rtype \<lparr>tw_response = False, tw_in_href = False, tw_depth = 0, tw_matched = False, tw_href = None, tw_buf = []\<rparr>
       (wb_xml W xml)"

record carddav_contact =
  dc_href :: string
  dc_etag :: "string option"
  dc_contact :: parsed_contact

record card_walk =
  cw_response :: bool
  cw_in_href :: bool
  cw_in_etag :: bool
  cw_in_data :: bool
  cw_href :: string
  cw_etag :: string
  cw_card :: string
  cw_out :: "carddav_contact list"

definition card_start :: "string \<Rightarrow> card_walk \<Rightarrow> card_walk" where
  "card_start n w =
     (if n = ''response'' then w\<lparr>cw_response := True, cw_href := [], cw_etag := [], cw_card := []\<rparr>
      else if n = ''href'' \<and> cw_response w \<and> cw_href w = [] then w\<lparr>cw_in_href := True\<rparr>
      else if n = ''getetag'' \<and> cw_response w then w\<lparr>cw_in_etag := True\<rparr>
      else if n = ''address-data'' \<and> cw_response w then w\<lparr>cw_in_data := True\<rparr> else w)"

definition card_text :: "string \<Rightarrow> card_walk \<Rightarrow> card_walk" where
  "card_text t w =
     (if cw_in_href w then w\<lparr>cw_href := cw_href w @ t\<rparr>
      else if cw_in_etag w then w\<lparr>cw_etag := cw_etag w @ t\<rparr>
      else if cw_in_data w then w\<lparr>cw_card := cw_card w @ t\<rparr> else w)"

definition card_end :: "'s web \<Rightarrow> string \<Rightarrow> string \<Rightarrow> card_walk \<Rightarrow> card_walk" where
  "card_end W base n w =
     (if n = ''href'' then w\<lparr>cw_in_href := False\<rparr>
      else if n = ''getetag'' then w\<lparr>cw_in_etag := False\<rparr>
      else if n = ''address-data'' then w\<lparr>cw_in_data := False\<rparr>
      else if n = ''response''
      then w\<lparr>cw_response := False, cw_out := cw_out w @
             (case parse_vcard (wb_cards W) (cw_card w) of
                None \<Rightarrow> []
              | Some c \<Rightarrow> [\<lparr>dc_href = (case wb_join W base (trim (cw_href w)) of Some u \<Rightarrow> u | None \<Rightarrow> cw_href w),
                            dc_etag = optional_string (trim (cw_etag w)), dc_contact = c\<rparr>])\<rparr>
      else w)"

fun card_event :: "'s web \<Rightarrow> string \<Rightarrow> xml_event \<Rightarrow> card_walk \<Rightarrow> card_walk" where
  "card_event W base (XStart n) w = card_start (local_name n) w"
| "card_event W base (XText t) w = card_text (or_empty t) w"
| "card_event W base (XCData t) w = (if cw_in_data w then w\<lparr>cw_card := cw_card w @ t\<rparr> else w)"
| "card_event W base (XEnd n) w = card_end W base (local_name n) w"
| "card_event W base e w = w"

definition extract_carddav_contacts :: "'s web \<Rightarrow> string \<Rightarrow> string \<Rightarrow> carddav_contact list" where
  "extract_carddav_contacts W xml base =
     cw_out (fold (card_event W base) (wb_xml W xml)
       \<lparr>cw_response = False, cw_in_href = False, cw_in_etag = False, cw_in_data = False, cw_href = [], cw_etag = [],
        cw_card = [], cw_out = []\<rparr>)"

section \<open>Address books\<close>

definition xml_content :: string where
  "xml_content = ''application/xml; charset=utf-8''"

definition dav_prop :: "string \<Rightarrow> string" where
  "dav_prop inner = ''<d:propfind xmlns:d='' @ [CHR 0x22] @ ''DAV:'' @ [CHR 0x22] @ ''><d:prop>'' @ inner @ ''</d:prop></d:propfind>''"

definition home_body :: string where
  "home_body = ''<d:propfind xmlns:d='' @ [CHR 0x22] @ ''DAV:'' @ [CHR 0x22] @ '' xmlns:c='' @ [CHR 0x22]
     @ ''urn:ietf:params:xml:ns:carddav'' @ [CHR 0x22] @ ''><d:prop><c:addressbook-home-set/></d:prop></d:propfind>''"

text \<open>One step of the discovery: a PROPFIND, a reference in its answer, resolved; any failure ends it.\<close>

definition discover_step ::
  "'s web \<Rightarrow> string \<Rightarrow> dav_auth \<Rightarrow> string \<Rightarrow> string \<Rightarrow> string \<Rightarrow> (string \<Rightarrow> string option) \<Rightarrow> 's \<Rightarrow> string option \<times> 's"
where
  "discover_step W base auth url depth body pick s =
     (case dav W ''PROPFIND'' url auth depth xml_content body s of
        (Inl _, s') \<Rightarrow> (None, s')
      | (Inr xml, s') \<Rightarrow> (Option.bind (pick xml) (wb_join W base), s'))"

definition discover_addressbook :: "'s web \<Rightarrow> string \<Rightarrow> dav_auth \<Rightarrow> 's \<Rightarrow> string option \<times> 's" where
  "discover_addressbook W base auth s =
     (case discover_step W base auth base ''0'' (dav_prop ''<d:current-user-principal/>'')
             (\<lambda>xml. first_href_in_elem W xml ''current-user-principal'') s of
        (None, s1) \<Rightarrow> (None, s1)
      | (Some owner, s1) \<Rightarrow>
          (case discover_step W base auth owner ''0'' home_body
                  (\<lambda>xml. first_href_in_elem W xml ''addressbook-home-set'') s1 of
             (None, s2) \<Rightarrow> (None, s2)
           | (Some home, s2) \<Rightarrow>
               discover_step W base auth home ''1'' (dav_prop ''<d:resourcetype/>'')
                 (\<lambda>xml. first_href_with_resourcetype W xml ''addressbook'') s2))"

definition query_body :: string where
  "query_body = ''<?xml version='' @ [CHR 0x22] @ ''1.0'' @ [CHR 0x22] @ '' encoding='' @ [CHR 0x22] @ ''utf-8'' @ [CHR 0x22] @ ''?>''
     @ [lf] @ ''<C:addressbook-query xmlns:D='' @ [CHR 0x22] @ ''DAV:'' @ [CHR 0x22] @ '' xmlns:C='' @ [CHR 0x22]
     @ ''urn:ietf:params:xml:ns:carddav'' @ [CHR 0x22] @ ''>'' @ [lf] @ ''  <D:prop><D:getetag/><C:address-data/></D:prop>'' @ [lf]
     @ ''</C:addressbook-query>''"

definition sync_carddav_with_client :: "'s web \<Rightarrow> string \<Rightarrow> dav_auth \<Rightarrow> 's \<Rightarrow> (string + carddav_contact list) \<times> 's" where
  "sync_carddav_with_client W base auth s =
     (case discover_addressbook W base auth s of
        (found, s1) \<Rightarrow>
          (let book = (case found of Some b \<Rightarrow> b | None \<Rightarrow> base) in
           case dav W ''REPORT'' book auth ''1'' xml_content query_body s1 of
             (Inl e, s2) \<Rightarrow> (Inl e, s2)
           | (Inr xml, s2) \<Rightarrow> (Inr (extract_carddav_contacts W xml book), s2)))"

definition sync_carddav :: "'s web \<Rightarrow> string \<Rightarrow> dav_auth \<Rightarrow> 's \<Rightarrow> (string + parsed_contact list) \<times> 's" where
  "sync_carddav W base auth s =
     (case sync_carddav_with_client W base auth s of
        (Inl e, s') \<Rightarrow> (Inl e, s') | (Inr cs, s') \<Rightarrow> (Inr (map dc_contact cs), s'))"

definition discover_carddav_addressbook :: "'s web \<Rightarrow> string \<Rightarrow> dav_auth \<Rightarrow> 's \<Rightarrow> (string + string) \<times> 's" where
  "discover_carddav_addressbook W base auth s =
     (case discover_addressbook W base auth s of
        (None, s') \<Rightarrow> (Inl ''no CardDAV addressbook discovered'', s') | (Some b, s') \<Rightarrow> (Inr b, s'))"

definition collection_sync_token :: "'s web \<Rightarrow> string \<Rightarrow> dav_auth \<Rightarrow> 's \<Rightarrow> (string + string option) \<times> 's" where
  "collection_sync_token W book auth s =
     (case dav W ''PROPFIND'' book auth ''0'' xml_content (dav_prop ''<d:sync-token/>'') s of
        (Inl e, s') \<Rightarrow> (Inl e, s') | (Inr xml, s') \<Rightarrow> (Inr (first_of (extract_texts W xml ''sync-token'')), s'))"

definition carddav_sync_token :: "'s web \<Rightarrow> string \<Rightarrow> dav_auth \<Rightarrow> 's \<Rightarrow> (string + string option) \<times> 's" where
  "carddav_sync_token W base auth s =
     (case discover_addressbook W base auth s of
        (found, s') \<Rightarrow> collection_sync_token W (case found of Some b \<Rightarrow> b | None \<Rightarrow> base) auth s')"

definition put_carddav_contact :: "'s web \<Rightarrow> string \<Rightarrow> dav_auth \<Rightarrow> string \<Rightarrow> 's \<Rightarrow> (string + unit) \<times> 's" where
  "put_carddav_contact W href auth raw s =
     (case dav W ''PUT'' href auth ''0'' ''text/vcard; charset=utf-8'' raw s of
        (Inl e, s') \<Rightarrow> (Inl e, s') | (Inr _, s') \<Rightarrow> (Inr (), s'))"

definition delete_carddav_contact :: "'s web \<Rightarrow> string \<Rightarrow> dav_auth \<Rightarrow> 's \<Rightarrow> (string + unit) \<times> 's" where
  "delete_carddav_contact W href auth s =
     (case dav W ''DELETE'' href auth ''0'' ''text/plain'' [] s of
        (Inl e, s') \<Rightarrow> (Inl e, s') | (Inr _, s') \<Rightarrow> (Inr (), s'))"

section \<open>Graph and Google\<close>

text \<open>One authorised exchange; \<open>fails\<close> renders the error of a status or an unreadable body.\<close>

definition bearer_call ::
  "'s web \<Rightarrow> string \<Rightarrow> string \<Rightarrow> string \<Rightarrow> json option \<Rightarrow> 's \<Rightarrow> (string + response) \<times> 's"
where
  "bearer_call W meth url tok body s =
     (case wb_send W meth url [apply_auth W (Bearer tok)] (case body of None \<Rightarrow> [] | Some j \<Rightarrow> wb_to_json W j) s of
        (Inl e, s') \<Rightarrow> (Inl (explain_transport_error e), s')
      | (Inr r, s') \<Rightarrow>
          (if 400 \<le> rs_status r \<and> rs_status r \<le> 599
           then (Inl (wb_status_error W (rs_status r) url), s') else (Inr r, s')))"

definition bearer_json :: "'s web \<Rightarrow> string \<Rightarrow> string \<Rightarrow> string \<Rightarrow> json option \<Rightarrow> 's \<Rightarrow> (string + json) \<times> 's" where
  "bearer_json W meth url tok body s =
     (case bearer_call W meth url tok body s of
        (Inl e, s') \<Rightarrow> (Inl e, s')
      | (Inr r, s') \<Rightarrow>
          (case rs_body r of
             Inl e \<Rightarrow> (Inl e, s')
           | Inr text \<Rightarrow> ((case wb_of_json W text of None \<Rightarrow> Inl (wb_decode_error W text) | Some j \<Rightarrow> Inr j), s')))"

definition bearer_unit :: "'s web \<Rightarrow> string \<Rightarrow> string \<Rightarrow> string \<Rightarrow> json option \<Rightarrow> 's \<Rightarrow> (string + unit) \<times> 's" where
  "bearer_unit W meth url tok body s =
     (case bearer_call W meth url tok body s of (Inl e, s') \<Rightarrow> (Inl e, s') | (Inr _, s') \<Rightarrow> (Inr (), s'))"

record sync_page =
  sp_contacts :: "parsed_contact list"
  sp_cursor :: "string option"
  sp_next :: "string option"

definition graph_url :: string where
  "graph_url = ''https://graph.microsoft.com/v1.0/me/contacts''"

definition graph_contacts :: "'s web \<Rightarrow> string \<Rightarrow> string option \<Rightarrow> 's \<Rightarrow> (string + sync_page) \<times> 's" where
  "graph_contacts W tok delta s =
     (case bearer_json W ''GET'' (case delta of Some u \<Rightarrow> u | None \<Rightarrow> graph_url @ ''/delta'') tok None s of
        (Inl e, s') \<Rightarrow> (Inl e, s')
      | (Inr j, s') \<Rightarrow> (Inr \<lparr>sp_contacts = map graph_contact (as_array (jget j ''value'')),
            sp_cursor = as_str (jget j ''@odata.deltaLink''), sp_next = as_str (jget j ''@odata.nextLink'')\<rparr>, s'))"

definition folder_pair :: "json \<Rightarrow> (string \<times> string) option" where
  "folder_pair f = Option.bind (as_str (jget f ''id'')) (\<lambda>i. map_option (\<lambda>n. (i, n)) (as_str (jget f ''displayName'')))"

definition graph_contact_folders :: "'s web \<Rightarrow> string \<Rightarrow> 's \<Rightarrow> (string + (string \<times> string) list) \<times> 's" where
  "graph_contact_folders W tok s =
     (case bearer_json W ''GET'' ''https://graph.microsoft.com/v1.0/me/contactFolders'' tok None s of
        (Inl e, s') \<Rightarrow> (Inl e, s')
      | (Inr j, s') \<Rightarrow> (Inr (filter_some (map folder_pair (as_array (jget j ''value'')))), s'))"

definition graph_create_contact :: "'s web \<Rightarrow> string \<Rightarrow> parsed_contact \<Rightarrow> 's \<Rightarrow> (string + string) \<times> 's" where
  "graph_create_contact W tok c s =
     (case bearer_json W ''POST'' graph_url tok (Some (to_graph_contact c)) s of
        (Inl e, s') \<Rightarrow> (Inl e, s')
      | (Inr j, s') \<Rightarrow> (Inr (case as_str (jget j ''id'') of Some i \<Rightarrow> i | None \<Rightarrow> pc_uid c), s'))"

definition graph_update_contact :: "'s web \<Rightarrow> string \<Rightarrow> string \<Rightarrow> parsed_contact \<Rightarrow> 's \<Rightarrow> (string + unit) \<times> 's" where
  "graph_update_contact W tok remote c = bearer_unit W ''PATCH'' (graph_url @ ''/'' @ remote) tok (Some (to_graph_contact c))"

definition graph_delete_contact :: "'s web \<Rightarrow> string \<Rightarrow> string \<Rightarrow> 's \<Rightarrow> (string + unit) \<times> 's" where
  "graph_delete_contact W tok remote = bearer_unit W ''DELETE'' (graph_url @ ''/'' @ remote) tok None"

definition google_connections :: "'s web \<Rightarrow> string \<Rightarrow> string option \<Rightarrow> 's \<Rightarrow> (string + sync_page) \<times> 's" where
  "google_connections W tok cursor s =
     (case bearer_json W ''GET''
             (wb_query W ''https://people.googleapis.com/v1/people/me/connections''
               ([(''personFields'', ''names,emailAddresses,phoneNumbers,addresses,organizations,biographies,photos''),
                 (''requestSyncToken'', ''true'')] @ (case cursor of None \<Rightarrow> [] | Some t \<Rightarrow> [(''syncToken'', t)]))) tok None s of
        (Inl e, s') \<Rightarrow> (Inl e, s')
      | (Inr j, s') \<Rightarrow> (Inr \<lparr>sp_contacts = map google_contact (as_array (jget j ''connections'')),
            sp_cursor = as_str (jget j ''nextSyncToken''), sp_next = as_str (jget j ''nextPageToken'')\<rparr>, s'))"

definition google_create_contact :: "'s web \<Rightarrow> string \<Rightarrow> parsed_contact \<Rightarrow> 's \<Rightarrow> (string + string) \<times> 's" where
  "google_create_contact W tok c s =
     (case bearer_json W ''POST'' ''https://people.googleapis.com/v1/people:createContact'' tok (Some (to_google_contact c)) s of
        (Inl e, s') \<Rightarrow> (Inl e, s')
      | (Inr j, s') \<Rightarrow> (Inr (case as_str (jget j ''resourceName'') of Some i \<Rightarrow> i | None \<Rightarrow> pc_uid c), s'))"

definition google_update_contact :: "'s web \<Rightarrow> string \<Rightarrow> string \<Rightarrow> parsed_contact \<Rightarrow> 's \<Rightarrow> (string + unit) \<times> 's" where
  "google_update_contact W tok name c = bearer_unit W ''PATCH''
     (wb_query W (''https://people.googleapis.com/v1/'' @ name @ '':updateContact'')
       [(''updatePersonFields'', ''names,emailAddresses,phoneNumbers,addresses,organizations,biographies'')])
     tok (Some (to_google_contact c))"

definition google_delete_contact :: "'s web \<Rightarrow> string \<Rightarrow> string \<Rightarrow> 's \<Rightarrow> (string + unit) \<times> 's" where
  "google_delete_contact W tok name =
     bearer_unit W ''DELETE'' (''https://people.googleapis.com/v1/'' @ name @ '':deleteContact'') tok None"

section \<open>Running source tasks\<close>

record contact_status =
  ct_state :: string
  ct_last_synced :: "string option"
  ct_error :: "string option"

text \<open>\<open>cm_aborted\<close> lists the tasks that were cancelled; a task is a number.\<close>

record contact_manager =
  cm_tasks :: "string \<Rightarrow> nat option"
  cm_statuses :: "string \<Rightarrow> contact_status option"
  cm_aborted :: "nat list"
  cm_next :: nat

definition idle_status :: contact_status where
  "idle_status = \<lparr>ct_state = ''idle'', ct_last_synced = None, ct_error = None\<rparr>"

definition new_contact_manager :: contact_manager where
  "new_contact_manager = \<lparr>cm_tasks = Map.empty, cm_statuses = Map.empty, cm_aborted = [], cm_next = 0\<rparr>"

definition cm_stop_account :: "string \<Rightarrow> contact_manager \<Rightarrow> contact_manager" where
  "cm_stop_account acct m = m\<lparr>cm_tasks := (cm_tasks m)(acct := None), cm_statuses := (cm_statuses m)(acct := None),
     cm_aborted := (case cm_tasks m acct of None \<Rightarrow> cm_aborted m | Some t \<Rightarrow> t # cm_aborted m)\<rparr>"

definition cm_start_account :: "string \<Rightarrow> contact_manager \<Rightarrow> contact_manager" where
  "cm_start_account acct m =
     (let m1 = cm_stop_account acct m in
      m1\<lparr>cm_statuses := (cm_statuses m1)(acct \<mapsto> idle_status\<lparr>ct_state := ''syncing''\<rparr>),
         cm_tasks := (cm_tasks m1)(acct \<mapsto> cm_next m1), cm_next := cm_next m1 + 1\<rparr>)"

definition cm_account_status :: "string \<Rightarrow> contact_manager \<Rightarrow> contact_status" where
  "cm_account_status acct m = (case cm_statuses m acct of None \<Rightarrow> idle_status | Some s \<Rightarrow> s)"

definition cm_update_status :: "string \<Rightarrow> contact_status \<Rightarrow> contact_manager \<Rightarrow> contact_manager" where
  "cm_update_status acct st m = m\<lparr>cm_statuses := (cm_statuses m)(acct \<mapsto> st)\<rparr>"

text \<open>Every task that was started is the current one of its account or was cancelled, and never both.\<close>

definition one_task_each :: "contact_manager \<Rightarrow> bool" where
  "one_task_each m = ((\<forall>t. t < cm_next m \<longleftrightarrow> (t \<in> ran (cm_tasks m) \<or> t \<in> set (cm_aborted m)))
     \<and> ran (cm_tasks m) \<inter> set (cm_aborted m) = {} \<and> inj_on (cm_tasks m) (dom (cm_tasks m)))"

lemma ran_remove: "inj_on m (dom m) \<Longrightarrow> ran (m(k := None)) = (case m k of None \<Rightarrow> ran m | Some v \<Rightarrow> ran m - {v})"
  by (auto simp: ran_def inj_on_def dom_def split: option.split) (metis option.distinct(1) option.inject)+

lemma one_task_stop: "one_task_each m \<Longrightarrow> one_task_each (cm_stop_account acct m)"
proof (cases "cm_tasks m acct")
  case None
  assume "one_task_each m"
  moreover have "(cm_tasks m)(acct := None) = cm_tasks m" using None by auto
  ultimately show ?thesis using None by (simp add: one_task_each_def cm_stop_account_def)
next
  case (Some t)
  assume ok: "one_task_each m"
  have inj: "inj_on (cm_tasks m) (dom (cm_tasks m))" using ok by (simp add: one_task_each_def)
  have "ran ((cm_tasks m)(acct := None)) = ran (cm_tasks m) - {t}" using ran_remove [OF inj] Some by simp
  moreover have "inj_on ((cm_tasks m)(acct := None)) (dom ((cm_tasks m)(acct := None)))"
    using inj by (auto simp: inj_on_def)
  moreover have "t \<in> ran (cm_tasks m)" using Some by (rule ranI)
  ultimately show ?thesis using ok Some by (auto simp: one_task_each_def cm_stop_account_def)
qed

lemma one_task_start: "one_task_each m \<Longrightarrow> one_task_each (cm_start_account acct m)"
proof -
  assume "one_task_each m"
  define m1 where "m1 = cm_stop_account acct m"
  have ok: "one_task_each m1" unfolding m1_def by (rule one_task_stop) fact
  have none: "cm_tasks m1 acct = None" by (simp add: m1_def cm_stop_account_def)
  have ran: "ran ((cm_tasks m1)(acct \<mapsto> cm_next m1)) = insert (cm_next m1) (ran (cm_tasks m1))"
    using none by (rule ran_map_upd)
  have fresh: "cm_next m1 \<notin> ran (cm_tasks m1)" "cm_next m1 \<notin> set (cm_aborted m1)"
    using ok by (auto simp: one_task_each_def)
  then have "inj_on ((cm_tasks m1)(acct \<mapsto> cm_next m1)) (dom ((cm_tasks m1)(acct \<mapsto> cm_next m1)))"
    using ok none by (auto simp: one_task_each_def inj_on_def ran_def)
  then show ?thesis
    using ok ran fresh unfolding cm_start_account_def m1_def [symmetric] Let_def
    by (auto simp: one_task_each_def less_Suc_eq)
qed

end
