(* ===== verification/Contact_Providers.thy ===== *)
theory Contact_Providers
  imports Dav Tokens
begin

text \<open>
  The contact provider adapters of backend/contact-sync/src/adapters.rs: CardDAV, Google People and
  Microsoft Graph behind one interface, the record \<open>adapter\<close> of calls on a server state.

  A call is \<open>None\<close> when it does not return: listing the books follows next-page links for as long as
  the server gives them.  The addresses that the adapters start from are well-formed.  A photo is the
  string of its bytes.
\<close>

section \<open>Pages and errors\<close>

datatype error_category = ConsentRequiredError | ReauthenticationRequiredError | CursorExpired | ConflictError
  | RateLimited | AuthenticationError | TransportError | InvalidResponse | Unavailable

record contact_error =
  pv_category :: error_category
  pv_message :: string
  pv_retry_after :: "nat option"

record contact_book =
  cb_remote :: string
  cb_name :: string
  cb_parent :: "string option"
  cb_default :: bool
  cb_writable :: bool
  cb_metadata :: json

record remote_photo =
  rp_reference :: string
  rp_version :: "string option"
  rp_content_type :: "string option"

record group_membership =
  gm_remote :: string
  gm_name :: "string option"

record remote_contact =
  rc_book :: string
  rc_remote :: string
  rc_version :: "string option"
  rc_contact :: parsed_contact
  rc_photo :: "remote_photo option"
  rc_groups :: "group_membership list"
  rc_metadata :: json

record tombstone =
  tb_book :: string
  tb_remote :: string

record change_page =
  cp_upserts :: "remote_contact list"
  cp_tombstones :: "tombstone list"
  cp_continuation :: "string option"
  cp_cursor :: "string option"

record mutation_result =
  mr_remote :: string
  mr_version :: "string option"

record photo_payload =
  ph_bytes :: string
  ph_type :: string
  ph_version :: "string option"

type_synonym ('a, 's) ask = "'s \<Rightarrow> (contact_error + 'a) \<times> 's"

record 's adapter =
  ad_books :: "'s \<Rightarrow> ((contact_error + contact_book list) \<times> 's) option"
  ad_changes :: "contact_book \<Rightarrow> string option \<Rightarrow> string option \<Rightarrow> (change_page, 's) ask"
  ad_create :: "contact_book \<Rightarrow> parsed_contact \<Rightarrow> (mutation_result, 's) ask"
  ad_update :: "contact_book \<Rightarrow> string \<Rightarrow> string option \<Rightarrow> parsed_contact \<Rightarrow> (mutation_result, 's) ask"
  ad_delete :: "contact_book \<Rightarrow> string \<Rightarrow> string option \<Rightarrow> (unit, 's) ask"
  ad_photo :: "contact_book \<Rightarrow> string \<Rightarrow> string option \<Rightarrow> (photo_payload option, 's) ask"
  ad_update_photo :: "contact_book \<Rightarrow> string \<Rightarrow> string option \<Rightarrow> photo_payload \<Rightarrow> (mutation_result, 's) ask"

definition empty_page :: change_page where
  "empty_page = \<lparr>cp_upserts = [], cp_tombstones = [], cp_continuation = None, cp_cursor = None\<rparr>"

definition provider_error :: "error_category \<Rightarrow> string \<Rightarrow> nat option \<Rightarrow> contact_error" where
  "provider_error k msg retry = \<lparr>pv_category = k, pv_message = msg, pv_retry_after = retry\<rparr>"

definition invalid_response :: "string \<Rightarrow> contact_error" where
  "invalid_response msg = provider_error InvalidResponse msg None"

definition transport_error :: contact_error where
  "transport_error = provider_error TransportError ''contact provider request failed'' None"

definition provider_api_disabled_message :: string where
  "provider_api_disabled_message = ''contact provider API is not enabled''"

definition carddav_tls_verification_failed :: string where
  "carddav_tls_verification_failed = ''CardDAV TLS verification failed''"

function json_contains :: "json \<Rightarrow> string \<Rightarrow> bool" where
  "json_contains (JStr s) needle = contains_str (to_lower needle) (to_lower s)"
| "json_contains (JArr xs) needle = (\<exists>x \<in> set xs. json_contains x needle)"
| "json_contains (JObj kvs) needle = (\<exists>kv \<in> set kvs. json_contains (snd kv) needle)"
| "json_contains JNull needle = False"
| "json_contains (JBool b) needle = False"
| "json_contains (JNum n) needle = False"
  by pat_completeness auto
termination
proof (relation "measure (size \<circ> fst)")
  fix xs :: "json list" and x and needle :: string
  assume "x \<in> set xs"
  then show "((x, needle), JArr xs, needle) \<in> measure (size \<circ> fst)" by (induction xs) auto
next
  fix kvs :: "(string \<times> json) list" and kv and needle :: string
  assume "kv \<in> set kvs"
  then show "((snd kv, needle), JObj kvs, needle) \<in> measure (size \<circ> fst)" by (induction kvs) auto
qed simp

definition provider_api_is_disabled :: "json \<Rightarrow> bool" where
  "provider_api_is_disabled j =
     (json_contains j ''SERVICE_DISABLED'' \<or> json_contains j ''has not been used in project''
      \<or> json_contains j ''api is disabled'')"

text \<open>\<open>str::parse\<close> to \<open>u64\<close>.\<close>

definition parse_u64 :: "string \<Rightarrow> nat option" where
  "parse_u64 s =
     (let ds = (case s of [] \<Rightarrow> [] | c # t \<Rightarrow> if c = CHR ''+'' then t else s) in
      if ds = [] then None
      else case parse_digits 0 ds of None \<Rightarrow> None | Some n \<Rightarrow> if n < 2 ^ 64 then Some n else None)"

definition status_category :: "nat \<Rightarrow> error_category" where
  "status_category status =
     (if status = 401 then ReauthenticationRequiredError
      else if status = 403 then ConsentRequiredError
      else if status = 409 \<or> status = 412 then ConflictError
      else if status = 429 then RateLimited
      else if status = 410 then CursorExpired
      else if 500 \<le> status \<and> status \<le> 599 then TransportError
      else InvalidResponse)"

definition body_json :: "'s web \<Rightarrow> response \<Rightarrow> json option" where
  "body_json W r = (case rs_body r of Inl _ \<Rightarrow> None | Inr text \<Rightarrow> wb_of_json W text)"

definition checked_response :: "'s web \<Rightarrow> response \<Rightarrow> contact_error + response" where
  "checked_response W r =
     (let status = rs_status r; retry = Option.bind (rs_header r ''Retry-After'') parse_u64 in
      if is_success status \<or> status = 207 then Inr r
      else if status = 403 \<and> (case body_json W r of None \<Rightarrow> False | Some j \<Rightarrow> provider_api_is_disabled j)
      then Inl (provider_error Unavailable provider_api_disabled_message retry)
      else Inl (provider_error (status_category status)
             (''contact provider request failed with HTTP '' @ wb_reason W status) retry))"

definition checked_json :: "'s web \<Rightarrow> response \<Rightarrow> contact_error + json" where
  "checked_json W r =
     (case checked_response W r of
        Inl e \<Rightarrow> Inl e
      | Inr r' \<Rightarrow> (case body_json W r' of
          None \<Rightarrow> Inl (invalid_response ''contact provider returned invalid JSON'') | Some j \<Rightarrow> Inr j))"

definition response_photo :: "'s web \<Rightarrow> response \<Rightarrow> contact_error + photo_payload" where
  "response_photo W r =
     (case checked_response W r of
        Inl e \<Rightarrow> Inl e
      | Inr r' \<Rightarrow>
          (case rs_body r' of
             Inl _ \<Rightarrow> Inl (invalid_response ''contact provider returned an invalid photo'')
           | Inr bytes \<Rightarrow> Inr \<lparr>ph_bytes = bytes,
               ph_type = (case rs_header r' ''Content-Type'' of None \<Rightarrow> ''application/octet-stream'' | Some t \<Rightarrow> t),
               ph_version = rs_header r' ''ETag''\<rparr>))"

definition carddav_error :: "string \<Rightarrow> contact_error" where
  "carddav_error e =
     (let m = to_lower e; has = (\<lambda>w. contains_str w m) in
      if has ''certificate'' \<or> has ''invalid peer'' \<or> has ''notvalidforname'' \<or> has ''tls''
      then provider_error Unavailable carddav_tls_verification_failed None
      else if has ''-> 401'' \<or> has ''-> 403'' then provider_error AuthenticationError ''CardDAV credentials were rejected'' None
      else if has ''-> 404'' then provider_error Unavailable ''CardDAV endpoint was not found'' None
      else if has ''connection failed'' \<or> has ''timed out''
      then provider_error TransportError ''CardDAV server could not be reached'' None
      else provider_error InvalidResponse ''CardDAV server returned an unsupported response'' None)"

text \<open>One request with the answer as a response, and what a call makes of it.\<close>

definition ask_server ::
  "'s web \<Rightarrow> string \<Rightarrow> string \<Rightarrow> (string \<times> string) list \<Rightarrow> string \<Rightarrow> (response \<Rightarrow> contact_error + 'a) \<Rightarrow> ('a, 's) ask"
where
  "ask_server W meth url headers body k s =
     (case wb_send W meth url headers body s of
        (Inl _, s') \<Rightarrow> (Inl transport_error, s')
      | (Inr r, s') \<Rightarrow> (k r, s'))"

definition if_match :: "string option \<Rightarrow> (string \<times> string) list" where
  "if_match version = (case version of None \<Rightarrow> [] | Some v \<Rightarrow> [(''If-Match'', v)])"

section \<open>XML by text search\<close>

definition tag_prefix :: "bool \<Rightarrow> string" where
  "tag_prefix closing = (if closing then ''</'' else ''<'')"

definition tag_is :: "string \<Rightarrow> string \<Rightarrow> bool" where
  "tag_is name tag = (local_name (takeWhile (\<lambda>c. c \<noteq> CHR ''>'' \<and> \<not> is_ws c) tag) = name)"

fun find_local_tag :: "string \<Rightarrow> bool \<Rightarrow> string \<Rightarrow> nat option" where
  "find_local_tag name closing [] = None"
| "find_local_tag name closing (c # s) =
     (if starts_with (tag_prefix closing) (c # s) \<and> tag_is name (drop (length (tag_prefix closing)) (c # s)) then Some 0
      else map_option Suc (find_local_tag name closing s))"

definition strip_cdata :: "string \<Rightarrow> string" where
  "strip_cdata v =
     (if starts_with ''<![CDATA['' v \<and> ends_with '']]>'' (drop 9 v) then take (length v - 12) (drop 9 v) else v)"

definition xml_unescape :: "string \<Rightarrow> string" where
  "xml_unescape v = replace_str ''&amp;'' ''&'' (replace_str ''&gt;'' ''>'' (replace_str ''&lt;'' ''<'' v))"

definition xml_escape :: "string \<Rightarrow> string" where
  "xml_escape v = replace_str ''>'' ''&gt;'' (replace_str ''<'' ''&lt;'' (replace_str ''&'' ''&amp;'' v))"

definition after_gt :: "string \<Rightarrow> string option" where
  "after_gt s = map_option (\<lambda>i. drop (i + 1) s) (find_str ''>'' s)"

definition xml_text :: "string \<Rightarrow> string \<Rightarrow> string option" where
  "xml_text xml name =
     (case find_local_tag name False xml of
        None \<Rightarrow> None
      | Some start \<Rightarrow>
          (case after_gt (drop start xml) of
             None \<Rightarrow> None
           | Some content \<Rightarrow>
               map_option (\<lambda>close. trim (xml_unescape (strip_cdata (take close content)))) (find_local_tag name True content)))"

text \<open>The first response element with its tags, and the text behind it.\<close>

definition next_response :: "string \<Rightarrow> (string \<times> string) option" where
  "next_response xml =
     (case find_local_tag ''response'' False xml of
        None \<Rightarrow> None
      | Some start \<Rightarrow>
          (let after_start = drop start xml in
           case find_str ''>'' after_start of
             None \<Rightarrow> None
           | Some open_end \<Rightarrow>
               (case find_local_tag ''response'' True (drop (open_end + 1) after_start) of
                  None \<Rightarrow> None
                | Some close \<Rightarrow>
                    (case find_str ''>'' (drop (open_end + 1 + close) after_start) of
                       None \<Rightarrow> None
                     | Some close_end \<Rightarrow>
                         (let stop = open_end + 1 + close + close_end + 1
                          in Some (take stop after_start, drop stop after_start))))))"

lemma next_response_shorter: "next_response xml = Some (r, rest) \<Longrightarrow> length rest < length xml"
  by (auto simp: next_response_def Let_def split: option.splits dest!: find_str_Some)

function xml_responses :: "string \<Rightarrow> string list" where
  "xml_responses xml = (case next_response xml of None \<Rightarrow> [] | Some (r, rest) \<Rightarrow> r # xml_responses rest)"
  by pat_completeness auto
termination
  by (relation "measure length") (auto dest: next_response_shorter)

declare xml_responses.simps [simp del]

section \<open>CardDAV\<close>

definition managed_properties :: "string list" where
  "managed_properties = [''BEGIN'', ''VERSION'', ''UID'', ''FN'', ''N'', ''ORG'', ''TITLE'', ''EMAIL'', ''TEL'', ''ADR'', ''NOTE'', ''END'']"

definition line_key :: "string \<Rightarrow> string" where
  "line_key line = (case split_once CHR '':'' line of None \<Rightarrow> line | Some (key, _) \<Rightarrow> key)"

definition preserved_lines :: "string \<Rightarrow> string list" where
  "preserved_lines raw = filter (\<lambda>l. property_name (line_key l) \<notin> set managed_properties) (lines_of (replace_str crlf [lf] raw))"

definition is_end_line :: "string \<Rightarrow> bool" where
  "is_end_line l = (to_lower l = to_lower ''END:VCARD'')"

text \<open>Insertion before the first END line, or at the end.\<close>

definition insert_before_end :: "string list \<Rightarrow> string list \<Rightarrow> string list" where
  "insert_before_end new ls = takeWhile (\<lambda>l. \<not> is_end_line l) ls @ new @ dropWhile (\<lambda>l. \<not> is_end_line l) ls"

definition carddav_vcard :: "parsed_contact \<Rightarrow> string" where
  "carddav_vcard c =
     (case pc_raw_vcard c of
        None \<Rightarrow> contact_to_vcard c
      | Some raw \<Rightarrow>
          (if preserved_lines raw = [] then contact_to_vcard c
           else join_with crlf (insert_before_end (preserved_lines raw) (lines_of (contact_to_vcard c)))))"

definition with_photo :: "'s web \<Rightarrow> photo_payload \<Rightarrow> string \<Rightarrow> string" where
  "with_photo W ph current =
     join_with crlf (insert_before_end [''PHOTO;MEDIATYPE='' @ ph_type ph @ '':'' @ wb_base64 W (ph_bytes ph)]
       (filter (\<lambda>l. \<not> starts_with ''PHOTO'' (to_upper l)) (lines_of (replace_str crlf [lf] current))))"

definition carddav_book :: "'s web \<Rightarrow> string \<Rightarrow> string \<Rightarrow> contact_book option" where
  "carddav_book W base r =
     (case xml_text r ''href'' of
        None \<Rightarrow> None
      | Some href \<Rightarrow>
          (case wb_join W base href of
             None \<Rightarrow> None
           | Some remote \<Rightarrow> Some \<lparr>cb_remote = remote,
               cb_name = (case xml_text r ''displayname'' of None \<Rightarrow> href | Some n \<Rightarrow> n), cb_parent = None, cb_default = False,
               cb_writable = (\<not> contains_str ''read-only'' r),
               cb_metadata = JObj [(''supports_sync_collection'', JBool (contains_str ''sync-collection'' r))]\<rparr>))"

definition parse_carddav_books :: "'s web \<Rightarrow> string \<Rightarrow> string \<Rightarrow> contact_book list" where
  "parse_carddav_books W xml base =
     filter_some (map (carddav_book W base) (filter (contains_str ''addressbook'') (xml_responses xml)))"

definition gone_response :: "string \<Rightarrow> bool" where
  "gone_response r = (contains_str '' 404 '' r \<or> contains_str ''>404<'' r)"

definition carddav_change :: "'s web \<Rightarrow> string \<Rightarrow> string \<Rightarrow> change_page \<Rightarrow> change_page" where
  "carddav_change W book r page =
     (case xml_text r ''href'' of
        None \<Rightarrow> page
      | Some href \<Rightarrow>
          (let remote = (case wb_join W book href of Some u \<Rightarrow> u | None \<Rightarrow> href) in
           if gone_response r
           then page\<lparr>cp_tombstones := cp_tombstones page @ [\<lparr>tb_book = book, tb_remote = remote\<rparr>]\<rparr>
           else (case Option.bind (xml_text r ''address-data'') (parse_vcard (wb_cards W)) of
                   None \<Rightarrow> page
                 | Some c \<Rightarrow> page\<lparr>cp_upserts := cp_upserts page @
                     [\<lparr>rc_book = book, rc_remote = remote, rc_version = xml_text r ''getetag'', rc_contact = c,
                       rc_photo = map_option (\<lambda>p. \<lparr>rp_reference = p, rp_version = xml_text r ''getetag'', rp_content_type = None\<rparr>) (pc_photo c),
                       rc_groups = [], rc_metadata = JNull\<rparr>]\<rparr>)))"

definition parse_carddav_changes :: "'s web \<Rightarrow> string \<Rightarrow> string \<Rightarrow> change_page" where
  "parse_carddav_changes W xml book =
     fold (carddav_change W book) (xml_responses xml)
       (empty_page\<lparr>cp_cursor := Some (case xml_text xml ''sync-token'' of None \<Rightarrow> ''full-query'' | Some t \<Rightarrow> t)\<rparr>)"

definition conditional_request ::
  "'s web \<Rightarrow> dav_auth \<Rightarrow> string \<Rightarrow> string \<Rightarrow> string option \<Rightarrow> string option \<Rightarrow> bool \<Rightarrow> (mutation_result, 's) ask"
where
  "conditional_request W auth meth url version body create =
     ask_server W meth url
       ([apply_auth W auth] @ (if create then [(''If-None-Match'', ''*'')] else if_match version)
         @ (case body of None \<Rightarrow> [] | Some _ \<Rightarrow> [(''Content-Type'', ''text/vcard; charset=utf-8'')]))
       (or_empty body)
       (\<lambda>r. if rs_status r = 412 then Inl (provider_error ConflictError ''CardDAV contact changed remotely'' None)
             else case checked_response W r of
               Inl e \<Rightarrow> Inl e
             | Inr r' \<Rightarrow> Inr \<lparr>mr_remote = url, mr_version = rs_header r' ''ETag''\<rparr>)"

text \<open>The two steps of the discovery that find the home of the address books.\<close>

definition home_step ::
  "'s web \<Rightarrow> string \<Rightarrow> dav_auth \<Rightarrow> string \<Rightarrow> string \<Rightarrow> string \<Rightarrow> string \<Rightarrow> string \<Rightarrow> (string, 's) ask"
where
  "home_step W base auth url body target missing invalid s =
     (case dav W ''PROPFIND'' url auth ''0'' xml_content body s of
        (Inl e, s') \<Rightarrow> (Inl (carddav_error e), s')
      | (Inr xml, s') \<Rightarrow>
          ((case first_href_in_elem W xml target of
              None \<Rightarrow> Inl (invalid_response missing)
            | Some href \<Rightarrow> (case wb_join W base href of None \<Rightarrow> Inl (invalid_response invalid) | Some u \<Rightarrow> Inr u)), s'))"

definition addressbook_home :: "'s web \<Rightarrow> string \<Rightarrow> dav_auth \<Rightarrow> (string, 's) ask" where
  "addressbook_home W base auth s =
     (case home_step W base auth base (dav_prop ''<d:current-user-principal/>'') ''current-user-principal''
             ''CardDAV principal was not returned'' ''CardDAV principal URL was invalid'' s of
        (Inl e, s') \<Rightarrow> (Inl e, s')
      | (Inr owner, s') \<Rightarrow> home_step W base auth owner home_body ''addressbook-home-set''
             ''CardDAV address-book home was not returned'' ''CardDAV address-book home URL was invalid'' s')"

definition books_body :: string where
  "books_body = ''<d:propfind xmlns:d='' @ [CHR 0x22] @ ''DAV:'' @ [CHR 0x22] @ '' xmlns:c='' @ [CHR 0x22]
     @ ''urn:ietf:params:xml:ns:carddav'' @ [CHR 0x22]
     @ ''><d:prop><d:displayname/><d:resourcetype/><d:sync-token/><d:supported-report-set/></d:prop></d:propfind>''"

definition carddav_books :: "'s web \<Rightarrow> string \<Rightarrow> dav_auth \<Rightarrow> (contact_book list, 's) ask" where
  "carddav_books W base auth s =
     (case addressbook_home W base auth s of
        (Inl e, s') \<Rightarrow> (Inl e, s')
      | (Inr home, s') \<Rightarrow>
          (case dav W ''PROPFIND'' home auth ''1'' xml_content books_body s' of
             (Inl e, s'') \<Rightarrow> (Inl (carddav_error e), s'')
           | (Inr xml, s'') \<Rightarrow>
               (let books = parse_carddav_books W xml base in
                ((if books = [] then Inl (invalid_response ''no CardDAV address books were discovered'') else Inr books), s''))))"

definition card_ns :: string where
  "card_ns = '' xmlns:d='' @ [CHR 0x22] @ ''DAV:'' @ [CHR 0x22] @ '' xmlns:c='' @ [CHR 0x22] @ ''urn:ietf:params:xml:ns:carddav''
     @ [CHR 0x22] @ ''>''"

definition changes_body :: "string option \<Rightarrow> string" where
  "changes_body cursor =
     (case cursor of
        Some t \<Rightarrow> ''<d:sync-collection'' @ card_ns @ ''<d:sync-token>'' @ xml_escape t
          @ ''</d:sync-token><d:sync-level>1</d:sync-level><d:prop><d:getetag/><c:address-data/></d:prop></d:sync-collection>''
      | None \<Rightarrow> ''<c:addressbook-query'' @ card_ns @ ''<d:prop><d:getetag/><c:address-data/></d:prop></c:addressbook-query>'')"

definition carddav_changes ::
  "'s web \<Rightarrow> dav_auth \<Rightarrow> contact_book \<Rightarrow> string option \<Rightarrow> string option \<Rightarrow> (change_page, 's) ask"
where
  "carddav_changes W auth book cursor continuation s =
     (if continuation \<noteq> None then (Inl (invalid_response ''CardDAV does not use page continuations''), s)
      else case dav W ''REPORT'' (cb_remote book) auth ''1'' xml_content (changes_body cursor) s of
        (Inr xml, s') \<Rightarrow> (Inr (parse_carddav_changes W xml (cb_remote book)), s')
      | (Inl e, s') \<Rightarrow>
          (if cursor \<noteq> None then (Inl (provider_error CursorExpired ''CardDAV sync token is no longer valid'' None), s')
           else (Inl (carddav_error e), s')))"

text \<open>\<open>fresh\<close> makes the name of a new card.\<close>

definition carddav_create ::
  "'s web \<Rightarrow> ('s \<Rightarrow> string) \<Rightarrow> dav_auth \<Rightarrow> contact_book \<Rightarrow> parsed_contact \<Rightarrow> (mutation_result, 's) ask"
where
  "carddav_create W fresh auth book c s =
     (case wb_join W (cb_remote book) (fresh s @ ''.vcf'') of
        None \<Rightarrow> (Inl (invalid_response ''CardDAV book URL was invalid''), s)
      | Some url \<Rightarrow> conditional_request W auth ''PUT'' url None (Some (carddav_vcard c)) True s)"

text \<open>What all three providers make of the answer to a deletion.\<close>

definition deleted_answer :: "'s web \<Rightarrow> response \<Rightarrow> contact_error + unit" where
  "deleted_answer W r = (if rs_status r = 404 then Inr () else case checked_response W r of Inl e \<Rightarrow> Inl e | Inr _ \<Rightarrow> Inr ())"

definition carddav_delete :: "'s web \<Rightarrow> dav_auth \<Rightarrow> contact_book \<Rightarrow> string \<Rightarrow> string option \<Rightarrow> (unit, 's) ask" where
  "carddav_delete W auth book remote version =
     ask_server W ''DELETE'' remote (apply_auth W auth # if_match version) []
       (\<lambda>r. if rs_status r = 412 then Inl (provider_error ConflictError ''CardDAV contact changed remotely'' None)
             else deleted_answer W r)"

definition photo_answer :: "'s web \<Rightarrow> response \<Rightarrow> contact_error + photo_payload option" where
  "photo_answer W r = (if rs_status r = 404 then Inr None else case response_photo W r of Inl e \<Rightarrow> Inl e | Inr p \<Rightarrow> Inr (Some p))"

definition carddav_photo :: "'s web \<Rightarrow> dav_auth \<Rightarrow> contact_book \<Rightarrow> string \<Rightarrow> string option \<Rightarrow> (photo_payload option, 's) ask" where
  "carddav_photo W auth book remote reference s =
     (case reference of
        None \<Rightarrow> (Inr None, s)
      | Some u \<Rightarrow>
          (if starts_with ''http://'' u \<or> starts_with ''https://'' u
           then ask_server W ''GET'' u [apply_auth W auth] [] (photo_answer W) s
           else (Inr None, s)))"

definition carddav_update_photo ::
  "'s web \<Rightarrow> dav_auth \<Rightarrow> contact_book \<Rightarrow> string \<Rightarrow> string option \<Rightarrow> photo_payload \<Rightarrow> (mutation_result, 's) ask"
where
  "carddav_update_photo W auth book remote version ph s =
     (case ask_server W ''GET'' remote [apply_auth W auth] []
             (\<lambda>r. case checked_response W r of
                Inl e \<Rightarrow> Inl e
              | Inr r' \<Rightarrow> (case rs_body r' of Inl _ \<Rightarrow> Inl (invalid_response ''CardDAV contact vCard was invalid'') | Inr t \<Rightarrow> Inr t)) s of
        (Inl e, s') \<Rightarrow> (Inl e, s')
      | (Inr current, s') \<Rightarrow> conditional_request W auth ''PUT'' remote version (Some (with_photo W ph current)) False s')"

definition carddav_adapter :: "'s web \<Rightarrow> ('s \<Rightarrow> string) \<Rightarrow> string \<Rightarrow> dav_auth \<Rightarrow> 's adapter" where
  "carddav_adapter W fresh base auth =
     \<lparr>ad_books = (\<lambda>s. Some (carddav_books W base auth s)), ad_changes = carddav_changes W auth,
      ad_create = carddav_create W fresh auth,
      ad_update = (\<lambda>book remote version c. conditional_request W auth ''PUT'' remote version (Some (carddav_vcard c)) False),
      ad_delete = carddav_delete W auth, ad_photo = carddav_photo W auth, ad_update_photo = carddav_update_photo W auth\<rparr>"

section \<open>Google People\<close>

definition google_base :: "string \<Rightarrow> string" where
  "google_base url = trim_end_by (\<lambda>c. c = CHR ''/'') url"

definition google_person_fields :: string where
  "google_person_fields = ''names,emailAddresses,phoneNumbers,addresses,organizations,biographies,photos,memberships,metadata''"

definition google_update_fields :: string where
  "google_update_fields = ''names,emailAddresses,phoneNumbers,addresses,organizations,biographies,memberships''"

definition connections_url :: "'s web \<Rightarrow> string \<Rightarrow> string option \<Rightarrow> string option \<Rightarrow> string" where
  "connections_url W base cursor continuation =
     wb_query W (base @ ''/people/me/connections'')
       ([(''personFields'', google_person_fields), (''pageSize'', ''1000''), (''requestSyncToken'', ''true''),
         (''sources'', ''READ_SOURCE_TYPE_CONTACT'')]
        @ (case cursor of None \<Rightarrow> [] | Some t \<Rightarrow> [(''syncToken'', t)])
        @ (case continuation of None \<Rightarrow> [] | Some t \<Rightarrow> [(''pageToken'', t)]))"

definition google_mutation :: "'s web \<Rightarrow> string \<Rightarrow> response \<Rightarrow> contact_error + mutation_result" where
  "google_mutation W fallback r =
     (case checked_response W r of
        Inl e \<Rightarrow> Inl e
      | Inr r' \<Rightarrow>
          (case body_json W r' of
             None \<Rightarrow> Inl (invalid_response ''Google People returned invalid JSON'')
           | Some j \<Rightarrow> Inr \<lparr>mr_remote = (case as_str (jget j ''resourceName'') of Some n \<Rightarrow> n | None \<Rightarrow> fallback),
               mr_version = as_str (jget j ''etag'')\<rparr>))"

partial_function (option) google_groups ::
  "'s web \<Rightarrow> string \<Rightarrow> string \<Rightarrow> string \<Rightarrow> json list \<Rightarrow> 's \<Rightarrow> ((contact_error + json list) \<times> 's) option"
where
  "google_groups W base tok url acc s =
     (case ask_server W ''GET'' url [apply_auth W (Bearer tok)] [] (checked_json W) s of
        (res, s') \<Rightarrow>
          (case res of
             Inl e \<Rightarrow> Some (Inl e, s')
           | Inr j \<Rightarrow>
               (let acc' = acc @ filter (\<lambda>g. as_str (jget g ''resourceName'') \<noteq> None) (as_array (jget j ''contactGroups''))
                in case as_str (jget j ''nextPageToken'') of
                     None \<Rightarrow> Some (Inr acc', s')
                   | Some t \<Rightarrow> google_groups W base tok (base @ ''/contactGroups?pageSize=1000&pageToken='' @ t) acc' s')))"

definition google_default_book :: "json list \<Rightarrow> contact_book" where
  "google_default_book groups =
     \<lparr>cb_remote = ''contactGroups/myContacts'',
      cb_name = (case Option.bind (find (\<lambda>g. as_str (jget g ''resourceName'') = Some ''contactGroups/myContacts'') groups)
             (\<lambda>g. or_option (as_str (jget g ''formattedName'')) (as_str (jget g ''name''))) of Some n \<Rightarrow> n | None \<Rightarrow> ''Contacts''),
      cb_parent = None, cb_default = True, cb_writable = True, cb_metadata = JObj [(''contact_groups'', JArr groups)]\<rparr>"

definition google_books :: "'s web \<Rightarrow> string \<Rightarrow> string \<Rightarrow> 's \<Rightarrow> ((contact_error + contact_book list) \<times> 's) option" where
  "google_books W base tok s =
     map_option (\<lambda>(res, s'). (case res of Inl e \<Rightarrow> Inl e | Inr groups \<Rightarrow> Inr [google_default_book groups], s'))
       (google_groups W base tok (base @ ''/contactGroups?pageSize=1000'') [] s)"

definition google_group :: "json \<Rightarrow> group_membership option" where
  "google_group j = map_option (\<lambda>g. \<lparr>gm_remote = g, gm_name = None\<rparr>)
     (as_str (jget (jget j ''contactGroupMembership'') ''contactGroupResourceName''))"

definition google_person :: "string \<Rightarrow> json \<Rightarrow> string \<Rightarrow> remote_contact" where
  "google_person book j remote =
     \<lparr>rc_book = book, rc_remote = remote, rc_version = as_str (jget j ''etag''), rc_contact = google_contact j,
      rc_photo = map_option (\<lambda>u. \<lparr>rp_reference = u, rp_version = as_str (jget j ''etag''), rp_content_type = None\<rparr>)
        (as_str (jget (first_item (jget j ''photos'')) ''url'')),
      rc_groups = filter_some (map google_group (as_array (jget j ''memberships''))), rc_metadata = jget j ''metadata''\<rparr>"

definition google_change :: "string \<Rightarrow> json \<Rightarrow> change_page \<Rightarrow> change_page" where
  "google_change book j page =
     (let remote = or_empty (as_str (jget j ''resourceName'')) in
      if remote = [] then page
      else if as_bool (jget (jget j ''metadata'') ''deleted'') = Some True
      then page\<lparr>cp_tombstones := cp_tombstones page @ [\<lparr>tb_book = book, tb_remote = remote\<rparr>]\<rparr>
      else page\<lparr>cp_upserts := cp_upserts page @ [google_person book j remote]\<rparr>)"

definition parse_google_page :: "json \<Rightarrow> string \<Rightarrow> change_page" where
  "parse_google_page j book =
     fold (google_change book) (as_array (jget j ''connections''))
       (empty_page\<lparr>cp_continuation := as_str (jget j ''nextPageToken''), cp_cursor := as_str (jget j ''nextSyncToken'')\<rparr>)"

definition google_changes ::
  "'s web \<Rightarrow> string \<Rightarrow> string \<Rightarrow> contact_book \<Rightarrow> string option \<Rightarrow> string option \<Rightarrow> (change_page, 's) ask"
where
  "google_changes W base tok book cursor continuation =
     ask_server W ''GET'' (connections_url W base cursor continuation) [apply_auth W (Bearer tok)] []
       (\<lambda>r. if rs_status r = 410 then Inl (provider_error CursorExpired ''Google People sync token expired'' None)
             else case checked_json W r of Inl e \<Rightarrow> Inl e | Inr j \<Rightarrow> Inr (parse_google_page j (cb_remote book)))"

definition google_contact_body :: "parsed_contact \<Rightarrow> string option \<Rightarrow> json" where
  "google_contact_body c etag =
     (case etag of None \<Rightarrow> to_google_contact c | Some e \<Rightarrow> jset ''etag'' (JStr e) (to_google_contact c))"

definition google_send ::
  "'s web \<Rightarrow> string \<Rightarrow> string \<Rightarrow> string \<Rightarrow> json \<Rightarrow> string \<Rightarrow> (mutation_result, 's) ask"
where
  "google_send W tok meth url body fallback =
     ask_server W meth url [apply_auth W (Bearer tok)] (wb_to_json W body) (google_mutation W fallback)"

definition google_adapter :: "'s web \<Rightarrow> string \<Rightarrow> string \<Rightarrow> 's adapter" where
  "google_adapter W url tok =
     (let base = google_base url in
      \<lparr>ad_books = google_books W base tok, ad_changes = google_changes W base tok,
       ad_create = (\<lambda>book c. google_send W tok ''POST'' (base @ ''/people:createContact'') (google_contact_body c None) (pc_uid c)),
       ad_update = (\<lambda>book remote version c. google_send W tok ''PATCH''
          (wb_query W (base @ ''/'' @ remote @ '':updateContact'') [(''updatePersonFields'', google_update_fields)])
          (google_contact_body c version) remote),
       ad_delete = (\<lambda>book remote version. ask_server W ''DELETE'' (base @ ''/'' @ remote @ '':deleteContact'')
          [apply_auth W (Bearer tok)] [] (deleted_answer W)),
       ad_photo = (\<lambda>book remote reference. case reference of
            None \<Rightarrow> (\<lambda>s. (Inr None, s))
          | Some u \<Rightarrow> ask_server W ''GET'' u [apply_auth W (Bearer tok)] [] (photo_answer W)),
       ad_update_photo = (\<lambda>book remote version ph. google_send W tok ''PATCH'' (base @ ''/'' @ remote @ '':updateContactPhoto'')
          (JObj [(''photoBytes'', JStr (wb_base64 W (ph_bytes ph))), (''personFields'', JStr ''photos''),
             (''etag'', opt_json version)]) remote)\<rparr>)"

section \<open>Microsoft Graph\<close>

definition graph_default_book :: contact_book where
  "graph_default_book = \<lparr>cb_remote = ''default'', cb_name = ''Contacts'', cb_parent = None, cb_default = True,
     cb_writable = True, cb_metadata = JNull\<rparr>"

lemma json_member_size:
  assumes "x \<in> set (as_array (jget v k))"
  shows "size x < size v"
proof -
  obtain kvs where v: "v = JObj kvs" using assms by (cases v) simp_all
  obtain a where a: "map_of kvs k = Some a" "x \<in> set (as_array a)"
    using assms v by (cases "map_of kvs k") simp_all
  then obtain xs where xs: "map_of kvs k = Some (JArr xs)" "x \<in> set xs" by (cases a) simp_all
  then have "(k, JArr xs) \<in> set kvs" by (auto dest: map_of_SomeD)
  then have "size (JArr xs) < size v" unfolding v by (induction kvs) auto
  moreover have "size x < size (JArr xs)" using xs(2) by (induction xs) auto
  ultimately show ?thesis by simp
qed

function append_graph_folders :: "string option \<Rightarrow> json \<Rightarrow> contact_book list" where
  "append_graph_folders parent v =
     (case as_str (jget v ''id'') of
        None \<Rightarrow> []
      | Some remote \<Rightarrow>
          \<lparr>cb_remote = remote, cb_name = (case as_str (jget v ''displayName'') of Some n \<Rightarrow> n | None \<Rightarrow> remote),
           cb_parent = or_option parent (as_str (jget v ''parentFolderId'')), cb_default = False, cb_writable = True,
           cb_metadata = v\<rparr>
          # concat (map (append_graph_folders (Some remote)) (as_array (jget v ''childFolders''))))"
  by pat_completeness auto
termination
  by (relation "measure (size \<circ> snd)") (auto intro: json_member_size)

declare append_graph_folders.simps [simp del]

partial_function (option) graph_folders ::
  "'s web \<Rightarrow> string \<Rightarrow> string \<Rightarrow> contact_book list \<Rightarrow> 's \<Rightarrow> ((contact_error + contact_book list) \<times> 's) option"
where
  "graph_folders W tok url acc s =
     (case ask_server W ''GET'' url [apply_auth W (Bearer tok)] [] (checked_json W) s of
        (res, s') \<Rightarrow>
          (case res of
             Inl e \<Rightarrow> Some (Inl e, s')
           | Inr j \<Rightarrow>
               (let acc' = acc @ concat (map (append_graph_folders None) (as_array (jget j ''value'')))
                in case as_str (jget j ''@odata.nextLink'') of
                     None \<Rightarrow> Some (Inr acc', s')
                   | Some u \<Rightarrow> graph_folders W tok u acc' s')))"

definition contacts_collection :: "string \<Rightarrow> contact_book \<Rightarrow> string" where
  "contacts_collection base book =
     (if cb_default book then base @ ''/me/contacts''
      else base @ ''/me/contactFolders/'' @ cb_remote book @ ''/contacts'')"

definition graph_version :: "json \<Rightarrow> string option" where
  "graph_version j = or_option (as_str (jget j ''@odata.etag'')) (as_str (jget j ''changeKey''))"

definition graph_mutation :: "'s web \<Rightarrow> string \<Rightarrow> response \<Rightarrow> contact_error + mutation_result" where
  "graph_mutation W fallback r =
     (case checked_json W r of
        Inl e \<Rightarrow> Inl e
      | Inr j \<Rightarrow> Inr \<lparr>mr_remote = (case as_str (jget j ''id'') of Some n \<Rightarrow> n | None \<Rightarrow> fallback), mr_version = graph_version j\<rparr>)"

definition graph_change :: "string \<Rightarrow> json \<Rightarrow> change_page \<Rightarrow> change_page" where
  "graph_change book j page =
     (let remote = or_empty (as_str (jget j ''id'')) in
      if remote = [] then page
      else if jget j ''@removed'' \<noteq> JNull
      then page\<lparr>cp_tombstones := cp_tombstones page @ [\<lparr>tb_book = book, tb_remote = remote\<rparr>]\<rparr>
      else page\<lparr>cp_upserts := cp_upserts page @
        [\<lparr>rc_book = book, rc_remote = remote, rc_version = graph_version j, rc_contact = graph_contact j,
          rc_photo = Some \<lparr>rp_reference = remote @ ''/photo/$value'', rp_version = graph_version j, rp_content_type = None\<rparr>,
          rc_groups = [], rc_metadata = j\<rparr>]\<rparr>)"

definition parse_graph_page :: "json \<Rightarrow> string \<Rightarrow> change_page" where
  "parse_graph_page j book =
     fold (graph_change book) (as_array (jget j ''value''))
       (empty_page\<lparr>cp_continuation := as_str (jget j ''@odata.nextLink''), cp_cursor := as_str (jget j ''@odata.deltaLink'')\<rparr>)"

definition graph_changes ::
  "'s web \<Rightarrow> string \<Rightarrow> string \<Rightarrow> contact_book \<Rightarrow> string option \<Rightarrow> string option \<Rightarrow> (change_page, 's) ask"
where
  "graph_changes W base tok book cursor continuation =
     ask_server W ''GET'' (case or_option continuation cursor of Some u \<Rightarrow> u | None \<Rightarrow> contacts_collection base book @ ''/delta'')
       [apply_auth W (Bearer tok)] []
       (\<lambda>r. case checked_json W r of Inl e \<Rightarrow> Inl e | Inr j \<Rightarrow> Inr (parse_graph_page j (cb_remote book)))"

definition graph_adapter :: "'s web \<Rightarrow> string \<Rightarrow> string \<Rightarrow> 's adapter" where
  "graph_adapter W url tok =
     (let base = google_base url; auth = apply_auth W (Bearer tok) in
      \<lparr>ad_books = graph_folders W tok (base @ ''/me/contactFolders?$top=100&$expand=childFolders'') [graph_default_book],
       ad_changes = graph_changes W base tok,
       ad_create = (\<lambda>book c. ask_server W ''POST'' (contacts_collection base book) [auth] (wb_to_json W (to_graph_contact c))
          (graph_mutation W (pc_uid c))),
       ad_update = (\<lambda>book remote version c. ask_server W ''PATCH'' (contacts_collection base book @ ''/'' @ remote)
          (auth # if_match version) (wb_to_json W (to_graph_contact c)) (graph_mutation W remote)),
       ad_delete = (\<lambda>book remote version. ask_server W ''DELETE'' (contacts_collection base book @ ''/'' @ remote)
          (auth # if_match version) [] (deleted_answer W)),
       ad_photo = (\<lambda>book remote reference. ask_server W ''GET'' (contacts_collection base book @ ''/'' @ remote @ ''/photo/$value'')
          [auth] [] (photo_answer W)),
       ad_update_photo = (\<lambda>book remote version ph. ask_server W ''PUT'' (contacts_collection base book @ ''/'' @ remote @ ''/photo/$value'')
          ([auth, (''Content-Type'', ph_type ph)] @ if_match version) (ph_bytes ph)
          (\<lambda>r. case checked_response W r of
             Inl e \<Rightarrow> Inl e | Inr r' \<Rightarrow> Inr \<lparr>mr_remote = remote, mr_version = rs_header r' ''ETag''\<rparr>))\<rparr>)"

section \<open>The interface\<close>

text \<open>What the synchronisation relies on: a page speaks only of the book it was asked for, and names its contacts.\<close>

definition page_of :: "string \<Rightarrow> change_page \<Rightarrow> bool" where
  "page_of book page = ((\<forall>u \<in> set (cp_upserts page). rc_book u = book) \<and> (\<forall>t \<in> set (cp_tombstones page). tb_book t = book))"

locale contact_provider =
  fixes A :: "'s adapter"
  assumes changes_of_book: "ad_changes A book cursor continuation s = (Inr page, s') \<Longrightarrow> page_of (cb_remote book) page"

lemma page_of_fold:
  assumes "\<And>x page. page_of book page \<Longrightarrow> page_of book (f x page)" "page_of book page"
  shows "page_of book (fold f xs page)"
  using assms(2) by (induction xs arbitrary: page) (simp_all add: assms(1))

lemma page_of_empty [simp]:
  "page_of book (empty_page\<lparr>cp_continuation := x, cp_cursor := y\<rparr>)" "page_of book (empty_page\<lparr>cp_cursor := y\<rparr>)"
  by (simp_all add: page_of_def empty_page_def)

lemma page_of_graph: "page_of book (parse_graph_page j book)"
  unfolding parse_graph_page_def
  by (rule page_of_fold) (auto simp: page_of_def graph_change_def empty_page_def Let_def)

lemma page_of_google: "page_of book (parse_google_page j book)"
  unfolding parse_google_page_def
  by (rule page_of_fold) (auto simp: page_of_def google_change_def google_person_def empty_page_def Let_def)

lemma page_of_carddav: "page_of book (parse_carddav_changes W xml book)"
  unfolding parse_carddav_changes_def
  by (rule page_of_fold) (auto simp: page_of_def carddav_change_def empty_page_def Let_def split: option.splits)

lemma ask_server_Inr:
  "ask_server W meth url hs body k s = (Inr x, s') \<Longrightarrow> \<exists>r. wb_send W meth url hs body s = (Inr r, s') \<and> k r = Inr x"
  by (auto simp: ask_server_def split: prod.splits sum.splits)

interpretation carddav: contact_provider "carddav_adapter W fresh base auth" for W fresh base auth
  by unfold_locales
     (auto simp: carddav_adapter_def carddav_changes_def page_of_carddav split: if_splits prod.splits sum.splits)

interpretation google: contact_provider "google_adapter W url tok" for W url tok
  by unfold_locales
     (auto simp: google_adapter_def google_changes_def page_of_google Let_def split: if_splits sum.splits dest!: ask_server_Inr)

interpretation graph: contact_provider "graph_adapter W url tok" for W url tok
  by unfold_locales
     (auto simp: graph_adapter_def graph_changes_def page_of_graph Let_def split: if_splits sum.splits dest!: ask_server_Inr)

section \<open>XML text reads back\<close>

definition entity :: "char \<Rightarrow> string" where
  "entity c = (if c = CHR ''&'' then ''&amp;'' else if c = CHR ''<'' then ''&lt;'' else if c = CHR ''>'' then ''&gt;'' else [c])"

lemma xml_escape_eq: "xml_escape v = concat (map entity v)"
  by (induction v) (auto simp: xml_escape_def replace_char entity_def)

lemma replace_step: "p \<noteq> [] \<Longrightarrow> \<not> starts_with p (c # s) \<Longrightarrow> replace_str p r (c # s) = c # replace_str p r s"
  by (subst replace_str.simps) simp

lemma replace_entity:
  "replace_str ''&lt;'' ''<'' (concat (map entity v)) = concat (map (\<lambda>c. if c = CHR ''<'' then [c] else entity c) v)"
  "replace_str ''&gt;'' ''>'' (concat (map (\<lambda>c. if c = CHR ''<'' then [c] else entity c) v))
     = concat (map (\<lambda>c. if c = CHR ''&'' then ''&amp;'' else [c]) v)"
  "replace_str ''&amp;'' ''&'' (concat (map (\<lambda>c. if c = CHR ''&'' then ''&amp;'' else [c]) v)) = v"
proof -
  have match: "replace_str ''&lt;'' ''<'' (CHR ''&'' # CHR ''l'' # CHR ''t'' # CHR '';'' # s) = CHR ''<'' # replace_str ''&lt;'' ''<'' s"
    "replace_str ''&gt;'' ''>'' (CHR ''&'' # CHR ''g'' # CHR ''t'' # CHR '';'' # s) = CHR ''>'' # replace_str ''&gt;'' ''>'' s"
    "replace_str ''&amp;'' ''&'' (CHR ''&'' # CHR ''a'' # CHR ''m'' # CHR ''p'' # CHR '';'' # s) = CHR ''&'' # replace_str ''&amp;'' ''&'' s" for s
    using replace_match [of "''&lt;''" "''<''" s] replace_match [of "''&gt;''" "''>''" s] replace_match [of "''&amp;''" "''&''" s] by simp_all
  show "replace_str ''&lt;'' ''<'' (concat (map entity v)) = concat (map (\<lambda>c. if c = CHR ''<'' then [c] else entity c) v)"
    by (induction v) (simp_all add: entity_def match replace_step starts_with_def)
  show "replace_str ''&gt;'' ''>'' (concat (map (\<lambda>c. if c = CHR ''<'' then [c] else entity c) v))
     = concat (map (\<lambda>c. if c = CHR ''&'' then ''&amp;'' else [c]) v)"
    by (induction v) (simp_all add: entity_def match replace_step starts_with_def)
  show "replace_str ''&amp;'' ''&'' (concat (map (\<lambda>c. if c = CHR ''&'' then ''&amp;'' else [c]) v)) = v"
    by (induction v) (simp_all add: match replace_step starts_with_def)
qed

lemma xml_unescape_escape: "xml_unescape (xml_escape v) = v"
  by (simp add: xml_unescape_def xml_escape_eq replace_entity)

section \<open>A card updated over CardDAV\<close>

text \<open>
  Lines of the stored card that the code does not manage are kept before the end line.  A folded line
  is not joined before, so the continuation of a managed property counts as a line to keep.
\<close>

definition folded_card :: string where
  "folded_card = join_with crlf [''BEGIN:VCARD'', ''UID:1'', ''FN:Ann'', ''NOTE:old'', '' remark'', ''END:VCARD'']"

lemma folded_lines: "preserved_lines folded_card = ['' remark'']"
proof -
  have lines: "lines_of (replace_str crlf [lf] folded_card)
      = [''BEGIN:VCARD'', ''UID:1'', ''FN:Ann'', ''NOTE:old'', '' remark'', ''END:VCARD'']"
    by code_simp
  show ?thesis unfolding preserved_lines_def lines by code_simp
qed

end
