(* ===== verification/Contact_Store.thy ===== *)
theory Contact_Store
  imports Contact_Providers "HOL-Library.List_Lexorder"
begin

text \<open>
  The contact tables and their repository (backend/contact-sync/src/repository.rs, migrations 0031 and
  0034): sources, address books, contacts, groups and memberships, with the unique keys and the
  cascading deletions of the schema.

  A transaction that fails leaves the database as it was: an operation returns the new database or an
  error.  Random ids are the counter \<open>kb_next\<close>.  The JSON columns of a contact are the lists they encode.
\<close>

section \<open>Tables\<close>

record source_row =
  so_id :: string
  so_name :: string
  so_type :: string
  so_base_url :: "string option"
  so_auth :: string
  so_credentials :: string
  so_mailbox :: "string option"
  so_mode :: string
  so_state :: string
  so_reason :: "string option"
  so_enabled :: bool
  so_cache_retained :: bool
  so_generation :: int
  so_metadata :: string
  so_sync_status :: string
  so_sync_error :: "string option"
  so_synced :: "string option"

record book_row =
  bo_id :: nat
  bo_source :: string
  bo_remote :: string
  bo_name :: string
  bo_parent :: "string option"
  bo_default :: bool
  bo_writable :: bool
  bo_cursor :: "string option"
  bo_generation :: int
  bo_metadata :: json

record contact_row =
  kr_id :: nat
  kr_source :: string
  kr_book :: "nat option"
  kr_uid :: string
  kr_contact :: parsed_contact
  kr_version :: "string option"
  kr_metadata :: json
  kr_photo :: "string option"
  kr_photo_blob :: "string option"
  kr_photo_version :: "string option"
  kr_photo_type :: "string option"
  kr_generation :: int

record group_row =
  gr_id :: nat
  gr_source :: string
  gr_book :: "nat option"
  gr_name :: string
  gr_remote :: "string option"
  gr_generation :: int

record contact_db =
  kb_sources :: "source_row list"
  kb_books :: "book_row list"
  kb_contacts :: "contact_row list"
  kb_groups :: "group_row list"
  kb_members :: "(nat \<times> nat) list"
  kb_next :: nat

datatype store_error = Protocol string | Constraint | RowNotFound

definition find_source :: "contact_db \<Rightarrow> string \<Rightarrow> source_row option" where
  "find_source db src = find (\<lambda>r. so_id r = src) (kb_sources db)"

definition find_book :: "contact_db \<Rightarrow> string \<Rightarrow> string \<Rightarrow> book_row option" where
  "find_book db src remote = find (\<lambda>b. bo_source b = src \<and> bo_remote b = remote) (kb_books db)"

definition find_contact :: "contact_db \<Rightarrow> string \<Rightarrow> string \<Rightarrow> contact_row option" where
  "find_contact db src uid = find (\<lambda>r. kr_source r = src \<and> kr_uid r = uid) (kb_contacts db)"

definition find_group :: "contact_db \<Rightarrow> string \<Rightarrow> string \<Rightarrow> group_row option" where
  "find_group db src remote = find (\<lambda>g. gr_source g = src \<and> gr_remote g = Some remote) (kb_groups db)"

text \<open>Deletions with their cascades.\<close>

definition delete_contacts :: "(contact_row \<Rightarrow> bool) \<Rightarrow> contact_db \<Rightarrow> contact_db" where
  "delete_contacts P db = db\<lparr>kb_contacts := filter (\<lambda>r. \<not> P r) (kb_contacts db),
     kb_members := filter (\<lambda>(c, g). \<not> (\<exists>r \<in> set (kb_contacts db). P r \<and> kr_id r = c)) (kb_members db)\<rparr>"

definition delete_groups :: "(group_row \<Rightarrow> bool) \<Rightarrow> contact_db \<Rightarrow> contact_db" where
  "delete_groups P db = db\<lparr>kb_groups := filter (\<lambda>g. \<not> P g) (kb_groups db),
     kb_members := filter (\<lambda>(c, i). \<not> (\<exists>g \<in> set (kb_groups db). P g \<and> gr_id g = i)) (kb_members db)\<rparr>"

definition of_book :: "book_row list \<Rightarrow> nat option \<Rightarrow> bool" where
  "of_book bs b = (\<exists>r \<in> set bs. b = Some (bo_id r))"

definition delete_books :: "(book_row \<Rightarrow> bool) \<Rightarrow> contact_db \<Rightarrow> contact_db" where
  "delete_books P db =
     (let gone = filter P (kb_books db)
      in (delete_groups (\<lambda>g. of_book gone (gr_book g)) (delete_contacts (\<lambda>r. of_book gone (kr_book r)) db))
           \<lparr>kb_books := filter (\<lambda>b. \<not> P b) (kb_books db)\<rparr>)"

section \<open>Sources\<close>

record mailbox_source =
  ms_email_account :: string
  ms_name :: string
  ms_provider :: string
  ms_base_url :: "string option"
  ms_enabled :: bool
  ms_state :: string
  ms_reason :: "string option"

record legacy_source =
  lg_source :: string
  lg_provider :: string
  lg_identity :: "string option"
  lg_base_url :: "string option"

record mailbox_identity =
  mi_email_account :: string
  mi_provider :: string
  mi_identity :: string
  mi_carddav_url :: "string option"

definition normalized_url :: "string option \<Rightarrow> string option" where
  "normalized_url v = map_option (\<lambda>u. to_lower (trim_end_by (\<lambda>c. c = CHR ''/'') (trim u))) v"

definition is_candidate :: "legacy_source \<Rightarrow> mailbox_identity \<Rightarrow> bool" where
  "is_candidate l m =
     (mi_provider m = lg_provider l
      \<and> (if lg_provider l = ''cardav''
         then normalized_url (lg_base_url l) \<noteq> None \<and> normalized_url (lg_base_url l) = normalized_url (mi_carddav_url m)
         else (case lg_identity l of None \<Rightarrow> False | Some i \<Rightarrow> to_lower i = to_lower (mi_identity m))))"

definition unambiguous_mailbox_match :: "legacy_source \<Rightarrow> mailbox_identity list \<Rightarrow> string option" where
  "unambiguous_mailbox_match l ms =
     (case filter (is_candidate l) ms of [m] \<Rightarrow> Some (mi_email_account m) | _ \<Rightarrow> None)"

definition link_legacy_source :: "string \<Rightarrow> string \<Rightarrow> contact_db \<Rightarrow> bool \<times> contact_db" where
  "link_legacy_source src mailbox db =
     (if \<exists>r \<in> set (kb_sources db). so_mailbox r = Some mailbox \<and> so_id r \<noteq> src then (False, db)
      else (let hit = (\<lambda>r. so_id r = src \<and> (so_mailbox r = None \<or> so_mailbox r = Some mailbox))
            in (length (filter hit (kb_sources db)) = 1,
                db\<lparr>kb_sources := map (\<lambda>r. if hit r then r\<lparr>so_mailbox := Some mailbox, so_mode := ''mailbox''\<rparr> else r)
                     (kb_sources db)\<rparr>)))"

definition source_columns :: "mailbox_source \<Rightarrow> source_row \<Rightarrow> source_row" where
  "source_columns m r = r\<lparr>so_name := ms_name m, so_type := ms_provider m, so_base_url := ms_base_url m,
     so_auth := (if ms_provider m = ''cardav'' then ''basic'' else ''oauth2''), so_mode := ''mailbox'',
     so_state := ms_state m, so_reason := ms_reason m, so_enabled := ms_enabled m\<rparr>"

text \<open>\<open>fresh\<close> is the id of a new source.\<close>

definition reconcile_mailbox_source :: "string \<Rightarrow> mailbox_source \<Rightarrow> contact_db \<Rightarrow> string \<times> contact_db" where
  "reconcile_mailbox_source fresh m db =
     (case find (\<lambda>r. so_mailbox r = Some (ms_email_account m)) (kb_sources db) of
        Some r \<Rightarrow> (so_id r, db\<lparr>kb_sources := map (\<lambda>q. if so_id q = so_id r then source_columns m q else q) (kb_sources db)\<rparr>)
      | None \<Rightarrow> (fresh, db\<lparr>kb_sources := kb_sources db @
          [source_columns m \<lparr>so_id = fresh, so_name = [], so_type = [], so_base_url = None, so_auth = [], so_credentials = [],
             so_mailbox = Some (ms_email_account m), so_mode = [], so_state = [], so_reason = None, so_enabled = False,
             so_cache_retained = True, so_generation = 0, so_metadata = ''{}'', so_sync_status = ''idle'', so_sync_error = None, so_synced = None\<rparr>]\<rparr>))"

definition update_source :: "string \<Rightarrow> (source_row \<Rightarrow> source_row) \<Rightarrow> contact_db \<Rightarrow> contact_db" where
  "update_source src f db = db\<lparr>kb_sources := map (\<lambda>r. if so_id r = src then f r else r) (kb_sources db)\<rparr>"

definition source_generation :: "contact_db \<Rightarrow> string \<Rightarrow> store_error + int" where
  "source_generation db src = (case find_source db src of None \<Rightarrow> Inl RowNotFound | Some r \<Rightarrow> Inr (so_generation r))"

definition set_source_state :: "string \<Rightarrow> string \<Rightarrow> string option \<Rightarrow> contact_db \<Rightarrow> contact_db" where
  "set_source_state src state reason =
     update_source src (\<lambda>r. r\<lparr>so_state := state, so_reason := reason,
       so_sync_status := (if state = ''syncing'' then ''syncing'' else if state = ''error'' then ''error'' else ''idle''),
       so_sync_error := (if state = ''error'' then reason else None)\<rparr>)"

definition paused_states :: "string list" where
  "paused_states = [''disabled'', ''consent_required'', ''reauth_required'', ''unavailable'']"

definition eligible_source_ids :: "contact_db \<Rightarrow> string list" where
  "eligible_source_ids db =
     sort_key (map (of_char :: char \<Rightarrow> nat))
       (map so_id (filter (\<lambda>r. so_enabled r \<and> so_state r \<notin> set paused_states) (kb_sources db)))"

section \<open>Books and groups\<close>

definition book_columns :: "contact_book \<Rightarrow> int \<Rightarrow> book_row \<Rightarrow> book_row" where
  "book_columns b gen r = r\<lparr>bo_name := cb_name b, bo_parent := cb_parent b, bo_default := cb_default b,
     bo_writable := cb_writable b, bo_generation := gen, bo_metadata := cb_metadata b\<rparr>"

definition upsert_book :: "string \<Rightarrow> contact_book \<Rightarrow> int \<Rightarrow> contact_db \<Rightarrow> store_error + (nat \<times> contact_db)" where
  "upsert_book src b gen db =
     (case find_book db src (cb_remote b) of
        Some r \<Rightarrow> Inr (bo_id r, db\<lparr>kb_books :=
          map (\<lambda>q. if bo_source q = src \<and> bo_remote q = cb_remote b then book_columns b gen q else q) (kb_books db)\<rparr>)
      | None \<Rightarrow>
          (if find_source db src = None then Inl Constraint
           else Inr (kb_next db, db\<lparr>kb_books := kb_books db @
             [book_columns b gen \<lparr>bo_id = kb_next db, bo_source = src, bo_remote = cb_remote b, bo_name = [], bo_parent = None,
                bo_default = False, bo_writable = True, bo_cursor = None, bo_generation = 0, bo_metadata = JNull\<rparr>],
             kb_next := kb_next db + 1\<rparr>)))"

definition name_taken :: "string \<Rightarrow> string \<Rightarrow> group_row list \<Rightarrow> bool" where
  "name_taken src name gs = (\<exists>g \<in> set gs. gr_source g = src \<and> gr_name g = name)"

text \<open>
  The upsert of a group: \<open>fresh_name\<close> names a new row, \<open>rename\<close> the existing one.  Names are unique in a
  source, by a key that the conflict clause does not cover.
\<close>

definition upsert_group ::
  "string \<Rightarrow> nat \<Rightarrow> int \<Rightarrow> string \<Rightarrow> string \<Rightarrow> string option \<Rightarrow> contact_db \<Rightarrow> store_error + (nat \<times> contact_db)"
where
  "upsert_group src book gen remote fresh_name rename db =
     (case find_group db src remote of
        Some g \<Rightarrow>
          (let name = (case rename of Some n \<Rightarrow> n | None \<Rightarrow> gr_name g) in
           if name_taken src name (filter (\<lambda>q. gr_id q \<noteq> gr_id g) (kb_groups db)) then Inl Constraint
           else Inr (gr_id g, db\<lparr>kb_groups :=
             map (\<lambda>q. if gr_id q = gr_id g then q\<lparr>gr_book := Some book, gr_name := name, gr_generation := gen\<rparr> else q) (kb_groups db)\<rparr>))
      | None \<Rightarrow>
          (if name_taken src fresh_name (kb_groups db) then Inl Constraint
           else Inr (kb_next db, db\<lparr>kb_groups := kb_groups db @
             [\<lparr>gr_id = kb_next db, gr_source = src, gr_book = Some book, gr_name = fresh_name, gr_remote = Some remote, gr_generation = gen\<rparr>],
             kb_next := kb_next db + 1\<rparr>)))"

definition provider_group :: "json \<Rightarrow> (string \<times> string) option" where
  "provider_group j = map_option (\<lambda>remote. (remote,
       case or_option (as_str (jget j ''formattedName'')) (as_str (jget j ''name'')) of Some n \<Rightarrow> n | None \<Rightarrow> remote))
     (as_str (jget j ''resourceName''))"

fun upsert_groups :: "string \<Rightarrow> nat \<Rightarrow> int \<Rightarrow> (string \<times> string) list \<Rightarrow> contact_db \<Rightarrow> store_error + contact_db" where
  "upsert_groups src book gen [] db = Inr db"
| "upsert_groups src book gen ((remote, name) # gs) db =
     (case upsert_group src book gen remote name (Some name) db of
        Inl e \<Rightarrow> Inl e
      | Inr (_, db') \<Rightarrow> upsert_groups src book gen gs db')"

definition upsert_provider_groups :: "string \<Rightarrow> nat \<Rightarrow> int \<Rightarrow> contact_book \<Rightarrow> contact_db \<Rightarrow> store_error + contact_db" where
  "upsert_provider_groups src book gen b db =
     upsert_groups src book gen (filter_some (map provider_group (as_array (jget (cb_metadata b) ''contact_groups'')))) db"

section \<open>Contacts\<close>

definition contact_columns :: "nat \<Rightarrow> int \<Rightarrow> remote_contact \<Rightarrow> contact_row \<Rightarrow> contact_row" where
  "contact_columns book gen rc r =
     (let version = Option.bind (rc_photo rc) rp_version in
      r\<lparr>kr_book := Some book, kr_contact := rc_contact rc, kr_version := rc_version rc, kr_metadata := rc_metadata rc,
        kr_photo := map_option rp_reference (rc_photo rc),
        kr_photo_blob := (if kr_photo_version r = version then kr_photo_blob r else None), kr_photo_version := version,
        kr_photo_type := Option.bind (rc_photo rc) rp_content_type, kr_generation := gen\<rparr>)"

definition put_contact :: "string \<Rightarrow> nat \<Rightarrow> int \<Rightarrow> remote_contact \<Rightarrow> contact_db \<Rightarrow> nat \<times> contact_db" where
  "put_contact src book gen rc db =
     (case find_contact db src (rc_remote rc) of
        Some r \<Rightarrow> (kr_id r, db\<lparr>kb_contacts :=
          map (\<lambda>q. if kr_source q = src \<and> kr_uid q = rc_remote rc then contact_columns book gen rc q else q) (kb_contacts db)\<rparr>)
      | None \<Rightarrow> (kb_next db, db\<lparr>kb_contacts := kb_contacts db @
          [contact_columns book gen rc \<lparr>kr_id = kb_next db, kr_source = src, kr_book = None, kr_uid = rc_remote rc,
             kr_contact = empty_contact, kr_version = None, kr_metadata = JNull, kr_photo = None, kr_photo_blob = None,
             kr_photo_version = None, kr_photo_type = None, kr_generation = 0\<rparr>],
          kb_next := kb_next db + 1\<rparr>))"

fun put_memberships ::
  "string \<Rightarrow> nat \<Rightarrow> int \<Rightarrow> nat \<Rightarrow> group_membership list \<Rightarrow> contact_db \<Rightarrow> store_error + contact_db"
where
  "put_memberships src book gen cid [] db = Inr db"
| "put_memberships src book gen cid (m # ms) db =
     (case upsert_group src book gen (gm_remote m) (case gm_name m of Some n \<Rightarrow> n | None \<Rightarrow> gm_remote m) (gm_name m) db of
        Inl e \<Rightarrow> Inl e
      | Inr (gid, db') \<Rightarrow>
          put_memberships src book gen cid ms
            (if (cid, gid) \<in> set (kb_members db') then db' else db'\<lparr>kb_members := kb_members db' @ [(cid, gid)]\<rparr>))"

definition upsert_contact :: "string \<Rightarrow> nat \<Rightarrow> int \<Rightarrow> remote_contact \<Rightarrow> contact_db \<Rightarrow> store_error + contact_db" where
  "upsert_contact src book gen rc db =
     (case put_contact src book gen rc db of
        (cid, db1) \<Rightarrow>
          put_memberships src book gen cid (rc_groups rc) (db1\<lparr>kb_members := filter (\<lambda>(c, g). c \<noteq> cid) (kb_members db1)\<rparr>))"

definition delete_contact :: "string \<Rightarrow> nat \<Rightarrow> tombstone \<Rightarrow> contact_db \<Rightarrow> store_error + contact_db" where
  "delete_contact src book t db =
     (if tb_book t = [] then Inl (Protocol ''contact tombstone did not identify a book'')
      else Inr (delete_contacts (\<lambda>r. kr_source r = src \<and> kr_book r = Some book \<and> kr_uid r = tb_remote t) db))"

section \<open>Pages\<close>

fun upsert_contacts :: "string \<Rightarrow> string \<Rightarrow> nat \<Rightarrow> int \<Rightarrow> remote_contact list \<Rightarrow> contact_db \<Rightarrow> store_error + contact_db" where
  "upsert_contacts src remote book gen [] db = Inr db"
| "upsert_contacts src remote book gen (rc # rcs) db =
     (if rc_book rc \<noteq> remote then Inl (Protocol ''contact page contained a contact from another book'')
      else case upsert_contact src book gen rc db of
        Inl e \<Rightarrow> Inl e
      | Inr db' \<Rightarrow> upsert_contacts src remote book gen rcs db')"

fun remove_contacts :: "string \<Rightarrow> nat \<Rightarrow> tombstone list \<Rightarrow> contact_db \<Rightarrow> store_error + contact_db" where
  "remove_contacts src book [] db = Inr db"
| "remove_contacts src book (t # ts) db =
     (case delete_contact src book t db of Inl e \<Rightarrow> Inl e | Inr db' \<Rightarrow> remove_contacts src book ts db')"

definition save_book_cursor :: "nat \<Rightarrow> string option \<Rightarrow> contact_db \<Rightarrow> contact_db" where
  "save_book_cursor book cursor db =
     (case cursor of
        None \<Rightarrow> db
      | Some c \<Rightarrow> db\<lparr>kb_books := map (\<lambda>b. if bo_id b = book then b\<lparr>bo_cursor := Some c\<rparr> else b) (kb_books db)\<rparr>)"

definition apply_change_page :: "string \<Rightarrow> contact_book \<Rightarrow> int \<Rightarrow> change_page \<Rightarrow> contact_db \<Rightarrow> store_error + contact_db" where
  "apply_change_page src b gen page db =
     (if cp_continuation page \<noteq> None \<and> cp_cursor page \<noteq> None
      then Inl (Protocol ''a contact page cannot contain both continuation and final cursor'')
      else case upsert_book src b gen db of
        Inl e \<Rightarrow> Inl e
      | Inr (book, db1) \<Rightarrow>
          (case upsert_provider_groups src book gen b db1 of
             Inl e \<Rightarrow> Inl e
           | Inr db2 \<Rightarrow>
               (case upsert_contacts src (cb_remote b) book gen (cp_upserts page) db2 of
                  Inl e \<Rightarrow> Inl e
                | Inr db3 \<Rightarrow>
                    (case remove_contacts src book (cp_tombstones page) db3 of
                       Inl e \<Rightarrow> Inl e
                     | Inr db4 \<Rightarrow> Inr (save_book_cursor book (cp_cursor page) db4)))))"

definition finish_full_sync :: "string \<Rightarrow> int \<Rightarrow> string \<Rightarrow> contact_db \<Rightarrow> contact_db" where
  "finish_full_sync src gen now db =
     update_source src (\<lambda>r. r\<lparr>so_generation := gen, so_state := ''idle'', so_synced := Some now\<rparr>)
       (delete_books (\<lambda>b. bo_source b = src \<and> bo_generation b \<noteq> gen)
         (delete_groups (\<lambda>g. gr_source g = src \<and> gr_generation g \<noteq> gen)
           (delete_contacts (\<lambda>r. kr_source r = src \<and> kr_generation r \<noteq> gen) db)))"

definition finish_book_discovery :: "string \<Rightarrow> int \<Rightarrow> contact_db \<Rightarrow> contact_db" where
  "finish_book_discovery src gen db = delete_books (\<lambda>b. bo_source b = src \<and> bo_generation b \<noteq> gen) db"

definition book_cursor :: "contact_db \<Rightarrow> string \<Rightarrow> string \<Rightarrow> string option" where
  "book_cursor db src remote = Option.bind (find_book db src remote) bo_cursor"

end
