(* ===== verification/Contact_Invariants.thy ===== *)
theory Contact_Invariants
  imports Contact_Store
begin

text \<open>
  The contact tables keep their keys: the unique indexes, the foreign keys and the agreement of a
  contact's book with its source survive every page and every pruning of backend/contact-sync/src/repository.rs.
\<close>

section \<open>Updates in place\<close>

lemma keep_key [simp]:
  "(\<And>q. P q \<Longrightarrow> g (f q) = g q) \<Longrightarrow> map (g \<circ> (\<lambda>q. if P q then f q else q)) xs = map g xs"
  by (simp add: comp_def)

lemma keep_all:
  "(\<And>q. q \<in> set xs \<Longrightarrow> Q q) \<Longrightarrow> (\<And>q. q \<in> set xs \<Longrightarrow> P q \<Longrightarrow> Q q \<Longrightarrow> Q (f q))
   \<Longrightarrow> \<forall>q \<in> set (map (\<lambda>q. if P q then f q else q) xs). Q q"
  by auto

lemma find_map_cond:
  "(\<And>q. P q \<Longrightarrow> Q (f q) = Q q) \<Longrightarrow>
   find Q (map (\<lambda>q. if P q then f q else q) xs) = map_option (\<lambda>q. if P q then f q else q) (find Q xs)"
  by (induction xs) auto

lemma find_filter_key:
  assumes "distinct (map g xs)" "\<And>x y. Q x \<Longrightarrow> Q y \<Longrightarrow> g x = g y"
  shows "find Q (filter P xs) = (case find Q xs of None \<Rightarrow> None | Some x \<Rightarrow> if P x then Some x else None)"
  using assms(1)
proof (induction xs)
  case (Cons x xs)
  show ?case
  proof (cases "Q x")
    case True
    have "\<forall>y \<in> set xs. \<not> Q y"
    proof (intro ballI notI)
      fix y
      assume y: "y \<in> set xs" "Q y"
      have "g x = g y" by (rule assms(2) [OF True y(2)])
      with y(1) Cons.prems show False by auto
    qed
    then have "find Q (filter P xs) = None"
      by (simp add: find_None_eq)
    with True show ?thesis by simp
  next
    case False
    with Cons show ?thesis by simp
  qed
qed simp

lemma distinct_filter_map: "distinct (map g xs) \<Longrightarrow> distinct (map g (filter P xs))"
  by (simp add: distinct_map inj_on_def)

section \<open>The invariant\<close>

definition book_key :: "book_row \<Rightarrow> string \<times> string" where
  "book_key b = (bo_source b, bo_remote b)"

definition contact_key :: "contact_row \<Rightarrow> string \<times> string" where
  "contact_key r = (kr_source r, kr_uid r)"

definition group_key :: "group_row \<Rightarrow> string \<times> string" where
  "group_key g = (gr_source g, gr_name g)"

definition has_source :: "contact_db \<Rightarrow> string \<Rightarrow> bool" where
  "has_source db src = (src \<in> so_id ` set (kb_sources db))"

definition owners :: "contact_db \<Rightarrow> (nat \<times> string) set" where
  "owners db = set (map (\<lambda>b. (bo_id b, bo_source b)) (kb_books db))"

definition book_in :: "contact_db \<Rightarrow> string \<Rightarrow> nat option \<Rightarrow> bool" where
  "book_in db src b = (case b of None \<Rightarrow> True | Some i \<Rightarrow> (i, src) \<in> owners db)"

lemma book_in_update [simp]:
  "book_in (db\<lparr>kb_groups := gs\<rparr>) src b = book_in db src b" "book_in (db\<lparr>kb_contacts := cs\<rparr>) src b = book_in db src b"
  "book_in (db\<lparr>kb_members := ms\<rparr>) src b = book_in db src b" "book_in (db\<lparr>kb_next := n\<rparr>) src b = book_in db src b"
  "book_in (db\<lparr>kb_sources := ss\<rparr>) src b = book_in db src b"
  by (simp_all add: book_in_def owners_def split: option.splits)

definition books_ok :: "contact_db \<Rightarrow> bool" where
  "books_ok db = (distinct (map book_key (kb_books db)) \<and> distinct (map bo_id (kb_books db))
     \<and> (\<forall>b \<in> set (kb_books db). bo_id b < kb_next db \<and> has_source db (bo_source b)))"

definition contacts_ok :: "contact_db \<Rightarrow> bool" where
  "contacts_ok db = (distinct (map contact_key (kb_contacts db)) \<and> distinct (map kr_id (kb_contacts db))
     \<and> (\<forall>r \<in> set (kb_contacts db). kr_id r < kb_next db \<and> book_in db (kr_source r) (kr_book r)))"

definition groups_ok :: "contact_db \<Rightarrow> bool" where
  "groups_ok db = (distinct (map group_key (kb_groups db)) \<and> distinct (map gr_id (kb_groups db))
     \<and> (\<forall>g \<in> set (kb_groups db). gr_id g < kb_next db \<and> book_in db (gr_source g) (gr_book g)))"

definition members_ok :: "contact_db \<Rightarrow> bool" where
  "members_ok db = (distinct (kb_members db)
     \<and> (\<forall>m \<in> set (kb_members db). fst m \<in> kr_id ` set (kb_contacts db) \<and> snd m \<in> gr_id ` set (kb_groups db)))"

definition tables_ok :: "contact_db \<Rightarrow> bool" where
  "tables_ok db = (books_ok db \<and> contacts_ok db \<and> groups_ok db \<and> members_ok db)"

text \<open>What the other tables need of a step that does not touch them.\<close>

definition grows :: "contact_db \<Rightarrow> contact_db \<Rightarrow> bool" where
  "grows db db' = (kb_next db \<le> kb_next db' \<and> owners db \<subseteq> owners db' \<and> (\<forall>src. has_source db src \<longrightarrow> has_source db' src))"

lemma grows_trans: "grows a b \<Longrightarrow> grows b c \<Longrightarrow> grows a c"
  by (auto simp: grows_def)

lemma book_in_grows: "grows db db' \<Longrightarrow> book_in db src b \<Longrightarrow> book_in db' src b"
  by (auto simp: grows_def book_in_def split: option.splits)

lemma books_ok_grows: "grows db db' \<Longrightarrow> kb_books db' = kb_books db \<Longrightarrow> books_ok db \<Longrightarrow> books_ok db'"
  by (fastforce simp: grows_def books_ok_def)

lemma contacts_ok_grows: "grows db db' \<Longrightarrow> kb_contacts db' = kb_contacts db \<Longrightarrow> contacts_ok db \<Longrightarrow> contacts_ok db'"
  unfolding contacts_ok_def by (auto intro: book_in_grows) (force simp: grows_def)

lemma groups_ok_grows: "grows db db' \<Longrightarrow> kb_groups db' = kb_groups db \<Longrightarrow> groups_ok db \<Longrightarrow> groups_ok db'"
  unfolding groups_ok_def by (auto intro: book_in_grows) (force simp: grows_def)

lemma members_ok_grows:
  "kb_members db' = kb_members db \<Longrightarrow> kr_id ` set (kb_contacts db) \<subseteq> kr_id ` set (kb_contacts db')
   \<Longrightarrow> gr_id ` set (kb_groups db) \<subseteq> gr_id ` set (kb_groups db') \<Longrightarrow> members_ok db \<Longrightarrow> members_ok db'"
  by (auto simp: members_ok_def)

section \<open>Books\<close>

lemma find_source_None: "find_source db src = None \<longleftrightarrow> \<not> has_source db src"
  by (auto simp: find_source_def has_source_def find_None_iff)

lemma find_book_Some:
  "find_book db src remote = Some b \<Longrightarrow> b \<in> set (kb_books db) \<and> bo_source b = src \<and> bo_remote b = remote"
  by (auto simp: find_book_def find_Some_iff)

lemma find_book_None: "find_book db src remote = None \<longleftrightarrow> (src, remote) \<notin> book_key ` set (kb_books db)"
  by (force simp: find_book_def find_None_iff book_key_def)

lemma upsert_book_cases:
  assumes "upsert_book src b gen db = Inr (i, db')"
  obtains (old) q where "find_book db src (cb_remote b) = Some q" "i = bo_id q" "db' = db\<lparr>kb_books :=
      map (\<lambda>q. if bo_source q = src \<and> bo_remote q = cb_remote b then book_columns b gen q else q) (kb_books db)\<rparr>"
  | (new) q where "find_book db src (cb_remote b) = None" "has_source db src" "i = kb_next db"
      "db' = db\<lparr>kb_books := kb_books db @ [q], kb_next := kb_next db + 1\<rparr>"
      "bo_id q = kb_next db" "bo_source q = src" "bo_remote q = cb_remote b" "bo_generation q = gen" "bo_cursor q = None"
proof (cases "find_book db src (cb_remote b)")
  case (Some q)
  with assms show thesis by (intro old) (auto simp: upsert_book_def)
next
  case None
  then show thesis
    using assms by (intro new) (auto simp: upsert_book_def find_source_None book_columns_def split: if_splits)
qed

lemma map_columns [simp]:
  "bo_id (book_columns b gen q) = bo_id q" "bo_source (book_columns b gen q) = bo_source q"
  "bo_remote (book_columns b gen q) = bo_remote q" "bo_cursor (book_columns b gen q) = bo_cursor q"
  "bo_generation (book_columns b gen q) = gen" "book_key (book_columns b gen q) = book_key q"
  by (simp_all add: book_columns_def book_key_def)

lemma upsert_book_frame:
  assumes "upsert_book src b gen db = Inr (i, db')"
  shows "kb_sources db' = kb_sources db" "kb_contacts db' = kb_contacts db" "kb_groups db' = kb_groups db"
    "kb_members db' = kb_members db" "grows db db'" "(i, src) \<in> owners db'"
  using assms
  by (cases rule: upsert_book_cases;
      auto simp: grows_def owners_def has_source_def comp_def if_distrib cong: if_cong dest!: find_book_Some)+

lemma upsert_book_books:
  assumes "upsert_book src b gen db = Inr (i, db')" "books_ok db"
  shows "books_ok db'"
  using assms(1)
proof (cases rule: upsert_book_cases)
  case (old q)
  then show ?thesis
    using assms(2) by (auto simp: books_ok_def has_source_def)
next
  case (new q)
  then show ?thesis
    using assms(2) by (auto simp: books_ok_def book_key_def has_source_def less_SucI find_book_None)
qed

lemma upsert_book_ok:
  assumes "upsert_book src b gen db = Inr (i, db')" "tables_ok db"
  shows "tables_ok db'" "book_in db' src (Some i)"
  using assms upsert_book_frame [OF assms(1)] upsert_book_books [OF assms(1)]
  by (auto simp: tables_ok_def book_in_def intro: contacts_ok_grows groups_ok_grows members_ok_grows)

section \<open>Groups\<close>

lemma find_group_Some:
  "find_group db src remote = Some g \<Longrightarrow> g \<in> set (kb_groups db) \<and> gr_source g = src \<and> gr_remote g = Some remote"
  by (auto simp: find_group_def find_Some_iff)

lemma name_taken_iff: "name_taken src name gs \<longleftrightarrow> (src, name) \<in> group_key ` set gs"
  by (force simp: name_taken_def group_key_def)

lemma upsert_group_cases:
  assumes "upsert_group src book gen remote fresh_name rename db = Inr (i, db')"
  obtains (old) g name where "find_group db src remote = Some g" "i = gr_id g"
      "\<not> name_taken src name (filter (\<lambda>q. gr_id q \<noteq> gr_id g) (kb_groups db))"
      "db' = db\<lparr>kb_groups := map (\<lambda>q. if gr_id q = gr_id g
         then q\<lparr>gr_book := Some book, gr_name := name, gr_generation := gen\<rparr> else q) (kb_groups db)\<rparr>"
  | (new) "find_group db src remote = None" "\<not> name_taken src fresh_name (kb_groups db)" "i = kb_next db"
      "db' = db\<lparr>kb_groups := kb_groups db @ [\<lparr>gr_id = kb_next db, gr_source = src, gr_book = Some book,
         gr_name = fresh_name, gr_remote = Some remote, gr_generation = gen\<rparr>], kb_next := kb_next db + 1\<rparr>"
  using assms
  by (cases "find_group db src remote") (auto simp: upsert_group_def Let_def split: if_splits intro: old new)

lemma upsert_group_frame:
  assumes "upsert_group src book gen remote fresh_name rename db = Inr (i, db')"
  shows "kb_sources db' = kb_sources db" "kb_contacts db' = kb_contacts db" "kb_books db' = kb_books db"
    "kb_members db' = kb_members db" "grows db db'" "i \<in> set (map gr_id (kb_groups db'))"
    "set (map gr_id (kb_groups db)) \<subseteq> set (map gr_id (kb_groups db'))"
  using assms
  by (cases rule: upsert_group_cases;
      auto simp: grows_def owners_def has_source_def simp del: set_map dest!: find_group_Some; simp)+

lemma distinct_renamed:
  assumes "distinct (map group_key gs)" "distinct (map gr_id gs)" "g \<in> set gs" "gr_source g = src"
    and "\<not> name_taken src name (filter (\<lambda>q. gr_id q \<noteq> gr_id g) gs)"
  shows "distinct (map group_key (map (\<lambda>q. if gr_id q = gr_id g
           then q\<lparr>gr_book := b, gr_name := name, gr_generation := gen\<rparr> else q) gs))"
proof -
  let ?f = "\<lambda>q. if gr_id q = gr_id g then q\<lparr>gr_book := b, gr_name := name, gr_generation := gen\<rparr> else q"
  have same: "q = g" if "q \<in> set gs" "gr_id q = gr_id g" for q
    using that assms(2,3) by (auto simp: distinct_map inj_on_def)
  have other: "group_key q \<noteq> (src, name)" if "q \<in> set gs" "gr_id q \<noteq> gr_id g" for q
    using that assms(5) by (auto simp: name_taken_def group_key_def)
  have "inj_on (group_key \<circ> ?f) (set gs)"
  proof (rule inj_onI)
    fix x y
    assume "x \<in> set gs" "y \<in> set gs" "(group_key \<circ> ?f) x = (group_key \<circ> ?f) y"
    then show "x = y"
      using same [of x] same [of y] other [of x] other [of y] assms(1,4)
      by (auto simp: group_key_def distinct_map inj_on_def split: if_splits)
  qed
  then show ?thesis
    using assms(1) by (simp add: distinct_map)
qed

lemma upsert_group_groups:
  assumes "upsert_group src book gen remote fresh_name rename db = Inr (i, db')" "groups_ok db" "book_in db src (Some book)"
  shows "groups_ok db'"
  using assms(1)
proof (cases rule: upsert_group_cases)
  case (old g name)
  have "distinct (map group_key (kb_groups db'))"
    using distinct_renamed [OF _ _ _ _ old(3), where b = "Some book" and gen = gen] old find_group_Some [OF old(1)] assms(2)
    by (simp add: groups_ok_def)
  moreover have "\<forall>q \<in> set (kb_groups db'). gr_id q < kb_next db' \<and> book_in db' (gr_source q) (gr_book q)"
    using assms(2,3) old find_group_Some [OF old(1)]
    by (auto simp: groups_ok_def distinct_map inj_on_def)
  ultimately show ?thesis
    using assms(2) old by (simp add: groups_ok_def)
next
  case new
  then show ?thesis
    using assms(2,3)
    by (auto simp: groups_ok_def less_SucI name_taken_iff group_key_def)
qed

lemma upsert_group_ok:
  assumes "upsert_group src book gen remote fresh_name rename db = Inr (i, db')" "tables_ok db" "book_in db src (Some book)"
  shows "tables_ok db'"
  using assms upsert_group_frame [OF assms(1)] upsert_group_groups [OF assms(1)]
  by (auto simp: tables_ok_def intro: books_ok_grows contacts_ok_grows members_ok_grows)

section \<open>Contacts\<close>

lemma find_contact_Some:
  "find_contact db src uid = Some r \<Longrightarrow> r \<in> set (kb_contacts db) \<and> kr_source r = src \<and> kr_uid r = uid"
  by (auto simp: find_contact_def find_Some_iff)

lemma find_contact_None: "find_contact db src uid = None \<longleftrightarrow> (src, uid) \<notin> contact_key ` set (kb_contacts db)"
  by (force simp: find_contact_def find_None_iff contact_key_def)

lemma contact_columns_simps [simp]:
  "kr_id (contact_columns book gen rc r) = kr_id r" "kr_source (contact_columns book gen rc r) = kr_source r"
  "kr_uid (contact_columns book gen rc r) = kr_uid r" "contact_key (contact_columns book gen rc r) = contact_key r"
  "kr_book (contact_columns book gen rc r) = Some book" "kr_generation (contact_columns book gen rc r) = gen"
  by (simp_all add: contact_columns_def contact_key_def Let_def)

lemma put_contact_cases:
  assumes "put_contact src book gen rc db = (i, db')"
  obtains (old) r where "find_contact db src (rc_remote rc) = Some r" "i = kr_id r" "db' = db\<lparr>kb_contacts :=
      map (\<lambda>q. if kr_source q = src \<and> kr_uid q = rc_remote rc then contact_columns book gen rc q else q) (kb_contacts db)\<rparr>"
  | (new) r where "find_contact db src (rc_remote rc) = None" "i = kb_next db"
      "db' = db\<lparr>kb_contacts := kb_contacts db @ [contact_columns book gen rc r], kb_next := kb_next db + 1\<rparr>"
      "kr_id r = kb_next db" "kr_source r = src" "kr_uid r = rc_remote rc"
proof (cases "find_contact db src (rc_remote rc)")
  case (Some r)
  with assms show thesis by (intro old) (auto simp: put_contact_def)
next
  case None
  with assms show thesis by (intro new) (auto simp: put_contact_def)
qed

lemma put_contact_frame:
  assumes "put_contact src book gen rc db = (i, db')"
  shows "kb_sources db' = kb_sources db" "kb_groups db' = kb_groups db" "kb_books db' = kb_books db"
    "kb_members db' = kb_members db" "grows db db'" "i \<in> set (map kr_id (kb_contacts db'))"
    "set (map kr_id (kb_contacts db)) \<subseteq> set (map kr_id (kb_contacts db'))"
  using assms
  by (cases rule: put_contact_cases;
      auto simp: grows_def owners_def has_source_def simp del: set_map dest!: find_contact_Some; simp)+

lemma put_contact_contacts:
  assumes "put_contact src book gen rc db = (i, db')" "contacts_ok db" "book_in db src (Some book)"
  shows "contacts_ok db'"
  using assms(1)
proof (cases rule: put_contact_cases)
  case (old r)
  then show ?thesis
    using assms(2,3) by (auto simp: contacts_ok_def)
next
  case (new r)
  then show ?thesis
    using assms(2,3) by (auto simp: contacts_ok_def less_SucI find_contact_None contact_key_def)
qed

lemma put_contact_ok:
  assumes "put_contact src book gen rc db = (i, db')" "tables_ok db" "book_in db src (Some book)"
  shows "tables_ok db'"
  using assms put_contact_frame [OF assms(1)] put_contact_contacts [OF assms(1)]
  by (auto simp: tables_ok_def intro: books_ok_grows groups_ok_grows members_ok_grows)

text \<open>Rows that only disappear, and memberships that come and go.\<close>

lemma tables_ok_members:
  "tables_ok db \<Longrightarrow> members_ok (db\<lparr>kb_members := ms\<rparr>) \<Longrightarrow> tables_ok (db\<lparr>kb_members := ms\<rparr>)"
  by (simp add: tables_ok_def books_ok_def contacts_ok_def groups_ok_def has_source_def)

lemma put_memberships_ok:
  "put_memberships src book gen cid gms db = Inr db' \<Longrightarrow> tables_ok db \<Longrightarrow> book_in db src (Some book)
   \<Longrightarrow> cid \<in> set (map kr_id (kb_contacts db))
   \<Longrightarrow> tables_ok db' \<and> kb_contacts db' = kb_contacts db \<and> kb_books db' = kb_books db \<and> kb_sources db' = kb_sources db"
proof (induction gms arbitrary: db)
  case (Cons m gms)
  from Cons.prems(1) obtain gid db1 where
    up: "upsert_group src book gen (gm_remote m) (case gm_name m of Some n \<Rightarrow> n | None \<Rightarrow> gm_remote m) (gm_name m) db = Inr (gid, db1)"
    and rest: "put_memberships src book gen cid gms
       (if (cid, gid) \<in> set (kb_members db1) then db1 else db1\<lparr>kb_members := kb_members db1 @ [(cid, gid)]\<rparr>) = Inr db'"
    by (auto split: sum.splits)
  note frame = upsert_group_frame [OF up]
  have ok: "tables_ok db1" "book_in db1 src (Some book)"
    using upsert_group_ok [OF up Cons.prems(2,3)] book_in_grows [OF frame(5) Cons.prems(3)] by simp_all
  have "tables_ok (if (cid, gid) \<in> set (kb_members db1) then db1 else db1\<lparr>kb_members := kb_members db1 @ [(cid, gid)]\<rparr>)"
    using ok frame Cons.prems(4) by (auto intro!: tables_ok_members) (auto simp: tables_ok_def members_ok_def)
  then show ?case
    using Cons.IH [OF rest] ok(2) frame Cons.prems(4) by (auto split: if_splits)
qed simp

lemma upsert_contact_ok:
  assumes "upsert_contact src book gen rc db = Inr db'" "tables_ok db" "book_in db src (Some book)"
  shows "tables_ok db'" "kb_books db' = kb_books db" "kb_sources db' = kb_sources db"
    "kb_contacts db' = kb_contacts (snd (put_contact src book gen rc db))"
proof -
  obtain cid db1 where put: "put_contact src book gen rc db = (cid, db1)"
    by (cases "put_contact src book gen rc db")
  let ?db2 = "db1\<lparr>kb_members := filter (\<lambda>(c, g). c \<noteq> cid) (kb_members db1)\<rparr>"
  have "put_memberships src book gen cid (rc_groups rc) ?db2 = Inr db'"
    using assms(1) put by (simp add: upsert_contact_def)
  moreover have "tables_ok ?db2"
    using put_contact_ok [OF put assms(2,3)]
    by (auto intro!: tables_ok_members) (auto simp: tables_ok_def members_ok_def)
  moreover have "book_in ?db2 src (Some book)"
    using book_in_grows [OF put_contact_frame(5) [OF put] assms(3)] by simp
  moreover have "cid \<in> set (map kr_id (kb_contacts ?db2))"
    using put_contact_frame(6) [OF put] by simp
  ultimately have "tables_ok db' \<and> kb_contacts db' = kb_contacts ?db2 \<and> kb_books db' = kb_books ?db2 \<and> kb_sources db' = kb_sources ?db2"
    by (rule put_memberships_ok)
  then show "tables_ok db'" "kb_books db' = kb_books db" "kb_sources db' = kb_sources db"
    "kb_contacts db' = kb_contacts (snd (put_contact src book gen rc db))"
    using put_contact_frame [OF put] by (simp_all add: put)
qed

section \<open>Deletions\<close>

lemma tables_ok_contacts_gone:
  assumes "tables_ok db"
  shows "tables_ok (delete_contacts P db)"
proof -
  have "members_ok (delete_contacts P db)"
    using assms by (fastforce simp: tables_ok_def members_ok_def delete_contacts_def)
  then show ?thesis
    using assms
    by (auto simp: tables_ok_def books_ok_def contacts_ok_def groups_ok_def delete_contacts_def has_source_def distinct_filter_map)
qed

lemma tables_ok_groups_gone:
  assumes "tables_ok db"
  shows "tables_ok (delete_groups P db)"
proof -
  have "members_ok (delete_groups P db)"
    using assms by (fastforce simp: tables_ok_def members_ok_def delete_groups_def)
  then show ?thesis
    using assms
    by (auto simp: tables_ok_def books_ok_def contacts_ok_def groups_ok_def delete_groups_def has_source_def distinct_filter_map)
qed

lemma delete_books_simps [simp]:
  "kb_sources (delete_books P db) = kb_sources db" "kb_next (delete_books P db) = kb_next db"
  "kb_books (delete_books P db) = filter (\<lambda>b. \<not> P b) (kb_books db)"
  "kb_contacts (delete_books P db) = filter (\<lambda>r. \<not> of_book (filter P (kb_books db)) (kr_book r)) (kb_contacts db)"
  "kb_groups (delete_books P db) = filter (\<lambda>g. \<not> of_book (filter P (kb_books db)) (gr_book g)) (kb_groups db)"
  by (simp_all add: delete_books_def delete_groups_def delete_contacts_def Let_def)

lemma book_in_books_gone:
  assumes "book_in db src b" "\<not> of_book (filter P (kb_books db)) b"
  shows "book_in (delete_books P db) src b"
  using assms by (auto simp: book_in_def owners_def of_book_def split: option.splits)

lemma tables_ok_books_gone:
  assumes "tables_ok db"
  shows "tables_ok (delete_books P db)"
proof -
  let ?db = "delete_groups (\<lambda>g. of_book (filter P (kb_books db)) (gr_book g))
     (delete_contacts (\<lambda>r. of_book (filter P (kb_books db)) (kr_book r)) db)"
  have ok: "tables_ok ?db"
    by (intro tables_ok_groups_gone tables_ok_contacts_gone assms)
  have "books_ok (delete_books P db)"
    using assms by (simp add: tables_ok_def books_ok_def has_source_def distinct_filter_map)
  moreover have "contacts_ok (delete_books P db)" "groups_ok (delete_books P db)"
    using assms book_in_books_gone [of db _ _ P]
    by (auto simp: tables_ok_def contacts_ok_def groups_ok_def distinct_filter_map)
  moreover have "members_ok (delete_books P db)"
    using ok by (simp add: tables_ok_def members_ok_def delete_books_def Let_def)
  ultimately show ?thesis
    by (simp add: tables_ok_def)
qed

lemma tables_ok_source:
  assumes "tables_ok db" "\<And>r. so_id (f r) = so_id r"
  shows "tables_ok (update_source src f db)"
proof -
  have "map so_id (kb_sources (update_source src f db)) = map so_id (kb_sources db)"
    by (simp add: update_source_def assms(2))
  then have "has_source (update_source src f db) = has_source db"
    unfolding has_source_def by (metis set_map)
  then show ?thesis
    using assms(1)
    by (simp add: tables_ok_def books_ok_def contacts_ok_def groups_ok_def members_ok_def update_source_def)
qed

section \<open>Pages\<close>

lemma upsert_groups_ok:
  "upsert_groups src book gen gs db = Inr db' \<Longrightarrow> tables_ok db \<Longrightarrow> book_in db src (Some book)
   \<Longrightarrow> tables_ok db' \<and> kb_contacts db' = kb_contacts db \<and> kb_books db' = kb_books db \<and> kb_sources db' = kb_sources db"
proof (induction gs arbitrary: db)
  case (Cons g gs)
  obtain remote name where g: "g = (remote, name)" by (cases g)
  from Cons.prems(1) obtain i db1 where
    up: "upsert_group src book gen remote name (Some name) db = Inr (i, db1)" and rest: "upsert_groups src book gen gs db1 = Inr db'"
    by (auto simp: g split: sum.splits)
  show ?case
    using Cons.IH [OF rest upsert_group_ok [OF up Cons.prems(2,3)] book_in_grows [OF upsert_group_frame(5) [OF up] Cons.prems(3)]]
      upsert_group_frame [OF up]
    by simp
qed simp

lemma book_in_same_books: "kb_books db' = kb_books db \<Longrightarrow> book_in db' src b = book_in db src b"
  by (simp add: book_in_def owners_def cong: option.case_cong)

lemma upsert_contacts_ok:
  "upsert_contacts src remote book gen rcs db = Inr db' \<Longrightarrow> tables_ok db \<Longrightarrow> book_in db src (Some book)
   \<Longrightarrow> tables_ok db' \<and> kb_books db' = kb_books db \<and> kb_sources db' = kb_sources db"
proof (induction rcs arbitrary: db)
  case (Cons rc rcs)
  from Cons.prems(1) obtain db1 where
    up: "upsert_contact src book gen rc db = Inr db1" and rest: "upsert_contacts src remote book gen rcs db1 = Inr db'"
    by (auto split: sum.splits if_splits)
  note up_ok = upsert_contact_ok [OF up Cons.prems(2,3)]
  show ?case
    using Cons.IH [OF rest up_ok(1)] Cons.prems(3) up_ok book_in_same_books [OF up_ok(2)] by simp
qed simp

lemma delete_contacts_frame [simp]:
  "kb_books (delete_contacts P db) = kb_books db" "kb_sources (delete_contacts P db) = kb_sources db"
  "kb_contacts (delete_contacts P db) = filter (\<lambda>r. \<not> P r) (kb_contacts db)" "kb_groups (delete_contacts P db) = kb_groups db"
  by (simp_all add: delete_contacts_def)

lemma remove_contacts_ok:
  "remove_contacts src book ts db = Inr db' \<Longrightarrow> tables_ok db
   \<Longrightarrow> tables_ok db' \<and> kb_books db' = kb_books db \<and> kb_sources db' = kb_sources db"
proof (induction ts arbitrary: db)
  case (Cons t ts)
  let ?db = "delete_contacts (\<lambda>r. kr_source r = src \<and> kr_book r = Some book \<and> kr_uid r = tb_remote t) db"
  from Cons.prems(1) have "remove_contacts src book ts ?db = Inr db'"
    by (auto simp: delete_contact_def split: if_splits)
  from Cons.IH [OF this tables_ok_contacts_gone [OF Cons.prems(2)]] show ?case by simp
qed simp

lemma tables_ok_books_kept:
  assumes "tables_ok db" "\<And>b. bo_id (f b) = bo_id b" "\<And>b. bo_source (f b) = bo_source b" "\<And>b. bo_remote (f b) = bo_remote b"
  shows "tables_ok (db\<lparr>kb_books := map (\<lambda>b. if P b then f b else b) (kb_books db)\<rparr>)"
proof -
  let ?db = "db\<lparr>kb_books := map (\<lambda>b. if P b then f b else b) (kb_books db)\<rparr>"
  have "owners ?db = owners db"
    by (simp add: owners_def assms(2,3) del: set_map)
  then have "book_in ?db = book_in db"
    by (simp add: fun_eq_iff book_in_def split: option.splits)
  moreover have "books_ok ?db"
    using assms by (auto simp: tables_ok_def books_ok_def has_source_def book_key_def)
  ultimately show ?thesis
    using assms(1) by (simp add: tables_ok_def contacts_ok_def groups_ok_def members_ok_def)
qed

lemma tables_ok_cursor: "tables_ok db \<Longrightarrow> tables_ok (save_book_cursor book cursor db)"
  by (cases cursor) (simp_all add: save_book_cursor_def tables_ok_books_kept)

lemma apply_change_page_cases:
  assumes "apply_change_page src b gen page db = Inr db'"
  obtains book db1 db2 db3 db4 where
    "upsert_book src b gen db = Inr (book, db1)" "upsert_provider_groups src book gen b db1 = Inr db2"
    "upsert_contacts src (cb_remote b) book gen (cp_upserts page) db2 = Inr db3"
    "remove_contacts src book (cp_tombstones page) db3 = Inr db4" "db' = save_book_cursor book (cp_cursor page) db4"
  using assms by (auto simp: apply_change_page_def split: if_splits sum.splits prod.splits)

lemma apply_change_page_ok:
  assumes "apply_change_page src b gen page db = Inr db'" "tables_ok db"
  shows "tables_ok db'"
  using assms(1)
proof (cases rule: apply_change_page_cases)
  case (1 book db1 db2 db3 db4)
  note book_ok = upsert_book_ok [OF 1(1) assms(2)]
  have groups: "tables_ok db2" "book_in db2 src (Some book)"
    using upsert_groups_ok [OF 1(2) [unfolded upsert_provider_groups_def] book_ok] book_ok(2) book_in_same_books by blast+
  then show ?thesis
    using upsert_contacts_ok [OF 1(3) groups] remove_contacts_ok [OF 1(4)] tables_ok_cursor 1(5) by blast
qed

lemma finish_full_sync_ok: "tables_ok db \<Longrightarrow> tables_ok (finish_full_sync src gen now db)"
  unfolding finish_full_sync_def
  by (intro tables_ok_source tables_ok_books_gone tables_ok_groups_gone tables_ok_contacts_gone) simp_all

lemma finish_book_discovery_ok: "tables_ok db \<Longrightarrow> tables_ok (finish_book_discovery src gen db)"
  by (simp add: finish_book_discovery_def tables_ok_books_gone)

lemma set_source_state_ok: "tables_ok db \<Longrightarrow> tables_ok (set_source_state src state reason db)"
  by (simp add: set_source_state_def tables_ok_source)

end
