(* ===== verification/Contact_Sync.thy ===== *)
theory Contact_Sync
  imports Contact_Invariants
begin

text \<open>
  Synchronising a contact source (backend/contact-sync/src/orchestration.rs): the page loop of a book, a
  full or incremental attempt over all books, the fallback when a cursor has expired, the states a failure
  leads to, the delay before a retry and the mutations that go to the provider first.

  The loop follows continuations for as long as the provider gives them, so a run is \<open>None\<close> when it does
  not return.  The database is in the state the last committed page left, also when the run fails.
\<close>

section \<open>Retries and error states\<close>

datatype sync_mode = FullSync | IncrementalSync

record sync_run =
  sn_mode :: sync_mode
  sn_pages :: nat
  sn_upserts :: nat
  sn_tombstones :: nat

text \<open>A duration is its number of nanoseconds; the largest has 2^64 - 1 seconds and 999999999 nanoseconds.\<close>

definition from_secs :: "nat \<Rightarrow> nat" where
  "from_secs n = n * 1000000000"

definition duration_max :: nat where
  "duration_max = from_secs (2 ^ 64 - 1) + 999999999"

record retry_policy =
  ry_base :: nat
  ry_maximum :: nat

definition default_policy :: retry_policy where
  "default_policy = \<lparr>ry_base = from_secs 5, ry_maximum = from_secs (15 * 60)\<rparr>"

definition retry_delay :: "retry_policy \<Rightarrow> nat \<Rightarrow> nat option \<Rightarrow> nat" where
  "retry_delay p failures after =
     (case after of
        Some n \<Rightarrow> min (from_secs n) (ry_maximum p)
      | None \<Rightarrow>
          (let exponent = min (failures - 1) 16
           in min (min duration_max (ry_base p * min u32_max (2 ^ exponent))) (ry_maximum p)))"

definition provider_error_code :: "contact_error \<Rightarrow> string" where
  "provider_error_code e =
     (if pv_message e = carddav_tls_verification_failed then ''carddav_tls_certificate_invalid''
      else if pv_message e = provider_api_disabled_message then ''provider_configuration_required''
      else case pv_category e of
        CursorExpired \<Rightarrow> ''cursor_expired''
      | ConflictError \<Rightarrow> ''remote_conflict''
      | RateLimited \<Rightarrow> ''rate_limited''
      | TransportError \<Rightarrow> ''transport_error''
      | InvalidResponse \<Rightarrow> ''invalid_provider_response''
      | ConsentRequiredError \<Rightarrow> ''contact_scope_missing''
      | ReauthenticationRequiredError \<Rightarrow> ''oauth_reauthentication_required''
      | AuthenticationError \<Rightarrow> ''oauth_reauthentication_required''
      | Unavailable \<Rightarrow> ''provider_unavailable'')"

definition error_state :: "contact_error \<Rightarrow> string \<times> string" where
  "error_state e =
     (case pv_category e of
        ConsentRequiredError \<Rightarrow> (''consent_required'', ''contact_scope_missing'')
      | ReauthenticationRequiredError \<Rightarrow> (''reauth_required'', ''oauth_reauthentication_required'')
      | AuthenticationError \<Rightarrow> (''reauth_required'', ''oauth_reauthentication_required'')
      | Unavailable \<Rightarrow> (''unavailable'', provider_error_code e)
      | _ \<Rightarrow> (''error'', provider_error_code e))"

definition repository_error :: contact_error where
  "repository_error = provider_error Unavailable ''contact cache operation failed'' None"

section \<open>The pages of a book\<close>

definition missing_cursor :: contact_error where
  "missing_cursor = invalid_response ''final contact page did not contain a durable cursor''"

definition count_page :: "change_page \<Rightarrow> sync_run \<Rightarrow> sync_run" where
  "count_page page run = run\<lparr>sn_pages := sn_pages run + 1, sn_upserts := sn_upserts run + length (cp_upserts page),
     sn_tombstones := sn_tombstones run + length (cp_tombstones page)\<rparr>"

partial_function (option) sync_book ::
  "'s adapter \<Rightarrow> string \<Rightarrow> contact_book \<Rightarrow> string option \<Rightarrow> int \<Rightarrow> string option \<Rightarrow> sync_run \<Rightarrow> contact_db \<Rightarrow> 's
   \<Rightarrow> ((contact_error + sync_run) \<times> contact_db \<times> 's) option"
where
  "sync_book A src b cursor gen continuation run db s =
     (case ad_changes A b cursor continuation s of
        (res, s') \<Rightarrow>
          (case res of
             Inl e \<Rightarrow> Some (Inl e, db, s')
           | Inr page \<Rightarrow>
               (if cp_continuation page = None \<and> cp_cursor page = None then Some (Inl missing_cursor, db, s')
                else case apply_change_page src b gen page db of
                  Inl e \<Rightarrow> Some (Inl repository_error, db, s')
                | Inr db' \<Rightarrow>
                    (if cp_continuation page = None then Some (Inr (count_page page run), db', s')
                     else sync_book A src b cursor gen (cp_continuation page) (count_page page run) db' s'))))"

declare sync_book.simps [code]

fun sync_books ::
  "'s adapter \<Rightarrow> string \<Rightarrow> int \<Rightarrow> (contact_book \<times> string option) list \<Rightarrow> sync_run \<Rightarrow> contact_db \<Rightarrow> 's
   \<Rightarrow> ((contact_error + sync_run) \<times> contact_db \<times> 's) option"
where
  "sync_books A src gen [] run db s = Some (Inr run, db, s)"
| "sync_books A src gen ((b, cursor) # bs) run db s =
     (case sync_book A src b cursor gen None run db s of
        None \<Rightarrow> None
      | Some (Inl e, db', s') \<Rightarrow> Some (Inl e, db', s')
      | Some (Inr run', db', s') \<Rightarrow> sync_books A src gen bs run' db' s')"

section \<open>An attempt over all books\<close>

text \<open>\<open>read_json\<close> parses the metadata column of the source.\<close>

definition json_strings :: "json \<Rightarrow> string list option" where
  "json_strings j = (case j of JArr xs \<Rightarrow> those (map as_str xs) | _ \<Rightarrow> None)"

definition selected_books :: "(string \<Rightarrow> json option) \<Rightarrow> source_row \<Rightarrow> contact_book list \<Rightarrow> contact_book list" where
  "selected_books read_json r books =
     (if so_type r = ''google'' then books
      else case Option.bind (read_json (so_metadata r)) (\<lambda>j. json_strings (jget j ''selected_book_remote_ids'')) of
        None \<Rightarrow> books
      | Some ids \<Rightarrow> filter (\<lambda>b. cb_remote b \<in> set ids) books)"

definition needs_full_sync :: "bool \<Rightarrow> contact_book list \<Rightarrow> string option list \<Rightarrow> bool" where
  "needs_full_sync allow_incremental books cursors =
     (\<not> allow_incremental \<or> None \<in> set cursors
      \<or> (\<exists>b \<in> set books. jget (cb_metadata b) ''supports_sync_collection'' = JBool False))"

definition sync_source_attempt ::
  "(string \<Rightarrow> json option) \<Rightarrow> string \<Rightarrow> 's adapter \<Rightarrow> string \<Rightarrow> bool \<Rightarrow> contact_db \<Rightarrow> 's
   \<Rightarrow> ((contact_error + sync_run) \<times> contact_db \<times> 's) option"
where
  "sync_source_attempt read_json now A src allow_incremental db s =
     (case ad_books A s of
        None \<Rightarrow> None
      | Some (Inl e, s1) \<Rightarrow> Some (Inl e, db, s1)
      | Some (Inr found, s1) \<Rightarrow>
          (case find_source db src of
             None \<Rightarrow> Some (Inl repository_error, db, s1)
           | Some r \<Rightarrow>
               (let books = selected_books read_json r found;
                    gen = so_generation r + 1;
                    cursors = map (\<lambda>b. book_cursor db src (cb_remote b)) books;
                    full = needs_full_sync allow_incremental books cursors;
                    run = \<lparr>sn_mode = (if full then FullSync else IncrementalSync), sn_pages = 0, sn_upserts = 0, sn_tombstones = 0\<rparr>
                in case sync_books A src gen (zip books (if full then map (\<lambda>_. None) cursors else cursors)) run db s1 of
                     None \<Rightarrow> None
                   | Some (Inl e, db', s2) \<Rightarrow> Some (Inl e, db', s2)
                   | Some (Inr run', db', s2) \<Rightarrow>
                       Some (Inr run', if full then finish_full_sync src gen now db' else finish_book_discovery src gen db', s2))))"

definition record_outcome :: "string \<Rightarrow> contact_error + sync_run \<Rightarrow> contact_db \<Rightarrow> contact_db" where
  "record_outcome src res db =
     (case res of
        Inr run \<Rightarrow> set_source_state src ''idle'' None db
      | Inl e \<Rightarrow> set_source_state src (fst (error_state e)) (Some (snd (error_state e))) db)"

definition sync_source_once ::
  "(string \<Rightarrow> json option) \<Rightarrow> string \<Rightarrow> 's adapter \<Rightarrow> string \<Rightarrow> contact_db \<Rightarrow> 's
   \<Rightarrow> ((contact_error + sync_run) \<times> contact_db \<times> 's) option"
where
  "sync_source_once read_json now A src db s =
     (case sync_source_attempt read_json now A src True (set_source_state src ''syncing'' None db) s of
        None \<Rightarrow> None
      | Some (res, db', s') \<Rightarrow>
          (if (case res of Inl e \<Rightarrow> pv_category e = CursorExpired | Inr _ \<Rightarrow> False)
           then (case sync_source_attempt read_json now A src False db' s' of
                   None \<Rightarrow> None
                 | Some (res', db'', s'') \<Rightarrow> Some (res', record_outcome src res' db'', s''))
           else Some (res, record_outcome src res db', s')))"

section \<open>Mutations\<close>

definition mutated_contact :: "contact_book \<Rightarrow> parsed_contact \<Rightarrow> mutation_result \<Rightarrow> remote_contact" where
  "mutated_contact b c m = \<lparr>rc_book = cb_remote b, rc_remote = mr_remote m, rc_version = mr_version m, rc_contact = c,
     rc_photo = None, rc_groups = [], rc_metadata = JNull\<rparr>"

definition reconciliation_failed :: contact_error where
  "reconciliation_failed = provider_error Unavailable ''remote contact changed but local reconciliation failed'' None"

definition persist_mutation_or_reconcile ::
  "(string \<Rightarrow> json option) \<Rightarrow> string \<Rightarrow> 's adapter \<Rightarrow> string \<Rightarrow> contact_book \<Rightarrow> change_page \<Rightarrow> contact_db \<Rightarrow> 's
   \<Rightarrow> ((contact_error + unit) \<times> contact_db \<times> 's) option"
where
  "persist_mutation_or_reconcile read_json now A src b page db s =
     (case source_generation db src of
        Inl e \<Rightarrow> Some (Inl repository_error, db, s)
      | Inr gen \<Rightarrow>
          (case apply_change_page src b gen page db of
             Inr db' \<Rightarrow> Some (Inr (), db', s)
           | Inl e \<Rightarrow>
               (case sync_source_once read_json now A src db s of
                  None \<Rightarrow> None
                | Some (Inr run, db', s') \<Rightarrow> Some (Inr (), db', s')
                | Some (Inl e, db', s') \<Rightarrow> Some (Inl reconciliation_failed, db', s'))))"

definition persist_upsert ::
  "(string \<Rightarrow> json option) \<Rightarrow> string \<Rightarrow> 's adapter \<Rightarrow> string \<Rightarrow> contact_book \<Rightarrow> parsed_contact
   \<Rightarrow> (contact_error + mutation_result) \<times> 's \<Rightarrow> contact_db \<Rightarrow> ((contact_error + mutation_result) \<times> contact_db \<times> 's) option"
where
  "persist_upsert read_json now A src b c answer db =
     (case answer of
        (Inl e, s') \<Rightarrow> Some (Inl e, db, s')
      | (Inr m, s') \<Rightarrow>
          (case persist_mutation_or_reconcile read_json now A src b (empty_page\<lparr>cp_upserts := [mutated_contact b c m]\<rparr>) db s' of
             None \<Rightarrow> None
           | Some (Inl e, db', s'') \<Rightarrow> Some (Inl e, db', s'')
           | Some (Inr _, db', s'') \<Rightarrow> Some (Inr m, db', s'')))"

definition create_remote_first ::
  "(string \<Rightarrow> json option) \<Rightarrow> string \<Rightarrow> 's adapter \<Rightarrow> string \<Rightarrow> contact_book \<Rightarrow> parsed_contact \<Rightarrow> contact_db \<Rightarrow> 's
   \<Rightarrow> ((contact_error + mutation_result) \<times> contact_db \<times> 's) option"
where
  "create_remote_first read_json now A src b c db s = persist_upsert read_json now A src b c (ad_create A b c s) db"

definition update_remote_first ::
  "(string \<Rightarrow> json option) \<Rightarrow> string \<Rightarrow> 's adapter \<Rightarrow> string \<Rightarrow> contact_book \<Rightarrow> string \<Rightarrow> string option \<Rightarrow> parsed_contact
   \<Rightarrow> contact_db \<Rightarrow> 's \<Rightarrow> ((contact_error + mutation_result) \<times> contact_db \<times> 's) option"
where
  "update_remote_first read_json now A src b remote version c db s =
     persist_upsert read_json now A src b c (ad_update A b remote version c s) db"

definition delete_remote_first ::
  "(string \<Rightarrow> json option) \<Rightarrow> string \<Rightarrow> 's adapter \<Rightarrow> string \<Rightarrow> contact_book \<Rightarrow> string \<Rightarrow> string option \<Rightarrow> contact_db \<Rightarrow> 's
   \<Rightarrow> ((contact_error + unit) \<times> contact_db \<times> 's) option"
where
  "delete_remote_first read_json now A src b remote version db s =
     (case ad_delete A b remote version s of
        (Inl e, s') \<Rightarrow> Some (Inl e, db, s')
      | (Inr _, s') \<Rightarrow>
          persist_mutation_or_reconcile read_json now A src b
            (empty_page\<lparr>cp_tombstones := [\<lparr>tb_book = cb_remote b, tb_remote = remote\<rparr>]\<rparr>) db s')"

end
