(* ===== verification/Contact_Facts.thy ===== *)
theory Contact_Facts
  imports Contact_Sync
begin

text \<open>
  What a contact synchronisation establishes: the page loop refines "fetch the pages, then apply them",
  it returns when the listing ends, a failed run keeps the cursor of its book, and a full run leaves
  exactly the contacts the pages describe.
\<close>

section \<open>The loop as a list of pages\<close>

fun apply_pages :: "string \<Rightarrow> contact_book \<Rightarrow> int \<Rightarrow> change_page list \<Rightarrow> contact_db \<Rightarrow> store_error + contact_db" where
  "apply_pages src b gen [] db = Inr db"
| "apply_pages src b gen (p # ps) db =
     (case apply_change_page src b gen p db of Inl e \<Rightarrow> Inl e | Inr db' \<Rightarrow> apply_pages src b gen ps db')"

text \<open>The provider answers the calls of one listing with these pages.\<close>

inductive fetched ::
  "'s adapter \<Rightarrow> contact_book \<Rightarrow> string option \<Rightarrow> string option \<Rightarrow> 's \<Rightarrow> change_page list \<Rightarrow> 's \<Rightarrow> bool"
where
  last_page: "ad_changes A b cursor k s = (Inr p, s') \<Longrightarrow> cp_continuation p = None \<Longrightarrow> cp_cursor p \<noteq> None
     \<Longrightarrow> fetched A b cursor k s [p] s'"
| more_pages: "ad_changes A b cursor k s = (Inr p, s1) \<Longrightarrow> cp_continuation p \<noteq> None
     \<Longrightarrow> fetched A b cursor (cp_continuation p) s1 ps s' \<Longrightarrow> fetched A b cursor k s (p # ps) s'"

text \<open>The listing ends: an error or a page without continuation comes at some point.\<close>

inductive listing_ends :: "'s adapter \<Rightarrow> contact_book \<Rightarrow> string option \<Rightarrow> string option \<Rightarrow> 's \<Rightarrow> bool" where
  failing: "ad_changes A b cursor k s = (Inl e, s') \<Longrightarrow> listing_ends A b cursor k s"
| final: "ad_changes A b cursor k s = (Inr p, s') \<Longrightarrow> cp_continuation p = None \<Longrightarrow> listing_ends A b cursor k s"
| continued: "ad_changes A b cursor k s = (Inr p, s') \<Longrightarrow> listing_ends A b cursor (cp_continuation p) s'
     \<Longrightarrow> listing_ends A b cursor k s"

lemma sync_book_returns: "listing_ends A b cursor k s \<Longrightarrow> sync_book A src b cursor gen k run db s \<noteq> None"
proof (induction arbitrary: run db rule: listing_ends.induct)
  case (failing A b cursor k s e s')
  then show ?case by (subst sync_book.simps) simp
next
  case (final A b cursor k s p s')
  then show ?case by (subst sync_book.simps) (simp split: sum.splits)
next
  case (continued A b cursor k s p s')
  from continued.hyps(1) show ?case
    by (subst sync_book.simps) (auto simp: continued.IH simp del: not_None_eq split: sum.splits)
qed

lemma sync_book_applies:
  "fetched A b cursor k s pages s' \<Longrightarrow> apply_pages src b gen pages db = Inr db'
   \<Longrightarrow> sync_book A src b cursor gen k run db s = Some (Inr (fold count_page pages run), db', s')"
proof (induction arbitrary: run db rule: fetched.induct)
  case (last_page A b cursor k s p s')
  then show ?case by (subst sync_book.simps) (simp split: sum.splits)
next
  case (more_pages A b cursor k s p s1 ps s')
  then obtain db1 where db1: "apply_change_page src b gen p db = Inr db1" "apply_pages src b gen ps db1 = Inr db'"
    by (auto split: sum.splits)
  with more_pages.hyps(1,2) more_pages.IH [OF db1(2)] show ?case
    by (subst sync_book.simps) auto
qed

definition pages_of_run ::
  "'s adapter \<Rightarrow> string \<Rightarrow> contact_book \<Rightarrow> string option \<Rightarrow> int \<Rightarrow> string option \<Rightarrow> sync_run \<Rightarrow> contact_db \<Rightarrow> 's
   \<Rightarrow> (contact_error + sync_run) \<times> contact_db \<times> 's \<Rightarrow> change_page list \<Rightarrow> bool"
where
  "pages_of_run A src b cursor gen k run db s y pages =
     (apply_pages src b gen pages db = Inr (fst (snd y))
      \<and> (case fst y of
           Inr run' \<Rightarrow> fetched A b cursor k s pages (snd (snd y)) \<and> run' = fold count_page pages run
         | Inl e \<Rightarrow> \<forall>p \<in> set pages. cp_continuation p \<noteq> None))"

lemma sync_book_pages:
  assumes "sync_book A src b cursor gen k run db s = Some y"
  shows "\<exists>pages. pages_of_run A src b cursor gen k run db s y pages"
proof (rule sync_book.raw_induct [OF _ assms])
  fix loop A src b cursor gen k run db s and y :: "(contact_error + sync_run) \<times> contact_db \<times> 'a"
  assume IH: "\<And>A src b cursor gen k run db s y. loop A src b cursor gen k run db s = Some y
      \<Longrightarrow> \<exists>pages. pages_of_run A src b cursor gen k run db s y pages"
    and step: "(case ad_changes A b cursor k s of
        (res, s') \<Rightarrow>
          (case res of
             Inl e \<Rightarrow> Some (Inl e, db, s')
           | Inr page \<Rightarrow>
               (if cp_continuation page = None \<and> cp_cursor page = None then Some (Inl missing_cursor, db, s')
                else case apply_change_page src b gen page db of
                  Inl e \<Rightarrow> Some (Inl repository_error, db, s')
                | Inr db' \<Rightarrow>
                    (if cp_continuation page = None then Some (Inr (count_page page run), db', s')
                     else loop A src b cursor gen (cp_continuation page) (count_page page run) db' s')))) = Some y"
  obtain res s1 where call: "ad_changes A b cursor k s = (res, s1)" by (cases "ad_changes A b cursor k s")
  show "\<exists>pages. pages_of_run A src b cursor gen k run db s y pages"
  proof (cases "\<exists>page db1. res = Inr page \<and> apply_change_page src b gen page db = Inr db1
      \<and> (cp_continuation page \<noteq> None \<or> cp_cursor page \<noteq> None)")
    case False
    then have "pages_of_run A src b cursor gen k run db s y []"
      using step call by (auto simp: pages_of_run_def split: sum.splits if_splits)
    then show ?thesis by blast
  next
    case True
    then obtain page db1 where page: "res = Inr page" "apply_change_page src b gen page db = Inr db1"
      "cp_continuation page \<noteq> None \<or> cp_cursor page \<noteq> None" by blast
    show ?thesis
    proof (cases "cp_continuation page")
      case None
      then have "pages_of_run A src b cursor gen k run db s y [page]"
        using step call page by (auto simp: pages_of_run_def intro!: last_page)
      then show ?thesis by blast
    next
      case (Some k')
      then have "loop A src b cursor gen (cp_continuation page) (count_page page run) db1 s1 = Some y"
        using step call page by simp
      from IH [OF this] obtain pages where
        "pages_of_run A src b cursor gen (cp_continuation page) (count_page page run) db1 s1 y pages" by blast
      then have "pages_of_run A src b cursor gen k run db s y (page # pages)"
        using call page Some by (auto simp: pages_of_run_def split: sum.splits intro: more_pages)
      then show ?thesis by blast
    qed
  qed
qed

section \<open>Invariant and cursors\<close>

lemma apply_pages_ok: "apply_pages src b gen pages db = Inr db' \<Longrightarrow> tables_ok db \<Longrightarrow> tables_ok db'"
  by (induction pages arbitrary: db) (auto split: sum.splits dest: apply_change_page_ok)

lemma sync_book_ok: "sync_book A src b cursor gen k run db s = Some (res, db', s') \<Longrightarrow> tables_ok db \<Longrightarrow> tables_ok db'"
  by (drule sync_book_pages) (auto simp: pages_of_run_def intro: apply_pages_ok)

lemma sync_books_ok: "sync_books A src gen bs run db s = Some (res, db', s') \<Longrightarrow> tables_ok db \<Longrightarrow> tables_ok db'"
  by (induction A src gen bs run db s rule: sync_books.induct)
     (auto split: option.splits sum.splits prod.splits dest: sync_book_ok)

lemma sync_source_attempt_ok:
  "sync_source_attempt rd now A src allow db s = Some (res, db', s') \<Longrightarrow> tables_ok db \<Longrightarrow> tables_ok db'"
  unfolding sync_source_attempt_def
  by (auto simp: Let_def split: option.splits sum.splits prod.splits if_splits dest!: sync_books_ok
        intro: finish_full_sync_ok finish_book_discovery_ok)

lemma record_outcome_ok: "tables_ok db \<Longrightarrow> tables_ok (record_outcome src res db)"
  by (simp add: record_outcome_def set_source_state_ok split: sum.splits)

lemma sync_source_once_ok:
  "sync_source_once rd now A src db s = Some (res, db', s') \<Longrightarrow> tables_ok db \<Longrightarrow> tables_ok db'"
  unfolding sync_source_once_def
  by (auto split: option.splits prod.splits if_splits dest!: sync_source_attempt_ok intro: record_outcome_ok set_source_state_ok)

lemma persist_mutation_or_reconcile_ok:
  "persist_mutation_or_reconcile rd now A src b page db s = Some (res, db', s') \<Longrightarrow> tables_ok db \<Longrightarrow> tables_ok db'"
  unfolding persist_mutation_or_reconcile_def
  by (auto split: option.splits sum.splits prod.splits dest: apply_change_page_ok sync_source_once_ok)

lemma find_book_columns:
  "map_option bo_cursor (find_book (db\<lparr>kb_books := map (\<lambda>q. if bo_source q = src \<and> bo_remote q = r
     then book_columns b gen q else q) (kb_books db)\<rparr>) src' r') = map_option bo_cursor (find_book db src' r')"
  by (simp add: find_book_def find_map_cond option.map_comp comp_def if_distrib cong: if_cong)

lemma bind_map_option: "Option.bind x f = Option.bind (map_option f x) (\<lambda>y. y)"
  by (cases x) auto

lemma upsert_book_cursor:
  assumes "upsert_book src b gen db = Inr (i, db')"
  shows "book_cursor db' src' remote = book_cursor db src' remote"
  using assms
proof (cases rule: upsert_book_cases)
  case (old q)
  then show ?thesis
    unfolding book_cursor_def bind_map_option [of _ bo_cursor] by (simp only: find_book_columns)
next
  case (new q)
  then show ?thesis
    by (auto simp: book_cursor_def find_book_def find_append split: option.splits)
qed

lemma book_cursor_same_books: "kb_books db' = kb_books db \<Longrightarrow> book_cursor db' = book_cursor db"
  by (simp add: fun_eq_iff book_cursor_def find_book_def)

lemma apply_change_page_frame:
  assumes "apply_change_page src b gen page db = Inr db'" "tables_ok db"
  obtains book db1 db4 where "upsert_book src b gen db = Inr (book, db1)" "tables_ok db1"
    "kb_books db4 = kb_books db1" "kb_sources db4 = kb_sources db1" "db' = save_book_cursor book (cp_cursor page) db4"
  using assms(1)
proof (cases rule: apply_change_page_cases)
  case (1 book db1 db2 db3 db4)
  note book_ok = upsert_book_ok [OF 1(1) assms(2)]
  have db2: "tables_ok db2" "kb_books db2 = kb_books db1" "kb_sources db2 = kb_sources db1"
    using upsert_groups_ok [OF 1(2) [unfolded upsert_provider_groups_def] book_ok] by simp_all
  have "book_in db2 src (Some book)"
    using book_ok(2) book_in_same_books [OF db2(2)] by simp
  then show thesis
    using that [OF 1(1) book_ok(1) _ _ 1(5)] upsert_contacts_ok [OF 1(3) db2(1)] remove_contacts_ok [OF 1(4)] db2 by simp
qed

lemma continued_page_keeps_cursors:
  assumes "apply_change_page src b gen page db = Inr db'" "tables_ok db" "cp_continuation page \<noteq> None"
  shows "book_cursor db' src' remote = book_cursor db src' remote"
  using assms(1,2)
proof (cases rule: apply_change_page_frame)
  case (1 book db1 db4)
  have "cp_cursor page = None"
    using assms(1,3) by (auto simp: apply_change_page_def split: if_splits)
  then show ?thesis
    using 1 upsert_book_cursor [OF 1(1)] book_cursor_same_books [OF 1(3)] by (simp add: save_book_cursor_def)
qed

lemma continued_pages_keep_cursors:
  "apply_pages src b gen pages db = Inr db' \<Longrightarrow> tables_ok db \<Longrightarrow> \<forall>p \<in> set pages. cp_continuation p \<noteq> None
   \<Longrightarrow> book_cursor db' src' remote = book_cursor db src' remote"
proof (induction pages arbitrary: db)
  case (Cons p pages)
  then obtain db1 where db1: "apply_change_page src b gen p db = Inr db1" "apply_pages src b gen pages db1 = Inr db'"
    by (auto split: sum.splits)
  show ?case
    using Cons.IH [OF db1(2) apply_change_page_ok [OF db1(1) Cons.prems(2)]] Cons.prems(3)
      continued_page_keeps_cursors [OF db1(1) Cons.prems(2), of src' remote]
    by simp
qed simp

lemma failed_book_keeps_cursors:
  "sync_book A src b cursor gen k run db s = Some (Inl e, db', s') \<Longrightarrow> tables_ok db
   \<Longrightarrow> book_cursor db' src' remote = book_cursor db src' remote"
  by (drule sync_book_pages) (auto simp: pages_of_run_def simp del: not_None_eq intro: continued_pages_keep_cursors)

section \<open>What the pages describe\<close>

text \<open>The contacts of a source after a page, by remote id.\<close>

definition absorb_tombstone :: "tombstone \<Rightarrow> (string \<rightharpoonup> remote_contact) \<Rightarrow> (string \<rightharpoonup> remote_contact)" where
  "absorb_tombstone t m =
     (case m (tb_remote t) of
        None \<Rightarrow> m
      | Some rc \<Rightarrow> if rc_book rc = tb_book t then m(tb_remote t := None) else m)"

definition absorb_upsert :: "remote_contact \<Rightarrow> (string \<rightharpoonup> remote_contact) \<Rightarrow> (string \<rightharpoonup> remote_contact)" where
  "absorb_upsert rc m = m(rc_remote rc \<mapsto> rc)"

definition absorb_page :: "change_page \<Rightarrow> (string \<rightharpoonup> remote_contact) \<Rightarrow> (string \<rightharpoonup> remote_contact)" where
  "absorb_page p m = fold absorb_tombstone (cp_tombstones p) (fold absorb_upsert (cp_upserts p) m)"

definition booked :: "contact_db \<Rightarrow> string \<Rightarrow> int \<Rightarrow> string \<Rightarrow> nat option \<Rightarrow> bool" where
  "booked db src gen remote i =
     (\<exists>b \<in> set (kb_books db). i = Some (bo_id b) \<and> bo_source b = src \<and> bo_remote b = remote \<and> bo_generation b = gen)"

lemma booked_alt:
  "booked db src gen remote i \<longleftrightarrow>
     (i, src, remote, gen) \<in> set (map (\<lambda>b. (Some (bo_id b), bo_source b, bo_remote b, bo_generation b)) (kb_books db))"
  by (auto simp: booked_def)

definition carries :: "contact_db \<Rightarrow> string \<Rightarrow> int \<Rightarrow> remote_contact \<Rightarrow> contact_row \<Rightarrow> bool" where
  "carries db src gen rc r =
     (kr_contact r = rc_contact rc \<and> kr_version r = rc_version rc \<and> kr_metadata r = rc_metadata rc
      \<and> kr_generation r = gen \<and> booked db src gen (rc_book rc) (kr_book r))"

definition shown :: "contact_db \<Rightarrow> string \<Rightarrow> int \<Rightarrow> string \<Rightarrow> remote_contact option \<Rightarrow> bool" where
  "shown db src gen uid v =
     (case v of
        None \<Rightarrow> \<forall>r. find_contact db src uid = Some r \<longrightarrow> kr_generation r \<noteq> gen
      | Some rc \<Rightarrow> \<exists>r. find_contact db src uid = Some r \<and> carries db src gen rc r)"

definition mirrors :: "contact_db \<Rightarrow> string \<Rightarrow> int \<Rightarrow> (string \<rightharpoonup> remote_contact) \<Rightarrow> bool" where
  "mirrors db src gen m = (\<forall>uid. shown db src gen uid (m uid))"

lemma find_contact_columns:
  "find_contact (db\<lparr>kb_contacts := map (\<lambda>q. if kr_source q = src \<and> kr_uid q = u then contact_columns book gen rc q else q) (kb_contacts db)\<rparr>) src uid
   = (if uid = u then map_option (contact_columns book gen rc) (find_contact db src uid) else find_contact db src uid)"
proof (cases "find_contact db src uid")
  case None
  then show ?thesis by (auto simp: find_contact_def find_map_cond)
next
  case (Some r)
  then have "kr_source r = src" "kr_uid r = uid" by (auto dest: find_contact_Some)
  with Some show ?thesis by (auto simp: find_contact_def find_map_cond)
qed

lemma find_contact_put_same:
  assumes "put_contact src book gen rc db = (i, db')"
  shows "\<exists>r. find_contact db' src (rc_remote rc) = Some (contact_columns book gen rc r)"
  using assms
proof (cases rule: put_contact_cases)
  case (old r)
  then show ?thesis by (auto simp: find_contact_columns)
next
  case (new r)
  then show ?thesis by (auto simp: find_contact_def find_append split: option.splits)
qed

lemma find_contact_put_other:
  assumes "put_contact src book gen rc db = (i, db')" "uid \<noteq> rc_remote rc"
  shows "find_contact db' src uid = find_contact db src uid"
  using assms(1)
proof (cases rule: put_contact_cases)
  case (old r)
  then show ?thesis using assms(2) by (simp add: find_contact_columns)
next
  case (new r)
  then show ?thesis using assms(2) by (auto simp: find_contact_def find_append split: option.splits)
qed

lemma find_contact_deleted:
  assumes "contacts_ok db"
  shows "find_contact (delete_contacts P db) src uid =
    (case find_contact db src uid of None \<Rightarrow> None | Some r \<Rightarrow> if P r then None else Some r)"
proof -
  have "distinct (map contact_key (kb_contacts db))" using assms by (simp add: contacts_ok_def)
  then have "find_contact (delete_contacts P db) src uid =
    (case find_contact db src uid of None \<Rightarrow> None | Some r \<Rightarrow> if \<not> P r then Some r else None)"
    unfolding find_contact_def delete_contacts_frame
    by (rule find_filter_key) (simp add: contact_key_def)
  then show ?thesis by (auto split: option.splits)
qed

text \<open>One step of each kind.\<close>

lemma shown_same:
  assumes "find_contact db' src uid = find_contact db src uid"
    and "\<And>remote i. booked db src gen remote i \<Longrightarrow> booked db' src gen remote i"
  shows "shown db src gen uid v \<Longrightarrow> shown db' src gen uid v"
  using assms by (cases v) (auto simp: shown_def carries_def)

lemma mirrors_same:
  "mirrors db src gen m \<Longrightarrow> kb_contacts db' = kb_contacts db
   \<Longrightarrow> (\<And>remote i. booked db src gen remote i \<Longrightarrow> booked db' src gen remote i) \<Longrightarrow> mirrors db' src gen m"
  unfolding mirrors_def by (metis shown_same find_contact_def)

lemma booked_same: "kb_books db' = kb_books db \<Longrightarrow> booked db' = booked db"
  by (simp add: booked_def fun_eq_iff)

lemma mirrors_upsert:
  assumes "upsert_contact src book gen rc db = Inr db'" "tables_ok db" "book_in db src (Some book)"
    and "mirrors db src gen m" "booked db src gen (rc_book rc) (Some book)"
  shows "mirrors db' src gen (m(rc_remote rc \<mapsto> rc))"
proof -
  obtain i db1 where put: "put_contact src book gen rc db = (i, db1)"
    by (cases "put_contact src book gen rc db")
  note up = upsert_contact_ok [OF assms(1,2,3)]
  have contacts: "find_contact db' = find_contact db1"
    using up(4) put by (simp add: fun_eq_iff find_contact_def)
  have books: "booked db' = booked db"
    by (rule booked_same [OF up(2)])
  obtain r where "find_contact db1 src (rc_remote rc) = Some (contact_columns book gen rc r)"
    using find_contact_put_same [OF put] by blast
  then have new: "find_contact db1 src (rc_remote rc) = Some (contact_columns book gen rc r)" .
  show ?thesis
    unfolding mirrors_def
  proof (intro allI)
    fix uid
    show "shown db' src gen uid ((m(rc_remote rc \<mapsto> rc)) uid)"
    proof (cases "uid = rc_remote rc")
      case True
      with new assms(5) show ?thesis
        by (simp add: shown_def contacts carries_def books contact_columns_def Let_def)
    next
      case False
      then have "shown db' src gen uid (m uid)"
        using assms(4) find_contact_put_other [OF put False]
        by (intro shown_same [where db' = db', OF _ _ mirrors_def [THEN iffD1, rule_format, OF assms(4)]]) (simp_all add: contacts books)
      with False show ?thesis by simp
    qed
  qed
qed

lemma booked_inj: "books_ok db \<Longrightarrow> booked db src gen remote i \<Longrightarrow> booked db src gen remote' i \<Longrightarrow> remote = remote'"
  by (auto simp: booked_def books_ok_def distinct_map inj_on_def)

lemma booked_key: "books_ok db \<Longrightarrow> booked db src gen remote i \<Longrightarrow> booked db src gen remote j \<Longrightarrow> i = j"
  by (auto simp: booked_def books_ok_def book_key_def distinct_map inj_on_def)

lemma mirrors_delete:
  assumes "delete_contact src book t db = Inr db'" "tables_ok db" "mirrors db src gen m"
    and "booked db src gen (tb_book t) (Some book)"
  shows "mirrors db' src gen (absorb_tombstone t m)"
proof -
  let ?P = "\<lambda>r. kr_source r = src \<and> kr_book r = Some book \<and> kr_uid r = tb_remote t"
  have db': "db' = delete_contacts ?P db"
    using assms(1) by (auto simp: delete_contact_def split: if_splits)
  have books: "booked db' = booked db"
    by (rule booked_same) (simp add: db')
  have found: "find_contact db' src uid = (case find_contact db src uid of None \<Rightarrow> None | Some r \<Rightarrow> if ?P r then None else Some r)" for uid
    using assms(2) unfolding db' by (intro find_contact_deleted) (simp add: tables_ok_def)
  have same_book: "kr_book r = Some book \<longleftrightarrow> rc_book rc = tb_book t" if "carries db src gen rc r" for rc r
    using that assms(2,4) booked_inj [of db src gen "rc_book rc" "Some book" "tb_book t"]
      booked_key [of db src gen "rc_book rc" "kr_book r" "Some book"]
    by (auto simp: carries_def tables_ok_def)
  show ?thesis
    unfolding mirrors_def
  proof (intro allI)
    fix uid
    have step: "shown db src gen uid (m uid)"
      using assms(3) by (simp add: mirrors_def)
    show "shown db' src gen uid (absorb_tombstone t m uid)"
    proof (cases "m uid")
      case None
      then show ?thesis
        using step by (auto simp: shown_def absorb_tombstone_def found split: option.splits if_splits)
    next
      case (Some rc)
      then obtain r where r: "find_contact db src uid = Some r" "carries db src gen rc r"
        using step by (auto simp: shown_def)
      then have "kr_uid r = uid" "kr_source r = src" by (auto dest: find_contact_Some)
      then show ?thesis
        using Some r same_book [OF r(2)]
        by (auto simp: shown_def absorb_tombstone_def found carries_def books split: option.splits)
    qed
  qed
qed

section \<open>Whole pages\<close>

lemma mirrors_upserts:
  "upsert_contacts src remote book gen rcs db = Inr db' \<Longrightarrow> tables_ok db \<Longrightarrow> book_in db src (Some book)
   \<Longrightarrow> booked db src gen remote (Some book) \<Longrightarrow> mirrors db src gen m
   \<Longrightarrow> mirrors db' src gen (fold absorb_upsert rcs m)"
proof (induction rcs arbitrary: db m)
  case (Cons rc rcs)
  from Cons.prems(1) obtain db1 where
    up: "upsert_contact src book gen rc db = Inr db1" "rc_book rc = remote" and rest: "upsert_contacts src remote book gen rcs db1 = Inr db'"
    by (auto split: sum.splits if_splits)
  note up_ok = upsert_contact_ok [OF up(1) Cons.prems(2,3)]
  have "mirrors db1 src gen (absorb_upsert rc m)"
    using Cons.prems(4,5) up(2) unfolding absorb_upsert_def by (intro mirrors_upsert [OF up(1) Cons.prems(2,3)]) simp_all
  then show ?case
    using Cons.IH [OF rest up_ok(1)] Cons.prems(3,4) book_in_same_books [OF up_ok(2)] booked_same [OF up_ok(2)] by simp
qed simp

lemma mirrors_tombstones:
  "remove_contacts src book ts db = Inr db' \<Longrightarrow> tables_ok db \<Longrightarrow> \<forall>t \<in> set ts. tb_book t = remote
   \<Longrightarrow> booked db src gen remote (Some book) \<Longrightarrow> mirrors db src gen m
   \<Longrightarrow> mirrors db' src gen (fold absorb_tombstone ts m)"
proof (induction ts arbitrary: db m)
  case (Cons t ts)
  from Cons.prems(1) obtain db1 where
    del: "delete_contact src book t db = Inr db1" and rest: "remove_contacts src book ts db1 = Inr db'"
    by (auto split: sum.splits)
  have one: "remove_contacts src book [t] db = Inr db1" using del by simp
  note del_ok = remove_contacts_ok [OF one Cons.prems(2)]
  have "mirrors db1 src gen (absorb_tombstone t m)"
    using Cons.prems(3,4,5) by (intro mirrors_delete [OF del Cons.prems(2)]) simp_all
  then show ?case
    using Cons.IH [OF rest] del_ok Cons.prems(3,4) booked_same [of db1 db] by simp
qed simp

lemma booked_upsert:
  assumes "upsert_book src b gen db = Inr (book, db')"
  shows "booked db' src gen (cb_remote b) (Some book)"
    and "booked db src' gen remote i \<Longrightarrow> booked db' src' gen remote i"
proof -
  have "booked db' src gen (cb_remote b) (Some book) \<and> (booked db src' gen remote i \<longrightarrow> booked db' src' gen remote i)"
    using assms
  proof (cases rule: upsert_book_cases)
    case (old q)
    let ?f = "\<lambda>q. if bo_source q = src \<and> bo_remote q = cb_remote b then book_columns b gen q else q"
    have kept: "?f x \<in> set (kb_books db')" if "x \<in> set (kb_books db)" for x
      using that by (auto simp: old(3))
    have "booked db' src gen (cb_remote b) (Some book)"
      using find_book_Some [OF old(1)] unfolding booked_def by (intro bexI [OF _ kept [of q]]) (auto simp: old(2))
    moreover have "booked db' src' gen remote i" if "booked db src' gen remote i"
    proof -
      from that obtain x where x: "x \<in> set (kb_books db)" "i = Some (bo_id x)" "bo_source x = src'" "bo_remote x = remote" "bo_generation x = gen"
        by (auto simp: booked_def)
      then show ?thesis
        unfolding booked_def by (intro bexI [OF _ kept [OF x(1)]]) simp
    qed
    ultimately show ?thesis by blast
  next
    case (new q)
    then show ?thesis by (auto simp: booked_def)
  qed
  then show "booked db' src gen (cb_remote b) (Some book)"
    and "booked db src' gen remote i \<Longrightarrow> booked db' src' gen remote i" by blast+
qed

lemma booked_cursor: "booked (save_book_cursor book cursor db) = booked db"
  by (cases cursor) (simp_all add: save_book_cursor_def booked_alt fun_eq_iff del: set_map)

lemma mirrors_page:
  assumes "apply_change_page src b gen p db = Inr db'" "tables_ok db" "page_of (cb_remote b) p" "mirrors db src gen m"
  shows "mirrors db' src gen (absorb_page p m)"
  using assms(1)
proof (cases rule: apply_change_page_cases)
  case (1 book db1 db2 db3 db4)
  note book_ok = upsert_book_ok [OF 1(1) assms(2)]
  have two: "tables_ok db2" "kb_contacts db2 = kb_contacts db1" "kb_books db2 = kb_books db1"
    using upsert_groups_ok [OF 1(2) [unfolded upsert_provider_groups_def] book_ok] by simp_all
  have in2: "book_in db2 src (Some book)" "booked db2 src gen (cb_remote b) (Some book)"
    using book_ok(2) book_in_same_books [OF two(3)] booked_upsert(1) [OF 1(1)] booked_same [OF two(3)] by simp_all
  have m2: "mirrors db2 src gen m"
    using two(2) upsert_book_frame(2) [OF 1(1)] booked_upsert(2) [OF 1(1)] booked_same [OF two(3)]
    by (intro mirrors_same [OF assms(4)]) simp_all
  have three: "tables_ok db3" "kb_books db3 = kb_books db2"
    using upsert_contacts_ok [OF 1(3) two(1) in2(1)] by simp_all
  have m3: "mirrors db3 src gen (fold absorb_upsert (cp_upserts p) m)"
    by (rule mirrors_upserts [OF 1(3) two(1) in2 m2])
  have "mirrors db4 src gen (absorb_page p m)"
    unfolding absorb_page_def
    using in2(2) assms(3) booked_same [OF three(2)]
    by (intro mirrors_tombstones [OF 1(4) three(1) _ _ m3]) (simp_all add: page_of_def)
  moreover have "kb_contacts db' = kb_contacts db4"
    by (simp add: 1(5) save_book_cursor_def split: option.splits)
  ultimately show ?thesis
    by (rule mirrors_same) (simp_all add: 1(5) booked_cursor)
qed

lemma mirrors_pages:
  "apply_pages src b gen pages db = Inr db' \<Longrightarrow> tables_ok db \<Longrightarrow> \<forall>p \<in> set pages. page_of (cb_remote b) p
   \<Longrightarrow> mirrors db src gen m \<Longrightarrow> mirrors db' src gen (fold absorb_page pages m)"
proof (induction pages arbitrary: db m)
  case (Cons p pages)
  then obtain db1 where db1: "apply_change_page src b gen p db = Inr db1" "apply_pages src b gen pages db1 = Inr db'"
    by (auto split: sum.splits)
  show ?case
    using Cons.IH [OF db1(2) apply_change_page_ok [OF db1(1) Cons.prems(2)]] mirrors_page [OF db1(1) Cons.prems(2)] Cons.prems(3,4)
    by simp
qed simp

section \<open>Whole runs\<close>

inductive fetched_books ::
  "'s adapter \<Rightarrow> (contact_book \<times> string option) list \<Rightarrow> 's \<Rightarrow> change_page list \<Rightarrow> 's \<Rightarrow> bool"
where
  no_book: "fetched_books A [] s [] s"
| next_book: "fetched A b cursor None s pages s1 \<Longrightarrow> fetched_books A bs s1 rest s'
     \<Longrightarrow> fetched_books A ((b, cursor) # bs) s (pages @ rest) s'"

definition exactly_mirrors :: "contact_db \<Rightarrow> string \<Rightarrow> int \<Rightarrow> (string \<rightharpoonup> remote_contact) \<Rightarrow> bool" where
  "exactly_mirrors db src gen m =
     (\<forall>uid. case m uid of
        None \<Rightarrow> find_contact db src uid = None
      | Some rc \<Rightarrow> \<exists>r. find_contact db src uid = Some r \<and> carries db src gen rc r)"

lemma find_contact_filter:
  assumes "contacts_ok db" "kb_contacts db' = filter P (kb_contacts db)"
  shows "find_contact db' src uid = (case find_contact db src uid of None \<Rightarrow> None | Some r \<Rightarrow> if P r then Some r else None)"
proof -
  have "find_contact db' src uid = find_contact (delete_contacts (\<lambda>r. \<not> P r) db) src uid"
    by (simp add: find_contact_def assms(2))
  then show ?thesis
    using find_contact_deleted [OF assms(1), of "\<lambda>r. \<not> P r" src uid] by (simp split: option.splits)
qed

lemma update_source_frame [simp]:
  "kb_books (update_source src f db) = kb_books db" "kb_contacts (update_source src f db) = kb_contacts db"
  "kb_groups (update_source src f db) = kb_groups db" "kb_members (update_source src f db) = kb_members db"
  by (simp_all add: update_source_def)

lemma delete_groups_frame [simp]:
  "kb_books (delete_groups P db) = kb_books db" "kb_sources (delete_groups P db) = kb_sources db"
  "kb_contacts (delete_groups P db) = kb_contacts db" "kb_groups (delete_groups P db) = filter (\<lambda>g. \<not> P g) (kb_groups db)"
  by (simp_all add: delete_groups_def)

lemma finish_full_sync_mirrors:
  assumes "tables_ok db" "mirrors db src gen m"
  shows "exactly_mirrors (finish_full_sync src gen now db) src gen m"
proof -
  let ?db = "finish_full_sync src gen now db" and ?gone = "\<lambda>b. bo_source b = src \<and> bo_generation b \<noteq> gen"
  let ?keep = "\<lambda>r. \<not> (kr_source r = src \<and> kr_generation r \<noteq> gen) \<and> \<not> of_book (filter ?gone (kb_books db)) (kr_book r)"
  have found: "find_contact ?db src uid = (case find_contact db src uid of None \<Rightarrow> None | Some r \<Rightarrow> if ?keep r then Some r else None)" for uid
    using assms(1) by (intro find_contact_filter) (auto simp: tables_ok_def finish_full_sync_def conj_commute intro: filter_cong)
  have booked': "booked ?db src gen remote i" if "booked db src gen remote i" for remote i
    using that by (auto simp: booked_def finish_full_sync_def)
  have kept: "\<not> of_book (filter ?gone (kb_books db)) (kr_book r)" if "carries db src gen rc r" for rc r
    using that assms(1) by (auto simp: carries_def booked_def of_book_def tables_ok_def books_ok_def distinct_map inj_on_def)
  show ?thesis
    unfolding exactly_mirrors_def
  proof (intro allI)
    fix uid
    have step: "shown db src gen uid (m uid)"
      using assms(2) by (simp add: mirrors_def)
    show "case m uid of
        None \<Rightarrow> find_contact ?db src uid = None
      | Some rc \<Rightarrow> \<exists>r. find_contact ?db src uid = Some r \<and> carries ?db src gen rc r"
    proof (cases "m uid")
      case None
      then show ?thesis
        using step by (auto simp: shown_def found split: option.splits dest: find_contact_Some)
    next
      case (Some rc)
      then obtain r where r: "find_contact db src uid = Some r" "carries db src gen rc r"
        using step by (auto simp: shown_def)
      then show ?thesis
        using Some kept [OF r(2)] booked' by (auto simp: found carries_def)
    qed
  qed
qed

definition attempt_books :: "(string \<Rightarrow> json option) \<Rightarrow> 's adapter \<Rightarrow> string \<Rightarrow> contact_db \<Rightarrow> 's \<Rightarrow> (contact_book list \<times> 's) option" where
  "attempt_books rd A src db s =
     (case ad_books A s of
        Some (Inr found, s1) \<Rightarrow> map_option (\<lambda>r. (selected_books rd r found, s1)) (find_source db src)
      | _ \<Rightarrow> None)"

context contact_provider
begin

lemma fetched_page_of: "fetched A b cursor k s pages s' \<Longrightarrow> \<forall>p \<in> set pages. page_of (cb_remote b) p"
  by (induction A\<equiv>A b cursor k s pages s' rule: fetched.induct)
     (auto dest: changes_of_book)

lemma sync_books_mirrors:
  "sync_books A src gen bs run db s = Some (Inr run', db', s') \<Longrightarrow> tables_ok db \<Longrightarrow> mirrors db src gen m
   \<Longrightarrow> \<exists>pages. fetched_books A bs s pages s' \<and> mirrors db' src gen (fold absorb_page pages m)"
proof (induction A\<equiv>A src gen bs run db s arbitrary: m rule: sync_books.induct)
  case (1 src gen run db s)
  then show ?case by (auto intro!: exI [of _ "[]"] no_book)
next
  case (2 src gen b cursor bs run db s)
  from "2.prems"(1) obtain run1 db1 s1 where
    book: "sync_book A src b cursor gen None run db s = Some (Inr run1, db1, s1)"
    and rest: "sync_books A src gen bs run1 db1 s1 = Some (Inr run', db', s')"
    by (auto split: option.splits sum.splits prod.splits)
  obtain pages where pages: "apply_pages src b gen pages db = Inr db1" "fetched A b cursor None s pages s1"
    using sync_book_pages [OF book] by (auto simp: pages_of_run_def)
  have "mirrors db1 src gen (fold absorb_page pages m)"
    by (rule mirrors_pages [OF pages(1) "2.prems"(2) fetched_page_of [OF pages(2)] "2.prems"(3)])
  from "2.hyps"(1) [OF book refl refl refl rest sync_book_ok [OF book "2.prems"(2)] this]
  obtain more where "fetched_books A bs s1 more s'" "mirrors db' src gen (fold absorb_page more (fold absorb_page pages m))"
    by auto
  then show ?case
    by (intro exI [of _ "pages @ more"]) (auto intro: next_book pages(2))
qed

end

lemma mirrors_empty:
  assumes "tables_ok db"
  shows "mirrors db src gen Map.empty \<longleftrightarrow> (\<forall>r \<in> set (kb_contacts db). kr_source r = src \<longrightarrow> kr_generation r \<noteq> gen)"
proof -
  have "find_contact db src (kr_uid r) = Some r" if "r \<in> set (kb_contacts db)" "kr_source r = src" for r
  proof -
    have "contact_key r \<in> contact_key ` set (kb_contacts db)" by (rule imageI [OF that(1)])
    moreover have "contact_key r = (src, kr_uid r)" by (simp add: contact_key_def that(2))
    ultimately have "find_contact db src (kr_uid r) \<noteq> None" unfolding find_contact_None by simp
    then obtain q where q: "find_contact db src (kr_uid r) = Some q" by blast
    then have "q \<in> set (kb_contacts db)" "contact_key q = contact_key r"
      using that(2) find_contact_Some [OF q] by (simp_all add: contact_key_def)
    then have "q = r"
      using assms that(1) by (auto simp: tables_ok_def contacts_ok_def distinct_map inj_on_def)
    with q show ?thesis by simp
  qed
  then show ?thesis
    by (auto simp: mirrors_def shown_def dest: find_contact_Some)
qed

text \<open>No contact of the source carries the generation that the next run uses.\<close>

definition unused_generation :: "contact_db \<Rightarrow> string \<Rightarrow> bool" where
  "unused_generation db src =
     (case find_source db src of
        None \<Rightarrow> True
      | Some q \<Rightarrow> \<forall>r \<in> set (kb_contacts db). kr_source r = src \<longrightarrow> kr_generation r \<noteq> so_generation q + 1)"

lemma sync_books_mode:
  "sync_books A src gen bs run db s = Some (Inr run', db', s') \<Longrightarrow> sn_mode run' = sn_mode run"
proof (induction A src gen bs run db s rule: sync_books.induct)
  case (2 A src gen b cursor bs run db s)
  have "sn_mode (fold count_page pages run) = sn_mode run" for pages and run :: sync_run
    by (induction pages arbitrary: run) (simp_all add: count_page_def)
  with 2 show ?case
    by (fastforce simp: pages_of_run_def dest!: sync_book_pages split: option.splits sum.splits prod.splits)
qed simp

lemma attempt_cases:
  assumes "sync_source_attempt rd now A src allow db s = Some (Inr run, db', s')"
  obtains r books s1 run0 db1 where "find_source db src = Some r" "attempt_books rd A src db s = Some (books, s1)"
    "sn_mode run = FullSync \<longleftrightarrow> needs_full_sync allow books (map (\<lambda>b. book_cursor db src (cb_remote b)) books)"
    "sync_books A src (so_generation r + 1)
       (zip books (map (\<lambda>b. if sn_mode run = FullSync then None else book_cursor db src (cb_remote b)) books)) run0 db s1 = Some (Inr run, db1, s')"
    "db' = (if sn_mode run = FullSync then finish_full_sync src (so_generation r + 1) now db1
            else finish_book_discovery src (so_generation r + 1) db1)"
proof -
  obtain found s1 where found: "ad_books A s = Some (Inr found, s1)"
    using assms by (auto simp: sync_source_attempt_def split: option.splits sum.splits prod.splits)
  obtain r where r: "find_source db src = Some r"
    using assms found by (auto simp: sync_source_attempt_def split: option.splits)
  define books where "books = selected_books rd r found"
  define full where "full = needs_full_sync allow books (map (\<lambda>b. book_cursor db src (cb_remote b)) books)"
  define run0 where "run0 = \<lparr>sn_mode = (if full then FullSync else IncrementalSync), sn_pages = 0, sn_upserts = 0, sn_tombstones = 0\<rparr>"
  define bs where "bs = zip books (map (\<lambda>b. if full then None else book_cursor db src (cb_remote b)) books)"
  have bs: "zip books (if full then map (\<lambda>_. None) (map (\<lambda>b. book_cursor db src (cb_remote b)) books)
      else map (\<lambda>b. book_cursor db src (cb_remote b)) books) = bs"
    by (simp add: bs_def comp_def)
  obtain db1 where run: "sync_books A src (so_generation r + 1) bs run0 db s1 = Some (Inr run, db1, s')"
    and db': "db' = (if full then finish_full_sync src (so_generation r + 1) now db1 else finish_book_discovery src (so_generation r + 1) db1)"
    using assms found r
    by (auto simp: sync_source_attempt_def Let_def bs books_def [symmetric] full_def [symmetric] run0_def [symmetric]
          split: option.splits sum.splits prod.splits)
  have full: "sn_mode run = FullSync \<longleftrightarrow> full"
    using sync_books_mode [OF run] by (simp add: run0_def)
  show thesis
    using that [OF r _ _ run [unfolded bs_def full [symmetric]] db' [folded full]] found r full
    by (simp add: attempt_books_def books_def [symmetric] full_def)
qed

lemma full_run_mirrors:
  assumes "contact_provider A" "sync_source_attempt rd now A src allow db s = Some (Inr run, db', s')"
    and "tables_ok db" "unused_generation db src" "sn_mode run = FullSync"
  shows "\<exists>r books s1 pages. find_source db src = Some r \<and> attempt_books rd A src db s = Some (books, s1)
    \<and> fetched_books A (zip books (map (\<lambda>_. None) books)) s1 pages s'
    \<and> exactly_mirrors db' src (so_generation r + 1) (fold absorb_page pages Map.empty)"
  using assms(2)
proof (cases rule: attempt_cases)
  case (1 r books s1 run0 db1)
  have "mirrors db src (so_generation r + 1) Map.empty"
    using assms(3,4) 1(1) by (simp add: mirrors_empty unused_generation_def)
  with contact_provider.sync_books_mirrors [OF assms(1) 1(4) assms(3)]
  obtain pages where pages: "fetched_books A (zip books (map (\<lambda>_. None) books)) s1 pages s'"
    "mirrors db1 src (so_generation r + 1) (fold absorb_page pages Map.empty)"
    using assms(5) by auto
  have "exactly_mirrors db' src (so_generation r + 1) (fold absorb_page pages Map.empty)"
    using finish_full_sync_mirrors [OF sync_books_ok [OF 1(4) assms(3)] pages(2)] 1(5) assms(5) by simp
  with 1 pages(1) show ?thesis by blast
qed

end
