(* ===== verification/Contact_Accounts.thy ===== *)
theory Contact_Accounts
  imports Contact_Facts Handlers
begin

text \<open>
  Contact sources behind the API (backend/api/src/contact_reconcile.rs and the account routes of
  backend/api/src/routes/contacts.rs): which provider a mailbox gets, the state of its capability, the
  adapter that a source is synchronised with, the synchronisation task and the routes that create,
  enable, disable and remove sources.

  The state holds the mail database, the DAV columns of its mailboxes that the mail model does not have,
  the contact tables, the task manager, the blobs and the published events.  A route acts at once; what
  a started task does is \<open>contact_task_step\<close>, one iteration of its loop.  Failures of the database other
  than its constraints do not occur.
\<close>

section \<open>State\<close>

record mailbox_dav =
  md_account :: string
  md_carddav_url :: "string option"
  md_smtp_cert :: "string option"
  md_accept_invalid_tls :: bool

record contact_app =
  kx_mail :: mail_db
  kx_dav :: "mailbox_dav list"
  kx_aliases :: "string list"
  kx_db :: contact_db
  kx_manager :: contact_manager
  kx_blobs :: "string \<Rightarrow> string option"
  kx_events :: "(string \<times> contact_status) list"

text \<open>
  \<open>ke_tls_web\<close> builds a client that trusts the given certificate, or any; \<open>ke_decode\<close> decodes base64 with
  padding and \<open>ke_decode_bare\<close> without; \<open>ke_render_values\<close> is the JSON text of a list of values.
\<close>

record 's contact_env =
  ke_tokens :: "'s token_env"
  ke_web :: "'s web"
  ke_tls_web :: "string option \<Rightarrow> bool \<Rightarrow> contact_error + 's web"
  ke_fresh :: "'s \<Rightarrow> string"
  ke_decode :: "string \<Rightarrow> string option"
  ke_decode_bare :: "string \<Rightarrow> string option"
  ke_render_values :: "labeled_value list \<Rightarrow> string"
  ke_now :: string

section \<open>The source of a mailbox\<close>

record capability =
  ca_source :: string
  ca_account :: string
  ca_provider :: string
  ca_state :: string
  ca_reason :: "string option"
  ca_enabled :: bool

definition has_password :: "json \<Rightarrow> bool" where
  "has_password creds =
     (\<exists>field \<in> set [''imap_password'', ''password'']. case as_str (jget creds field) of None \<Rightarrow> False | Some v \<Rightarrow> v \<noteq> [])"

definition select_provider :: "string option \<Rightarrow> json \<Rightarrow> (string \<times> string option) option" where
  "select_provider carddav_url creds =
     (if as_str (jget creds ''provider'') = Some ''google'' then Some (''google'', None)
      else if as_str (jget creds ''provider'') = Some ''microsoft'' then Some (''graph'', None)
      else if has_password creds \<or> carddav_url \<noteq> None then Some (''cardav'', carddav_url)
      else None)"

definition capability_state :: "string \<Rightarrow> json \<Rightarrow> bool \<Rightarrow> string \<times> string option" where
  "capability_state provider creds enabled =
     (if \<not> enabled then (''disabled'', None)
      else if provider = ''google'' \<or> provider = ''graph''
      then (case contact_grant_state creds of
              Ready \<Rightarrow> (''pending'', None)
            | ConsentRequired \<Rightarrow> (''consent_required'', Some ''contact_scope_missing'')
            | ReauthenticationRequired \<Rightarrow> (''reauth_required'', Some ''oauth_reauthentication_required''))
      else (''pending'', None))"

definition well_known_carddav :: "string \<Rightarrow> string option" where
  "well_known_carddav email =
     map_option (\<lambda>(user, domain). ''https://'' @ domain @ ''/.well-known/carddav'') (split_once CHR ''@'' email)"

definition dav_of :: "contact_app \<Rightarrow> string \<Rightarrow> mailbox_dav" where
  "dav_of app acct =
     (case find (\<lambda>d. md_account d = acct) (kx_dav app) of
        Some d \<Rightarrow> d
      | None \<Rightarrow> \<lparr>md_account = acct, md_carddav_url = None, md_smtp_cert = None, md_accept_invalid_tls = False\<rparr>)"

definition source_of_mailbox :: "contact_db \<Rightarrow> string \<Rightarrow> source_row option" where
  "source_of_mailbox db acct = find (\<lambda>r. so_mailbox r = Some acct) (kb_sources db)"

text \<open>What the mailbox offers: provider, address, state and reason.\<close>

definition mailbox_capability :: "string \<Rightarrow> string option \<Rightarrow> json \<Rightarrow> bool \<Rightarrow> string \<times> string option \<times> string \<times> string option" where
  "mailbox_capability email carddav_url creds enabled =
     (case select_provider carddav_url creds of
        Some (provider, base) \<Rightarrow>
          (provider, if provider = ''cardav'' \<and> base = None then well_known_carddav email else base,
           capability_state provider creds enabled)
      | None \<Rightarrow> (''cardav'', None, ''unavailable'', Some ''no_supported_contact_provider''))"

definition reconcile_mailbox_contact_source ::
  "'s contact_env \<Rightarrow> string \<Rightarrow> string \<Rightarrow> bool option \<Rightarrow> contact_app \<Rightarrow> (string + capability) \<times> contact_app"
where
  "reconcile_mailbox_contact_source E fresh acct enabled_override app =
     (case account_of (kx_mail app) acct of
        None \<Rightarrow> (Inl ''mailbox not found'', app)
      | Some a \<Rightarrow>
          (case load_credentials (ke_tokens E) acct (kx_mail app) of
             Inl e \<Rightarrow> (Inl e, app)
           | Inr creds \<Rightarrow>
               (let enabled = (case or_option enabled_override (map_option so_enabled (source_of_mailbox (kx_db app) acct)) of
                     None \<Rightarrow> False | Some e \<Rightarrow> e)
                in case mailbox_capability (a_email a) (md_carddav_url (dav_of app acct)) creds enabled of
                     (provider, base, state, reason) \<Rightarrow>
                       (let m = \<lparr>ms_email_account = acct, ms_name = a_display_name a @ '' contacts'', ms_provider = provider,
                              ms_base_url = base, ms_enabled = (enabled \<and> state \<noteq> ''unavailable''), ms_state = state, ms_reason = reason\<rparr>
                        in case reconcile_mailbox_source fresh m (kx_db app) of
                             (src, db') \<Rightarrow>
                               (Inr \<lparr>ca_source = src, ca_account = acct, ca_provider = provider, ca_state = state, ca_reason = reason,
                                  ca_enabled = ms_enabled m\<rparr>, app\<lparr>kx_db := db'\<rparr>)))))"

section \<open>The adapter of a source\<close>

definition cache_error :: contact_error where
  "cache_error = provider_error Unavailable ''contact cache operation failed'' None"

definition managed_carddav_context ::
  "'s contact_env \<Rightarrow> string \<Rightarrow> contact_app \<Rightarrow> string + (string \<times> dav_auth \<times> string option \<times> bool)"
where
  "managed_carddav_context E src app =
     (case find (\<lambda>r. so_id r = src \<and> so_mode r = ''mailbox'' \<and> so_type r = ''cardav'') (kb_sources (kx_db app)) of
        None \<Rightarrow> Inl ''managed CardDAV source not found''
      | Some r \<Rightarrow>
          (case Option.bind (so_mailbox r) (account_of (kx_mail app)) of
             None \<Rightarrow> Inl ''managed CardDAV source not found''
           | Some a \<Rightarrow>
               (case so_base_url r of
                  None \<Rightarrow> Inl ''base_url is NULL''
                | Some base \<Rightarrow>
                    (case load_credentials (ke_tokens E) (a_id a) (kx_mail app) of
                       Inl e \<Rightarrow> Inl e
                     | Inr creds \<Rightarrow>
                         (case or_option (as_str (jget creds ''imap_password'')) (as_str (jget creds ''password'')) of
                            None \<Rightarrow> Inl ''mailbox credentials do not contain a CardDAV password''
                          | Some password \<Rightarrow>
                              (let username = (case or_option (as_str (jget creds ''imap_username'')) (as_str (jget creds ''username'')) of
                                     None \<Rightarrow> a_email a | Some u \<Rightarrow> u);
                                   d = dav_of app (a_id a)
                               in Inr (base, Basic username password,
                                    Option.bind (or_option (a_tls_cert a) (md_smtp_cert d)) (\<lambda>c. ke_decode E (trim c)),
                                    md_accept_invalid_tls d)))))))"

definition provider_setup_error :: "string \<Rightarrow> contact_error" where
  "provider_setup_error msg = invalid_response msg"

definition token_category :: "contact_token_error \<Rightarrow> error_category" where
  "token_category e =
     (case e of NoConsent \<Rightarrow> ConsentRequiredError | Reauthenticate \<Rightarrow> ReauthenticationRequiredError
      | NotOAuth \<Rightarrow> AuthenticationError | Temporary \<Rightarrow> TransportError)"

definition managed_oauth_token ::
  "'s contact_env \<Rightarrow> string \<Rightarrow> contact_app \<Rightarrow> 's \<Rightarrow> (contact_error + string) \<times> contact_app \<times> 's"
where
  "managed_oauth_token E acct app s =
     (case fresh_contact_access_token (ke_tokens E) acct (kx_mail app) s of
        (Inl e, mail, s') \<Rightarrow>
          (Inl (provider_error (token_category e) ''contact authorization is not currently available'' None), app\<lparr>kx_mail := mail\<rparr>, s')
      | (Inr tok, mail, s') \<Rightarrow> (Inr tok, app\<lparr>kx_mail := mail\<rparr>, s'))"

definition google_api :: string where
  "google_api = ''https://people.googleapis.com/v1''"

definition graph_api :: string where
  "graph_api = ''https://graph.microsoft.com/v1.0''"

text \<open>The adapter of an OAuth provider, over a token.\<close>

definition oauth_adapter :: "'s contact_env \<Rightarrow> string \<Rightarrow> string \<Rightarrow> 's adapter" where
  "oauth_adapter E provider tok =
     (if provider = ''google'' then google_adapter (ke_web E) google_api tok else graph_adapter (ke_web E) graph_api tok)"

definition dav_auth :: "string \<Rightarrow> json \<Rightarrow> dav_auth" where
  "dav_auth scheme creds =
     (if scheme = ''oauth2'' then Bearer (or_empty (as_str (jget creds ''access_token'')))
      else Basic (or_empty (as_str (jget creds ''username''))) (or_empty (as_str (jget creds ''password''))))"

definition decrypt_credentials :: "'s contact_env \<Rightarrow> string \<Rightarrow> json option" where
  "decrypt_credentials E enc = Option.bind (tk_decrypt (ke_tokens E) enc) (tk_parse (ke_tokens E))"

definition managed_adapter ::
  "'s contact_env \<Rightarrow> source_row \<Rightarrow> string \<Rightarrow> bool option \<Rightarrow> contact_app \<Rightarrow> 's \<Rightarrow> (contact_error + 's adapter) \<times> contact_app \<times> 's"
where
  "managed_adapter E r acct tls_override app s =
     (if so_type r = ''cardav''
      then (case managed_carddav_context E (so_id r) app of
              Inl e \<Rightarrow> (Inl (provider_setup_error ''managed CardDAV setup is incomplete''), app, s)
            | Inr (base, auth, cert, accept) \<Rightarrow>
                (case ke_tls_web E cert (case tls_override of None \<Rightarrow> accept | Some b \<Rightarrow> b) of
                   Inl e \<Rightarrow> (Inl e, app, s)
                 | Inr W \<Rightarrow> (Inr (carddav_adapter W (ke_fresh E) base auth), app, s)))
      else if so_type r = ''google'' \<or> so_type r = ''graph''
      then (case managed_oauth_token E acct app s of
              (Inl e, app', s') \<Rightarrow> (Inl e, app', s')
            | (Inr tok, app', s') \<Rightarrow> (Inr (oauth_adapter E (so_type r) tok), app', s'))
      else (Inl (provider_setup_error ''unsupported contact provider''), app, s))"

definition independent_adapter :: "'s contact_env \<Rightarrow> source_row \<Rightarrow> contact_error + 's adapter" where
  "independent_adapter E r =
     (case decrypt_credentials E (so_credentials r) of
        None \<Rightarrow> Inl (provider_setup_error ''independent contact credentials could not be decrypted'')
      | Some creds \<Rightarrow>
          (if so_type r = ''cardav''
           then (case so_base_url r of
                   None \<Rightarrow> Inl (provider_setup_error ''CardDAV base URL is required'')
                 | Some base \<Rightarrow> Inr (carddav_adapter (ke_web E) (ke_fresh E) base (dav_auth (so_auth r) creds)))
           else if so_type r = ''google'' \<or> so_type r = ''graph''
           then (case as_str (jget creds ''access_token'') of
                   None \<Rightarrow> Inl (provider_setup_error ''OAuth token is missing'')
                 | Some tok \<Rightarrow> Inr (oauth_adapter E (so_type r) tok))
           else Inl (provider_setup_error ''unsupported contact provider'')))"

definition contact_adapter ::
  "'s contact_env \<Rightarrow> string \<Rightarrow> bool option \<Rightarrow> contact_app \<Rightarrow> 's \<Rightarrow> (contact_error + 's adapter) \<times> contact_app \<times> 's"
where
  "contact_adapter E src tls_override app s =
     (case find_source (kx_db app) src of
        None \<Rightarrow> (Inl cache_error, app, s)
      | Some r \<Rightarrow>
          (case so_mailbox r of
             Some acct \<Rightarrow> managed_adapter E r acct tls_override app s
           | None \<Rightarrow> (independent_adapter E r, app, s)))"

section \<open>The synchronisation task\<close>

definition not_eligible :: "string \<Rightarrow> contact_error" where
  "not_eligible state = provider_error
     (if state = ''consent_required'' then ConsentRequiredError
      else if state = ''reauth_required'' then ReauthenticationRequiredError else Unavailable)
     ''contact source is not eligible for synchronization'' None"

definition sync_contact_account ::
  "'s contact_env \<Rightarrow> string \<Rightarrow> contact_app \<Rightarrow> 's \<Rightarrow> ((contact_error + unit) \<times> contact_app \<times> 's) option"
where
  "sync_contact_account E src app s =
     (case find_source (kx_db app) src of
        None \<Rightarrow> Some (Inl cache_error, app, s)
      | Some r \<Rightarrow>
          (if \<not> so_enabled r \<or> so_state r \<in> set paused_states then Some (Inl (not_eligible (so_state r)), app, s)
           else (case contact_adapter E src None app s of
                   (Inl e, app', s') \<Rightarrow> Some (Inl e, app', s')
                 | (Inr A, app', s') \<Rightarrow>
                     (case sync_source_once (tk_parse (ke_tokens E)) (ke_now E) A src (kx_db app') s' of
                        None \<Rightarrow> None
                      | Some (Inl e, db', s'') \<Rightarrow> Some (Inl e, app'\<lparr>kx_db := db'\<rparr>, s'')
                      | Some (Inr run, db', s'') \<Rightarrow> Some (Inr (), app'\<lparr>kx_db := db'\<rparr>, s'')))))"

definition pauses_contact_sync :: "error_category \<Rightarrow> bool" where
  "pauses_contact_sync k =
     (k \<in> set [ConsentRequiredError, ReauthenticationRequiredError, AuthenticationError, Unavailable, InvalidResponse])"

definition failed_status :: "contact_error \<Rightarrow> contact_status" where
  "failed_status e = \<lparr>ct_state = (case pv_category e of
        ConsentRequiredError \<Rightarrow> ''consent_required''
      | ReauthenticationRequiredError \<Rightarrow> ''reauth_required''
      | AuthenticationError \<Rightarrow> ''reauth_required''
      | Unavailable \<Rightarrow> ''unavailable''
      | _ \<Rightarrow> ''error''), ct_last_synced = None, ct_error = Some (provider_error_code e)\<rparr>"

definition publish_contact_status :: "string \<Rightarrow> contact_status \<Rightarrow> contact_app \<Rightarrow> contact_app" where
  "publish_contact_status src st app = app\<lparr>kx_events := kx_events app @ [(src, st)]\<rparr>"

definition contact_sync_interval_secs :: nat where
  "contact_sync_interval_secs = 300"

datatype task_next = Stops | Sleeps nat

text \<open>
  One run of the task: its consecutive failures so far, what it does next, and the failures it then
  counts.  After a success it sleeps for the interval; after a failure that does not pause it, for the delay.
\<close>

definition contact_task_step ::
  "'s contact_env \<Rightarrow> string \<Rightarrow> nat \<Rightarrow> contact_app \<Rightarrow> 's \<Rightarrow> (task_next \<times> nat \<times> contact_app \<times> 's) option"
where
  "contact_task_step E src failures app s =
     (case sync_contact_account E src app s of
        None \<Rightarrow> None
      | Some (res, app', s') \<Rightarrow>
          (let st = (case res of Inr _ \<Rightarrow> \<lparr>ct_state = ''idle'', ct_last_synced = Some (ke_now E), ct_error = None\<rparr>
                     | Inl e \<Rightarrow> failed_status e);
               failures' = (case res of Inr _ \<Rightarrow> 0 | Inl e \<Rightarrow> min u32_max (failures + 1));
               next_action = (case res of
                   Inr _ \<Rightarrow> Sleeps (from_secs contact_sync_interval_secs)
                 | Inl e \<Rightarrow> if pauses_contact_sync (pv_category e) then Stops
                     else Sleeps (retry_delay default_policy failures' (pv_retry_after e)))
           in Some (next_action, failures',
                publish_contact_status src st (app'\<lparr>kx_manager := cm_update_status src st (kx_manager app')\<rparr>), s')))"

definition spawn_contact_sync_task :: "string \<Rightarrow> contact_app \<Rightarrow> contact_app" where
  "spawn_contact_sync_task src app = app\<lparr>kx_manager := cm_start_account src (kx_manager app)\<rparr>"

definition stop_contact_task :: "string \<Rightarrow> contact_app \<Rightarrow> contact_app" where
  "stop_contact_task src app = app\<lparr>kx_manager := cm_stop_account src (kx_manager app)\<rparr>"

section \<open>Errors of the provider as answers\<close>

definition provider_app_error :: "contact_error \<Rightarrow> app_error" where
  "provider_app_error e =
     (case pv_category e of
        ConflictError \<Rightarrow> Conflict (pv_message e)
      | ConsentRequiredError \<Rightarrow> Unprocessable (pv_message e)
      | ReauthenticationRequiredError \<Rightarrow> Unprocessable (pv_message e)
      | AuthenticationError \<Rightarrow> Unprocessable (pv_message e)
      | _ \<Rightarrow> BadGateway (pv_message e))"

definition provider_discovery_app_error :: "contact_error \<Rightarrow> app_error" where
  "provider_discovery_app_error e =
     (if pv_category e = Unavailable \<and> pv_message e = carddav_tls_verification_failed
      then BadGatewayWithCode ''carddav_tls_certificate_invalid'' (pv_message e)
      else if pv_category e \<in> set [ConsentRequiredError, ReauthenticationRequiredError, AuthenticationError, Unavailable, InvalidResponse]
      then Unprocessable (pv_message e)
      else provider_app_error e)"

section \<open>Routes\<close>

record new_account =
  na_name :: string
  na_type :: string
  na_base_url :: "string option"
  na_auth_scheme :: "string option"
  na_username :: "string option"
  na_password :: "string option"
  na_access_token :: "string option"
  na_refresh_token :: "string option"

definition validate_account :: "new_account \<Rightarrow> app_error + unit" where
  "validate_account req =
     (if na_type req = ''cardav'' \<and> na_base_url req = None then Inl (Unprocessable ''base_url is required'')
      else if na_type req = ''cardav'' \<and> na_password req = None \<and> na_access_token req = None
      then Inl (Unprocessable ''credentials are required'')
      else if na_type req \<in> set [''graph'', ''google''] \<and> na_access_token req = None
      then Inl (Unprocessable ''access_token is required'')
      else if na_type req \<in> set [''cardav'', ''graph'', ''google''] then Inr ()
      else Inl (Unprocessable ''unsupported contact provider''))"

definition account_credentials :: "new_account \<Rightarrow> json" where
  "account_credentials req = JObj [(''username'', opt_json (na_username req)), (''password'', opt_json (na_password req)),
     (''access_token'', opt_json (na_access_token req)), (''refresh_token'', opt_json (na_refresh_token req))]"

definition delete_source :: "string \<Rightarrow> contact_db \<Rightarrow> contact_db" where
  "delete_source src db =
     (delete_books (\<lambda>b. bo_source b = src)
       (delete_groups (\<lambda>g. gr_source g = src) (delete_contacts (\<lambda>r. kr_source r = src) db)))
     \<lparr>kb_sources := filter (\<lambda>r. so_id r \<noteq> src) (kb_sources db)\<rparr>"

definition fetch_account :: "contact_db \<Rightarrow> string \<Rightarrow> app_error + source_row" where
  "fetch_account db src = (case find_source db src of None \<Rightarrow> Inl NotFound | Some r \<Rightarrow> Inr r)"

definition independent_source :: "string \<Rightarrow> new_account \<Rightarrow> string \<Rightarrow> string \<Rightarrow> source_row" where
  "independent_source fresh req auth enc = \<lparr>so_id = fresh, so_name = na_name req, so_type = na_type req,
     so_base_url = na_base_url req, so_auth = auth, so_credentials = enc, so_mailbox = None, so_mode = ''independent'',
     so_state = ''idle'', so_reason = None, so_enabled = True, so_cache_retained = True, so_generation = 0,
     so_metadata = ''{}'', so_sync_status = ''syncing'', so_sync_error = None, so_synced = None\<rparr>"

text \<open>A new source is synchronised before the answer; the source is removed again when that fails.\<close>

definition create_account ::
  "'s contact_env \<Rightarrow> string \<Rightarrow> new_account \<Rightarrow> contact_app \<Rightarrow> 's \<Rightarrow> ((app_error + source_row) \<times> contact_app \<times> 's) option"
where
  "create_account E fresh req app s =
     (case validate_account req of
        Inl e \<Rightarrow> Some (Inl e, app, s)
      | Inr _ \<Rightarrow>
          (if na_type req \<noteq> ''cardav''
           then Some (Inl (Unprocessable ''Google and Microsoft contacts are enabled from their mailbox settings''), app, s)
           else let auth = (case na_auth_scheme req of
                    Some a \<Rightarrow> a | None \<Rightarrow> if na_access_token req \<noteq> None then ''oauth2'' else ''basic'')
                in case tk_encrypt (ke_tokens E) (tk_render (ke_tokens E) (account_credentials req)) of
                  None \<Rightarrow> Some (Inl (Internal ''encryption failed''), app, s)
                | Some enc \<Rightarrow>
                    (if auth \<notin> set [''basic'', ''oauth2''] then Some (Inl (Internal ''CHECK constraint failed''), app, s)
                     else let app1 = app\<lparr>kx_db := (kx_db app)\<lparr>kb_sources := kb_sources (kx_db app) @
                              [independent_source fresh req auth enc]\<rparr>\<rparr>
                          in case sync_contact_account E fresh app1 s of
                               None \<Rightarrow> None
                             | Some (Inl e, app2, s') \<Rightarrow>
                                 Some (Inl (Unprocessable (pv_message e)), app2\<lparr>kx_db := delete_source fresh (kx_db app2)\<rparr>, s')
                             | Some (Inr _, app2, s') \<Rightarrow>
                                 Some (fetch_account (kx_db app2) fresh, spawn_contact_sync_task fresh app2, s'))))"

definition nocase_key :: "string \<Rightarrow> nat list" where
  "nocase_key s = map of_char (to_lower s)"

definition list_accounts :: "contact_db \<Rightarrow> source_row list" where
  "list_accounts db = sort_key (\<lambda>r. nocase_key (so_name r)) (kb_sources db)"

definition delete_account :: "string \<Rightarrow> contact_app \<Rightarrow> (app_error + string) \<times> contact_app" where
  "delete_account src app =
     (case find_source (kx_db app) src of
        None \<Rightarrow> (Inl NotFound, app)
      | Some r \<Rightarrow>
          (if so_mode r = ''mailbox''
           then (Inl (Conflict ''mailbox-managed contact sources must be disabled from mailbox settings''), app)
           else (Inr src, (stop_contact_task src app)\<lparr>kx_db := delete_source src (kx_db app)\<rparr>)))"

definition account_sync_status :: "contact_db \<Rightarrow> string \<Rightarrow> app_error + (string \<times> string option \<times> string option)" where
  "account_sync_status db src =
     (case find_source db src of None \<Rightarrow> Inl NotFound | Some r \<Rightarrow> Inr (so_state r, so_synced r, so_reason r))"

definition list_contact_books :: "contact_db \<Rightarrow> string \<Rightarrow> app_error + book_row list" where
  "list_contact_books db src =
     (if find_source db src = None then Inl NotFound
      else Inr (sort_key (\<lambda>b. (if bo_default b then 0 else 1) # nocase_key (bo_name b)) (filter (\<lambda>b. bo_source b = src) (kb_books db))))"

definition trigger_sync :: "string \<Rightarrow> contact_app \<Rightarrow> (app_error + string) \<times> contact_app" where
  "trigger_sync src app =
     (if find_source (kx_db app) src = None then (Inl NotFound, app)
      else (Inr ''syncing'', spawn_contact_sync_task src
        (app\<lparr>kx_db := update_source src (\<lambda>r. r\<lparr>so_sync_status := ''syncing'', so_sync_error := None\<rparr>) (kx_db app)\<rparr>)))"

definition enable_mailbox_contacts ::
  "'s contact_env \<Rightarrow> string \<Rightarrow> string \<Rightarrow> contact_app \<Rightarrow> (app_error + source_row) \<times> contact_app"
where
  "enable_mailbox_contacts E fresh acct app =
     (case reconcile_mailbox_contact_source E fresh acct (Some True) app of
        (Inl e, app') \<Rightarrow> (Inl (Unprocessable e), app')
      | (Inr c, app') \<Rightarrow>
          (fetch_account (kx_db app') (ca_source c),
           if ca_state c = ''pending'' then spawn_contact_sync_task (ca_source c) app' else app'))"

definition disabled_source :: "bool \<Rightarrow> source_row \<Rightarrow> source_row" where
  "disabled_source keep r = r\<lparr>so_enabled := False, so_state := ''disabled'',
     so_reason := Some (if keep then ''cache_retained'' else ''cache_removed''), so_cache_retained := keep,
     so_sync_status := ''idle'', so_sync_error := None\<rparr>"

definition clear_cache :: "string \<Rightarrow> contact_db \<Rightarrow> contact_db" where
  "clear_cache src db =
     delete_books (\<lambda>b. bo_source b = src)
       (delete_groups (\<lambda>g. gr_source g = src) (delete_contacts (\<lambda>r. kr_source r = src) db))"

definition disable_mailbox_contacts :: "string \<Rightarrow> bool \<Rightarrow> contact_app \<Rightarrow> (app_error + source_row) \<times> contact_app" where
  "disable_mailbox_contacts acct keep app =
     (case find (\<lambda>r. so_mailbox r = Some acct \<and> so_mode r = ''mailbox'') (kb_sources (kx_db app)) of
        None \<Rightarrow> (Inl NotFound, app)
      | Some r \<Rightarrow>
          (let db1 = update_source (so_id r) (disabled_source keep) (kx_db app);
               db2 = (if keep then db1 else clear_cache (so_id r) db1)
           in (fetch_account db2 (so_id r), (stop_contact_task (so_id r) app)\<lparr>kx_db := db2\<rparr>)))"

datatype tls_decision = TlsAccept | TlsAcceptAlways | TlsDeny

definition permits_retry :: "tls_decision \<Rightarrow> bool" where
  "permits_retry d = (d = TlsAccept \<or> d = TlsAcceptAlways)"

definition persists_exception :: "tls_decision \<Rightarrow> bool" where
  "persists_exception d = (d = TlsAcceptAlways)"

definition enable_mailbox_dav_tls_exception :: "string \<Rightarrow> string \<Rightarrow> contact_app \<Rightarrow> (app_error + unit) \<times> contact_app" where
  "enable_mailbox_dav_tls_exception acct src app =
     (if account_of (kx_mail app) acct \<noteq> None \<and> (\<exists>r \<in> set (kb_sources (kx_db app)).
          so_id r = src \<and> so_mailbox r = Some acct \<and> so_mode r = ''mailbox'' \<and> so_type r = ''cardav'')
      then (Inr (), app\<lparr>kx_dav := (dav_of app acct)\<lparr>md_accept_invalid_tls := True\<rparr> # filter (\<lambda>d. md_account d \<noteq> acct) (kx_dav app)\<rparr>)
      else (Inl (Unprocessable ''TLS exceptions are only available for mailbox CardDAV sources''), app))"

record discover_request =
  dq_selected :: "string list option"
  dq_accept_invalid_tls :: bool
  dq_tls_decision :: "tls_decision option"

definition tls_flag :: "(tls_decision \<Rightarrow> bool) \<Rightarrow> discover_request \<Rightarrow> bool" where
  "tls_flag P req = (dq_accept_invalid_tls req \<or> (case dq_tls_decision req of None \<Rightarrow> False | Some d \<Rightarrow> P d))"

definition select_books ::
  "'s contact_env \<Rightarrow> string \<Rightarrow> string list option \<Rightarrow> contact_book list \<Rightarrow> contact_app \<Rightarrow> (app_error + unit) \<times> contact_app"
where
  "select_books E src selected books app =
     (case selected of
        None \<Rightarrow> (Inr (), app)
      | Some ids \<Rightarrow>
          (if ids = [] \<or> (\<exists>i \<in> set ids. i \<notin> cb_remote ` set books)
           then (Inl (Unprocessable ''select at least one discovered address book''), app)
           else (Inr (), app\<lparr>kx_db := update_source src (\<lambda>r. r\<lparr>so_metadata := tk_render (ke_tokens E)
                  (jset ''selected_book_remote_ids'' (JArr (map JStr ids))
                    (case tk_parse (ke_tokens E) (so_metadata r) of None \<Rightarrow> JObj [] | Some j \<Rightarrow> j))\<rparr>) (kx_db app)\<rparr>)))"

definition discover_mailbox_contacts ::
  "'s contact_env \<Rightarrow> string \<Rightarrow> discover_request \<Rightarrow> contact_app \<Rightarrow> 's
   \<Rightarrow> ((app_error + (string \<times> contact_book list)) \<times> contact_app \<times> 's) option"
where
  "discover_mailbox_contacts E acct req app s =
     (case source_of_mailbox (kx_db app) acct of
        None \<Rightarrow> Some (Inl NotFound, app, s)
      | Some r \<Rightarrow>
          (case (if tls_flag persists_exception req then enable_mailbox_dav_tls_exception acct (so_id r) app else (Inr (), app)) of
             (Inl e, app1) \<Rightarrow> Some (Inl e, app1, s)
           | (Inr _, app1) \<Rightarrow>
               (case contact_adapter E (so_id r) (if tls_flag permits_retry req then Some True else None) app1 s of
                  (Inl e, app2, s1) \<Rightarrow> Some (Inl (provider_discovery_app_error e), app2, s1)
                | (Inr A, app2, s1) \<Rightarrow>
                    (case ad_books A s1 of
                       None \<Rightarrow> None
                     | Some (Inl e, s2) \<Rightarrow> Some (Inl (provider_discovery_app_error e), app2, s2)
                     | Some (Inr books, s2) \<Rightarrow>
                         (case select_books E (so_id r) (dq_selected req) books app2 of
                            (Inl e, app3) \<Rightarrow> Some (Inl e, app3, s2)
                          | (Inr _, app3) \<Rightarrow> Some (Inr (so_id r, books), app3, s2))))))"

section \<open>Start-up\<close>

text \<open>Every mailbox's source is reconciled, with fresh ids \<open>ids\<close>; then the eligible sources get their tasks.\<close>

fun reconcile_all :: "'s contact_env \<Rightarrow> (string \<times> string) list \<Rightarrow> contact_app \<Rightarrow> contact_app" where
  "reconcile_all E [] app = app"
| "reconcile_all E ((acct, fresh) # xs) app =
     reconcile_all E xs (snd (reconcile_mailbox_contact_source E fresh acct None app))"

definition restart_contact_tasks :: "'s contact_env \<Rightarrow> string list \<Rightarrow> contact_app \<Rightarrow> contact_app" where
  "restart_contact_tasks E ids app =
     (let app1 = reconcile_all E (zip (map a_id (accounts (kx_mail app))) ids) app
      in fold spawn_contact_sync_task (eligible_source_ids (kx_db app1)) app1)"

end
