(* ===== verification/Contact_Isolation.thy ===== *)
theory Contact_Isolation
  imports Contact_Accounts
begin

text \<open>
  A synchronisation writes only the rows of its own source: sources, books, contacts, groups and group
  memberships of the other sources are the same rows in the same order afterwards.
\<close>

type_synonym source_tables = "source_row list \<times> book_row list \<times> contact_row list \<times> group_row list"

definition rows_elsewhere :: "string \<Rightarrow> contact_db \<Rightarrow> source_tables" where
  "rows_elsewhere src db = (filter (\<lambda>r. so_id r \<noteq> src) (kb_sources db), filter (\<lambda>b. bo_source b \<noteq> src) (kb_books db),
     filter (\<lambda>r. kr_source r \<noteq> src) (kb_contacts db), filter (\<lambda>g. gr_source g \<noteq> src) (kb_groups db))"

text \<open>A membership among given rows: its contact and its group are two of them.\<close>

definition member_of :: "source_tables \<Rightarrow> nat \<times> nat \<Rightarrow> bool" where
  "member_of rows m = (case rows of (_, _, cs, gs) \<Rightarrow> fst m \<in> kr_id ` set cs \<and> snd m \<in> gr_id ` set gs)"

definition elsewhere :: "string \<Rightarrow> contact_db \<Rightarrow> source_tables \<times> (nat \<times> nat) list" where
  "elsewhere src db = (rows_elsewhere src db, filter (member_of (rows_elsewhere src db)) (kb_members db))"

lemma elsewhere_same:
  "rows_elsewhere src db' = rows_elsewhere src db \<Longrightarrow> kb_members db' = kb_members db \<Longrightarrow> elsewhere src db' = elsewhere src db"
  by (simp add: elsewhere_def)

lemma elsewhere_rows: "elsewhere src db' = elsewhere src db \<Longrightarrow> rows_elsewhere src db' = rows_elsewhere src db"
  by (simp add: elsewhere_def)

text \<open>No membership elsewhere has the contact \<open>c\<close>.\<close>

abbreviation apart :: "string \<Rightarrow> contact_db \<Rightarrow> nat \<Rightarrow> bool" where
  "apart src db c \<equiv> (\<forall>g. \<not> member_of (rows_elsewhere src db) (c, g))"

lemma own_contact_apart:
  assumes "tables_ok db" "r \<in> set (kb_contacts db)" "kr_source r = src"
  shows "apart src db (kr_id r)"
  using assms by (auto simp: member_of_def rows_elsewhere_def tables_ok_def contacts_ok_def distinct_map inj_on_def)

lemma own_group_apart:
  assumes "tables_ok db" "g \<in> set (kb_groups db)" "gr_source g = src"
  shows "\<not> member_of (rows_elsewhere src db) (c, gr_id g)"
  using assms by (auto simp: member_of_def rows_elsewhere_def tables_ok_def groups_ok_def distinct_map inj_on_def)

lemma filter_map_if:
  "(\<And>q. q \<in> set xs \<Longrightarrow> P q \<Longrightarrow> \<not> Q q \<and> \<not> Q (f q)) \<Longrightarrow> filter Q (map (\<lambda>q. if P q then f q else q) xs) = filter Q xs"
  by (induction xs) auto

lemma filter_filter_if: "(\<And>q. q \<in> set xs \<Longrightarrow> Q q \<Longrightarrow> P q) \<Longrightarrow> filter Q (filter P xs) = filter Q xs"
  by (induction xs) auto

lemma elsewhere_book:
  assumes "upsert_book src b gen db = Inr (i, db')"
  shows "elsewhere src db' = elsewhere src db"
proof (rule elsewhere_same)
  show "rows_elsewhere src db' = rows_elsewhere src db"
    using assms by (cases rule: upsert_book_cases) (auto simp: rows_elsewhere_def intro!: filter_map_if)
qed (rule upsert_book_frame(4) [OF assms])

lemma elsewhere_group:
  assumes "upsert_group src book gen remote fresh_name rename db = Inr (i, db')" "tables_ok db"
  shows "elsewhere src db' = elsewhere src db"
proof (rule elsewhere_same [OF _ upsert_group_frame(4) [OF assms(1)]])
  show "rows_elsewhere src db' = rows_elsewhere src db"
  using assms(1)
proof (cases rule: upsert_group_cases)
  case (old g name)
  have same: "q = g" if "q \<in> set (kb_groups db)" "gr_id q = gr_id g" for q
    using that assms(2) find_group_Some [OF old(1)] by (auto simp: tables_ok_def groups_ok_def distinct_map inj_on_def)
  then show ?thesis
    using old find_group_Some [OF old(1)] by (auto simp: rows_elsewhere_def intro!: filter_map_if dest: same)
next
  case new
  then show ?thesis by (simp add: rows_elsewhere_def)
qed
qed

lemma elsewhere_put:
  assumes "put_contact src book gen rc db = (i, db')"
  shows "elsewhere src db' = elsewhere src db"
proof (rule elsewhere_same)
  show "rows_elsewhere src db' = rows_elsewhere src db"
    using assms by (cases rule: put_contact_cases) (auto simp: rows_elsewhere_def intro!: filter_map_if)
qed (rule put_contact_frame(4) [OF assms])

lemma put_contact_own:
  assumes "put_contact src book gen rc db = (i, db')"
  shows "\<exists>r \<in> set (kb_contacts db'). kr_id r = i \<and> kr_source r = src"
  using assms
proof (cases rule: put_contact_cases)
  case (old r)
  then have "contact_columns book gen rc r \<in> set (kb_contacts db')" "kr_id r = i" "kr_source r = src"
    using find_contact_Some [of db src "rc_remote rc" r] by auto
  then show ?thesis by (intro bexI [of _ "contact_columns book gen rc r"]) simp_all
qed auto

lemma rows_elsewhere_members [simp]: "rows_elsewhere src (db\<lparr>kb_members := ms\<rparr>) = rows_elsewhere src db"
  by (simp add: rows_elsewhere_def)

lemma elsewhere_members:
  "filter (member_of (rows_elsewhere src db)) ms = filter (member_of (rows_elsewhere src db)) (kb_members db)
   \<Longrightarrow> elsewhere src (db\<lparr>kb_members := ms\<rparr>) = elsewhere src db"
  by (simp add: elsewhere_def)

lemma elsewhere_memberships:
  "put_memberships src book gen cid gms db = Inr db' \<Longrightarrow> tables_ok db \<Longrightarrow> book_in db src (Some book)
   \<Longrightarrow> cid \<in> set (map kr_id (kb_contacts db)) \<Longrightarrow> apart src db cid \<Longrightarrow> elsewhere src db' = elsewhere src db"
proof (induction gms arbitrary: db)
  case (Cons m gms)
  from Cons.prems(1) obtain gid db1 where
    up: "upsert_group src book gen (gm_remote m) (case gm_name m of Some n \<Rightarrow> n | None \<Rightarrow> gm_remote m) (gm_name m) db = Inr (gid, db1)"
    and rest: "put_memberships src book gen cid gms
       (if (cid, gid) \<in> set (kb_members db1) then db1 else db1\<lparr>kb_members := kb_members db1 @ [(cid, gid)]\<rparr>) = Inr db'"
    by (auto split: sum.splits)
  note frame = upsert_group_frame [OF up]
  let ?db2 = "if (cid, gid) \<in> set (kb_members db1) then db1 else db1\<lparr>kb_members := kb_members db1 @ [(cid, gid)]\<rparr>"
  have ok: "tables_ok db1" "book_in db1 src (Some book)"
    using upsert_group_ok [OF up Cons.prems(2,3)] book_in_grows [OF frame(5) Cons.prems(3)] by simp_all
  have "tables_ok ?db2"
    using ok frame Cons.prems(4) by (auto intro!: tables_ok_members) (auto simp: tables_ok_def members_ok_def)
  moreover have rows: "rows_elsewhere src db1 = rows_elsewhere src db"
    by (rule elsewhere_rows [OF elsewhere_group [OF up Cons.prems(2)]])
  then have "apart src ?db2 cid" using Cons.prems(5) by simp
  ultimately have "elsewhere src db' = elsewhere src ?db2"
    using Cons.IH [OF rest] ok(2) frame Cons.prems(4) by (auto split: if_splits)
  also have "elsewhere src ?db2 = elsewhere src db1"
    using Cons.prems(5) rows by (simp add: elsewhere_members)
  finally show ?case
    using elsewhere_group [OF up Cons.prems(2)] by simp
qed simp

lemma elsewhere_contact:
  assumes "upsert_contact src book gen rc db = Inr db'" "tables_ok db" "book_in db src (Some book)"
  shows "elsewhere src db' = elsewhere src db"
proof -
  obtain cid db1 where put: "put_contact src book gen rc db = (cid, db1)"
    by (cases "put_contact src book gen rc db")
  let ?db2 = "db1\<lparr>kb_members := filter (\<lambda>(c, g). c \<noteq> cid) (kb_members db1)\<rparr>"
  have "put_memberships src book gen cid (rc_groups rc) ?db2 = Inr db'"
    using assms(1) put by (simp add: upsert_contact_def)
  moreover have "tables_ok ?db2"
    using put_contact_ok [OF put assms(2,3)]
    by (auto intro!: tables_ok_members) (auto simp: tables_ok_def members_ok_def)
  moreover have "book_in ?db2 src (Some book)"
    using book_in_grows [OF put_contact_frame(5) [OF put] assms(3)] by simp
  moreover have "cid \<in> set (map kr_id (kb_contacts ?db2))"
    using put_contact_frame(6) [OF put] by simp
  moreover have apart: "apart src db1 cid"
    using put_contact_own [OF put] own_contact_apart [OF put_contact_ok [OF put assms(2,3)]] by blast
  then have "apart src ?db2 cid" by simp
  ultimately have "elsewhere src db' = elsewhere src ?db2"
    by (rule elsewhere_memberships)
  also have "elsewhere src ?db2 = elsewhere src db1"
    using apart by (intro elsewhere_members filter_filter_if) auto
  finally show ?thesis
    using elsewhere_put [OF put] by simp
qed

lemma elsewhere_contacts_gone:
  assumes "tables_ok db" "\<And>r. r \<in> set (kb_contacts db) \<Longrightarrow> P r \<Longrightarrow> kr_source r = src"
  shows "elsewhere src (delete_contacts P db) = elsewhere src db"
proof -
  have "rows_elsewhere src (delete_contacts P db) = rows_elsewhere src db"
    using assms(2) by (auto simp: rows_elsewhere_def delete_contacts_def simp del: filter_filter intro!: filter_filter_if)
  moreover have "filter (member_of (rows_elsewhere src db)) (kb_members (delete_contacts P db))
      = filter (member_of (rows_elsewhere src db)) (kb_members db)"
    using assms(2) own_contact_apart [OF assms(1)]
    by (auto simp: delete_contacts_def simp del: filter_filter intro!: filter_filter_if)
  ultimately show ?thesis by (simp add: elsewhere_def)
qed

lemma elsewhere_groups_gone:
  assumes "tables_ok db" "\<And>g. g \<in> set (kb_groups db) \<Longrightarrow> P g \<Longrightarrow> gr_source g = src"
  shows "elsewhere src (delete_groups P db) = elsewhere src db"
proof -
  have "rows_elsewhere src (delete_groups P db) = rows_elsewhere src db"
    using assms(2) by (auto simp: rows_elsewhere_def delete_groups_def simp del: filter_filter intro!: filter_filter_if)
  moreover have "filter (member_of (rows_elsewhere src db)) (kb_members (delete_groups P db))
      = filter (member_of (rows_elsewhere src db)) (kb_members db)"
    using assms(2) own_group_apart [OF assms(1)]
    by (auto simp: delete_groups_def simp del: filter_filter intro!: filter_filter_if)
  ultimately show ?thesis by (simp add: elsewhere_def)
qed

lemma of_book_source:
  assumes "tables_ok db" "book_in db source b" "of_book (filter P (kb_books db)) b" "\<And>k. P k \<Longrightarrow> bo_source k = src"
  shows "source = src"
  using assms by (auto simp: of_book_def book_in_def owners_def tables_ok_def books_ok_def distinct_map inj_on_def) metis

lemma elsewhere_books_gone:
  assumes "tables_ok db" "\<And>b. P b \<Longrightarrow> bo_source b = src"
  shows "elsewhere src (delete_books P db) = elsewhere src db"
proof -
  let ?db1 = "delete_contacts (\<lambda>r. of_book (filter P (kb_books db)) (kr_book r)) db"
  let ?db2 = "delete_groups (\<lambda>g. of_book (filter P (kb_books db)) (gr_book g)) ?db1"
  have "\<not> of_book (filter P (kb_books db)) (kr_book r)" if "r \<in> set (kb_contacts db)" "kr_source r \<noteq> src" for r
    using that assms of_book_source [of db "kr_source r" "kr_book r" P src] by (auto simp: tables_ok_def contacts_ok_def)
  then have one: "elsewhere src ?db1 = elsewhere src db"
    by (intro elsewhere_contacts_gone [OF assms(1)]) blast
  have "\<not> of_book (filter P (kb_books db)) (gr_book g)" if "g \<in> set (kb_groups db)" "gr_source g \<noteq> src" for g
    using that assms of_book_source [of db "gr_source g" "gr_book g" P src] by (auto simp: tables_ok_def groups_ok_def)
  then have two: "elsewhere src ?db2 = elsewhere src ?db1"
    by (intro elsewhere_groups_gone [OF tables_ok_contacts_gone [OF assms(1)]]) (auto simp: delete_contacts_def)
  have "rows_elsewhere src (delete_books P db) = rows_elsewhere src ?db2"
    using assms(2)
    by (auto simp: rows_elsewhere_def delete_books_def delete_groups_def delete_contacts_def Let_def
        simp del: filter_filter intro!: filter_filter_if)
  moreover have "kb_members (delete_books P db) = kb_members ?db2"
    by (simp add: delete_books_def Let_def)
  ultimately show ?thesis using one two elsewhere_same by metis
qed

lemma elsewhere_source:
  "(\<And>r. so_id (f r) = so_id r) \<Longrightarrow> elsewhere src (update_source src f db) = elsewhere src db"
  by (rule elsewhere_same) (auto simp: rows_elsewhere_def update_source_def intro!: filter_map_if)

lemma elsewhere_groups:
  "upsert_groups src book gen gs db = Inr db' \<Longrightarrow> tables_ok db \<Longrightarrow> book_in db src (Some book)
   \<Longrightarrow> elsewhere src db' = elsewhere src db"
proof (induction gs arbitrary: db)
  case (Cons g gs)
  obtain remote name where g: "g = (remote, name)" by (cases g)
  from Cons.prems(1) obtain i db1 where
    up: "upsert_group src book gen remote name (Some name) db = Inr (i, db1)" and rest: "upsert_groups src book gen gs db1 = Inr db'"
    by (auto simp: g split: sum.splits)
  show ?case
    using Cons.IH [OF rest upsert_group_ok [OF up Cons.prems(2,3)] book_in_grows [OF upsert_group_frame(5) [OF up] Cons.prems(3)]]
      elsewhere_group [OF up Cons.prems(2)]
    by simp
qed simp

lemma elsewhere_contacts:
  "upsert_contacts src remote book gen rcs db = Inr db' \<Longrightarrow> tables_ok db \<Longrightarrow> book_in db src (Some book)
   \<Longrightarrow> elsewhere src db' = elsewhere src db"
proof (induction rcs arbitrary: db)
  case (Cons rc rcs)
  from Cons.prems(1) obtain db1 where
    up: "upsert_contact src book gen rc db = Inr db1" and rest: "upsert_contacts src remote book gen rcs db1 = Inr db'"
    by (auto split: sum.splits if_splits)
  note up_ok = upsert_contact_ok [OF up Cons.prems(2,3)]
  show ?case
    using Cons.IH [OF rest up_ok(1)] Cons.prems(3) book_in_same_books [OF up_ok(2)] elsewhere_contact [OF up Cons.prems(2,3)] by simp
qed simp

lemma elsewhere_tombstones:
  "remove_contacts src book ts db = Inr db' \<Longrightarrow> tables_ok db \<Longrightarrow> elsewhere src db' = elsewhere src db"
proof (induction ts arbitrary: db)
  case (Cons t ts)
  from Cons.prems(1) obtain db1 where
    del: "delete_contact src book t db = Inr db1" and rest: "remove_contacts src book ts db1 = Inr db'"
    by (auto split: sum.splits)
  have "elsewhere src db1 = elsewhere src db"
    using del Cons.prems(2) by (auto simp: delete_contact_def intro!: elsewhere_contacts_gone split: if_splits)
  moreover have "tables_ok db1"
    using del Cons.prems(2) by (auto simp: delete_contact_def intro!: tables_ok_contacts_gone split: if_splits)
  ultimately show ?case using Cons.IH [OF rest] by simp
qed simp

lemma elsewhere_cursor:
  assumes "tables_ok db" "(book, src) \<in> owners db"
  shows "elsewhere src (save_book_cursor book cursor db) = elsewhere src db"
proof -
  have "bo_source b = src" if "b \<in> set (kb_books db)" "bo_id b = book" for b
    using that assms by (auto simp: owners_def tables_ok_def books_ok_def distinct_map inj_on_def)
  then show ?thesis
    by (cases cursor) (auto simp: save_book_cursor_def rows_elsewhere_def intro!: elsewhere_same filter_map_if)
qed

lemma elsewhere_page:
  assumes "apply_change_page src b gen page db = Inr db'" "tables_ok db"
  shows "elsewhere src db' = elsewhere src db"
  using assms(1)
proof (cases rule: apply_change_page_cases)
  case (1 book db1 db2 db3 db4)
  note book_ok = upsert_book_ok [OF 1(1) assms(2)]
  have two: "tables_ok db2" "kb_books db2 = kb_books db1"
    using upsert_groups_ok [OF 1(2) [unfolded upsert_provider_groups_def] book_ok] by simp_all
  have in2: "book_in db2 src (Some book)"
    using book_ok(2) book_in_same_books [OF two(2)] by simp
  note three = upsert_contacts_ok [OF 1(3) two(1) in2]
  note four = remove_contacts_ok [OF 1(4) conjunct1 [OF three]]
  have "(book, src) \<in> owners db4"
    using upsert_book_frame(6) [OF 1(1)] two three four by (simp add: owners_def)
  then show ?thesis
    using elsewhere_cursor [OF conjunct1 [OF four]] elsewhere_tombstones [OF 1(4) conjunct1 [OF three]] elsewhere_contacts [OF 1(3) two(1) in2]
      elsewhere_groups [OF 1(2) [unfolded upsert_provider_groups_def] book_ok] elsewhere_book [OF 1(1)] 1(5)
    by simp
qed

lemma elsewhere_pages:
  "apply_pages src b gen pages db = Inr db' \<Longrightarrow> tables_ok db \<Longrightarrow> elsewhere src db' = elsewhere src db"
proof (induction pages arbitrary: db)
  case (Cons p pages)
  then obtain db1 where db1: "apply_change_page src b gen p db = Inr db1" "apply_pages src b gen pages db1 = Inr db'"
    by (auto split: sum.splits)
  then show ?case
    using Cons.IH [OF db1(2) apply_change_page_ok [OF db1(1) Cons.prems(2)]] elsewhere_page [OF db1(1) Cons.prems(2)] by simp
qed simp

lemma elsewhere_full:
  assumes "tables_ok db"
  shows "elsewhere src (finish_full_sync src gen now db) = elsewhere src db"
proof -
  let ?db1 = "delete_contacts (\<lambda>r. kr_source r = src \<and> kr_generation r \<noteq> gen) db"
  let ?db2 = "delete_groups (\<lambda>g. gr_source g = src \<and> gr_generation g \<noteq> gen) ?db1"
  have "elsewhere src (delete_books (\<lambda>b. bo_source b = src \<and> bo_generation b \<noteq> gen) ?db2) = elsewhere src ?db2"
    by (rule elsewhere_books_gone) (auto intro: tables_ok_groups_gone tables_ok_contacts_gone assms)
  also have "\<dots> = elsewhere src ?db1" by (rule elsewhere_groups_gone) (simp_all add: tables_ok_contacts_gone assms)
  also have "\<dots> = elsewhere src db" by (rule elsewhere_contacts_gone) (simp_all add: assms)
  finally show ?thesis by (simp add: finish_full_sync_def elsewhere_source)
qed

lemma elsewhere_discovery: "tables_ok db \<Longrightarrow> elsewhere src (finish_book_discovery src gen db) = elsewhere src db"
  unfolding finish_book_discovery_def by (rule elsewhere_books_gone) blast+

lemma elsewhere_state [simp]: "elsewhere src (set_source_state src state reason db) = elsewhere src db"
  by (simp add: set_source_state_def elsewhere_source)

lemma elsewhere_sync_book:
  "sync_book A src b cursor gen k run db s = Some (res, db', s') \<Longrightarrow> tables_ok db \<Longrightarrow> elsewhere src db' = elsewhere src db"
  by (drule sync_book_pages) (auto simp: pages_of_run_def intro: elsewhere_pages)

lemma elsewhere_sync_books:
  "sync_books A src gen bs run db s = Some (res, db', s') \<Longrightarrow> tables_ok db \<Longrightarrow> elsewhere src db' = elsewhere src db"
proof (induction A src gen bs run db s rule: sync_books.induct)
  case (2 A src gen b cursor bs run db s)
  then obtain r1 db1 s1 where book: "sync_book A src b cursor gen None run db s = Some (r1, db1, s1)"
    by (auto split: option.splits prod.splits)
  note kept = elsewhere_sync_book [OF book "2.prems"(2)]
  show ?case
  proof (cases r1)
    case (Inl e)
    then show ?thesis using "2.prems"(1) book kept by simp
  next
    case (Inr run1)
    then have "sync_books A src gen bs run1 db1 s1 = Some (res, db', s')"
      using "2.prems"(1) book by simp
    then show ?thesis
      using "2.IH" [OF book refl _ refl _ sync_book_ok [OF book "2.prems"(2)], of run1] Inr kept by simp
  qed
qed simp

lemma attempt_outcome:
  assumes "sync_source_attempt rd now A src allow db s = Some (res, db', s')"
  obtains (unchanged) "db' = db"
  | (synced) gen bs run s1 res1 db1 s2 where "sync_books A src gen bs run db s1 = Some (res1, db1, s2)"
      "db' = db1 \<or> db' = finish_full_sync src gen now db1 \<or> db' = finish_book_discovery src gen db1"
proof (cases "ad_books A s")
  case None
  with assms show thesis by (simp add: sync_source_attempt_def)
next
  case (Some found)
  obtain fr s1 where found: "found = (fr, s1)" by (cases found)
  show thesis
  proof (cases fr)
    case (Inl e)
    with assms Some found show thesis by (intro unchanged) (simp add: sync_source_attempt_def)
  next
    case (Inr books)
    show thesis
    proof (cases "find_source db src")
      case None
      with assms Some found Inr show thesis by (intro unchanged) (simp add: sync_source_attempt_def)
    next
      case (Some r)
      with assms \<open>ad_books A s = Some found\<close> found Inr show thesis
        by (auto simp: sync_source_attempt_def Let_def split: option.splits sum.splits prod.splits if_splits intro: synced)
    qed
  qed
qed

lemma elsewhere_attempt:
  assumes "sync_source_attempt rd now A src allow db s = Some (res, db', s')" "tables_ok db"
  shows "elsewhere src db' = elsewhere src db"
  using assms(1)
proof (cases rule: attempt_outcome)
  case (synced gen bs run s1 res1 db1 s2)
  then show ?thesis
    using elsewhere_sync_books [OF synced(1) assms(2)] sync_books_ok [OF synced(1) assms(2)]
    by (auto simp: elsewhere_full elsewhere_discovery)
qed simp

lemma elsewhere_outcome [simp]: "elsewhere src (record_outcome src res db) = elsewhere src db"
  by (simp add: record_outcome_def split: sum.splits)

lemma once_attempts:
  assumes "sync_source_once rd now A src db s = Some (res, db', s')"
  obtains (once) db1 where "db' = record_outcome src res db1"
      "sync_source_attempt rd now A src True (set_source_state src ''syncing'' None db) s = Some (res, db1, s')"
  | (twice) e db1 s1 db2 where "db' = record_outcome src res db2" "pv_category e = CursorExpired"
      "sync_source_attempt rd now A src True (set_source_state src ''syncing'' None db) s = Some (Inl e, db1, s1)"
      "sync_source_attempt rd now A src False db1 s1 = Some (res, db2, s')"
proof -
  obtain res1 db1 s1 where first: "sync_source_attempt rd now A src True (set_source_state src ''syncing'' None db) s = Some (res1, db1, s1)"
    using assms by (auto simp: sync_source_once_def split: option.splits)
  show thesis
  proof (cases "\<exists>e. res1 = Inl e \<and> pv_category e = CursorExpired")
    case True
    then obtain e where e: "res1 = Inl e" "pv_category e = CursorExpired" by blast
    with assms first obtain db2 where "sync_source_attempt rd now A src False db1 s1 = Some (res, db2, s')" "db' = record_outcome src res db2"
      by (auto simp: sync_source_once_def split: option.splits prod.splits)
    with e first show thesis by (intro twice) simp_all
  next
    case False
    with assms first have "res1 = res" "s1 = s'" "db' = record_outcome src res db1"
      by (auto simp: sync_source_once_def split: sum.splits if_splits)
    with first show thesis by (intro once) simp_all
  qed
qed

lemma elsewhere_once:
  assumes "sync_source_once rd now A src db s = Some (res, db', s')" "tables_ok db"
  shows "elsewhere src db' = elsewhere src db"
  using assms(1)
proof (cases rule: once_attempts)
  case (once db1)
  then show ?thesis
    using elsewhere_attempt [OF once(2) set_source_state_ok [OF assms(2)]] by simp
next
  case (twice e db1 s1 db2)
  have "tables_ok db1"
    by (rule sync_source_attempt_ok [OF twice(3) set_source_state_ok [OF assms(2)]])
  then show ?thesis
    using elsewhere_attempt [OF twice(3) set_source_state_ok [OF assms(2)]] elsewhere_attempt [OF twice(4)] twice(1) by simp
qed

section \<open>Sources that rest\<close>

text \<open>An independent source whose state keeps it from being synchronised.\<close>

definition stalled :: "string \<Rightarrow> contact_app \<Rightarrow> bool" where
  "stalled src app = (find_source (kx_db app) src \<noteq> None
     \<and> (\<forall>q \<in> set (kb_sources (kx_db app)). so_id q = src \<longrightarrow> so_mailbox q = None \<and> so_state q \<in> set paused_states))"

text \<open>What can happen to a source short of its removal: runs of its task, requests, restarts of the server.\<close>

inductive source_event :: "'s contact_env \<Rightarrow> string \<Rightarrow> contact_app \<times> 's \<Rightarrow> contact_app \<times> 's \<Rightarrow> bool" for E src where
  runs: "contact_task_step E src n app s = Some (nx, n', app', s') \<Longrightarrow> source_event E src (app, s) (app', s')"
| asked: "source_event E src (app, s) (snd (trigger_sync src app), s)"
| restarted: "src \<notin> set ids \<Longrightarrow> source_event E src (app, s) (restart_contact_tasks E ids app, s)"
| enabled: "src \<noteq> fresh \<Longrightarrow> source_event E src (app, s) (snd (enable_mailbox_contacts E fresh acct app), s)"
| disabled: "source_event E src (app, s) (snd (disable_mailbox_contacts acct keep app), s)"

lemma paused_source_refuses:
  assumes "find_source (kx_db app) src = Some r" "so_state r \<in> set paused_states"
  shows "sync_contact_account E src app s = Some (Inl (not_eligible (so_state r)), app, s)"
  using assms by (simp add: sync_contact_account_def)

lemma not_eligible_pauses: "pauses_contact_sync (pv_category (not_eligible state))"
  by (simp add: not_eligible_def provider_error_def pauses_contact_sync_def)

lemma stalled_row: "stalled src app \<Longrightarrow> \<exists>r. find_source (kx_db app) src = Some r \<and> so_state r \<in> set paused_states"
  by (auto simp: stalled_def find_source_def find_Some_iff)

lemma stalled_same: "stalled src app \<Longrightarrow> kb_sources (kx_db app') = kb_sources (kx_db app) \<Longrightarrow> stalled src app'"
  by (simp add: stalled_def find_source_def)

lemma stalled_task:
  assumes "stalled src app" "contact_task_step E src n app s = Some (nx, n', app', s')"
  shows "nx = Stops" "kx_db app' = kx_db app" "s' = s"
proof -
  obtain r where r: "find_source (kx_db app) src = Some r" "so_state r \<in> set paused_states"
    using stalled_row [OF assms(1)] by blast
  show "nx = Stops" "kx_db app' = kx_db app" "s' = s"
    using assms(2) paused_source_refuses [OF r, of E s] not_eligible_pauses [of "so_state r"]
    by (auto simp: contact_task_step_def Let_def publish_contact_status_def)
qed

lemma stalled_update:
  assumes "stalled src app" "\<And>q. so_id q = src \<Longrightarrow> P q \<Longrightarrow> so_id (f q) = src \<and> so_mailbox (f q) = so_mailbox q \<and> so_state (f q) = so_state q"
    and "\<And>q. so_id q \<noteq> src \<Longrightarrow> so_id (f q) \<noteq> src"
    and "kb_sources (kx_db app') = map (\<lambda>q. if P q then f q else q) (kb_sources (kx_db app)) @ new" "\<forall>q \<in> set new. so_id q \<noteq> src"
  shows "stalled src app'"
proof -
  obtain r where "r \<in> set (kb_sources (kx_db app))" "so_id r = src"
    using assms(1) by (auto simp: stalled_def find_source_None has_source_def simp del: not_None_eq)
  moreover from this have "(if P r then f r else r) \<in> set (kb_sources (kx_db app'))"
    using assms(4) by auto
  ultimately have "\<exists>q \<in> set (kb_sources (kx_db app')). so_id q = src"
    using assms(2) by (metis (full_types))
  then have "find_source (kx_db app') src \<noteq> None"
    by (auto simp: find_source_None has_source_def simp del: not_None_eq)
  moreover have "so_mailbox q = None \<and> so_state q \<in> set paused_states" if "q \<in> set (kb_sources (kx_db app'))" "so_id q = src" for q
  proof -
    from that assms(4,5) obtain p where p: "p \<in> set (kb_sources (kx_db app))" "q = (if P p then f p else p)" by auto
    then have "so_id p = src" using that(2) assms(3) [of p] by (auto split: if_splits)
    then show ?thesis using p assms(1,2) by (auto simp: stalled_def split: if_splits)
  qed
  ultimately show ?thesis by (simp add: stalled_def)
qed

lemma stalled_reconcile_source:
  assumes "stalled src app" "fresh \<noteq> src" "reconcile_mailbox_source fresh m (kx_db app) = (i, db')" "kx_db app' = db'"
  shows "stalled src app'"
proof -
  have db: "kx_db app' = snd (reconcile_mailbox_source fresh m (kx_db app))" using assms(3,4) by simp
  show ?thesis
  proof (cases "find (\<lambda>r. so_mailbox r = Some (ms_email_account m)) (kb_sources (kx_db app))")
  case None
  then obtain q where "kb_sources (kx_db app') = kb_sources (kx_db app) @ [q]" "so_id q = fresh"
    by (simp add: db reconcile_mailbox_source_def source_columns_def)
  then show ?thesis
    using assms(2) by (intro stalled_update [OF assms(1), where P = "\<lambda>_. False" and f = "\<lambda>q. q" and new = "[q]"]) simp_all
next
  case (Some r)
  have "so_id r \<noteq> src"
    using assms(1) Some by (auto simp: stalled_def find_Some_iff)
  moreover have "kb_sources (kx_db app') = map (\<lambda>q. if so_id q = so_id r then source_columns m q else q) (kb_sources (kx_db app))"
    using Some by (simp add: db reconcile_mailbox_source_def)
  ultimately show ?thesis
    by (intro stalled_update [OF assms(1), where new = "[]" and P = "\<lambda>q. so_id q = so_id r" and f = "source_columns m"])
      (auto simp: source_columns_def)
  qed
qed

lemma reconcile_contact_source_db:
  assumes "reconcile_mailbox_contact_source E fresh acct ov app = (res, app')"
  shows "kx_db app' = kx_db app \<or> (\<exists>i m. reconcile_mailbox_source fresh m (kx_db app) = (i, kx_db app'))"
  using assms
  by (auto simp: reconcile_mailbox_contact_source_def Let_def split: option.splits sum.splits prod.splits)

lemma stalled_reconcile:
  assumes "stalled src app" "fresh \<noteq> src"
  shows "stalled src (snd (reconcile_mailbox_contact_source E fresh acct ov app))"
proof -
  obtain res app' where rec: "reconcile_mailbox_contact_source E fresh acct ov app = (res, app')"
    by (cases "reconcile_mailbox_contact_source E fresh acct ov app")
  then show ?thesis
    using reconcile_contact_source_db [OF rec] assms stalled_same [OF assms(1)] stalled_reconcile_source [OF assms] by auto
qed

lemma stalled_reconcile_all: "stalled src app \<Longrightarrow> \<forall>x \<in> set xs. snd x \<noteq> src \<Longrightarrow> stalled src (reconcile_all E xs app)"
  by (induction E xs app rule: reconcile_all.induct) (simp_all add: stalled_reconcile)

lemma spawn_keeps_db [simp]: "kx_db (spawn_contact_sync_task src app) = kx_db app"
  by (simp add: spawn_contact_sync_task_def)

lemma spawn_all_keeps_db: "kx_db (fold spawn_contact_sync_task ids app) = kx_db app"
  by (induction ids arbitrary: app) simp_all

lemma stalled_event: "source_event E src x y \<Longrightarrow> stalled src (fst x) \<Longrightarrow> stalled src (fst y) \<and> snd y = snd x"
proof (induction rule: source_event.induct)
  case (runs n app s nx n' app' s')
  then show ?case
    using stalled_task [OF _ runs(1)] stalled_same [of src app app'] by simp
next
  case (asked app s)
  then have rest: "stalled src app" by simp
  show ?case
    by (auto simp: trigger_sync_def update_source_def rest intro!: stalled_update [OF rest, where new = "[]" and
          P = "\<lambda>q. so_id q = src" and f = "\<lambda>r. r\<lparr>so_sync_status := ''syncing'', so_sync_error := None\<rparr>"])
next
  case (restarted ids app s)
  have "\<forall>x \<in> set (zip (map a_id (accounts (kx_mail app))) ids). snd x \<noteq> src"
    using restarted(1) by (auto dest: set_zip_rightD)
  then have "stalled src (reconcile_all E (zip (map a_id (accounts (kx_mail app))) ids) app)"
    using restarted(2) by (intro stalled_reconcile_all) simp_all
  then show ?case
    by (simp add: restart_contact_tasks_def Let_def stalled_same [OF _ arg_cong [OF spawn_all_keeps_db, of kb_sources]])
next
  case (enabled fresh app s acct)
  then show ?case
    using stalled_reconcile [of src app fresh E acct "Some True"]
    by (auto simp: enable_mailbox_contacts_def split: sum.splits prod.splits intro: stalled_same)
next
  case (disabled app s acct keep)
  then have rest: "stalled src app" by simp
  show ?case
  proof (cases "find (\<lambda>r. so_mailbox r = Some acct \<and> so_mode r = ''mailbox'') (kb_sources (kx_db app))")
    case None
    with disabled show ?thesis by (simp add: disable_mailbox_contacts_def)
  next
    case (Some r)
    then have "so_id r \<noteq> src"
      using disabled by (auto simp: stalled_def find_Some_iff)
    with Some show ?thesis
      by (auto simp: disable_mailbox_contacts_def Let_def clear_cache_def update_source_def delete_groups_def delete_contacts_def
            disabled_source_def intro!: stalled_update [OF rest, where new = "[]" and P = "\<lambda>q. so_id q = so_id r" and f = "disabled_source keep"])
  qed
qed

section \<open>Reconciling twice\<close>

lemma select_provider_available: "select_provider url creds = Some (provider, base) \<Longrightarrow> fst (capability_state provider creds enabled) \<noteq> ''unavailable''"
  by (auto simp: capability_state_def split: grant_state.splits)

lemma capability_enabled:
  assumes "mailbox_capability email url creds enabled = (provider, base, state, reason)"
  shows "mailbox_capability email url creds (enabled \<and> state \<noteq> ''unavailable'') = (provider, base, state, reason)"
proof (cases "select_provider url creds")
  case None
  with assms show ?thesis by (simp add: mailbox_capability_def)
next
  case (Some p)
  obtain k u where p: "p = (k, u)" by (cases p)
  have "state \<noteq> ''unavailable''"
    using assms Some p select_provider_available [of url creds k u enabled]
    by (cases "capability_state k creds enabled") (auto simp: mailbox_capability_def)
  with assms show ?thesis by simp
qed

definition fresh_source :: "string \<Rightarrow> contact_db \<Rightarrow> bool" where
  "fresh_source fresh db = (fresh \<notin> so_id ` set (kb_sources db))"

lemma reconcile_source_again:
  assumes "reconcile_mailbox_source fresh m db = (src, db')" "fresh_source fresh db"
  shows "reconcile_mailbox_source fresh' m db' = (src, db')"
    and "\<exists>q. source_of_mailbox db' (ms_email_account m) = Some q \<and> so_enabled q = ms_enabled m"
proof -
  let ?P = "\<lambda>r. so_mailbox r = Some (ms_email_account m)"
  have keep: "?P (source_columns m q) = ?P q" "so_id (source_columns m q) = so_id q"
    "source_columns m (source_columns m q) = source_columns m q" "so_enabled (source_columns m q) = ms_enabled m" for q
    by (simp_all add: source_columns_def)
  have "reconcile_mailbox_source fresh' m db' = (src, db') \<and>
    (\<exists>q. source_of_mailbox db' (ms_email_account m) = Some q \<and> so_enabled q = ms_enabled m)"
  proof (cases "find ?P (kb_sources db)")
    case None
    define q where "q = source_columns m \<lparr>so_id = fresh, so_name = [], so_type = [], so_base_url = None, so_auth = [],
       so_credentials = [], so_mailbox = Some (ms_email_account m), so_mode = [], so_state = [], so_reason = None,
       so_enabled = False, so_cache_retained = True, so_generation = 0, so_metadata = ''{}'', so_sync_status = ''idle'',
       so_sync_error = None, so_synced = None\<rparr>"
    have q: "?P q" "so_id q = fresh" "source_columns m q = q" "so_enabled q = ms_enabled m"
      by (simp_all add: q_def source_columns_def)
    have db': "src = fresh" "db' = db\<lparr>kb_sources := kb_sources db @ [q]\<rparr>"
      using assms(1) None by (auto simp: reconcile_mailbox_source_def q_def)
    have "map (\<lambda>r. if so_id r = fresh then source_columns m r else r) (kb_sources db) = kb_sources db"
      using assms(2) by (intro map_idI) (auto simp: fresh_source_def)
    with None q show ?thesis
      by (simp add: db' reconcile_mailbox_source_def source_of_mailbox_def find_append)
  next
    case (Some r)
    let ?f = "\<lambda>q. if so_id q = so_id r then source_columns m q else q"
    have db': "src = so_id r" "db' = db\<lparr>kb_sources := map ?f (kb_sources db)\<rparr>"
      using assms(1) Some by (auto simp: reconcile_mailbox_source_def)
    have "find ?P (map ?f (kb_sources db)) = map_option ?f (find ?P (kb_sources db))"
      by (rule find_map_cond) (simp add: keep)
    then have "find ?P (map ?f (kb_sources db)) = Some (source_columns m r)"
      using Some by simp
    moreover have "map ?f (map ?f (kb_sources db)) = map ?f (kb_sources db)"
      by (simp add: keep)
    ultimately show ?thesis
      by (simp add: db' reconcile_mailbox_source_def source_of_mailbox_def keep)
  qed
  then show "reconcile_mailbox_source fresh' m db' = (src, db')"
    and "\<exists>q. source_of_mailbox db' (ms_email_account m) = Some q \<and> so_enabled q = ms_enabled m" by blast+
qed

lemma reconcile_again:
  assumes "reconcile_mailbox_contact_source E fresh acct ov app = (Inr c, app')" "fresh_source fresh (kx_db app)"
  shows "reconcile_mailbox_contact_source E fresh' acct None app' = (Inr c, app')"
proof -
  obtain a where a: "account_of (kx_mail app) acct = Some a"
    using assms(1) by (auto simp: reconcile_mailbox_contact_source_def split: option.splits)
  obtain creds where creds: "load_credentials (ke_tokens E) acct (kx_mail app) = Inr creds"
    using assms(1) a by (auto simp: reconcile_mailbox_contact_source_def split: sum.splits)
  define enabled where "enabled = (case or_option ov (map_option so_enabled (source_of_mailbox (kx_db app) acct)) of None \<Rightarrow> False | Some e \<Rightarrow> e)"
  obtain provider base state reason where cap:
    "mailbox_capability (a_email a) (md_carddav_url (dav_of app acct)) creds enabled = (provider, base, state, reason)"
    by (cases "mailbox_capability (a_email a) (md_carddav_url (dav_of app acct)) creds enabled")
  define m where "m = \<lparr>ms_email_account = acct, ms_name = a_display_name a @ '' contacts'', ms_provider = provider,
      ms_base_url = base, ms_enabled = (enabled \<and> state \<noteq> ''unavailable''), ms_state = state, ms_reason = reason\<rparr>"
  obtain src db' where rec: "reconcile_mailbox_source fresh m (kx_db app) = (src, db')"
    by (cases "reconcile_mailbox_source fresh m (kx_db app)")
  have c: "app' = app\<lparr>kx_db := db'\<rparr>" "c = \<lparr>ca_source = src, ca_account = acct, ca_provider = provider, ca_state = state,
      ca_reason = reason, ca_enabled = (enabled \<and> state \<noteq> ''unavailable'')\<rparr>"
    using assms(1) a creds cap rec
    by (auto simp: reconcile_mailbox_contact_source_def Let_def enabled_def [symmetric] m_def)
  obtain q where q: "source_of_mailbox db' acct = Some q" "so_enabled q = (enabled \<and> state \<noteq> ''unavailable'')"
    using reconcile_source_again(2) [OF rec assms(2)] by (auto simp: m_def)
  show ?thesis
    using a creds q capability_enabled [OF cap] reconcile_source_again(1) [OF rec assms(2), of fresh']
    by (simp add: reconcile_mailbox_contact_source_def c Let_def or_option_def dav_of_def m_def)
qed

section \<open>Removing a source\<close>

definition absent :: "string \<Rightarrow> contact_db \<Rightarrow> bool" where
  "absent src db = ((\<forall>b \<in> set (kb_books db). bo_source b \<noteq> src) \<and> (\<forall>r \<in> set (kb_contacts db). kr_source r \<noteq> src)
     \<and> (\<forall>g \<in> set (kb_groups db). gr_source g \<noteq> src))"

lemma clear_cache_absent: "absent src (clear_cache src db)"
  by (auto simp: absent_def clear_cache_def)

lemma elsewhere_clear: "tables_ok db \<Longrightarrow> elsewhere src (clear_cache src db) = elsewhere src db"
proof -
  assume ok: "tables_ok db"
  let ?db1 = "delete_contacts (\<lambda>r. kr_source r = src) db" and ?db2 = "delete_groups (\<lambda>g. gr_source g = src) (delete_contacts (\<lambda>r. kr_source r = src) db)"
  have "elsewhere src (clear_cache src db) = elsewhere src ?db2"
    unfolding clear_cache_def by (rule elsewhere_books_gone) (auto intro: tables_ok_groups_gone tables_ok_contacts_gone ok)
  also have "\<dots> = elsewhere src ?db1" by (rule elsewhere_groups_gone) (simp_all add: tables_ok_contacts_gone ok)
  also have "\<dots> = elsewhere src db" by (rule elsewhere_contacts_gone) (simp_all add: ok)
  finally show ?thesis .
qed

lemma tables_ok_clear: "tables_ok db \<Longrightarrow> tables_ok (clear_cache src db)"
  unfolding clear_cache_def by (intro tables_ok_books_gone tables_ok_groups_gone tables_ok_contacts_gone)

lemma rows_absent:
  assumes "absent src db"
  shows "rows_elsewhere src db = (filter (\<lambda>r. so_id r \<noteq> src) (kb_sources db), kb_books db, kb_contacts db, kb_groups db)"
  using assms by (simp add: rows_elsewhere_def absent_def)

lemma elsewhere_absent:
  assumes "absent src db" "tables_ok db"
  shows "elsewhere src db =
    ((filter (\<lambda>r. so_id r \<noteq> src) (kb_sources db), kb_books db, kb_contacts db, kb_groups db), kb_members db)"
proof -
  have "filter (member_of (rows_elsewhere src db)) (kb_members db) = kb_members db"
    using assms(2) by (intro filter_True) (auto simp: rows_absent [OF assms(1)] member_of_def tables_ok_def members_ok_def)
  then show ?thesis unfolding elsewhere_def by (simp add: rows_absent [OF assms(1)])
qed

lemma delete_source_elsewhere:
  assumes "tables_ok db"
  shows "((kb_sources (delete_source src db), kb_books (delete_source src db), kb_contacts (delete_source src db),
      kb_groups (delete_source src db)), kb_members (delete_source src db)) = elsewhere src db"
proof -
  have "delete_source src db = (clear_cache src db)\<lparr>kb_sources := filter (\<lambda>r. so_id r \<noteq> src) (kb_sources db)\<rparr>"
    by (simp add: delete_source_def clear_cache_def)
  moreover have "kb_sources (clear_cache src db) = kb_sources db"
    by (simp add: clear_cache_def)
  ultimately show ?thesis
    using elsewhere_absent [OF clear_cache_absent tables_ok_clear [OF assms], of src] elsewhere_clear [OF assms, of src] by simp
qed

lemma contact_adapter_db: "contact_adapter E src ov app s = (res, app', s') \<Longrightarrow> kx_db app' = kx_db app"
  by (auto simp: contact_adapter_def managed_adapter_def managed_oauth_token_def split: option.splits sum.splits prod.splits if_splits)

lemma sync_account_elsewhere:
  fixes s :: 's
  assumes "sync_contact_account E src app s = Some (res, app', s')" "tables_ok (kx_db app)"
  shows "elsewhere src (kx_db app') = elsewhere src (kx_db app) \<and> tables_ok (kx_db app')"
proof -
  have "kx_db app' = kx_db app \<or> (\<exists>(A :: 's adapter) s1 s2 r.
      sync_source_once (tk_parse (ke_tokens E)) (ke_now E) A src (kx_db app) s1 = Some (r, kx_db app', s2))"
  proof (cases "find_source (kx_db app) src")
    case None
    with assms(1) show ?thesis by (simp add: sync_contact_account_def)
  next
    case (Some r)
    obtain ra app1 s1 where adapter: "contact_adapter E src None app s = (ra, app1, s1)"
      by (cases "contact_adapter E src None app s")
    note same = contact_adapter_db [OF adapter]
    show ?thesis
    proof (cases "\<not> so_enabled r \<or> so_state r \<in> set paused_states")
      case True
      with assms(1) Some show ?thesis by (simp add: sync_contact_account_def)
    next
      case False
      show ?thesis
      proof (cases ra)
        case (Inl e)
        with assms(1) Some False adapter same show ?thesis by (simp add: sync_contact_account_def)
      next
        case (Inr A)
        with assms(1) Some False adapter obtain r2 s2 where
          "sync_source_once (tk_parse (ke_tokens E)) (ke_now E) A src (kx_db app1) s1 = Some (r2, kx_db app', s2)"
          by (auto simp: sync_contact_account_def split: option.splits sum.splits prod.splits)
        then show ?thesis using same by auto
      qed
    qed
  qed
  then show ?thesis
    using elsewhere_once sync_source_once_ok assms(2) by metis
qed

section \<open>How a source comes to rest\<close>

definition independent :: "string \<Rightarrow> contact_db \<Rightarrow> bool" where
  "independent src db = (has_source db src \<and> distinct (map so_id (kb_sources db))
     \<and> (\<forall>q \<in> set (kb_sources db). so_id q = src \<longrightarrow> so_mailbox q = None \<and> so_enabled q))"

lemma independent_update:
  assumes "independent src db" "\<And>r. so_id (f r) = so_id r \<and> so_mailbox (f r) = so_mailbox r \<and> so_enabled (f r) = so_enabled r"
  shows "independent src (update_source src' f db)"
proof -
  have ids: "map so_id (kb_sources (update_source src' f db)) = map so_id (kb_sources db)"
    by (simp add: update_source_def assms(2))
  then have "has_source (update_source src' f db) src = has_source db src"
    unfolding has_source_def by (metis set_map)
  with assms ids show ?thesis by (auto simp: independent_def update_source_def)
qed

lemma independent_same: "kb_sources db' = kb_sources db \<Longrightarrow> independent src db' = independent src db"
  by (simp add: independent_def has_source_def)

lemma independent_state: "independent src db \<Longrightarrow> independent src (set_source_state src' state reason db)"
  by (simp add: set_source_state_def independent_update)

lemma page_keeps_sources: "apply_change_page src b gen page db = Inr db' \<Longrightarrow> tables_ok db \<Longrightarrow> kb_sources db' = kb_sources db"
  by (erule (1) apply_change_page_frame)
     (auto simp: save_book_cursor_def dest: upsert_book_frame(1) split: option.splits)

lemma pages_keep_sources: "apply_pages src b gen pages db = Inr db' \<Longrightarrow> tables_ok db \<Longrightarrow> kb_sources db' = kb_sources db"
proof (induction pages arbitrary: db)
  case (Cons p pages)
  then obtain db1 where db1: "apply_change_page src b gen p db = Inr db1" "apply_pages src b gen pages db1 = Inr db'"
    by (auto split: sum.splits)
  then show ?case
    using Cons.IH [OF db1(2) apply_change_page_ok [OF db1(1) Cons.prems(2)]] page_keeps_sources [OF db1(1) Cons.prems(2)] by simp
qed simp

lemma book_keeps_sources:
  "sync_book A src b cursor gen k run db s = Some (res, db', s') \<Longrightarrow> tables_ok db \<Longrightarrow> kb_sources db' = kb_sources db"
  by (drule sync_book_pages) (auto simp: pages_of_run_def intro: pages_keep_sources)

lemma books_keep_sources:
  "sync_books A src gen bs run db s = Some (res, db', s') \<Longrightarrow> tables_ok db \<Longrightarrow> kb_sources db' = kb_sources db"
proof (induction A src gen bs run db s rule: sync_books.induct)
  case (2 A src gen b cursor bs run db s)
  then obtain r1 db1 s1 where book: "sync_book A src b cursor gen None run db s = Some (r1, db1, s1)"
    by (auto split: option.splits prod.splits)
  note kept = book_keeps_sources [OF book "2.prems"(2)]
  show ?case
  proof (cases r1)
    case (Inl e)
    then show ?thesis using "2.prems"(1) book kept by simp
  next
    case (Inr run1)
    then have "sync_books A src gen bs run1 db1 s1 = Some (res, db', s')"
      using "2.prems"(1) book by simp
    then show ?thesis
      using "2.IH" [OF book refl _ refl _ sync_book_ok [OF book "2.prems"(2)], of run1] Inr kept by simp
  qed
qed simp

lemma attempt_independent:
  assumes "sync_source_attempt rd now A src allow db s = Some (res, db', s')" "tables_ok db" "independent src db"
  shows "independent src db'"
  using assms(1)
proof (cases rule: attempt_outcome)
  case unchanged
  with assms(3) show ?thesis by simp
next
  case (synced gen bs run s1 res1 db1 s2)
  have one: "independent src db1"
    by (rule iffD2 [OF independent_same [OF books_keep_sources [OF synced(1) assms(2)]] assms(3)])
  then have "independent src (finish_book_discovery src gen db1)"
    by (subst independent_same [of _ db1]) (simp_all add: finish_book_discovery_def)
  moreover have "independent src (finish_full_sync src gen now db1)"
    unfolding finish_full_sync_def
    by (rule independent_update) (use one in \<open>simp_all add: independent_def has_source_def\<close>)
  ultimately show ?thesis
    using synced(2) one by blast
qed

lemma updated_source_has:
  assumes "\<And>r. Q (f r)"
  shows "\<forall>q \<in> set (kb_sources (update_source src f db)). so_id q = src \<longrightarrow> Q q"
proof (intro ballI impI)
  fix q
  assume q: "q \<in> set (kb_sources (update_source src f db))" "so_id q = src"
  then have "q \<in> (\<lambda>r. if so_id r = src then f r else r) ` set (kb_sources db)"
    by (simp add: update_source_def)
  then obtain r where "q = (if so_id r = src then f r else r)" by (rule imageE)
  with q(2) show "Q q" using assms by (cases "so_id r = src") simp_all
qed

lemma state_is_set: "\<forall>q \<in> set (kb_sources (set_source_state src state reason db)). so_id q = src \<longrightarrow> so_state q = state"
  unfolding set_source_state_def by (rule updated_source_has) simp

lemma failed_sync_stalls:
  assumes "sync_source_once rd now A src db s = Some (Inl e, db', s')" "pv_category e = Unavailable"
    and "tables_ok db" "independent src db"
  shows "independent src db' \<and> (\<forall>q \<in> set (kb_sources db'). so_id q = src \<longrightarrow> so_state q = ''unavailable'')"
proof -
  have rest: "independent src (record_outcome src (Inl e) db1) \<and>
      (\<forall>q \<in> set (kb_sources (record_outcome src (Inl e) db1)). so_id q = src \<longrightarrow> so_state q = ''unavailable'')"
    if "independent src db1" for db1
  proof
    show "independent src (record_outcome src (Inl e) db1)"
      by (simp add: record_outcome_def independent_state [OF that])
    show "\<forall>q \<in> set (kb_sources (record_outcome src (Inl e) db1)). so_id q = src \<longrightarrow> so_state q = ''unavailable''"
      using state_is_set [of src "''unavailable''" "Some (provider_error_code e)" db1]
      by (simp only: record_outcome_def error_state_def assms(2) sum.case error_category.case fst_conv snd_conv)
  qed
  show ?thesis
    using assms(1)
  proof (cases rule: once_attempts)
    case (once db1)
    then show ?thesis
      using rest [OF attempt_independent [OF once(2) set_source_state_ok [OF assms(3)] independent_state [OF assms(4)]]] by simp
  next
    case (twice e' db1 s1 db2)
    note one = attempt_independent [OF twice(3) set_source_state_ok [OF assms(3)] independent_state [OF assms(4)]]
    have "tables_ok db1"
      by (rule sync_source_attempt_ok [OF twice(3) set_source_state_ok [OF assms(3)]])
    from rest [OF attempt_independent [OF twice(4) this one]] twice(1) show ?thesis by simp
  qed
qed

lemma independent_adapter_error: "independent_adapter E r = Inl e \<Longrightarrow> pv_category e = InvalidResponse"
  by (auto simp: independent_adapter_def provider_setup_error_def invalid_response_def provider_error_def
        split: option.splits if_splits)

lemma failed_account_sync_stalls:
  assumes "sync_contact_account E src app s = Some (Inl e, app', s')" "pv_category e = Unavailable"
    and "tables_ok (kx_db app)" "independent src (kx_db app)"
  shows "stalled src app'"
proof -
  obtain r where r: "find_source (kx_db app) src = Some r"
    using assms(4) by (cases "find_source (kx_db app) src") (auto simp: independent_def find_source_None)
  then have row: "so_mailbox r = None" "so_enabled r"
    using assms(4) by (auto simp: independent_def find_source_def find_Some_iff)
  show ?thesis
  proof (cases "so_state r \<in> set paused_states")
    case True
    have "q = r" if "q \<in> set (kb_sources (kx_db app))" "so_id q = src" for q
      using that r assms(4) by (auto simp: independent_def find_source_def find_Some_iff distinct_map inj_on_def)
    moreover have "app' = app"
      using assms(1) r row True by (simp add: sync_contact_account_def)
    ultimately show ?thesis
      using r row True by (auto simp: stalled_def)
  next
    case False
    show ?thesis
    proof (cases "independent_adapter E r")
      case (Inl e')
      then have "e = e'"
        using assms(1) r row False by (simp add: sync_contact_account_def contact_adapter_def)
      with independent_adapter_error [OF Inl] assms(2) show ?thesis by simp
    next
      case (Inr A)
      then obtain db' where once: "sync_source_once (tk_parse (ke_tokens E)) (ke_now E) A src (kx_db app) s = Some (Inl e, db', s')"
        and app': "app' = app\<lparr>kx_db := db'\<rparr>"
        using assms(1) r row False
        by (auto simp: sync_contact_account_def contact_adapter_def split: option.splits sum.splits)
      from failed_sync_stalls [OF once assms(2,3,4)] show ?thesis
        by (auto simp: stalled_def app' independent_def find_source_None paused_states_def simp del: not_None_eq)
    qed
  qed
qed

end
