(* ===== verification/Contact_Routes.thy ===== *)
theory Contact_Routes
  imports Contact_Accounts Search
begin

text \<open>
  Contacts behind the API (the contact routes of backend/api/src/routes/contacts.rs): pages and groups,
  recipient suggestions, the remote-first mutations and photos.

  A NULL compares as SQLite compares it: it sorts first and matches no pattern.  Of the messages that one
  group of senders joins, the first row stands for the group.
\<close>

section \<open>A contact with its source\<close>

record contact_view =
  cv_row :: contact_row
  cv_mailbox :: "string option"
  cv_provider :: string
  cv_state :: string
  cv_enabled :: bool
  cv_writable :: bool
  cv_groups :: "(nat \<times> string \<times> string option) list"

definition enrich_contact :: "contact_db \<Rightarrow> contact_row \<Rightarrow> app_error + contact_view" where
  "enrich_contact db r =
     (case find_source db (kr_source r) of
        None \<Rightarrow> Inl (Internal ''no rows returned'')
      | Some q \<Rightarrow>
          (let book_writable = (case Option.bind (kr_book r) (\<lambda>b. find (\<lambda>k. bo_id k = b) (kb_books db)) of
                 None \<Rightarrow> False | Some k \<Rightarrow> bo_writable k);
               groups = filter (\<lambda>g. (kr_id r, gr_id g) \<in> set (kb_members db)) (kb_groups db)
           in Inr \<lparr>cv_row = r, cv_mailbox = so_mailbox q, cv_provider = so_type q, cv_state = so_state q,
                cv_enabled = so_enabled q,
                cv_writable = (so_enabled q \<and> so_state q \<in> set [''idle'', ''pending''] \<and> book_writable),
                cv_groups = map (\<lambda>g. (gr_id g, gr_name g, gr_remote g)) (sort_key (\<lambda>g. nocase_key (gr_name g)) groups)\<rparr>))"

fun enrich_all :: "contact_db \<Rightarrow> contact_row list \<Rightarrow> app_error + contact_view list" where
  "enrich_all db [] = Inr []"
| "enrich_all db (r # rs) =
     (case enrich_contact db r of
        Inl e \<Rightarrow> Inl e
      | Inr v \<Rightarrow> (case enrich_all db rs of Inl e \<Rightarrow> Inl e | Inr vs \<Rightarrow> Inr (v # vs)))"

definition fetch_contact :: "contact_db \<Rightarrow> nat \<Rightarrow> app_error + contact_view" where
  "fetch_contact db i =
     (case find (\<lambda>r. kr_id r = i) (kb_contacts db) of None \<Rightarrow> Inl NotFound | Some r \<Rightarrow> enrich_contact db r)"

definition fetch_contact_by_remote_id :: "contact_db \<Rightarrow> string \<Rightarrow> string \<Rightarrow> app_error + contact_view" where
  "fetch_contact_by_remote_id db src uid =
     (case find_contact db src uid of None \<Rightarrow> Inl NotFound | Some r \<Rightarrow> enrich_contact db r)"

section \<open>Pages\<close>

record contact_query =
  qc_q :: "string option"
  qc_account :: "string option"
  qc_mailbox :: "string option"
  qc_book :: "nat option"
  qc_group :: "nat option"
  qc_limit :: "int option"
  qc_offset :: "int option"

record contact_page_result =
  cr_items :: "contact_view list"
  cr_total :: nat
  cr_limit :: int
  cr_offset :: int

definition opt_filter :: "'a option \<Rightarrow> ('a \<Rightarrow> bool) \<Rightarrow> bool" where
  "opt_filter x P = (case x of None \<Rightarrow> True | Some v \<Rightarrow> P v)"

definition like_opt :: "string \<Rightarrow> string option \<Rightarrow> bool" where
  "like_opt pat v = (case v of None \<Rightarrow> False | Some t \<Rightarrow> like_match None pat t)"

definition search_term :: "string option \<Rightarrow> string option" where
  "search_term q = (case q of None \<Rightarrow> None | Some t \<Rightarrow> if trim t = [] then None else Some (trim t))"

definition matches_term :: "(labeled_value list \<Rightarrow> string) \<Rightarrow> string \<Rightarrow> contact_row \<Rightarrow> bool" where
  "matches_term render t r =
     (let c = kr_contact r; pat = contains_pattern t in
      like_opt pat (pc_display_name c) \<or> like_opt pat (pc_given_name c) \<or> like_opt pat (pc_family_name c)
      \<or> like_match None pat (render (pc_emails c)) \<or> like_opt pat (pc_org c))"

text \<open>The row of the source that a contact is joined with, and the rows that a query selects.\<close>

definition mailbox_of_row :: "contact_db \<Rightarrow> contact_row \<Rightarrow> string option" where
  "mailbox_of_row db r = Option.bind (find_source db (kr_source r)) so_mailbox"

definition selects :: "(labeled_value list \<Rightarrow> string) \<Rightarrow> contact_db \<Rightarrow> contact_query \<Rightarrow> contact_row \<Rightarrow> bool" where
  "selects render db q r =
     (find_source db (kr_source r) \<noteq> None
      \<and> opt_filter (qc_account q) (\<lambda>a. kr_source r = a)
      \<and> opt_filter (qc_mailbox q) (\<lambda>m. mailbox_of_row db r = Some m)
      \<and> opt_filter (qc_book q) (\<lambda>b. kr_book r = Some b)
      \<and> opt_filter (qc_group q) (\<lambda>g. (kr_id r, g) \<in> set (kb_members db))
      \<and> opt_filter (search_term (qc_q q)) (\<lambda>t. matches_term render t r))"

definition match_rank :: "(labeled_value list \<Rightarrow> string) \<Rightarrow> string option \<Rightarrow> contact_row \<Rightarrow> nat" where
  "match_rank render q r =
     (case search_term q of
        None \<Rightarrow> 4
      | Some t \<Rightarrow>
          (let c = kr_contact r; pat = t @ ''%'' in
           if like_opt pat (pc_display_name c) then 0
           else if like_opt pat (pc_given_name c) then 1
           else if like_opt pat (pc_family_name c) then 2
           else if like_match None pat (render (pc_emails c)) then 3 else 4))"

text \<open>The ORDER BY key: own mailbox first, then the rank, the name without case (NULL first) and the id.\<close>

definition page_key :: "(labeled_value list \<Rightarrow> string) \<Rightarrow> contact_db \<Rightarrow> contact_query \<Rightarrow> contact_row \<Rightarrow> nat list" where
  "page_key render db q r =
     [if qc_mailbox q \<noteq> None \<and> mailbox_of_row db r = qc_mailbox q then 0 else 1, match_rank render (qc_q q) r]
     @ (case pc_display_name (kr_contact r) of None \<Rightarrow> [0] | Some n \<Rightarrow> 1 # map Suc (nocase_key n)) @ [0, kr_id r]"

definition contact_limit :: "bool \<Rightarrow> int option \<Rightarrow> int" where
  "contact_limit autocomplete limit =
     max 1 (min 200 (case limit of Some n \<Rightarrow> n | None \<Rightarrow> if autocomplete then 10 else 50))"

definition contact_offset :: "int option \<Rightarrow> int" where
  "contact_offset offset = max 0 (case offset of None \<Rightarrow> 0 | Some n \<Rightarrow> n)"

definition contact_page ::
  "(labeled_value list \<Rightarrow> string) \<Rightarrow> contact_db \<Rightarrow> contact_query \<Rightarrow> bool \<Rightarrow> app_error + contact_page_result"
where
  "contact_page render db q autocomplete =
     (let rows = filter (selects render db q) (kb_contacts db);
          limit = contact_limit autocomplete (qc_limit q);
          offset = contact_offset (qc_offset q)
      in case enrich_all db (take (nat limit) (drop (nat offset) (sort_key (page_key render db q) rows))) of
           Inl e \<Rightarrow> Inl e
         | Inr vs \<Rightarrow> Inr \<lparr>cr_items = vs, cr_total = length rows, cr_limit = limit, cr_offset = offset\<rparr>)"

definition search_contacts :: "(labeled_value list \<Rightarrow> string) \<Rightarrow> contact_db \<Rightarrow> contact_query \<Rightarrow> app_error + contact_view list" where
  "search_contacts render db q =
     (if search_term (qc_q q) = None then Inr []
      else case contact_page render db (q\<lparr>qc_limit := Some 10, qc_offset := Some 0\<rparr>) True of
        Inl e \<Rightarrow> Inl e
      | Inr page \<Rightarrow> Inr (cr_items page))"

record group_summary =
  gs_group :: group_row
  gs_count :: nat

definition contact_groups :: "contact_db \<Rightarrow> string option \<Rightarrow> string option \<Rightarrow> nat option \<Rightarrow> group_summary list" where
  "contact_groups db account mailbox book =
     map (\<lambda>g. \<lparr>gs_group = g, gs_count = card {c. (c, gr_id g) \<in> set (kb_members db)}\<rparr>)
       (sort_key (\<lambda>g. map Suc (nocase_key (gr_name g)) @ [0, gr_id g])
         (filter (\<lambda>g. find_source db (gr_source g) \<noteq> None
             \<and> opt_filter account (\<lambda>a. gr_source g = a)
             \<and> opt_filter mailbox (\<lambda>m. Option.bind (find_source db (gr_source g)) so_mailbox = Some m)
             \<and> opt_filter book (\<lambda>b. gr_book g = Some b)) (kb_groups db)))"

section \<open>Recipient suggestions\<close>

definition valid_sender_email :: "string \<Rightarrow> bool" where
  "valid_sender_email email =
     ((case split_on CHR ''@'' email of [user, domain] \<Rightarrow> user \<noteq> [] \<and> domain \<noteq> [] | _ \<Rightarrow> False)
      \<and> (\<forall>c \<in> set email. \<not> is_ws c))"

definition parse_sender_identity :: "string \<Rightarrow> (string option \<times> string) option" where
  "parse_sender_identity raw0 =
     (let raw = trim raw0 in
      case (if raw \<noteq> [] \<and> last raw = CHR ''>''
            then map_option (\<lambda>(name, rest). (trim_by (\<lambda>c. c = CHR 0x22) (trim name), trim (butlast rest))) (rsplit_once CHR ''<'' raw)
            else Some ([], raw)) of
        None \<Rightarrow> None
      | Some (name, email) \<Rightarrow>
          (if valid_sender_email email then Some (if name = [] then None else Some name, email) else None))"

record suggestion =
  sg_contact :: "nat option"
  sg_name :: "string option"
  sg_email :: string
  sg_key :: string

text \<open>The suggestions of the contacts, with the addresses seen so far.\<close>

fun suggest_emails :: "contact_view \<Rightarrow> labeled_value list \<Rightarrow> string list \<Rightarrow> suggestion list \<Rightarrow> string list \<times> suggestion list" where
  "suggest_emails v [] seen out = (seen, out)"
| "suggest_emails v (e # es) seen out =
     (let key = to_lower (trim (lv_value e)) in
      if valid_sender_email key \<and> key \<notin> set seen
      then suggest_emails v es (key # seen) (out @ [\<lparr>sg_contact = Some (kr_id (cv_row v)),
             sg_name = pc_display_name (kr_contact (cv_row v)), sg_email = lv_value e, sg_key = key\<rparr>])
      else suggest_emails v es seen out)"

fun suggest_contacts :: "contact_view list \<Rightarrow> string list \<Rightarrow> suggestion list \<Rightarrow> string list \<times> suggestion list" where
  "suggest_contacts [] seen out = (seen, out)"
| "suggest_contacts (v # vs) seen out =
     (case suggest_emails v (take 2 (pc_emails (kr_contact (cv_row v)))) seen out of
        (seen', out') \<Rightarrow> suggest_contacts vs seen' out')"

definition max_suggestions :: nat where
  "max_suggestions = 12"

fun suggest_senders :: "string list \<Rightarrow> string list \<Rightarrow> string list \<Rightarrow> suggestion list \<Rightarrow> suggestion list" where
  "suggest_senders own [] seen out = out"
| "suggest_senders own (raw # raws) seen out =
     (case parse_sender_identity raw of
        None \<Rightarrow> suggest_senders own raws seen out
      | Some (name, email) \<Rightarrow>
          (let key = to_lower email in
           if key \<in> set own then suggest_senders own raws seen out
           else if key \<in> set seen then suggest_senders own raws seen out
           else let out' = out @ [\<lparr>sg_contact = None, sg_name = name, sg_email = email, sg_key = key\<rparr>]
                in if length out' \<ge> max_suggestions then out' else suggest_senders own raws (key # seen) out'))"

text \<open>The senders of messages that match, most relevant first.\<close>

fun same_senders :: "string list \<Rightarrow> message_row list \<Rightarrow> message_row list list" where
  "same_senders seen [] = []"
| "same_senders seen (m # ms) =
     (if to_lower (m_from m) \<in> set seen then same_senders seen ms
      else (m # filter (\<lambda>x. to_lower (m_from x) = to_lower (m_from m)) ms) # same_senders (to_lower (m_from m) # seen) ms)"

definition newest_date :: "message_row list \<Rightarrow> nat list" where
  "newest_date ms = fold max (map (\<lambda>m. map of_char (m_internal_date m)) ms) []"

definition sender_before :: "string option \<Rightarrow> message_row list \<Rightarrow> message_row list \<Rightarrow> bool" where
  "sender_before mailbox a b =
     (let own = (\<lambda>ms. \<exists>m \<in> set ms. Some (m_account m) = mailbox) in
      if own a \<noteq> own b then own a
      else if length a \<noteq> length b then length b < length a
      else newest_date b < newest_date a)"

fun insert_by :: "('a \<Rightarrow> 'a \<Rightarrow> bool) \<Rightarrow> 'a \<Rightarrow> 'a list \<Rightarrow> 'a list" where
  "insert_by lt x [] = [x]"
| "insert_by lt x (y # ys) = (if lt y x then y # insert_by lt x ys else x # y # ys)"

definition known_senders :: "mail_db \<Rightarrow> string \<Rightarrow> string option \<Rightarrow> string list" where
  "known_senders mail t mailbox =
     map (\<lambda>ms. m_from (hd ms))
       (take 30 (foldr (insert_by (sender_before mailbox))
         (same_senders [] (filter (\<lambda>m. \<not> m_deleted m \<and> m_from m \<noteq> [] \<and> like_match None (contains_pattern t) (m_from m)) (messages mail))) []))"

definition own_addresses :: "contact_app \<Rightarrow> string list" where
  "own_addresses app = map to_lower (map a_email (accounts (kx_mail app)) @ kx_aliases app)"

definition recipient_suggestion_rows ::
  "(labeled_value list \<Rightarrow> string) \<Rightarrow> contact_app \<Rightarrow> string option \<Rightarrow> string option \<Rightarrow> app_error + suggestion list"
where
  "recipient_suggestion_rows render app q mailbox =
     (case search_term q of
        None \<Rightarrow> Inr []
      | Some t \<Rightarrow>
          (case contact_page render (kx_db app) \<lparr>qc_q = Some t, qc_account = None, qc_mailbox = None, qc_book = None,
                 qc_group = None, qc_limit = Some 10, qc_offset = Some 0\<rparr> True of
             Inl e \<Rightarrow> Inl e
           | Inr page \<Rightarrow>
               (case suggest_contacts (sort_key (\<lambda>v. if cv_mailbox v \<noteq> mailbox then 1 else (0 :: nat)) (cr_items page)) [] [] of
                  (seen, out) \<Rightarrow>
                    Inr (take max_suggestions (suggest_senders (own_addresses app) (known_senders (kx_mail app) t mailbox) seen out)))))"

section \<open>Mutations\<close>

definition book_identity :: "book_row \<Rightarrow> contact_book" where
  "book_identity b = \<lparr>cb_remote = bo_remote b, cb_name = bo_name b, cb_parent = bo_parent b, cb_default = bo_default b,
     cb_writable = bo_writable b, cb_metadata = bo_metadata b\<rparr>"

definition book_by_id :: "contact_db \<Rightarrow> string \<Rightarrow> nat \<Rightarrow> book_row option" where
  "book_by_id db src i = find (\<lambda>b. bo_id b = i \<and> bo_source b = src) (kb_books db)"

definition default_book :: "contact_db \<Rightarrow> string \<Rightarrow> book_row option" where
  "default_book db src =
     first_of (sort_key (\<lambda>b. (if bo_default b then 0 else 1) # nocase_key (bo_name b))
       (filter (\<lambda>b. bo_source b = src \<and> bo_writable b) (kb_books db)))"

definition writable_book :: "contact_db \<Rightarrow> string \<Rightarrow> nat option \<Rightarrow> app_error + contact_book" where
  "writable_book db src requested =
     (case (case requested of Some i \<Rightarrow> book_by_id db src i | None \<Rightarrow> default_book db src) of
        None \<Rightarrow> Inl (Unprocessable ''no writable contact book is available'')
      | Some b \<Rightarrow>
          (if bo_writable b then Inr (book_identity b)
           else Inl (Conflict ''the selected contact book is read-only'')))"

definition stored_book :: "contact_db \<Rightarrow> string \<Rightarrow> nat \<Rightarrow> app_error + contact_book" where
  "stored_book db src i = (case book_by_id db src i of None \<Rightarrow> Inl NotFound | Some b \<Rightarrow> Inr (book_identity b))"

text \<open>The fields of a request; a field that is absent keeps the old value in an update.\<close>

record contact_fields =
  cf_display_name :: "string option"
  cf_given_name :: "string option"
  cf_family_name :: "string option"
  cf_org :: "string option"
  cf_title :: "string option"
  cf_emails :: "labeled_value list option"
  cf_phones :: "labeled_value list option"
  cf_addresses :: "postal_address list option"
  cf_notes :: "string option"

definition or_nil :: "'a list option \<Rightarrow> 'a list" where
  "or_nil x = (case x of None \<Rightarrow> [] | Some v \<Rightarrow> v)"

definition blank_text :: "string option \<Rightarrow> bool" where
  "blank_text x = (trim (or_empty x) = [])"

definition created_contact :: "string \<Rightarrow> contact_fields \<Rightarrow> parsed_contact" where
  "created_contact uid f = \<lparr>pc_uid = uid, pc_display_name = cf_display_name f, pc_given_name = cf_given_name f,
     pc_family_name = cf_family_name f, pc_org = cf_org f, pc_title = cf_title f, pc_emails = or_nil (cf_emails f),
     pc_phones = or_nil (cf_phones f), pc_addresses = or_nil (cf_addresses f), pc_notes = cf_notes f, pc_photo = None,
     pc_raw_vcard = None\<rparr>"

definition updated_contact :: "contact_row \<Rightarrow> contact_fields \<Rightarrow> parsed_contact" where
  "updated_contact r f =
     (let c = kr_contact r in
      \<lparr>pc_uid = kr_uid r, pc_display_name = or_option (cf_display_name f) (pc_display_name c),
        pc_given_name = or_option (cf_given_name f) (pc_given_name c),
        pc_family_name = or_option (cf_family_name f) (pc_family_name c), pc_org = or_option (cf_org f) (pc_org c),
        pc_title = or_option (cf_title f) (pc_title c),
        pc_emails = (case cf_emails f of None \<Rightarrow> pc_emails c | Some v \<Rightarrow> v),
        pc_phones = (case cf_phones f of None \<Rightarrow> pc_phones c | Some v \<Rightarrow> v),
        pc_addresses = (case cf_addresses f of None \<Rightarrow> pc_addresses c | Some v \<Rightarrow> v),
        pc_notes = or_option (cf_notes f) (pc_notes c), pc_photo = None, pc_raw_vcard = pc_raw_vcard c\<rparr>)"

text \<open>The adapter of a source and then a mutation through it, with the database the mutation leaves.\<close>

definition with_adapter ::
  "'s contact_env \<Rightarrow> string \<Rightarrow> contact_app \<Rightarrow> 's \<Rightarrow>
   ('s adapter \<Rightarrow> contact_db \<Rightarrow> 's \<Rightarrow> ((contact_error + 'a) \<times> contact_db \<times> 's) option)
   \<Rightarrow> ((app_error + 'a) \<times> contact_app \<times> 's) option"
where
  "with_adapter E src app s f =
     (case contact_adapter E src None app s of
        (Inl e, app1, s1) \<Rightarrow> Some (Inl (provider_app_error e), app1, s1)
      | (Inr A, app1, s1) \<Rightarrow>
          (case f A (kx_db app1) s1 of
             None \<Rightarrow> None
           | Some (Inl e, db, s2) \<Rightarrow> Some (Inl (provider_app_error e), app1\<lparr>kx_db := db\<rparr>, s2)
           | Some (Inr x, db, s2) \<Rightarrow> Some (Inr x, app1\<lparr>kx_db := db\<rparr>, s2)))"

definition create_contact ::
  "'s contact_env \<Rightarrow> string \<Rightarrow> string \<Rightarrow> nat option \<Rightarrow> contact_fields \<Rightarrow> contact_app \<Rightarrow> 's
   \<Rightarrow> ((app_error + contact_view) \<times> contact_app \<times> 's) option"
where
  "create_contact E uid src requested f app s =
     (if find_source (kx_db app) src = None then Some (Inl NotFound, app, s)
      else if blank_text (cf_display_name f) \<and> blank_text (cf_given_name f) \<and> blank_text (cf_family_name f)
      then Some (Inl (Unprocessable ''display_name or name parts are required''), app, s)
      else case writable_book (kx_db app) src requested of
        Inl e \<Rightarrow> Some (Inl e, app, s)
      | Inr book \<Rightarrow>
          (case with_adapter E src app s
             (\<lambda>A. create_remote_first (tk_parse (ke_tokens E)) (ke_now E) A src book (created_contact uid f)) of
             None \<Rightarrow> None
           | Some (Inl e, app', s') \<Rightarrow> Some (Inl e, app', s')
           | Some (Inr m, app', s') \<Rightarrow> Some (fetch_contact_by_remote_id (kx_db app') src (mr_remote m), app', s')))"

definition update_contact ::
  "'s contact_env \<Rightarrow> nat \<Rightarrow> contact_fields \<Rightarrow> contact_app \<Rightarrow> 's \<Rightarrow> ((app_error + contact_view) \<times> contact_app \<times> 's) option"
where
  "update_contact E i f app s =
     (case fetch_contact (kx_db app) i of
        Inl e \<Rightarrow> Some (Inl e, app, s)
      | Inr v \<Rightarrow>
          (let r = cv_row v in
           case writable_book (kx_db app) (kr_source r) (kr_book r) of
             Inl e \<Rightarrow> Some (Inl e, app, s)
           | Inr book \<Rightarrow>
               (case with_adapter E (kr_source r) app s
                  (\<lambda>A. update_remote_first (tk_parse (ke_tokens E)) (ke_now E) A (kr_source r) book (kr_uid r) (kr_version r)
                         (updated_contact r f)) of
                  None \<Rightarrow> None
                | Some (Inl e, app', s') \<Rightarrow> Some (Inl e, app', s')
                | Some (Inr m, app', s') \<Rightarrow> Some (fetch_contact (kx_db app') i, app', s'))))"

definition delete_contact_route ::
  "'s contact_env \<Rightarrow> nat \<Rightarrow> contact_app \<Rightarrow> 's \<Rightarrow> ((app_error + nat) \<times> contact_app \<times> 's) option"
where
  "delete_contact_route E i app s =
     (case fetch_contact (kx_db app) i of
        Inl e \<Rightarrow> Some (Inl e, app, s)
      | Inr v \<Rightarrow>
          (let r = cv_row v in
           case writable_book (kx_db app) (kr_source r) (kr_book r) of
             Inl e \<Rightarrow> Some (Inl e, app, s)
           | Inr book \<Rightarrow>
               (case with_adapter E (kr_source r) app s
                  (\<lambda>A. delete_remote_first (tk_parse (ke_tokens E)) (ke_now E) A (kr_source r) book (kr_uid r) (kr_version r)) of
                  None \<Rightarrow> None
                | Some (Inl e, app', s') \<Rightarrow> Some (Inl e, app', s')
                | Some (Inr _, app', s') \<Rightarrow> Some (Inr i, app', s'))))"

section \<open>Photos\<close>

definition strip_prefix :: "string \<Rightarrow> string \<Rightarrow> string option" where
  "strip_prefix p s = (if starts_with p s then Some (drop (length p) s) else None)"

definition photo_type :: "string \<Rightarrow> string" where
  "photo_type key =
     (case first_of (filter_some (map (\<lambda>part. or_option (strip_prefix ''MEDIATYPE='' part) (strip_prefix ''TYPE='' part))
         (split_on CHR '';'' key))) of
        None \<Rightarrow> ''image/jpeg'' | Some t \<Rightarrow> t)"

text \<open>\<open>PhotoUrl\<close> is fetched without credentials; the bytes of any answer are the photo.\<close>

datatype vcard_photo = NoPhoto | PhotoUrl string | PhotoData string string | BadPhoto

fun vcard_photo_of :: "(string \<Rightarrow> string option) \<Rightarrow> (string \<Rightarrow> string option) \<Rightarrow> string list \<Rightarrow> vcard_photo" where
  "vcard_photo_of dec dec' [] = NoPhoto"
| "vcard_photo_of dec dec' (line # ls) =
     (case split_once CHR '':'' line of
        None \<Rightarrow> vcard_photo_of dec dec' ls
      | Some (key, v) \<Rightarrow>
          (if to_lower (hd (split_on CHR '';'' key)) \<noteq> ''photo'' then vcard_photo_of dec dec' ls
           else if starts_with ''http://'' v \<or> starts_with ''https://'' v then PhotoUrl v
           else case or_option (dec (trim v)) (dec' (trim v)) of
             None \<Rightarrow> BadPhoto
           | Some bytes \<Rightarrow> PhotoData bytes (photo_type key)))"

definition photo_from_vcard :: "'s contact_env \<Rightarrow> string \<Rightarrow> 's \<Rightarrow> (app_error + (string \<times> string) option) \<times> 's" where
  "photo_from_vcard E raw s =
     (case vcard_photo_of (ke_decode E) (ke_decode_bare E) (lines_of (replace_str [cr, lf] [lf] raw)) of
        NoPhoto \<Rightarrow> (Inr None, s)
      | BadPhoto \<Rightarrow> (Inl (Unprocessable ''Invalid base64''), s)
      | PhotoData bytes t \<Rightarrow> (Inr (Some (bytes, t)), s)
      | PhotoUrl url \<Rightarrow>
          (case wb_send (ke_web E) ''GET'' url [] [] s of
             (Inl e, s') \<Rightarrow> (Inl (BadGateway ''request failed''), s')
           | (Inr r, s') \<Rightarrow>
               (case rs_body r of
                  Inl e \<Rightarrow> (Inl (BadGateway e), s')
                | Inr bytes \<Rightarrow> (Inr (Some (bytes, ''application/octet-stream'')), s'))))"

definition photo_key :: "contact_row \<Rightarrow> string" where
  "photo_key r = ''contact/'' @ kr_source r @ ''/'' @ kr_uid r @ ''/photo''"

definition update_contact_row :: "nat \<Rightarrow> (contact_row \<Rightarrow> contact_row) \<Rightarrow> contact_db \<Rightarrow> contact_db" where
  "update_contact_row i f db = db\<lparr>kb_contacts := map (\<lambda>r. if kr_id r = i then f r else r) (kb_contacts db)\<rparr>"

definition store_photo :: "contact_row \<Rightarrow> string \<Rightarrow> (contact_row \<Rightarrow> contact_row) \<Rightarrow> contact_app \<Rightarrow> contact_app" where
  "store_photo r bytes f app = app\<lparr>kx_blobs := (kx_blobs app)(photo_key r \<mapsto> bytes),
     kx_db := update_contact_row (kr_id r) (\<lambda>q. f (q\<lparr>kr_photo_blob := Some (photo_key r)\<rparr>)) (kx_db app)\<rparr>"

definition photo_of_vcard :: "'s contact_env \<Rightarrow> contact_row \<Rightarrow> contact_app \<Rightarrow> 's \<Rightarrow> (app_error + (string \<times> string)) \<times> contact_app \<times> 's" where
  "photo_of_vcard E r app s =
     (case pc_raw_vcard (kr_contact r) of
        None \<Rightarrow> (Inl NotFound, app, s)
      | Some raw \<Rightarrow>
          (case photo_from_vcard E raw s of
             (Inl e, s') \<Rightarrow> (Inl e, app, s')
           | (Inr None, s') \<Rightarrow> (Inl NotFound, app, s')
           | (Inr (Some (bytes, t)), s') \<Rightarrow> (Inr (bytes, t), store_photo r bytes (\<lambda>q. q) app, s')))"

definition get_photo :: "'s contact_env \<Rightarrow> nat \<Rightarrow> contact_app \<Rightarrow> 's \<Rightarrow> (app_error + (string \<times> string)) \<times> contact_app \<times> 's" where
  "get_photo E i app s =
     (case fetch_contact (kx_db app) i of
        Inl e \<Rightarrow> (Inl e, app, s)
      | Inr v \<Rightarrow>
          (let r = cv_row v in
           case kr_photo_blob r of
             Some key \<Rightarrow>
               (case kx_blobs app key of
                  None \<Rightarrow> (Inl NotFound, app, s)
                | Some bytes \<Rightarrow> (Inr (bytes, case kr_photo_type r of None \<Rightarrow> ''application/octet-stream'' | Some t \<Rightarrow> t), app, s))
           | None \<Rightarrow>
               (case kr_book r of
                  None \<Rightarrow> photo_of_vcard E r app s
                | Some b \<Rightarrow>
                    (case stored_book (kx_db app) (kr_source r) b of
                       Inl e \<Rightarrow> (Inl e, app, s)
                     | Inr book \<Rightarrow>
                         (case contact_adapter E (kr_source r) None app s of
                            (Inl e, app1, s1) \<Rightarrow> (Inl (provider_app_error e), app1, s1)
                          | (Inr A, app1, s1) \<Rightarrow>
                              (case ad_photo A book (kr_uid r) (kr_photo r) s1 of
                                 (Inl e, s2) \<Rightarrow> (Inl (provider_app_error e), app1, s2)
                               | (Inr None, s2) \<Rightarrow> photo_of_vcard E r app1 s2
                               | (Inr (Some ph), s2) \<Rightarrow>
                                   (Inr (ph_bytes ph, ph_type ph),
                                    store_photo r (ph_bytes ph) (\<lambda>q. q\<lparr>kr_photo_type := Some (ph_type ph),
                                      kr_photo_version := or_option (ph_version ph) (kr_photo_version q)\<rparr>) app1, s2)))))))"

end
