(* ===== verification/Contact_Properties.thy ===== *)
theory Contact_Properties
  imports Contact_Isolation Contact_Routes
begin

text \<open>Properties of contact synchronisation, of contact cards and of the contact routes.\<close>

section \<open>Samples\<close>

definition sample_source :: source_row where
  "sample_source = \<lparr>so_id = ''s'', so_name = ''Work'', so_type = ''cardav'', so_base_url = Some ''https://dav.test/'',
     so_auth = ''basic'', so_credentials = [], so_mailbox = None, so_mode = ''independent'', so_state = ''idle'',
     so_reason = None, so_enabled = True, so_cache_retained = True, so_generation = 1, so_metadata = ''{}'',
     so_sync_status = ''idle'', so_sync_error = None, so_synced = None\<rparr>"

definition sample_book :: "string \<Rightarrow> contact_book" where
  "sample_book remote = \<lparr>cb_remote = remote, cb_name = remote, cb_parent = None, cb_default = False, cb_writable = True,
     cb_metadata = JNull\<rparr>"

definition stored_book_row :: "nat \<Rightarrow> string \<Rightarrow> string \<Rightarrow> book_row" where
  "stored_book_row i remote cursor = \<lparr>bo_id = i, bo_source = ''s'', bo_remote = remote, bo_name = remote, bo_parent = None,
     bo_default = False, bo_writable = True, bo_cursor = Some cursor, bo_generation = 1, bo_metadata = JNull\<rparr>"

definition sample_card :: "string \<Rightarrow> parsed_contact" where
  "sample_card uid = empty_contact\<lparr>pc_uid := uid, pc_display_name := Some ''Ann''\<rparr>"

definition stored_contact_row :: contact_row where
  "stored_contact_row = \<lparr>kr_id = 3, kr_source = ''s'', kr_book = Some 1, kr_uid = ''u'', kr_contact = sample_card ''u'',
     kr_version = Some ''v1'', kr_metadata = JNull, kr_photo = None, kr_photo_blob = None, kr_photo_version = None,
     kr_photo_type = None, kr_generation = 1\<rparr>"

text \<open>A source after a full synchronisation: two books, one contact in the first.\<close>

definition sample_contact_db :: contact_db where
  "sample_contact_db = \<lparr>kb_sources = [sample_source], kb_books = [stored_book_row 1 ''b1'' ''c1'', stored_book_row 2 ''b2'' ''c2''],
     kb_contacts = [stored_contact_row], kb_groups = [], kb_members = [], kb_next = 4\<rparr>"

definition sample_remote :: "string \<Rightarrow> remote_contact" where
  "sample_remote version = \<lparr>rc_book = ''b1'', rc_remote = ''u'', rc_version = Some version, rc_contact = sample_card ''u'',
     rc_photo = None, rc_groups = [], rc_metadata = JNull\<rparr>"

definition final_page :: "remote_contact list \<Rightarrow> string \<Rightarrow> change_page" where
  "final_page us cursor = empty_page\<lparr>cp_upserts := us, cp_cursor := Some cursor\<rparr>"

definition refused :: "error_category \<Rightarrow> contact_error" where
  "refused k = provider_error k [] None"

text \<open>A provider that answers from a table.\<close>

definition table_adapter ::
  "contact_book list \<Rightarrow> (string \<Rightarrow> string option \<Rightarrow> string option \<Rightarrow> contact_error + change_page) \<Rightarrow> unit adapter"
where
  "table_adapter books T = \<lparr>ad_books = (\<lambda>s. Some (Inr books, s)), ad_changes = (\<lambda>b cursor k s. (T (cb_remote b) cursor k, s)),
     ad_create = (\<lambda>b c s. (Inl transport_error, s)), ad_update = (\<lambda>b r v c s. (Inl transport_error, s)),
     ad_delete = (\<lambda>b r v s. (Inl transport_error, s)), ad_photo = (\<lambda>b r p s. (Inr None, s)),
     ad_update_photo = (\<lambda>b r v p s. (Inl transport_error, s))\<rparr>"

definition no_json :: "string \<Rightarrow> json option" where
  "no_json s = None"

definition db_after :: "((contact_error + sync_run) \<times> contact_db \<times> 's) option \<Rightarrow> contact_db" where
  "db_after y = (case y of Some (res, db, s) \<Rightarrow> db | None \<Rightarrow> sample_contact_db)"

definition run_of :: "((contact_error + sync_run) \<times> contact_db \<times> 's) option \<Rightarrow> sync_run option" where
  "run_of y = (case y of Some (Inr run, db, s) \<Rightarrow> Some run | _ \<Rightarrow> None)"

text \<open>First the cursor of the first book has expired and the second book cannot be reached; then both answer.\<close>

definition interrupted :: "unit adapter" where
  "interrupted = table_adapter [sample_book ''b1'', sample_book ''b2'']
     (\<lambda>b cursor k. if b = ''b1'' then (if cursor = Some ''c1'' then Inl (refused CursorExpired) else Inr (final_page [] ''n1''))
        else Inl (refused TransportError))"

definition recovered :: "unit adapter" where
  "recovered = table_adapter [sample_book ''b1'', sample_book ''b2''] (\<lambda>b cursor k. Inr (final_page [] ''n2''))"

text \<open>The first book reports a change of the contact; then its cursor expires and the contact is gone.\<close>

definition changed_once :: "unit adapter" where
  "changed_once = table_adapter [sample_book ''b1'', sample_book ''b2'']
     (\<lambda>b cursor k. Inr (final_page (if b = ''b1'' then [sample_remote ''v2''] else []) ''n1''))"

definition emptied :: "unit adapter" where
  "emptied = table_adapter [sample_book ''b1'', sample_book ''b2'']
     (\<lambda>b cursor k. if cursor = None then Inr (final_page [] ''n2'') else Inl (refused CursorExpired))"

text \<open>Both books, then only the first.\<close>

definition one_book_left :: "unit adapter" where
  "one_book_left = table_adapter [sample_book ''b1''] (\<lambda>b cursor k. Inr (final_page [] ''n2''))"

text \<open>A full listing of both books, with the contact.\<close>

definition listed_again :: "unit adapter" where
  "listed_again = table_adapter [sample_book ''b1'', sample_book ''b2'']
     (\<lambda>b cursor k. Inr (final_page (if b = ''b1'' then [sample_remote ''v2''] else []) ''n1''))"

text \<open>A provider that continues every listing.\<close>

definition endless :: "unit adapter" where
  "endless = table_adapter [sample_book ''b1''] (\<lambda>b cursor k. Inr (empty_page\<lparr>cp_continuation := Some ''more''\<rparr>))"

text \<open>A listing that breaks after its first page.\<close>

definition broken_off :: "unit adapter" where
  "broken_off = table_adapter [sample_book ''b1''] (\<lambda>b cursor k. if k = None
     then Inr (empty_page\<lparr>cp_upserts := [sample_remote ''v2''], cp_continuation := Some ''more''\<rparr>) else Inl (refused TransportError))"

definition sample_run :: sync_run where
  "sample_run = \<lparr>sn_mode = FullSync, sn_pages = 0, sn_upserts = 0, sn_tombstones = 0\<rparr>"

lemma sample_contact_db_ok: "tables_ok sample_contact_db"
  by (simp add: tables_ok_def books_ok_def contacts_ok_def groups_ok_def members_ok_def sample_contact_db_def stored_book_row_def
        stored_contact_row_def sample_source_def book_key_def has_source_def book_in_def owners_def)

lemma listed_again_provider: "contact_provider listed_again"
  by unfold_locales (auto simp: listed_again_def table_adapter_def final_page_def empty_page_def page_of_def sample_book_def
      sample_remote_def split: if_splits)

section \<open>Synchronisation\<close>

text \<open>C5: a full run leaves exactly what the provider described: absorbing the pages that it fetched, in
  order, gives every contact of the source, and every stored contact carries the data of the last page
  that named it, in the book that the page was of.  This holds when no contact carries the generation of
  the run beforehand.\<close>

theorem full_sync_mirrors_provider:
  assumes "contact_provider A" "sync_source_attempt rd now A src allow db s = Some (Inr run, db', s')"
    and "tables_ok db" "unused_generation db src" "sn_mode run = FullSync"
  shows "\<exists>r books s1 pages. find_source db src = Some r \<and> attempt_books rd A src db s = Some (books, s1)
    \<and> fetched_books A (zip books (map (\<lambda>_. None) books)) s1 pages s'
    \<and> exactly_mirrors db' src (so_generation r + 1) (fold absorb_page pages Map.empty)"
  using assms by (rule full_run_mirrors)

theorem full_sync_mirrors_provider_witness:
  "\<exists>db' r books s1 pages. sync_source_attempt no_json ''now'' listed_again ''s'' False sample_contact_db () =
       Some (Inr (count_page (final_page [] ''n1'') (count_page (final_page [sample_remote ''v2''] ''n1'') sample_run)), db', ())
    \<and> find_source sample_contact_db ''s'' = Some r
    \<and> attempt_books no_json listed_again ''s'' sample_contact_db () = Some (books, s1)
    \<and> fetched_books listed_again (zip books (map (\<lambda>_. None) books)) s1 pages ()
    \<and> exactly_mirrors db' ''s'' (so_generation r + 1) (fold absorb_page pages Map.empty)"
proof -
  define y where "y = sync_source_attempt no_json ''now'' listed_again ''s'' False sample_contact_db ()"
  let ?run = "count_page (final_page [] ''n1'') (count_page (final_page [sample_remote ''v2''] ''n1'') sample_run)"
  have y: "y = Some (Inr ?run, db_after y, ())"
    unfolding y_def by code_simp
  show ?thesis
    using full_sync_mirrors_provider [OF listed_again_provider y [unfolded y_def] sample_contact_db_ok] y [unfolded y_def]
    by (auto simp: unused_generation_def find_source_def sample_contact_db_def sample_source_def stored_contact_row_def
          count_page_def sample_run_def)
qed

text \<open>C6: synchronising a book succeeds exactly when the provider answers the listing with pages that can be
  applied one after the other, and then the result is that of applying them.\<close>

theorem book_run_is_its_listing:
  "sync_book A src b cursor gen k run db s = Some (Inr run', db', s') \<longleftrightarrow>
    (\<exists>pages. fetched A b cursor k s pages s' \<and> apply_pages src b gen pages db = Inr db' \<and> run' = fold count_page pages run)"
proof
  assume "sync_book A src b cursor gen k run db s = Some (Inr run', db', s')"
  from sync_book_pages [OF this]
  show "\<exists>pages. fetched A b cursor k s pages s' \<and> apply_pages src b gen pages db = Inr db' \<and> run' = fold count_page pages run"
    by (auto simp: pages_of_run_def)
next
  assume "\<exists>pages. fetched A b cursor k s pages s' \<and> apply_pages src b gen pages db = Inr db' \<and> run' = fold count_page pages run"
  then show "sync_book A src b cursor gen k run db s = Some (Inr run', db', s')"
    by (auto simp: sync_book_applies)
qed

lemma endless_page:
  assumes "find_source db src \<noteq> None"
  shows "\<exists>db'. apply_change_page src (sample_book ''b1'') gen (empty_page\<lparr>cp_continuation := Some ''more''\<rparr>) db = Inr db'
    \<and> find_source db' src \<noteq> None"
proof -
  obtain i db' where up: "upsert_book src (sample_book ''b1'') gen db = Inr (i, db')"
    using assms by (cases "find_book db src ''b1''") (auto simp: upsert_book_def sample_book_def)
  then have "apply_change_page src (sample_book ''b1'') gen (empty_page\<lparr>cp_continuation := Some ''more''\<rparr>) db = Inr db'"
    by (simp add: apply_change_page_def upsert_provider_groups_def sample_book_def empty_page_def save_book_cursor_def filter_some_def)
  moreover have "find_source db' src \<noteq> None"
    using assms upsert_book_frame(1) [OF up] by (simp add: find_source_def)
  ultimately show ?thesis by blast
qed

lemma endless_never_returns:
  assumes "find_source db src \<noteq> None"
  shows "sync_book endless src (sample_book ''b1'') cursor gen k run db s = None"
proof (rule ccontr)
  assume "\<not> ?thesis"
  then obtain y where y: "sync_book endless src (sample_book ''b1'') cursor gen k run db s = Some y" by blast
  have "endless = endless \<and> sample_book ''b1'' = sample_book ''b1'' \<and> find_source db src \<noteq> None \<longrightarrow> False"
  proof (rule sync_book.raw_induct [where P = "\<lambda>A src b cursor gen k run db s y.
      A = endless \<and> b = sample_book ''b1'' \<and> find_source db src \<noteq> None \<longrightarrow> False", OF _ y])
    fix loop and A :: "unit adapter" and src b cursor gen k run db s and y :: "(contact_error + sync_run) \<times> contact_db \<times> unit"
    assume IH: "\<And>A src b cursor gen k run db s y. loop A src b cursor gen k run db s = Some y
        \<Longrightarrow> A = endless \<and> b = sample_book ''b1'' \<and> find_source db src \<noteq> None \<longrightarrow> False"
      and step: "(case ad_changes A b cursor k s of
        (res, s') \<Rightarrow>
          (case res of
             Inl e \<Rightarrow> Some (Inl e, db, s')
           | Inr page \<Rightarrow>
               (if cp_continuation page = None \<and> cp_cursor page = None then Some (Inl missing_cursor, db, s')
                else case apply_change_page src b gen page db of
                  Inl e \<Rightarrow> Some (Inl repository_error, db, s')
                | Inr db' \<Rightarrow>
                    (if cp_continuation page = None then Some (Inr (count_page page run), db', s')
                     else loop A src b cursor gen (cp_continuation page) (count_page page run) db' s')))) = Some y"
    show "A = endless \<and> b = sample_book ''b1'' \<and> find_source db src \<noteq> None \<longrightarrow> False"
    proof
      assume a: "A = endless \<and> b = sample_book ''b1'' \<and> find_source db src \<noteq> None"
      let ?page = "empty_page\<lparr>cp_continuation := Some ''more''\<rparr>"
      obtain db' where db': "apply_change_page src b gen ?page db = Inr db'" "find_source db' src \<noteq> None"
        using endless_page [of db src gen] a by auto
      have "ad_changes A b cursor k s = (Inr ?page, s)"
        using a by (simp add: endless_def table_adapter_def)
      with step db'(1) have "loop A src b cursor gen (Some ''more'') (count_page ?page run) db' s = Some y"
        by simp
      from IH [OF this] a db'(2) show False by blast
    qed
  qed
  with assms show False by blast
qed

text \<open>The page loop of a book returns when the listing ends, that is when some page has no continuation
  or the provider fails; a provider that continues every listing keeps it running for ever.\<close>

theorem listing_that_ends_returns:
  "(listing_ends A b cursor k s \<longrightarrow> sync_book A src b cursor gen k run db s \<noteq> None)
    \<and> sync_book endless ''s'' (sample_book ''b1'') None 2 None sample_run sample_contact_db () = None"
proof (intro conjI impI)
  show "sync_book A src b cursor gen k run db s \<noteq> None" if "listing_ends A b cursor k s"
    using that by (rule sync_book_returns)
  have "find_source sample_contact_db ''s'' \<noteq> None"
    by (simp add: find_source_def sample_contact_db_def sample_source_def)
  then show "sync_book endless ''s'' (sample_book ''b1'') None 2 None sample_run sample_contact_db () = None"
    by (rule endless_never_returns)
qed

theorem listing_that_ends_returns_witness:
  "sync_book broken_off ''s'' (sample_book ''b1'') None 2 None sample_run sample_contact_db () \<noteq> None"
proof -
  have "listing_ends broken_off (sample_book ''b1'') None (Some ''more'') ()"
    by (rule listing_ends.failing) (simp add: broken_off_def table_adapter_def)
  moreover have "ad_changes broken_off (sample_book ''b1'') None None () =
      (Inr (empty_page\<lparr>cp_upserts := [sample_remote ''v2''], cp_continuation := Some ''more''\<rparr>), ())"
    by (simp add: broken_off_def table_adapter_def)
  ultimately have "listing_ends broken_off (sample_book ''b1'') None None ()"
    using listing_ends.continued by fastforce
  then show ?thesis by (rule listing_that_ends_returns [THEN conjunct1, THEN mp])
qed

text \<open>C9: a book whose listing fails keeps its cursor, and so do all other books: the pages that were applied
  before the failure are fetched again.\<close>

theorem failed_book_keeps_its_cursor:
  assumes "sync_book A src b cursor gen k run db s = Some (Inl e, db', s')" "tables_ok db"
  shows "book_cursor db' src' remote = book_cursor db src' remote"
  using assms by (rule failed_book_keeps_cursors)

theorem failed_book_keeps_its_cursor_witness:
  "\<exists>db'. sync_book broken_off ''s'' (sample_book ''b1'') None 2 None sample_run sample_contact_db () = Some (Inl (refused TransportError), db', ())
    \<and> find_contact db' ''s'' ''u'' \<noteq> find_contact sample_contact_db ''s'' ''u''
    \<and> book_cursor db' ''s'' ''b1'' = book_cursor sample_contact_db ''s'' ''b1''"
proof -
  let ?y = "sync_book broken_off ''s'' (sample_book ''b1'') None 2 None sample_run sample_contact_db ()"
  have y: "?y = Some (Inl (refused TransportError), db_after ?y, ())" "find_contact (db_after ?y) ''s'' ''u'' \<noteq> find_contact sample_contact_db ''s'' ''u''"
    by code_simp+
  then show ?thesis
    using failed_book_keeps_its_cursor [OF y(1) sample_contact_db_ok] by blast
qed

text \<open>An example: a full run that was needed because a cursor had expired, and that failed after the first
  book, has stored that book's new cursor; the next run is incremental and succeeds, and a contact that was
  deleted meanwhile stays.\<close>

theorem interrupted_full_sync_keeps_deleted_contact:
  "let y1 = sync_source_once no_json ''now'' interrupted ''s'' sample_contact_db ();
       y2 = sync_source_once no_json ''now'' recovered ''s'' (db_after y1) ()
   in run_of y1 = None \<and> map_option sn_mode (run_of y2) = Some IncrementalSync
      \<and> find_contact (db_after y2) ''s'' ''u'' = Some stored_contact_row"
  by code_simp

text \<open>An incremental run uses the next generation without storing it: a contact that it touched
  survives the next full run although the provider no longer has it, and a book that it touched survives
  later incremental runs although the provider no longer lists it.\<close>

theorem unstored_generation_keeps_removed_rows:
  "(let y1 = sync_source_once no_json ''now'' changed_once ''s'' sample_contact_db ();
        y2 = sync_source_once no_json ''now'' emptied ''s'' (db_after y1) ()
    in map_option sn_mode (run_of y1) = Some IncrementalSync \<and> map_option sn_mode (run_of y2) = Some FullSync
       \<and> find_contact (db_after y2) ''s'' ''u'' \<noteq> None)
   \<and> (let y1 = sync_source_once no_json ''now'' changed_once ''s'' sample_contact_db ();
          y2 = sync_source_once no_json ''now'' one_book_left ''s'' (db_after y1) ()
      in map_option sn_mode (run_of y2) = Some IncrementalSync \<and> find_book (db_after y2) ''s'' ''b2'' \<noteq> None)"
proof
  show "let y1 = sync_source_once no_json ''now'' changed_once ''s'' sample_contact_db ();
        y2 = sync_source_once no_json ''now'' emptied ''s'' (db_after y1) ()
    in map_option sn_mode (run_of y1) = Some IncrementalSync \<and> map_option sn_mode (run_of y2) = Some FullSync
       \<and> find_contact (db_after y2) ''s'' ''u'' \<noteq> None"
    by code_simp
next
  show "let y1 = sync_source_once no_json ''now'' changed_once ''s'' sample_contact_db ();
          y2 = sync_source_once no_json ''now'' one_book_left ''s'' (db_after y1) ()
      in map_option sn_mode (run_of y2) = Some IncrementalSync \<and> find_book (db_after y2) ''s'' ''b2'' \<noteq> None"
    by code_simp
qed

text \<open>C7: whatever a synchronisation does, the unique keys, the foreign keys and the agreement of a contact's
  book with its source hold afterwards; the same is true of a mutation through the provider.\<close>

theorem contact_tables_keep_their_keys:
  assumes "tables_ok db"
  shows "(sync_source_once rd now A src db s = Some (res, db', s') \<longrightarrow> tables_ok db')
    \<and> (create_remote_first rd now A src b c db s = Some (mres, db', s') \<longrightarrow> tables_ok db')
    \<and> (update_remote_first rd now A src b remote version c db s = Some (mres, db', s') \<longrightarrow> tables_ok db')
    \<and> (delete_remote_first rd now A src b remote version db s = Some (dres, db', s') \<longrightarrow> tables_ok db')"
proof (intro conjI impI)
  show "tables_ok db'" if "sync_source_once rd now A src db s = Some (res, db', s')"
    using sync_source_once_ok [OF that assms] .
  have upsert: "tables_ok db'" if "persist_upsert rd now A src b c answer db = Some (mres, db', s')" for answer
    using that assms
    by (auto simp: persist_upsert_def split: prod.splits sum.splits option.splits dest: persist_mutation_or_reconcile_ok)
  then show "tables_ok db'" if "create_remote_first rd now A src b c db s = Some (mres, db', s')"
    using that unfolding create_remote_first_def by blast
  show "tables_ok db'" if "update_remote_first rd now A src b remote version c db s = Some (mres, db', s')"
    using that upsert unfolding update_remote_first_def by blast
  show "tables_ok db'" if "delete_remote_first rd now A src b remote version db s = Some (dres, db', s')"
    using that assms
    by (auto simp: delete_remote_first_def split: prod.splits sum.splits dest: persist_mutation_or_reconcile_ok)
qed

theorem contact_tables_keep_their_keys_witness:
  "\<exists>res db'. sync_source_once no_json ''now'' changed_once ''s'' sample_contact_db () = Some (res, db', ())
    \<and> find_contact db' ''s'' ''u'' \<noteq> find_contact sample_contact_db ''s'' ''u'' \<and> tables_ok db'"
proof -
  let ?y = "sync_source_once no_json ''now'' changed_once ''s'' sample_contact_db ()"
  have y: "?y = Some (Inr (the (run_of ?y)), db_after ?y, ())" "find_contact (db_after ?y) ''s'' ''u'' \<noteq> find_contact sample_contact_db ''s'' ''u''"
    by code_simp+
  then show ?thesis
    using contact_tables_keep_their_keys [OF sample_contact_db_ok, THEN conjunct1, THEN mp, OF y(1)] by blast
qed

text \<open>C8: a synchronisation, successful or not, leaves the sources, books, contacts, groups and group
  memberships of every other source as they were.\<close>

theorem synchronisation_stays_in_its_source:
  assumes "sync_source_once rd now A src db s = Some (res, db', s')" "tables_ok db"
  shows "elsewhere src db' = elsewhere src db"
  using assms by (rule elsewhere_once)

definition two_sources_db :: contact_db where
  "two_sources_db = sample_contact_db\<lparr>kb_sources := [sample_source, sample_source\<lparr>so_id := ''t''\<rparr>],
     kb_contacts := [stored_contact_row, stored_contact_row\<lparr>kr_id := 0, kr_source := ''t'', kr_book := None\<rparr>],
     kb_groups := [\<lparr>gr_id = 1, gr_source = ''t'', gr_book = None, gr_name = ''friends'', gr_remote = Some ''g'', gr_generation = 1\<rparr>],
     kb_members := [(0, 1)]\<rparr>"

theorem synchronisation_stays_in_its_source_witness:
  "\<exists>run db'. sync_source_once no_json ''now'' changed_once ''s'' two_sources_db () = Some (Inr run, db', ())
    \<and> find_contact db' ''s'' ''u'' \<noteq> find_contact two_sources_db ''s'' ''u''
    \<and> elsewhere ''s'' db' = elsewhere ''s'' two_sources_db \<and> snd (elsewhere ''s'' db') = [(0, 1)]"
proof -
  let ?y = "sync_source_once no_json ''now'' changed_once ''s'' two_sources_db ()"
  have ok: "tables_ok two_sources_db"
    by (simp add: two_sources_db_def tables_ok_def books_ok_def contacts_ok_def groups_ok_def members_ok_def sample_contact_db_def
          stored_book_row_def stored_contact_row_def sample_source_def book_key_def contact_key_def group_key_def has_source_def
          book_in_def owners_def)
  have here: "snd (elsewhere ''s'' two_sources_db) = [(0, 1)]" by code_simp
  have y: "?y = Some (Inr (the (run_of ?y)), db_after ?y, ())" "find_contact (db_after ?y) ''s'' ''u'' \<noteq> find_contact two_sources_db ''s'' ''u''"
    by code_simp+
  then show ?thesis
    using synchronisation_stays_in_its_source [OF y(1) ok] here by metis
qed

section \<open>Tasks and sources at rest\<close>

definition sample_web :: "unit web" where
  "sample_web = \<lparr>wb_send = (\<lambda>meth url hs body s. (Inr \<lparr>rs_status = 503, rs_header = (\<lambda>_. None), rs_body = Inr ''busy''\<rparr>, s)),
     wb_of_json = no_json, wb_to_json = (\<lambda>_. []), wb_xml = (\<lambda>_. []), wb_join = (\<lambda>a b. None), wb_query = (\<lambda>u ps. u),
     wb_reason = (\<lambda>_. ''Service Unavailable''), wb_status_error = (\<lambda>_ _. []), wb_decode_error = (\<lambda>e. e), wb_base64 = (\<lambda>s. s),
     wb_cards = (\<lambda>_. None)\<rparr>"

definition sample_contact_env :: "unit contact_env" where
  "sample_contact_env = \<lparr>ke_tokens = \<lparr>tk_decrypt = Some, tk_encrypt = Some, tk_parse = (\<lambda>_. Some (JObj [])), tk_render = (\<lambda>_. []),
       tk_now = 0, tk_var = (\<lambda>_. None), tk_post = (\<lambda>_ _ r. (Inl ''down'', r))\<rparr>,
     ke_web = sample_web, ke_tls_web = (\<lambda>cert accept. Inr sample_web), ke_fresh = (\<lambda>_. ''fresh''), ke_decode = Some,
     ke_decode_bare = Some, ke_render_values = (\<lambda>_. []), ke_now = ''now''\<rparr>"

definition sample_app :: "string \<Rightarrow> contact_app" where
  "sample_app url = \<lparr>kx_mail = empty_db, kx_dav = [], kx_aliases = [],
     kx_db = sample_contact_db\<lparr>kb_sources := [sample_source\<lparr>so_base_url := Some url\<rparr>]\<rparr>, kx_manager = new_contact_manager,
     kx_blobs = (\<lambda>_. None), kx_events = []\<rparr>"

text \<open>C10: a source of its own that fails once as unavailable is not synchronised again by its task: the
  task stops, and whatever runs of it, requests for a synchronisation, restarts of the server and switches
  of the contacts of mailboxes follow, the provider is not called and the state stays.  The routes that
  change a contact of the source are not among these events: they call the provider whatever the state of
  the source, and synchronise it when the answer cannot be stored.\<close>

theorem unavailable_source_is_never_retried:
  assumes "sync_contact_account E src app s = Some (Inl e, app1, s1)" "pv_category e = Unavailable"
    and "tables_ok (kx_db app)" "independent src (kx_db app)" "(source_event E src)\<^sup>*\<^sup>* (app1, s1) (app2, s2)"
  shows "s2 = s1 \<and> stalled src app2"
proof -
  have "stalled src (fst (app1, s1))"
    using failed_account_sync_stalls [OF assms(1-4)] by simp
  with assms(5) have "stalled src (fst (app2, s2)) \<and> snd (app2, s2) = snd (app1, s1)"
  proof (induction rule: rtranclp_induct)
    case (step y z)
    then show ?case using stalled_event [OF step(2)] by simp
  qed simp
  then show ?thesis by simp
qed

theorem unavailable_source_is_never_retried_witness:
  "\<exists>e app1. sync_contact_account sample_contact_env ''s'' (sample_app ''https://dav.hostls.test/'') () = Some (Inl e, app1, ())
    \<and> pv_category e = Unavailable \<and> stalled ''s'' (snd (trigger_sync ''s'' app1))"
proof -
  define app where "app = sample_app ''https://dav.hostls.test/''"
  have fails: "case sync_contact_account sample_contact_env ''s'' app () of
      Some (res, app1, s1) \<Rightarrow> (case res of Inl e \<Rightarrow> pv_category e = Unavailable | Inr _ \<Rightarrow> False) | None \<Rightarrow> False"
    unfolding app_def by code_simp
  then obtain res app1 where res: "sync_contact_account sample_contact_env ''s'' app () = Some (res, app1, ())"
    by (auto split: option.splits)
  with fails obtain e where y: "sync_contact_account sample_contact_env ''s'' app () = Some (Inl e, app1, ())" "pv_category e = Unavailable"
    by (auto split: sum.splits)
  have "tables_ok (kx_db app)" "independent ''s'' (kx_db app)"
    by (simp_all add: app_def sample_app_def independent_def tables_ok_def books_ok_def contacts_ok_def groups_ok_def members_ok_def
          sample_contact_db_def stored_book_row_def stored_contact_row_def sample_source_def book_key_def contact_key_def
          has_source_def book_in_def owners_def)
  from unavailable_source_is_never_retried [OF y this r_into_rtranclp [of "source_event sample_contact_env ''s''", OF asked]] y
  show ?thesis unfolding app_def by blast
qed

end
