(* ===== verification/Card_Properties.thy ===== *)
theory Card_Properties
  imports Contact_Isolation Contact_Routes
begin

text \<open>Properties of contact cards, of their JSON forms and of the answers of a CardDAV server.\<close>

section \<open>Samples\<close>


definition busy_web :: "unit web" where
  "busy_web = \<lparr>wb_send = (\<lambda>meth url hs body s. (Inr \<lparr>rs_status = 503, rs_header = (\<lambda>_. None), rs_body = Inr ''busy''\<rparr>, s)),
     wb_of_json = (\<lambda>_. None), wb_to_json = (\<lambda>_. []), wb_xml = (\<lambda>_. []), wb_join = (\<lambda>a b. None), wb_query = (\<lambda>u ps. u),
     wb_reason = (\<lambda>_. ''Service Unavailable''), wb_status_error = (\<lambda>_ _. []), wb_decode_error = (\<lambda>e. e), wb_base64 = (\<lambda>s. s),
     wb_cards = (\<lambda>_. None)\<rparr>"

definition stored_card_row :: contact_row where
  "stored_card_row = \<lparr>kr_id = 3, kr_source = ''s'', kr_book = Some 1, kr_uid = ''/dav/a.vcf'',
     kr_contact = empty_contact\<lparr>pc_uid := ''1'', pc_display_name := Some ''Ann'', pc_raw_vcard := Some folded_card\<rparr>,
     kr_version = Some ''v1'', kr_metadata = JNull, kr_photo = None, kr_photo_blob = None, kr_photo_version = None,
     kr_photo_type = None, kr_generation = 1\<rparr>"

definition new_note :: contact_fields where
  "new_note = \<lparr>cf_display_name = None, cf_given_name = None, cf_family_name = None, cf_org = None, cf_title = None,
     cf_emails = None, cf_phones = None, cf_addresses = None, cf_notes = Some ''new''\<rparr>"

section \<open>Cards\<close>



text \<open>A contact that is written as a Google person reads back as it was, apart from the primary marks, the
  uid, the photo and the stored card.\<close>

theorem google_person_reads_back:
  "google_contact (to_google_contact c) = c\<lparr>pc_uid := [],
     pc_emails := map (\<lambda>v. v\<lparr>lv_primary := False\<rparr>) (pc_emails c), pc_phones := map (\<lambda>v. v\<lparr>lv_primary := False\<rparr>) (pc_phones c),
     pc_addresses := map (\<lambda>a. a\<lparr>pa_primary := False\<rparr>) (pc_addresses c), pc_photo := None, pc_raw_vcard := None\<rparr>"
  by (rule google_reads_back)

lemma graph_labels:
  "filter (\<lambda>p. lv_label p = Some ''work'') (graph_phones j field ''business'') = []"
  "filter (\<lambda>p. lv_label p = Some ''work'') (graph_phones j field ''home'') = []"
  "filter (\<lambda>p. lv_label p = Some ''home'') (graph_phones j field ''business'') = []"
  "filter (\<lambda>p. lv_label p = Some ''home'') (graph_phones j field ''home'') = graph_phones j field ''home''"
  by (auto simp: graph_phones_def plain_value_def filter_some_def filter_empty_conv filter_id_conv)

lemma home_values: "p \<in> set (graph_phones j field ''home'') \<Longrightarrow> plain_value (Some ''home'') (lv_value p) = p"
  by (auto simp: graph_phones_def plain_value_def filter_some_def)

text \<open>A contact of Microsoft Graph that is read and written back loses its business phones: they are read
  with the label business and written when the label is work.\<close>

theorem graph_edit_loses_business_phones:
  "pc_phones (graph_contact (to_graph_contact (graph_contact j))) = graph_phones j ''homePhones'' ''home''"
proof -
  have phones: "pc_phones (graph_contact j) = graph_phones j ''businessPhones'' ''business'' @ graph_phones j ''homePhones'' ''home''"
    by (simp add: graph_contact_def)
  show ?thesis
    unfolding graph_phones_read_back phones filter_append graph_labels by (simp add: map_idI home_values)
qed

text \<open>Editing the note of a contact that was read over CardDAV uploads a card whose UID is the address of
  the resource instead of the card's own, and whose note ends in the rest of the old folded note.\<close>

theorem card_edit_rewrites_uid:
  "carddav_vcard (updated_contact stored_card_row new_note) = join_with crlf
     [''BEGIN:VCARD'', ''VERSION:4.0'', ''UID:/dav/a.vcf'', ''FN:Ann'', ''N:;;;;'', ''NOTE:new'', '' remark'', ''END:VCARD'']
   \<and> pc_notes (parse_vcard_lines (carddav_vcard (updated_contact stored_card_row new_note))) = Some ''newremark''"
proof -
  let ?c = "updated_contact stored_card_row new_note"
  have c: "?c = empty_contact\<lparr>pc_uid := ''/dav/a.vcf'', pc_display_name := Some ''Ann'', pc_notes := Some ''new'',
      pc_raw_vcard := Some folded_card\<rparr>"
    by (simp add: updated_contact_def Let_def stored_card_row_def new_note_def empty_contact_def or_option_def)
  have raw: "pc_raw_vcard ?c = Some folded_card"
    by (simp add: c)
  have "vcard_lines ?c = [''BEGIN:VCARD'', ''VERSION:4.0'', ''UID:/dav/a.vcf'', ''FN:Ann'', ''N:;;;;'', ''NOTE:new'', ''END:VCARD'']"
    unfolding vcard_lines_def c by (simp add: empty_contact_def contact_uid_def shown_name_def or_option_def optional_line_def, code_simp)
  then have new: "lines_of (contact_to_vcard ?c)
      = [''BEGIN:VCARD'', ''VERSION:4.0'', ''UID:/dav/a.vcf'', ''FN:Ann'', ''N:;;;;'', ''NOTE:new'', ''END:VCARD'']"
    unfolding contact_to_vcard_def by (simp only:) code_simp
  have card: "carddav_vcard ?c = join_with crlf
     [''BEGIN:VCARD'', ''VERSION:4.0'', ''UID:/dav/a.vcf'', ''FN:Ann'', ''N:;;;;'', ''NOTE:new'', '' remark'', ''END:VCARD'']"
    unfolding carddav_vcard_def raw folded_lines option.case new by code_simp
  have joined: "lines_of (unfold (join_with crlf
     [''BEGIN:VCARD'', ''VERSION:4.0'', ''UID:/dav/a.vcf'', ''FN:Ann'', ''N:;;;;'', ''NOTE:new'', '' remark'', ''END:VCARD'']))
    = [[], ''BEGIN:VCARD'', ''VERSION:4.0'', ''UID:/dav/a.vcf'', ''FN:Ann'', ''N:;;;;'', ''NOTE:newremark'', ''END:VCARD'']"
    by code_simp
  have "escape_vcard_value ''newremark'' = ''newremark''" "value_ok ''newremark''" by code_simp+
  then have remark: "vcard_line ''NOTE:newremark'' d = d\<lparr>pc_notes := Some ''newremark''\<rparr>" for d
    using single_lines(9) [of "''newremark''" d] by simp
  have "pc_notes (parse_vcard_lines (carddav_vcard ?c)) = Some ''newremark''"
    unfolding card parse_vcard_lines_def joined by (simp only: fold_simps single_lines(4) remark) simp
  with card show ?thesis by blast
qed

section \<open>Answers of a CardDAV server\<close>

text \<open>Any failed request to an address with the letters tls in it is reported as a failed verification of
  the certificate of the server, whatever the answer was.\<close>

theorem server_error_is_taken_for_tls:
  assumes "wb_send W meth url [(''Depth'', depth), (''Content-Type'', content_type), apply_auth W auth] body s = (Inr r, s')"
    and "rs_body r = Inr answer" "\<not> is_success (rs_status r)" "rs_status r \<noteq> 207" "contains_str ''tls'' (to_lower url)"
  shows "\<exists>e. dav W meth url auth depth content_type body s = (Inl e, s')
    \<and> carddav_error e = provider_error Unavailable carddav_tls_verification_failed None"
proof -
  let ?e = "''CardDAV '' @ meth @ '' '' @ url @ '' -> '' @ wb_reason W (rs_status r) @ '': '' @ answer"
  have lower: "to_lower (a @ b) = to_lower a @ to_lower b" for a b by (simp add: to_lower_def)
  obtain a b where url: "to_lower url = a @ ''tls'' @ b"
    using assms(5) by (auto simp: contains_str_iff)
  have "to_lower ?e = (to_lower (''CardDAV '' @ meth @ '' '') @ a) @ ''tls'' @ (b @ to_lower ('' -> '' @ wb_reason W (rs_status r) @ '': '' @ answer))"
    using url by (simp only: lower append_assoc)
  then have "contains_str ''tls'' (to_lower ?e)"
    unfolding contains_str_iff by blast
  moreover have "dav W meth url auth depth content_type body s = (Inl ?e, s')"
    using assms by (simp add: dav_def)
  ultimately show ?thesis by (auto simp: carddav_error_def Let_def simp del: append_assoc)
qed

theorem server_error_is_taken_for_tls_witness:
  "\<exists>e. dav busy_web ''PROPFIND'' ''https://dav.hostls.test/'' (Bearer ''t'') ''0'' ''text/xml'' [] () = (Inl e, ())
    \<and> carddav_error e = provider_error Unavailable carddav_tls_verification_failed None"
proof -
  have "contains_str ''tls'' (to_lower ''https://dav.hostls.test/'')" by code_simp
  then show ?thesis
    by (intro server_error_is_taken_for_tls [where r = "\<lparr>rs_status = 503, rs_header = (\<lambda>_. None), rs_body = Inr ''busy''\<rparr>" and answer = "''busy''"])
       (simp_all add: busy_web_def is_success_def)
qed

end
