(* ===== verification/Gmail.thy ===== *)
theory Gmail
  imports Outlook_Flags
begin

text \<open>
  The Gmail backend (backend/mail-sync/src/provider/gmail.rs): every operation of the mail backend
  interface over REST requests and the uid map, with the resumable discovery of a label, and the
  interpretation of the interface.

  The configuration is \<open>'r gmail\<close>: the HTTP client, the account id, the \<open>mailparse\<close> functions, the
  rendering of a time stamp, the URL encoding, the two base64 decoders (with and without padding) and the
  encoder.  The requests for the messages of a set run eight at a time; \<open>gm_order\<close> is the order in which
  they complete.  A request with its retries is taken as one step.
\<close>

record 'r gmail =
  gm_http :: "'r http"
  gm_account :: string
  gm_headers :: "string \<Rightarrow> (string \<Rightarrow> string option) option"
  gm_parse_header :: "string \<Rightarrow> string option"
  gm_date :: "int \<Rightarrow> string"
  gm_quote :: "string \<Rightarrow> string"
  gm_decode :: "string \<Rightarrow> string option"
  gm_decode_bare :: "string \<Rightarrow> string + string"
  gm_encode :: "string \<Rightarrow> string"
  gm_order :: "(nat \<times> string) list \<Rightarrow> (nat \<times> string) list"

definition gmail_url :: string where
  "gmail_url = ''https://gmail.googleapis.com/gmail/v1/users/me''"

definition gmail_page_budget :: nat where
  "gmail_page_budget = 20"

section \<open>Discovery\<close>

text \<open>The unknown ids of a page; with the flag, only those before the first known one.\<close>

fun collect_page_ids :: "json list \<Rightarrow> string set \<Rightarrow> bool \<Rightarrow> string list \<Rightarrow> string list \<times> bool" where
  "collect_page_ids [] known stop acc = (acc, False)"
| "collect_page_ids (m # ms) known stop acc =
     (case as_str (jget m ''id'') of
        None \<Rightarrow> collect_page_ids ms known stop acc
      | Some i \<Rightarrow>
          (if i \<in> known then (if stop then (acc, True) else collect_page_ids ms known stop acc)
           else collect_page_ids ms known stop (acc @ [i])))"

definition label_page_url :: "'r gmail \<Rightarrow> string \<Rightarrow> string option \<Rightarrow> string" where
  "label_page_url G label next_page =
     gmail_url @ ''/messages?labelIds='' @ gm_quote G label @ ''&maxResults=500&fields=messages/id,nextPageToken''
     @ (case next_page of None \<Rightarrow> [] | Some t \<Rightarrow> ''&pageToken='' @ gm_quote G t)"

definition is_bad_request :: "provider_error \<Rightarrow> bool" where
  "is_bad_request e = (case e of Http status _ \<Rightarrow> status = 400 | _ \<Rightarrow> False)"

text \<open>
  The pages of a pass, from the budget, the next page, whether a stale cursor may be reset, and the ids so
  far.  The result is the ids, newest first, and the state to store.
\<close>

fun gmail_pages ::
  "'r gmail \<Rightarrow> string \<Rightarrow> string set \<Rightarrow> bool \<Rightarrow> nat \<Rightarrow> string option \<Rightarrow> bool \<Rightarrow> string list
   \<Rightarrow> ('r, string list \<times> string option \<times> bool) call"
where
  "gmail_pages G label known complete 0 next_page may_reset acc s =
     (Inr (acc, next_page, complete \<and> next_page = None), s)"
| "gmail_pages G label known complete (Suc n) next_page may_reset acc (db, r) =
     (case get_json (gm_http G) (label_page_url G label next_page) r of
        (Inl e, r') \<Rightarrow>
          (if is_bad_request e \<and> may_reset
           then gmail_pages G label known complete n None False acc
                  (set_backfill_state (gm_account G) label None False db, r')
           else (Inl e, db, r'))
      | (Inr res, r') \<Rightarrow>
          (case collect_page_ids (as_array (jget res ''messages'')) known complete acc of
             (acc', True) \<Rightarrow> (Inr (acc', None, complete), db, r')
           | (acc', False) \<Rightarrow>
               (case as_str (jget res ''nextPageToken'') of
                  Some t \<Rightarrow> gmail_pages G label known complete n (Some t) False acc' (db, r')
                | None \<Rightarrow> (Inr (acc', None, True), db, r'))))"

definition gmail_discover_new :: "'r gmail \<Rightarrow> string \<Rightarrow> ('r, string list \<times> string option \<times> bool) call" where
  "gmail_discover_new G label s =
     (case backfill_state (gm_account G) label (fst s) of
        Inl e \<Rightarrow> (Inl e, s)
      | Inr b \<Rightarrow>
          (let first = (if bf_complete b then None else bf_page_token b) in
           case gmail_pages G label (known_ids (gm_account G) label (fst s)) (bf_complete b) gmail_page_budget
                  first (\<not> bf_complete b \<and> first \<noteq> None) [] s of
             (Inl e, s') \<Rightarrow> (Inl e, s')
           | (Inr (ids, next_page, complete), s') \<Rightarrow> (Inr (rev ids, next_page, complete), s')))"

section \<open>Labels and messages\<close>

definition has_label :: "json \<Rightarrow> string \<Rightarrow> bool" where
  "has_label labels l = (\<exists>v \<in> set (as_array labels). as_str v = Some l)"

definition flags_from_labels :: "json \<Rightarrow> bool \<times> bool" where
  "flags_from_labels labels = (\<not> has_label labels ''UNREAD'', has_label labels ''STARRED'')"

fun is_quota_error :: "provider_error \<Rightarrow> bool" where
  "is_quota_error (Http status body) =
     (status = 429 \<or> (status = 403 \<and> contains_str ''quota exceeded'' (to_lower body)))"
| "is_quota_error _ = False"

definition internal_date_of :: "'r gmail \<Rightarrow> json \<Rightarrow> string" where
  "internal_date_of G v =
     gm_date G (case Option.bind (as_str (jget v ''internalDate'')) parse_i64 of None \<Rightarrow> 0 | Some n \<Rightarrow> n)"

definition fetched_metadata_from_value :: "'r gmail \<Rightarrow> nat \<Rightarrow> json \<Rightarrow> fetched_message" where
  "fetched_metadata_from_value G uid v =
     (case flags_from_labels (jget v ''labelIds'') of (seen, flagged) \<Rightarrow>
        fetched_from_raw (gm_headers G) (gm_parse_header G) uid
          (header_block_from_pairs (json_pairs (as_array (jget (jget v ''payload'') ''headers''))))
          (internal_date_of G v) seen flagged False)"

definition gmail_message_url :: "string \<Rightarrow> string \<Rightarrow> string" where
  "gmail_message_url remote sfx = gmail_url @ ''/messages/'' @ remote @ sfx"

definition metadata_query :: string where
  "metadata_query = ''?format=metadata&metadataHeaders=Subject&metadataHeaders=From&metadataHeaders=To'' @
     ''&metadataHeaders=Cc&metadataHeaders=Date&metadataHeaders=Message-ID&metadataHeaders=Message-Id'' @
     ''&metadataHeaders=In-Reply-To&metadataHeaders=References&metadataHeaders=List-Id'' @
     ''&fields=id,labelIds,internalDate,payload/headers''"

definition fetch_metadata_with_rest :: "'r gmail \<Rightarrow> nat \<Rightarrow> string \<Rightarrow> 'r \<Rightarrow> (provider_error + fetched_message) \<times> 'r" where
  "fetch_metadata_with_rest G uid remote r =
     (case get_json (gm_http G) (gmail_message_url remote metadata_query) r of
        (Inl e, r') \<Rightarrow> (Inl e, r')
      | (Inr v, r') \<Rightarrow> (Inr (fetched_metadata_from_value G uid v), r'))"

definition raw_message_from_value :: "'r gmail \<Rightarrow> json \<Rightarrow> provider_error + (string \<times> json)" where
  "raw_message_from_value G v =
     (let raw = or_empty (as_str (jget v ''raw'')) in
      case gm_decode G raw of
        Some bytes \<Rightarrow> Inr (bytes, v)
      | None \<Rightarrow> (case gm_decode_bare G raw of
                   Inr bytes \<Rightarrow> Inr (bytes, v)
                 | Inl e \<Rightarrow> Inl (Other (''gmail raw decode: '' @ e))))"

definition fetch_raw_message_with_rest :: "'r gmail \<Rightarrow> string \<Rightarrow> 'r \<Rightarrow> (provider_error + (string \<times> json)) \<times> 'r" where
  "fetch_raw_message_with_rest G remote r =
     (case get_json (gm_http G) (gmail_message_url remote ''?format=raw&fields=id,raw,labelIds,internalDate'') r of
        (Inl e, r') \<Rightarrow> (Inl e, r')
      | (Inr v, r') \<Rightarrow> (raw_message_from_value G v, r'))"

definition modify_labels :: "'r http \<Rightarrow> string \<Rightarrow> string list \<Rightarrow> string list \<Rightarrow> 'r \<Rightarrow> (provider_error + unit) \<times> 'r" where
  "modify_labels h remote add remove r =
     unit_result (post_json h (gmail_message_url remote ''/modify'')
       (JObj [(''addLabelIds'', JArr (map JStr add)), (''removeLabelIds'', JArr (map JStr remove))]) r)"

section \<open>Operations\<close>

text \<open>The type of a label; None for the labels that are no mailboxes.\<close>

definition gmail_folder_type :: "string \<Rightarrow> string \<Rightarrow> string option" where
  "gmail_folder_type i label_type =
     (if i = ''INBOX'' then Some ''INBOX''
      else if i = ''SENT'' then Some ''SENT''
      else if i = ''DRAFT'' then Some ''DRAFTS''
      else if i = ''SPAM'' then Some ''SPAM''
      else if i = ''TRASH'' then Some ''TRASH''
      else if i \<in> set [''UNREAD'', ''STARRED'', ''IMPORTANT'', ''CHAT''] then None
      else if starts_with ''CATEGORY_'' i then None
      else if label_type = ''user'' then Some ''CUSTOM''
      else None)"

fun gmail_folders :: "json list \<Rightarrow> folder_info list" where
  "gmail_folders [] = []"
| "gmail_folders (l # ls) =
     (let i = or_empty (as_str (jget l ''id''));
          kind = (case as_str (jget l ''type'') of None \<Rightarrow> ''user'' | Some t \<Rightarrow> t)
      in case gmail_folder_type i kind of
           None \<Rightarrow> gmail_folders ls
         | Some t \<Rightarrow> \<lparr>fi_name = or_empty (as_str (jget l ''name'')), fi_path = i, fi_type = t\<rparr> # gmail_folders ls)"

definition gm_list_folders :: "'r gmail \<Rightarrow> ('r, folder_info list) call" where
  "gm_list_folders G s =
     (case get_json (gm_http G) (gmail_url @ ''/labels?fields=labels(id,name,type)'') (snd s) of
        (Inl e, r') \<Rightarrow> (Inl e, fst s, r')
      | (Inr res, r') \<Rightarrow> (Inr (gmail_folders (as_array (jget res ''labels''))), fst s, r'))"

definition gm_folder_status :: "'r gmail \<Rightarrow> string \<Rightarrow> ('r, folder_status_info) call" where
  "gm_folder_status G folder s =
     (case get_json (gm_http G) (gmail_url @ ''/labels/'' @ gm_quote G folder @ ''?fields=messagesTotal'') (snd s) of
        (Inl e, r') \<Rightarrow> (Inl e, fst s, r')
      | (Inr res, r') \<Rightarrow>
          (Inr \<lparr>st_uidvalidity = 1,
                st_exists = cast_u32 (int (case as_u64 (jget res ''messagesTotal'') of Some n \<Rightarrow> n | None \<Rightarrow> 0))\<rparr>,
           fst s, r'))"

definition gm_highest_uid :: "'r gmail \<Rightarrow> string \<Rightarrow> ('r, nat option) call" where
  "gm_highest_uid G folder s =
     (case gmail_discover_new G folder s of
        (Inl e, s') \<Rightarrow> (Inl e, s')
      | (Inr (new_ids, next_page, complete), db, r') \<Rightarrow>
          (case (if new_ids = [] then (Inr (max_uid (gm_account G) folder db), db)
                 else assign (gm_account G) folder new_ids db) of
             (Inl e, db') \<Rightarrow> (Inl e, db', r')
           | (Inr m, db') \<Rightarrow>
               (Inr (if 0 < m then Some m else None),
                set_backfill_state (gm_account G) folder next_page complete db', r')))"

text \<open>The requests run first, all of them; their results are then taken in the order of completion.\<close>

fun gm_requests :: "((nat \<times> string) \<Rightarrow> 'r \<Rightarrow> 'a \<times> 'r) \<Rightarrow> (nat \<times> string) list \<Rightarrow> 'r \<Rightarrow> ((nat \<times> string) \<times> 'a) list \<times> 'r" where
  "gm_requests req [] r = ([], r)"
| "gm_requests req (x # xs) r =
     (case req x r of (res, r') \<Rightarrow> (case gm_requests req xs r' of (out, r'') \<Rightarrow> ((x, res) # out, r'')))"

definition flags_request :: "'r gmail \<Rightarrow> (nat \<times> string) \<Rightarrow> 'r \<Rightarrow> (provider_error + json) \<times> 'r" where
  "flags_request G x = get_json (gm_http G) (gmail_message_url (snd x) ''?format=minimal&fields=id,labelIds'')"

fun gm_flags_loop ::
  "'r gmail \<Rightarrow> string \<Rightarrow> ((nat \<times> string) \<times> (provider_error + json)) list \<Rightarrow> mail_db \<Rightarrow> (provider_error + (nat \<times> flags) list) \<times> mail_db"
where
  "gm_flags_loop G folder [] db = (Inr [], db)"
| "gm_flags_loop G folder (((uid, remote), Inr v) # xs) db =
     (case flags_from_labels (jget v ''labelIds'') of (seen, flagged) \<Rightarrow>
        (let gone = (\<not> has_label (jget v ''labelIds'') folder);
             db1 = (if gone then remove_uid (gm_account G) folder uid db else db)
         in case gm_flags_loop G folder xs db1 of
              (Inl e, db') \<Rightarrow> (Inl e, db')
            | (Inr out, db') \<Rightarrow> (Inr ((uid, seen, flagged, gone) # out), db')))"
| "gm_flags_loop G folder (((uid, remote), Inl e) # xs) db =
     (if \<not> is_quota_error e \<and> (case e of Http status _ \<Rightarrow> status = 404 | _ \<Rightarrow> False)
      then (case gm_flags_loop G folder xs (remove_uid (gm_account G) folder uid db) of
              (Inl e', db') \<Rightarrow> (Inl e', db')
            | (Inr out, db') \<Rightarrow> (Inr ((uid, False, False, True) # out), db'))
      else (Inl e, db))"

definition gm_fetch_flags :: "'r gmail \<Rightarrow> string \<Rightarrow> string \<Rightarrow> ('r, (nat \<times> flags) list) call" where
  "gm_fetch_flags G folder uids s =
     (case resolve_set (gm_account G) folder uids (fst s) of
        Inl e \<Rightarrow> (Inl e, s)
      | Inr xs \<Rightarrow>
          (case gm_requests (flags_request G) (gm_order G xs) (snd s) of (results, r') \<Rightarrow>
             (case gm_flags_loop G folder results (fst s) of (res, db') \<Rightarrow> (res, db', r'))))"

text \<open>The messages that were fetched; a quota error ends the call, any other failure skips the message.\<close>

fun gm_collect :: "((nat \<times> string) \<times> (provider_error + 'a)) list \<Rightarrow> provider_error + ((nat \<times> string) \<times> 'a) list" where
  "gm_collect [] = Inr []"
| "gm_collect ((x, Inr m) # xs) = (case gm_collect xs of Inl e \<Rightarrow> Inl e | Inr out \<Rightarrow> Inr ((x, m) # out))"
| "gm_collect ((x, Inl e) # xs) = (if is_quota_error e then Inl e else gm_collect xs)"

definition gm_fetch_headers :: "'r gmail \<Rightarrow> string \<Rightarrow> string \<Rightarrow> ('r, fetched_message list) call" where
  "gm_fetch_headers G folder uids s =
     (case resolve_set (gm_account G) folder uids (fst s) of
        Inl e \<Rightarrow> (Inl e, s)
      | Inr xs \<Rightarrow>
          (case gm_requests (\<lambda>(uid, remote). fetch_metadata_with_rest G uid remote) (gm_order G xs) (snd s) of (results, r') \<Rightarrow>
             (case gm_collect results of
                Inl e \<Rightarrow> (Inl e, fst s, r')
              | Inr out \<Rightarrow> (Inr (map snd out), fst s, r'))))"

definition gm_full_message :: "'r gmail \<Rightarrow> (nat \<times> string) \<times> (string \<times> json) \<Rightarrow> fetched_message" where
  "gm_full_message G x =
     (case x of ((uid, remote), (raw, v)) \<Rightarrow>
        (case flags_from_labels (jget v ''labelIds'') of (seen, flagged) \<Rightarrow>
           fetched_from_raw (gm_headers G) (gm_parse_header G) uid raw (internal_date_of G v) seen flagged True))"

definition gm_fetch_full :: "'r gmail \<Rightarrow> string \<Rightarrow> string \<Rightarrow> ('r, fetched_message list) call" where
  "gm_fetch_full G folder uids s =
     (case resolve_set (gm_account G) folder uids (fst s) of
        Inl e \<Rightarrow> (Inl e, s)
      | Inr xs \<Rightarrow>
          (case gm_requests (\<lambda>(uid, remote). fetch_raw_message_with_rest G remote) (gm_order G xs) (snd s) of (results, r') \<Rightarrow>
             (case gm_collect results of
                Inl e \<Rightarrow> (Inl e, fst s, r')
              | Inr out \<Rightarrow> (Inr (map (gm_full_message G) out), fst s, r'))))"

definition gm_with_remote ::
  "string \<Rightarrow> string \<Rightarrow> nat \<Rightarrow> (string \<Rightarrow> 'r \<Rightarrow> (provider_error + 'a) \<times> 'r) \<Rightarrow> ('r, 'a) call"
where
  "gm_with_remote acct folder uid k s =
     (case remote_id acct folder uid (fst s) of
        Inl e \<Rightarrow> (Inl e, s)
      | Inr remote \<Rightarrow> (case k remote (snd s) of (res, r') \<Rightarrow> (res, fst s, r')))"

definition gm_then_remove :: "string \<Rightarrow> string \<Rightarrow> nat \<Rightarrow> ('r, 'a) call \<Rightarrow> ('r, unit) call" where
  "gm_then_remove acct folder uid c s =
     (case c s of
        (Inl e, s') \<Rightarrow> (Inl e, s')
      | (Inr _, db', r') \<Rightarrow> (Inr (), remove_uid acct folder uid db', r'))"

definition gm_fetch_raw :: "'r gmail \<Rightarrow> string \<Rightarrow> nat \<Rightarrow> ('r, string) call" where
  "gm_fetch_raw G folder uid =
     gm_with_remote (gm_account G) folder uid (\<lambda>remote r.
       (case fetch_raw_message_with_rest G remote r of (Inl e, r') \<Rightarrow> (Inl e, r') | (Inr (raw, v), r') \<Rightarrow> (Inr raw, r')))"

definition gm_trash :: "'r http \<Rightarrow> string \<Rightarrow> 'r \<Rightarrow> (provider_error + unit) \<times> 'r" where
  "gm_trash h remote r = unit_result (post_json h (gmail_message_url remote ''/trash'') (JObj []) r)"

definition gm_set_flag :: "'r gmail \<Rightarrow> string \<Rightarrow> nat \<Rightarrow> string \<Rightarrow> bool \<Rightarrow> ('r, unit) call" where
  "gm_set_flag G folder uid flag v =
     (let ask = gm_with_remote (gm_account G) folder uid in
      if flag = ''seen'' then
        ask (\<lambda>remote. if v then modify_labels (gm_http G) remote [] [''UNREAD''] else modify_labels (gm_http G) remote [''UNREAD''] [])
      else if flag = ''flagged'' then
        ask (\<lambda>remote. if v then modify_labels (gm_http G) remote [''STARRED''] [] else modify_labels (gm_http G) remote [] [''STARRED''])
      else if flag = ''deleted'' then
        (if v then gm_then_remove (gm_account G) folder uid (ask (gm_trash (gm_http G)))
         else ask (\<lambda>remote r. unit_result (post_json (gm_http G) (gmail_message_url remote ''/untrash'') (JObj []) r)))
      else ask (\<lambda>remote r. (Inl (Other (''unknown flag: '' @ flag)), r)))"

definition gm_move_message :: "'r gmail \<Rightarrow> string \<Rightarrow> nat \<Rightarrow> string \<Rightarrow> ('r, unit) call" where
  "gm_move_message G src uid dest =
     gm_then_remove (gm_account G) src uid (gm_with_remote (gm_account G) src uid
       (if dest = ''TRASH'' then gm_trash (gm_http G) else (\<lambda>remote. modify_labels (gm_http G) remote [dest] [src])))"

definition gm_delete_permanently :: "'r gmail \<Rightarrow> string \<Rightarrow> nat \<Rightarrow> ('r, unit) call" where
  "gm_delete_permanently G folder uid =
     gm_then_remove (gm_account G) folder uid
       (gm_with_remote (gm_account G) folder uid (\<lambda>remote. rest_delete (gm_http G) (gmail_message_url remote [])))"

definition gm_append_sent :: "'r gmail \<Rightarrow> string \<Rightarrow> ('r, unit) call" where
  "gm_append_sent G raw s = (Inr (), s)"

definition gm_send_message :: "'r gmail \<Rightarrow> string \<Rightarrow> ('r, unit) call" where
  "gm_send_message G raw s =
     (case post_json (gm_http G) (gmail_url @ ''/messages/send'') (JObj [(''raw'', JStr (gm_encode G raw))]) (snd s) of
        (res, r') \<Rightarrow> (case unit_result (res, r') of (res', _) \<Rightarrow> (res', fst s, r')))"

definition gmail_backend :: "'r gmail \<Rightarrow> 'r backend" where
  "gmail_backend G = \<lparr>
     list_folders = gm_list_folders G,
     folder_status = gm_folder_status G,
     highest_uid = gm_highest_uid G,
     fetch_flags = gm_fetch_flags G,
     fetch_headers = gm_fetch_headers G,
     fetch_full = gm_fetch_full G,
     fetch_raw = gm_fetch_raw G,
     set_flag = gm_set_flag G,
     move_message = gm_move_message G,
     delete_permanently = gm_delete_permanently G\<rparr>"

section \<open>The interface holds\<close>

lemma set_backfill_frame: "backend_frame db (set_backfill_state acct path next_page complete db)"
  by (simp add: backend_frame_def set_backfill_state_def core_folder_def)

lemma gmail_pages_frame:
  "gmail_pages G label known complete n next_page may_reset acc (db, r) = (res, db', r') \<Longrightarrow> backend_frame db db'"
proof (induction n arbitrary: next_page may_reset acc db r)
  case (Suc n)
  obtain ans r1 where ans: "get_json (gm_http G) (label_page_url G label next_page) r = (ans, r1)" by fastforce
  show ?case
  proof (cases ans)
    case (Inl e)
    then show ?thesis
      using Suc.prems ans Suc.IH backend_frame_trans [OF set_backfill_frame] by (fastforce split: if_splits)
  next
    case (Inr v)
    then show ?thesis
      using Suc.prems ans Suc.IH by (fastforce split: prod.splits bool.splits option.splits)
  qed
qed simp

lemma gmail_discover_frame: "gmail_discover_new G label (db, r) = (res, db', r') \<Longrightarrow> backend_frame db db'"
  by (auto simp: gmail_discover_new_def Let_def split: sum.splits prod.splits dest: gmail_pages_frame)

lemma gm_highest_frame: "keeps_frame (gm_highest_uid G folder)"
proof (rule keeps_frameI)
  fix db p r db' p'
  assume call: "gm_highest_uid G folder (db, p) = (r, db', p')"
  obtain res db1 p1 where d: "gmail_discover_new G folder (db, p) = (res, db1, p1)" by (metis prod_cases3)
  note frame = gmail_discover_frame [OF d]
  show "backend_frame db db'"
  proof (cases res)
    case (Inl e)
    with call d frame show ?thesis by (simp add: gm_highest_uid_def)
  next
    case (Inr x)
    obtain ids next_page complete where x: "x = (ids, next_page, complete)" by (metis prod_cases3)
    obtain m db2 where a: "(if ids = [] then (Inr (max_uid (gm_account G) folder db1), db1)
        else assign (gm_account G) folder ids db1) = (m, db2)" by fastforce
    then have "backend_frame db1 db2" by (auto split: if_splits dest: assign_frame)
    moreover have "backend_frame db2 db'"
      using call d Inr x a set_backfill_frame by (auto simp: gm_highest_uid_def split: sum.splits)
    ultimately show ?thesis using frame backend_frame_trans by blast
  qed
qed

lemma gm_flags_loop_frame: "backend_frame db (snd (gm_flags_loop G folder xs db))"
proof (induction G folder xs db rule: gm_flags_loop.induct)
  case (2 G folder uid remote v xs db)
  obtain seen flagged where f: "flags_from_labels (jget v ''labelIds'') = (seen, flagged)" by fastforce
  define db1 where "db1 = (if has_label (jget v ''labelIds'') folder then db else remove_uid (gm_account G) folder uid db)"
  have "backend_frame db db1" by (simp add: db1_def remove_uid_frame)
  moreover have "backend_frame db1 (snd (gm_flags_loop G folder xs db1))"
    using "2.IH" [OF f [symmetric] refl refl] by (cases "has_label (jget v ''labelIds'') folder") (simp_all add: db1_def)
  ultimately have "backend_frame db (snd (gm_flags_loop G folder xs db1))" by (rule backend_frame_trans)
  then have "backend_frame db (snd (gm_flags_loop G folder (((uid, remote), Inr v) # xs) db))"
    if "gm_flags_loop G folder xs db1 = (res, db')" for res db'
    using that f by (cases "has_label (jget v ''labelIds'') folder"; cases res) (simp_all add: Let_def db1_def)
  then show ?case by (metis surj_pair)
next
  case (3 G folder uid remote e xs db)
  let ?db = "remove_uid (gm_account G) folder uid db"
  show ?case
  proof (cases "\<not> is_quota_error e \<and> (case e of Http status _ \<Rightarrow> status = 404 | _ \<Rightarrow> False)")
    case True
    have "backend_frame db (snd (gm_flags_loop G folder xs ?db))"
      using backend_frame_trans [OF remove_uid_frame "3.IH" [OF True]] .
    with True show ?thesis
      by (cases "gm_flags_loop G folder xs ?db"; cases "fst (gm_flags_loop G folder xs ?db)") simp_all
  next
    case False
    then show ?thesis unfolding gm_flags_loop.simps by (simp only: if_False snd_conv backend_frame_refl)
  qed
qed simp

lemma gm_with_remote_frame: "keeps_frame (gm_with_remote acct folder uid k)"
  by (rule keeps_frame_same_db) (auto simp: gm_with_remote_def split: sum.splits prod.splits)

lemma gm_then_remove_frame:
  assumes "keeps_frame c"
  shows "keeps_frame (gm_then_remove acct folder uid c)"
proof (rule keeps_frameI)
  fix db p r db' p'
  assume call: "gm_then_remove acct folder uid c (db, p) = (r, db', p')"
  obtain res db1 p1 where c: "c (db, p) = (res, db1, p1)" by (metis prod_cases3)
  have "backend_frame db db1" using assms c by (rule keeps_frameD)
  moreover have "backend_frame db1 db'"
    using call c remove_uid_frame by (auto simp: gm_then_remove_def split: sum.splits)
  ultimately show "backend_frame db db'" by (rule backend_frame_trans)
qed

lemma gm_fetch_flags_frame: "keeps_frame (gm_fetch_flags G path uids)"
proof (rule keeps_frameI)
  fix db p r db' p'
  assume call: "gm_fetch_flags G path uids (db, p) = (r, db', p')"
  show "backend_frame db db'"
  proof (cases "resolve_set (gm_account G) path uids db")
    case (Inl e)
    with call show ?thesis by (simp add: gm_fetch_flags_def)
  next
    case (Inr xs)
    obtain results p1 where "gm_requests (flags_request G) (gm_order G xs) p = (results, p1)" by fastforce
    with call Inr have "db' = snd (gm_flags_loop G path results db)"
      by (simp add: gm_fetch_flags_def split: prod.splits)
    then show ?thesis by (simp add: gm_flags_loop_frame)
  qed
qed

lemma mail_backend_gmail: "mail_backend (gmail_backend G)"
proof
  show "keeps_frame (list_folders (gmail_backend G))"
    by (rule keeps_frame_same_db) (auto simp: gmail_backend_def gm_list_folders_def split: prod.splits sum.splits)
  show "keeps_frame (folder_status (gmail_backend G) path)" for path
    by (rule keeps_frame_same_db) (auto simp: gmail_backend_def gm_folder_status_def split: prod.splits sum.splits)
  show "keeps_frame (highest_uid (gmail_backend G) path)" for path
    by (simp add: gmail_backend_def gm_highest_frame)
  show "keeps_frame (fetch_flags (gmail_backend G) path uids)" for path uids
    by (simp add: gmail_backend_def gm_fetch_flags_frame)
  show "keeps_frame (fetch_headers (gmail_backend G) path uids)" for path uids
    by (rule keeps_frame_same_db) (auto simp: gmail_backend_def gm_fetch_headers_def split: prod.splits sum.splits)
  show "keeps_frame (fetch_full (gmail_backend G) path uids)" for path uids
    by (rule keeps_frame_same_db) (auto simp: gmail_backend_def gm_fetch_full_def split: prod.splits sum.splits)
  show "keeps_frame (fetch_raw (gmail_backend G) path uid)" for path uid
    by (simp add: gmail_backend_def gm_fetch_raw_def gm_with_remote_frame)
  show "keeps_frame (set_flag (gmail_backend G) path uid flag v)" for path uid flag v
    by (simp add: gmail_backend_def gm_set_flag_def Let_def gm_with_remote_frame gm_then_remove_frame)
  show "keeps_frame (move_message (gmail_backend G) path uid dest)" for path uid dest
    by (simp add: gmail_backend_def gm_move_message_def gm_with_remote_frame gm_then_remove_frame)
  show "keeps_frame (delete_permanently (gmail_backend G) path uid)" for path uid
    by (simp add: gmail_backend_def gm_delete_permanently_def gm_with_remote_frame gm_then_remove_frame)
qed

interpretation gm: mail_backend "gmail_backend G" for G
  by (rule mail_backend_gmail)

end
