(* ===== verification/Gmail_Facts.thy ===== *)
theory Gmail_Facts
  imports Gmail
begin

text \<open>
  The resumable discovery of a Gmail label: passes of at most twenty pages over a label that the server
  lists page by page find every message of it.  The scan of a label that was found completely stops at
  the first message it knows.
\<close>

section \<open>Assignment within the uid space\<close>

lemma assign_chunks_succeeds:
  assumes "uid + length (concat cs) \<le> u32_max" "\<forall>c \<in> set cs. c \<noteq> []"
  shows "\<exists>db'. assign_chunks acct path uid cs db = (Inr (), db')"
  using assms
proof (induction cs arbitrary: uid db)
  case (Cons c cs)
  have "uid + length c + length (concat cs) \<le> u32_max" "1 \<le> length c" using Cons.prems by (auto simp: Suc_le_eq)
  with Cons.IH [of "uid + length c"] Cons.prems(2) show ?case by (simp add: checked_add_u32_def)
qed simp

lemma assign_chunks_below:
  assumes "uids_below acct path (uid + 1) db" "assign_chunks acct path uid cs db = (Inr (), db')"
  shows "uids_below acct path (uid + length (concat cs) + 1) db'"
  using assms
proof (induction cs arbitrary: uid db)
  case (Cons c cs)
  have rec: "assign_chunks acct path (uid + length c) cs (insert_chunk acct path (uid + 1) c db) = (Inr (), db')"
    using Cons.prems(2) by (auto simp: checked_add_u32_def split: if_splits option.splits)
  have "uids_below acct path (uid + length c + 1) (insert_chunk acct path (uid + 1) c db)"
    using insert_chunk_maps [OF Cons.prems(1), of c] by (simp add: ac_simps)
  from Cons.IH [OF this rec] show ?case by (simp add: ac_simps)
qed simp

lemma insert_chunk_rows:
  "q \<in> set (remotes (insert_chunk acct path n xs db)) \<Longrightarrow> q \<in> set (remotes db) \<or> (\<exists>k < length xs. r_uid q = int (n + k))"
proof (induction acct path n xs db rule: insert_chunk.induct)
  case (2 acct path uid x xs db)
  then consider "q \<in> set (remotes db)" | "r_uid q = int uid" | k where "k < length xs" "r_uid q = int (uid + 1 + k)"
    by (auto simp: insert_or_ignore_def split: if_splits)
  then show ?case
  proof cases
    case 2
    then show ?thesis by (auto intro: exI [of _ 0])
  next
    case 3
    then show ?thesis by (auto intro: exI [of _ "Suc k"])
  qed simp
qed simp

lemma assign_chunks_u32:
  assumes "uids_u32 db" "assign_chunks acct path uid cs db = (Inr (), db')"
  shows "uids_u32 db'"
  using assms
proof (induction cs arbitrary: uid db)
  case (Cons c cs)
  have rec: "assign_chunks acct path (uid + length c) cs (insert_chunk acct path (uid + 1) c db) = (Inr (), db')"
    and bound: "uid + length c \<le> u32_max"
    using Cons.prems(2) by (auto simp: checked_add_u32_def split: if_splits option.splits)
  have "uids_u32 (insert_chunk acct path (uid + 1) c db)"
    unfolding uids_u32_def
  proof
    fix q assume "q \<in> set (remotes (insert_chunk acct path (uid + 1) c db))"
    from insert_chunk_rows [OF this] show "0 \<le> r_uid q \<and> r_uid q \<le> int u32_max"
      using Cons.prems(1) bound by (auto simp: uids_u32_def)
  qed
  from Cons.IH [OF this rec] show ?case .
qed simp

lemma max_uid_below:
  assumes "uids_below acct path (n + 1) db" "uids_u32 db"
  shows "max_uid acct path db \<le> n"
proof (cases "0 < max_uid acct path db")
  case True
  moreover have "\<forall>q \<in> set (map_rows acct path db). r_uid q \<le> int u32_max"
    using assms(2) by (auto simp: uids_u32_def map_rows_def)
  ultimately obtain q where "q \<in> set (map_rows acct path db)" "r_uid q = int (max_uid acct path db)"
    using max_uid_attained by blast
  with assms(1) show ?thesis by (fastforce simp: uids_below_def)
qed simp

lemma assign_within_space:
  assumes "uids_u32 db" "max_uid acct path db + length ids \<le> u32_max"
  shows "\<exists>m db'. assign acct path ids db = (Inr m, db') \<and> uids_u32 db'
    \<and> max_uid acct path db' \<le> max_uid acct path db + length ids \<and> m = max_uid acct path db'
    \<and> set ids \<subseteq> known_ids acct path db' \<and> known_ids acct path db \<subseteq> known_ids acct path db'"
proof -
  let ?cs = "chunks assign_batch_size (dedup ids)"
  have cs: "concat ?cs = dedup ids" "\<forall>c \<in> set ?cs. c \<noteq> []"
    using concat_chunks [of assign_batch_size] length_in_chunks [of assign_batch_size] by (auto simp: assign_batch_size_def)
  have len: "length (dedup ids) \<le> length ids" by (simp add: dedup_def length_dedup_seen)
  then obtain db' where run: "assign_chunks acct path (max_uid acct path db) ?cs db = (Inr (), db')"
    using assign_chunks_succeeds [of "max_uid acct path db" ?cs] cs assms(2) by force
  have a: "assign acct path ids db = (Inr (max_uid acct path db'), db')"
    by (simp add: assign_def run)
  have u32: "uids_u32 db'" by (rule assign_chunks_u32 [OF assms(1) run])
  have "uids_below acct path (max_uid acct path db + length (dedup ids) + 1) db'"
    using assign_chunks_below [OF uids_below_max [OF assms(1)] run] cs(1) by simp
  then have "max_uid acct path db' \<le> max_uid acct path db + length ids"
    using max_uid_below [OF _ u32] len by fastforce
  with a u32 show ?thesis
    using assign_maps [OF assms(1) a] known_ids_mono by blast
qed

section \<open>A label listed page by page\<close>

text \<open>The answer for page \<open>i\<close> of a listing, with the token of the next page when there is one.\<close>

definition token_at :: "string list list \<Rightarrow> (nat \<Rightarrow> string) \<Rightarrow> nat \<Rightarrow> string option" where
  "token_at pages tok i = (if i = 0 \<or> length pages \<le> i then None else Some (tok i))"

definition page_answer :: "string list list \<Rightarrow> (nat \<Rightarrow> string) \<Rightarrow> nat \<Rightarrow> json" where
  "page_answer pages tok i =
     JObj ((''messages'', JArr (map (\<lambda>x. JObj [(''id'', JStr x)]) (pages ! i)))
       # (case token_at pages tok (i + 1) of None \<Rightarrow> [] | Some t \<Rightarrow> [(''nextPageToken'', JStr t)]))"

definition serves :: "'r gmail \<Rightarrow> string \<Rightarrow> string list list \<Rightarrow> (nat \<Rightarrow> string) \<Rightarrow> 'r \<Rightarrow> bool" where
  "serves G label pages tok r =
     (\<forall>i < length pages. get_json (gm_http G) (label_page_url G label (token_at pages tok i)) r = (Inr (page_answer pages tok i), r))"

lemma collect_page:
  "collect_page_ids (map (\<lambda>x. JObj [(''id'', JStr x)]) xs) known False acc = (acc @ filter (\<lambda>x. x \<notin> known) xs, False)"
  by (induction xs arbitrary: acc) simp_all

lemma pages_pass:
  assumes "serves G label pages tok r" "i < length pages"
  shows "gmail_pages G label known False n (token_at pages tok i) may_reset acc (db, r) =
    (Inr (acc @ filter (\<lambda>x. x \<notin> known) (concat (take n (drop i pages))),
       token_at pages tok (i + n), length pages \<le> i + n), db, r)"
  using assms(2)
proof (induction n arbitrary: i acc may_reset)
  case 0
  then show ?case by simp
next
  case (Suc n)
  have page: "get_json (gm_http G) (label_page_url G label (token_at pages tok i)) r = (Inr (page_answer pages tok i), r)"
    using assms(1) Suc.prems by (simp add: serves_def)
  have pages: "take (Suc n) (drop i pages) = (pages ! i) # take n (drop (Suc i) pages)"
    using Suc.prems by (simp add: Cons_nth_drop_Suc [symmetric])
  have messages: "as_array (jget (page_answer pages tok i) ''messages'') = map (\<lambda>x. JObj [(''id'', JStr x)]) (pages ! i)"
    by (simp add: page_answer_def)
  show ?case
  proof (cases "Suc i < length pages")
    case True
    then have "as_str (jget (page_answer pages tok i) ''nextPageToken'') = Some (tok (Suc i))"
      "token_at pages tok (Suc i) = Some (tok (Suc i))"
      by (simp_all add: page_answer_def token_at_def)
    then show ?thesis
      using Suc.IH [OF True, of False "acc @ filter (\<lambda>x. x \<notin> known) (pages ! i)"]
      by (simp add: page pages messages collect_page)
  next
    case False
    then have "as_str (jget (page_answer pages tok i) ''nextPageToken'') = None" "drop (Suc i) pages = []"
      "length pages \<le> i + Suc n" "token_at pages tok (i + Suc n) = None"
      by (simp_all add: page_answer_def token_at_def)
    then show ?thesis by (simp add: page pages messages collect_page)
  qed
qed

text \<open>How far the passes have come: the pages before \<open>i\<close> are mapped, and the stored state points to page \<open>i\<close>.\<close>

definition backfilled :: "'r gmail \<Rightarrow> string \<Rightarrow> string list list \<Rightarrow> (nat \<Rightarrow> string) \<Rightarrow> nat \<Rightarrow> mail_db \<Rightarrow> bool" where
  "backfilled G label pages tok i db =
     (backfill_state (gm_account G) label db = Inr \<lparr>bf_page_token = token_at pages tok i, bf_complete = (length pages \<le> i)\<rparr>
      \<and> set (concat (take i pages)) \<subseteq> known_ids (gm_account G) label db \<and> uids_u32 db
      \<and> max_uid (gm_account G) label db + length (concat (drop i pages)) \<le> u32_max)"

lemma known_set_backfill [simp]:
  "known_ids acct path (set_backfill_state acct' path' t c db) = known_ids acct path db"
  "uids_u32 (set_backfill_state acct' path' t c db) = uids_u32 db"
  "max_uid acct path (set_backfill_state acct' path' t c db) = max_uid acct path db"
  by (simp_all add: known_ids_def uids_u32_def max_uid_def map_rows_def set_backfill_state_def)

lemma find_map_keep:
  "(\<And>x. P (f x) = P x) \<Longrightarrow> find P (map f xs) = map_option f (find P xs)"
  by (induction xs) simp_all

lemma backfill_state_set:
  assumes "folder_at db acct path \<noteq> None"
  shows "backfill_state acct path (set_backfill_state acct path t c db) = Inr \<lparr>bf_page_token = t, bf_complete = c\<rparr>"
proof -
  let ?f = "\<lambda>f. if f_account f = acct \<and> f_path f = path then f\<lparr>f_page_token := t, f_backfill_complete := c\<rparr> else f"
  have "folder_at (set_backfill_state acct path t c db) acct path = map_option ?f (folder_at db acct path)"
    unfolding folder_at_def set_backfill_state_def by (simp add: find_map_keep)
  moreover obtain f where "folder_at db acct path = Some f" "f_account f = acct" "f_path f = path"
    using assms by (auto simp: folder_at_def find_Some_iff)
  ultimately show ?thesis by (simp add: backfill_state_def)
qed

lemma folder_at_frame:
  assumes "backend_frame db db'"
  shows "(folder_at db' acct path = None) = (folder_at db acct path = None)"
proof -
  have "map_option core_folder (folder_at db' acct path) = map_option core_folder (folder_at db acct path)"
    unfolding folder_at_def using assms by (intro core_folder_lookup) (simp_all add: backend_frame_def)
  then show ?thesis by (metis option.map_disc_iff)
qed

lemma backfill_pass:
  assumes serve: "serves G label pages tok r" and i: "i < length pages" and inv: "backfilled G label pages tok i db"
  shows "\<exists>m db'. gm_highest_uid G label (db, r) = (Inr m, db', r)
    \<and> backfilled G label pages tok (min (i + gmail_page_budget) (length pages)) db'"
proof -
  let ?acct = "gm_account G" and ?j = "min (i + gmail_page_budget) (length pages)"
  let ?known = "known_ids ?acct label db"
  let ?new = "filter (\<lambda>x. x \<notin> ?known) (concat (take gmail_page_budget (drop i pages)))"
  have state: "backfill_state ?acct label db = Inr \<lparr>bf_page_token = token_at pages tok i, bf_complete = False\<rparr>"
    using inv i by (simp add: backfilled_def)
  then have folder: "folder_at db ?acct label \<noteq> None" by (auto simp: backfill_state_def split: option.splits)
  have tok: "token_at pages tok (i + gmail_page_budget) = token_at pages tok ?j"
    by (auto simp: token_at_def min_def)
  have discover: "gmail_discover_new G label (db, r) = (Inr (rev ?new, token_at pages tok ?j, length pages \<le> ?j), db, r)"
    by (simp add: gmail_discover_new_def state Let_def pages_pass [OF serve i] tok)
  have split: "take i pages @ take gmail_page_budget (drop i pages) = take ?j pages"
    by (simp add: min_def take_add)
  have parts: "concat (drop i pages) = concat (take gmail_page_budget (drop i pages)) @ concat (drop ?j pages)"
  proof -
    have "drop ?j pages = drop gmail_page_budget (drop i pages)" by (auto simp: min_def add.commute)
    then show ?thesis by (metis append_take_drop_id concat_append)
  qed
  have fits: "max_uid ?acct label db + length ?new + length (concat (drop ?j pages)) \<le> u32_max"
    using inv length_filter_le [of "\<lambda>x. x \<notin> ?known" "concat (take gmail_page_budget (drop i pages))"]
    unfolding backfilled_def parts length_append by linarith
  obtain m db1 where a: "(if rev ?new = [] then (Inr (max_uid ?acct label db), db) else assign ?acct label (rev ?new) db) = (Inr m, db1)"
      "uids_u32 db1" "max_uid ?acct label db1 \<le> max_uid ?acct label db + length ?new" "set ?new \<subseteq> known_ids ?acct label db1"
      "?known \<subseteq> known_ids ?acct label db1"
  proof (cases "?new = []")
    case True
    with that [of "max_uid ?acct label db" db] inv show ?thesis by (simp add: backfilled_def)
  next
    case False
    have space: "max_uid ?acct label db + length (rev ?new) \<le> u32_max" using fits unfolding length_rev by linarith
    have u32: "uids_u32 db" using inv by (simp add: backfilled_def)
    from assign_within_space [OF u32 space] False that show ?thesis by auto
  qed
  have folder1: "folder_at db1 ?acct label \<noteq> None"
  proof -
    have "backend_frame db db1" using a(1) by (auto split: if_splits dest: assign_frame)
    then show ?thesis using folder folder_at_frame [of db db1] by simp
  qed
  have "set (concat (take ?j pages)) \<subseteq> known_ids ?acct label db1"
  proof -
    have "set (concat (take gmail_page_budget (drop i pages))) \<subseteq> set ?new \<union> ?known" by auto
    moreover have "set (concat (take i pages)) \<subseteq> ?known" using inv by (simp add: backfilled_def)
    ultimately show ?thesis
      unfolding split [symmetric] concat_append set_append using a(4,5) by blast
  qed
  moreover have "max_uid ?acct label db1 + length (concat (drop ?j pages)) \<le> u32_max"
    using a(3) fits by linarith
  ultimately have "backfilled G label pages tok ?j (set_backfill_state ?acct label (token_at pages tok ?j) (length pages \<le> ?j) db1)"
    using a(2) by (simp add: backfilled_def backfill_state_set [OF folder1])
  moreover have "gm_highest_uid G label (db, r) = (Inr (if 0 < m then Some m else None),
      set_backfill_state ?acct label (token_at pages tok ?j) (length pages \<le> ?j) db1, r)"
    unfolding gm_highest_uid_def discover using a(1) by simp
  ultimately show ?thesis by blast
qed

text \<open>A number of synchronisations of the label, each asking for the highest uid.\<close>

fun highest_passes :: "nat \<Rightarrow> 'r gmail \<Rightarrow> string \<Rightarrow> mail_db \<times> 'r \<Rightarrow> mail_db \<times> 'r" where
  "highest_passes 0 G label s = s"
| "highest_passes (Suc n) G label s = snd (gm_highest_uid G label (highest_passes n G label s))"

lemma backfill_passes:
  assumes "serves G label pages tok r" "backfilled G label pages tok 0 db" "n * gmail_page_budget < length pages + gmail_page_budget"
  shows "\<exists>db'. highest_passes n G label (db, r) = (db', r)
    \<and> backfilled G label pages tok (min (n * gmail_page_budget) (length pages)) db'"
  using assms(3)
proof (induction n)
  case 0
  with assms(2) show ?case by simp
next
  case (Suc n)
  then have i: "n * gmail_page_budget < length pages" by simp
  then obtain db1 where db1: "highest_passes n G label (db, r) = (db1, r)" "backfilled G label pages tok (n * gmail_page_budget) db1"
    using Suc.IH by (auto simp: min_def)
  from backfill_pass [OF assms(1) i db1(2)] show ?case by (auto simp: db1(1) add.commute)
qed

lemma passes_needed:
  fixes n :: nat
  assumes "0 < n" "0 < b"
  shows "(n + b - 1) div b * b < n + b" "n \<le> (n + b - 1) div b * b"
proof -
  have "(n + b - 1) div b * b \<le> n + b - 1" by simp
  with assms show "(n + b - 1) div b * b < n + b" by linarith
  have "(n + b - 1) mod b < b" using assms by simp
  then show "n \<le> (n + b - 1) div b * b"
    using div_mult_mod_eq [of "n + b - 1" b] assms by linarith
qed

lemma label_found_completely:
  assumes serve: "serves G label pages tok r" and "pages \<noteq> []"
    and fresh: "backfill_state (gm_account G) label db = Inr \<lparr>bf_page_token = None, bf_complete = False\<rparr>"
    and "uids_u32 db" "max_uid (gm_account G) label db + length (concat pages) \<le> u32_max"
  shows "\<exists>db'. highest_passes ((length pages + gmail_page_budget - 1) div gmail_page_budget) G label (db, r) = (db', r)
    \<and> set (concat pages) \<subseteq> known_ids (gm_account G) label db'
    \<and> backfill_state (gm_account G) label db' = Inr \<lparr>bf_page_token = None, bf_complete = True\<rparr>"
proof -
  let ?n = "(length pages + gmail_page_budget - 1) div gmail_page_budget"
  have pos: "0 < length pages" "0 < gmail_page_budget" using assms(2) by (simp_all add: gmail_page_budget_def)
  have "backfilled G label pages tok 0 db"
    using assms by (simp add: backfilled_def token_at_def)
  from backfill_passes [OF serve this passes_needed(1) [OF pos]]
  obtain db' where "highest_passes ?n G label (db, r) = (db', r)" "backfilled G label pages tok (min (?n * gmail_page_budget) (length pages)) db'"
    by blast
  moreover have "min (?n * gmail_page_budget) (length pages) = length pages"
    using passes_needed(2) [OF pos] by (simp add: min_def)
  ultimately show ?thesis by (auto simp: backfilled_def token_at_def)
qed

section \<open>The scan of a complete label\<close>

lemma complete_scan_stops:
  assumes "backfill_state (gm_account G) label db = Inr \<lparr>bf_page_token = t, bf_complete = True\<rparr>"
    and "get_json (gm_http G) (label_page_url G label None) r = (Inr v, r')"
    and "as_array (jget v ''messages'') = m # ms" "as_str (jget m ''id'') = Some x" "x \<in> known_ids (gm_account G) label db"
  shows "gm_highest_uid G label (db, r) =
    (Inr (let n = max_uid (gm_account G) label db in if 0 < n then Some n else None),
     set_backfill_state (gm_account G) label None True db, r')"
proof -
  have budget: "gmail_page_budget = Suc 19" by (simp add: gmail_page_budget_def)
  have "gmail_pages G label (known_ids (gm_account G) label db) True gmail_page_budget None False [] (db, r) = (Inr ([], None, True), db, r')"
    unfolding budget gmail_pages.simps using assms by simp
  then have "gmail_discover_new G label (db, r) = (Inr ([], None, True), db, r')"
    using assms(1) by (simp add: gmail_discover_new_def)
  then show ?thesis by (simp add: gm_highest_uid_def Let_def)
qed

end
