(* ===== verification/Imap.thy ===== *)
theory Imap
  imports Rest
begin

text \<open>
  The IMAP backend: the session functions (backend/mail-sync/src/session.rs) and the adapter that
  tracks the selected folder (backend/mail-sync/src/provider/imap.rs).

  The client library \<open>async_imap\<close> is the parameter \<open>'s imap_client\<close>: its commands over the state \<open>'s\<close> of
  connection and server, with answers as the library types them.  A command fails with the text of its
  error.  Opening the connection (TCP, TLS, login) and IDLE are not modelled.
\<close>

section \<open>The client\<close>

datatype imap_flag = FSeen | FFlagged | FDeleted | FOther string

record imap_address =
  ad_name :: "string option"
  ad_mailbox :: "string option"
  ad_host :: "string option"

record envelope =
  ev_subject :: "string option"
  ev_from :: "imap_address list option"
  ev_to :: "imap_address list option"
  ev_cc :: "imap_address list option"
  ev_date :: "string option"
  ev_message_id :: "string option"
  ev_in_reply_to :: "string option"

record fetch_item =
  fe_uid :: "nat option"
  fe_date :: "string option"
  fe_flags :: "imap_flag list"
  fe_envelope :: "envelope option"
  fe_header :: "string option"
  fe_body :: "string option"

text \<open>Responses to a raw command: the attributes of a fetch, a tagged completion, others, or a failed read.\<close>

datatype fetch_attr = AttrUid nat | AttrGmail nat | AttrElse

datatype imap_response = RFetch "fetch_attr list" | RDone string | RElse | RBroken string

record 's imap_client =
  ic_list :: "'s \<Rightarrow> (string + (string \<times> name_attribute list) list) \<times> 's"
  ic_select :: "string \<Rightarrow> 's \<Rightarrow> (string + (nat option \<times> nat)) \<times> 's"
  ic_fetch :: "string \<Rightarrow> string \<Rightarrow> 's \<Rightarrow> (string + fetch_item list) \<times> 's"
  ic_store :: "string \<Rightarrow> string \<Rightarrow> 's \<Rightarrow> (string + unit) \<times> 's"
  ic_move :: "string \<Rightarrow> string \<Rightarrow> 's \<Rightarrow> (string + unit) \<times> 's"
  ic_copy :: "string \<Rightarrow> string \<Rightarrow> 's \<Rightarrow> (string + unit) \<times> 's"
  ic_expunge :: "'s \<Rightarrow> (string + unit) \<times> 's"
  ic_append :: "string \<Rightarrow> string \<Rightarrow> string \<Rightarrow> 's \<Rightarrow> (string + unit) \<times> 's"
  ic_raw :: "string \<Rightarrow> 's \<Rightarrow> (string + (string \<times> imap_response list)) \<times> 's"

text \<open>
  The texts of an envelope are bytes: \<open>im_text\<close> is the lossy decoding, \<open>im_headers\<close> and \<open>im_parse_header\<close> are
  the header parsers of \<open>mailparse\<close>, \<open>im_now\<close> the time when the server gives no date.
\<close>

record 's imap =
  im_client :: "'s imap_client"
  im_headers :: "string \<Rightarrow> (string \<Rightarrow> string option) option"
  im_parse_header :: "string \<Rightarrow> string option"
  im_text :: "string \<Rightarrow> string"
  im_now :: string

section \<open>Session functions\<close>

definition build_xoauth2_sasl :: "string \<Rightarrow> string \<Rightarrow> string" where
  "build_xoauth2_sasl username tok =
     ''user='' @ username @ [CHR 0x01] @ ''auth=Bearer '' @ tok @ [CHR 0x01, CHR 0x01]"

definition decode_trusted_cert :: "(string \<Rightarrow> string option) \<Rightarrow> string option \<Rightarrow> string option" where
  "decode_trusted_cert b64 cert = Option.bind cert (\<lambda>c. b64 (trim c))"

definition im_list_folders :: "'s imap \<Rightarrow> 's \<Rightarrow> (string + folder_info list) \<times> 's" where
  "im_list_folders I s =
     (case ic_list (im_client I) s of (Inl e, s') \<Rightarrow> (Inl e, s') | (Inr mbs, s') \<Rightarrow> (Inr (imap_folders mbs), s'))"

definition select_folder :: "'s imap \<Rightarrow> string \<Rightarrow> 's \<Rightarrow> (string + (nat \<times> nat)) \<times> 's" where
  "select_folder I folder s =
     (case ic_select (im_client I) folder s of
        (Inl e, s') \<Rightarrow> (Inl e, s')
      | (Inr (uidvalidity, exists), s') \<Rightarrow> (Inr (case uidvalidity of None \<Rightarrow> 0 | Some v \<Rightarrow> v, exists), s'))"

definition maximum_of :: "nat list \<Rightarrow> nat option" where
  "maximum_of xs = (if xs = [] then None else Some (fold max xs (hd xs)))"

definition im_highest_uid :: "'s imap \<Rightarrow> 's \<Rightarrow> (string + nat option) \<times> 's" where
  "im_highest_uid I s =
     (case ic_fetch (im_client I) ''*'' ''(UID)'' s of
        (Inl e, s') \<Rightarrow> (Inl e, s')
      | (Inr ms, s') \<Rightarrow> (Inr (maximum_of (filter_some (map fe_uid ms))), s'))"

definition item_flags :: "fetch_item \<Rightarrow> bool \<times> bool \<times> bool" where
  "item_flags m = (FSeen \<in> set (fe_flags m), FFlagged \<in> set (fe_flags m), FDeleted \<in> set (fe_flags m))"

definition im_fetch_flags :: "'s imap \<Rightarrow> string \<Rightarrow> 's \<Rightarrow> (string + (nat \<times> bool \<times> bool \<times> bool) list) \<times> 's" where
  "im_fetch_flags I uids s =
     (case ic_fetch (im_client I) uids ''(UID FLAGS)'' s of
        (Inl e, s') \<Rightarrow> (Inl e, s')
      | (Inr ms, s') \<Rightarrow> (Inr (filter_some (map (\<lambda>m. map_option (\<lambda>u. (u, item_flags m)) (fe_uid m)) ms)), s'))"

fun show_hex :: "nat \<Rightarrow> string" where
  "show_hex n = (let d = n mod 16; ch = [char_of (if d < 10 then 48 + d else 87 + d)]
     in if n < 16 then ch else show_hex (n div 16) @ ch)"

declare show_hex.simps [simp del]

fun fetch_ids :: "fetch_attr list \<Rightarrow> nat option \<Rightarrow> nat option \<Rightarrow> nat option \<times> nat option" where
  "fetch_ids [] uid gm = (uid, gm)"
| "fetch_ids (AttrUid u # as) uid gm = fetch_ids as (Some u) gm"
| "fetch_ids (AttrGmail g # as) uid gm = fetch_ids as uid (Some g)"
| "fetch_ids (AttrElse # as) uid gm = fetch_ids as uid gm"

text \<open>The responses are read up to the completion with the tag of the command, or to the end of the stream.\<close>

fun gmail_ids_loop :: "string \<Rightarrow> imap_response list \<Rightarrow> (nat \<times> string) list \<Rightarrow> string + (nat \<times> string) list" where
  "gmail_ids_loop tag [] out = Inr out"
| "gmail_ids_loop tag (RFetch as # rs) out =
     (case fetch_ids as None None of
        (Some u, Some g) \<Rightarrow> gmail_ids_loop tag rs (out @ [(u, show_hex g)])
      | _ \<Rightarrow> gmail_ids_loop tag rs out)"
| "gmail_ids_loop tag (RDone t # rs) out = (if t = tag then Inr out else gmail_ids_loop tag rs out)"
| "gmail_ids_loop tag (RElse # rs) out = gmail_ids_loop tag rs out"
| "gmail_ids_loop tag (RBroken e # rs) out = Inl e"

definition fetch_gmail_msgids :: "'s imap \<Rightarrow> string \<Rightarrow> 's \<Rightarrow> (string + (nat \<times> string) list) \<times> 's" where
  "fetch_gmail_msgids I uids s =
     (case ic_raw (im_client I) (''UID FETCH '' @ uids @ '' (UID X-GM-MSGID)'') s of
        (Inl e, s') \<Rightarrow> (Inl e, s')
      | (Inr (tag, rs), s') \<Rightarrow> (gmail_ids_loop tag rs [], s'))"

definition format_imap_address :: "'s imap \<Rightarrow> imap_address \<Rightarrow> string" where
  "format_imap_address I a =
     (let text_of = (\<lambda>x. or_empty (map_option (im_text I) x));
          mailbox = text_of (ad_mailbox a); host = text_of (ad_host a);
          name = or_empty (map_option (\<lambda>b. decode_header_words (im_parse_header I) (im_text I b)) (ad_name a))
      in if name = [] then mailbox @ ''@'' @ host else name @ '' <'' @ mailbox @ ''@'' @ host @ ''>'')"

definition from_envelope :: "'s imap \<Rightarrow> envelope \<Rightarrow> fetched_message \<Rightarrow> fetched_message" where
  "from_envelope I ev m =
     (let addresses = (\<lambda>x old. case x of None \<Rightarrow> old | Some as \<Rightarrow> join_with '', '' (map (format_imap_address I) as));
          kept = (\<lambda>x old. case x of None \<Rightarrow> old | Some v \<Rightarrow> Some (im_text I v))
      in m\<lparr>fm_subject := (case ev_subject ev of None \<Rightarrow> fm_subject m | Some v \<Rightarrow> decode_header_words (im_parse_header I) (im_text I v)),
           fm_from := (case Option.bind (ev_from ev) first_of of None \<Rightarrow> fm_from m | Some a \<Rightarrow> format_imap_address I a),
           fm_to := addresses (ev_to ev) (fm_to m), fm_cc := addresses (ev_cc ev) (fm_cc m),
           fm_date := kept (ev_date ev) (fm_date m), fm_message_id := kept (ev_message_id ev) (fm_message_id m),
           fm_in_reply_to := kept (ev_in_reply_to ev) (fm_in_reply_to m)\<rparr>)"

definition from_header :: "(string \<Rightarrow> string option) \<Rightarrow> fetched_message \<Rightarrow> fetched_message" where
  "from_header h m =
     m\<lparr>fm_references := or_option (h ''References'') (fm_references m), fm_list_id := or_option (h ''List-Id'') (fm_list_id m),
       fm_subject := (if fm_subject m = [] then (case h ''Subject'' of None \<Rightarrow> fm_subject m | Some v \<Rightarrow> v) else fm_subject m)\<rparr>"

definition parse_fetch :: "'s imap \<Rightarrow> bool \<Rightarrow> fetch_item \<Rightarrow> fetched_message option" where
  "parse_fetch I include_body f =
     (case fe_uid f of
        None \<Rightarrow> None
      | Some uid \<Rightarrow>
          (let date = (case fe_date f of None \<Rightarrow> im_now I | Some d \<Rightarrow> d);
               m0 = (blank_message uid date (FSeen \<in> set (fe_flags f)) (FFlagged \<in> set (fe_flags f)))\<lparr>
                      fm_deleted := FDeleted \<in> set (fe_flags f)\<rparr>;
               m1 = (case fe_envelope f of None \<Rightarrow> m0 | Some ev \<Rightarrow> from_envelope I ev m0);
               m2 = (case Option.bind (fe_header f) (im_headers I) of None \<Rightarrow> m1 | Some h \<Rightarrow> from_header h m1)
           in Some (m2\<lparr>fm_body := (if include_body then fe_body f else fe_header f)\<rparr>)))"

definition header_items :: string where
  "header_items = ''(UID FLAGS ENVELOPE INTERNALDATE BODY.PEEK[HEADER])''"

definition full_items :: string where
  "full_items = ''(UID FLAGS INTERNALDATE RFC822)''"

definition im_fetch :: "'s imap \<Rightarrow> string \<Rightarrow> bool \<Rightarrow> string \<Rightarrow> 's \<Rightarrow> (string + fetched_message list) \<times> 's" where
  "im_fetch I items include_body uids s =
     (case ic_fetch (im_client I) uids items s of
        (Inl e, s') \<Rightarrow> (Inl e, s')
      | (Inr ms, s') \<Rightarrow> (Inr (filter_some (map (parse_fetch I include_body) ms)), s'))"

definition im_fetch_headers :: "'s imap \<Rightarrow> string \<Rightarrow> 's \<Rightarrow> (string + fetched_message list) \<times> 's" where
  "im_fetch_headers I = im_fetch I header_items False"

definition im_fetch_full :: "'s imap \<Rightarrow> string \<Rightarrow> 's \<Rightarrow> (string + fetched_message list) \<times> 's" where
  "im_fetch_full I = im_fetch I full_items True"

definition im_move_message :: "'s imap \<Rightarrow> nat \<Rightarrow> string \<Rightarrow> bool \<Rightarrow> 's \<Rightarrow> (string + unit) \<times> 's" where
  "im_move_message I uid dest expunge_after s =
     (case ic_move (im_client I) (show_nat uid) dest s of
        (Inr _, s') \<Rightarrow> (Inr (), s')
      | (Inl _, s1) \<Rightarrow>
          (case ic_copy (im_client I) (show_nat uid) dest s1 of
             (Inl e, s2) \<Rightarrow> (Inl e, s2)
           | (Inr _, s2) \<Rightarrow>
               (case ic_store (im_client I) (show_nat uid) (''+FLAGS.SILENT ('' @ [CHR 0x5C] @ ''Deleted)'') s2 of
                  (Inl e, s3) \<Rightarrow> (Inl e, s3)
                | (Inr _, s3) \<Rightarrow> if expunge_after then ic_expunge (im_client I) s3 else (Inr (), s3))))"

definition imap_flag_name :: "string \<Rightarrow> string" where
  "imap_flag_name flag =
     (if flag = ''seen'' then CHR 0x5C # ''Seen''
      else if flag = ''flagged'' then CHR 0x5C # ''Flagged''
      else if flag = ''deleted'' then CHR 0x5C # ''Deleted''
      else flag)"

definition im_set_flag :: "'s imap \<Rightarrow> nat \<Rightarrow> string \<Rightarrow> bool \<Rightarrow> 's \<Rightarrow> (string + unit) \<times> 's" where
  "im_set_flag I uid flag v =
     ic_store (im_client I) (show_nat uid) ((if v then ''+FLAGS.SILENT'' else ''-FLAGS.SILENT'') @ '' ('' @ imap_flag_name flag @ '')'')"

definition expunge_uid :: "'s imap \<Rightarrow> nat \<Rightarrow> 's \<Rightarrow> (string + unit) \<times> 's" where
  "expunge_uid I uid s =
     (case ic_store (im_client I) (show_nat uid) (''+FLAGS.SILENT ('' @ [CHR 0x5C] @ ''Deleted)'') s of
        (Inl e, s') \<Rightarrow> (Inl e, s')
      | (Inr _, s') \<Rightarrow> ic_expunge (im_client I) s')"

definition fetch_body_uid :: "'s imap \<Rightarrow> nat \<Rightarrow> 's \<Rightarrow> (string + string) \<times> 's" where
  "fetch_body_uid I uid s =
     (case ic_fetch (im_client I) (show_nat uid) ''BODY[]'' s of
        (Inl e, s') \<Rightarrow> (Inl e, s')
      | (Inr ms, s') \<Rightarrow>
          (case first_of (filter_some (map fe_body ms)) of
             Some body \<Rightarrow> (Inr body, s')
           | None \<Rightarrow> (Inl (''no body for uid '' @ show_nat uid), s')))"

definition append_to_sent :: "'s imap \<Rightarrow> string \<Rightarrow> 's \<Rightarrow> (string + unit) \<times> 's" where
  "append_to_sent I raw s =
     (case ic_list (im_client I) s of
        (Inl e, s') \<Rightarrow> (Inl e, s')
      | (Inr mbs, s') \<Rightarrow>
          (case find (\<lambda>(name, _). contains_str ''sent'' (to_lower name)) mbs of
             None \<Rightarrow> (Inr (), s')
           | Some (name, _) \<Rightarrow> ic_append (im_client I) name (''('' @ [CHR 0x5C] @ ''Seen)'') raw s'))"

section \<open>The adapter\<close>

text \<open>The connection, the folder that was selected last, and the label cache that only the hybrid uses.\<close>

record 's conn =
  cn_net :: 's
  cn_selected :: "string option"
  cn_labels :: "(string \<times> string) list option"

definition session_error :: "(string + 'a) \<Rightarrow> provider_error + 'a" where
  "session_error x = (case x of Inl e \<Rightarrow> Inl (Session e) | Inr y \<Rightarrow> Inr y)"

definition wire :: "('s \<Rightarrow> (string + 'a) \<times> 's) \<Rightarrow> ('s conn, 'a) call" where
  "wire f s = (case f (cn_net (snd s)) of (res, net) \<Rightarrow> (session_error res, fst s, (snd s)\<lparr>cn_net := net\<rparr>))"

definition ensure_selected :: "'s imap \<Rightarrow> string \<Rightarrow> ('s conn, unit) call" where
  "ensure_selected I folder s =
     (if cn_selected (snd s) = Some folder then (Inr (), s)
      else case wire (select_folder I folder) s of
        (Inl e, s') \<Rightarrow> (Inl e, s')
      | (Inr _, db, c) \<Rightarrow> (Inr (), db, c\<lparr>cn_selected := Some folder\<rparr>))"

definition in_folder :: "'s imap \<Rightarrow> string \<Rightarrow> ('s \<Rightarrow> (string + 'a) \<times> 's) \<Rightarrow> ('s conn, 'a) call" where
  "in_folder I folder f s = (case ensure_selected I folder s of (Inl e, s') \<Rightarrow> (Inl e, s') | (Inr _, s') \<Rightarrow> wire f s')"

definition imap_status :: "'s imap \<Rightarrow> string \<Rightarrow> ('s conn, folder_status_info) call" where
  "imap_status I folder s =
     (case wire (select_folder I folder) s of
        (Inl e, s') \<Rightarrow> (Inl e, s')
      | (Inr (uidvalidity, exists), db, c) \<Rightarrow>
          (Inr \<lparr>st_uidvalidity = uidvalidity, st_exists = exists\<rparr>, db, c\<lparr>cn_selected := Some folder\<rparr>))"

definition imap_append_sent :: "'s imap \<Rightarrow> string \<Rightarrow> ('s conn, unit) call" where
  "imap_append_sent I raw = wire (append_to_sent I raw)"

definition imap_backend :: "'s imap \<Rightarrow> 's conn backend" where
  "imap_backend I = \<lparr>
     list_folders = wire (im_list_folders I),
     folder_status = imap_status I,
     highest_uid = (\<lambda>folder. in_folder I folder (im_highest_uid I)),
     fetch_flags = (\<lambda>folder uids. in_folder I folder (im_fetch_flags I uids)),
     fetch_headers = (\<lambda>folder uids. in_folder I folder (im_fetch_headers I uids)),
     fetch_full = (\<lambda>folder uids. in_folder I folder (im_fetch_full I uids)),
     fetch_raw = (\<lambda>folder uid. in_folder I folder (fetch_body_uid I uid)),
     set_flag = (\<lambda>folder uid flag v. in_folder I folder (im_set_flag I uid flag v)),
     move_message = (\<lambda>src uid dest. in_folder I src (im_move_message I uid dest False)),
     delete_permanently = (\<lambda>folder uid. in_folder I folder (expunge_uid I uid))\<rparr>"

section \<open>The interface holds\<close>

text \<open>No IMAP call touches the database.\<close>

lemma wire_db: "wire f (db, c) = (res, db', c') \<Longrightarrow> db' = db"
  by (auto simp: wire_def split: prod.splits)

lemma ensure_selected_db: "ensure_selected I folder (db, c) = (res, db', c') \<Longrightarrow> db' = db"
  by (auto simp: ensure_selected_def split: if_splits prod.splits sum.splits dest: wire_db)

lemma in_folder_db: "in_folder I folder f (db, c) = (res, db', c') \<Longrightarrow> db' = db"
  by (auto simp: in_folder_def split: prod.splits sum.splits dest!: ensure_selected_db wire_db)

lemma imap_status_db: "imap_status I folder (db, c) = (res, db', c') \<Longrightarrow> db' = db"
  by (auto simp: imap_status_def split: prod.splits sum.splits dest: wire_db)

lemma keeps_frame_unchanged:
  "(\<And>db r res db' r'. c (db, r) = (res, db', r') \<Longrightarrow> db' = db) \<Longrightarrow> keeps_frame c"
  by (rule keeps_frameI) (metis backend_frame_refl)

lemma mail_backend_imap: "mail_backend (imap_backend I)"
proof
  have frame: "keeps_frame (in_folder I folder f)" for folder and f :: "'a \<Rightarrow> (string + 'b) \<times> 'a"
    by (rule keeps_frame_unchanged) (rule in_folder_db)
  show "keeps_frame (list_folders (imap_backend I))"
    unfolding imap_backend_def backend.simps by (rule keeps_frame_unchanged) (rule wire_db)
  show "keeps_frame (folder_status (imap_backend I) path)" for path
    unfolding imap_backend_def backend.simps by (rule keeps_frame_unchanged) (rule imap_status_db)
qed (simp_all add: imap_backend_def keeps_frame_unchanged in_folder_db)

interpretation im: mail_backend "imap_backend I" for I
  by (rule mail_backend_imap)

end
