(* ===== verification/Gmail_Imap.thy ===== *)
theory Gmail_Imap
  imports Gmail Imap
begin

text \<open>
  Gmail over IMAP (backend/mail-sync/src/provider/gmail_imap.rs): mail over the IMAP backend, labels and
  stale bodies over the Gmail API, the uid map holding the Gmail id of a folder's uid; and the four
  backends behind one function (\<open>connect\<close> in backend/mail-sync/src/provider/mod.rs).

  The base64 decoders and the UTF-16 decoder are parameters.
\<close>

record 's gmail_imap =
  gi_imap :: "'s imap"
  gi_http :: "'s http"
  gi_account :: string
  gi_decode :: "string \<Rightarrow> string option"
  gi_decode_bare :: "string \<Rightarrow> string + string"
  gi_base64 :: "string \<Rightarrow> nat list option"
  gi_utf16 :: "nat list \<Rightarrow> string option"

definition lift_rest :: "('s \<Rightarrow> (provider_error + 'a) \<times> 's) \<Rightarrow> ('s conn, 'a) call" where
  "lift_rest f s = (case f (cn_net (snd s)) of (res, net) \<Rightarrow> (res, fst s, (snd s)\<lparr>cn_net := net\<rparr>))"

section \<open>The Gmail id of a message\<close>

definition gi_fetch_ids :: "'s gmail_imap \<Rightarrow> string \<Rightarrow> string \<Rightarrow> ('s conn, (nat \<times> string) list) call" where
  "gi_fetch_ids G folder uids = in_folder (gi_imap G) folder (fetch_gmail_msgids (gi_imap G) uids)"

text \<open>A hash map collected from pairs keeps the last value of a key.\<close>

definition attach_gmail_ids ::
  "'s gmail_imap \<Rightarrow> string \<Rightarrow> string \<Rightarrow> fetched_message list \<Rightarrow> ('s conn, fetched_message list) call"
where
  "attach_gmail_ids G folder uids ms s =
     (case gi_fetch_ids G folder uids s of
        (Inl e, s') \<Rightarrow> (Inl e, s')
      | (Inr pairs, s') \<Rightarrow> (Inr (map (\<lambda>m. m\<lparr>fm_remote_id := map_of (rev pairs) (fm_uid m)\<rparr>) ms), s'))"

definition no_gmail_id :: "string \<Rightarrow> nat \<Rightarrow> provider_error" where
  "no_gmail_id folder uid = Other (''Gmail did not return X-GM-MSGID for folder '' @ folder @ '' uid '' @ show_nat uid)"

definition gmail_message_id :: "'s gmail_imap \<Rightarrow> string \<Rightarrow> nat \<Rightarrow> ('s conn, string) call" where
  "gmail_message_id G folder uid s =
     (case remote_id (gi_account G) folder uid (fst s) of
        Inr remote \<Rightarrow> (Inr remote, s)
      | Inl _ \<Rightarrow>
          (case gi_fetch_ids G folder (show_nat uid) s of
             (Inl e, s') \<Rightarrow> (Inl e, s')
           | (Inr pairs, db, c) \<Rightarrow>
               (case set_many (gi_account G) folder pairs db of
                  (Inl e, db') \<Rightarrow> (Inl e, db', c)
                | (Inr _, db') \<Rightarrow>
                    (case remote_id (gi_account G) folder uid db' of
                       Inr remote \<Rightarrow> (Inr remote, db', c)
                     | Inl _ \<Rightarrow> (Inl (no_gmail_id folder uid), db', c)))))"

section \<open>Labels\<close>

definition gi_folder_type :: "'s gmail_imap \<Rightarrow> string \<Rightarrow> mail_db \<Rightarrow> string" where
  "gi_folder_type G path db = (case folder_at db (gi_account G) path of None \<Rightarrow> ''CUSTOM'' | Some f \<Rightarrow> f_type f)"

fun byte_pairs :: "nat list \<Rightarrow> nat list" where
  "byte_pairs (a # b # bs) = (256 * a + b) # byte_pairs bs"
| "byte_pairs bs = []"

definition decode_modified_utf7_run :: "'s gmail_imap \<Rightarrow> string \<Rightarrow> string option" where
  "decode_modified_utf7_run G encoded =
     (case gi_base64 G encoded of
        None \<Rightarrow> None
      | Some bytes \<Rightarrow> if odd (length bytes) then None else gi_utf16 G (byte_pairs bytes))"

definition decode_modified_utf7 :: "'s gmail_imap \<Rightarrow> string \<Rightarrow> string" where
  "decode_modified_utf7 G input = utf7_decode (decode_modified_utf7_run G) input"

fun label_names :: "json list \<Rightarrow> (string \<times> string) list" where
  "label_names [] = []"
| "label_names (l # ls) =
     (case (as_str (jget l ''id''), as_str (jget l ''name'')) of
        (Some i, Some n) \<Rightarrow> (n, i) # label_names ls
      | _ \<Rightarrow> label_names ls)"

definition load_labels :: "'s gmail_imap \<Rightarrow> ('s conn, (string \<times> string) list) call" where
  "load_labels G s =
     (case cn_labels (snd s) of
        Some names \<Rightarrow> (Inr names, s)
      | None \<Rightarrow>
          (case lift_rest (get_json (gi_http G) (gmail_url @ ''/labels?fields=labels(id,name,type)'')) s of
             (Inl e, s') \<Rightarrow> (Inl e, s')
           | (Inr res, db, c) \<Rightarrow>
               (let names = rev (label_names (as_array (jget res ''labels''))) in (Inr names, db, c\<lparr>cn_labels := Some names\<rparr>))))"

definition unknown_label :: "string \<Rightarrow> provider_error" where
  "unknown_label path = Other (''Gmail label API did not return a label matching IMAP folder '' @ path)"

definition user_label_id :: "'s gmail_imap \<Rightarrow> string \<Rightarrow> ('s conn, string) call" where
  "user_label_id G path s =
     (case load_labels G s of
        (Inl e, s') \<Rightarrow> (Inl e, s')
      | (Inr names, s') \<Rightarrow>
          ((case or_option (map_of names path) (map_of names (decode_modified_utf7 G path)) of
              Some i \<Rightarrow> Inr i | None \<Rightarrow> Inl (unknown_label path)), s'))"

definition gi_label_id :: "'s gmail_imap \<Rightarrow> string \<Rightarrow> string \<Rightarrow> ('s conn, string option) call" where
  "gi_label_id G path folder_type s =
     (if folder_type = ''INBOX'' then (Inr (Some ''INBOX''), s)
      else if folder_type = ''SENT'' then (Inr (Some ''SENT''), s)
      else if folder_type = ''DRAFTS'' then (Inr (Some ''DRAFT''), s)
      else if folder_type = ''SPAM'' then (Inr (Some ''SPAM''), s)
      else if folder_type = ''TRASH'' then (Inr (Some ''TRASH''), s)
      else if folder_type = ''ARCHIVE'' then (Inr None, s)
      else (case user_label_id G path s of (Inl e, s') \<Rightarrow> (Inl e, s') | (Inr i, s') \<Rightarrow> (Inr (Some i), s')))"

section \<open>Operations\<close>

definition decode_raw_message :: "'s gmail_imap \<Rightarrow> json \<Rightarrow> provider_error + string" where
  "decode_raw_message G v =
     (case as_str (jget v ''raw'') of
        None \<Rightarrow> Inl (Other ''gmail raw response is missing raw data'')
      | Some encoded \<Rightarrow>
          (case gi_decode G encoded of
             Some bytes \<Rightarrow> Inr bytes
           | None \<Rightarrow> (case gi_decode_bare G encoded of Inr bytes \<Rightarrow> Inr bytes | Inl e \<Rightarrow> Inl (Other (''gmail raw decode: '' @ e)))))"

definition fetch_raw_by_gmail_id :: "'s gmail_imap \<Rightarrow> string \<Rightarrow> nat \<Rightarrow> ('s conn, string) call" where
  "fetch_raw_by_gmail_id G folder uid s =
     (case gmail_message_id G folder uid s of
        (Inl e, s') \<Rightarrow> (Inl e, s')
      | (Inr remote, s') \<Rightarrow>
          (case lift_rest (get_json (gi_http G) (gmail_message_url remote ''?format=raw&fields=id,raw'')) s' of
             (Inl e, s'') \<Rightarrow> (Inl e, s'')
           | (Inr v, s'') \<Rightarrow> (decode_raw_message G v, s'')))"

text \<open>A fetch over IMAP and the ids of its messages; when the ids cannot be had, the messages go without.\<close>

definition with_ids ::
  "'s gmail_imap \<Rightarrow> (string \<Rightarrow> string \<Rightarrow> ('s conn, fetched_message list) call) \<Rightarrow> string \<Rightarrow> string \<Rightarrow> ('s conn, fetched_message list) call"
where
  "with_ids G fetch folder uids s =
     (case fetch folder uids s of
        (Inl e, s') \<Rightarrow> (Inl e, s')
      | (Inr ms, s') \<Rightarrow>
          (case attach_gmail_ids G folder uids ms s' of
             (Inl _, s'') \<Rightarrow> (Inr ms, s'')
           | (Inr ms', s'') \<Rightarrow> (Inr ms', s'')))"

definition gi_fetch_raw :: "'s gmail_imap \<Rightarrow> string \<Rightarrow> nat \<Rightarrow> ('s conn, string) call" where
  "gi_fetch_raw G folder uid s =
     (case fetch_raw_by_gmail_id G folder uid s of
        (Inr raw, s') \<Rightarrow> (Inr raw, s')
      | (Inl _, s') \<Rightarrow> fetch_raw (imap_backend (gi_imap G)) folder uid s')"

definition option_list :: "'a option \<Rightarrow> 'a list" where
  "option_list x = (case x of None \<Rightarrow> [] | Some y \<Rightarrow> [y])"

text \<open>The label operation that moves a message from one folder to another.\<close>

definition relabel :: "'s gmail_imap \<Rightarrow> string \<Rightarrow> string \<Rightarrow> string \<Rightarrow> ('s conn, unit) call" where
  "relabel G remote src dest s =
     (let dest_type = gi_folder_type G dest (fst s) in
      if dest_type = ''TRASH'' then lift_rest (gm_trash (gi_http G) remote) s
      else if dest_type = ''ARCHIVE'' then lift_rest (modify_labels (gi_http G) remote [] [''INBOX'']) s
      else case gi_label_id G dest dest_type s of
        (Inl e, s1) \<Rightarrow> (Inl e, s1)
      | (Inr add, s1) \<Rightarrow>
          (case gi_label_id G src (gi_folder_type G src (fst s)) s1 of
             (Inl e, s2) \<Rightarrow> (Inl e, s2)
           | (Inr remove, s2) \<Rightarrow> lift_rest (modify_labels (gi_http G) remote (option_list add) (option_list remove)) s2))"

definition gi_move_message :: "'s gmail_imap \<Rightarrow> string \<Rightarrow> nat \<Rightarrow> string \<Rightarrow> ('s conn, unit) call" where
  "gi_move_message G src uid dest s =
     (case gmail_message_id G src uid s of
        (Inl e, s') \<Rightarrow> (Inl e, s')
      | (Inr remote, s') \<Rightarrow> gm_then_remove (gi_account G) src uid (relabel G remote src dest) s')"

definition gi_delete_permanently :: "'s gmail_imap \<Rightarrow> string \<Rightarrow> nat \<Rightarrow> ('s conn, unit) call" where
  "gi_delete_permanently G folder uid s =
     (case gmail_message_id G folder uid s of
        (Inl e, s') \<Rightarrow> (Inl e, s')
      | (Inr remote, s') \<Rightarrow>
          gm_then_remove (gi_account G) folder uid (lift_rest (rest_delete (gi_http G) (gmail_message_url remote []))) s')"

definition gmail_imap_backend :: "'s gmail_imap \<Rightarrow> 's conn backend" where
  "gmail_imap_backend G =
     (imap_backend (gi_imap G))\<lparr>
        fetch_headers := with_ids G (fetch_headers (imap_backend (gi_imap G))),
        fetch_full := with_ids G (fetch_full (imap_backend (gi_imap G))),
        fetch_raw := gi_fetch_raw G,
        move_message := gi_move_message G,
        delete_permanently := gi_delete_permanently G\<rparr>"

section \<open>The interface holds\<close>

lemma map_upsert_frame: "upsert_remote q db = Some db' \<Longrightarrow> backend_frame db db'"
  by (auto simp: upsert_remote_def backend_frame_def split: if_splits)

lemma map_upserts_frame: "upsert_all rs db = Some db' \<Longrightarrow> backend_frame db db'"
proof (induction rs arbitrary: db)
  case (Cons q rs)
  then obtain db1 where "upsert_remote q db = Some db1" "upsert_all rs db1 = Some db'"
    by (auto split: option.splits)
  then show ?case using backend_frame_trans [OF map_upsert_frame Cons.IH] by blast
qed simp

lemma set_chunks_frame: "backend_frame db (snd (set_chunks acct path cs db))"
proof (induction cs arbitrary: db)
  case (Cons c cs)
  show ?case
    using backend_frame_trans [OF map_upserts_frame Cons.IH] by (auto split: option.splits)
qed simp

lemma set_many_frame: "set_many acct path pairs db = (res, db') \<Longrightarrow> backend_frame db db'"
  using set_chunks_frame [of db acct path] by (metis set_many_def snd_conv)

lemma lift_rest_db: "lift_rest f (db, c) = (res, db', c') \<Longrightarrow> db' = db"
  by (auto simp: lift_rest_def split: prod.splits)

lemma gi_fetch_ids_db: "gi_fetch_ids G folder uids (db, c) = (res, db', c') \<Longrightarrow> db' = db"
  unfolding gi_fetch_ids_def by (rule in_folder_db)

lemma gmail_message_id_frame: "gmail_message_id G folder uid (db, c) = (res, db', c') \<Longrightarrow> backend_frame db db'"
  by (auto simp: gmail_message_id_def split: sum.splits prod.splits dest: set_many_frame gi_fetch_ids_db)

lemma with_ids_frame:
  assumes "\<And>db c res db' c'. fetch folder uids (db, c) = (res, db', c') \<Longrightarrow> db' = db"
  shows "keeps_frame (with_ids G fetch folder uids)"
  by (rule keeps_frame_unchanged)
     (auto simp: with_ids_def attach_gmail_ids_def split: prod.splits sum.splits dest!: assms gi_fetch_ids_db)

lemma load_labels_db: "load_labels G (db, c) = (res, db', c') \<Longrightarrow> db' = db"
  by (auto simp: load_labels_def Let_def split: option.splits prod.splits sum.splits dest: lift_rest_db)

lemma gi_label_id_db: "gi_label_id G path t (db, c) = (res, db', c') \<Longrightarrow> db' = db"
  by (auto simp: gi_label_id_def user_label_id_def split: if_splits prod.splits sum.splits dest: load_labels_db)

lemma relabel_db: "relabel G remote src dest (db, c) = (res, db', c') \<Longrightarrow> db' = db"
  by (auto simp: relabel_def Let_def split: if_splits prod.splits sum.splits dest!: gi_label_id_db lift_rest_db)

lemma after_id_frame:
  assumes "\<And>remote. keeps_frame (k remote)"
  shows "keeps_frame (\<lambda>s. case gmail_message_id G folder uid s of (Inl e, s') \<Rightarrow> (Inl e, s') | (Inr remote, s') \<Rightarrow> k remote s')"
proof (rule keeps_frameI)
  fix db c res db' c'
  assume call: "(case gmail_message_id G folder uid (db, c) of (Inl e, s') \<Rightarrow> (Inl e, s') | (Inr remote, s') \<Rightarrow> k remote s') = (res, db', c')"
  obtain ans db1 c1 where a: "gmail_message_id G folder uid (db, c) = (ans, db1, c1)" by (metis prod_cases3)
  have "backend_frame db db1" using a by (rule gmail_message_id_frame)
  moreover have "backend_frame db1 db'"
    using call a keeps_frameD [OF assms] by (cases ans) auto
  ultimately show "backend_frame db db'" by (rule backend_frame_trans)
qed

lemma gi_fetch_raw_frame: "keeps_frame (gi_fetch_raw G folder uid)"
proof (rule keeps_frameI)
  fix db c res db' c'
  assume call: "gi_fetch_raw G folder uid (db, c) = (res, db', c')"
  obtain ans db1 c1 where a: "fetch_raw_by_gmail_id G folder uid (db, c) = (ans, db1, c1)" by (metis prod_cases3)
  have "backend_frame db db1"
    using a by (auto simp: fetch_raw_by_gmail_id_def split: prod.splits sum.splits dest: gmail_message_id_frame lift_rest_db)
  moreover have "backend_frame db1 db'"
    using call a keeps_frameD [OF im.fetch_raw_frame] by (cases ans) (auto simp: gi_fetch_raw_def)
  ultimately show "backend_frame db db'" by (rule backend_frame_trans)
qed

lemma mail_backend_gmail_imap: "mail_backend (gmail_imap_backend G)"
proof
  have fetch: "fetch_headers (imap_backend (gi_imap G)) folder uids (db, c) = (res, db', c') \<Longrightarrow> db' = db"
    "fetch_full (imap_backend (gi_imap G)) folder uids (db, c) = (res, db', c') \<Longrightarrow> db' = db" for folder uids db c res db' c'
    by (auto simp: imap_backend_def dest: in_folder_db)
  show "keeps_frame (fetch_headers (gmail_imap_backend G) path uids)" for path uids
    unfolding gmail_imap_backend_def by (simp add: with_ids_frame [OF fetch(1)])
  show "keeps_frame (fetch_full (gmail_imap_backend G) path uids)" for path uids
    unfolding gmail_imap_backend_def by (simp add: with_ids_frame [OF fetch(2)])
  have move: "keeps_frame (gi_move_message G path uid dest)" for path uid dest
    unfolding gi_move_message_def [abs_def]
    by (intro after_id_frame gm_then_remove_frame keeps_frame_unchanged) (rule relabel_db)
  have delete: "keeps_frame (gi_delete_permanently G path uid)" for path uid
    unfolding gi_delete_permanently_def [abs_def]
    by (intro after_id_frame gm_then_remove_frame keeps_frame_unchanged) (rule lift_rest_db)
  show "keeps_frame (move_message (gmail_imap_backend G) path uid dest)" for path uid dest
    by (simp add: gmail_imap_backend_def move)
  show "keeps_frame (delete_permanently (gmail_imap_backend G) path uid)" for path uid
    by (simp add: gmail_imap_backend_def delete)
qed (simp_all add: gmail_imap_backend_def gi_fetch_raw_frame im.list_folders_frame im.folder_status_frame im.highest_uid_frame
      im.fetch_flags_frame im.set_flag_frame)

interpretation gi: mail_backend "gmail_imap_backend G" for G
  by (rule mail_backend_gmail_imap)

section \<open>Any backend\<close>

text \<open>
  What an account needs for each kind; a missing token is an error.  The API backends use the connection
  only for the state of the server.
\<close>

record 's provider_config =
  pg_token :: "string option"
  pg_outlook :: "'s outlook"
  pg_gmail :: "'s gmail"
  pg_imap :: "'s imap"
  pg_gmail_imap :: "'s gmail_imap"

definition lift_call :: "('s, 'a) call \<Rightarrow> ('s conn, 'a) call" where
  "lift_call f s = (case f (fst s, cn_net (snd s)) of (res, db, net) \<Rightarrow> (res, db, (snd s)\<lparr>cn_net := net\<rparr>))"

definition lift_backend :: "'s backend \<Rightarrow> 's conn backend" where
  "lift_backend B = \<lparr>
     list_folders = lift_call (list_folders B),
     folder_status = (\<lambda>p. lift_call (folder_status B p)),
     highest_uid = (\<lambda>p. lift_call (highest_uid B p)),
     fetch_flags = (\<lambda>p u. lift_call (fetch_flags B p u)),
     fetch_headers = (\<lambda>p u. lift_call (fetch_headers B p u)),
     fetch_full = (\<lambda>p u. lift_call (fetch_full B p u)),
     fetch_raw = (\<lambda>p u. lift_call (fetch_raw B p u)),
     set_flag = (\<lambda>p u f v. lift_call (set_flag B p u f v)),
     move_message = (\<lambda>p u d. lift_call (move_message B p u d)),
     delete_permanently = (\<lambda>p u. lift_call (delete_permanently B p u))\<rparr>"

definition token_required :: "string \<Rightarrow> provider_error" where
  "token_required name = Other (name @ '' requires an OAuth access token'')"

definition connect_provider :: "provider_kind \<Rightarrow> 's provider_config \<Rightarrow> provider_error + 's conn backend" where
  "connect_provider kind C =
     (case kind of
        Imap \<Rightarrow> Inr (imap_backend (pg_imap C))
      | GmailImap \<Rightarrow> (if pg_token C = None then Inl (token_required ''gmail_imap'') else Inr (gmail_imap_backend (pg_gmail_imap C)))
      | GmailApi \<Rightarrow> (if pg_token C = None then Inl (token_required ''gmail api'') else Inr (lift_backend (gmail_backend (pg_gmail C))))
      | OutlookApi \<Rightarrow> (if pg_token C = None then Inl (token_required ''outlook api'')
                        else Inr (lift_backend (outlook_backend (pg_outlook C)))))"

lemma lift_call_frame: "keeps_frame f \<Longrightarrow> keeps_frame (lift_call f)"
  by (rule keeps_frameI) (auto simp: lift_call_def split: prod.splits dest: keeps_frameD)

lemma mail_backend_lift:
  assumes "mail_backend B"
  shows "mail_backend (lift_backend B)"
  unfolding lift_backend_def mail_backend_def backend.simps
  using assms unfolding mail_backend_def by (simp add: lift_call_frame)

lemma mail_backend_connected: "connect_provider kind C = Inr B \<Longrightarrow> mail_backend B"
  using mail_backend_imap mail_backend_gmail_imap mail_backend_lift [OF mail_backend_gmail] mail_backend_lift [OF mail_backend_outlook]
  by (auto simp: connect_provider_def split: provider_kind.splits if_splits)

end
