(* ===== verification/Provider_Properties.thy ===== *)
theory Provider_Properties
  imports Sync_Properties Api_Properties Gmail_Facts Gmail_Imap
begin

text \<open>
  Properties of the mail backends: the whole system over a backend of any kind, the discovery of Gmail
  labels, and what the IMAP session does.
\<close>

section \<open>Samples\<close>

definition idle_client :: "unit imap_client" where
  "idle_client = \<lparr>ic_list = (\<lambda>s. (Inr [], s)), ic_select = (\<lambda>f s. (Inr (Some 7, 0), s)), ic_fetch = (\<lambda>u q s. (Inr [], s)),
     ic_store = (\<lambda>u q s. (Inr (), s)), ic_move = (\<lambda>u d s. (Inr (), s)), ic_copy = (\<lambda>u d s. (Inr (), s)),
     ic_expunge = (\<lambda>s. (Inr (), s)), ic_append = (\<lambda>f fl raw s. (Inr (), s)), ic_raw = (\<lambda>q s. (Inr (''a1'', []), s))\<rparr>"

definition idle_imap :: "unit imap" where
  "idle_imap = \<lparr>im_client = idle_client, im_headers = (\<lambda>_. None), im_parse_header = (\<lambda>_. None), im_text = (\<lambda>s. s), im_now = ''2024''\<rparr>"

definition gmail_over :: "'r http \<Rightarrow> 'r gmail" where
  "gmail_over h = \<lparr>gm_http = h, gm_account = ''acc'', gm_headers = (\<lambda>_. None), gm_parse_header = (\<lambda>_. None), gm_date = (\<lambda>_. ''2024''),
     gm_quote = (\<lambda>s. s), gm_decode = Some, gm_decode_bare = Inr, gm_encode = (\<lambda>s. s), gm_order = (\<lambda>xs. xs)\<rparr>"

definition sample_config :: "unit provider_config" where
  "sample_config = \<lparr>pg_token = Some ''token'', pg_outlook = sample_outlook, pg_gmail = gmail_over sample_http, pg_imap = idle_imap,
     pg_gmail_imap = \<lparr>gi_imap = idle_imap, gi_http = sample_http, gi_account = ''acc'', gi_decode = Some, gi_decode_bare = Inr,
       gi_base64 = (\<lambda>_. None), gi_utf16 = (\<lambda>_. None)\<rparr>\<rparr>"

definition conn_env :: "unit conn backend \<Rightarrow> unit conn sync_env" where
  "conn_env B = \<lparr>se_backend = B, se_connect = (\<lambda>_ _. None), se_decrypt = Some,
     se_parse_json = (\<lambda>_. Some (JObj [])), se_token = (\<lambda>_. Inr None), se_cert = (\<lambda>c. c), se_hash = (\<lambda>s. s),
     se_now = ''2024'', se_clock = ''2024'', se_content = sample_content, se_phish = sample_phish,
     se_brands = [], se_feed = sample_feed, se_json = (\<lambda>_. [])\<rparr>"

definition conn_state :: "unit conn sync_state" where
  "conn_state = \<lparr>sy_db = sample_db, sy_server = \<lparr>cn_net = (), cn_selected = None, cn_labels = None\<rparr>, sy_content = empty_content,
     sy_calendar = \<lparr>invitations = [], calendar_events = []\<rparr>, sy_manager = new_manager, sy_notes = [], sy_published = []\<rparr>"

definition conn_system :: "(unit conn, unit) system" where
  "conn_system = \<lparr>st_sync = conn_state, st_drafts = [], st_aliases = [], st_tokens = ()\<rparr>"

lemma conn_system_ok: "system_ok conn_system"
  by (simp add: system_ok_def conn_system_def conn_state_def sample_db_ok new_manager_def queues_bounded_def)

lemma sync_cycle_connected:
  assumes "connect_provider kind C = Inr B"
  shows "sync_cycle (E\<lparr>se_backend := B\<rparr>)"
  using mail_backend_connected [OF assms] by (simp add: sync_cycle_def)

section \<open>The system over any backend\<close>

text \<open>C1: over a backend of any kind (IMAP, Gmail over IMAP, Gmail or Microsoft Graph), whatever requests,
  commands and synchronisations follow each other, each running to its end before the next begins, every
  state so reached has exact counters, unique keys, a well-formed outbox and bounded command queues.\<close>

theorem reachable_system_over_any_backend:
  assumes "connect_provider kind C = Inr B" "system_reachable (E\<lparr>se_backend := B\<rparr>) T user w w'" "system_ok w"
  shows "system_ok w'"
  using sync_cycle.system_reachable_ok [OF sync_cycle_connected [OF assms(1)] assms(2,3)] .

theorem reachable_system_over_any_backend_witness:
  "system_ok (put_api (serve ((conn_env (imap_backend idle_imap))\<lparr>se_backend := imap_backend idle_imap\<rparr>) ''u'' (Read 10 False)
      (api_of conn_system)) conn_system)"
proof (rule reachable_system_over_any_backend [OF _ system_reachable.step [OF system_reachable.here system_step.request] conn_system_ok])
  show "connect_provider Imap sample_config = Inr (imap_backend idle_imap)"
    by (simp add: connect_provider_def sample_config_def)
qed

text \<open>C2: over a backend of any kind, a message that was deleted stays deleted: a row that survives a command,
  sync cycles included, is the row it was, in the same folder under the same uid, and is deleted if it was
  deleted before.\<close>

theorem deleted_stays_deleted_over_any_backend:
  assumes "connect_provider kind C = Inr B" "db_ok (sy_db s)" "handle_command (E\<lparr>se_backend := B\<rparr>) acct cmd s = Some s'"
    and "m \<in> set (messages (sy_db s))" "m' \<in> set (messages (sy_db s'))" "m_id m' = m_id m"
  shows "m_folder m' = m_folder m \<and> m_uid m' = m_uid m \<and> (m_deleted m \<longrightarrow> m_deleted m')"
proof -
  have "old_rows_kept (sy_db s) (sy_db s')"
    using sync_cycle.handle_command_safe [OF sync_cycle_connected [OF assms(1)] assms(2,3)] by (simp add: safe_state_def safe_def)
  from kept_row [OF assms(2) this assms(4-6)] show ?thesis by (simp add: row_le_def)
qed

theorem deleted_stays_deleted_over_any_backend_witness:
  "\<exists>B s' m'. connect_provider GmailApi sample_config = Inr B
    \<and> handle_command ((conn_env B)\<lparr>se_backend := B\<rparr>) ''acc'' (IMapMove ''u'' 1 ''INBOX'' ''Trash'' True) conn_state = Some s'
    \<and> m' \<in> set (messages (sy_db s')) \<and> m_uid m' = 1"
proof -
  obtain B where B: "connect_provider GmailApi sample_config = Inr B"
    by (simp add: connect_provider_def sample_config_def)
  let ?E = "(conn_env B)\<lparr>se_backend := B\<rparr>" and ?cmd = "IMapMove ''u'' 1 ''INBOX'' ''Trash'' True"
  have db: "db_ok (sy_db conn_state)" by (simp add: conn_state_def sample_db_ok)
  obtain s' where h: "handle_command ?E ''acc'' ?cmd conn_state = Some s'" by simp
  have frame: "keeps_frame (move_message B p u d)" for p u d
    by (rule mail_backend.move_frame [OF mail_backend_connected [OF B]])
  have "messages (sy_db s') = messages sample_db"
    using h keeps_frameD [OF frame]
    by (auto simp: do_imap_move_def with_provider_def call_backend_def conn_state_def backend_frame_def
        split: sum.splits prod.splits)
  then have here: "sample_message 10 1 True \<in> set (messages (sy_db s'))" by (simp add: sample_db_def)
  have there: "sample_message 10 1 True \<in> set (messages (sy_db conn_state))"
    by (simp add: conn_state_def sample_db_def)
  have "m_uid (sample_message 10 1 True) = 1" by (simp add: sample_message_def)
  then show ?thesis
    using deleted_stays_deleted_over_any_backend [OF B db h there here refl] B h here by blast
qed

section \<open>The outbox\<close>

text \<open>C31: over a backend of any kind, ten flushes empty the outbox of an account whatever the server answers,
  as long as no change is queued in between: every row is either confirmed or dropped after its tenth
  attempt.\<close>

theorem outbox_empty_after_ten_flushes:
  assumes "connect_provider kind C = Inr B" "pending_ok db" "\<forall>q \<in> set (pending db). 0 \<le> p_attempts q"
  shows "\<forall>q \<in> set (pending (fst ((flush_pending_flags B acct ^^ 10) (db, r)))). p_account q \<noteq> acct"
  using assms(2,3) by (rule mail_backend.outbox_drains [OF mail_backend_connected [OF assms(1)]])

theorem outbox_empty_after_ten_flushes_witness:
  "\<exists>B. connect_provider GmailApi sample_config = Inr B \<and> pending sample_db \<noteq> []
    \<and> filter (\<lambda>q. p_account q = ''acc'') (pending (fst ((flush_pending_flags B ''acc'' ^^ 10)
          (sample_db, \<lparr>cn_net = (), cn_selected = None, cn_labels = None\<rparr>)))) = []"
proof -
  obtain B where B: "connect_provider GmailApi sample_config = Inr B"
    by (simp add: connect_provider_def sample_config_def)
  have "pending sample_db \<noteq> []" "\<forall>q \<in> set (pending sample_db). 0 \<le> p_attempts q" by (simp_all add: sample_defs)
  then show ?thesis
    using B outbox_empty_after_ten_flushes [OF B sample_pending_ok] by (auto intro!: filter_False)
qed

section \<open>Gmail labels\<close>

text \<open>C3: a label whose messages the server lists page by page is discovered completely, whatever its length:
  after one synchronisation per twenty pages every message of it has a uid, and its backfill is recorded as
  complete, as long as the uid space holds them.\<close>

theorem gmail_label_is_found_completely:
  assumes "serves G label pages tok r" "pages \<noteq> []"
    and "backfill_state (gm_account G) label db = Inr \<lparr>bf_page_token = None, bf_complete = False\<rparr>"
    and "uids_u32 db" "max_uid (gm_account G) label db + length (concat pages) \<le> u32_max"
  shows "\<exists>db'. highest_passes ((length pages + gmail_page_budget - 1) div gmail_page_budget) G label (db, r) = (db', r)
    \<and> set (concat pages) \<subseteq> known_ids (gm_account G) label db'
    \<and> backfill_state (gm_account G) label db' = Inr \<lparr>bf_page_token = None, bf_complete = True\<rparr>"
  using assms by (rule label_found_completely)

definition two_pages :: "string list list" where
  "two_pages = [[''c'', ''b''], [''a'']]"

definition two_page_http :: "unit http" where
  "two_page_http = pure_http
     (\<lambda>url r. Inr (200, if url = label_page_url (gmail_over sample_http) ''INBOX'' None then ''1'' else ''2''))
     (\<lambda>meth url body r. (Inr (200, ''x''), r))
     (\<lambda>body. Some (page_answer two_pages (\<lambda>i. ''next'') (if body = ''1'' then 0 else 1))) (\<lambda>_. [])"

definition unlisted_db :: mail_db where
  "unlisted_db = sample_db\<lparr>folders := [sample_folder\<lparr>f_backfill_complete := False\<rparr>]\<rparr>"

lemma two_page_get:
  "get_json two_page_http url () = (Inr (page_answer two_pages (\<lambda>i. ''next'')
     (if url = label_page_url (gmail_over sample_http) ''INBOX'' None then 0 else 1)), ())"
  by (rule get_json_first) (simp add: get_json_once_def send_def two_page_http_def pure_http_def check_def is_success_def)

theorem gmail_label_is_found_completely_witness:
  "\<exists>db'. highest_passes 1 (gmail_over two_page_http) ''INBOX'' (unlisted_db, ()) = (db', ())
    \<and> {''a'', ''b'', ''c''} \<subseteq> known_ids ''acc'' ''INBOX'' db'"
proof -
  let ?G = "gmail_over two_page_http"
  have url: "label_page_url ?G ''INBOX'' = label_page_url (gmail_over sample_http) ''INBOX''"
    by (rule ext) (simp add: label_page_url_def gmail_over_def split: option.split)
  have "label_page_url (gmail_over sample_http) ''INBOX'' (Some t) \<noteq> label_page_url (gmail_over sample_http) ''INBOX'' None" for t
    by (simp add: label_page_url_def gmail_over_def)
  then have serve: "serves ?G ''INBOX'' two_pages (\<lambda>i. ''next'') ()"
    unfolding serves_def url
    by (auto simp: gmail_over_def [of two_page_http] two_page_get two_pages_def token_at_def less_Suc_eq)
  have "uids_u32 unlisted_db" "max_uid ''acc'' ''INBOX'' unlisted_db \<le> 2"
    by (simp_all add: uids_u32_def max_uid_def map_rows_def in_map_def clamp_u32_def unlisted_db_def sample_defs u32_max_def)
  moreover have "backfill_state ''acc'' ''INBOX'' unlisted_db = Inr \<lparr>bf_page_token = None, bf_complete = False\<rparr>"
    by (simp add: backfill_state_def folder_at_def unlisted_db_def sample_defs)
  moreover have "(length two_pages + gmail_page_budget - 1) div gmail_page_budget = 1"
    by (simp add: two_pages_def gmail_page_budget_def)
  ultimately show ?thesis
    using gmail_label_is_found_completely [OF serve, of unlisted_db]
    by (auto simp: two_pages_def u32_max_def gmail_over_def)
qed

text \<open>Once a label was found completely, the scan stops at the first message that it knows.  So when the
  newest message of the label is known, nothing is discovered, although the rest of the listing may hold
  messages that got the label later, for instance older ones that were moved there.\<close>

theorem older_message_moved_to_label_is_not_found:
  assumes "backfill_state (gm_account G) label db = Inr \<lparr>bf_page_token = t, bf_complete = True\<rparr>"
    and "get_json (gm_http G) (label_page_url G label None) r = (Inr v, r')"
    and "as_array (jget v ''messages'') = m # ms" "as_str (jget m ''id'') = Some x" "x \<in> known_ids (gm_account G) label db"
  shows "known_ids (gm_account G) label (fst (snd (gm_highest_uid G label (db, r)))) = known_ids (gm_account G) label db"
  using complete_scan_stops [OF assms] by simp

definition moved_http :: "unit http" where
  "moved_http = pure_http (\<lambda>url r. Inr (200, ''x'')) (\<lambda>meth url body r. (Inr (200, ''x''), r))
     (\<lambda>body. Some (page_answer [[''r2'', ''moved'', ''r1'']] (\<lambda>i. []) 0)) (\<lambda>_. [])"

theorem older_message_moved_to_label_is_not_found_witness:
  "''moved'' \<notin> known_ids ''acc'' ''INBOX'' (fst (snd (gm_highest_uid (gmail_over moved_http) ''INBOX'' (sample_db, ()))))"
proof -
  let ?v = "page_answer [[''r2'', ''moved'', ''r1'']] (\<lambda>i. []) 0"
  have "get_json moved_http url () = (Inr ?v, ())" for url
    by (rule get_json_first) (simp add: get_json_once_def send_def moved_http_def pure_http_def check_def is_success_def)
  then have "known_ids ''acc'' ''INBOX'' (fst (snd (gm_highest_uid (gmail_over moved_http) ''INBOX'' (sample_db, ()))))
      = known_ids ''acc'' ''INBOX'' sample_db"
    using older_message_moved_to_label_is_not_found [of "gmail_over moved_http" "''INBOX''" sample_db None "()" ?v "()"]
    by (simp add: gmail_over_def backfill_state_def folder_at_def sample_defs page_answer_def token_at_def known_ids_def
          map_rows_def in_map_def)
  then show ?thesis by (simp add: known_ids_def map_rows_def in_map_def sample_defs)
qed

section \<open>IMAP\<close>

text \<open>Deleting one message for good sends a plain EXPUNGE: with it go all messages of the folder that carry
  the deleted flag, those left by a move that fell back to copying among them.\<close>

theorem permanent_deletion_expunges_the_folder:
  assumes "ic_store (im_client I) (show_nat uid) (''+FLAGS.SILENT ('' @ [CHR 0x5C] @ ''Deleted)'') box =
      (Inr (), map (\<lambda>(u, fl). if u = uid then (u, FDeleted # fl) else (u, fl)) box)"
    and "\<And>b. ic_expunge (im_client I) b = (Inr (), filter (\<lambda>(u, fl). FDeleted \<notin> set fl) b)"
  shows "expunge_uid I uid box = (Inr (), filter (\<lambda>(u, fl). u \<noteq> uid \<and> FDeleted \<notin> set fl) box)"
proof -
  have "filter (\<lambda>(u, fl). FDeleted \<notin> set fl) (map (\<lambda>(u, fl). if u = uid then (u, FDeleted # fl) else (u, fl)) box)
      = filter (\<lambda>(u, fl). u \<noteq> uid \<and> FDeleted \<notin> set fl) box"
    by (induction box) (simp_all split: prod.split)
  then show ?thesis unfolding expunge_uid_def assms(1) by (simp only: prod.case sum.case assms(2))
qed

definition box_client :: "(nat \<times> imap_flag list) list imap_client" where
  "box_client = \<lparr>ic_list = (\<lambda>s. (Inr [], s)), ic_select = (\<lambda>f s. (Inr (Some 7, length s), s)), ic_fetch = (\<lambda>u q s. (Inr [], s)),
     ic_store = (\<lambda>us q box. (Inr (), map (\<lambda>(u, fl). if show_nat u = us then (u, FDeleted # fl) else (u, fl)) box)),
     ic_move = (\<lambda>u d s. (Inl ''no'', s)), ic_copy = (\<lambda>u d s. (Inr (), s)),
     ic_expunge = (\<lambda>box. (Inr (), filter (\<lambda>(u, fl). FDeleted \<notin> set fl) box)), ic_append = (\<lambda>f fl raw s. (Inr (), s)),
     ic_raw = (\<lambda>q s. (Inr (''a1'', []), s))\<rparr>"

definition box_imap :: "(nat \<times> imap_flag list) list imap" where
  "box_imap = \<lparr>im_client = box_client, im_headers = (\<lambda>_. None), im_parse_header = (\<lambda>_. None), im_text = (\<lambda>s. s), im_now = ''2024''\<rparr>"

theorem permanent_deletion_expunges_the_folder_witness:
  "expunge_uid box_imap 3 [(1, []), (2, [FDeleted]), (3, [])] = (Inr (), [(1, [])])"
  by (subst permanent_deletion_expunges_the_folder)
     (auto simp: box_imap_def box_client_def fun_eq_iff dest: show_nat_inj)

text \<open>A complete fetch over IMAP asks for no envelope and no header section, so from a server that answers
  what it is asked every message comes without subject, sender, recipients, date and ids.\<close>

theorem full_fetch_has_no_envelope:
  assumes "\<And>uids s ms s'. ic_fetch (im_client I) uids full_items s = (Inr ms, s') \<Longrightarrow>
      \<forall>m \<in> set ms. fe_envelope m = None \<and> fe_header m = None"
    and "im_fetch_full I uids s = (Inr out, s')" "m \<in> set out"
  shows "fm_subject m = [] \<and> fm_from m = [] \<and> fm_to m = [] \<and> fm_date m = None \<and> fm_message_id m = None \<and> fm_references m = None"
proof -
  obtain ms where ms: "ic_fetch (im_client I) uids full_items s = (Inr ms, s')" "out = filter_some (map (parse_fetch I True) ms)"
    using assms(2) by (auto simp: im_fetch_full_def im_fetch_def split: prod.splits sum.splits)
  then obtain f where f: "f \<in> set ms" "parse_fetch I True f = Some m"
    using assms(3) by (auto simp: filter_some_def)
  have "fe_envelope f = None" "fe_header f = None" using assms(1) [OF ms(1)] f(1) by blast+
  then show ?thesis
    using f(2) by (auto simp: parse_fetch_def blank_message_def Let_def split: option.splits)
qed

definition one_message_imap :: "unit imap" where
  "one_message_imap = idle_imap\<lparr>im_client := idle_client\<lparr>ic_fetch := (\<lambda>uids q s. (Inr
     [\<lparr>fe_uid = Some 1, fe_date = None, fe_flags = [], fe_envelope = None, fe_header = None, fe_body = Some ''Subject: hello''\<rparr>], s))\<rparr>\<rparr>"

theorem full_fetch_has_no_envelope_witness:
  "\<exists>m. im_fetch_full one_message_imap ''1:*'' () = (Inr [m], ()) \<and> fm_body m = Some ''Subject: hello'' \<and> fm_subject m = []"
proof -
  obtain m where m: "im_fetch_full one_message_imap ''1:*'' () = (Inr [m], ())" "fm_body m = Some ''Subject: hello''"
    by (simp add: im_fetch_full_def im_fetch_def one_message_imap_def filter_some_def parse_fetch_def blank_message_def Let_def)
  have "fm_subject m = []"
    using full_fetch_has_no_envelope [OF _ m(1), of m]
    by (auto simp: one_message_imap_def)
  with m show ?thesis by blast
qed

end
