(* ===== verification/Calendar_Client.thy ===== *)
theory Calendar_Client
  imports Contact_Providers Tokens
begin

text \<open>
  The calendar clients (backend/calendar-sync/src/lib.rs): CalDAV discovery, reading and writing, Microsoft
  Graph, Google Calendar and Open-Xchange, the events they deliver, and the expansion of recurring events.

  A time is a \<open>moment\<close>, nanoseconds of UTC and the offset of its zone in seconds; \<open>chrono\<close> reads and renders
  it, and the times do not leave the range of \<open>chrono\<close>.  One reading of the clock, \<open>cl_now\<close>, serves an
  operation.  \<open>cl_build\<close> builds an HTTP client, \<open>cl_certificate\<close> gives the error of a certificate.
\<close>

type_synonym moment = "int \<times> int"

record tls_options =
  tl_any_certificate :: bool
  tl_any_hostname :: bool
  tl_root :: "string option"

record 's calendar_client =
  cl_certificate :: "string \<Rightarrow> string option"
  cl_build :: "tls_options \<Rightarrow> string + 's web"
  cl_quote :: "string \<Rightarrow> string"
  cl_parse_time :: "string \<Rightarrow> moment option"
  cl_show_time :: "moment \<Rightarrow> string"
  cl_compact_time :: "moment \<Rightarrow> string"
  cl_now :: int

definition utc :: "int \<Rightarrow> moment" where
  "utc t = (t, 0)"

definition quoted :: "string \<Rightarrow> string" where
  "quoted s = [CHR 0x22] @ s @ [CHR 0x22]"

definition client_with_tls_options :: "'s calendar_client \<Rightarrow> string option \<Rightarrow> bool \<Rightarrow> string + 's web" where
  "client_with_tls_options K cert lax =
     (let o' = \<lparr>tl_any_certificate = lax, tl_any_hostname = lax, tl_root = None\<rparr> in
      case cert of
        None \<Rightarrow> cl_build K o'
      | Some der \<Rightarrow>
          (case cl_certificate K der of
             Some e \<Rightarrow> Inl (''trusted certificate invalid: '' @ e)
           | None \<Rightarrow> cl_build K (o'\<lparr>tl_root := Some der, tl_any_hostname := True\<rparr>)))"

definition plain_client :: "'s calendar_client \<Rightarrow> string + 's web" where
  "plain_client K = client_with_tls_options K None False"

text \<open>An operation over a client that is built first.\<close>

definition with_client :: "(string + 's web) \<Rightarrow> ('s web \<Rightarrow> 's \<Rightarrow> (string + 'a) \<times> 's) \<Rightarrow> 's \<Rightarrow> (string + 'a) \<times> 's" where
  "with_client c f s = (case c of Inl e \<Rightarrow> (Inl e, s) | Inr W \<Rightarrow> f W s)"

definition caldav ::
  "'s web \<Rightarrow> string \<Rightarrow> string \<Rightarrow> dav_auth \<Rightarrow> string \<Rightarrow> string \<Rightarrow> 's \<Rightarrow> (string + string) \<times> 's"
where
  "caldav W meth url auth depth body s =
     (case wb_send W meth url [(''Depth'', depth), (''Content-Type'', xml_content), apply_auth W auth] body s of
        (Inl e, s') \<Rightarrow> (Inl (explain_transport_error e), s')
      | (Inr r, s') \<Rightarrow>
          (case rs_body r of
             Inl e \<Rightarrow> (Inl e, s')
           | Inr text \<Rightarrow>
               (if \<not> is_success (rs_status r) \<and> rs_status r \<noteq> 207
                then (Inl (''CalDAV '' @ meth @ '' '' @ url @ '' -> '' @ wb_reason W (rs_status r)), s')
                else (Inr text, s'))))"

section \<open>Walks over the XML\<close>

datatype resource_field = HrefField | EtagField | DataField

record resource_walk =
  rw_response :: bool
  rw_field :: "resource_field option"
  rw_href :: string
  rw_etag :: string
  rw_data :: string
  rw_buf :: string
  rw_out :: "(string \<times> string option \<times> string) list"

definition resource_start :: "string \<Rightarrow> resource_walk \<Rightarrow> resource_walk" where
  "resource_start n w =
     (if n = ''response'' then w\<lparr>rw_response := True, rw_href := [], rw_etag := [], rw_data := []\<rparr>
      else if n = ''href'' \<and> rw_response w \<and> rw_href w = [] then w\<lparr>rw_field := Some HrefField, rw_buf := []\<rparr>
      else if n = ''getetag'' \<and> rw_response w then w\<lparr>rw_field := Some EtagField, rw_buf := []\<rparr>
      else if n = ''calendar-data'' \<and> rw_response w then w\<lparr>rw_field := Some DataField, rw_buf := []\<rparr> else w)"

definition resource_text :: "string \<Rightarrow> resource_walk \<Rightarrow> resource_walk" where
  "resource_text t w = (if rw_field w = None then w else w\<lparr>rw_buf := rw_buf w @ t\<rparr>)"

definition resource_end :: "string \<Rightarrow> resource_walk \<Rightarrow> resource_walk" where
  "resource_end n w =
     (if n = ''href'' \<and> rw_field w = Some HrefField then w\<lparr>rw_href := trim (rw_buf w), rw_field := None\<rparr>
      else if n = ''getetag'' \<and> rw_field w = Some EtagField then w\<lparr>rw_etag := trim (rw_buf w), rw_field := None\<rparr>
      else if n = ''calendar-data'' \<and> rw_field w = Some DataField
      then w\<lparr>rw_data := rw_buf w, rw_buf := [], rw_field := None\<rparr>
      else if n = ''response''
      then (if contains_str ''VEVENT'' (rw_data w)
            then w\<lparr>rw_response := False, rw_data := [],
                   rw_out := rw_out w @ [(rw_href w, if rw_etag w = [] then None else Some (rw_etag w), rw_data w)]\<rparr>
            else w\<lparr>rw_response := False\<rparr>)
      else w)"

fun resource_event :: "xml_event \<Rightarrow> resource_walk \<Rightarrow> resource_walk" where
  "resource_event (XStart n) w = resource_start (local_name n) w"
| "resource_event (XText t) w = resource_text (or_empty t) w"
| "resource_event (XCData t) w = resource_text t w"
| "resource_event (XEnd n) w = resource_end (local_name n) w"
| "resource_event e w = w"

definition parse_calendar_responses :: "xml_event list \<Rightarrow> (string \<times> string option \<times> string) list" where
  "parse_calendar_responses es =
     rw_out (fold resource_event es
       \<lparr>rw_response = False, rw_field = None, rw_href = [], rw_etag = [], rw_data = [], rw_buf = [], rw_out = []\<rparr>)"

text \<open>The text of the first element with a local name; \<open>None\<close> before it starts.\<close>

fun first_text_walk :: "string \<Rightarrow> string option \<Rightarrow> xml_event list \<Rightarrow> string option" where
  "first_text_walk target buf [] = None"
| "first_text_walk target buf (XStart n # es) = first_text_walk target (if local_name n = target then Some [] else buf) es"
| "first_text_walk target buf (XText t # es) = first_text_walk target (map_option (\<lambda>b. b @ or_empty t) buf) es"
| "first_text_walk target buf (XCData t # es) = first_text_walk target (map_option (\<lambda>b. b @ t) buf) es"
| "first_text_walk target buf (XEnd n # es) =
     (if local_name n = target then optional_string (or_empty buf) else first_text_walk target buf es)"
| "first_text_walk target buf (e # es) = first_text_walk target buf es"

definition first_text_in_elem :: "'s web \<Rightarrow> string \<Rightarrow> string \<Rightarrow> string option" where
  "first_text_in_elem W xml target = first_text_walk target None (wb_xml W xml)"

record discovered_calendar =
  di_name :: string
  di_url :: string
  di_color :: "string option"

definition calendar_name :: "string \<Rightarrow> string" where
  "calendar_name href =
     (let seg = last (split_on CHR ''/'' (trim_end_by (\<lambda>c. c = CHR ''/'') href)) in
      if seg = [] then ''Calendar'' else seg)"

record collection_walk =
  lw_response :: bool
  lw_in_href :: bool
  lw_depth :: nat
  lw_prop :: "string option"
  lw_matched :: bool
  lw_href :: "string option"
  lw_name :: "string option"
  lw_color :: "string option"
  lw_buf :: string
  lw_out :: "discovered_calendar list"

definition collection_start :: "string \<Rightarrow> string \<Rightarrow> collection_walk \<Rightarrow> collection_walk" where
  "collection_start rtype n w =
     (if n = ''response''
      then w\<lparr>lw_response := True, lw_matched := False, lw_href := None, lw_name := None, lw_color := None\<rparr>
      else if lw_response w \<and> n = ''href'' \<and> lw_href w = None then w\<lparr>lw_in_href := True, lw_buf := []\<rparr>
      else if n = ''resourcetype'' then w\<lparr>lw_depth := lw_depth w + 1\<rparr>
      else if lw_depth w > 0 \<and> n = rtype then w\<lparr>lw_matched := True\<rparr>
      else if lw_response w \<and> (n = ''displayname'' \<or> n = ''calendar-color'') then w\<lparr>lw_prop := Some n, lw_buf := []\<rparr>
      else w)"

definition set_prop :: "string \<Rightarrow> collection_walk \<Rightarrow> collection_walk" where
  "set_prop n w =
     (let v = trim (lw_buf w) in
      if v = [] then w else if n = ''displayname'' then w\<lparr>lw_name := Some v\<rparr> else w\<lparr>lw_color := Some v\<rparr>)"

definition collection_end :: "string \<Rightarrow> collection_walk \<Rightarrow> collection_walk" where
  "collection_end n w =
     (if n = ''href'' \<and> lw_in_href w then w\<lparr>lw_href := Some (trim (lw_buf w)), lw_in_href := False\<rparr>
      else if n = ''resourcetype'' \<and> lw_depth w > 0 then w\<lparr>lw_depth := lw_depth w - 1\<rparr>
      else if lw_prop w = Some n then (set_prop n w)\<lparr>lw_prop := None\<rparr>
      else if n = ''response''
      then (case (lw_matched w, lw_href w) of
              (True, Some url) \<Rightarrow>
                w\<lparr>lw_response := False, lw_href := None, lw_name := None, lw_color := None, lw_out := lw_out w @
                  [\<lparr>di_name = (case lw_name w of Some m \<Rightarrow> m | None \<Rightarrow> calendar_name url), di_url = url, di_color = lw_color w\<rparr>]\<rparr>
            | _ \<Rightarrow> w\<lparr>lw_response := False\<rparr>)
      else w)"

fun collection_event :: "string \<Rightarrow> xml_event \<Rightarrow> collection_walk \<Rightarrow> collection_walk" where
  "collection_event rtype (XStart n) w = collection_start rtype (local_name n) w"
| "collection_event rtype (XEmpty n) w = (if lw_depth w > 0 \<and> local_name n = rtype then w\<lparr>lw_matched := True\<rparr> else w)"
| "collection_event rtype (XText t) w =
     (if lw_in_href w \<or> lw_prop w \<noteq> None then w\<lparr>lw_buf := lw_buf w @ or_empty t\<rparr> else w)"
| "collection_event rtype (XEnd n) w = collection_end (local_name n) w"
| "collection_event rtype e w = w"

definition calendars_with_resourcetype :: "xml_event list \<Rightarrow> string \<Rightarrow> discovered_calendar list" where
  "calendars_with_resourcetype es rtype =
     lw_out (fold (collection_event rtype) es
       \<lparr>lw_response = False, lw_in_href = False, lw_depth = 0, lw_prop = None, lw_matched = False, lw_href = None,
        lw_name = None, lw_color = None, lw_buf = [], lw_out = []\<rparr>)"

section \<open>CalDAV\<close>

definition collections_body :: string where
  "collections_body = ''<d:propfind xmlns:d='' @ quoted ''DAV:'' @ '' xmlns:a='' @ quoted ''http://apple.com/ns/ical/''
     @ ''><d:prop><d:resourcetype/><d:displayname/><a:calendar-color/></d:prop></d:propfind>''"

definition resolve_calendars :: "'s web \<Rightarrow> string \<Rightarrow> discovered_calendar list \<Rightarrow> discovered_calendar list" where
  "resolve_calendars W base cs =
     filter_some (map (\<lambda>c. map_option (\<lambda>u. c\<lparr>di_url := u\<rparr>) (wb_join W base (di_url c))) cs)"

definition discover_calendar_collections_at ::
  "'s web \<Rightarrow> string \<Rightarrow> dav_auth \<Rightarrow> 's \<Rightarrow> (string + discovered_calendar list) \<times> 's"
where
  "discover_calendar_collections_at W base auth s =
     (case (case caldav W ''PROPFIND'' base auth ''1'' collections_body s of
              (Inr xml, s1) \<Rightarrow> (Inr xml, s1)
            | (Inl _, s1) \<Rightarrow> caldav W ''PROPFIND'' base auth ''0'' collections_body s1) of
        (Inl e, s2) \<Rightarrow> (Inl (''calendar collection discovery failed: '' @ e), s2)
      | (Inr xml, s2) \<Rightarrow>
          (let cs = resolve_calendars W base (calendars_with_resourcetype (wb_xml W xml) ''calendar'') in
           (if cs = [] then Inl ''no calendar collections found'' else Inr cs, s2)))"

definition direct_scan ::
  "'s web \<Rightarrow> string \<Rightarrow> dav_auth \<Rightarrow> string \<Rightarrow> 's \<Rightarrow> (string + discovered_calendar list) \<times> 's"
where
  "direct_scan W base auth why s =
     (case discover_calendar_collections_at W base auth s of
        (Inl e, s') \<Rightarrow> (Inl (why @ ''; direct scan failed: '' @ e), s')
      | (Inr cs, s') \<Rightarrow> (Inr cs, s'))"

definition calendar_home_body :: string where
  "calendar_home_body = ''<d:propfind xmlns:d='' @ quoted ''DAV:'' @ '' xmlns:c='' @ quoted ''urn:ietf:params:xml:ns:caldav''
     @ ''><d:prop><c:calendar-home-set/></d:prop></d:propfind>''"

definition discover_calendars ::
  "'s web \<Rightarrow> string \<Rightarrow> dav_auth \<Rightarrow> 's \<Rightarrow> (string + discovered_calendar list) \<times> 's"
where
  "discover_calendars W base auth s =
     (case caldav W ''PROPFIND'' base auth ''0'' (dav_prop ''<d:current-user-principal/>'') s of
        (Inl e, s1) \<Rightarrow> direct_scan W base auth (''principal discovery failed: '' @ e) s1
      | (Inr xml, s1) \<Rightarrow>
     (case first_href_in_elem W xml ''current-user-principal'' of
        None \<Rightarrow> direct_scan W base auth ''current-user-principal not found'' s1
      | Some href \<Rightarrow>
     (case wb_join W base href of
        None \<Rightarrow> (Inl ''current-user-principal URL is invalid'', s1)
      | Some owner \<Rightarrow>
     (case caldav W ''PROPFIND'' owner auth ''0'' calendar_home_body s1 of
        (Inl e, s2) \<Rightarrow> direct_scan W base auth (''calendar-home-set discovery failed: '' @ e) s2
      | (Inr xml2, s2) \<Rightarrow>
     (case first_href_in_elem W xml2 ''calendar-home-set'' of
        None \<Rightarrow> direct_scan W base auth ''calendar-home-set not found'' s2
      | Some href2 \<Rightarrow>
     (case wb_join W base href2 of
        None \<Rightarrow> (Inl ''calendar-home-set URL is invalid'', s2)
      | Some home \<Rightarrow> discover_calendar_collections_at W home auth s2))))))"

definition discover_collections_with_tls_options ::
  "'s calendar_client \<Rightarrow> string \<Rightarrow> dav_auth \<Rightarrow> string option \<Rightarrow> bool \<Rightarrow> 's \<Rightarrow> (string + discovered_calendar list) \<times> 's"
where
  "discover_collections_with_tls_options K base auth cert lax =
     with_client (client_with_tls_options K cert lax) (\<lambda>W. discover_calendars W base auth)"

definition discover_collection :: "'s calendar_client \<Rightarrow> string \<Rightarrow> dav_auth \<Rightarrow> 's \<Rightarrow> (string + string) \<times> 's" where
  "discover_collection K base auth =
     with_client (plain_client K) (\<lambda>W s.
       case discover_calendars W base auth s of
         (Inr (c # _), s') \<Rightarrow> (Inr (di_url c), s')
       | (_, s') \<Rightarrow> (Inr base, s'))"

definition time_range :: "'s calendar_client \<Rightarrow> int option \<Rightarrow> int option \<Rightarrow> string" where
  "time_range K from till =
     (case (from, till) of
        (Some a, Some b) \<Rightarrow> ''<C:time-range start='' @ quoted (cl_compact_time K (utc a)) @ '' end=''
            @ quoted (cl_compact_time K (utc b)) @ ''/>''
      | _ \<Rightarrow> [])"

definition calendar_query :: "string \<Rightarrow> string" where
  "calendar_query window = ''<?xml version='' @ quoted ''1.0'' @ '' encoding='' @ quoted ''utf-8'' @ ''?>'' @ [lf]
     @ ''<C:calendar-query xmlns:D='' @ quoted ''DAV:'' @ '' xmlns:C='' @ quoted ''urn:ietf:params:xml:ns:caldav'' @ ''>'' @ [lf]
     @ ''  <D:prop><D:getetag/><C:calendar-data/></D:prop>'' @ [lf]
     @ ''  <C:filter><C:comp-filter name='' @ quoted ''VCALENDAR'' @ ''><C:comp-filter name='' @ quoted ''VEVENT'' @ ''>''
     @ window @ ''</C:comp-filter></C:comp-filter></C:filter>'' @ [lf] @ ''</C:calendar-query>''"

text \<open>An event with the address and tag of its resource.\<close>

record remote_event = parsed_event +
  ev_href :: "string option"
  ev_etag :: "string option"

definition located :: "string option \<Rightarrow> string option \<Rightarrow> parsed_event \<Rightarrow> remote_event" where
  "located href etag ev = parsed_event.extend ev \<lparr>ev_href = href, ev_etag = etag\<rparr>"

definition events_of_resource :: "'s web \<Rightarrow> string \<Rightarrow> string \<times> string option \<times> string \<Rightarrow> remote_event list" where
  "events_of_resource W url r =
     (case r of (href, etag, ics) \<Rightarrow>
        map (located (Some (case wb_join W url href of Some u \<Rightarrow> u | None \<Rightarrow> href)) etag) (parse_icalendar_events (wb_to_json W) ics))"

definition pull_range_with_tls_options ::
  "'s calendar_client \<Rightarrow> string \<Rightarrow> dav_auth \<Rightarrow> int option \<Rightarrow> int option \<Rightarrow> string option \<Rightarrow> bool \<Rightarrow> 's
     \<Rightarrow> (string + remote_event list) \<times> 's"
where
  "pull_range_with_tls_options K url auth from till cert lax =
     with_client (client_with_tls_options K cert lax) (\<lambda>W s.
       case caldav W ''REPORT'' url auth ''1'' (calendar_query (time_range K from till)) s of
         (Inl e, s') \<Rightarrow> (Inl e, s')
       | (Inr xml, s') \<Rightarrow> (Inr (concat (map (events_of_resource W url) (parse_calendar_responses (wb_xml W xml)))), s'))"

definition ctag_body :: string where
  "ctag_body = ''<?xml version='' @ quoted ''1.0'' @ '' encoding='' @ quoted ''utf-8'' @ ''?>'' @ [lf]
     @ ''<D:propfind xmlns:D='' @ quoted ''DAV:'' @ '' xmlns:CS='' @ quoted ''http://calendarserver.org/ns/'' @ ''>'' @ [lf]
     @ ''  <D:prop><CS:getctag/></D:prop>'' @ [lf] @ ''</D:propfind>''"

definition collection_ctag_with_tls_options ::
  "'s calendar_client \<Rightarrow> string \<Rightarrow> dav_auth \<Rightarrow> string option \<Rightarrow> bool \<Rightarrow> 's \<Rightarrow> (string + string option) \<times> 's"
where
  "collection_ctag_with_tls_options K url auth cert lax =
     with_client (client_with_tls_options K cert lax) (\<lambda>W s.
       case caldav W ''PROPFIND'' url auth ''0'' ctag_body s of
         (Inl e, s') \<Rightarrow> (Inl e, s')
       | (Inr xml, s') \<Rightarrow> (Inr (first_text_in_elem W xml ''getctag''), s'))"

definition if_match_header :: "string option \<Rightarrow> (string \<times> string) list" where
  "if_match_header tag = (case tag of None \<Rightarrow> [] | Some t \<Rightarrow> [(''If-Match'', t)])"

definition put_event_with_client ::
  "'s web \<Rightarrow> string \<Rightarrow> dav_auth \<Rightarrow> string \<Rightarrow> string option \<Rightarrow> 's \<Rightarrow> (string + string option) \<times> 's"
where
  "put_event_with_client W url auth ics tag s =
     (case wb_send W ''PUT'' url ([(''Content-Type'', ''text/calendar; charset=utf-8'')] @ if_match_header tag @ [apply_auth W auth]) ics s of
        (Inl e, s') \<Rightarrow> (Inl (explain_transport_error e), s')
      | (Inr r, s') \<Rightarrow>
          (if is_success (rs_status r) then (Inr (rs_header r ''ETag''), s')
           else (Inl (''CalDAV PUT '' @ url @ '' -> '' @ wb_reason W (rs_status r)), s')))"

definition put_event ::
  "'s calendar_client \<Rightarrow> string \<Rightarrow> dav_auth \<Rightarrow> string \<Rightarrow> string option \<Rightarrow> 's \<Rightarrow> (string + string option) \<times> 's"
where
  "put_event K url auth ics tag = with_client (plain_client K) (\<lambda>W. put_event_with_client W url auth ics tag)"

definition delete_event_with_client ::
  "'s web \<Rightarrow> string \<Rightarrow> dav_auth \<Rightarrow> string option \<Rightarrow> 's \<Rightarrow> (string + unit) \<times> 's"
where
  "delete_event_with_client W url auth tag s =
     (case wb_send W ''DELETE'' url (if_match_header tag @ [apply_auth W auth]) [] s of
        (Inl e, s') \<Rightarrow> (Inl (explain_transport_error e), s')
      | (Inr r, s') \<Rightarrow>
          (if is_success (rs_status r) \<or> rs_status r = 404 \<or> rs_status r = 410 then (Inr (), s')
           else (Inl (''CalDAV DELETE '' @ url @ '' -> '' @ wb_reason W (rs_status r)), s')))"

definition delete_remote_event ::
  "'s calendar_client \<Rightarrow> string \<Rightarrow> dav_auth \<Rightarrow> string option \<Rightarrow> 's \<Rightarrow> (string + unit) \<times> 's"
where
  "delete_remote_event K url auth tag = with_client (plain_client K) (\<lambda>W. delete_event_with_client W url auth tag)"

section \<open>Events of the other providers\<close>

text \<open>A time without a zone is taken as UTC, a date as its midnight, and no time as the present.\<close>

definition ensure_tz :: "'s calendar_client \<Rightarrow> string \<Rightarrow> string" where
  "ensure_tz K v =
     (if v = [] then cl_show_time K (utc (cl_now K))
      else if ends_with ''Z'' v \<or> CHR ''+'' \<in> set v
        \<or> (case rsplit_once CHR ''-'' v of None \<Rightarrow> False | Some (_, tail) \<Rightarrow> CHR '':'' \<in> set tail) then v
      else if length v = 10 then v @ ''T00:00:00Z'' else v @ ''Z'')"

definition str_or :: "json \<Rightarrow> string \<Rightarrow> string" where
  "str_or j d = (case as_str j of Some s \<Rightarrow> s | None \<Rightarrow> d)"

definition first_str :: "json \<Rightarrow> json \<Rightarrow> string \<Rightarrow> string" where
  "first_str a b d = (case as_str a of Some s \<Rightarrow> s | None \<Rightarrow> str_or b d)"

definition plain_attendee :: "string \<Rightarrow> string \<Rightarrow> string \<Rightarrow> json" where
  "plain_attendee email name partstat =
     JObj [(''email'', JStr email), (''name'', JStr name), (''partstat'', JStr partstat)]"

definition graph_attendee :: "json \<Rightarrow> json" where
  "graph_attendee a = (let m = jget a ''emailAddress'' in
     plain_attendee (str_or (jget m ''address'') []) (str_or (jget m ''name'') [])
       (str_or (jget (jget a ''status'') ''response'') ''needsAction''))"

definition graph_event :: "'s calendar_client \<Rightarrow> (json \<Rightarrow> string) \<Rightarrow> json \<Rightarrow> remote_event" where
  "graph_event K to_js item =
     (let start = str_or (jget (jget item ''start'') ''dateTime'') [];
          stop = str_or (jget (jget item ''end'') ''dateTime'') start;
          organizer = jget (jget item ''organizer'') ''emailAddress''
      in \<lparr>ev_uid = first_str (jget item ''iCalUId'') (jget item ''id'') [],
          ev_title = str_or (jget item ''subject'') ''(No title)'',
          ev_starts_at = ensure_tz K start, ev_ends_at = ensure_tz K stop,
          ev_all_day = (as_bool (jget item ''isAllDay'') = Some True),
          ev_location = as_str (jget (jget item ''location'') ''displayName''),
          ev_description = as_str (jget item ''bodyPreview''),
          ev_rrule = None, ev_rrule_uid = None, ev_recurrence_id = None,
          ev_status = as_str (jget item ''showAs''),
          ev_organizer_email = as_str (jget organizer ''address''), ev_organizer_name = as_str (jget organizer ''name''),
          ev_attendees_json = Some (to_js (JArr (map graph_attendee (as_array (jget item ''attendees''))))),
          ev_busystatus = as_str (jget item ''showAs''),
          ev_teams_url = as_str (jget (jget item ''onlineMeeting'') ''joinUrl''), ev_raw = None,
          ev_href = as_str (jget item ''id''), ev_etag = as_str (jget item ''@odata.etag'')\<rparr>)"

definition google_attendee :: "json \<Rightarrow> json" where
  "google_attendee a = plain_attendee (str_or (jget a ''email'') []) (str_or (jget a ''displayName'') [])
     (str_or (jget a ''responseStatus'') ''needsAction'')"

definition strip_rrule :: "string \<Rightarrow> string" where
  "strip_rrule r = trim_start_matches ''RRULE:'' (length r) r"

definition google_event :: "'s calendar_client \<Rightarrow> (json \<Rightarrow> string) \<Rightarrow> json \<Rightarrow> remote_event" where
  "google_event K to_js item =
     (let start = first_str (jget (jget item ''start'') ''dateTime'') (jget (jget item ''start'') ''date'') [];
          stop = first_str (jget (jget item ''end'') ''dateTime'') (jget (jget item ''end'') ''date'') start
      in \<lparr>ev_uid = first_str (jget item ''iCalUID'') (jget item ''id'') [],
          ev_title = str_or (jget item ''summary'') ''(No title)'',
          ev_starts_at = ensure_tz K start, ev_ends_at = ensure_tz K stop,
          ev_all_day = (as_str (jget (jget item ''start'') ''date'') \<noteq> None),
          ev_location = as_str (jget item ''location''), ev_description = as_str (jget item ''description''),
          ev_rrule = map_option strip_rrule (Option.bind (first_of (as_array (jget item ''recurrence''))) as_str),
          ev_rrule_uid = None, ev_recurrence_id = as_str (jget item ''recurringEventId''),
          ev_status = as_str (jget item ''status''),
          ev_organizer_email = as_str (jget (jget item ''organizer'') ''email''),
          ev_organizer_name = as_str (jget (jget item ''organizer'') ''displayName''),
          ev_attendees_json = Some (to_js (JArr (map google_attendee (as_array (jget item ''attendees''))))),
          ev_busystatus = None, ev_teams_url = None, ev_raw = None,
          ev_href = as_str (jget item ''id''), ev_etag = as_str (jget item ''etag'')\<rparr>)"

definition show_int :: "int \<Rightarrow> string" where
  "show_int n = (if n < 0 then ''-'' @ show_nat (nat (- n)) else show_nat (nat n))"

definition ox_event :: "'s calendar_client \<Rightarrow> (json \<Rightarrow> string) \<Rightarrow> json \<Rightarrow> remote_event" where
  "ox_event K to_js item =
     (let start = jget item ''startDate'' in
      \<lparr>ev_uid = first_str (jget item ''uid'') (jget item ''id'') [],
       ev_title = first_str (jget item ''summary'') (jget item ''title'') ''(No title)'',
       ev_starts_at = ensure_tz K (first_str (jget start ''value'') (jget item ''start'') []),
       ev_ends_at = ensure_tz K (first_str (jget (jget item ''endDate'') ''value'') (jget item ''end'') []),
       ev_all_day = (as_str (jget start ''tzid'') = Some ''UTC''
         \<and> (case as_str (jget start ''value'') of None \<Rightarrow> False | Some v \<Rightarrow> length v \<le> 10)),
       ev_location = as_str (jget item ''location''), ev_description = as_str (jget item ''description''),
       ev_rrule = as_str (jget item ''rrule''), ev_rrule_uid = None, ev_recurrence_id = as_str (jget item ''recurrenceId''),
       ev_status = as_str (jget item ''status''), ev_organizer_email = as_str (jget item ''organizer''),
       ev_organizer_name = None, ev_attendees_json = Some (to_js (JArr (as_array (jget item ''attendees'')))),
       ev_busystatus = None, ev_teams_url = None, ev_raw = None, ev_href = as_str (jget item ''id''),
       ev_etag = map_option show_int (as_i64 (jget item ''timestamp''))\<rparr>)"

definition graph_event_body :: "event_input \<Rightarrow> json" where
  "graph_event_body ev = JObj
     [(''subject'', JStr (ei_title ev)),
      (''body'', JObj [(''contentType'', JStr ''text''), (''content'', JStr (or_empty (ei_description ev)))]),
      (''start'', JObj [(''dateTime'', JStr (ei_starts_at ev)), (''timeZone'', JStr ''UTC'')]),
      (''end'', JObj [(''dateTime'', JStr (ei_ends_at ev)), (''timeZone'', JStr ''UTC'')]),
      (''location'', JObj [(''displayName'', JStr (or_empty (ei_location ev)))]),
      (''isAllDay'', JBool (ei_all_day ev))]"

definition google_time :: "bool \<Rightarrow> string \<Rightarrow> json" where
  "google_time all_day v = (if all_day then JObj [(''date'', JStr (take 10 v))] else JObj [(''dateTime'', JStr v)])"

definition google_event_body :: "event_input \<Rightarrow> json" where
  "google_event_body ev = JObj
     [(''summary'', JStr (ei_title ev)), (''description'', JStr (or_empty (ei_description ev))),
      (''location'', JStr (or_empty (ei_location ev))),
      (''start'', google_time (ei_all_day ev) (ei_starts_at ev)), (''end'', google_time (ei_all_day ev) (ei_ends_at ev)),
      (''recurrence'', (case ei_rrule ev of None \<Rightarrow> JNull | Some r \<Rightarrow> JArr [JStr (''RRULE:'' @ strip_rrule r)]))]"

section \<open>Graph, Google and Open-Xchange\<close>

definition event_json :: "'s web \<Rightarrow> string \<Rightarrow> string \<Rightarrow> 's \<Rightarrow> (string + json) \<times> 's" where
  "event_json W url tok s =
     (case wb_send W ''GET'' url [apply_auth W (Bearer tok)] [] s of
        (Inl e, s') \<Rightarrow> (Inl (explain_transport_error e), s')
      | (Inr r, s') \<Rightarrow>
          (if \<not> is_success (rs_status r) then (Inl (url @ '' -> '' @ wb_reason W (rs_status r)), s')
           else (case rs_body r of
                   Inl e \<Rightarrow> (Inl e, s')
                 | Inr text \<Rightarrow> ((case wb_of_json W text of None \<Rightarrow> Inl (wb_decode_error W text) | Some j \<Rightarrow> Inr j), s'))))"

record sync_result =
  sy_calendars :: "discovered_calendar list"
  sy_events :: "remote_event list"
  sy_token :: "string option"

definition graph_calendar :: "json \<Rightarrow> discovered_calendar" where
  "graph_calendar item = \<lparr>di_name = str_or (jget item ''name'') ''Calendar'', di_url = str_or (jget item ''id'') [],
     di_color = as_str (jget item ''hexColor'')\<rparr>"

definition graph_sync ::
  "'s calendar_client \<Rightarrow> string \<Rightarrow> int \<Rightarrow> int \<Rightarrow> string option \<Rightarrow> 's \<Rightarrow> (string + sync_result) \<times> 's"
where
  "graph_sync K tok from till delta_link = with_client (plain_client K) (\<lambda>W s.
     case event_json W ''https://graph.microsoft.com/v1.0/me/calendars'' tok s of
       (Inl e, s1) \<Rightarrow> (Inl e, s1)
     | (Inr cals, s1) \<Rightarrow>
         (let url = (case delta_link of Some l \<Rightarrow> l
              | None \<Rightarrow> ''https://graph.microsoft.com/v1.0/me/calendarView/delta?startDateTime='' @ cl_show_time K (utc from)
                  @ ''&endDateTime='' @ cl_show_time K (utc till)) in
          case event_json W url tok s1 of
            (Inl e, s2) \<Rightarrow> (Inl e, s2)
          | (Inr j, s2) \<Rightarrow> (Inr \<lparr>sy_calendars = map graph_calendar (as_array (jget cals ''value'')),
                sy_events = map (graph_event K (wb_to_json W)) (as_array (jget j ''value'')),
                sy_token = as_str (jget j ''@odata.deltaLink'')\<rparr>, s2)))"

definition google_calendar :: "json \<Rightarrow> discovered_calendar" where
  "google_calendar item = \<lparr>di_name = str_or (jget item ''summary'') ''Calendar'', di_url = str_or (jget item ''id'') ''primary'',
     di_color = as_str (jget item ''backgroundColor'')\<rparr>"

definition google_base :: "'s calendar_client \<Rightarrow> string \<Rightarrow> string" where
  "google_base K cal = ''https://www.googleapis.com/calendar/v3/calendars/'' @ cl_quote K cal @ ''/events''"

fun google_results ::
  "'s calendar_client \<Rightarrow> 's web \<Rightarrow> string \<Rightarrow> int \<Rightarrow> int \<Rightarrow> discovered_calendar list \<Rightarrow> 's \<Rightarrow> (string + sync_result list) \<times> 's"
where
  "google_results K W tok from till [] s = (Inr [], s)"
| "google_results K W tok from till (c # cs) s =
     (case event_json W (google_base K (di_url c) @ ''?singleEvents=false&maxResults=2500&timeMin=''
              @ cl_quote K (cl_show_time K (utc from)) @ ''&timeMax='' @ cl_quote K (cl_show_time K (utc till))) tok s of
        (Inl e, s1) \<Rightarrow> (Inl e, s1)
      | (Inr j, s1) \<Rightarrow>
          (case google_results K W tok from till cs s1 of
             (Inl e, s2) \<Rightarrow> (Inl e, s2)
           | (Inr rs, s2) \<Rightarrow> (Inr (\<lparr>sy_calendars = [c], sy_events = map (google_event K (wb_to_json W)) (as_array (jget j ''items'')),
                sy_token = as_str (jget j ''nextSyncToken'')\<rparr> # rs), s2)))"

definition google_sync ::
  "'s calendar_client \<Rightarrow> string \<Rightarrow> int \<Rightarrow> int \<Rightarrow> 's \<Rightarrow> (string + sync_result list) \<times> 's"
where
  "google_sync K tok from till = with_client (plain_client K) (\<lambda>W s.
     case event_json W ''https://www.googleapis.com/calendar/v3/users/me/calendarList?maxResults=250'' tok s of
       (Inl e, s1) \<Rightarrow> (Inl e, s1)
     | (Inr cals, s1) \<Rightarrow>
         google_results K W tok from till
           (map google_calendar (filter (\<lambda>i. as_str (jget i ''accessRole'') \<noteq> Some ''freeBusyReader'') (as_array (jget cals ''items'')))) s1)"

text \<open>A write answers with the id of the event, a deletion with nothing; \<open>name\<close> is the provider in errors.\<close>

definition write_call ::
  "string \<Rightarrow> 's web \<Rightarrow> string \<Rightarrow> string \<Rightarrow> json option \<Rightarrow> string \<Rightarrow> 's \<Rightarrow> (string + string option) \<times> 's"
where
  "write_call name W meth url body tok s =
     (case wb_send W meth url [apply_auth W (Bearer tok)] (case body of None \<Rightarrow> [] | Some j \<Rightarrow> wb_to_json W j) s of
        (Inl e, s') \<Rightarrow> (Inl (failure_text e), s')
      | (Inr r, s') \<Rightarrow>
          (if \<not> is_success (rs_status r) then (Inl (name @ '' write -> '' @ wb_reason W (rs_status r)), s')
           else if meth = ''DELETE'' then (Inr None, s')
           else (case rs_body r of
                   Inl e \<Rightarrow> (Inl e, s')
                 | Inr text \<Rightarrow> ((case wb_of_json W text of None \<Rightarrow> Inl (wb_decode_error W text) | Some j \<Rightarrow> Inr (as_str (jget j ''id''))), s'))))"

definition graph_write ::
  "'s calendar_client \<Rightarrow> string \<Rightarrow> string option \<Rightarrow> event_input \<Rightarrow> bool \<Rightarrow> 's \<Rightarrow> (string + string option) \<times> 's"
where
  "graph_write K tok remote ev del = with_client (plain_client K) (\<lambda>W.
     let url = ''https://graph.microsoft.com/v1.0/me/events'' @ (case remote of None \<Rightarrow> [] | Some i \<Rightarrow> ''/'' @ i) in
     if del then write_call ''Graph'' W ''DELETE'' url None tok
     else if remote \<noteq> None then write_call ''Graph'' W ''PATCH'' url (Some (graph_event_body ev)) tok
     else write_call ''Graph'' W ''POST'' url (Some (graph_event_body ev)) tok)"

definition google_write ::
  "'s calendar_client \<Rightarrow> string \<Rightarrow> string \<Rightarrow> string option \<Rightarrow> event_input \<Rightarrow> bool \<Rightarrow> 's \<Rightarrow> (string + string option) \<times> 's"
where
  "google_write K tok cal remote ev del = with_client (plain_client K) (\<lambda>W.
     let url = google_base K cal @ (case remote of None \<Rightarrow> [] | Some i \<Rightarrow> ''/'' @ cl_quote K i) in
     if del then write_call ''Google'' W ''DELETE'' url None tok
     else if remote \<noteq> None then write_call ''Google'' W ''PUT'' url (Some (google_event_body ev)) tok
     else write_call ''Google'' W ''POST'' url (Some (google_event_body ev)) tok)"

definition ox_sync :: "'s calendar_client \<Rightarrow> string \<Rightarrow> dav_auth \<Rightarrow> 's \<Rightarrow> (string + sync_result) \<times> 's" where
  "ox_sync K base auth = with_client (plain_client K) (\<lambda>W s.
     case wb_send W ''GET'' (trim_end_by (\<lambda>c. c = CHR ''/'') base @ ''/api/chronos?action=all'') [apply_auth W auth] [] s of
       (Inl e, s') \<Rightarrow> (Inl (explain_transport_error e), s')
     | (Inr r, s') \<Rightarrow>
         (if \<not> is_success (rs_status r) then (Inl (''OX chronos -> '' @ wb_reason W (rs_status r)), s')
          else (case rs_body r of
                  Inl e \<Rightarrow> (Inl e, s')
                | Inr text \<Rightarrow> ((case wb_of_json W text of
                    None \<Rightarrow> Inl (wb_decode_error W text)
                  | Some j \<Rightarrow> Inr \<lparr>sy_calendars = [\<lparr>di_name = ''Open-Xchange'', di_url = base, di_color = None\<rparr>],
                        sy_events = map (ox_event K (wb_to_json W)) (as_array (jget j ''data'')), sy_token = None\<rparr>), s'))))"

section \<open>Recurring events\<close>

fun find_rrule_param :: "string \<Rightarrow> string list \<Rightarrow> string option" where
  "find_rrule_param name [] = None"
| "find_rrule_param name (p # ps) =
     (case split_once CHR ''='' p of
        Some (k, v) \<Rightarrow> if to_lower k = to_lower name then Some (to_upper v) else find_rrule_param name ps
      | None \<Rightarrow> find_rrule_param name ps)"

definition rrule_param :: "string \<Rightarrow> string \<Rightarrow> string option" where
  "rrule_param rrule name = find_rrule_param name (split_on CHR '';'' rrule)"

definition day_ns :: int where
  "day_ns = 86400 * 1000000000"

definition rrule_days :: "string \<Rightarrow> int" where
  "rrule_days freq = (if freq = ''WEEKLY'' then 7 else if freq = ''MONTHLY'' then 30 else if freq = ''YEARLY'' then 365 else 1)"

definition occurrence ::
  "'s calendar_client \<Rightarrow> 'e parsed_event_scheme \<Rightarrow> moment \<Rightarrow> int \<Rightarrow> int \<Rightarrow> 'e parsed_event_scheme"
where
  "occurrence K ev start duration offset =
     (let begins = cl_show_time K (fst start + offset, snd start) in
      ev\<lparr>ev_rrule_uid := None, ev_starts_at := begins,
         ev_ends_at := cl_show_time K (fst start + offset + duration, snd start), ev_recurrence_id := Some begins\<rparr>)"

text \<open>\<open>n\<close> occurrences from number \<open>i\<close> on, up to the first beyond \<open>till\<close>.\<close>

fun occurrences ::
  "'s calendar_client \<Rightarrow> 'e parsed_event_scheme \<Rightarrow> moment \<Rightarrow> int \<Rightarrow> int \<Rightarrow> int \<Rightarrow> nat \<Rightarrow> nat \<Rightarrow> 'e parsed_event_scheme list"
where
  "occurrences K ev start duration step till n i =
     (if n = 0 \<or> till < fst start + step * int i then []
      else occurrence K ev start duration (step * int i) # occurrences K ev start duration step till (n - 1) (i + 1))"

declare occurrences.simps [simp del]

definition rrule_count :: "string \<Rightarrow> nat" where
  "rrule_count rrule = (case Option.bind (rrule_param rrule ''COUNT'') parse_u64 of Some n \<Rightarrow> n | None \<Rightarrow> 256)"

definition expand_rrule :: "'s calendar_client \<Rightarrow> int \<Rightarrow> 'e parsed_event_scheme \<Rightarrow> 'e parsed_event_scheme list" where
  "expand_rrule K window_days ev =
     (case ev_rrule ev of
        None \<Rightarrow> [ev]
      | Some rrule \<Rightarrow>
          (case (cl_parse_time K (ensure_tz K (ev_starts_at ev)), cl_parse_time K (ensure_tz K (ev_ends_at ev))) of
             (Some start, Some stop) \<Rightarrow>
               occurrences K ev start (fst stop - fst start)
                 (day_ns * rrule_days (case rrule_param rrule ''FREQ'' of Some f \<Rightarrow> f | None \<Rightarrow> ''DAILY''))
                 (cl_now K + day_ns * window_days) (rrule_count rrule) 0
           | _ \<Rightarrow> [ev]))"

end
