(* ===== verification/Smtp.thy ===== *)
theory Smtp
  imports Handlers
begin

text \<open>
  Outgoing mail (backend/smtp/src/lib.rs): the message built for a request, and the transport it is
  delivered over.

  The library \<open>lettre\<close> is the parameter \<open>lettre\<close>: parsing of mailboxes and content types, and the
  completion of a built message, whose bytes and Message-ID are read off.  A message under construction is
  \<open>outgoing\<close>, with the parts of its body as a tree.  \<open>lt_deliver\<close> sends the message to its
  recipients over a transport.  \<open>lt_certificate\<close>, \<open>lt_tls\<close> and \<open>lt_relay\<close> give the error of a trusted certificate,
  of the TLS parameters and of the relay, if any.
\<close>

datatype smtp_error = Build string | Send string | Attachment string

fun smtp_error_text :: "smtp_error \<Rightarrow> string" where
  "smtp_error_text (Build e) = ''build error: '' @ e"
| "smtp_error_text (Send e) = ''send error: '' @ e"
| "smtp_error_text (Attachment e) = ''attachment decode error: '' @ e"

record attachment_data =
  ad_filename :: string
  ad_content_type :: string
  ad_data :: string

record send_request =
  sr_from :: string
  sr_to :: "string list"
  sr_cc :: "string list"
  sr_bcc :: "string list"
  sr_subject :: string
  sr_body_text :: "string option"
  sr_body_html :: "string option"
  sr_pgp_mime_mode :: "string option"
  sr_pgp_signature :: "string option"
  sr_calendar_method :: "string option"
  sr_calendar_ics :: "string option"
  sr_in_reply_to :: "string option"
  sr_references :: "string option"
  sr_attachments :: "attachment_data list"
  sr_host :: string
  sr_port :: nat
  sr_user :: string
  sr_pass :: string
  sr_oauth_token :: "string option"
  sr_auth_scheme :: string
  sr_trusted_cert :: "string option"

section \<open>The message\<close>

datatype disposition = Inline string | Attached string

datatype multipart_kind = Mixed | Alternative | Encrypted string | Signed string string

datatype out_part =
    Plain string
  | Html string
  | Single string "disposition option" string
  | Multi multipart_kind "out_part list"

text \<open>The body of a message is a text without a content type of its own, or a part.\<close>

datatype out_body = Text string | Part out_part

record outgoing =
  og_from :: string
  og_subject :: string
  og_to :: "string list"
  og_cc :: "string list"
  og_bcc :: "string list"
  og_in_reply_to :: "string option"
  og_references :: "string option"
  og_body :: out_body

datatype tls_mode = Wrapper | Required

record transport =
  tr_host :: string
  tr_port :: nat
  tr_tls :: tls_mode
  tr_root :: "string option"
  tr_any_hostname :: bool
  tr_credentials :: "string \<times> string"
  tr_plain_only :: bool
  tr_timeout :: nat

record ('m, 's) lettre =
  lt_mailbox :: "string \<Rightarrow> string + string"
  lt_content_type :: "string \<Rightarrow> string option"
  lt_decode :: "string \<Rightarrow> string + string"
  lt_encode :: "string \<Rightarrow> string"
  lt_build :: "outgoing \<Rightarrow> string + 'm"
  lt_formatted :: "'m \<Rightarrow> string"
  lt_message_id :: "'m \<Rightarrow> string option"
  lt_certificate :: "string \<Rightarrow> string option"
  lt_tls :: "string option \<Rightarrow> string \<Rightarrow> string option"
  lt_relay :: "string \<Rightarrow> string option"
  lt_deliver :: "transport \<Rightarrow> 'm \<Rightarrow> 's \<Rightarrow> string option \<times> 's"

fun mailboxes :: "('m, 's) lettre \<Rightarrow> string list \<Rightarrow> smtp_error + string list" where
  "mailboxes L [] = Inr []"
| "mailboxes L (a # as) =
     (case lt_mailbox L a of
        Inl e \<Rightarrow> Inl (Build e)
      | Inr m \<Rightarrow> (case mailboxes L as of Inl e \<Rightarrow> Inl e | Inr ms \<Rightarrow> Inr (m # ms)))"

definition text_plain :: string where
  "text_plain = ''text/plain; charset=utf-8''"

definition content_type_or_plain :: "('m, 's) lettre \<Rightarrow> string \<Rightarrow> string" where
  "content_type_or_plain L ct = (case lt_content_type L ct of Some t \<Rightarrow> t | None \<Rightarrow> text_plain)"

fun attachment_parts :: "('m, 's) lettre \<Rightarrow> attachment_data list \<Rightarrow> smtp_error + out_part list" where
  "attachment_parts L [] = Inr []"
| "attachment_parts L (a # as) =
     (case lt_decode L (ad_data a) of
        Inl e \<Rightarrow> Inl (Attachment e)
      | Inr bytes \<Rightarrow>
          (case attachment_parts L as of
             Inl e \<Rightarrow> Inl e
           | Inr ps \<Rightarrow> Inr (Single (content_type_or_plain L (ad_content_type a)) (Some (Attached (ad_filename a))) bytes # ps)))"

definition encrypted_body :: "string \<Rightarrow> out_part" where
  "encrypted_body text = Multi (Encrypted ''application/pgp-encrypted'')
     [Single ''application/pgp-encrypted'' None ''Version: 1'',
      Single (''application/octet-stream; name='' @ [CHR 0x22] @ ''encrypted.asc'' @ [CHR 0x22]) (Some (Inline ''encrypted.asc'')) text]"

definition signed_body :: "string \<Rightarrow> string \<Rightarrow> out_part" where
  "signed_body text signature = Multi (Signed ''application/pgp-signature'' ''pgp-sha256'')
     [Plain text,
      Single (''application/pgp-signature; name='' @ [CHR 0x22] @ ''signature.asc'' @ [CHR 0x22]) (Some (Attached ''signature.asc'')) signature]"

definition pgp_body :: "string \<Rightarrow> send_request \<Rightarrow> smtp_error + out_body" where
  "pgp_body mode req =
     (if mode = ''encrypted'' then Inr (Part (encrypted_body (or_empty (sr_body_text req))))
      else if mode = ''signed''
      then (case sr_pgp_signature req of
              None \<Rightarrow> Inl (Build ''pgp_signature required for multipart/signed'')
            | Some sig \<Rightarrow> Inr (Part (signed_body (or_empty (sr_body_text req)) sig)))
      else Inl (Build (''unsupported PGP/MIME mode: '' @ mode)))"

text \<open>A part, with the attachments behind it if there are any.\<close>

definition with_attachments :: "('m, 's) lettre \<Rightarrow> send_request \<Rightarrow> out_part \<Rightarrow> smtp_error + out_body" where
  "with_attachments L req p =
     (case attachment_parts L (sr_attachments req) of Inl e \<Rightarrow> Inl e | Inr ps \<Rightarrow> Inr (Part (Multi Mixed (p # ps))))"

definition calendar_part :: "('m, 's) lettre \<Rightarrow> string \<Rightarrow> send_request \<Rightarrow> out_part" where
  "calendar_part L ics req =
     (let meth = to_upper (case sr_calendar_method req of Some m \<Rightarrow> m | None \<Rightarrow> ''PUBLISH'') in
      Multi Alternative [Plain (or_empty (sr_body_text req)),
        Single (content_type_or_plain L (''text/calendar; method='' @ meth @ ''; charset=utf-8'')) None ics])"

definition plain_body :: "send_request \<Rightarrow> out_body" where
  "plain_body req =
     (case (sr_body_text req, sr_body_html req) of
        (Some t, Some h) \<Rightarrow> Part (Multi Alternative [Plain t, Html h])
      | (Some t, None) \<Rightarrow> Text t
      | (None, Some h) \<Rightarrow> Part (Html h)
      | (None, None) \<Rightarrow> Text [])"

definition body_part :: "send_request \<Rightarrow> out_part" where
  "body_part req =
     (case (sr_body_text req, sr_body_html req) of
        (Some t, Some h) \<Rightarrow> Multi Alternative [Plain t, Html h]
      | (Some t, None) \<Rightarrow> Multi Mixed [Plain t]
      | (None, Some h) \<Rightarrow> Multi Mixed [Html h]
      | (None, None) \<Rightarrow> Multi Mixed [Plain []])"

definition message_body :: "('m, 's) lettre \<Rightarrow> send_request \<Rightarrow> smtp_error + out_body" where
  "message_body L req =
     (case sr_pgp_mime_mode req of
        Some mode \<Rightarrow> pgp_body mode req
      | None \<Rightarrow>
          (case sr_calendar_ics req of
             Some ics \<Rightarrow> (if sr_attachments req = [] then Inr (Part (calendar_part L ics req))
                          else with_attachments L req (calendar_part L ics req))
           | None \<Rightarrow> (if sr_attachments req = [] then Inr (plain_body req) else with_attachments L req (body_part req))))"

definition build_message :: "('m, 's) lettre \<Rightarrow> send_request \<Rightarrow> smtp_error + 'm" where
  "build_message L req =
     (case mailboxes L [sr_from req] of
        Inl e \<Rightarrow> Inl e
      | Inr froms \<Rightarrow>
     (case mailboxes L (sr_to req) of
        Inl e \<Rightarrow> Inl e
      | Inr tos \<Rightarrow>
     (case mailboxes L (sr_cc req) of
        Inl e \<Rightarrow> Inl e
      | Inr ccs \<Rightarrow>
     (case mailboxes L (sr_bcc req) of
        Inl e \<Rightarrow> Inl e
      | Inr bccs \<Rightarrow>
     (case message_body L req of
        Inl e \<Rightarrow> Inl e
      | Inr body \<Rightarrow>
          (case lt_build L \<lparr>og_from = hd froms, og_subject = sr_subject req, og_to = tos, og_cc = ccs, og_bcc = bccs,
                  og_in_reply_to = sr_in_reply_to req, og_references = sr_references req, og_body = body\<rparr> of
             Inl e \<Rightarrow> Inl (Build e)
           | Inr m \<Rightarrow> Inr m))))))"

definition message_id_of :: "('m, 's) lettre \<Rightarrow> 'm \<Rightarrow> string" where
  "message_id_of L m = trim (or_empty (lt_message_id L m))"

definition build_raw_message :: "('m, 's) lettre \<Rightarrow> send_request \<Rightarrow> smtp_error + string" where
  "build_raw_message L req = (case build_message L req of Inl e \<Rightarrow> Inl e | Inr m \<Rightarrow> Inr (lt_formatted L m))"

definition build_raw_with_id :: "('m, 's) lettre \<Rightarrow> send_request \<Rightarrow> smtp_error + (string \<times> string)" where
  "build_raw_with_id L req =
     (case build_message L req of Inl e \<Rightarrow> Inl e | Inr m \<Rightarrow> Inr (message_id_of L m, lt_formatted L m))"

section \<open>Delivery\<close>

definition uses_implicit_tls :: "nat \<Rightarrow> bool" where
  "uses_implicit_tls port = (port = 465)"

definition smtp_xoauth2_sasl :: "('m, 's) lettre \<Rightarrow> string \<Rightarrow> string \<Rightarrow> string" where
  "smtp_xoauth2_sasl L username tok =
     lt_encode L (''user='' @ username @ [CHR 0x01] @ ''auth=Bearer '' @ tok @ [CHR 0x01, CHR 0x01])"

text \<open>With a trusted certificate the host name is not checked.  Only the XOAUTH2 branch fixes the mechanism.\<close>

definition build_transport :: "('m, 's) lettre \<Rightarrow> send_request \<Rightarrow> smtp_error + transport" where
  "build_transport L req =
     (case Option.bind (sr_trusted_cert req) (lt_certificate L) of
        Some e \<Rightarrow> Inl (Build (''trusted certificate invalid: '' @ e))
      | None \<Rightarrow>
     (case lt_tls L (sr_trusted_cert req) (sr_host req) of
        Some e \<Rightarrow> Inl (Build e)
      | None \<Rightarrow>
          (case lt_relay L (sr_host req) of
             Some e \<Rightarrow> Inl (Build e)
           | None \<Rightarrow>
               Inr \<lparr>tr_host = sr_host req, tr_port = sr_port req,
                 tr_tls = (if uses_implicit_tls (sr_port req) then Wrapper else Required),
                 tr_root = sr_trusted_cert req, tr_any_hostname = (sr_trusted_cert req \<noteq> None),
                 tr_credentials =
                   (if sr_auth_scheme req = ''xoauth2''
                    then (sr_user req, smtp_xoauth2_sasl L (sr_user req) (or_empty (sr_oauth_token req)))
                    else (sr_user req, sr_pass req)),
                 tr_plain_only = (sr_auth_scheme req = ''xoauth2''), tr_timeout = 30\<rparr>)))"

definition send_mail :: "('m, 's) lettre \<Rightarrow> send_request \<Rightarrow> 's \<Rightarrow> (smtp_error + (string \<times> string)) \<times> 's" where
  "send_mail L req s =
     (case build_message L req of
        Inl e \<Rightarrow> (Inl e, s)
      | Inr m \<Rightarrow>
          (case build_transport L req of
             Inl e \<Rightarrow> (Inl e, s)
           | Inr t \<Rightarrow>
               (case lt_deliver L t m s of
                  (Some e, s') \<Rightarrow> (Inl (Send e), s')
                | (None, s') \<Rightarrow> (Inr (message_id_of L m, lt_formatted L m), s'))))"

section \<open>Columns of an account\<close>

record smtp_columns =
  sc_account :: string
  sc_host :: string
  sc_port :: int
  sc_auth_scheme :: string
  sc_cert :: "string option"
  sc_created :: string

end
