(* ===== verification/Calendar.thy ===== *)
theory Calendar
  imports Calendar_Client Contact_Routes Imap Smtp
begin

text \<open>
  Calendars behind the API (backend/api/src/routes/calendar.rs and caldav_error.rs, the tables of migration
  0028): accounts, calendars and events, synchronisation, the remote writes of the event routes, recurring
  events and replies to invitations.

  A route acts at once on \<open>calendar_app\<close>: the calendar tables, the mail database, the SMTP columns of its
  accounts, the default calendar of the user's settings, and the state of the servers.  Random ids are the
  counter \<open>kd_next\<close>, \<open>ce_uuid\<close> renders one as text; of several rows that a query may return the first is
  taken.  Failures of the database other than its constraints do not occur.
\<close>

section \<open>Tables\<close>

record calendar_account =
  ka_id :: string
  ka_name :: string
  ka_type :: string
  ka_base_url :: "string option"
  ka_auth_scheme :: string
  ka_credentials :: string
  ka_interval :: int
  ka_last_synced :: "string option"
  ka_sync_token :: "string option"
  ka_status :: string
  ka_error :: "string option"

record calendar_row =
  kl_id :: nat
  kl_account :: "string option"
  kl_name :: string
  kl_color :: string
  kl_ctag :: "string option"
  kl_default :: bool
  kl_url :: "string option"
  kl_created :: string

record event_row =
  er_id :: nat
  er_calendar :: nat
  er_uid :: "string option"
  er_summary :: string
  er_description :: "string option"
  er_location :: "string option"
  er_start :: string
  er_end :: string
  er_all_day :: bool
  er_rrule :: "string option"
  er_rrule_uid :: "string option"
  er_recurrence :: "string option"
  er_status :: string
  er_organizer_email :: "string option"
  er_organizer_name :: "string option"
  er_attendees :: string
  er_busystatus :: "string option"
  er_teams :: "string option"
  er_raw :: "string option"
  er_href :: "string option"
  er_etag :: "string option"
  er_dirty :: bool
  er_deleted :: bool
  er_updated :: string
  er_synced :: "string option"

record invite_row =
  iv_id :: nat
  iv_message :: nat
  iv_method :: string
  iv_uid :: string
  iv_summary :: "string option"
  iv_start :: "string option"
  iv_end :: "string option"
  iv_organizer :: "string option"
  iv_attendees :: string
  iv_rsvp :: string
  iv_raw :: string
  iv_teams :: "string option"
  iv_updated :: string

record calendar_tables =
  kd_accounts :: "calendar_account list"
  kd_calendars :: "calendar_row list"
  kd_events :: "event_row list"
  kd_invites :: "invite_row list"
  kd_next :: nat

record 's calendar_app =
  cx_db :: calendar_tables
  cx_mail :: mail_db
  cx_smtp :: "smtp_columns list"
  cx_default :: "nat option"
  cx_net :: 's

record ('m, 's) calendar_env =
  ce_client :: "'s calendar_client"
  ce_tokens :: "'s token_env"
  ce_lettre :: "('m, 's) lettre"
  ce_uuid :: "nat \<Rightarrow> string"
  ce_time :: string

definition cx_map :: "(calendar_tables \<Rightarrow> calendar_tables) \<Rightarrow> 's calendar_app \<Rightarrow> 's calendar_app" where
  "cx_map f app = app\<lparr>cx_db := f (cx_db app)\<rparr>"

definition update_account :: "string \<Rightarrow> (calendar_account \<Rightarrow> calendar_account) \<Rightarrow> calendar_tables \<Rightarrow> calendar_tables" where
  "update_account acct f db = db\<lparr>kd_accounts := map (\<lambda>a. if ka_id a = acct then f a else a) (kd_accounts db)\<rparr>"

definition update_calendar_row :: "nat \<Rightarrow> (calendar_row \<Rightarrow> calendar_row) \<Rightarrow> calendar_tables \<Rightarrow> calendar_tables" where
  "update_calendar_row cal f db = db\<lparr>kd_calendars := map (\<lambda>c. if kl_id c = cal then f c else c) (kd_calendars db)\<rparr>"

definition update_event_row :: "nat \<Rightarrow> (event_row \<Rightarrow> event_row) \<Rightarrow> calendar_tables \<Rightarrow> calendar_tables" where
  "update_event_row ev f db = db\<lparr>kd_events := map (\<lambda>e. if er_id e = ev then f e else e) (kd_events db)\<rparr>"

definition calendar_account_of :: "calendar_tables \<Rightarrow> string \<Rightarrow> calendar_account option" where
  "calendar_account_of db acct = find (\<lambda>a. ka_id a = acct) (kd_accounts db)"

definition calendar_of :: "calendar_tables \<Rightarrow> nat \<Rightarrow> calendar_row option" where
  "calendar_of db cal = find (\<lambda>c. kl_id c = cal) (kd_calendars db)"

definition event_of :: "calendar_tables \<Rightarrow> nat \<Rightarrow> event_row option" where
  "event_of db ev = find (\<lambda>e. er_id e = ev) (kd_events db)"

text \<open>Deleting calendars deletes their events.\<close>

definition delete_calendars :: "(calendar_row \<Rightarrow> bool) \<Rightarrow> calendar_tables \<Rightarrow> calendar_tables" where
  "delete_calendars P db =
     (let gone = set (map kl_id (filter P (kd_calendars db))) in
      db\<lparr>kd_calendars := filter (\<lambda>c. \<not> P c) (kd_calendars db),
         kd_events := filter (\<lambda>e. er_calendar e \<notin> gone) (kd_events db)\<rparr>)"

definition delete_events :: "(event_row \<Rightarrow> bool) \<Rightarrow> calendar_tables \<Rightarrow> calendar_tables" where
  "delete_events P db = db\<lparr>kd_events := filter (\<lambda>e. \<not> P e) (kd_events db)\<rparr>"

definition foreign_key_failed :: string where
  "foreign_key_failed = ''error returned from database: (code: 787) FOREIGN KEY constraint failed''"

definition no_rows :: string where
  "no_rows = ''no rows returned by a query that expected to return at least one row''"

text \<open>A new event row gets the next id; its calendar must exist.\<close>

definition insert_event :: "event_row \<Rightarrow> calendar_tables \<Rightarrow> string + (nat \<times> calendar_tables)" where
  "insert_event e db =
     (if calendar_of db (er_calendar e) = None then Inl foreign_key_failed
      else Inr (kd_next db, db\<lparr>kd_events := kd_events db @ [e\<lparr>er_id := kd_next db\<rparr>], kd_next := kd_next db + 1\<rparr>))"

definition blank_event :: "nat \<Rightarrow> string \<Rightarrow> event_row" where
  "blank_event cal time = \<lparr>er_id = 0, er_calendar = cal, er_uid = None, er_summary = [], er_description = None, er_location = None,
     er_start = [], er_end = [], er_all_day = False, er_rrule = None, er_rrule_uid = None, er_recurrence = None,
     er_status = ''confirmed'', er_organizer_email = None, er_organizer_name = None, er_attendees = ''[]'', er_busystatus = None,
     er_teams = None, er_raw = None, er_href = None, er_etag = None, er_dirty = False, er_deleted = False, er_updated = time,
     er_synced = None\<rparr>"

section \<open>Storing what a provider delivers\<close>

definition default_color :: string where
  "default_color = ''#2563EB''"

definition insert_calendar ::
  "string option \<Rightarrow> string \<Rightarrow> string option \<Rightarrow> string option \<Rightarrow> string \<Rightarrow> calendar_tables \<Rightarrow> nat \<times> calendar_tables"
where
  "insert_calendar acct name color url time db =
     (kd_next db, db\<lparr>kd_next := kd_next db + 1, kd_calendars := kd_calendars db @
        [\<lparr>kl_id = kd_next db, kl_account = acct, kl_name = name,
          kl_color = (case color of None \<Rightarrow> default_color | Some c \<Rightarrow> c), kl_ctag = None, kl_default = False, kl_url = url,
          kl_created = time\<rparr>]\<rparr>)"

definition upsert_calendar :: "string \<Rightarrow> string \<Rightarrow> discovered_calendar \<Rightarrow> calendar_tables \<Rightarrow> nat \<times> calendar_tables" where
  "upsert_calendar time acct d db =
     (case find (\<lambda>c. kl_account c = Some acct \<and> kl_url c = Some (di_url d)) (kd_calendars db) of
        Some c \<Rightarrow> (kl_id c, update_calendar_row (kl_id c) (\<lambda>c. c\<lparr>kl_name := di_name d,
            kl_color := (case di_color d of None \<Rightarrow> kl_color c | Some v \<Rightarrow> v)\<rparr>) db)
      | None \<Rightarrow> insert_calendar (Some acct) (di_name d) (di_color d) (Some (di_url d)) time db)"

definition fill_event :: "string \<Rightarrow> string \<Rightarrow> remote_event \<Rightarrow> event_row \<Rightarrow> event_row" where
  "fill_event now time ev r = r\<lparr>er_summary := ev_title ev, er_description := ev_description ev, er_location := ev_location ev,
     er_start := ev_starts_at ev, er_end := ev_ends_at ev, er_all_day := ev_all_day ev, er_rrule := ev_rrule ev,
     er_rrule_uid := ev_rrule_uid ev, er_recurrence := ev_recurrence_id ev,
     er_status := (case ev_status ev of None \<Rightarrow> er_status r | Some v \<Rightarrow> v),
     er_organizer_email := ev_organizer_email ev, er_organizer_name := ev_organizer_name ev,
     er_attendees := (case ev_attendees_json ev of None \<Rightarrow> ''[]'' | Some a \<Rightarrow> a), er_busystatus := ev_busystatus ev,
     er_teams := ev_teams_url ev, er_raw := ev_raw ev, er_href := ev_href ev, er_etag := ev_etag ev,
     er_dirty := False, er_deleted := False, er_updated := time, er_synced := Some now\<rparr>"

definition same_occurrence :: "nat \<Rightarrow> string \<Rightarrow> string option \<Rightarrow> event_row \<Rightarrow> bool" where
  "same_occurrence cal uid recurrence e =
     (er_calendar e = cal \<and> er_uid e = Some uid \<and> or_empty (er_recurrence e) = or_empty recurrence)"

definition store_event :: "string \<Rightarrow> string \<Rightarrow> nat \<Rightarrow> remote_event \<Rightarrow> calendar_tables \<Rightarrow> string + calendar_tables" where
  "store_event now time cal ev db =
     (case find (same_occurrence cal (ev_uid ev) (ev_recurrence_id ev)) (kd_events db) of
        Some e \<Rightarrow> Inr (update_event_row (er_id e) (fill_event now time ev) db)
      | None \<Rightarrow>
          (case insert_event (fill_event now time ev ((blank_event cal time)\<lparr>er_uid := Some (ev_uid ev)\<rparr>)) db of
             Inl e \<Rightarrow> Inl e | Inr (_, db') \<Rightarrow> Inr db'))"

fun store_all :: "string \<Rightarrow> string \<Rightarrow> nat \<Rightarrow> remote_event list \<Rightarrow> calendar_tables \<Rightarrow> (string + unit) \<times> calendar_tables" where
  "store_all now time cal [] db = (Inr (), db)"
| "store_all now time cal (ev # evs) db =
     (case store_event now time cal ev db of Inl e \<Rightarrow> (Inl e, db) | Inr db' \<Rightarrow> store_all now time cal evs db')"

definition horizon_days :: int where
  "horizon_days = 730"

definition now_text :: "'s calendar_client \<Rightarrow> string" where
  "now_text K = cl_show_time K (utc (cl_now K))"

definition store_events ::
  "'s calendar_client \<Rightarrow> string \<Rightarrow> nat \<Rightarrow> remote_event list \<Rightarrow> calendar_tables \<Rightarrow> (string + unit) \<times> calendar_tables"
where
  "store_events K time cal evs = store_all (now_text K) time cal (concat (map (expand_rrule K horizon_days) evs))"

definition store_sync_result ::
  "'s calendar_client \<Rightarrow> string \<Rightarrow> string \<Rightarrow> sync_result \<Rightarrow> calendar_tables \<Rightarrow> (string + unit) \<times> calendar_tables"
where
  "store_sync_result K time acct res db =
     (let d = (case sy_calendars res of c # _ \<Rightarrow> c | [] \<Rightarrow> \<lparr>di_name = ''Calendar'', di_url = acct, di_color = None\<rparr>);
          (cal, db1) = upsert_calendar time acct d db
      in case store_events K time cal (sy_events res) db1 of
           (Inl e, db2) \<Rightarrow> (Inl e, db2)
         | (Inr _, db2) \<Rightarrow> (Inr (), update_account acct (\<lambda>a. a\<lparr>ka_sync_token := sy_token res\<rparr>) db2))"

section \<open>CalDAV autodiscovery\<close>

definition decrypt_calendar_credentials :: "'s token_env \<Rightarrow> string \<Rightarrow> string + json" where
  "decrypt_calendar_credentials T enc =
     (case tk_decrypt T enc of
        None \<Rightarrow> Inl ''decryption failed''
      | Some bytes \<Rightarrow> (case tk_parse T bytes of None \<Rightarrow> Inl ''invalid JSON'' | Some j \<Rightarrow> Inr j))"

definition dav_auth_of :: "string \<Rightarrow> json \<Rightarrow> dav_auth" where
  "dav_auth_of scheme creds =
     (if scheme = ''oauth2'' then Bearer (text_at creds ''access_token'')
      else Basic (text_at creds ''username'') (text_at creds ''password''))"

definition provider_caldav_candidates :: "(string \<Rightarrow> string) \<Rightarrow> string \<Rightarrow> string \<Rightarrow> string list" where
  "provider_caldav_candidates quote domain username =
     (if domain \<in> {''gmail.com'', ''googlemail.com''}
      then [''https://apidata.googleusercontent.com/caldav/v2/'' @ quote username @ ''/events/'']
      else if domain \<in> {''icloud.com'', ''me.com'', ''mac.com''} then [''https://caldav.icloud.com/'']
      else if domain \<in> {''fastmail.com'', ''fastmail.fm''} then [''https://caldav.fastmail.com/'']
      else if domain \<in> {''gmx.net'', ''gmx.de''} then [''https://caldav.gmx.net/'']
      else if domain = ''web.de'' then [''https://caldav.web.de/'']
      else if domain = ''mailbox.org'' then [''https://dav.mailbox.org/'']
      else if domain = ''posteo.de'' then [''https://posteo.de:8443/''] else [])"

text \<open>The SOGo addresses of a host, by user name and by its local part.\<close>

definition sogo_candidates :: "string \<Rightarrow> string \<Rightarrow> string \<Rightarrow> string list" where
  "sogo_candidates host username localpart =
     [''https://'' @ host @ ''/SOGo/dav/'' @ username @ ''/'', ''https://'' @ host @ ''/SOGo/dav/'' @ username @ ''/Calendar/'',
      ''https://'' @ host @ ''/SOGo/dav/'' @ localpart @ ''/'', ''https://'' @ host @ ''/SOGo/dav/'' @ localpart @ ''/Calendar/'']"

definition well_known_caldav :: "string \<Rightarrow> string" where
  "well_known_caldav host = ''https://'' @ host @ ''/.well-known/caldav''"

definition domain_candidates :: "string \<Rightarrow> string \<Rightarrow> string \<Rightarrow> string list" where
  "domain_candidates domain username localpart =
     concat (map (\<lambda>host. well_known_caldav host # sogo_candidates host username localpart)
       [domain, ''mail.'' @ domain, ''webmail.'' @ domain, ''sogo.'' @ domain])
     @ [well_known_caldav (''dav.'' @ domain), ''https://dav.'' @ domain @ ''/caldav/'']
     @ sogo_candidates (''dav.'' @ domain) username localpart
     @ [''https://caldav.'' @ domain @ ''/'', well_known_caldav (''calendar.'' @ domain)]"

definition url_key :: "string \<Rightarrow> string" where
  "url_key url = to_lower (trim_end_by (\<lambda>c. c = CHR ''/'') url)"

fun dedupe_seen :: "string list \<Rightarrow> string list \<Rightarrow> string list" where
  "dedupe_seen seen [] = []"
| "dedupe_seen seen (u # us) =
     (if url_key u \<in> set seen then dedupe_seen seen us else u # dedupe_seen (url_key u # seen) us)"

definition dedupe_urls :: "string list \<Rightarrow> string list" where
  "dedupe_urls urls = dedupe_seen [] urls"

definition caldav_discovery_candidates :: "(string \<Rightarrow> string) \<Rightarrow> string option \<Rightarrow> json \<Rightarrow> string list" where
  "caldav_discovery_candidates quote explicit_base creds =
     (let username = trim (first_str (jget creds ''username'') (jget creds ''email'') []);
          parts = split_on CHR ''@'' username;
          domain = to_lower (or_empty (nth_of 1 parts));
          localpart = hd parts;
          base = (case explicit_base of None \<Rightarrow> [] | Some b \<Rightarrow> if trim b = [] then [] else [trim b])
      in dedupe_urls (base @
           (if domain = [] then []
            else provider_caldav_candidates quote domain username @ domain_candidates domain username localpart)))"

fun try_candidates ::
  "'s calendar_client \<Rightarrow> dav_auth \<Rightarrow> bool \<Rightarrow> string list \<Rightarrow> string list \<Rightarrow> 's
     \<Rightarrow> (string + (string \<times> discovered_calendar list)) \<times> 's"
where
  "try_candidates K auth lax [] errs s =
     (Inl (''CalDAV discovery failed'' @ (if errs = [] then [] else '' ('' @ join_with ''; '' errs @ '')'')), s)"
| "try_candidates K auth lax (c # cs) errs s =
     (case discover_collections_with_tls_options K c auth None lax s of
        (Inl e, s') \<Rightarrow> try_candidates K auth lax cs (errs @ [c @ '': '' @ e]) s'
      | (Inr found, s') \<Rightarrow>
          (if found = [] then try_candidates K auth lax cs (errs @ [c @ '': no calendars found'']) s'
           else (Inr (c, found), s')))"

definition discover_caldav_calendars ::
  "'s calendar_client \<Rightarrow> string option \<Rightarrow> json \<Rightarrow> dav_auth \<Rightarrow> bool \<Rightarrow> 's
     \<Rightarrow> (string + (string \<times> discovered_calendar list)) \<times> 's"
where
  "discover_caldav_calendars K base creds auth lax s =
     try_candidates K auth lax (caldav_discovery_candidates (cl_quote K) base creds) [] s"

section \<open>Synchronising an account\<close>

definition google_access_token ::
  "'s token_env \<Rightarrow> string \<Rightarrow> json \<Rightarrow> 's calendar_app \<Rightarrow> (string + string) \<times> 's calendar_app"
where
  "google_access_token T acct creds app =
     (if \<exists>a \<in> set (accounts (cx_mail app)). a_id a = acct \<and> a_provider_kind a \<in> {''gmail_api'', ''gmail_imap''}
      then (case fresh_access_token T acct (cx_mail app) (cx_net app) of
              (res, m, s) \<Rightarrow>
                ((case res of Inl e \<Rightarrow> Inl e | Inr None \<Rightarrow> Inl ''linked Gmail account has no OAuth access token''
                  | Inr (Some t) \<Rightarrow> Inr t), app\<lparr>cx_mail := m, cx_net := s\<rparr>))
      else ((case as_str (jget creds ''access_token'') of None \<Rightarrow> Inl ''access_token missing'' | Some t \<Rightarrow> Inr t), app))"

text \<open>A call on the servers, as a step of the state.\<close>

definition net_call :: "('s \<Rightarrow> 'a \<times> 's) \<Rightarrow> 's calendar_app \<Rightarrow> 'a \<times> 's calendar_app" where
  "net_call f app = (case f (cx_net app) of (res, s) \<Rightarrow> (res, app\<lparr>cx_net := s\<rparr>))"

definition db_call :: "(calendar_tables \<Rightarrow> 'a \<times> calendar_tables) \<Rightarrow> 's calendar_app \<Rightarrow> 'a \<times> 's calendar_app" where
  "db_call f app = (case f (cx_db app) of (res, db) \<Rightarrow> (res, app\<lparr>cx_db := db\<rparr>))"

text \<open>One collection: skipped when its tag is known and unchanged; its tag is stored after its events.\<close>

definition sync_collection ::
  "('m, 's) calendar_env \<Rightarrow> string \<Rightarrow> dav_auth \<Rightarrow> bool \<Rightarrow> int \<Rightarrow> int \<Rightarrow> discovered_calendar \<Rightarrow> 's calendar_app
     \<Rightarrow> (string + unit) \<times> 's calendar_app"
where
  "sync_collection E acct auth lax from till d app =
     (let K = ce_client E; (cal, app1) = db_call (upsert_calendar (ce_time E) acct d) app in
      case net_call (collection_ctag_with_tls_options K (di_url d) auth None lax) app1 of
        (tagged, app2) \<Rightarrow>
          (let ctag = (case tagged of Inl _ \<Rightarrow> None | Inr t \<Rightarrow> t);
               previous = Option.bind (calendar_of (cx_db app2) cal) kl_ctag
           in if ctag \<noteq> None \<and> ctag = previous then (Inr (), app2)
              else case net_call (pull_range_with_tls_options K (di_url d) auth (Some from) (Some till) None lax) app2 of
                (Inl e, app3) \<Rightarrow> (Inl e, app3)
              | (Inr evs, app3) \<Rightarrow>
                  (case db_call (store_events K (ce_time E) cal evs) app3 of
                     (Inl e, app4) \<Rightarrow> (Inl e, app4)
                   | (Inr _, app4) \<Rightarrow> (Inr (), cx_map (update_calendar_row cal (\<lambda>c. c\<lparr>kl_ctag := ctag\<rparr>)) app4))))"

fun sync_collections ::
  "('m, 's) calendar_env \<Rightarrow> string \<Rightarrow> dav_auth \<Rightarrow> bool \<Rightarrow> int \<Rightarrow> int \<Rightarrow> discovered_calendar list \<Rightarrow> 's calendar_app
     \<Rightarrow> (string + unit) \<times> 's calendar_app"
where
  "sync_collections E acct auth lax from till [] app = (Inr (), app)"
| "sync_collections E acct auth lax from till (d # ds) app =
     (case sync_collection E acct auth lax from till d app of
        (Inl e, app') \<Rightarrow> (Inl e, app')
      | (Inr _, app') \<Rightarrow> sync_collections E acct auth lax from till ds app')"

definition sync_caldav ::
  "('m, 's) calendar_env \<Rightarrow> calendar_account \<Rightarrow> json \<Rightarrow> bool option \<Rightarrow> int \<Rightarrow> int \<Rightarrow> 's calendar_app
     \<Rightarrow> (string + unit) \<times> 's calendar_app"
where
  "sync_caldav E a creds override from till app =
     (let auth = dav_auth_of (ka_auth_scheme a) creds;
          lax = (case override of Some b \<Rightarrow> b | None \<Rightarrow> as_bool (jget creds ''accept_invalid_tls'') = Some True)
      in case net_call (discover_caldav_calendars (ce_client E) (ka_base_url a) creds auth lax) app of
           (Inl e, app1) \<Rightarrow> (Inl e, app1)
         | (Inr (base, ds), app1) \<Rightarrow>
             sync_collections E (ka_id a) auth lax from till ds
               (cx_map (update_account (ka_id a) (\<lambda>a. a\<lparr>ka_base_url := Some base\<rparr>)) app1))"

fun store_results ::
  "'s calendar_client \<Rightarrow> string \<Rightarrow> string \<Rightarrow> sync_result list \<Rightarrow> calendar_tables \<Rightarrow> (string + unit) \<times> calendar_tables"
where
  "store_results K time acct [] db = (Inr (), db)"
| "store_results K time acct (r # rs) db =
     (case store_sync_result K time acct r db of
        (Inl e, db') \<Rightarrow> (Inl e, db') | (Inr _, db') \<Rightarrow> store_results K time acct rs db')"

definition store_fetched ::
  "('m, 's) calendar_env \<Rightarrow> string \<Rightarrow> (string + sync_result list) \<times> 's calendar_app \<Rightarrow> (string + unit) \<times> 's calendar_app"
where
  "store_fetched E acct answer =
     (case answer of
        (Inl e, app) \<Rightarrow> (Inl e, app)
      | (Inr rs, app) \<Rightarrow> db_call (store_results (ce_client E) (ce_time E) acct rs) app)"

definition sync_calendar_account_inner ::
  "('m, 's) calendar_env \<Rightarrow> string \<Rightarrow> bool option \<Rightarrow> 's calendar_app \<Rightarrow> (string + unit) \<times> 's calendar_app"
where
  "sync_calendar_account_inner E acct override app =
     (case calendar_account_of (cx_db app) acct of
        None \<Rightarrow> (Inl no_rows, app)
      | Some a \<Rightarrow>
     (case decrypt_calendar_credentials (ce_tokens E) (ka_credentials a) of
        Inl e \<Rightarrow> (Inl e, app)
      | Inr creds \<Rightarrow>
          (let K = ce_client E; from = cl_now K - 365 * day_ns; till = cl_now K + 730 * day_ns;
               one = (\<lambda>(res, app'). (case res of Inl e \<Rightarrow> Inl e | Inr r \<Rightarrow> Inr [r], app')) in
           if ka_type a = ''caldav'' then sync_caldav E a creds override from till app
           else if ka_type a = ''graph''
           then (case as_str (jget creds ''access_token'') of
                   None \<Rightarrow> (Inl ''access_token missing'', app)
                 | Some tok \<Rightarrow> store_fetched E acct (one (net_call (graph_sync K tok from till (ka_sync_token a)) app)))
           else if ka_type a = ''google''
           then (case google_access_token (ce_tokens E) acct creds app of
                   (Inl e, app1) \<Rightarrow> (Inl e, app1)
                 | (Inr tok, app1) \<Rightarrow> store_fetched E acct (net_call (google_sync K tok from till) app1))
           else if ka_type a = ''openxchange''
           then (case ka_base_url a of
                   None \<Rightarrow> (Inl ''base_url is required'', app)
                 | Some base \<Rightarrow> store_fetched E acct (one (net_call (ox_sync K base (dav_auth_of (ka_auth_scheme a) creds)) app)))
           else (Inl ''unsupported provider'', app))))"

definition sync_calendar_account_with_tls_override ::
  "('m, 's) calendar_env \<Rightarrow> string \<Rightarrow> bool option \<Rightarrow> 's calendar_app \<Rightarrow> (string + unit) \<times> 's calendar_app"
where
  "sync_calendar_account_with_tls_override E acct override app =
     (case sync_calendar_account_inner E acct override
             (cx_map (update_account acct (\<lambda>a. a\<lparr>ka_status := ''syncing'', ka_error := None\<rparr>)) app) of
        (Inr _, app') \<Rightarrow> (Inr (), cx_map (update_account acct
            (\<lambda>a. a\<lparr>ka_status := ''idle'', ka_last_synced := Some (now_text (ce_client E)), ka_error := None\<rparr>)) app')
      | (Inl e, app') \<Rightarrow> (Inl e, cx_map (update_account acct (\<lambda>a. a\<lparr>ka_status := ''error'', ka_error := Some e\<rparr>)) app'))"

definition sync_calendar_account ::
  "('m, 's) calendar_env \<Rightarrow> string \<Rightarrow> 's calendar_app \<Rightarrow> (string + unit) \<times> 's calendar_app"
where
  "sync_calendar_account E acct = sync_calendar_account_with_tls_override E acct None"

section \<open>Accounts\<close>

text \<open>The first attempt of a failed discovery decides what is reported.\<close>

function before_str :: "string \<Rightarrow> string \<Rightarrow> string" where
  "before_str p s = (if starts_with p s then [] else case s of [] \<Rightarrow> [] | c # t \<Rightarrow> c # before_str p t)"
  by pat_completeness auto
termination by (relation "measure (\<lambda>(p, s). length s)") auto

declare before_str.simps [simp del]

definition strip_prefix :: "string \<Rightarrow> string \<Rightarrow> string option" where
  "strip_prefix p s = (if starts_with p s then Some (drop (length p) s) else None)"

definition primary_attempt :: "string \<Rightarrow> string" where
  "primary_attempt e = before_str ''; https://''
     (case or_option (strip_prefix ''caldav discover failed: '' e) (strip_prefix ''CalDAV discovery failed ('' e) of
        Some r \<Rightarrow> r | None \<Rightarrow> e)"

definition contains_server_error_status :: "string \<Rightarrow> bool" where
  "contains_server_error_status e = (\<exists>status \<in> set [500..<600]. contains_str (show_nat status @ '' '') e)"

definition caldav_error_code :: "string \<Rightarrow> string \<times> string" where
  "caldav_error_code p =
     (if contains_str tls_certificate_error_prefix p
      then (''caldav_tls_certificate_invalid'', ''CalDAV server certificate validation failed'')
      else if contains_str ''401 unauthorized'' p then (''caldav_authentication_failed'', ''CalDAV authentication failed'')
      else if contains_str ''403 forbidden'' p then (''caldav_access_denied'', ''CalDAV access denied'')
      else if contains_str ''request timed out'' p then (''caldav_timeout'', ''CalDAV server timed out'')
      else if contains_str ''connection failed'' p then (''caldav_connection_failed'', ''CalDAV server connection failed'')
      else if contains_str ''404 not found'' p then (''caldav_endpoint_not_found'', ''CalDAV endpoint not found'')
      else if contains_str ''429 too many requests'' p then (''caldav_rate_limited'', ''CalDAV server rate limit exceeded'')
      else if contains_server_error_status p then (''caldav_server_error'', ''CalDAV server returned an error'')
      else if contains_str ''no calendars found'' p then (''caldav_no_calendars'', ''No accessible CalDAV calendars found'')
      else if \<exists>w \<in> set [''url is invalid'', ''principal not found'', ''calendar-home-set not found'', ''xml'', ''invalid response''].
          contains_str w p
      then (''caldav_invalid_response'', ''CalDAV server returned an invalid response'')
      else (''caldav_discovery_failed'', ''CalDAV discovery failed''))"

definition curated_caldav_error :: "string \<Rightarrow> app_error" where
  "curated_caldav_error e = (case caldav_error_code (to_lower (primary_attempt e)) of (code, msg) \<Rightarrow> BadGatewayWithCode code msg)"

record new_calendar_account =
  na_display_name :: string
  na_type :: string
  na_base_url :: "string option"
  na_auth_scheme :: "string option"
  na_username :: "string option"
  na_password :: "string option"
  na_access_token :: "string option"
  na_refresh_token :: "string option"
  na_accept_invalid_tls :: "bool option"
  na_tls_decision :: "tls_decision option"
  na_interval :: "int option"

definition validate_provider :: "new_calendar_account \<Rightarrow> app_error + unit" where
  "validate_provider req =
     (if na_type req = ''openxchange'' \<and> na_base_url req = None then Inl (Unprocessable ''base_url is required'')
      else if na_type req = ''caldav'' \<and> (case na_base_url req of None \<Rightarrow> True | Some b \<Rightarrow> trim b = [])
          \<and> (case na_username req of None \<Rightarrow> True | Some u \<Rightarrow> CHR ''@'' \<notin> set u)
      then Inl (Unprocessable ''CalDAV autodiscovery requires a base_url or username email'')
      else if na_type req \<in> {''caldav'', ''openxchange''} \<and> na_password req = None \<and> na_access_token req = None
      then Inl (Unprocessable ''credentials are required'')
      else if na_type req \<in> {''graph'', ''google''} \<and> na_access_token req = None
      then Inl (Unprocessable ''access_token is required'')
      else if na_type req \<in> {''caldav'', ''graph'', ''google'', ''openxchange''} then Inr ()
      else Inl (Unprocessable ''unsupported calendar provider''))"

definition tls_choice :: "(tls_decision \<Rightarrow> bool) \<Rightarrow> new_calendar_account \<Rightarrow> bool" where
  "tls_choice P req = (na_accept_invalid_tls req = Some True \<or> (case na_tls_decision req of None \<Rightarrow> False | Some d \<Rightarrow> P d))"

definition opt_json :: "string option \<Rightarrow> json" where
  "opt_json x = (case x of None \<Rightarrow> JNull | Some s \<Rightarrow> JStr s)"

definition account_credentials :: "new_calendar_account \<Rightarrow> json" where
  "account_credentials req = JObj [(''username'', opt_json (na_username req)), (''password'', opt_json (na_password req)),
     (''access_token'', opt_json (na_access_token req)), (''refresh_token'', opt_json (na_refresh_token req)),
     (''accept_invalid_tls'', JBool (tls_choice persists_exception req))]"

definition check_failed :: string where
  "check_failed = ''error returned from database: (code: 275) CHECK constraint failed''"

definition insert_account :: "calendar_account \<Rightarrow> calendar_tables \<Rightarrow> app_error + calendar_tables" where
  "insert_account a db =
     (if ka_type a \<in> {''caldav'', ''graph'', ''google'', ''openxchange''} \<and> ka_auth_scheme a \<in> {''basic'', ''oauth2''}
      then Inr (db\<lparr>kd_accounts := kd_accounts db @ [a]\<rparr>) else Inl (Internal check_failed))"

definition fetch_calendar_account :: "calendar_tables \<Rightarrow> string \<Rightarrow> app_error + calendar_account" where
  "fetch_calendar_account db acct = (case calendar_account_of db acct of None \<Rightarrow> Inl NotFound | Some a \<Rightarrow> Inr a)"

definition new_account_row :: "new_calendar_account \<Rightarrow> string \<Rightarrow> string \<Rightarrow> calendar_account" where
  "new_account_row req acct enc = \<lparr>ka_id = acct, ka_name = na_display_name req, ka_type = na_type req, ka_base_url = na_base_url req,
     ka_auth_scheme = (case na_auth_scheme req of Some a \<Rightarrow> a
       | None \<Rightarrow> if na_access_token req \<noteq> None then ''oauth2'' else ''basic''),
     ka_credentials = enc, ka_interval = (case na_interval req of Some n \<Rightarrow> n | None \<Rightarrow> 300), ka_last_synced = None,
     ka_sync_token = None, ka_status = ''syncing'', ka_error = None\<rparr>"

definition drop_account :: "string \<Rightarrow> calendar_tables \<Rightarrow> calendar_tables" where
  "drop_account acct db = db\<lparr>kd_accounts := filter (\<lambda>a. ka_id a \<noteq> acct) (kd_accounts db)\<rparr>"

definition create_calendar_account ::
  "('m, 's) calendar_env \<Rightarrow> new_calendar_account \<Rightarrow> 's calendar_app \<Rightarrow> (app_error + calendar_account) \<times> 's calendar_app"
where
  "create_calendar_account E req app =
     (case validate_provider req of
        Inl e \<Rightarrow> (Inl e, app)
      | Inr _ \<Rightarrow>
     (case tk_encrypt (ce_tokens E) (tk_render (ce_tokens E) (account_credentials req)) of
        None \<Rightarrow> (Inl (Internal ''encryption failed''), app)
      | Some enc \<Rightarrow>
          (let acct = ce_uuid E (kd_next (cx_db app)) in
           case insert_account (new_account_row req acct enc) ((cx_db app)\<lparr>kd_next := kd_next (cx_db app) + 1\<rparr>) of
             Inl e \<Rightarrow> (Inl e, app)
           | Inr db \<Rightarrow>
               (case sync_calendar_account_with_tls_override E acct (if tls_choice permits_retry req then Some True else None)
                       (app\<lparr>cx_db := db\<rparr>) of
                  (Inl e, app') \<Rightarrow>
                    (Inl (if na_type req = ''caldav'' then curated_caldav_error e else BadGateway e), cx_map (drop_account acct) app')
                | (Inr _, app') \<Rightarrow> (fetch_calendar_account (cx_db app') acct, app')))))"

definition connect_google_account ::
  "('m, 's) calendar_env \<Rightarrow> string \<Rightarrow> string \<Rightarrow> string \<Rightarrow> 's calendar_app \<Rightarrow> (string + unit) \<times> 's calendar_app"
where
  "connect_google_account E acct name enc app =
     (let link = (if calendar_account_of (cx_db app) acct = None
            then (\<lambda>db. db\<lparr>kd_accounts := kd_accounts db @ [\<lparr>ka_id = acct, ka_name = name, ka_type = ''google'', ka_base_url = None,
                    ka_auth_scheme = ''oauth2'', ka_credentials = enc, ka_interval = 300, ka_last_synced = None, ka_sync_token = None,
                    ka_status = ''syncing'', ka_error = None\<rparr>]\<rparr>)
            else update_account acct (\<lambda>a. a\<lparr>ka_name := name, ka_type := ''google'', ka_auth_scheme := ''oauth2'',
                    ka_credentials := enc, ka_status := ''syncing'', ka_error := None\<rparr>))
      in sync_calendar_account E acct (cx_map link app))"

definition list_calendar_accounts :: "'s calendar_app \<Rightarrow> calendar_account list" where
  "list_calendar_accounts app = sort_key (\<lambda>a. nocase_key (ka_name a)) (kd_accounts (cx_db app))"

definition delete_calendar_account :: "string \<Rightarrow> 's calendar_app \<Rightarrow> (app_error + string) \<times> 's calendar_app" where
  "delete_calendar_account acct app =
     ((if calendar_account_of (cx_db app) acct = None then Inl NotFound else Inr acct),
      cx_map (\<lambda>db. drop_account acct (delete_calendars (\<lambda>c. kl_account c = Some acct) db)) app)"

definition account_sync_status :: "'s calendar_app \<Rightarrow> string \<Rightarrow> app_error + (string \<times> string option \<times> string option)" where
  "account_sync_status app acct =
     (case calendar_account_of (cx_db app) acct of
        None \<Rightarrow> Inl NotFound | Some a \<Rightarrow> Inr (ka_status a, ka_last_synced a, ka_error a))"

definition sync_account ::
  "('m, 's) calendar_env \<Rightarrow> string \<Rightarrow> 's calendar_app \<Rightarrow> (app_error + (string \<times> string option \<times> string option)) \<times> 's calendar_app"
where
  "sync_account E acct app =
     (case sync_calendar_account E acct app of
        (Inl e, app') \<Rightarrow> (Inl (BadGateway e), app')
      | (Inr _, app') \<Rightarrow> (account_sync_status app' acct, app'))"

section \<open>Calendars\<close>

text \<open>A calendar with the kind of its account.\<close>

definition calendar_view :: "calendar_tables \<Rightarrow> calendar_row \<Rightarrow> calendar_row \<times> string option" where
  "calendar_view db c = (c, map_option ka_type (Option.bind (kl_account c) (calendar_account_of db)))"

definition list_calendars :: "'s calendar_app \<Rightarrow> (calendar_row \<times> string option) list" where
  "list_calendars app = map (calendar_view (cx_db app)) (sort_key (\<lambda>c. nocase_key (kl_name c)) (kd_calendars (cx_db app)))"

definition fetch_calendar :: "calendar_tables \<Rightarrow> nat \<Rightarrow> app_error + (calendar_row \<times> string option)" where
  "fetch_calendar db cal = (case calendar_of db cal of
     None \<Rightarrow> Inl (Internal no_rows) | Some c \<Rightarrow> Inr (calendar_view db c))"

definition create_calendar ::
  "('m, 's) calendar_env \<Rightarrow> string option \<Rightarrow> string \<Rightarrow> string option \<Rightarrow> string option \<Rightarrow> 's calendar_app
     \<Rightarrow> (app_error + (calendar_row \<times> string option)) \<times> 's calendar_app"
where
  "create_calendar E acct name color url app =
     (case db_call (insert_calendar acct name color url (ce_time E)) app of
        (cal, app') \<Rightarrow> (fetch_calendar (cx_db app') cal, app'))"

definition update_calendar ::
  "nat \<Rightarrow> string option \<Rightarrow> string option \<Rightarrow> 's calendar_app \<Rightarrow> (app_error + (calendar_row \<times> string option)) \<times> 's calendar_app"
where
  "update_calendar cal name color app =
     (let app' = cx_map (update_calendar_row cal (\<lambda>c. c\<lparr>kl_name := (case name of None \<Rightarrow> kl_name c | Some v \<Rightarrow> v),
            kl_color := (case color of None \<Rightarrow> kl_color c | Some v \<Rightarrow> v)\<rparr>)) app
      in (fetch_calendar (cx_db app') cal, app'))"

definition delete_calendar :: "nat \<Rightarrow> 's calendar_app \<Rightarrow> 's calendar_app" where
  "delete_calendar cal = cx_map (delete_calendars (\<lambda>c. kl_id c = cal))"

section \<open>Events\<close>

record new_event =
  ne_title :: string
  ne_description :: "string option"
  ne_location :: "string option"
  ne_starts_at :: string
  ne_ends_at :: string
  ne_all_day :: "bool option"
  ne_rrule :: "string option"
  ne_attendees :: "json option"
  ne_organizer_email :: "string option"
  ne_organizer_name :: "string option"

definition list_events :: "string option \<Rightarrow> string option \<Rightarrow> 's calendar_app \<Rightarrow> (event_row \<times> string) list" where
  "list_events from till app =
     (let a = text_key (case from of None \<Rightarrow> ''0000'' | Some v \<Rightarrow> v); b = text_key (case till of None \<Rightarrow> ''9999'' | Some v \<Rightarrow> v) in
      map (\<lambda>e. (e, case calendar_of (cx_db app) (er_calendar e) of None \<Rightarrow> default_color | Some c \<Rightarrow> kl_color c))
        (sort_key (\<lambda>e. text_key (er_start e))
          (filter (\<lambda>e. \<not> er_deleted e \<and> text_key (er_start e) \<le> b \<and> a \<le> text_key (er_end e)) (kd_events (cx_db app)))))"

definition event_input_of :: "string \<Rightarrow> string option \<Rightarrow> new_event \<Rightarrow> event_input" where
  "event_input_of uid attendees req = \<lparr>ei_uid = uid, ei_title = ne_title req, ei_starts_at = ne_starts_at req,
     ei_ends_at = ne_ends_at req, ei_all_day = (ne_all_day req = Some True), ei_location = ne_location req,
     ei_description = ne_description req, ei_rrule = ne_rrule req, ei_attendees_json = attendees,
     ei_organizer_email = ne_organizer_email req, ei_organizer_name = ne_organizer_name req\<rparr>"

definition attendees_text :: "('m, 's) calendar_env \<Rightarrow> new_event \<Rightarrow> string" where
  "attendees_text E req = (case ne_attendees req of None \<Rightarrow> ''[]'' | Some j \<Rightarrow> tk_render (ce_tokens E) j)"

definition event_ics :: "('m, 's) calendar_env \<Rightarrow> string \<Rightarrow> new_event \<Rightarrow> string" where
  "event_ics E uid req = build_ics (tk_parse (ce_tokens E)) (cl_compact_time (ce_client E) (utc (cl_now (ce_client E))))
     (event_input_of uid (Some (attendees_text E req)) req)"

text \<open>A random identifier.\<close>

definition draw :: "('m, 's) calendar_env \<Rightarrow> 's calendar_app \<Rightarrow> string \<times> 's calendar_app" where
  "draw E app = (ce_uuid E (kd_next (cx_db app)), cx_map (\<lambda>db. db\<lparr>kd_next := kd_next db + 1\<rparr>) app)"

definition gateway :: "(string + 'a) \<times> 's calendar_app \<Rightarrow> ('a \<Rightarrow> 'b) \<Rightarrow> (app_error + 'b) \<times> 's calendar_app" where
  "gateway r f = (case r of (Inl e, app) \<Rightarrow> (Inl (BadGateway e), app) | (Inr x, app) \<Rightarrow> (Inr (f x), app))"

definition write_caldav_event ::
  "('m, 's) calendar_env \<Rightarrow> dav_auth \<Rightarrow> string option \<Rightarrow> string option \<Rightarrow> string option \<Rightarrow> string \<Rightarrow> bool \<Rightarrow> 's calendar_app
     \<Rightarrow> (app_error + (string option \<times> string option)) \<times> 's calendar_app"
where
  "write_caldav_event E auth collection remote etag ics del app =
     (if del
      then (case remote of
              None \<Rightarrow> (Inr (None, None), app)
            | Some href \<Rightarrow> gateway (net_call (delete_remote_event (ce_client E) href auth etag) app) (\<lambda>_. (None, None)))
      else (case collection of
              None \<Rightarrow> (Inl (BadGateway ''calendar dav_url missing''), app)
            | Some url \<Rightarrow>
                (case (case remote of Some href \<Rightarrow> (href, app)
                         | None \<Rightarrow> (case draw E app of (u, app') \<Rightarrow> (trim_end_by (\<lambda>c. c = CHR ''/'') url @ ''/'' @ u @ ''.ics'', app'))) of
                   (resource, app1) \<Rightarrow>
                     gateway (net_call (put_event (ce_client E) resource auth ics etag) app1) (\<lambda>tag. (Some resource, tag)))))"

definition write_remote_event ::
  "('m, 's) calendar_env \<Rightarrow> nat \<Rightarrow> string option \<Rightarrow> string option \<Rightarrow> string \<Rightarrow> new_event \<Rightarrow> bool \<Rightarrow> 's calendar_app
     \<Rightarrow> (app_error + (string option \<times> string option)) \<times> 's calendar_app"
where
  "write_remote_event E cal remote etag ics req del app =
     (case calendar_of (cx_db app) cal of
        None \<Rightarrow> (Inl NotFound, app)
      | Some c \<Rightarrow>
     (case kl_account c of
        None \<Rightarrow> (Inr (None, None), app)
      | Some acct \<Rightarrow>
          (let row = calendar_account_of (cx_db app) acct;
               provider = (case row of None \<Rightarrow> [] | Some a \<Rightarrow> ka_type a);
               scheme = (case row of None \<Rightarrow> ''basic'' | Some a \<Rightarrow> ka_auth_scheme a);
               enc = (case row of None \<Rightarrow> [] | Some a \<Rightarrow> ka_credentials a);
               input = event_input_of (ne_title req) (map_option (tk_render (ce_tokens E)) (ne_attendees req)) req
           in case decrypt_calendar_credentials (ce_tokens E) enc of
                Inl e \<Rightarrow> (Inl (BadGateway e), app)
              | Inr creds \<Rightarrow>
                  (if provider = ''caldav''
                   then write_caldav_event E (dav_auth_of scheme creds) (kl_url c) remote etag ics del app
                   else if provider = ''graph''
                   then (case as_str (jget creds ''access_token'') of
                           None \<Rightarrow> (Inl (BadGateway ''access_token missing''), app)
                         | Some tok \<Rightarrow> gateway (net_call (graph_write (ce_client E) tok remote input del) app) (\<lambda>i. (i, None)))
                   else if provider = ''google''
                   then (case google_access_token (ce_tokens E) acct creds app of
                           (Inl e, app1) \<Rightarrow> (Inl (BadGateway e), app1)
                         | (Inr tok, app1) \<Rightarrow>
                             gateway (net_call (google_write (ce_client E) tok
                               (case kl_url c of Some u \<Rightarrow> u | None \<Rightarrow> ''primary'') remote input del) app1) (\<lambda>i. (i, None)))
                   else (Inr (None, None), app)))))"

definition master_event :: "event_row \<Rightarrow> string \<Rightarrow> parsed_event" where
  "master_event e uid = \<lparr>ev_uid = uid, ev_title = er_summary e, ev_starts_at = er_start e, ev_ends_at = er_end e,
     ev_all_day = er_all_day e, ev_location = er_location e, ev_description = er_description e, ev_rrule = er_rrule e,
     ev_rrule_uid = Some uid, ev_recurrence_id = None, ev_status = None, ev_organizer_email = er_organizer_email e,
     ev_organizer_name = er_organizer_name e, ev_attendees_json = Some (er_attendees e), ev_busystatus = None,
     ev_teams_url = er_teams e, ev_raw = None\<rparr>"

text \<open>The row of a further occurrence: what the insertion copies from the first event, and its own times.\<close>

definition occurrence_row :: "string \<Rightarrow> event_row \<Rightarrow> string \<Rightarrow> parsed_event \<Rightarrow> event_row" where
  "occurrence_row time e uid o' = (blank_event (er_calendar e) time)\<lparr>er_uid := er_uid e, er_summary := er_summary e,
     er_start := ev_starts_at o', er_end := ev_ends_at o', er_all_day := er_all_day e, er_rrule_uid := Some uid,
     er_recurrence := ev_recurrence_id o', er_attendees := er_attendees e, er_teams := er_teams e\<rparr>"

fun insert_all :: "event_row list \<Rightarrow> calendar_tables \<Rightarrow> (app_error + unit) \<times> calendar_tables" where
  "insert_all [] db = (Inr (), db)"
| "insert_all (e # es) db =
     (case insert_event e db of Inl m \<Rightarrow> (Inl (Internal m), db) | Inr (_, db') \<Rightarrow> insert_all es db')"

definition expand_and_store_rrule ::
  "('m, 's) calendar_env \<Rightarrow> nat \<Rightarrow> calendar_tables \<Rightarrow> (app_error + unit) \<times> calendar_tables"
where
  "expand_and_store_rrule E ev db =
     (case event_of db ev of
        None \<Rightarrow> (Inr (), db)
      | Some e \<Rightarrow>
          (case er_uid e of
             None \<Rightarrow> (Inl (Internal ''unexpected null''), db)
           | Some uid \<Rightarrow>
               (if er_rrule e = None then (Inr (), db)
                else insert_all (map (occurrence_row (ce_time E) e uid) (drop 1 (expand_rrule (ce_client E) horizon_days (master_event e uid))))
                       (delete_events (\<lambda>x. er_rrule_uid x = Some uid \<and> er_id x \<noteq> ev) db))))"

definition created_row :: "('m, 's) calendar_env \<Rightarrow> nat \<Rightarrow> string \<Rightarrow> new_event \<Rightarrow> string \<Rightarrow> event_row \<Rightarrow> event_row" where
  "created_row E cal uid req ics r = r\<lparr>er_uid := Some uid, er_summary := ne_title req, er_description := ne_description req,
     er_location := ne_location req, er_start := ne_starts_at req, er_end := ne_ends_at req,
     er_all_day := (ne_all_day req = Some True), er_rrule := ne_rrule req, er_organizer_email := ne_organizer_email req,
     er_organizer_name := ne_organizer_name req, er_attendees := attendees_text E req, er_raw := Some ics,
     er_updated := ce_time E\<rparr>"

definition create_event ::
  "('m, 's) calendar_env \<Rightarrow> nat \<Rightarrow> new_event \<Rightarrow> 's calendar_app \<Rightarrow> (app_error + nat) \<times> 's calendar_app"
where
  "create_event E cal req app =
     (case draw E app of
        (u, app1) \<Rightarrow>
          (let uid = u @ ''@mailquill''; ics = event_ics E uid req in
           case write_remote_event E cal None None ics req False app1 of
             (Inl e, app2) \<Rightarrow> (Inl e, app2)
           | (Inr (remote, etag), app2) \<Rightarrow>
               (case insert_event ((created_row E cal uid req ics (blank_event cal (ce_time E)))\<lparr>er_href := remote, er_etag := etag\<rparr>) (cx_db app2) of
                  Inl m \<Rightarrow> (Inl (Internal m), app2)
                | Inr (ev, db) \<Rightarrow>
                    (case expand_and_store_rrule E ev db of
                       (Inl e, db') \<Rightarrow> (Inl e, app2\<lparr>cx_db := db'\<rparr>)
                     | (Inr _, db') \<Rightarrow> (Inr ev, app2\<lparr>cx_db := db'\<rparr>)))))"

definition update_event ::
  "('m, 's) calendar_env \<Rightarrow> nat \<Rightarrow> new_event \<Rightarrow> 's calendar_app \<Rightarrow> (app_error + nat) \<times> 's calendar_app"
where
  "update_event E ev req app =
     (case event_of (cx_db app) ev of
        None \<Rightarrow> (Inl NotFound, app)
      | Some e \<Rightarrow>
     (case (case er_uid e of Some u \<Rightarrow> (u, app) | None \<Rightarrow> (case draw E app of (u, app') \<Rightarrow> (u @ ''@mailquill'', app'))) of
        (uid, app1) \<Rightarrow>
          (let ics = event_ics E uid req in
           case write_remote_event E (er_calendar e) (er_href e) (er_etag e) ics req False app1 of
             (Inl err, app2) \<Rightarrow> (Inl err, app2)
           | (Inr (remote, etag), app2) \<Rightarrow>
               (case expand_and_store_rrule E ev (update_event_row ev (\<lambda>r. (created_row E (er_calendar e) uid req ics r)
                         \<lparr>er_href := or_option remote (er_href r), er_etag := or_option etag (er_etag r)\<rparr>) (cx_db app2)) of
                  (Inl err, db') \<Rightarrow> (Inl err, app2\<lparr>cx_db := db'\<rparr>)
                | (Inr _, db') \<Rightarrow> (Inr ev, app2\<lparr>cx_db := db'\<rparr>)))))"

definition removal :: "'s calendar_client \<Rightarrow> new_event" where
  "removal K = \<lparr>ne_title = [], ne_description = None, ne_location = None, ne_starts_at = now_text K, ne_ends_at = now_text K,
     ne_all_day = Some False, ne_rrule = None, ne_attendees = None, ne_organizer_email = None, ne_organizer_name = None\<rparr>"

definition delete_event ::
  "('m, 's) calendar_env \<Rightarrow> nat \<Rightarrow> 's calendar_app \<Rightarrow> (app_error + nat) \<times> 's calendar_app"
where
  "delete_event E ev app =
     (case event_of (cx_db app) ev of
        None \<Rightarrow> (Inl NotFound, app)
      | Some e \<Rightarrow>
          (case write_remote_event E (er_calendar e) (er_href e) (er_etag e) [] (removal (ce_client E)) True app of
             (Inl err, app1) \<Rightarrow> (Inl err, app1)
           | (Inr _, app1) \<Rightarrow>
               (let uid = Option.bind (event_of (cx_db app1) ev) er_uid in
                (Inr ev, cx_map (delete_events (\<lambda>x. er_id x = ev \<or> (uid \<noteq> None \<and> er_rrule_uid x = uid))) app1))))"

section \<open>Invitations\<close>

definition start_key :: "invite_row \<Rightarrow> nat list" where
  "start_key i = (case iv_start i of None \<Rightarrow> [] | Some v \<Rightarrow> 0 # text_key v)"

definition list_invitations :: "nat option \<Rightarrow> string option \<Rightarrow> 's calendar_app \<Rightarrow> invite_row list" where
  "list_invitations msg status app =
     sort_key start_key
       (case msg of
          Some m \<Rightarrow> filter (\<lambda>i. iv_message i = m) (kd_invites (cx_db app))
        | None \<Rightarrow> filter (\<lambda>i. iv_rsvp i = (case status of None \<Rightarrow> ''pending'' | Some v \<Rightarrow> v)) (kd_invites (cx_db app)))"

definition normalize_rsvp :: "string \<Rightarrow> app_error + string" where
  "normalize_rsvp response =
     (let r = to_lower response in
      if r = ''accept'' \<or> r = ''accepted'' then Inr ''accepted''
      else if r = ''tentative'' then Inr ''tentative''
      else if r = ''decline'' \<or> r = ''declined'' then Inr ''declined''
      else Inl (Unprocessable ''response must be accepted, tentative, or declined''))"

definition default_calendar_id :: "'s calendar_app \<Rightarrow> nat option" where
  "default_calendar_id app =
     (case cx_default app of
        Some cal \<Rightarrow> Some cal
      | None \<Rightarrow> map_option kl_id (first_of
          (sort_key (\<lambda>c. (if kl_default c then 0 else 1) # text_key (kl_created c)) (kd_calendars (cx_db app)))))"

definition compact_dt :: "string \<Rightarrow> string" where
  "compact_dt v =
     (let ds = filter is_digit v in if 14 \<le> length ds then take 8 ds @ ''T'' @ slice 8 14 ds @ ''Z'' else ds)"

definition rsvp_lines :: "string \<Rightarrow> string \<Rightarrow> string option \<Rightarrow> string option \<Rightarrow> string \<Rightarrow> string \<Rightarrow> string \<Rightarrow> string list" where
  "rsvp_lines uid summary start stop organizer attendee partstat =
     [''BEGIN:VCALENDAR'', ''VERSION:2.0'', ''PRODID:-//Mailquill//Calendar//EN'', ''METHOD:REPLY'', ''BEGIN:VEVENT'',
      ''UID:'' @ uid, ''SUMMARY:'' @ summary, ''DTSTART:'' @ compact_dt (or_empty start),
      ''DTEND:'' @ compact_dt (case stop of None \<Rightarrow> or_empty start | Some v \<Rightarrow> v), ''ORGANIZER:mailto:'' @ organizer,
      ''ATTENDEE;PARTSTAT='' @ partstat @ '':mailto:'' @ attendee, ''END:VEVENT'', ''END:VCALENDAR'']"

definition build_rsvp_ics :: "string \<Rightarrow> string \<Rightarrow> string option \<Rightarrow> string option \<Rightarrow> string \<Rightarrow> string \<Rightarrow> string \<Rightarrow> string" where
  "build_rsvp_ics uid summary start stop organizer attendee partstat =
     concat (map (\<lambda>l. l @ crlf) (rsvp_lines uid summary start stop organizer attendee partstat))"

text \<open>The oldest mail account answers, whichever received the invitation.\<close>

definition replying_account :: "'s calendar_app \<Rightarrow> (account_row \<times> smtp_columns) option" where
  "replying_account app =
     first_of (filter_some (map (\<lambda>c. map_option (\<lambda>a. (a, c)) (account_of (cx_mail app) (sc_account c)))
       (sort_key (\<lambda>c. text_key (sc_created c)) (cx_smtp app))))"

definition rsvp_request ::
  "account_row \<Rightarrow> smtp_columns \<Rightarrow> json \<Rightarrow> (string \<Rightarrow> string option) \<Rightarrow> string \<Rightarrow> string \<Rightarrow> string option \<Rightarrow> string option \<Rightarrow> string
     \<Rightarrow> string \<Rightarrow> send_request"
where
  "rsvp_request a c creds b64 uid summary start stop organizer partstat = \<lparr>sr_from = a_email a, sr_to = [organizer], sr_cc = [], sr_bcc = [],
     sr_subject = ''Re: '' @ summary,
     sr_body_text = Some (a_display_name a @ '' responded '' @ partstat @ '' to '' @ summary @ ''.''), sr_body_html = None,
     sr_pgp_mime_mode = None, sr_pgp_signature = None, sr_calendar_method = Some ''REPLY'',
     sr_calendar_ics = Some (build_rsvp_ics uid summary start stop organizer (a_email a) partstat),
     sr_in_reply_to = None, sr_references = None, sr_attachments = [], sr_host = sc_host c, sr_port = nat (sc_port c mod 65536),
     sr_user = text_at creds ''smtp_username'', sr_pass = text_at creds ''smtp_password'',
     sr_oauth_token = as_str (jget creds ''oauth_access_token''), sr_auth_scheme = sc_auth_scheme c,
     sr_trusted_cert = decode_trusted_cert b64 (sc_cert c)\<rparr>"

definition lettre_decode :: "('m, 's) lettre \<Rightarrow> string \<Rightarrow> string option" where
  "lettre_decode L v = (case lt_decode L v of Inl _ \<Rightarrow> None | Inr b \<Rightarrow> Some b)"

definition send_rsvp_reply ::
  "('m, 's) calendar_env \<Rightarrow> string \<Rightarrow> string \<Rightarrow> string \<Rightarrow> string option \<Rightarrow> string option \<Rightarrow> string \<Rightarrow> 's calendar_app
     \<Rightarrow> (app_error + unit) \<times> 's calendar_app"
where
  "send_rsvp_reply E organizer uid summary start stop partstat app =
     (case replying_account app of
        None \<Rightarrow> (Inr (), app)
      | Some (a, c) \<Rightarrow>
          (case decrypt_calendar_credentials (ce_tokens E) (a_credentials a) of
             Inl e \<Rightarrow> (Inl (Internal e), app)
           | Inr creds \<Rightarrow>
               (case net_call (send_mail (ce_lettre E) (rsvp_request a c creds (lettre_decode (ce_lettre E)) uid summary start stop organizer partstat)) app of
                  (Inl e, app') \<Rightarrow> (Inl (BadGateway (smtp_error_text e)), app')
                | (Inr _, app') \<Rightarrow> (Inr (), app'))))"

definition invited_event :: "string \<Rightarrow> nat \<Rightarrow> invite_row \<Rightarrow> event_row" where
  "invited_event time cal i = (blank_event cal time)\<lparr>er_uid := Some (iv_uid i),
     er_summary := (case iv_summary i of None \<Rightarrow> ''(No title)'' | Some v \<Rightarrow> v), er_start := or_empty (iv_start i),
     er_end := (case iv_end i of None \<Rightarrow> or_empty (iv_start i) | Some v \<Rightarrow> v), er_attendees := iv_attendees i,
     er_organizer_email := iv_organizer i, er_teams := iv_teams i, er_raw := Some (iv_raw i)\<rparr>"

definition enter_event :: "('m, 's) calendar_env \<Rightarrow> invite_row \<Rightarrow> 's calendar_app \<Rightarrow> app_error + 's calendar_app" where
  "enter_event E i app =
     (case default_calendar_id app of
        None \<Rightarrow> Inr app
      | Some cal \<Rightarrow>
          (case insert_event (invited_event (ce_time E) cal i) (cx_db app) of
             Inl m \<Rightarrow> Inl (Internal m) | Inr (_, db) \<Rightarrow> Inr (app\<lparr>cx_db := db\<rparr>)))"

definition set_rsvp :: "string \<Rightarrow> nat \<Rightarrow> string \<Rightarrow> calendar_tables \<Rightarrow> calendar_tables" where
  "set_rsvp time key response db = db\<lparr>kd_invites :=
     map (\<lambda>i. if iv_id i = key then i\<lparr>iv_rsvp := response, iv_updated := time\<rparr> else i) (kd_invites db)\<rparr>"

definition partstat_of :: "string \<Rightarrow> string" where
  "partstat_of response =
     (if response = ''accepted'' then ''ACCEPTED'' else if response = ''tentative'' then ''TENTATIVE'' else ''DECLINED'')"

definition rsvp_invitation ::
  "('m, 's) calendar_env \<Rightarrow> nat \<Rightarrow> string \<Rightarrow> 's calendar_app \<Rightarrow> (app_error + string) \<times> 's calendar_app"
where
  "rsvp_invitation E key answer app =
     (case normalize_rsvp answer of
        Inl e \<Rightarrow> (Inl e, app)
      | Inr response \<Rightarrow>
     (case find (\<lambda>i. iv_id i = key) (kd_invites (cx_db app)) of
        None \<Rightarrow> (Inl NotFound, app)
      | Some i \<Rightarrow>
     (case (if response = ''declined'' then Inr app else enter_event E i app) of
        Inl e \<Rightarrow> (Inl e, app)
      | Inr app1 \<Rightarrow>
          (let app2 = (case iv_organizer i of
                 None \<Rightarrow> app1
               | Some to \<Rightarrow> snd (send_rsvp_reply E to (iv_uid i) (case iv_summary i of None \<Rightarrow> ''Meeting response'' | Some v \<Rightarrow> v)
                     (iv_start i) (iv_end i) (partstat_of response) app1))
           in (Inr response, cx_map (set_rsvp (ce_time E) key response) app2)))))"

end
