(* ===== verification/Calendar_Facts.thy ===== *)
theory Calendar_Facts
  imports Calendar
begin

text \<open>
  What synchronising calendars does to the tables: rows are only added, with new keys; the ids, the calendar
  of an event and the uniqueness of occurrences are kept, as are the other accounts.  The reference
  definition of a recurring event, and what the routes of events do to the tables.
\<close>

section \<open>Keys\<close>

lemma find_member: "find P xs = Some x \<Longrightarrow> x \<in> set xs \<and> P x"
  by (auto simp: find_Some_iff)

definition event_key :: "event_row \<Rightarrow> nat \<times> string option \<times> string" where
  "event_key e = (er_calendar e, er_uid e, or_empty (er_recurrence e))"

definition row_ids :: "calendar_tables \<Rightarrow> (nat \<times> nat \<times> string option \<times> string) list" where
  "row_ids db = map (\<lambda>e. (er_id e, event_key e)) (kd_events db)"

text \<open>Ids are unique and were drawn before, and every event is in a calendar.\<close>

definition calendar_ok :: "calendar_tables \<Rightarrow> bool" where
  "calendar_ok db = (distinct (map fst (row_ids db)) \<and> distinct (map kl_id (kd_calendars db))
     \<and> (\<forall>k \<in> set (row_ids db). fst k < kd_next db \<and> fst (snd k) \<in> set (map kl_id (kd_calendars db)))
     \<and> (\<forall>c \<in> set (map kl_id (kd_calendars db)). c < kd_next db))"

text \<open>One row for each occurrence of an event that has a uid.\<close>

definition unique_events :: "calendar_tables \<Rightarrow> bool" where
  "unique_events db = distinct (filter (\<lambda>k. fst (snd k) \<noteq> None) (map snd (row_ids db)))"

definition sync_safe :: "string \<Rightarrow> calendar_tables \<Rightarrow> calendar_tables \<Rightarrow> bool" where
  "sync_safe acct db db' = (calendar_ok db \<longrightarrow> calendar_ok db' \<and> (\<exists>xs. row_ids db' = row_ids db @ xs)
     \<and> (unique_events db \<longrightarrow> unique_events db') \<and> (\<exists>ys. map kl_id (kd_calendars db') = map kl_id (kd_calendars db) @ ys)
     \<and> filter (\<lambda>a. ka_id a \<noteq> acct) (kd_accounts db') = filter (\<lambda>a. ka_id a \<noteq> acct) (kd_accounts db)
     \<and> map ka_id (kd_accounts db') = map ka_id (kd_accounts db) \<and> kd_invites db' = kd_invites db)"

lemma sync_safe_refl: "sync_safe acct db db"
  by (simp add: sync_safe_def)

lemma sync_safe_trans: "sync_safe acct db1 db2 \<Longrightarrow> sync_safe acct db2 db3 \<Longrightarrow> sync_safe acct db1 db3"
  by (auto simp: sync_safe_def)

lemma sync_safe_same_rows:
  assumes "kd_events db' = kd_events db" "kd_calendars db' = kd_calendars db" "kd_next db' = kd_next db" "kd_invites db' = kd_invites db"
    "filter (\<lambda>a. ka_id a \<noteq> acct) (kd_accounts db') = filter (\<lambda>a. ka_id a \<noteq> acct) (kd_accounts db)"
    "map ka_id (kd_accounts db') = map ka_id (kd_accounts db)"
  shows "sync_safe acct db db'"
  using assms by (simp add: sync_safe_def calendar_ok_def unique_events_def row_ids_def)

lemma sync_safe_update_account:
  assumes "\<And>a. ka_id (f a) = ka_id a"
  shows "sync_safe acct db (update_account acct f db)"
proof -
  have "filter (\<lambda>a. ka_id a \<noteq> acct) (map (\<lambda>a. if ka_id a = acct then f a else a) as) = filter (\<lambda>a. ka_id a \<noteq> acct) as"
    "map ka_id (map (\<lambda>a. if ka_id a = acct then f a else a) as) = map ka_id as" for as
    using assms by (induction as) auto
  then show ?thesis by (intro sync_safe_same_rows) (simp_all add: update_account_def)
qed

lemma sync_safe_after: "sync_safe acct db db' \<Longrightarrow> (\<And>a. ka_id (f a) = ka_id a) \<Longrightarrow> sync_safe acct db (update_account acct f db')"
  by (rule sync_safe_trans [OF _ sync_safe_update_account])

lemma sync_safe_before: "sync_safe acct (update_account acct f db) db' \<Longrightarrow> (\<And>a. ka_id (f a) = ka_id a) \<Longrightarrow> sync_safe acct db db'"
  by (rule sync_safe_trans [OF sync_safe_update_account])

lemma calendar_ids_update [simp]:
  "(\<And>c. kl_id (f c) = kl_id c) \<Longrightarrow> map kl_id (kd_calendars (update_calendar_row cal f db)) = map kl_id (kd_calendars db)"
  by (auto simp: update_calendar_row_def)

lemma sync_safe_update_calendar:
  assumes "\<And>c. kl_id (f c) = kl_id c"
  shows "sync_safe acct db (update_calendar_row cal f db)"
proof -
  have "map kl_id (kd_calendars (update_calendar_row cal f db)) = map kl_id (kd_calendars db)" using assms by simp
  moreover have "row_ids (update_calendar_row cal f db) = row_ids db" by (simp add: row_ids_def update_calendar_row_def)
  moreover have "kd_next (update_calendar_row cal f db) = kd_next db" "kd_accounts (update_calendar_row cal f db) = kd_accounts db"
    "kd_invites (update_calendar_row cal f db) = kd_invites db"
    by (simp_all add: update_calendar_row_def)
  ultimately show ?thesis unfolding sync_safe_def calendar_ok_def unique_events_def by simp
qed

lemma sync_safe_insert_calendar: "insert_calendar a name color url time db = (cal, db') \<Longrightarrow> sync_safe acct db db'"
  by (auto simp: sync_safe_def calendar_ok_def unique_events_def row_ids_def insert_calendar_def less_Suc_eq) (metis less_irrefl)+

lemma sync_safe_upsert_calendar: "upsert_calendar time a d db = (cal, db') \<Longrightarrow> sync_safe acct db db'"
  by (auto simp: upsert_calendar_def sync_safe_update_calendar dest: sync_safe_insert_calendar split: option.splits)

lemma calendar_of_ids: "calendar_of db cal \<noteq> None \<longleftrightarrow> cal \<in> set (map kl_id (kd_calendars db))"
  by (auto simp: calendar_of_def find_None_iff)

lemma upsert_calendar_exists: "upsert_calendar time acct d db = (cal, db') \<Longrightarrow> calendar_of db' cal \<noteq> None"
  unfolding calendar_of_ids
  by (auto simp: upsert_calendar_def insert_calendar_def simp del: set_map split: option.splits)
     (use find_member in fastforce)

section \<open>Storing events\<close>

lemma row_ids_map:
  assumes "calendar_ok db" "e \<in> set (kd_events db)" "event_key (f e) = event_key e" "er_id (f e) = er_id e"
  shows "row_ids (update_event_row (er_id e) f db) = row_ids db"
proof -
  have "inj_on er_id (set (kd_events db))"
    using assms(1) by (simp add: calendar_ok_def row_ids_def distinct_map comp_def)
  then have "x = e" if "x \<in> set (kd_events db)" "er_id x = er_id e" for x
    using that assms(2) by (simp add: inj_on_eq_iff)
  then show ?thesis using assms(3,4) by (auto simp: row_ids_def update_event_row_def)
qed

lemma fill_event_key:
  "same_occurrence cal uid (ev_recurrence_id ev) e \<Longrightarrow> event_key (fill_event now time ev e) = event_key e"
  by (simp add: same_occurrence_def event_key_def fill_event_def)

lemma same_occurrence_key: "same_occurrence cal uid recurrence e \<longleftrightarrow> event_key e = (cal, Some uid, or_empty recurrence)"
  by (auto simp: same_occurrence_def event_key_def)

definition remote_key :: "nat \<Rightarrow> remote_event \<Rightarrow> nat \<times> string option \<times> string" where
  "remote_key cal ev = (cal, Some (ev_uid ev), or_empty (ev_recurrence_id ev))"

text \<open>Storing an event keeps all rows and adds one when its key is new.\<close>

lemma store_event_rows:
  assumes "store_event now time cal ev db = Inr db'" "calendar_ok db"
  shows "row_ids db' = row_ids db @ (if remote_key cal ev \<in> snd ` set (row_ids db) then [] else [(kd_next db, remote_key cal ev)])"
    and "kd_next db' = (if remote_key cal ev \<in> snd ` set (row_ids db) then kd_next db else kd_next db + 1)"
    and "kd_calendars db' = kd_calendars db" "kd_accounts db' = kd_accounts db" "kd_invites db' = kd_invites db"
    and "calendar_of db cal = None \<Longrightarrow> remote_key cal ev \<in> snd ` set (row_ids db)"
proof -
  have keys: "remote_key cal ev \<in> snd ` set (row_ids db)
      \<longleftrightarrow> (\<exists>e \<in> set (kd_events db). same_occurrence cal (ev_uid ev) (ev_recurrence_id ev) e)"
    by (force simp: row_ids_def remote_key_def same_occurrence_key image_iff)
  have all: "(row_ids db' = row_ids db @ (if remote_key cal ev \<in> snd ` set (row_ids db) then [] else [(kd_next db, remote_key cal ev)]))
     \<and> kd_next db' = (if remote_key cal ev \<in> snd ` set (row_ids db) then kd_next db else kd_next db + 1)
     \<and> kd_calendars db' = kd_calendars db \<and> kd_accounts db' = kd_accounts db \<and> kd_invites db' = kd_invites db
     \<and> (calendar_of db cal = None \<longrightarrow> remote_key cal ev \<in> snd ` set (row_ids db))"
  proof (cases "find (same_occurrence cal (ev_uid ev) (ev_recurrence_id ev)) (kd_events db)")
    case None
    then have new: "remote_key cal ev \<notin> snd ` set (row_ids db)" unfolding keys by (simp add: find_None_iff)
    obtain db'' where ins: "insert_event (fill_event now time ev ((blank_event cal time)\<lparr>er_uid := Some (ev_uid ev)\<rparr>)) db = Inr (kd_next db, db'')"
      "db' = db''" using assms(1) None by (auto simp: store_event_def insert_event_def split: if_splits)
    then show ?thesis
      using new by (auto simp: insert_event_def row_ids_def remote_key_def event_key_def fill_event_def blank_event_def split: if_splits)
  next
    case (Some e)
    then have e: "e \<in> set (kd_events db)" "same_occurrence cal (ev_uid ev) (ev_recurrence_id ev) e"
      by (auto simp: find_Some_iff)
    then have old: "remote_key cal ev \<in> snd ` set (row_ids db)" unfolding keys by auto
    have db': "db' = update_event_row (er_id e) (fill_event now time ev) db"
      using assms(1) Some by (simp add: store_event_def)
    have "row_ids db' = row_ids db"
      unfolding db' using assms(2) e(1) fill_event_key [OF e(2)] by (rule row_ids_map) (simp add: fill_event_def)
    then show ?thesis
      using old by (simp add: db' update_event_row_def)
  qed
  show "row_ids db' = row_ids db @ (if remote_key cal ev \<in> snd ` set (row_ids db) then [] else [(kd_next db, remote_key cal ev)])"
    "kd_next db' = (if remote_key cal ev \<in> snd ` set (row_ids db) then kd_next db else kd_next db + 1)"
    "kd_calendars db' = kd_calendars db" "kd_accounts db' = kd_accounts db" "kd_invites db' = kd_invites db"
    using all by (simp_all only:)
  show "calendar_of db cal = None \<Longrightarrow> remote_key cal ev \<in> snd ` set (row_ids db)" using all by blast
qed

lemma sync_safe_store_event: "store_event now time cal ev db = Inr db' \<Longrightarrow> sync_safe acct db db'"
proof -
  assume st: "store_event now time cal ev db = Inr db'"
  have "calendar_ok db' \<and> (unique_events db \<longrightarrow> unique_events db')" if ok: "calendar_ok db"
  proof (cases "remote_key cal ev \<in> snd ` set (row_ids db)")
    case True
    then have "row_ids db' = row_ids db" "kd_next db' = kd_next db" "kd_calendars db' = kd_calendars db"
      using store_event_rows [OF st ok] by simp_all
    then show ?thesis using ok by (simp add: calendar_ok_def unique_events_def)
  next
    case False
    then have rows: "row_ids db' = row_ids db @ [(kd_next db, remote_key cal ev)]" "kd_next db' = kd_next db + 1"
        "kd_calendars db' = kd_calendars db" using store_event_rows [OF st ok] by simp_all
    have "calendar_of db cal \<noteq> None" using store_event_rows(6) [OF st ok] False by blast
    then have cal: "cal \<in> set (map kl_id (kd_calendars db))" by (simp only: calendar_of_ids)
    have "calendar_ok db'" using ok cal unfolding calendar_ok_def rows by (fastforce simp: remote_key_def)
    moreover have "unique_events db'" if "unique_events db"
      using that False unfolding unique_events_def rows by (auto simp: image_iff)
    ultimately show ?thesis by blast
  qed
  then show ?thesis using store_event_rows [OF st] unfolding sync_safe_def by simp
qed

lemma sync_safe_store_all: "store_all now time cal evs db = (r, db') \<Longrightarrow> sync_safe acct db db'"
proof (induction evs arbitrary: db)
  case (Cons ev evs)
  then show ?case by (auto simp: sync_safe_refl split: sum.splits intro: sync_safe_trans sync_safe_store_event)
qed (simp add: sync_safe_refl)

lemma sync_safe_store_events: "store_events K time cal evs db = (r, db') \<Longrightarrow> sync_safe acct db db'"
  unfolding store_events_def by (rule sync_safe_store_all)

section \<open>Synchronisation\<close>

lemma sync_safe_store_sync_result: "store_sync_result K time acct res db = (r, db') \<Longrightarrow> sync_safe acct db db'"
  by (auto simp: store_sync_result_def Let_def split: prod.splits sum.splits
      intro: sync_safe_trans dest!: sync_safe_upsert_calendar [where acct = acct] sync_safe_store_events [where acct = acct]
        intro!: sync_safe_trans [OF sync_safe_trans sync_safe_update_account])

lemma sync_safe_store_results: "store_results K time acct rs db = (r, db') \<Longrightarrow> sync_safe acct db db'"
  by (induction rs arbitrary: db)
     (auto simp: sync_safe_refl split: prod.splits sum.splits intro: sync_safe_trans sync_safe_store_sync_result)

lemma net_call_db [simp]: "net_call f app = (x, app') \<Longrightarrow> cx_db app' = cx_db app"
  by (auto simp: net_call_def split: prod.splits)

lemma db_call_iff: "db_call f app = (x, app') \<longleftrightarrow> (\<exists>db'. f (cx_db app) = (x, db') \<and> app' = app\<lparr>cx_db := db'\<rparr>)"
  by (auto simp: db_call_def split: prod.splits)

lemma cx_map_db [simp]: "cx_db (cx_map f app) = f (cx_db app)"
  by (simp add: cx_map_def)

lemma google_access_token_db: "google_access_token T acct creds app = (x, app') \<Longrightarrow> cx_db app' = cx_db app"
  by (auto simp: google_access_token_def split: if_splits prod.splits)

lemma sync_safe_sync_collection:
  assumes "sync_collection E acct auth lax from till d app = (r, app')"
  shows "sync_safe acct (cx_db app) (cx_db app')"
proof -
  obtain cal db1 where up: "upsert_calendar (ce_time E) acct d (cx_db app) = (cal, db1)" by force
  define app1 where "app1 = app\<lparr>cx_db := db1\<rparr>"
  obtain tagged app2 where tag: "net_call (collection_ctag_with_tls_options (ce_client E) (di_url d) auth None lax) app1 = (tagged, app2)"
    by force
  obtain pulled app3 where pull: "net_call (pull_range_with_tls_options (ce_client E) (di_url d) auth (Some from) (Some till) None lax) app2 = (pulled, app3)"
    by force
  have db2: "cx_db app2 = db1" "cx_db app3 = db1" using net_call_db [OF tag] net_call_db [OF pull] by (simp_all add: app1_def)
  note up_safe = sync_safe_upsert_calendar [OF up, where acct = acct]
  show ?thesis
  proof (cases pulled)
    case (Inl e)
    then show ?thesis using assms up_safe tag pull db2
      by (auto simp: sync_collection_def Let_def db_call_def up app1_def [symmetric] split: if_splits)
  next
    case (Inr evs)
    obtain q db4 where st: "store_events (ce_client E) (ce_time E) cal evs db1 = (q, db4)" by force
    have "sync_safe acct (cx_db app) db4" by (rule sync_safe_trans [OF up_safe sync_safe_store_events [OF st]])
    then have "sync_safe acct (cx_db app) db4" "sync_safe acct (cx_db app) (update_calendar_row cal (\<lambda>c. c\<lparr>kl_ctag := t\<rparr>) db4)" for t
      by (simp_all add: sync_safe_trans [OF _ sync_safe_update_calendar])
    then show ?thesis using assms up_safe tag pull db2 st Inr
      by (auto simp: sync_collection_def Let_def db_call_def up app1_def [symmetric] split: if_splits sum.splits)
  qed
qed

lemma sync_safe_sync_collections: "sync_collections E acct auth lax from till ds app = (r, app') \<Longrightarrow> sync_safe acct (cx_db app) (cx_db app')"
  by (induction ds arbitrary: app)
     (auto simp: sync_safe_refl split: prod.splits sum.splits intro: sync_safe_trans sync_safe_sync_collection)

lemma sync_safe_sync_caldav: "sync_caldav E a creds override from till app = (r, app') \<Longrightarrow> sync_safe (ka_id a) (cx_db app) (cx_db app')"
  by (auto simp: sync_caldav_def Let_def sync_safe_refl split: prod.splits sum.splits
      dest!: net_call_db sync_safe_sync_collections)
     (erule sync_safe_before, simp)

lemma sync_safe_store_fetched:
  "store_fetched E acct (x, app1) = (r, app') \<Longrightarrow> cx_db app1 = cx_db app \<Longrightarrow> sync_safe acct (cx_db app) (cx_db app')"
  by (auto simp: store_fetched_def db_call_iff sync_safe_refl split: sum.splits dest: sync_safe_store_results)

lemma sync_safe_store_called:
  "store_fetched E acct (net_call f app1) = (r, app') \<Longrightarrow> cx_db app1 = cx_db app \<Longrightarrow> sync_safe acct (cx_db app) (cx_db app')"
  by (cases "net_call f app1") (auto dest: net_call_db intro: sync_safe_store_fetched)

lemma sync_safe_sync_inner:
  assumes "sync_calendar_account_inner E acct override app = (r, app')"
  shows "sync_safe acct (cx_db app) (cx_db app')"
proof -
  have "ka_id a = acct" if "calendar_account_of (cx_db app) acct = Some a" for a
    using that find_member unfolding calendar_account_of_def by fastforce
  then show ?thesis using assms
    by (auto simp: sync_calendar_account_inner_def Let_def sync_safe_refl split: option.splits sum.splits prod.splits if_splits
        dest!: net_call_db google_access_token_db sync_safe_sync_caldav intro: sync_safe_store_fetched sync_safe_store_called)
qed

lemma sync_safe_sync_account:
  assumes "sync_calendar_account_with_tls_override E acct override app = (r, app')"
  shows "sync_safe acct (cx_db app) (cx_db app')"
proof -
  define app1 where "app1 = cx_map (update_account acct (\<lambda>a. a\<lparr>ka_status := ''syncing'', ka_error := None\<rparr>)) app"
  obtain q app2 where inner: "sync_calendar_account_inner E acct override app1 = (q, app2)" by force
  have "sync_safe acct (cx_db app) (cx_db app1)" by (simp add: app1_def sync_safe_update_account)
  from sync_safe_trans [OF this sync_safe_sync_inner [OF inner]] have "sync_safe acct (cx_db app) (cx_db app2)" .
  then show ?thesis using assms inner
    by (auto simp: sync_calendar_account_with_tls_override_def app1_def [symmetric] split: sum.splits
        intro!: sync_safe_after)
qed

section \<open>Storing the same events again\<close>

lemma store_all_keys:
  "store_all now time cal evs db = (Inr (), db') \<Longrightarrow> calendar_ok db \<Longrightarrow>
     snd ` set (row_ids db') = snd ` set (row_ids db) \<union> remote_key cal ` set evs"
proof (induction evs arbitrary: db)
  case (Cons ev evs)
  then obtain db1 where st: "store_event now time cal ev db = Inr db1" "store_all now time cal evs db1 = (Inr (), db')"
    by (auto split: sum.splits)
  have ok: "calendar_ok db1" using sync_safe_store_event [OF st(1)] Cons.prems(2) by (auto simp: sync_safe_def)
  have "snd ` set (row_ids db1) = insert (remote_key cal ev) (snd ` set (row_ids db))"
    unfolding store_event_rows(1) [OF st(1) Cons.prems(2)] by (cases "remote_key cal ev \<in> snd ` set (row_ids db)") (simp_all add: insert_absorb)
  then show ?case using Cons.IH [OF st(2) ok] by auto
qed simp

lemma store_all_known:
  "store_all now time cal evs db = (r, db') \<Longrightarrow> calendar_ok db \<Longrightarrow> remote_key cal ` set evs \<subseteq> snd ` set (row_ids db)
     \<Longrightarrow> row_ids db' = row_ids db \<and> kd_next db' = kd_next db"
proof (induction evs arbitrary: db)
  case (Cons ev evs)
  show ?case
  proof (cases "store_event now time cal ev db")
    case (Inl e)
    then show ?thesis using Cons.prems by simp
  next
    case (Inr db1)
    have ok: "calendar_ok db1" using sync_safe_store_event [OF Inr] Cons.prems(2) by (auto simp: sync_safe_def)
    have "row_ids db1 = row_ids db" "kd_next db1 = kd_next db"
      using store_event_rows(1,2) [OF Inr Cons.prems(2)] Cons.prems(3) by auto
    then show ?thesis using Cons.IH [of db1] Cons.prems Inr ok by simp
  qed
qed simp

text \<open>Rows are added only for keys that no row had.\<close>

lemma store_all_adds:
  "store_all now time cal evs db = (r, db') \<Longrightarrow> calendar_ok db \<Longrightarrow>
     \<exists>new. row_ids db' = row_ids db @ new \<and> snd ` set new \<subseteq> remote_key cal ` set evs - snd ` set (row_ids db)"
proof (induction evs arbitrary: db)
  case (Cons ev evs)
  show ?case
  proof (cases "store_event now time cal ev db")
    case (Inl e)
    then show ?thesis using Cons.prems by simp
  next
    case (Inr db1)
    have ok: "calendar_ok db1" using sync_safe_store_event [OF Inr] Cons.prems(2) by (auto simp: sync_safe_def)
    obtain new where new: "row_ids db' = row_ids db1 @ new" "snd ` set new \<subseteq> remote_key cal ` set evs - snd ` set (row_ids db1)"
      using Cons.IH [of db1] Cons.prems(1) Inr ok by auto
    show ?thesis
      using new store_event_rows(1) [OF Inr Cons.prems(2)]
      by (intro exI [of _ "(if remote_key cal ev \<in> snd ` set (row_ids db) then [] else [(kd_next db, remote_key cal ev)]) @ new"]) auto
  qed
qed simp

section \<open>Recurring events\<close>

text \<open>The occurrences are those numbers below the count that lie before the horizon.\<close>

lemma occurrences_filter:
  assumes "0 < step"
  shows "occurrences K ev start duration step till n i =
    map (\<lambda>j. occurrence K ev start duration (step * int j)) (filter (\<lambda>j. fst start + step * int j \<le> till) [i..<i + n])"
proof (induction n arbitrary: i)
  case 0
  then show ?case by (subst occurrences.simps) simp
next
  case (Suc n)
  have cut: "[i..<Suc (i + n)] = i # [Suc i..<Suc (i + n)]" by (simp add: upt_conv_Cons del: upt_Suc)
  show ?case
  proof (cases "till < fst start + step * int i")
    case True
    have "till < fst start + step * int j" if "i \<le> j" for j
    proof -
      have "step * int i \<le> step * int j" using that assms by (simp add: mult_left_mono)
      then show ?thesis using True by linarith
    qed
    then have "filter (\<lambda>j. fst start + step * int j \<le> till) [i..<i + Suc n] = []"
      by (simp add: filter_empty_conv not_le del: upt_Suc)
    then show ?thesis using True by (subst occurrences.simps) simp
  next
    case False
    then show ?thesis using Suc [of "Suc i"] by (subst occurrences.simps) (simp add: cut del: upt_Suc)
  qed
qed

lemma rrule_days_pos: "0 < day_ns * rrule_days freq"
  by (simp add: rrule_days_def day_ns_def)

lemma expand_rrule_filter:
  assumes "ev_rrule ev = Some rule" "cl_parse_time K (ensure_tz K (ev_starts_at ev)) = Some start"
    "cl_parse_time K (ensure_tz K (ev_ends_at ev)) = Some stop"
    "step = day_ns * rrule_days (case rrule_param rule ''FREQ'' of Some f \<Rightarrow> f | None \<Rightarrow> ''DAILY'')"
  shows "expand_rrule K window ev =
    map (\<lambda>j. occurrence K ev start (fst stop - fst start) (step * int j))
      (filter (\<lambda>j. fst start + step * int j \<le> cl_now K + day_ns * window) [0..<rrule_count rule])"
  using occurrences_filter [OF rrule_days_pos, of K ev start "fst stop - fst start"] assms by (simp add: expand_rrule_def)

lemma occurrence_fields:
  "ev_uid (occurrence K ev start duration offset) = ev_uid ev"
  "ev_recurrence_id (occurrence K ev start duration offset) = Some (ev_starts_at (occurrence K ev start duration offset))"
  "ev_starts_at (occurrence K ev start duration offset) = cl_show_time K (fst start + offset, snd start)"
  by (simp_all add: occurrence_def Let_def)

definition starts_stored :: "calendar_tables \<Rightarrow> nat \<times> string option \<times> string \<Rightarrow> string \<Rightarrow> bool" where
  "starts_stored db k begins = (\<exists>e \<in> set (kd_events db). event_key e = k \<and> er_start e = begins)"

lemma store_event_start:
  assumes "store_event now time cal ev db = Inr db'"
  shows "starts_stored db' (remote_key cal ev) (ev_starts_at ev)"
proof (cases "find (same_occurrence cal (ev_uid ev) (ev_recurrence_id ev)) (kd_events db)")
  case None
  then show ?thesis using assms
    by (auto simp: store_event_def insert_event_def starts_stored_def remote_key_def event_key_def fill_event_def blank_event_def split: if_splits)
next
  case (Some e)
  then have e: "e \<in> set (kd_events db)" "same_occurrence cal (ev_uid ev) (ev_recurrence_id ev) e" using find_member by fastforce+
  then have "fill_event now time ev e \<in> set (kd_events db')" "event_key (fill_event now time ev e) = remote_key cal ev"
    using assms Some by (auto simp: store_event_def update_event_row_def fill_event_key same_occurrence_key remote_key_def)
  then show ?thesis unfolding starts_stored_def by (force simp: fill_event_def)
qed

lemma store_event_keeps_row:
  assumes "store_event now time cal ev db = Inr db'" "calendar_ok db" "e \<in> set (kd_events db)" "event_key e \<noteq> remote_key cal ev"
  shows "e \<in> set (kd_events db')"
proof (cases "find (same_occurrence cal (ev_uid ev) (ev_recurrence_id ev)) (kd_events db)")
  case None
  then show ?thesis using assms by (auto simp: store_event_def insert_event_def split: if_splits)
next
  case (Some e')
  then have e': "e' \<in> set (kd_events db)" "event_key e' = remote_key cal ev"
    using find_member by (fastforce simp: same_occurrence_key remote_key_def)+
  have "inj_on er_id (set (kd_events db))" using assms(2) by (simp add: calendar_ok_def row_ids_def distinct_map comp_def)
  then have "er_id e \<noteq> er_id e'" using e' assms(3,4) by (auto simp: inj_on_def)
  then show ?thesis using assms(1,3) Some by (auto simp: store_event_def update_event_row_def)
qed

lemma store_all_keeps_row:
  "store_all now time cal evs db = (r, db') \<Longrightarrow> calendar_ok db \<Longrightarrow> e \<in> set (kd_events db) \<Longrightarrow> event_key e \<notin> remote_key cal ` set evs
     \<Longrightarrow> e \<in> set (kd_events db')"
proof (induction evs arbitrary: db)
  case (Cons ev evs)
  show ?case
  proof (cases "store_event now time cal ev db")
    case (Inr db1)
    have "calendar_ok db1" using sync_safe_store_event [OF Inr] Cons.prems(2) by (auto simp: sync_safe_def)
    then show ?thesis using Cons.IH [of db1] Cons.prems Inr store_event_keeps_row [OF Inr] by auto
  qed (use Cons.prems in simp)
qed simp

text \<open>Events whose recurrence id is their start: a stored start stays, also when its key comes again.\<close>

lemma store_all_starts:
  "store_all now time cal evs db = (Inr (), db') \<Longrightarrow> calendar_ok db \<Longrightarrow> (\<And>ev. ev \<in> set evs \<Longrightarrow> ev_recurrence_id ev = Some (ev_starts_at ev))
     \<Longrightarrow> starts_stored db (cal, Some u, begins) begins \<or> (\<exists>ev \<in> set evs. ev_uid ev = u \<and> ev_starts_at ev = begins)
     \<Longrightarrow> starts_stored db' (cal, Some u, begins) begins"
proof (induction evs arbitrary: db)
  case (Cons ev evs)
  then obtain db1 where st: "store_event now time cal ev db = Inr db1" "store_all now time cal evs db1 = (Inr (), db')"
    by (auto split: sum.splits)
  have ok: "calendar_ok db1" using sync_safe_store_event [OF st(1)] Cons.prems(2) by (auto simp: sync_safe_def)
  have key: "remote_key cal ev = (cal, Some (ev_uid ev), ev_starts_at ev)"
    using Cons.prems(3) [of ev] by (simp add: remote_key_def or_empty_def)
  have "starts_stored db1 (cal, Some u, begins) begins \<or> (\<exists>ev \<in> set evs. ev_uid ev = u \<and> ev_starts_at ev = begins)"
  proof (cases "ev_uid ev = u \<and> ev_starts_at ev = begins")
    case True
    then show ?thesis using store_event_start [OF st(1)] key by simp
  next
    case False
    then have "e \<in> set (kd_events db1)" if "e \<in> set (kd_events db)" "event_key e = (cal, Some u, begins)" for e
      using store_event_keeps_row [OF st(1) Cons.prems(2) that(1)] that(2) key by auto
    then show ?thesis using Cons.prems(4) False by (auto simp: starts_stored_def)
  qed
  then show ?case using Cons.IH [OF st(2) ok] Cons.prems(3) by simp
qed simp

section \<open>Change tags\<close>

lemma store_event_calendars: "store_event now time cal ev db = Inr db' \<Longrightarrow> kd_calendars db' = kd_calendars db"
  by (auto simp: store_event_def insert_event_def update_event_row_def split: option.splits if_splits)

lemma store_all_calendars: "store_all now time cal evs db = (r, db') \<Longrightarrow> kd_calendars db' = kd_calendars db"
  by (induction evs arbitrary: db) (auto split: sum.splits dest!: store_event_calendars)

lemma find_map_same: "(\<And>x. P (f x) = P x) \<Longrightarrow> find P (map f xs) = map_option f (find P xs)"
  by (induction xs) auto

lemma upsert_calendar_tags:
  assumes "upsert_calendar time acct d db = (cal, db')" "calendar_of db k = Some c"
  shows "\<exists>c'. calendar_of db' k = Some c' \<and> kl_ctag c' = kl_ctag c"
proof (cases "find (\<lambda>c. kl_account c = Some acct \<and> kl_url c = Some (di_url d)) (kd_calendars db)")
  case None
  have "find P (xs @ ys) = Some x" if "find P xs = Some x" for P and xs ys :: "calendar_row list" and x
    using that by (induction xs) auto
  then show ?thesis using assms None by (auto simp: upsert_calendar_def insert_calendar_def calendar_of_def)
next
  case (Some c0)
  let ?f = "\<lambda>c. if kl_id c = kl_id c0 then c\<lparr>kl_name := di_name d, kl_color := (case di_color d of None \<Rightarrow> kl_color c | Some v \<Rightarrow> v)\<rparr> else c"
  have "calendar_of db' k = map_option ?f (calendar_of db k)"
    using assms(1) Some unfolding calendar_of_def
    by (subst find_map_same [symmetric]) (auto simp: upsert_calendar_def update_calendar_row_def)
  then show ?thesis using assms(2) by auto
qed

lemma failed_collection_calendars:
  assumes "sync_collection E acct auth lax from till d app = (Inl err, app')" "upsert_calendar (ce_time E) acct d (cx_db app) = (cal, db1)"
  shows "kd_calendars (cx_db app') = kd_calendars db1"
  using assms unfolding sync_collection_def store_events_def
  by (auto simp: Let_def db_call_def split: prod.splits sum.splits if_splits dest!: net_call_db store_all_calendars)

section \<open>Replies\<close>

lemma split_on_inner:
  "d \<notin> set w \<Longrightarrow> w \<in> set (butlast (tl (split_on d (p @ d # w @ d # t))))"
proof (induction p)
  case Nil
  then show ?case by (simp add: split_on_append)
next
  case (Cons c p)
  then have "split_on d (p @ d # w @ d # t) \<noteq> []" "tl (split_on d (p @ d # w @ d # t)) \<noteq> []" by auto
  then show ?case using Cons by (cases "split_on d (p @ d # w @ d # t)") (auto simp: butlast.simps)
qed

lemma inner_line:
  assumes "lf \<notin> set line"
  shows "line \<in> set (lines_of (p @ [lf] @ line @ crlf @ t))"
proof -
  have "line @ [cr] \<in> set (butlast (tl (split_on lf (p @ lf # (line @ [cr]) @ lf # t))))"
    using assms by (intro split_on_inner) (simp add: lf_def cr_def)
  moreover have "p @ [lf] @ line @ crlf @ t = p @ lf # (line @ [cr]) @ lf # t" by (simp add: crlf_def cr_def lf_def)
  ultimately have "line @ [cr] \<in> set (butlast (split_on lf (p @ [lf] @ line @ crlf @ t)))"
    by (metis butlast_tl list.set_sel(2) tl_Nil)
  then have "strip_cr (line @ [cr]) \<in> set (map strip_cr (butlast (split_on lf (p @ [lf] @ line @ crlf @ t))))" by simp
  then show ?thesis by (auto simp: lines_of_def Let_def strip_cr_def)
qed

lemma rsvp_summary_line:
  assumes "lf \<notin> set line"
  shows "line \<in> set (lines_of (build_rsvp_ics uid (a @ [lf] @ line) start stop organizer attendee partstat))"
proof -
  have "\<exists>p t. build_rsvp_ics uid (a @ [lf] @ line) start stop organizer attendee partstat = p @ [lf] @ line @ crlf @ t"
    unfolding build_rsvp_ics_def rsvp_lines_def
    by (rule exI [of _ "concat (map (\<lambda>l. l @ crlf) [''BEGIN:VCALENDAR'', ''VERSION:2.0'', ''PRODID:-//Mailquill//Calendar//EN'',
          ''METHOD:REPLY'', ''BEGIN:VEVENT'', ''UID:'' @ uid]) @ ''SUMMARY:'' @ a"]) (rule exI, simp)
  then show ?thesis using inner_line [OF assms] by auto
qed

end
