(* ===== verification/Calendar_System.thy ===== *)
theory Calendar_System
  imports Calendar_Facts
begin

text \<open>
  The calendar routes of one user in any order: each is one step on the tables, and every step keeps the ids
  unique and every event in a calendar.  Between the routes the mail synchronisation writes invitations, and
  mail accounts, settings and servers change freely.
\<close>

section \<open>Changes of the tables\<close>

lemma calendar_okI:
  assumes "distinct (map er_id (kd_events db))" "distinct (map kl_id (kd_calendars db))"
    "\<And>e. e \<in> set (kd_events db) \<Longrightarrow> er_id e < kd_next db \<and> er_calendar e \<in> kl_id ` set (kd_calendars db)"
    "\<And>c. c \<in> set (kd_calendars db) \<Longrightarrow> kl_id c < kd_next db"
  shows "calendar_ok db"
  using assms by (auto simp: calendar_ok_def row_ids_def event_key_def comp_def)

lemma calendar_okD:
  assumes "calendar_ok db"
  shows "distinct (map er_id (kd_events db))" "distinct (map kl_id (kd_calendars db))"
    "e \<in> set (kd_events db) \<Longrightarrow> er_id e < kd_next db \<and> er_calendar e \<in> kl_id ` set (kd_calendars db)"
    "c \<in> set (kd_calendars db) \<Longrightarrow> kl_id c < kd_next db"
  using assms by (auto simp: calendar_ok_def row_ids_def event_key_def comp_def)

lemma sync_safe_ok: "sync_safe acct db db' \<Longrightarrow> calendar_ok db \<Longrightarrow> calendar_ok db'"
  by (simp add: sync_safe_def)

lemma calendar_ok_same:
  "kd_events db' = kd_events db \<Longrightarrow> kd_calendars db' = kd_calendars db \<Longrightarrow> kd_next db \<le> kd_next db' \<Longrightarrow> calendar_ok db \<Longrightarrow> calendar_ok db'"
  by (rule calendar_okI) (use calendar_okD [of db] in force)+

lemma calendar_ok_insert_event:
  assumes "insert_event e db = Inr (k, db')" "calendar_ok db"
  shows "calendar_ok db'"
proof -
  have cal: "er_calendar e \<in> set (map kl_id (kd_calendars db))"
    using assms(1) calendar_of_ids [of db "er_calendar e"] by (auto simp: insert_event_def split: if_splits)
  have db': "db' = db\<lparr>kd_events := kd_events db @ [e\<lparr>er_id := kd_next db\<rparr>], kd_next := kd_next db + 1\<rparr>"
    using assms(1) by (auto simp: insert_event_def split: if_splits)
  show ?thesis
    by (rule calendar_okI) (use calendar_okD [OF assms(2)] cal in \<open>force simp: db' less_Suc_eq\<close>)+
qed

lemma calendar_ok_insert_all: "insert_all es db = (r, db') \<Longrightarrow> calendar_ok db \<Longrightarrow> calendar_ok db'"
  by (induction es arbitrary: db) (auto split: sum.splits dest: calendar_ok_insert_event)

lemma calendar_ok_delete_events: "calendar_ok db \<Longrightarrow> calendar_ok (delete_events P db)"
  by (rule calendar_okI) (use calendar_okD [of db] in \<open>auto simp: delete_events_def distinct_map_filter\<close>)

lemma calendar_ok_delete_calendars:
  assumes "calendar_ok db"
  shows "calendar_ok (delete_calendars P db)"
proof (rule calendar_okI)
  show "er_id e < kd_next (delete_calendars P db) \<and> er_calendar e \<in> kl_id ` set (kd_calendars (delete_calendars P db))"
    if "e \<in> set (kd_events (delete_calendars P db))" for e
    using that calendar_okD(3) [OF assms, of e] by (auto simp: delete_calendars_def Let_def)
qed (use calendar_okD [OF assms] in \<open>auto simp: delete_calendars_def Let_def distinct_map_filter\<close>)

lemma calendar_ok_update_event:
  assumes "calendar_ok db" "\<And>e. er_id (f e) = er_id e" "\<And>e. er_calendar (f e) = er_calendar e"
  shows "calendar_ok (update_event_row k f db)"
proof (rule calendar_okI)
  have ids: "map er_id (kd_events (update_event_row k f db)) = map er_id (kd_events db)"
    using assms(2) by (simp add: update_event_row_def)
  show "distinct (map er_id (kd_events (update_event_row k f db)))" unfolding ids by (rule calendar_okD(1) [OF assms(1)])
  show "er_id e < kd_next (update_event_row k f db) \<and> er_calendar e \<in> kl_id ` set (kd_calendars (update_event_row k f db))"
    if "e \<in> set (kd_events (update_event_row k f db))" for e
    using that calendar_okD(3) [OF assms(1)] assms(2,3) by (auto simp: update_event_row_def split: if_splits)
qed (use calendar_okD [OF assms(1)] in \<open>simp_all add: update_event_row_def\<close>)

lemma calendar_ok_update_calendar: "(\<And>c. kl_id (f c) = kl_id c) \<Longrightarrow> calendar_ok db \<Longrightarrow> calendar_ok (update_calendar_row k f db)"
  by (rule sync_safe_ok [OF sync_safe_update_calendar])

lemma calendar_ok_expand: "expand_and_store_rrule E k db = (r, db') \<Longrightarrow> calendar_ok db \<Longrightarrow> calendar_ok db'"
  by (auto simp: expand_and_store_rrule_def split: option.splits if_splits dest: calendar_ok_insert_all intro: calendar_ok_delete_events)

section \<open>Remote writes leave the tables\<close>

text \<open>A remote write may draw an id and changes nothing else of the tables.\<close>

definition drawn :: "calendar_tables \<Rightarrow> calendar_tables \<Rightarrow> bool" where
  "drawn db db' = (db' = db \<or> db' = db\<lparr>kd_next := kd_next db + 1\<rparr>)"

lemma drawn_ok: "drawn db db' \<Longrightarrow> calendar_ok db \<Longrightarrow> calendar_ok db'"
  unfolding drawn_def by (auto intro: calendar_ok_same)

lemma drawn_refl [simp]: "drawn db db"
  by (simp add: drawn_def)

lemma gateway_db: "gateway (net_call f app) g = (r, app') \<Longrightarrow> cx_db app' = cx_db app"
  by (cases "net_call f app") (auto simp: gateway_def dest: net_call_db split: sum.splits)

lemma draw_db: "draw E app = (u, app') \<Longrightarrow> cx_db app' = (cx_db app)\<lparr>kd_next := kd_next (cx_db app) + 1\<rparr>"
  by (auto simp: draw_def)

lemma write_caldav_event_drawn: "write_caldav_event E auth coll remote etag ics del app = (r, app') \<Longrightarrow> drawn (cx_db app) (cx_db app')"
  by (auto simp: write_caldav_event_def drawn_def split: if_splits option.splits prod.splits dest!: gateway_db draw_db)

lemma write_remote_event_drawn: "write_remote_event E cal remote etag ics req del app = (r, app') \<Longrightarrow> drawn (cx_db app) (cx_db app')"
  by (auto simp: write_remote_event_def Let_def split: option.splits sum.splits if_splits prod.splits
      dest!: gateway_db google_access_token_db write_caldav_event_drawn)

section \<open>Routes\<close>

lemma calendar_ok_create_account:
  assumes "create_calendar_account E req app = (r, app')" "calendar_ok (cx_db app)"
  shows "calendar_ok (cx_db app')"
proof (cases "cx_db app' = cx_db app")
  case False
  then obtain enc db q app1 where run:
    "insert_account (new_account_row req (ce_uuid E (kd_next (cx_db app))) enc) ((cx_db app)\<lparr>kd_next := kd_next (cx_db app) + 1\<rparr>) = Inr db"
    "sync_calendar_account_with_tls_override E (ce_uuid E (kd_next (cx_db app)))
       (if tls_choice permits_retry req then Some True else None) (app\<lparr>cx_db := db\<rparr>) = (q, app1)"
    "cx_db app' = cx_db app1 \<or> cx_db app' = drop_account (ce_uuid E (kd_next (cx_db app))) (cx_db app1)"
    using assms(1) by (auto simp: create_calendar_account_def Let_def split: sum.splits option.splits prod.splits)
  have "calendar_ok db" using run(1) assms(2) by (auto simp: insert_account_def split: if_splits intro: calendar_ok_same)
  then have "calendar_ok (cx_db app1)" using sync_safe_ok [OF sync_safe_sync_account [OF run(2)]] by simp
  then show ?thesis using run(3) by (auto simp: drop_account_def intro: calendar_ok_same)
qed (use assms(2) in simp)

lemma calendar_ok_connect_google:
  assumes "connect_google_account E acct name enc app = (r, app')" "calendar_ok (cx_db app)"
  shows "calendar_ok (cx_db app')"
proof -
  obtain app1 where app1: "sync_calendar_account E acct app1 = (r, app')" "kd_events (cx_db app1) = kd_events (cx_db app)"
      "kd_calendars (cx_db app1) = kd_calendars (cx_db app)" "kd_next (cx_db app1) = kd_next (cx_db app)"
    using assms(1) by (auto simp: connect_google_account_def Let_def update_account_def split: if_splits)
  have "calendar_ok (cx_db app1)" using app1 assms(2) by (auto intro: calendar_ok_same)
  then show ?thesis using sync_safe_ok [OF sync_safe_sync_account] app1(1) by (auto simp: sync_calendar_account_def)
qed

lemma calendar_ok_sync: "sync_account E acct app = (r, app') \<Longrightarrow> calendar_ok (cx_db app) \<Longrightarrow> calendar_ok (cx_db app')"
  by (auto simp: sync_account_def sync_calendar_account_def split: sum.splits prod.splits dest: sync_safe_sync_account [THEN sync_safe_ok])

lemma calendar_ok_create_event:
  assumes "create_event E cal req app = (r, app')" "calendar_ok (cx_db app)"
  shows "calendar_ok (cx_db app')"
proof -
  obtain u app1 where u: "draw E app = (u, app1)" by force
  have "calendar_ok (cx_db app1)" using draw_db [OF u] assms(2) by (auto intro: calendar_ok_same)
  then show ?thesis using assms(1) u
    by (auto simp: create_event_def Let_def split: sum.splits prod.splits dest!: write_remote_event_drawn [THEN drawn_ok]
        dest: calendar_ok_insert_event calendar_ok_expand)
qed

lemma created_row_keys [simp]: "er_id (created_row E cal uid req ics r) = er_id r" "er_calendar (created_row E cal uid req ics r) = er_calendar r"
  by (simp_all add: created_row_def)

lemma calendar_ok_update_event_route:
  assumes "update_event E k req app = (r, app')" "calendar_ok (cx_db app)"
  shows "calendar_ok (cx_db app')"
proof (cases "event_of (cx_db app) k")
  case None
  then show ?thesis using assms by (simp add: update_event_def)
next
  case (Some e)
  obtain uid app1 where uid: "(case er_uid e of Some u \<Rightarrow> (u, app) | None \<Rightarrow> (case draw E app of (u, app') \<Rightarrow> (u @ ''@mailquill'', app'))) = (uid, app1)"
    by force
  have "calendar_ok (cx_db app1)" using uid assms(2) draw_db
    by (fastforce split: option.splits prod.splits intro: calendar_ok_same)
  then show ?thesis using assms(1) Some uid
    by (auto simp: update_event_def Let_def split: sum.splits prod.splits dest!: write_remote_event_drawn [THEN drawn_ok] calendar_ok_expand
        intro!: calendar_ok_update_event)
qed

lemma calendar_ok_delete_event: "delete_event E k app = (r, app') \<Longrightarrow> calendar_ok (cx_db app) \<Longrightarrow> calendar_ok (cx_db app')"
  by (auto simp: delete_event_def Let_def split: option.splits sum.splits prod.splits dest!: write_remote_event_drawn [THEN drawn_ok]
      intro: calendar_ok_delete_events)

lemma send_rsvp_reply_db: "send_rsvp_reply E to uid summary start stop partstat app = (r, app') \<Longrightarrow> cx_db app' = cx_db app"
  by (auto simp: send_rsvp_reply_def split: option.splits sum.splits prod.splits dest: net_call_db)

lemma calendar_ok_rsvp:
  assumes "rsvp_invitation E k answer app = (r, app')" "calendar_ok (cx_db app)"
  shows "calendar_ok (cx_db app')"
proof -
  have entered: "calendar_ok (cx_db app1)" if "enter_event E i app = Inr app1" for i app1
    using that assms(2) by (auto simp: enter_event_def split: option.splits sum.splits dest: calendar_ok_insert_event)
  have sent: "cx_db (snd (send_rsvp_reply E to uid summary start stop partstat app1)) = cx_db app1" for to uid summary start stop partstat app1
    using send_rsvp_reply_db by (metis prod.collapse)
  have "calendar_ok (set_rsvp t k v db)" if "calendar_ok db" for t v db
    using that by (auto simp: set_rsvp_def intro: calendar_ok_same)
  then show ?thesis using assms entered
    by (auto simp: rsvp_invitation_def Let_def sent split: sum.splits option.splits if_splits)
qed

section \<open>Any order of routes\<close>

text \<open>\<open>outside\<close> is what the synchronisation of mail does to these tables when a message brings a calendar part: it
  writes invitations, and sets status and attendees of the events of a uid.  The route that copies a DAV
  account into calendars (routes/dav.rs) is not modelled.\<close>

inductive calendar_step :: "('m, 's) calendar_env \<Rightarrow> 's calendar_app \<Rightarrow> 's calendar_app \<Rightarrow> bool" for E where
  create_account: "create_calendar_account E req app = (r, app') \<Longrightarrow> calendar_step E app app'"
| connect_google: "connect_google_account E acct name enc app = (r, app') \<Longrightarrow> calendar_step E app app'"
| delete_account: "delete_calendar_account acct app = (r, app') \<Longrightarrow> calendar_step E app app'"
| sync: "sync_account E acct app = (r, app') \<Longrightarrow> calendar_step E app app'"
| create_calendar: "create_calendar E acct name color url app = (r, app') \<Longrightarrow> calendar_step E app app'"
| update_calendar: "update_calendar cal name color app = (r, app') \<Longrightarrow> calendar_step E app app'"
| delete_calendar: "calendar_step E app (delete_calendar cal app)"
| create_event: "create_event E cal req app = (r, app') \<Longrightarrow> calendar_step E app app'"
| update_event: "update_event E k req app = (r, app') \<Longrightarrow> calendar_step E app app'"
| delete_event: "delete_event E k app = (r, app') \<Longrightarrow> calendar_step E app app'"
| rsvp: "rsvp_invitation E k answer app = (r, app') \<Longrightarrow> calendar_step E app app'"
| outside: "(\<And>e. f e = e\<lparr>er_status := er_status (f e), er_attendees := er_attendees (f e), er_updated := er_updated (f e)\<rparr>)
    \<Longrightarrow> cx_db app' = (cx_db app)\<lparr>kd_invites := invites, kd_events := map f (kd_events (cx_db app))\<rparr> \<Longrightarrow> calendar_step E app app'"

lemma calendar_step_ok: "calendar_step E app app' \<Longrightarrow> calendar_ok (cx_db app) \<Longrightarrow> calendar_ok (cx_db app')"
proof (induction rule: calendar_step.induct)
  case (delete_account acct app r app')
  then show ?case by (auto simp: delete_calendar_account_def drop_account_def intro: calendar_ok_same calendar_ok_delete_calendars)
next
  case (create_calendar acct name color url app r app')
  then show ?case by (auto simp: create_calendar_def db_call_def insert_calendar_def split: prod.splits
      dest: sync_safe_insert_calendar [THEN sync_safe_ok, rotated] intro: calendar_okI)
next
  case (update_calendar cal name color app r app')
  then show ?case by (auto simp: update_calendar_def Let_def intro!: calendar_ok_update_calendar)
next
  case (delete_calendar app cal)
  then show ?case by (simp add: delete_calendar_def calendar_ok_delete_calendars)
next
  case (outside f app' app invites)
  have "er_id (f e) = er_id e \<and> event_key (f e) = event_key e" for e
    by (subst (1 2) outside(1)) (simp add: event_key_def)
  then have "row_ids (cx_db app') = row_ids (cx_db app)" by (simp add: outside(2) row_ids_def)
  then show ?case using outside(2,3) by (simp add: calendar_ok_def)
qed (blast intro: calendar_ok_create_account calendar_ok_connect_google calendar_ok_sync calendar_ok_create_event
    calendar_ok_update_event_route calendar_ok_delete_event calendar_ok_rsvp)+

end
