(* ===== verification/Calendar_Properties.thy ===== *)
theory Calendar_Properties
  imports Calendar_System Samples
begin

text \<open>Properties of calendars: the tables, synchronisation, recurring events, remote writes and replies.\<close>

section \<open>Samples\<close>

text \<open>A server that answers every request with one event and keeps the requests.\<close>

definition sample_item :: json where
  "sample_item = JObj [(''uid'', JStr ''u''), (''summary'', JStr ''Standup'')]"

definition calendar_web :: "string list web" where
  "calendar_web = \<lparr>wb_send = (\<lambda>meth url h b s. (Inr \<lparr>rs_status = 200, rs_header = (\<lambda>_. None), rs_body = Inr []\<rparr>, s @ [meth @ '' '' @ url])),
     wb_of_json = (\<lambda>_. Some (JObj [(''data'', JArr [sample_item])])), wb_to_json = (\<lambda>_. ''[]''), wb_xml = (\<lambda>_. []),
     wb_join = (\<lambda>_ u. Some u), wb_query = (\<lambda>u _. u), wb_reason = show_nat, wb_status_error = (\<lambda>n u. u), wb_decode_error = (\<lambda>t. t),
     wb_base64 = (\<lambda>t. t), wb_cards = (\<lambda>_. None)\<rparr>"

definition calendar_clock :: "moment \<Rightarrow> string" where
  "calendar_clock m = (if fst m < day_ns then ''day 0'' else if fst m < day_ns * 2 then ''day 1''
     else if fst m < day_ns * 365 then ''day 2'' else if fst m < day_ns * 730 then ''day 365'' else ''day 730'')"

definition sample_client :: "string list calendar_client" where
  "sample_client = \<lparr>cl_certificate = (\<lambda>_. None), cl_build = (\<lambda>_. Inr calendar_web), cl_quote = (\<lambda>s. s),
     cl_parse_time = (\<lambda>s. if s = ''day 0Z'' then Some (0, 0) else None), cl_show_time = calendar_clock,
     cl_compact_time = calendar_clock, cl_now = 0\<rparr>"

definition calendar_tokens :: "string list token_env" where
  "calendar_tokens = \<lparr>tk_decrypt = Some, tk_encrypt = Some, tk_parse = (\<lambda>_. Some (JObj [])), tk_render = (\<lambda>_. ''[]''), tk_now = 0,
     tk_var = (\<lambda>_. None), tk_post = (\<lambda>_ _ s. (Inl [], s))\<rparr>"

definition sample_lettre :: "(outgoing, 's) lettre" where
  "sample_lettre = \<lparr>lt_mailbox = Inr, lt_content_type = Some, lt_decode = Inr, lt_encode = (\<lambda>s. s), lt_build = Inr,
     lt_formatted = og_subject, lt_message_id = (\<lambda>_. None), lt_certificate = (\<lambda>_. None), lt_tls = (\<lambda>_ _. None), lt_relay = (\<lambda>_. None),
     lt_deliver = (\<lambda>t m s. (None, s))\<rparr>"

definition calendar_sample_env :: "(outgoing, string list) calendar_env" where
  "calendar_sample_env = \<lparr>ce_client = sample_client, ce_tokens = calendar_tokens, ce_lettre = sample_lettre, ce_uuid = show_nat, ce_time = ''now''\<rparr>"

definition sample_calendar_account :: "string \<Rightarrow> calendar_account" where
  "sample_calendar_account kind = \<lparr>ka_id = ''a'', ka_name = ''Work'', ka_type = kind, ka_base_url = Some ''https://x'', ka_auth_scheme = ''basic'',
     ka_credentials = [], ka_interval = 300, ka_last_synced = None, ka_sync_token = None, ka_status = ''idle'', ka_error = None\<rparr>"

definition sample_calendar_row :: calendar_row where
  "sample_calendar_row = \<lparr>kl_id = 0, kl_account = Some ''a'', kl_name = ''Work'', kl_color = ''red'', kl_ctag = Some ''t1'', kl_default = True,
     kl_url = Some ''https://x'', kl_created = ''2026''\<rparr>"

definition sample_event_row :: "nat \<Rightarrow> string option \<Rightarrow> event_row" where
  "sample_event_row k recurrence = (blank_event 0 ''now'')\<lparr>er_id := k, er_uid := Some ''u'', er_recurrence := recurrence,
     er_href := Some ''https://x/u.ics''\<rparr>"

definition sample_tables :: "string \<Rightarrow> event_row list \<Rightarrow> calendar_tables" where
  "sample_tables kind evs = \<lparr>kd_accounts = [sample_calendar_account kind], kd_calendars = [sample_calendar_row], kd_events = evs,
     kd_invites = [], kd_next = 9\<rparr>"

definition sample_calendar_app :: "string \<Rightarrow> event_row list \<Rightarrow> string list calendar_app" where
  "sample_calendar_app kind evs = \<lparr>cx_db = sample_tables kind evs, cx_mail = sample_db, cx_smtp = [], cx_default = None, cx_net = []\<rparr>"

lemmas calendar_samples = calendar_sample_env_def sample_client_def calendar_web_def calendar_tokens_def sample_calendar_app_def
  sample_tables_def sample_calendar_account_def sample_calendar_row_def sample_event_row_def blank_event_def

lemma sample_tables_ok: "calendar_ok (sample_tables kind [])"
  "calendar_ok (sample_tables kind [sample_event_row 1 a])"
  "calendar_ok (sample_tables kind [sample_event_row 1 a, sample_event_row 2 b])"
  by (simp_all add: calendar_ok_def row_ids_def event_key_def calendar_samples)

section \<open>The tables\<close>

text \<open>C12: However the routes of calendars follow each other, over whatever servers, the ids of calendars and
  events stay unique and every event stays in a calendar that exists.\<close>

theorem calendar_tables_stay_consistent:
  assumes "(calendar_step E)\<^sup>*\<^sup>* app app'" "calendar_ok (cx_db app)"
  shows "calendar_ok (cx_db app')"
  using assms by (induction rule: rtranclp_induct) (auto dest: calendar_step_ok)

theorem calendar_tables_stay_consistent_witness:
  "calendar_ok (cx_db (delete_calendar 0 (sample_calendar_app ''caldav'' [sample_event_row 1 None])))"
  by (rule calendar_tables_stay_consistent [OF r_into_rtranclp [of "calendar_step calendar_sample_env"],
        of "sample_calendar_app ''caldav'' [sample_event_row 1 None]"])
     (rule calendar_step.delete_calendar, use sample_tables_ok in \<open>simp add: sample_calendar_app_def\<close>)

section \<open>Synchronisation\<close>

text \<open>C13: Synchronising an account only adds event rows, whatever the provider delivers: every row stays under its
  id, in its calendar and with its uid and recurrence id, so an event deleted at the provider is never
  removed.  There is one row for each occurrence if there was before, and other accounts stay as they were.\<close>

theorem synchronisation_only_adds_events:
  assumes "sync_account E acct app = (r, app')" "calendar_ok (cx_db app)"
  shows "(\<exists>new. row_ids (cx_db app') = row_ids (cx_db app) @ new) \<and> (unique_events (cx_db app) \<longrightarrow> unique_events (cx_db app'))
    \<and> filter (\<lambda>a. ka_id a \<noteq> acct) (kd_accounts (cx_db app')) = filter (\<lambda>a. ka_id a \<noteq> acct) (kd_accounts (cx_db app))"
proof -
  obtain q where "sync_calendar_account_with_tls_override E acct None app = (q, app')"
    using assms(1) by (auto simp: sync_account_def sync_calendar_account_def split: sum.splits prod.splits)
  from sync_safe_sync_account [OF this] show ?thesis using assms(2) by (simp add: sync_safe_def)
qed

lemma sample_sync:
  "fst (sync_account calendar_sample_env ''a'' (sample_calendar_app ''openxchange'' [])) = Inr (''idle'', Some ''day 0'', None)"
  "row_ids (cx_db (snd (sync_account calendar_sample_env ''a'' (sample_calendar_app ''openxchange'' [])))) = [(9, 0, Some ''u'', [])]"
  by code_simp+

theorem synchronisation_only_adds_events_witness:
  "\<exists>app'. sync_account calendar_sample_env ''a'' (sample_calendar_app ''openxchange'' []) = (Inr (''idle'', Some ''day 0'', None), app')
    \<and> unique_events (cx_db app') \<and> row_ids (cx_db app') \<noteq> []"
proof -
  obtain app' where run: "sync_account calendar_sample_env ''a'' (sample_calendar_app ''openxchange'' []) = (Inr (''idle'', Some ''day 0'', None), app')"
      "row_ids (cx_db app') = [(9, 0, Some ''u'', [])]" using sample_sync by (metis prod.collapse)
  have "calendar_ok (cx_db (sample_calendar_app ''openxchange'' []))" by (simp add: sample_calendar_app_def sample_tables_ok)
  note synchronisation_only_adds_events [OF run(1) this]
  moreover have "unique_events (cx_db (sample_calendar_app ''openxchange'' []))"
    by (simp add: unique_events_def row_ids_def calendar_samples)
  ultimately show ?thesis using run by auto
qed

text \<open>C14: Storing the events of a calendar again, at a later time, keeps the rows and adds one only for an
  occurrence of a recurring event that was not among those of the first time, because the window of two
  years that begins at the time of the pull did not reach it yet.  At the same time nothing is added: a row
  that was found or made the first time is found again by its uid and recurrence id.\<close>

theorem second_pull_adds_new_occurrences_only:
  assumes "store_events K time cal evs db = (Inr (), db1)" "store_events (K\<lparr>cl_now := now'\<rparr>) time' cal evs db1 = (r, db2)"
    and "calendar_ok db"
  shows "\<exists>new. row_ids db2 = row_ids db1 @ new
    \<and> (\<forall>k \<in> set new. \<exists>ev \<in> set evs. \<exists>x \<in> set (expand_rrule (K\<lparr>cl_now := now'\<rparr>) horizon_days ev).
         snd k = remote_key cal x \<and> ev_rrule ev \<noteq> None \<and> x \<notin> set (expand_rrule K horizon_days ev))
    \<and> (now' = cl_now K \<longrightarrow> new = [])"
proof -
  let ?old = "concat (map (expand_rrule K horizon_days) evs)" and ?new = "concat (map (expand_rrule (K\<lparr>cl_now := now'\<rparr>) horizon_days) evs)"
  have ok: "calendar_ok db1" using sync_safe_ok [OF sync_safe_store_events [OF assms(1)] assms(3)] .
  have known: "remote_key cal ` set ?old \<subseteq> snd ` set (row_ids db1)"
    using store_all_keys [OF assms(1) [unfolded store_events_def] assms(3)] by blast
  obtain new where new: "row_ids db2 = row_ids db1 @ new" "snd ` set new \<subseteq> remote_key cal ` set ?new - snd ` set (row_ids db1)"
    using store_all_adds [OF assms(2) [unfolded store_events_def] ok] by blast
  have fresh: "\<exists>ev \<in> set evs. \<exists>x \<in> set (expand_rrule (K\<lparr>cl_now := now'\<rparr>) horizon_days ev).
      snd k = remote_key cal x \<and> ev_rrule ev \<noteq> None \<and> x \<notin> set (expand_rrule K horizon_days ev)" if "k \<in> set new" for k
  proof -
    have "snd k \<in> remote_key cal ` set ?new - remote_key cal ` set ?old" using that new(2) known by blast
    then obtain ev x where x: "ev \<in> set evs" "x \<in> set (expand_rrule (K\<lparr>cl_now := now'\<rparr>) horizon_days ev)" "snd k = remote_key cal x"
      "x \<notin> set (expand_rrule K horizon_days ev)" by auto
    moreover have "ev_rrule ev \<noteq> None" using x(2,4) by (cases "ev_rrule ev") (simp_all add: expand_rrule_def)
    ultimately show ?thesis by blast
  qed
  moreover have "new = []" if "now' = cl_now K" using fresh that by (cases new) auto
  ultimately show ?thesis using new(1) by blast
qed

definition sample_remote_event :: "string option \<Rightarrow> remote_event" where
  "sample_remote_event rrule = (ox_event sample_client (\<lambda>_. ''[]'') sample_item)\<lparr>ev_starts_at := ''day 0'', ev_ends_at := ''day 0'', ev_rrule := rrule\<rparr>"

lemma sample_times:
  "cl_parse_time sample_client (ensure_tz sample_client (ev_starts_at (sample_remote_event rrule))) = Some (0, 0)"
  "cl_parse_time sample_client (ensure_tz sample_client (ev_ends_at (sample_remote_event rrule))) = Some (0, 0)"
  "ev_uid (sample_remote_event rrule) = ''u''" "ev_rrule (sample_remote_event rrule) = rrule"
  by (simp_all add: sample_remote_event_def sample_client_def ensure_tz_def ends_with_def starts_with_def rsplit_once_def ox_event_def
      sample_item_def first_str_def)

lemma rrule_count_param: "rrule_param rule ''COUNT'' = Some [c] \<Longrightarrow> digit_val c = Some n \<Longrightarrow> rrule_count rule = n"
  by (auto simp: rrule_count_def parse_u64_def Let_def digit_val_def split: if_splits)

lemma other_length: "length a \<noteq> length b \<Longrightarrow> to_lower a \<noteq> to_lower b"
  by (metis length_map to_lower_def)

lemma sample_params: "rrule_param ''COUNT=2'' ''COUNT'' = Some ''2''" "rrule_param ''COUNT=2'' ''FREQ'' = None"
  "rrule_param ''FREQ=YEARLY;COUNT=9'' ''FREQ'' = Some ''YEARLY''" "rrule_param ''FREQ=YEARLY;COUNT=9'' ''COUNT'' = Some ''9''"
proof -
  have upper: "to_upper ''2'' = ''2''" "to_upper ''9'' = ''9''" "to_upper ''YEARLY'' = ''YEARLY''" by code_simp+
  have parts: "split_on CHR '';'' ''COUNT=2'' = [''COUNT=2'']" "split_on CHR '';'' ''FREQ=YEARLY;COUNT=9'' = [''FREQ=YEARLY'', ''COUNT=9'']"
    by code_simp+
  have halves: "split_once CHR ''='' ''COUNT=2'' = Some (''COUNT'', ''2'')" "split_once CHR ''='' ''COUNT=9'' = Some (''COUNT'', ''9'')"
    "split_once CHR ''='' ''FREQ=YEARLY'' = Some (''FREQ'', ''YEARLY'')" by code_simp+
  have differ: "to_lower ''COUNT'' \<noteq> to_lower ''FREQ''" "to_lower ''FREQ'' \<noteq> to_lower ''COUNT''" by (simp_all add: other_length)
  show "rrule_param ''COUNT=2'' ''COUNT'' = Some ''2''" "rrule_param ''COUNT=2'' ''FREQ'' = None"
    "rrule_param ''FREQ=YEARLY;COUNT=9'' ''FREQ'' = Some ''YEARLY''" "rrule_param ''FREQ=YEARLY;COUNT=9'' ''COUNT'' = Some ''9''"
    unfolding rrule_param_def parts find_rrule_param.simps halves option.case prod.case upper by (simp_all only: differ if_True if_False refl)
qed

lemma sample_counts: "rrule_count ''COUNT=2'' = 2" "rrule_count ''FREQ=YEARLY;COUNT=9'' = 9"
  by (simp_all add: rrule_count_param sample_params digit_val_def)

lemma sample_numbers: "[0..<2] = [0, 1]" "[0..<9] = [0, 1, 2, 3, 4, 5, 6, 7, 8]"
  by code_simp+

lemma sample_expansion:
  "expand_rrule sample_client horizon_days (sample_remote_event (Some ''COUNT=2'')) =
     map (\<lambda>j. occurrence sample_client (sample_remote_event (Some ''COUNT=2'')) (0, 0) 0 (day_ns * int j)) [0, 1]"
proof -
  have step: "day_ns = day_ns * rrule_days (case rrule_param ''COUNT=2'' ''FREQ'' of Some f \<Rightarrow> f | None \<Rightarrow> ''DAILY'')"
    by (simp add: sample_params rrule_days_def)
  have now: "cl_now sample_client = 0" by (simp add: sample_client_def)
  have "filter (\<lambda>j. fst (0 :: int, 0 :: int) + day_ns * int j \<le> cl_now sample_client + day_ns * horizon_days) [0..<2] = [0, 1]"
    by (simp add: sample_numbers now day_ns_def horizon_days_def)
  then show ?thesis unfolding expand_rrule_filter [OF sample_times(4,1,2) step] sample_counts by simp
qed

lemma sample_stored:
  "store_events sample_client time 0 [sample_remote_event (Some ''COUNT=2'')] db
    = store_all ''day 0'' time 0 (map (\<lambda>j. occurrence sample_client (sample_remote_event (Some ''COUNT=2'')) (0, 0) 0 (day_ns * int j)) [0, 1]) db"
proof -
  have "now_text sample_client = ''day 0''" by (simp add: now_text_def utc_def sample_client_def calendar_clock_def day_ns_def)
  then show ?thesis by (simp add: store_events_def sample_expansion)
qed

lemma sample_clock: "cl_show_time sample_client m = calendar_clock m"
  by (simp add: sample_client_def)

lemmas sample_storing = sample_stored store_event_def insert_event_def calendar_of_def same_occurrence_def or_empty_def
  occurrence_fields sample_times sample_clock calendar_clock_def day_ns_def fill_event_def

text \<open>Two years before the second occurrence but one day, and a day later.\<close>

definition early_client :: "string list calendar_client" where
  "early_client = sample_client\<lparr>cl_now := - day_ns * horizon_days\<rparr>"

lemma early_later: "early_client\<lparr>cl_now := 0\<rparr> = sample_client"
  by (simp add: early_client_def sample_client_def)

lemma early_stored:
  "store_events early_client ''now'' 0 [sample_remote_event (Some ''COUNT=2'')] db
    = store_all (now_text early_client) ''now'' 0 [occurrence sample_client (sample_remote_event (Some ''COUNT=2'')) (0, 0) 0 0] db"
proof -
  have step: "day_ns = day_ns * rrule_days (case rrule_param ''COUNT=2'' ''FREQ'' of Some f \<Rightarrow> f | None \<Rightarrow> ''DAILY'')"
    by (simp add: sample_params rrule_days_def)
  have times: "cl_parse_time early_client (ensure_tz early_client (ev_starts_at (sample_remote_event (Some ''COUNT=2'')))) = Some (0, 0)"
      "cl_parse_time early_client (ensure_tz early_client (ev_ends_at (sample_remote_event (Some ''COUNT=2'')))) = Some (0, 0)"
    by (simp_all add: sample_remote_event_def sample_client_def early_client_def ensure_tz_def ends_with_def starts_with_def
        rsplit_once_def ox_event_def sample_item_def first_str_def)
  have "filter (\<lambda>j. fst (0 :: int, 0 :: int) + day_ns * int j \<le> cl_now early_client + day_ns * horizon_days) [0..<2] = [0]"
    by (simp add: sample_numbers early_client_def day_ns_def horizon_days_def)
  then have "expand_rrule early_client horizon_days (sample_remote_event (Some ''COUNT=2''))
      = [occurrence early_client (sample_remote_event (Some ''COUNT=2'')) (0, 0) 0 0]"
    unfolding expand_rrule_filter [OF sample_times(4) times step] sample_counts by simp
  moreover have "occurrence early_client ev (0, 0) 0 0 = occurrence sample_client ev (0, 0) 0 0" for ev :: remote_event
    by (simp add: occurrence_def early_client_def)
  ultimately show ?thesis by (simp add: store_events_def)
qed

lemma sample_pulls:
  "\<exists>db1 db2. store_events early_client ''now'' 0 [sample_remote_event (Some ''COUNT=2'')] (sample_tables ''caldav'' []) = (Inr (), db1)
    \<and> store_events sample_client ''later'' 0 [sample_remote_event (Some ''COUNT=2'')] db1 = (Inr (), db2)
    \<and> length (row_ids db1) = 1 \<and> length (row_ids db2) = 2"
  by (simp add: early_stored sample_storing sample_tables_def sample_calendar_row_def blank_event_def update_event_row_def row_ids_def)

theorem second_pull_adds_new_occurrences_only_witness:
  "\<exists>db1 db2 k. store_events early_client ''now'' 0 [sample_remote_event (Some ''COUNT=2'')] (sample_tables ''caldav'' []) = (Inr (), db1)
    \<and> store_events sample_client ''later'' 0 [sample_remote_event (Some ''COUNT=2'')] db1 = (Inr (), db2)
    \<and> length (row_ids db1) = 1 \<and> row_ids db2 = row_ids db1 @ [k]"
proof -
  obtain db1 db2 where runs: "store_events early_client ''now'' 0 [sample_remote_event (Some ''COUNT=2'')] (sample_tables ''caldav'' []) = (Inr (), db1)"
    "store_events sample_client ''later'' 0 [sample_remote_event (Some ''COUNT=2'')] db1 = (Inr (), db2)"
    "length (row_ids db1) = 1" "length (row_ids db2) = 2" using sample_pulls by blast
  from second_pull_adds_new_occurrences_only [OF runs(1) runs(2) [folded early_later] sample_tables_ok(1)]
  obtain new where "row_ids db2 = row_ids db1 @ new" by blast
  then show ?thesis using runs by (cases new) auto
qed

section \<open>Recurring events\<close>

text \<open>C15: A recurring event whose times can be read expands to exactly the occurrences that are numbered below
  its COUNT (256 when it has none) and begin at most the window after the time of the pull.  Number \<open>j\<close>
  begins \<open>j\<close> steps after the first one, where a month has 30 days and a year 365; INTERVAL, UNTIL and BYDAY do
  not matter.  An occurrence has its begin as recurrence id and no reference to its series.\<close>

theorem recurring_event_is_its_occurrences:
  assumes "ev_rrule ev = Some rule" "cl_parse_time K (ensure_tz K (ev_starts_at ev)) = Some start"
    "cl_parse_time K (ensure_tz K (ev_ends_at ev)) = Some stop"
    "step = day_ns * rrule_days (case rrule_param rule ''FREQ'' of Some f \<Rightarrow> f | None \<Rightarrow> ''DAILY'')"
  shows "expand_rrule K window ev =
    map (\<lambda>j. occurrence K ev start (fst stop - fst start) (step * int j))
      (filter (\<lambda>j. fst start + step * int j \<le> cl_now K + day_ns * window) [0..<rrule_count rule])"
  using assms by (rule expand_rrule_filter)

theorem recurring_event_is_its_occurrences_witness:
  "map ev_starts_at (expand_rrule sample_client 500 (sample_remote_event (Some ''FREQ=YEARLY;COUNT=9''))) = [''day 0'', ''day 365'']"
proof -
  have year: "day_ns * 365 = day_ns * rrule_days (case rrule_param ''FREQ=YEARLY;COUNT=9'' ''FREQ'' of Some f \<Rightarrow> f | None \<Rightarrow> ''DAILY'')"
    by (simp add: sample_params rrule_days_def)
  have days: "filter (\<lambda>j. fst (0 :: int, 0 :: int) + day_ns * 365 * int j \<le> cl_now sample_client + day_ns * 500) [0..<9] = [0, 1]"
    by (simp add: day_ns_def sample_client_def sample_numbers)
  show ?thesis
    unfolding recurring_event_is_its_occurrences [OF sample_times(4,1,2) year] sample_counts days
    by (simp add: occurrence_fields) (simp add: sample_client_def calendar_clock_def day_ns_def)
qed

text \<open>
  A recurring event created here shows its first day twice after the next synchronisation: the row of the
  event has no recurrence id, while the first of the pulled occurrences has its start as recurrence id, so it
  is taken for another event.\<close>

theorem created_series_shows_first_day_twice:
  assumes "calendar_ok db" "e \<in> set (kd_events db)" "er_uid e = Some (ev_uid ev)" "er_recurrence e = None" "ev_rrule ev = Some rule"
    "cl_parse_time K (ensure_tz K (ev_starts_at ev)) = Some start" "cl_parse_time K (ensure_tz K (ev_ends_at ev)) = Some stop"
    "fst start \<le> cl_now K + day_ns * horizon_days" "0 < rrule_count rule" "\<forall>m. cl_show_time K m \<noteq> []"
    "store_events K time (er_calendar e) [ev] db = (Inr (), db')"
  shows "e \<in> set (kd_events db') \<and> (\<exists>e' \<in> set (kd_events db'). er_id e' \<noteq> er_id e \<and> er_calendar e' = er_calendar e
    \<and> er_uid e' = er_uid e \<and> er_start e' = cl_show_time K start)"
proof -
  let ?evs = "expand_rrule K horizon_days ev"
  have run: "store_all (now_text K) time (er_calendar e) ?evs db = (Inr (), db')" using assms(11) by (simp add: store_events_def)
  note evs = expand_rrule_filter [OF assms(5-7) refl]
  have fields: "ev_uid x = ev_uid ev \<and> ev_recurrence_id x = Some (ev_starts_at x) \<and> ev_starts_at x \<noteq> []" if "x \<in> set ?evs" for x
    using that assms(10) unfolding evs by (auto simp: occurrence_fields)
  have "event_key e \<notin> remote_key (er_calendar e) ` set ?evs"
    using fields assms(4) by (fastforce simp: event_key_def remote_key_def or_empty_def)
  then have stays: "e \<in> set (kd_events db')" by (rule store_all_keeps_row [OF run assms(1,2)])
  have "\<exists>x \<in> set ?evs. ev_uid x = ev_uid ev \<and> ev_starts_at x = cl_show_time K start"
    using assms(8,9) unfolding evs by (force simp: occurrence_fields intro!: bexI [of _ 0])
  then have "starts_stored db' (er_calendar e, Some (ev_uid ev), cl_show_time K start) (cl_show_time K start)"
    using store_all_starts [OF run assms(1)] fields by blast
  then obtain e' where e': "e' \<in> set (kd_events db')" "event_key e' = (er_calendar e, er_uid e, cl_show_time K start)"
      "er_start e' = cl_show_time K start" using assms(3) by (auto simp: starts_stored_def)
  have "cl_show_time K start \<noteq> []" using assms(10) by blast
  then have "e' \<noteq> e" using e'(2) assms(4) by (auto simp: event_key_def or_empty_def)
  moreover have "calendar_ok db'" using sync_safe_ok [OF sync_safe_store_all [OF run] assms(1)] .
  ultimately have "er_id e' \<noteq> er_id e"
    using stays e'(1) by (auto simp: calendar_ok_def row_ids_def comp_def distinct_map inj_on_def)
  then show ?thesis using stays e' by (auto simp: event_key_def)
qed

theorem created_series_shows_first_day_twice_witness:
  "\<exists>db'. store_events sample_client ''now'' 0 [sample_remote_event (Some ''COUNT=2'')]
      (sample_tables ''caldav'' [sample_event_row 1 None]) = (Inr (), db')
    \<and> (\<exists>e' \<in> set (kd_events db'). er_id e' \<noteq> 1 \<and> er_uid e' = Some ''u'' \<and> er_start e' = ''day 0'')"
proof -
  let ?e = "sample_event_row 1 None" and ?ev = "sample_remote_event (Some ''COUNT=2'')"
  let ?run = "store_events sample_client ''now'' (er_calendar ?e) [?ev] (sample_tables ''caldav'' [?e])"
  have "fst ?run = Inr ()"
    by (simp add: sample_storing sample_tables_def sample_calendar_row_def sample_event_row_def blank_event_def update_event_row_def)
  then have run: "?run = (Inr (), snd ?run)" by (metis prod.collapse)
  have facts: "?e \<in> set (kd_events (sample_tables ''caldav'' [?e]))" "er_uid ?e = Some (ev_uid ?ev)" "er_recurrence ?e = None"
    by (simp_all add: sample_tables_def sample_times sample_event_row_def blank_event_def)
  have soon: "fst (0 :: int, 0 :: int) \<le> cl_now sample_client + day_ns * horizon_days" "0 < rrule_count ''COUNT=2''"
    by (simp_all add: sample_client_def day_ns_def horizon_days_def sample_counts)
  have "\<forall>m. cl_show_time sample_client m \<noteq> []" by (simp add: sample_client_def calendar_clock_def)
  note created_series_shows_first_day_twice [OF sample_tables_ok(2) facts sample_times(4,1,2) soon this run]
  moreover have "cl_show_time sample_client (0, 0) = ''day 0''" "er_id ?e = 1" "er_calendar ?e = 0" "er_uid ?e = Some ''u''"
    by (simp_all add: sample_client_def calendar_clock_def day_ns_def sample_event_row_def blank_event_def)
  ultimately show ?thesis using run by auto
qed

section \<open>Remote writes\<close>

text \<open>C21: Deleting one occurrence of a series that was pulled over CalDAV deletes the resource of the whole
  series on the server, while the other occurrences of the series stay in the database.\<close>

theorem deleting_one_occurrence_deletes_the_series:
  assumes "event_of (cx_db app) k = Some e" "er_href e = Some href" "calendar_of (cx_db app) (er_calendar e) = Some c"
    "kl_account c = Some acct" "calendar_account_of (cx_db app) acct = Some a" "ka_type a = ''caldav''"
    "decrypt_calendar_credentials (ce_tokens E) (ka_credentials a) = Inr creds"
    "delete_event E k app = (Inr r, app')"
    "e2 \<in> set (kd_events (cx_db app))" "er_id e2 \<noteq> k" "er_href e2 = Some href" "er_rrule_uid e2 = None"
  shows "cx_net app' = snd (delete_remote_event (ce_client E) href (dav_auth_of (ka_auth_scheme a) creds) (er_etag e) (cx_net app))
    \<and> e2 \<in> set (kd_events (cx_db app'))"
proof -
  let ?call = "delete_remote_event (ce_client E) href (dav_auth_of (ka_auth_scheme a) creds) (er_etag e) (cx_net app)"
  have written: "write_remote_event E (er_calendar e) (er_href e) (er_etag e) [] (removal (ce_client E)) True app
      = ((case fst ?call of Inl m \<Rightarrow> Inl (BadGateway m) | Inr _ \<Rightarrow> Inr (None, None)), app\<lparr>cx_net := snd ?call\<rparr>)"
    using assms(2-7) by (cases ?call; cases "fst ?call")
      (simp_all add: write_remote_event_def write_caldav_event_def gateway_def net_call_def Let_def)
  have "app' = cx_map (delete_events (\<lambda>x. er_id x = k \<or> (er_uid e \<noteq> None \<and> er_rrule_uid x = er_uid e))) (app\<lparr>cx_net := snd ?call\<rparr>)"
    using assms(1,8) unfolding delete_event_def
    by (auto simp: written Let_def cx_map_def split: sum.splits)
  then show ?thesis using assms(9,10,12) by (auto simp: delete_events_def cx_map_def)
qed

theorem deleting_one_occurrence_deletes_the_series_witness:
  "\<exists>app'. delete_event calendar_sample_env 1 (sample_calendar_app ''caldav'' [sample_event_row 1 (Some ''a''), sample_event_row 2 (Some ''b'')]) = (Inr 1, app')
    \<and> cx_net app' = [''DELETE https://x/u.ics''] \<and> sample_event_row 2 (Some ''b'') \<in> set (kd_events (cx_db app'))"
proof -
  let ?app = "sample_calendar_app ''caldav'' [sample_event_row 1 (Some ''a''), sample_event_row 2 (Some ''b'')]"
  have "fst (delete_event calendar_sample_env 1 ?app) = Inr 1" by code_simp
  then obtain app' where run: "delete_event calendar_sample_env 1 ?app = (Inr 1, app')" by (metis prod.collapse)
  have net: "snd (delete_remote_event (ce_client calendar_sample_env) ''https://x/u.ics'' (dav_auth_of ''basic'' (JObj [])) None []) = [''DELETE https://x/u.ics'']"
    by code_simp
  have rows: "event_of (cx_db ?app) 1 = Some (sample_event_row 1 (Some ''a''))" "calendar_of (cx_db ?app) (er_calendar (sample_event_row 1 (Some ''a''))) = Some sample_calendar_row"
    "calendar_account_of (cx_db ?app) ''a'' = Some (sample_calendar_account ''caldav'')"
    "er_calendar (sample_event_row 1 (Some ''a'')) = 0" "er_etag (sample_event_row 1 (Some ''a'')) = None" "cx_net ?app = []"
    by (simp_all add: event_of_def calendar_of_def calendar_account_of_def calendar_samples)
  have "cx_net app' = snd (delete_remote_event (ce_client calendar_sample_env) ''https://x/u.ics''
        (dav_auth_of (ka_auth_scheme (sample_calendar_account ''caldav'')) (JObj [])) (er_etag (sample_event_row 1 (Some ''a''))) (cx_net ?app))
      \<and> sample_event_row 2 (Some ''b'') \<in> set (kd_events (cx_db app'))"
    by (rule deleting_one_occurrence_deletes_the_series [OF rows(1) _ rows(2) _ rows(3) _ _ run])
       (simp_all add: calendar_samples decrypt_calendar_credentials_def)
  then show ?thesis using run net rows by (simp add: sample_calendar_account_def)
qed

section \<open>Errors\<close>

text \<open>C16: A collection that cannot be pulled or stored keeps its change tag, and so do all other calendars: the
  next synchronisation pulls it again.\<close>

theorem failed_collection_keeps_its_tag:
  assumes "sync_collection E acct auth lax from till d app = (Inl err, app')" "calendar_of (cx_db app) k = Some c"
  shows "\<exists>c'. calendar_of (cx_db app') k = Some c' \<and> kl_ctag c' = kl_ctag c"
proof -
  obtain cal db1 where up: "upsert_calendar (ce_time E) acct d (cx_db app) = (cal, db1)" by force
  have "kd_calendars (cx_db app') = kd_calendars db1"
    by (rule failed_collection_calendars [OF assms(1) up])
  then show ?thesis using upsert_calendar_tags [OF up assms(2)] by (simp add: calendar_of_def)
qed

theorem failed_collection_keeps_its_tag_witness:
  "\<exists>app'. sync_collection (calendar_sample_env\<lparr>ce_client := sample_client\<lparr>cl_build := (\<lambda>_. Inl ''no client'')\<rparr>\<rparr>) ''a'' (Basic [] []) False 0 1
      \<lparr>di_name = ''New'', di_url = ''https://x'', di_color = None\<rparr> (sample_calendar_app ''caldav'' []) = (Inl ''no client'', app')
    \<and> (\<exists>c. calendar_of (cx_db app') 0 = Some c \<and> kl_name c = ''New'' \<and> kl_ctag c = Some ''t1'')"
proof -
  let ?run = "sync_collection (calendar_sample_env\<lparr>ce_client := sample_client\<lparr>cl_build := (\<lambda>_. Inl ''no client'')\<rparr>\<rparr>) ''a'' (Basic [] []) False 0 1
      \<lparr>di_name = ''New'', di_url = ''https://x'', di_color = None\<rparr> (sample_calendar_app ''caldav'' [])"
  have fails: "fst ?run = Inl ''no client''" "map_option kl_name (calendar_of (cx_db (snd ?run)) 0) = Some ''New''" by code_simp+
  then have run: "?run = (Inl ''no client'', snd ?run)" by (metis prod.collapse)
  have "calendar_of (cx_db (sample_calendar_app ''caldav'' [])) 0 = Some sample_calendar_row"
    by (simp add: calendar_of_def calendar_samples)
  from failed_collection_keeps_its_tag [OF run this] show ?thesis using fails run
    by (auto simp: sample_calendar_row_def)
qed

section \<open>Replies\<close>

text \<open>
  The summary of an invitation goes into the reply as it was decoded: an escaped line break in the
  organizer's text begins a new line of the calendar object that is sent in the user's name.\<close>

theorem reply_carries_injected_line:
  assumes "lf \<notin> set line"
  shows "line \<in> set (lines_of (build_rsvp_ics uid (a @ [lf] @ line) start stop organizer attendee partstat))"
  using assms by (rule rsvp_summary_line)

theorem reply_carries_injected_line_witness:
  "unescape_ical (''Lunch'' @ [CHR 0x5C, CHR ''n''] @ ''ATTACH:x'') = ''Lunch'' @ [lf] @ ''ATTACH:x''
    \<and> ''ATTACH:x'' \<in> set (lines_of (build_rsvp_ics ''u'' (unescape_ical (''Lunch'' @ [CHR 0x5C, CHR ''n''] @ ''ATTACH:x''))
         None None ''o@x'' ''me@x'' ''ACCEPTED''))"
proof -
  have decoded: "unescape_ical (''Lunch'' @ [CHR 0x5C, CHR ''n''] @ ''ATTACH:x'') = ''Lunch'' @ [lf] @ ''ATTACH:x''" by code_simp
  show ?thesis unfolding decoded using reply_carries_injected_line [of "''ATTACH:x''" _ "''Lunch''"] by (simp add: lf_def)
qed

section \<open>Further facts\<close>

text \<open>A candidate address is tried once, and every address that was proposed is tried under some spelling.\<close>

lemma dedupe_seen_keys:
  "distinct (map url_key (dedupe_seen seen us)) \<and> set (map url_key (dedupe_seen seen us)) = url_key ` set us - set seen"
  by (induction us arbitrary: seen) (auto simp: insert_absorb)

lemma candidates_are_distinct: "distinct (map url_key (dedupe_urls us))" "url_key ` set (dedupe_urls us) = url_key ` set us"
  using dedupe_seen_keys [of "[]" us] by (simp_all add: dedupe_urls_def)

text \<open>The offset of a time zone is dropped when an event is written: it is sent as if its local time were UTC.\<close>

theorem zone_offset_is_dropped:
  assumes "14 \<le> length (filter is_digit local)"
  shows "ical_format (local @ zone) False = ical_format (local @ ''Z'') False"
  using assms by (simp add: ical_format_def Let_def is_digit_def)

text \<open>Writing an event uses the strict client, whatever the account accepted when it was created.\<close>

theorem writes_ignore_accepted_certificates:
  "put_event K url auth ics tag = with_client (cl_build K \<lparr>tl_any_certificate = False, tl_any_hostname = False, tl_root = None\<rparr>)
     (\<lambda>W. put_event_with_client W url auth ics tag)"
  by (simp add: put_event_def plain_client_def client_with_tls_options_def)

text \<open>A failed creation leaves the accounts as they were, with the calendars that were stored meanwhile.\<close>

theorem failed_creation_leaves_no_account:
  assumes "create_calendar_account E req app = (Inl e, app')" "calendar_ok (cx_db app)"
    "calendar_account_of (cx_db app) (ce_uuid E (kd_next (cx_db app))) = None"
  shows "kd_accounts (cx_db app') = kd_accounts (cx_db app)"
proof -
  let ?acct = "ce_uuid E (kd_next (cx_db app))"
  have fresh: "filter (\<lambda>a. ka_id a \<noteq> ?acct) (kd_accounts (cx_db app)) = kd_accounts (cx_db app)"
    using assms(3) by (auto simp: calendar_account_of_def find_None_iff intro!: filter_True)
  show ?thesis
  proof (cases "cx_db app' = cx_db app")
    case False
    then obtain enc db q app1 where run:
      "insert_account (new_account_row req ?acct enc) ((cx_db app)\<lparr>kd_next := kd_next (cx_db app) + 1\<rparr>) = Inr db"
      "sync_calendar_account_with_tls_override E ?acct (if tls_choice permits_retry req then Some True else None) (app\<lparr>cx_db := db\<rparr>) = (q, app1)"
      "cx_db app' = drop_account ?acct (cx_db app1) \<or> q = Inr () \<and> calendar_account_of (cx_db app1) ?acct = None"
      using assms(1) by (auto simp: create_calendar_account_def Let_def fetch_calendar_account_def split: sum.splits option.splits prod.splits)
    have db: "kd_accounts db = kd_accounts (cx_db app) @ [new_account_row req ?acct enc]" "calendar_ok db"
      using run(1) assms(2) by (auto simp: insert_account_def split: if_splits intro: calendar_ok_same)
    then have safe: "filter (\<lambda>a. ka_id a \<noteq> ?acct) (kd_accounts (cx_db app1)) = filter (\<lambda>a. ka_id a \<noteq> ?acct) (kd_accounts db)"
      "map ka_id (kd_accounts (cx_db app1)) = map ka_id (kd_accounts db)"
      using sync_safe_sync_account [OF run(2)] by (auto simp: sync_safe_def)
    have "?acct \<in> set (map ka_id (kd_accounts (cx_db app1)))" unfolding safe(2) by (simp add: db new_account_row_def)
    then have "calendar_account_of (cx_db app1) ?acct \<noteq> None" by (auto simp: calendar_account_of_def find_None_iff)
    then show ?thesis using run(3) safe(1) db(1) fresh by (auto simp: drop_account_def new_account_row_def)
  qed simp
qed

end
