(* ===== verification/Send.thy ===== *)
theory Send
  imports Smtp Sync Gmail_Imap Tokens "HOL-Library.List_Lexorder"
begin

text \<open>
  Sending a message (backend/api/src/routes/send.rs): the checks before a request is accepted, the delivery in
  the background over SMTP or the provider's API, the copy in the Sent folder, the removal of the draft and
  the event that reports the outcome.

  \<open>sv_session\<close> opens an IMAP session (TCP, TLS and login) and \<open>sv_logout\<close> ends one; \<open>sv_provider\<close> is the
  configuration of the API backends for an account and a token.  The background task has 180 seconds:
  \<open>late\<close> is \<open>None\<close> when the delivery ends in time, else the state it had reached when it was cut off.
  What the copy to the Sent folder answers does not matter, nor whether it takes too long.
\<close>

record send_input =
  si_draft :: "nat option"
  si_account :: string
  si_from :: string
  si_to :: "string list"
  si_cc :: "string list option"
  si_bcc :: "string list option"
  si_subject :: string
  si_body_text :: "string option"
  si_body_html :: "string option"
  si_pgp_mime_mode :: "string option"
  si_pgp_signature :: "string option"
  si_calendar_method :: "string option"
  si_calendar_ics :: "string option"
  si_in_reply_to :: "string option"
  si_references :: "string option"
  si_attachments :: "attachment_data list option"

record send_status =
  ss_send :: nat
  ss_account :: string
  ss_status :: string
  ss_message_id :: "string option"
  ss_subject :: "string option"
  ss_error :: "string option"

record 's send_app =
  sd_api :: api_state
  sd_smtp :: "smtp_columns list"
  sd_events :: "send_status list"
  sd_net :: 's

record ('m, 's) send_env =
  sv_tokens :: "'s token_env"
  sv_lettre :: "('m, 's) lettre"
  sv_provider :: "string \<Rightarrow> string option \<Rightarrow> 's provider_config"
  sv_session :: "string \<Rightarrow> nat \<Rightarrow> string \<Rightarrow> string \<Rightarrow> string option \<Rightarrow> string \<Rightarrow> string option \<Rightarrow> 's \<Rightarrow> (string + 's imap) \<times> 's"
  sv_logout :: "'s imap \<Rightarrow> 's \<Rightarrow> 's"

definition max_attachment_bytes :: nat where
  "max_attachment_bytes = 25 * 1024 * 1024"

section \<open>Acceptance\<close>

definition attachments_of :: "send_input \<Rightarrow> attachment_data list" where
  "attachments_of req = (case si_attachments req of None \<Rightarrow> [] | Some as \<Rightarrow> as)"

definition attachment_bytes :: "send_input \<Rightarrow> nat" where
  "attachment_bytes req = sum_list (map (\<lambda>a. length (ad_data a) * 3 div 4) (attachments_of req))"

definition valid_draft :: "mail_db \<Rightarrow> string \<Rightarrow> nat \<Rightarrow> bool" where
  "valid_draft db acct draft = (\<exists>m \<in> set (messages db). m_id m = draft \<and> m_account m = acct \<and> m_local_draft m)"

definition smtp_of :: "'s send_app \<Rightarrow> string \<Rightarrow> (account_row \<times> smtp_columns) option" where
  "smtp_of app acct =
     Option.bind (account_of (ap_db (sd_api app)) acct)
       (\<lambda>a. map_option (\<lambda>c. (a, c)) (find (\<lambda>c. sc_account c = acct) (sd_smtp app)))"

definition accept_send :: "send_input \<Rightarrow> 's send_app \<Rightarrow> app_error + (account_row \<times> smtp_columns)" where
  "accept_send req app =
     (case smtp_of app (si_account req) of
        None \<Rightarrow> Inl NotFound
      | Some (a, c) \<Rightarrow>
          (if (case si_draft req of None \<Rightarrow> False | Some d \<Rightarrow> \<not> valid_draft (ap_db (sd_api app)) (si_account req) d) then Inl NotFound
           else if to_lower (si_from req) \<noteq> to_lower (a_email a)
             \<and> \<not> (\<exists>(b, email) \<in> set (ap_aliases (sd_api app)). b = a_id a \<and> to_lower email = to_lower (si_from req))
           then Inl Forbidden
           else if attachment_bytes req > max_attachment_bytes
           then Inl (Unprocessable ''total attachment size exceeds 25 MB limit'')
           else Inr (a, c)))"

section \<open>Delivery\<close>

text \<open>The token for the delivery: a fresh one, else the stored one.\<close>

definition delivery_token ::
  "('m, 's) send_env \<Rightarrow> account_row \<Rightarrow> json \<Rightarrow> 's send_app \<Rightarrow> (app_error + string option) \<times> 's send_app"
where
  "delivery_token E a creds app =
     (case fresh_access_token (sv_tokens E) (a_id a) (ap_db (sd_api app)) (sd_net app) of
        (res, db, s) \<Rightarrow>
          ((case res of
              Inr (Some t) \<Rightarrow> Inr (Some t)
            | Inr None \<Rightarrow> Inr (as_str (jget creds ''oauth_access_token''))
            | Inl e \<Rightarrow> (if is_reauth_required e then Inl (Unprocessable ''oauth_reauthentication_required'')
                        else Inl (BadGateway (''oauth token refresh failed: '' @ e)))),
           app\<lparr>sd_api := (sd_api app)\<lparr>ap_db := db\<rparr>, sd_net := s\<rparr>))"

definition bytes_of_base64 :: "('m, 's) lettre \<Rightarrow> string \<Rightarrow> string option" where
  "bytes_of_base64 L v = (case lt_decode L v of Inl _ \<Rightarrow> None | Inr b \<Rightarrow> Some b)"

definition smtp_request ::
  "('m, 's) lettre \<Rightarrow> send_input \<Rightarrow> smtp_columns \<Rightarrow> json \<Rightarrow> string option \<Rightarrow> send_request"
where
  "smtp_request L req c creds tok = \<lparr>sr_from = si_from req, sr_to = si_to req, sr_cc = (case si_cc req of None \<Rightarrow> [] | Some v \<Rightarrow> v),
     sr_bcc = (case si_bcc req of None \<Rightarrow> [] | Some v \<Rightarrow> v), sr_subject = si_subject req, sr_body_text = si_body_text req,
     sr_body_html = si_body_html req, sr_pgp_mime_mode = si_pgp_mime_mode req, sr_pgp_signature = si_pgp_signature req,
     sr_calendar_method = si_calendar_method req, sr_calendar_ics = si_calendar_ics req, sr_in_reply_to = si_in_reply_to req,
     sr_references = si_references req, sr_attachments = attachments_of req, sr_host = sc_host c, sr_port = nat (sc_port c mod 65536),
     sr_user = text_at creds ''smtp_username'', sr_pass = text_at creds ''smtp_password'', sr_oauth_token = tok,
     sr_auth_scheme = sc_auth_scheme c, sr_trusted_cert = decode_trusted_cert (bytes_of_base64 L) (sc_cert c)\<rparr>"

definition api_send :: "provider_kind \<Rightarrow> 's provider_config \<Rightarrow> string \<Rightarrow> ('s, unit) call" where
  "api_send kind C raw s =
     (case kind of
        GmailApi \<Rightarrow> gm_send_message (pg_gmail C) raw s
      | OutlookApi \<Rightarrow> ol_send_message (pg_outlook C) raw s
      | _ \<Rightarrow> (Inl (NotImplemented ''send''), s))"

definition deliver_api ::
  "('m, 's) send_env \<Rightarrow> provider_kind \<Rightarrow> account_row \<Rightarrow> string option \<Rightarrow> send_request \<Rightarrow> 's send_app
     \<Rightarrow> (app_error + string) \<times> 's send_app"
where
  "deliver_api E kind a tok sr app =
     (case build_raw_with_id (sv_lettre E) sr of
        Inl e \<Rightarrow> (Inl (Internal (''message build failed: '' @ smtp_error_text e)), app)
      | Inr (mid, raw) \<Rightarrow>
          (let C = (sv_provider E (a_id a) tok)\<lparr>pg_token := tok\<rparr> in
           case connect_provider kind C of
             Inl e \<Rightarrow> (Inl (BadGateway (''provider connect failed: '' @ show_provider_error e)), app)
           | Inr _ \<Rightarrow>
               (case api_send kind C raw (ap_db (sd_api app), sd_net app) of
                  (res, db, s) \<Rightarrow>
                    ((case res of Inl e \<Rightarrow> Inl (BadGateway (''API send failed: '' @ show_provider_error e)) | Inr _ \<Rightarrow> Inr mid),
                     app\<lparr>sd_api := (sd_api app)\<lparr>ap_db := db\<rparr>, sd_net := s\<rparr>))))"

definition imap_user :: "account_row \<Rightarrow> json \<Rightarrow> string" where
  "imap_user a creds =
     to_lower (trim (case as_str (jget creds ''imap_username'') of Some u \<Rightarrow> if trim u = [] then a_email a else u | None \<Rightarrow> a_email a))"

definition copy_to_sent ::
  "('m, 's) send_env \<Rightarrow> account_row \<Rightarrow> json \<Rightarrow> string option \<Rightarrow> string \<Rightarrow> 's \<Rightarrow> 's"
where
  "copy_to_sent E a creds tok raw s =
     (case sv_session E (a_imap_host a) (nat (a_imap_port a mod 65536)) (imap_user a creds) (text_at creds ''imap_password'') tok
             (a_auth_scheme a) (decode_trusted_cert (bytes_of_base64 (sv_lettre E)) (a_tls_cert a)) s of
        (Inl _, s1) \<Rightarrow> s1
      | (Inr I, s1) \<Rightarrow> (case append_to_sent I raw s1 of (Inl _, s2) \<Rightarrow> s2 | (Inr _, s2) \<Rightarrow> sv_logout E I s2))"

definition deliver_smtp ::
  "('m, 's) send_env \<Rightarrow> account_row \<Rightarrow> json \<Rightarrow> string option \<Rightarrow> send_request \<Rightarrow> 's send_app
     \<Rightarrow> (app_error + string) \<times> 's send_app"
where
  "deliver_smtp E a creds tok sr app =
     (case send_mail (sv_lettre E) sr (sd_net app) of
        (Inl e, s1) \<Rightarrow> (Inl (BadGateway (''SMTP send failed: '' @ smtp_error_text e)), app\<lparr>sd_net := s1\<rparr>)
      | (Inr (mid, raw), s1) \<Rightarrow> (Inr mid, app\<lparr>sd_net := copy_to_sent E a creds tok raw s1\<rparr>))"

definition deliver_email ::
  "('m, 's) send_env \<Rightarrow> send_input \<Rightarrow> account_row \<Rightarrow> smtp_columns \<Rightarrow> 's send_app \<Rightarrow> (app_error + string) \<times> 's send_app"
where
  "deliver_email E req a c app =
     (case tk_decrypt (sv_tokens E) (a_credentials a) of
        None \<Rightarrow> (Inl (Internal ''decryption failed''), app)
      | Some bytes \<Rightarrow>
     (case tk_parse (sv_tokens E) bytes of
        None \<Rightarrow> (Inl (Internal ''invalid JSON''), app)
      | Some creds \<Rightarrow>
     (case delivery_token E a creds app of
        (Inl e, app1) \<Rightarrow> (Inl e, app1)
      | (Inr tok, app1) \<Rightarrow>
          (let sr = smtp_request (sv_lettre E) req c creds tok; kind = parse_kind (a_provider_kind a) in
           if sends_over_smtp kind then deliver_smtp E a creds tok sr app1 else deliver_api E kind a tok sr app1))))"

section \<open>The background task\<close>

fun send_failure_detail :: "app_error \<Rightarrow> string" where
  "send_failure_detail NotFound = ''mailbox not found''"
| "send_failure_detail Unauthorized = ''authentication required''"
| "send_failure_detail Forbidden = ''sender address is not allowed''"
| "send_failure_detail (Conflict m) = m"
| "send_failure_detail (Unprocessable m) = m"
| "send_failure_detail (BadGateway m) = m"
| "send_failure_detail (BadGatewayWithCode code m) = m"
| "send_failure_detail (Internal m) = ''internal server error''"

definition publish_send_status :: "send_status \<Rightarrow> 's send_app \<Rightarrow> 's send_app" where
  "publish_send_status st app = app\<lparr>sd_events := sd_events app @ [st]\<rparr>"

definition remove_draft :: "nat option \<Rightarrow> 's send_app \<Rightarrow> 's send_app" where
  "remove_draft draft app =
     (case draft of None \<Rightarrow> app | Some d \<Rightarrow> app\<lparr>sd_api := snd (delete_local_draft d (sd_api app))\<rparr>)"

definition background_send ::
  "('m, 's) send_env \<Rightarrow> send_input \<Rightarrow> account_row \<Rightarrow> smtp_columns \<Rightarrow> nat \<Rightarrow> 's send_app option \<Rightarrow> 's send_app \<Rightarrow> 's send_app"
where
  "background_send E req a c sid late app =
     (case (case late of Some reached \<Rightarrow> (Inl (BadGateway ''send timed out''), reached) | None \<Rightarrow> deliver_email E req a c app) of
        (Inr mid, app1) \<Rightarrow>
          publish_send_status \<lparr>ss_send = sid, ss_account = a_id a, ss_status = ''sent'', ss_message_id = Some mid,
            ss_subject = Some (si_subject req), ss_error = None\<rparr> (remove_draft (si_draft req) app1)
      | (Inl e, app1) \<Rightarrow>
          publish_send_status \<lparr>ss_send = sid, ss_account = a_id a, ss_status = ''failed'', ss_message_id = None,
            ss_subject = Some (si_subject req), ss_error = Some (send_failure_detail e)\<rparr> app1)"

text \<open>The request is answered with the number of the send; the task runs afterwards.\<close>

definition send_email ::
  "('m, 's) send_env \<Rightarrow> send_input \<Rightarrow> nat \<Rightarrow> 's send_app option \<Rightarrow> 's send_app \<Rightarrow> (app_error + nat) \<times> 's send_app"
where
  "send_email E req sid late app =
     (case accept_send req app of
        Inl e \<Rightarrow> (Inl e, app) | Inr (a, c) \<Rightarrow> (Inr sid, background_send E req a c sid late app))"

end
