(* ===== verification/Send_Properties.thy ===== *)
theory Send_Properties
  imports Send Provider_Properties
begin

text \<open>Properties of sending: who may send, what a delivery carries, and what happens to the draft.\<close>

section \<open>What a delivery changes\<close>

lemma fresh_token_messages: "fresh_access_token T acct db s = (r, db', s') \<Longrightarrow> messages db' = messages db"
  by (auto simp: fresh_access_token_def demand_sign_in_def mark_reauth_required_def save_credentials_def Let_def
      split: sum.splits option.splits if_splits prod.splits)

lemma api_send_messages: "api_send kind C raw (db, s) = (r, db', s') \<Longrightarrow> messages db' = messages db"
  by (auto simp: api_send_def gm_send_message_def ol_send_message_def split: provider_kind.splits prod.splits)

lemma deliver_email_messages:
  assumes "deliver_email E req a c app = (r, app')"
  shows "messages (ap_db (sd_api app')) = messages (ap_db (sd_api app)) \<and> sd_events app' = sd_events app"
proof -
  have tok: "messages (ap_db (sd_api app1)) = messages (ap_db (sd_api app)) \<and> sd_events app1 = sd_events app"
    if "delivery_token E a creds app = (q, app1)" for creds q app1
    using that by (auto simp: delivery_token_def split: prod.splits dest: fresh_token_messages)
  have smtp: "sd_api app2 = sd_api app1 \<and> sd_events app2 = sd_events app1" if "deliver_smtp E a creds t sr app1 = (q, app2)" for creds t sr app1 q app2
    using that by (auto simp: deliver_smtp_def split: sum.splits prod.splits)
  have api: "messages (ap_db (sd_api app2)) = messages (ap_db (sd_api app1)) \<and> sd_events app2 = sd_events app1"
    if "deliver_api E kind a t sr app1 = (q, app2)" for kind t sr app1 q app2
    using that by (auto simp: deliver_api_def Let_def split: sum.splits prod.splits dest: api_send_messages)
  show ?thesis using assms unfolding deliver_email_def
    by (auto simp: Let_def split: option.splits sum.splits prod.splits if_splits dest!: tok smtp api)
qed

lemma no_draft_left: "\<not> is_local_draft (ap_db (snd (delete_local_draft d s))) d"
  by (auto simp: delete_local_draft_def Let_def delete_rows_def is_local_draft_def db_delete_def split: option.splits)

section \<open>Samples\<close>

definition send_tokens :: "unit token_env" where
  "send_tokens = \<lparr>tk_decrypt = Some, tk_encrypt = Some, tk_parse = (\<lambda>_. Some (JObj [(''oauth_access_token'', JStr ''t''), (''oauth_expires_at'', JNum 1000)])),
     tk_render = (\<lambda>_. []), tk_now = 0, tk_var = (\<lambda>_. None), tk_post = (\<lambda>_ _ s. (Inl [], s))\<rparr>"

definition plain_lettre :: "(outgoing, unit) lettre" where
  "plain_lettre = \<lparr>lt_mailbox = Inr, lt_content_type = Some, lt_decode = Inr, lt_encode = (\<lambda>s. s), lt_build = Inr,
     lt_formatted = og_subject, lt_message_id = (\<lambda>_. None), lt_certificate = (\<lambda>_. None), lt_tls = (\<lambda>_ _. None), lt_relay = (\<lambda>_. None),
     lt_deliver = (\<lambda>t m s. (None, s))\<rparr>"

definition sample_send_env :: "(outgoing, unit) send_env" where
  "sample_send_env = \<lparr>sv_tokens = send_tokens, sv_lettre = plain_lettre, sv_provider = (\<lambda>_ _. sample_config),
     sv_session = (\<lambda>_ _ _ _ _ _ _ s. (Inl [], s)), sv_logout = (\<lambda>_ s. s)\<rparr>"

definition sample_columns :: smtp_columns where
  "sample_columns = \<lparr>sc_account = ''acc'', sc_host = ''mail.x.org'', sc_port = 587, sc_auth_scheme = ''plain'', sc_cert = None, sc_created = []\<rparr>"

definition sample_input :: send_input where
  "sample_input = \<lparr>si_draft = Some 12, si_account = ''acc'', si_from = ''me@x.org'', si_to = [''a@x.org''], si_cc = None, si_bcc = None,
     si_subject = ''hi'', si_body_text = Some ''hi'', si_body_html = None, si_pgp_mime_mode = None, si_pgp_signature = None,
     si_calendar_method = None, si_calendar_ics = None, si_in_reply_to = None, si_references = None, si_attachments = None\<rparr>"

definition sample_draft :: message_row where
  "sample_draft = (sample_message 12 0 True)\<lparr>m_local_draft := True\<rparr>"

definition sample_send_app :: "unit send_app" where
  "sample_send_app = \<lparr>sd_api = \<lparr>ap_db = sample_db\<lparr>messages := [sample_draft]\<rparr>, ap_content = \<lparr>cd_bodies = [], cd_attachments = [], cd_fts = [], cd_blobs = Map.empty\<rparr>,
       ap_calendar = \<lparr>invitations = [], calendar_events = []\<rparr>, ap_drafts = [], ap_aliases = [], ap_manager = new_manager\<rparr>,
     sd_smtp = [sample_columns], sd_events = [], sd_net = ()\<rparr>"

section \<open>The draft\<close>

text \<open>C17: A delivery that ends in time reports exactly one outcome.  When it failed, every message is as it was,
  the draft included; when the message was sent, the draft is gone.\<close>

theorem draft_goes_only_with_the_message:
  "\<exists>st. sd_events (background_send E req a c sid None app) = sd_events app @ [st] \<and> ss_send st = sid
    \<and> (ss_status st = ''failed'' \<longrightarrow>
         messages (ap_db (sd_api (background_send E req a c sid None app))) = messages (ap_db (sd_api app)))
    \<and> (ss_status st \<noteq> ''failed'' \<longrightarrow> ss_status st = ''sent'' \<and>
         (\<forall>d. si_draft req = Some d \<longrightarrow> \<not> is_local_draft (ap_db (sd_api (background_send E req a c sid None app))) d))"
proof (cases "deliver_email E req a c app")
  case (Pair r app1)
  note same = deliver_email_messages [OF Pair]
  show ?thesis
  proof (cases r)
    case (Inl e)
    then show ?thesis using Pair same by (simp add: background_send_def publish_send_status_def)
  next
    case (Inr mid)
    then show ?thesis using Pair same no_draft_left
      by (auto simp: background_send_def publish_send_status_def remove_draft_def split: option.splits)
  qed
qed

lemma sample_delivery:
  "fst (deliver_email sample_send_env sample_input sample_account sample_columns sample_send_app) = Inr []"
  by code_simp

theorem draft_goes_only_with_the_message_witness:
  "is_local_draft (ap_db (sd_api sample_send_app)) 12
    \<and> \<not> is_local_draft (ap_db (sd_api (background_send sample_send_env sample_input sample_account sample_columns 1 None sample_send_app))) 12"
proof -
  have ends: "map ss_status (sd_events (background_send sample_send_env sample_input sample_account sample_columns 1 None sample_send_app)) = [''sent'']"
    using sample_delivery
    by (auto simp: background_send_def publish_send_status_def remove_draft_def sample_input_def sample_send_app_def split: prod.splits sum.splits
        dest: deliver_email_messages)
  obtain st where st: "sd_events (background_send sample_send_env sample_input sample_account sample_columns 1 None sample_send_app) = sd_events sample_send_app @ [st]"
      "ss_status st \<noteq> ''failed'' \<longrightarrow> (\<forall>d. si_draft sample_input = Some d
         \<longrightarrow> \<not> is_local_draft (ap_db (sd_api (background_send sample_send_env sample_input sample_account sample_columns 1 None sample_send_app))) d)"
    using draft_goes_only_with_the_message [of sample_send_env sample_input sample_account sample_columns 1 sample_send_app] by blast
  have "ss_status st = ''sent''" using ends st(1) by (simp add: sample_send_app_def)
  moreover have "is_local_draft (ap_db (sd_api sample_send_app)) 12"
    by (simp add: is_local_draft_def sample_send_app_def sample_draft_def sample_message_def)
  ultimately show ?thesis using st(2) by (simp add: sample_input_def)
qed

section \<open>What is delivered\<close>

text \<open>\<open>lettre\<close> leaves the Bcc header out of the bytes of a message: they do not depend on it.\<close>

definition drops_bcc :: "('m, 's) lettre \<Rightarrow> bool" where
  "drops_bcc L = (\<forall>og b m m'. lt_build L og = Inr m \<longrightarrow> lt_build L (og\<lparr>og_bcc := b\<rparr>) = Inr m' \<longrightarrow>
     lt_formatted L m' = lt_formatted L m)"

lemma build_message_bcc:
  assumes "drops_bcc L" "build_message L sr = Inr m" "build_message L (sr\<lparr>sr_bcc := bcc\<rparr>) = Inr m'"
  shows "lt_formatted L m' = lt_formatted L m"
proof -
  have body: "message_body L (sr\<lparr>sr_bcc := bcc\<rparr>) = message_body L sr"
    by (simp add: message_body_def pgp_body_def calendar_part_def with_attachments_def plain_body_def body_part_def split: option.split)
  obtain og b where og: "lt_build L og = Inr m" "lt_build L (og\<lparr>og_bcc := b\<rparr>) = Inr m'"
    using assms(2,3) unfolding build_message_def body by (fastforce split: sum.splits)
  show ?thesis using assms(1) og by (auto simp: drops_bcc_def)
qed

lemma deliver_api_same_bytes:
  assumes "\<And>m m'. build_message (sv_lettre E) sr = Inr m \<Longrightarrow> build_message (sv_lettre E) sr' = Inr m'
      \<Longrightarrow> lt_formatted (sv_lettre E) m' = lt_formatted (sv_lettre E) m"
    "deliver_api E kind a tok sr app = (Inr mid1, app1)" "deliver_api E kind a tok sr' app = (Inr mid2, app2)"
  shows "app1 = app2"
proof -
  obtain m m' where m: "build_message (sv_lettre E) sr = Inr m" "build_message (sv_lettre E) sr' = Inr m'"
    using assms(2,3) by (auto simp: deliver_api_def build_raw_with_id_def split: sum.splits)
  then have "lt_formatted (sv_lettre E) m' = lt_formatted (sv_lettre E) m" by (rule assms(1))
  then show ?thesis using assms(2,3) m by (auto simp: deliver_api_def build_raw_with_id_def Let_def split: sum.splits prod.splits)
qed

text \<open>C18: An account that sends through the provider's API delivers the same bytes whoever is in Bcc: the
  recipients in Bcc do not get the message, and the send is reported as sent.\<close>

theorem api_delivery_ignores_bcc:
  assumes "drops_bcc (sv_lettre E)" "\<not> sends_over_smtp (parse_kind (a_provider_kind a))"
    "deliver_email E req a c app = (Inr mid1, app1)" "deliver_email E (req\<lparr>si_bcc := bcc\<rparr>) a c app = (Inr mid2, app2)"
  shows "app1 = app2"
proof -
  let ?kind = "parse_kind (a_provider_kind a)"
  obtain bytes creds where creds: "tk_decrypt (sv_tokens E) (a_credentials a) = Some bytes" "tk_parse (sv_tokens E) bytes = Some creds"
    using assms(3) by (auto simp: deliver_email_def split: option.splits)
  obtain tok app0 where tok: "delivery_token E a creds app = (Inr tok, app0)"
    using assms(3) creds by (auto simp: deliver_email_def split: prod.splits sum.splits)
  have bcc: "smtp_request (sv_lettre E) (req\<lparr>si_bcc := bcc\<rparr>) c creds tok
      = (smtp_request (sv_lettre E) req c creds tok)\<lparr>sr_bcc := (case bcc of None \<Rightarrow> [] | Some v \<Rightarrow> v)\<rparr>"
    by (simp add: smtp_request_def attachments_of_def)
  have first: "deliver_api E ?kind a tok (smtp_request (sv_lettre E) req c creds tok) app0 = (Inr mid1, app1)"
    using assms(2,3) creds tok by (simp add: deliver_email_def Let_def)
  have second: "deliver_api E ?kind a tok ((smtp_request (sv_lettre E) req c creds tok)\<lparr>sr_bcc := (case bcc of None \<Rightarrow> [] | Some v \<Rightarrow> v)\<rparr>) app0
      = (Inr mid2, app2)"
    using assms(2,4) creds tok bcc by (simp add: deliver_email_def Let_def)
  show ?thesis by (rule deliver_api_same_bytes [OF _ first second]) (rule build_message_bcc [OF assms(1)])
qed

theorem api_delivery_ignores_bcc_witness:
  "\<exists>app1 app2. deliver_email sample_send_env sample_input sample_account sample_columns sample_send_app = (Inr [], app1)
    \<and> deliver_email sample_send_env (sample_input\<lparr>si_bcc := Some [''secret@x.org'']\<rparr>) sample_account sample_columns sample_send_app = (Inr [], app2)
    \<and> app1 = app2"
proof -
  have "fst (deliver_email sample_send_env (sample_input\<lparr>si_bcc := Some [''secret@x.org'']\<rparr>) sample_account sample_columns sample_send_app) = Inr []"
    by code_simp
  then obtain app1 app2 where runs: "deliver_email sample_send_env sample_input sample_account sample_columns sample_send_app = (Inr [], app1)"
    "deliver_email sample_send_env (sample_input\<lparr>si_bcc := Some [''secret@x.org'']\<rparr>) sample_account sample_columns sample_send_app = (Inr [], app2)"
    using sample_delivery by (metis prod.collapse)
  have "drops_bcc (sv_lettre sample_send_env)" by (simp add: drops_bcc_def sample_send_env_def plain_lettre_def)
  moreover have "\<not> sends_over_smtp (parse_kind (a_provider_kind sample_account))" by (simp add: sample_account_def)
  ultimately show ?thesis using api_delivery_ignores_bcc [OF _ _ runs] runs by blast
qed

text \<open>A message in PGP/MIME form is built without its attachments, whatever they are: they are left out
  silently.\<close>

theorem pgp_message_drops_attachments:
  assumes "sr_pgp_mime_mode req = Some mode"
  shows "build_message L (req\<lparr>sr_attachments := files\<rparr>) = build_message L req"
proof -
  have "message_body L (req\<lparr>sr_attachments := files\<rparr>) = message_body L req"
    using assms by (simp add: message_body_def pgp_body_def split: option.split)
  then show ?thesis by (simp add: build_message_def split: sum.split)
qed

theorem pgp_message_drops_attachments_witness:
  "build_message plain_lettre (smtp_request plain_lettre (sample_input\<lparr>si_pgp_mime_mode := Some ''encrypted'',
       si_attachments := Some [\<lparr>ad_filename = ''a.pdf'', ad_content_type = ''application/pdf'', ad_data = ''x''\<rparr>]\<rparr>) sample_columns JNull None)
    = build_message plain_lettre (smtp_request plain_lettre (sample_input\<lparr>si_pgp_mime_mode := Some ''encrypted''\<rparr>) sample_columns JNull None)"
proof -
  have "sr_pgp_mime_mode (smtp_request plain_lettre (sample_input\<lparr>si_pgp_mime_mode := Some ''encrypted''\<rparr>) sample_columns JNull None) = Some ''encrypted''"
    by (simp add: smtp_request_def)
  from pgp_message_drops_attachments [OF this, of plain_lettre "[\<lparr>ad_filename = ''a.pdf'', ad_content_type = ''application/pdf'', ad_data = ''x''\<rparr>]"]
  show ?thesis by (simp add: smtp_request_def attachments_of_def sample_input_def)
qed

end
