(* ===== verification/Remote_Content.thy ===== *)
theory Remote_Content
  imports Auth "HOL-Library.Word"
begin

unbundle bit_operations_syntax

text \<open>
  The proxy for remote images of a message (backend/api/src/routes/remote_content.rs): which addresses it
  fetches, how it follows redirects, and what it answers.  The URL parser, the resolver and the HTTP client
  are parameters; the parser of IP addresses and their classes belong to Rust's standard library and are
  modelled.  Log lines are not part of an answer; the message of a failure only goes there, and the reason
  phrase of a status is left out of it.
\<close>

section \<open>IP addresses\<close>

datatype ip_addr = V4 "8 word list" | V6 "16 word list"

text \<open>The parser reads from the front and returns what is left.\<close>

definition hex_val :: "nat \<Rightarrow> char \<Rightarrow> nat option" where
  "hex_val radix c =
     (let n = (of_char c :: nat);
          d = (if 48 \<le> n \<and> n \<le> 57 then Some (n - 48) else if 97 \<le> n \<and> n \<le> 122 then Some (n - 87)
               else if 65 \<le> n \<and> n \<le> 90 then Some (n - 55) else None)
      in case d of None \<Rightarrow> None | Some v \<Rightarrow> if v < radix then Some v else None)"

definition read_number :: "nat \<Rightarrow> nat \<Rightarrow> bool \<Rightarrow> nat \<Rightarrow> string \<Rightarrow> (nat \<times> string) option" where
  "read_number radix max_digits zero_prefix limit s =
     (let digits = takeWhile (\<lambda>c. hex_val radix c \<noteq> None) s;
          value = foldl (\<lambda>v c. v * radix + the (hex_val radix c)) 0 digits
      in if digits = [] \<or> max_digits < length digits \<or> limit < value
            \<or> \<not> zero_prefix \<and> hd digits = CHR ''0'' \<and> 1 < length digits
         then None else Some (value, drop (length digits) s))"

definition read_separator :: "char \<Rightarrow> nat \<Rightarrow> string \<Rightarrow> string option" where
  "read_separator sep i s =
     (if i = 0 then Some s else case s of c # r \<Rightarrow> (if c = sep then Some r else None) | [] \<Rightarrow> None)"

fun read_octets :: "nat \<Rightarrow> nat \<Rightarrow> string \<Rightarrow> (8 word list \<times> string) option" where
  "read_octets 0 i s = Some ([], s)"
| "read_octets (Suc n) i s =
     (case Option.bind (read_separator CHR ''.'' i s) (read_number 10 3 False 255) of
        None \<Rightarrow> None
      | Some (v, r) \<Rightarrow> map_option (\<lambda>(vs, r'). (of_nat v # vs, r')) (read_octets n (i + 1) r))"

definition read_ipv4 :: "string \<Rightarrow> (8 word list \<times> string) option" where
  "read_ipv4 s = read_octets 4 0 s"

text \<open>Two octets are one group of an IPv6 address.\<close>

definition group_of :: "8 word \<Rightarrow> 8 word \<Rightarrow> 16 word" where
  "group_of a b = push_bit 8 (ucast a) OR ucast b"

text \<open>
  At most \<open>n\<close> groups, the first with number \<open>i\<close>; while at least two are left, an IPv4 address may end them.
  The result holds the groups, whether they end in an IPv4 address, and the rest.
\<close>

fun read_groups :: "nat \<Rightarrow> nat \<Rightarrow> string \<Rightarrow> 16 word list \<times> bool \<times> string" where
  "read_groups 0 i s = ([], False, s)"
| "read_groups (Suc n) i s =
     (case (if n = 0 then None else Option.bind (read_separator CHR '':'' i s) read_ipv4) of
        Some ([a, b, c, d], r) \<Rightarrow> ([group_of a b, group_of c d], True, r)
      | _ \<Rightarrow>
          (case Option.bind (read_separator CHR '':'' i s) (read_number 16 4 True 65535) of
             None \<Rightarrow> ([], False, s)
           | Some (v, r) \<Rightarrow> (case read_groups n (i + 1) r of (vs, v4, r') \<Rightarrow> (of_nat v # vs, v4, r'))))"

definition read_ipv6 :: "string \<Rightarrow> (16 word list \<times> string) option" where
  "read_ipv6 s =
     (case read_groups 8 0 s of
        (front, v4, r) \<Rightarrow>
          (if length front = 8 then Some (front, r)
           else if v4 \<or> \<not> starts_with ''::'' r then None
           else case read_groups (7 - length front) 0 (drop 2 r) of
             (back, _, r') \<Rightarrow> Some (front @ replicate (8 - length front - length back) 0 @ back, r')))"

definition parse_ip :: "string \<Rightarrow> ip_addr option" where
  "parse_ip s =
     (case read_ipv4 s of
        Some (octets, r) \<Rightarrow> (if r = [] then Some (V4 octets) else None)
      | None \<Rightarrow> (case read_ipv6 s of Some (groups, r) \<Rightarrow> (if r = [] then Some (V6 groups) else None) | None \<Rightarrow> None))"

definition is_private_v4 :: "8 word list \<Rightarrow> bool" where
  "is_private_v4 o4 =
     (let a = o4 ! 0; b = o4 ! 1; c = o4 ! 2 in
      a = 10 \<or> a = 172 \<and> 16 \<le> b \<and> b \<le> 31 \<or> a = 192 \<and> b = 168
      \<or> a = 127 \<or> a = 169 \<and> b = 254 \<or> o4 = [255, 255, 255, 255]
      \<or> a = 192 \<and> b = 0 \<and> c = 2 \<or> a = 198 \<and> b = 51 \<and> c = 100 \<or> a = 203 \<and> b = 0 \<and> c = 113
      \<or> a = 0)"

definition is_private_v6 :: "16 word list \<Rightarrow> bool" where
  "is_private_v6 g =
     (g = [0, 0, 0, 0, 0, 0, 0, 1] \<or> g = [0, 0, 0, 0, 0, 0, 0, 0]
      \<or> g ! 0 AND 0xfe00 = 0xfc00 \<or> g ! 0 AND 0xffc0 = 0xfe80)"

fun is_private_ip :: "ip_addr \<Rightarrow> bool" where
  "is_private_ip (V4 octets) = is_private_v4 octets"
| "is_private_ip (V6 groups) = is_private_v6 groups"

section \<open>URLs and the client\<close>

record image_reply =
  ir_status :: nat
  ir_location :: "string option"
  ir_content_type :: "string option"
  ir_length :: "nat option"
  ir_chunks :: "string list"
  ir_broken :: "string option"

text \<open>
  A host that is an IPv6 address is in brackets.  \<open>px_lookup\<close> resolves a host and a port, \<open>px_get\<close> sends a
  request that follows no redirect; a body arrives in chunks and may break off after them.
\<close>

record ('u, 's) image_proxy =
  px_parse :: "string \<Rightarrow> string + 'u"
  px_scheme :: "'u \<Rightarrow> string"
  px_host :: "'u \<Rightarrow> string option"
  px_port :: "'u \<Rightarrow> nat option"
  px_join :: "'u \<Rightarrow> string \<Rightarrow> string + 'u"
  px_show :: "'u \<Rightarrow> string"
  px_lookup :: "string \<Rightarrow> nat \<Rightarrow> 's \<Rightarrow> (string + ip_addr list) \<times> 's"
  px_get :: "'u \<Rightarrow> 's \<Rightarrow> (string + image_reply) \<times> 's"

definition max_image_bytes :: nat where
  "max_image_bytes = 10 * 1024 * 1024"

definition max_redirects :: nat where
  "max_redirects = 3"

definition parse_allowed_url :: "('u, 's) image_proxy \<Rightarrow> string \<Rightarrow> app_error + 'u" where
  "parse_allowed_url X raw =
     (case px_parse X raw of
        Inl e \<Rightarrow> Inl (BadGateway (''invalid image url: '' @ e))
      | Inr url \<Rightarrow>
          (if px_scheme X url \<notin> {''http'', ''https''} then Inl (BadGateway ''unsupported image url scheme'')
           else case px_host X url of
             None \<Rightarrow> Inl (BadGateway ''image url has no host'')
           | Some host \<Rightarrow>
               (if to_lower host = ''localhost'' \<or> ends_with ''.localhost'' host
                then Inl (BadGateway ''local image hosts are not allowed'')
                else case parse_ip host of
                  Some ip \<Rightarrow> (if is_private_ip ip then Inl (BadGateway ''private image hosts are not allowed'') else Inr url)
                | None \<Rightarrow> Inr url)))"

definition ensure_public_host :: "('u, 's) image_proxy \<Rightarrow> 'u \<Rightarrow> 's \<Rightarrow> (app_error + unit) \<times> 's" where
  "ensure_public_host X url s =
     (case px_host X url of
        None \<Rightarrow> (Inl (BadGateway ''image url has no host''), s)
      | Some host \<Rightarrow>
          (if parse_ip host \<noteq> None then (Inr (), s)
           else case px_port X url of
             None \<Rightarrow> (Inl (BadGateway ''image url has no port''), s)
           | Some port \<Rightarrow>
               (case px_lookup X host port s of
                  (Inl e, s') \<Rightarrow> (Inl (BadGateway (''image host lookup failed: '' @ e)), s')
                | (Inr addrs, s') \<Rightarrow>
                    ((if list_ex is_private_ip addrs then Inl (BadGateway ''private image hosts are not allowed'') else Inr ()), s'))))"

section \<open>The answer\<close>

record image_response =
  im_content_type :: string
  im_cache :: string
  im_body :: string

definition transparent_gif :: "8 word list" where
  "transparent_gif =
     [0x47, 0x49, 0x46, 0x38, 0x39, 0x61, 0x01, 0x00, 0x01, 0x00, 0x80, 0x00, 0x00, 0x00, 0x00,
      0x00, 0xFF, 0xFF, 0xFF, 0x21, 0xF9, 0x04, 0x01, 0x00, 0x00, 0x00, 0x00, 0x2C, 0x00, 0x00,
      0x00, 0x00, 0x01, 0x00, 0x01, 0x00, 0x00, 0x02, 0x02, 0x44, 0x01, 0x00, 0x3B]"

definition empty_image_response :: image_response where
  "empty_image_response = \<lparr>im_content_type = ''image/gif'', im_cache = ''private, max-age=300'',
     im_body = map (\<lambda>b. char_of (unat b)) transparent_gif\<rparr>"

text \<open>The body is read chunk by chunk, up to the limit.\<close>

fun read_body :: "string \<Rightarrow> string list \<Rightarrow> string option \<Rightarrow> app_error + string" where
  "read_body body [] broken = (case broken of None \<Rightarrow> Inr body | Some e \<Rightarrow> Inl (BadGateway (''image read failed: '' @ e)))"
| "read_body body (part # parts) broken =
     (if max_image_bytes < length body + length part then Inl (BadGateway ''remote image is too large'')
      else read_body (body @ part) parts broken)"

definition is_image :: "string \<Rightarrow> bool" where
  "is_image content_type = starts_with ''image/'' (trim (hd (split_on CHR '';'' content_type)))"

text \<open>The image that a reply without redirect carries.\<close>

definition image_of_reply :: "image_reply \<Rightarrow> app_error + image_response" where
  "image_of_reply r =
     (let content_type = (case ir_content_type r of None \<Rightarrow> ''application/octet-stream'' | Some t \<Rightarrow> t) in
      if \<not> (200 \<le> ir_status r \<and> ir_status r < 300) then Inl (BadGateway ''image fetch failed'')
      else if \<not> is_image content_type then Inl (BadGateway (''remote content is not an image: '' @ content_type))
      else if (case ir_length r of None \<Rightarrow> False | Some n \<Rightarrow> max_image_bytes < n) then Inl (BadGateway ''remote image is too large'')
      else case read_body [] (ir_chunks r) (ir_broken r) of
        Inl e \<Rightarrow> Inl e
      | Inr body \<Rightarrow> Inr \<lparr>im_content_type = content_type, im_cache = ''private, max-age=3600'', im_body = body\<rparr>)"

text \<open>An address that may be fetched next: parsed, allowed and public.\<close>

definition checked_url :: "('u, 's) image_proxy \<Rightarrow> string \<Rightarrow> 's \<Rightarrow> (app_error + 'u) \<times> 's" where
  "checked_url X raw s =
     (case parse_allowed_url X raw of
        Inl e \<Rightarrow> (Inl e, s)
      | Inr url \<Rightarrow> (case ensure_public_host X url s of (Inl e, s') \<Rightarrow> (Inl e, s') | (Inr _, s') \<Rightarrow> (Inr url, s')))"

definition redirect_target :: "('u, 's) image_proxy \<Rightarrow> 'u \<Rightarrow> image_reply \<Rightarrow> app_error + string" where
  "redirect_target X url r =
     (case ir_location r of
        None \<Rightarrow> Inl (BadGateway ''image redirect without location'')
      | Some location \<Rightarrow>
          (case px_join X url location of
             Inl e \<Rightarrow> Inl (BadGateway (''invalid image redirect: '' @ e)) | Inr next_url \<Rightarrow> Inr (px_show X next_url)))"

text \<open>\<open>n\<close> requests may still be sent.\<close>

fun fetch_image :: "('u, 's) image_proxy \<Rightarrow> nat \<Rightarrow> 'u \<Rightarrow> 's \<Rightarrow> (app_error + image_response) \<times> 's" where
  "fetch_image X 0 url s = (Inl (BadGateway ''too many image redirects''), s)"
| "fetch_image X (Suc n) url s =
     (case px_get X url s of
        (Inl e, s1) \<Rightarrow> (Inl (BadGateway (''image fetch failed: '' @ e)), s1)
      | (Inr r, s1) \<Rightarrow>
          (if 300 \<le> ir_status r \<and> ir_status r < 400
           then (case redirect_target X url r of
                   Inl e \<Rightarrow> (Inl e, s1)
                 | Inr raw \<Rightarrow>
                     (case checked_url X raw s1 of
                        (Inl e, s2) \<Rightarrow> (Inl e, s2)
                      | (Inr next_url, s2) \<Rightarrow> fetch_image X n next_url s2))
           else (image_of_reply r, s1)))"

text \<open>Whatever goes wrong after the token was accepted, the answer is the transparent image.\<close>

definition remote_image ::
  "auth_env \<Rightarrow> int \<Rightarrow> ('u, 's) image_proxy \<Rightarrow> string \<Rightarrow> string \<Rightarrow> 's \<Rightarrow> (app_error + image_response) \<times> 's"
where
  "remote_image A now X bearer raw s =
     (case validate_token A now bearer of
        None \<Rightarrow> (Inl Unauthorized, s)
      | Some _ \<Rightarrow>
          (case checked_url X raw s of
             (Inl e, s1) \<Rightarrow> (Inr empty_image_response, s1)
           | (Inr url, s1) \<Rightarrow>
               (case fetch_image X (max_redirects + 1) url s1 of
                  (Inl e, s2) \<Rightarrow> (Inr empty_image_response, s2) | (Inr im, s2) \<Rightarrow> (Inr im, s2))))"

end
