(* ===== verification/Service_Properties.thy ===== *)
theory Service_Properties
  imports Remote_Content
begin

text \<open>Properties of the smaller services of the API: the image proxy.\<close>

section \<open>The image proxy\<close>

text \<open>A URL that may be fetched: its host is public by its form or by the answer of the resolver.\<close>

definition public_url :: "('u, 's) image_proxy \<Rightarrow> 'u \<Rightarrow> bool" where
  "public_url X url =
     (px_scheme X url \<in> {''http'', ''https''}
      \<and> (\<exists>host. px_host X url = Some host \<and> to_lower host \<noteq> ''localhost'' \<and> \<not> ends_with ''.localhost'' host
          \<and> (case parse_ip host of
               Some ip \<Rightarrow> \<not> is_private_ip ip
             | None \<Rightarrow> \<exists>port s addrs s'. px_lookup X host port s = (Inr addrs, s') \<and> (\<forall>ip \<in> set addrs. \<not> is_private_ip ip))))"

text \<open>The proxy with a log of the URLs that it requests.\<close>

definition recording :: "('u, 's) image_proxy \<Rightarrow> ('u, 'u list \<times> 's) image_proxy" where
  "recording X =
     \<lparr>px_parse = px_parse X, px_scheme = px_scheme X, px_host = px_host X, px_port = px_port X, px_join = px_join X,
      px_show = px_show X,
      px_lookup = (\<lambda>host port (log, s). case px_lookup X host port s of (r, s') \<Rightarrow> (r, log, s')),
      px_get = (\<lambda>url (log, s). case px_get X url s of (r, s') \<Rightarrow> (r, log @ [url], s'))\<rparr>"

lemma recording_simps [simp]:
  "px_parse (recording X) = px_parse X" "px_scheme (recording X) = px_scheme X" "px_host (recording X) = px_host X"
  "px_port (recording X) = px_port X" "px_join (recording X) = px_join X" "px_show (recording X) = px_show X"
  "px_lookup (recording X) host port (log, s) = (case px_lookup X host port s of (r, s') \<Rightarrow> (r, log, s'))"
  "px_get (recording X) url (log, s) = (case px_get X url s of (r, s') \<Rightarrow> (r, log @ [url], s'))"
  by (simp_all add: recording_def)

lemma recording_parse [simp]: "parse_allowed_url (recording X) raw = parse_allowed_url X raw"
  unfolding parse_allowed_url_def recording_simps by (rule refl)

lemma checked_url_public:
  assumes "checked_url (recording X) raw (log, s) = (r, log', s')"
  shows "log' = log \<and> (\<forall>url. r = Inr url \<longrightarrow> public_url X url)"
proof (cases "parse_allowed_url X raw")
  case (Inl e)
  then show ?thesis using assms by (auto simp: checked_url_def)
next
  case (Inr url)
  obtain host where host: "px_host X url = Some host" "px_scheme X url \<in> {''http'', ''https''}" "to_lower host \<noteq> ''localhost''"
    "\<not> ends_with ''.localhost'' host" "\<forall>ip. parse_ip host = Some ip \<longrightarrow> \<not> is_private_ip ip"
    using Inr by (auto simp: parse_allowed_url_def split: sum.splits option.splits if_splits)
  show ?thesis
  proof (cases "parse_ip host")
    case (Some ip)
    then show ?thesis using assms Inr host by (auto simp: checked_url_def ensure_public_host_def public_url_def)
  next
    case None
    show ?thesis
    proof (cases "px_port X url")
      case None
      then show ?thesis using assms Inr host \<open>parse_ip host = None\<close> by (auto simp: checked_url_def ensure_public_host_def)
    next
      case (Some port)
      obtain q s2 where lookup: "px_lookup X host port s = (q, s2)" by force
      have run: "checked_url (recording X) raw (log, s) =
          (case q of Inl e \<Rightarrow> (Inl (BadGateway (''image host lookup failed: '' @ e)), log, s2)
           | Inr addrs \<Rightarrow> (if list_ex is_private_ip addrs then Inl (BadGateway ''private image hosts are not allowed'') else Inr url, log, s2))"
        using Inr host(1) \<open>parse_ip host = None\<close> Some lookup by (simp add: checked_url_def ensure_public_host_def split: sum.split)
      show ?thesis
      proof (cases "\<exists>addrs. q = Inr addrs \<and> \<not> list_ex is_private_ip addrs")
        case True
        then have "public_url X url" using host lookup \<open>parse_ip host = None\<close> unfolding public_url_def
          by (force simp: list_ex_iff)
        then show ?thesis using assms run True by auto
      next
        case False
        then show ?thesis using assms run by (auto split: sum.splits)
      qed
    qed
  qed
qed

lemma fetch_image_public:
  assumes "fetch_image (recording X) n url (log, s) = (r, log', s')" "public_url X url"
  shows "\<exists>new. log' = log @ new \<and> length new \<le> n \<and> (\<forall>u \<in> set new. public_url X u)"
  using assms
proof (induction n arbitrary: url log s)
  case (Suc n)
  obtain q s1 where get: "px_get X url s = (q, s1)" by force
  show ?case
  proof (cases "\<exists>a raw u log2 s2. q = Inr a \<and> 300 \<le> ir_status a \<and> ir_status a < 400 \<and> redirect_target (recording X) url a = Inr raw
      \<and> checked_url (recording X) raw (log @ [url], s1) = (Inr u, log2, s2)")
    case True
    then obtain a raw u log2 s2 where a: "q = Inr a" "300 \<le> ir_status a" "ir_status a < 400" "redirect_target (recording X) url a = Inr raw"
      "checked_url (recording X) raw (log @ [url], s1) = (Inr u, log2, s2)" by blast
    have "log2 = log @ [url]" "public_url X u" using checked_url_public [OF a(5)] by simp_all
    moreover have "fetch_image (recording X) n u (log2, s2) = (r, log', s')" using Suc.prems(1) get a by simp
    ultimately obtain new where "log' = log2 @ new" "length new \<le> n" "\<forall>u \<in> set new. public_url X u" using Suc.IH by blast
    then show ?thesis using Suc.prems(2) \<open>log2 = log @ [url]\<close> by (intro exI [of _ "url # new"]) simp
  next
    case False
    then have "log' = log @ [url]" using Suc.prems(1) get
      by (auto split: sum.splits if_splits prod.splits dest: checked_url_public)
    then show ?thesis using Suc.prems(2) by (intro exI [of _ "[url]"]) simp
  qed
qed simp

text \<open>C19: The image proxy sends at most four requests, all of them to URLs with a public host: neither the URL
  of the message nor a redirect leads it to a host whose address, given or resolved, is a private one.\<close>

theorem image_proxy_requests_public_hosts:
  assumes "remote_image A now (recording X) bearer raw ([], s) = (r, log, s')"
  shows "length log \<le> 4 \<and> (\<forall>url \<in> set log. public_url X url)"
proof (cases "validate_token A now bearer")
  case None
  then show ?thesis using assms by (simp add: remote_image_def)
next
  case (Some user)
  obtain q log1 s1 where checked: "checked_url (recording X) raw ([], s) = (q, log1, s1)" by (metis prod.collapse)
  note known = checked_url_public [OF checked]
  show ?thesis
  proof (cases q)
    case (Inl e)
    then show ?thesis using assms Some checked known by (simp add: remote_image_def)
  next
    case (Inr url)
    obtain im log2 s2 where fetched: "fetch_image (recording X) (max_redirects + 1) url (log1, s1) = (im, log2, s2)" by (metis prod.collapse)
    have "log = log2" using assms Some checked Inr fetched by (auto simp: remote_image_def split: sum.splits)
    then show ?thesis using fetch_image_public [OF fetched] known Inr by (auto simp: max_redirects_def)
  qed
qed

definition any_bearer :: auth_env where
  "any_bearer = \<lparr>ae_registration = True, ae_hash_password = Some, ae_verify = (\<lambda>h p. Some (h = p)), ae_hash_token = (\<lambda>t. t),
     ae_sign = (\<lambda>u i e. Some ''jwt''), ae_decode = (\<lambda>b. if b = ''jwt'' then Some (1, 0, 900) else None)\<rparr>"

text \<open>A server that answers the first address with a redirect to the second, and that with an image.\<close>

definition image_server :: "(string, unit) image_proxy" where
  "image_server =
     \<lparr>px_parse = Inr, px_scheme = (\<lambda>_. ''https''), px_host = (\<lambda>_. Some ''img.example''), px_port = (\<lambda>_. Some 443),
      px_join = (\<lambda>_ location. Inr location), px_show = (\<lambda>u. u),
      px_lookup = (\<lambda>_ _ s. (Inr [V4 [93, 184, 216, 34]], s)),
      px_get = (\<lambda>url s. (Inr (if url = ''a''
          then \<lparr>ir_status = 302, ir_location = Some ''b'', ir_content_type = None, ir_length = None, ir_chunks = [], ir_broken = None\<rparr>
          else \<lparr>ir_status = 200, ir_location = None, ir_content_type = Some ''image/png'', ir_length = None, ir_chunks = [''P'', ''NG''],
                 ir_broken = None\<rparr>), s))\<rparr>"

lemma read_octets_numeral: "read_octets (numeral k) i s =
     (case Option.bind (read_separator CHR ''.'' i s) (read_number 10 3 False 255) of
        None \<Rightarrow> None
      | Some (v, r) \<Rightarrow> map_option (\<lambda>(vs, r'). (of_nat v # vs, r')) (read_octets (pred_numeral k) (i + 1) r))"
  by (simp add: numeral_eq_Suc)

lemma read_groups_numeral: "read_groups (numeral k) i s =
     (case (if pred_numeral k = 0 then None else Option.bind (read_separator CHR '':'' i s) read_ipv4) of
        Some ([a, b, c, d], r) \<Rightarrow> ([group_of a b, group_of c d], True, r)
      | _ \<Rightarrow>
          (case Option.bind (read_separator CHR '':'' i s) (read_number 16 4 True 65535) of
             None \<Rightarrow> ([], False, s)
           | Some (v, r) \<Rightarrow> (case read_groups (pred_numeral k) (i + 1) r of (vs, v4, r') \<Rightarrow> (of_nat v # vs, v4, r'))))"
  by (simp add: numeral_eq_Suc)

lemmas reading_addresses = parse_ip_def read_ipv4_def read_ipv6_def read_separator_def read_number_def hex_val_def
  read_octets_numeral read_groups_numeral starts_with_def group_of_def

lemma sample_host: "parse_ip ''img.example'' = None" "\<not> ends_with ''.localhost'' ''img.example''" "to_lower ''img.example'' \<noteq> ''localhost''"
  by (simp add: reading_addresses) (simp_all add: ends_with_def starts_with_def to_lower_def ascii_lower_def)

lemma sample_public: "\<not> is_private_ip (V4 [93, 184, 216, 34])"
  by (simp add: is_private_v4_def Let_def)

lemma image_server_simps:
  "px_parse image_server raw = Inr raw" "px_scheme image_server url = ''https''" "px_host image_server url = Some ''img.example''"
  "px_port image_server url = Some 443" "px_join image_server url location = Inr location" "px_show image_server url = url"
  "px_lookup image_server host port s = (Inr [V4 [93, 184, 216, 34]], s)"
  "px_get image_server ''a'' s = (Inr \<lparr>ir_status = 302, ir_location = Some ''b'', ir_content_type = None, ir_length = None,
     ir_chunks = [], ir_broken = None\<rparr>, s)"
  "px_get image_server ''b'' s = (Inr \<lparr>ir_status = 200, ir_location = None, ir_content_type = Some ''image/png'', ir_length = None,
     ir_chunks = [''P'', ''NG''], ir_broken = None\<rparr>, s)"
  by (simp_all add: image_server_def)

lemma sample_checked: "checked_url (recording image_server) raw (log, ()) = (Inr raw, log, ())" "checked_url image_server raw () = (Inr raw, ())"
  using sample_host sample_public
  by (simp_all add: checked_url_def parse_allowed_url_def ensure_public_host_def image_server_simps)

lemma sample_image: "image_of_reply \<lparr>ir_status = 200, ir_location = None, ir_content_type = Some ''image/png'', ir_length = None,
     ir_chunks = [''P'', ''NG''], ir_broken = None\<rparr>
   = Inr \<lparr>im_content_type = ''image/png'', im_cache = ''private, max-age=3600'', im_body = ''PNG''\<rparr>"
proof -
  have "is_image ''image/png''" by code_simp
  then show ?thesis by (simp add: image_of_reply_def max_image_bytes_def)
qed

lemma sample_token_ok: "validate_token any_bearer 0 ''jwt'' = Some 1"
  by (simp add: validate_token_def any_bearer_def)

lemma sample_answer:
  "remote_image any_bearer 0 image_server ''jwt'' ''a'' ()
     = (Inr \<lparr>im_content_type = ''image/png'', im_cache = ''private, max-age=3600'', im_body = ''PNG''\<rparr>, ())"
  "snd (remote_image any_bearer 0 (recording image_server) ''jwt'' ''a'' ([], ())) = ([''a'', ''b''], ())"
proof -
  have requests: "max_redirects + 1 = Suc (Suc (Suc (Suc 0)))" by (simp add: max_redirects_def)
  show "remote_image any_bearer 0 image_server ''jwt'' ''a'' ()
      = (Inr \<lparr>im_content_type = ''image/png'', im_cache = ''private, max-age=3600'', im_body = ''PNG''\<rparr>, ())"
    "snd (remote_image any_bearer 0 (recording image_server) ''jwt'' ''a'' ([], ())) = ([''a'', ''b''], ())"
    unfolding remote_image_def requests
    by (simp_all add: sample_token_ok sample_checked redirect_target_def image_server_simps sample_image)
qed

theorem image_proxy_requests_public_hosts_witness:
  "\<exists>r. remote_image any_bearer 0 (recording image_server) ''jwt'' ''a'' ([], ()) = (r, [''a'', ''b''], ())
    \<and> (\<forall>url \<in> set [''a'', ''b'']. public_url image_server url)"
proof -
  have "remote_image any_bearer 0 (recording image_server) ''jwt'' ''a'' ([], ())
      = (fst (remote_image any_bearer 0 (recording image_server) ''jwt'' ''a'' ([], ())), [''a'', ''b''], ())"
    using sample_answer(2) by (metis prod.collapse)
  from image_proxy_requests_public_hosts [OF this] this show ?thesis by blast
qed

lemma read_body_bounded:
  "read_body body parts broken = Inr b \<Longrightarrow> length body \<le> max_image_bytes \<Longrightarrow> length b \<le> max_image_bytes"
  by (induction body parts broken rule: read_body.induct) (auto split: if_splits option.splits)

lemma fetch_image_answer:
  "fetch_image X n url s = (Inr im, s') \<Longrightarrow> is_image (im_content_type im) \<and> length (im_body im) \<le> max_image_bytes"
proof (induction n arbitrary: url s)
  case (Suc n)
  have answer: "image_of_reply r = Inr im \<Longrightarrow> ?case" for r
    by (auto simp: image_of_reply_def Let_def dest: read_body_bounded split: if_splits sum.splits option.splits)
  show ?case using Suc by (auto dest: answer split: prod.splits sum.splits if_splits)
qed simp

text \<open>C20: What the proxy answers is the transparent image or has an image type and at most ten megabytes: an
  answer never carries another content type to the page of the application.\<close>

theorem image_proxy_answers_bounded_images:
  assumes "remote_image A now X bearer raw s = (Inr im, s')"
  shows "im = empty_image_response \<or> is_image (im_content_type im) \<and> length (im_body im) \<le> max_image_bytes"
  using assms by (auto simp: remote_image_def simp del: fetch_image.simps dest: fetch_image_answer split: option.splits prod.splits sum.splits)

theorem image_proxy_answers_bounded_images_witness:
  "\<exists>im s'. remote_image any_bearer 0 image_server ''jwt'' ''a'' () = (Inr im, s') \<and> im_body im = ''PNG''
    \<and> (im = empty_image_response \<or> is_image (im_content_type im) \<and> length (im_body im) \<le> max_image_bytes)"
proof -
  from image_proxy_answers_bounded_images [OF sample_answer(1)] sample_answer(1) show ?thesis by auto
qed

text \<open>
  The check of IPv6 addresses does not look into addresses that stand for an IPv4 address: a host name that
  resolves to the mapped loopback address is fetched, although the loopback address itself is refused.\<close>

theorem mapped_loopback_is_public:
  "parse_ip ''127.0.0.1'' = Some (V4 [127, 0, 0, 1])" "is_private_ip (V4 [127, 0, 0, 1])"
  "parse_ip ''::ffff:127.0.0.1'' = Some (V6 [0, 0, 0, 0, 0, 0xffff, 0x7f00, 1])"
  "\<not> is_private_ip (V6 [0, 0, 0, 0, 0, 0xffff, 0x7f00, 1])"
  by (simp_all add: reading_addresses is_private_v4_def is_private_v6_def Let_def) (simp add: eval_nat_numeral)

end
