(* ===== verification/Mail_Accounts.thy ===== *)
theory Mail_Accounts
  imports Contact_Accounts Validate Sync
begin

text \<open>
  The mail accounts of a user behind the API (backend/api/src/routes/accounts.rs): adding an account after a
  test of its connection, changing it, its aliases, the order of the sidebar, its synchronisation status, and
  its removal with everything that references it.

  An account is a row of \<open>accounts\<close> in the mail database together with the columns that only the API reads.
  Opening the connection that is tested is a parameter, and so is reading the certificate that a server
  presents.  Ids that the database draws are arguments.
\<close>

section \<open>State\<close>

record account_columns =
  ac_account :: string
  ac_smtp_host :: string
  ac_smtp_port :: int
  ac_smtp_auth :: string
  ac_smtp_cert :: "string option"
  ac_carddav_url :: "string option"
  ac_caldav_url :: "string option"
  ac_accept_invalid_tls :: bool
  ac_pgp_key :: "string option"
  ac_sign_by_default :: bool
  ac_color :: "string option"
  ac_sort :: int
  ac_created :: string

record alias_row =
  al_id :: nat
  al_account :: string
  al_email :: string
  al_name :: "string option"
  al_created :: string

record 's accounts_app =
  xa_api :: api_state
  xa_columns :: "account_columns list"
  xa_aliases :: "alias_row list"
  xa_contacts :: contact_db
  xa_tasks :: contact_manager
  xa_pgp_keys :: "string list"
  xa_next :: nat
  xa_net :: 's

datatype session_failure = TlsFailure string | OtherFailure string

record 's account_env =
  xe_contacts :: "'s contact_env"
  xe_test :: "string \<Rightarrow> nat \<Rightarrow> string \<Rightarrow> string \<Rightarrow> string \<Rightarrow> string option \<Rightarrow> 's \<Rightarrow> session_failure option \<times> 's"
  xe_peer_cert :: "string \<Rightarrow> nat \<Rightarrow> 's \<Rightarrow> string option \<times> 's"
  xe_show_int :: "int \<Rightarrow> string"
  xe_time :: string

fun failure_message :: "session_failure \<Rightarrow> string" where
  "failure_message (TlsFailure m) = ''TLS error: '' @ m"
| "failure_message (OtherFailure m) = m"

definition db_of :: "'s accounts_app \<Rightarrow> mail_db" where
  "db_of app = ap_db (xa_api app)"

definition account_rows :: "'s accounts_app \<Rightarrow> account_row list" where
  "account_rows app = accounts (db_of app)"

definition columns_of :: "'s accounts_app \<Rightarrow> string \<Rightarrow> account_columns option" where
  "columns_of app acct = find (\<lambda>c. ac_account c = acct) (xa_columns app)"

text \<open>The aliases that the handlers of messages read follow the alias rows.\<close>

definition set_aliases :: "alias_row list \<Rightarrow> 's accounts_app \<Rightarrow> 's accounts_app" where
  "set_aliases rows app = app\<lparr>xa_aliases := rows,
     xa_api := (xa_api app)\<lparr>ap_aliases := map (\<lambda>r. (al_account r, al_email r)) rows\<rparr>\<rparr>"

definition set_accounts :: "account_row list \<Rightarrow> account_columns list \<Rightarrow> 's accounts_app \<Rightarrow> 's accounts_app" where
  "set_accounts rows cols app = app\<lparr>xa_api := (xa_api app)\<lparr>ap_db := (ap_db (xa_api app))\<lparr>accounts := rows\<rparr>\<rparr>, xa_columns := cols\<rparr>"

definition set_manager :: "sync_manager \<Rightarrow> 's accounts_app \<Rightarrow> 's accounts_app" where
  "set_manager m app = app\<lparr>xa_api := (xa_api app)\<lparr>ap_manager := m\<rparr>\<rparr>"

section \<open>Contacts of a mailbox\<close>

text \<open>What the reconciliation of contact sources sees; it touches neither blobs nor events.\<close>

definition contact_view :: "'s accounts_app \<Rightarrow> contact_app" where
  "contact_view app =
     \<lparr>kx_mail = db_of app,
      kx_dav = map (\<lambda>c. \<lparr>md_account = ac_account c, md_carddav_url = ac_carddav_url c, md_smtp_cert = ac_smtp_cert c,
        md_accept_invalid_tls = ac_accept_invalid_tls c\<rparr>) (xa_columns app),
      kx_aliases = map al_email (xa_aliases app), kx_db = xa_contacts app, kx_manager = xa_tasks app,
      kx_blobs = Map.empty, kx_events = []\<rparr>"

definition put_contacts :: "contact_app \<Rightarrow> 's accounts_app \<Rightarrow> 's accounts_app" where
  "put_contacts k app = app\<lparr>xa_contacts := kx_db k, xa_tasks := kx_manager k\<rparr>"

definition reconcile_and_start_contacts ::
  "'s account_env \<Rightarrow> string \<Rightarrow> string \<Rightarrow> bool option \<Rightarrow> 's accounts_app \<Rightarrow> 's accounts_app"
where
  "reconcile_and_start_contacts E fresh acct enabled app =
     (case reconcile_mailbox_contact_source (xe_contacts E) fresh acct enabled (contact_view app) of
        (Inl e, k) \<Rightarrow> app
      | (Inr c, k) \<Rightarrow>
          put_contacts (if ca_enabled c \<and> ca_state c = ''pending'' then spawn_contact_sync_task (ca_source c) k else k) app)"

text \<open>A row as it is answered, with the source of its contacts.\<close>

datatype account_answer =
    AccountRow account_row account_columns "source_row option"
  | Untrusted string string nat string

definition get_account_row :: "string \<Rightarrow> 's accounts_app \<Rightarrow> app_error + account_answer" where
  "get_account_row acct app =
     (case (account_of (db_of app) acct, columns_of app acct) of
        (Some a, Some c) \<Rightarrow> Inr (AccountRow a c (source_of_mailbox (xa_contacts app) acct))
      | _ \<Rightarrow> Inl NotFound)"

section \<open>Validation\<close>

text \<open>The first check that fails decides.\<close>

fun first_failure :: "(app_error + 'a) list \<Rightarrow> app_error option" where
  "first_failure [] = None"
| "first_failure (Inl e # rest) = Some e"
| "first_failure (Inr _ # rest) = first_failure rest"

definition if_given :: "('a \<Rightarrow> app_error + unit) \<Rightarrow> 'a option \<Rightarrow> app_error + unit" where
  "if_given p x = (case x of None \<Rightarrow> Inr () | Some v \<Rightarrow> p v)"

definition nonempty :: "string option \<Rightarrow> string option" where
  "nonempty x = (case x of None \<Rightarrow> None | Some v \<Rightarrow> if v = [] then None else Some v)"

definition check_cert :: "'s account_env \<Rightarrow> string \<Rightarrow> string \<Rightarrow> app_error + unit" where
  "check_cert E field v = (case b64_cert (ke_decode (xe_contacts E)) field v of Inl e \<Rightarrow> Inl e | Inr _ \<Rightarrow> Inr ())"

text \<open>The bytes of a certificate of a request, which was checked before.\<close>

definition cert_der :: "'s account_env \<Rightarrow> string option \<Rightarrow> string option" where
  "cert_der E cert = Option.bind cert (\<lambda>c. ke_decode (xe_contacts E) (trim c))"

definition tls_permitted :: "(tls_decision \<Rightarrow> bool) \<Rightarrow> tls_decision option \<Rightarrow> string option \<Rightarrow> bool" where
  "tls_permitted P decision cert = (case decision of None \<Rightarrow> cert \<noteq> None | Some d \<Rightarrow> P d)"

section \<open>Adding an account\<close>

record add_request =
  aq_name :: string
  aq_email :: string
  aq_imap_host :: string
  aq_imap_port :: nat
  aq_imap_username :: string
  aq_imap_password :: string
  aq_imap_auth :: "string option"
  aq_smtp_host :: string
  aq_smtp_port :: nat
  aq_smtp_username :: string
  aq_smtp_password :: string
  aq_smtp_auth :: "string option"
  aq_body_sync_mode :: "string option"
  aq_interval :: "int option"
  aq_sync_mode :: "string option"
  aq_carddav_url :: "string option"
  aq_caldav_url :: "string option"
  aq_accept_invalid_tls :: "bool option"
  aq_imap_cert :: "string option"
  aq_smtp_cert :: "string option"
  aq_tls_decision :: "tls_decision option"
  aq_provider_kind :: "string option"
  aq_pgp_key :: "string option"
  aq_sign_by_default :: "bool option"
  aq_contacts_enabled :: "bool option"
  aq_color :: "string option"

definition default_to :: "'a \<Rightarrow> 'a option \<Rightarrow> 'a" where
  "default_to d x = (case x of None \<Rightarrow> d | Some v \<Rightarrow> v)"

definition provider_kinds :: "string list" where
  "provider_kinds = [''imap'', ''gmail_api'', ''gmail_imap'', ''outlook_api'']"

definition check_add_request :: "'s account_env \<Rightarrow> add_request \<Rightarrow> app_error option" where
  "check_add_request E q = first_failure
     [valid_text ''display_name'' (aq_name q) 200,
      valid_email ''primary_email'' (aq_email q),
      valid_host ''imap_host'' (aq_imap_host q),
      valid_port ''imap_port'' (aq_imap_port q),
      valid_text ''imap_username'' (aq_imap_username q) 320,
      valid_text ''imap_password'' (aq_imap_password q) 4096,
      valid_host ''smtp_host'' (aq_smtp_host q),
      valid_port ''smtp_port'' (aq_smtp_port q),
      valid_text ''smtp_username'' (aq_smtp_username q) 320,
      valid_text ''smtp_password'' (aq_smtp_password q) 4096,
      if_given (\<lambda>v. one_of ''imap_auth_scheme'' v auth_schemes) (aq_imap_auth q),
      if_given (\<lambda>v. one_of ''smtp_auth_scheme'' v auth_schemes) (aq_smtp_auth q),
      if_given (\<lambda>v. range_i64 (xe_show_int E) ''sync_interval_secs'' v 30 86400) (aq_interval q),
      if_given (http_url ''carddav_url'') (nonempty (aq_carddav_url q)),
      if_given (http_url ''caldav_url'') (nonempty (aq_caldav_url q)),
      if_given (check_cert E ''imap_tls_cert'') (nonempty (aq_imap_cert q)),
      if_given (check_cert E ''smtp_tls_cert'') (nonempty (aq_smtp_cert q)),
      one_of ''body_sync_mode'' (default_to ''lazy'' (aq_body_sync_mode q)) body_sync_modes,
      one_of ''provider_kind'' (default_to ''imap'' (aq_provider_kind q)) provider_kinds,
      one_of ''sync_mode'' (default_to ''idle'' (aq_sync_mode q)) sync_modes,
      if_given (hex_color ''color'') (aq_color q)]"

definition request_credentials :: "add_request \<Rightarrow> json" where
  "request_credentials q = JObj [(''imap_username'', JStr (aq_imap_username q)), (''imap_password'', JStr (aq_imap_password q)),
     (''smtp_username'', JStr (aq_smtp_username q)), (''smtp_password'', JStr (aq_smtp_password q))]"

definition persisted_cert :: "tls_decision option \<Rightarrow> string option \<Rightarrow> string option \<Rightarrow> string option" where
  "persisted_cert decision imap_cert cert = (if tls_permitted persists_exception decision imap_cert then cert else None)"

definition next_sort :: "account_columns list \<Rightarrow> int" where
  "next_sort cols = (if cols = [] then 0 else Max (ac_sort ` set cols) + 1)"

definition added_row :: "string \<Rightarrow> add_request \<Rightarrow> string \<Rightarrow> account_row" where
  "added_row acct q enc =
     \<lparr>a_id = acct, a_display_name = aq_name q, a_email = aq_email q, a_provider_kind = default_to ''imap'' (aq_provider_kind q),
      a_body_sync_mode = default_to ''lazy'' (aq_body_sync_mode q), a_sync_mode = default_to ''idle'' (aq_sync_mode q),
      a_sync_interval = default_to 300 (aq_interval q), a_credentials = enc, a_imap_host = aq_imap_host q,
      a_imap_port = int (aq_imap_port q), a_auth_scheme = default_to ''plain'' (aq_imap_auth q),
      a_tls_cert = persisted_cert (aq_tls_decision q) (nonempty (aq_imap_cert q)) (nonempty (aq_imap_cert q))\<rparr>"

definition added_columns :: "'s account_env \<Rightarrow> string \<Rightarrow> add_request \<Rightarrow> account_columns list \<Rightarrow> account_columns" where
  "added_columns E acct q cols =
     \<lparr>ac_account = acct, ac_smtp_host = aq_smtp_host q, ac_smtp_port = int (aq_smtp_port q),
      ac_smtp_auth = default_to ''plain'' (aq_smtp_auth q),
      ac_smtp_cert = persisted_cert (aq_tls_decision q) (nonempty (aq_imap_cert q)) (nonempty (aq_smtp_cert q)),
      ac_carddav_url = nonempty (aq_carddav_url q), ac_caldav_url = nonempty (aq_caldav_url q),
      ac_accept_invalid_tls = default_to False (aq_accept_invalid_tls q), ac_pgp_key = aq_pgp_key q,
      ac_sign_by_default = default_to False (aq_sign_by_default q), ac_color = aq_color q, ac_sort = next_sort cols,
      ac_created = xe_time E\<rparr>"

text \<open>
  A connection that fails on its certificate is answered with the certificate, so that the user may decide;
  any other failure is an error.
\<close>

definition test_connection ::
  "'s account_env \<Rightarrow> string \<Rightarrow> nat \<Rightarrow> string \<Rightarrow> string \<Rightarrow> string \<Rightarrow> string option \<Rightarrow> 's
     \<Rightarrow> (app_error + account_answer) option \<times> 's"
where
  "test_connection E host port user pass scheme cert s =
     (case xe_test E host port user pass scheme cert s of
        (None, s1) \<Rightarrow> (None, s1)
      | (Some (TlsFailure m), s1) \<Rightarrow>
          (case xe_peer_cert E host port s1 of
             (Some der, s2) \<Rightarrow> (Some (Inr (Untrusted (failure_message (TlsFailure m)) host port der)), s2)
           | (None, s2) \<Rightarrow> (Some (Inl (Unprocessable (failure_message (TlsFailure m)))), s2))
      | (Some (OtherFailure m), s1) \<Rightarrow> (Some (Inl (Unprocessable (failure_message (OtherFailure m)))), s1))"

definition start_sync :: "string \<Rightarrow> string \<Rightarrow> 's accounts_app \<Rightarrow> 's accounts_app" where
  "start_sync user acct app = set_manager (start_account acct user (ap_manager (xa_api app))) app"

text \<open>The foreign key of an account to the keys of the user.\<close>

definition unknown_key :: "string option \<Rightarrow> 's accounts_app \<Rightarrow> bool" where
  "unknown_key k app = (case k of None \<Rightarrow> False | Some key \<Rightarrow> key \<notin> set (xa_pgp_keys app))"

definition add_account ::
  "'s account_env \<Rightarrow> string \<Rightarrow> string \<Rightarrow> string \<Rightarrow> add_request \<Rightarrow> 's accounts_app \<Rightarrow> (app_error + account_answer) \<times> 's accounts_app"
where
  "add_account E user acct src q app =
     (case check_add_request E q of
        Some e \<Rightarrow> (Inl e, app)
      | None \<Rightarrow>
          (if \<exists>a \<in> set (account_rows app). to_lower (a_email a) = to_lower (aq_email q)
           then (Inl (Conflict ''an account with this email address already exists''), app)
           else case tk_encrypt (ke_tokens (xe_contacts E)) (tk_render (ke_tokens (xe_contacts E)) (request_credentials q)) of
             None \<Rightarrow> (Inl (Internal ''encryption failed''), app)
           | Some enc \<Rightarrow>
               (let cert = nonempty (aq_imap_cert q);
                    trusted = (if tls_permitted permits_retry (aq_tls_decision q) cert then cert_der E cert else None)
                in case test_connection E (aq_imap_host q) (aq_imap_port q) (aq_imap_username q) (aq_imap_password q)
                     (default_to ''plain'' (aq_imap_auth q)) trusted (xa_net app) of
                  (Some failed, s) \<Rightarrow> (failed, app\<lparr>xa_net := s\<rparr>)
                | (None, s) \<Rightarrow>
                    (let app1 = app\<lparr>xa_net := s\<rparr> in
                     if unknown_key (aq_pgp_key q) app
                     then (Inl (Internal ''FOREIGN KEY constraint failed''), app1)
                     else let app2 = set_accounts (account_rows app1 @ [added_row acct q enc])
                                (xa_columns app1 @ [added_columns E acct q (xa_columns app1)]) app1;
                              app3 = start_sync user acct
                                (reconcile_and_start_contacts E src acct (Some (default_to True (aq_contacts_enabled q))) app2)
                          in (get_account_row acct app3, app3)))))"

section \<open>Reading accounts\<close>

definition created_key :: "account_columns \<Rightarrow> nat list" where
  "created_key c = map of_char (ac_created c)"

definition ordered_accounts :: "'s accounts_app \<Rightarrow> (account_row \<times> account_columns) list" where
  "ordered_accounts app =
     sort_key (\<lambda>(a, c). ac_sort c)
       (sort_key (\<lambda>(a, c). created_key c)
         (concat (map (\<lambda>a. case columns_of app (a_id a) of None \<Rightarrow> [] | Some c \<Rightarrow> [(a, c)]) (account_rows app))))"

definition list_mail_accounts :: "'s accounts_app \<Rightarrow> account_answer list" where
  "list_mail_accounts app = map (\<lambda>(a, c). AccountRow a c (source_of_mailbox (xa_contacts app) (a_id a))) (ordered_accounts app)"

section \<open>Changing an account\<close>

record update_request =
  uq_name :: "string option"
  uq_imap_host :: "string option"
  uq_imap_port :: "nat option"
  uq_imap_username :: "string option"
  uq_imap_password :: "string option"
  uq_imap_auth :: "string option"
  uq_smtp_host :: "string option"
  uq_smtp_port :: "nat option"
  uq_smtp_username :: "string option"
  uq_smtp_password :: "string option"
  uq_smtp_auth :: "string option"
  uq_body_sync_mode :: "string option"
  uq_interval :: "int option"
  uq_sync_mode :: "string option"
  uq_carddav_url :: "string option"
  uq_caldav_url :: "string option"
  uq_accept_invalid_tls :: "bool option"
  uq_imap_cert :: "string option"
  uq_smtp_cert :: "string option"
  uq_tls_decision :: "tls_decision option"
  uq_pgp_key :: "string option"
  uq_sign_by_default :: "bool option"
  uq_contacts_enabled :: "bool option"
  uq_color :: "string option"

definition check_update_request :: "'s account_env \<Rightarrow> update_request \<Rightarrow> app_error option" where
  "check_update_request E q = first_failure
     [if_given (\<lambda>v. valid_text ''display_name'' v 200) (uq_name q),
      if_given (valid_host ''imap_host'') (uq_imap_host q),
      if_given (valid_port ''imap_port'') (uq_imap_port q),
      if_given (\<lambda>v. one_of ''imap_auth_scheme'' v auth_schemes) (uq_imap_auth q),
      if_given (\<lambda>v. valid_text ''imap_username'' v 320) (uq_imap_username q),
      if_given (\<lambda>v. valid_text ''imap_password'' v 4096) (uq_imap_password q),
      if_given (valid_host ''smtp_host'') (uq_smtp_host q),
      if_given (valid_port ''smtp_port'') (uq_smtp_port q),
      if_given (\<lambda>v. one_of ''smtp_auth_scheme'' v auth_schemes) (uq_smtp_auth q),
      if_given (\<lambda>v. valid_text ''smtp_username'' v 320) (uq_smtp_username q),
      if_given (\<lambda>v. valid_text ''smtp_password'' v 4096) (uq_smtp_password q),
      if_given (\<lambda>v. one_of ''body_sync_mode'' v body_sync_modes) (uq_body_sync_mode q),
      if_given (\<lambda>v. range_i64 (xe_show_int E) ''sync_interval_secs'' v 30 86400) (uq_interval q),
      if_given (\<lambda>v. one_of ''sync_mode'' v sync_modes) (uq_sync_mode q),
      if_given (hex_color ''color'') (uq_color q),
      if_given (check_cert E ''imap_tls_cert'') (nonempty (uq_imap_cert q)),
      if_given (check_cert E ''smtp_tls_cert'') (nonempty (uq_smtp_cert q)),
      if_given (http_url ''carddav_url'') (nonempty (uq_carddav_url q)),
      if_given (http_url ''caldav_url'') (nonempty (uq_caldav_url q))]"

definition patch_field :: "string \<Rightarrow> string option \<Rightarrow> json \<Rightarrow> json" where
  "patch_field k v creds = (case v of None \<Rightarrow> creds | Some x \<Rightarrow> jset k (JStr x) creds)"

definition patched_credentials :: "update_request \<Rightarrow> json \<Rightarrow> json" where
  "patched_credentials q creds =
     patch_field ''smtp_password'' (uq_smtp_password q) (patch_field ''smtp_username'' (uq_smtp_username q)
       (patch_field ''imap_password'' (uq_imap_password q) (patch_field ''imap_username'' (uq_imap_username q) creds)))"

text \<open>The connection is tested again when something it depends on was given, except for an OAuth account.\<close>

definition stored_port :: "int \<Rightarrow> nat" where
  "stored_port p = nat (p mod 65536)"

definition connection_changed :: "update_request \<Rightarrow> account_row \<Rightarrow> bool" where
  "connection_changed q a =
     (default_to (a_imap_host a) (uq_imap_host q) \<noteq> a_imap_host a
      \<or> int (default_to (stored_port (a_imap_port a)) (uq_imap_port q)) \<noteq> a_imap_port a
      \<or> default_to (a_auth_scheme a) (uq_imap_auth q) \<noteq> a_auth_scheme a
      \<or> uq_imap_username q \<noteq> None \<or> uq_imap_password q \<noteq> None)"

definition trusted_cert :: "'s account_env \<Rightarrow> update_request \<Rightarrow> account_row \<Rightarrow> string option" where
  "trusted_cert E q a =
     (let cert = nonempty (uq_imap_cert q) in
      if tls_permitted permits_retry (uq_tls_decision q) cert then or_option (cert_der E cert) (cert_der E (a_tls_cert a))
      else cert_der E (a_tls_cert a))"

definition retest ::
  "'s account_env \<Rightarrow> update_request \<Rightarrow> account_row \<Rightarrow> json \<Rightarrow> 's \<Rightarrow> (app_error + account_answer) option \<times> 's"
where
  "retest E q a creds s =
     (if connection_changed q a \<and> default_to (a_auth_scheme a) (uq_imap_auth q) \<noteq> ''xoauth2''
      then test_connection E (default_to (a_imap_host a) (uq_imap_host q))
             (default_to (stored_port (a_imap_port a)) (uq_imap_port q))
             (or_empty (as_str (jget creds ''imap_username''))) (or_empty (as_str (jget creds ''imap_password'')))
             (default_to (a_auth_scheme a) (uq_imap_auth q)) (trusted_cert E q a) s
      else (None, s))"

definition updated_row :: "update_request \<Rightarrow> string \<Rightarrow> account_row \<Rightarrow> account_row" where
  "updated_row q enc a = a\<lparr>a_display_name := default_to (a_display_name a) (uq_name q),
     a_imap_host := default_to (a_imap_host a) (uq_imap_host q),
     a_imap_port := default_to (a_imap_port a) (map_option int (uq_imap_port q)),
     a_auth_scheme := default_to (a_auth_scheme a) (uq_imap_auth q), a_credentials := enc,
     a_body_sync_mode := default_to (a_body_sync_mode a) (uq_body_sync_mode q),
     a_sync_interval := default_to (a_sync_interval a) (uq_interval q),
     a_sync_mode := default_to (a_sync_mode a) (uq_sync_mode q),
     a_tls_cert := or_option (persisted_cert (uq_tls_decision q) (nonempty (uq_imap_cert q)) (nonempty (uq_imap_cert q))) (a_tls_cert a)\<rparr>"

definition updated_columns :: "update_request \<Rightarrow> account_columns \<Rightarrow> account_columns" where
  "updated_columns q c = c\<lparr>ac_smtp_host := default_to (ac_smtp_host c) (uq_smtp_host q),
     ac_smtp_port := default_to (ac_smtp_port c) (map_option int (uq_smtp_port q)),
     ac_smtp_auth := default_to (ac_smtp_auth c) (uq_smtp_auth q),
     ac_carddav_url := or_option (uq_carddav_url q) (ac_carddav_url c),
     ac_caldav_url := or_option (uq_caldav_url q) (ac_caldav_url c),
     ac_accept_invalid_tls := default_to (ac_accept_invalid_tls c) (uq_accept_invalid_tls q),
     ac_smtp_cert := or_option (persisted_cert (uq_tls_decision q) (nonempty (uq_imap_cert q)) (nonempty (uq_smtp_cert q))) (ac_smtp_cert c),
     ac_pgp_key := or_option (uq_pgp_key q) (ac_pgp_key c),
     ac_sign_by_default := default_to (ac_sign_by_default c) (uq_sign_by_default q),
     ac_color := or_option (uq_color q) (ac_color c)\<rparr>"

definition update_account ::
  "'s account_env \<Rightarrow> string \<Rightarrow> string \<Rightarrow> string \<Rightarrow> update_request \<Rightarrow> 's accounts_app \<Rightarrow> (app_error + account_answer) \<times> 's accounts_app"
where
  "update_account E user acct src q app =
     (case check_update_request E q of
        Some e \<Rightarrow> (Inl e, app)
      | None \<Rightarrow>
          (case account_of (db_of app) acct of
             None \<Rightarrow> (Inl NotFound, app)
           | Some a \<Rightarrow>
               (case load_credentials (ke_tokens (xe_contacts E)) acct (db_of app) of
                  Inl e \<Rightarrow> (Inl (Internal e), app)
                | Inr old \<Rightarrow>
                    (let creds = patched_credentials q old in
                     case tk_encrypt (ke_tokens (xe_contacts E)) (tk_render (ke_tokens (xe_contacts E)) creds) of
                       None \<Rightarrow> (Inl (Internal ''encryption failed''), app)
                     | Some enc \<Rightarrow>
                         (case retest E q a creds (xa_net app) of
                            (Some failed, s) \<Rightarrow> (failed, app\<lparr>xa_net := s\<rparr>)
                          | (None, s) \<Rightarrow>
                              (let app1 = app\<lparr>xa_net := s\<rparr> in
                               if unknown_key (uq_pgp_key q) app
                               then (Inl (Internal ''FOREIGN KEY constraint failed''), app1)
                               else let app2 = set_accounts
                                          (map (\<lambda>r. if a_id r = acct then updated_row q enc r else r) (account_rows app1))
                                          (map (\<lambda>c. if ac_account c = acct then updated_columns q c else c) (xa_columns app1)) app1;
                                        app3 = reconcile_and_start_contacts E src acct (uq_contacts_enabled q) (start_sync user acct app2)
                                    in (get_account_row acct app3, app3)))))))"

section \<open>Removing an account\<close>

text \<open>Everything that references the account goes with it.\<close>

definition remove_account :: "string \<Rightarrow> 's accounts_app \<Rightarrow> 's accounts_app" where
  "remove_account acct app =
     (let gone = f_id ` set (filter (\<lambda>f. f_account f = acct) (folders (db_of app)));
          api = delete_rows (\<lambda>m. m_account m = acct \<or> m_folder m \<in> gone) (xa_api app);
          db = ap_db api
      in (set_aliases (filter (\<lambda>r. al_account r \<noteq> acct) (xa_aliases app))
           (app\<lparr>xa_api := api\<lparr>ap_db := db\<lparr>folders := filter (\<lambda>f. f_account f \<noteq> acct) (folders db),
                  pending := filter (\<lambda>p. p_account p \<noteq> acct) (pending db), remotes := filter (\<lambda>r. r_account r \<noteq> acct) (remotes db),
                  accounts := filter (\<lambda>a. a_id a \<noteq> acct) (accounts db)\<rparr>\<rparr>,
                xa_columns := filter (\<lambda>c. ac_account c \<noteq> acct) (xa_columns app),
                xa_contacts := fold delete_source (map so_id (filter (\<lambda>r. so_mailbox r = Some acct) (kb_sources (xa_contacts app))))
                  (xa_contacts app)\<rparr>)))"

definition delete_mail_account :: "string \<Rightarrow> 's accounts_app \<Rightarrow> (app_error + unit) \<times> 's accounts_app" where
  "delete_mail_account acct app =
     (if account_of (db_of app) acct = None then (Inl NotFound, app)
      else (let app1 = set_manager (stop_account acct (ap_manager (xa_api app))) app;
                app2 = (case source_of_mailbox (xa_contacts app1) acct of
                    None \<Rightarrow> app1 | Some r \<Rightarrow> app1\<lparr>xa_tasks := cm_stop_account (so_id r) (xa_tasks app1)\<rparr>)
            in (Inr (), remove_account acct app2)))"

section \<open>Synchronisation status\<close>

definition sync_progress_total :: "string \<Rightarrow> int \<Rightarrow> int \<Rightarrow> int \<Rightarrow> int" where
  "sync_progress_total kind synced discovered fallback =
     (if kind = ''gmail_api'' \<or> kind = ''outlook_api'' then max (max synced discovered) fallback else max synced fallback)"

definition discovered_remote :: "string \<Rightarrow> mail_db \<Rightarrow> int" where
  "discovered_remote acct db =
     int (length (filter (\<lambda>(r, f). r_account r = acct \<and> f_account f = r_account r \<and> f_path f = r_path r \<and> f_sync_enabled f)
       (List.product (remotes db) (folders db))))"

definition account_sync_progress :: "string \<Rightarrow> account_row \<Rightarrow> int \<Rightarrow> mail_db \<Rightarrow> int \<times> int" where
  "account_sync_progress acct a fallback db =
     (let synced = synced_message_count acct db
      in (synced, sync_progress_total (a_provider_kind a) synced (discovered_remote acct db) fallback))"

definition mail_sync_status :: "string \<Rightarrow> 's accounts_app \<Rightarrow> app_error + (sync_status \<times> int \<times> int)" where
  "mail_sync_status acct app =
     (case account_of (db_of app) acct of
        None \<Rightarrow> Inl NotFound
      | Some a \<Rightarrow> (let st = Manager.account_status (ap_manager (xa_api app)) acct
                  in Inr (st, account_sync_progress acct a (ss_total st) (db_of app))))"

definition trigger_mail_sync :: "string \<Rightarrow> string \<Rightarrow> 's accounts_app \<Rightarrow> (app_error + unit) \<times> 's accounts_app" where
  "trigger_mail_sync user acct app =
     (if account_of (db_of app) acct = None then (Inl NotFound, app)
      else case force_poll acct (ap_manager (xa_api app)) of
        (True, m) \<Rightarrow> (Inr (), set_manager m app)
      | (False, m) \<Rightarrow> (Inr (), set_manager (snd (force_poll acct (start_account acct user m))) app))"

section \<open>Aliases\<close>

definition add_alias ::
  "'s account_env \<Rightarrow> string \<Rightarrow> string \<Rightarrow> string option \<Rightarrow> 's accounts_app \<Rightarrow> (app_error + alias_row) \<times> 's accounts_app"
where
  "add_alias E acct email name app =
     (if CHR ''@'' \<notin> set email then (Inl (Unprocessable ''invalid email format''), app)
      else if account_of (db_of app) acct = None then (Inl NotFound, app)
      else let r = \<lparr>al_id = xa_next app, al_account = acct, al_email = email, al_name = name, al_created = xe_time E\<rparr>
           in (Inr r, (set_aliases (xa_aliases app @ [r]) app)\<lparr>xa_next := xa_next app + 1\<rparr>))"

definition alias_key :: "alias_row \<Rightarrow> nat list" where
  "alias_key r = map of_char (al_created r)"

definition list_aliases :: "string \<Rightarrow> 's accounts_app \<Rightarrow> app_error + alias_row list" where
  "list_aliases acct app =
     (if account_of (db_of app) acct = None then Inl NotFound
      else Inr (sort_key alias_key (filter (\<lambda>r. al_account r = acct) (xa_aliases app))))"

definition alias_of :: "'s accounts_app \<Rightarrow> string \<Rightarrow> nat \<Rightarrow> alias_row option" where
  "alias_of app acct al = find (\<lambda>r. al_id r = al \<and> al_account r = acct) (xa_aliases app)"

definition update_alias :: "string \<Rightarrow> nat \<Rightarrow> string option \<Rightarrow> 's accounts_app \<Rightarrow> (app_error + alias_row) \<times> 's accounts_app" where
  "update_alias acct al name app =
     (case alias_of app acct al of
        None \<Rightarrow> (Inl NotFound, app)
      | Some r \<Rightarrow> (let r' = r\<lparr>al_name := or_option name (al_name r)\<rparr>
                  in (Inr r', set_aliases (map (\<lambda>x. if al_id x = al then x\<lparr>al_name := or_option name (al_name x)\<rparr> else x) (xa_aliases app)) app)))"

definition delete_alias :: "string \<Rightarrow> nat \<Rightarrow> 's accounts_app \<Rightarrow> (app_error + unit) \<times> 's accounts_app" where
  "delete_alias acct al app =
     (if alias_of app acct al = None then (Inl NotFound, app)
      else (Inr (), set_aliases (filter (\<lambda>x. al_id x \<noteq> al) (xa_aliases app)) app))"

section \<open>Order\<close>

text \<open>The request lists every account once; its positions become the order.\<close>

fun position_of :: "string \<Rightarrow> string list \<Rightarrow> int option" where
  "position_of x [] = None"
| "position_of x (y # ys) = (if x = y then Some 0 else map_option (\<lambda>n. n + 1) (position_of x ys))"

definition reorder_accounts :: "string list \<Rightarrow> 's accounts_app \<Rightarrow> (app_error + unit) \<times> 's accounts_app" where
  "reorder_accounts ids app =
     (let existing = map a_id (account_rows app) in
      if length (remdups ids) \<noteq> length ids \<or> length existing \<noteq> length ids \<or> \<not> list_all (\<lambda>i. i \<in> set ids) existing
      then (Inl (Unprocessable ''account_ids must list every account exactly once''), app)
      else (Inr (), set_accounts (account_rows app)
             (map (\<lambda>c. c\<lparr>ac_sort := default_to (ac_sort c) (position_of (ac_account c) ids)\<rparr>) (xa_columns app)) app))"

end
