(* ===== verification/Account_Facts.thy ===== *)
theory Account_Facts
  imports Mail_Accounts
begin

text \<open>
  What the routes of mail accounts keep: one row of each kind per account and no row that
  references an account which does not exist.
\<close>

definition account_ids :: "'s accounts_app \<Rightarrow> string set" where
  "account_ids app = a_id ` set (account_rows app)"

definition references_ok :: "string set \<Rightarrow> mail_db \<Rightarrow> bool" where
  "references_ok ids db =
     (f_account ` set (folders db) \<subseteq> ids \<and> m_account ` set (messages db) \<subseteq> ids
      \<and> m_folder ` set (messages db) \<subseteq> f_id ` set (folders db)
      \<and> p_account ` set (pending db) \<subseteq> ids \<and> r_account ` set (remotes db) \<subseteq> ids)"

definition owners_ok :: "string set \<Rightarrow> contact_db \<Rightarrow> bool" where
  "owners_ok ids db = (\<forall>r \<in> set (kb_sources db). \<forall>a. so_mailbox r = Some a \<longrightarrow> a \<in> ids)"

definition accounts_ok :: "'s accounts_app \<Rightarrow> bool" where
  "accounts_ok app =
     (distinct (map a_id (account_rows app)) \<and> map ac_account (xa_columns app) = map a_id (account_rows app)
      \<and> al_account ` set (xa_aliases app) \<subseteq> account_ids app
      \<and> ap_aliases (xa_api app) = map (\<lambda>r. (al_account r, al_email r)) (xa_aliases app)
      \<and> references_ok (account_ids app) (db_of app) \<and> owners_ok (account_ids app) (xa_contacts app))"

lemmas account_state = account_rows_def db_of_def account_ids_def set_accounts_def set_aliases_def set_manager_def start_sync_def
  put_contacts_def

section \<open>Contacts\<close>

lemma owners_ok_reconcile:
  assumes "owners_ok ids db" "ms_email_account m \<in> ids"
  shows "owners_ok ids (snd (reconcile_mailbox_source fresh m db))"
  using assms by (auto simp: owners_ok_def reconcile_mailbox_source_def source_columns_def split: option.splits)

lemma owners_ok_delete: "owners_ok ids db \<Longrightarrow> owners_ok ids (delete_source src db)"
  by (auto simp: owners_ok_def delete_source_def delete_books_def delete_groups_def delete_contacts_def Let_def)

lemma sources_delete_source: "kb_sources (delete_source src db) = filter (\<lambda>r. so_id r \<noteq> src) (kb_sources db)"
  by (simp add: delete_source_def)

lemma sources_delete_all: "kb_sources (fold delete_source ids db) = filter (\<lambda>r. so_id r \<notin> set ids) (kb_sources db)"
  by (induction ids arbitrary: db) (auto simp: sources_delete_source intro: filter_cong)

lemma reconcile_contacts_facts:
  "account_rows (reconcile_and_start_contacts E fresh acct enabled app) = account_rows app"
  "xa_columns (reconcile_and_start_contacts E fresh acct enabled app) = xa_columns app"
  "xa_aliases (reconcile_and_start_contacts E fresh acct enabled app) = xa_aliases app"
  "xa_api (reconcile_and_start_contacts E fresh acct enabled app) = xa_api app"
  by (simp_all add: reconcile_and_start_contacts_def put_contacts_def account_rows_def db_of_def split: sum.splits prod.splits)

lemma reconciled_source:
  assumes "reconcile_mailbox_contact_source E fresh acct enabled app = (Inr c, k)"
  shows "account_of (kx_mail app) acct \<noteq> None
    \<and> (\<exists>m. ms_email_account m = acct \<and> kx_db k = snd (reconcile_mailbox_source fresh m (kx_db app)))"
proof -
  obtain a creds where a: "account_of (kx_mail app) acct = Some a" "load_credentials (ke_tokens E) acct (kx_mail app) = Inr creds"
    using assms by (auto simp: reconcile_mailbox_contact_source_def split: option.splits sum.splits)
  define on where "on = (case or_option enabled (map_option so_enabled (source_of_mailbox (kx_db app) acct)) of None \<Rightarrow> False | Some e \<Rightarrow> e)"
  obtain provider base state reason where capability:
    "mailbox_capability (a_email a) (md_carddav_url (dav_of app acct)) creds on = (provider, base, state, reason)"
    by (metis prod_cases4)
  define m where "m = \<lparr>ms_email_account = acct, ms_name = a_display_name a @ '' contacts'', ms_provider = provider,
      ms_base_url = base, ms_enabled = (on \<and> state \<noteq> ''unavailable''), ms_state = state, ms_reason = reason\<rparr>"
  have "k = app\<lparr>kx_db := snd (reconcile_mailbox_source fresh m (kx_db app))\<rparr>"
    using assms a capability unfolding reconcile_mailbox_contact_source_def on_def [symmetric] m_def
    by (simp add: Let_def on_def split: prod.splits)
  then have "kx_db k = snd (reconcile_mailbox_source fresh m (kx_db app))" "ms_email_account m = acct" by (simp_all add: m_def)
  then show ?thesis using a(1) by blast
qed

lemma reconcile_contacts_owners:
  assumes "owners_ok (account_ids app) (xa_contacts app)"
  shows "owners_ok (account_ids app) (xa_contacts (reconcile_and_start_contacts E fresh acct enabled app))"
proof (cases "reconcile_mailbox_contact_source (xe_contacts E) fresh acct enabled (contact_view app)")
  case (Pair r k)
  show ?thesis
  proof (cases r)
    case (Inl e)
    then show ?thesis using Pair assms by (simp add: reconcile_and_start_contacts_def)
  next
    case (Inr c)
    obtain m where m: "kx_db k = snd (reconcile_mailbox_source fresh m (xa_contacts app))" "ms_email_account m = acct"
        "account_of (db_of app) acct \<noteq> None"
      using reconciled_source [of "xe_contacts E" fresh acct enabled "contact_view app" c k] Pair Inr
      by (auto simp: contact_view_def)
    have "acct \<in> account_ids app" using m(3) by (auto simp: account_of_def account_ids_def account_rows_def find_None_iff)
    then have "owners_ok (account_ids app) (kx_db k)" using owners_ok_reconcile [OF assms] m by simp
    then show ?thesis using Pair Inr by (simp add: reconcile_and_start_contacts_def put_contacts_def spawn_contact_sync_task_def)
  qed
qed

lemma accounts_ok_reconcile: "accounts_ok app \<Longrightarrow> accounts_ok (reconcile_and_start_contacts E fresh acct enabled app)"
  using reconcile_contacts_owners [of app E fresh acct enabled]
  by (simp add: accounts_ok_def account_ids_def reconcile_contacts_facts db_of_def)

lemma accounts_ok_manager: "accounts_ok (set_manager m app) = accounts_ok app" "accounts_ok (app\<lparr>xa_net := s\<rparr>) = accounts_ok app"
  "accounts_ok (app\<lparr>xa_tasks := t\<rparr>) = accounts_ok app" "accounts_ok (app\<lparr>xa_next := n\<rparr>) = accounts_ok app"
  by (simp_all add: accounts_ok_def account_state)

section \<open>Rows\<close>

lemma accounts_ok_change:
  assumes "accounts_ok app" "map a_id rows = map a_id (account_rows app)"
    "map ac_account cols = map ac_account (xa_columns app)"
  shows "accounts_ok (set_accounts rows cols app)"
proof -
  have "a_id ` set rows = account_ids app" using arg_cong [OF assms(2), of set] by (simp add: account_ids_def)
  then show ?thesis using assms unfolding accounts_ok_def by (simp add: account_state references_ok_def)
qed

lemma accounts_ok_add:
  assumes "accounts_ok app" "a_id row \<notin> account_ids app" "ac_account col = a_id row"
  shows "accounts_ok (set_accounts (account_rows app @ [row]) (xa_columns app @ [col]) app)"
  using assms unfolding accounts_ok_def owners_ok_def references_ok_def by (auto simp: account_state)

lemma test_connection_none: "test_connection E h p u w c cert s = (None, s1) \<longleftrightarrow> xe_test E h p u w c cert s = (None, s1)"
  by (auto simp: test_connection_def split: option.splits prod.splits session_failure.splits)

lemma accounts_ok_add_account:
  assumes "accounts_ok app" "acct \<notin> account_ids app"
  shows "accounts_ok (snd (add_account E user acct src q app))"
proof -
  have "accounts_ok (set_accounts (account_rows (app\<lparr>xa_net := s\<rparr>) @ [added_row acct q enc])
      (xa_columns (app\<lparr>xa_net := s\<rparr>) @ [added_columns E acct q (xa_columns (app\<lparr>xa_net := s\<rparr>))]) (app\<lparr>xa_net := s\<rparr>))" for s enc
    using assms
    by (intro accounts_ok_add) (auto simp: accounts_ok_manager added_row_def added_columns_def account_ids_def account_rows_def db_of_def)
  then show ?thesis using assms(1)
    by (auto simp: add_account_def Let_def accounts_ok_manager accounts_ok_reconcile start_sync_def split: option.splits prod.splits)
qed

lemma accounts_ok_update_account:
  assumes "accounts_ok app"
  shows "accounts_ok (snd (update_account E user acct src q app))"
proof -
  have "accounts_ok (set_accounts (map (\<lambda>r. if a_id r = acct then updated_row q enc r else r) (account_rows (app\<lparr>xa_net := s\<rparr>)))
      (map (\<lambda>c. if ac_account c = acct then updated_columns q c else c) (xa_columns (app\<lparr>xa_net := s\<rparr>))) (app\<lparr>xa_net := s\<rparr>))" for s enc
    using assms by (intro accounts_ok_change) (simp_all add: accounts_ok_manager updated_row_def updated_columns_def)
  then show ?thesis using assms
    by (auto simp: update_account_def Let_def accounts_ok_manager accounts_ok_reconcile start_sync_def split: option.splits sum.splits prod.splits)
qed

lemma remaining_folders:
  "f_id ` set (folders (db_of (remove_account acct app))) = f_id ` {f \<in> set (folders (db_of app)). f_account f \<noteq> acct}"
  "f_account ` set (folders (db_of (remove_account acct app))) = f_account ` set (folders (db_of app)) - {acct}"
proof -
  have same: "f_id (fold on_delete ms f) = f_id f \<and> f_account (fold on_delete ms f) = f_account f" for ms f
    by (induction ms arbitrary: f) (simp_all add: on_delete_def Let_def)
  obtain ms where left: "folders (db_of (remove_account acct app)) = map (fold on_delete ms) (filter (\<lambda>f. f_account f \<noteq> acct) (folders (db_of app)))"
    by (rule that [of "filter (\<lambda>m. m_account m = acct \<or> m_folder m \<in> f_id ` {f \<in> set (folders (db_of app)). f_account f = acct}) (messages (db_of app))"])
      (simp add: remove_account_def Let_def set_aliases_def db_of_def delete_rows_def db_delete_def filter_map comp_def same)
  show "f_id ` set (folders (db_of (remove_account acct app))) = f_id ` {f \<in> set (folders (db_of app)). f_account f \<noteq> acct}"
    by (simp add: left same image_image)
  have "f_account ` set (folders (db_of (remove_account acct app))) = f_account ` {f \<in> set (folders (db_of app)). f_account f \<noteq> acct}"
    by (simp add: left same image_image)
  also have "\<dots> = f_account ` set (folders (db_of app)) - {acct}" by blast
  finally show "f_account ` set (folders (db_of (remove_account acct app))) = f_account ` set (folders (db_of app)) - {acct}" .
qed

lemma remaining_rows:
  "account_rows (remove_account acct app) = filter (\<lambda>a. a_id a \<noteq> acct) (account_rows app)"
  "xa_columns (remove_account acct app) = filter (\<lambda>c. ac_account c \<noteq> acct) (xa_columns app)"
  "xa_aliases (remove_account acct app) = filter (\<lambda>r. al_account r \<noteq> acct) (xa_aliases app)"
  "ap_aliases (xa_api (remove_account acct app)) = map (\<lambda>r. (al_account r, al_email r)) (filter (\<lambda>r. al_account r \<noteq> acct) (xa_aliases app))"
  "pending (db_of (remove_account acct app)) = filter (\<lambda>p. p_account p \<noteq> acct) (pending (db_of app))"
  "remotes (db_of (remove_account acct app)) = filter (\<lambda>r. r_account r \<noteq> acct) (remotes (db_of app))"
  "messages (db_of (remove_account acct app)) = filter (\<lambda>m. m_account m \<noteq> acct
     \<and> m_folder m \<notin> f_id ` {f \<in> set (folders (db_of app)). f_account f = acct}) (messages (db_of app))"
  "kb_sources (xa_contacts (remove_account acct app)) = filter (\<lambda>r. so_id r \<notin>
     so_id ` {r \<in> set (kb_sources (xa_contacts app)). so_mailbox r = Some acct}) (kb_sources (xa_contacts app))"
  "ap_manager (xa_api (remove_account acct app)) = ap_manager (xa_api app)"
  by (simp_all add: remove_account_def Let_def set_aliases_def account_rows_def db_of_def delete_rows_def db_delete_def sources_delete_all)

lemma accounts_ok_remove:
  assumes "accounts_ok app"
  shows "accounts_ok (remove_account acct app)"
proof -
  let ?app = "remove_account acct app"
  have ids: "account_ids ?app = account_ids app - {acct}" by (auto simp: account_ids_def remaining_rows)
  have refs: "references_ok (account_ids app) (db_of app)" using assms by (simp add: accounts_ok_def)
  have folders_left: "m_folder m \<in> f_id ` {f \<in> set (folders (db_of app)). f_account f \<noteq> acct}"
    if "m \<in> set (messages (db_of app))" "m_folder m \<notin> f_id ` {f \<in> set (folders (db_of app)). f_account f = acct}" for m
  proof -
    have "m_folder m \<in> f_id ` set (folders (db_of app))" using refs that(1) unfolding references_ok_def by blast
    then obtain f where "f \<in> set (folders (db_of app))" "m_folder m = f_id f" by (elim imageE)
    then show ?thesis using that(2) by blast
  qed
  have "references_ok (account_ids ?app) (db_of ?app)"
    unfolding references_ok_def
  proof (intro conjI)
    show "f_account ` set (folders (db_of ?app)) \<subseteq> account_ids ?app"
      using refs unfolding references_ok_def remaining_folders ids by (auto intro: Diff_mono)
    show "m_account ` set (messages (db_of ?app)) \<subseteq> account_ids ?app"
      using refs unfolding references_ok_def remaining_rows ids by (intro image_subsetI) auto
    show "m_folder ` set (messages (db_of ?app)) \<subseteq> f_id ` set (folders (db_of ?app))"
      unfolding remaining_folders remaining_rows using folders_left by (intro image_subsetI) simp
    show "p_account ` set (pending (db_of ?app)) \<subseteq> account_ids ?app" "r_account ` set (remotes (db_of ?app)) \<subseteq> account_ids ?app"
      using refs unfolding references_ok_def remaining_rows ids by (intro image_subsetI; auto)+
  qed
  moreover have "owners_ok (account_ids ?app) (xa_contacts ?app)"
    unfolding owners_ok_def remaining_rows ids
  proof (intro ballI allI impI)
    fix r a assume left: "r \<in> set (filter (\<lambda>r. so_id r \<notin> so_id ` {r \<in> set (kb_sources (xa_contacts app)). so_mailbox r = Some acct})
        (kb_sources (xa_contacts app)))" "so_mailbox r = Some a"
    then have "a \<in> account_ids app" using assms unfolding accounts_ok_def owners_ok_def by fastforce
    moreover have "a \<noteq> acct" using left by auto
    ultimately show "a \<in> account_ids app - {acct}" by simp
  qed
  moreover have "map ac_account (xa_columns ?app) = map a_id (account_rows ?app)"
  proof -
    have "filter (\<lambda>i. i \<noteq> acct) (map ac_account (xa_columns app)) = filter (\<lambda>i. i \<noteq> acct) (map a_id (account_rows app))"
      using assms by (simp add: accounts_ok_def)
    then show ?thesis by (simp add: remaining_rows filter_map comp_def)
  qed
  moreover have "al_account ` set (xa_aliases ?app) \<subseteq> account_ids ?app"
    using assms unfolding accounts_ok_def ids remaining_rows set_filter by blast
  ultimately show ?thesis using assms unfolding accounts_ok_def
    by (simp add: remaining_rows distinct_map_filter)
qed

lemma set_aliases_ok:
  assumes "accounts_ok app" "al_account ` set rows \<subseteq> account_ids app"
  shows "accounts_ok (set_aliases rows app)"
  using assms unfolding accounts_ok_def by (auto simp: account_state)

section \<open>Every route\<close>

text \<open>The routes of one user; ids that the database draws are new, and ports are of type \<open>u16\<close>.\<close>

inductive account_step :: "'s account_env \<Rightarrow> 's accounts_app \<Rightarrow> 's accounts_app \<Rightarrow> bool" for E where
  adds: "acct \<notin> account_ids app \<Longrightarrow> aq_imap_port q < 65536 \<Longrightarrow> account_step E app (snd (add_account E user acct src q app))"
| updates: "(\<And>p. uq_imap_port q = Some p \<Longrightarrow> p < 65536) \<Longrightarrow> account_step E app (snd (update_account E user acct src q app))"
| removes: "account_step E app (snd (delete_mail_account acct app))"
| polls: "account_step E app (snd (trigger_mail_sync user acct app))"
| reorders: "account_step E app (snd (reorder_accounts ids app))"
| adds_alias: "account_step E app (snd (add_alias E acct email name app))"
| updates_alias: "account_step E app (snd (update_alias acct al name app))"
| removes_alias: "account_step E app (snd (delete_alias acct al app))"

lemma accounts_ok_delete_account: "accounts_ok app \<Longrightarrow> accounts_ok (snd (delete_mail_account acct app))"
  by (auto simp: delete_mail_account_def Let_def accounts_ok_manager intro!: accounts_ok_remove split: option.split)

lemma accounts_ok_reorder: "accounts_ok app \<Longrightarrow> accounts_ok (snd (reorder_accounts ids app))"
  by (auto simp: reorder_accounts_def Let_def comp_def intro!: accounts_ok_change)

lemma accounts_ok_add_alias:
  assumes "accounts_ok app"
  shows "accounts_ok (snd (add_alias E acct email name app))"
proof (cases "account_of (db_of app) acct")
  case (Some a)
  then have "acct \<in> account_ids app" by (auto simp: account_of_def account_ids_def account_rows_def find_Some_iff)
  then have "accounts_ok (set_aliases (xa_aliases app @ [r]) app)" if "al_account r = acct" for r
    using assms that by (intro set_aliases_ok) (auto simp: accounts_ok_def)
  then show ?thesis using assms by (simp add: add_alias_def Let_def accounts_ok_manager)
qed (simp add: add_alias_def assms)

lemma account_step_ok: "account_step E app app' \<Longrightarrow> accounts_ok app \<Longrightarrow> accounts_ok app'"
proof (induction rule: account_step.induct)
  case (updates_alias app acct al name)
  have "al_account ` set (map (\<lambda>x. if al_id x = al then x\<lparr>al_name := n x\<rparr> else x) (xa_aliases app)) = al_account ` set (xa_aliases app)" for n
  proof -
    have "map al_account (map (\<lambda>x. if al_id x = al then x\<lparr>al_name := n x\<rparr> else x) (xa_aliases app)) = map al_account (xa_aliases app)"
      by simp
    then show ?thesis by (metis set_map)
  qed
  then show ?case using updates_alias
    by (auto simp: update_alias_def Let_def intro!: set_aliases_ok split: option.split) (auto simp: accounts_ok_def)
next
  case (removes_alias app acct al)
  then show ?case by (auto simp: delete_alias_def intro!: set_aliases_ok) (auto simp: accounts_ok_def)
qed (auto simp: trigger_mail_sync_def accounts_ok_manager accounts_ok_add_account accounts_ok_update_account
    accounts_ok_delete_account accounts_ok_reorder accounts_ok_add_alias split: prod.split bool.split)

end
