(* ===== verification/Account_Properties.thy ===== *)
theory Account_Properties
  imports Account_Facts Samples "HOL-Library.Multiset"
begin

text \<open>Properties of the routes of mail accounts.\<close>

section \<open>What an account stores was tested\<close>

definition connection :: "account_row \<Rightarrow> string \<times> int \<times> string" where
  "connection a = (a_imap_host a, a_imap_port a, a_auth_scheme a)"

text \<open>A session with the stored host, port and scheme opened with the stored credentials.\<close>

definition connection_tested :: "'s account_env \<Rightarrow> 's \<Rightarrow> account_row \<Rightarrow> bool" where
  "connection_tested E s a =
     (\<exists>creds cert s'. tk_encrypt (ke_tokens (xe_contacts E)) (tk_render (ke_tokens (xe_contacts E)) creds) = Some (a_credentials a)
        \<and> xe_test E (a_imap_host a) (stored_port (a_imap_port a)) (or_empty (as_str (jget creds ''imap_username'')))
            (or_empty (as_str (jget creds ''imap_password''))) (a_auth_scheme a) cert s = (None, s'))"

lemma route_rows [simp]:
  "account_rows (set_accounts rows cols app) = rows" "account_rows (app\<lparr>xa_net := s\<rparr>) = account_rows app"
  "account_rows (start_sync user acct app) = account_rows app" "account_rows (set_manager m app) = account_rows app"
  "account_rows (set_aliases als app) = account_rows app" "account_rows (app\<lparr>xa_tasks := t\<rparr>) = account_rows app"
  "account_rows (app\<lparr>xa_next := n\<rparr>) = account_rows app"
  by (simp_all add: account_state)

lemma request_credential_fields:
  "or_empty (as_str (jget (request_credentials q) ''imap_username'')) = aq_imap_username q"
  "or_empty (as_str (jget (request_credentials q) ''imap_password'')) = aq_imap_password q"
  by (simp_all add: request_credentials_def or_empty_def)

lemma stored_port_fits: "p < 65536 \<Longrightarrow> stored_port (int p) = p"
  by (simp add: stored_port_def nat_mod_distrib)

lemma added_rows:
  assumes "add_account E user acct src q app = (r, app')" "aq_imap_port q < 65536"
  shows "account_rows app' = account_rows app
    \<or> (\<exists>a. account_rows app' = account_rows app @ [a] \<and> connection_tested E (xa_net app) a)"
proof (cases "account_rows app' = account_rows app")
  case False
  then obtain enc s where enc: "tk_encrypt (ke_tokens (xe_contacts E)) (tk_render (ke_tokens (xe_contacts E)) (request_credentials q)) = Some enc"
    and test: "test_connection E (aq_imap_host q) (aq_imap_port q) (aq_imap_username q) (aq_imap_password q)
      (default_to ''plain'' (aq_imap_auth q)) (if tls_permitted permits_retry (aq_tls_decision q) (nonempty (aq_imap_cert q))
        then cert_der E (nonempty (aq_imap_cert q)) else None) (xa_net app) = (None, s)"
    and rows: "account_rows app' = account_rows app @ [added_row acct q enc]"
    using assms(1) by (auto simp: add_account_def Let_def reconcile_contacts_facts split: option.splits prod.splits if_splits)
  have "connection_tested E (xa_net app) (added_row acct q enc)"
    unfolding connection_tested_def using enc test [unfolded test_connection_none] assms(2)
    by (intro exI [of _ "request_credentials q"] exI conjI)
      (auto simp: added_row_def request_credential_fields stored_port_fits)
  with rows show ?thesis by blast
qed simp

lemma updated_rows:
  assumes "update_account E user acct src q app = (r, app')" "\<And>p. uq_imap_port q = Some p \<Longrightarrow> p < 65536"
  obtains (kept) "account_rows app' = account_rows app"
  | (changed) a enc creds s where "account_of (db_of app) acct = Some a"
      "tk_encrypt (ke_tokens (xe_contacts E)) (tk_render (ke_tokens (xe_contacts E)) creds) = Some enc"
      "retest E q a creds (xa_net app) = (None, s)"
      "account_rows app' = map (\<lambda>r. if a_id r = acct then updated_row q enc r else r) (account_rows app)"
proof (cases "account_rows app' = account_rows app")
  case False
  then obtain a enc creds s where "account_of (db_of app) acct = Some a"
      "tk_encrypt (ke_tokens (xe_contacts E)) (tk_render (ke_tokens (xe_contacts E)) creds) = Some enc"
      "retest E q a creds (xa_net app) = (None, s)"
      "account_rows app' = map (\<lambda>r. if a_id r = acct then updated_row q enc r else r) (account_rows app)"
    using assms(1) by (auto simp: update_account_def Let_def reconcile_contacts_facts split: option.splits sum.splits prod.splits if_splits)
  then show ?thesis by (rule changed)
qed (rule kept)

lemma retested_row:
  assumes "retest E q a creds s = (None, s')" "connection (updated_row q enc a) \<noteq> connection a"
    and "\<And>p. uq_imap_port q = Some p \<Longrightarrow> p < 65536"
    and "tk_encrypt (ke_tokens (xe_contacts E)) (tk_render (ke_tokens (xe_contacts E)) creds) = Some enc"
  shows "a_auth_scheme (updated_row q enc a) = ''xoauth2'' \<or> connection_tested E s (updated_row q enc a)"
proof -
  let ?a = "updated_row q enc a"
  have fields: "default_to (a_imap_host a) (uq_imap_host q) = a_imap_host ?a" "default_to (a_auth_scheme a) (uq_imap_auth q) = a_auth_scheme ?a"
    "a_credentials ?a = enc"
    by (simp_all add: updated_row_def)
  have port: "default_to (stored_port (a_imap_port a)) (uq_imap_port q) = stored_port (a_imap_port ?a)"
    using assms(3) by (auto simp: updated_row_def default_to_def stored_port_fits split: option.splits)
  have "connection_changed q a"
    using assms(2) by (auto simp: connection_changed_def connection_def updated_row_def default_to_def split: option.splits)
  then show ?thesis
    using assms(1,4) unfolding retest_def fields port connection_tested_def
    by (auto simp: test_connection_none split: if_splits)
qed

text \<open>A route of accounts stores a host, port or scheme that was not stored before only with a session that was
  opened, or for an account that exists and changes to the scheme of OAuth.\<close>

lemma route_connections:
  assumes "account_step E app app'" "distinct (map a_id (account_rows app))" "a \<in> set (account_rows app')"
    and "\<not> (\<exists>b \<in> set (account_rows app). a_id b = a_id a \<and> connection b = connection a)"
  shows "connection_tested E (xa_net app) a \<or> a_auth_scheme a = ''xoauth2'' \<and> a_id a \<in> account_ids app"
  using assms
proof cases
  case (adds acct q user src)
  obtain r where "add_account E user acct src q app = (r, app')" using adds by (metis prod.collapse)
  from added_rows [OF this adds(3)] show ?thesis using assms(3,4) by auto
next
  case (updates q user acct src)
  obtain r where "update_account E user acct src q app = (r, app')" using updates by (metis prod.collapse)
  then show ?thesis
  proof (rule updated_rows)
    show "p < 65536" if "uq_imap_port q = Some p" for p using updates(2) that .
    show ?thesis if "account_rows app' = account_rows app" using that assms(3,4) by auto
    fix b enc creds s
    assume changed: "account_of (db_of app) acct = Some b"
      "tk_encrypt (ke_tokens (xe_contacts E)) (tk_render (ke_tokens (xe_contacts E)) creds) = Some enc"
      "retest E q b creds (xa_net app) = (None, s)"
      "account_rows app' = map (\<lambda>r. if a_id r = acct then updated_row q enc r else r) (account_rows app)"
    obtain c where c: "c \<in> set (account_rows app)" "a = (if a_id c = acct then updated_row q enc c else c)"
      using assms(3) changed by auto
    have "a_id c = acct" using c assms(4) by (auto split: if_splits)
    moreover have "b \<in> set (account_rows app)" "a_id b = acct"
      using changed(1) by (auto simp: account_of_def account_rows_def find_Some_iff)
    ultimately have "b = c" using assms(2) c(1) by (auto simp: distinct_map inj_on_def)
    then show ?thesis using retested_row [OF changed(3) _ updates(2) changed(2)] c assms(4) \<open>a_id c = acct\<close>
      by (auto simp: account_ids_def updated_row_def)
  qed
next
  case (removes acct)
  have "account_rows app' \<in> {account_rows app, filter (\<lambda>b. a_id b \<noteq> acct) (account_rows app)}"
    unfolding removes(1) by (auto simp: delete_mail_account_def Let_def remaining_rows split: option.splits)
  then show ?thesis using assms(3,4) by auto
next
  case (polls user acct)
  then show ?thesis using assms(3,4) by (auto simp: trigger_mail_sync_def split: prod.splits bool.splits if_splits)
next
  case (reorders ids)
  then show ?thesis using assms(3,4) by (auto simp: reorder_accounts_def Let_def split: if_splits)
next
  case (adds_alias acct email name)
  then show ?thesis using assms(3,4) by (auto simp: add_alias_def Let_def split: if_splits)
next
  case (updates_alias acct al name)
  then show ?thesis using assms(3,4) by (auto simp: update_alias_def Let_def split: option.splits)
next
  case (removes_alias acct al)
  then show ?thesis using assms(3,4) by (auto simp: delete_alias_def split: if_splits)
qed

section \<open>Order\<close>

lemma position_of_None: "position_of x ids = None \<longleftrightarrow> x \<notin> set ids"
  by (induction ids) auto

lemma position_of_nth: "distinct ids \<Longrightarrow> i < length ids \<Longrightarrow> position_of (ids ! i) ids = Some (int i)"
proof (induction ids arbitrary: i)
  case (Cons y ys)
  then show ?case by (cases i) (auto simp: nth_eq_iff_index_eq)
qed simp

lemma positions: "distinct ids \<Longrightarrow> map (\<lambda>x. the (position_of x ids)) ids = map int [0..<length ids]"
  by (intro nth_equalityI) (simp_all add: position_of_nth)

lemma sorted_by_position:
  assumes "distinct ids" "distinct xs" "set xs = set ids" "sorted (map (\<lambda>x. the (position_of x ids)) xs)"
  shows "xs = ids"
proof -
  let ?pos = "\<lambda>x. the (position_of x ids)"
  have inj: "inj_on ?pos (set ids)"
    by (metis positions [OF assms(1)] distinct_map distinct_upt inj_on_of_nat)
  have "map ?pos xs = map ?pos ids"
  proof (rule sorted_distinct_set_unique)
    show "sorted (map ?pos ids)" "distinct (map ?pos ids)"
      using assms(1) by (simp_all add: positions distinct_map sorted_iff_nth_mono)
    show "distinct (map ?pos xs)" using assms inj by (simp add: distinct_map)
  qed (use assms in simp_all)
  then show ?thesis using inj assms(3) by (simp add: inj_on_map_eq_map)
qed

text \<open>The accounts with their columns, before they are ordered.\<close>

definition joined_accounts :: "'s accounts_app \<Rightarrow> (account_row \<times> account_columns) list" where
  "joined_accounts app = concat (map (\<lambda>a. case columns_of app (a_id a) of None \<Rightarrow> [] | Some c \<Rightarrow> [(a, c)]) (account_rows app))"

lemma ordered_joined: "ordered_accounts app = sort_key (\<lambda>(a, c). ac_sort c) (sort_key (\<lambda>(a, c). created_key c) (joined_accounts app))"
  by (simp add: ordered_accounts_def joined_accounts_def)

lemma joined_columns: "(a, c) \<in> set (joined_accounts app) \<Longrightarrow> c \<in> set (xa_columns app) \<and> ac_account c = a_id a"
  by (auto simp: joined_accounts_def columns_of_def split: option.splits) (auto simp: find_Some_iff dest!: sym [of "Some _"])

lemma joined_ids:
  assumes "accounts_ok app"
  shows "map (a_id \<circ> fst) (joined_accounts app) = map a_id (account_rows app)"
proof -
  have "columns_of app (a_id a) \<noteq> None" if "a \<in> set (account_rows app)" for a
  proof -
    have "a_id a \<in> set (map ac_account (xa_columns app))" using assms that by (simp add: accounts_ok_def)
    then show ?thesis by (auto simp: columns_of_def find_None_iff)
  qed
  then have "map (a_id \<circ> fst) (concat (map (\<lambda>a. case columns_of app (a_id a) of None \<Rightarrow> [] | Some c \<Rightarrow> [(a, c)]) rows)) = map a_id rows"
    if "set rows \<subseteq> set (account_rows app)" for rows
    using that by (induction rows) fastforce+
  then show ?thesis unfolding joined_accounts_def by blast
qed

lemma ordered_ids:
  assumes "accounts_ok app"
  shows "mset (map (a_id \<circ> fst) (ordered_accounts app)) = mset (map a_id (account_rows app))"
  using arg_cong [OF joined_ids [OF assms], of mset] by (simp only: ordered_joined mset_map mset_sort)

lemma reordered:
  assumes "reorder_accounts ids app = (Inr (), app')"
  shows "distinct ids" "length ids = length (account_rows app)" "set (map a_id (account_rows app)) \<subseteq> set ids"
    "account_rows app' = account_rows app"
    "xa_columns app' = map (\<lambda>c. c\<lparr>ac_sort := default_to (ac_sort c) (position_of (ac_account c) ids)\<rparr>) (xa_columns app)"
  using assms by (auto simp: reorder_accounts_def Let_def list_all_iff length_remdups_eq length_remdups_card_conv card_distinct
      split: if_splits) (simp add: set_accounts_def)

text \<open>C24: A new order is accepted exactly when it lists the accounts without repetition, and the list of accounts
  then has that order.\<close>

theorem accounts_are_listed_in_the_new_order:
  assumes "accounts_ok app"
  shows "((\<exists>app'. reorder_accounts ids app = (Inr (), app')) \<longleftrightarrow> mset ids = mset (map a_id (account_rows app)))
    \<and> (\<forall>app'. reorder_accounts ids app = (Inr (), app') \<longrightarrow> map (a_id \<circ> fst) (ordered_accounts app') = ids)"
proof (intro conjI allI impI)
  let ?rows = "map a_id (account_rows app)"
  have distinct: "distinct ?rows" using assms by (simp add: accounts_ok_def)
  show "(\<exists>app'. reorder_accounts ids app = (Inr (), app')) \<longleftrightarrow> mset ids = mset ?rows"
  proof
    assume "\<exists>app'. reorder_accounts ids app = (Inr (), app')"
    then obtain app' where "reorder_accounts ids app = (Inr (), app')" by blast
    note new = reordered(1-3) [OF this]
    have "set ids = set ?rows" using new distinct by (metis card_subset_eq distinct_card finite_set length_map)
    then show "mset ids = mset ?rows" using set_eq_iff_mset_eq_distinct [OF new(1) distinct] by blast
  next
    assume same: "mset ids = mset ?rows"
    then have "distinct ids" using distinct mset_eq_imp_distinct_iff by blast
    moreover have "set ids = set ?rows" "length ids = length ?rows" using same mset_eq_setD mset_eq_length by blast+
    ultimately show "\<exists>app'. reorder_accounts ids app = (Inr (), app')"
      by (auto simp: reorder_accounts_def Let_def list_all_iff distinct_remdups_id)
  qed
next
  fix app'
  assume new: "reorder_accounts ids app = (Inr (), app')"
  have ok: "accounts_ok app'" using accounts_ok_reorder [OF assms, of ids] new by simp
  have same: "mset (map (a_id \<circ> fst) (ordered_accounts app')) = mset (map a_id (account_rows app))"
    using ordered_ids [OF ok] reordered(4) [OF new] by simp
  have rows: "distinct (map a_id (account_rows app))" using assms by (simp add: accounts_ok_def)
  have "set (map a_id (account_rows app)) = set ids"
    using reordered(1-3) [OF new] rows by (metis card_subset_eq distinct_card finite_set length_map)
  show "map (a_id \<circ> fst) (ordered_accounts app') = ids"
  proof (rule sorted_by_position)
    show "distinct ids" using reordered(1) [OF new] .
    show "distinct (map (a_id \<circ> fst) (ordered_accounts app'))" using same rows mset_eq_imp_distinct_iff by blast
    show "set (map (a_id \<circ> fst) (ordered_accounts app')) = set ids"
      using mset_eq_setD [OF same] \<open>set (map a_id (account_rows app)) = set ids\<close> by simp
    have "the (position_of (a_id (fst x)) ids) = (case x of (a, c) \<Rightarrow> ac_sort c)" if "x \<in> set (ordered_accounts app')" for x
    proof -
      have "x \<in> set (joined_accounts app')" using that unfolding ordered_joined set_sort .
      then obtain a c where x: "x = (a, c)" "(a, c) \<in> set (joined_accounts app')" by (metis prod.collapse)
      have "a_id a \<in> set ids"
        using mset_eq_setD [OF same] that x(1) \<open>set (map a_id (account_rows app)) = set ids\<close> by force
      then obtain p where "position_of (a_id a) ids = Some p" using position_of_None by fastforce
      then show ?thesis using joined_columns [OF x(2)] x(1) reordered(5) [OF new] by (auto simp: default_to_def)
    qed
    then have "map (\<lambda>x. the (position_of x ids)) (map (a_id \<circ> fst) (ordered_accounts app'))
        = map (\<lambda>(a, c). ac_sort c) (ordered_accounts app')"
      by simp
    moreover have "sorted (map (\<lambda>(a, c). ac_sort c) (ordered_accounts app'))" unfolding ordered_joined by (rule sorted_sort_key)
    ultimately show "sorted (map (\<lambda>x. the (position_of x ids)) (map (a_id \<circ> fst) (ordered_accounts app')))" by (simp only:)
  qed
qed

section \<open>Deletion\<close>

text \<open>Deleting an account leaves the rows of other accounts, and no task of it.\<close>

theorem deletion_leaves_other_accounts:
  assumes "delete_mail_account acct app = (Inr (), app')"
  shows "account_rows app' = filter (\<lambda>a. a_id a \<noteq> acct) (account_rows app)"
    and "pending (db_of app') = filter (\<lambda>p. p_account p \<noteq> acct) (pending (db_of app))"
    and "xa_aliases app' = filter (\<lambda>r. al_account r \<noteq> acct) (xa_aliases app)"
    and "sm_tasks (ap_manager (xa_api app')) = (sm_tasks (ap_manager (xa_api app)))(acct := None)"
  using assms by (auto simp: delete_mail_account_def Let_def remaining_rows stop_account_def split: if_splits option.splits)
    (simp_all add: account_state)

section \<open>Concrete values\<close>

definition test_env :: "unit account_env" where
  "test_env = \<lparr>xe_contacts = \<lparr>ke_tokens = \<lparr>tk_decrypt = Some, tk_encrypt = Some, tk_parse = (\<lambda>_. Some (JObj [])), tk_render = (\<lambda>_. []),
         tk_now = 0, tk_var = (\<lambda>_. None), tk_post = (\<lambda>_ _ r. (Inl ''down'', r))\<rparr>,
       ke_web = \<lparr>wb_send = (\<lambda>meth url hs body s. (Inr \<lparr>rs_status = 503, rs_header = (\<lambda>_. None), rs_body = Inr ''busy''\<rparr>, s)),
         wb_of_json = (\<lambda>_. None), wb_to_json = (\<lambda>_. []), wb_xml = (\<lambda>_. []), wb_join = (\<lambda>a b. None), wb_query = (\<lambda>u ps. u),
         wb_reason = (\<lambda>_. []), wb_status_error = (\<lambda>_ _. []), wb_decode_error = (\<lambda>e. e), wb_base64 = (\<lambda>s. s), wb_cards = (\<lambda>_. None)\<rparr>,
       ke_tls_web = (\<lambda>cert accept. Inl transport_error), ke_fresh = (\<lambda>_. ''fresh''),
       ke_decode = Some, ke_decode_bare = Some, ke_render_values = (\<lambda>_. []), ke_now = ''now''\<rparr>,
     xe_test = (\<lambda>host port user pass scheme cert s. (if host = ''imap.x.org'' then None else Some (OtherFailure ''refused''), s)),
     xe_peer_cert = (\<lambda>_ _ s. (None, s)), xe_show_int = (\<lambda>_. []), xe_time = ''2026''\<rparr>"

definition no_accounts :: "unit accounts_app" where
  "no_accounts = \<lparr>xa_api = \<lparr>ap_db = empty_db, ap_content = empty_content, ap_calendar = \<lparr>invitations = [], calendar_events = []\<rparr>,
       ap_drafts = [], ap_aliases = [], ap_manager = new_manager\<rparr>,
     xa_columns = [], xa_aliases = [],
     xa_contacts = \<lparr>kb_sources = [], kb_books = [], kb_contacts = [], kb_groups = [], kb_members = [], kb_next = 1\<rparr>,
     xa_tasks = new_contact_manager, xa_pgp_keys = [], xa_next = 1, xa_net = ()\<rparr>"

definition request_for :: "string \<Rightarrow> add_request" where
  "request_for email = \<lparr>aq_name = ''Me'', aq_email = email, aq_imap_host = ''imap.x.org'', aq_imap_port = 993, aq_imap_username = ''me'',
     aq_imap_password = ''pw'', aq_imap_auth = None, aq_smtp_host = ''smtp.x.org'', aq_smtp_port = 465, aq_smtp_username = ''me'',
     aq_smtp_password = ''pw'', aq_smtp_auth = None, aq_body_sync_mode = None, aq_interval = None, aq_sync_mode = None,
     aq_carddav_url = None, aq_caldav_url = None, aq_accept_invalid_tls = None, aq_imap_cert = None, aq_smtp_cert = None,
     aq_tls_decision = None, aq_provider_kind = None, aq_pgp_key = None, aq_sign_by_default = None, aq_contacts_enabled = Some False,
     aq_color = None\<rparr>"

definition one_account :: "unit accounts_app" where
  "one_account = snd (add_account test_env ''u'' ''a'' ''src1'' (request_for ''me@x.org'') no_accounts)"

definition two_accounts :: "unit accounts_app" where
  "two_accounts = snd (add_account test_env ''u'' ''b'' ''src2'' (request_for ''you@x.org'') one_account)"

lemma sample_ids: "map a_id (account_rows one_account) = [''a'']" "map a_id (account_rows two_accounts) = [''a'', ''b'']"
  by code_simp+

lemma no_accounts_ok: "accounts_ok no_accounts"
  by (simp add: accounts_ok_def account_state no_accounts_def empty_db_def references_ok_def owners_ok_def)

lemma sample_steps: "account_step test_env no_accounts one_account" "account_step test_env one_account two_accounts"
proof -
  have "''a'' \<notin> account_ids no_accounts" by (simp add: account_state no_accounts_def empty_db_def)
  then show "account_step test_env no_accounts one_account"
    unfolding one_account_def by (rule account_step.adds) (simp add: request_for_def)
  have "''b'' \<notin> account_ids one_account" using arg_cong [OF sample_ids(1), of set] by (simp add: account_ids_def)
  then show "account_step test_env one_account two_accounts"
    unfolding two_accounts_def by (rule account_step.adds) (simp add: request_for_def)
qed

lemma two_accounts_ok: "accounts_ok two_accounts"
  using account_step_ok [OF sample_steps(2) account_step_ok [OF sample_steps(1) no_accounts_ok]] .

theorem accounts_are_listed_in_the_new_order_witness:
  "\<exists>app'. reorder_accounts [''b'', ''a''] two_accounts = (Inr (), app')
    \<and> map (a_id \<circ> fst) (ordered_accounts app') = [''b'', ''a''] \<and> map (a_id \<circ> fst) (ordered_accounts two_accounts) = [''a'', ''b'']"
proof -
  have "mset [''b'', ''a''] = mset (map a_id (account_rows two_accounts))" by (simp add: sample_ids)
  then obtain app' where new: "reorder_accounts [''b'', ''a''] two_accounts = (Inr (), app')"
    using accounts_are_listed_in_the_new_order [OF two_accounts_ok] by metis
  moreover have "map (a_id \<circ> fst) (ordered_accounts two_accounts) = [''a'', ''b'']" by code_simp
  ultimately show ?thesis using accounts_are_listed_in_the_new_order [OF two_accounts_ok] new by simp
qed

section \<open>Clearing a URL\<close>

definition no_changes :: update_request where
  "no_changes = \<lparr>uq_name = None, uq_imap_host = None, uq_imap_port = None, uq_imap_username = None, uq_imap_password = None,
     uq_imap_auth = None, uq_smtp_host = None, uq_smtp_port = None, uq_smtp_username = None, uq_smtp_password = None,
     uq_smtp_auth = None, uq_body_sync_mode = None, uq_interval = None, uq_sync_mode = None, uq_carddav_url = None,
     uq_caldav_url = None, uq_accept_invalid_tls = None, uq_imap_cert = None, uq_smtp_cert = None, uq_tls_decision = None,
     uq_pgp_key = None, uq_sign_by_default = None, uq_contacts_enabled = None, uq_color = None\<rparr>"

text \<open>
  The empty text, which a client sends to clear the address book of an account, is stored as its address: a
  mailbox without a password keeps a CardDAV source, of an empty address, where an account without an address
  has none.\<close>

theorem cleared_url_is_stored:
  assumes "as_str (jget creds ''provider'') \<notin> {Some ''google'', Some ''microsoft''}" "\<not> has_password creds"
  shows "select_provider (ac_carddav_url (updated_columns (no_changes\<lparr>uq_carddav_url := Some []\<rparr>) c)) creds = Some (''cardav'', Some [])"
    and "select_provider None creds = None"
  using assms by (simp_all add: select_provider_def updated_columns_def no_changes_def or_option_def)

end
