(* ===== verification/Oauth.thy ===== *)
theory Oauth
  imports Mail_Accounts Calendar Auth
begin

text \<open>
  Signing in to a mail provider (backend/api/src/routes/oauth.rs): the start redirects the browser to the
  provider and remembers a verifier under the state that the provider will return; the callback exchanges
  the code for tokens, reads the profile, and reconnects or adds an account of the user who started.

  The OAuth library (authorization URL with its random state and verifier, exchange of a code) and the
  request of the profile are parameters.
\<close>

section \<open>Providers\<close>

definition provider_config :: "string \<Rightarrow> app_error + string \<times> string" where
  "provider_config provider =
     (if provider = ''google''
      then Inr (''https://accounts.google.com/o/oauth2/v2/auth'', ''https://oauth2.googleapis.com/token'')
      else if provider = ''microsoft''
      then Inr (''https://login.microsoftonline.com/common/oauth2/v2.0/authorize'',
                ''https://login.microsoftonline.com/common/oauth2/v2.0/token'')
      else Inl NotFound)"

definition provider_scopes :: "string \<Rightarrow> string list" where
  "provider_scopes provider =
     (if provider = ''google''
      then [''https://mail.google.com/'', ''https://www.googleapis.com/auth/calendar.events'',
            ''https://www.googleapis.com/auth/calendar.calendarlist.readonly'', ''https://www.googleapis.com/auth/contacts'',
            ''email'', ''profile'']
      else if provider = ''microsoft''
      then [''https://graph.microsoft.com/Mail.ReadWrite'', ''https://graph.microsoft.com/Mail.Send'',
            ''https://graph.microsoft.com/Contacts.ReadWrite'', ''https://graph.microsoft.com/User.Read'', ''offline_access'', ''email'']
      else [])"

definition mail_provider_kind :: "string \<Rightarrow> app_error + string" where
  "mail_provider_kind provider =
     (if provider = ''google'' then Inr ''gmail_imap'' else if provider = ''microsoft'' then Inr ''imap'' else Inl NotFound)"

record oauth_client =
  oc_id :: string
  oc_secret :: string
  oc_auth_url :: string
  oc_token_url :: string
  oc_redirect :: string

record oauth_profile =
  op_email :: string
  op_name :: "string option"

record token_grant =
  tg_access :: string
  tg_refresh :: "string option"
  tg_expires_in :: "int option"
  tg_scopes :: "string list option"

record 's oauth_env =
  ox_accounts :: "'s account_env"
  ox_auth :: auth_env
  ox_now :: int
  ox_url :: "string \<Rightarrow> string option"
  ox_authorize :: "oauth_client \<Rightarrow> string list \<Rightarrow> (string \<times> string) list \<Rightarrow> 's \<Rightarrow> (string \<times> string \<times> string) \<times> 's"
  ox_exchange :: "oauth_client \<Rightarrow> string \<Rightarrow> string \<Rightarrow> 's \<Rightarrow> (string + token_grant) \<times> 's"
  ox_profile :: "string \<Rightarrow> string \<Rightarrow> 's \<Rightarrow> ((string \<times> string) + json) \<times> 's"
  ox_user :: "nat \<Rightarrow> string"

abbreviation ox_tokens :: "'s oauth_env \<Rightarrow> 's token_env" where
  "ox_tokens X \<equiv> ke_tokens (xe_contacts (ox_accounts X))"

definition app_base_url :: "'s oauth_env \<Rightarrow> string" where
  "app_base_url X = (case tk_var (ox_tokens X) ''APP_BASE_URL'' of None \<Rightarrow> ''http://localhost:8080'' | Some u \<Rightarrow> u)"

text \<open>\<open>ox_url\<close> is the error of a text that is no URL.\<close>

definition build_client :: "'s oauth_env \<Rightarrow> string \<Rightarrow> app_error + oauth_client" where
  "build_client X provider =
     (case provider_config provider of
        Inl e \<Rightarrow> Inl e
      | Inr (auth_url, token_url) \<Rightarrow>
          (let prefix = (if provider = ''google'' then ''GOOGLE'' else ''MICROSOFT'');
               var = (\<lambda>name. case tk_var (ox_tokens X) (prefix @ name) of None \<Rightarrow> ''placeholder'' | Some v \<Rightarrow> v);
               redirect = app_base_url X @ ''/api/auth/oauth/'' @ provider @ ''/callback''
           in case ox_url X redirect of
                Some e \<Rightarrow> Inl (Internal e)
              | None \<Rightarrow> Inr \<lparr>oc_id = var ''_OAUTH_CLIENT_ID'', oc_secret = var ''_OAUTH_CLIENT_SECRET'', oc_auth_url = auth_url,
                  oc_token_url = token_url, oc_redirect = redirect\<rparr>))"

section \<open>State\<close>

text \<open>A user's accounts and calendars, which share one database.\<close>

record 's oauth_user =
  ou_app :: "'s accounts_app"
  ou_calendars :: calendar_tables
  ou_default :: "nat option"

record pending_sign_in =
  pg_provider :: string
  pg_verifier :: string
  pg_user :: nat
  pg_account :: "string option"
  pg_calendar :: bool
  pg_contacts :: "bool option"

record 's oauth_app =
  oa_pending :: "string \<Rightarrow> pending_sign_in option"
  oa_users :: "nat \<Rightarrow> 's oauth_user"

definition put_user :: "nat \<Rightarrow> 's oauth_user \<Rightarrow> 's oauth_app \<Rightarrow> 's oauth_app" where
  "put_user u x app = app\<lparr>oa_users := (oa_users app)(u := x)\<rparr>"

definition on_app :: "('s accounts_app \<Rightarrow> 's accounts_app) \<Rightarrow> 's oauth_user \<Rightarrow> 's oauth_user" where
  "on_app f x = x\<lparr>ou_app := f (ou_app x)\<rparr>"

definition shared_calendars :: "'s oauth_user \<Rightarrow> 's calendar_app" where
  "shared_calendars x =
     \<lparr>cx_db = ou_calendars x, cx_mail = db_of (ou_app x),
      cx_smtp = map (\<lambda>c. \<lparr>sc_account = ac_account c, sc_host = ac_smtp_host c, sc_port = ac_smtp_port c, sc_auth_scheme = ac_smtp_auth c,
        sc_cert = ac_smtp_cert c, sc_created = ac_created c\<rparr>) (xa_columns (ou_app x)),
      cx_default = ou_default x, cx_net = xa_net (ou_app x)\<rparr>"

definition put_calendars :: "'s calendar_app \<Rightarrow> 's oauth_user \<Rightarrow> 's oauth_user" where
  "put_calendars c x = (on_app (\<lambda>app. app\<lparr>xa_api := (xa_api app)\<lparr>ap_db := cx_mail c\<rparr>, xa_net := cx_net c\<rparr>) x)
     \<lparr>ou_calendars := cx_db c, ou_default := cx_default c\<rparr>"

section \<open>Start\<close>

record start_query =
  sq_token :: string
  sq_account :: "string option"
  sq_calendar :: "bool option"
  sq_contacts :: "bool option"

text \<open>The account to reconnect was connected to the same provider.\<close>

definition check_reconnect :: "'s oauth_env \<Rightarrow> string \<Rightarrow> string option \<Rightarrow> 's accounts_app \<Rightarrow> app_error option" where
  "check_reconnect X provider account app =
     (case account of
        None \<Rightarrow> None
      | Some acct \<Rightarrow>
          (case account_of (db_of app) acct of
             None \<Rightarrow> Some NotFound
           | Some a \<Rightarrow>
               (case tk_decrypt (ox_tokens X) (a_credentials a) of
                  None \<Rightarrow> Some (Internal ''decryption failed'')
                | Some bytes \<Rightarrow>
                    (case tk_parse (ox_tokens X) bytes of
                       None \<Rightarrow> Some (Internal ''invalid JSON'')
                     | Some creds \<Rightarrow>
                         if as_str (jget creds ''provider'') \<noteq> Some provider
                         then Some (Unprocessable ''OAuth provider does not match the account'') else None))))"

definition oauth_start :: "'s oauth_env \<Rightarrow> string \<Rightarrow> start_query \<Rightarrow> 's oauth_app \<Rightarrow> (app_error + string) \<times> 's oauth_app" where
  "oauth_start X provider q app =
     (case validate_token (ox_auth X) (ox_now X) (sq_token q) of
        None \<Rightarrow> (Inl Unauthorized, app)
      | Some u \<Rightarrow>
          (case check_reconnect X provider (sq_account q) (ou_app (oa_users app u)) of
             Some e \<Rightarrow> (Inl e, app)
           | None \<Rightarrow>
               (case build_client X provider of
                  Inl e \<Rightarrow> (Inl e, app)
                | Inr client \<Rightarrow>
                    (let extra = (if provider = ''google'' then [(''access_type'', ''offline''), (''prompt'', ''consent'')] else []) in
                     case ox_authorize X client (provider_scopes provider) extra (xa_net (ou_app (oa_users app u))) of
                       ((url, st, verifier), s) \<Rightarrow>
                         (Inr url, (put_user u (on_app (\<lambda>a. a\<lparr>xa_net := s\<rparr>) (oa_users app u)) app)
                            \<lparr>oa_pending := (oa_pending app)(st \<mapsto> \<lparr>pg_provider = provider, pg_verifier = verifier, pg_user = u,
                               pg_account = sq_account q, pg_calendar = default_to False (sq_calendar q), pg_contacts = sq_contacts q\<rparr>)\<rparr>)))))"

section \<open>Profile\<close>

definition nonblank :: "string option \<Rightarrow> string option" where
  "nonblank x = (case x of None \<Rightarrow> None | Some v \<Rightarrow> if trim v = [] then None else Some v)"

definition profile_of :: "string \<Rightarrow> json \<Rightarrow> app_error + oauth_profile" where
  "profile_of provider body =
     (let email = (if provider = ''google'' then as_str (jget body ''email'')
                   else or_option (as_str (jget body ''mail'')) (as_str (jget body ''userPrincipalName'')));
          name = as_str (jget body (if provider = ''google'' then ''name'' else ''displayName''))
      in case nonblank email of
           None \<Rightarrow> Inl (BadGateway ''oauth profile did not include an email'')
         | Some e \<Rightarrow> Inr \<lparr>op_email = trim e, op_name = map_option trim (nonblank name)\<rparr>)"

text \<open>A failed request names its stage: request, response or parse.\<close>

definition fetch_oauth_profile :: "'s oauth_env \<Rightarrow> string \<Rightarrow> string \<Rightarrow> 's \<Rightarrow> (app_error + oauth_profile) \<times> 's" where
  "fetch_oauth_profile X provider bearer s =
     (if provider = ''google'' \<or> provider = ''microsoft''
      then case ox_profile X (if provider = ''google'' then ''https://openidconnect.googleapis.com/v1/userinfo''
               else ''https://graph.microsoft.com/v1.0/me'') bearer s of
          (Inl (stage, e), s') \<Rightarrow> (Inl (BadGateway (''oauth profile '' @ stage @ '': '' @ e)), s')
        | (Inr body, s') \<Rightarrow> (profile_of provider body, s')
      else (Inl NotFound, s))"

definition oauth_display_name :: "string \<Rightarrow> oauth_profile \<Rightarrow> string \<Rightarrow> string" where
  "oauth_display_name provider p email =
     (case op_name p of Some n \<Rightarrow> n | None \<Rightarrow> if provider = ''google'' then ''Gmail'' else ''Outlook'') @ '' ('' @ email @ '')''"

section \<open>Callback\<close>

definition grant_credentials :: "'s oauth_env \<Rightarrow> string \<Rightarrow> token_grant \<Rightarrow> string \<Rightarrow> json" where
  "grant_credentials X provider g email =
     JObj [(''imap_username'', JStr email), (''smtp_username'', JStr email), (''oauth_access_token'', JStr (tg_access g)),
       (''oauth_refresh_token'', JStr (or_empty (tg_refresh g))),
       (''oauth_expires_at'', JNum (wrap_i64 (ox_now X + default_to 3600 (tg_expires_in g)))),
       (''oauth_granted_scopes'', JArr (map JStr (default_to (provider_scopes provider) (tg_scopes g)))),
       (''oauth_reauth_required'', JBool False), (''provider'', JStr provider)]"

definition oauth_hosts :: "string \<Rightarrow> string \<times> string" where
  "oauth_hosts provider =
     (if provider = ''google'' then (''imap.gmail.com'', ''smtp.gmail.com'') else (''outlook.office365.com'', ''smtp.office365.com''))"

text \<open>The account that an earlier version left waiting for its sign-in: the one that was created last.\<close>

fun latest :: "(account_row \<times> account_columns) list \<Rightarrow> account_row option" where
  "latest [] = None"
| "latest ((a, c) # rest) = (if \<forall>(b, d) \<in> set rest. map of_char (ac_created d) \<le> (map of_char (ac_created c) :: nat list)
     then Some a else latest rest)"

definition waiting_account :: "string \<Rightarrow> 's accounts_app \<Rightarrow> string option" where
  "waiting_account kind app =
     map_option a_id (latest (concat (map (\<lambda>a. if a_email a = ''oauth@pending'' \<and> a_provider_kind a = kind
       then (case columns_of app (a_id a) of None \<Rightarrow> [] | Some c \<Rightarrow> [(a, c)]) else []) (account_rows app))))"

definition connected_row :: "string \<Rightarrow> string \<Rightarrow> string \<Rightarrow> account_row \<Rightarrow> account_row" where
  "connected_row provider kind enc a = a\<lparr>a_imap_host := fst (oauth_hosts provider), a_imap_port := 993, a_auth_scheme := ''xoauth2'',
     a_credentials := enc, a_provider_kind := kind, a_sync_mode := ''idle''\<rparr>"

definition connected_columns :: "string \<Rightarrow> account_columns \<Rightarrow> account_columns" where
  "connected_columns provider c = c\<lparr>ac_smtp_host := snd (oauth_hosts provider), ac_smtp_port := 587, ac_smtp_auth := ''xoauth2''\<rparr>"

definition change_account ::
  "string \<Rightarrow> (account_row \<Rightarrow> account_row) \<Rightarrow> (account_columns \<Rightarrow> account_columns) \<Rightarrow> 's accounts_app \<Rightarrow> 's accounts_app"
where
  "change_account acct f g app =
     set_accounts (map (\<lambda>r. if a_id r = acct then f r else r) (account_rows app))
       (map (\<lambda>c. if ac_account c = acct then g c else c) (xa_columns app)) app"

text \<open>A new row takes the defaults of the table for what the statement does not name.\<close>

definition oauth_row :: "string \<Rightarrow> string \<Rightarrow> string \<Rightarrow> string \<Rightarrow> string \<Rightarrow> string \<Rightarrow> account_row" where
  "oauth_row acct provider kind name email enc =
     \<lparr>a_id = acct, a_display_name = name, a_email = email, a_provider_kind = kind, a_body_sync_mode = ''lazy'', a_sync_mode = ''idle'',
      a_sync_interval = 300, a_credentials = enc, a_imap_host = fst (oauth_hosts provider), a_imap_port = 993,
      a_auth_scheme = ''xoauth2'', a_tls_cert = None\<rparr>"

definition oauth_columns :: "'s account_env \<Rightarrow> string \<Rightarrow> string \<Rightarrow> account_columns" where
  "oauth_columns E acct provider =
     \<lparr>ac_account = acct, ac_smtp_host = snd (oauth_hosts provider), ac_smtp_port = 587, ac_smtp_auth = ''xoauth2'', ac_smtp_cert = None,
      ac_carddav_url = None, ac_caldav_url = None, ac_accept_invalid_tls = False, ac_pgp_key = None, ac_sign_by_default = False,
      ac_color = None, ac_sort = 0, ac_created = xe_time E\<rparr>"

definition same_address :: "string \<Rightarrow> string \<Rightarrow> bool" where
  "same_address a b = (to_lower a = to_lower b)"

text \<open>The row that the sign-in goes to: the account that is reconnected, the one that waits, or a new one \<open>fresh\<close>.\<close>

definition connect_account ::
  "'s account_env \<Rightarrow> string \<Rightarrow> string \<Rightarrow> string \<Rightarrow> string \<Rightarrow> string option \<Rightarrow> string \<Rightarrow> string \<Rightarrow> 's accounts_app \<Rightarrow> (app_error + string) \<times> 's accounts_app"
where
  "connect_account E provider kind name email reconnect enc fresh app =
     (case reconnect of
        Some acct \<Rightarrow>
          (case account_of (db_of app) acct of
             None \<Rightarrow> (Inl NotFound, app)
           | Some a \<Rightarrow>
               if \<not> same_address (a_email a) email then (Inl (Unprocessable ''OAuth identity does not match the account email''), app)
               else (Inr acct, change_account acct (connected_row provider kind enc) (connected_columns provider) app))
      | None \<Rightarrow>
          (case waiting_account kind app of
             Some acct \<Rightarrow>
               (Inr acct, change_account acct
                  (\<lambda>a. (connected_row provider kind enc a)\<lparr>a_display_name := name, a_email := email, a_body_sync_mode := ''lazy''\<rparr>)
                  (connected_columns provider) app)
           | None \<Rightarrow> (Inr fresh, set_accounts (account_rows app @ [oauth_row fresh provider kind name email enc])
                        (xa_columns app @ [oauth_columns E fresh provider]) app)))"

text \<open>
  Everything after the exchange, for the user \<open>x\<close>: \<open>fresh\<close> and \<open>src\<close> are the ids of a new account and of a new contact source.
\<close>

definition finish_sign_in ::
  "('m, 's) calendar_env \<Rightarrow> 's oauth_env \<Rightarrow> string \<Rightarrow> pending_sign_in \<Rightarrow> token_grant \<Rightarrow> oauth_profile \<Rightarrow> string \<Rightarrow> string
     \<Rightarrow> 's oauth_user \<Rightarrow> (app_error + string) \<times> 's oauth_user"
where
  "finish_sign_in C X provider p g profile fresh src x =
     (let email = to_lower (op_email profile) in
      case tk_encrypt (ox_tokens X) (tk_render (ox_tokens X) (grant_credentials X provider g email)) of
        None \<Rightarrow> (Inl (Internal ''encryption failed''), x)
      | Some enc \<Rightarrow>
          (case mail_provider_kind provider of
             Inl e \<Rightarrow> (Inl e, x)
           | Inr kind \<Rightarrow>
               (let name = oauth_display_name provider profile email in
                case connect_account (ox_accounts X) provider kind name email (pg_account p) enc fresh (ou_app x) of
                  (Inl e, _) \<Rightarrow> (Inl e, x)
                | (Inr acct, app1) \<Rightarrow>
                    (let x1 = x\<lparr>ou_app := app1\<rparr>;
                         x2 = (if provider = ''google'' then put_calendars (snd (connect_google_account C acct name enc (shared_calendars x1))) x1 else x1);
                         x3 = on_app (reconcile_and_start_contacts (ox_accounts X) src acct (Some (default_to True (pg_contacts p)))) x2
                     in (Inr acct, on_app (start_sync (ox_user X (pg_user p)) acct) x3)))))"

definition destination :: "string \<Rightarrow> pending_sign_in \<Rightarrow> string \<Rightarrow> string" where
  "destination provider p acct =
     (if pg_contacts p \<noteq> None then ''/mail/accounts?connected='' @ acct @ ''&contacts=complete''
      else if pg_calendar p \<and> provider = ''google'' then ''/mail/calendar?connected='' @ acct
      else ''/mail/accounts?connected='' @ acct)"

definition oauth_callback ::
  "('m, 's) calendar_env \<Rightarrow> 's oauth_env \<Rightarrow> string \<Rightarrow> string \<Rightarrow> string \<Rightarrow> string \<Rightarrow> string
     \<Rightarrow> 's oauth_app \<Rightarrow> (app_error + string) \<times> 's oauth_app"
where
  "oauth_callback C X provider code st fresh src app =
     (case oa_pending app st of
        None \<Rightarrow> (Inl Unauthorized, app)
      | Some p \<Rightarrow>
          (let app0 = app\<lparr>oa_pending := (oa_pending app)(st := None)\<rparr>; u = pg_user p; x = oa_users app u in
           if pg_provider p \<noteq> provider then (Inl Unauthorized, app0)
           else case build_client X provider of
             Inl e \<Rightarrow> (Inl e, app0)
           | Inr client \<Rightarrow>
               (case ox_exchange X client code (pg_verifier p) (xa_net (ou_app x)) of
                  (Inl e, s) \<Rightarrow> (Inl (BadGateway (''oauth token exchange: '' @ e)), put_user u (on_app (\<lambda>a. a\<lparr>xa_net := s\<rparr>) x) app0)
                | (Inr g, s) \<Rightarrow>
                    (case fetch_oauth_profile X provider (tg_access g) s of
                       (Inl e, s') \<Rightarrow> (Inl e, put_user u (on_app (\<lambda>a. a\<lparr>xa_net := s'\<rparr>) x) app0)
                     | (Inr profile, s') \<Rightarrow>
                         (let x1 = on_app (\<lambda>a. a\<lparr>xa_net := s'\<rparr>) x in
                          case valid_email ''oauth email'' (op_email profile) of
                            Inl e \<Rightarrow> (Inl e, put_user u x1 app0)
                          | Inr _ \<Rightarrow>
                              (case finish_sign_in C X provider p g profile fresh src x1 of
                                 (Inl e, x2) \<Rightarrow> (Inl e, put_user u x2 app0)
                               | (Inr acct, x2) \<Rightarrow> (Inr (app_base_url X @ destination provider p acct), put_user u x2 app0)))))))"

end
