(* ===== verification/Oauth_Properties.thy ===== *)
theory Oauth_Properties
  imports Oauth Account_Properties
begin

text \<open>Properties of signing in to a mail provider.\<close>

section \<open>What a renewed token changes\<close>

definition renewed :: "string \<Rightarrow> mail_db \<Rightarrow> mail_db \<Rightarrow> bool" where
  "renewed acct m m' = (\<exists>enc. m' = m\<lparr>accounts := map (\<lambda>a. if a_id a = acct then a\<lparr>a_credentials := enc a\<rparr> else a) (accounts m)\<rparr>)"

lemma renewed_refl: "renewed acct m m"
proof -
  have "m = m\<lparr>accounts := map (\<lambda>a. if a_id a = acct then a\<lparr>a_credentials := a_credentials a\<rparr> else a) (accounts m)\<rparr>"
    by (simp add: if_cancel map_idI)
  then show ?thesis unfolding renewed_def by (rule exI [of _ a_credentials])
qed

lemma renewed_save: "save_credentials T acct creds m = Some m' \<Longrightarrow> renewed acct m m'"
  by (auto simp: save_credentials_def renewed_def split: option.splits)

lemma renewed_fresh: "fresh_access_token T acct m s = (res, m', s') \<Longrightarrow> renewed acct m m'"
  by (auto simp: fresh_access_token_def demand_sign_in_def mark_reauth_required_def Let_def renewed_refl dest: renewed_save
      split: sum.splits option.splits if_splits prod.splits)

lemma renewed_google: "google_access_token T acct creds app = (res, app') \<Longrightarrow> renewed acct (cx_mail app) (cx_mail app')"
  by (auto simp: google_access_token_def renewed_refl dest: renewed_fresh split: if_splits prod.splits)

lemma calls_keep_mail [simp]:
  "cx_mail (snd (net_call f app)) = cx_mail app" "cx_mail (snd (db_call g app)) = cx_mail app" "cx_mail (cx_map h app) = cx_mail app"
  by (simp_all add: net_call_def db_call_def cx_map_def split: prod.split)

lemma call_results:
  "net_call f app = (res, app') \<Longrightarrow> cx_mail app' = cx_mail app" "db_call g app = (res', app') \<Longrightarrow> cx_mail app' = cx_mail app"
  by (metis calls_keep_mail(1) snd_conv) (metis calls_keep_mail(2) snd_conv)

lemma collection_keeps_mail: "sync_collection E acct auth lax from till d app = (res, app') \<Longrightarrow> cx_mail app' = cx_mail app"
  by (auto simp: sync_collection_def Let_def dest!: call_results split: prod.splits sum.splits if_splits)

lemma collections_keep_mail: "sync_collections E acct auth lax from till ds app = (res, app') \<Longrightarrow> cx_mail app' = cx_mail app"
  by (induction ds arbitrary: app) (auto dest!: collection_keeps_mail split: prod.splits sum.splits)

lemma caldav_keeps_mail: "sync_caldav E a creds override from till app = (res, app') \<Longrightarrow> cx_mail app' = cx_mail app"
  by (auto simp: sync_caldav_def Let_def dest!: collections_keep_mail call_results split: prod.splits sum.splits)

lemma fetched_keeps_mail: "cx_mail (snd (store_fetched E acct p)) = cx_mail (snd p)"
  by (cases p) (auto simp: store_fetched_def split: sum.splits)

lemma renewed_inner: "renewed acct (cx_mail app) (cx_mail (snd (sync_calendar_account_inner E acct override app)))"
proof -
  have caldav: "cx_mail (snd (sync_caldav E a creds override lo hi app)) = cx_mail app" for a creds lo hi
    by (metis caldav_keeps_mail prod.collapse)
  have answered: "cx_mail (snd (case p of (res, app') \<Rightarrow> (g res, app'))) = cx_mail (snd p)"
    for p :: "(string + sync_result) \<times> 'a calendar_app" and g :: "string + sync_result \<Rightarrow> string + sync_result list"
    by (simp split: prod.split)
  show ?thesis
    unfolding sync_calendar_account_inner_def Let_def
    by (auto simp: renewed_refl caldav fetched_keeps_mail answered dest!: renewed_google split: option.split sum.split prod.split)
qed

lemma renewed_connect: "renewed acct (cx_mail app) (cx_mail (snd (connect_google_account C acct name enc app)))"
proof -
  have "renewed acct (cx_mail app) (cx_mail (snd (sync_calendar_account C acct app)))" for app
    using renewed_inner [of acct "cx_map (update_account acct (\<lambda>a. a\<lparr>ka_status := ''syncing'', ka_error := None\<rparr>)) app" C None]
    by (auto simp: sync_calendar_account_def sync_calendar_account_with_tls_override_def split: prod.split sum.split)
  then have "renewed acct (cx_mail (cx_map h app)) (cx_mail (snd (sync_calendar_account C acct (cx_map h app))))" for h by blast
  then show ?thesis by (simp add: connect_google_account_def Let_def)
qed

section \<open>What a sign-in changes\<close>

text \<open>The accounts of \<open>x'\<close> are those of \<open>x\<close>, apart from the row of \<open>acct\<close>.\<close>

definition others_same :: "string \<Rightarrow> 's oauth_user \<Rightarrow> 's oauth_user \<Rightarrow> bool" where
  "others_same acct x x' = (filter (\<lambda>a. a_id a \<noteq> acct) (account_rows (ou_app x')) = filter (\<lambda>a. a_id a \<noteq> acct) (account_rows (ou_app x)))"

definition addresses :: "'s oauth_user \<Rightarrow> (string \<times> string) list" where
  "addresses x = map (\<lambda>a. (a_id a, a_email a)) (account_rows (ou_app x))"

lemma changed_rows:
  assumes "\<And>a. a_id (f a) = a_id a"
  shows "filter (\<lambda>a. a_id a \<noteq> acct) (map (\<lambda>a. if a_id a = acct then f a else a) rows) = filter (\<lambda>a. a_id a \<noteq> acct) rows"
  using assms by (induction rows) auto

lemma changed_addresses:
  assumes "\<And>a. a_id (f a) = a_id a" "\<And>a. a_email (f a) = a_email a"
  shows "map (\<lambda>a. (a_id a, a_email a)) (map (\<lambda>a. if a_id a = acct then f a else a) rows) = map (\<lambda>a. (a_id a, a_email a)) rows"
  using assms by (induction rows) auto

lemma renewed_rows:
  assumes "renewed acct (db_of (ou_app x)) (cx_mail c)"
  shows "others_same acct x (put_calendars c x) \<and> addresses (put_calendars c x) = addresses x"
proof -
  obtain enc where "account_rows (ou_app (put_calendars c x))
      = map (\<lambda>a. if a_id a = acct then a\<lparr>a_credentials := enc a\<rparr> else a) (account_rows (ou_app x))"
  proof -
    obtain enc where "cx_mail c = (db_of (ou_app x))\<lparr>accounts :=
        map (\<lambda>a. if a_id a = acct then a\<lparr>a_credentials := enc a\<rparr> else a) (accounts (db_of (ou_app x)))\<rparr>"
      using assms unfolding renewed_def by blast
    then show thesis by (intro that [of enc]) (simp add: put_calendars_def on_app_def account_rows_def db_of_def)
  qed
  then show ?thesis by (simp add: others_same_def addresses_def changed_rows changed_addresses del: map_map)
qed

lemma on_app_rows: "account_rows (ou_app (on_app f x)) = account_rows (f (ou_app x))"
  by (simp add: on_app_def)

lemma connected_rows:
  assumes "connect_account E provider kind name email reconnect enc fresh app = (Inr acct, app')"
  shows "filter (\<lambda>a. a_id a \<noteq> acct) (account_rows app') = filter (\<lambda>a. a_id a \<noteq> acct) (account_rows app)
    \<and> (\<forall>acct0. reconnect = Some acct0 \<longrightarrow> acct = acct0
         \<and> map (\<lambda>a. (a_id a, a_email a)) (account_rows app') = map (\<lambda>a. (a_id a, a_email a)) (account_rows app)
         \<and> (\<exists>a. account_of (db_of app) acct = Some a \<and> same_address (a_email a) email))"
  using assms
  by (auto simp: connect_account_def change_account_def connected_row_def oauth_row_def changed_rows changed_addresses
      simp del: map_map split: option.splits if_splits)

lemma to_lower_idem [simp]: "to_lower (to_lower s) = to_lower s"
proof -
  have "ascii_lower (ascii_lower c) = ascii_lower c" for c by (simp add: ascii_lower_def Let_def)
  then show ?thesis by (simp add: to_lower_def)
qed

lemma shared_mail: "cx_mail (shared_calendars x) = db_of (ou_app x)"
  by (simp add: shared_calendars_def)

lemma finished_rows:
  assumes "finish_sign_in C X provider p g profile fresh src x = (r, x')"
  shows "(r = Inl e \<longrightarrow> x' = x)
    \<and> (r = Inr acct \<longrightarrow> others_same acct x x'
         \<and> (\<forall>acct0. pg_account p = Some acct0 \<longrightarrow> acct = acct0 \<and> addresses x' = addresses x
              \<and> (\<exists>a. account_of (db_of (ou_app x)) acct = Some a \<and> same_address (a_email a) (op_email profile))))"
proof (cases r)
  case (Inl e')
  then show ?thesis using assms by (auto simp: finish_sign_in_def Let_def split: option.splits sum.splits prod.splits)
next
  case (Inr acct')
  then obtain kind name enc app1 where run: "connect_account (ox_accounts X) provider kind name (to_lower (op_email profile)) (pg_account p) enc fresh
        (ou_app x) = (Inr acct', app1)"
    and x': "x' = on_app (start_sync (ox_user X (pg_user p)) acct') (on_app (reconcile_and_start_contacts (ox_accounts X) src acct'
        (Some (default_to True (pg_contacts p)))) (if provider = ''google''
          then put_calendars (snd (connect_google_account C acct' name enc (shared_calendars (x\<lparr>ou_app := app1\<rparr>)))) (x\<lparr>ou_app := app1\<rparr>)
          else x\<lparr>ou_app := app1\<rparr>))"
    using assms by (auto simp: finish_sign_in_def Let_def split: option.splits sum.splits prod.splits)
  have "renewed acct' (db_of (ou_app (x\<lparr>ou_app := app1\<rparr>)))
      (cx_mail (snd (connect_google_account C acct' name enc (shared_calendars (x\<lparr>ou_app := app1\<rparr>)))))"
    using renewed_connect [of acct' "shared_calendars (x\<lparr>ou_app := app1\<rparr>)" C name enc] by (simp only: shared_mail)
  then have "others_same acct' (x\<lparr>ou_app := app1\<rparr>) x' \<and> addresses x' = addresses (x\<lparr>ou_app := app1\<rparr>)"
    using renewed_rows [of acct' "x\<lparr>ou_app := app1\<rparr>"] unfolding x' others_same_def addresses_def
    by (cases "provider = ''google''") (simp_all add: on_app_rows reconcile_contacts_facts)
  then show ?thesis using connected_rows [OF run] Inr
    by (auto simp: others_same_def addresses_def same_address_def)
qed



lemma callback_cases:
  assumes "oauth_callback C X provider code st fresh src app = (r, app')" "oa_pending app st = Some p"
  defines "x \<equiv> oa_users app (pg_user p)" and "app0 \<equiv> app\<lparr>oa_pending := (oa_pending app)(st := None)\<rparr>"
  obtains (refused) e s where "r = Inl e" "app' = app0 \<or> app' = put_user (pg_user p) (on_app (\<lambda>a. a\<lparr>xa_net := s\<rparr>) x) app0"
  | (finished) g bearer profile s s' q x' where
      "fetch_oauth_profile X provider bearer s = (Inr profile, s')"
      "finish_sign_in C X provider p g profile fresh src (on_app (\<lambda>a. a\<lparr>xa_net := s'\<rparr>) x) = (q, x')"
      "app' = put_user (pg_user p) x' app0" "case q of Inl e \<Rightarrow> r = Inl e | Inr acct \<Rightarrow> r = Inr (app_base_url X @ destination provider p acct)"
proof (cases "\<exists>e. r = Inl e \<and> (app' = app0 \<or> (\<exists>s. app' = put_user (pg_user p) (on_app (\<lambda>a. a\<lparr>xa_net := s\<rparr>) x) app0))")
  case True
  then show ?thesis using refused by blast
next
  case False
  then obtain client g s profile s' where run: "pg_provider p = provider" "build_client X provider = Inr client"
      "ox_exchange X client code (pg_verifier p) (xa_net (ou_app x)) = (Inr g, s)"
      "fetch_oauth_profile X provider (tg_access g) s = (Inr profile, s')" "valid_email ''oauth email'' (op_email profile) = Inr ()"
    using assms(1,2) unfolding x_def app0_def oauth_callback_def Let_def by (auto split: if_splits sum.splits prod.splits)
  obtain q x' where "finish_sign_in C X provider p g profile fresh src (on_app (\<lambda>a. a\<lparr>xa_net := s'\<rparr>) x) = (q, x')" by force
  then show ?thesis using finished [OF run(4)] assms(1,2) run unfolding x_def app0_def
    by (auto simp: oauth_callback_def Let_def split: sum.splits)
qed


section \<open>Every route that changes accounts\<close>

text \<open>
  The routes of accounts of a user, and the two of a sign-in.  Each runs to its end before the next begins; an
  id that the database draws is new.\<close>

inductive account_event :: "('m, 's) calendar_env \<Rightarrow> 's oauth_env \<Rightarrow> 's oauth_app \<Rightarrow> 's oauth_app \<Rightarrow> bool" for C X where
  route: "account_step (ox_accounts X) (ou_app (oa_users app u)) a \<Longrightarrow>
    account_event C X app (put_user u (on_app (\<lambda>_. a) (oa_users app u)) app)"
| starts: "account_event C X app (snd (oauth_start X provider q app))"
| returns: "(\<And>u. fresh \<notin> account_ids (ou_app (oa_users app u))) \<Longrightarrow>
    account_event C X app (snd (oauth_callback C X provider code st fresh src app))"

definition all_accounts_ok :: "'s oauth_app \<Rightarrow> bool" where
  "all_accounts_ok app = (\<forall>u. accounts_ok (ou_app (oa_users app u)))"

lemma accounts_ok_credentials:
  assumes "accounts_ok app" "renewed acct (db_of app) m"
  shows "accounts_ok (app\<lparr>xa_api := (xa_api app)\<lparr>ap_db := m\<rparr>, xa_net := s\<rparr>)"
proof -
  obtain enc where "m = (db_of app)\<lparr>accounts := map (\<lambda>a. if a_id a = acct then a\<lparr>a_credentials := enc a\<rparr> else a) (account_rows app)\<rparr>"
    using assms(2) by (auto simp: renewed_def account_rows_def)
  then have "app\<lparr>xa_api := (xa_api app)\<lparr>ap_db := m\<rparr>, xa_net := s\<rparr> =
      (set_accounts (map (\<lambda>a. if a_id a = acct then a\<lparr>a_credentials := enc a\<rparr> else a) (account_rows app)) (xa_columns app) app)\<lparr>xa_net := s\<rparr>"
    by (simp add: set_accounts_def db_of_def)
  moreover have "map a_id (map (\<lambda>a. if a_id a = acct then a\<lparr>a_credentials := enc a\<rparr> else a) rows) = map a_id rows" for rows
    by simp
  ultimately show ?thesis using accounts_ok_change [OF assms(1)] by (simp add: accounts_ok_manager del: map_map)
qed

lemma accounts_ok_changed:
  assumes "accounts_ok app" "\<And>a. a_id (f a) = a_id a" "\<And>c. ac_account (g c) = ac_account c"
  shows "accounts_ok (change_account acct f g app)"
  unfolding change_account_def using assms by (intro accounts_ok_change) (simp_all add: comp_def if_distrib cong: if_cong)

lemma accounts_ok_connect:
  assumes "connect_account E provider kind name email reconnect enc fresh app = (Inr acct, app')" "accounts_ok app"
    "fresh \<notin> account_ids app"
  shows "accounts_ok app'"
  using assms
  by (auto simp: connect_account_def connected_row_def connected_columns_def oauth_row_def oauth_columns_def
      intro!: accounts_ok_changed accounts_ok_add split: option.splits if_splits)

lemma on_app_on_app: "ou_app (on_app f x) = f (ou_app x)"
  by (simp add: on_app_def)

lemma finished_parts:
  assumes "finish_sign_in C X provider p g profile fresh src x = (Inr acct, x')"
  obtains kind name enc app1 app2 where
    "mail_provider_kind provider = Inr kind"
    "connect_account (ox_accounts X) provider kind name (to_lower (op_email profile)) (pg_account p) enc fresh (ou_app x) = (Inr acct, app1)"
    "\<exists>m s. renewed acct (db_of app1) m \<and> (app2 = app1 \<or> app2 = app1\<lparr>xa_api := (xa_api app1)\<lparr>ap_db := m\<rparr>, xa_net := s\<rparr>)"
    "ou_app x' = start_sync (ox_user X (pg_user p)) acct (reconcile_and_start_contacts (ox_accounts X) src acct
        (Some (default_to True (pg_contacts p))) app2)"
proof -
  obtain kind name enc app1 where run: "mail_provider_kind provider = Inr kind"
    "connect_account (ox_accounts X) provider kind name (to_lower (op_email profile)) (pg_account p) enc fresh (ou_app x) = (Inr acct, app1)"
    and x': "x' = on_app (start_sync (ox_user X (pg_user p)) acct) (on_app (reconcile_and_start_contacts (ox_accounts X) src acct
        (Some (default_to True (pg_contacts p)))) (if provider = ''google''
          then put_calendars (snd (connect_google_account C acct name enc (shared_calendars (x\<lparr>ou_app := app1\<rparr>)))) (x\<lparr>ou_app := app1\<rparr>)
          else x\<lparr>ou_app := app1\<rparr>))"
    using assms by (auto simp: finish_sign_in_def Let_def split: option.splits sum.splits prod.splits)
  let ?c = "snd (connect_google_account C acct name enc (shared_calendars (x\<lparr>ou_app := app1\<rparr>)))"
  have renew: "renewed acct (db_of app1) (cx_mail ?c)"
    using renewed_connect [of acct "shared_calendars (x\<lparr>ou_app := app1\<rparr>)" C name enc] by (simp add: shared_mail)
  have put: "ou_app (put_calendars ?c (x\<lparr>ou_app := app1\<rparr>)) = app1\<lparr>xa_api := (xa_api app1)\<lparr>ap_db := cx_mail ?c\<rparr>, xa_net := cx_net ?c\<rparr>"
    by (simp add: put_calendars_def on_app_def)
  from renew have app2: "\<exists>m s. renewed acct (db_of app1) m \<and> (app2 = app1 \<or> app2 = app1\<lparr>xa_api := (xa_api app1)\<lparr>ap_db := m\<rparr>, xa_net := s\<rparr>)"
    if "app2 = (if provider = ''google'' then ou_app (put_calendars ?c (x\<lparr>ou_app := app1\<rparr>)) else app1)" for app2
  proof (intro exI conjI)
    show "renewed acct (db_of app1) (cx_mail ?c)" by fact
    show "app2 = app1 \<or> app2 = app1\<lparr>xa_api := (xa_api app1)\<lparr>ap_db := cx_mail ?c\<rparr>, xa_net := cx_net ?c\<rparr>"
      using that put by (cases "provider = ''google''") simp_all
  qed
  show thesis
    by (rule that [OF run app2 [OF refl]]) (simp add: x' on_app_on_app split: if_split)
qed

lemma accounts_ok_finish:
  assumes "finish_sign_in C X provider p g profile fresh src x = (r, x')" "accounts_ok (ou_app x)" "fresh \<notin> account_ids (ou_app x)"
  shows "accounts_ok (ou_app x')"
proof (cases r)
  case (Inl e)
  then show ?thesis using finished_rows [OF assms(1)] assms(2) by blast
next
  case (Inr acct)
  from assms(1) [unfolded Inr] show ?thesis
  proof (rule finished_parts)
    fix kind name enc app1 app2
    assume run: "connect_account (ox_accounts X) provider kind name (to_lower (op_email profile)) (pg_account p) enc fresh (ou_app x) = (Inr acct, app1)"
      and app2: "\<exists>m s. renewed acct (db_of app1) m \<and> (app2 = app1 \<or> app2 = app1\<lparr>xa_api := (xa_api app1)\<lparr>ap_db := m\<rparr>, xa_net := s\<rparr>)"
      and x': "ou_app x' = start_sync (ox_user X (pg_user p)) acct (reconcile_and_start_contacts (ox_accounts X) src acct
        (Some (default_to True (pg_contacts p))) app2)"
    have ok1: "accounts_ok app1" by (rule accounts_ok_connect [OF run assms(2,3)])
    obtain m s where m: "renewed acct (db_of app1) m"
      "app2 = app1 \<or> app2 = app1\<lparr>xa_api := (xa_api app1)\<lparr>ap_db := m\<rparr>, xa_net := s\<rparr>" using app2 by blast
    from m(2) have "accounts_ok app2"
      by (elim disjE) (simp_all only: ok1 accounts_ok_credentials [OF ok1 m(1)])
    then show ?thesis unfolding x' start_sync_def accounts_ok_manager(1) by (rule accounts_ok_reconcile)
  qed
qed

lemma started_accounts:
  "\<exists>u s waits. snd (oauth_start X provider q app) = app
    \<or> snd (oauth_start X provider q app) = (put_user u (on_app (\<lambda>a. a\<lparr>xa_net := s\<rparr>) (oa_users app u)) app)\<lparr>oa_pending := waits\<rparr>"
  (is "\<exists>u s waits. _ \<or> ?app = _ u s waits")
proof (cases "?app = app")
  case False
  then obtain u client where go: "validate_token (ox_auth X) (ox_now X) (sq_token q) = Some u"
      "check_reconnect X provider (sq_account q) (ou_app (oa_users app u)) = None" "build_client X provider = Inr client"
    by (auto simp: oauth_start_def split: option.splits sum.splits)
  obtain url st verifier s where auth: "ox_authorize X client (provider_scopes provider)
      (if provider = ''google'' then [(''access_type'', ''offline''), (''prompt'', ''consent'')] else [])
      (xa_net (ou_app (oa_users app u))) = ((url, st, verifier), s)" by (metis prod.collapse)
  show ?thesis using go auth unfolding oauth_start_def Let_def
    by (simp only: option.case sum.case prod.case snd_conv) blast
qed blast

lemma all_accounts_put: "all_accounts_ok app \<Longrightarrow> accounts_ok (ou_app x) \<Longrightarrow> all_accounts_ok ((put_user u x app)\<lparr>oa_pending := waits\<rparr>)"
  "all_accounts_ok app \<Longrightarrow> accounts_ok (ou_app x) \<Longrightarrow> all_accounts_ok (put_user u x (app\<lparr>oa_pending := waits\<rparr>))"
  "all_accounts_ok app \<Longrightarrow> accounts_ok (ou_app x) \<Longrightarrow> all_accounts_ok (put_user u x app)"
  "all_accounts_ok app \<Longrightarrow> all_accounts_ok (app\<lparr>oa_pending := waits\<rparr>)"
  by (simp_all add: all_accounts_ok_def put_user_def)

lemma accounts_ok_callback:
  assumes "oauth_callback C X provider code st fresh src app = (r, app')" "all_accounts_ok app"
    "\<And>u. fresh \<notin> account_ids (ou_app (oa_users app u))"
  shows "all_accounts_ok app'"
proof (cases "oa_pending app st")
  case None
  then show ?thesis using assms(1,2) by (simp add: oauth_callback_def)
next
  case (Some p)
  have mine: "accounts_ok (ou_app (on_app (\<lambda>a. a\<lparr>xa_net := s\<rparr>) (oa_users app u)))" for s u
    using assms(2) by (simp add: all_accounts_ok_def on_app_on_app accounts_ok_manager)
  from assms(1) Some show ?thesis
  proof (cases rule: callback_cases)
    case (refused e s)
    then show ?thesis using assms(2) mine all_accounts_put by metis
  next
    case (finished g bearer profile s s' q x')
    have "fresh \<notin> account_ids (ou_app (on_app (\<lambda>a. a\<lparr>xa_net := s'\<rparr>) (oa_users app (pg_user p))))"
      using assms(3) by (simp add: on_app_on_app account_state)
    from accounts_ok_finish [OF finished(2) mine this] show ?thesis
      using finished(3) assms(2) all_accounts_put by metis
  qed
qed

lemma account_event_ok: "account_event C X app app' \<Longrightarrow> all_accounts_ok app \<Longrightarrow> all_accounts_ok app'"
proof (induction rule: account_event.induct)
  case (route app u a)
  then have "accounts_ok a" using account_step_ok [OF route(1)] by (simp add: all_accounts_ok_def)
  then have "accounts_ok (ou_app (on_app (\<lambda>_. a) (oa_users app u)))" by (simp add: on_app_on_app)
  then show ?case by (rule all_accounts_put(3) [OF route(2)])
next
  case (starts app provider q)
  have mine: "accounts_ok (ou_app (on_app (\<lambda>a. a\<lparr>xa_net := s\<rparr>) (oa_users app u)))" for s u
    using starts by (simp add: all_accounts_ok_def on_app_on_app accounts_ok_manager)
  show ?case using started_accounts [of X provider q app] starts mine all_accounts_put(1) by metis
next
  case (returns fresh app provider code st src)
  then show ?case using accounts_ok_callback by (metis prod.collapse)
qed

text \<open>C22: However the routes of accounts and the sign-ins of OAuth follow each other, each running to its end
  before the next begins, there stays one row of each kind for an account of a user, and every folder, message,
  queued flag, remote id, alias and contact source references an account that exists.\<close>

theorem accounts_stay_consistent:
  assumes "(account_event C X)\<^sup>*\<^sup>* app app'" "\<forall>u. accounts_ok (ou_app (oa_users app u))"
  shows "accounts_ok (ou_app (oa_users app' u))"
proof -
  have "all_accounts_ok app'"
    using assms by (induction rule: rtranclp_induct) (auto simp: all_accounts_ok_def [symmetric] intro: account_event_ok)
  then show ?thesis by (simp add: all_accounts_ok_def)
qed

section \<open>Connections\<close>

definition oauth_connection :: "string \<Rightarrow> string \<times> int \<times> string" where
  "oauth_connection provider = (fst (oauth_hosts provider), 993, ''xoauth2'')"

lemma connected_connection:
  assumes "connect_account E provider kind name email reconnect enc fresh app = (Inr acct, app')" "a \<in> set (account_rows app')"
  shows "a \<in> set (account_rows app) \<or> connection a = oauth_connection provider"
  using assms
  by (auto simp: connect_account_def change_account_def connected_row_def oauth_row_def connection_def oauth_connection_def
      split: option.splits if_splits)

lemma renewed_connection:
  assumes "renewed acct (db_of app) m" "a \<in> set (accounts m)"
  shows "\<exists>b \<in> set (account_rows app). a_id b = a_id a \<and> connection b = connection a"
  using assms by (fastforce simp: renewed_def account_rows_def connection_def)

lemma finished_connection:
  assumes "finish_sign_in C X provider p g profile fresh src x = (Inr acct, x')" "a \<in> set (account_rows (ou_app x'))"
  shows "(\<exists>b \<in> set (account_rows (ou_app x)). a_id b = a_id a \<and> connection b = connection a)
    \<or> (provider \<in> {''google'', ''microsoft''} \<and> connection a = oauth_connection provider)"
  using assms(1)
proof (rule finished_parts)
  fix kind name enc app1 app2
  assume kind: "mail_provider_kind provider = Inr kind"
    and run: "connect_account (ox_accounts X) provider kind name (to_lower (op_email profile)) (pg_account p) enc fresh (ou_app x) = (Inr acct, app1)"
    and app2: "\<exists>m s. renewed acct (db_of app1) m \<and> (app2 = app1 \<or> app2 = app1\<lparr>xa_api := (xa_api app1)\<lparr>ap_db := m\<rparr>, xa_net := s\<rparr>)"
    and x': "ou_app x' = start_sync (ox_user X (pg_user p)) acct (reconcile_and_start_contacts (ox_accounts X) src acct
        (Some (default_to True (pg_contacts p))) app2)"
  have "a \<in> set (account_rows app2)" using assms(2) by (simp add: x' reconcile_contacts_facts)
  moreover obtain m s where m: "renewed acct (db_of app1) m"
      "app2 = app1 \<or> app2 = app1\<lparr>xa_api := (xa_api app1)\<lparr>ap_db := m\<rparr>, xa_net := s\<rparr>" using app2 by blast
  ultimately have "a \<in> set (account_rows app1) \<or> a \<in> set (accounts m)"
    by (elim disjE) (simp_all add: account_rows_def db_of_def)
  then obtain b where b: "b \<in> set (account_rows app1)" "a_id b = a_id a" "connection b = connection a"
    using renewed_connection [OF m(1)] by blast
  have "provider \<in> {''google'', ''microsoft''}" using kind by (auto simp: mail_provider_kind_def split: if_splits)
  then show ?thesis using connected_connection [OF run b(1)] b(2,3) by metis
qed

text \<open>C23: Whatever route or sign-in changes the accounts of a user, a host, port or scheme that was not stored
  for an account before is one for which a session was opened with the stored credentials, with two
  exceptions, which are stored untested: an account that exists is changed to the scheme of OAuth, and a
  sign-in stores the servers of its provider.\<close>

theorem stored_connections_were_tested:
  assumes "account_event C X app app'" "\<forall>v. distinct (map a_id (account_rows (ou_app (oa_users app v))))"
    and "a \<in> set (account_rows (ou_app (oa_users app' u)))"
    and "\<not> (\<exists>b \<in> set (account_rows (ou_app (oa_users app u))). a_id b = a_id a \<and> connection b = connection a)"
  shows "connection_tested (ox_accounts X) (xa_net (ou_app (oa_users app u))) a
    \<or> (a_auth_scheme a = ''xoauth2'' \<and> a_id a \<in> account_ids (ou_app (oa_users app u)))
    \<or> (\<exists>provider \<in> {''google'', ''microsoft''}. connection a = oauth_connection provider)"
  using assms(1)
proof cases
  case (route v a')
  then have "u = v" "a \<in> set (account_rows a')" using assms(3,4) by (auto simp: put_user_def on_app_on_app split: if_splits)
  then show ?thesis using route_connections [OF route(2)] assms(2,4) by blast
next
  case (starts provider q)
  have "account_rows (ou_app (oa_users app' u)) = account_rows (ou_app (oa_users app u))"
    using started_accounts [of X provider q app] unfolding starts by (auto simp: put_user_def on_app_on_app)
  then show ?thesis using assms(3,4) by auto
next
  case (returns fresh provider code st src)
  then obtain r where run: "oauth_callback C X provider code st fresh src app = (r, app')" by (metis prod.collapse)
  show ?thesis
  proof (cases "oa_pending app st")
    case None
    then show ?thesis using run assms(3,4) by (auto simp: oauth_callback_def)
  next
    case (Some p)
    from run Some show ?thesis
    proof (cases rule: callback_cases)
      case (refused e s)
      then show ?thesis using assms(3,4) by (auto simp: put_user_def on_app_on_app split: if_splits)
    next
      case (finished g bearer profile s s' q x')
      then have u: "u = pg_user p" "a \<in> set (account_rows (ou_app x'))"
        using assms(3,4) by (auto simp: put_user_def split: if_splits)
      show ?thesis
      proof (cases q)
        case (Inl e)
        then show ?thesis using finished_rows [OF finished(2)] u assms(4) by (auto simp: on_app_on_app)
      next
        case (Inr acct)
        show ?thesis using finished_connection [OF finished(2) [unfolded Inr] u(2)] assms(4) u(1) by (auto simp: on_app_on_app)
      qed
    qed
  qed
qed

section \<open>Concrete values\<close>

definition oauth_auth :: auth_env where
  "oauth_auth = \<lparr>ae_registration = True, ae_hash_password = Some, ae_verify = (\<lambda>h p. Some (h = p)), ae_hash_token = (\<lambda>t. t),
     ae_sign = (\<lambda>u i e. Some ''jwt''), ae_decode = (\<lambda>b. if b = ''jwt'' then Some (1, 0, 900) else None)\<rparr>"

definition oauth_server :: "unit oauth_env" where
  "oauth_server = \<lparr>ox_accounts = test_env, ox_auth = oauth_auth, ox_now = 0, ox_url = (\<lambda>_. None),
     ox_authorize = (\<lambda>c scopes extra s. ((oc_auth_url c, ''st'', ''verifier''), s)),
     ox_exchange = (\<lambda>c code verifier s. (if verifier = ''verifier''
       then Inr \<lparr>tg_access = ''at'', tg_refresh = Some ''rt'', tg_expires_in = Some 3600, tg_scopes = None\<rparr> else Inl ''invalid_grant'', s)),
     ox_profile = (\<lambda>url bearer s. (Inr (JObj [(''mail'', JStr ''Me@X.org'')]), s)), ox_user = show_nat\<rparr>"

definition user_of :: "unit accounts_app \<Rightarrow> unit oauth_user" where
  "user_of app = \<lparr>ou_app = app, ou_calendars = \<lparr>kd_accounts = [], kd_calendars = [], kd_events = [], kd_invites = [], kd_next = 1\<rparr>,
     ou_default = None\<rparr>"

definition waiting_for :: "string option \<Rightarrow> unit oauth_app" where
  "waiting_for acct = \<lparr>oa_pending = [''st'' \<mapsto> \<lparr>pg_provider = ''microsoft'', pg_verifier = ''verifier'', pg_user = 1, pg_account = acct,
       pg_calendar = False, pg_contacts = None\<rparr>],
     oa_users = (\<lambda>_. user_of one_account)\<rparr>"

definition signed_in :: "(unit, unit) calendar_env \<Rightarrow> string option \<Rightarrow> (app_error + string) \<times> unit oauth_app" where
  "signed_in C acct = oauth_callback C oauth_server ''microsoft'' ''code'' ''st'' ''b'' ''src'' (waiting_for acct)"


lemma added_by_sign_in:
  "addresses (oa_users (snd (signed_in C None)) 1) = [(''a'', ''me@x.org''), (''b'', ''me@x.org'')]"
  by code_simp


text \<open>A sign-in does not look for an account with the address: the user has two of them afterwards, which
  the route that adds accounts refuses.\<close>

theorem sign_in_adds_second_account_of_address:
  "map snd (addresses (oa_users (snd (signed_in C None)) 1)) = [''me@x.org'', ''me@x.org'']
    \<and> fst (add_account test_env ''u'' ''b'' ''src'' (request_for ''Me@X.org'') one_account)
        = Inl (Conflict ''an account with this email address already exists'')"
proof
  show "map snd (addresses (oa_users (snd (signed_in C None)) 1)) = [''me@x.org'', ''me@x.org'']"
    unfolding added_by_sign_in by simp
  show "fst (add_account test_env ''u'' ''b'' ''src'' (request_for ''Me@X.org'') one_account)
        = Inl (Conflict ''an account with this email address already exists'')"
    by code_simp
qed

lemma one_account_ok: "accounts_ok one_account"
  by (rule account_step_ok [OF sample_steps(1) no_accounts_ok])

theorem accounts_stay_consistent_witness:
  "\<forall>C :: (unit, unit) calendar_env. accounts_ok (ou_app (oa_users (snd (signed_in C None)) 1))
    \<and> map fst (addresses (oa_users (snd (signed_in C None)) 1)) = [''a'', ''b'']"
proof
  fix C :: "(unit, unit) calendar_env"
  have "''b'' \<notin> account_ids one_account" using arg_cong [OF sample_ids(1), of set] by (simp add: account_ids_def)
  then have "account_event C oauth_server (waiting_for None) (snd (signed_in C None))"
    unfolding signed_in_def by (intro account_event.returns) (simp add: waiting_for_def user_of_def)
  moreover have "\<forall>u. accounts_ok (ou_app (oa_users (waiting_for None) u))"
    by (simp add: waiting_for_def user_of_def one_account_ok)
  ultimately have "accounts_ok (ou_app (oa_users (snd (signed_in C None)) 1))"
    by (rule accounts_stay_consistent [OF r_into_rtranclp])
  then show "accounts_ok (ou_app (oa_users (snd (signed_in C None)) 1))
      \<and> map fst (addresses (oa_users (snd (signed_in C None)) 1)) = [''a'', ''b'']"
    unfolding added_by_sign_in by simp
qed

theorem stored_connections_were_tested_witness:
  "\<exists>a. account_rows one_account = [a] \<and> connection a = (''imap.x.org'', 993, ''plain'') \<and> connection_tested test_env () a"
proof -
  let ?app = "(waiting_for None)\<lparr>oa_users := (\<lambda>_. user_of no_accounts)\<rparr>"
  let ?app' = "put_user 1 (on_app (\<lambda>_. one_account) (oa_users ?app 1)) ?app"
  have one: "map connection (account_rows one_account) = [(''imap.x.org'', 993, ''plain'')]" by code_simp
  then obtain a where a: "account_rows one_account = [a]" by (cases "account_rows one_account") auto
  have none: "account_rows no_accounts = []" by (simp add: account_state no_accounts_def empty_db_def)
  have "account_step (ox_accounts oauth_server) (ou_app (oa_users ?app 1)) one_account"
    using sample_steps(1) by (simp add: oauth_server_def user_of_def)
  note event = account_event.route [of oauth_server ?app 1 one_account, OF this]
  have "connection_tested (ox_accounts oauth_server) (xa_net (ou_app (oa_users ?app 1))) a
    \<or> (a_auth_scheme a = ''xoauth2'' \<and> a_id a \<in> account_ids (ou_app (oa_users ?app 1)))
    \<or> (\<exists>provider \<in> {''google'', ''microsoft''}. connection a = oauth_connection provider)"
    by (rule stored_connections_were_tested [OF event])
       (simp_all add: a none user_of_def put_user_def on_app_on_app)
  then show ?thesis
    using a one by (auto simp: oauth_connection_def connection_def user_of_def oauth_server_def)
qed

end
