(* ===== verification/Spec2Isabelle.thy ===== *)
theory Spec2Isabelle
  imports Mail_Properties Server_Properties Sync_Properties Api_Properties Contact_Properties Card_Properties Provider_Properties
    Calendar_Properties Send_Properties Service_Properties Account_Properties Oauth_Properties
begin

text \<open>
  A model of the backend of Mailquill, and the theorems that make it correct.

  \<^bold>\<open>The program.\<close>  Mailquill is a web mail client.  Its backend (backend/) keeps one SQLite database per
  user and one sync task per mail account.  A task (mail-sync/src/sync.rs) talks to a mail provider
  (IMAP, Gmail over REST, Gmail over IMAP, Microsoft Graph) through the trait \<open>MailProvider\<close>
  (mail-sync/src/provider/mod.rs): it pushes queued flag changes, discovers folders, reconciles stored
  flags, and imports new messages in chunks of uids.  Every imported message is threaded, parsed,
  analysed for phishing, indexed and announced; calendar parts become invitations.  The API handlers
  read and write the same database and wake the task through the manager (mail-sync/src/manager.rs).
  Contacts have sources of their own (contact-sync/), synchronised by tasks over CardDAV, Google People
  or Microsoft Graph; a change of a contact goes to the provider first.  Calendars (calendar-sync/ and
  api/src/routes/calendar.rs) are pulled from CalDAV, Graph, Google or Open-Xchange servers, and events
  written there.  A message is assembled and sent by smtp/ and api/src/routes/send.rs.

  \<^bold>\<open>The theories, bottom up.\<close>
  \<^item> \<open>Prelude\<close>: Rust strings and \<open>u32\<close> arithmetic, generic lemmas and the collections of hints.
  \<^item> \<open>Store\<close>: the mail tables as lists of records, SQL primitives with the counter triggers of migrations
    0038 and 0039, the key and counter invariants.
  \<^item> What happens to one message: \<open>Threading\<close> (threading.rs), \<open>Mime\<close> (mime.rs, core/src/header.rs,
    api/src/imap_utf7.rs), \<open>Phishing\<close> (phishing/src/lib.rs), \<open>Ical\<close> (calendar-sync/src/lib.rs and
    \<open>process_calendar_parts\<close>), \<open>Bodies\<close> (body, attachment and full-text rows, core/src/blob.rs).
  \<^item> The mail servers: \<open>Provider\<close> (the trait as the record \<open>backend\<close> of calls on database and server, the
    locale \<open>mail_backend\<close> of what a call keeps), \<open>Rest\<close> (provider/http.rs, util.rs), \<open>IdMap\<close>
    (provider/idmap.rs), and the four backends \<open>Outlook\<close>, \<open>Gmail\<close>, \<open>Imap\<close> (session.rs, provider/imap.rs) and
    \<open>Gmail_Imap\<close>, each of which interprets \<open>mail_backend\<close>.  \<open>connect_provider\<close> in \<open>Gmail_Imap\<close> chooses between
    them by kind.  \<open>Gmail_Facts\<close>: the resumable discovery of a label.
  \<^item> \<open>Flags\<close>: the outbox of flag changes and the chunked reconciliation of sync.rs; the locale
    \<open>flag_server\<close> states a server whose answers form a view of the folder, and the refinement of the
    view; \<open>Outlook_Flags\<close> interprets it on the Graph provider over a server that answers a request
    always the same way.
  \<^item> \<open>Manager\<close> (manager.rs): tasks with bounded queues, statuses, reachable managers.
  \<^item> \<open>Sync\<close> (sync.rs): import of a chunk, the chunk walk, a folder's cycle, discovery, an account's
    cycle, the queued commands.  \<open>Sync_Invariants\<close> proves, in the locale \<open>sync_cycle\<close>, that every step is
    \<open>safe\<close>; \<open>Sync_Facts\<close> and \<open>Sync_Cycle\<close> prove what a cycle computes, the latter in \<open>ranged_cycle\<close>, whose
    provider returns only uids of the requested range.
  \<^item> The API: \<open>Handlers\<close> and \<open>Thread_Actions\<close> (messages.rs, threads.rs, drafts.rs), \<open>Tokens\<close>
    (oauth_tokens.rs), \<open>Reading\<close> (\<open>get_message\<close>), \<open>Mail_Lists\<close> (db/src/queries.rs, mailbox.rs), \<open>Search\<close>
    (search.rs), \<open>Sieve\<close> (rules.rs, sieve.rs), \<open>Auth\<close> (auth.rs, jwt.rs, crypto.rs), \<open>Validate\<close> (validate.rs,
    pii.rs).  \<open>System\<close> is the step relation of a user's backend: the handlers and the tasks of the user's
    accounts work on one database and one registry, in any order, each step running to its end.
    What a finer interleaving loses is shown there by \<open>unread_counter_race\<close>.
  \<^item> Contacts: \<open>Vcard\<close> and \<open>Dav\<close> (contact-sync/src/lib.rs), \<open>Contact_Providers\<close> (adapters.rs, the adapters as
    the record \<open>adapter\<close>), \<open>Contact_Store\<close> (repository.rs), \<open>Contact_Sync\<close> (orchestration.rs),
    \<open>Contact_Accounts\<close> (contact_reconcile.rs and the source routes), \<open>Contact_Routes\<close> (contacts.rs).
    \<open>Contact_Facts\<close> shows, in the locale \<open>contact_provider\<close>, that a full run leaves exactly what the pages
    describe; \<open>Contact_Invariants\<close> that the tables keep their keys; \<open>Contact_Isolation\<close> that a run writes only
    the rows of its source.
  \<^item> Calendars: \<open>Calendar_Client\<close> (calendar-sync/src/lib.rs: discovery, the requests of the four kinds of
    server, recurrence rules), \<open>Calendar\<close> (routes/calendar.rs and caldav_error.rs on the tables of migration
    0028).  \<open>Calendar_Facts\<close> shows that a synchronisation only adds events and that every operation keeps
    the keys of the tables; \<open>Calendar_System\<close> is the step relation of the routes.
  \<^item> Sending: \<open>Smtp\<close> (smtp/src/lib.rs: the message and the transport), \<open>Send\<close> (routes/send.rs: acceptance, the
    background delivery over SMTP or a provider, the copy to Sent, the draft).
  \<^item> \<open>Remote_Content\<close> (routes/remote_content.rs): the proxy for remote images, with Rust's reader of IP addresses.
  \<^item> \<open>Mail_Accounts\<close> (routes/accounts.rs): adding an account after a test of its connection, changing and removing
    it, aliases, the order of accounts; \<open>Account_Facts\<close> shows that every route keeps the keys and references.
  \<^item> \<open>Oauth\<close> (routes/oauth.rs): signing in with a provider: the pending states, the callback, the account that
    it adds or reconnects.  \<open>Oauth_Properties\<close> joins its steps with the routes of accounts.
  \<^item> \<open>Samples\<close>: concrete values.  \<open>Mail_Properties\<close>, \<open>Server_Properties\<close>, \<open>Sync_Properties\<close>,
    \<open>Api_Properties\<close>, \<open>Contact_Properties\<close>, \<open>Card_Properties\<close>, \<open>Provider_Properties\<close>,
    \<open>Calendar_Properties\<close>, \<open>Send_Properties\<close>, \<open>Service_Properties\<close>, \<open>Account_Properties\<close>,
    \<open>Oauth_Properties\<close>: the properties, each with its instance on concrete values.

  \<^bold>\<open>Conventions.\<close>  State is passed explicitly: a provider call maps (database, server) to a result and a
  new pair, a step of the task maps \<open>sync_state\<close> to \<open>sync_state\<close>, a contact operation maps the contact
  tables.  Errors are left injections (\<open>provider_error\<close>, \<open>sync_error\<close>, \<open>contact_error\<close>, \<open>app_error\<close>).  A \<open>u32\<close>
  is a \<open>nat\<close> whose range, saturation and truncation are written out; an \<open>i64\<close> column is an \<open>int\<close>.  Times that
  the database compares as text are text.  Random ids are counters.  Statements on the database succeed
  unless they violate a constraint.  Requests that the code sends concurrently within one call are sent in
  the order of their arguments; where the order of their answers matters, as in the Gmail backend, that
  order is a parameter.  A time limit that ends a delivery is a parameter: the state it had reached.  The limit
  of thirty minutes that \<open>timed_sync\<close> sets on a cycle is not reached in the model.  A route or a cycle is one
  step also where the code awaits between its statements; the statements of a property hold for such steps.

  \<^bold>\<open>Loops.\<close>  The loops over uids are total functions: a chunk walk terminates by the distance to the
  highest uid, which is a \<open>u32\<close>; a pass over a Gmail label makes at most twenty requests, the constant of the
  source.  Loops that follow the pages of a contact provider or of a folder of Graph contacts have no bound
  in the source: they are \<open>partial_function (option)\<close>, \<open>None\<close> being a run that does not return, and that a run
  returns when the listing ends is proved.  No fuel is used.

  \<^bold>\<open>Parameters.\<close>  Third-party code is a parameter of the definitions that use it: the MIME, header, HTML,
  XML, vCard and JSON parsers, base64, SHA-256, Argon2, AES-GCM, JWT signatures, zstd, the HTTP client
  \<open>reqwest\<close>, the IMAP client \<open>async_imap\<close>, the message builder and SMTP client \<open>lettre\<close>, the clock and its
  date formats, the blob store, Levenshtein distance, IDNA, the FTS5 index.

  \<^bold>\<open>Limits of the step relations.\<close>  \<open>load_provider_config\<close> uses a refreshed token but does not write it back;
  \<open>Tokens\<close> models the writing.  The events of a contact source in \<open>Contact_Isolation\<close> are its synchronisations
  and the routes of the source; changes of single contacts are in \<open>Contact_Routes\<close> and are not among them.  The
  steps of \<open>Calendar_System\<close> are the routes of calendars and the updates of events by the import of mail, not
  the copy by dav.rs.  The IMAP host of an account that sends over SMTP is taken to be present.  The address that
  a resolver gives in \<open>public_url\<close> is that of some state of the resolver.

  \<^bold>\<open>Not modelled.\<close>  Opening the IMAP connection and IDLE, the select loop of a task and the loop of the
  phishing feed (scheduling of the modelled steps over sockets and timers); the discovery, key, settings,
  push and health routes; the route that copies contacts and calendars of a mail account's DAV server (dav.rs); the start-up of the process, migrations and pools (plumbing of libraries); the web client (TypeScript).
\<close>

end
